(* ===== verification/Prelude.thy ===== *)
theory Prelude
  imports Complex_Main
begin

text \<open>
  Shared vocabulary of the development.

  \<^item> The JavaScript values the program manipulates: strings (\<open>trim\<close>, \<open>toLowerCase\<close>,
    \<open>split\<close>, \<open>Buffer.byteLength\<close>), parsed JSON values, and \<open>Map\<close> objects with their
    insertion order.
  \<^item> The error monad: a computation that may throw is a value of a sum type, \<open>Inl\<close> being the
    thrown error.
  \<^item> The eviction loop that the bounded caches of the program share, and the locale that states
    what a victim selection has to promise for that loop to bound the cache.

  A JavaScript string is a sequence of UTF-16 code units; here it is a \<^typ>\<open>string\<close>, that is a
  sequence of code units below 256. Every algorithm in scope inspects individual code units and
  compares them with ASCII constants. A JavaScript number that is part of a JSON value is a
  finite double, hence a rational.
\<close>

named_theorems js_defs \<open>definitions of the JavaScript string and Map operations\<close>
named_theorems res_simps \<open>equations for computations that may throw\<close>

section \<open>Computations that may throw\<close>

fun rbind :: "'e + 'a \<Rightarrow> ('a \<Rightarrow> 'e + 'b) \<Rightarrow> 'e + 'b" where
  "rbind (Inl e) f = Inl e"
| "rbind (Inr x) f = f x"

definition rensure :: "bool \<Rightarrow> 'e \<Rightarrow> 'e + unit" where
  "rensure b e = (if b then Inr () else Inl e)"

fun rtraverse :: "('a \<Rightarrow> 'e + 'b) \<Rightarrow> 'a list \<Rightarrow> 'e + 'b list" where
  "rtraverse f [] = Inr []"
| "rtraverse f (x # xs) = rbind (f x) (\<lambda>y. rbind (rtraverse f xs) (\<lambda>ys. Inr (y # ys)))"

definition is_ok :: "'e + 'a \<Rightarrow> bool" where
  "is_ok r = (case r of Inl _ \<Rightarrow> False | Inr _ \<Rightarrow> True)"

lemma rbind_Inr_iff [res_simps]: "rbind m f = Inr y \<longleftrightarrow> (\<exists>x. m = Inr x \<and> f x = Inr y)"
  by (cases m) auto

lemma rbind_Inl_iff [res_simps]:
  "rbind m f = Inl e \<longleftrightarrow> m = Inl e \<or> (\<exists>x. m = Inr x \<and> f x = Inl e)"
  by (cases m) auto

lemma rensure_simps [simp, res_simps]:
  "rensure True e = Inr ()" "rensure False e = Inl e"
  "rensure b e = Inr u \<longleftrightarrow> b" "rensure b e = Inl e' \<longleftrightarrow> \<not> b \<and> e' = e"
  by (auto simp: rensure_def)

lemma rbind_rensure [res_simps]: "rbind (rensure b e) f = (if b then f () else Inl e)"
  by (simp add: rensure_def)

lemma is_ok_simps [simp]: "is_ok (Inl e) = False" "is_ok (Inr x) = True"
  by (simp_all add: is_ok_def)

lemma is_ok_iff: "is_ok r \<longleftrightarrow> (\<exists>x. r = Inr x)"
  by (cases r) auto

lemma not_is_ok_iff: "\<not> is_ok r \<longleftrightarrow> (\<exists>e. r = Inl e)"
  by (cases r) auto

lemma is_ok_rbind: "is_ok (rbind m f) \<longleftrightarrow> (\<exists>x. m = Inr x \<and> is_ok (f x))"
  by (cases m) auto

lemma rbind_cong [fundef_cong]:
  "m = m' \<Longrightarrow> (\<And>x. m' = Inr x \<Longrightarrow> f x = f' x) \<Longrightarrow> rbind m f = rbind m' f'"
  by (cases m') auto

lemma rtraverse_length: "rtraverse f xs = Inr ys \<Longrightarrow> length ys = length xs"
  by (induction xs arbitrary: ys) (auto simp: res_simps)

lemma rtraverse_Inr_iff:
  "rtraverse f xs = Inr ys \<longleftrightarrow> list_all2 (\<lambda>x y. f x = Inr y) xs ys"
proof (induction xs arbitrary: ys)
  case (Cons x xs)
  then show ?case by (cases ys) (auto simp: res_simps)
qed auto

lemma rtraverse_cong [fundef_cong]:
  "xs = ys \<Longrightarrow> (\<And>x. x \<in> set ys \<Longrightarrow> f x = g x) \<Longrightarrow> rtraverse f xs = rtraverse g ys"
  by (induction ys arbitrary: xs) auto

section \<open>JavaScript strings\<close>

definition code_unit :: "char \<Rightarrow> nat" where
  "code_unit c = of_char c"

text \<open>White space removed by \<open>String.prototype.trim\<close>, restricted to code units below 256.\<close>

definition js_ws :: "char \<Rightarrow> bool" where
  "js_ws c \<longleftrightarrow> (let u = code_unit c in (9 \<le> u \<and> u \<le> 13) \<or> u = 32 \<or> u = 160)"

definition trim :: "string \<Rightarrow> string" where
  "trim s = rev (dropWhile js_ws (rev (dropWhile js_ws s)))"

definition lower_char :: "char \<Rightarrow> char" where
  "lower_char c =
     (let u = code_unit c
      in if (65 \<le> u \<and> u \<le> 90) \<or> (192 \<le> u \<and> u \<le> 222 \<and> u \<noteq> 215)
         then char_of (u + 32) else c)"

definition to_lower :: "string \<Rightarrow> string" where
  "to_lower s = map lower_char s"

definition starts_with :: "string \<Rightarrow> string \<Rightarrow> bool" where
  "starts_with p s \<longleftrightarrow> take (length p) s = p"

definition ends_with :: "string \<Rightarrow> string \<Rightarrow> bool" where
  "ends_with p s \<longleftrightarrow> length p \<le> length s \<and> drop (length s - length p) s = p"

fun str_includes :: "string \<Rightarrow> string \<Rightarrow> bool" where
  "str_includes p [] \<longleftrightarrow> p = []"
| "str_includes p (c # s) \<longleftrightarrow> starts_with p (c # s) \<or> str_includes p s"

definition non_blank :: "string \<Rightarrow> bool" where
  "non_blank s \<longleftrightarrow> trim s \<noteq> []"

text \<open>\<open>Buffer.byteLength(s, "utf8")\<close>.\<close>

definition byte_length :: "string \<Rightarrow> nat" where
  "byte_length s = sum_list (map (\<lambda>c. if code_unit c < 128 then 1 else 2) s)"

text \<open>\<open>s.split(c)\<close> for a separator of one code unit, and of two code units.\<close>

fun split_char :: "char \<Rightarrow> string \<Rightarrow> string list" where
  "split_char c [] = [[]]"
| "split_char c (x # s) =
     (if x = c then [] # split_char c s
      else (case split_char c s of [] \<Rightarrow> [[x]] | w # ws \<Rightarrow> (x # w) # ws))"

fun split2 :: "char \<Rightarrow> char \<Rightarrow> string \<Rightarrow> string list" where
  "split2 a b [] = [[]]"
| "split2 a b [x] = [[x]]"
| "split2 a b (x # y # s) =
     (if x = a \<and> y = b then [] # split2 a b s
      else (case split2 a b (y # s) of [] \<Rightarrow> [[x]] | w # ws \<Rightarrow> (x # w) # ws))"

fun join :: "string \<Rightarrow> string list \<Rightarrow> string" where
  "join sep [] = []"
| "join sep [w] = w"
| "join sep (w # ws) = w @ sep @ join sep ws"

definition is_digit :: "char \<Rightarrow> bool" where
  "is_digit c \<longleftrightarrow> 48 \<le> code_unit c \<and> code_unit c \<le> 57"

definition digit_val :: "char \<Rightarrow> nat" where
  "digit_val c = code_unit c - 48"

definition nat_of_digits :: "string \<Rightarrow> nat" where
  "nat_of_digits s = foldl (\<lambda>n c. 10 * n + digit_val c) 0 s"

fun digits_of_nat :: "nat \<Rightarrow> string" where
  "digits_of_nat n =
     (if n < 10 then [char_of (48 + n)] else digits_of_nat (n div 10) @ [char_of (48 + n mod 10)])"

declare digits_of_nat.simps [simp del]

lemmas js_string_defs [js_defs] =
  trim_def to_lower_def lower_char_def starts_with_def ends_with_def js_ws_def code_unit_def
  non_blank_def is_digit_def digit_val_def nat_of_digits_def byte_length_def

lemma starts_with_append [simp]: "starts_with p (p @ s)"
  by (simp add: starts_with_def)

lemma starts_with_iff: "starts_with p s \<longleftrightarrow> (\<exists>t. s = p @ t)"
  by (metis append_eq_conv_conj append_take_drop_id starts_with_def)

lemma ends_with_iff: "ends_with p s \<longleftrightarrow> (\<exists>t. s = t @ p)"
proof
  assume "ends_with p s"
  then show "\<exists>t. s = t @ p"
    unfolding ends_with_def by (metis append_take_drop_id)
qed (auto simp: ends_with_def)

lemma byte_length_append [simp]: "byte_length (s @ t) = byte_length s + byte_length t"
  by (simp add: byte_length_def)

lemma byte_length_Nil [simp]: "byte_length [] = 0"
  by (simp add: byte_length_def)

lemma length_le_byte_length: "length s \<le> byte_length s"
  by (induction s) (auto simp: byte_length_def)

lemma set_trim: "set (trim s) \<subseteq> set s"
  unfolding trim_def by (metis set_dropWhileD set_rev subsetI)

lemma trim_Nil [simp]: "trim [] = []"
  by (simp add: trim_def)

lemma non_blank_Nil [simp]: "\<not> non_blank []"
  by (simp add: non_blank_def)

lemma dropWhile_idem: "dropWhile P (dropWhile P xs) = dropWhile P xs"
  by (induction xs) auto

lemma dropWhile_hd: "s \<noteq> [] \<Longrightarrow> \<not> P (hd s) \<Longrightarrow> dropWhile P s = s"
  by (cases s) auto

lemma trim_id: "s \<noteq> [] \<Longrightarrow> \<not> js_ws (hd s) \<Longrightarrow> \<not> js_ws (last s) \<Longrightarrow> trim s = s"
  by (simp add: trim_def dropWhile_hd hd_rev)

lemma split_char_not_Nil [simp]: "split_char c s \<noteq> []"
  by (induction s) (auto split: list.split)

lemma split2_not_Nil [simp]: "split2 a b s \<noteq> []"
  by (induction a b s rule: split2.induct) (auto split: list.split)

lemma split_char_no_sep: "c \<notin> set s \<Longrightarrow> split_char c s = [s]"
  by (induction s) auto

lemma split_char_append: "c \<notin> set s \<Longrightarrow> split_char c (s @ c # t) = s # split_char c t"
  by (induction s) auto

lemma join_split_char: "join [c] (split_char c s) = s"
proof (induction s)
  case (Cons x s)
  then show ?case
    by (cases "split_char c s" rule: list.exhaust; cases "tl (split_char c s)") auto
qed simp

lemma digits_of_nat_not_Nil [simp]: "digits_of_nat n \<noteq> []"
  by (subst digits_of_nat.simps) simp

lemma code_unit_char_of: "n < 256 \<Longrightarrow> code_unit (char_of n) = n"
  by (simp add: code_unit_def)

lemma nat_of_digits_snoc: "nat_of_digits (s @ [c]) = 10 * nat_of_digits s + digit_val c"
  by (simp add: nat_of_digits_def)

lemma nat_of_digits_of_nat: "nat_of_digits (digits_of_nat n) = n"
proof (induction n rule: digits_of_nat.induct)
  case (1 n)
  show ?case
  proof (cases "n < 10")
    case True
    then show ?thesis
      by (subst digits_of_nat.simps)
        (simp add: nat_of_digits_def digit_val_def code_unit_char_of)
  next
    case False
    then show ?thesis
      using "1.IH" by (subst digits_of_nat.simps)
        (simp add: nat_of_digits_snoc digit_val_def code_unit_char_of)
  qed
qed

lemma digits_of_nat_digits: "c \<in> set (digits_of_nat n) \<Longrightarrow> is_digit c"
proof (induction n rule: digits_of_nat.induct)
  case (1 n)
  show ?case
  proof (cases "n < 10")
    case True
    with 1(2) show ?thesis
      by (subst (asm) digits_of_nat.simps) (auto simp: is_digit_def code_unit_char_of)
  next
    case False
    with 1 show ?thesis
      by (subst (asm) (2) digits_of_nat.simps) (auto simp: is_digit_def code_unit_char_of)
  qed
qed

section \<open>JSON values\<close>

datatype json =
    JNull
  | JBool bool
  | JNum rat
  | JStr string
  | JArr "json list"
  | JObj "(string \<times> json) list"

text \<open>
  A property read \<open>v["k"]\<close> gives \<open>undefined\<close> when the value has no such property; here
  \<^const>\<open>None\<close>. Arrays have no property with one of the names the code asks for.
\<close>

fun jprop :: "json \<Rightarrow> string \<Rightarrow> json option" where
  "jprop (JObj fs) k = map_of fs k"
| "jprop _ k = None"

fun as_string :: "json option \<Rightarrow> string option" where
  "as_string (Some (JStr s)) = Some s"
| "as_string _ = None"

fun as_number :: "json option \<Rightarrow> rat option" where
  "as_number (Some (JNum n)) = Some n"
| "as_number _ = None"

fun as_array :: "json option \<Rightarrow> json list option" where
  "as_array (Some (JArr xs)) = Some xs"
| "as_array _ = None"

lemma as_string_Some [simp]: "as_string v = Some s \<longleftrightarrow> v = Some (JStr s)"
  by (induction v rule: as_string.induct) auto

lemma as_number_Some [simp]: "as_number v = Some s \<longleftrightarrow> v = Some (JNum s)"
  by (induction v rule: as_number.induct) auto

lemma as_array_Some [simp]: "as_array v = Some s \<longleftrightarrow> v = Some (JArr s)"
  by (induction v rule: as_array.induct) auto

section \<open>JavaScript \<open>Map\<close> objects\<close>

text \<open>
  A \<open>Map\<close> iterates in insertion order; \<open>set\<close> on a present key keeps its position, a new key
  goes to the end; \<open>delete\<close> removes the key. The model is the list of entries in order.
\<close>

type_synonym ('k, 'v) js_map = "('k \<times> 'v) list"

definition jm_get :: "('k, 'v) js_map \<Rightarrow> 'k \<Rightarrow> 'v option" where
  "jm_get m k = map_of m k"

definition jm_delete :: "'k \<Rightarrow> ('k, 'v) js_map \<Rightarrow> ('k, 'v) js_map" where
  "jm_delete k m = filter (\<lambda>e. fst e \<noteq> k) m"

fun jm_set :: "'k \<Rightarrow> 'v \<Rightarrow> ('k, 'v) js_map \<Rightarrow> ('k, 'v) js_map" where
  "jm_set k v [] = [(k, v)]"
| "jm_set k v (e # m) = (if fst e = k then (k, v) # m else e # jm_set k v m)"

definition jm_keys :: "('k, 'v) js_map \<Rightarrow> 'k set" where
  "jm_keys m = fst ` set m"

definition jm_inv :: "('k, 'v) js_map \<Rightarrow> bool" where
  "jm_inv m \<longleftrightarrow> distinct (map fst m)"

text \<open>What the components rely on of such a map.\<close>

locale finite_store =
  fixes get :: "'m \<Rightarrow> 'k \<Rightarrow> 'v option"
    and put :: "'k \<Rightarrow> 'v \<Rightarrow> 'm \<Rightarrow> 'm"
    and del :: "'k \<Rightarrow> 'm \<Rightarrow> 'm"
    and keys :: "'m \<Rightarrow> 'k set"
    and inv :: "'m \<Rightarrow> bool"
  assumes get_put: "get (put k v m) k' = (if k' = k then Some v else get m k')"
    and get_del: "get (del k m) k' = (if k' = k then None else get m k')"
    and keys_get: "k \<in> keys m \<longleftrightarrow> get m k \<noteq> None"
    and inv_put: "inv m \<Longrightarrow> inv (put k v m)"
    and inv_del: "inv m \<Longrightarrow> inv (del k m)"
begin

lemma keys_put: "keys (put k v m) = insert k (keys m)"
  by (auto simp: keys_get get_put split: if_splits)

lemma keys_del: "keys (del k m) = keys m - {k}"
  by (auto simp: keys_get get_del split: if_splits)

lemma get_replace: "get (put k v (del k m)) k' = (if k' = k then Some v else get m k')"
  by (simp add: get_put get_del)

lemma keys_replace: "keys (put k v (del k m)) = insert k (keys m)"
  by (simp add: keys_put keys_del)

lemma inv_replace: "inv m \<Longrightarrow> inv (put k v (del k m))"
  by (simp add: inv_put inv_del)

end

lemma jm_get_set: "jm_get (jm_set k v m) k' = (if k' = k then Some v else jm_get m k')"
  by (induction m) (auto simp: jm_get_def)

lemma jm_get_delete: "jm_get (jm_delete k m) k' = (if k' = k then None else jm_get m k')"
  by (induction m) (auto simp: jm_get_def jm_delete_def)

lemma jm_keys_get: "k \<in> jm_keys m \<longleftrightarrow> jm_get m k \<noteq> None"
  by (simp add: jm_keys_def jm_get_def map_of_eq_None_iff)

lemma jm_fst_set: "fst ` set (jm_set k v m) = insert k (fst ` set m)"
  by (induction m) auto

lemma jm_inv_set: "jm_inv m \<Longrightarrow> jm_inv (jm_set k v m)"
  by (induction m) (auto simp: jm_inv_def jm_fst_set)

lemma jm_inv_filter: "jm_inv m \<Longrightarrow> jm_inv (filter P m)"
  by (induction m) (auto simp: jm_inv_def)

lemma jm_inv_delete: "jm_inv m \<Longrightarrow> jm_inv (jm_delete k m)"
  by (simp add: jm_delete_def jm_inv_filter)

interpretation jm: finite_store jm_get jm_set jm_delete jm_keys jm_inv
  by unfold_locales (simp_all add: jm_get_set jm_get_delete jm_keys_get jm_inv_set jm_inv_delete)

lemma jm_inv_Nil [simp]: "jm_inv []"
  by (simp add: jm_inv_def)

lemma jm_get_Nil [simp]: "jm_get [] k = None"
  by (simp add: jm_get_def)

lemma jm_set_absent: "k \<notin> jm_keys m \<Longrightarrow> jm_set k v m = m @ [(k, v)]"
  by (induction m) (auto simp: jm_keys_def)

lemma jm_move_to_end: "jm_set k v (jm_delete k m) = jm_delete k m @ [(k, v)]"
  by (rule jm_set_absent) (simp add: jm.keys_del)

lemma jm_length_set:
  "length (jm_set k v m) = (if k \<in> jm_keys m then length m else Suc (length m))"
  by (induction m) (auto simp: jm_keys_def)

lemma jm_delete_absent: "k \<notin> jm_keys m \<Longrightarrow> jm_delete k m = m"
  by (induction m) (auto simp: jm_delete_def jm_keys_def)

lemma jm_length_delete_le: "length (jm_delete k m) \<le> length m"
  by (simp add: jm_delete_def)

lemma jm_length_delete_less: "k \<in> jm_keys m \<Longrightarrow> length (jm_delete k m) < length m"
  by (auto simp: jm_delete_def jm_keys_def intro!: length_filter_less)

lemma jm_length_delete:
  "jm_inv m \<Longrightarrow> k \<in> jm_keys m \<Longrightarrow> length m = Suc (length (jm_delete k m))"
proof (induction m)
  case (Cons e m)
  show ?case
  proof (cases "fst e = k")
    case True
    with Cons.prems have "k \<notin> jm_keys m"
      by (auto simp: jm_inv_def jm_keys_def)
    then have "jm_delete k m = m" by (rule jm_delete_absent)
    with True show ?thesis by (simp add: jm_delete_def)
  next
    case False
    with Cons.prems have "jm_inv m" "k \<in> jm_keys m"
      by (auto simp: jm_inv_def jm_keys_def)
    with Cons.IH False show ?thesis by (simp add: jm_delete_def)
  qed
qed (simp add: jm_keys_def)

lemma jm_get_mem: "jm_get m k = Some v \<Longrightarrow> (k, v) \<in> set m"
  by (simp add: jm_get_def map_of_SomeD)

lemma jm_mem_get: "jm_inv m \<Longrightarrow> (k, v) \<in> set m \<Longrightarrow> jm_get m k = Some v"
  by (simp add: jm_get_def jm_inv_def)

lemma jm_set_mem: "jm_inv m \<Longrightarrow> e \<in> set (jm_set k v m) \<Longrightarrow> e = (k, v) \<or> e \<in> set m"
  by (induction m) (auto simp: jm_inv_def split: if_splits)

lemma jm_delete_mem: "e \<in> set (jm_delete k m) \<longleftrightarrow> e \<in> set m \<and> fst e \<noteq> k"
  by (auto simp: jm_delete_def)

lemma jm_card_keys: "jm_inv m \<Longrightarrow> card (jm_keys m) = length m"
  using distinct_card [of "map fst m"] by (simp add: jm_inv_def jm_keys_def)

lemma jm_finite_keys [simp]: "finite (jm_keys m)"
  by (simp add: jm_keys_def)

section \<open>Bounded maps: the eviction loop\<close>

text \<open>
  \<open>while (m.size > maxEntries) { k = victim(m); if (none) break; m.delete(k) }\<close>, the loop
  that bounds the rate limiter, the failed-authentication limiter, the inspection store and the
  endpoint cache. Each of them selects a key of the map, which the guard of the recursive call
  records; \<open>victim_in\<close> below shows that the guard never fails.
\<close>

function evict_loop ::
  "(('k, 'v) js_map \<Rightarrow> 'k option) \<Rightarrow> nat \<Rightarrow> ('k, 'v) js_map \<Rightarrow> ('k, 'v) js_map" where
  "evict_loop victim n m =
     (if length m \<le> n then m
      else (case victim m of
              None \<Rightarrow> m
            | Some k \<Rightarrow> if jm_get m k = None then m else evict_loop victim n (jm_delete k m)))"
  by pat_completeness auto
termination
  by (relation "measure (\<lambda>(victim, n, m). length m)") (auto simp: jm_length_delete_less jm_keys_get)

declare evict_loop.simps [simp del]

lemma evict_loop_small: "length m \<le> n \<Longrightarrow> evict_loop victim n m = m"
  by (subst evict_loop.simps) simp

locale victim_selection =
  fixes victim :: "('k, 'v) js_map \<Rightarrow> 'k option"
  assumes victim_in: "victim m = Some k \<Longrightarrow> k \<in> jm_keys m"
    and victim_some: "m \<noteq> [] \<Longrightarrow> victim m \<noteq> None"
begin

lemma evict_loop_step:
  assumes "n < length m"
  obtains k where "victim m = Some k" "k \<in> jm_keys m"
    "evict_loop victim n m = evict_loop victim n (jm_delete k m)"
proof -
  from assms have "m \<noteq> []" by auto
  then obtain k where k: "victim m = Some k" using victim_some by blast
  then have mem: "k \<in> jm_keys m" by (rule victim_in)
  then obtain v where "jm_get m k = Some v" by (auto simp: jm_keys_get)
  with k assms have "evict_loop victim n m = evict_loop victim n (jm_delete k m)"
    by (simp add: evict_loop.simps [of victim n m])
  with k mem show ?thesis by (rule that)
qed

lemma evict_loop_bound: "length (evict_loop victim n m) \<le> n"
proof (induction "length m" arbitrary: m rule: less_induct)
  case less
  show ?case
  proof (cases "length m \<le> n")
    case True
    then show ?thesis by (simp add: evict_loop_small)
  next
    case False
    then have "n < length m" by simp
    then obtain k where "k \<in> jm_keys m"
      and "evict_loop victim n m = evict_loop victim n (jm_delete k m)"
      by (rule evict_loop_step)
    then show ?thesis using less jm_length_delete_less by metis
  qed
qed

lemma evict_loop_invariant:
  assumes "P m" and "\<And>m k. P m \<Longrightarrow> n < length m \<Longrightarrow> victim m = Some k \<Longrightarrow> P (jm_delete k m)"
  shows "P (evict_loop victim n m)"
  using assms(1)
proof (induction "length m" arbitrary: m rule: less_induct)
  case less
  show ?case
  proof (cases "length m \<le> n")
    case True
    with less.prems show ?thesis by (simp add: evict_loop_small)
  next
    case False
    then have n: "n < length m" by simp
    then obtain k where k: "victim m = Some k" "k \<in> jm_keys m"
      and eq: "evict_loop victim n m = evict_loop victim n (jm_delete k m)"
      by (rule evict_loop_step)
    from less.prems n k(1) have "P (jm_delete k m)" by (rule assms(2))
    then show ?thesis using less.hyps jm_length_delete_less [OF k(2)] eq by metis
  qed
qed

lemma evict_loop_subset: "set (evict_loop victim n m) \<subseteq> set m"
  by (rule evict_loop_invariant [where P = "\<lambda>m'. set m' \<subseteq> set m"]) (auto simp: jm_delete_mem)

lemma evict_loop_inv: "jm_inv m \<Longrightarrow> jm_inv (evict_loop victim n m)"
  by (rule evict_loop_invariant [where P = jm_inv]) (simp_all add: jm_inv_delete)

lemma evict_loop_get:
  "jm_get (evict_loop victim n m) k = None \<or> jm_get (evict_loop victim n m) k = jm_get m k"
  by (rule evict_loop_invariant [where P = "\<lambda>m'. jm_get m' k = None \<or> jm_get m' k = jm_get m k"])
    (auto simp: jm_get_delete)

text \<open>A key that is never selected survives with its value.\<close>

lemma evict_loop_keeps:
  assumes "jm_get m k = Some v" and "Q m"
    and "\<And>m k'. Q m \<Longrightarrow> n < length m \<Longrightarrow> jm_get m k = Some v \<Longrightarrow> victim m = Some k' \<Longrightarrow>
          k' \<noteq> k \<and> Q (jm_delete k' m)"
  shows "jm_get (evict_loop victim n m) k = Some v"
proof -
  have "jm_get (evict_loop victim n m) k = Some v \<and> Q (evict_loop victim n m)"
    by (rule evict_loop_invariant [where P = "\<lambda>m'. jm_get m' k = Some v \<and> Q m'"])
      (use assms in \<open>auto simp: jm_get_delete\<close>)
  then show ?thesis ..
qed

end

text \<open>The simplest victim: the first entry in insertion order.\<close>

definition first_key :: "('k, 'v) js_map \<Rightarrow> 'k option" where
  "first_key m = (case m of [] \<Rightarrow> None | e # _ \<Rightarrow> Some (fst e))"

interpretation fifo: victim_selection first_key
  by unfold_locales (auto simp: first_key_def jm_keys_def split: list.splits)

lemma evict_first_drop:
  "jm_inv m \<Longrightarrow> evict_loop first_key n m = drop (length m - n) m"
proof (induction m)
  case Nil
  then show ?case by (simp add: evict_loop_small)
next
  case (Cons e m)
  then have del: "jm_delete (fst e) (e # m) = m" and inv: "jm_inv m"
    by (auto simp: jm_inv_def jm_delete_def filter_id_conv image_iff)
  show ?case
  proof (cases "length (e # m) \<le> n")
    case True
    then show ?thesis by (simp add: evict_loop_small)
  next
    case False
    then have "evict_loop first_key n (e # m) = evict_loop first_key n m"
      using del by (subst evict_loop.simps) (simp add: first_key_def jm_get_def)
    with False Cons.IH [OF inv] show ?thesis by (simp add: Suc_diff_le)
  qed
qed

end
