(* ===== verification/Net_Policy.thy ===== *)
theory Net_Policy
  imports Prelude
begin

text \<open>
  \<^verbatim>\<open>platform/net-utils.ts\<close> and \<^verbatim>\<open>platform/gateway-bind-policy.ts\<close>: host names, address literals and
  the policy that decides which address the gateway may bind. \<open>isIP\<close> is the function of the
  standard library module \<open>node:net\<close>; its two regular expressions are written out.
\<close>

section \<open>\<open>isIP\<close>\<close>

definition is_hex :: "char \<Rightarrow> bool" where
  "is_hex c \<longleftrightarrow>
     (let u = code_unit c in (48 \<le> u \<and> u \<le> 57) \<or> (65 \<le> u \<and> u \<le> 70) \<or> (97 \<le> u \<and> u \<le> 102))"

text \<open>\<open>(?:[0-9]|[1-9][0-9]|1[0-9][0-9]|2[0-4][0-9]|25[0-5])\<close>\<close>

definition v4_seg :: "string \<Rightarrow> bool" where
  "v4_seg p \<longleftrightarrow>
     p \<noteq> [] \<and> list_all is_digit p \<and> length p \<le> 3 \<and> (length p = 1 \<or> hd p \<noteq> CHR ''0'') \<and>
     nat_of_digits p \<le> 255"

definition is_ipv4 :: "string \<Rightarrow> bool" where
  "is_ipv4 s \<longleftrightarrow> (let parts = split_char CHR ''.'' s in length parts = 4 \<and> list_all v4_seg parts)"

definition v6_seg :: "string \<Rightarrow> bool" where
  "v6_seg p \<longleftrightarrow> p \<noteq> [] \<and> length p \<le> 4 \<and> list_all is_hex p"

text \<open>
  The sixteen-bit groups of a colon-separated text; the last one may be a dotted quad, which counts
  as two, where \<open>quad\<close> says so.
\<close>

fun v6_count :: "bool \<Rightarrow> string list \<Rightarrow> nat option" where
  "v6_count quad [] = Some 0"
| "v6_count quad [p] = (if v6_seg p then Some 1 else if quad \<and> is_ipv4 p then Some 2 else None)"
| "v6_count quad (p # q # ps) = (if v6_seg p then map_option Suc (v6_count quad (q # ps)) else None)"

definition v6_groups :: "bool \<Rightarrow> string \<Rightarrow> nat option" where
  "v6_groups quad text = (if text = [] then Some 0 else v6_count quad (split_char CHR '':'' text))"

definition zone_char :: "char \<Rightarrow> bool" where
  "zone_char c \<longleftrightarrow>
     (let u = code_unit c
      in (48 \<le> u \<and> u \<le> 57) \<or> (65 \<le> u \<and> u \<le> 90) \<or> (97 \<le> u \<and> u \<le> 122) \<or> c \<in> set ''-.:'')"

definition is_ipv6_plain :: "string \<Rightarrow> bool" where
  "is_ipv6_plain s =
     (case split2 CHR '':'' CHR '':'' s of
        [a] \<Rightarrow> v6_groups True a = Some 8
      | [a, b] \<Rightarrow>
          (case (v6_groups False a, v6_groups True b) of
             (Some m, Some n) \<Rightarrow> m + n \<le> 7
           | _ \<Rightarrow> False)
      | _ \<Rightarrow> False)"

definition is_ipv6 :: "string \<Rightarrow> bool" where
  "is_ipv6 s =
     (let base = takeWhile (\<lambda>c. c \<noteq> CHR ''%'') s; zone = dropWhile (\<lambda>c. c \<noteq> CHR ''%'') s
      in is_ipv6_plain base \<and> (zone = [] \<or> (tl zone \<noteq> [] \<and> list_all zone_char (tl zone))))"

definition isIP :: "string \<Rightarrow> nat" where
  "isIP s = (if is_ipv4 s then 4 else if is_ipv6 s then 6 else 0)"

section \<open>Host names\<close>

definition normalizeHostname :: "string \<Rightarrow> string" where
  "normalizeHostname rawHostname =
     (let normalized = to_lower (trim rawHostname)
      in if starts_with ''['' normalized \<and> ends_with '']'' normalized
         then butlast (tl normalized) else normalized)"

definition isLoopbackHostname :: "string \<Rightarrow> bool \<Rightarrow> bool" where
  "isLoopbackHostname rawHostname allowLocalhostSubdomains =
     (let hostname = normalizeHostname rawHostname
      in if hostname = ''localhost''
            \<or> (allowLocalhostSubdomains \<and> ends_with ''.localhost'' hostname)
            \<or> hostname = ''::1'' \<or> hostname = ''0:0:0:0:0:0:0:1'' then True
         else if starts_with ''::ffff:'' hostname then starts_with ''127.'' (drop 7 hostname)
         else if isIP hostname = 4 then starts_with ''127.'' hostname
         else False)"

definition isWildcardBindHostname :: "string \<Rightarrow> bool" where
  "isWildcardBindHostname rawHostname =
     (let hostname = normalizeHostname rawHostname
      in if hostname = ''0.0.0.0'' \<or> hostname = ''::'' \<or> hostname = ''0:0:0:0:0:0:0:0'' then True
         else if starts_with ''::ffff:'' hostname then drop 7 hostname = ''0.0.0.0''
         else False)"

definition normalizeHealthProbeHost :: "string \<Rightarrow> string" where
  "normalizeHealthProbeHost bindHost =
     (if isWildcardBindHostname bindHost then ''127.0.0.1'' else bindHost)"

definition formatHostForUrl :: "string \<Rightarrow> string" where
  "formatHostForUrl rawHostname =
     (let hostname = normalizeHostname rawHostname
      in if isIP hostname = 6 then ''['' @ hostname @ '']'' else hostname)"

datatype url_error = PathNotRelative

definition buildLocalHttpUrl :: "string \<Rightarrow> nat \<Rightarrow> string \<Rightarrow> url_error + string" where
  "buildLocalHttpUrl hostname port pathname =
     (let normalizedPath = (if starts_with ''/'' pathname then pathname else ''/'' @ pathname)
      in if starts_with ''//'' normalizedPath then Inl PathNotRelative
         else Inr (''http://'' @ formatHostForUrl hostname @ '':'' @ digits_of_nat port @ normalizedPath))"

section \<open>The bind policy\<close>

record bind_input =
  bp_bindHost :: string
  bp_inboundApiKeyEnv :: "string option"
  bp_allowUnauthenticatedGateway :: bool
  bp_allowRemoteBind :: bool
  bp_allowWildcardBind :: bool

datatype bind_error =
    UnauthenticatedNotLoopback | RemoteWithoutKey | WildcardFlagUnused | WildcardNotAllowed | RemoteNotAllowed

definition isGatewayRemoteBindEnabled :: "bind_input \<Rightarrow> bool" where
  "isGatewayRemoteBindEnabled input \<longleftrightarrow>
     bp_allowRemoteBind input \<and> \<not> isLoopbackHostname (bp_bindHost input) False"

definition assertGatewayBindPolicy :: "bind_input \<Rightarrow> bind_error + unit" where
  "assertGatewayBindPolicy input =
     (let isLoopbackBind = isLoopbackHostname (bp_bindHost input) False;
          isWildcardBind = isWildcardBindHostname (bp_bindHost input)
      in if bp_allowUnauthenticatedGateway input \<and> \<not> isLoopbackBind then Inl UnauthenticatedNotLoopback
         else if bp_allowRemoteBind input \<and> bp_inboundApiKeyEnv input = None then Inl RemoteWithoutKey
         else if bp_allowWildcardBind input \<and> \<not> isWildcardBind then Inl WildcardFlagUnused
         else if isWildcardBind \<and> (\<not> bp_allowRemoteBind input \<or> \<not> bp_allowWildcardBind input)
           then Inl WildcardNotAllowed
         else if \<not> isLoopbackBind \<and> \<not> bp_allowRemoteBind input then Inl RemoteNotAllowed
         else Inr ())"

lemma wildcard_not_loopback: "isWildcardBindHostname h \<Longrightarrow> \<not> isLoopbackHostname h False"
  by (auto simp: isWildcardBindHostname_def isLoopbackHostname_def Let_def starts_with_def
      ends_with_def isIP_def split: if_splits)

text \<open>Property (bind_policy_safe). A configuration that passes the bind policy either binds a loopback address,
  or asked for a remote bind, names an inbound API key and does not run unauthenticated; a wildcard
  address further needs the wildcard flag, and the wildcard flag is accepted for nothing else.\<close>

theorem bind_policy_safe:
  "assertGatewayBindPolicy input = Inr () \<longleftrightarrow>
     (if isLoopbackHostname (bp_bindHost input) False
      then \<not> (bp_allowRemoteBind input \<and> bp_inboundApiKeyEnv input = None) \<and> \<not> bp_allowWildcardBind input
      else bp_allowRemoteBind input \<and> bp_inboundApiKeyEnv input \<noteq> None \<and>
           \<not> bp_allowUnauthenticatedGateway input \<and>
           (bp_allowWildcardBind input \<longleftrightarrow> isWildcardBindHostname (bp_bindHost input)))"
  using wildcard_not_loopback [of "bp_bindHost input"]
  by (auto simp: assertGatewayBindPolicy_def Let_def)

end
