(* ===== verification/Endpoint_Policy.thy ===== *)
theory Endpoint_Policy
  imports Net_Policy
begin

unbundle bit_operations_syntax

text \<open>
  \<^verbatim>\<open>proxy/provider-endpoint-policy.ts\<close>: which upstream endpoints the gateway may contact. A host is
  classified as private, local or special-use from its text; a host name is resolved once, the
  first address is pinned for the connection, and the decision is cached.

  Parameters: \<open>parseUrl\<close> stands for the constructor \<open>URL\<close> (\<^const>\<open>None\<close> where it throws), \<open>resolve\<close>
  for the result of \<open>dns.lookup\<close> (\<^const>\<open>None\<close> where the promise is rejected). Between the request for
  the lookup and its answer other requests may change the shared cache, so the resolution is two
  steps over the cache, and \<open>others\<close> is what happens between them.
\<close>

section \<open>Data\<close>

record endpoint_options =
  allowPrivateEndpoints :: bool
  allowInsecureHttp :: bool

record parsed_url =
  u_protocol :: string
  u_username :: string
  u_password :: string
  u_hostname :: string
  u_port :: string
  u_pathname :: string
  u_search :: string
  u_hash :: string

record pinned_resolution =
  pr_hostname :: string
  pr_address :: string
  pr_family :: nat

datatype cache_outcome = Resolution pinned_resolution | RejectedAddress string

record cache_entry =
  ce_expiresAtMs :: int
  ce_lastAccessedAtMs :: int
  ce_outcome :: cache_outcome

type_synonym endpoint_cache = "(string, cache_entry) js_map"

record ipv6_range =
  r_label :: string
  r_prefix :: "nat list"
  r_prefixLength :: nat

definition IPV6_SPECIAL_USE_RANGES :: "ipv6_range list" where
  "IPV6_SPECIAL_USE_RANGES =
     [\<lparr>r_label = ''unspecified'', r_prefix = [0, 0, 0, 0, 0, 0, 0, 0], r_prefixLength = 128\<rparr>,
      \<lparr>r_label = ''loopback'', r_prefix = [0, 0, 0, 0, 0, 0, 0, 1], r_prefixLength = 128\<rparr>,
      \<lparr>r_label = ''IPv4-IPv6 translation'', r_prefix = [0x64, 0xff9b, 0, 0, 0, 0, 0, 0], r_prefixLength = 96\<rparr>,
      \<lparr>r_label = ''local-use IPv4-IPv6 translation'', r_prefix = [0x64, 0xff9b, 0x1, 0, 0, 0, 0, 0], r_prefixLength = 48\<rparr>,
      \<lparr>r_label = ''discard-only'', r_prefix = [0x100, 0, 0, 0, 0, 0, 0, 0], r_prefixLength = 64\<rparr>,
      \<lparr>r_label = ''Teredo'', r_prefix = [0x2001, 0, 0, 0, 0, 0, 0, 0], r_prefixLength = 32\<rparr>,
      \<lparr>r_label = ''benchmarking'', r_prefix = [0x2001, 0x2, 0, 0, 0, 0, 0, 0], r_prefixLength = 48\<rparr>,
      \<lparr>r_label = ''documentation'', r_prefix = [0x2001, 0xdb8, 0, 0, 0, 0, 0, 0], r_prefixLength = 32\<rparr>,
      \<lparr>r_label = ''6to4'', r_prefix = [0x2002, 0, 0, 0, 0, 0, 0, 0], r_prefixLength = 16\<rparr>,
      \<lparr>r_label = ''unique local'', r_prefix = [0xfc00, 0, 0, 0, 0, 0, 0, 0], r_prefixLength = 7\<rparr>,
      \<lparr>r_label = ''link-local'', r_prefix = [0xfe80, 0, 0, 0, 0, 0, 0, 0], r_prefixLength = 10\<rparr>,
      \<lparr>r_label = ''multicast'', r_prefix = [0xff00, 0, 0, 0, 0, 0, 0, 0], r_prefixLength = 8\<rparr>]"

definition MAX_PINNED_PROVIDER_ENDPOINT_CACHE_ENTRIES :: nat where
  "MAX_PINNED_PROVIDER_ENDPOINT_CACHE_ENTRIES = 512"

section \<open>The cache\<close>

definition getPinnedProviderEndpointCacheKey :: "parsed_url \<Rightarrow> string" where
  "getPinnedProviderEndpointCacheKey url = to_lower (trim (u_hostname url))"

definition prunePinnedProviderEndpointResolutionCache :: "endpoint_cache \<Rightarrow> int \<Rightarrow> endpoint_cache" where
  "prunePinnedProviderEndpointResolutionCache cache nowMs =
     evict_loop first_key MAX_PINNED_PROVIDER_ENDPOINT_CACHE_ENTRIES
       (filter (\<lambda>e. \<not> ce_expiresAtMs (snd e) \<le> nowMs) cache)"

definition setCachedPinnedProviderEndpointResolution ::
  "endpoint_cache \<Rightarrow> string \<Rightarrow> cache_entry \<Rightarrow> int \<Rightarrow> endpoint_cache" where
  "setCachedPinnedProviderEndpointResolution cache cacheKey entry nowMs =
     prunePinnedProviderEndpointResolutionCache (jm_set cacheKey entry (jm_delete cacheKey cache)) nowMs"

definition touchCachedPinnedProviderEndpointResolution ::
  "endpoint_cache \<Rightarrow> string \<Rightarrow> cache_entry \<Rightarrow> int \<Rightarrow> cache_entry \<times> endpoint_cache" where
  "touchCachedPinnedProviderEndpointResolution cache cacheKey entry nowMs =
     (let nextEntry = entry\<lparr>ce_lastAccessedAtMs := nowMs\<rparr>
      in (nextEntry, setCachedPinnedProviderEndpointResolution cache cacheKey nextEntry nowMs))"

section \<open>Classification of hosts\<close>

text \<open>\<open>/^\d+$/\<close>, \<open>/^[\d.]+$/\<close> and \<open>/^[0-9a-fx.]+$/i\<close>\<close>

definition looksLikeNonCanonicalNumericHostname :: "string \<Rightarrow> bool" where
  "looksLikeNonCanonicalNumericHostname hostname =
     (let normalized = to_lower (trim hostname)
      in if normalized = [] then False
         else if list_all is_digit normalized then True
         else if list_all (\<lambda>c. is_digit c \<or> c = CHR ''.'') normalized then True
         else str_includes ''0x'' normalized \<and>
              list_all (\<lambda>c. is_hex c \<or> c \<in> set ''xX.'') normalized)"

text \<open>\<open>Number.parseInt(part, 10)\<close>: blanks, a sign, then the leading digits; \<^const>\<open>None\<close> for \<open>NaN\<close>.\<close>

definition parse_int10 :: "string \<Rightarrow> int option" where
  "parse_int10 part =
     (let t = dropWhile js_ws part;
          neg = starts_with ''-'' t;
          u = (if neg \<or> starts_with ''+'' t then tl t else t);
          ds = takeWhile is_digit u
      in if ds = [] then None
         else Some (if neg then - int (nat_of_digits ds) else int (nat_of_digits ds)))"

definition parseIpv4Octets :: "string \<Rightarrow> nat list option" where
  "parseIpv4Octets hostname =
     (let parts = map parse_int10 (split_char CHR ''.'' hostname)
      in if length parts \<noteq> 4 \<or>
            list_ex (\<lambda>p. case p of None \<Rightarrow> True | Some n \<Rightarrow> n < 0 \<or> n > 255) parts
         then None else Some (map (\<lambda>p. nat (the p)) parts))"

definition isPrivateIpv4 :: "string \<Rightarrow> bool" where
  "isPrivateIpv4 hostname =
     (case parseIpv4Octets hostname of
        Some (first # second # _) \<Rightarrow>
          first = 10 \<or> (first = 172 \<and> second \<ge> 16 \<and> second \<le> 31) \<or> (first = 192 \<and> second = 168)
      | _ \<Rightarrow> False)"

definition isLoopbackIpv4 :: "string \<Rightarrow> bool" where
  "isLoopbackIpv4 hostname =
     (case parseIpv4Octets hostname of
        Some parts \<Rightarrow> length parts = 4 \<and> hd parts = 127
      | None \<Rightarrow> False)"

definition isLinkLocalIpv4 :: "string \<Rightarrow> bool" where
  "isLinkLocalIpv4 hostname =
     (case parseIpv4Octets hostname of
        Some parts \<Rightarrow> length parts = 4 \<and> parts ! 0 = 169 \<and> parts ! 1 = 254
      | None \<Rightarrow> False)"

definition isReservedIpv4 :: "string \<Rightarrow> bool" where
  "isReservedIpv4 hostname =
     (case parseIpv4Octets hostname of
        Some (first # second # third # _) \<Rightarrow>
          first = 0 \<or>
          (first = 100 \<and> second \<ge> 64 \<and> second \<le> 127) \<or>
          (first = 192 \<and> second = 0 \<and> third = 0) \<or>
          (first = 192 \<and> second = 0 \<and> third = 2) \<or>
          (first = 198 \<and> (second = 18 \<or> second = 19)) \<or>
          (first = 198 \<and> second = 51 \<and> third = 100) \<or>
          (first = 203 \<and> second = 0 \<and> third = 113) \<or>
          first \<ge> 224
      | _ \<Rightarrow> False)"

definition hex_val :: "char \<Rightarrow> nat" where
  "hex_val c =
     (let u = code_unit c in if u \<le> 57 then u - 48 else if u \<le> 70 then u - 55 else u - 87)"

definition nat_of_hex :: "string \<Rightarrow> nat" where
  "nat_of_hex s = foldl (\<lambda>n c. 16 * n + hex_val c) 0 s"

text \<open>\<open>/^[0-9a-f]{1,4}$/\<close>\<close>

definition hex_word :: "string \<Rightarrow> bool" where
  "hex_word p \<longleftrightarrow>
     p \<noteq> [] \<and> length p \<le> 4 \<and>
     list_all (\<lambda>c. let u = code_unit c in (48 \<le> u \<and> u \<le> 57) \<or> (97 \<le> u \<and> u \<le> 102)) p"

text \<open>
  The optional \<open>0:\<close> after \<open>::ffff:\<close> is consumed first; the expression backtracks when the rest
  does not match then.
\<close>

definition mapped_tails :: "string \<Rightarrow> string list" where
  "mapped_tails normalized =
     (if \<not> starts_with ''::ffff:'' normalized then []
      else let rest = drop 7 normalized
           in (if starts_with ''0:'' rest then [drop 2 rest, rest] else [rest]))"

definition dotted_tail :: "string \<Rightarrow> string option" where
  "dotted_tail normalized = find (\<lambda>t. t \<noteq> []) (mapped_tails normalized)"

fun hex_pair :: "string \<Rightarrow> (string \<times> string) option" where
  "hex_pair t =
     (case split_char CHR '':'' t of
        [h, l] \<Rightarrow> if hex_word h \<and> hex_word l then Some (h, l) else None
      | _ \<Rightarrow> None)"

definition hex_tail :: "string \<Rightarrow> (string \<times> string) option" where
  "hex_tail normalized =
     (case find (\<lambda>t. hex_pair t \<noteq> None) (mapped_tails normalized) of
        None \<Rightarrow> None
      | Some t \<Rightarrow> hex_pair t)"

definition quad_of_words :: "nat \<Rightarrow> nat \<Rightarrow> string" where
  "quad_of_words highWord lowWord =
     join ''.'' (map digits_of_nat
       [drop_bit 8 highWord AND 0xff, highWord AND 0xff, drop_bit 8 lowWord AND 0xff, lowWord AND 0xff])"

definition extractMappedIpv4FromIpv6 :: "string \<Rightarrow> string option" where
  "extractMappedIpv4FromIpv6 hostname =
     (let normalized = to_lower (trim hostname);
          fromHex = map_option (\<lambda>(h, l). quad_of_words (nat_of_hex h) (nat_of_hex l)) (hex_tail normalized)
      in case dotted_tail normalized of
           Some dottedTail \<Rightarrow> if isIP dottedTail = 4 then Some dottedTail else fromHex
         | None \<Rightarrow> fromHex)"

fun ipv6_words_loop :: "string list \<Rightarrow> nat list option" where
  "ipv6_words_loop [] = Some []"
| "ipv6_words_loop (part # rest) =
     (if part = [] then None
      else if str_includes ''.'' part then
        (if rest \<noteq> [] then None
         else (case parseIpv4Octets part of
                 Some [first, second, third, fourth] \<Rightarrow>
                   Some [push_bit 8 first OR second, push_bit 8 third OR fourth]
               | _ \<Rightarrow> None))
      else if \<not> hex_word part then None
      else map_option ((#) (nat_of_hex part)) (ipv6_words_loop rest))"

definition parseIpv6WordSequence :: "string \<Rightarrow> nat list option" where
  "parseIpv6WordSequence text =
     (if text = [] then Some [] else ipv6_words_loop (split_char CHR '':'' text))"

definition parseIpv6Words :: "string \<Rightarrow> nat list option" where
  "parseIpv6Words hostname =
     (let compressedParts = split2 CHR '':'' CHR '':'' (to_lower (trim hostname))
      in if length compressedParts > 2 then None
         else
           let hasCompression = (length compressedParts = 2);
               headText = compressedParts ! 0;
               tailText = (if hasCompression then compressedParts ! 1 else [])
           in case (parseIpv6WordSequence headText,
                    if hasCompression then parseIpv6WordSequence tailText else Some []) of
                (Some headWords, Some tailWords) \<Rightarrow>
                  let zeroWordCount = 8 - int (length headWords) - int (length tailWords)
                  in if (if hasCompression then zeroWordCount < 1 else zeroWordCount \<noteq> 0) then None
                     else
                       let words = headWords @ replicate (nat zeroWordCount) 0 @ tailWords
                       in if length words \<noteq> 8 then None else Some words
              | _ \<Rightarrow> None)"

definition cidr_mask :: "nat \<Rightarrow> nat" where
  "cidr_mask bitsToCompare =
     (if bitsToCompare = 16 then 0xffff else push_bit (16 - bitsToCompare) 0xffff AND 0xffff)"

fun cidr_loop :: "nat list \<Rightarrow> nat list \<Rightarrow> nat \<Rightarrow> bool" where
  "cidr_loop (word # words) prefix remainingBits =
     (if remainingBits = 0 then True
      else (case prefix of
              [] \<Rightarrow> False
            | prefixWord # prefixWords \<Rightarrow>
                let bitsToCompare = min remainingBits 16; mask = cidr_mask bitsToCompare
                in if word AND mask \<noteq> prefixWord AND mask then False
                   else cidr_loop words prefixWords (remainingBits - bitsToCompare)))"
| "cidr_loop [] prefix remainingBits \<longleftrightarrow> remainingBits = 0"

definition ipv6MatchesCidr :: "nat list \<Rightarrow> ipv6_range \<Rightarrow> bool" where
  "ipv6MatchesCidr words rng = cidr_loop words (r_prefix rng) (r_prefixLength rng)"

definition is_special_ipv4 :: "string \<Rightarrow> bool" where
  "is_special_ipv4 h \<longleftrightarrow> isLoopbackIpv4 h \<or> isLinkLocalIpv4 h \<or> isPrivateIpv4 h \<or> isReservedIpv4 h"

definition isPrivateOrLocalIpv6 :: "string \<Rightarrow> bool" where
  "isPrivateOrLocalIpv6 hostname =
     (let normalized = to_lower (trim hostname)
      in case extractMappedIpv4FromIpv6 normalized of
           Some mappedIpv4 \<Rightarrow> is_special_ipv4 mappedIpv4
         | None \<Rightarrow>
             (case parseIpv6Words normalized of
                None \<Rightarrow> False
              | Some words \<Rightarrow> list_ex (ipv6MatchesCidr words) IPV6_SPECIAL_USE_RANGES))"

definition isPrivateOrLocalHostname :: "string \<Rightarrow> bool" where
  "isPrivateOrLocalHostname hostname =
     (let ipCandidate = normalizeHostname hostname
      in if isLoopbackHostname ipCandidate True then True
         else if isIP ipCandidate = 4 then is_special_ipv4 ipCandidate
         else if isIP ipCandidate = 6 then isPrivateOrLocalIpv6 ipCandidate
         else False)"

section \<open>Policy\<close>

datatype endpoint_error =
    InvalidEndpointUrl string
  | NotHttp string
  | UserinfoInUrl string
  | InsecureHttp string
  | NonCanonicalHost string
  | PrivateEndpoint string
  | ResolvedPrivateEndpointError string string
  | LookupFailed string
  | NoUsableAddress string

definition validateProviderEndpointPolicy ::
  "(string \<Rightarrow> parsed_url option) \<Rightarrow> string \<Rightarrow> string \<Rightarrow> endpoint_options \<Rightarrow> endpoint_error + parsed_url" where
  "validateProviderEndpointPolicy parseUrl providerName endpoint options =
     (case parseUrl endpoint of
        None \<Rightarrow> Inl (InvalidEndpointUrl providerName)
      | Some url \<Rightarrow>
          if u_protocol url \<noteq> ''https:'' \<and> u_protocol url \<noteq> ''http:'' then Inl (NotHttp providerName)
          else if length (u_username url) > 0 \<or> length (u_password url) > 0 then Inl (UserinfoInUrl providerName)
          else if u_protocol url = ''http:'' \<and> \<not> allowInsecureHttp options then Inl (InsecureHttp providerName)
          else if isIP (u_hostname url) = 0 \<and> looksLikeNonCanonicalNumericHostname (u_hostname url)
            then Inl (NonCanonicalHost providerName)
          else if isPrivateOrLocalHostname (u_hostname url) \<and> \<not> allowPrivateEndpoints options
            then Inl (PrivateEndpoint providerName)
          else Inr (url\<lparr>u_hash := []\<rparr>))"

record resolve_deps =
  rd_nowMs :: int
  rd_cacheTtlMs :: int
  rd_rejectedCacheTtlMs :: int

text \<open>The outcome of the part before the lookup: a final result, or the lookup is needed.\<close>

datatype resolve_step =
    Done "endpoint_error + pinned_resolution option"
  | NeedsLookup

definition resolve_from_cache ::
  "parsed_url \<Rightarrow> bool \<Rightarrow> resolve_deps \<Rightarrow> endpoint_cache \<Rightarrow> resolve_step \<times> endpoint_cache" where
  "resolve_from_cache url allowPrivate deps cache0 =
     (if isIP (u_hostname url) \<noteq> 0 \<or> u_hostname url = ''localhost'' \<or> ends_with ''.localhost'' (u_hostname url)
      then (Done (Inr None), cache0)
      else
        let cacheKey = getPinnedProviderEndpointCacheKey url; nowMs = rd_nowMs deps;
            cache = prunePinnedProviderEndpointResolutionCache cache0 nowMs
        in case jm_get cache cacheKey of
             None \<Rightarrow> (NeedsLookup, cache)
           | Some cached \<Rightarrow>
               if \<not> ce_expiresAtMs cached > nowMs then (NeedsLookup, cache)
               else
                 let (touched, cache') = touchCachedPinnedProviderEndpointResolution cache cacheKey cached nowMs
                 in case ce_outcome touched of
                      RejectedAddress address \<Rightarrow>
                        if \<not> allowPrivate
                        then (Done (Inl (ResolvedPrivateEndpointError (u_hostname url) address)), cache')
                        else (NeedsLookup, jm_delete cacheKey cache')
                    | Resolution r \<Rightarrow>
                        if isPrivateOrLocalHostname (pr_address r) \<and> \<not> allowPrivate
                        then (Done (Inl (ResolvedPrivateEndpointError (u_hostname url) (pr_address r))), cache')
                        else (Done (Inr (Some r)), cache'))"

text \<open>The loop over the resolved addresses: the first forbidden one, or the first one to pin.\<close>

fun pick_address ::
  "bool \<Rightarrow> (string \<times> nat) option \<Rightarrow> (string \<times> nat) list \<Rightarrow> string + (string \<times> nat) option" where
  "pick_address allowPrivate pinned [] = Inr pinned"
| "pick_address allowPrivate pinned (entry # rest) =
     (if isPrivateOrLocalHostname (fst entry) \<and> \<not> allowPrivate then Inl (fst entry)
      else pick_address allowPrivate (case pinned of None \<Rightarrow> Some entry | Some p \<Rightarrow> Some p) rest)"

definition resolve_from_lookup ::
  "parsed_url \<Rightarrow> bool \<Rightarrow> resolve_deps \<Rightarrow> (string \<times> nat) list option \<Rightarrow> endpoint_cache \<Rightarrow>
   (endpoint_error + pinned_resolution option) \<times> endpoint_cache" where
  "resolve_from_lookup url allowPrivate deps resolved cache =
     (let cacheKey = getPinnedProviderEndpointCacheKey url; nowMs = rd_nowMs deps
      in case resolved of
           None \<Rightarrow> (Inl (LookupFailed (u_hostname url)), cache)
         | Some entries \<Rightarrow>
             (case pick_address allowPrivate None entries of
                Inl address \<Rightarrow>
                  (Inl (ResolvedPrivateEndpointError (u_hostname url) address),
                   if rd_rejectedCacheTtlMs deps > 0
                   then setCachedPinnedProviderEndpointResolution cache cacheKey
                          \<lparr>ce_expiresAtMs = nowMs + rd_rejectedCacheTtlMs deps, ce_lastAccessedAtMs = nowMs,
                           ce_outcome = RejectedAddress address\<rparr> nowMs
                   else cache)
              | Inr None \<Rightarrow> (Inl (NoUsableAddress (u_hostname url)), cache)
              | Inr (Some entry) \<Rightarrow>
                  let r = \<lparr>pr_hostname = u_hostname url, pr_address = fst entry, pr_family = snd entry\<rparr>
                  in (Inr (Some r),
                      if rd_cacheTtlMs deps > 0
                      then setCachedPinnedProviderEndpointResolution cache cacheKey
                             \<lparr>ce_expiresAtMs = nowMs + rd_cacheTtlMs deps, ce_lastAccessedAtMs = nowMs,
                              ce_outcome = Resolution r\<rparr> nowMs
                      else cache)))"

definition assertResolvedProviderEndpointPolicy ::
  "(string \<Rightarrow> (string \<times> nat) list option) \<Rightarrow> (endpoint_cache \<Rightarrow> endpoint_cache) \<Rightarrow>
   parsed_url \<Rightarrow> bool \<Rightarrow> resolve_deps \<Rightarrow> endpoint_cache \<Rightarrow>
   (endpoint_error + pinned_resolution option) \<times> endpoint_cache" where
  "assertResolvedProviderEndpointPolicy lookup others url allowPrivate deps cache =
     (case resolve_from_cache url allowPrivate deps cache of
        (Done r, cache') \<Rightarrow> (r, cache')
      | (NeedsLookup, cache') \<Rightarrow>
          resolve_from_lookup url allowPrivate deps (lookup (u_hostname url)) (others cache'))"

definition default_deps :: "int \<Rightarrow> resolve_deps" where
  "default_deps nowMs = \<lparr>rd_nowMs = nowMs, rd_cacheTtlMs = 30000, rd_rejectedCacheTtlMs = 300000\<rparr>"

section \<open>The cache stays bounded and fresh\<close>

definition cache_inv :: "int \<Rightarrow> endpoint_cache \<Rightarrow> bool" where
  "cache_inv nowMs m \<longleftrightarrow>
     jm_inv m \<and> length m \<le> MAX_PINNED_PROVIDER_ENDPOINT_CACHE_ENTRIES \<and>
     (\<forall>e \<in> set m. nowMs < ce_expiresAtMs (snd e))"

lemma cache_prune_inv: "jm_inv m \<Longrightarrow> cache_inv now (prunePinnedProviderEndpointResolutionCache m now)"
  using fifo.evict_loop_subset
    [of MAX_PINNED_PROVIDER_ENDPOINT_CACHE_ENTRIES "filter (\<lambda>e. \<not> ce_expiresAtMs (snd e) \<le> now) m"]
  by (auto simp: cache_inv_def prunePinnedProviderEndpointResolutionCache_def fifo.evict_loop_inv
      fifo.evict_loop_bound jm_inv_filter)

lemma set_cached_inv:
  "jm_inv m \<Longrightarrow> cache_inv now (setCachedPinnedProviderEndpointResolution m k e now)"
  by (simp add: setCachedPinnedProviderEndpointResolution_def cache_prune_inv jm.inv_replace)

lemma cache_inv_delete: "cache_inv now m \<Longrightarrow> cache_inv now (jm_delete k m)"
  using jm_length_delete_le [of k m]
  by (auto simp: cache_inv_def jm_inv_delete jm_delete_mem)

lemma cache_inv_jm: "cache_inv now m \<Longrightarrow> jm_inv m"
  by (simp add: cache_inv_def)

lemma prune_jm: "cache_inv now m \<Longrightarrow> jm_inv (prunePinnedProviderEndpointResolutionCache m t)"
  using cache_prune_inv [of m t] by (simp add: cache_inv_def)

lemma resolve_from_cache_inv:
  assumes "cache_inv (rd_nowMs deps) cache"
  shows "cache_inv (rd_nowMs deps) (snd (resolve_from_cache url allow deps cache))"
  using assms
  by (auto simp: resolve_from_cache_def Let_def touchCachedPinnedProviderEndpointResolution_def
      cache_inv_jm cache_prune_inv prune_jm set_cached_inv cache_inv_delete
      split: option.split cache_outcome.split)

lemma resolve_from_lookup_inv:
  assumes "cache_inv (rd_nowMs deps) cache"
  shows "cache_inv (rd_nowMs deps) (snd (resolve_from_lookup url allow deps resolved cache))"
  using assms
  by (auto simp: resolve_from_lookup_def Let_def cache_inv_jm set_cached_inv
      split: option.split sum.split)

section \<open>No private address is pinned\<close>

lemma pick_address_eq:
  "pick_address allow pinned entries =
     (case find (\<lambda>e. isPrivateOrLocalHostname (fst e) \<and> \<not> allow) entries of
        Some e \<Rightarrow> Inl (fst e)
      | None \<Rightarrow> Inr (case pinned of Some p \<Rightarrow> Some p | None \<Rightarrow>
                      (case entries of [] \<Rightarrow> None | e # _ \<Rightarrow> Some e)))"
proof (induction entries arbitrary: pinned)
  case (Cons e entries)
  then show ?case by (cases pinned) (simp_all split: option.split)
qed (simp split: option.split)

lemma pick_address_public:
  "pick_address False None entries = Inr (Some r) \<Longrightarrow>
   \<not> isPrivateOrLocalHostname (fst r) \<and> r \<in> set entries"
  by (cases entries) (auto simp: pick_address_eq split: if_splits option.splits)

lemma resolve_from_cache_public:
  "resolve_from_cache url False deps cache = (Done (Inr (Some r)), cache') \<Longrightarrow>
   \<not> isPrivateOrLocalHostname (pr_address r)"
  by (auto simp: resolve_from_cache_def Let_def touchCachedPinnedProviderEndpointResolution_def
      split: if_splits option.splits cache_outcome.splits)

lemma resolve_from_lookup_public:
  "resolve_from_lookup url False deps resolved cache = (Inr (Some r), cache') \<Longrightarrow>
   \<not> isPrivateOrLocalHostname (pr_address r)"
  using pick_address_public
  by (fastforce simp: resolve_from_lookup_def Let_def split: if_splits option.splits sum.splits)

section \<open>Prefix comparison\<close>

text \<open>The value of a sequence of sixteen-bit words, the first one the most significant.\<close>

fun words_value :: "nat list \<Rightarrow> nat" where
  "words_value [] = 0"
| "words_value (w # ws) = w * 2 ^ (16 * length ws) + words_value ws"

lemma words_value_less: "\<forall>w \<in> set ws. w < 2 ^ 16 \<Longrightarrow> words_value ws < 2 ^ (16 * length ws)"
proof (induction ws)
  case (Cons w ws)
  then have "words_value ws < 2 ^ (16 * length ws)" "w \<le> 2 ^ 16 - 1" by auto
  then have "words_value (w # ws) < (w + 1) * 2 ^ (16 * length ws)" by simp
  also have "\<dots> \<le> 2 ^ 16 * 2 ^ (16 * length ws)"
    using \<open>w \<le> 2 ^ 16 - 1\<close> by (intro mult_right_mono) auto
  also have "\<dots> = 2 ^ (16 * length (w # ws))" by (simp add: power_add)
  finally show ?case .
qed simp

lemma words_value_zeros: "words_value (replicate n 0 @ ws) = words_value ws"
  by (induction n) simp_all

lemma cidr_mask_eq:
  assumes "b \<le> 16"
  shows "cidr_mask b = push_bit (16 - b) (mask b)"
proof -
  have m: "(0xffff :: nat) = mask 16" by (simp add: mask_eq_exp_minus_1)
  show ?thesis
  proof (cases "b = 16")
    case True
    then show ?thesis by (simp add: cidr_mask_def m)
  next
    case False
    with assms show ?thesis
      unfolding cidr_mask_def m
      by (auto intro!: bit_eqI simp: bit_and_iff bit_push_bit_iff bit_mask_iff)
  qed
qed

lemma and_cidr_mask:
  assumes "b \<le> 16" "w < 2 ^ 16"
  shows "w AND cidr_mask b = push_bit (16 - b) (drop_bit (16 - b) w)"
proof (rule bit_eqI)
  fix n
  have "\<not> bit w n" if "16 \<le> n"
    using assms(2) that by (metis bit_take_bit_iff not_le take_bit_nat_eq_self)
  moreover have "n - (16 - b) < b \<longleftrightarrow> n < 16" if "16 - b \<le> n"
    using that assms(1) by linarith
  ultimately show "bit (w AND cidr_mask b) n = bit (push_bit (16 - b) (drop_bit (16 - b) w)) n"
    by (cases "16 - b \<le> n")
      (auto simp: cidr_mask_eq [OF assms(1)] bit_and_iff bit_push_bit_iff bit_mask_iff bit_drop_bit_eq not_le)
qed

lemma and_cidr_mask_eq_iff:
  assumes "b \<le> 16" "w < 2 ^ 16" "p < 2 ^ 16"
  shows "w AND cidr_mask b = p AND cidr_mask b \<longleftrightarrow> w div 2 ^ (16 - b) = p div 2 ^ (16 - b)"
  using assms by (simp add: and_cidr_mask push_bit_eq_mult drop_bit_eq_div)

lemma div_shifted:
  fixes w v :: nat
  assumes "v < 2 ^ n"
  shows "k \<le> n \<Longrightarrow> (w * 2 ^ n + v) div 2 ^ k = w * 2 ^ (n - k) + v div 2 ^ k"
    and "(w * 2 ^ n + v) div 2 ^ (n + k) = w div 2 ^ k"
proof -
  assume "k \<le> n"
  then have "(2::nat) ^ n = 2 ^ (n - k) * 2 ^ k" by (simp add: power_add [symmetric])
  then have "w * 2 ^ n + v = v + w * 2 ^ (n - k) * 2 ^ k" by simp
  then show "(w * 2 ^ n + v) div 2 ^ k = w * 2 ^ (n - k) + v div 2 ^ k"
    by (metis add.commute div_mult_self1 power_not_zero zero_neq_numeral)
next
  show "(w * 2 ^ n + v) div 2 ^ (n + k) = w div 2 ^ k"
    using assms by (simp add: power_add div_mult2_eq)
qed

lemma digit_split:
  fixes w p x y m :: nat
  assumes "x < m" "y < m"
  shows "w * m + x = p * m + y \<longleftrightarrow> w = p \<and> x = y"
proof
  assume eq: "w * m + x = p * m + y"
  then have "(w * m + x) div m = (p * m + y) div m" "(w * m + x) mod m = (p * m + y) mod m" by simp_all
  with assms show "w = p \<and> x = y" by simp
qed simp

lemma cidr_loop_0: "cidr_loop ws ps 0"
  by (cases ws) simp_all

lemma cidr_loop_iff:
  assumes "length ps = length ws" "\<forall>w \<in> set ws. w < 2 ^ 16" "\<forall>p \<in> set ps. p < 2 ^ 16"
    and "r \<le> 16 * length ws"
  shows "cidr_loop ws ps r \<longleftrightarrow>
    words_value ws div 2 ^ (16 * length ws - r) = words_value ps div 2 ^ (16 * length ws - r)"
  using assms
proof (induction ws arbitrary: ps r)
  case (Cons w ws)
  then obtain p qs where ps: "ps = p # qs" "length qs = length ws" by (cases ps) auto
  let ?n = "16 * length ws"
  have vw: "words_value ws < 2 ^ ?n" and vq: "words_value qs < 2 ^ ?n"
    using words_value_less [of ws] words_value_less [of qs] Cons.prems ps by auto
  show ?case
  proof (cases "r \<le> 16")
    case True
    then have split: "16 * length (w # ws) - r = ?n + (16 - r)" by simp
    have "cidr_loop (w # ws) ps r \<longleftrightarrow> r = 0 \<or> w div 2 ^ (16 - r) = p div 2 ^ (16 - r)"
      using True Cons.prems ps by (simp add: Let_def and_cidr_mask_eq_iff min_absorb1 cidr_loop_0)
    moreover have "r = 0 \<Longrightarrow> w div 2 ^ (16 - r) = p div 2 ^ (16 - r)"
      using Cons.prems ps by simp
    ultimately show ?thesis
      unfolding split ps words_value.simps ps(2) div_shifted(2) [OF vw] div_shifted(2) [OF vq] by blast
  next
    case False
    let ?r = "r - 16"
    have k: "16 * length (w # ws) - r = ?n - ?r" and le: "?r \<le> ?n" using False Cons.prems(4) by auto
    have "cidr_loop (w # ws) ps r \<longleftrightarrow> w = p \<and> cidr_loop ws qs ?r"
      using False Cons.prems ps and_cidr_mask_eq_iff [of 16 w p] by (simp add: Let_def)
    also have "\<dots> \<longleftrightarrow> w = p \<and> words_value ws div 2 ^ (?n - ?r) = words_value qs div 2 ^ (?n - ?r)"
      using Cons.IH [of qs ?r] Cons.prems ps le by simp
    also have "\<dots> \<longleftrightarrow> (w * 2 ^ ?n + words_value ws) div 2 ^ (?n - ?r) = (p * 2 ^ ?n + words_value qs) div 2 ^ (?n - ?r)"
    proof -
      have pow: "(2::nat) ^ ?n = 2 ^ ?r * 2 ^ (?n - ?r)" using le by (simp add: power_add [symmetric])
      have b: "v div 2 ^ (?n - ?r) < 2 ^ ?r" if "v < 2 ^ ?n" for v :: nat
        using that unfolding pow by (rule less_mult_imp_div_less)
      have "?n - (?n - ?r) = ?r" using le by simp
      then show ?thesis
        using digit_split [OF b [OF vw] b [OF vq], of w p]
        by (simp add: div_shifted(1) [OF vw] div_shifted(1) [OF vq])
    qed
    finally show ?thesis by (simp only: k ps words_value.simps)
  qed
qed simp

section \<open>Canonical address literals\<close>

definition addr_char :: "char \<Rightarrow> bool" where
  "addr_char c \<longleftrightarrow> is_hex c \<or> c = CHR ''.'' \<or> c = CHR '':''"

lemma set_join: "set (join [c] ws) \<subseteq> insert c (\<Union>w \<in> set ws. set w)"
  by (induction "[c]" ws rule: join.induct) auto

lemma set_split_char: "set s \<subseteq> insert c (\<Union>w \<in> set (split_char c s). set w)"
  using set_join [of c "split_char c s"] by (simp add: join_split_char)

lemma set_split2: "set s \<subseteq> {a, b} \<union> (\<Union>w \<in> set (split2 a b s). set w)"
proof (induction a b s rule: split2.induct)
  case (3 a b x y s)
  show ?case
  proof (cases "x = a \<and> y = b")
    case True
    with 3(1) show ?thesis by auto
  next
    case False
    with 3(2) show ?thesis by (cases "split2 a b (y # s)") auto
  qed
qed auto

lemma code_unit_lower: "is_hex c \<Longrightarrow> code_unit (lower_char c) = (if code_unit c \<ge> 65 \<and> code_unit c \<le> 70 then code_unit c + 32 else code_unit c)"
  by (auto simp: is_hex_def lower_char_def Let_def code_unit_char_of)

lemma addr_char_not_ws: "addr_char c \<Longrightarrow> \<not> js_ws c"
  by (auto simp: addr_char_def js_ws_def is_hex_def Let_def code_unit_def)

lemma lower_char_plain: "c \<in> {CHR ''.'', CHR '':''} \<Longrightarrow> lower_char c = c"
  by (auto simp: lower_char_def Let_def code_unit_def)

lemma is_digit_hex: "is_digit c \<Longrightarrow> is_hex c"
  by (simp add: is_digit_def is_hex_def Let_def)

lemma lower_char_digit: "is_digit c \<Longrightarrow> lower_char c = c"
  by (auto simp: is_digit_def lower_char_def Let_def)

lemma addr_char_lower: "addr_char c \<Longrightarrow> addr_char (lower_char c)"
  using code_unit_lower [of c] lower_char_plain [of c] by (auto simp: addr_char_def is_hex_def Let_def)

lemma trim_addr: "list_all addr_char s \<Longrightarrow> trim s = s"
  by (cases "s = []") (auto intro!: trim_id simp: list_all_iff addr_char_not_ws)

lemma lower_addr: "list_all addr_char s \<Longrightarrow> list_all addr_char (to_lower s)"
  by (auto simp: list_all_iff to_lower_def addr_char_lower)

lemma is_ipv4_chars:
  assumes "is_ipv4 h" shows "list_all (\<lambda>c. is_digit c \<or> c = CHR ''.'') h"
proof -
  have "\<forall>w \<in> set (split_char CHR ''.'' h). \<forall>c \<in> set w. is_digit c"
    using assms by (auto simp: is_ipv4_def Let_def list_all_iff v4_seg_def)
  with set_split_char [of h "CHR ''.''"] show ?thesis by (auto simp: list_all_iff)
qed

lemma is_ipv4_addr: "is_ipv4 h \<Longrightarrow> list_all addr_char h"
  using is_ipv4_chars [of h] by (auto simp: list_all_iff addr_char_def is_digit_hex)

lemma is_ipv4_lower: "is_ipv4 h \<Longrightarrow> to_lower h = h"
  using is_ipv4_chars [of h]
  by (auto simp: to_lower_def list_all_iff lower_char_digit lower_char_plain intro!: map_idI)

lemma normalize_ipv4: "is_ipv4 h \<Longrightarrow> normalizeHostname h = h"
proof -
  assume h: "is_ipv4 h"
  have "\<not> starts_with ''['' h"
    using is_ipv4_addr [OF h] by (cases h) (auto simp: starts_with_def addr_char_def is_hex_def Let_def code_unit_def)
  then show ?thesis
    using h by (simp add: normalizeHostname_def trim_addr is_ipv4_addr is_ipv4_lower Let_def)
qed

lemma parse_int10_seg:
  assumes "v4_seg p" shows "parse_int10 p = Some (int (nat_of_digits p))"
proof -
  obtain c cs where p: "p = c # cs" using assms by (cases p) (auto simp: v4_seg_def)
  have dig: "list_all is_digit p" using assms by (simp add: v4_seg_def)
  then have c: "is_digit c" by (simp add: p)
  then have "\<not> js_ws c" "c \<noteq> CHR ''-''" "c \<noteq> CHR ''+''"
    by (auto simp: is_digit_def js_ws_def Let_def code_unit_def)
  moreover have "takeWhile is_digit p = p" using dig by (simp add: list_all_iff)
  ultimately show ?thesis by (simp add: parse_int10_def p starts_with_def)
qed

lemma parse_ipv4_octets:
  assumes "is_ipv4 h"
  shows "parseIpv4Octets h = Some (map nat_of_digits (split_char CHR ''.'' h))"
proof -
  have segs: "list_all v4_seg (split_char CHR ''.'' h)" "length (split_char CHR ''.'' h) = 4"
    using assms by (simp_all add: is_ipv4_def Let_def)
  have "map parse_int10 (split_char CHR ''.'' h) = map (\<lambda>p. Some (int (nat_of_digits p))) (split_char CHR ''.'' h)"
    using segs(1) by (auto simp: list_all_iff parse_int10_seg)
  moreover have "\<forall>p \<in> set (split_char CHR ''.'' h). nat_of_digits p \<le> 255"
    using segs(1) by (auto simp: list_all_iff v4_seg_def)
  ultimately show ?thesis
    using segs(2) by (auto simp: parseIpv4Octets_def Let_def list_ex_iff o_def)
qed

section \<open>The special-use IPv4 blocks\<close>

fun octets_value :: "nat list \<Rightarrow> nat" where
  "octets_value [a, b, c, d] = ((a * 256 + b) * 256 + c) * 256 + d"
| "octets_value _ = 0"

definition ipv4_value :: "string \<Rightarrow> nat" where
  "ipv4_value h = octets_value (map nat_of_digits (split_char CHR ''.'' h))"

definition in_block :: "nat \<Rightarrow> nat list \<times> nat \<Rightarrow> bool" where
  "in_block v blk \<longleftrightarrow> octets_value (fst blk) \<le> v \<and> v < octets_value (fst blk) + 2 ^ (32 - snd blk)"

definition IPV4_SPECIAL_USE_BLOCKS :: "(nat list \<times> nat) list" where
  "IPV4_SPECIAL_USE_BLOCKS =
     [([0, 0, 0, 0], 8), ([10, 0, 0, 0], 8), ([100, 64, 0, 0], 10), ([127, 0, 0, 0], 8),
      ([169, 254, 0, 0], 16), ([172, 16, 0, 0], 12), ([192, 0, 0, 0], 24), ([192, 0, 2, 0], 24),
      ([192, 168, 0, 0], 16), ([198, 18, 0, 0], 15), ([198, 51, 100, 0], 24), ([203, 0, 113, 0], 24),
      ([224, 0, 0, 0], 3)]"

lemma block_split:
  fixes a r m :: nat
  assumes "r < m" "u \<le> m"
  shows "k * m + l \<le> a * m + r \<and> a * m + r < k * m + u \<longleftrightarrow> a = k \<and> l \<le> r \<and> r < u"
proof (cases a k rule: linorder_cases)
  case less
  then have "(a + 1) * m \<le> k * m" by (intro mult_le_mono1) simp
  then have "a * m + m \<le> k * m" by simp
  with less assms show ?thesis by linarith
next
  case greater
  then have "(k + 1) * m \<le> a * m" by (intro mult_le_mono1) simp
  then have "k * m + m \<le> a * m" by simp
  with greater assms show ?thesis by linarith
qed simp

lemma special_ipv4_octets:
  assumes "parseIpv4Octets h = Some [a, b, c, d]" "a \<le> 255" "b \<le> 255" "c \<le> 255" "d \<le> 255"
  shows "is_special_ipv4 h \<longleftrightarrow>
    list_ex (in_block (octets_value [a, b, c, d])) IPV4_SPECIAL_USE_BLOCKS"
proof -
  define s where "s = c * 256 + d"
  define r where "r = b * 65536 + s"
  define v where "v = a * 16777216 + r"
  have v: "octets_value [a, b, c, d] = v" by (simp add: v_def r_def s_def)
  have bounds: "d < 256" "s < 65536" "r < 16777216" using assms(3-5) by (simp_all add: r_def s_def)
  have zero: "a = 0 \<longleftrightarrow> v < 16777216" and top: "224 \<le> a \<longleftrightarrow> 3758096384 \<le> v \<and> v < 4294967296"
    using bounds assms(2) by (auto simp: v_def)
  have b0: "a = 10 \<longleftrightarrow> 167772160 \<le> v \<and> v < 184549376"
    using block_split [OF bounds(3), of 16777216 10 0 a] bounds by (simp add: v_def)
  have b1: "a = 127 \<longleftrightarrow> 2130706432 \<le> v \<and> v < 2147483648"
    using block_split [OF bounds(3), of 16777216 127 0 a] bounds by (simp add: v_def)
  have b2: "a = 100 \<and> 64 \<le> b \<and> b \<le> 127 \<longleftrightarrow> 1681915904 \<le> v \<and> v < 1686110208"
    using block_split [OF bounds(3), of 8388608 100 4194304 a] bounds by (simp add: v_def) (auto simp: r_def)
  have b3: "a = 169 \<and> b = 254 \<longleftrightarrow> 2851995648 \<le> v \<and> v < 2852061184"
    using block_split [OF bounds(3), of 16711680 169 16646144 a] bounds by (simp add: v_def) (auto simp: r_def)
  have b4: "a = 172 \<and> 16 \<le> b \<and> b \<le> 31 \<longleftrightarrow> 2886729728 \<le> v \<and> v < 2887778304"
    using block_split [OF bounds(3), of 2097152 172 1048576 a] bounds by (simp add: v_def) (auto simp: r_def)
  have b5: "a = 192 \<and> b = 168 \<longleftrightarrow> 3232235520 \<le> v \<and> v < 3232301056"
    using block_split [OF bounds(3), of 11075584 192 11010048 a] bounds by (simp add: v_def) (auto simp: r_def)
  have b6: "a = 198 \<and> (b = 18 \<or> b = 19) \<longleftrightarrow> 3323068416 \<le> v \<and> v < 3323199488"
    using block_split [OF bounds(3), of 1310720 198 1179648 a] bounds by (simp add: v_def) (auto simp: r_def)
  have b7: "a = 192 \<and> b = 0 \<and> c = 0 \<longleftrightarrow> 3221225472 \<le> v \<and> v < 3221225728"
    using block_split [OF bounds(3), of 256 192 0 a] block_split [OF bounds(2), of 256 0 0 b] bounds by (simp add: v_def r_def) (auto simp: s_def)
  have b8: "a = 192 \<and> b = 0 \<and> c = 2 \<longleftrightarrow> 3221225984 \<le> v \<and> v < 3221226240"
    using block_split [OF bounds(3), of 768 192 512 a] block_split [OF bounds(2), of 768 0 512 b] bounds by (simp add: v_def r_def) (auto simp: s_def)
  have b9: "a = 198 \<and> b = 51 \<and> c = 100 \<longleftrightarrow> 3325256704 \<le> v \<and> v < 3325256960"
    using block_split [OF bounds(3), of 3368192 198 3367936 a] block_split [OF bounds(2), of 25856 51 25600 b] bounds by (simp add: v_def r_def) (auto simp: s_def)
  have b10: "a = 203 \<and> b = 0 \<and> c = 113 \<longleftrightarrow> 3405803776 \<le> v \<and> v < 3405804032"
    using block_split [OF bounds(3), of 29184 203 28928 a] block_split [OF bounds(2), of 29184 0 28928 b] bounds by (simp add: v_def r_def) (auto simp: s_def)
  note block = zero top b0 b1 b2 b3 b4 b5 b6 b7 b8 b9 b10
  have "is_special_ipv4 h \<longleftrightarrow>
      a = 0 \<or> a = 10 \<or> (a = 100 \<and> 64 \<le> b \<and> b \<le> 127) \<or> a = 127 \<or> (a = 169 \<and> b = 254) \<or>
      (a = 172 \<and> 16 \<le> b \<and> b \<le> 31) \<or> (a = 192 \<and> b = 0 \<and> c = 0) \<or> (a = 192 \<and> b = 0 \<and> c = 2) \<or>
      (a = 192 \<and> b = 168) \<or> (a = 198 \<and> (b = 18 \<or> b = 19)) \<or> (a = 198 \<and> b = 51 \<and> c = 100) \<or>
      (a = 203 \<and> b = 0 \<and> c = 113) \<or> 224 \<le> a"
    by (auto simp: is_special_ipv4_def isLoopbackIpv4_def isLinkLocalIpv4_def isPrivateIpv4_def
        isReservedIpv4_def assms(1))
  then show ?thesis
    unfolding block v by (auto simp: IPV4_SPECIAL_USE_BLOCKS_def in_block_def)
qed

lemma split4:
  assumes "length xs = 4"
  obtains a b c d where "xs = [a, b, c, d]"
  using assms by (auto simp: numeral_eq_Suc length_Suc_conv)

lemma special_ipv4_iff:
  assumes "is_ipv4 h"
  shows "is_special_ipv4 h \<longleftrightarrow> list_ex (in_block (ipv4_value h)) IPV4_SPECIAL_USE_BLOCKS"
proof -
  let ?ns = "map nat_of_digits (split_char CHR ''.'' h)"
  have "length ?ns = 4" "\<forall>n \<in> set ?ns. n \<le> 255"
    using assms by (auto simp: is_ipv4_def Let_def list_all_iff v4_seg_def)
  then obtain a b c d where abcd: "?ns = [a, b, c, d]" "a \<le> 255" "b \<le> 255" "c \<le> 255" "d \<le> 255"
    by (metis split4 list.set_intros)
  from parse_ipv4_octets [OF assms] abcd(1) have "parseIpv4Octets h = Some [a, b, c, d]" by simp
  then show ?thesis
    unfolding ipv4_value_def abcd(1) using abcd(2-5) by (rule special_ipv4_octets)
qed

lemma ipv4_dot127:
  assumes "is_ipv4 h" "starts_with ''127.'' h"
  shows "in_block (ipv4_value h) ([127, 0, 0, 0], 8)"
proof -
  from assms(2) obtain t where h: "h = ''127'' @ CHR ''.'' # t" by (auto simp: starts_with_iff)
  have "split_char CHR ''.'' h = ''127'' # split_char CHR ''.'' t"
    unfolding h by (rule split_char_append) simp
  moreover have "length (split_char CHR ''.'' h) = 4" "\<forall>p \<in> set (split_char CHR ''.'' h). nat_of_digits p \<le> 255"
    using assms(1) by (auto simp: is_ipv4_def Let_def list_all_iff v4_seg_def)
  ultimately obtain b c d where "split_char CHR ''.'' h = [''127'', b, c, d]"
    "nat_of_digits b \<le> 255" "nat_of_digits c \<le> 255" "nat_of_digits d \<le> 255"
    by (metis split4 list.inject list.set_intros)
  moreover have "nat_of_digits ''127'' = 127" by code_simp
  ultimately show ?thesis by (simp add: ipv4_value_def in_block_def)
qed

lemma ipv4_loopback_name:
  assumes "is_ipv4 h"
  shows "isLoopbackHostname h True \<longleftrightarrow> starts_with ''127.'' h"
proof -
  have "list_all (\<lambda>c. is_digit c \<or> c = CHR ''.'') h" by (rule is_ipv4_chars [OF assms])
  then have "CHR ''l'' \<notin> set h" "CHR '':'' \<notin> set h"
    by (auto simp: list_all_iff is_digit_def code_unit_def)
  then have "h \<noteq> ''localhost''" "\<not> ends_with ''.localhost'' h" "h \<noteq> ''::1''" "h \<noteq> ''0:0:0:0:0:0:0:1''"
    "\<not> starts_with ''::ffff:'' h"
    by (auto simp: ends_with_iff starts_with_iff)
  then show ?thesis
    using assms by (simp add: isLoopbackHostname_def normalize_ipv4 Let_def isIP_def)
qed

section \<open>Every IPv6 literal is parsed\<close>

lemma lower_char_eq_iff: "code_unit c < 65 \<Longrightarrow> lower_char x = c \<longleftrightarrow> x = c"
  by (auto simp: lower_char_def Let_def code_unit_char_of)

lemma lower_colon [simp]: "lower_char x = CHR '':'' \<longleftrightarrow> x = CHR '':''"
  by (rule lower_char_eq_iff) (simp add: code_unit_def)

lemma split_char_lower: "split_char CHR '':'' (to_lower s) = map to_lower (split_char CHR '':'' s)"
proof (induction s)
  case (Cons x s)
  then show ?case by (cases "split_char CHR '':'' s") (auto simp: to_lower_def)
qed (simp add: to_lower_def)

lemma split2_lower: "split2 CHR '':'' CHR '':'' (to_lower s) = map to_lower (split2 CHR '':'' CHR '':'' s)"
proof (induction "CHR '':''" "CHR '':''" s rule: split2.induct)
  case (3 x y s)
  show ?case
  proof (cases "x = CHR '':'' \<and> y = CHR '':''")
    case True
    with 3(1) show ?thesis by (simp add: to_lower_def)
  next
    case False
    with 3(2) show ?thesis
      by (cases "split2 CHR '':'' CHR '':'' (y # s)") (auto simp: to_lower_def)
  qed
qed (simp_all add: to_lower_def)

lemma str_includes_single: "str_includes [c] s \<longleftrightarrow> c \<in> set s"
  by (induction s) (auto simp: starts_with_def)

lemma hex_val_less: "is_hex c \<Longrightarrow> hex_val c < 16"
  by (auto simp: is_hex_def hex_val_def Let_def)

lemma nat_of_hex_less: "list_all is_hex s \<Longrightarrow> nat_of_hex s < 16 ^ length s"
proof (induction s rule: rev_induct)
  case (snoc c s)
  then have "nat_of_hex s + 1 \<le> 16 ^ length s" "hex_val c < 16" by (auto simp: hex_val_less)
  then show ?case by (simp add: nat_of_hex_def)
qed (simp add: nat_of_hex_def)

lemma is_hex_lower: "is_hex c \<Longrightarrow> is_hex (lower_char c)"
  using code_unit_lower [of c] by (auto simp: is_hex_def Let_def)

lemma v6_seg_word:
  assumes "v6_seg p"
  shows "hex_word (to_lower p)" "nat_of_hex (to_lower p) < 2 ^ 16" "\<not> str_includes ''.'' (to_lower p)"
    "to_lower p \<noteq> []"
proof -
  have hex: "list_all is_hex p" "p \<noteq> []" "length p \<le> 4" using assms by (auto simp: v6_seg_def)
  then show "hex_word (to_lower p)"
    by (auto simp: hex_word_def to_lower_def list_all_iff Let_def code_unit_lower is_hex_def)
  have hl: "list_all is_hex (to_lower p)" using hex(1) by (auto simp: to_lower_def list_all_iff is_hex_lower)
  then have "nat_of_hex (to_lower p) < 16 ^ length (to_lower p)" by (rule nat_of_hex_less)
  also have "(16::nat) ^ length (to_lower p) \<le> 16 ^ 4" using hex(3) by (intro power_increasing) (auto simp: to_lower_def)
  finally show "nat_of_hex (to_lower p) < 2 ^ 16" by simp
  show "\<not> str_includes ''.'' (to_lower p)"
    using hl by (auto simp: str_includes_single list_all_iff is_hex_def Let_def code_unit_def)
  show "to_lower p \<noteq> []" using hex(2) by (simp add: to_lower_def)
qed

lemma or_less_16: "x < 2 ^ 16 \<Longrightarrow> y < 2 ^ 16 \<Longrightarrow> (x OR y :: nat) < 2 ^ 16"
  by (metis take_bit_nat_eq_self take_bit_nat_less_exp take_bit_or)

lemma ipv4_words:
  assumes "is_ipv4 p"
  obtains w1 w2 where "ipv6_words_loop [to_lower p] = Some [w1, w2]" "w1 < 2 ^ 16" "w2 < 2 ^ 16"
proof -
  let ?ns = "map nat_of_digits (split_char CHR ''.'' p)"
  have "length ?ns = 4" "\<forall>n \<in> set ?ns. n \<le> 255"
    using assms by (auto simp: is_ipv4_def Let_def list_all_iff v4_seg_def)
  then obtain a b c d where abcd: "?ns = [a, b, c, d]" "a \<le> 255" "b \<le> 255" "c \<le> 255" "d \<le> 255"
    by (metis split4 list.set_intros)
  have oct: "parseIpv4Octets p = Some [a, b, c, d]" using parse_ipv4_octets [OF assms] abcd(1) by simp
  have dot: "str_includes ''.'' p"
  proof (rule ccontr)
    assume "\<not> str_includes ''.'' p"
    then have "split_char CHR ''.'' p = [p]" by (simp add: str_includes_single split_char_no_sep)
    with abcd(1) show False by simp
  qed
  then have "p \<noteq> []" by auto
  with dot oct have "ipv6_words_loop [to_lower p] = Some [push_bit 8 a OR b, push_bit 8 c OR d]"
    by (simp add: is_ipv4_lower [OF assms])
  moreover have "push_bit 8 a OR b < 2 ^ 16" "push_bit 8 c OR d < 2 ^ 16"
    using abcd(2-5) by (intro or_less_16; simp add: push_bit_eq_mult)+
  ultimately show ?thesis by (rule that)
qed

lemma v6_seg_loop:
  "v6_seg p \<Longrightarrow>
   ipv6_words_loop (to_lower p # rest) = map_option ((#) (nat_of_hex (to_lower p))) (ipv6_words_loop rest)"
  using v6_seg_word [of p] by simp

definition words_of :: "nat list option \<Rightarrow> nat \<Rightarrow> bool" where
  "words_of r n \<longleftrightarrow> (\<exists>ws. r = Some ws \<and> length ws = n \<and> (\<forall>w \<in> set ws. w < 2 ^ 16))"

lemma ipv6_words_loop_complete:
  "v6_count quad parts = Some n \<Longrightarrow> words_of (ipv6_words_loop (map to_lower parts)) n"
proof (induction quad parts arbitrary: n rule: v6_count.induct)
  case (2 quad p)
  show ?case
  proof (cases "v6_seg p")
    case True
    with 2 v6_seg_word [OF True] show ?thesis by (auto simp: words_of_def)
  next
    case False
    with 2 have "is_ipv4 p" "n = 2" by (auto split: if_splits)
    then obtain w1 w2 where "ipv6_words_loop [to_lower p] = Some [w1, w2]" "w1 < 2 ^ 16" "w2 < 2 ^ 16"
      using ipv4_words by blast
    with \<open>n = 2\<close> show ?thesis by (simp only: words_of_def list.map) auto
  qed
next
  case (3 quad p q ps)
  then obtain m where m: "v6_seg p" "v6_count quad (q # ps) = Some m" "n = Suc m"
    by (auto split: if_splits)
  have "words_of (ipv6_words_loop (map to_lower (q # ps))) m" by (rule 3(1) [OF m(1,2)])
  with m v6_seg_loop [OF m(1), of "map to_lower (q # ps)"] show ?case
    by (simp only: words_of_def list.map) (auto simp del: ipv6_words_loop.simps simp: v6_seg_word(2) [simplified])
qed (simp add: words_of_def)

lemma to_lower_Nil [simp]: "to_lower s = [] \<longleftrightarrow> s = []"
  by (simp add: to_lower_def)

lemma word_sequence_complete: "v6_groups quad text = Some n \<Longrightarrow> words_of (parseIpv6WordSequence (to_lower text)) n"
  using ipv6_words_loop_complete [of quad "split_char CHR '':'' text" n]
  by (cases "text = []")
    (simp_all add: v6_groups_def parseIpv6WordSequence_def split_char_lower, simp add: words_of_def)

lemma v6_seg_addr: "v6_seg p \<Longrightarrow> list_all addr_char p"
  by (auto simp: v6_seg_def list_all_iff addr_char_def)

lemma v6_count_chars: "v6_count quad parts = Some n \<Longrightarrow> p \<in> set parts \<Longrightarrow> list_all addr_char p"
proof (induction quad parts arbitrary: n rule: v6_count.induct)
  case (2 quad q)
  then show ?case by (auto simp: v6_seg_addr is_ipv4_addr split: if_splits)
next
  case (3 quad q q' ps)
  then show ?case by (auto simp: v6_seg_addr split: if_splits)
qed simp

lemma v6_groups_chars:
  assumes "v6_groups quad tx = Some n"
  shows "list_all addr_char tx"
proof (cases "tx = []")
  case False
  with assms have "\<forall>p \<in> set (split_char CHR '':'' tx). list_all addr_char p"
    by (auto simp: v6_groups_def dest: v6_count_chars)
  moreover have "addr_char CHR '':''" by (simp add: addr_char_def)
  ultimately show ?thesis
    using set_split_char [of tx "CHR '':''"] by (auto simp: list_all_iff)
qed simp

lemma ipv6_plain_cases:
  assumes "is_ipv6_plain h"
  obtains a where "split2 CHR '':'' CHR '':'' h = [a]" "v6_groups True a = Some 8"
  | a b m n where "split2 CHR '':'' CHR '':'' h = [a, b]" "v6_groups False a = Some m"
      "v6_groups True b = Some n" "m + n \<le> 7"
  using assms by (auto simp: is_ipv6_plain_def split: list.splits option.splits)

lemma ipv6_plain_chars: "is_ipv6_plain h \<Longrightarrow> list_all addr_char h"
proof -
  assume "is_ipv6_plain h"
  then have "\<forall>w \<in> set (split2 CHR '':'' CHR '':'' h). list_all addr_char w"
    by (cases rule: ipv6_plain_cases) (auto dest: v6_groups_chars)
  moreover have "addr_char CHR '':''" by (simp add: addr_char_def)
  ultimately show ?thesis
    using set_split2 [of h "CHR '':''" "CHR '':''"] by (auto simp: list_all_iff)
qed

lemma parse_ipv6_complete: "is_ipv6_plain h \<Longrightarrow> words_of (parseIpv6Words h) 8"
proof -
  assume h: "is_ipv6_plain h"
  have tr: "trim h = h" by (rule trim_addr [OF ipv6_plain_chars [OF h]])
  from h show ?thesis
  proof (cases rule: ipv6_plain_cases)
    case (1 a)
    with word_sequence_complete [OF 1(2)] show ?thesis
      by (auto simp: parseIpv6Words_def split2_lower tr words_of_def)
  next
    case (2 a b m n)
    with word_sequence_complete [OF 2(2)] word_sequence_complete [OF 2(3)] show ?thesis
      by (auto simp: parseIpv6Words_def split2_lower tr words_of_def Let_def)
  qed
qed

lemma lower_lower: "list_all addr_char s \<Longrightarrow> to_lower (to_lower s) = to_lower s"
proof -
  have "lower_char (lower_char c) = lower_char c" if "addr_char c" for c
  proof (cases "is_hex c")
    case True
    then have "code_unit (lower_char c) < 65 \<or> 90 < code_unit (lower_char c) \<and> code_unit (lower_char c) < 192"
      using code_unit_lower [OF True] by (auto simp: is_hex_def Let_def)
    then show ?thesis by (subst (1) lower_char_def) (auto simp: Let_def)
  next
    case False
    with that show ?thesis by (auto simp: addr_char_def lower_char_plain)
  qed
  then show "list_all addr_char s \<Longrightarrow> ?thesis" by (auto simp: to_lower_def list_all_iff)
qed

lemma ipv6_normalized:
  assumes "is_ipv6_plain h"
  shows "to_lower (trim (to_lower (trim h))) = to_lower (trim h)"
  using ipv6_plain_chars [OF assms] by (simp add: trim_addr lower_addr lower_lower)

lemma special_ranges_wf:
  "rng \<in> set IPV6_SPECIAL_USE_RANGES \<Longrightarrow>
   length (r_prefix rng) = 8 \<and> (\<forall>p \<in> set (r_prefix rng). p < 2 ^ 16) \<and> r_prefixLength rng \<le> 128"
  by (auto simp: IPV6_SPECIAL_USE_RANGES_def)

definition in_ipv6_range :: "nat list \<Rightarrow> ipv6_range \<Rightarrow> bool" where
  "in_ipv6_range words rng \<longleftrightarrow>
     words_value words div 2 ^ (128 - r_prefixLength rng) =
     words_value (r_prefix rng) div 2 ^ (128 - r_prefixLength rng)"

lemma ranges_iff:
  assumes "length ws = 8" "\<forall>w \<in> set ws. w < 2 ^ 16"
  shows "list_ex (ipv6MatchesCidr ws) IPV6_SPECIAL_USE_RANGES \<longleftrightarrow> list_ex (in_ipv6_range ws) IPV6_SPECIAL_USE_RANGES"
proof -
  have "ipv6MatchesCidr ws rng = in_ipv6_range ws rng" if "rng \<in> set IPV6_SPECIAL_USE_RANGES" for rng
    using cidr_loop_iff [of "r_prefix rng" ws "r_prefixLength rng"] special_ranges_wf [OF that] assms
    by (simp add: ipv6MatchesCidr_def in_ipv6_range_def)
  then show ?thesis by (auto simp: list_ex_iff)
qed

section \<open>Properties\<close>

text \<open>Property (ipv4_classification). A canonical IPv4 literal is refused as private, local or reserved exactly
  when its 32-bit value lies in one of the thirteen special-use blocks: the four classifiers on
  octet texts and the \<open>127.\<close> prefix test together compute membership in that list.\<close>

theorem ipv4_classification:
  assumes "is_ipv4 h"
  shows "isPrivateOrLocalHostname h \<longleftrightarrow> list_ex (in_block (ipv4_value h)) IPV4_SPECIAL_USE_BLOCKS"
proof -
  have "isPrivateOrLocalHostname h \<longleftrightarrow> starts_with ''127.'' h \<or> is_special_ipv4 h"
    using assms ipv4_loopback_name by (simp add: isPrivateOrLocalHostname_def normalize_ipv4 Let_def isIP_def)
  moreover have "starts_with ''127.'' h \<Longrightarrow> list_ex (in_block (ipv4_value h)) IPV4_SPECIAL_USE_BLOCKS"
    using ipv4_dot127 [OF assms] by (simp add: IPV4_SPECIAL_USE_BLOCKS_def)
  ultimately show ?thesis using special_ipv4_iff [OF assms] by blast
qed

theorem ipv4_classification_witness:
  "isPrivateOrLocalHostname ''172.31.0.9'' \<longleftrightarrow>
   list_ex (in_block (ipv4_value ''172.31.0.9'')) IPV4_SPECIAL_USE_BLOCKS"
proof (rule ipv4_classification)
  show "is_ipv4 ''172.31.0.9''"
    by (simp add: is_ipv4_def v4_seg_def is_digit_def nat_of_digits_def digit_val_def code_unit_def)
qed

lemma resolution_public:
  assumes "assertResolvedProviderEndpointPolicy lookup others url False deps cache = (Inr (Some r), cache')"
  shows "\<not> isPrivateOrLocalHostname (pr_address r)"
  using assms
  by (auto simp: assertResolvedProviderEndpointPolicy_def
      split: prod.splits resolve_step.splits
      dest: resolve_from_cache_public resolve_from_lookup_public)

text \<open>Nothing is pinned only for an address literal and for the names of the local machine.\<close>

lemma resolution_unpinned:
  assumes "assertResolvedProviderEndpointPolicy lookup others url allow deps cache = (Inr None, cache')"
  shows "isIP (u_hostname url) \<noteq> 0 \<or> u_hostname url = ''localhost'' \<or> ends_with ''.localhost'' (u_hostname url)"
proof (rule ccontr)
  assume "\<not> ?thesis"
  with assms show False
    by (auto simp: assertResolvedProviderEndpointPolicy_def resolve_from_cache_def resolve_from_lookup_def Let_def
        split: prod.splits resolve_step.splits option.splits sum.splits if_splits cache_outcome.splits)
qed

text \<open>Property (pinned_address_public). Unless private endpoints are allowed, the address that the resolution
  pins for a connection is never classified as private, local or special-use: neither from a
  cached entry, whatever the cache holds and whoever wrote it, nor from a fresh lookup, whatever
  the resolver answers and whatever other requests do to the cache meanwhile.\<close>

theorem pinned_address_public:
  assumes "assertResolvedProviderEndpointPolicy lookup others url False deps cache = (Inr (Some r), cache')"
  shows "\<not> isPrivateOrLocalHostname (pr_address r)"
  by (rule resolution_public [OF assms])

definition example_url :: parsed_url where
  "example_url = \<lparr>u_protocol = ''https:'', u_username = [], u_password = [], u_hostname = ''api.test'',
     u_port = [], u_pathname = ''/v1'', u_search = [], u_hash = []\<rparr>"

lemma example_host: "isIP ''api.test'' = 0"
  by (simp add: isIP_def is_ipv4_def v4_seg_def is_digit_def code_unit_def is_ipv6_def is_ipv6_plain_def
      v6_groups_def v6_seg_def is_hex_def Let_def)

lemma example_public: "\<not> isPrivateOrLocalHostname ''8.8.8.8''"
proof -
  have ip: "is_ipv4 ''8.8.8.8''"
    by (simp add: is_ipv4_def v4_seg_def is_digit_def nat_of_digits_def digit_val_def code_unit_def)
  have "\<not> starts_with ''127.'' ''8.8.8.8''" by (simp add: starts_with_def)
  moreover have "\<not> is_special_ipv4 ''8.8.8.8''"
    by (simp add: special_ipv4_iff [OF ip] IPV4_SPECIAL_USE_BLOCKS_def in_block_def ipv4_value_def
        nat_of_digits_def digit_val_def code_unit_def)
  ultimately show ?thesis
    using ip ipv4_loopback_name [OF ip] by (simp add: isPrivateOrLocalHostname_def normalize_ipv4 isIP_def)
qed

lemma example_resolution:
  "fst (assertResolvedProviderEndpointPolicy (\<lambda>_. Some [(''8.8.8.8'', 4)]) id example_url False (default_deps 0) []) =
     Inr (Some \<lparr>pr_hostname = ''api.test'', pr_address = ''8.8.8.8'', pr_family = 4\<rparr>)"
  by (simp add: assertResolvedProviderEndpointPolicy_def resolve_from_cache_def resolve_from_lookup_def
      example_url_def example_host example_public default_deps_def ends_with_def Let_def
      prunePinnedProviderEndpointResolutionCache_def evict_loop_small)

theorem pinned_address_public_witness: "\<not> isPrivateOrLocalHostname ''8.8.8.8''"
proof -
  obtain cache' where "assertResolvedProviderEndpointPolicy (\<lambda>_. Some [(''8.8.8.8'', 4)]) id example_url False
      (default_deps 0) [] = (Inr (Some \<lparr>pr_hostname = ''api.test'', pr_address = ''8.8.8.8'', pr_family = 4\<rparr>), cache')"
    using example_resolution by (metis prod.collapse)
  from pinned_address_public [OF this] show ?thesis by simp
qed

text \<open>Property (endpoint_cache_bounded). Every resolution keeps the shared cache within its 512 entries, with
  distinct keys and without an entry that has expired, as long as the interleaved requests do.\<close>

theorem endpoint_cache_bounded:
  assumes "cache_inv (rd_nowMs deps) cache"
    and "\<And>m. cache_inv (rd_nowMs deps) m \<Longrightarrow> cache_inv (rd_nowMs deps) (others m)"
  shows "cache_inv (rd_nowMs deps) (snd (assertResolvedProviderEndpointPolicy lookup others url allow deps cache))"
proof (cases "resolve_from_cache url allow deps cache")
  case (Pair st m)
  with resolve_from_cache_inv [OF assms(1), of url allow] have "cache_inv (rd_nowMs deps) m" by simp
  with Pair show ?thesis
    by (cases st) (auto simp: assertResolvedProviderEndpointPolicy_def assms(2) resolve_from_lookup_inv)
qed

theorem endpoint_cache_bounded_witness:
  "cache_inv 0 (snd (assertResolvedProviderEndpointPolicy (\<lambda>_. Some [(''8.8.8.8'', 4)]) id example_url False
     (default_deps 0) []))"
  using endpoint_cache_bounded [of "default_deps 0" "[]" id] by (simp add: cache_inv_def default_deps_def)

text \<open>Property (endpoint_policy_accepts). A provider endpoint passes validation exactly when it is an http or
  https URL without userinfo, plain http only if allowed, not a numeric spelling that is no
  canonical address, and not private or local unless allowed; the URL returned is the parsed one
  without its fragment.\<close>

theorem endpoint_policy_accepts:
  "validateProviderEndpointPolicy parseUrl name endpoint options = Inr url \<longleftrightarrow>
     (\<exists>u. parseUrl endpoint = Some u \<and> url = u\<lparr>u_hash := []\<rparr> \<and>
        (u_protocol u = ''https:'' \<or> u_protocol u = ''http:'' \<and> allowInsecureHttp options) \<and>
        u_username u = [] \<and> u_password u = [] \<and>
        (isIP (u_hostname u) = 4 \<or> isIP (u_hostname u) = 6 \<or>
         looksLikeNonCanonicalNumericHostname (u_hostname u) = False) \<and>
        (allowPrivateEndpoints options \<or> isPrivateOrLocalHostname (u_hostname u) = False))"
  by (auto simp: validateProviderEndpointPolicy_def isIP_def split: option.splits if_splits)

text \<open>Property (ipv6_classification). Every IPv6 literal without zone that \<open>isIP\<close> accepts, in any spelling
  (compressed, embedded quad, upper case), is parsed to its eight words, and unless it is an
  IPv4-mapped spelling it is refused exactly when its 128-bit value agrees with one of the
  special-use prefixes on the prefix length: the word-wise mask comparison is comparison of
  the leading bits.\<close>

theorem ipv6_classification:
  assumes "is_ipv6_plain h"
  shows "\<exists>ws. parseIpv6Words h = Some ws \<and> length ws = 8 \<and> (\<forall>w \<in> set ws. w < 2 ^ 16) \<and>
    (extractMappedIpv4FromIpv6 h = None \<longrightarrow>
     (isPrivateOrLocalIpv6 h \<longleftrightarrow> list_ex (in_ipv6_range ws) IPV6_SPECIAL_USE_RANGES))"
proof -
  obtain ws where ws: "parseIpv6Words h = Some ws" "length ws = 8" "\<forall>w \<in> set ws. w < 2 ^ 16"
    using parse_ipv6_complete [OF assms] by (auto simp: words_of_def)
  have "extractMappedIpv4FromIpv6 (to_lower (trim h)) = extractMappedIpv4FromIpv6 h"
    "parseIpv6Words (to_lower (trim h)) = parseIpv6Words h"
    by (simp_all add: extractMappedIpv4FromIpv6_def parseIpv6Words_def ipv6_normalized [OF assms])
  then have i: "extractMappedIpv4FromIpv6 h = None \<Longrightarrow>
      isPrivateOrLocalIpv6 h \<longleftrightarrow> list_ex (in_ipv6_range ws) IPV6_SPECIAL_USE_RANGES"
    using ws ranges_iff [of ws] by (simp add: isPrivateOrLocalIpv6_def)
  show ?thesis by (intro exI [of _ ws] conjI impI) (rule ws i, assumption?)+
qed

theorem ipv6_classification_witness: "isPrivateOrLocalIpv6 ''::1''"
proof -
  have ip: "is_ipv6_plain ''::1''"
    by (simp add: is_ipv6_plain_def v6_groups_def v6_seg_def is_hex_def Let_def code_unit_def)
  have norm: "to_lower (trim ''::1'') = ''::1''"
    by (simp add: to_lower_def lower_char_def trim_def js_ws_def code_unit_def)
  have "extractMappedIpv4FromIpv6 ''::1'' = None"
    by (simp add: extractMappedIpv4FromIpv6_def norm dotted_tail_def hex_tail_def mapped_tails_def starts_with_def)
  moreover have "parseIpv6WordSequence ''1'' = Some [1]"
    by (simp add: parseIpv6WordSequence_def starts_with_def hex_word_def nat_of_hex_def hex_val_def
        Let_def code_unit_def)
  then have "parseIpv6Words ''::1'' = Some (replicate 7 0 @ [1])"
    by (simp add: parseIpv6Words_def norm parseIpv6WordSequence_def)
  moreover obtain ws where "parseIpv6Words ''::1'' = Some ws \<and> length ws = 8 \<and> (\<forall>w \<in> set ws. w < 2 ^ 16) \<and>
    (extractMappedIpv4FromIpv6 ''::1'' = None \<longrightarrow>
     (isPrivateOrLocalIpv6 ''::1'' \<longleftrightarrow> list_ex (in_ipv6_range ws) IPV6_SPECIAL_USE_RANGES))"
    using ipv6_classification [OF ip] ..
  moreover have "words_value (replicate 7 0 @ [1]) = 1"
    by (simp add: words_value_zeros)
  then have "list_ex (in_ipv6_range (replicate 7 0 @ [1])) IPV6_SPECIAL_USE_RANGES"
    by (simp add: IPV6_SPECIAL_USE_RANGES_def in_ipv6_range_def)
  ultimately show ?thesis by simp
qed

end
