(* ===== verification/Text_Parsing.thy ===== *)
theory Text_Parsing
  imports Prelude
begin

text \<open>
  The numeric text formats of the configuration: \<^verbatim>\<open>platform/number-parsing.ts\<close> (canonical decimal
  integers), \<^verbatim>\<open>platform/rate-limit-window.ts\<close> and \<^verbatim>\<open>platform/retention-duration.ts\<close> (durations with a
  unit). A decimal numeral becomes a double, so the rounding of large integers to 53 significant
  bits is written out (\<open>round_double\<close>, ties to even, \<^const>\<open>None\<close> for infinity), as is the second
  rounding of a product.
\<close>

section \<open>Integers as doubles\<close>

abbreviation MAX_SAFE_INTEGER :: nat where
  "MAX_SAFE_INTEGER \<equiv> 2 ^ 53 - 1"

fun excess_bits :: "nat \<Rightarrow> nat" where
  "excess_bits n = (if n < 2 ^ 53 then 0 else Suc (excess_bits (n div 2)))"

declare excess_bits.simps [simp del]

definition rounded_quotient :: "nat \<Rightarrow> nat \<Rightarrow> nat" where
  "rounded_quotient n e =
     (let q = n div 2 ^ e; r = n mod 2 ^ e
      in if 2 * r < 2 ^ e \<or> (2 * r = 2 ^ e \<and> even q) then q else q + 1)"

definition round_double :: "nat \<Rightarrow> nat option" where
  "round_double n =
     (let e = excess_bits n; v = rounded_quotient n e * 2 ^ e
      in if v < 2 ^ 1024 then Some v else None)"

lemma excess_bits_small: "n < 2 ^ 53 \<Longrightarrow> excess_bits n = 0"
  by (subst excess_bits.simps) simp

lemma round_double_small: "n < 2 ^ 53 \<Longrightarrow> round_double n = Some n"
proof -
  assume n: "n < 2 ^ 53"
  moreover have "(2::nat) ^ 53 \<le> 2 ^ 1024" by (rule power_increasing) simp_all
  ultimately have "n < 2 ^ 1024" by (rule less_le_trans)
  with n show ?thesis by (simp add: round_double_def rounded_quotient_def excess_bits_small Let_def)
qed

lemma excess_bits_large: "2 ^ 53 \<le> n \<Longrightarrow> 0 < excess_bits n \<and> 2 ^ 52 \<le> n div 2 ^ excess_bits n"
proof (induction n rule: excess_bits.induct)
  case (1 n)
  then have eq: "excess_bits n = Suc (excess_bits (n div 2))"
    by (subst excess_bits.simps) simp
  show ?case
  proof (cases "2 ^ 53 \<le> n div 2")
    case True
    with 1 have "2 ^ 52 \<le> (n div 2) div 2 ^ excess_bits (n div 2)" by simp
    then show ?thesis by (simp add: eq div_mult2_eq)
  next
    case False
    with 1 show ?thesis by (simp add: eq excess_bits_small)
  qed
qed

lemma round_double_large: "2 ^ 53 \<le> n \<Longrightarrow> round_double n = Some v \<Longrightarrow> 2 ^ 53 \<le> v"
proof -
  assume n: "2 ^ 53 \<le> n" and v: "round_double n = Some v"
  let ?e = "excess_bits n"
  obtain q' where q': "v = q' * 2 ^ ?e" "n div 2 ^ ?e \<le> q'"
  proof
    show "v = rounded_quotient n ?e * 2 ^ ?e"
      using v by (simp add: round_double_def Let_def split: if_splits)
    show "n div 2 ^ ?e \<le> rounded_quotient n ?e"
      by (simp add: rounded_quotient_def Let_def)
  qed
  from excess_bits_large [OF n] obtain k where k: "?e = Suc k" by (cases ?e) auto
  from excess_bits_large [OF n] q'(2) have "2 ^ 52 \<le> q'" by simp
  then have "2 ^ 52 * 2 ^ 1 \<le> q' * (2 ^ ?e :: nat)"
    by (intro mult_le_mono power_increasing) (auto simp: k)
  then show ?thesis by (simp add: q'(1))
qed

lemma round_double_safe: "round_double n = Some v \<and> v < 2 ^ 53 \<longleftrightarrow> v = n \<and> n < 2 ^ 53"
  using round_double_small [of n] round_double_large [of n v] by (cases "n < 2 ^ 53") auto

section \<open>Canonical integers\<close>

text \<open>\<open>/^[1-9][0-9]*$/\<close> and \<open>/^(?:0|[1-9][0-9]*)$/\<close>\<close>

definition canonical_positive :: "string \<Rightarrow> bool" where
  "canonical_positive s \<longleftrightarrow> s \<noteq> [] \<and> list_all is_digit s \<and> hd s \<noteq> CHR ''0''"

definition canonical_non_negative :: "string \<Rightarrow> bool" where
  "canonical_non_negative s \<longleftrightarrow> s = ''0'' \<or> canonical_positive s"

definition parseCanonicalInteger :: "string option \<Rightarrow> (string \<Rightarrow> bool) \<Rightarrow> nat option" where
  "parseCanonicalInteger value matches =
     (case value of
        None \<Rightarrow> None
      | Some s \<Rightarrow>
          if \<not> matches s then None
          else (case round_double (nat_of_digits s) of
                  None \<Rightarrow> None
                | Some parsed \<Rightarrow> if parsed \<le> MAX_SAFE_INTEGER then Some parsed else None))"

definition parseCanonicalPositiveInteger :: "string option \<Rightarrow> nat option" where
  "parseCanonicalPositiveInteger value = parseCanonicalInteger value canonical_positive"

definition parseCanonicalNonNegativeInteger :: "string option \<Rightarrow> nat option" where
  "parseCanonicalNonNegativeInteger value = parseCanonicalInteger value canonical_non_negative"

lemma char_of_digit: "is_digit c \<Longrightarrow> char_of (48 + digit_val c) = c"
  by (simp add: is_digit_def digit_val_def code_unit_def)

lemma digit_val_less: "is_digit c \<Longrightarrow> digit_val c < 10"
  by (auto simp: is_digit_def digit_val_def)

lemma char_of_zero: "char_of (48::nat) = CHR ''0''"
  by (simp add: char_of_eq_iff)

lemma nat_of_digits_pos: "canonical_positive s \<Longrightarrow> 0 < nat_of_digits s"
proof (induction s rule: rev_induct)
  case (snoc c s)
  show ?case
  proof (cases "s = []")
    case True
    with snoc.prems have "is_digit c" "c \<noteq> CHR ''0''" by (auto simp: canonical_positive_def)
    moreover have "digit_val c \<noteq> 0"
    proof
      assume "digit_val c = 0"
      with \<open>is_digit c\<close> have "c = char_of (48::nat)" using char_of_digit by fastforce
      with \<open>c \<noteq> CHR ''0''\<close> show False by (simp add: char_of_zero)
    qed
    ultimately show ?thesis using True by (simp add: nat_of_digits_def)
  next
    case False
    with snoc.prems have "canonical_positive s" by (auto simp: canonical_positive_def)
    with snoc.IH show ?thesis by (simp add: nat_of_digits_snoc)
  qed
qed (simp add: canonical_positive_def)

lemma digits_of_nat_snoc: "0 < n \<Longrightarrow> d < 10 \<Longrightarrow> digits_of_nat (10 * n + d) = digits_of_nat n @ [char_of (48 + d)]"
  by (subst digits_of_nat.simps) simp

lemma digits_of_nat_of_digits: "canonical_positive s \<Longrightarrow> digits_of_nat (nat_of_digits s) = s"
proof (induction s rule: rev_induct)
  case (snoc c s)
  from snoc.prems have c: "is_digit c" by (simp add: canonical_positive_def)
  show ?case
  proof (cases "s = []")
    case True
    then show ?thesis
      using c digit_val_less [OF c] char_of_digit [OF c]
      by (subst digits_of_nat.simps) (simp add: nat_of_digits_def)
  next
    case False
    with snoc.prems have "canonical_positive s" by (auto simp: canonical_positive_def)
    then show ?thesis
      using snoc.IH digits_of_nat_snoc [OF nat_of_digits_pos digit_val_less [OF c]] char_of_digit [OF c]
      by (simp add: nat_of_digits_snoc)
  qed
qed (simp add: canonical_positive_def)

lemma digits_of_nat_hd: "0 < n \<Longrightarrow> hd (digits_of_nat n) \<noteq> CHR ''0''"
proof (induction n rule: digits_of_nat.induct)
  case (1 n)
  show ?case
  proof (cases "n < 10")
    case True
    then have "hd (digits_of_nat n) = char_of (48 + n)" by (subst digits_of_nat.simps) simp
    moreover have "code_unit (char_of (48 + n)) = 48 + n" using True by (simp add: code_unit_char_of)
    moreover have "code_unit CHR ''0'' = 48" by (simp add: code_unit_def)
    ultimately show ?thesis using 1(2) by fastforce
  next
    case False
    with 1 show ?thesis by (subst digits_of_nat.simps) simp
  qed
qed

lemma canonical_positive_iff: "canonical_positive s \<longleftrightarrow> (\<exists>n > 0. s = digits_of_nat n)"
proof
  assume "canonical_positive s"
  then show "\<exists>n > 0. s = digits_of_nat n"
    using digits_of_nat_of_digits nat_of_digits_pos by metis
qed (auto simp: canonical_positive_def list_all_iff digits_of_nat_digits digits_of_nat_hd)

lemma digits_of_nat_0: "digits_of_nat 0 = ''0''"
  by (subst digits_of_nat.simps) (simp add: char_of_zero)

lemma canonical_non_negative_iff: "canonical_non_negative s \<longleftrightarrow> (\<exists>n. s = digits_of_nat n)"
  unfolding canonical_non_negative_def canonical_positive_iff
  by (metis digits_of_nat_0 gr0I)

lemma digits_of_nat_inject [simp]: "digits_of_nat m = digits_of_nat n \<longleftrightarrow> m = n"
  by (metis nat_of_digits_of_nat)

lemma parse_digits_of_nat:
  "matches (digits_of_nat n) \<Longrightarrow>
   parseCanonicalInteger (Some (digits_of_nat n)) matches = (if n \<le> MAX_SAFE_INTEGER then Some n else None)"
  using round_double_small [of n] round_double_large [of n]
  by (fastforce simp: parseCanonicalInteger_def nat_of_digits_of_nat split: option.splits)

text \<open>Property (canonical_integer_roundtrip). \<open>parseCanonicalNonNegativeInteger\<close> accepts exactly the decimal
  numerals, without leading zeros, sign, blanks or exponent, of the integers a double holds
  exactly, and returns the integer written: parsing and printing are mutually inverse.\<close>

theorem canonical_integer_roundtrip:
  "parseCanonicalNonNegativeInteger (Some s) = Some n \<longleftrightarrow> s = digits_of_nat n \<and> n \<le> MAX_SAFE_INTEGER"
proof (cases "canonical_non_negative s")
  case True
  then obtain m where "s = digits_of_nat m" using canonical_non_negative_iff by blast
  with True show ?thesis
    by (auto simp: parseCanonicalNonNegativeInteger_def parse_digits_of_nat)
next
  case False
  then have "s \<noteq> digits_of_nat n" using canonical_non_negative_iff by blast
  with False show ?thesis by (simp add: parseCanonicalNonNegativeInteger_def parseCanonicalInteger_def)
qed

section \<open>Durations\<close>

definition parse_int_digits :: "string \<Rightarrow> nat option" where
  "parse_int_digits s = round_double (nat_of_digits s)"

definition RETENTION_DURATION_UNITS :: "char \<Rightarrow> nat option" where
  "RETENTION_DURATION_UNITS u =
     (if u = CHR ''m'' then Some 60000
      else if u = CHR ''h'' then Some (60 * 60000)
      else if u = CHR ''d'' then Some (24 * 60 * 60000)
      else if u = CHR ''w'' then Some (7 * 24 * 60 * 60000)
      else None)"

definition MAX_RETENTION_DURATION_MS :: nat where
  "MAX_RETENTION_DURATION_MS = 10 * 365 * 24 * 60 * 60000"

text \<open>
  \<open>/^([1-9]\d*)([mhdw])$/\<close> splits off the last code unit. A product of two doubles is rounded;
  \<open>parseInt\<close> of so many digits that it is infinite gives \<open>null\<close>.
\<close>

definition parseRetentionDurationMs :: "string \<Rightarrow> nat option" where
  "parseRetentionDurationMs value =
     (let normalized = to_lower (trim value)
      in if normalized = [] \<or> \<not> canonical_positive (butlast normalized) then None
         else (case RETENTION_DURATION_UNITS (last normalized) of
                 None \<Rightarrow> None
               | Some multiplier \<Rightarrow>
                   (case parse_int_digits (butlast normalized) of
                      None \<Rightarrow> None
                    | Some amount \<Rightarrow>
                        if amount \<le> 0 then None
                        else (case round_double (amount * multiplier) of
                                None \<Rightarrow> None
                              | Some durationMs \<Rightarrow>
                                  if durationMs > MAX_SAFE_INTEGER \<or> durationMs > MAX_RETENTION_DURATION_MS
                                  then None else Some durationMs))))"

definition isRetentionDurationString :: "string option \<Rightarrow> bool" where
  "isRetentionDurationString value =
     (case value of None \<Rightarrow> False | Some s \<Rightarrow> parseRetentionDurationMs s \<noteq> None)"

datatype duration_error = RetentionDurationUsage

definition retentionDurationToCutoff :: "string \<Rightarrow> int \<Rightarrow> duration_error + int" where
  "retentionDurationToCutoff value nowMs =
     (case parseRetentionDurationMs value of
        None \<Rightarrow> Inl RetentionDurationUsage
      | Some durationMs \<Rightarrow> Inr (nowMs - int durationMs))"

text \<open>\<open>/^([1-9]\d*)(ms|s|m|h)$/i\<close>: the digits determine where the unit starts.\<close>

definition rate_window_match :: "string \<Rightarrow> (string \<times> string) option" where
  "rate_window_match s =
     (let amount = takeWhile is_digit s; unit = dropWhile is_digit s
      in if canonical_positive amount \<and> to_lower unit \<in> {''ms'', ''s'', ''m'', ''h''}
         then Some (amount, unit) else None)"

definition parseRateLimitWindowMs :: "string \<Rightarrow> nat option" where
  "parseRateLimitWindowMs value =
     (case rate_window_match (trim value) of
        None \<Rightarrow> None
      | Some (digits, rawUnit) \<Rightarrow>
          let unit = to_lower rawUnit
          in (case parse_int_digits digits of
                None \<Rightarrow> None
              | Some amount \<Rightarrow>
                  if amount \<le> 0 then None
                  else if unit = ''ms'' then Some amount
                  else if unit = ''s'' then round_double (amount * 1000)
                  else if unit = ''m'' then round_double (amount * 60000)
                  else if unit = ''h'' then Option.bind (round_double (amount * 60)) (\<lambda>x. round_double (x * 60000))
                  else None))"

lemma retention_unit_bounds: "RETENTION_DURATION_UNITS u = Some k \<Longrightarrow> 60000 \<le> k \<and> k \<le> 604800000"
  by (auto simp: RETENTION_DURATION_UNITS_def split: if_splits)

lemma retention_result:
  assumes "0 < n" "RETENTION_DURATION_UNITS u = Some k"
  shows "(case round_double n of None \<Rightarrow> None | Some amount \<Rightarrow>
            if amount \<le> 0 then None
            else (case round_double (amount * k) of None \<Rightarrow> None | Some d \<Rightarrow>
                    if d > MAX_SAFE_INTEGER \<or> d > MAX_RETENTION_DURATION_MS then None else Some d)) =
         (if n * k \<le> MAX_RETENTION_DURATION_MS then Some (n * k) else None)"
proof (cases "n < 2 ^ 53")
  case True
  show ?thesis
  proof (cases "n * k < 2 ^ 53")
    case False
    then have "round_double (n * k) = Some d \<Longrightarrow> d > MAX_SAFE_INTEGER" for d
      using round_double_large [of "n * k" d] by simp
    with True False assms(1) show ?thesis
      by (auto simp: round_double_small MAX_RETENTION_DURATION_MS_def split: option.splits)
  qed (use True assms(1) in \<open>simp add: round_double_small MAX_RETENTION_DURATION_MS_def\<close>)
next
  case False
  have k: "1 \<le> k" using retention_unit_bounds [OF assms(2)] by simp
  have big: "2 ^ 53 \<le> a * k" if "2 ^ 53 \<le> a" for a
    using mult_le_mono [OF that k] by simp
  have "round_double n = Some a \<Longrightarrow> round_double (a * k) = Some d \<Longrightarrow> d > MAX_SAFE_INTEGER" for a d
    using round_double_large [of n a] round_double_large [of "a * k" d] False big [of a] by simp
  moreover have "\<not> n * k \<le> MAX_RETENTION_DURATION_MS"
    using big [of n] False by (simp add: MAX_RETENTION_DURATION_MS_def)
  ultimately show ?thesis by (auto split: option.splits)
qed

text \<open>Property (retention_duration_exact). A retention duration is accepted exactly when, after trimming and
  lowering, it is a positive decimal numeral followed by one of the four units and denotes at most
  ten years; the result is then the exact number of milliseconds. No rounding of large amounts
  can bring a longer duration below the limit.\<close>

theorem retention_duration_exact:
  "parseRetentionDurationMs s = Some d \<longleftrightarrow>
     (\<exists>n u k. to_lower (trim s) = digits_of_nat n @ [u] \<and> 0 < n \<and>
        RETENTION_DURATION_UNITS u = Some k \<and> d = n * k \<and> d \<le> MAX_RETENTION_DURATION_MS)"
proof (cases "\<exists>n u. to_lower (trim s) = digits_of_nat n @ [u] \<and> 0 < n")
  case True
  then obtain n u where nu: "to_lower (trim s) = digits_of_nat n @ [u]" "0 < n" by blast
  have can: "canonical_positive (digits_of_nat n)" using nu(2) canonical_positive_iff by blast
  show ?thesis
  proof (cases "RETENTION_DURATION_UNITS u")
    case None
    with nu can show ?thesis by (simp add: parseRetentionDurationMs_def)
  next
    case (Some k)
    have "parseRetentionDurationMs s = (if n * k \<le> MAX_RETENTION_DURATION_MS then Some (n * k) else None)"
      using retention_result [OF nu(2) Some] nu(1) can Some
      by (simp add: parseRetentionDurationMs_def parse_int_digits_def nat_of_digits_of_nat)
    with nu Some show ?thesis by auto
  qed
next
  case False
  have "\<not> (to_lower (trim s) \<noteq> [] \<and> canonical_positive (butlast (to_lower (trim s))))"
  proof
    assume a: "to_lower (trim s) \<noteq> [] \<and> canonical_positive (butlast (to_lower (trim s)))"
    then obtain n where "0 < n" "butlast (to_lower (trim s)) = digits_of_nat n"
      using canonical_positive_iff by blast
    with a have "to_lower (trim s) = digits_of_nat n @ [last (to_lower (trim s))]"
      by (metis append_butlast_last_id)
    with \<open>0 < n\<close> False show False by blast
  qed
  with False show ?thesis by (auto simp: parseRetentionDurationMs_def Let_def)
qed

lemma round_double_positive: "0 < n \<Longrightarrow> round_double n = Some v \<Longrightarrow> 0 < v"
  using round_double_small [of n] round_double_large [of n v] by (cases "n < 2 ^ 53") auto

lemma round_double_times: "0 < n \<Longrightarrow> 0 < k \<Longrightarrow> round_double (n * k) = Some v \<Longrightarrow> 0 < v"
  by (rule round_double_positive [of "n * k"]) simp_all

lemma rate_window_positive: "parseRateLimitWindowMs s = Some w \<Longrightarrow> 0 < w"
  by (auto simp: parseRateLimitWindowMs_def Let_def Option.bind_eq_Some_conv
      split: option.splits if_splits prod.splits)
    (metis round_double_times zero_less_numeral)+

end
