(* ===== verification/Rate_Limits.thy ===== *)
theory Rate_Limits
  imports Prelude
begin

text \<open>
  The two limiters of the gateway: the per-caller fixed-window limiter
  (\<^verbatim>\<open>runtime/rate-limit.ts\<close>, instantiated in \<^verbatim>\<open>runtime/runtime-rate-limits.ts\<close>) and the
  failed-authentication limiter (\<^verbatim>\<open>runtime/auth-rate-limit.ts\<close>), both built on
  \<^verbatim>\<open>runtime/window-rotation.ts\<close>.

  Times and window lengths are integers: \<open>Date.now()\<close> is one, and every window length that
  reaches a limiter is a constant or comes from \<open>parseRateLimitWindowMs\<close>. The checks
  \<open>Number.isInteger\<close> and \<open>Number.isFinite\<close> of the constructors are therefore part of the types.
\<close>

section \<open>Window rotation\<close>

definition advanceWindow :: "('s \<Rightarrow> int) \<Rightarrow> 's \<Rightarrow> int \<Rightarrow> int \<Rightarrow> (int \<Rightarrow> 's) \<Rightarrow> 's" where
  "advanceWindow startedAt state nowMs windowMs reset =
     (if startedAt state = 0 \<or> nowMs - startedAt state \<ge> windowMs then reset nowMs else state)"

text \<open>\<open>Math.ceil(x / 1000)\<close>\<close>

definition ceil_seconds :: "int \<Rightarrow> int" where
  "ceil_seconds x = - ((- x) div 1000)"

lemma ceil_seconds_bounds: "x \<le> 1000 * ceil_seconds x" "1000 * ceil_seconds x < x + 1000"
  unfolding ceil_seconds_def by linarith+

lemma ceil_seconds_mono: "x \<le> y \<Longrightarrow> ceil_seconds x \<le> ceil_seconds y"
  unfolding ceil_seconds_def by (simp add: zdiv_mono1)

section \<open>The per-caller limiter\<close>

record rl_entry =
  rl_windowStartedAtMs :: int
  rl_requestCount :: int
  rl_lastTouchedAtMs :: int

record rl_config =
  rl_requests :: int
  rl_windowMs :: int
  rl_maxEntries :: nat
  rl_entryTtlMs :: "int option"

datatype rl_decision =
    Allowed int int     \<comment> \<open>remaining, resetAtMs\<close>
  | Limited int int     \<comment> \<open>retryAfterSeconds, resetAtMs\<close>

datatype limiter_error = BadRequests | BadWindowMs | BadThreshold | BadMaxEntries | BadEntryTtlMs

type_synonym rl_entries = "(string, rl_entry) js_map"

definition createGlobalRateLimiter ::
  "int \<Rightarrow> int \<Rightarrow> int option \<Rightarrow> int option \<Rightarrow> limiter_error + rl_config" where
  "createGlobalRateLimiter requests windowMs maxEntries entryTtlMs =
     (if requests \<le> 0 then Inl BadRequests
      else if windowMs \<le> 0 then Inl BadWindowMs
      else
        let maxE = (case maxEntries of None \<Rightarrow> 10000 | Some n \<Rightarrow> n)
        in if maxE \<le> 0 then Inl BadMaxEntries
           else if (case entryTtlMs of None \<Rightarrow> False | Some t \<Rightarrow> t \<le> 0) then Inl BadEntryTtlMs
           else Inr \<lparr>rl_requests = requests, rl_windowMs = windowMs, rl_maxEntries = nat maxE,
                     rl_entryTtlMs = entryTtlMs\<rparr>)"

definition evictRateLimitEntriesOlderThan :: "int \<Rightarrow> int \<Rightarrow> rl_entries \<Rightarrow> rl_entries" where
  "evictRateLimitEntriesOlderThan entryTtlMs nowMs entries =
     filter (\<lambda>e. \<not> (nowMs - rl_lastTouchedAtMs (snd e) > entryTtlMs)) entries"

text \<open>The scan for the least recently touched key; the first of several wins.\<close>

fun oldest_entry :: "(string \<times> int) option \<Rightarrow> rl_entries \<Rightarrow> (string \<times> int) option" where
  "oldest_entry acc [] = acc"
| "oldest_entry acc ((k, c) # m) =
     oldest_entry
       (if (case acc of None \<Rightarrow> True | Some (_, t) \<Rightarrow> rl_lastTouchedAtMs c < t)
        then Some (k, rl_lastTouchedAtMs c) else acc) m"

definition oldest_key :: "rl_entries \<Rightarrow> string option" where
  "oldest_key m = map_option fst (oldest_entry None m)"

definition normalizeCallerKey :: "string \<Rightarrow> string" where
  "normalizeCallerKey k = (if non_blank k then k else ''unknown'')"

text \<open>
  The entry stored in the map is the object that is counted up after the eviction loop; when the
  loop removed it, the increment is lost with it.
\<close>

definition write_through :: "string \<Rightarrow> 'v \<Rightarrow> (string, 'v) js_map \<Rightarrow> (string, 'v) js_map" where
  "write_through k v m = (case jm_get m k of None \<Rightarrow> m | Some _ \<Rightarrow> jm_set k v m)"

definition rl_live :: "rl_config \<Rightarrow> rl_entries \<Rightarrow> int \<Rightarrow> rl_entries" where
  "rl_live cfg entries nowMs =
     (case rl_entryTtlMs cfg of
        None \<Rightarrow> entries
      | Some ttl \<Rightarrow> evictRateLimitEntriesOlderThan ttl nowMs entries)"

definition rl_next :: "rl_config \<Rightarrow> rl_entries \<Rightarrow> string \<Rightarrow> int \<Rightarrow> rl_entry" where
  "rl_next cfg live key nowMs =
     (let currentState =
            (case jm_get live key of
               Some e \<Rightarrow> e
             | None \<Rightarrow> \<lparr>rl_windowStartedAtMs = 0, rl_requestCount = 0, rl_lastTouchedAtMs = nowMs\<rparr>);
          nextState =
            advanceWindow rl_windowStartedAtMs currentState nowMs (rl_windowMs cfg)
              (\<lambda>t. \<lparr>rl_windowStartedAtMs = t, rl_requestCount = 0, rl_lastTouchedAtMs = nowMs\<rparr>)
      in nextState\<lparr>rl_lastTouchedAtMs := nowMs\<rparr>)"

definition rl_check :: "rl_config \<Rightarrow> rl_entries \<Rightarrow> string \<Rightarrow> int \<Rightarrow> rl_decision \<times> rl_entries" where
  "rl_check cfg entries callerKey nowMs =
     (let key = normalizeCallerKey callerKey;
          live = rl_live cfg entries nowMs;
          nextState = rl_next cfg live key nowMs;
          kept = evict_loop oldest_key (rl_maxEntries cfg) (jm_set key nextState (jm_delete key live));
          resetAtMs = rl_windowStartedAtMs nextState + rl_windowMs cfg
      in if rl_requestCount nextState \<ge> rl_requests cfg
         then (Limited (max 1 (ceil_seconds (resetAtMs - nowMs))) resetAtMs, kept)
         else
           let counted = nextState\<lparr>rl_requestCount := rl_requestCount nextState + 1\<rparr>
           in (Allowed (max 0 (rl_requests cfg - rl_requestCount counted)) resetAtMs,
               write_through key counted kept))"

fun rl_run :: "rl_config \<Rightarrow> rl_entries \<Rightarrow> (string \<times> int) list \<Rightarrow> rl_decision list \<times> rl_entries" where
  "rl_run cfg m [] = ([], m)"
| "rl_run cfg m ((k, t) # evs) =
     (let (d, m') = rl_check cfg m k t; (ds, m'') = rl_run cfg m' evs in (d # ds, m''))"

definition healthRateLimiterConfig :: rl_config where
  "healthRateLimiterConfig =
     \<lparr>rl_requests = 100, rl_windowMs = 1000, rl_maxEntries = 10000, rl_entryTtlMs = Some 60000\<rparr>"

fun is_allowed :: "rl_decision \<Rightarrow> bool" where
  "is_allowed (Allowed _ _) = True"
| "is_allowed (Limited _ _) = False"

subsection \<open>The victim of the eviction loop\<close>

lemma oldest_entry_append: "oldest_entry acc (m @ m') = oldest_entry (oldest_entry acc m) m'"
  by (induction acc m rule: oldest_entry.induct) auto

lemma oldest_entry_Some: "oldest_entry (Some a) m \<noteq> None"
proof (induction m arbitrary: a)
  case (Cons e m)
  then show ?case by (cases e; cases a) auto
qed simp

lemma oldest_entry_origin:
  "oldest_entry acc m = Some (k, t) \<Longrightarrow>
     acc = Some (k, t) \<or> (\<exists>c. (k, c) \<in> set m \<and> rl_lastTouchedAtMs c = t)"
proof (induction acc m rule: oldest_entry.induct)
  case (2 acc k' c m)
  then show ?case by (fastforce split: if_splits)
qed simp

interpretation lru: victim_selection oldest_key
proof
  fix m :: rl_entries and k
  assume "oldest_key m = Some k"
  then show "k \<in> jm_keys m"
    by (auto simp: oldest_key_def jm_keys_def dest!: oldest_entry_origin intro: rev_image_eqI)
next
  fix m :: rl_entries
  assume "m \<noteq> []"
  then show "oldest_key m \<noteq> None"
    using oldest_entry_Some by (cases m) (auto simp: oldest_key_def split: prod.splits)
qed

text \<open>The entry at the end of the map is not the victim when it was touched last.\<close>

lemma oldest_key_not_last:
  assumes "m \<noteq> []" and "k \<notin> jm_keys m"
    and "\<And>k' c'. (k', c') \<in> set m \<Longrightarrow> rl_lastTouchedAtMs c' \<le> rl_lastTouchedAtMs c"
  shows "oldest_key (m @ [(k, c)]) \<noteq> Some k"
proof -
  obtain a t where at: "oldest_entry None m = Some (a, t)"
    using assms(1) lru.victim_some [of m] by (auto simp: oldest_key_def)
  then obtain c' where c': "(a, c') \<in> set m" "rl_lastTouchedAtMs c' = t"
    by (auto dest!: oldest_entry_origin)
  then have "t \<le> rl_lastTouchedAtMs c" using assms(3) by auto
  moreover from c' assms(2) have "a \<noteq> k" by (auto simp: jm_keys_def intro: rev_image_eqI)
  ultimately show ?thesis by (simp add: oldest_key_def oldest_entry_append at)
qed

subsection \<open>What one check does to the map\<close>

lemma write_through_get:
  "jm_get (write_through k v m) k' =
     (if k' = k \<and> jm_get m k \<noteq> None then Some v else jm_get m k')"
  by (auto simp: write_through_def jm_get_set split: option.splits)

lemma write_through_inv: "jm_inv m \<Longrightarrow> jm_inv (write_through k v m)"
  by (simp add: write_through_def jm_inv_set split: option.splits)

lemma write_through_length: "length (write_through k v m) = length m"
  by (auto simp: write_through_def jm_length_set jm_keys_get split: option.splits)

lemma write_through_mem:
  "jm_inv m \<Longrightarrow> e \<in> set (write_through k v m) \<Longrightarrow> e = (k, v) \<or> e \<in> set m"
  by (auto simp: write_through_def split: option.splits dest: jm_set_mem)

lemma rl_live_subset: "set (rl_live cfg m t) \<subseteq> set m"
  by (auto simp: rl_live_def evictRateLimitEntriesOlderThan_def split: option.splits)

lemma rl_live_inv: "jm_inv m \<Longrightarrow> jm_inv (rl_live cfg m t)"
  by (simp add: rl_live_def evictRateLimitEntriesOlderThan_def jm_inv_filter split: option.splits)

lemma rl_live_length: "length (rl_live cfg m t) \<le> length m"
  by (simp add: rl_live_def evictRateLimitEntriesOlderThan_def split: option.splits)

lemma rl_next_touched [simp]: "rl_lastTouchedAtMs (rl_next cfg live k t) = t"
  by (simp add: rl_next_def Let_def)

lemma rl_next_count:
  assumes "\<And>e. jm_get live k = Some e \<Longrightarrow> 0 \<le> rl_requestCount e \<and> rl_requestCount e \<le> n" "0 \<le> n"
  shows "0 \<le> rl_requestCount (rl_next cfg live k t)" "rl_requestCount (rl_next cfg live k t) \<le> n"
  using assms
  by (auto simp: rl_next_def Let_def advanceWindow_def split: option.splits)

definition rl_inv :: "rl_config \<Rightarrow> int \<Rightarrow> rl_entries \<Rightarrow> bool" where
  "rl_inv cfg now m \<longleftrightarrow>
     jm_inv m \<and> length m \<le> rl_maxEntries cfg \<and>
     (\<forall>(k, e) \<in> set m.
        0 \<le> rl_requestCount e \<and> rl_requestCount e \<le> rl_requests cfg \<and> rl_lastTouchedAtMs e \<le> now)"

lemma rl_inv_empty: "rl_inv cfg now []"
  by (simp add: rl_inv_def)

lemma rl_inv_get:
  "rl_inv cfg now m \<Longrightarrow> jm_get m k = Some e \<Longrightarrow>
     0 \<le> rl_requestCount e \<and> rl_requestCount e \<le> rl_requests cfg \<and> rl_lastTouchedAtMs e \<le> now"
  by (auto simp: rl_inv_def dest!: jm_get_mem)

lemma rl_check_entries:
  "snd (rl_check cfg m k t) =
     (let key = normalizeCallerKey k; live = rl_live cfg m t; nxt = rl_next cfg live key t;
          kept = evict_loop oldest_key (rl_maxEntries cfg) (jm_set key nxt (jm_delete key live))
      in if rl_requestCount nxt \<ge> rl_requests cfg then kept
         else write_through key (nxt\<lparr>rl_requestCount := rl_requestCount nxt + 1\<rparr>) kept)"
  by (simp add: rl_check_def Let_def)

lemma rl_inv_step:
  assumes "rl_inv cfg now m" "now \<le> t" "0 \<le> rl_requests cfg"
  shows "rl_inv cfg t (snd (rl_check cfg m k t))"
proof -
  let ?key = "normalizeCallerKey k" and ?live = "rl_live cfg m t"
  let ?nxt = "rl_next cfg ?live ?key t"
  let ?m2 = "jm_set ?key ?nxt (jm_delete ?key ?live)"
  let ?kept = "evict_loop oldest_key (rl_maxEntries cfg) ?m2"
  have inv_m2: "jm_inv ?m2"
    using assms(1) by (intro jm.inv_replace rl_live_inv) (simp add: rl_inv_def)
  then have inv: "jm_inv ?kept" by (rule lru.evict_loop_inv)
  have live: "0 \<le> rl_requestCount e \<and> rl_requestCount e \<le> rl_requests cfg \<and> rl_lastTouchedAtMs e \<le> t"
    if "(k', e) \<in> set ?live" for k' e
    using that rl_live_subset [of cfg m t] assms(1,2) by (force simp: rl_inv_def)
  have nxt: "0 \<le> rl_requestCount ?nxt" "rl_requestCount ?nxt \<le> rl_requests cfg"
    by (rule rl_next_count; use live assms(3) in \<open>auto dest: jm_get_mem\<close>)+
  have kept: "0 \<le> rl_requestCount e \<and> rl_requestCount e \<le> rl_requests cfg \<and> rl_lastTouchedAtMs e \<le> t"
    if "(k', e) \<in> set ?kept" for k' e
  proof -
    from that have "(k', e) \<in> set ?m2" using lru.evict_loop_subset by blast
    then have "(k', e) = (?key, ?nxt) \<or> (k', e) \<in> set ?live"
      by (auto simp: jm_move_to_end jm_delete_mem)
    then show ?thesis using live nxt by auto
  qed
  show ?thesis
    using inv kept nxt lru.evict_loop_bound [of "rl_maxEntries cfg" ?m2]
    by (auto simp: rl_check_entries Let_def rl_inv_def write_through_inv write_through_length
        dest!: write_through_mem [OF inv])
qed

subsection \<open>The caller's own entry survives the eviction\<close>

lemma rl_own_entry_kept:
  fixes k :: string
  assumes "rl_inv cfg now m" "now \<le> t" "0 < rl_maxEntries cfg"
  defines "key \<equiv> normalizeCallerKey k" and "nxt \<equiv> rl_next cfg (rl_live cfg m t) (normalizeCallerKey k) t"
  shows "jm_get (evict_loop oldest_key (rl_maxEntries cfg)
                  (jm_set key nxt (jm_delete key (rl_live cfg m t)))) key = Some nxt"
proof (rule lru.evict_loop_keeps
    [where Q = "\<lambda>m'. \<exists>ms. m' = ms @ [(key, nxt)] \<and> key \<notin> jm_keys ms \<and>
                       (\<forall>(k', e) \<in> set ms. rl_lastTouchedAtMs e \<le> t)"])
  have "rl_lastTouchedAtMs e \<le> t" if "(k', e) \<in> set (rl_live cfg m t)" for k' e
    using that rl_live_subset [of cfg m t] assms(1,2) by (force simp: rl_inv_def)
  then show "\<exists>ms. jm_set key nxt (jm_delete key (rl_live cfg m t)) = ms @ [(key, nxt)] \<and>
      key \<notin> jm_keys ms \<and> (\<forall>(k', e) \<in> set ms. rl_lastTouchedAtMs e \<le> t)"
    by (intro exI [of _ "jm_delete key (rl_live cfg m t)"])
      (auto simp: jm_move_to_end jm.keys_del jm_delete_mem)
next
  fix m' k'
  assume "\<exists>ms. m' = ms @ [(key, nxt)] \<and> key \<notin> jm_keys ms \<and>
             (\<forall>(k', e) \<in> set ms. rl_lastTouchedAtMs e \<le> t)"
    and len: "rl_maxEntries cfg < length m'" and vic: "oldest_key m' = Some k'"
  then obtain ms where ms: "m' = ms @ [(key, nxt)]" "key \<notin> jm_keys ms"
    and old: "\<And>k' e. (k', e) \<in> set ms \<Longrightarrow> rl_lastTouchedAtMs e \<le> t" by blast
  from ms len assms(3) have "ms \<noteq> []" by auto
  then have "k' \<noteq> key"
    using oldest_key_not_last [of ms key nxt] ms vic old by (auto simp: nxt_def)
  moreover from this ms have "jm_delete k' m' = jm_delete k' ms @ [(key, nxt)]"
    by (simp add: jm_delete_def)
  moreover have "key \<notin> jm_keys (jm_delete k' ms)" using ms by (simp add: jm.keys_del)
  moreover have "\<forall>(k'', e) \<in> set (jm_delete k' ms). rl_lastTouchedAtMs e \<le> t"
    using old by (auto simp: jm_delete_mem)
  ultimately show "k' \<noteq> key \<and> (\<exists>ms. jm_delete k' m' = ms @ [(key, nxt)] \<and> key \<notin> jm_keys ms \<and>
      (\<forall>(k', e) \<in> set ms. rl_lastTouchedAtMs e \<le> t))"
    by blast
qed (simp add: jm_get_set)

subsection \<open>The abstract fixed-window counter\<close>

text \<open>
  The limiter implements a counter per caller: the start of the caller's window and the number of
  requests admitted in it. \<open>spec_check\<close> is that counter with an unbounded table.
\<close>

type_synonym window_table = "string \<rightharpoonup> int \<times> int"

definition spec_window :: "int \<Rightarrow> window_table \<Rightarrow> string \<Rightarrow> int \<Rightarrow> int \<times> int" where
  "spec_window windowMs A key now =
     (case A key of
        None \<Rightarrow> (now, 0)
      | Some (s, c) \<Rightarrow> if s = 0 \<or> now - s \<ge> windowMs then (now, 0) else (s, c))"

definition spec_check ::
  "int \<Rightarrow> int \<Rightarrow> window_table \<Rightarrow> string \<Rightarrow> int \<Rightarrow> rl_decision \<times> window_table" where
  "spec_check requests windowMs A key now =
     (let (s, c) = spec_window windowMs A key now
      in if c \<ge> requests
         then (Limited (max 1 (ceil_seconds (s + windowMs - now))) (s + windowMs), A(key \<mapsto> (s, c)))
         else (Allowed (max 0 (requests - (c + 1))) (s + windowMs), A(key \<mapsto> (s, c + 1))))"

definition rl_abs :: "rl_entries \<Rightarrow> window_table" where
  "rl_abs m k = map_option (\<lambda>e. (rl_windowStartedAtMs e, rl_requestCount e)) (jm_get m k)"

lemma rl_next_spec:
  "(rl_windowStartedAtMs (rl_next cfg m key t), rl_requestCount (rl_next cfg m key t)) =
     spec_window (rl_windowMs cfg) (rl_abs m) key t"
  by (auto simp: rl_next_def Let_def advanceWindow_def spec_window_def rl_abs_def
      split: option.splits)

lemma rl_decision_spec:
  "fst (rl_check cfg m k t) =
     fst (spec_check (rl_requests cfg) (rl_windowMs cfg) (rl_abs (rl_live cfg m t))
       (normalizeCallerKey k) t)"
  using rl_next_spec [of cfg "rl_live cfg m t" "normalizeCallerKey k" t, symmetric]
  by (simp add: rl_check_def spec_check_def Let_def)

lemma rl_no_eviction:
  assumes "rl_entryTtlMs cfg = None" "jm_inv m"
    and "insert (normalizeCallerKey k) (jm_keys m) \<subseteq> K" "finite K" "card K \<le> rl_maxEntries cfg"
  defines "key \<equiv> normalizeCallerKey k"
  shows "rl_live cfg m t = m"
    and "evict_loop oldest_key (rl_maxEntries cfg) (jm_set key e (jm_delete key m)) =
           jm_set key e (jm_delete key m)"
proof -
  show "rl_live cfg m t = m" using assms(1) by (simp add: rl_live_def)
  have "length (jm_set key e (jm_delete key m)) = card (insert key (jm_keys m))"
    using assms(2) by (subst jm_card_keys [symmetric]) (auto simp: jm.inv_replace jm.keys_replace)
  also have "\<dots> \<le> rl_maxEntries cfg"
    using card_mono [OF assms(4,3)] assms(5) by (simp add: key_def)
  finally show "evict_loop oldest_key (rl_maxEntries cfg) (jm_set key e (jm_delete key m)) =
           jm_set key e (jm_delete key m)"
    by (rule evict_loop_small)
qed

lemma rl_state_spec:
  assumes "rl_entryTtlMs cfg = None" "jm_inv m"
    and "insert (normalizeCallerKey k) (jm_keys m) \<subseteq> K" "finite K" "card K \<le> rl_maxEntries cfg"
  shows "rl_abs (snd (rl_check cfg m k t)) =
           snd (spec_check (rl_requests cfg) (rl_windowMs cfg) (rl_abs m) (normalizeCallerKey k) t)"
proof -
  let ?key = "normalizeCallerKey k"
  note noev = rl_no_eviction [OF assms]
  have sw: "spec_window (rl_windowMs cfg) (rl_abs m) ?key t =
      (rl_windowStartedAtMs (rl_next cfg m ?key t), rl_requestCount (rl_next cfg m ?key t))"
    by (simp add: rl_next_spec)
  show ?thesis
    by (rule ext)
      (simp add: rl_check_entries Let_def noev spec_check_def sw rl_abs_def write_through_get
        jm.get_replace)
qed

subsection \<open>At most the configured number of requests in a window\<close>

fun admitted :: "string \<Rightarrow> (string \<times> int) list \<Rightarrow> rl_decision list \<Rightarrow> nat" where
  "admitted key ((k, t) # evs) (d # ds) =
     (if normalizeCallerKey k = key \<and> is_allowed d then Suc (admitted key evs ds) else admitted key evs ds)"
| "admitted key _ _ = 0"

text \<open>The caller's counter during one window that starts no earlier than \<open>t0\<close>.\<close>

definition in_window :: "rl_config \<Rightarrow> string \<Rightarrow> int \<Rightarrow> window_table \<Rightarrow> int \<Rightarrow> bool" where
  "in_window cfg key t0 A c \<longleftrightarrow>
     (case A key of
        None \<Rightarrow> c = 0
      | Some (s, n) \<Rightarrow> t0 \<le> s \<and> s < t0 + rl_windowMs cfg \<and> n = c) \<and>
     0 \<le> c \<and> c \<le> rl_requests cfg"

lemma in_window_spec_window:
  assumes "in_window cfg key t0 A c" "0 < t0" "t0 \<le> t" "t < t0 + rl_windowMs cfg"
  obtains s where "spec_window (rl_windowMs cfg) A key t = (s, c)" "t0 \<le> s" "s < t0 + rl_windowMs cfg"
  using assms by (fastforce simp: in_window_def spec_window_def split: option.splits)

lemma in_window_step:
  assumes "in_window cfg key t0 A c" "0 < t0" "t0 \<le> t" "t < t0 + rl_windowMs cfg"
  shows "in_window cfg key t0 (snd (spec_check (rl_requests cfg) (rl_windowMs cfg) A k t))
           (if k = key \<and> is_allowed (fst (spec_check (rl_requests cfg) (rl_windowMs cfg) A k t))
            then c + 1 else c)"
proof (cases "k = key")
  case True
  obtain s where "spec_window (rl_windowMs cfg) A key t = (s, c)" "t0 \<le> s" "s < t0 + rl_windowMs cfg"
    using in_window_spec_window [OF assms] .
  with True assms(1) show ?thesis by (auto simp: spec_check_def in_window_def)
next
  case False
  with assms(1) show ?thesis
    by (auto simp: spec_check_def in_window_def Let_def split: prod.splits)
qed

lemma rl_check_keys:
  assumes "rl_entryTtlMs cfg = None" "jm_inv m"
    and "insert (normalizeCallerKey k) (jm_keys m) \<subseteq> K" "finite K" "card K \<le> rl_maxEntries cfg"
  shows "jm_inv (snd (rl_check cfg m k t))"
    and "jm_keys (snd (rl_check cfg m k t)) \<subseteq> K"
proof -
  note noev = rl_no_eviction [OF assms]
  show "jm_inv (snd (rl_check cfg m k t))"
    using assms(2) by (simp add: rl_check_entries Let_def noev write_through_inv jm.inv_replace)
  show "jm_keys (snd (rl_check cfg m k t)) \<subseteq> K"
    using assms(3)
    by (auto simp: rl_check_entries Let_def noev subset_iff jm_keys_get write_through_get
        jm.get_replace split: if_splits)
qed


subsection \<open>A denied caller that waits as told is admitted\<close>

lemma spec_check_after_wait:
  assumes "0 < requests" "s + windowMs \<le> t" "A key = None \<or> (\<exists>c. A key = Some (s, c))"
  shows "is_allowed (fst (spec_check requests windowMs A key t))"
  using assms by (auto simp: spec_check_def spec_window_def Let_def split: prod.splits)

lemma spec_check_Limited:
  assumes "fst (spec_check requests windowMs A key now) = Limited r resetAt"
  shows "resetAt = fst (spec_window windowMs A key now) + windowMs" "1 \<le> r"
    and "resetAt \<le> now + 1000 * r"
  using assms ceil_seconds_bounds(1) [of "resetAt - now"]
  by (auto simp: spec_check_def Let_def split: prod.splits if_splits)

lemma rl_denied_entry:
  assumes "fst (rl_check cfg m k now) = Limited r resetAt"
  shows "jm_get (snd (rl_check cfg m k now)) (normalizeCallerKey k) = None \<or>
    (\<exists>e. jm_get (snd (rl_check cfg m k now)) (normalizeCallerKey k) = Some e \<and>
         rl_windowStartedAtMs e + rl_windowMs cfg = resetAt)"
proof -
  let ?key = "normalizeCallerKey k" and ?nxt = "rl_next cfg (rl_live cfg m now) (normalizeCallerKey k) now"
  let ?m2 = "jm_set ?key ?nxt (jm_delete ?key (rl_live cfg m now))"
  have snd: "snd (rl_check cfg m k now) = evict_loop oldest_key (rl_maxEntries cfg) ?m2"
    and "resetAt = rl_windowStartedAtMs ?nxt + rl_windowMs cfg"
    using assms by (auto simp: rl_check_def Let_def split: if_splits)
  then show ?thesis
    using lru.evict_loop_get [of "rl_maxEntries cfg" ?m2 ?key] by (auto simp: jm_get_set)
qed

lemma rl_live_get:
  "jm_inv m \<Longrightarrow> jm_get (rl_live cfg m t) k = None \<or> jm_get (rl_live cfg m t) k = jm_get m k"
  using rl_live_subset [of cfg m t] rl_live_inv [of m cfg t]
  by (cases "jm_get (rl_live cfg m t) k") (auto dest!: jm_get_mem simp: jm_mem_get)

text \<open>Property (rl_retry_admitted). A caller that is refused and comes back after the announced number of
  seconds, or later, is admitted.\<close>

theorem rl_retry_admitted:
  assumes "0 < rl_requests cfg" "jm_inv m"
    and "fst (rl_check cfg m k now) = Limited r resetAt" "now + 1000 * r \<le> later"
  shows "is_allowed (fst (rl_check cfg (snd (rl_check cfg m k now)) k later))"
proof -
  let ?m' = "snd (rl_check cfg m k now)" and ?key = "normalizeCallerKey k"
  have inv': "jm_inv ?m'"
    using assms(2)
    by (simp add: rl_check_entries Let_def write_through_inv lru.evict_loop_inv jm.inv_replace rl_live_inv)
  have "resetAt \<le> later"
    using assms(3,4) spec_check_Limited(3) rl_decision_spec by (metis order_trans)
  moreover have "rl_abs (rl_live cfg ?m' later) ?key = None \<or>
      (\<exists>c. rl_abs (rl_live cfg ?m' later) ?key = Some (resetAt - rl_windowMs cfg, c))"
    using rl_denied_entry [OF assms(3)] rl_live_get [OF inv', of cfg later ?key]
    by (auto simp: rl_abs_def)
  ultimately show ?thesis
    using spec_check_after_wait [OF assms(1), of "resetAt - rl_windowMs cfg" "rl_windowMs cfg" later]
    by (simp add: rl_decision_spec)
qed

section \<open>The failed-authentication limiter\<close>

record fa_entry =
  fa_windowStartedAtMs :: int
  fa_failureCount :: int
  fa_firstSeenAtMs :: int
  fa_firstFailureAtMs :: int
  fa_lastFailureAtMs :: int
  fa_blockedUntilMs :: int
  fa_lastTouchedAtMs :: int

record fa_config =
  fa_windowMs :: int
  fa_threshold :: int
  fa_initialBackoffMs :: int
  fa_maxBackoffMs :: int
  fa_maxEntries :: nat

datatype fa_decision = Allow401 | Blocked int

type_synonym fa_entries = "(string, fa_entry) js_map"

definition createFailedAuthAttemptLimiter ::
  "int option \<Rightarrow> int option \<Rightarrow> int option \<Rightarrow> int option \<Rightarrow> int option \<Rightarrow> limiter_error + fa_config" where
  "createFailedAuthAttemptLimiter windowMs threshold initialBackoffMs maxBackoffMs maxEntries =
     (let w = (case windowMs of None \<Rightarrow> 10 * 60000 | Some x \<Rightarrow> x);
          th = (case threshold of None \<Rightarrow> 5 | Some x \<Rightarrow> x);
          ib = (case initialBackoffMs of None \<Rightarrow> 30000 | Some x \<Rightarrow> x);
          mb = (case maxBackoffMs of None \<Rightarrow> 5 * 60000 | Some x \<Rightarrow> x);
          me = (case maxEntries of None \<Rightarrow> 10000 | Some x \<Rightarrow> x)
      in if w \<le> 0 then Inl BadWindowMs
         else if th < 1 then Inl BadThreshold
         else if me < 1 then Inl BadMaxEntries
         else Inr \<lparr>fa_windowMs = w, fa_threshold = th, fa_initialBackoffMs = ib,
                   fa_maxBackoffMs = mb, fa_maxEntries = nat me\<rparr>)"

definition createEntry :: "int \<Rightarrow> int \<Rightarrow> fa_entry" where
  "createEntry windowStartedAtMs firstSeenAtMs =
     \<lparr>fa_windowStartedAtMs = windowStartedAtMs, fa_failureCount = 0,
      fa_firstSeenAtMs = firstSeenAtMs, fa_firstFailureAtMs = windowStartedAtMs,
      fa_lastFailureAtMs = windowStartedAtMs, fa_blockedUntilMs = 0,
      fa_lastTouchedAtMs = windowStartedAtMs\<rparr>"

definition touchEntry :: "string \<Rightarrow> fa_entry \<Rightarrow> int \<Rightarrow> fa_entries \<Rightarrow> fa_entries" where
  "touchEntry sourceIp entry nowMs entries =
     jm_set sourceIp (entry\<lparr>fa_lastTouchedAtMs := nowMs\<rparr>) (jm_delete sourceIp entries)"

definition isEntryBlocked :: "fa_entry \<Rightarrow> int \<Rightarrow> bool" where
  "isEntryBlocked entry nowMs \<longleftrightarrow> fa_blockedUntilMs entry > nowMs"

definition isEntryWindowDrained :: "fa_config \<Rightarrow> fa_entry \<Rightarrow> int \<Rightarrow> bool" where
  "isEntryWindowDrained cfg entry nowMs \<longleftrightarrow> nowMs - fa_lastFailureAtMs entry > fa_windowMs cfg"

definition evictionPriority :: "fa_config \<Rightarrow> fa_entry \<Rightarrow> int \<Rightarrow> int" where
  "evictionPriority cfg entry nowMs =
     (if isEntryBlocked entry nowMs then 2 else if isEntryWindowDrained cfg entry nowMs then 0 else 1)"

text \<open>
  \<open>localeCompare\<close> is the collation of the host's locale data: a parameter \<open>lc\<close>, whose sign
  decides between two entries that agree in everything else.
\<close>

definition compareEvictionCandidates ::
  "(string \<Rightarrow> string \<Rightarrow> int) \<Rightarrow> fa_config \<Rightarrow> string \<times> fa_entry \<Rightarrow> string \<times> fa_entry \<Rightarrow> int \<Rightarrow> int" where
  "compareEvictionCandidates lc cfg a b nowMs =
     (let pa = evictionPriority cfg (snd a) nowMs; pb = evictionPriority cfg (snd b) nowMs
      in if pa \<noteq> pb then pa - pb
         else if isEntryBlocked (snd a) nowMs \<and> fa_blockedUntilMs (snd a) \<noteq> fa_blockedUntilMs (snd b)
           then fa_blockedUntilMs (snd a) - fa_blockedUntilMs (snd b)
         else if fa_lastTouchedAtMs (snd a) \<noteq> fa_lastTouchedAtMs (snd b)
           then fa_lastTouchedAtMs (snd a) - fa_lastTouchedAtMs (snd b)
         else if fa_firstSeenAtMs (snd a) \<noteq> fa_firstSeenAtMs (snd b)
           then fa_firstSeenAtMs (snd a) - fa_firstSeenAtMs (snd b)
         else lc (fst a) (fst b))"

fun select_from ::
  "(string \<Rightarrow> string \<Rightarrow> int) \<Rightarrow> fa_config \<Rightarrow> int \<Rightarrow> (string \<times> fa_entry) option \<Rightarrow> fa_entries \<Rightarrow>
   (string \<times> fa_entry) option" where
  "select_from lc cfg nowMs selected [] = selected"
| "select_from lc cfg nowMs selected (candidate # m) =
     select_from lc cfg nowMs
       (if (case selected of None \<Rightarrow> True
            | Some s \<Rightarrow> compareEvictionCandidates lc cfg candidate s nowMs < 0)
        then Some candidate else selected) m"

definition selectEvictionCandidate ::
  "(string \<Rightarrow> string \<Rightarrow> int) \<Rightarrow> fa_config \<Rightarrow> int \<Rightarrow> fa_entries \<Rightarrow> (string \<times> fa_entry) option" where
  "selectEvictionCandidate lc cfg nowMs entries = select_from lc cfg nowMs None entries"

definition fa_victim :: "(string \<Rightarrow> string \<Rightarrow> int) \<Rightarrow> fa_config \<Rightarrow> int \<Rightarrow> fa_entries \<Rightarrow> string option" where
  "fa_victim lc cfg nowMs entries = map_option fst (selectEvictionCandidate lc cfg nowMs entries)"

definition pruneExpiredEntries ::
  "(string \<Rightarrow> string \<Rightarrow> int) \<Rightarrow> fa_config \<Rightarrow> int \<Rightarrow> fa_entries \<Rightarrow> fa_entries" where
  "pruneExpiredEntries lc cfg nowMs entries =
     evict_loop (fa_victim lc cfg nowMs) (fa_maxEntries cfg)
       (filter (\<lambda>e. \<not> (\<not> isEntryBlocked (snd e) nowMs \<and> isEntryWindowDrained cfg (snd e) nowMs)) entries)"

definition backoffMs :: "fa_config \<Rightarrow> int \<Rightarrow> int" where
  "backoffMs cfg failureCount =
     min (fa_initialBackoffMs cfg * 2 ^ nat (max 0 (failureCount - fa_threshold cfg))) (fa_maxBackoffMs cfg)"

definition fa_failed_entry :: "fa_config \<Rightarrow> fa_entries \<Rightarrow> string \<Rightarrow> int \<Rightarrow> fa_entry" where
  "fa_failed_entry cfg pruned sourceIp nowMs =
     (let baseline = (case jm_get pruned sourceIp of Some e \<Rightarrow> e | None \<Rightarrow> createEntry nowMs nowMs);
          entry = advanceWindow fa_windowStartedAtMs baseline nowMs (fa_windowMs cfg)
                    (\<lambda>t. createEntry t (fa_firstSeenAtMs baseline))
      in entry\<lparr>fa_failureCount := fa_failureCount entry + 1, fa_lastFailureAtMs := nowMs\<rparr>)"

definition registerFailure ::
  "(string \<Rightarrow> string \<Rightarrow> int) \<Rightarrow> fa_config \<Rightarrow> fa_entries \<Rightarrow> string \<Rightarrow> int \<Rightarrow> fa_decision \<times> fa_entries" where
  "registerFailure lc cfg entries sourceIp nowMs =
     (let pruned = pruneExpiredEntries lc cfg nowMs entries;
          entry = fa_failed_entry cfg pruned sourceIp nowMs
      in if fa_failureCount entry \<ge> fa_threshold cfg
         then
           let blockedUntil = max (fa_blockedUntilMs entry) (nowMs + backoffMs cfg (fa_failureCount entry))
           in (Blocked (max 1 (ceil_seconds (blockedUntil - nowMs))),
               pruneExpiredEntries lc cfg nowMs
                 (touchEntry sourceIp (entry\<lparr>fa_blockedUntilMs := blockedUntil\<rparr>) nowMs pruned))
         else (Allow401, pruneExpiredEntries lc cfg nowMs (touchEntry sourceIp entry nowMs pruned)))"

definition fa_reset :: "string \<Rightarrow> fa_entries \<Rightarrow> fa_entries" where
  "fa_reset sourceIp entries = jm_delete sourceIp entries"

fun fa_run ::
  "(string \<Rightarrow> string \<Rightarrow> int) \<Rightarrow> fa_config \<Rightarrow> fa_entries \<Rightarrow> string \<Rightarrow> int list \<Rightarrow> fa_decision list \<times> fa_entries" where
  "fa_run lc cfg m ip [] = ([], m)"
| "fa_run lc cfg m ip (t # ts) =
     (let (d, m') = registerFailure lc cfg m ip t; (ds, m'') = fa_run lc cfg m' ip ts in (d # ds, m''))"

fun is_blocked :: "fa_decision \<Rightarrow> bool" where
  "is_blocked Allow401 = False"
| "is_blocked (Blocked _) = True"

subsection \<open>Selection of the victim\<close>

lemma select_from_origin:
  "select_from lc cfg now acc m = Some s \<Longrightarrow> acc = Some s \<or> s \<in> set m"
proof (induction m arbitrary: acc)
  case (Cons c m)
  from Cons.IH [of "if _ then Some c else acc"] Cons.prems show ?case
    by (fastforce split: if_splits)
qed simp

lemma select_from_Some: "select_from lc cfg now (Some a) m \<noteq> None"
  by (induction m arbitrary: a) auto

lemma compare_priority:
  "evictionPriority cfg (snd a) now < evictionPriority cfg (snd b) now \<Longrightarrow>
     compareEvictionCandidates lc cfg a b now < 0"
  "compareEvictionCandidates lc cfg a b now < 0 \<Longrightarrow>
     evictionPriority cfg (snd a) now \<le> evictionPriority cfg (snd b) now"
  by (auto simp: compareEvictionCandidates_def Let_def split: if_splits)

lemma select_from_priority:
  assumes "select_from lc cfg now acc m = Some s"
  shows "(\<forall>c \<in> set m. evictionPriority cfg (snd s) now \<le> evictionPriority cfg (snd c) now) \<and>
    (\<forall>a. acc = Some a \<longrightarrow> evictionPriority cfg (snd s) now \<le> evictionPriority cfg (snd a) now)"
  using assms
proof (induction m arbitrary: acc)
  case (Cons c m)
  let ?acc = "if (case acc of None \<Rightarrow> True | Some s \<Rightarrow> compareEvictionCandidates lc cfg c s now < 0)
     then Some c else acc"
  have "?acc \<noteq> None" by (cases acc) auto
  then obtain a' where a': "?acc = Some a'" by blast
  have le: "evictionPriority cfg (snd a') now \<le> evictionPriority cfg (snd c) now \<and>
     (\<forall>a. acc = Some a \<longrightarrow> evictionPriority cfg (snd a') now \<le> evictionPriority cfg (snd a) now)"
  proof (cases acc)
    case None
    with a' show ?thesis by simp
  next
    case (Some a)
    with a' compare_priority(1) [of cfg c now a lc] compare_priority(2) [of lc cfg c a now]
    show ?thesis by (auto split: if_splits intro!: leI)
  qed
  from Cons.prems have "select_from lc cfg now ?acc m = Some s" by simp
  from Cons.IH [OF this] a' have
    "\<forall>c \<in> set m. evictionPriority cfg (snd s) now \<le> evictionPriority cfg (snd c) now"
    "evictionPriority cfg (snd s) now \<le> evictionPriority cfg (snd a') now" by blast+
  with le show ?case by auto
qed simp

interpretation fav: victim_selection "fa_victim lc cfg now" for lc cfg now
proof
  fix m :: fa_entries and k
  assume "fa_victim lc cfg now m = Some k"
  then show "k \<in> jm_keys m"
    by (auto simp: fa_victim_def selectEvictionCandidate_def jm_keys_def dest!: select_from_origin
        intro: rev_image_eqI)
next
  fix m :: fa_entries
  assume "m \<noteq> []"
  then show "fa_victim lc cfg now m \<noteq> None"
    using select_from_Some by (cases m) (auto simp: fa_victim_def selectEvictionCandidate_def)
qed

subsection \<open>Invariant\<close>

definition fa_inv :: "fa_config \<Rightarrow> int \<Rightarrow> fa_entries \<Rightarrow> bool" where
  "fa_inv cfg now m \<longleftrightarrow>
     jm_inv m \<and> length m \<le> fa_maxEntries cfg \<and>
     (\<forall>(ip, e) \<in> set m.
        0 \<le> fa_failureCount e \<and> fa_lastFailureAtMs e \<le> now \<and>
        fa_blockedUntilMs e \<le> fa_lastFailureAtMs e + fa_maxBackoffMs cfg)"

lemma fa_inv_empty: "fa_inv cfg now []"
  by (simp add: fa_inv_def)

lemma prune_subset: "set (pruneExpiredEntries lc cfg now m) \<subseteq> set m"
  using fav.evict_loop_subset by (fastforce simp: pruneExpiredEntries_def)

lemma prune_inv: "jm_inv m \<Longrightarrow> jm_inv (pruneExpiredEntries lc cfg now m)"
  by (simp add: pruneExpiredEntries_def fav.evict_loop_inv jm_inv_filter)

lemma prune_bound: "length (pruneExpiredEntries lc cfg now m) \<le> fa_maxEntries cfg"
  by (simp add: pruneExpiredEntries_def fav.evict_loop_bound)

lemma backoff_le: "backoffMs cfg n \<le> fa_maxBackoffMs cfg"
  by (simp add: backoffMs_def)

lemma failed_entry_props:
  assumes "\<And>e. jm_get m ip = Some e \<Longrightarrow> 0 \<le> fa_failureCount e \<and> fa_lastFailureAtMs e \<le> now \<and>
             fa_blockedUntilMs e \<le> fa_lastFailureAtMs e + fa_maxBackoffMs cfg"
    and "0 \<le> now" "0 \<le> fa_maxBackoffMs cfg"
  shows "0 \<le> fa_failureCount (fa_failed_entry cfg m ip now)"
    and "fa_lastFailureAtMs (fa_failed_entry cfg m ip now) = now"
    and "fa_blockedUntilMs (fa_failed_entry cfg m ip now) \<le> now + fa_maxBackoffMs cfg"
  using assms
  by (auto simp: fa_failed_entry_def Let_def advanceWindow_def createEntry_def split: option.splits)

lemma fa_inv_prune_touch:
  assumes "fa_inv cfg now0 m" "now0 \<le> now" "0 \<le> fa_failureCount e" "fa_lastFailureAtMs e = now"
    and "fa_blockedUntilMs e \<le> now + fa_maxBackoffMs cfg"
  shows "fa_inv cfg now (pruneExpiredEntries lc cfg now (touchEntry ip e now m))"
proof -
  have "jm_inv (touchEntry ip e now m)"
    using assms(1) by (simp add: touchEntry_def jm.inv_replace fa_inv_def)
  then have "jm_inv (pruneExpiredEntries lc cfg now (touchEntry ip e now m))" by (rule prune_inv)
  moreover have "0 \<le> fa_failureCount x \<and> fa_lastFailureAtMs x \<le> now \<and>
      fa_blockedUntilMs x \<le> fa_lastFailureAtMs x + fa_maxBackoffMs cfg"
    if "(k, x) \<in> set (pruneExpiredEntries lc cfg now (touchEntry ip e now m))" for k x
  proof -
    from that have "(k, x) \<in> set (touchEntry ip e now m)" using prune_subset by blast
    then have "x = e\<lparr>fa_lastTouchedAtMs := now\<rparr> \<or> (k, x) \<in> set m"
      by (auto simp: touchEntry_def jm_move_to_end jm_delete_mem)
    then show ?thesis using assms by (fastforce simp: fa_inv_def)
  qed
  ultimately show ?thesis by (auto simp: fa_inv_def prune_bound)
qed

lemma fa_inv_prune: "fa_inv cfg now m \<Longrightarrow> fa_inv cfg now (pruneExpiredEntries lc cfg t m)"
  using prune_subset prune_inv prune_bound by (fastforce simp: fa_inv_def)

lemma fa_inv_get:
  "fa_inv cfg now m \<Longrightarrow> jm_get m ip = Some e \<Longrightarrow>
     0 \<le> fa_failureCount e \<and> fa_lastFailureAtMs e \<le> now \<and>
     fa_blockedUntilMs e \<le> fa_lastFailureAtMs e + fa_maxBackoffMs cfg"
  by (auto simp: fa_inv_def dest!: jm_get_mem)

lemma fa_pruned_entry:
  fixes ip :: string and lc :: "string \<Rightarrow> string \<Rightarrow> int"
  assumes "fa_inv cfg now0 m" "now0 \<le> now" "0 \<le> now" "0 \<le> fa_maxBackoffMs cfg"
  defines "e \<equiv> fa_failed_entry cfg (pruneExpiredEntries lc cfg now m) ip now"
  shows "0 \<le> fa_failureCount e" "fa_lastFailureAtMs e = now"
    "fa_blockedUntilMs e \<le> now + fa_maxBackoffMs cfg"
proof -
  have "0 \<le> fa_failureCount x \<and> fa_lastFailureAtMs x \<le> now \<and>
      fa_blockedUntilMs x \<le> fa_lastFailureAtMs x + fa_maxBackoffMs cfg"
    if "jm_get (pruneExpiredEntries lc cfg now m) ip = Some x" for x
    using fa_inv_get [OF fa_inv_prune [OF assms(1)] that] assms(2) by auto
  from failed_entry_props [OF this assms(3,4)]
  show "0 \<le> fa_failureCount e" "fa_lastFailureAtMs e = now"
    "fa_blockedUntilMs e \<le> now + fa_maxBackoffMs cfg"
    by (simp_all add: e_def)
qed

lemma fa_inv_step:
  assumes "fa_inv cfg now0 m" "now0 \<le> now" "0 \<le> now" "0 \<le> fa_maxBackoffMs cfg"
  shows "fa_inv cfg now (snd (registerFailure lc cfg m ip now))"
  using fa_pruned_entry [OF assms] fa_inv_prune [OF assms(1)] assms(2)
  by (auto simp: registerFailure_def Let_def backoff_le intro!: fa_inv_prune_touch)

text \<open>Property (fa_retry_after_bounds). The retry delay of a blocked source is at least one second and at most
  the configured maximal backoff, in every state that satisfies the invariant of the table.\<close>

theorem fa_retry_after_bounds:
  assumes "fa_inv cfg now0 m" "now0 \<le> now" "0 \<le> now" "0 \<le> fa_maxBackoffMs cfg"
    and "fst (registerFailure lc cfg m ip now) = Blocked r"
  shows "1 \<le> r \<and> r \<le> max 1 (ceil_seconds (fa_maxBackoffMs cfg))"
proof -
  let ?e = "fa_failed_entry cfg (pruneExpiredEntries lc cfg now m) ip now"
  let ?u = "max (fa_blockedUntilMs ?e) (now + backoffMs cfg (fa_failureCount ?e))"
  from assms(5) have r: "r = max 1 (ceil_seconds (?u - now))"
    by (auto simp: registerFailure_def Let_def split: if_splits)
  have "?u - now \<le> fa_maxBackoffMs cfg"
    using fa_pruned_entry(3) [OF assms(1-4), of lc ip] backoff_le [of cfg "fa_failureCount ?e"] by simp
  then have "ceil_seconds (?u - now) \<le> ceil_seconds (fa_maxBackoffMs cfg)"
    by (rule ceil_seconds_mono)
  with r show ?thesis by auto
qed

subsection \<open>The first failures answer 401, the later ones are blocked\<close>

lemma prune_single:
  assumes "1 \<le> fa_maxEntries cfg" "\<not> isEntryWindowDrained cfg e now"
  shows "pruneExpiredEntries lc cfg now [(ip, e)] = [(ip, e)]"
  using assms by (simp add: pruneExpiredEntries_def evict_loop_small)

lemma prune_empty [simp]: "pruneExpiredEntries lc cfg now [] = []"
  by (simp add: pruneExpiredEntries_def evict_loop_small)

lemma failed_entry_drained [simp]:
  "0 \<le> fa_windowMs cfg \<Longrightarrow> \<not> isEntryWindowDrained cfg (fa_failed_entry cfg m ip now\<lparr>fa_lastTouchedAtMs := x\<rparr>) now"
  "0 \<le> fa_windowMs cfg \<Longrightarrow>
     \<not> isEntryWindowDrained cfg (fa_failed_entry cfg m ip now\<lparr>fa_blockedUntilMs := b, fa_lastTouchedAtMs := x\<rparr>) now"
  by (simp_all add: isEntryWindowDrained_def fa_failed_entry_def Let_def)

lemma touch_single: "touchEntry ip e now [] = [(ip, e\<lparr>fa_lastTouchedAtMs := now\<rparr>)]"
    "touchEntry ip e now [(ip, x)] = [(ip, e\<lparr>fa_lastTouchedAtMs := now\<rparr>)]"
  by (simp_all add: touchEntry_def jm_delete_def)

text \<open>One more failure of the only source, inside its window.\<close>

lemma registerFailure_single:
  assumes "1 \<le> fa_maxEntries cfg" "0 < fa_windowMs cfg" "0 < t0"
    and "m = [] \<and> n = 0 \<and> t = t0 \<or>
         (\<exists>e. m = [(ip, e)] \<and> fa_failureCount e = n \<and> fa_windowStartedAtMs e = t0 \<and>
              t0 \<le> fa_lastFailureAtMs e)"
    and "t0 \<le> t" "t < t0 + fa_windowMs cfg"
  obtains e' where "snd (registerFailure lc cfg m ip t) = [(ip, e')]" "fa_failureCount e' = n + 1"
    "fa_windowStartedAtMs e' = t0" "fa_lastFailureAtMs e' = t"
    "is_blocked (fst (registerFailure lc cfg m ip t)) \<longleftrightarrow> fa_threshold cfg \<le> n + 1"
proof -
  have pr: "pruneExpiredEntries lc cfg t m = m"
    using assms prune_single [OF assms(1)] by (auto simp: isEntryWindowDrained_def)
  let ?e = "fa_failed_entry cfg m ip t"
  have e: "fa_failureCount ?e = n + 1" "fa_windowStartedAtMs ?e = t0" "fa_lastFailureAtMs ?e = t"
    using assms
    by (auto simp: fa_failed_entry_def Let_def advanceWindow_def createEntry_def jm_get_def)
  have touch: "touchEntry ip x t m = [(ip, x\<lparr>fa_lastTouchedAtMs := t\<rparr>)]" for x
    using assms(4) touch_single by auto
  show ?thesis
  proof (cases "fa_threshold cfg \<le> n + 1")
    case True
    then show ?thesis
      using e assms(1,2) that
      by (simp add: registerFailure_def Let_def pr touch prune_single)
  next
    case False
    then show ?thesis
      using e assms(1,2) that
      by (simp add: registerFailure_def Let_def pr touch prune_single)
  qed
qed

lemma fa_run_single:
  assumes "1 \<le> fa_maxEntries cfg" "0 < fa_windowMs cfg" "0 < t0"
    and "fa_failureCount e = n" "fa_windowStartedAtMs e = t0" "t0 \<le> fa_lastFailureAtMs e"
    and "\<forall>t \<in> set ts. t0 \<le> t \<and> t < t0 + fa_windowMs cfg"
  shows "map is_blocked (fst (fa_run lc cfg [(ip, e)] ip ts)) =
         map (\<lambda>i. fa_threshold cfg \<le> n + int i) [1..<Suc (length ts)]"
  using assms(4-7)
proof (induction ts arbitrary: e n)
  case (Cons t ts)
  obtain e' where e': "snd (registerFailure lc cfg [(ip, e)] ip t) = [(ip, e')]"
    "fa_failureCount e' = n + 1" "fa_windowStartedAtMs e' = t0" "fa_lastFailureAtMs e' = t"
    "is_blocked (fst (registerFailure lc cfg [(ip, e)] ip t)) \<longleftrightarrow> fa_threshold cfg \<le> n + 1"
    using registerFailure_single [OF assms(1-3), of "[(ip, e)]" n t ip lc] Cons.prems by auto
  have "map is_blocked (fst (fa_run lc cfg [(ip, e')] ip ts)) =
      map (\<lambda>i. fa_threshold cfg \<le> (n + 1) + int i) [1..<Suc (length ts)]"
    using Cons.IH [OF e'(2,3)] e'(4) Cons.prems(4) by simp
  moreover have "[1..<Suc (length (t # ts))] = 1 # map Suc [1..<Suc (length ts)]"
    by (simp add: upt_conv_Cons map_Suc_upt del: upt_Suc)
  ultimately show ?case
    using e' by (simp add: Let_def split_beta o_def add.commute add.left_commute del: upt_Suc)
qed simp

section \<open>Properties of the limiters\<close>

definition example_rl :: rl_config where
  "example_rl = \<lparr>rl_requests = 1, rl_windowMs = 1000, rl_maxEntries = 2, rl_entryTtlMs = None\<rparr>"

definition example_fa :: fa_config where
  "example_fa = \<lparr>fa_windowMs = 600000, fa_threshold = 5, fa_initialBackoffMs = 30000,
     fa_maxBackoffMs = 300000, fa_maxEntries = 10000\<rparr>"

lemma example_fa_default: "createFailedAuthAttemptLimiter None None None None None = Inr example_fa"
  by (simp add: createFailedAuthAttemptLimiter_def example_fa_def)

lemma normalize_a [simp]: "normalizeCallerKey ''a'' = ''a''"
  by (simp add: normalizeCallerKey_def js_string_defs Let_def)


lemma example_rl_limited:
  "fst (rl_check example_rl (snd (rl_check example_rl [] ''a'' 5)) ''a'' 6) = Limited 1 1005"
  by (simp add: rl_check_def rl_live_def rl_next_def advanceWindow_def example_rl_def Let_def
      evict_loop_small jm_delete_def write_through_def jm_get_def ceil_seconds_def)

lemma rl_check_map_inv: "jm_inv m \<Longrightarrow> rl_entryTtlMs cfg = None \<Longrightarrow> jm_inv (snd (rl_check cfg m k t))"
  by (simp add: rl_check_entries Let_def write_through_inv lru.evict_loop_inv jm.inv_replace rl_live_def)

theorem rl_retry_admitted_witness:
  "is_allowed (fst (rl_check example_rl
     (snd (rl_check example_rl (snd (rl_check example_rl [] ''a'' 5)) ''a'' 6)) ''a'' 1006))"
proof (rule rl_retry_admitted [where r = 1 and resetAt = 1005])
  show "jm_inv (snd (rl_check example_rl [] ''a'' 5))"
    by (rule rl_check_map_inv) (simp_all add: example_rl_def)
qed (simp_all add: example_rl_limited, simp add: example_rl_def)

text \<open>Property (rl_refines_counter). As long as the active callers fit the table and no time-to-live is
  configured, the limiter with its ordered table, its eviction loop and its mutable entries answers
  every request as the unbounded per-caller counter does, and stays in step with it.\<close>

theorem rl_refines_counter:
  assumes "rl_entryTtlMs cfg = None" "jm_inv m"
    and "insert (normalizeCallerKey k) (jm_keys m) \<subseteq> K" "finite K" "card K \<le> rl_maxEntries cfg"
  shows "(fst (rl_check cfg m k t), rl_abs (snd (rl_check cfg m k t))) =
         spec_check (rl_requests cfg) (rl_windowMs cfg) (rl_abs m) (normalizeCallerKey k) t"
  using rl_state_spec [OF assms] rl_decision_spec [of cfg m k t] assms(1)
  by (simp add: rl_live_def prod_eq_iff)

theorem rl_refines_counter_witness:
  "(fst (rl_check example_rl [] ''a'' 5), rl_abs (snd (rl_check example_rl [] ''a'' 5))) =
     spec_check 1 1000 (rl_abs []) ''a'' 5"
  using rl_refines_counter [of example_rl "[]" "''a''" "{''a''}" 5]
  by (simp add: example_rl_def jm_keys_def)

text \<open>Property (rl_state_bounded). Every request keeps the invariant of the table, for every configuration,
  with or without time-to-live: distinct keys, no more entries than \<open>maxEntries\<close>, every count
  between zero and the limit, no entry touched in the future.\<close>

theorem rl_state_bounded:
  assumes "rl_inv cfg now m" "now \<le> t" "0 \<le> rl_requests cfg"
  shows "rl_inv cfg t (snd (rl_check cfg m k t)) \<and> length (snd (rl_check cfg m k t)) \<le> rl_maxEntries cfg"
  using rl_inv_step [OF assms, of k] by (simp add: rl_inv_def)

theorem rl_state_bounded_witness:
  "rl_inv healthRateLimiterConfig 7 (snd (rl_check healthRateLimiterConfig [] ''a'' 7)) \<and>
   length (snd (rl_check healthRateLimiterConfig [] ''a'' 7)) \<le> rl_maxEntries healthRateLimiterConfig"
  by (rule rl_state_bounded [where now = 0]) (simp_all add: rl_inv_empty healthRateLimiterConfig_def)

text \<open>Property (fa_threshold_exact). Failures of one source inside one window are answered with a plain 401
  until their number reaches the threshold, and with a block from then on.\<close>

theorem fa_threshold_exact:
  assumes "1 \<le> fa_maxEntries cfg" "0 < fa_windowMs cfg" "0 < t0"
    and "\<forall>t \<in> set ts. t0 \<le> t \<and> t < t0 + fa_windowMs cfg"
  shows "map is_blocked (fst (fa_run lc cfg [] ip (t0 # ts))) =
         map (\<lambda>i. fa_threshold cfg \<le> int i) [1..<Suc (Suc (length ts))]"
proof -
  obtain e' where e': "snd (registerFailure lc cfg [] ip t0) = [(ip, e')]" "fa_failureCount e' = 1"
    "fa_windowStartedAtMs e' = t0" "fa_lastFailureAtMs e' = t0"
    "is_blocked (fst (registerFailure lc cfg [] ip t0)) \<longleftrightarrow> fa_threshold cfg \<le> 1"
    using registerFailure_single [OF assms(1-3), of "[]" 0 t0 ip lc] assms(2) by auto
  have "map is_blocked (fst (fa_run lc cfg [(ip, e')] ip ts)) =
      map (\<lambda>i. fa_threshold cfg \<le> 1 + int i) [1..<Suc (length ts)]"
    using fa_run_single [OF assms(1-3) e'(2,3) _ assms(4)] e'(4) by simp
  moreover have "[1..<Suc (Suc (length ts))] = 1 # map Suc [1..<Suc (length ts)]"
    by (simp add: upt_conv_Cons map_Suc_upt del: upt_Suc)
  ultimately show ?thesis
    using e' by (simp add: Let_def split_beta o_def del: upt_Suc)
qed

theorem fa_threshold_exact_witness:
  "map is_blocked (fst (fa_run (\<lambda>_ _. 0) example_fa [] ''10.0.0.1'' [1, 2, 3, 4, 5, 6])) =
     [False, False, False, False, True, True]"
  using fa_threshold_exact [of example_fa 1 "[2, 3, 4, 5, 6]" "\<lambda>_ _. 0" "''10.0.0.1''"]
  by (simp add: example_fa_def upt_rec)

lemma fa_first_failures:
  "fst (fa_run (\<lambda>_ _. 0) example_fa [] ''a'' [1, 2, 3, 4, 600000, 600001]) =
     [Allow401, Allow401, Allow401, Allow401, Blocked 30, Allow401]"
  by (simp add: registerFailure_def fa_failed_entry_def pruneExpiredEntries_def touchEntry_def
      isEntryBlocked_def isEntryWindowDrained_def createEntry_def advanceWindow_def backoffMs_def
      example_fa_def Let_def evict_loop_small jm_delete_def jm_get_def ceil_seconds_def)

theorem fa_retry_after_bounds_witness:
  "1 \<le> (30::int) \<and> (30::int) \<le> max 1 (ceil_seconds 300000)"
proof -
  have "fa_inv (example_fa\<lparr>fa_threshold := 1\<rparr>) 0 []" by (rule fa_inv_empty)
  moreover have "fst (registerFailure (\<lambda>_ _. 0) (example_fa\<lparr>fa_threshold := 1\<rparr>) [] ''a'' 1) = Blocked 30"
    by (simp add: registerFailure_def fa_failed_entry_def pruneExpiredEntries_def touchEntry_def
        createEntry_def advanceWindow_def backoffMs_def
        example_fa_def Let_def evict_loop_small jm_delete_def jm_get_def ceil_seconds_def)
  ultimately show ?thesis
    using fa_retry_after_bounds [of "example_fa\<lparr>fa_threshold := 1\<rparr>" 0 "[]" 1 "\<lambda>_ _. 0" "''a''" 30]
    by (simp add: example_fa_def)
qed

text \<open>Property (fa_blocked_evicted_last). When the table is full, an entry whose source is blocked is evicted
  only if every entry is blocked, so that a flood of new addresses cannot lift the block of another.\<close>

theorem fa_blocked_evicted_last:
  assumes "selectEvictionCandidate lc cfg now m = Some s" "isEntryBlocked (snd s) now"
    and "c \<in> set m"
  shows "isEntryBlocked (snd c) now"
  using select_from_priority [OF assms(1) [unfolded selectEvictionCandidate_def]] assms(2,3)
  by (fastforce simp: evictionPriority_def split: if_splits)

theorem fa_blocked_evicted_last_witness:
  "isEntryBlocked ((createEntry 1 1)\<lparr>fa_blockedUntilMs := 9\<rparr>) 5"
  using fa_blocked_evicted_last [of "\<lambda>_ _. 0" example_fa 5
      "[(''a'', (createEntry 1 1)\<lparr>fa_blockedUntilMs := 9\<rparr>)]" "(''a'', (createEntry 1 1)\<lparr>fa_blockedUntilMs := 9\<rparr>)"
      "(''a'', (createEntry 1 1)\<lparr>fa_blockedUntilMs := 9\<rparr>)"]
  by (simp add: selectEvictionCandidate_def isEntryBlocked_def)

end
