(* ===== verification/Json_Bounds.thy ===== *)
theory Json_Bounds
  imports Prelude
begin

text \<open>
  \<^verbatim>\<open>platform/json-bounds.ts\<close>, \<^verbatim>\<open>platform/type-guards.ts\<close> and \<^verbatim>\<open>platform/object-key-policy.ts\<close>:
  the bounds on nesting, node count and size of every JSON document the gateway parses or prints,
  and the policy that keeps prototype keys out of request bodies.

  \<open>JSON.stringify\<close> is written out except for the decimal spelling of a number, and \<open>JSON.parse\<close>
  is not: both are parameters (\<open>nts\<close> for \<open>Number.prototype.toString\<close>, \<open>parse\<close> for
  \<open>JSON.parse\<close>, which gives \<^const>\<open>None\<close> where the host throws a \<open>SyntaxError\<close>).
\<close>

section \<open>Type guards\<close>

definition isNonEmptyString :: "json option \<Rightarrow> bool" where
  "isNonEmptyString v = (case as_string v of Some s \<Rightarrow> non_blank s | None \<Rightarrow> False)"

fun isRecord :: "json option \<Rightarrow> bool" where
  "isRecord (Some (JObj _)) = True"
| "isRecord _ = False"

fun isObjectLike :: "json option \<Rightarrow> bool" where
  "isObjectLike (Some (JObj _)) = True"
| "isObjectLike (Some (JArr _)) = True"
| "isObjectLike _ = False"

fun isPositiveInteger :: "json option \<Rightarrow> bool" where
  "isPositiveInteger (Some (JNum n)) = (n \<in> \<int> \<and> n > 0)"
| "isPositiveInteger _ = False"

section \<open>\<open>JSON.stringify\<close>\<close>

definition hex_digit :: "nat \<Rightarrow> char" where
  "hex_digit n = (if n < 10 then char_of (48 + n) else char_of (87 + n))"

abbreviation dquote :: char where
  "dquote \<equiv> CHR 0x22"

abbreviation backslash :: char where
  "backslash \<equiv> CHR 0x5C"

definition escape_char :: "char \<Rightarrow> string" where
  "escape_char c =
     (if c = dquote \<or> c = backslash then [backslash, c]
      else if c = CHR 0x08 then [backslash, CHR ''b'']
      else if c = CHR 0x0C then [backslash, CHR ''f'']
      else if c = CHR 0x0A then [backslash, CHR ''n'']
      else if c = CHR 0x0D then [backslash, CHR ''r'']
      else if c = CHR 0x09 then [backslash, CHR ''t'']
      else if code_unit c < 32
        then [backslash, CHR ''u'', CHR ''0'', CHR ''0'',
              (if code_unit c < 16 then CHR ''0'' else CHR ''1''), hex_digit (code_unit c mod 16)]
      else [c])"

definition quote_string :: "string \<Rightarrow> string" where
  "quote_string s = [dquote] @ concat (map escape_char s) @ [dquote]"

fun json_stringify :: "(rat \<Rightarrow> string) \<Rightarrow> json \<Rightarrow> string"
  and stringify_items :: "(rat \<Rightarrow> string) \<Rightarrow> json list \<Rightarrow> string"
  and stringify_fields :: "(rat \<Rightarrow> string) \<Rightarrow> (string \<times> json) list \<Rightarrow> string" where
  "json_stringify nts JNull = ''null''"
| "json_stringify nts (JBool b) = (if b then ''true'' else ''false'')"
| "json_stringify nts (JNum n) = nts n"
| "json_stringify nts (JStr s) = quote_string s"
| "json_stringify nts (JArr xs) = ''['' @ stringify_items nts xs @ '']''"
| "json_stringify nts (JObj fs) = ''{'' @ stringify_fields nts fs @ ''}''"
| "stringify_items nts [] = []"
| "stringify_items nts [x] = json_stringify nts x"
| "stringify_items nts (x # y # xs) = json_stringify nts x @ '','' @ stringify_items nts (y # xs)"
| "stringify_fields nts [] = []"
| "stringify_fields nts [(k, v)] = quote_string k @ '':'' @ json_stringify nts v"
| "stringify_fields nts ((k, v) # f # fs) =
     quote_string k @ '':'' @ json_stringify nts v @ '','' @ stringify_fields nts (f # fs)"

section \<open>The bounds\<close>

datatype json_error = JsonStructureTooLarge | JsonSerializedTooLarge | JsonSyntaxError

record json_bounds =
  maxNodeCount :: nat
  maxDepth :: nat
  maxSerializedBytes :: nat

definition hard_json_bounds :: json_bounds where
  "hard_json_bounds = \<lparr>maxNodeCount = 16000, maxDepth = 256, maxSerializedBytes = 8 * 1024 * 1024\<rparr>"

text \<open>The scanner over the raw text: nesting depth, inside a string, after a backslash.\<close>

type_synonym scan_state = "nat \<times> bool \<times> bool"

definition raw_step :: "nat \<Rightarrow> scan_state \<Rightarrow> char \<Rightarrow> scan_state option" where
  "raw_step maxD st c =
     (case st of (depth, inString, escaping) \<Rightarrow>
       if inString then
         (if escaping then Some (depth, True, False)
          else if c = backslash then Some (depth, True, True)
          else if c = dquote then Some (depth, False, False)
          else Some (depth, True, False))
       else if c = dquote then Some (depth, True, escaping)
       else if c = CHR ''{'' \<or> c = CHR ''['' then
         (if depth + 1 > maxD then None else Some (depth + 1, False, escaping))
       else if c = CHR ''}'' \<or> c = CHR '']'' then Some (depth - 1, False, escaping)
       else Some (depth, False, escaping))"

fun raw_scan :: "nat \<Rightarrow> scan_state \<Rightarrow> string \<Rightarrow> scan_state option" where
  "raw_scan maxD st [] = Some st"
| "raw_scan maxD st (c # s) = Option.bind (raw_step maxD st c) (\<lambda>st'. raw_scan maxD st' s)"

definition assertRawJsonNestingWithinBounds :: "string \<Rightarrow> nat \<Rightarrow> json_error + unit" where
  "assertRawJsonNestingWithinBounds rawText maxD =
     (if raw_scan maxD (0, False, False) rawText = None then Inl JsonStructureTooLarge else Inr ())"

fun json_children :: "json \<Rightarrow> json list" where
  "json_children (JArr xs) = xs"
| "json_children (JObj fs) = map snd fs"
| "json_children _ = []"

lemma json_field_size: "f \<in> set fs \<Longrightarrow> size (snd f) < size (JObj fs)"
  by (induction fs) (auto simp: less_Suc_eq)

lemma json_children_size: "x \<in> set (json_children v) \<Longrightarrow> size x < size v"
proof (induction v rule: json_children.induct)
  case (1 xs)
  then show ?case by (induction xs) auto
next
  case (2 fs)
  then show ?case using json_field_size by auto
qed auto

text \<open>The nodes of a value: the value itself and the nodes of its children.\<close>

function node_count :: "json \<Rightarrow> nat" where
  "node_count v = Suc (sum_list (map node_count (json_children v)))"
  by pat_completeness auto
termination
  by (relation "measure size") (auto simp: json_children_size)

declare node_count.simps [simp del]

lemma node_count_children: "sum_list (map node_count (json_children v)) < node_count v"
  by (simp add: node_count.simps [of v])

text \<open>
  The explicit stack of \<open>assertJsonValueWithinBounds\<close>, its top at the head: the children of the
  popped value are pushed in order, so the last one is on top.
\<close>

function json_walk :: "json_bounds \<Rightarrow> nat \<Rightarrow> (json \<times> nat) list \<Rightarrow> json_error + unit" where
  "json_walk b nodeCount [] = Inr ()"
| "json_walk b nodeCount ((v, d) # stack) =
     (if nodeCount + 1 > maxNodeCount b \<or> d > maxDepth b then Inl JsonStructureTooLarge
      else json_walk b (nodeCount + 1) (rev (map (\<lambda>x. (x, d + 1)) (json_children v)) @ stack))"
  by pat_completeness auto
termination
  by (relation "measure (\<lambda>(b, n, st). sum_list (map (\<lambda>x. node_count (fst x)) st))")
    (auto simp: o_def rev_map [symmetric] sum_list_rev node_count_children)

definition assertJsonValueWithinBounds :: "json_bounds \<Rightarrow> json \<Rightarrow> json_error + unit" where
  "assertJsonValueWithinBounds b v = json_walk b 0 [(v, 1)]"

definition safeJsonStringifyWithinBounds :: "(rat \<Rightarrow> string) \<Rightarrow> json_bounds \<Rightarrow> json \<Rightarrow> json_error + string" where
  "safeJsonStringifyWithinBounds nts b v =
     rbind (assertJsonValueWithinBounds b v) (\<lambda>_.
       let serialized = json_stringify nts v
       in if byte_length serialized > maxSerializedBytes b then Inl JsonSerializedTooLarge
          else Inr serialized)"

definition parseJsonWithinBounds :: "(string \<Rightarrow> json option) \<Rightarrow> json_bounds \<Rightarrow> string \<Rightarrow> json_error + json" where
  "parseJsonWithinBounds parse b rawText =
     (if byte_length rawText > maxSerializedBytes b then Inl JsonSerializedTooLarge
      else rbind (assertRawJsonNestingWithinBounds rawText (maxDepth b)) (\<lambda>_.
        case parse rawText of
          None \<Rightarrow> Inl JsonSyntaxError
        | Some parsed \<Rightarrow> rbind (assertJsonValueWithinBounds b parsed) (\<lambda>_. Inr parsed)))"

section \<open>The reference notions: node count and depth\<close>

definition max_list :: "nat list \<Rightarrow> nat" where
  "max_list xs = foldr max xs 0"

lemma max_list_le_iff: "max_list xs \<le> n \<longleftrightarrow> (\<forall>x \<in> set xs. x \<le> n)"
  by (induction xs) (auto simp: max_list_def)

function json_depth :: "json \<Rightarrow> nat" where
  "json_depth v = Suc (max_list (map json_depth (json_children v)))"
  by pat_completeness auto
termination
  by (relation "measure size") (auto simp: json_children_size)

declare json_depth.simps [simp del]

lemma json_depth_pos: "0 < json_depth v"
  by (subst json_depth.simps) simp

lemma node_count_pos: "0 < node_count v"
  by (subst node_count.simps) simp

lemma json_depth_le_iff:
  "d + json_depth v \<le> Suc m \<longleftrightarrow> d \<le> m \<and> (\<forall>x \<in> set (json_children v). Suc d + json_depth x \<le> Suc m)"
proof -
  have "d + json_depth v \<le> Suc m \<longleftrightarrow>
      d \<le> m \<and> max_list (map json_depth (json_children v)) \<le> m - d"
    by (subst json_depth.simps) auto
  also have "\<dots> \<longleftrightarrow> d \<le> m \<and> (\<forall>x \<in> set (json_children v). Suc d + json_depth x \<le> Suc m)"
    by (auto simp: max_list_le_iff)
  finally show ?thesis .
qed

definition stack_nodes :: "(json \<times> nat) list \<Rightarrow> nat" where
  "stack_nodes st = sum_list (map (\<lambda>x. node_count (fst x)) st)"

definition stack_fits :: "nat \<Rightarrow> (json \<times> nat) list \<Rightarrow> bool" where
  "stack_fits m st \<longleftrightarrow> (\<forall>x \<in> set st. snd x + json_depth (fst x) \<le> Suc m)"

lemma stack_nodes_push:
  "Suc (stack_nodes (rev (map (\<lambda>x. (x, d')) (json_children v)) @ st)) = stack_nodes ((v, d) # st)"
  by (simp add: stack_nodes_def node_count.simps [of v] o_def rev_map [symmetric] sum_list_rev)

lemma stack_fits_push:
  "d \<le> m \<Longrightarrow>
   stack_fits m (rev (map (\<lambda>x. (x, d + 1)) (json_children v)) @ st) \<longleftrightarrow> stack_fits m ((v, d) # st)"
  by (simp add: stack_fits_def json_depth_le_iff [of d v] ball_Un)

lemma json_walk_iff:
  "nodeCount \<le> maxNodeCount b \<Longrightarrow>
   json_walk b nodeCount st = Inr () \<longleftrightarrow>
     nodeCount + stack_nodes st \<le> maxNodeCount b \<and> stack_fits (maxDepth b) st"
proof (induction b nodeCount st rule: json_walk.induct)
  case (2 b n v d st)
  show ?case
  proof (cases "n + 1 > maxNodeCount b \<or> d > maxDepth b")
    case True
    then show ?thesis
      using node_count_pos [of v] json_depth_pos [of v] by (auto simp: stack_nodes_def stack_fits_def)
  next
    case False
    let ?st = "rev (map (\<lambda>x. (x, d + 1)) (json_children v)) @ st"
    have "json_walk b n ((v, d) # st) = json_walk b (n + 1) ?st"
      using False by simp
    then show ?thesis
      using "2.IH" False stack_nodes_push [of "d + 1" v st d, symmetric] stack_fits_push [of d "maxDepth b" v st]
      by simp
  qed
qed (simp add: stack_nodes_def stack_fits_def)

lemma json_walk_result: "json_walk b n st = Inr () \<or> json_walk b n st = Inl JsonStructureTooLarge"
  by (induction b n st rule: json_walk.induct) auto

lemma json_within_bounds_iff:
  "assertJsonValueWithinBounds b v = Inr () \<longleftrightarrow>
     node_count v \<le> maxNodeCount b \<and> json_depth v \<le> maxDepth b"
  by (simp add: assertJsonValueWithinBounds_def json_walk_iff stack_nodes_def stack_fits_def
      del: json_walk.simps)

section \<open>The scanner on printed text\<close>

text \<open>Nesting of containers: what the brackets of the printed text show.\<close>

function container_depth :: "json \<Rightarrow> nat" where
  "container_depth v =
     (if isObjectLike (Some v) then Suc (max_list (map container_depth (json_children v))) else 0)"
  by pat_completeness auto
termination
  by (relation "measure size") (auto simp: json_children_size)

declare container_depth.simps [simp del]

lemma container_depth_le: "container_depth v \<le> json_depth v"
proof (induction v rule: json_depth.induct)
  case (1 v)
  have "max_list (map container_depth (json_children v)) \<le> max_list (map json_depth (json_children v))"
    unfolding max_list_le_iff
    using 1 max_list_le_iff [of "map json_depth (json_children v)" "max_list (map json_depth (json_children v))"]
    by (fastforce intro: order_trans)
  then show ?case
    by (subst container_depth.simps, subst json_depth.simps) simp
qed

text \<open>What the printer of numbers promises: no quote and no bracket.\<close>

definition plain_text :: "string \<Rightarrow> bool" where
  "plain_text s \<longleftrightarrow> (\<forall>c \<in> set s. c \<noteq> dquote \<and> c \<notin> set ''{}[]'')"

lemma raw_scan_append:
  "raw_scan maxD st (s @ t) = Option.bind (raw_scan maxD st s) (\<lambda>st'. raw_scan maxD st' t)"
  by (induction s arbitrary: st) (simp_all add: Option.bind_assoc)

lemma raw_step_plain:
  "c \<noteq> dquote \<Longrightarrow> c \<notin> set ''{}[]'' \<Longrightarrow> raw_step maxD (d, False, e) c = Some (d, False, e)"
  by (simp add: raw_step_def)

lemma raw_scan_plain: "plain_text s \<Longrightarrow> raw_scan maxD (d, False, e) s = Some (d, False, e)"
  by (induction s) (auto simp: plain_text_def raw_step_plain)

lemma hex_digit_safe: "n < 16 \<Longrightarrow> hex_digit n \<noteq> dquote \<and> hex_digit n \<noteq> backslash"
proof -
  assume "n < 16"
  then have "code_unit (hex_digit n) = (if n < 10 then 48 + n else 87 + n)"
    by (simp add: hex_digit_def code_unit_char_of)
  then have "code_unit (hex_digit n) \<noteq> 34 \<and> code_unit (hex_digit n) \<noteq> 92" by auto
  then show ?thesis by (auto simp: code_unit_def)
qed

lemma raw_scan_escape: "raw_scan maxD (d, True, False) (escape_char c) = Some (d, True, False)"
  using hex_digit_safe [of "code_unit c mod 16"]
  by (auto simp: escape_char_def raw_step_def simp del: mod_less)

lemma raw_scan_quoted: "raw_scan maxD (d, False, False) (quote_string s) = Some (d, False, False)"
proof -
  have "raw_scan maxD (d, True, False) (concat (map escape_char s)) = Some (d, True, False)"
    by (induction s) (simp_all add: raw_scan_append raw_scan_escape)
  then show ?thesis by (simp add: quote_string_def raw_scan_append raw_step_def)
qed

lemma raw_scan_open: "c \<in> set ''{['' \<Longrightarrow>
    raw_step maxD (d, False, False) c = (if d + 1 \<le> maxD then Some (d + 1, False, False) else None)"
  by (auto simp: raw_step_def)

lemma raw_scan_close: "c \<in> set ''}]'' \<Longrightarrow> raw_step maxD (d, False, False) c = Some (d - 1, False, False)"
  by (auto simp: raw_step_def)

lemma raw_scan_seq:
  "raw_scan maxD st s = (if P then Some st else None) \<Longrightarrow>
   raw_scan maxD st (s @ t) = (if P then raw_scan maxD st t else None)"
  by (simp add: raw_scan_append)

lemma container_depth_object:
  "d + container_depth v \<le> m \<longleftrightarrow>
     d + 1 \<le> m \<and> (\<forall>x \<in> set (json_children v). d + 1 + container_depth x \<le> m)"
  if "isObjectLike (Some v)"
proof -
  have "d + container_depth v \<le> m \<longleftrightarrow>
      d + 1 \<le> m \<and> max_list (map container_depth (json_children v)) \<le> m - (d + 1)"
    using that by (subst container_depth.simps) auto
  also have "\<dots> \<longleftrightarrow> d + 1 \<le> m \<and> (\<forall>x \<in> set (json_children v). d + 1 + container_depth x \<le> m)"
    by (auto simp: max_list_le_iff)
  finally show ?thesis .
qed

lemma container_depth_scalar: "\<not> isObjectLike (Some v) \<Longrightarrow> container_depth v = 0"
  by (subst container_depth.simps) simp

lemma raw_scan_bracketed:
  assumes "isObjectLike (Some v)" and "opn \<in> set ''{[''" and "cls \<in> set ''}]''"
    and "\<And>d. d \<le> maxD \<Longrightarrow> raw_scan maxD (d, False, False) body =
      (if \<forall>x \<in> set (json_children v). d + container_depth x \<le> maxD then Some (d, False, False) else None)"
  shows "raw_scan maxD (d, False, False) ([opn] @ body @ [cls]) =
      (if d + container_depth v \<le> maxD then Some (d, False, False) else None)"
  using assms(4) [of "d + 1"]
  by (simp add: raw_scan_open [OF assms(2)] raw_scan_append raw_scan_close [OF assms(3)]
      container_depth_object [OF assms(1)])

lemma raw_scan_stringify:
  assumes "\<And>n. plain_text (nts n)"
  shows "d \<le> maxD \<Longrightarrow> raw_scan maxD (d, False, False) (json_stringify nts v) =
      (if d + container_depth v \<le> maxD then Some (d, False, False) else None)"
    and "d \<le> maxD \<Longrightarrow> raw_scan maxD (d, False, False) (stringify_items nts xs) =
      (if \<forall>x \<in> set xs. d + container_depth x \<le> maxD then Some (d, False, False) else None)"
    and "d \<le> maxD \<Longrightarrow> raw_scan maxD (d, False, False) (stringify_fields nts fs) =
      (if \<forall>f \<in> set fs. d + container_depth (snd f) \<le> maxD then Some (d, False, False) else None)"
  using assms
proof (induction nts v and nts xs and nts fs arbitrary: d and d and d
    rule: json_stringify_stringify_items_stringify_fields.induct)
  case (1 nts)
  then show ?case by (simp add: container_depth_scalar raw_step_def)
next
  case (2 nts b)
  then show ?case by (simp add: container_depth_scalar raw_step_def)
next
  case (3 nts n)
  then show ?case by (simp add: container_depth_scalar raw_scan_plain)
next
  case (4 nts s)
  then show ?case by (simp add: container_depth_scalar raw_scan_quoted)
next
  case (5 nts xs)
  show ?case
    using raw_scan_bracketed [of "JArr xs" "CHR ''[''" "CHR '']''" maxD "stringify_items nts xs" d] 5
    by simp
next
  case (6 nts fs)
  show ?case
    using raw_scan_bracketed [of "JObj fs" "CHR ''{''" "CHR ''}''" maxD "stringify_fields nts fs" d] 6
    by simp
next
  case (9 nts x y xs)
  then show ?case by (simp add: raw_scan_append raw_step_plain)
next
  case (11 nts k v)
  then show ?case by (simp add: raw_scan_append raw_scan_quoted raw_step_plain)
next
  case (12 nts k v f fs)
  then show ?case by (simp add: raw_scan_append raw_scan_quoted raw_step_plain)
qed simp_all

section \<open>Reserved object keys\<close>

text \<open>\<open>Object.getOwnPropertyNames(Object.prototype)\<close> and \<open>"prototype"\<close>.\<close>

definition RESERVED_OBJECT_KEYS :: "string list" where
  "RESERVED_OBJECT_KEYS =
     [''constructor'', ''__defineGetter__'', ''__defineSetter__'', ''hasOwnProperty'',
      ''__lookupGetter__'', ''__lookupSetter__'', ''isPrototypeOf'', ''propertyIsEnumerable'',
      ''toString'', ''valueOf'', ''__proto__'', ''toLocaleString'', ''prototype'']"

definition isReservedObjectKey :: "string \<Rightarrow> bool" where
  "isReservedObjectKey k \<longleftrightarrow> trim k \<in> set RESERVED_OBJECT_KEYS"

text \<open>The thrown error: the label and the key, and for a nested key its path.\<close>

datatype key_error = ReservedKey string string | ReservedField string string string

definition assertSafeObjectKey :: "string \<Rightarrow> string \<Rightarrow> key_error + unit" where
  "assertSafeObjectKey k label = rensure (\<not> isReservedObjectKey k) (ReservedKey label k)"

text \<open>
  The recursion of \<open>assertNoReservedObjectKeysDeep\<close>. A parsed JSON value is a tree, so the set of
  visited objects never contains the candidate and is not part of the model.
\<close>

fun visit :: "string \<Rightarrow> json \<Rightarrow> string \<Rightarrow> key_error + unit"
  and visit_items :: "string \<Rightarrow> json list \<Rightarrow> nat \<Rightarrow> string \<Rightarrow> key_error + unit"
  and visit_entries :: "string \<Rightarrow> (string \<times> json) list \<Rightarrow> string \<Rightarrow> key_error + unit" where
  "visit label (JArr xs) path = visit_items label xs 0 path"
| "visit label (JObj fs) path = visit_entries label fs path"
| "visit label _ path = Inr ()"
| "visit_items label [] i path = Inr ()"
| "visit_items label (x # xs) i path =
     rbind (visit label x (path @ ''['' @ digits_of_nat i @ '']''))
       (\<lambda>_. visit_items label xs (i + 1) path)"
| "visit_entries label [] path = Inr ()"
| "visit_entries label ((key, child) # fs) path =
     (let childPath = path @ ''.'' @ key
      in if isReservedObjectKey key then Inl (ReservedField label childPath key)
         else rbind (visit label child childPath) (\<lambda>_. visit_entries label fs path))"

definition assertNoReservedObjectKeysDeep :: "json \<Rightarrow> string \<Rightarrow> key_error + unit" where
  "assertNoReservedObjectKeysDeep v label = visit label v ''$''"

definition setSafeObjectKey ::
  "(string, 'v) js_map \<Rightarrow> string \<Rightarrow> 'v \<Rightarrow> string \<Rightarrow> key_error + (string, 'v) js_map" where
  "setSafeObjectKey r key v label = rbind (assertSafeObjectKey key label) (\<lambda>_. Inr (jm_set key v r))"

fun clone_loop ::
  "(string, 'v) js_map \<Rightarrow> (string \<times> 'v) list \<Rightarrow> string \<Rightarrow> key_error + (string, 'v) js_map" where
  "clone_loop clone [] label = Inr clone"
| "clone_loop clone ((key, v) # fs) label =
     rbind (setSafeObjectKey clone key v label) (\<lambda>clone'. clone_loop clone' fs label)"

definition shallowCloneRecordWithSafeKeys ::
  "(string, 'v) js_map \<Rightarrow> string \<Rightarrow> key_error + (string, 'v) js_map" where
  "shallowCloneRecordWithSafeKeys r label = clone_loop [] r label"

text \<open>Every key of every object inside a value.\<close>

fun json_keys :: "json \<Rightarrow> string list"
  and item_keys :: "json list \<Rightarrow> string list"
  and entry_keys :: "(string \<times> json) list \<Rightarrow> string list" where
  "json_keys (JArr xs) = item_keys xs"
| "json_keys (JObj fs) = entry_keys fs"
| "json_keys _ = []"
| "item_keys [] = []"
| "item_keys (x # xs) = json_keys x @ item_keys xs"
| "entry_keys [] = []"
| "entry_keys ((k, v) # fs) = k # json_keys v @ entry_keys fs"

definition names_reserved_key :: "string list \<Rightarrow> key_error + unit \<Rightarrow> bool" where
  "names_reserved_key ks r \<longleftrightarrow>
     (case r of
        Inr _ \<Rightarrow> (\<forall>k \<in> set ks. \<not> isReservedObjectKey k)
      | Inl e \<Rightarrow> (\<exists>label path k. e = ReservedField label path k \<and> k \<in> set ks \<and> isReservedObjectKey k))"

lemma visit_names_reserved_key:
  "names_reserved_key (json_keys v) (visit label v path)"
  "names_reserved_key (item_keys xs) (visit_items label xs i path)"
  "names_reserved_key (entry_keys fs) (visit_entries label fs path)"
proof (induction label v path and label xs i path and label fs path
    rule: visit_visit_items_visit_entries.induct)
  case (5 label x xs i path)
  then show ?case
    by (cases "visit label x (path @ ''['' @ digits_of_nat i @ '']'')")
      (auto simp: names_reserved_key_def split: sum.splits)
next
  case (7 label key child fs path)
  then show ?case
    by (cases "visit label child (path @ ''.'' @ key)")
      (auto simp: names_reserved_key_def Let_def split: sum.splits)
qed (simp_all add: names_reserved_key_def)

lemma clone_loop_Inr:
  "jm_inv (clone @ fs) \<Longrightarrow> \<forall>f \<in> set fs. \<not> isReservedObjectKey (fst f) \<Longrightarrow>
   clone_loop clone fs label = Inr (clone @ fs)"
proof (induction clone fs label rule: clone_loop.induct)
  case (2 clone key v fs label)
  from "2.prems"(1) have "key \<notin> jm_keys clone" by (auto simp: jm_inv_def jm_keys_def)
  with 2 show ?case
    by (simp add: setSafeObjectKey_def assertSafeObjectKey_def jm_set_absent)
qed simp

section \<open>Properties\<close>

text \<open>Property (json_bounds_exact). The explicit-stack walk of \<open>assertJsonValueWithinBounds\<close> accepts
  exactly the values whose node count and nesting depth, in the recursive sense, are within the
  configured bounds, and otherwise throws \<open>json_structure_too_large\<close>.\<close>

theorem json_bounds_exact:
  "assertJsonValueWithinBounds b v =
     (if node_count v \<le> maxNodeCount b \<and> json_depth v \<le> maxDepth b
      then Inr () else Inl JsonStructureTooLarge)"
  using json_within_bounds_iff [of b v] json_walk_result [of b 0 "[(v, 1)]"]
  by (auto simp: assertJsonValueWithinBounds_def)

lemma printed_parses:
  assumes "\<And>n. plain_text (nts n)" and "parse (json_stringify nts v) = Some v"
    and "safeJsonStringifyWithinBounds nts b v = Inr s"
  shows "parseJsonWithinBounds parse b s = Inr v"
proof -
  from assms(3) have ok: "assertJsonValueWithinBounds b v = Inr ()"
    and s: "s = json_stringify nts v" and size: "byte_length s \<le> maxSerializedBytes b"
    by (auto simp: safeJsonStringifyWithinBounds_def res_simps Let_def split: if_splits)
  from ok have "container_depth v \<le> maxDepth b"
    using container_depth_le [of v] by (simp add: json_within_bounds_iff)
  then have "raw_scan (maxDepth b) (0, False, False) s = Some (0, False, False)"
    using raw_scan_stringify(1) [of nts 0 "maxDepth b" v] assms(1) s by simp
  then show ?thesis
    using ok size assms(2) s by (simp add: parseJsonWithinBounds_def assertRawJsonNestingWithinBounds_def)
qed

text \<open>Property (json_print_parse). What \<open>safeJsonStringifyWithinBounds\<close> prints, \<open>parseJsonWithinBounds\<close>
  accepts under the same bounds and reads back: the raw-text scanner counts no more nesting than
  the value has, whatever brackets and escaped quotes its strings contain. Hypotheses: numbers are
  printed without quotes or brackets, and \<open>JSON.parse\<close> inverts \<open>JSON.stringify\<close> on the value.\<close>

theorem json_print_parse:
  assumes "\<And>n. plain_text (nts n)" and "parse (json_stringify nts v) = Some v"
    and "safeJsonStringifyWithinBounds nts b v = Inr s"
  shows "parseJsonWithinBounds parse b s = Inr v"
  using assms by (rule printed_parses)

theorem json_print_parse_witness:
  "parseJsonWithinBounds (\<lambda>_. Some (JArr [JStr ''[['', JNum 7])) hard_json_bounds
     (json_stringify (\<lambda>_. ''7'') (JArr [JStr ''[['', JNum 7])) = Inr (JArr [JStr ''[['', JNum 7])"
proof (rule json_print_parse)
  show "plain_text ''7''" for n :: rat by (simp add: plain_text_def)
  have "assertJsonValueWithinBounds hard_json_bounds (JArr [JStr ''[['', JNum 7]) = Inr ()"
    by (simp add: json_within_bounds_iff hard_json_bounds_def node_count.simps json_depth.simps
        max_list_def)
  then show "safeJsonStringifyWithinBounds (\<lambda>_. ''7'') hard_json_bounds (JArr [JStr ''[['', JNum 7]) =
    Inr (json_stringify (\<lambda>_. ''7'') (JArr [JStr ''[['', JNum 7]))"
    by (simp add: safeJsonStringifyWithinBounds_def hard_json_bounds_def quote_string_def
        escape_char_def byte_length_def code_unit_def)
qed simp

text \<open>Property (reserved_keys_deep). \<open>assertNoReservedObjectKeysDeep\<close> returns exactly when no object at any
  depth of the value has a key that is, after trimming, a property name of \<open>Object.prototype\<close> or
  \<open>prototype\<close>; when it throws, the error names such a key of the value.\<close>

theorem reserved_keys_deep:
  "case assertNoReservedObjectKeysDeep v label of
     Inr _ \<Rightarrow> list_all (\<lambda>k. \<not> isReservedObjectKey k) (json_keys v)
   | Inl e \<Rightarrow> (\<exists>lb path k. e = ReservedField lb path k \<and> k \<in> set (json_keys v) \<and> isReservedObjectKey k)"
  using visit_names_reserved_key(1) [of v label "''$''"]
  by (simp add: assertNoReservedObjectKeysDeep_def names_reserved_key_def list_all_iff split: sum.splits)

end
