(* ===== verification/Gateway_Auth.thy ===== *)
theory Gateway_Auth
  imports Endpoint_Policy Text_Parsing Rate_Limits Json_Bounds
begin

text \<open>
  Who may talk to the gateway: \<^verbatim>\<open>runtime/local-gateway-auth.ts\<close> (the inbound API key and the state of
  inbound authentication), the request predicates of \<^verbatim>\<open>runtime/runtime-helpers.ts\<close> (bearer token,
  source address, Host and Origin gates, response headers), and \<^verbatim>\<open>runtime/runtime-route-classifier.ts\<close>.

  Parameters: \<open>env\<close> is \<open>process.env\<close>, \<open>sha\<close> the SHA-256 digest, \<open>parseUrl\<close> the constructor \<open>URL\<close> on an
  absolute URL.
\<close>

section \<open>Requests\<close>

text \<open>A header that occurs once is a string, a repeated one an array of strings.\<close>

datatype header_value = HStr string | HArr "string list"

record http_request =
  rq_method :: "string option"
  rq_url :: "string option"
  rq_headers :: "(string, header_value) js_map"
  rq_remoteAddress :: "string option"

definition header :: "http_request \<Rightarrow> string \<Rightarrow> header_value option" where
  "header request name = jm_get (rq_headers request) name"

fun getSingleHeaderValue :: "header_value option \<Rightarrow> string option" where
  "getSingleHeaderValue (Some (HStr s)) = Some s"
| "getSingleHeaderValue _ = None"

section \<open>Inbound authentication state\<close>

definition MIN_INBOUND_API_KEY_LENGTH :: nat where
  "MIN_INBOUND_API_KEY_LENGTH = 32"

datatype key_resolution = KeyValue string | KeyMissing | KeyEmpty

type_synonym env_lookup = "string \<Rightarrow> string option"

definition resolveInboundApiKey :: "env_lookup \<Rightarrow> string \<Rightarrow> env_lookup \<Rightarrow> key_resolution" where
  "resolveInboundApiKey env envName overrides =
     (case overrides envName of
        Some revealed \<Rightarrow> if trim revealed = [] then KeyEmpty else KeyValue revealed
      | None \<Rightarrow>
          (case env envName of
             None \<Rightarrow> KeyMissing
           | Some envValue \<Rightarrow> if trim envValue = [] then KeyEmpty else KeyValue envValue))"

definition resolveInboundApiKeyValue :: "env_lookup \<Rightarrow> string \<Rightarrow> env_lookup \<Rightarrow> string option" where
  "resolveInboundApiKeyValue env envName overrides =
     (case resolveInboundApiKey env envName overrides of KeyValue v \<Rightarrow> Some v | _ \<Rightarrow> None)"

datatype misconfiguration = missing_env_name | missing_token | empty_token | short_token

datatype auth_state =
    disabled_explicit
  | token string string                       \<comment> \<open>token, envVar\<close>
  | misconfigured misconfiguration "string option"

definition timingSafeTokenMatches :: "(string \<Rightarrow> 'd) \<Rightarrow> string \<Rightarrow> string \<Rightarrow> bool" where
  "timingSafeTokenMatches sha candidate expected \<longleftrightarrow> sha candidate = sha expected"

definition resolveLocalGatewayInboundAuthState ::
  "env_lookup \<Rightarrow> string option \<Rightarrow> bool \<Rightarrow> env_lookup \<Rightarrow> auth_state" where
  "resolveLocalGatewayInboundAuthState env inboundApiKeyEnv allowUnauthenticatedGateway overrides =
     (case inboundApiKeyEnv of
        None \<Rightarrow> if allowUnauthenticatedGateway then disabled_explicit else misconfigured missing_env_name None
      | Some name \<Rightarrow>
          if trim name = [] then
            (if allowUnauthenticatedGateway then disabled_explicit else misconfigured missing_env_name None)
          else
            (case resolveInboundApiKey env name overrides of
               KeyMissing \<Rightarrow> misconfigured missing_token (Some name)
             | KeyEmpty \<Rightarrow> misconfigured empty_token (Some name)
             | KeyValue tok \<Rightarrow>
                 if length tok < MIN_INBOUND_API_KEY_LENGTH then misconfigured short_token (Some name)
                 else token tok name))"

datatype auth_error = NeedsKeyOrOptIn | TokenTooShort "string option" | TokenNotSet "string option"

definition resolveLocalGatewayInboundAuthToken ::
  "env_lookup \<Rightarrow> string option \<Rightarrow> bool \<Rightarrow> env_lookup \<Rightarrow> auth_error + string option" where
  "resolveLocalGatewayInboundAuthToken env inboundApiKeyEnv allowUnauthenticatedGateway overrides =
     (case resolveLocalGatewayInboundAuthState env inboundApiKeyEnv allowUnauthenticatedGateway overrides of
        disabled_explicit \<Rightarrow> Inr None
      | misconfigured reason envVar \<Rightarrow>
          if reason = missing_env_name then Inl NeedsKeyOrOptIn
          else if reason = short_token then Inl (TokenTooShort envVar)
          else Inl (TokenNotSet envVar)
      | token tok _ \<Rightarrow> Inr (Some tok))"

datatype auth_status = enabled | disabled | broken

definition describeLocalGatewayInboundAuthState :: "auth_state \<Rightarrow> auth_status \<times> string option" where
  "describeLocalGatewayInboundAuthState authState =
     (case authState of
        disabled_explicit \<Rightarrow> (disabled, None)
      | misconfigured _ envVar \<Rightarrow> (broken, envVar)
      | token _ envVar \<Rightarrow> (enabled, Some envVar))"

definition buildLocalGatewayInboundAuthStateView ::
  "auth_state \<Rightarrow> (string option \<Rightarrow> string option) option \<Rightarrow> auth_status \<times> string option \<times> misconfiguration option" where
  "buildLocalGatewayInboundAuthStateView authState formatEnvVarName =
     (let description = describeLocalGatewayInboundAuthState authState;
          envVar = (case formatEnvVarName of Some f \<Rightarrow> f (snd description) | None \<Rightarrow> snd description)
      in (fst description, envVar, case authState of misconfigured reason _ \<Rightarrow> Some reason | _ \<Rightarrow> None))"

definition LOCAL_CLIENT_HEADER :: string where
  "LOCAL_CLIENT_HEADER = ''x-switchmaxxer-local-client''"

definition buildLocalGatewayAuthHeaders ::
  "env_lookup \<Rightarrow> string option \<Rightarrow> bool \<Rightarrow> bool \<Rightarrow> env_lookup \<Rightarrow> auth_error + (string, string) js_map" where
  "buildLocalGatewayAuthHeaders env inboundApiKeyEnv allowUnauthenticatedGateway oneTrustedOperatorBoundary overrides =
     (case resolveLocalGatewayInboundAuthState env inboundApiKeyEnv allowUnauthenticatedGateway overrides of
        disabled_explicit \<Rightarrow>
          if oneTrustedOperatorBoundary then Inr [] else Inr [(LOCAL_CLIENT_HEADER, ''1'')]
      | misconfigured _ _ \<Rightarrow>
          rbind (resolveLocalGatewayInboundAuthToken env inboundApiKeyEnv allowUnauthenticatedGateway overrides)
            (\<lambda>_. Inr [])
      | token tok _ \<Rightarrow> Inr [(''authorization'', ''Bearer '' @ tok)])"

section \<open>Request predicates\<close>

definition bearer_char :: "char \<Rightarrow> bool" where
  "bearer_char c \<longleftrightarrow>
     (let u = code_unit c
      in (65 \<le> u \<and> u \<le> 90) \<or> (97 \<le> u \<and> u \<le> 122) \<or> (48 \<le> u \<and> u \<le> 57) \<or> c \<in> set ''._~+/-='')"

text \<open>\<open>/^Bearer ([A-Za-z0-9._~+/\-=]+)$/\<close>\<close>

definition bearer_match :: "string \<Rightarrow> string option" where
  "bearer_match s =
     (if starts_with ''Bearer '' s \<and> drop 7 s \<noteq> [] \<and> list_all bearer_char (drop 7 s)
      then Some (drop 7 s) else None)"

definition requestHasExpectedInboundAuth ::
  "(string \<Rightarrow> string \<Rightarrow> bool) \<Rightarrow> http_request \<Rightarrow> string \<Rightarrow> bool" where
  "requestHasExpectedInboundAuth tokenMatches request expectedToken =
     (if (case header request ''x-api-key'' of Some (HStr k) \<Rightarrow> tokenMatches k expectedToken | _ \<Rightarrow> False) then True
      else (case header request ''authorization'' of
              Some (HStr authorization) \<Rightarrow>
                (case bearer_match authorization of
                   Some tok \<Rightarrow> tokenMatches tok expectedToken
                 | None \<Rightarrow> False)
            | _ \<Rightarrow> False))"

definition requestHasJsonContentType :: "http_request \<Rightarrow> bool" where
  "requestHasJsonContentType request =
     (case getSingleHeaderValue (header request ''content-type'') of
        None \<Rightarrow> False
      | Some contentType \<Rightarrow> to_lower (trim (hd (split_char CHR '';'' contentType))) = ''application/json'')"

definition normalizeGatewaySourceIp :: "string option \<Rightarrow> string" where
  "normalizeGatewaySourceIp rawSourceIp =
     (case rawSourceIp of
        None \<Rightarrow> ''unknown''
      | Some raw \<Rightarrow>
          let normalized = to_lower (trim raw)
          in if starts_with ''::ffff:'' normalized then drop 7 normalized
             else if length normalized > 0 then normalized else ''unknown'')"

definition gatewayRequestSourceIp :: "http_request \<Rightarrow> string" where
  "gatewayRequestSourceIp request = normalizeGatewaySourceIp (rq_remoteAddress request)"

definition originTargetsAllowedLocalHost ::
  "(string \<Rightarrow> parsed_url option) \<Rightarrow> string \<Rightarrow> string \<Rightarrow> bool" where
  "originTargetsAllowedLocalHost parseUrl origin bindHost =
     (if to_lower (trim origin) = ''null'' then False
      else (case parseUrl origin of
              None \<Rightarrow> False
            | Some parsedOrigin \<Rightarrow>
                if u_protocol parsedOrigin \<noteq> ''http:'' \<and> u_protocol parsedOrigin \<noteq> ''https:'' then False
                else let hostname = normalizeHostname (u_hostname parsedOrigin)
                     in isLoopbackHostname hostname False \<or> hostname = normalizeHostname bindHost))"

record client_rejection =
  cr_statusCode :: nat
  cr_message :: string
  cr_logReason :: string

definition quoted :: "string \<Rightarrow> string" where
  "quoted s = [CHR 0x27] @ s @ [CHR 0x27]"

definition lower_trimmed :: "header_value option \<Rightarrow> string option" where
  "lower_trimmed h = map_option (\<lambda>s. to_lower (trim s)) (getSingleHeaderValue h)"

definition reject_fetch_mode :: "http_request \<Rightarrow> client_rejection option" where
  "reject_fetch_mode request =
     (case lower_trimmed (header request ''sec-fetch-mode'') of
        Some mode \<Rightarrow>
          if mode = ''no-cors'' \<or> mode = ''navigate'' \<or> mode = ''websocket''
          then Some \<lparr>cr_statusCode = 403,
               cr_message = ''Unauthenticated gateway requests do not accept browser navigation or no-cors modes.'',
               cr_logReason = ''suspicious Sec-Fetch-Mode '' @ quoted mode\<rparr>
          else None
      | None \<Rightarrow> None)"

definition validateUnauthenticatedGatewayLocalClientRequest ::
  "(string \<Rightarrow> parsed_url option) \<Rightarrow> http_request \<Rightarrow> string \<Rightarrow> bool \<Rightarrow> client_rejection option" where
  "validateUnauthenticatedGatewayLocalClientRequest parseUrl request bindHost oneTrustedOperatorBoundary =
     (if \<not> oneTrustedOperatorBoundary \<and>
         map_option trim (getSingleHeaderValue (header request LOCAL_CLIENT_HEADER)) \<noteq> Some ''1''
      then Some \<lparr>cr_statusCode = 403,
                 cr_message = ''Unauthenticated gateway requests require header 'x-switchmaxxer-local-client: 1'.'',
                 cr_logReason = ''missing or invalid local-client header''\<rparr>
      else if (case getSingleHeaderValue (header request ''origin'') of
                 None \<Rightarrow> False
               | Some origin \<Rightarrow> \<not> originTargetsAllowedLocalHost parseUrl origin bindHost)
      then Some \<lparr>cr_statusCode = 403,
                 cr_message = ''Unauthenticated gateway requests do not accept cross-site browser origins.'',
                 cr_logReason = ''cross-site Origin header''\<rparr>
      else (case lower_trimmed (header request ''sec-fetch-site'') of
              Some site \<Rightarrow>
                if site \<noteq> ''same-origin'' \<and> site \<noteq> ''none''
                then Some \<lparr>cr_statusCode = 403,
                     cr_message = ''Unauthenticated gateway requests do not accept cross-site browser fetch metadata.'',
                     cr_logReason = ''suspicious Sec-Fetch-Site '' @ quoted site\<rparr>
                else reject_fetch_mode request
            | None \<Rightarrow> reject_fetch_mode request))"

definition isAllowedUnauthenticatedGatewayHost ::
  "(string \<Rightarrow> parsed_url option) \<Rightarrow> header_value option \<Rightarrow> http_request \<Rightarrow> string \<Rightarrow> nat \<Rightarrow> bool" where
  "isAllowedUnauthenticatedGatewayHost parseUrl hostHeader request bindHost port =
     (case hostHeader of
        Some (HStr h) \<Rightarrow>
          if trim h = [] then False
          else
            let sourceIp = normalizeGatewaySourceIp (rq_remoteAddress request)
            in if sourceIp \<noteq> ''127.0.0.1'' \<and> sourceIp \<noteq> ''::1'' \<and> sourceIp \<noteq> ''0:0:0:0:0:0:0:1'' then False
               else (case parseUrl (''http://'' @ h) of
                       None \<Rightarrow> False
                     | Some parsedHost \<Rightarrow>
                         let hostname = normalizeHostname (u_hostname parsedHost)
                         in if length (u_port parsedHost) > 0 \<and> nat_of_digits (u_port parsedHost) \<noteq> port then False
                            else isLoopbackHostname hostname False \<or> hostname = normalizeHostname bindHost)
      | _ \<Rightarrow> False)"

datatype api_mode = openai_completions | anthropic_messages

definition classifyGatewayApiMode :: "string \<Rightarrow> api_mode option" where
  "classifyGatewayApiMode pathname =
     (if pathname = ''/v1/chat/completions'' then Some openai_completions
      else if pathname = ''/anthropic/v1/messages'' then Some anthropic_messages
      else None)"

section \<open>Route classification\<close>

datatype runtime_route =
    health
  | data_plane bool                \<comment> \<open>isAnthropicPath\<close>
  | runtime_config
  | runtime_inspect string
  | unknown_runtime_control_plane
  | not_found

datatype trust_class = health_probe | data_plane_class | control_plane_read | unknown_class

fun trustClass :: "runtime_route \<Rightarrow> trust_class" where
  "trustClass health = health_probe"
| "trustClass (data_plane _) = data_plane_class"
| "trustClass runtime_config = control_plane_read"
| "trustClass (runtime_inspect _) = control_plane_read"
| "trustClass unknown_runtime_control_plane = control_plane_read"
| "trustClass not_found = unknown_class"

fun trust_name :: "trust_class \<Rightarrow> string" where
  "trust_name health_probe = ''health_probe''"
| "trust_name data_plane_class = ''data_plane''"
| "trust_name control_plane_read = ''control_plane_read''"
| "trust_name unknown_class = ''unknown''"

definition gatewayRateLimitKey :: "http_request \<Rightarrow> trust_class \<Rightarrow> string" where
  "gatewayRateLimitKey request tc = gatewayRequestSourceIp request @ '':'' @ trust_name tc"

definition inspect_prefix :: string where
  "inspect_prefix = ''/__switchmaxxer/runtime/inspect/''"

definition parseRuntimeInspectRequestPath :: "string \<Rightarrow> string \<Rightarrow> string option" where
  "parseRuntimeInspectRequestPath mthd pathname =
     (if mthd \<noteq> ''GET'' then None
      else if starts_with inspect_prefix pathname \<and> drop (length inspect_prefix) pathname \<noteq> [] \<and>
              CHR ''/'' \<notin> set (drop (length inspect_prefix) pathname)
      then Some (drop (length inspect_prefix) pathname) else None)"

definition classifyRuntimeRoute :: "string \<Rightarrow> string \<Rightarrow> runtime_route" where
  "classifyRuntimeRoute mthd pathname =
     (if mthd = ''GET'' \<and> pathname = ''/health'' then health
      else if mthd = ''POST'' \<and> pathname = ''/v1/chat/completions'' then data_plane False
      else if mthd = ''POST'' \<and> pathname = ''/anthropic/v1/messages'' then data_plane True
      else if mthd = ''GET'' \<and> pathname = ''/__switchmaxxer/runtime/config'' then runtime_config
      else (case parseRuntimeInspectRequestPath mthd pathname of
              Some inspectId \<Rightarrow> runtime_inspect inspectId
            | None \<Rightarrow>
                if mthd = ''GET'' \<and> starts_with ''/__switchmaxxer/runtime/'' pathname
                then unknown_runtime_control_plane else not_found))"

definition requiresUnauthenticatedLocalClientGate :: "runtime_route \<Rightarrow> bool" where
  "requiresUnauthenticatedLocalClientGate route \<longleftrightarrow>
     (case route of data_plane _ \<Rightarrow> True | _ \<Rightarrow> trustClass route = control_plane_read)"

definition requiresCallerRateLimit :: "runtime_route \<Rightarrow> bool" where
  "requiresCallerRateLimit route \<longleftrightarrow>
     (case route of data_plane _ \<Rightarrow> True | runtime_config \<Rightarrow> True | runtime_inspect _ \<Rightarrow> True | _ \<Rightarrow> False)"

section \<open>Response headers and bodies of the helpers\<close>

type_synonym response_headers = "(string, string) js_map"

definition digits_of_int :: "int \<Rightarrow> string" where
  "digits_of_int n = (if n < 0 then CHR ''-'' # digits_of_nat (nat (- n)) else digits_of_nat (nat n))"

definition applyRateLimitHeaders ::
  "response_headers \<Rightarrow> int \<Rightarrow> int \<Rightarrow> int \<Rightarrow> int \<Rightarrow> response_headers" where
  "applyRateLimitHeaders hs requests remaining resetAtMs nowMs =
     jm_set ''ratelimit-reset'' (digits_of_int (max 0 (ceil_seconds (resetAtMs - nowMs))))
       (jm_set ''ratelimit-remaining'' (digits_of_int remaining)
         (jm_set ''ratelimit-limit'' (digits_of_int requests) hs))"

record plain_response =
  ps_status :: nat
  ps_headers :: response_headers
  ps_body :: string

definition json_reply :: "nat \<Rightarrow> response_headers \<Rightarrow> response_headers \<Rightarrow> json \<Rightarrow> plain_response" where
  "json_reply status hs extra v =
     (let body = json_stringify (\<lambda>_. []) v @ [CHR 0x0A]
      in \<lparr>ps_status = status,
          ps_headers = jm_set ''content-length'' (digits_of_nat (byte_length body))
            (foldl (\<lambda>acc (k, x). jm_set k x acc)
              (jm_set ''content-type'' ''application/json; charset=utf-8'' hs) extra),
          ps_body = body\<rparr>)"

definition handleHealth :: "response_headers \<Rightarrow> string option \<Rightarrow> plain_response" where
  "handleHealth hs processIntegrity =
     (let status = (case processIntegrity of None \<Rightarrow> ''ok'' | Some s \<Rightarrow> s)
      in json_reply (if status = ''ok'' then 200 else 503) hs []
           (JObj [(''status'', JStr (if status = ''ok'' then ''ok'' else ''error'')),
                  (''process_integrity_status'', JStr status)]))"

definition handleHealthRateLimited :: "response_headers \<Rightarrow> int \<Rightarrow> plain_response" where
  "handleHealthRateLimited hs retryAfterSeconds =
     json_reply 429 hs [(''retry-after'', digits_of_int retryAfterSeconds)]
       (JObj [(''status'', JStr ''rate_limited'')])"

section \<open>Facts used by the request handler\<close>

lemma auth_state_token_length:
  "resolveLocalGatewayInboundAuthState env name allow overrides = token tok v \<Longrightarrow>
   MIN_INBOUND_API_KEY_LENGTH \<le> length tok \<and> non_blank tok"
  by (auto simp: resolveLocalGatewayInboundAuthState_def resolveInboundApiKey_def non_blank_def
      split: option.splits if_splits key_resolution.splits)

lemma auth_state_disabled:
  "resolveLocalGatewayInboundAuthState env name allow overrides = disabled_explicit \<longleftrightarrow>
   allow \<and> (case name of None \<Rightarrow> True | Some n \<Rightarrow> trim n = [])"
  by (auto simp: resolveLocalGatewayInboundAuthState_def split: option.splits if_splits key_resolution.splits)

lemma local_gate_iff:
  "requiresUnauthenticatedLocalClientGate route \<longleftrightarrow> route \<noteq> health \<and> route \<noteq> not_found"
  by (cases route) (simp_all add: requiresUnauthenticatedLocalClientGate_def)

lemma bearer_match_iff: "bearer_match s = Some t \<longleftrightarrow> s = ''Bearer '' @ t \<and> t \<noteq> [] \<and> list_all bearer_char t"
proof (cases "starts_with ''Bearer '' s")
  case True
  then obtain u where "s = ''Bearer '' @ u" by (auto simp: starts_with_iff)
  then show ?thesis by (auto simp: bearer_match_def starts_with_def)
next
  case False
  then show ?thesis using starts_with_append [of "''Bearer ''" t] by (auto simp: bearer_match_def)
qed

text \<open>Property (inbound_auth_sound). When no other string has the digest of the expected token, a request is
  taken as authenticated exactly when it carries that token in a single \<open>x-api-key\<close> header, or in
  a single \<open>Authorization\<close> header of the form \<open>Bearer token\<close> in the accepted alphabet.\<close>

theorem inbound_auth_sound:
  assumes "\<And>s. sha s = sha expected \<Longrightarrow> s = expected"
  shows "requestHasExpectedInboundAuth (timingSafeTokenMatches sha) request expected \<longleftrightarrow>
    header request ''x-api-key'' = Some (HStr expected) \<or>
    (header request ''authorization'' = Some (HStr (''Bearer '' @ expected)) \<and>
     expected \<noteq> [] \<and> list_all bearer_char expected)"
proof -
  have match: "timingSafeTokenMatches sha s expected \<longleftrightarrow> s = expected" for s
    using assms by (auto simp: timingSafeTokenMatches_def)
  have bearer: "(case bearer_match a of Some t \<Rightarrow> timingSafeTokenMatches sha t expected | None \<Rightarrow> False) \<longleftrightarrow>
      a = ''Bearer '' @ expected \<and> expected \<noteq> [] \<and> list_all bearer_char expected" for a
    using bearer_match_iff [of a] by (cases "bearer_match a") (auto simp: match)
  show ?thesis
    by (cases "header request ''x-api-key''"; cases "header request ''authorization''")
      (auto simp: requestHasExpectedInboundAuth_def match bearer simp del: append.simps
        split: header_value.splits)
qed

definition example_request :: http_request where
  "example_request = \<lparr>rq_method = Some ''GET'', rq_url = Some ''/health'',
     rq_headers = [(''host'', HStr ''127.0.0.1''), (''x-api-key'', HStr ''0123456789abcdef0123456789abcdef'')],
     rq_remoteAddress = Some ''127.0.0.1''\<rparr>"

theorem inbound_auth_sound_witness:
  "requestHasExpectedInboundAuth (timingSafeTokenMatches id) example_request ''0123456789abcdef0123456789abcdef''"
  using inbound_auth_sound [of id "''0123456789abcdef0123456789abcdef''" example_request]
  by (simp add: header_def example_request_def jm_get_def)

text \<open>Property (auth_state_spec). The gateway runs without inbound authentication only if that was allowed and
  no key variable is named; if it runs with a token, the token is not blank and has at least 32
  characters. Every other configuration is reported as misconfigured, never as disabled.\<close>

theorem auth_state_spec:
  "case resolveLocalGatewayInboundAuthState env name allow overrides of
     disabled_explicit \<Rightarrow> allow \<and> (\<nexists>n. name = Some n \<and> non_blank n)
   | token tok v \<Rightarrow> name = Some v \<and> 32 \<le> length tok \<and> non_blank tok \<and>
       resolveInboundApiKeyValue env v overrides = Some tok
   | misconfigured reason v \<Rightarrow>
       (if reason = missing_env_name then allow = False \<and> (\<nexists>n. name = Some n \<and> non_blank n)
        else \<exists>n. name = Some n \<and> non_blank n \<and> v = Some n)"
  by (auto simp: resolveLocalGatewayInboundAuthState_def resolveInboundApiKey_def resolveInboundApiKeyValue_def
      non_blank_def MIN_INBOUND_API_KEY_LENGTH_def split: option.splits key_resolution.splits if_splits)

end
