(* ===== verification/Request_Body.thy ===== *)
theory Request_Body
  imports Gateway_Auth
begin

text \<open>
  The body of a gateway request: \<^verbatim>\<open>runtime/http-runtime-helpers.ts\<close> (reading it within a byte limit and two
  deadlines, checking the size of the parsed value) and \<^verbatim>\<open>runtime/request-body-types.ts\<close> (the types
  of the fields the gateway relies on).

  The reader is driven by what the socket and the timers do: a list of events, each with the time
  that has passed since reading began when the reader starts to wait for it.
\<close>

section \<open>Reading\<close>

datatype body_error =
    request_body_too_large
  | request_body_idle_timeout
  | request_body_total_timeout
  | request_stream_error

datatype read_event = Chunk string | EndOfBody | DeadlinePassed | StreamBroken

fun read_loop ::
  "(string \<Rightarrow> string) \<Rightarrow> nat \<Rightarrow> int \<Rightarrow> int \<Rightarrow> string \<Rightarrow> (int \<times> read_event) list \<Rightarrow> (body_error + string) option" where
  "read_loop dec maxPayloadSize idleTimeoutMs totalTimeoutMs chunks [] = None"
| "read_loop dec maxPayloadSize idleTimeoutMs totalTimeoutMs chunks ((elapsedMs, event) # events) =
     (let remainingTotalTimeoutMs = totalTimeoutMs - elapsedMs;
          nextDeadlineMs = min idleTimeoutMs remainingTotalTimeoutMs
      in if remainingTotalTimeoutMs \<le> 0 then Some (Inl request_body_total_timeout)
         else (case event of
                 DeadlinePassed \<Rightarrow>
                   Some (Inl (if nextDeadlineMs = idleTimeoutMs then request_body_idle_timeout
                              else request_body_total_timeout))
               | StreamBroken \<Rightarrow> Some (Inl request_stream_error)
               | EndOfBody \<Rightarrow> Some (Inr (dec chunks))
               | Chunk buffer \<Rightarrow>
                   if length chunks + length buffer > maxPayloadSize then Some (Inl request_body_too_large)
                   else read_loop dec maxPayloadSize idleTimeoutMs totalTimeoutMs (chunks @ buffer) events))"

definition readRequestBodyWithLimit ::
  "(string \<Rightarrow> string) \<Rightarrow> http_request \<Rightarrow> nat \<Rightarrow> int \<Rightarrow> int \<Rightarrow> (int \<times> read_event) list \<Rightarrow> (body_error + string) option" where
  "readRequestBodyWithLimit dec request maxPayloadSize idleTimeoutMs totalTimeoutMs events =
     (case header request ''content-length'' of
        Some (HStr h) \<Rightarrow>
          (case parseCanonicalNonNegativeInteger (Some h) of
             Some declaredLength \<Rightarrow>
               if declaredLength > maxPayloadSize then Some (Inl request_body_too_large)
               else read_loop dec maxPayloadSize idleTimeoutMs totalTimeoutMs [] events
           | None \<Rightarrow> read_loop dec maxPayloadSize idleTimeoutMs totalTimeoutMs [] events)
      | _ \<Rightarrow> read_loop dec maxPayloadSize idleTimeoutMs totalTimeoutMs [] events)"

fun chunk_bytes :: "(int \<times> read_event) list \<Rightarrow> string" where
  "chunk_bytes [] = []"
| "chunk_bytes ((_, Chunk b) # events) = b @ chunk_bytes events"
| "chunk_bytes (_ # events) = []"

lemma read_loop_ok:
  assumes "length chunks \<le> maxPayloadSize"
    and "read_loop dec maxPayloadSize idle totalMs chunks events = Some (Inr body)"
  shows "body = dec (chunks @ chunk_bytes events) \<and> length (chunks @ chunk_bytes events) \<le> maxPayloadSize \<and>
    (\<exists>pre t post. events = pre @ (t, EndOfBody) # post \<and> (\<forall>e \<in> set pre. fst e < totalMs))"
  using assms
proof (induction dec maxPayloadSize idle totalMs chunks events rule: read_loop.induct)
  case (2 dec maxP idle totalMs chunks t event events)
  show ?case
  proof (cases event)
    case (Chunk b)
    with 2 have fits: "length chunks + length b \<le> maxP" "0 < totalMs - t"
      and rest: "read_loop dec maxP idle totalMs (chunks @ b) events = Some (Inr body)"
      by (auto simp: Let_def split: if_splits)
    then have IH: "body = dec ((chunks @ b) @ chunk_bytes events) \<and> length ((chunks @ b) @ chunk_bytes events) \<le> maxP \<and>
      (\<exists>pre t post. events = pre @ (t, EndOfBody) # post \<and> (\<forall>e \<in> set pre. fst e < totalMs))"
      using 2(1) Chunk by (simp add: Let_def)
    then obtain pre t' post where "events = pre @ (t', EndOfBody) # post" "\<forall>e \<in> set pre. fst e < totalMs" by blast
    then have "(t, event) # events = ((t, event) # pre) @ (t', EndOfBody) # post \<and>
        (\<forall>e \<in> set ((t, event) # pre). fst e < totalMs)"
      using fits(2) by simp
    with IH Chunk show ?thesis by (metis append.assoc chunk_bytes.simps(2))
  next
    case EndOfBody
    with 2 have "body = dec chunks" by (auto simp: Let_def split: if_splits)
    moreover have "\<exists>pre t' post. (t, event) # events = pre @ (t', EndOfBody) # post \<and> (\<forall>e \<in> set pre. fst e < totalMs)"
      using EndOfBody by (intro exI [of _ "[]"]) auto
    ultimately show ?thesis using EndOfBody 2(2) by simp
  qed (use 2 in \<open>auto simp: Let_def split: if_splits\<close>)
qed simp

text \<open>Property (body_reader_bounded). When the reader returns a body, it is the decoding of exactly the bytes that
  arrived before the end of the stream, at most \<open>maxPayloadSize\<close> of them, and it never waited for a
  chunk once the total deadline had passed; the stream did end.\<close>

theorem body_reader_bounded:
  assumes "readRequestBodyWithLimit dec request maxPayloadSize idle totalMs events = Some (Inr body)"
  shows "body = dec (chunk_bytes events) \<and> length (chunk_bytes events) \<le> maxPayloadSize \<and>
    (\<exists>pre t post. events = pre @ (t, EndOfBody) # post \<and> (\<forall>e \<in> set pre. fst e < totalMs))"
  using assms read_loop_ok [of "[]" maxPayloadSize dec idle totalMs events body]
  by (auto simp: readRequestBodyWithLimit_def split: option.splits header_value.splits if_splits)

theorem body_reader_bounded_witness:
  "\<exists>pre t post. [(0, Chunk ''{}''), (5, EndOfBody)] = pre @ (t, EndOfBody) # post \<and> (\<forall>e \<in> set pre. fst e < (10::int))"
  using body_reader_bounded [of "\<lambda>b. b" example_request 4 3 10 "[(0, Chunk ''{}''), (5, EndOfBody)]" "''{}''"]
  by (simp add: readRequestBodyWithLimit_def header_def example_request_def jm_get_def)

section \<open>Shape of the parsed body\<close>

definition request_shape_bounds :: "nat \<Rightarrow> nat \<Rightarrow> json_bounds" where
  "request_shape_bounds maxRequestJsonDepth maxPayloadSize =
     \<lparr>maxNodeCount = min (maxNodeCount hard_json_bounds) (max 1024 (maxPayloadSize div 16)),
      maxDepth = min (maxDepth hard_json_bounds) maxRequestJsonDepth,
      maxSerializedBytes = maxPayloadSize\<rparr>"

datatype request_body_error =
    request_body_structure_too_large
  | FieldType string                 \<comment> \<open>the field that has the wrong type\<close>
  | ReservedBodyKey key_error
  | NotAnObject
  | BodyJson json_error

definition validateParsedRequestBodyShape ::
  "(rat \<Rightarrow> string) \<Rightarrow> nat \<Rightarrow> json \<Rightarrow> nat \<Rightarrow> request_body_error + unit" where
  "validateParsedRequestBodyShape nts maxRequestJsonDepth body maxPayloadSize =
     (case safeJsonStringifyWithinBounds nts (request_shape_bounds maxRequestJsonDepth maxPayloadSize) body of
        Inl _ \<Rightarrow> Inl request_body_structure_too_large
      | Inr _ \<Rightarrow> Inr ())"

datatype unit_error = BadSystemdUnit

definition resolveConfiguredSystemdUnit ::
  "(string \<Rightarrow> bool) \<Rightarrow> string option \<Rightarrow> string \<Rightarrow> unit_error + string" where
  "resolveConfiguredSystemdUnit isValidSystemdUnitName override systemdUnit =
     (case override of
        Some u \<Rightarrow> if non_blank u then (if \<not> isValidSystemdUnitName u then Inl BadSystemdUnit else Inr u)
                  else Inr systemdUnit
      | None \<Rightarrow> Inr systemdUnit)"

section \<open>Field types\<close>

definition isStringArray :: "json option \<Rightarrow> bool" where
  "isStringArray v =
     (case as_array v of None \<Rightarrow> False | Some xs \<Rightarrow> list_all (\<lambda>x. case x of JStr _ \<Rightarrow> True | _ \<Rightarrow> False) xs)"

definition assertOptionalString :: "json option \<Rightarrow> string \<Rightarrow> request_body_error + unit" where
  "assertOptionalString v fieldName = rensure (v = None \<or> as_string v \<noteq> None) (FieldType fieldName)"

definition assertOptionalNumber :: "json option \<Rightarrow> string \<Rightarrow> request_body_error + unit" where
  "assertOptionalNumber v fieldName = rensure (v = None \<or> as_number v \<noteq> None) (FieldType fieldName)"

definition assertOptionalBoolean :: "json option \<Rightarrow> string \<Rightarrow> request_body_error + unit" where
  "assertOptionalBoolean v fieldName =
     rensure (v = None \<or> (case v of Some (JBool _) \<Rightarrow> True | _ \<Rightarrow> False)) (FieldType fieldName)"

definition assertOptionalArray :: "json option \<Rightarrow> string \<Rightarrow> request_body_error + unit" where
  "assertOptionalArray v fieldName = rensure (v = None \<or> as_array v \<noteq> None) (FieldType fieldName)"

definition assertOptionalObjectOrNull :: "json option \<Rightarrow> string \<Rightarrow> request_body_error + unit" where
  "assertOptionalObjectOrNull v fieldName =
     rensure (v = None \<or> v = Some JNull \<or> (isObjectLike v \<and> as_array v = None)) (FieldType fieldName)"

definition validateOpenAiChatRequestBody :: "json \<Rightarrow> request_body_error + json" where
  "validateOpenAiChatRequestBody body =
     rbind (assertOptionalString (jprop body ''model'') ''model'') (\<lambda>_.
     rbind (assertOptionalArray (jprop body ''messages'') ''messages'') (\<lambda>_.
     rbind (assertOptionalBoolean (jprop body ''stream'') ''stream'') (\<lambda>_.
     rbind (assertOptionalNumber (jprop body ''max_tokens'') ''max_tokens'') (\<lambda>_.
     rbind (assertOptionalNumber (jprop body ''max_completion_tokens'') ''max_completion_tokens'') (\<lambda>_.
     rbind (assertOptionalNumber (jprop body ''temperature'') ''temperature'') (\<lambda>_.
     rbind (assertOptionalNumber (jprop body ''top_p'') ''top_p'') (\<lambda>_.
     rbind (assertOptionalObjectOrNull (jprop body ''metadata'') ''metadata'') (\<lambda>_.
     rbind (assertOptionalArray (jprop body ''tools'') ''tools'') (\<lambda>_.
     let stop = jprop body ''stop''
     in if stop \<noteq> None \<and> as_string stop = None \<and> \<not> isStringArray stop then Inl (FieldType ''stop'')
        else Inr body)))))))))"

definition validateAnthropicMessagesRequestBody :: "json \<Rightarrow> request_body_error + json" where
  "validateAnthropicMessagesRequestBody body =
     rbind (assertOptionalString (jprop body ''model'') ''model'') (\<lambda>_.
     rbind (assertOptionalArray (jprop body ''messages'') ''messages'') (\<lambda>_.
     rbind (assertOptionalBoolean (jprop body ''stream'') ''stream'') (\<lambda>_.
     rbind (assertOptionalString (jprop body ''system'') ''system'') (\<lambda>_.
     rbind (assertOptionalNumber (jprop body ''max_tokens'') ''max_tokens'') (\<lambda>_.
     rbind (assertOptionalNumber (jprop body ''temperature'') ''temperature'') (\<lambda>_.
     rbind (assertOptionalNumber (jprop body ''top_p'') ''top_p'') (\<lambda>_.
     rbind (assertOptionalObjectOrNull (jprop body ''metadata'') ''metadata'') (\<lambda>_.
     rbind (assertOptionalArray (jprop body ''tools'') ''tools'') (\<lambda>_.
     let stopSequences = jprop body ''stop_sequences''
     in if stopSequences \<noteq> None \<and> \<not> isStringArray stopSequences then Inl (FieldType ''stop_sequences'')
        else Inr body)))))))))"

definition validateGatewayProxyRequestBody :: "json \<Rightarrow> bool \<Rightarrow> request_body_error + json" where
  "validateGatewayProxyRequestBody body anthropic =
     (case assertNoReservedObjectKeysDeep body ''gateway request body'' of
        Inl e \<Rightarrow> Inl (ReservedBodyKey e)
      | Inr _ \<Rightarrow>
          if anthropic then validateAnthropicMessagesRequestBody body else validateOpenAiChatRequestBody body)"

lemma validated_is_body:
  "validateGatewayProxyRequestBody body anthropic = Inr b \<Longrightarrow> b = body"
  by (auto simp: validateGatewayProxyRequestBody_def validateAnthropicMessagesRequestBody_def
      validateOpenAiChatRequestBody_def res_simps Let_def split: sum.splits if_splits)

lemma validated_stream:
  "validateGatewayProxyRequestBody body anthropic = Inr b \<Longrightarrow>
   jprop b ''stream'' = None \<or> (\<exists>x. jprop b ''stream'' = Some (JBool x))"
  by (auto simp: validateGatewayProxyRequestBody_def validateAnthropicMessagesRequestBody_def
      validateOpenAiChatRequestBody_def assertOptionalBoolean_def res_simps Let_def
      split: sum.splits if_splits option.splits json.splits)

end
