(* ===== verification/Inspection_Store.thy ===== *)
theory Inspection_Store
  imports Gateway_Auth
begin

text \<open>
  Captures of inspected requests: \<^verbatim>\<open>runtime/invoke-inspection.ts\<close> (recording the four exchanges of a
  request, redaction of secret-bearing headers, the bindings from request ids to captures) and
  \<^verbatim>\<open>runtime/invoke-inspection-store.ts\<close> (a bounded store whose entries are read once, with a token).

  A capture is an object that several tables share and that the recording functions mutate, so it
  lives in a heap and the tables hold references. Parameters: \<open>sha\<close> the SHA-256 digest, \<open>isoTime\<close> the
  rendering \<open>Date.toISOString\<close>, \<open>dec\<close> the decoding \<open>Buffer.toString("utf8")\<close>, \<open>nts\<close> the printing of numbers;
  random identifiers and tokens are arguments.
\<close>

section \<open>Exchanges and captures\<close>

type_synonym inspection_headers = "(string, header_value) js_map"

record exchange =
  ex_method :: "string option"
  ex_url :: "string option"
  ex_status_code :: "nat option"
  ex_headers :: inspection_headers
  ex_body :: string
  ex_body_truncated :: bool

record capture =
  cp_id :: string
  cp_createdAt :: int
  cp_createdAtIso :: string
  cp_completedAtIso :: "string option"
  cp_clientToSmx :: "exchange option"
  cp_smxToProvider :: "exchange option"
  cp_providerToSmx :: "exchange option"
  cp_smxToClient :: "exchange option"

definition INVOKE_INSPECTION_DEFAULT_TTL_MS :: int where
  "INVOKE_INSPECTION_DEFAULT_TTL_MS = 60000"

definition INVOKE_INSPECTION_MAX_CAPTURE_BYTES :: nat where
  "INVOKE_INSPECTION_MAX_CAPTURE_BYTES = 64 * 1024"

definition INVOKE_INSPECTION_MAX_CAPTURES :: nat where
  "INVOKE_INSPECTION_MAX_CAPTURES = 32"

definition INVOKE_INSPECTION_MAX_STORE_BYTES :: nat where
  "INVOKE_INSPECTION_MAX_STORE_BYTES = INVOKE_INSPECTION_MAX_CAPTURE_BYTES * INVOKE_INSPECTION_MAX_CAPTURES"

definition INVOKE_INSPECTION_TOKEN_HEADER :: string where
  "INVOKE_INSPECTION_TOKEN_HEADER = ''x-switchmaxxer-inspect-token''"

definition REDACTED_SECRET :: string where
  "REDACTED_SECRET = ''***redacted***''"

definition isSecretBearingHeader :: "string \<Rightarrow> bool" where
  "isSecretBearingHeader name =
     (let normalized = to_lower name
      in normalized = ''authorization'' \<or> normalized = ''proxy-authorization'' \<or>
         normalized = ''cookie'' \<or> normalized = ''set-cookie'' \<or> normalized = ''set-cookie2'' \<or>
         normalized = ''x-api-key'' \<or>
         str_includes ''api-key'' normalized \<or> str_includes ''apikey'' normalized \<or>
         str_includes ''auth'' normalized \<or> str_includes ''token'' normalized \<or>
         str_includes ''secret'' normalized \<or> str_includes ''password'' normalized)"

text \<open>A body is a string, which is encoded first, or a buffer of bytes.\<close>

definition utf8_char :: "char \<Rightarrow> string" where
  "utf8_char c =
     (let u = code_unit c
      in if u < 128 then [c] else [char_of (192 + u div 64), char_of (128 + u mod 64)])"

definition utf8_encode :: "string \<Rightarrow> string" where
  "utf8_encode s = concat (map utf8_char s)"

datatype body_input = BodyText string | BodyBuffer string

fun body_bytes :: "body_input \<Rightarrow> string" where
  "body_bytes (BodyText s) = utf8_encode s"
| "body_bytes (BodyBuffer b) = b"

definition truncateBody :: "(string \<Rightarrow> string) \<Rightarrow> body_input \<Rightarrow> string \<times> bool" where
  "truncateBody dec body =
     (let buffer = body_bytes body
      in if length buffer \<le> INVOKE_INSPECTION_MAX_CAPTURE_BYTES then (dec buffer, False)
         else (dec (take INVOKE_INSPECTION_MAX_CAPTURE_BYTES buffer), True))"

definition normalizeIncomingInspectionHeaders :: "inspection_headers \<Rightarrow> inspection_headers" where
  "normalizeIncomingInspectionHeaders headers =
     foldl (\<lambda>acc (name, v). jm_set (to_lower name) v acc) [] headers"

definition normalizeOutgoingInspectionHeaders :: "inspection_headers \<Rightarrow> inspection_headers" where
  "normalizeOutgoingInspectionHeaders headers =
     foldl (\<lambda>acc (name, v).
              if to_lower name = INVOKE_INSPECTION_TOKEN_HEADER then acc else jm_set (to_lower name) v acc)
       [] headers"

definition redacts :: "bool \<Rightarrow> bool \<Rightarrow> string \<Rightarrow> bool" where
  "redacts includeSecrets alwaysRedact name \<longleftrightarrow>
     to_lower name = INVOKE_INSPECTION_TOKEN_HEADER \<or>
     ((\<not> includeSecrets \<or> alwaysRedact) \<and> isSecretBearingHeader name)"

definition sanitizeInspectionHeaders :: "inspection_headers \<Rightarrow> bool \<Rightarrow> bool \<Rightarrow> inspection_headers" where
  "sanitizeInspectionHeaders headers includeSecrets alwaysRedact =
     foldl (\<lambda>acc (name, v).
              jm_set name (if redacts includeSecrets alwaysRedact name then HStr REDACTED_SECRET else v) acc)
       [] headers"

definition sanitizeExchange :: "exchange option \<Rightarrow> bool \<Rightarrow> bool \<Rightarrow> exchange option" where
  "sanitizeExchange ex includeSecrets alwaysRedact =
     map_option (\<lambda>e. e\<lparr>ex_headers := sanitizeInspectionHeaders (ex_headers e) includeSecrets alwaysRedact\<rparr>) ex"

definition createInvokeInspectionCapture :: "(int \<Rightarrow> string) \<Rightarrow> string \<Rightarrow> int \<Rightarrow> capture" where
  "createInvokeInspectionCapture isoTime captureId nowMs =
     \<lparr>cp_id = captureId, cp_createdAt = nowMs, cp_createdAtIso = isoTime nowMs, cp_completedAtIso = None,
      cp_clientToSmx = None, cp_smxToProvider = None, cp_providerToSmx = None, cp_smxToClient = None\<rparr>"

record capture_view =
  vw_id :: string
  vw_created_at :: string
  vw_completed_at :: "string option"
  vw_include_secrets :: bool
  vw_client_to_smx :: "exchange option"
  vw_smx_to_provider :: "exchange option"
  vw_provider_to_smx :: "exchange option"
  vw_smx_to_client :: "exchange option"

definition toInvokeInspectionCaptureView :: "capture \<Rightarrow> bool \<Rightarrow> capture_view" where
  "toInvokeInspectionCaptureView c includeSecrets =
     \<lparr>vw_id = cp_id c, vw_created_at = cp_createdAtIso c, vw_completed_at = cp_completedAtIso c,
      vw_include_secrets = includeSecrets,
      vw_client_to_smx = sanitizeExchange (cp_clientToSmx c) includeSecrets False,
      vw_smx_to_provider = sanitizeExchange (cp_smxToProvider c) includeSecrets True,
      vw_provider_to_smx = sanitizeExchange (cp_providerToSmx c) includeSecrets False,
      vw_smx_to_client = sanitizeExchange (cp_smxToClient c) includeSecrets False\<rparr>"

section \<open>The heap of captures and the tables\<close>

type_synonym cref = nat

record 'd inspection =
  in_next :: cref
  in_heap :: "cref \<Rightarrow> capture option"
  in_store :: "(string, cref \<times> 'd) js_map"
  in_byRequest :: "nat \<Rightarrow> cref option"              \<comment> \<open>by request object\<close>
  in_byRequestId :: "(string, cref) js_map"
  in_requestIds :: "cref \<Rightarrow> string list option"    \<comment> \<open>a \<open>Set\<close>, in insertion order\<close>

definition attachInvokeInspectionCapture :: "nat \<Rightarrow> cref \<Rightarrow> 'd inspection \<Rightarrow> 'd inspection" where
  "attachInvokeInspectionCapture request r s = s\<lparr>in_byRequest := (in_byRequest s)(request \<mapsto> r)\<rparr>"

definition removeRequestIdInspectionBinding :: "string \<Rightarrow> 'd inspection \<Rightarrow> 'd inspection" where
  "removeRequestIdInspectionBinding requestId s =
     (let s' = (case jm_get (in_byRequestId s) requestId of
                  None \<Rightarrow> s
                | Some r \<Rightarrow>
                    (case in_requestIds s r of
                       None \<Rightarrow> s
                     | Some ids \<Rightarrow>
                         let ids' = removeAll requestId ids
                         in s\<lparr>in_requestIds := (in_requestIds s)(r := if ids' = [] then None else Some ids')\<rparr>))
      in s'\<lparr>in_byRequestId := jm_delete requestId (in_byRequestId s')\<rparr>)"

definition bindInvokeInspectionCaptureToRequestId :: "string \<Rightarrow> nat \<Rightarrow> 'd inspection \<Rightarrow> 'd inspection" where
  "bindInvokeInspectionCaptureToRequestId requestId request s0 =
     (case in_byRequest s0 request of
        None \<Rightarrow> s0
      | Some r \<Rightarrow>
          let s = removeRequestIdInspectionBinding requestId s0;
              ids = (case in_requestIds s r of None \<Rightarrow> [] | Some xs \<Rightarrow> xs)
          in s\<lparr>in_byRequestId := jm_set requestId r (in_byRequestId s),
               in_requestIds := (in_requestIds s)(r \<mapsto> List.insert requestId ids)\<rparr>)"

definition removeInvokeInspectionCaptureBindings :: "cref \<Rightarrow> 'd inspection \<Rightarrow> 'd inspection" where
  "removeInvokeInspectionCaptureBindings r s =
     (case in_requestIds s r of
        None \<Rightarrow> s
      | Some ids \<Rightarrow>
          s\<lparr>in_byRequestId :=
              foldl (\<lambda>m requestId. if jm_get m requestId = Some r then jm_delete requestId m else m)
                (in_byRequestId s) ids,
            in_requestIds := (in_requestIds s)(r := None)\<rparr>)"

definition update_capture :: "cref \<Rightarrow> (capture \<Rightarrow> capture) \<Rightarrow> 'd inspection \<Rightarrow> 'd inspection" where
  "update_capture r f s = s\<lparr>in_heap := (in_heap s)(r := map_option f (in_heap s r))\<rparr>"

record recorded =
  rc_method :: "string option"
  rc_url :: "string option"
  rc_status_code :: "nat option"
  rc_headers :: inspection_headers
  rc_body :: body_input

definition exchange_of :: "(string \<Rightarrow> string) \<Rightarrow> recorded \<Rightarrow> exchange" where
  "exchange_of dec e =
     (let (body, truncated) = truncateBody dec (rc_body e)
      in \<lparr>ex_method = rc_method e, ex_url = rc_url e, ex_status_code = rc_status_code e,
          ex_headers = rc_headers e, ex_body = body, ex_body_truncated = truncated\<rparr>)"

definition recordClientToSmxInspectionExchange ::
  "(string \<Rightarrow> string) \<Rightarrow> nat \<Rightarrow> recorded \<Rightarrow> 'd inspection \<Rightarrow> 'd inspection" where
  "recordClientToSmxInspectionExchange dec request e s =
     (case in_byRequest s request of
        None \<Rightarrow> s
      | Some r \<Rightarrow> update_capture r (\<lambda>c. c\<lparr>cp_clientToSmx := Some (exchange_of dec e)\<rparr>) s)"

definition recordSmxToProviderInspectionExchange ::
  "(string \<Rightarrow> string) \<Rightarrow> string \<Rightarrow> recorded \<Rightarrow> 'd inspection \<Rightarrow> 'd inspection" where
  "recordSmxToProviderInspectionExchange dec requestId e s =
     (case jm_get (in_byRequestId s) requestId of
        None \<Rightarrow> s
      | Some r \<Rightarrow> update_capture r (\<lambda>c. c\<lparr>cp_smxToProvider := Some (exchange_of dec e)\<rparr>) s)"

definition recordProviderToSmxInspectionExchange ::
  "(string \<Rightarrow> string) \<Rightarrow> string \<Rightarrow> recorded \<Rightarrow> 'd inspection \<Rightarrow> 'd inspection" where
  "recordProviderToSmxInspectionExchange dec requestId e s =
     (case jm_get (in_byRequestId s) requestId of
        None \<Rightarrow> s
      | Some r \<Rightarrow> update_capture r (\<lambda>c. c\<lparr>cp_providerToSmx := Some (exchange_of dec e)\<rparr>) s)"

definition recordSmxToClientInspectionBody ::
  "(string \<Rightarrow> string) \<Rightarrow> string \<Rightarrow> nat \<Rightarrow> body_input \<Rightarrow> 'd inspection \<Rightarrow> 'd inspection" where
  "recordSmxToClientInspectionBody dec requestId statusCode body s =
     (case jm_get (in_byRequestId s) requestId of
        None \<Rightarrow> s
      | Some r \<Rightarrow>
          update_capture r
            (\<lambda>c. c\<lparr>cp_smxToClient := Some (exchange_of dec
                 \<lparr>rc_method = None, rc_url = None, rc_status_code = Some statusCode, rc_headers = [],
                  rc_body = body\<rparr>)\<rparr>) s)"

definition completeSmxToClientInspectionExchange ::
  "(int \<Rightarrow> string) \<Rightarrow> cref \<Rightarrow> nat \<Rightarrow> inspection_headers \<Rightarrow> int \<Rightarrow> 'd inspection \<Rightarrow> 'd inspection" where
  "completeSmxToClientInspectionExchange isoTime r statusCode headers completedAtMs s =
     update_capture r
       (\<lambda>c. let base = (case cp_smxToClient c of
                          Some e \<Rightarrow> e
                        | None \<Rightarrow> \<lparr>ex_method = None, ex_url = None, ex_status_code = None, ex_headers = [],
                                   ex_body = [], ex_body_truncated = False\<rparr>)
            in c\<lparr>cp_completedAtIso := Some (isoTime completedAtMs),
                 cp_smxToClient := Some (base\<lparr>ex_status_code := Some statusCode, ex_headers := headers\<rparr>)\<rparr>) s"

section \<open>The store\<close>

definition normalizeMaxTotalBytes :: "rat option \<Rightarrow> nat" where
  "normalizeMaxTotalBytes v =
     (case v of
        None \<Rightarrow> INVOKE_INSPECTION_MAX_STORE_BYTES
      | Some x \<Rightarrow> if x < 1 then INVOKE_INSPECTION_MAX_STORE_BYTES else nat \<lfloor>x\<rfloor>)"

fun header_json :: "header_value \<Rightarrow> json" where
  "header_json (HStr s) = JStr s"
| "header_json (HArr xs) = JArr (map JStr xs)"

fun exchange_json :: "exchange option \<Rightarrow> json" where
  "exchange_json None = JNull"
| "exchange_json (Some e) =
     JObj ((case ex_method e of None \<Rightarrow> [] | Some x \<Rightarrow> [(''method'', JStr x)]) @
           (case ex_url e of None \<Rightarrow> [] | Some x \<Rightarrow> [(''url'', JStr x)]) @
           (case ex_status_code e of None \<Rightarrow> [] | Some x \<Rightarrow> [(''status_code'', JNum (of_nat x))]) @
           [(''headers'', JObj (map (\<lambda>(k, v). (k, header_json v)) (ex_headers e))),
            (''body'', JStr (ex_body e)), (''body_truncated'', JBool (ex_body_truncated e))])"

definition capture_json :: "capture \<Rightarrow> json" where
  "capture_json c =
     JObj [(''id'', JStr (cp_id c)), (''createdAt'', JNum (of_int (cp_createdAt c))),
           (''createdAtIso'', JStr (cp_createdAtIso c)),
           (''completedAtIso'', (case cp_completedAtIso c of None \<Rightarrow> JNull | Some x \<Rightarrow> JStr x)),
           (''clientToSmx'', exchange_json (cp_clientToSmx c)),
           (''smxToProvider'', exchange_json (cp_smxToProvider c)),
           (''providerToSmx'', exchange_json (cp_providerToSmx c)),
           (''smxToClient'', exchange_json (cp_smxToClient c))]"

definition estimateInvokeInspectionCaptureBytes :: "(rat \<Rightarrow> string) \<Rightarrow> capture \<Rightarrow> nat" where
  "estimateInvokeInspectionCaptureBytes nts c = byte_length (json_stringify nts (capture_json c))"

definition stored_bytes :: "(rat \<Rightarrow> string) \<Rightarrow> 'd inspection \<Rightarrow> cref \<Rightarrow> nat" where
  "stored_bytes nts s r =
     (case in_heap s r of None \<Rightarrow> 0 | Some c \<Rightarrow> estimateInvokeInspectionCaptureBytes nts c)"

definition estimateInvokeInspectionStoreBytes :: "(rat \<Rightarrow> string) \<Rightarrow> 'd inspection \<Rightarrow> nat" where
  "estimateInvokeInspectionStoreBytes nts s =
     sum_list (map (\<lambda>e. stored_bytes nts s (fst (snd e))) (in_store s))"

definition deleteCapture :: "string \<Rightarrow> cref \<Rightarrow> 'd inspection \<Rightarrow> 'd inspection" where
  "deleteCapture captureId r s =
     removeInvokeInspectionCaptureBindings r (s\<lparr>in_store := jm_delete captureId (in_store s)\<rparr>)"

definition capture_expired :: "'d inspection \<Rightarrow> int \<Rightarrow> cref \<Rightarrow> bool" where
  "capture_expired s nowMs r =
     (case in_heap s r of
        None \<Rightarrow> False
      | Some c \<Rightarrow> nowMs - cp_createdAt c > INVOKE_INSPECTION_DEFAULT_TTL_MS)"

fun prune_expired :: "int \<Rightarrow> (string \<times> cref \<times> 'd) list \<Rightarrow> 'd inspection \<Rightarrow> 'd inspection" where
  "prune_expired nowMs [] s = s"
| "prune_expired nowMs ((captureId, r, h) # es) s =
     prune_expired nowMs es (if capture_expired s nowMs r then deleteCapture captureId r s else s)"

lemma deleteCapture_store: "in_store (deleteCapture captureId r s) = jm_delete captureId (in_store s)"
  by (simp add: deleteCapture_def removeInvokeInspectionCaptureBindings_def split: option.split)

lemma jm_delete_head_less: "length (jm_delete k ((k, v) # m)) < Suc (length m)"
  by (simp add: jm_delete_def less_Suc_eq_le)

function prune_count :: "'d inspection \<Rightarrow> 'd inspection" where
  "prune_count s =
     (if length (in_store s) \<le> INVOKE_INSPECTION_MAX_CAPTURES then s
      else (case in_store s of [] \<Rightarrow> s | (captureId, r, h) # _ \<Rightarrow> prune_count (deleteCapture captureId r s)))"
  by pat_completeness auto
termination
  by (relation "measure (\<lambda>s. length (in_store s))")
    (auto simp: deleteCapture_store jm_delete_head_less)

function prune_bytes :: "(rat \<Rightarrow> string) \<Rightarrow> nat \<Rightarrow> 'd inspection \<Rightarrow> 'd inspection" where
  "prune_bytes nts maxTotalBytes s =
     (if estimateInvokeInspectionStoreBytes nts s \<le> maxTotalBytes then s
      else (case in_store s of [] \<Rightarrow> s | (captureId, r, h) # _ \<Rightarrow> prune_bytes nts maxTotalBytes (deleteCapture captureId r s)))"
  by pat_completeness auto
termination
  by (relation "measure (\<lambda>(nts, n, s). length (in_store s))")
    (auto simp: deleteCapture_store jm_delete_head_less)

declare prune_count.simps [simp del] prune_bytes.simps [simp del]

definition store_prune :: "(rat \<Rightarrow> string) \<Rightarrow> nat \<Rightarrow> int \<Rightarrow> 'd inspection \<Rightarrow> 'd inspection" where
  "store_prune nts maxTotalBytes nowMs s =
     prune_bytes nts maxTotalBytes (prune_count (prune_expired nowMs (in_store s) s))"

definition store_allocate ::
  "(string \<Rightarrow> 'd) \<Rightarrow> (int \<Rightarrow> string) \<Rightarrow> (rat \<Rightarrow> string) \<Rightarrow> nat \<Rightarrow> string \<Rightarrow> string \<Rightarrow> int \<Rightarrow> 'd inspection \<Rightarrow>
   cref \<times> 'd inspection" where
  "store_allocate sha isoTime nts maxTotalBytes captureId readToken nowMs s0 =
     (let s = store_prune nts maxTotalBytes nowMs s0; r = in_next s
      in (r, s\<lparr>in_next := r + 1,
              in_heap := (in_heap s)(r \<mapsto> createInvokeInspectionCapture isoTime captureId nowMs),
              in_store := jm_set captureId (r, sha readToken) (in_store s)\<rparr>))"

definition readTokenMatches :: "(string \<Rightarrow> 'd) \<Rightarrow> string \<Rightarrow> 'd \<Rightarrow> bool" where
  "readTokenMatches sha readToken expectedHash \<longleftrightarrow> sha readToken = expectedHash"

definition store_consume ::
  "(string \<Rightarrow> 'd) \<Rightarrow> (rat \<Rightarrow> string) \<Rightarrow> nat \<Rightarrow> string \<Rightarrow> string \<Rightarrow> int \<Rightarrow> 'd inspection \<Rightarrow>
   cref option \<times> 'd inspection" where
  "store_consume sha nts maxTotalBytes captureId readToken nowMs s0 =
     (let s = store_prune nts maxTotalBytes nowMs s0
      in case jm_get (in_store s) captureId of
           None \<Rightarrow> (None, s)
         | Some (r, h) \<Rightarrow>
             if \<not> readTokenMatches sha readToken h then (None, s)
             else (Some r, deleteCapture captureId r s))"

definition inspection_init :: "'d inspection" where
  "inspection_init = \<lparr>in_next = 0, in_heap = \<lambda>_. None, in_store = [], in_byRequest = \<lambda>_. None,
     in_byRequestId = [], in_requestIds = \<lambda>_. None\<rparr>"

section \<open>Reads happen once\<close>

text \<open>The interface of a store whose entries can be read once, and what follows for any sequence of reads.\<close>

fun read_run :: "('q \<Rightarrow> 's \<Rightarrow> 'v option \<times> 's) \<Rightarrow> ('q \<Rightarrow> 'k) \<Rightarrow> 's \<Rightarrow> 'q list \<Rightarrow> ('k \<times> 'v option) list" where
  "read_run read key s [] = []"
| "read_run read key s (q # qs) = (let (r, s') = read q s in (key q, r) # read_run read key s' qs)"

definition successes :: "'k \<Rightarrow> ('k \<times> 'v option) list \<Rightarrow> nat" where
  "successes k rs = length (filter (\<lambda>x. fst x = k \<and> snd x \<noteq> None) rs)"

locale one_time_reads =
  fixes entry :: "'s \<Rightarrow> 'k \<Rightarrow> 'v option"
    and read :: "'q \<Rightarrow> 's \<Rightarrow> 'v option \<times> 's"
    and key :: "'q \<Rightarrow> 'k"
  assumes read_present: "read q s = (Some v, s') \<Longrightarrow> entry s (key q) = Some v"
    and read_removes: "read q s = (Some v, s') \<Longrightarrow> entry s' (key q) = None"
    and read_shrinks: "read q s = (r, s') \<Longrightarrow> entry s k = None \<Longrightarrow> entry s' k = None"
begin

lemma absent_never_read: "entry s k = None \<Longrightarrow> successes k (read_run read key s qs) = 0"
proof (induction qs arbitrary: s)
  case (Cons q qs)
  obtain r s' where r: "read q s = (r, s')" by fastforce
  have "successes k (read_run read key s' qs) = 0"
    using Cons.IH read_shrinks [OF r Cons.prems] .
  moreover have "key q = k \<Longrightarrow> r = None"
    using read_present [of q s] r Cons.prems by (cases r) auto
  ultimately show ?case by (auto simp: r successes_def)
qed (simp add: successes_def)

lemma read_at_most_once: "successes k (read_run read key s qs) \<le> 1"
proof (induction qs arbitrary: s)
  case (Cons q qs)
  obtain r s' where r: "read q s = (r, s')" by fastforce
  show ?case
  proof (cases "key q = k \<and> r \<noteq> None")
    case True
    then obtain v where "r = Some v" by auto
    then have "entry s' k = None" using read_removes [of q s v s'] r True by simp
    from absent_never_read [OF this, of qs] True show ?thesis by (simp add: r successes_def)
  next
    case False
    with Cons.IH [of s'] show ?thesis by (auto simp: r successes_def)
  qed
qed (simp add: successes_def)

end

definition store_le :: "'d inspection \<Rightarrow> 'd inspection \<Rightarrow> bool" where
  "store_le s' s \<longleftrightarrow> in_heap s' = in_heap s \<and>
     (\<forall>k. jm_get (in_store s') k = None \<or> jm_get (in_store s') k = jm_get (in_store s) k)"

lemma store_le_refl: "store_le s s"
  by (simp add: store_le_def)

lemma store_le_trans: "store_le a b \<Longrightarrow> store_le b c \<Longrightarrow> store_le a c"
  unfolding store_le_def by metis

lemma deleteCapture_heap: "in_heap (deleteCapture k r s) = in_heap s"
  by (simp add: deleteCapture_def removeInvokeInspectionCaptureBindings_def split: option.split)

lemma deleteCapture_le: "store_le (deleteCapture k r s) s"
  by (auto simp: store_le_def deleteCapture_store deleteCapture_heap jm_get_delete)

text \<open>What every deletion keeps, the three pruning passes keep.\<close>

lemma prune_expired_rule:
  "P s \<Longrightarrow> (\<And>s k r. P s \<Longrightarrow> P (deleteCapture k r s)) \<Longrightarrow> P (prune_expired now es s)"
  by (induction now es s rule: prune_expired.induct) auto

lemma prune_count_rule:
  assumes "P s" and "\<And>s k r. P s \<Longrightarrow> P (deleteCapture k r s)"
  shows "P (prune_count s)"
  using assms(1)
proof (induction "length (in_store s)" arbitrary: s rule: less_induct)
  case less
  show ?case
  proof (cases "in_store s")
    case Nil
    with less.prems show ?thesis by (simp add: prune_count.simps [of s])
  next
    case (Cons e es)
    obtain k r h where e: "e = (k, r, h)" by (cases e) auto
    have "P (prune_count (deleteCapture k r s))"
      using less assms(2) Cons e by (simp add: deleteCapture_store jm_delete_head_less)
    with less.prems Cons e show ?thesis by (simp add: prune_count.simps [of s])
  qed
qed

lemma prune_bytes_rule:
  assumes "P s" and "\<And>s k r. P s \<Longrightarrow> P (deleteCapture k r s)"
  shows "P (prune_bytes nts n s)"
  using assms(1)
proof (induction "length (in_store s)" arbitrary: s rule: less_induct)
  case less
  show ?case
  proof (cases "in_store s")
    case Nil
    with less.prems show ?thesis by (simp add: prune_bytes.simps [of nts n s])
  next
    case (Cons e es)
    obtain k r h where e: "e = (k, r, h)" by (cases e) auto
    have "P (prune_bytes nts n (deleteCapture k r s))"
      using less assms(2) Cons e by (simp add: deleteCapture_store jm_delete_head_less)
    with less.prems Cons e show ?thesis by (simp add: prune_bytes.simps [of nts n s])
  qed
qed

lemma store_prune_rule:
  "P s \<Longrightarrow> (\<And>s k r. P s \<Longrightarrow> P (deleteCapture k r s)) \<Longrightarrow> P (store_prune nts n now s)"
  unfolding store_prune_def
  by (rule prune_bytes_rule, rule prune_count_rule, rule prune_expired_rule)

lemma store_prune_le: "store_le (store_prune nts n now s) s"
  by (rule store_prune_rule [where P = "\<lambda>s'. store_le s' s"])
    (auto intro: store_le_refl store_le_trans deleteCapture_le)

definition consume_call :: "(string \<Rightarrow> 'd) \<Rightarrow> (rat \<Rightarrow> string) \<Rightarrow> nat \<Rightarrow> string \<times> string \<times> int \<Rightarrow> 'd inspection \<Rightarrow> cref option \<times> 'd inspection" where
  "consume_call sha nts maxTotalBytes q s = store_consume sha nts maxTotalBytes (fst q) (fst (snd q)) (snd (snd q)) s"

definition stored_ref :: "'d inspection \<Rightarrow> string \<Rightarrow> cref option" where
  "stored_ref s k = map_option fst (jm_get (in_store s) k)"

lemma store_le_ref: "store_le s' s \<Longrightarrow> stored_ref s' k = None \<or> stored_ref s' k = stored_ref s k"
  by (auto simp: store_le_def stored_ref_def)

lemma consume_cases:
  assumes "store_consume sha nts n k tok now s = (res, s')"
  obtains (missing) "res = None" "s' = store_prune nts n now s"
  | (found) r h where "res = Some r" "jm_get (in_store (store_prune nts n now s)) k = Some (r, h)"
      "sha tok = h" "s' = deleteCapture k r (store_prune nts n now s)"
  using assms
  by (auto simp: store_consume_def Let_def readTokenMatches_def split: option.splits if_splits)

interpretation reads: one_time_reads stored_ref "consume_call sha nts maxTotalBytes" fst
  for sha :: "string \<Rightarrow> 'd" and nts :: "rat \<Rightarrow> string" and maxTotalBytes :: nat
proof
  fix q :: "string \<times> string \<times> int" and s s' :: "'d inspection" and v
  assume "consume_call sha nts maxTotalBytes q s = (Some v, s')"
  then obtain h where found: "jm_get (in_store (store_prune nts maxTotalBytes (snd (snd q)) s)) (fst q) = Some (v, h)"
    "s' = deleteCapture (fst q) v (store_prune nts maxTotalBytes (snd (snd q)) s)"
    unfolding consume_call_def by (cases rule: consume_cases) auto
  then show "stored_ref s (fst q) = Some v"
    using store_le_ref [OF store_prune_le, of nts maxTotalBytes "snd (snd q)" s "fst q"]
    by (simp add: stored_ref_def)
  show "stored_ref s' (fst q) = None"
    by (simp add: found(2) stored_ref_def deleteCapture_store jm_get_delete)
next
  fix q :: "string \<times> string \<times> int" and s s' :: "'d inspection" and r k
  assume "consume_call sha nts maxTotalBytes q s = (r, s')" and none: "stored_ref s k = None"
  then have "store_le s' s"
    unfolding consume_call_def
    by (cases rule: consume_cases) (auto intro: store_le_trans deleteCapture_le store_prune_le)
  with none show "stored_ref s' k = None" using store_le_ref by metis
qed

section \<open>Bounds after pruning\<close>

definition store_inv :: "'d inspection \<Rightarrow> bool" where
  "store_inv s \<longleftrightarrow> jm_inv (in_store s)"

lemma deleteCapture_store_inv: "store_inv s \<Longrightarrow> store_inv (deleteCapture k r s)"
  by (simp add: store_inv_def deleteCapture_store jm_inv_delete)

lemma prune_expired_mem:
  "e \<in> set (in_store (prune_expired now es s)) \<Longrightarrow>
   e \<in> set (in_store s) \<and> (e \<in> set es \<longrightarrow> \<not> capture_expired s now (fst (snd e)))"
proof (induction now es s rule: prune_expired.induct)
  case (2 now k r h es s)
  show ?case
  proof (cases "capture_expired s now r")
    case True
    with 2 have "e \<in> set (jm_delete k (in_store s)) \<and> (e \<in> set es \<longrightarrow> \<not> capture_expired (deleteCapture k r s) now (fst (snd e)))"
      by (simp add: deleteCapture_store)
    then show ?thesis by (auto simp: jm_delete_mem capture_expired_def deleteCapture_heap)
  next
    case False
    with 2 show ?thesis by auto
  qed
qed simp

lemma prune_count_bound: "length (in_store (prune_count s)) \<le> INVOKE_INSPECTION_MAX_CAPTURES"
proof (induction s rule: prune_count.induct)
  case (1 s)
  then show ?case by (subst prune_count.simps) (auto split: list.split)
qed

lemma prune_bytes_bound: "estimateInvokeInspectionStoreBytes nts (prune_bytes nts n s) \<le> n"
proof (induction nts n s rule: prune_bytes.induct)
  case (1 nts n s)
  then show ?case
    by (subst prune_bytes.simps) (auto simp: estimateInvokeInspectionStoreBytes_def split: list.split)
qed

definition shrinks :: "'d inspection \<Rightarrow> 'd inspection \<Rightarrow> bool" where
  "shrinks s' s \<longleftrightarrow> in_heap s' = in_heap s \<and> set (in_store s') \<subseteq> set (in_store s) \<and>
     length (in_store s') \<le> length (in_store s)"

lemma shrinks_refl: "shrinks s s"
  by (simp add: shrinks_def)

lemma shrinks_delete: "shrinks s' s \<Longrightarrow> shrinks (deleteCapture k r s') s"
  using jm_length_delete_le [of k "in_store s'"]
  by (auto simp: shrinks_def deleteCapture_store deleteCapture_heap jm_delete_mem)

lemma prune_count_shrinks: "shrinks (prune_count s) s"
  by (rule prune_count_rule [where P = "\<lambda>s'. shrinks s' s"]) (auto intro: shrinks_refl shrinks_delete)

lemma prune_bytes_shrinks: "shrinks (prune_bytes nts n s) s"
  by (rule prune_bytes_rule [where P = "\<lambda>s'. shrinks s' s"]) (auto intro: shrinks_refl shrinks_delete)

lemma prune_expired_shrinks: "shrinks (prune_expired now es s) s"
  by (rule prune_expired_rule [where P = "\<lambda>s'. shrinks s' s"]) (auto intro: shrinks_refl shrinks_delete)

lemma store_prune_bounds:
  "length (in_store (store_prune nts n now s)) \<le> INVOKE_INSPECTION_MAX_CAPTURES"
  "estimateInvokeInspectionStoreBytes nts (store_prune nts n now s) \<le> n"
  "e \<in> set (in_store (store_prune nts n now s)) \<Longrightarrow> \<not> capture_expired s now (fst (snd e))"
proof -
  let ?a = "prune_expired now (in_store s) s"
  show "length (in_store (store_prune nts n now s)) \<le> INVOKE_INSPECTION_MAX_CAPTURES"
    using prune_bytes_shrinks [of nts n "prune_count ?a"] prune_count_bound [of ?a]
    by (simp add: store_prune_def shrinks_def)
  show "estimateInvokeInspectionStoreBytes nts (store_prune nts n now s) \<le> n"
    by (simp add: store_prune_def prune_bytes_bound)
  assume "e \<in> set (in_store (store_prune nts n now s))"
  then have "e \<in> set (in_store ?a)"
    using prune_bytes_shrinks [of nts n "prune_count ?a"] prune_count_shrinks [of ?a]
    by (auto simp: store_prune_def shrinks_def)
  then show "\<not> capture_expired s now (fst (snd e))"
    using prune_expired_mem by blast
qed

section \<open>Bindings\<close>

definition bind_inv :: "'d inspection \<Rightarrow> bool" where
  "bind_inv s \<longleftrightarrow> jm_inv (in_byRequestId s) \<and>
     (\<forall>rid r. jm_get (in_byRequestId s) rid = Some r \<longleftrightarrow>
        (\<exists>ids. in_requestIds s r = Some ids \<and> rid \<in> set ids))"

lemma unbind_fold:
  fixes m :: "(string, cref) js_map"
  shows "jm_get (foldl (\<lambda>m rid. if jm_get m rid = Some r then jm_delete rid m else m) m ids) k =
     (if k \<in> set ids \<and> jm_get m k = Some r then None else jm_get m k)"
  by (induction ids arbitrary: m) (auto simp: jm_get_delete)

lemma unbind_fold_inv:
  fixes m :: "(string, cref) js_map"
  shows "jm_inv m \<Longrightarrow> jm_inv (foldl (\<lambda>m rid. if jm_get m rid = Some r then jm_delete rid m else m) m ids)"
  by (induction ids arbitrary: m) (auto simp: jm_inv_delete)

lemma bind_unique:
  "bind_inv s \<Longrightarrow> in_requestIds s r = Some ids \<Longrightarrow> rid \<in> set ids \<Longrightarrow> jm_get (in_byRequestId s) rid = Some r"
  unfolding bind_inv_def by blast

lemma bind_ids:
  "bind_inv s \<Longrightarrow> jm_get (in_byRequestId s) rid = Some r \<Longrightarrow> \<exists>ids. in_requestIds s r = Some ids \<and> rid \<in> set ids"
  unfolding bind_inv_def by blast

lemma bind_invI:
  "jm_inv (in_byRequestId s) \<Longrightarrow>
   (\<And>rid r. jm_get (in_byRequestId s) rid = Some r \<Longrightarrow> \<exists>ids. in_requestIds s r = Some ids \<and> rid \<in> set ids) \<Longrightarrow>
   (\<And>rid r ids. in_requestIds s r = Some ids \<Longrightarrow> rid \<in> set ids \<Longrightarrow> jm_get (in_byRequestId s) rid = Some r) \<Longrightarrow>
   bind_inv s"
  unfolding bind_inv_def by blast

lemma bind_inv_map: "bind_inv s \<Longrightarrow> jm_inv (in_byRequestId s)"
  by (simp add: bind_inv_def)

lemma remove_bindings_inv:
  assumes "bind_inv s"
  shows "bind_inv (removeInvokeInspectionCaptureBindings r s) \<and>
    jm_get (in_byRequestId (removeInvokeInspectionCaptureBindings r s)) rid \<noteq> Some r"
proof (cases "in_requestIds s r")
  case None
  with assms bind_ids [OF assms, of rid r] show ?thesis
    by (auto simp: removeInvokeInspectionCaptureBindings_def)
next
  case (Some ids)
  let ?s = "removeInvokeInspectionCaptureBindings r s"
  have get: "jm_get (in_byRequestId ?s) k =
      (if k \<in> set ids \<and> jm_get (in_byRequestId s) k = Some r then None else jm_get (in_byRequestId s) k)" for k
    by (simp add: removeInvokeInspectionCaptureBindings_def Some unbind_fold)
  have ids: "in_requestIds ?s = (in_requestIds s)(r := None)"
    by (simp add: removeInvokeInspectionCaptureBindings_def Some)
  have own: "jm_get (in_byRequestId ?s) k \<noteq> Some r" for k
    using bind_ids [OF assms, of k r] Some by (auto simp: get)
  have "bind_inv ?s"
  proof (rule bind_invI)
    show "jm_inv (in_byRequestId ?s)"
      using bind_inv_map [OF assms] by (simp add: removeInvokeInspectionCaptureBindings_def Some unbind_fold_inv)
    show "\<exists>ids. in_requestIds ?s r' = Some ids \<and> k \<in> set ids" if "jm_get (in_byRequestId ?s) k = Some r'" for k r'
    proof -
      have "r' \<noteq> r" using that own by auto
      moreover have "jm_get (in_byRequestId s) k = Some r'" using that by (simp add: get split: if_splits)
      ultimately show ?thesis using bind_ids [OF assms, of k r'] by (simp add: ids)
    qed
    show "jm_get (in_byRequestId ?s) k = Some r'" if "in_requestIds ?s r' = Some xs" "k \<in> set xs" for k r' xs
      using that bind_unique [OF assms, of r' xs k] by (auto simp: get ids split: if_splits)
  qed
  with own show ?thesis by blast
qed

lemma remove_request_id_inv:
  assumes "bind_inv s"
  shows "bind_inv (removeRequestIdInspectionBinding rid s)"
proof (cases "jm_get (in_byRequestId s) rid")
  case None
  then have "removeRequestIdInspectionBinding rid s = s"
    using jm_delete_absent [of rid "in_byRequestId s"] by (simp add: removeRequestIdInspectionBinding_def jm_keys_get)
  with assms show ?thesis by simp
next
  case (Some r)
  with assms obtain ids where ids: "in_requestIds s r = Some ids" "rid \<in> set ids" using bind_ids by blast
  let ?s = "removeRequestIdInspectionBinding rid s"
  have get: "in_byRequestId ?s = jm_delete rid (in_byRequestId s)"
    and rids: "in_requestIds ?s = (in_requestIds s)(r := if removeAll rid ids = [] then None else Some (removeAll rid ids))"
    by (simp_all add: removeRequestIdInspectionBinding_def Some ids(1) Let_def)
  show ?thesis
  proof (rule bind_invI)
    show "jm_inv (in_byRequestId ?s)" using bind_inv_map [OF assms] by (simp add: get jm_inv_delete)
    show "\<exists>ids. in_requestIds ?s r' = Some ids \<and> k \<in> set ids" if k: "jm_get (in_byRequestId ?s) k = Some r'" for k r'
    proof -
      from k have k: "k \<noteq> rid" "jm_get (in_byRequestId s) k = Some r'" by (auto simp: get jm_get_delete split: if_splits)
      from bind_ids [OF assms k(2)] obtain xs where xs: "in_requestIds s r' = Some xs" "k \<in> set xs" by blast
      show ?thesis
      proof (cases "r' = r")
        case True
        with xs ids(1) k(1) have k': "k \<in> set (removeAll rid ids)" by simp
        then have "removeAll rid ids \<noteq> []" by (metis empty_iff list.set(1))
        then show ?thesis using True k' by (simp add: rids)
      qed (use xs in \<open>simp add: rids\<close>)
    qed
    show "jm_get (in_byRequestId ?s) k = Some r'" if "in_requestIds ?s r' = Some xs" "k \<in> set xs" for k r' xs
      using that ids Some bind_unique [OF assms, of r' _ k]
      by (auto simp: get rids jm_get_delete split: if_splits)
  qed
qed

lemma bind_request_id_inv:
  assumes "bind_inv s"
  shows "bind_inv (bindInvokeInspectionCaptureToRequestId rid request s)"
proof (cases "in_byRequest s request")
  case (Some r)
  let ?t = "removeRequestIdInspectionBinding rid s"
  let ?s = "bindInvokeInspectionCaptureToRequestId rid request s"
  let ?ids = "case in_requestIds ?t r of None \<Rightarrow> [] | Some xs \<Rightarrow> xs"
  have inv: "bind_inv ?t" by (rule remove_request_id_inv [OF assms])
  have none: "jm_get (in_byRequestId ?t) rid = None"
    by (simp add: removeRequestIdInspectionBinding_def Let_def jm_get_delete)
  have get: "in_byRequestId ?s = jm_set rid r (in_byRequestId ?t)"
    and rids: "in_requestIds ?s = (in_requestIds ?t)(r \<mapsto> List.insert rid ?ids)"
    by (simp_all add: bindInvokeInspectionCaptureToRequestId_def Some Let_def)
  show ?thesis
  proof (rule bind_invI)
    show "jm_inv (in_byRequestId ?s)" using bind_inv_map [OF inv] by (simp add: get jm_inv_set)
    show "\<exists>ids. in_requestIds ?s r' = Some ids \<and> k \<in> set ids" if "jm_get (in_byRequestId ?s) k = Some r'" for k r'
      using that bind_ids [OF inv, of k r'] by (auto simp: get rids jm_get_set split: if_splits)
    show "jm_get (in_byRequestId ?s) k = Some r'" if "in_requestIds ?s r' = Some xs" "k \<in> set xs" for k r' xs
      using that none bind_unique [OF inv, of r' _ k]
      by (auto simp: get rids jm_get_set split: if_splits option.splits)
  qed
qed (simp add: bindInvokeInspectionCaptureToRequestId_def assms)

lemma deleteCapture_inv:
  assumes "bind_inv s"
  shows "bind_inv (deleteCapture k r s) \<and> jm_get (in_byRequestId (deleteCapture k r s)) rid \<noteq> Some r"
  unfolding deleteCapture_def
  by (rule remove_bindings_inv) (use assms in \<open>simp add: bind_inv_def\<close>)

lemma store_prune_bind_inv: "bind_inv s \<Longrightarrow> bind_inv (store_prune nts n now s)"
  by (rule store_prune_rule) (simp_all add: deleteCapture_inv)

lemma sanitize_fold:
  "jm_get (foldl (\<lambda>acc (name, v). jm_set name (f name v) acc) acc hs) k =
     (case map_of (rev hs) k of Some v \<Rightarrow> Some (f k v) | None \<Rightarrow> jm_get acc k)"
  by (induction hs rule: rev_induct) (auto simp: jm_get_set split: option.splits prod.splits)

lemma sanitize_fold_inv:
  "jm_inv acc \<Longrightarrow> jm_inv (foldl (\<lambda>acc (name, v). jm_set name (f name v) acc) acc hs)"
  by (induction hs rule: rev_induct) (auto simp: jm_inv_set split: prod.splits)

lemma sanitize_mem:
  assumes "(k, v) \<in> set (sanitizeInspectionHeaders hs inc always)" "redacts inc always k"
  shows "v = HStr REDACTED_SECRET"
proof -
  have "jm_get (sanitizeInspectionHeaders hs inc always) k = Some v"
    using assms(1) sanitize_fold_inv [of "[]"] unfolding sanitizeInspectionHeaders_def
    by (intro jm_mem_get) simp_all
  then show ?thesis
    using assms(2) unfolding sanitizeInspectionHeaders_def sanitize_fold by (auto split: option.splits)
qed

text \<open>No header whose name satisfies \<open>P\<close> shows anything but the redaction mark.\<close>

definition redacted_where :: "(string \<Rightarrow> bool) \<Rightarrow> exchange option \<Rightarrow> bool" where
  "redacted_where P e =
     (case e of
        None \<Rightarrow> True
      | Some x \<Rightarrow> list_all (\<lambda>(name, v). P name \<longrightarrow> v = HStr REDACTED_SECRET) (ex_headers x))"

lemma sanitize_redacted:
  "(\<And>name. P name \<Longrightarrow> redacts inc always name) \<Longrightarrow> redacted_where P (sanitizeExchange e inc always)"
  by (cases e) (auto simp: redacted_where_def sanitizeExchange_def list_all_iff dest: sanitize_mem)

section \<open>Properties\<close>

text \<open>Property (inspection_read_once). Whatever the sequence of reads, with whatever identifiers, tokens and
  times, each capture identifier is answered with a capture at most once.\<close>

theorem inspection_read_once:
  "successes k (read_run (consume_call sha nts maxTotalBytes) fst s qs) \<le> 1"
  by (rule reads.read_at_most_once)

text \<open>Property (inspection_read_requires_token). A read answers with a capture exactly when the pruned store holds
  the identifier with the digest of the presented token; a read with a wrong token removes nothing
  beyond what pruning removes. The capture returned is at most a minute old, and afterwards no
  request id leads to it any more.\<close>

theorem inspection_read_requires_token:
  assumes "bind_inv s" and "store_consume sha nts n k tok now s = (res, s')"
  shows "(res = None \<and> s' = store_prune nts n now s \<and>
          (\<forall>r h. jm_get (in_store s') k = Some (r, h) \<longrightarrow> sha tok \<noteq> h)) \<or>
    (\<exists>r. res = Some r \<and> jm_get (in_store (store_prune nts n now s)) k = Some (r, sha tok) \<and>
       stored_ref s' k = None \<and> \<not> capture_expired s now r \<and>
       (\<forall>rid. jm_get (in_byRequestId s') rid \<noteq> Some r))"
proof (cases "jm_get (in_store (store_prune nts n now s)) k")
  case None
  with assms(2) show ?thesis by (auto simp: store_consume_def Let_def)
next
  case (Some e)
  obtain r h where e: "e = (r, h)" by (cases e)
  have "(k, r, h) \<in> set (in_store (store_prune nts n now s))" using Some e jm_get_mem by metis
  then have fresh: "\<not> capture_expired s now r" using store_prune_bounds(3) by fastforce
  have gone: "jm_get (in_byRequestId (deleteCapture k r (store_prune nts n now s))) rid \<noteq> Some r" for rid
    using deleteCapture_inv [OF store_prune_bind_inv [OF assms(1)]] by blast
  show ?thesis
  proof (cases "sha tok = h")
    case True
    with assms(2) Some e have "res = Some r" "s' = deleteCapture k r (store_prune nts n now s)"
      by (auto simp: store_consume_def Let_def readTokenMatches_def)
    with Some e True fresh gone show ?thesis
      by (simp add: stored_ref_def deleteCapture_store jm_get_delete)
  next
    case False
    with assms(2) Some e show ?thesis by (auto simp: store_consume_def Let_def readTokenMatches_def)
  qed
qed

definition example_store :: "string inspection" where
  "example_store = inspection_init\<lparr>in_store := [(''a'', 0, ''tok'')]\<rparr>"

theorem inspection_read_requires_token_witness:
  "fst (store_consume (\<lambda>t. t) (\<lambda>_. []) 1000 ''a'' ''tok'' 5 example_store) = Some 0"
proof -
  have inv: "bind_inv example_store" by (simp add: example_store_def inspection_init_def bind_inv_def)
  have "in_store example_store = [(''a'', 0, ''tok'')]" "in_heap example_store = (\<lambda>_. None)"
    by (simp_all add: example_store_def inspection_init_def)
  then have kept: "store_prune (\<lambda>_. []) 1000 5 example_store = example_store"
    "in_store example_store = [(''a'', 0, ''tok'')]"
    by (simp_all add: store_prune_def capture_expired_def prune_count.simps prune_bytes.simps
        estimateInvokeInspectionStoreBytes_def stored_bytes_def INVOKE_INSPECTION_MAX_CAPTURES_def)
  obtain res s' where c: "store_consume (\<lambda>t. t) (\<lambda>_. []) 1000 ''a'' ''tok'' 5 example_store = (res, s')"
    by fastforce
  from inspection_read_requires_token [OF inv c] kept c show ?thesis
    by (auto simp: jm_get_def)
qed

text \<open>Property (inspection_store_bounded). After pruning, which every allocation and every read start with, the store
  holds at most 32 captures, within its byte budget, none older than the time to live; so it holds at
  most 33 captures at any time.\<close>

theorem inspection_store_bounded:
  "length (in_store (store_prune nts n now s)) \<le> 32 \<and>
   estimateInvokeInspectionStoreBytes nts (store_prune nts n now s) \<le> n \<and>
   list_all (\<lambda>e. \<not> capture_expired s now (fst (snd e))) (in_store (store_prune nts n now s)) \<and>
   length (in_store (snd (store_allocate sha isoTime nts n k tok now s))) \<le> 33"
proof -
  have "length (in_store (store_prune nts n now s)) \<le> 32"
    using store_prune_bounds(1) [of nts n now s] by (simp add: INVOKE_INSPECTION_MAX_CAPTURES_def)
  then show ?thesis
    using store_prune_bounds(2) [of nts n now s] store_prune_bounds(3) [of _ nts n now s]
    by (auto simp: list_all_iff store_allocate_def Let_def jm_length_set)
qed

text \<open>Property (inspection_redaction). In the view of a capture a secret-bearing header shows the redaction mark,
  never its value: always for the exchange with the provider, for the others unless secrets were
  requested; and the read token header is redacted in all of them, always.\<close>

theorem inspection_redaction:
  "redacted_where isSecretBearingHeader (vw_smx_to_provider (toInvokeInspectionCaptureView c inc)) \<and>
   (inc \<or> list_all (redacted_where isSecretBearingHeader)
      [vw_client_to_smx (toInvokeInspectionCaptureView c inc),
       vw_provider_to_smx (toInvokeInspectionCaptureView c inc),
       vw_smx_to_client (toInvokeInspectionCaptureView c inc)]) \<and>
   list_all (redacted_where (\<lambda>name. to_lower name = INVOKE_INSPECTION_TOKEN_HEADER))
      [vw_client_to_smx (toInvokeInspectionCaptureView c inc),
       vw_smx_to_provider (toInvokeInspectionCaptureView c inc),
       vw_provider_to_smx (toInvokeInspectionCaptureView c inc),
       vw_smx_to_client (toInvokeInspectionCaptureView c inc)]"
  by (auto simp: toInvokeInspectionCaptureView_def redacts_def intro!: sanitize_redacted)

end
