(* ===== verification/Slots.thy ===== *)
theory Slots
  imports Prelude
begin

text \<open>
  The two admission managers of \<^verbatim>\<open>runtime/runtime-state-managers.ts\<close>: the cap on request bodies
  parsed at the same time and the cap on streams per source address.

  \<open>tryAcquire\<close> returns a closure that releases the slot once. A closure is modelled by a handle,
  the index of its \<open>released\<close> flag; calling the closure is \<open>release\<close> on the handle.
  The locale \<open>slot_pool\<close> is the contract request handling relies on; both managers are
  instances of it.
\<close>

section \<open>The contract of a pool of slots\<close>

datatype 'k slot_op = Acquire 'k | Release nat

fun slot_run ::
  "('k \<Rightarrow> nat \<Rightarrow> 's \<Rightarrow> nat option \<times> 's) \<Rightarrow> (nat \<Rightarrow> 's \<Rightarrow> 's) \<Rightarrow> nat \<Rightarrow> 's \<Rightarrow> 'k slot_op list \<Rightarrow> 's" where
  "slot_run acq rel cap s [] = s"
| "slot_run acq rel cap s (Acquire k # ops) = slot_run acq rel cap (snd (acq k cap s)) ops"
| "slot_run acq rel cap s (Release h # ops) = slot_run acq rel cap (rel h s) ops"

locale slot_pool =
  fixes acq :: "'k \<Rightarrow> nat \<Rightarrow> 's \<Rightarrow> nat option \<times> 's"
    and rel :: "nat \<Rightarrow> 's \<Rightarrow> 's"
    and active :: "'s \<Rightarrow> 'k \<Rightarrow> nat"
    and open_slots :: "'s \<Rightarrow> 'k \<Rightarrow> nat set"
    and inv :: "'s \<Rightarrow> bool"
  assumes active_open: "inv s \<Longrightarrow> active s k = card (open_slots s k)"
    and open_finite: "finite (open_slots s k)"
    and acq_refuse: "active s k \<ge> cap \<Longrightarrow> acq k cap s = (None, s)"
    and acq_grant: "inv s \<Longrightarrow> active s k < cap \<Longrightarrow>
          \<exists>h s'. acq k cap s = (Some h, s') \<and> inv s' \<and> (\<forall>k'. h \<notin> open_slots s k') \<and>
            (\<forall>k'. open_slots s' k' = (if k' = k then insert h (open_slots s k) else open_slots s k'))"
    and rel_inv: "inv s \<Longrightarrow> inv (rel h s)"
    and rel_open: "inv s \<Longrightarrow> open_slots (rel h s) k = open_slots s k - {h}"
begin

lemma acq_none: "inv s \<Longrightarrow> acq k cap s = (None, s') \<Longrightarrow> s' = s"
  using acq_grant [of s k cap] acq_refuse [of cap s k] by (cases "active s k < cap") auto

lemma acq_some:
  assumes "inv s" "acq k cap s = (Some h, s')"
  shows "inv s'" "h \<notin> open_slots s k'"
    "open_slots s' k' = (if k' = k then insert h (open_slots s k) else open_slots s k')"
proof -
  have "active s k < cap" using assms acq_refuse [of cap s k] by (cases "active s k < cap") auto
  with assms show "inv s'" "h \<notin> open_slots s k'"
    "open_slots s' k' = (if k' = k then insert h (open_slots s k) else open_slots s k')"
    using acq_grant [OF assms(1), of k cap] by auto
qed

lemma acq_inv: "inv s \<Longrightarrow> inv (snd (acq k cap s))"
  using acq_grant [of s k cap] acq_refuse [of cap s k] by (cases "active s k < cap") auto

lemma rel_active_le: "inv s \<Longrightarrow> active (rel h s) k \<le> active s k"
  by (simp add: active_open rel_inv rel_open card_mono open_finite)

lemma acq_active_bound:
  assumes "inv s" "active s k' \<le> cap"
  shows "active (snd (acq k cap s)) k' \<le> cap"
proof (cases "active s k < cap")
  case True
  then obtain h s' where "acq k cap s = (Some h, s')" "inv s'" "h \<notin> open_slots s k"
    "\<And>k'. open_slots s' k' = (if k' = k then insert h (open_slots s k) else open_slots s k')"
    using acq_grant [OF assms(1)] by blast
  with True assms show ?thesis by (auto simp: active_open open_finite)
next
  case False
  with assms show ?thesis by (simp add: acq_refuse)
qed

lemma run_inv: "inv s \<Longrightarrow> inv (slot_run acq rel cap s ops)"
proof (induction ops arbitrary: s)
  case (Cons op ops)
  then show ?case by (cases op) (auto simp: acq_inv rel_inv)
qed simp

text \<open>However acquisitions and releases interleave, no key exceeds the cap.\<close>

lemma run_bound: "inv s \<Longrightarrow> active s k \<le> cap \<Longrightarrow> active (slot_run acq rel cap s ops) k \<le> cap"
proof (induction ops arbitrary: s)
  case (Cons op ops)
  show ?case
  proof (cases op)
    case (Acquire k')
    with Cons show ?thesis by (simp add: acq_inv acq_active_bound)
  next
    case (Release h)
    with Cons rel_active_le [of s h k] show ?thesis by (simp add: rel_inv)
  qed
qed simp

lemma rel_twice: "inv s \<Longrightarrow> active (rel h (rel h s)) k = active (rel h s) k"
  by (simp add: active_open rel_inv rel_open)

text \<open>Acquiring and releasing leaves every count as it was.\<close>

lemma acq_rel_active:
  assumes "inv s" "acq k cap s = (Some h, s')"
  shows "active (rel h s') k' = active s k'"
proof -
  note got = acq_some [OF assms]
  have "open_slots s' k' - {h} = open_slots s k'" using got(2) by (auto simp: got(3))
  with got(1) assms(1) show ?thesis by (simp add: active_open rel_inv rel_open)
qed

end

section \<open>JSON parse slots\<close>

record json_slots =
  jp_active :: nat
  jp_released :: "bool list"

definition jp_init :: json_slots where
  "jp_init = \<lparr>jp_active = 0, jp_released = []\<rparr>"

definition jp_tryAcquire :: "nat \<Rightarrow> json_slots \<Rightarrow> nat option \<times> json_slots" where
  "jp_tryAcquire maxConcurrentJsonParses s =
     (if jp_active s \<ge> maxConcurrentJsonParses then (None, s)
      else (Some (length (jp_released s)),
            s\<lparr>jp_active := jp_active s + 1, jp_released := jp_released s @ [False]\<rparr>))"

definition jp_release :: "nat \<Rightarrow> json_slots \<Rightarrow> json_slots" where
  "jp_release h s =
     (if length (jp_released s) \<le> h \<or> jp_released s ! h then s
      else s\<lparr>jp_released := (jp_released s)[h := True], jp_active := jp_active s - 1\<rparr>)"

definition jp_open :: "json_slots \<Rightarrow> nat set" where
  "jp_open s = {h. h < length (jp_released s) \<and> \<not> jp_released s ! h}"

definition jp_inv :: "json_slots \<Rightarrow> bool" where
  "jp_inv s \<longleftrightarrow> jp_active s = card (jp_open s)"

lemma jp_open_finite [simp]: "finite (jp_open s)"
  by (simp add: jp_open_def)

lemma jp_open_release: "jp_open (jp_release h s) = jp_open s - {h}"
  by (auto simp: jp_release_def jp_open_def nth_list_update)

lemma jp_open_acquire:
  "jp_open (s\<lparr>jp_active := a, jp_released := jp_released s @ [False]\<rparr>) =
     insert (length (jp_released s)) (jp_open s)"
  by (auto simp: jp_open_def nth_append less_Suc_eq)

lemma jp_fresh [simp]: "length (jp_released s) \<notin> jp_open s"
  by (simp add: jp_open_def)

lemma jp_release_inv: "jp_inv s \<Longrightarrow> jp_inv (jp_release h s)"
proof -
  assume inv: "jp_inv s"
  show ?thesis
  proof (cases "h \<in> jp_open s")
    case True
    then have "jp_active (jp_release h s) = jp_active s - 1"
      by (simp add: jp_release_def jp_open_def)
    with inv True show ?thesis by (simp add: jp_inv_def jp_open_release)
  next
    case False
    then have "jp_release h s = s" by (auto simp: jp_release_def jp_open_def)
    with inv show ?thesis by simp
  qed
qed

lemma jp_acquire_inv:
  "jp_inv s \<Longrightarrow> jp_inv (s\<lparr>jp_active := Suc (jp_active s), jp_released := jp_released s @ [False]\<rparr>)"
  by (simp add: jp_inv_def jp_open_acquire)

interpretation jp: slot_pool "\<lambda>(_ :: unit). jp_tryAcquire" jp_release
  "\<lambda>s (_ :: unit). jp_active s" "\<lambda>s (_ :: unit). jp_open s" jp_inv
proof
  fix s k assume "jp_inv s" then show "jp_active s = card (jp_open s)" by (simp add: jp_inv_def)
qed (auto simp: jp_tryAcquire_def jp_open_acquire jp_open_release jp_release_inv jp_acquire_inv)

lemma jp_init_inv: "jp_inv jp_init"
  by (simp add: jp_inv_def jp_init_def jp_open_def)

section \<open>Streaming slots per source address\<close>

record stream_slots =
  ss_active :: "(string, nat) js_map"
  ss_handles :: "(string \<times> bool) list"

definition ss_init :: stream_slots where
  "ss_init = \<lparr>ss_active = [], ss_handles = []\<rparr>"

definition getActiveRequestCountForSourceIp :: "stream_slots \<Rightarrow> string \<Rightarrow> nat" where
  "getActiveRequestCountForSourceIp s sourceIp =
     (case jm_get (ss_active s) sourceIp of None \<Rightarrow> 0 | Some n \<Rightarrow> n)"

definition getTrackedSourceIpCount :: "stream_slots \<Rightarrow> nat" where
  "getTrackedSourceIpCount s = length (ss_active s)"

definition ss_tryAcquire :: "string \<Rightarrow> nat \<Rightarrow> stream_slots \<Rightarrow> nat option \<times> stream_slots" where
  "ss_tryAcquire sourceIp maxConcurrentStreamsPerIp s =
     (let current = getActiveRequestCountForSourceIp s sourceIp
      in if current \<ge> maxConcurrentStreamsPerIp then (None, s)
         else (Some (length (ss_handles s)),
               s\<lparr>ss_active := jm_set sourceIp (current + 1) (ss_active s),
                 ss_handles := ss_handles s @ [(sourceIp, False)]\<rparr>))"

definition ss_release :: "nat \<Rightarrow> stream_slots \<Rightarrow> stream_slots" where
  "ss_release h s =
     (if length (ss_handles s) \<le> h \<or> snd (ss_handles s ! h) then s
      else
        let sourceIp = fst (ss_handles s ! h);
            active = getActiveRequestCountForSourceIp s sourceIp;
            released = s\<lparr>ss_handles := (ss_handles s)[h := (sourceIp, True)]\<rparr>
        in if active \<le> 1 then released\<lparr>ss_active := jm_delete sourceIp (ss_active s)\<rparr>
           else released\<lparr>ss_active := jm_set sourceIp (active - 1) (ss_active s)\<rparr>)"

definition ss_open :: "stream_slots \<Rightarrow> string \<Rightarrow> nat set" where
  "ss_open s ip = {h. h < length (ss_handles s) \<and> ss_handles s ! h = (ip, False)}"

text \<open>
  The table holds an address exactly when a stream from it is open, with the number of its open
  streams: nothing is tracked for an address that has finished.
\<close>

definition ss_inv :: "stream_slots \<Rightarrow> bool" where
  "ss_inv s \<longleftrightarrow>
     jm_inv (ss_active s) \<and>
     (\<forall>ip. jm_get (ss_active s) ip =
        (if ss_open s ip = {} then None else Some (card (ss_open s ip))))"

lemma ss_open_finite [simp]: "finite (ss_open s ip)"
  by (simp add: ss_open_def)

lemma ss_count_open: "ss_inv s \<Longrightarrow> getActiveRequestCountForSourceIp s ip = card (ss_open s ip)"
  by (simp add: ss_inv_def getActiveRequestCountForSourceIp_def)

lemma ss_fresh [simp]: "length (ss_handles s) \<notin> ss_open s ip"
  by (simp add: ss_open_def)

lemma ss_open_acquire:
  "ss_open (s\<lparr>ss_active := a, ss_handles := ss_handles s @ [(ip, False)]\<rparr>) ip' =
     (if ip' = ip then insert (length (ss_handles s)) (ss_open s ip) else ss_open s ip')"
  by (auto simp: ss_open_def nth_append less_Suc_eq)

lemma ss_acquire_inv:
  assumes "ss_inv s" "getActiveRequestCountForSourceIp s ip < cap"
  shows "ss_inv (snd (ss_tryAcquire ip cap s))"
proof -
  have "card (insert (length (ss_handles s)) (ss_open s ip)) = card (ss_open s ip) + 1" by simp
  with assms show ?thesis
    by (auto simp: ss_tryAcquire_def Let_def ss_inv_def ss_open_acquire jm_inv_set jm_get_set
        ss_count_open [unfolded ss_inv_def])
qed

lemma ss_release_open: "ss_open (ss_release h s) ip = ss_open s ip - {h}"
proof (cases "length (ss_handles s) \<le> h \<or> snd (ss_handles s ! h)")
  case True
  then have "ss_release h s = s" "h \<notin> ss_open s ip" by (auto simp: ss_release_def ss_open_def)
  then show ?thesis by simp
next
  case False
  then have "ss_handles (ss_release h s) = (ss_handles s)[h := (fst (ss_handles s ! h), True)]"
    by (simp add: ss_release_def Let_def)
  with False show ?thesis by (auto simp: ss_open_def nth_list_update)
qed

lemma ss_release_active:
  assumes "h \<in> ss_open s ip"
  shows "ss_active (ss_release h s) =
     (if getActiveRequestCountForSourceIp s ip \<le> 1 then jm_delete ip (ss_active s)
      else jm_set ip (getActiveRequestCountForSourceIp s ip - 1) (ss_active s))"
  using assms by (auto simp: ss_release_def ss_open_def Let_def)

lemma ss_release_inv:
  assumes "ss_inv s"
  shows "ss_inv (ss_release h s)"
proof (cases "\<exists>ip. h \<in> ss_open s ip")
  case True
  then obtain ip where h: "h \<in> ss_open s ip" by blast
  have other: "h \<notin> ss_open s ip'" if "ip' \<noteq> ip" for ip'
    using h that by (auto simp: ss_open_def)
  have card: "card (ss_open s ip - {h}) = card (ss_open s ip) - 1"
    using h by simp
  have single: "ss_open s ip - {h} = {} \<longleftrightarrow> card (ss_open s ip) \<le> 1"
    using h card_le_Suc0_iff_eq [of "ss_open s ip"] by auto
  show ?thesis
    using assms h other card single
    by (auto simp: ss_inv_def ss_release_active ss_release_open jm_inv_set jm_inv_delete jm_get_set
        jm_get_delete ss_count_open [OF assms])
next
  case False
  then have "ss_release h s = s"
    by (cases "ss_handles s ! h") (auto simp: ss_release_def ss_open_def)
  with assms show ?thesis by simp
qed

interpretation ss: slot_pool ss_tryAcquire ss_release getActiveRequestCountForSourceIp ss_open ss_inv
proof
  fix s :: stream_slots and k cap
  assume "ss_inv s" "getActiveRequestCountForSourceIp s k < cap"
  then show "\<exists>h s'. ss_tryAcquire k cap s = (Some h, s') \<and> ss_inv s' \<and> (\<forall>k'. h \<notin> ss_open s k') \<and>
      (\<forall>k'. ss_open s' k' = (if k' = k then insert h (ss_open s k) else ss_open s k'))"
    using ss_acquire_inv [of s k cap] by (auto simp: ss_tryAcquire_def Let_def ss_open_acquire)
qed (auto simp: ss_count_open ss_tryAcquire_def ss_release_inv ss_release_open)

lemma ss_init_inv: "ss_inv ss_init"
  by (simp add: ss_inv_def ss_init_def ss_open_def)

section \<open>Properties\<close>

text \<open>
  However requests acquire and release their slots, in any interleaving and with any release
  closure called any number of times, the number of bodies being parsed stays within the cap.
\<close>

lemma json_parse_cap:
  "jp_active (slot_run (\<lambda>(_ :: unit). jp_tryAcquire) jp_release cap jp_init ops) \<le> cap"
  using jp.run_bound [OF jp_init_inv] by (simp add: jp_init_def)

text \<open>
  Property (stream_cap_and_no_leak). The same for the streams of one source address, and the table of tracked addresses holds
  only addresses with an open stream: an address whose streams have all been released is not
  tracked any more.
\<close>

theorem stream_cap_and_no_leak:
  "getActiveRequestCountForSourceIp (slot_run ss_tryAcquire ss_release cap ss_init ops) ip \<le> cap \<and>
   (ip \<in> jm_keys (ss_active (slot_run ss_tryAcquire ss_release cap ss_init ops)) \<longleftrightarrow>
    ss_open (slot_run ss_tryAcquire ss_release cap ss_init ops) ip \<noteq> {})"
proof
  show "getActiveRequestCountForSourceIp (slot_run ss_tryAcquire ss_release cap ss_init ops) ip \<le> cap"
    by (rule ss.run_bound [OF ss_init_inv])
      (simp add: getActiveRequestCountForSourceIp_def ss_init_def)
  show "ip \<in> jm_keys (ss_active (slot_run ss_tryAcquire ss_release cap ss_init ops)) \<longleftrightarrow>
      ss_open (slot_run ss_tryAcquire ss_release cap ss_init ops) ip \<noteq> {}"
    using ss.run_inv [OF ss_init_inv, of cap ops] by (simp add: ss_inv_def jm_keys_get)
qed

end
