(* ===== verification/Request_Handler.thy ===== *)
theory Request_Handler
  imports Request_Body Inspection_Store Slots
begin

text \<open>
  The request handler of the gateway: \<^verbatim>\<open>runtime/runtime-request-handler.ts\<close> (the gates in front of every
  endpoint), \<^verbatim>\<open>runtime/runtime-auth-policy.ts\<close>, \<^verbatim>\<open>runtime/health-handler.ts\<close>,
  \<^verbatim>\<open>runtime/runtime-inspect-handler.ts\<close>. The data plane behind it is in the theory \<open>Data_Plane\<close>.

  The handler's state is the state of its limiters, slots and inspection store; what it does to the
  outside is a list of effects, in order. \<open>Date.now()\<close> is read once per request.
\<close>

section \<open>Effects, configuration, environment\<close>

datatype effect =
    LogLine string
  | LogWarning string
  | SetHeader string string
  | SendJsonError nat string string            \<comment> \<open>status, message, code\<close>
  | Reply plain_response
  | ReplyRuntimeConfig
  | ReplyCapture capture_view
  | Observation string "(string \<times> json) list"   \<comment> \<open>event and attributes\<close>
  | HealthProbe bool                            \<comment> \<open>rateLimited\<close>
  | ProxyAnthropicMessage json string           \<comment> \<open>parsed body, raw body\<close>
  | ProxyChatCompletion json string
  | Rethrow body_error

record gw_config =
  cf_bindHost :: string
  cf_port :: nat
  cf_inboundApiKeyEnv :: "string option"
  cf_allowUnauthenticatedGateway :: bool
  cf_oneTrustedOperatorBoundary :: bool
  cf_allowUnauthenticatedHealth :: bool
  cf_rateLimit :: rl_config
  cf_maxPayloadSize :: nat
  cf_timeoutMs :: int
  cf_maxConcurrentJsonParses :: "nat option"
  cf_maxConcurrentStreamsPerIp :: "nat option"

record 'd gw_env =
  ev_parseUrl :: "string \<Rightarrow> parsed_url option"      \<comment> \<open>\<open>new URL(x)\<close>\<close>
  ev_parseTarget :: "string \<Rightarrow> parsed_url option"   \<comment> \<open>\<open>new URL(x, "http://localhost")\<close>\<close>
  ev_searchParam :: "parsed_url \<Rightarrow> string \<Rightarrow> string option"
  ev_env :: env_lookup
  ev_apiKeyOverrides :: env_lookup
  ev_sha :: "string \<Rightarrow> 'd"
  ev_isoTime :: "int \<Rightarrow> string"
  ev_dec :: "string \<Rightarrow> string"
  ev_nts :: "rat \<Rightarrow> string"
  ev_parseJson :: "string \<Rightarrow> json option"
  ev_localeCompare :: "string \<Rightarrow> string \<Rightarrow> int"
  ev_maxRequestJsonDepth :: nat
  ev_defaultRequestBodyIdleTimeoutMs :: int
  ev_processIntegrity :: "string option"

record 'd gw_state =
  gs_failedAuth :: fa_entries
  gs_rate :: rl_entries
  gs_health :: rl_entries
  gs_inspection :: "'d inspection"
  gs_json :: json_slots
  gs_stream :: stream_slots

definition failed_auth_config :: fa_config where
  "failed_auth_config =
     \<lparr>fa_windowMs = 600000, fa_threshold = 5, fa_initialBackoffMs = 30000, fa_maxBackoffMs = 300000,
      fa_maxEntries = 10000\<rparr>"

section \<open>Authentication policy\<close>

definition logInboundAuthMisconfiguration :: "misconfiguration \<Rightarrow> string option \<Rightarrow> effect" where
  "logInboundAuthMisconfiguration reason envVar =
     (let name = (case envVar of None \<Rightarrow> [] | Some v \<Rightarrow> v)
      in LogWarning
           (if reason = missing_env_name
            then ''Gateway inbound auth is misconfigured: set 'inbound_api_key_env' or explicitly opt in with 'allow_unauthenticated_gateway: true'.''
            else if reason = short_token
            then ''Gateway inbound auth is misconfigured: env var '' @ quoted name @ '' must be at least 32 characters long.''
            else ''Gateway inbound auth is misconfigured: env var '' @ quoted name @ '' is required for request auth but is not set or is empty.''))"

definition auth_observation :: "string \<Rightarrow> string \<Rightarrow> string \<Rightarrow> string \<Rightarrow> fa_decision \<Rightarrow> nat \<Rightarrow> json \<Rightarrow> effect" where
  "auth_observation sourceIp mthd pathname deniedOutcome decision deniedStatus reason =
     Observation ''auth_decision''
       [(''sourceIp'', JStr sourceIp), (''method'', JStr mthd), (''pathname'', JStr pathname),
        (''outcome'', JStr (case decision of Blocked _ \<Rightarrow> ''denied_rate_limited'' | Allow401 \<Rightarrow> deniedOutcome)),
        (''backoffApplied'', JBool True),
        (''retryAfterSeconds'', (case decision of Blocked r \<Rightarrow> JNum (of_int r) | Allow401 \<Rightarrow> JNull)),
        (''statusCode'', JNum (case decision of Blocked _ \<Rightarrow> 429 | Allow401 \<Rightarrow> of_nat deniedStatus)),
        (''reason'', reason)]"

definition blocked_effects :: "string \<Rightarrow> int \<Rightarrow> effect list" where
  "blocked_effects sourceIp r =
     [SetHeader ''retry-after'' (digits_of_int r),
      LogWarning (''Gateway inbound auth temporarily rate limited for source '' @ sourceIp @
                  ''; retry_after='' @ digits_of_int r @ ''s.''),
      SendJsonError 429 ''Too many failed authentication attempts. Retry later.'' ''auth_rate_limited'']"

definition rejectFailedInboundAuth ::
  "'d gw_env \<Rightarrow> http_request \<Rightarrow> string \<Rightarrow> string \<Rightarrow> int \<Rightarrow> fa_entries \<Rightarrow> effect list \<times> fa_entries" where
  "rejectFailedInboundAuth ev request mthd pathname nowMs fa =
     (let sourceIp = gatewayRequestSourceIp request;
          (decision, fa') = registerFailure (ev_localeCompare ev) failed_auth_config fa sourceIp nowMs
      in (auth_observation sourceIp mthd pathname ''denied_bad_token'' decision 401 JNull #
          (case decision of
             Blocked r \<Rightarrow> blocked_effects sourceIp r
           | Allow401 \<Rightarrow>
               [LogWarning (''Gateway inbound auth failed for source '' @ sourceIp @ ''.''),
                SendJsonError 401 ''Unauthorized - check API key'' ''unauthorized'']),
          fa'))"

definition host_allowed :: "'d gw_env \<Rightarrow> gw_config \<Rightarrow> http_request \<Rightarrow> bool" where
  "host_allowed ev cfg request =
     isAllowedUnauthenticatedGatewayHost (ev_parseUrl ev) (header request ''host'') request (cf_bindHost cfg) (cf_port cfg)"

definition has_auth :: "'d gw_env \<Rightarrow> http_request \<Rightarrow> auth_state \<Rightarrow> bool" where
  "has_auth ev request st =
     (case st of
        token tok _ \<Rightarrow> requestHasExpectedInboundAuth (timingSafeTokenMatches (ev_sha ev)) request tok
      | _ \<Rightarrow> False)"

definition is_token :: "auth_state \<Rightarrow> bool" where
  "is_token st = (case st of token _ _ \<Rightarrow> True | _ \<Rightarrow> False)"

definition host_text :: "http_request \<Rightarrow> string" where
  "host_text request = (case header request ''host'' of Some (HStr h) \<Rightarrow> h | _ \<Rightarrow> ''<missing>'')"

definition enforceHealthRequestTrustPolicy ::
  "'d gw_env \<Rightarrow> gw_config \<Rightarrow> http_request \<Rightarrow> string \<Rightarrow> string \<Rightarrow> auth_state \<Rightarrow> int \<Rightarrow> fa_entries \<Rightarrow>
   bool \<times> effect list \<times> fa_entries" where
  "enforceHealthRequestTrustPolicy ev cfg request mthd pathname st nowMs fa =
     (let ok = has_auth ev request st; sourceIp = gatewayRequestSourceIp request
      in if is_token st \<and> cf_allowUnauthenticatedHealth cfg \<and> \<not> host_allowed ev cfg request then
           let (decision, fa') = registerFailure (ev_localeCompare ev) failed_auth_config fa sourceIp nowMs
           in (False,
               auth_observation sourceIp mthd pathname ''denied_misdirected_host'' decision 421 (JStr ''unexpected_host'') #
               (case decision of
                  Blocked r \<Rightarrow> blocked_effects sourceIp r
                | Allow401 \<Rightarrow>
                    [LogWarning (''Rejected unauthenticated health request for '' @ mthd @ '' '' @ pathname @
                                 '' with unexpected Host '' @ quoted (host_text request) @ ''.''),
                     SendJsonError 421 ''Unauthenticated health checks must target a loopback Host header.''
                       ''misdirected_request'']),
               fa')
         else if is_token st \<and> \<not> cf_allowUnauthenticatedHealth cfg \<and> \<not> ok then
           let (effs, fa') = rejectFailedInboundAuth ev request mthd pathname nowMs fa in (False, effs, fa')
         else if ok then (True, [], fa_reset sourceIp fa)
         else (True, [], fa))"

definition handleHealthRequest ::
  "'d gw_env \<Rightarrow> http_request \<Rightarrow> int \<Rightarrow> rl_entries \<Rightarrow> effect list \<times> rl_entries" where
  "handleHealthRequest ev request nowMs entries =
     (case rl_check healthRateLimiterConfig entries (gatewayRequestSourceIp request) nowMs of
        (Limited retry _, entries') \<Rightarrow> ([HealthProbe True, Reply (handleHealthRateLimited [] retry)], entries')
      | (Allowed _ _, entries') \<Rightarrow> ([HealthProbe False, Reply (handleHealth [] (ev_processIntegrity ev))], entries'))"

section \<open>Reading a capture\<close>

definition readSingleHeaderValue :: "header_value option \<Rightarrow> string option" where
  "readSingleHeaderValue v =
     (case v of
        Some (HArr [x]) \<Rightarrow> Some x
      | Some (HStr s) \<Rightarrow> if non_blank s then Some (trim s) else None
      | _ \<Rightarrow> None)"

text \<open>\<open>/^[0-9a-f]{8}-[0-9a-f]{4}-[0-9a-f]{4}-[0-9a-f]{4}-[0-9a-f]{12}$/i\<close> and \<open>/^[A-Za-z0-9_-]{43}$/\<close>\<close>

definition is_inspection_id :: "string \<Rightarrow> bool" where
  "is_inspection_id s \<longleftrightarrow>
     map length (split_char CHR ''-'' s) = [8, 4, 4, 4, 12] \<and> list_all (list_all is_hex) (split_char CHR ''-'' s)"

definition is_read_token :: "string \<Rightarrow> bool" where
  "is_read_token s \<longleftrightarrow>
     length s = 43 \<and>
     list_all (\<lambda>c. let u = code_unit c
                   in (65 \<le> u \<and> u \<le> 90) \<or> (97 \<le> u \<and> u \<le> 122) \<or> (48 \<le> u \<and> u \<le> 57) \<or> c \<in> set ''_-'') s"

definition secretRevealAllowed :: "'d gw_env \<Rightarrow> bool" where
  "secretRevealAllowed ev \<longleftrightarrow> ev_env ev ''SWITCHMAXXER_ALLOW_INSPECT_SECRETS'' = Some ''1''"

definition recordInvokeInspectionSecretRevealRequest ::
  "http_request \<Rightarrow> string \<Rightarrow> string \<Rightarrow> string \<Rightarrow> bool \<Rightarrow> json \<Rightarrow> string \<Rightarrow> effect" where
  "recordInvokeInspectionSecretRevealRequest request mthd pathname inspectId succeeded status reason =
     Observation ''inspection_secret_reveal_requested''
       [(''kind'', JStr (if succeeded then ''system'' else ''error'')), (''stage'', JStr ''ingress''),
        (''outcome'', JStr (if succeeded then ''succeeded'' else ''rejected'')), (''status_code'', status),
        (''source_ip'', JStr (gatewayRequestSourceIp request)), (''method'', JStr mthd), (''path'', JStr pathname),
        (''inspect_id'', JStr inspectId), (''include_secrets'', JBool True), (''reason'', JStr reason)]"

definition inspect_capture ::
  "'d gw_env \<Rightarrow> http_request \<Rightarrow> string \<Rightarrow> bool \<Rightarrow> int \<Rightarrow> 'd inspection \<Rightarrow> effect list \<times> 'd inspection" where
  "inspect_capture ev request inspectId includeSecrets nowMs insp =
     (case readSingleHeaderValue (header request INVOKE_INSPECTION_TOKEN_HEADER) of
        Some readToken \<Rightarrow>
          if \<not> is_read_token readToken
          then ([SendJsonError 401 ''Invoke inspection read token is required.'' ''unauthorized''], insp)
          else
            let (r, insp') = store_consume (ev_sha ev) (ev_nts ev) INVOKE_INSPECTION_MAX_STORE_BYTES
                               inspectId readToken nowMs insp
            in (case Option.bind r (in_heap insp') of
                  None \<Rightarrow>
                    ([SendJsonError 404 ''Invoke inspection capture was not found or has expired.'' ''not_found''], insp')
                | Some c \<Rightarrow> ([ReplyCapture (toInvokeInspectionCaptureView c includeSecrets)], insp'))
      | None \<Rightarrow> ([SendJsonError 401 ''Invoke inspection read token is required.'' ''unauthorized''], insp))"

definition handleRuntimeInspectRequest ::
  "'d gw_env \<Rightarrow> http_request \<Rightarrow> string \<Rightarrow> parsed_url \<Rightarrow> string \<Rightarrow> auth_state \<Rightarrow> int \<Rightarrow> 'd inspection \<Rightarrow>
   effect list \<times> 'd inspection" where
  "handleRuntimeInspectRequest ev request mthd url inspectId st nowMs insp =
     (if \<not> is_inspection_id inspectId
      then ([SendJsonError 400 ''Invoke inspection id is invalid.'' ''invalid_request''], insp)
      else
        let includeSecrets = (ev_searchParam ev url ''include_secrets'' = Some ''true'');
            reveal = recordInvokeInspectionSecretRevealRequest request mthd (u_pathname url) inspectId
        in if includeSecrets \<and> \<not> is_token st then
             ([reveal False (JNum 403) ''inbound_auth_required'',
               LogWarning (''Rejected unauthenticated invoke inspection secret reveal for '' @ mthd @ '' '' @ u_pathname url @ ''.''),
               SendJsonError 403 ''Including secret-bearing inspection headers requires inbound gateway auth.''
                 ''unauthorized''], insp)
           else if includeSecrets \<and> \<not> secretRevealAllowed ev then
             ([reveal False (JNum 403) ''process_opt_in_required'',
               LogWarning (''Rejected invoke inspection secret reveal for '' @ mthd @ '' '' @ u_pathname url @
                 '': env var 'SWITCHMAXXER_ALLOW_INSPECT_SECRETS' is not enabled.''),
               SendJsonError 403
                 ''Including secret-bearing inspection headers requires 'SWITCHMAXXER_ALLOW_INSPECT_SECRETS=1'.''
                 ''unauthorized''], insp)
           else
             let (effs, insp') = inspect_capture ev request inspectId includeSecrets nowMs insp
             in ((if includeSecrets then [reveal True JNull ''explicit_process_opt_in''] else []) @ effs, insp'))"

section \<open>The gates in front of the endpoints\<close>

definition inbound_state :: "'d gw_env \<Rightarrow> gw_config \<Rightarrow> auth_state" where
  "inbound_state ev cfg =
     resolveLocalGatewayInboundAuthState (ev_env ev) (cf_inboundApiKeyEnv cfg)
       (cf_allowUnauthenticatedGateway cfg) (ev_apiKeyOverrides ev)"

text \<open>The rejections that come before any limiter is touched; \<^const>\<open>None\<close> lets the request through.\<close>

definition entry_gate ::
  "'d gw_env \<Rightarrow> gw_config \<Rightarrow> http_request \<Rightarrow> string \<Rightarrow> string \<Rightarrow> runtime_route \<Rightarrow> auth_state \<Rightarrow> effect list option" where
  "entry_gate ev cfg request mthd pathname route st =
     (case st of
        misconfigured reason envVar \<Rightarrow>
          Some [logInboundAuthMisconfiguration reason envVar,
                SendJsonError 500 ''Gateway inbound auth is misconfigured.'' ''inbound_auth_misconfigured'']
      | _ \<Rightarrow>
        if st = disabled_explicit \<and> \<not> host_allowed ev cfg request then
          Some [LogWarning (''Rejected unauthenticated gateway request for '' @ mthd @ '' '' @ pathname @
                  '' with unexpected Host '' @ quoted (host_text request) @ ''.''),
                SendJsonError 421 ''Unauthenticated gateway requests must target a loopback Host header.''
                  ''misdirected_request'']
        else
          (case (if st = disabled_explicit \<and> requiresUnauthenticatedLocalClientGate route
                 then validateUnauthenticatedGatewayLocalClientRequest (ev_parseUrl ev) request
                        (cf_bindHost cfg) (cf_oneTrustedOperatorBoundary cfg)
                 else None) of
             Some rejection \<Rightarrow>
               Some [LogWarning (''Rejected unauthenticated gateway request for '' @ mthd @ '' '' @ pathname @ '': '' @
                       cr_logReason rejection @ ''.''),
                     SendJsonError (cr_statusCode rejection) (cr_message rejection)
                       (if cr_statusCode rejection = 415 then ''invalid_request'' else ''unauthorized'')]
           | None \<Rightarrow>
               if trustClass route = control_plane_read \<and> \<not> host_allowed ev cfg request then
                 Some [LogWarning (''Rejected runtime inspection request for '' @ mthd @ '' '' @ pathname @
                         '' with unexpected Host '' @ quoted (host_text request) @ ''.''),
                       SendJsonError 421 ''Runtime inspection endpoints must target a loopback Host header.''
                         ''misdirected_request'']
               else None))"

text \<open>The caller rate limit: effects, the new table, and whether the request may go on.\<close>

definition caller_limit ::
  "gw_config \<Rightarrow> http_request \<Rightarrow> string \<Rightarrow> string \<Rightarrow> runtime_route \<Rightarrow> int \<Rightarrow> rl_entries \<Rightarrow>
   bool \<times> effect list \<times> rl_entries" where
  "caller_limit cfg request mthd pathname route nowMs entries =
     (if \<not> requiresCallerRateLimit route then (True, [], entries)
      else
        let sourceIp = gatewayRequestSourceIp request
        in case rl_check (cf_rateLimit cfg) entries (gatewayRateLimitKey request (trustClass route)) nowMs of
             (Limited retry _, entries') \<Rightarrow>
               (False,
                [SetHeader ''retry-after'' (digits_of_int retry),
                 LogWarning (''Gateway caller rate limit exceeded for source '' @ sourceIp @ '' on '' @ mthd @ '' '' @
                   pathname @ ''; retry_after='' @ digits_of_int retry @ ''s.'')] @
                (if classifyGatewayApiMode pathname \<noteq> None
                 then [Observation ''rate_limited''
                         [(''scope'', JStr ''per_caller''), (''source_ip'', JStr sourceIp),
                          (''retry_after_seconds'', JNum (of_int retry)), (''method'', JStr mthd),
                          (''path'', JStr pathname)]]
                 else []) @
                [SendJsonError 429 ''Rate limit exceeded. Retry later.'' ''rate_limited''],
                entries')
           | (Allowed remaining resetAtMs, entries') \<Rightarrow>
               (True,
                map (\<lambda>(k, v). SetHeader k v)
                  (applyRateLimitHeaders [] (rl_requests (cf_rateLimit cfg)) remaining resetAtMs nowMs),
                entries'))"

definition serve_route ::
  "'d gw_env \<Rightarrow> http_request \<Rightarrow> string \<Rightarrow> parsed_url \<Rightarrow> runtime_route \<Rightarrow> auth_state \<Rightarrow> int \<Rightarrow> 'd gw_state \<Rightarrow>
   effect list \<times> 'd gw_state \<times> bool option" where
  "serve_route ev request mthd url route st nowMs s =
     (case route of
        runtime_config \<Rightarrow> ([ReplyRuntimeConfig], s, None)
      | runtime_inspect inspectId \<Rightarrow>
          let (effs, insp) = handleRuntimeInspectRequest ev request mthd url inspectId st nowMs (gs_inspection s)
          in (effs, s\<lparr>gs_inspection := insp\<rparr>, None)
      | data_plane isAnthropicPath \<Rightarrow> ([], s, Some isAnthropicPath)
      | _ \<Rightarrow> ([SendJsonError 404 (''No route for '' @ mthd @ '' '' @ u_pathname url) ''not_found''], s, None))"

definition request_method :: "http_request \<Rightarrow> string" where
  "request_method request = (case rq_method request of Some m \<Rightarrow> m | None \<Rightarrow> ''GET'')"

definition request_target :: "http_request \<Rightarrow> string" where
  "request_target request = (case rq_url request of Some u \<Rightarrow> u | None \<Rightarrow> ''/'')"

text \<open>
  The handler up to the data plane: the last component is the kind of data-plane request that goes on
  to \<open>handleDataPlaneRequest\<close>, or \<^const>\<open>None\<close> when the request has been answered.
\<close>

definition requestHandler ::
  "'d gw_env \<Rightarrow> gw_config \<Rightarrow> string \<Rightarrow> http_request \<Rightarrow> int \<Rightarrow> 'd gw_state \<Rightarrow>
   effect list \<times> 'd gw_state \<times> bool option" where
  "requestHandler ev cfg requestId request nowMs s =
     (let mthd = request_method request;
          target = request_target request;
          pre = [SetHeader ''x-switchmaxxer-request-id'' requestId]
      in case ev_parseTarget ev target of
           None \<Rightarrow>
             (pre @ [LogWarning ''Rejected gateway request with malformed request target.'',
                     SendJsonError 400 ''Malformed request target.'' ''invalid_request''], s, None)
         | Some url \<Rightarrow>
             let pathname = u_pathname url; route = classifyRuntimeRoute mthd pathname; st = inbound_state ev cfg
             in case entry_gate ev cfg request mthd pathname route st of
                  Some effs \<Rightarrow> (pre @ effs, s, None)
                | None \<Rightarrow>
                    if route = health then
                      let (ok, effs, fa) = enforceHealthRequestTrustPolicy ev cfg request mthd pathname st nowMs (gs_failedAuth s)
                      in if \<not> ok then (pre @ effs, s\<lparr>gs_failedAuth := fa\<rparr>, None)
                         else let (effs', hl) = handleHealthRequest ev request nowMs (gs_health s)
                              in (pre @ effs', s\<lparr>gs_failedAuth := fa, gs_health := hl\<rparr>, None)
                    else if is_token st \<and> \<not> has_auth ev request st then
                      let (effs, fa) = rejectFailedInboundAuth ev request mthd pathname nowMs (gs_failedAuth s)
                      in (pre @ effs, s\<lparr>gs_failedAuth := fa\<rparr>, None)
                    else
                      let s1 = (if is_token st
                                then s\<lparr>gs_failedAuth := fa_reset (gatewayRequestSourceIp request) (gs_failedAuth s)\<rparr>
                                else s);
                          (ok, effs, rl) = caller_limit cfg request mthd pathname route nowMs (gs_rate s1);
                          s2 = s1\<lparr>gs_rate := rl\<rparr>
                      in if \<not> ok then (pre @ effs, s2, None)
                         else let (effs', s3, next) = serve_route ev request mthd url route st nowMs s2
                              in (pre @ effs @ effs', s3, next))"

section \<open>What the gates let through\<close>

text \<open>Answers to the client, and the answers that show something of the gateway's inside.\<close>

fun is_answer :: "effect \<Rightarrow> bool" where
  "is_answer (SendJsonError _ _ _) = True"
| "is_answer (Reply _) = True"
| "is_answer ReplyRuntimeConfig = True"
| "is_answer (ReplyCapture _) = True"
| "is_answer (ProxyAnthropicMessage _ _) = True"
| "is_answer (ProxyChatCompletion _ _) = True"
| "is_answer (Rethrow _) = True"
| "is_answer _ = False"

fun is_privileged :: "effect \<Rightarrow> bool" where
  "is_privileged ReplyRuntimeConfig = True"
| "is_privileged (ReplyCapture _) = True"
| "is_privileged _ = False"

definition answers :: "effect list \<Rightarrow> nat" where
  "answers effs = length (filter is_answer effs)"

lemma answers_append [simp]: "answers (xs @ ys) = answers xs + answers ys"
  by (simp add: answers_def)

lemma answers_Cons [simp]: "answers (e # es) = (if is_answer e then 1 else 0) + answers es"
  by (simp add: answers_def)

lemma answers_Nil [simp]: "answers [] = 0"
  by (simp add: answers_def)

lemma answers_headers [simp]: "answers (map (\<lambda>(k, v). SetHeader k v) hs) = 0"
  by (induction hs) auto

lemma privileged_headers [simp]: "\<not> list_ex is_privileged (map (\<lambda>(k, v). SetHeader k v) hs)"
  by (induction hs) auto

lemma log_misconfiguration_quiet [simp]:
  "\<not> is_answer (logInboundAuthMisconfiguration r v)" "\<not> is_privileged (logInboundAuthMisconfiguration r v)"
  by (simp_all add: logInboundAuthMisconfiguration_def Let_def)

lemma entry_gate_rejects:
  assumes "entry_gate ev cfg request mthd pathname route st = Some effs"
  shows "answers effs = 1" "\<not> list_ex is_privileged effs"
  using assms by (auto simp: entry_gate_def split: auth_state.splits if_splits option.splits)

lemma entry_gate_passes:
  assumes "entry_gate ev cfg request mthd pathname route st = None"
  shows "st = disabled_explicit \<Longrightarrow> host_allowed ev cfg request"
    and "st = disabled_explicit \<Longrightarrow> requiresUnauthenticatedLocalClientGate route \<Longrightarrow>
      validateUnauthenticatedGatewayLocalClientRequest (ev_parseUrl ev) request (cf_bindHost cfg)
        (cf_oneTrustedOperatorBoundary cfg) = None"
    and "trustClass route = control_plane_read \<Longrightarrow> host_allowed ev cfg request"
    and "st = disabled_explicit \<or> is_token st"
  using assms by (auto simp: entry_gate_def is_token_def split: auth_state.splits if_splits option.splits)

lemma reject_answers:
  "answers (fst (rejectFailedInboundAuth ev request mthd pathname nowMs fa)) = 1"
  "\<not> list_ex is_privileged (fst (rejectFailedInboundAuth ev request mthd pathname nowMs fa))"
  by (auto simp: rejectFailedInboundAuth_def Let_def auth_observation_def blocked_effects_def
      split: prod.splits fa_decision.splits)

lemma health_policy_answers:
  "enforceHealthRequestTrustPolicy ev cfg request mthd pathname st nowMs fa = (ok, effs, fa') \<Longrightarrow>
   answers effs = (if ok then 0 else 1) \<and> \<not> list_ex is_privileged effs"
  using reject_answers [of ev request mthd pathname nowMs fa]
  by (auto simp: enforceHealthRequestTrustPolicy_def Let_def auth_observation_def blocked_effects_def
      split: prod.splits fa_decision.splits if_splits)

lemma health_answers:
  "answers (fst (handleHealthRequest ev request nowMs hl)) = 1"
  "\<not> list_ex is_privileged (fst (handleHealthRequest ev request nowMs hl))"
  by (auto simp: handleHealthRequest_def split: prod.splits rl_decision.splits)

lemma caller_limit_answers:
  "caller_limit cfg request mthd pathname route nowMs rl = (ok, effs, rl') \<Longrightarrow>
   answers effs = (if ok then 0 else 1) \<and> \<not> list_ex is_privileged effs"
  by (auto simp: caller_limit_def Let_def split: prod.splits rl_decision.splits if_splits)

lemma inspect_answers:
  "answers (fst (handleRuntimeInspectRequest ev request mthd url inspectId st nowMs insp)) = 1"
  by (auto simp: handleRuntimeInspectRequest_def inspect_capture_def recordInvokeInspectionSecretRevealRequest_def
      Let_def split: prod.splits option.splits if_splits)

lemma serve_answers:
  "serve_route ev request mthd url route st nowMs s = (effs, s', next) \<Longrightarrow>
   answers effs = (if next = None then 1 else 0)"
  using inspect_answers [of ev request mthd url _ st nowMs "gs_inspection s"]
  by (auto simp: serve_route_def Let_def split: runtime_route.splits prod.splits; metis fst_conv)

text \<open>
  Every request is either answered by one of the gates, which show nothing and leave slots and
  captures alone, or passes all of them and is served.
\<close>

definition refused_at_gate :: "'d gw_state \<Rightarrow> effect list \<Rightarrow> 'd gw_state \<Rightarrow> bool option \<Rightarrow> bool" where
  "refused_at_gate s effs s' next \<longleftrightarrow>
     next = None \<and> answers effs = 1 \<and> \<not> list_ex is_privileged effs \<and>
     gs_json s' = gs_json s \<and> gs_stream s' = gs_stream s \<and> gs_inspection s' = gs_inspection s"

definition passed_gates ::
  "'d gw_env \<Rightarrow> gw_config \<Rightarrow> http_request \<Rightarrow> int \<Rightarrow> 'd gw_state \<Rightarrow> effect list \<Rightarrow> 'd gw_state \<Rightarrow> bool option \<Rightarrow> parsed_url \<Rightarrow> bool" where
  "passed_gates ev cfg request nowMs s effs s' next url \<longleftrightarrow>
     (let mthd = request_method request; route = classifyRuntimeRoute mthd (u_pathname url); st = inbound_state ev cfg
      in ev_parseTarget ev (request_target request) = Some url \<and>
         entry_gate ev cfg request mthd (u_pathname url) route st = None \<and>
         route \<noteq> health \<and> (is_token st \<longrightarrow> has_auth ev request st) \<and>
         (\<exists>s2 pre effs'. gs_json s2 = gs_json s \<and> gs_stream s2 = gs_stream s \<and> gs_inspection s2 = gs_inspection s \<and>
            answers pre = 0 \<and> \<not> list_ex is_privileged pre \<and> effs = pre @ effs' \<and>
            serve_route ev request mthd url route st nowMs s2 = (effs', s', next)))"

lemma handler_health:
  assumes "ev_parseTarget ev (request_target request) = Some url"
    and "entry_gate ev cfg request (request_method request) (u_pathname url) health (inbound_state ev cfg) = None"
    and "classifyRuntimeRoute (request_method request) (u_pathname url) = health"
    and "requestHandler ev cfg requestId request nowMs s = (effs, s', next)"
  shows "refused_at_gate s effs s' next"
proof -
  obtain ok es fa where pol: "enforceHealthRequestTrustPolicy ev cfg request (request_method request) (u_pathname url)
      (inbound_state ev cfg) nowMs (gs_failedAuth s) = (ok, es, fa)"
    by (metis prod_cases3)
  obtain es' hl where hp: "handleHealthRequest ev request nowMs (gs_health s) = (es', hl)"
    by fastforce
  from assms pol hp health_policy_answers [OF pol] health_answers [of ev request nowMs "gs_health s"]
  show ?thesis
    by (auto simp: requestHandler_def Let_def refused_at_gate_def split: if_splits)
qed

lemma handler_authenticated:
  assumes "ev_parseTarget ev (request_target request) = Some url"
    and "route = classifyRuntimeRoute (request_method request) (u_pathname url)" "route \<noteq> health"
    and "entry_gate ev cfg request (request_method request) (u_pathname url) route (inbound_state ev cfg) = None"
    and "is_token (inbound_state ev cfg) \<longrightarrow> has_auth ev request (inbound_state ev cfg)"
    and "requestHandler ev cfg requestId request nowMs s = (effs, s', next)"
  shows "refused_at_gate s effs s' next \<or> passed_gates ev cfg request nowMs s effs s' next url"
proof -
  let ?st = "inbound_state ev cfg" and ?pre = "[SetHeader ''x-switchmaxxer-request-id'' requestId]"
  define s1 where "s1 = (if is_token ?st
    then s\<lparr>gs_failedAuth := fa_reset (gatewayRequestSourceIp request) (gs_failedAuth s)\<rparr> else s)"
  obtain ok es rl where lim:
    "caller_limit cfg request (request_method request) (u_pathname url) route nowMs (gs_rate s1) = (ok, es, rl)"
    by (metis prod_cases3)
  define s2 where "s2 = s1\<lparr>gs_rate := rl\<rparr>"
  obtain es' s3 nxt where sr:
    "serve_route ev request (request_method request) url route ?st nowMs s2 = (es', s3, nxt)"
    by (metis prod_cases3)
  have same: "gs_json s2 = gs_json s" "gs_stream s2 = gs_stream s" "gs_inspection s2 = gs_inspection s"
    by (auto simp: s1_def s2_def)
  have res: "(effs, s', next) = (if \<not> ok then (?pre @ es, s2, None) else (?pre @ es @ es', s3, nxt))"
  proof -
    have "\<not> (is_token ?st \<and> \<not> has_auth ev request ?st)" using assms(5) by blast
    then have "requestHandler ev cfg requestId request nowMs s =
      (let (ok, effs, rl) = caller_limit cfg request (request_method request) (u_pathname url) route nowMs (gs_rate s1);
           s2 = s1\<lparr>gs_rate := rl\<rparr>
       in if \<not> ok then (?pre @ effs, s2, None)
          else let (effs', s3, next) = serve_route ev request (request_method request) url route ?st nowMs s2
               in (?pre @ effs @ effs', s3, next))"
      using assms(1-4) by (simp only: requestHandler_def Let_def s1_def option.case if_False simp_thms)
    with assms(6) lim sr show ?thesis by (auto simp: s2_def Let_def split: if_splits)
  qed
  show ?thesis
  proof (cases ok)
    case True
    with res have "effs = (?pre @ es) @ es'" "s' = s3" "next = nxt" by simp_all
    moreover have "answers (?pre @ es) = 0" "\<not> list_ex is_privileged (?pre @ es)"
      using caller_limit_answers [OF lim] True by simp_all
    ultimately have "passed_gates ev cfg request nowMs s effs s' next url"
      using assms same sr unfolding passed_gates_def Let_def by blast
    then show ?thesis ..
  next
    case False
    then show ?thesis
      using res caller_limit_answers [OF lim] same by (simp add: refused_at_gate_def)
  qed
qed

lemma handler_cases:
  assumes "requestHandler ev cfg requestId request nowMs s = (effs, s', next)"
  shows "refused_at_gate s effs s' next \<or> (\<exists>url. passed_gates ev cfg request nowMs s effs s' next url)"
proof (cases "ev_parseTarget ev (request_target request)")
  case None
  with assms show ?thesis by (auto simp: requestHandler_def Let_def refused_at_gate_def)
next
  case (Some url)
  let ?m = "request_method request" and ?st = "inbound_state ev cfg"
  let ?route = "classifyRuntimeRoute ?m (u_pathname url)"
  show ?thesis
  proof (cases "entry_gate ev cfg request ?m (u_pathname url) ?route ?st")
    case (Some es)
    with \<open>ev_parseTarget ev (request_target request) = Some url\<close> assms entry_gate_rejects [OF Some] show ?thesis
      by (auto simp: requestHandler_def Let_def refused_at_gate_def)
  next
    case gate: None
    consider "?route = health" | "?route \<noteq> health" "is_token ?st \<and> \<not> has_auth ev request ?st"
      | "?route \<noteq> health" "is_token ?st \<longrightarrow> has_auth ev request ?st" by blast
    then show ?thesis
    proof cases
      case 1
      with handler_health [OF Some _ 1 assms] gate show ?thesis by simp
    next
      case 2
      obtain es fa where rj: "rejectFailedInboundAuth ev request ?m (u_pathname url) nowMs (gs_failedAuth s) = (es, fa)"
        by fastforce
      with reject_answers [of ev request ?m "u_pathname url" nowMs "gs_failedAuth s"] assms Some gate 2
      show ?thesis by (auto simp: requestHandler_def Let_def refused_at_gate_def)
    next
      case 3
      with handler_authenticated [OF Some refl 3(1) gate 3(2) assms] show ?thesis by blast
    qed
  qed
qed

lemma privileged_mem:
  "ReplyRuntimeConfig \<in> set effs \<Longrightarrow> list_ex is_privileged effs"
  "ReplyCapture v \<in> set effs \<Longrightarrow> list_ex is_privileged effs"
  by (force simp: list_ex_iff)+

lemma handler_answers:
  assumes "requestHandler ev cfg requestId request nowMs s = (effs, s', next)"
  shows "answers effs = (if next = None then 1 else 0)"
  using handler_cases [OF assms] by (auto simp: refused_at_gate_def passed_gates_def Let_def dest: serve_answers)

lemma handler_privileged:
  assumes "requestHandler ev cfg requestId request nowMs s = (effs, s', next)"
    and "next \<noteq> None \<or> list_ex is_privileged effs"
  obtains url where "passed_gates ev cfg request nowMs s effs s' next url"
  using assms(2) handler_cases [OF assms(1)] by (auto simp: refused_at_gate_def)

lemma serve_next:
  "serve_route ev request mthd url route st nowMs s = (effs, s', Some a) \<Longrightarrow> route = data_plane a \<and> effs = [] \<and> s' = s"
  by (cases route) (auto simp: serve_route_def Let_def split: prod.splits)

lemma serve_privileged:
  "serve_route ev request mthd url route st nowMs s = (effs, s', next) \<Longrightarrow> list_ex is_privileged effs \<Longrightarrow>
   trustClass route = control_plane_read"
  by (cases route) (auto simp: serve_route_def Let_def split: prod.splits)

lemma passed_served:
  assumes "passed_gates ev cfg request nowMs s effs s' next url"
  obtains s2 pre effs' where "gs_json s2 = gs_json s" "gs_stream s2 = gs_stream s" "gs_inspection s2 = gs_inspection s"
    "answers pre = 0" "\<not> list_ex is_privileged pre" "effs = pre @ effs'"
    "serve_route ev request (request_method request) url (classifyRuntimeRoute (request_method request) (u_pathname url))
       (inbound_state ev cfg) nowMs s2 = (effs', s', next)"
  using assms unfolding passed_gates_def Let_def by blast

lemma passed_route:
  assumes "passed_gates ev cfg request nowMs s effs s' next url"
  shows "next = Some a \<Longrightarrow> classifyRuntimeRoute (request_method request) (u_pathname url) = data_plane a"
    and "list_ex is_privileged effs \<Longrightarrow>
      trustClass (classifyRuntimeRoute (request_method request) (u_pathname url)) = control_plane_read"
  using passed_served [OF assms] serve_next serve_privileged by (metis, metis list_ex_append)

lemma passed_entry:
  assumes "passed_gates ev cfg request nowMs s effs s' next url"
  shows "entry_gate ev cfg request (request_method request) (u_pathname url)
      (classifyRuntimeRoute (request_method request) (u_pathname url)) (inbound_state ev cfg) = None"
    and "is_token (inbound_state ev cfg) \<Longrightarrow> has_auth ev request (inbound_state ev cfg)"
  using assms by (simp_all add: passed_gates_def Let_def)

lemma inspect_capture_view:
  "inspect_capture ev request inspectId inc nowMs insp = (effs, insp') \<Longrightarrow> ReplyCapture v \<in> set effs \<Longrightarrow>
   \<exists>c. v = toInvokeInspectionCaptureView c inc"
  by (auto simp: inspect_capture_def Let_def split: option.splits prod.splits if_splits)

definition shown_view :: "'d gw_env \<Rightarrow> auth_state \<Rightarrow> capture_view \<Rightarrow> bool" where
  "shown_view ev st v \<longleftrightarrow>
     (\<exists>c inc. v = toInvokeInspectionCaptureView c inc \<and> \<not> (inc \<and> \<not> (is_token st \<and> secretRevealAllowed ev)))"

lemma inspect_view:
  assumes "handleRuntimeInspectRequest ev request mthd url inspectId st nowMs insp = (effs, insp')"
    and "ReplyCapture v \<in> set effs"
  shows "shown_view ev st v"
proof -
  let ?inc = "ev_searchParam ev url ''include_secrets'' = Some ''true''"
  obtain es i' where c: "inspect_capture ev request inspectId ?inc nowMs insp = (es, i')" by fastforce
  from assms c have "\<not> (?inc \<and> \<not> (is_token st \<and> secretRevealAllowed ev))" "ReplyCapture v \<in> set es"
    by (auto simp: handleRuntimeInspectRequest_def recordInvokeInspectionSecretRevealRequest_def Let_def
        split: if_splits)
  with inspect_capture_view [OF c] show ?thesis unfolding shown_view_def by blast
qed

lemma serve_view:
  assumes "serve_route ev request mthd url route st nowMs s = (effs, s', next)" "ReplyCapture v \<in> set effs"
  shows "shown_view ev st v"
  using assms inspect_view [of ev request mthd url _ st nowMs "gs_inspection s" effs _ v]
  by (cases route) (auto simp: serve_route_def Let_def split: prod.splits)

lemma passed_trust:
  assumes "passed_gates ev cfg request nowMs s effs s' next url"
  shows "is_token (inbound_state ev cfg) \<and> has_auth ev request (inbound_state ev cfg) \<or>
    inbound_state ev cfg = disabled_explicit \<and> host_allowed ev cfg request"
  using entry_gate_passes(1,4) [OF passed_entry(1) [OF assms]] passed_entry(2) [OF assms] by blast

lemma has_auth_iff:
  "is_token st \<and> has_auth ev request st \<longleftrightarrow>
     (\<exists>tok envVar. st = token tok envVar \<and> requestHasExpectedInboundAuth (timingSafeTokenMatches (ev_sha ev)) request tok)"
  by (cases st) (simp_all add: is_token_def has_auth_def)

section \<open>Properties\<close>

text \<open>C1 (access_requires_trust). A request reaches the data plane, or is shown the runtime configuration or a
  capture, only if it carries the gateway's token, or authentication is switched off explicitly and the
  request comes from the loopback interface, names an allowed host and passes the checks against
  browsers. A misconfigured gateway serves nothing.\<close>

theorem access_requires_trust:
  assumes "requestHandler ev cfg requestId request nowMs s = (effs, s', next)"
    and "next \<noteq> None \<or> ReplyRuntimeConfig \<in> set effs \<or> (\<exists>v. ReplyCapture v \<in> set effs)"
  shows "(\<exists>tok envVar. inbound_state ev cfg = token tok envVar \<and>
            requestHasExpectedInboundAuth (timingSafeTokenMatches (ev_sha ev)) request tok) \<or>
         (inbound_state ev cfg = disabled_explicit \<and> host_allowed ev cfg request \<and>
          validateUnauthenticatedGatewayLocalClientRequest (ev_parseUrl ev) request (cf_bindHost cfg)
            (cf_oneTrustedOperatorBoundary cfg) = None)"
proof -
  from assms(2) have served: "next \<noteq> None \<or> list_ex is_privileged effs"
    using privileged_mem by blast
  then obtain url where p: "passed_gates ev cfg request nowMs s effs s' next url"
    using handler_privileged [OF assms(1)] by blast
  let ?route = "classifyRuntimeRoute (request_method request) (u_pathname url)"
  have gate: "requiresUnauthenticatedLocalClientGate ?route"
  proof (cases "next")
    case None
    with served passed_route(2) [OF p] show ?thesis
      by (cases ?route) (simp_all add: requiresUnauthenticatedLocalClientGate_def)
  next
    case (Some a)
    with passed_route(1) [OF p Some] show ?thesis by (simp add: requiresUnauthenticatedLocalClientGate_def)
  qed
  from passed_trust [OF p] show ?thesis
  proof
    assume "is_token (inbound_state ev cfg) \<and> has_auth ev request (inbound_state ev cfg)"
    then show ?thesis unfolding has_auth_iff ..
  next
    assume off: "inbound_state ev cfg = disabled_explicit \<and> host_allowed ev cfg request"
    with entry_gate_passes(2) [OF passed_entry(1) [OF p] _ gate] show ?thesis by simp
  qed
qed

text \<open>Property (control_plane_loopback). The runtime configuration and captures are shown only to requests that
  come from the loopback interface and name an allowed host, whether or not they carry the token.\<close>

theorem control_plane_loopback:
  assumes "requestHandler ev cfg requestId request nowMs s = (effs, s', next)"
    and "ReplyRuntimeConfig \<in> set effs \<or> (\<exists>v. ReplyCapture v \<in> set effs)"
  shows "isAllowedUnauthenticatedGatewayHost (ev_parseUrl ev) (header request ''host'') request
    (cf_bindHost cfg) (cf_port cfg)"
proof -
  from assms(2) have served: "list_ex is_privileged effs"
    using privileged_mem by blast
  then obtain url where p: "passed_gates ev cfg request nowMs s effs s' next url"
    using handler_privileged [OF assms(1)] by blast
  have "host_allowed ev cfg request"
    by (rule entry_gate_passes(3) [OF passed_entry(1) [OF p] passed_route(2) [OF p served]])
  then show ?thesis by (simp add: host_allowed_def)
qed

text \<open>C18 (secrets_need_opt_in). A capture is answered with a secret-bearing header in clear only when the
  request carries the gateway's token and the process runs with
  \<open>SWITCHMAXXER_ALLOW_INSPECT_SECRETS=1\<close>.\<close>

theorem secrets_need_opt_in:
  assumes "requestHandler ev cfg requestId request nowMs s = (effs, s', next)"
    and "ReplyCapture v \<in> set effs"
    and "\<not> list_all (redacted_where isSecretBearingHeader)
           [vw_client_to_smx v, vw_smx_to_provider v, vw_provider_to_smx v, vw_smx_to_client v]"
  shows "(\<exists>tok envVar. inbound_state ev cfg = token tok envVar \<and>
            requestHasExpectedInboundAuth (timingSafeTokenMatches (ev_sha ev)) request tok) \<and>
         ev_env ev ''SWITCHMAXXER_ALLOW_INSPECT_SECRETS'' = Some ''1''"
proof -
  from assms(2) have "list_ex is_privileged effs" by (rule privileged_mem)
  then obtain url where p: "passed_gates ev cfg request nowMs s effs s' next url"
    using handler_privileged [OF assms(1)] by blast
  have hidden: "list_all (redacted_where isSecretBearingHeader)
      [vw_client_to_smx (toInvokeInspectionCaptureView c False), vw_smx_to_provider (toInvokeInspectionCaptureView c False),
       vw_provider_to_smx (toInvokeInspectionCaptureView c False), vw_smx_to_client (toInvokeInspectionCaptureView c False)]" for c
    by (auto simp: toInvokeInspectionCaptureView_def redacts_def intro!: sanitize_redacted)
  obtain s2 pre effs' where "\<not> list_ex is_privileged pre" "effs = pre @ effs'"
    "serve_route ev request (request_method request) url (classifyRuntimeRoute (request_method request) (u_pathname url))
       (inbound_state ev cfg) nowMs s2 = (effs', s', next)"
    using passed_served [OF p] by blast
  moreover from this assms(2) have "ReplyCapture v \<in> set effs'" by (auto simp: list_ex_iff)
  ultimately have "shown_view ev (inbound_state ev cfg) v" using serve_view by blast
  then obtain c inc where "v = toInvokeInspectionCaptureView c inc"
    "\<not> (inc \<and> \<not> (is_token (inbound_state ev cfg) \<and> secretRevealAllowed ev))"
    unfolding shown_view_def by blast
  with hidden [of c] assms(3) have "is_token (inbound_state ev cfg) \<and> secretRevealAllowed ev"
    by (cases inc) auto
  moreover from this have "has_auth ev request (inbound_state ev cfg)"
    using passed_entry(2) [OF p] by blast
  ultimately show ?thesis
    using has_auth_iff [of "inbound_state ev cfg" ev request] by (simp add: secretRevealAllowed_def)
qed

text \<open>Property (correct_token_never_throttled). However many failed attempts its address has made, and whatever the
  failed-authentication table holds, a data-plane request with the right token reaches the data plane
  unless the caller's own rate limit stops it; and the address's failures are forgotten.\<close>

theorem correct_token_never_throttled:
  assumes "inbound_state ev cfg = token tok envVar"
    and "requestHasExpectedInboundAuth (timingSafeTokenMatches (ev_sha ev)) request tok"
    and "ev_parseTarget ev (request_target request) = Some url"
    and "classifyRuntimeRoute (request_method request) (u_pathname url) = data_plane isAnthropicPath"
  shows "(case requestHandler ev cfg requestId request nowMs s of (effs, s', next) \<Rightarrow>
     next = (if is_allowed (fst (rl_check (cf_rateLimit cfg) (gs_rate s)
                               (gatewayRequestSourceIp request @ '':data_plane'') nowMs))
             then Some isAnthropicPath else None) \<and>
     jm_get (gs_failedAuth s') (gatewayRequestSourceIp request) = None)"
  using assms
  by (auto simp: requestHandler_def Let_def entry_gate_def is_token_def has_auth_def caller_limit_def
      requiresCallerRateLimit_def gatewayRateLimitKey_def serve_route_def fa_reset_def jm_get_delete
      split: prod.splits rl_decision.splits)

section \<open>A concrete gateway\<close>

definition example_parsed :: "string \<Rightarrow> parsed_url" where
  "example_parsed path = \<lparr>u_protocol = ''http:'', u_username = [], u_password = [], u_hostname = ''localhost'', u_port = [],
     u_pathname = path, u_search = [], u_hash = []\<rparr>"

definition example_token :: string where
  "example_token = ''0123456789abcdef0123456789abcdef0123456789a''"

definition example_ev :: "string gw_env" where
  "example_ev = \<lparr>ev_parseUrl = \<lambda>_. Some (example_parsed ''/''), ev_parseTarget = \<lambda>t. Some (example_parsed t),
     ev_searchParam = \<lambda>_ _. Some ''true'',
     ev_env = \<lambda>n. if n = ''KEY'' then Some example_token else Some ''1'',
     ev_apiKeyOverrides = \<lambda>_. None, ev_sha = \<lambda>t. t, ev_isoTime = \<lambda>_. [], ev_dec = \<lambda>t. t, ev_nts = \<lambda>_. ''0'',
     ev_parseJson = \<lambda>_. None, ev_localeCompare = \<lambda>_ _. 0, ev_maxRequestJsonDepth = 64,
     ev_defaultRequestBodyIdleTimeoutMs = 1000, ev_processIntegrity = None\<rparr>"

definition example_cfg :: gw_config where
  "example_cfg = \<lparr>cf_bindHost = ''localhost'', cf_port = 80, cf_inboundApiKeyEnv = Some ''KEY'',
     cf_allowUnauthenticatedGateway = False, cf_oneTrustedOperatorBoundary = False,
     cf_allowUnauthenticatedHealth = False, cf_rateLimit = example_rl, cf_maxPayloadSize = 100, cf_timeoutMs = 1000,
     cf_maxConcurrentJsonParses = None, cf_maxConcurrentStreamsPerIp = None\<rparr>"

definition example_http :: "string \<Rightarrow> string \<Rightarrow> http_request" where
  "example_http mthd path = \<lparr>rq_method = Some mthd, rq_url = Some path,
     rq_headers = [(''host'', HStr ''localhost''), (''x-api-key'', HStr example_token)] @
       (if mthd = ''GET'' then [(''x-switchmaxxer-inspect-token'', HStr example_token)]
        else [(''content-type'', HStr ''application/json''), (''content-length'', HStr ''2'')]),
     rq_remoteAddress = Some ''127.0.0.1''\<rparr>"

definition example_id :: string where
  "example_id = ''00000000-0000-0000-0000-000000000000''"

definition example_capture :: capture where
  "example_capture = (createInvokeInspectionCapture (\<lambda>_. []) example_id 0)
     \<lparr>cp_clientToSmx := Some \<lparr>ex_method = None, ex_url = None, ex_status_code = None,
        ex_headers = [(''cookie'', HStr ''a'')], ex_body = [], ex_body_truncated = False\<rparr>\<rparr>"

definition example_state :: "string gw_state" where
  "example_state = \<lparr>gs_failedAuth = [], gs_rate = [], gs_health = [],
     gs_inspection = inspection_init\<lparr>in_heap := [0 \<mapsto> example_capture], in_store := [(example_id, 0, example_token)]\<rparr>,
     gs_json = jp_init, gs_stream = ss_init\<rparr>"

lemma example_inbound: "inbound_state example_ev example_cfg = token example_token ''KEY''"
  by (simp add: inbound_state_def resolveLocalGatewayInboundAuthState_def resolveInboundApiKey_def
      example_ev_def example_cfg_def example_token_def js_string_defs MIN_INBOUND_API_KEY_LENGTH_def)

lemma example_has_auth:
  "requestHasExpectedInboundAuth (timingSafeTokenMatches (ev_sha example_ev)) (example_http m p) example_token"
  by (simp add: requestHasExpectedInboundAuth_def example_http_def header_def jm_get_def timingSafeTokenMatches_def)

lemma example_fields [simp]:
  "ev_parseTarget example_ev t = Some (example_parsed t)" "u_pathname (example_parsed p) = p"
  "request_method (example_http m p) = m" "request_target (example_http m p) = p"
  by (simp_all add: example_ev_def example_parsed_def request_method_def request_target_def example_http_def)

lemma example_ip: "gatewayRequestSourceIp (example_http m p) = ''127.0.0.1''"
  by (simp add: gatewayRequestSourceIp_def normalizeGatewaySourceIp_def example_http_def js_string_defs Let_def starts_with_def)

lemma example_host_ok: "host_allowed example_ev example_cfg (example_http m p)"
  by (simp add: host_allowed_def isAllowedUnauthenticatedGatewayHost_def normalizeHostname_def isLoopbackHostname_def
     example_ip [unfolded gatewayRequestSourceIp_def] example_parsed_def
     example_http_def header_def jm_get_def example_ev_def example_cfg_def js_string_defs Let_def
     normalizeGatewaySourceIp_def starts_with_def)

lemma example_limit: "is_allowed (fst (rl_check example_rl [] k t))"
  by (simp add: rl_check_def rl_live_def rl_next_def advanceWindow_def example_rl_def Let_def
      evict_loop_small jm_delete_def write_through_def jm_get_def)

lemma example_gate:
  "entry_gate example_ev example_cfg (example_http m p) m p route (token example_token ''KEY'') = None"
  by (simp add: entry_gate_def example_host_ok)

lemma example_served:
  assumes "classifyRuntimeRoute m p = route" "requiresCallerRateLimit route"
  obtains pre s2 where
    "requestHandler example_ev example_cfg requestId (example_http m p) t example_state =
       (case serve_route example_ev (example_http m p) m (example_parsed p) route (token example_token ''KEY'') t s2 of
          (effs, s3, next) \<Rightarrow> (pre @ effs, s3, next))"
    "gs_inspection s2 = gs_inspection example_state"
proof -
  have "route \<noteq> health" using assms(2) by (auto simp: requiresCallerRateLimit_def)
  obtain a b rl where "rl_check example_rl [] (gatewayRateLimitKey (example_http m p) (trustClass route)) t = (Allowed a b, rl)"
    using example_limit [of "gatewayRateLimitKey (example_http m p) (trustClass route)" t]
    by (cases "rl_check example_rl [] (gatewayRateLimitKey (example_http m p) (trustClass route)) t")
      (metis fst_conv is_allowed.elims(2))
  then have "\<exists>es. caller_limit example_cfg (example_http m p) m p route t [] = (True, es, rl)"
    using assms(2) by (simp add: caller_limit_def example_cfg_def)
  then obtain es where es: "caller_limit example_cfg (example_http m p) m p route t [] = (True, es, rl)" ..
  have r: "gs_rate example_state = []" by (simp add: example_state_def)
  show ?thesis
    by (rule that [of "SetHeader ''x-switchmaxxer-request-id'' requestId # es"
          "example_state\<lparr>gs_failedAuth := fa_reset (gatewayRequestSourceIp (example_http m p)) (gs_failedAuth example_state), gs_rate := rl\<rparr>"])
      (use assms(1) \<open>route \<noteq> health\<close> es r in \<open>simp_all add: requestHandler_def Let_def example_inbound example_gate is_token_def
         has_auth_def example_has_auth split: prod.split\<close>)
qed

theorem access_requires_trust_witness:
  "\<exists>effs s'. requestHandler example_ev example_cfg ''r'' (example_http ''POST'' ''/v1/chat/completions'') 5 example_state =
     (effs, s', Some False) \<and>
   (\<exists>tok envVar. inbound_state example_ev example_cfg = token tok envVar \<and>
      requestHasExpectedInboundAuth (timingSafeTokenMatches (ev_sha example_ev))
        (example_http ''POST'' ''/v1/chat/completions'') tok)"
proof -
  have "classifyRuntimeRoute ''POST'' ''/v1/chat/completions'' = data_plane False"
    by (simp add: classifyRuntimeRoute_def)
  then obtain effs s' where h: "requestHandler example_ev example_cfg ''r''
      (example_http ''POST'' ''/v1/chat/completions'') 5 example_state = (effs, s', Some False)"
    by (rule example_served [where requestId = "''r''" and t = 5]) (auto simp: requiresCallerRateLimit_def serve_route_def)
  from access_requires_trust [OF h] h show ?thesis by (simp add: example_inbound)
qed

theorem control_plane_loopback_witness:
  "isAllowedUnauthenticatedGatewayHost (ev_parseUrl example_ev)
     (header (example_http ''GET'' ''/__switchmaxxer/runtime/config'') ''host'')
     (example_http ''GET'' ''/__switchmaxxer/runtime/config'') (cf_bindHost example_cfg) (cf_port example_cfg)"
proof -
  have "classifyRuntimeRoute ''GET'' ''/__switchmaxxer/runtime/config'' = runtime_config"
    by (simp add: classifyRuntimeRoute_def)
  then obtain pre s' where h: "requestHandler example_ev example_cfg ''r''
      (example_http ''GET'' ''/__switchmaxxer/runtime/config'') 5 example_state = (pre @ [ReplyRuntimeConfig], s', None)"
    by (rule example_served [where requestId = "''r''" and t = 5]) (auto simp: requiresCallerRateLimit_def serve_route_def)
  from control_plane_loopback [OF h] show ?thesis by simp
qed

lemma example_consume:
  "store_consume (ev_sha example_ev) (ev_nts example_ev) INVOKE_INSPECTION_MAX_STORE_BYTES example_id example_token 5
     (gs_inspection example_state) = (Some 0, deleteCapture example_id 0 (gs_inspection example_state))"
proof -
  let ?s = "gs_inspection example_state"
  have s: "in_store ?s = [(example_id, 0, example_token)]" "in_heap ?s = [0 \<mapsto> example_capture]"
    by (simp_all add: example_state_def)
  have "stored_bytes (ev_nts example_ev) ?s 0 \<le> INVOKE_INSPECTION_MAX_STORE_BYTES"
    by (simp add: s stored_bytes_def estimateInvokeInspectionCaptureBytes_def byte_length_def example_ev_def
        example_capture_def createInvokeInspectionCapture_def example_id_def capture_json_def quote_string_def
        escape_char_def code_unit_def INVOKE_INSPECTION_MAX_STORE_BYTES_def INVOKE_INSPECTION_MAX_CAPTURE_BYTES_def
        INVOKE_INSPECTION_MAX_CAPTURES_def)
  moreover have "\<not> capture_expired ?s 5 0"
    by (simp add: s capture_expired_def example_capture_def createInvokeInspectionCapture_def INVOKE_INSPECTION_DEFAULT_TTL_MS_def)
  ultimately have "store_prune (ev_nts example_ev) INVOKE_INSPECTION_MAX_STORE_BYTES 5 ?s = ?s"
    by (simp add: s(1) store_prune_def prune_count.simps prune_bytes.simps
        estimateInvokeInspectionStoreBytes_def INVOKE_INSPECTION_MAX_CAPTURES_def)
  then show ?thesis
    by (simp add: store_consume_def Let_def s(1) jm_get_def readTokenMatches_def example_ev_def)
qed

lemma example_inspect_capture:
  "inspect_capture example_ev (example_http ''GET'' p) example_id True 5 (gs_inspection example_state) =
     ([ReplyCapture (toInvokeInspectionCaptureView example_capture True)],
      deleteCapture example_id 0 (gs_inspection example_state))"
proof -
  have "readSingleHeaderValue (header (example_http ''GET'' p) INVOKE_INSPECTION_TOKEN_HEADER) = Some example_token"
    by (simp add: readSingleHeaderValue_def header_def example_http_def jm_get_def INVOKE_INSPECTION_TOKEN_HEADER_def
        example_token_def js_string_defs)
  moreover have "is_read_token example_token"
    by (simp add: is_read_token_def example_token_def code_unit_def Let_def)
  moreover have "in_heap (deleteCapture example_id 0 (gs_inspection example_state)) 0 = Some example_capture"
    by (simp add: deleteCapture_def removeInvokeInspectionCaptureBindings_def example_state_def inspection_init_def)
  ultimately show ?thesis by (simp add: inspect_capture_def example_consume)
qed

theorem secrets_need_opt_in_witness:
  "ev_env example_ev ''SWITCHMAXXER_ALLOW_INSPECT_SECRETS'' = Some ''1'' \<and>
   (\<exists>tok envVar. inbound_state example_ev example_cfg = token tok envVar \<and>
      requestHasExpectedInboundAuth (timingSafeTokenMatches (ev_sha example_ev))
        (example_http ''GET'' (inspect_prefix @ example_id)) tok)"
proof -
  let ?v = "toInvokeInspectionCaptureView example_capture True"
  have "classifyRuntimeRoute ''GET'' (inspect_prefix @ example_id) = runtime_inspect example_id"
    by (simp add: classifyRuntimeRoute_def inspect_prefix_def example_id_def parseRuntimeInspectRequestPath_def starts_with_def)
  then obtain pre s' where h: "requestHandler example_ev example_cfg ''r''
      (example_http ''GET'' (inspect_prefix @ example_id)) 5 example_state = (pre @ [ReplyCapture ?v], s', None)"
  proof (rule example_served [where requestId = "''r''" and t = 5])
    fix pre and s2 :: "string gw_state"
    assume s2: "gs_inspection s2 = gs_inspection example_state"
    assume h: "requestHandler example_ev example_cfg ''r'' (example_http ''GET'' (inspect_prefix @ example_id)) 5 example_state =
       (case serve_route example_ev (example_http ''GET'' (inspect_prefix @ example_id)) ''GET''
          (example_parsed (inspect_prefix @ example_id)) (runtime_inspect example_id) (token example_token ''KEY'') 5 s2 of
          (effs, s3, next) \<Rightarrow> (pre @ effs, s3, next))"
    have "is_inspection_id example_id"
      by (simp add: is_inspection_id_def example_id_def split_char.simps is_hex_def code_unit_def Let_def)
    with h s2 that show ?thesis
      by (simp add: serve_route_def handleRuntimeInspectRequest_def example_inspect_capture is_token_def
          secretRevealAllowed_def example_ev_def [THEN arg_cong [where f = ev_searchParam]]
          example_ev_def [THEN arg_cong [where f = ev_env]] Let_def)
  qed (simp add: requiresCallerRateLimit_def)
  have "\<not> list_all (redacted_where isSecretBearingHeader)
      [vw_client_to_smx ?v, vw_smx_to_provider ?v, vw_provider_to_smx ?v, vw_smx_to_client ?v]"
    by (simp add: toInvokeInspectionCaptureView_def example_capture_def sanitizeExchange_def sanitizeInspectionHeaders_def
        redacts_def redacted_where_def isSecretBearingHeader_def INVOKE_INSPECTION_TOKEN_HEADER_def REDACTED_SECRET_def
        js_string_defs Let_def)
  from secrets_need_opt_in [OF h _ this] show ?thesis by simp
qed

theorem correct_token_never_throttled_witness:
  "(case requestHandler example_ev example_cfg ''r'' (example_http ''POST'' ''/v1/chat/completions'') 5 example_state of
      (effs, s', next) \<Rightarrow> next = Some False \<and> jm_get (gs_failedAuth s') ''127.0.0.1'' = None)"
  using correct_token_never_throttled [OF example_inbound example_has_auth [of "''POST''" "''/v1/chat/completions''"],
      where url = "example_parsed ''/v1/chat/completions''" and isAnthropicPath = False and requestId = "''r''" and nowMs = 5
        and s = example_state]
    example_limit [of "''127.0.0.1:data_plane''" 5]
  by (simp add: classifyRuntimeRoute_def example_ip example_cfg_def example_state_def)

end
