(* ===== verification/Data_Plane.thy ===== *)
theory Data_Plane
  imports Request_Handler
begin

text \<open>
  The data plane: \<^verbatim>\<open>runtime/data-plane-handler.ts\<close> and \<^verbatim>\<open>runtime/request-dispatch.ts\<close>.

  A data-plane request waits twice, for its body and for the upstream, and other requests run
  meanwhile. It is three steps over the shared state: \<open>handleDataPlaneRequest\<close> up to the wait for the
  body, \<open>dispatch_body\<close> up to the call of the proxy, \<open>dispatch_done\<close> when the proxy has returned or
  thrown. The relation \<open>gw_step\<close> is the system of all requests in flight: a request may arrive, read
  its body, be answered by the proxy or finish at any moment.
\<close>

section \<open>Before the body is read\<close>

definition INVOKE_INSPECTION_REQUEST_HEADER :: string where
  "INVOKE_INSPECTION_REQUEST_HEADER = ''x-switchmaxxer-inspect''"

definition INVOKE_INSPECTION_RESPONSE_HEADER :: string where
  "INVOKE_INSPECTION_RESPONSE_HEADER = ''x-switchmaxxer-inspect-id''"

definition dispatch_error :: "string \<Rightarrow> nat \<Rightarrow> effect" where
  "dispatch_error reason status =
     LogLine (''x ERROR     model=unknown  reason=\"'' @ reason @ ''\"  status='' @ digits_of_nat status)"

definition has_transfer_encoding :: "http_request \<Rightarrow> bool" where
  "has_transfer_encoding request =
     (case header request ''transfer-encoding'' of
        Some (HArr vs) \<Rightarrow> list_ex (\<lambda>v. trim v \<noteq> []) vs
      | Some (HStr v) \<Rightarrow> trim v \<noteq> []
      | None \<Rightarrow> False)"

definition too_large_message :: "gw_config \<Rightarrow> string" where
  "too_large_message cfg =
     ''Request body exceeds max_payload_size ('' @ digits_of_nat (cf_maxPayloadSize cfg) @ '' bytes)''"

text \<open>The checks on the request's framing headers; \<^const>\<open>None\<close> when they all pass.\<close>

definition framing_rejection :: "gw_config \<Rightarrow> http_request \<Rightarrow> effect list option" where
  "framing_rejection cfg request =
     (if has_transfer_encoding request then
        Some [dispatch_error ''Transfer-Encoding request bodies are not supported'' 411,
              SetHeader ''connection'' ''close'',
              SendJsonError 411 ''Transfer-Encoding is not supported for gateway JSON request bodies.'' ''invalid_request'']
      else case header request ''content-length'' of
        Some (HArr _) \<Rightarrow>
          Some [dispatch_error ''Duplicate Content-Length header'' 400,
                SetHeader ''connection'' ''close'',
                SendJsonError 400 ''Request body must include exactly one Content-Length header.'' ''invalid_request'']
      | None \<Rightarrow>
          Some [dispatch_error ''Missing Content-Length header'' 411,
                SetHeader ''connection'' ''close'',
                SendJsonError 411 ''Request body must include a Content-Length header.'' ''invalid_request'']
      | Some (HStr contentLength) \<Rightarrow>
          if trim contentLength = [] then
            Some [dispatch_error ''Missing Content-Length header'' 411,
                  SetHeader ''connection'' ''close'',
                  SendJsonError 411 ''Request body must include a Content-Length header.'' ''invalid_request'']
          else (case parseCanonicalNonNegativeInteger (Some contentLength) of
              None \<Rightarrow>
                Some [dispatch_error ''Invalid Content-Length header'' 400,
                      SendJsonError 400 ''Content-Length header must be a non-negative integer.'' ''invalid_request'']
            | Some declaredLength \<Rightarrow>
                if declaredLength > cf_maxPayloadSize cfg then
                  Some [dispatch_error ''Request body too large'' 413,
                        SendJsonError 413 (too_large_message cfg) ''payload_too_large'']
                else if \<not> requestHasJsonContentType request then
                  Some [dispatch_error ''Unsupported Content-Type header'' 415,
                        SendJsonError 415 ''Gateway JSON request bodies require 'Content-Type: application/json'.''
                          ''invalid_request'']
                else None))"

definition json_cap :: "gw_config \<Rightarrow> nat" where
  "json_cap cfg = (case cf_maxConcurrentJsonParses cfg of Some n \<Rightarrow> n | None \<Rightarrow> 4)"

definition stream_cap :: "gw_config \<Rightarrow> nat" where
  "stream_cap cfg = (case cf_maxConcurrentStreamsPerIp cfg of Some n \<Rightarrow> n | None \<Rightarrow> 8)"

definition capacity_observation ::
  "http_request \<Rightarrow> string \<Rightarrow> string \<Rightarrow> string \<Rightarrow> bool \<Rightarrow> nat \<Rightarrow> string \<Rightarrow> string \<Rightarrow> nat \<Rightarrow> effect" where
  "capacity_observation request mthd pathname bareModel stream status scope capName cap =
     Observation ''rate_limited''
       [(''caller'', JStr (gatewayRequestSourceIp request)), (''bareModel'', JStr bareModel),
        (''stream'', JBool stream),
        (''apiMode'', JStr (if classifyGatewayApiMode pathname = Some anthropic_messages
                            then ''anthropic-messages'' else ''openai-completions'')),
        (''status_code'', JNum (of_nat status)), (''scope'', JStr scope),
        (''source_ip'', JStr (gatewayRequestSourceIp request)), (''method'', JStr mthd), (''path'', JStr pathname),
        (capName, JNum (of_nat cap))]"

text \<open>Up to the wait for the body: the handle of the JSON slot when the request goes on.\<close>

definition dispatch_start ::
  "gw_config \<Rightarrow> http_request \<Rightarrow> string \<Rightarrow> string \<Rightarrow> json_slots \<Rightarrow> effect list \<times> json_slots \<times> nat option" where
  "dispatch_start cfg request mthd pathname slots =
     (case framing_rejection cfg request of
        Some effs \<Rightarrow> (effs, slots, None)
      | None \<Rightarrow>
          (case jp_tryAcquire (json_cap cfg) slots of
             (None, slots') \<Rightarrow>
               ([LogWarning (''Gateway concurrent JSON parse cap exceeded for source '' @ gatewayRequestSourceIp request @
                   ''; active_parse_limit='' @ digits_of_nat (json_cap cfg) @ ''.''),
                 capacity_observation request mthd pathname [] False 503 ''json_parse_concurrency''
                   ''max_concurrent_json_parses'' (json_cap cfg),
                 SendJsonError 503 ''Server is busy parsing other request bodies. Retry later.''
                   ''request_parse_capacity_exceeded''], slots', None)
           | (Some h, slots') \<Rightarrow> ([], slots', Some h)))"

text \<open>\<open>rid\<close> is the request object; \<open>captureId\<close> and \<open>readToken\<close> are the random values \<open>allocate\<close> would draw.\<close>

definition handleDataPlaneRequest ::
  "'d gw_env \<Rightarrow> gw_config \<Rightarrow> nat \<Rightarrow> http_request \<Rightarrow> string \<Rightarrow> string \<Rightarrow> string \<Rightarrow> string \<Rightarrow> int \<Rightarrow> 'd gw_state \<Rightarrow>
   effect list \<times> 'd gw_state \<times> nat option" where
  "handleDataPlaneRequest ev cfg rid request mthd pathname captureId readToken nowMs s =
     (if readSingleHeaderValue (header request INVOKE_INSPECTION_RESPONSE_HEADER) \<noteq> None \<or>
         readSingleHeaderValue (header request INVOKE_INSPECTION_TOKEN_HEADER) \<noteq> None
      then ([SendJsonError 400 (''Invoke inspection ids and tokens are server allocated; send '' @
               quoted (INVOKE_INSPECTION_REQUEST_HEADER @ '': 1'') @ '' to request inspection.'') ''invalid_request''],
            s, None)
      else
        let go = (\<lambda>(effs, s). case dispatch_start cfg request mthd pathname (gs_json s) of
                    (effs', slots, h) \<Rightarrow> (effs @ effs', s\<lparr>gs_json := slots\<rparr>, h))
        in case readSingleHeaderValue (header request INVOKE_INSPECTION_REQUEST_HEADER) of
             None \<Rightarrow> go ([], s)
           | Some requested \<Rightarrow>
               if requested \<noteq> ''1''
               then ([SendJsonError 400 ''Invoke inspection request header is invalid.'' ''invalid_request''], s, None)
               else
                 let (r, insp) = store_allocate (ev_sha ev) (ev_isoTime ev) (ev_nts ev) INVOKE_INSPECTION_MAX_STORE_BYTES
                                   captureId readToken nowMs (gs_inspection s)
                 in go ([SetHeader INVOKE_INSPECTION_RESPONSE_HEADER captureId,
                         SetHeader INVOKE_INSPECTION_TOKEN_HEADER readToken],
                        s\<lparr>gs_inspection := attachInvokeInspectionCapture rid r insp\<rparr>))"

section \<open>From the body to the proxy\<close>

definition parse_body :: "'d gw_env \<Rightarrow> gw_config \<Rightarrow> bool \<Rightarrow> string \<Rightarrow> request_body_error + json" where
  "parse_body ev cfg isAnthropicPath rawBody =
     (case parseJsonWithinBounds (ev_parseJson ev) (hard_json_bounds\<lparr>maxSerializedBytes := cf_maxPayloadSize cfg\<rparr>) rawBody of
        Inl e \<Rightarrow> Inl (BodyJson e)
      | Inr candidate \<Rightarrow>
          rbind (rensure (isRecord (Some candidate)) NotAnObject) (\<lambda>_.
          rbind (validateParsedRequestBodyShape (ev_nts ev) (ev_maxRequestJsonDepth ev) candidate (cf_maxPayloadSize cfg)) (\<lambda>_.
          validateGatewayProxyRequestBody candidate isAnthropicPath)))"

fun is_size_error :: "request_body_error \<Rightarrow> bool" where
  "is_size_error request_body_structure_too_large = True"
| "is_size_error (BodyJson JsonStructureTooLarge) = True"
| "is_size_error (BodyJson JsonSerializedTooLarge) = True"
| "is_size_error _ = False"

definition body_error_effects :: "gw_config \<Rightarrow> body_error \<Rightarrow> effect list" where
  "body_error_effects cfg e =
     (case e of
        request_body_too_large \<Rightarrow>
          [dispatch_error ''Request body too large'' 413, SendJsonError 413 (too_large_message cfg) ''payload_too_large'']
      | request_stream_error \<Rightarrow> [Rethrow e]
      | _ \<Rightarrow>
          [dispatch_error ''Request body upload timed out'' 408, SetHeader ''connection'' ''close'',
           SendJsonError 408 ''Request body upload timed out'' ''request_timeout''])"

definition parse_error_effects :: "gw_config \<Rightarrow> request_body_error \<Rightarrow> effect list" where
  "parse_error_effects cfg e =
     (if is_size_error e then
        [dispatch_error ''Request body structure too large after parse'' 413,
         SendJsonError 413 (''Request body exceeds the allowed parsed JSON shape for max_payload_size ('' @
           digits_of_nat (cf_maxPayloadSize cfg) @ '' bytes)'') ''payload_too_large'']
      else
        [dispatch_error ''Malformed request body'' 400,
         SendJsonError 400 ''Malformed request body'' ''invalid_json''])"

definition release_json :: "nat \<Rightarrow> 'd gw_state \<Rightarrow> 'd gw_state" where
  "release_json h s = s\<lparr>gs_json := jp_release h (gs_json s)\<rparr>"

definition model_text :: "json \<Rightarrow> string" where
  "model_text body = (case jprop body ''model'' of Some (JStr m) \<Rightarrow> m | _ \<Rightarrow> [])"

definition proxy_call :: "bool \<Rightarrow> json \<Rightarrow> string \<Rightarrow> effect" where
  "proxy_call isAnthropicPath body rawBody =
     (if isAnthropicPath then ProxyAnthropicMessage body rawBody else ProxyChatCompletion body rawBody)"

text \<open>
  The last component: \<^const>\<open>None\<close> when the request has been answered, otherwise the handle of its stream
  slot (none when the request does not stream) while the proxy runs.
\<close>

definition dispatch_body ::
  "'d gw_env \<Rightarrow> gw_config \<Rightarrow> nat \<Rightarrow> http_request \<Rightarrow> string \<Rightarrow> string \<Rightarrow> bool \<Rightarrow> nat \<Rightarrow> body_error + string \<Rightarrow>
   'd gw_state \<Rightarrow> effect list \<times> 'd gw_state \<times> nat option option" where
  "dispatch_body ev cfg rid request mthd pathname isAnthropicPath h result s0 =
     (case result of
        Inl e \<Rightarrow> (body_error_effects cfg e, release_json h s0, None)
      | Inr rawBody \<Rightarrow>
          let recorded = \<lparr>rc_method = Some mthd,
                          rc_url = Some (case rq_url request of Some u \<Rightarrow> u | None \<Rightarrow> pathname),
                          rc_status_code = None,
                          rc_headers = normalizeIncomingInspectionHeaders (rq_headers request),
                          rc_body = BodyText rawBody\<rparr>;
              s = s0\<lparr>gs_inspection := recordClientToSmxInspectionExchange (ev_dec ev) rid recorded (gs_inspection s0)\<rparr>
          in case parse_body ev cfg isAnthropicPath rawBody of
               Inl e \<Rightarrow> (parse_error_effects cfg e, release_json h s, None)
             | Inr parsedBody \<Rightarrow>
                 if jprop parsedBody ''stream'' \<noteq> Some (JBool True)
                 then ([proxy_call isAnthropicPath parsedBody rawBody], s, Some None)
                 else
                   let sourceIp = gatewayRequestSourceIp request
                   in case ss_tryAcquire sourceIp (stream_cap cfg) (gs_stream s) of
                        (Some sh, streams) \<Rightarrow>
                          ([proxy_call isAnthropicPath parsedBody rawBody], s\<lparr>gs_stream := streams\<rparr>, Some (Some sh))
                      | (None, streams) \<Rightarrow>
                          ([LogWarning (''Gateway concurrent stream cap exceeded for source '' @ sourceIp @
                              ''; active_stream_limit='' @ digits_of_nat (stream_cap cfg) @ ''.''),
                            capacity_observation request mthd pathname (model_text parsedBody) True 429
                              ''concurrent_streams'' ''max_concurrent_streams_per_ip'' (stream_cap cfg),
                            SendJsonError 429 ''Too many concurrent streaming requests from this source. Retry later.''
                              ''stream_capacity_exceeded''],
                           release_json h (s\<lparr>gs_stream := streams\<rparr>), None))"

text \<open>The two \<open>finally\<close> blocks.\<close>

definition dispatch_done :: "nat \<Rightarrow> nat option \<Rightarrow> 'd gw_state \<Rightarrow> 'd gw_state" where
  "dispatch_done h stream s =
     release_json h (case stream of None \<Rightarrow> s | Some sh \<Rightarrow> s\<lparr>gs_stream := ss_release sh (gs_stream s)\<rparr>)"

section \<open>The system of requests in flight\<close>

datatype phase = Reading | Proxying "nat option"      \<comment> \<open>the handle of the stream slot\<close>

record task =
  tk_rid :: nat
  tk_request :: http_request
  tk_pathname :: string
  tk_isAnthropicPath :: bool
  tk_json :: nat                                       \<comment> \<open>the handle of the JSON slot\<close>
  tk_phase :: phase

record 'd gw_system =
  sy_state :: "'d gw_state"
  sy_tasks :: "task list"
  sy_next :: nat                                       \<comment> \<open>the next request object\<close>
  sy_trace :: "(nat \<times> effect) list"

text \<open>What the proxy does to the captures while it runs.\<close>

datatype proxy_note =
    BindCapture string
  | NoteToProvider string recorded
  | NoteFromProvider string recorded
  | NoteClientBody string nat body_input

fun apply_note :: "(string \<Rightarrow> string) \<Rightarrow> nat \<Rightarrow> proxy_note \<Rightarrow> 'd inspection \<Rightarrow> 'd inspection" where
  "apply_note dec rid (BindCapture requestId) s = bindInvokeInspectionCaptureToRequestId requestId rid s"
| "apply_note dec rid (NoteToProvider requestId e) s = recordSmxToProviderInspectionExchange dec requestId e s"
| "apply_note dec rid (NoteFromProvider requestId e) s = recordProviderToSmxInspectionExchange dec requestId e s"
| "apply_note dec rid (NoteClientBody requestId statusCode body) s =
     recordSmxToClientInspectionBody dec requestId statusCode body s"

definition traced :: "nat \<Rightarrow> effect list \<Rightarrow> 'd gw_system \<Rightarrow> (nat \<times> effect) list" where
  "traced rid effs y = sy_trace y @ map (Pair rid) effs"

definition read_body ::
  "'d gw_env \<Rightarrow> gw_config \<Rightarrow> http_request \<Rightarrow> (int \<times> read_event) list \<Rightarrow> (body_error + string) option" where
  "read_body ev cfg request events =
     readRequestBodyWithLimit (ev_dec ev) request (cf_maxPayloadSize cfg)
       (min (cf_timeoutMs cfg) (ev_defaultRequestBodyIdleTimeoutMs ev)) (cf_timeoutMs cfg) events"

inductive gw_step :: "'d gw_env \<Rightarrow> gw_config \<Rightarrow> 'd gw_system \<Rightarrow> 'd gw_system \<Rightarrow> bool" for ev cfg where
  answered:
    "requestHandler ev cfg requestId request nowMs (sy_state y) = (effs, s', None) \<Longrightarrow>
     gw_step ev cfg y (y\<lparr>sy_state := s', sy_next := Suc (sy_next y), sy_trace := traced (sy_next y) effs y\<rparr>)"
| turned_away:
    "requestHandler ev cfg requestId request nowMs (sy_state y) = (effs, s1, Some a) \<Longrightarrow>
     ev_parseTarget ev (request_target request) = Some url \<Longrightarrow>
     handleDataPlaneRequest ev cfg (sy_next y) request (request_method request) (u_pathname url)
       captureId readToken nowMs s1 = (effs', s', None) \<Longrightarrow>
     gw_step ev cfg y (y\<lparr>sy_state := s', sy_next := Suc (sy_next y), sy_trace := traced (sy_next y) (effs @ effs') y\<rparr>)"
| accepted:
    "requestHandler ev cfg requestId request nowMs (sy_state y) = (effs, s1, Some a) \<Longrightarrow>
     ev_parseTarget ev (request_target request) = Some url \<Longrightarrow>
     handleDataPlaneRequest ev cfg (sy_next y) request (request_method request) (u_pathname url)
       captureId readToken nowMs s1 = (effs', s', Some h) \<Longrightarrow>
     gw_step ev cfg y (y\<lparr>sy_state := s', sy_next := Suc (sy_next y), sy_trace := traced (sy_next y) (effs @ effs') y,
       sy_tasks := sy_tasks y @ [\<lparr>tk_rid = sy_next y, tk_request = request, tk_pathname = u_pathname url,
         tk_isAnthropicPath = a, tk_json = h, tk_phase = Reading\<rparr>]\<rparr>)"
| body_refused:
    "sy_tasks y = xs @ t # ys \<Longrightarrow> tk_phase t = Reading \<Longrightarrow> read_body ev cfg (tk_request t) events = Some result \<Longrightarrow>
     dispatch_body ev cfg (tk_rid t) (tk_request t) (request_method (tk_request t)) (tk_pathname t)
       (tk_isAnthropicPath t) (tk_json t) result (sy_state y) = (effs, s', None) \<Longrightarrow>
     gw_step ev cfg y (y\<lparr>sy_state := s', sy_tasks := xs @ ys, sy_trace := traced (tk_rid t) effs y\<rparr>)"
| body_accepted:
    "sy_tasks y = xs @ t # ys \<Longrightarrow> tk_phase t = Reading \<Longrightarrow> read_body ev cfg (tk_request t) events = Some result \<Longrightarrow>
     dispatch_body ev cfg (tk_rid t) (tk_request t) (request_method (tk_request t)) (tk_pathname t)
       (tk_isAnthropicPath t) (tk_json t) result (sy_state y) = (effs, s', Some stream) \<Longrightarrow>
     gw_step ev cfg y (y\<lparr>sy_state := s', sy_tasks := xs @ t\<lparr>tk_phase := Proxying stream\<rparr> # ys,
       sy_trace := traced (tk_rid t) effs y\<rparr>)"
| proxy_note:
    "t \<in> set (sy_tasks y) \<Longrightarrow> tk_phase t = Proxying stream \<Longrightarrow>
     gw_step ev cfg y (y\<lparr>sy_state := (sy_state y)\<lparr>gs_inspection :=
       apply_note (ev_dec ev) (tk_rid t) note (gs_inspection (sy_state y))\<rparr>\<rparr>)"
| proxy_done:
    "sy_tasks y = xs @ t # ys \<Longrightarrow> tk_phase t = Proxying stream \<Longrightarrow>
     gw_step ev cfg y (y\<lparr>sy_state := dispatch_done (tk_json t) stream (sy_state y), sy_tasks := xs @ ys\<rparr>)"
| response_finished:
    "in_byRequest (gs_inspection (sy_state y)) rid = Some r \<Longrightarrow>
     gw_step ev cfg y (y\<lparr>sy_state := (sy_state y)\<lparr>gs_inspection :=
       completeSmxToClientInspectionExchange (ev_isoTime ev) r statusCode (normalizeOutgoingInspectionHeaders headers)
         completedAtMs (gs_inspection (sy_state y))\<rparr>\<rparr>)"

definition gw_init :: "'d gw_system" where
  "gw_init = \<lparr>sy_state = \<lparr>gs_failedAuth = [], gs_rate = [], gs_health = [], gs_inspection = inspection_init,
                gs_json = jp_init, gs_stream = ss_init\<rparr>,
              sy_tasks = [], sy_next = 0, sy_trace = []\<rparr>"

inductive gw_reachable :: "'d gw_env \<Rightarrow> gw_config \<Rightarrow> 'd gw_system \<Rightarrow> bool" for ev cfg where
  initial: "gw_reachable ev cfg gw_init"
| step: "gw_reachable ev cfg y \<Longrightarrow> gw_step ev cfg y y' \<Longrightarrow> gw_reachable ev cfg y'"

section \<open>Accounting of slots\<close>

definition streams :: "task list \<Rightarrow> (string \<times> nat) list" where
  "streams ts = concat (map (\<lambda>t. case tk_phase t of
     Proxying (Some sh) \<Rightarrow> [(gatewayRequestSourceIp (tk_request t), sh)] | _ \<Rightarrow> []) ts)"

lemma streams_simps [simp]:
  "streams [] = []" "streams (xs @ ys) = streams xs @ streams ys"
  "streams (t # ts) = (case tk_phase t of
     Proxying (Some sh) \<Rightarrow> [(gatewayRequestSourceIp (tk_request t), sh)] | _ \<Rightarrow> []) @ streams ts"
  by (simp_all add: streams_def)

definition slots_inv :: "gw_config \<Rightarrow> json_slots \<Rightarrow> stream_slots \<Rightarrow> task list \<Rightarrow> bool" where
  "slots_inv cfg js ss ts \<longleftrightarrow>
     jp_inv js \<and> jp_open js = set (map tk_json ts) \<and> distinct (map tk_json ts) \<and> jp_active js \<le> json_cap cfg \<and>
     ss_inv ss \<and> (\<forall>ip. ss_open ss ip = {sh. (ip, sh) \<in> set (streams ts)}) \<and> distinct (streams ts) \<and>
     (\<forall>ip. getActiveRequestCountForSourceIp ss ip \<le> stream_cap cfg)"

lemma slots_inv_cong:
  assumes "set (map tk_json ts) = set (map tk_json ts')" "distinct (map tk_json ts) \<longleftrightarrow> distinct (map tk_json ts')"
    and "set (streams ts) = set (streams ts')" "distinct (streams ts) \<longleftrightarrow> distinct (streams ts')"
  shows "slots_inv cfg js ss ts \<longleftrightarrow> slots_inv cfg js ss ts'"
  using assms by (simp only: slots_inv_def)

lemma slots_inv_middle: "slots_inv cfg js ss (xs @ t # ys) \<longleftrightarrow> slots_inv cfg js ss (t # xs @ ys)"
proof (rule slots_inv_cong)
  have "streams (xs @ t # ys) = streams xs @ streams [t] @ streams ys"
    "streams (t # xs @ ys) = streams [t] @ streams xs @ streams ys" by simp_all
  then show "set (streams (xs @ t # ys)) = set (streams (t # xs @ ys))"
    "distinct (streams (xs @ t # ys)) \<longleftrightarrow> distinct (streams (t # xs @ ys))"
    by (auto simp del: streams_simps)
qed auto

lemma slots_inv_start:
  assumes "slots_inv cfg js ss ts" "jp_tryAcquire (json_cap cfg) js = (Some h, js')"
    and "tk_json t = h" "tk_phase t = Reading"
  shows "slots_inv cfg js' ss (t # ts)"
proof -
  from assms(1) have inv: "jp_inv js" by (simp add: slots_inv_def)
  note got = jp.acq_some [OF inv assms(2)]
  have "jp_active js' \<le> json_cap cfg"
    using jp.acq_active_bound [OF inv, of "json_cap cfg"] assms(1,2) by (simp add: slots_inv_def)
  with got assms show ?thesis by (auto simp: slots_inv_def)
qed

lemma slots_inv_release:
  assumes "slots_inv cfg js ss (t # ts)" "tk_phase t = Reading \<or> tk_phase t = Proxying None"
  shows "slots_inv cfg (jp_release (tk_json t) js) ss ts"
proof -
  from assms(1) have inv: "jp_inv js" by (simp add: slots_inv_def)
  have "jp_active (jp_release (tk_json t) js) \<le> json_cap cfg"
    using jp.rel_active_le [OF inv, of "tk_json t"] assms(1) by (simp add: slots_inv_def)
  with assms jp.rel_inv [OF inv] jp.rel_open [OF inv] show ?thesis by (auto simp: slots_inv_def)
qed

lemma slots_inv_stream:
  assumes "slots_inv cfg js ss (t # ts)" "tk_phase t = Reading"
    and "ss_tryAcquire (gatewayRequestSourceIp (tk_request t)) (stream_cap cfg) ss = (Some sh, ss')"
  shows "slots_inv cfg js ss' (t\<lparr>tk_phase := Proxying (Some sh)\<rparr> # ts)"
proof -
  let ?ip = "gatewayRequestSourceIp (tk_request t)"
  from assms(1) have inv: "ss_inv ss" by (simp add: slots_inv_def)
  note got = ss.acq_some [OF inv assms(3)]
  have "getActiveRequestCountForSourceIp ss' ip \<le> stream_cap cfg" for ip
    using ss.acq_active_bound [OF inv, of ip "stream_cap cfg" ?ip] assms(1,3) by (simp add: slots_inv_def)
  moreover have "(?ip, sh) \<notin> set (streams ts)"
    using got(2) [of ?ip] assms(1,2) by (auto simp: slots_inv_def)
  ultimately show ?thesis using got assms(1,2) by (auto simp: slots_inv_def)
qed

lemma slots_inv_no_stream:
  "slots_inv cfg js ss (t # ts) \<Longrightarrow> tk_phase t = Reading \<Longrightarrow> slots_inv cfg js ss (t\<lparr>tk_phase := Proxying None\<rparr> # ts)"
  by (simp add: slots_inv_def)

lemma slots_inv_end_stream:
  assumes "slots_inv cfg js ss (t # ts)" "tk_phase t = Proxying (Some sh)"
  shows "slots_inv cfg js (ss_release sh ss) (t\<lparr>tk_phase := Proxying None\<rparr> # ts)"
proof -
  let ?ip = "gatewayRequestSourceIp (tk_request t)"
  from assms(1) have inv: "ss_inv ss" by (simp add: slots_inv_def)
  have opn: "ss_open ss ip = {h. (ip, h) \<in> set (streams (t # ts))}" for ip
    using assms(1) by (simp add: slots_inv_def)
  have handle: "ss_handles ss ! sh = (?ip, False)"
    using opn [of ?ip] assms(2) by (auto simp: ss_open_def)
  have "(ip, sh) \<notin> set (streams ts)" for ip
  proof
    assume "(ip, sh) \<in> set (streams ts)"
    then have "sh \<in> ss_open ss ip" by (simp add: opn)
    with handle have "ip = ?ip" by (simp add: ss_open_def)
    with \<open>(ip, sh) \<in> set (streams ts)\<close> assms show False by (simp add: slots_inv_def)
  qed
  then have "ss_open (ss_release sh ss) ip = {h. (ip, h) \<in> set (streams ts)}" for ip
    using assms(2) by (auto simp: ss.rel_open [OF inv] opn)
  moreover have "getActiveRequestCountForSourceIp (ss_release sh ss) ip \<le> stream_cap cfg" for ip
    using ss.rel_active_le [OF inv, of sh ip] assms(1) unfolding slots_inv_def by (meson order_trans)
  ultimately show ?thesis
    using assms ss.rel_inv [OF inv] by (simp add: slots_inv_def)
qed

definition sys_slots_inv :: "gw_config \<Rightarrow> 'd gw_system \<Rightarrow> bool" where
  "sys_slots_inv cfg y \<longleftrightarrow> slots_inv cfg (gs_json (sy_state y)) (gs_stream (sy_state y)) (sy_tasks y)"

lemma handler_slots:
  assumes "requestHandler ev cfg requestId request nowMs s = (effs, s', next)"
  shows "gs_json s' = gs_json s" "gs_stream s' = gs_stream s"
proof -
  have "gs_json s' = gs_json s \<and> gs_stream s' = gs_stream s" if p: "passed_gates ev cfg request nowMs s effs s' next url" for url
  proof -
    obtain s2 pre effs' where "gs_json s2 = gs_json s" "gs_stream s2 = gs_stream s"
      "serve_route ev request (request_method request) url (classifyRuntimeRoute (request_method request) (u_pathname url))
         (inbound_state ev cfg) nowMs s2 = (effs', s', next)"
      by (rule passed_served [OF p]) blast
    then show ?thesis by (auto simp: serve_route_def Let_def split: runtime_route.splits prod.splits)
  qed
  then show "gs_json s' = gs_json s" "gs_stream s' = gs_stream s"
    using handler_cases [OF assms] by (auto simp: refused_at_gate_def)
qed

lemma dispatch_error_quiet [simp]: "\<not> is_answer (dispatch_error reason status)"
  by (simp add: dispatch_error_def)

lemma capacity_observation_quiet [simp]: "\<not> is_answer (capacity_observation a b c d e f g h i)"
  by (simp add: capacity_observation_def)

lemma proxy_call_answer [simp]: "is_answer (proxy_call a b c)"
  by (simp add: proxy_call_def)

lemma framing_answers: "framing_rejection cfg request = Some effs \<Longrightarrow> answers effs = 1"
  by (auto simp: framing_rejection_def split: if_splits option.splits header_value.splits)

lemma dispatch_start_cases:
  assumes "dispatch_start cfg request mthd pathname slots = (effs, slots', r)"
  shows "answers effs = (if r = None then 1 else 0)" "r = None \<Longrightarrow> slots' = slots"
    "r = Some h \<Longrightarrow> jp_tryAcquire (json_cap cfg) slots = (Some h, slots')"
  using assms framing_answers [of cfg request]
  by (auto simp: dispatch_start_def jp_tryAcquire_def split: option.splits if_splits prod.splits)

lemma data_plane_cases:
  assumes "handleDataPlaneRequest ev cfg rid request mthd pathname captureId readToken nowMs s = (effs, s', r)"
  shows "answers effs = (if r = None then 1 else 0)" "gs_stream s' = gs_stream s"
    "r = None \<Longrightarrow> gs_json s' = gs_json s"
    "r = Some h \<Longrightarrow> jp_tryAcquire (json_cap cfg) (gs_json s) = (Some h, gs_json s')"
proof -
  obtain es js h' where d: "dispatch_start cfg request mthd pathname (gs_json s) = (es, js, h')"
    by (metis prod_cases3)
  note got = dispatch_start_cases [OF d]
  show "answers effs = (if r = None then 1 else 0)" "gs_stream s' = gs_stream s"
    "r = None \<Longrightarrow> gs_json s' = gs_json s"
    "r = Some h \<Longrightarrow> jp_tryAcquire (json_cap cfg) (gs_json s) = (Some h, gs_json s')"
    using assms d got
    by (auto simp: handleDataPlaneRequest_def Let_def split: if_splits option.splits prod.splits)
qed

lemma body_error_answers [simp]: "answers (body_error_effects cfg e) = 1"
  by (cases e) (simp_all add: body_error_effects_def)

lemma parse_error_answers [simp]: "answers (parse_error_effects cfg e) = 1"
  by (simp add: parse_error_effects_def)

lemma ss_acquire_none: "ss_tryAcquire ip cap ss = (None, ss') \<Longrightarrow> ss' = ss"
  by (simp add: ss_tryAcquire_def Let_def split: if_splits)

lemma dispatch_body_none:
  assumes "dispatch_body ev cfg rid request mthd pathname a h result s = (effs, s', None)"
  shows "answers effs = 1" "gs_json s' = jp_release h (gs_json s)" "gs_stream s' = gs_stream s"
  using assms ss_acquire_none
  by (fastforce simp: dispatch_body_def release_json_def Let_def split: sum.splits if_splits prod.splits option.splits)+

lemma dispatch_body_some:
  assumes "dispatch_body ev cfg rid request mthd pathname a h result s = (effs, s', Some stream)"
  shows "answers effs = 1" "gs_json s' = gs_json s" "stream = None \<Longrightarrow> gs_stream s' = gs_stream s"
    "stream = Some sh \<Longrightarrow> ss_tryAcquire (gatewayRequestSourceIp request) (stream_cap cfg) (gs_stream s) = (Some sh, gs_stream s')"
  using assms
  by (auto simp: dispatch_body_def Let_def split: sum.splits if_splits prod.splits option.splits)

lemma slots_inv_done:
  assumes "slots_inv cfg (gs_json s) (gs_stream s) (t # ts)" "tk_phase t = Proxying stream"
  shows "slots_inv cfg (gs_json (dispatch_done (tk_json t) stream s)) (gs_stream (dispatch_done (tk_json t) stream s)) ts"
proof (cases stream)
  case None
  with assms slots_inv_release [of cfg _ _ t ts] show ?thesis by (simp add: dispatch_done_def release_json_def)
next
  case (Some sh)
  from slots_inv_release [OF slots_inv_end_stream [OF assms(1)]] assms(2) Some show ?thesis
    by (simp add: dispatch_done_def release_json_def)
qed

lemma step_slots:
  assumes "gw_step ev cfg y y'" "sys_slots_inv cfg y"
  shows "sys_slots_inv cfg y'"
  using assms
proof (induction rule: gw_step.induct)
  case (answered requestId request nowMs y effs s')
  then show ?case using handler_slots [OF answered.hyps(1)] by (simp add: sys_slots_inv_def)
next
  case (turned_away requestId request nowMs y effs s1 a url captureId readToken effs' s')
  then show ?case
    using handler_slots [OF turned_away.hyps(1)] data_plane_cases(2,3) [OF turned_away.hyps(3)]
    by (simp add: sys_slots_inv_def)
next
  case (accepted requestId request nowMs y effs s1 a url captureId readToken effs' s' h)
  let ?t = "\<lparr>tk_rid = sy_next y, tk_request = request, tk_pathname = u_pathname url,
         tk_isAnthropicPath = a, tk_json = h, tk_phase = Reading\<rparr>"
  have "slots_inv cfg (gs_json s') (gs_stream s') (?t # sy_tasks y)"
    using accepted.prems slots_inv_start [of cfg "gs_json (sy_state y)" _ "sy_tasks y" h "gs_json s'" ?t]
      handler_slots [OF accepted.hyps(1)] data_plane_cases(2,4) [OF accepted.hyps(3)]
    by (simp add: sys_slots_inv_def)
  then show ?case using slots_inv_middle [of cfg _ _ "sy_tasks y" ?t "[]"] by (simp add: sys_slots_inv_def)
next
  case (body_refused y xs t ys events result effs s')
  then have "slots_inv cfg (gs_json (sy_state y)) (gs_stream (sy_state y)) (t # xs @ ys)"
    by (simp add: sys_slots_inv_def slots_inv_middle)
  with slots_inv_release [OF this] body_refused.hyps(2) dispatch_body_none(2,3) [OF body_refused.hyps(4)]
  show ?case by (simp add: sys_slots_inv_def)
next
  case (body_accepted y xs t ys events result effs s' stream)
  then have inv: "slots_inv cfg (gs_json (sy_state y)) (gs_stream (sy_state y)) (t # xs @ ys)"
    by (simp add: sys_slots_inv_def slots_inv_middle)
  note got = dispatch_body_some(2-4) [OF body_accepted.hyps(4)]
  have "slots_inv cfg (gs_json s') (gs_stream s') (t\<lparr>tk_phase := Proxying stream\<rparr> # xs @ ys)"
    using got slots_inv_stream [OF inv body_accepted.hyps(2)] slots_inv_no_stream [OF inv body_accepted.hyps(2)]
    by (cases stream) simp_all
  then show ?case by (simp add: sys_slots_inv_def slots_inv_middle)
next
  case (proxy_done y xs t ys stream)
  then have "slots_inv cfg (gs_json (sy_state y)) (gs_stream (sy_state y)) (t # xs @ ys)"
    by (simp add: sys_slots_inv_def slots_inv_middle)
  from slots_inv_done [OF this proxy_done.hyps(2)] show ?case by (simp add: sys_slots_inv_def)
qed (simp_all add: sys_slots_inv_def)

lemma reachable_slots: "gw_reachable ev cfg y \<Longrightarrow> sys_slots_inv cfg y"
proof (induction rule: gw_reachable.induct)
  case initial
  show ?case
    using jp_init_inv ss_init_inv
    by (simp add: sys_slots_inv_def slots_inv_def gw_init_def)
      (simp add: jp_init_def ss_init_def jp_open_def ss_open_def getActiveRequestCountForSourceIp_def)
qed (simp add: step_slots)

section \<open>Every request is answered once\<close>

definition answers_of :: "nat \<Rightarrow> (nat \<times> effect) list \<Rightarrow> nat" where
  "answers_of rid tr = answers (map snd (filter (\<lambda>e. fst e = rid) tr))"

lemma answers_of_traced [simp]:
  "answers_of rid (traced rid' effs y) = answers_of rid (sy_trace y) + (if rid = rid' then answers effs else 0)"
proof -
  have "map snd (filter (\<lambda>e. fst e = rid) (map (Pair rid') effs)) = (if rid = rid' then effs else [])"
    by (induction effs) auto
  then show ?thesis by (simp add: answers_of_def traced_def)
qed

definition trace_inv :: "'d gw_system \<Rightarrow> bool" where
  "trace_inv y \<longleftrightarrow> distinct (map tk_rid (sy_tasks y)) \<and> (\<forall>t \<in> set (sy_tasks y). tk_rid t < sy_next y) \<and>
     (\<forall>rid. answers_of rid (sy_trace y) =
        (if rid < sy_next y \<and> (\<forall>t \<in> set (sy_tasks y). \<not> (tk_rid t = rid \<and> tk_phase t = Reading)) then 1 else 0))"

lemma trace_inv_one:
  assumes "trace_inv y" "sy_tasks y = xs @ t # ys" "tk_phase t = Reading"
  shows "answers_of (tk_rid t) (sy_trace y) = 0"
    and "rid \<noteq> tk_rid t \<Longrightarrow> answers_of rid (sy_trace y) =
      (if rid < sy_next y \<and> (\<forall>u \<in> set (xs @ ys). \<not> (tk_rid u = rid \<and> tk_phase u = Reading)) then 1 else 0)"
    and "\<forall>u \<in> set (xs @ ys). tk_rid u \<noteq> tk_rid t"
proof -
  from assms(1,2) have "tk_rid t \<notin> tk_rid ` set (xs @ ys)" by (auto simp: trace_inv_def)
  then show "\<forall>u \<in> set (xs @ ys). tk_rid u \<noteq> tk_rid t" by (metis image_eqI)
qed (use assms in \<open>auto simp: trace_inv_def\<close>)

lemma step_trace:
  assumes "gw_step ev cfg y y'" "trace_inv y"
  shows "trace_inv y'"
  using assms
proof (induction rule: gw_step.induct)
  case (answered requestId request nowMs y effs s')
  then show ?case using handler_answers [OF answered.hyps(1)] by (auto simp: trace_inv_def less_Suc_eq)
next
  case (turned_away requestId request nowMs y effs s1 a url captureId readToken effs' s')
  then show ?case
    using handler_answers [OF turned_away.hyps(1)] data_plane_cases(1) [OF turned_away.hyps(3)]
    by (auto simp: trace_inv_def less_Suc_eq)
next
  case (accepted requestId request nowMs y effs s1 a url captureId readToken effs' s' h)
  then show ?case
    using handler_answers [OF accepted.hyps(1)] data_plane_cases(1) [OF accepted.hyps(3)]
    by (auto simp: trace_inv_def less_Suc_eq)
next
  case (body_refused y xs t ys events result effs s')
  note one = trace_inv_one [OF body_refused.prems body_refused.hyps(1,2)]
  have "answers effs = 1" using dispatch_body_none(1) [OF body_refused.hyps(4)] .
  with one body_refused.prems body_refused.hyps(1) show ?case
    by (auto simp: trace_inv_def)
next
  case (body_accepted y xs t ys events result effs s' stream)
  note one = trace_inv_one [OF body_accepted.prems body_accepted.hyps(1,2)]
  have "answers effs = 1" using dispatch_body_some(1) [OF body_accepted.hyps(4)] .
  with one body_accepted.prems body_accepted.hyps(1) show ?case
    by (auto simp: trace_inv_def)
next
  case (proxy_done y xs t ys stream)
  then show ?case by (auto simp: trace_inv_def)
qed (simp_all add: trace_inv_def)

lemma reachable_trace: "gw_reachable ev cfg y \<Longrightarrow> trace_inv y"
proof (induction rule: gw_reachable.induct)
  case initial
  show ?case by (simp add: trace_inv_def gw_init_def answers_of_def)
qed (simp add: step_trace)

section \<open>The gateway can always become idle\<close>

lemma read_times_out: "\<exists>e. read_body ev cfg request [(0, DeadlinePassed)] = Some (Inl e)"
  by (auto simp: read_body_def readRequestBodyWithLimit_def Let_def split: option.splits header_value.splits)

lemma task_ends:
  assumes "sy_tasks y = t # ts"
  shows "\<exists>y'. gw_step ev cfg y y' \<and> sy_tasks y' = ts"
proof (cases "tk_phase t")
  case Reading
  obtain e where e: "read_body ev cfg (tk_request t) [(0, DeadlinePassed)] = Some (Inl e)" using read_times_out by blast
  obtain effs s' where d: "dispatch_body ev cfg (tk_rid t) (tk_request t) (request_method (tk_request t)) (tk_pathname t)
      (tk_isAnthropicPath t) (tk_json t) (Inl e) (sy_state y) = (effs, s', None)"
    by (simp add: dispatch_body_def)
  from body_refused [of y "[]" t ts, OF _ Reading e d] assms show ?thesis by fastforce
next
  case (Proxying stream)
  from proxy_done [of y "[]" t ts, OF _ Proxying] assms show ?thesis by fastforce
qed

lemma drains: "\<exists>y'. (gw_step ev cfg)\<^sup>*\<^sup>* y y' \<and> sy_tasks y' = []"
proof (induction "sy_tasks y" arbitrary: y)
  case Nil
  then show ?case by auto
next
  case (Cons t ts)
  then obtain y1 where "gw_step ev cfg y y1" "sy_tasks y1 = ts" using task_ends [of y t ts ev cfg] by metis
  with Cons.hyps(1) [of y1] show ?case by (meson converse_rtranclp_into_rtranclp)
qed

lemma reachable_steps: "(gw_step ev cfg)\<^sup>*\<^sup>* y y' \<Longrightarrow> gw_reachable ev cfg y \<Longrightarrow> gw_reachable ev cfg y'"
  by (induction rule: rtranclp_induct) (auto intro: gw_reachable.step)

lemma ss_active_empty: "ss_inv ss \<Longrightarrow> (\<And>ip. ss_open ss ip = {}) \<Longrightarrow> ss_active ss = []"
proof (cases "ss_active ss")
  case (Cons e es)
  assume "ss_inv ss" "\<And>ip. ss_open ss ip = {}"
  then have "jm_get (ss_active ss) (fst e) = None" by (simp add: ss_inv_def)
  with Cons show ?thesis by (cases e) (simp add: jm_get_def)
qed simp

lemma slots_active:
  assumes "slots_inv cfg js ss ts"
  shows "jp_active js = length ts" "length ts \<le> json_cap cfg"
  using assms distinct_card [of "map tk_json ts"] by (auto simp: slots_inv_def jp_inv_def)

lemma streams_of:
  "length (filter (\<lambda>p. fst p = ip) (streams ts)) =
   length (filter (\<lambda>t. \<exists>sh. tk_phase t = Proxying (Some sh) \<and> gatewayRequestSourceIp (tk_request t) = ip) ts)"
  by (induction ts) (auto split: phase.split option.split)

lemma slots_streams:
  assumes "slots_inv cfg js ss ts"
  shows "getActiveRequestCountForSourceIp ss ip = length (filter (\<lambda>p. fst p = ip) (streams ts))"
proof -
  from assms have d: "distinct (filter (\<lambda>p. fst p = ip) (streams ts))"
    and ss: "getActiveRequestCountForSourceIp ss ip = card {sh. (ip, sh) \<in> set (streams ts)}"
    by (simp_all add: slots_inv_def ss_count_open)
  have "card {sh. (ip, sh) \<in> set (streams ts)} = card (Pair ip ` {sh. (ip, sh) \<in> set (streams ts)})"
    by (simp add: card_image inj_on_def)
  also have "Pair ip ` {sh. (ip, sh) \<in> set (streams ts)} = set (filter (\<lambda>p. fst p = ip) (streams ts))" by auto
  finally show ?thesis using ss distinct_card [OF d] by simp
qed

lemma parse_body_checks:
  assumes "parse_body ev cfg a rawBody = Inr body"
  shows "ev_parseJson ev rawBody = Some body" "byte_length rawBody \<le> cf_maxPayloadSize cfg" "isRecord (Some body)"
    "node_count body \<le> 16000" "json_depth body \<le> ev_maxRequestJsonDepth ev"
    "list_all (\<lambda>k. \<not> isReservedObjectKey k) (json_keys body)"
proof -
  from assms obtain c where c: "parseJsonWithinBounds (ev_parseJson ev)
      (hard_json_bounds\<lparr>maxSerializedBytes := cf_maxPayloadSize cfg\<rparr>) rawBody = Inr c" "isRecord (Some c)"
      "validateParsedRequestBodyShape (ev_nts ev) (ev_maxRequestJsonDepth ev) c (cf_maxPayloadSize cfg) = Inr ()"
      "validateGatewayProxyRequestBody c a = Inr body"
    by (auto simp: parse_body_def res_simps split: sum.splits if_splits)
  have [simp]: "c = body" using validated_is_body [OF c(4)] by simp
  show "isRecord (Some body)" using c(2) by simp
  show "ev_parseJson ev rawBody = Some body" "byte_length rawBody \<le> cf_maxPayloadSize cfg"
    using c(1) by (auto simp: parseJsonWithinBounds_def res_simps split: if_splits option.splits sum.splits)
  have "assertJsonValueWithinBounds (request_shape_bounds (ev_maxRequestJsonDepth ev) (cf_maxPayloadSize cfg)) body = Inr ()"
    using c(3) by (auto simp: validateParsedRequestBodyShape_def safeJsonStringifyWithinBounds_def res_simps Let_def
        split: sum.splits if_splits)
  then show "node_count body \<le> 16000" "json_depth body \<le> ev_maxRequestJsonDepth ev"
    by (simp_all add: json_within_bounds_iff request_shape_bounds_def hard_json_bounds_def)
  have "assertNoReservedObjectKeysDeep body ''gateway request body'' = Inr ()"
    using c(4) by (auto simp: validateGatewayProxyRequestBody_def split: sum.splits)
  then show "list_all (\<lambda>k. \<not> isReservedObjectKey k) (json_keys body)"
    using visit_names_reserved_key(1) [of body "''gateway request body''" "''$''"]
    by (simp add: assertNoReservedObjectKeysDeep_def names_reserved_key_def list_all_iff split: sum.splits)
qed

section \<open>Properties\<close>

text \<open>C4 (in_flight_accounting). In every reachable state of the gateway, however requests arrive, fail, time
  out, stream and end, the JSON slot counter is the number of requests between the admission of their
  body and their end, within its cap, and the stream counter of every source address is the number of
  that address's requests now streaming, within its cap: every path through the handler, each error
  included, gives its slots back once.\<close>

theorem in_flight_accounting:
  assumes "gw_reachable ev cfg y"
  shows "jp_active (gs_json (sy_state y)) = length (sy_tasks y) \<and> length (sy_tasks y) \<le> json_cap cfg \<and>
    getActiveRequestCountForSourceIp (gs_stream (sy_state y)) ip =
      length (filter (\<lambda>t. \<exists>sh. tk_phase t = Proxying (Some sh) \<and> gatewayRequestSourceIp (tk_request t) = ip) (sy_tasks y)) \<and>
    getActiveRequestCountForSourceIp (gs_stream (sy_state y)) ip \<le> stream_cap cfg"
proof -
  have inv: "slots_inv cfg (gs_json (sy_state y)) (gs_stream (sy_state y)) (sy_tasks y)"
    using reachable_slots [OF assms] by (simp add: sys_slots_inv_def)
  moreover have "getActiveRequestCountForSourceIp (gs_stream (sy_state y)) ip \<le> stream_cap cfg"
    using inv by (simp add: slots_inv_def)
  ultimately show ?thesis
    using slots_active [OF inv] slots_streams [OF inv, of ip] by (simp add: streams_of)
qed

text \<open>Property (proxied_body_checked). The proxy is called only with the body the client sent, whose text is within
  \<open>maxPayloadSize\<close>, parsed to an object within the node and depth limits, with no reserved key at any
  depth; and then the request holds a stream slot exactly when it asks for a stream.\<close>

theorem proxied_body_checked:
  assumes "dispatch_body ev cfg rid request mthd pathname isAnthropicPath h result s = (effs, s', Some stream)"
  shows "\<exists>rawBody body. result = Inr rawBody \<and> effs = [proxy_call isAnthropicPath body rawBody] \<and>
    ev_parseJson ev rawBody = Some body \<and> byte_length rawBody \<le> cf_maxPayloadSize cfg \<and>
    isRecord (Some body) \<and> node_count body \<le> 16000 \<and> json_depth body \<le> ev_maxRequestJsonDepth ev \<and>
    list_all (\<lambda>k. \<not> isReservedObjectKey k) (json_keys body) \<and>
    (stream \<noteq> None \<longleftrightarrow> jprop body ''stream'' = Some (JBool True))"
proof -
  from assms obtain rawBody body where b: "result = Inr rawBody" "parse_body ev cfg isAnthropicPath rawBody = Inr body"
    and e: "effs = [proxy_call isAnthropicPath body rawBody]"
    and st: "stream \<noteq> None \<longleftrightarrow> jprop body ''stream'' = Some (JBool True)"
    by (auto simp: dispatch_body_def Let_def split: sum.splits if_splits prod.splits option.splits)
  note p = parse_body_checks [OF b(2)]
  with b(1) e st show ?thesis by blast
qed

text \<open>Property (upstream_calls_capped). The JSON slot of a request is held until its upstream call has ended, so
  \<open>maxConcurrentJsonParses\<close> (4 unless configured) bounds the upstream calls in progress over all
  callers, not only the bodies being parsed: a state with that many calls in progress refuses every
  further body.\<close>

theorem upstream_calls_capped:
  assumes "gw_reachable ev cfg y" and "length (filter (\<lambda>t. tk_phase t \<noteq> Reading) (sy_tasks y)) = n"
    and "framing_rejection cfg request = None"
  shows "n \<le> json_cap cfg \<and> (n < json_cap cfg \<or> (\<exists>w o'. dispatch_start cfg request mthd pathname (gs_json (sy_state y)) =
      ([w, o', SendJsonError 503 ''Server is busy parsing other request bodies. Retry later.''
         ''request_parse_capacity_exceeded''], gs_json (sy_state y), None)))"
proof -
  have inv: "slots_inv cfg (gs_json (sy_state y)) (gs_stream (sy_state y)) (sy_tasks y)"
    using reachable_slots [OF assms(1)] by (simp add: sys_slots_inv_def)
  note active = slots_active [OF inv]
  have "n \<le> length (sy_tasks y)" using assms(2) by auto
  with active assms(3) show ?thesis by (auto simp: dispatch_start_def jp_tryAcquire_def)
qed


text \<open>Property (gateway_drains). From every reachable state the requests in flight can all end (a body that does not
  come times out, an upstream call returns or throws), and then no slot is held and no address is
  tracked: no sequence of requests leaks a slot.\<close>

theorem gateway_drains:
  assumes "gw_reachable ev cfg y"
  shows "\<exists>y'. (gw_step ev cfg)\<^sup>*\<^sup>* y y' \<and> sy_tasks y' = [] \<and>
    jp_active (gs_json (sy_state y')) = 0 \<and> ss_active (gs_stream (sy_state y')) = []"
proof -
  obtain y' where y': "(gw_step ev cfg)\<^sup>*\<^sup>* y y'" "sy_tasks y' = []" using drains by blast
  from reachable_slots [OF reachable_steps [OF y'(1) assms]] y'(2)
  have "slots_inv cfg (gs_json (sy_state y')) (gs_stream (sy_state y')) []" by (simp add: sys_slots_inv_def)
  then have "jp_active (gs_json (sy_state y')) = 0" "ss_active (gs_stream (sy_state y')) = []"
    by (auto simp: slots_inv_def jp_inv_def intro: ss_active_empty)
  with y' show ?thesis by blast
qed

section \<open>A request in flight\<close>

definition example_post :: http_request where
  "example_post = example_http ''POST'' ''/v1/chat/completions''"

lemma example_length: "parseCanonicalNonNegativeInteger (Some ''2'') = Some 2"
proof -
  have "nat_of_digits ''2'' = 2" "canonical_non_negative ''2''"
    by (simp_all add: nat_of_digits_def digit_val_def code_unit_def canonical_non_negative_def canonical_positive_def is_digit_def)
  then show ?thesis
    by (simp add: parseCanonicalNonNegativeInteger_def parseCanonicalInteger_def round_double_small)
qed

lemma example_post_framing: "cf_maxPayloadSize cfg = 100 \<Longrightarrow> framing_rejection cfg example_post = None"
  by (simp add: framing_rejection_def has_transfer_encoding_def example_post_def example_http_def header_def
      jm_get_def requestHasJsonContentType_def example_length js_string_defs split_char.simps)

lemma example_caps [simp]: "cf_maxPayloadSize example_cfg = 100" "json_cap example_cfg = 4"
  by (simp_all add: example_cfg_def json_cap_def)

lemma example_admitted:
  "\<exists>effs s1. requestHandler example_ev example_cfg ''r'' example_post 5 (sy_state gw_init) = (effs, s1, Some False)"
proof -
  obtain a b rl where "rl_check example_rl [] (gatewayRateLimitKey example_post data_plane_class) 5 = (Allowed a b, rl)"
    using example_limit [of "gatewayRateLimitKey example_post data_plane_class" 5]
    by (cases "rl_check example_rl [] (gatewayRateLimitKey example_post data_plane_class) 5")
      (metis fst_conv is_allowed.elims(2))
  then show ?thesis
    by (simp add: requestHandler_def Let_def example_post_def example_inbound example_gate is_token_def has_auth_def
        example_has_auth classifyRuntimeRoute_def caller_limit_def requiresCallerRateLimit_def gw_init_def
        serve_route_def example_cfg_def [THEN arg_cong [where f = cf_rateLimit]])
qed

lemma example_in_flight:
  "\<exists>y. gw_reachable example_ev example_cfg y \<and> sy_next y = 1 \<and>
     (\<exists>t. sy_tasks y = [t] \<and> tk_rid t = 0 \<and> tk_phase t = Reading)"
proof -
  obtain effs s1 where h: "requestHandler example_ev example_cfg ''r'' example_post 5 (sy_state gw_init) = (effs, s1, Some False)"
    using example_admitted by blast
  then have "gs_json s1 = jp_init" using handler_slots(1) by (fastforce simp: gw_init_def)
  then have "dispatch_start example_cfg example_post ''POST'' ''/v1/chat/completions'' (gs_json s1) =
      ([], snd (jp_tryAcquire (json_cap example_cfg) jp_init), Some 0)"
    by (simp add: dispatch_start_def example_post_framing jp_tryAcquire_def jp_init_def)
  moreover have "readSingleHeaderValue (header example_post n) = None" if "n \<in> {INVOKE_INSPECTION_REQUEST_HEADER,
      INVOKE_INSPECTION_RESPONSE_HEADER, INVOKE_INSPECTION_TOKEN_HEADER}" for n
    using that by (auto simp: readSingleHeaderValue_def header_def example_post_def example_http_def jm_get_def
        INVOKE_INSPECTION_REQUEST_HEADER_def INVOKE_INSPECTION_RESPONSE_HEADER_def INVOKE_INSPECTION_TOKEN_HEADER_def)
  ultimately have "\<exists>s'. handleDataPlaneRequest example_ev example_cfg 0 example_post ''POST'' ''/v1/chat/completions'' [] [] 5 s1 =
      ([], s', Some 0)"
    by (simp add: handleDataPlaneRequest_def)
  then obtain s' where d: "handleDataPlaneRequest example_ev example_cfg (sy_next (gw_init :: string gw_system)) example_post
      (request_method example_post) (u_pathname (example_parsed ''/v1/chat/completions'')) [] [] 5 s1 = ([], s', Some 0)"
    by (auto simp: gw_init_def example_post_def)
  have u: "ev_parseTarget example_ev (request_target example_post) = Some (example_parsed ''/v1/chat/completions'')"
    by (simp add: example_post_def)
  note r = gw_reachable.step [OF gw_reachable.initial gw_step.accepted [OF h u d]]
  show ?thesis by (rule exI, rule conjI, rule r) (auto simp: gw_init_def)
qed

theorem in_flight_accounting_witness:
  "\<exists>y. gw_reachable example_ev example_cfg y \<and> jp_active (gs_json (sy_state y)) = 1 \<and>
     getActiveRequestCountForSourceIp (gs_stream (sy_state y)) ''127.0.0.1'' = 0"
proof -
  obtain y t where y: "gw_reachable example_ev example_cfg y" "sy_tasks y = [t]" "tk_phase t = Reading"
    using example_in_flight by blast
  with in_flight_accounting [OF y(1), of "''127.0.0.1''"] show ?thesis by auto
qed

lemma empty_object_fits: "1 \<le> maxNodeCount b \<Longrightarrow> 1 \<le> maxDepth b \<Longrightarrow> assertJsonValueWithinBounds b (JObj []) = Inr ()"
  by (simp add: json_within_bounds_iff node_count.simps json_depth.simps max_list_def)

lemma example_body:
  "parse_body (example_ev\<lparr>ev_parseJson := \<lambda>_. Some (JObj [])\<rparr>) example_cfg False ''{}'' = Inr (JObj [])"
  by (simp add: parse_body_def parseJsonWithinBounds_def assertRawJsonNestingWithinBounds_def raw_step_def
      byte_length_def code_unit_def hard_json_bounds_def empty_object_fits
      validateParsedRequestBodyShape_def safeJsonStringifyWithinBounds_def request_shape_bounds_def
      validateGatewayProxyRequestBody_def assertNoReservedObjectKeysDeep_def validateOpenAiChatRequestBody_def
      assertOptionalString_def assertOptionalArray_def assertOptionalBoolean_def assertOptionalNumber_def
      assertOptionalObjectOrNull_def res_simps Let_def example_ev_def)

theorem proxied_body_checked_witness:
  "\<exists>rawBody body. (Inr ''{}'' :: body_error + string) = Inr rawBody \<and> isRecord (Some body) \<and>
     ev_parseJson (example_ev\<lparr>ev_parseJson := \<lambda>_. Some (JObj [])\<rparr>) rawBody = Some body"
proof -
  have "\<exists>s'. dispatch_body (example_ev\<lparr>ev_parseJson := \<lambda>_. Some (JObj [])\<rparr>) example_cfg 0 example_post ''POST''
      ''/v1/chat/completions'' False 0 (Inr ''{}'') example_state = ([proxy_call False (JObj []) ''{}''], s', Some None)"
    by (simp add: dispatch_body_def example_body)
  then obtain s' where d: "dispatch_body (example_ev\<lparr>ev_parseJson := \<lambda>_. Some (JObj [])\<rparr>) example_cfg 0 example_post ''POST''
      ''/v1/chat/completions'' False 0 (Inr ''{}'') example_state = ([proxy_call False (JObj []) ''{}''], s', Some None)" ..
  from proxied_body_checked [OF d] show ?thesis by blast
qed

theorem upstream_calls_capped_witness:
  "\<exists>w o'. dispatch_start (example_cfg\<lparr>cf_maxConcurrentJsonParses := Some 0\<rparr>) example_post ''POST'' ''/v1/chat/completions''
      (gs_json (sy_state (gw_init :: string gw_system))) =
    ([w, o', SendJsonError 503 ''Server is busy parsing other request bodies. Retry later.''
       ''request_parse_capacity_exceeded''], gs_json (sy_state (gw_init :: string gw_system)), None)"
proof -
  let ?cfg = "example_cfg\<lparr>cf_maxConcurrentJsonParses := Some 0\<rparr>"
  have f: "framing_rejection ?cfg example_post = None"
    by (simp add: example_post_framing)
  have n: "length (filter (\<lambda>t. tk_phase t \<noteq> Reading) (sy_tasks (gw_init :: string gw_system))) = 0" by (simp add: gw_init_def)
  have "json_cap ?cfg = 0" by (simp add: json_cap_def)
  with upstream_calls_capped [OF gw_reachable.initial n f, where mthd = "''POST''" and pathname = "''/v1/chat/completions''"]
  show ?thesis by simp
qed


theorem gateway_drains_witness:
  "\<exists>y y'. sy_tasks y \<noteq> [] \<and> (gw_step example_ev example_cfg)\<^sup>*\<^sup>* y y' \<and> sy_tasks y' = [] \<and>
     jp_active (gs_json (sy_state y')) = 0"
proof -
  obtain y t where y: "gw_reachable example_ev example_cfg y" "sy_tasks y = [t]" using example_in_flight by blast
  with gateway_drains [OF y(1)] show ?thesis by (metis list.distinct(1))
qed

end
