(* ===== verification/Regex.thy ===== *)
theory Regex
  imports Prelude "HOL-Library.Sublist"
begin

text \<open>
  The part of JavaScript's regular expressions that the program uses: character classes, greedy and
  lazy repetition of a class, sequence, ordered alternatives, word boundaries, anchors and capture
  groups, with \<open>String.prototype.replace\<close> for a global pattern and \<open>test\<close>.

  A pattern denotes, at a position of a text, the list of its matches in the order in which a
  backtracking matcher tries them; the first one is the match JavaScript reports. A position is
  the character before it, the text after it and the captured groups. Every repetition of the
  program's patterns has a single character class as its body, so the matches are finite lists
  computed by structural recursion.

  The lemmas at the end are about global replacement: what a replacement can add to the text, and
  when a pattern no longer occurs in the result.
\<close>

type_synonym char_class = "char \<Rightarrow> bool"
type_synonym rx_pos = "char option \<times> string \<times> (nat \<times> string) list"

datatype rx =
    Cls char_class
  | Many bool nat "nat option" char_class
  | Cat rx rx
  | Or rx rx
  | Group nat rx
  | WordBound
  | Bol
  | Eol
  | Eps

definition word_char :: char_class where
  "word_char c \<longleftrightarrow> (let u = code_unit c in is_digit c \<or> (65 \<le> u \<and> u \<le> 90) \<or> (97 \<le> u \<and> u \<le> 122) \<or> u = 95)"

definition at_word_bound :: "char option \<Rightarrow> string \<Rightarrow> bool" where
  "at_word_bound pv s \<longleftrightarrow>
     (case pv of None \<Rightarrow> False | Some c \<Rightarrow> word_char c) \<noteq> (case s of [] \<Rightarrow> False | c # _ \<Rightarrow> word_char c)"

definition advance :: "nat \<Rightarrow> rx_pos \<Rightarrow> rx_pos" where
  "advance k p = (case p of (pv, s, g) \<Rightarrow> (if k = 0 then pv else Some (s ! (k - 1)), drop k s, g))"

definition run_lengths :: "bool \<Rightarrow> nat \<Rightarrow> nat option \<Rightarrow> nat \<Rightarrow> nat list" where
  "run_lengths greedy lo hi run =
     (let top = (case hi of None \<Rightarrow> run | Some h \<Rightarrow> min h run); ks = [lo..<Suc top]
      in if greedy then rev ks else ks)"

fun rx_matches :: "rx \<Rightarrow> rx_pos \<Rightarrow> rx_pos list" where
  "rx_matches (Cls p) (pv, s, g) = (case s of [] \<Rightarrow> [] | c # s' \<Rightarrow> if p c then [(Some c, s', g)] else [])"
| "rx_matches (Many greedy lo hi p) (pv, s, g) =
     map (\<lambda>k. advance k (pv, s, g)) (run_lengths greedy lo hi (length (takeWhile p s)))"
| "rx_matches (Cat a b) q = concat (map (rx_matches b) (rx_matches a q))"
| "rx_matches (Or a b) q = rx_matches a q @ rx_matches b q"
| "rx_matches (Group i a) (pv, s, g) =
     map (\<lambda>(pv', s', g'). (pv', s', (i, take (length s - length s') s) # g')) (rx_matches a (pv, s, g))"
| "rx_matches WordBound (pv, s, g) = (if at_word_bound pv s then [(pv, s, g)] else [])"
| "rx_matches Bol (pv, s, g) = (if pv = None then [(pv, s, g)] else [])"
| "rx_matches Eol (pv, s, g) = (if s = [] then [(pv, s, g)] else [])"
| "rx_matches Eps q = [q]"

fun rx_seq :: "rx list \<Rightarrow> rx" where
  "rx_seq [] = Eps"
| "rx_seq [r] = r"
| "rx_seq (r # rs) = Cat r (rx_seq rs)"

fun rx_alts :: "rx list \<Rightarrow> rx" where
  "rx_alts [] = Cls (\<lambda>_. False)"
| "rx_alts [r] = r"
| "rx_alts (r # rs) = Or r (rx_alts rs)"

definition one_or_more :: "char_class \<Rightarrow> rx" where
  "one_or_more p = Many True 1 None p"

definition zero_or_more :: "char_class \<Rightarrow> rx" where
  "zero_or_more p = Many True 0 None p"

definition optional_char :: "char_class \<Rightarrow> rx" where
  "optional_char p = Many True 0 (Some 1) p"

definition lit :: "string \<Rightarrow> rx" where
  "lit w = rx_seq (map (\<lambda>c. Cls (\<lambda>d. d = c)) w)"

text \<open>A literal under the flag \<open>i\<close>.\<close>

definition lit_i :: "string \<Rightarrow> rx" where
  "lit_i w = rx_seq (map (\<lambda>c. Cls (\<lambda>d. lower_char d = lower_char c)) w)"

text \<open>\<open>pattern.test(s)\<close> for a pattern that is not anchored at the start.\<close>

fun rx_test_from :: "rx \<Rightarrow> char option \<Rightarrow> string \<Rightarrow> bool" where
  "rx_test_from r pv [] \<longleftrightarrow> rx_matches r (pv, [], []) \<noteq> []"
| "rx_test_from r pv (c # s) \<longleftrightarrow> rx_matches r (pv, c # s, []) \<noteq> [] \<or> rx_test_from r (Some c) s"

definition rx_test :: "rx \<Rightarrow> string \<Rightarrow> bool" where
  "rx_test r s = rx_test_from r None s"

text \<open>A replacement text: literal pieces and references to captured groups.\<close>

datatype piece = Lit string | Ref nat

definition group_text :: "(nat \<times> string) list \<Rightarrow> nat \<Rightarrow> string" where
  "group_text g i = (case map_of g i of None \<Rightarrow> [] | Some w \<Rightarrow> w)"

fun expand_piece :: "(nat \<times> string) list \<Rightarrow> piece \<Rightarrow> string" where
  "expand_piece g (Lit w) = w"
| "expand_piece g (Ref i) = group_text g i"

definition expand :: "piece list \<Rightarrow> (nat \<times> string) list \<Rightarrow> string" where
  "expand t g = concat (map (expand_piece g) t)"

text \<open>
  \<open>s.replace(pattern, template)\<close> for a global pattern: the matches are taken from left to right
  without overlap, and an empty match leaves the next character in place.
\<close>

function replace_from :: "rx \<Rightarrow> piece list \<Rightarrow> char option \<Rightarrow> string \<Rightarrow> string" where
  "replace_from r t pv s =
     (case rx_matches r (pv, s, []) of
        (pv', s', g) # _ \<Rightarrow>
          if length s' < length s then expand t g @ replace_from r t pv' s'
          else (case s of [] \<Rightarrow> expand t g | c # s2 \<Rightarrow> expand t g @ c # replace_from r t (Some c) s2)
      | [] \<Rightarrow> (case s of [] \<Rightarrow> [] | c # s2 \<Rightarrow> c # replace_from r t (Some c) s2))"
  by pat_completeness auto
termination
  by (relation "measure (\<lambda>(r, t, pv, s). length s)") auto

declare replace_from.simps [simp del]

definition replace_all :: "rx \<Rightarrow> piece list \<Rightarrow> string \<Rightarrow> string" where
  "replace_all r t s = replace_from r t None s"

section \<open>What a match consumes and captures\<close>

fun rx_over :: "char_class \<Rightarrow> rx \<Rightarrow> bool" where
  "rx_over P (Cls p) \<longleftrightarrow> (\<forall>c. p c \<longrightarrow> P c)"
| "rx_over P (Many greedy lo hi p) \<longleftrightarrow> (\<forall>c. p c \<longrightarrow> P c)"
| "rx_over P (Cat a b) \<longleftrightarrow> rx_over P a \<and> rx_over P b"
| "rx_over P (Or a b) \<longleftrightarrow> rx_over P a \<and> rx_over P b"
| "rx_over P (Group i a) \<longleftrightarrow> rx_over P a"
| "rx_over P _ \<longleftrightarrow> True"

fun rx_groups :: "rx \<Rightarrow> nat set" where
  "rx_groups (Cat a b) = rx_groups a \<union> rx_groups b"
| "rx_groups (Or a b) = rx_groups a \<union> rx_groups b"
| "rx_groups (Group i a) = insert i (rx_groups a)"
| "rx_groups _ = {}"

lemma run_lengths_le: "k \<in> set (run_lengths greedy lo hi run) \<Longrightarrow> k \<le> run"
  by (auto simp: run_lengths_def Let_def split: option.splits if_splits)

lemma rx_matches_consume:
  assumes "(pv', s', g') \<in> set (rx_matches r (pv, s, g))"
  shows "\<exists>m. s = m @ s' \<and> (rx_over P r \<longrightarrow> (\<forall>c\<in>set m. P c))"
  using assms
proof (induction r arbitrary: pv s g pv' s' g')
  case (Cls p)
  then show ?case by (auto split: list.splits if_splits)
next
  case (Many greedy lo hi p)
  then obtain k where k: "k \<le> length (takeWhile p s)" and s': "s' = drop k s"
    by (auto simp: advance_def dest: run_lengths_le)
  have "take k s = take k (takeWhile p s)"
    using k by (metis takeWhile_eq_take take_take min_def)
  then have "\<forall>c\<in>set (take k s). p c" by (metis in_set_takeD set_takeWhileD)
  with s' show ?case by (intro exI [of _ "take k s"]) auto
next
  case (Cat a b)
  then obtain pv1 s1 g1 where 1: "(pv1, s1, g1) \<in> set (rx_matches a (pv, s, g))"
    and 2: "(pv', s', g') \<in> set (rx_matches b (pv1, s1, g1))" by auto
  from Cat.IH(1) [OF 1] obtain m1 where "s = m1 @ s1" "rx_over P a \<longrightarrow> (\<forall>c\<in>set m1. P c)" by blast
  moreover from Cat.IH(2) [OF 2] obtain m2 where "s1 = m2 @ s'" "rx_over P b \<longrightarrow> (\<forall>c\<in>set m2. P c)" by blast
  ultimately show ?case by (intro exI [of _ "m1 @ m2"]) auto
next
  case (Or a b)
  then consider "(pv', s', g') \<in> set (rx_matches a (pv, s, g))" | "(pv', s', g') \<in> set (rx_matches b (pv, s, g))"
    by auto
  then show ?case
    by cases (fastforce dest: Or.IH(1), fastforce dest: Or.IH(2))
next
  case (Group i a)
  then obtain g1 where "(pv', s', g1) \<in> set (rx_matches a (pv, s, g))" by auto
  from Group.IH [OF this] show ?case by simp
qed (auto split: if_splits)

lemma rx_matches_suffix:
  "(pv', s', g') \<in> set (rx_matches r (pv, s, g)) \<Longrightarrow> \<exists>m. s = m @ s'"
  using rx_matches_consume by blast

lemma rx_matches_groups:
  "(pv', s', g') \<in> set (rx_matches r (pv, s, g)) \<Longrightarrow> i \<notin> rx_groups r \<Longrightarrow> map_of g' i = map_of g i"
proof (induction r arbitrary: pv s g pv' s' g')
  case (Many greedy lo hi p)
  then show ?case by (auto simp: advance_def)
next
  case (Cat a b)
  then show ?case by fastforce
qed (auto split: if_splits list.splits)

text \<open>A group at the start of a pattern captures what its body consumes.\<close>

lemma leading_group_match:
  assumes m: "(pv', s', g') \<in> set (rx_matches (Cat (Group i a) b) (pv, s, g))"
    and "i \<notin> rx_groups b" and "rx_over P a"
  obtains x y where "s = x @ y @ s'" and "group_text g' i = x" and "\<forall>c\<in>set x. P c"
    and "\<exists>pv1 g1. (pv', s', g') \<in> set (rx_matches b (pv1, y @ s', g1))"
proof -
  from m obtain pv1 s1 g1 where 1: "(pv1, s1, g1) \<in> set (rx_matches a (pv, s, g))"
    and 2: "(pv', s', g') \<in> set (rx_matches b (pv1, s1, (i, take (length s - length s1) s) # g1))"
    by auto
  from rx_matches_consume [OF 1, of P] assms(3) obtain x where x: "s = x @ s1" "\<forall>c\<in>set x. P c" by blast
  from rx_matches_suffix [OF 2] obtain y where y: "s1 = y @ s'" by blast
  have "map_of g' i = Some x"
    using rx_matches_groups [OF 2 assms(2)] x(1) by simp
  then have "group_text g' i = x" by (simp add: group_text_def)
  with x y 2 show ?thesis using that [of x y] by blast
qed

fun rx_min :: "rx \<Rightarrow> nat" where
  "rx_min (Cls p) = 1"
| "rx_min (Many greedy lo hi p) = lo"
| "rx_min (Cat a b) = rx_min a + rx_min b"
| "rx_min (Or a b) = min (rx_min a) (rx_min b)"
| "rx_min (Group i a) = rx_min a"
| "rx_min _ = 0"

lemma run_lengths_ge: "k \<in> set (run_lengths greedy lo hi run) \<Longrightarrow> lo \<le> k"
  by (auto simp: run_lengths_def Let_def split: option.splits if_splits)

lemma rx_matches_min:
  "(pv', s', g') \<in> set (rx_matches r (pv, s, g)) \<Longrightarrow> length s' + rx_min r \<le> length s"
proof (induction r arbitrary: pv s g pv' s' g')
  case (Many greedy lo hi p)
  then obtain k where "lo \<le> k" "k \<le> length (takeWhile p s)" "s' = drop k s"
    by (auto simp: advance_def dest: run_lengths_le run_lengths_ge)
  moreover have "length (takeWhile p s) \<le> length s" by (rule length_takeWhile_le)
  ultimately show ?case by simp
next
  case (Cat a b)
  then show ?case by fastforce
next
  case (Or a b)
  then show ?case by fastforce
qed (auto split: if_splits list.splits)

text \<open>Every match contains a character of the class \<open>P\<close>.\<close>

fun rx_needs :: "char_class \<Rightarrow> rx \<Rightarrow> bool" where
  "rx_needs P (Cls p) \<longleftrightarrow> (\<forall>c. p c \<longrightarrow> P c)"
| "rx_needs P (Many greedy lo hi p) \<longleftrightarrow> 0 < lo \<and> (\<forall>c. p c \<longrightarrow> P c)"
| "rx_needs P (Cat a b) \<longleftrightarrow> rx_needs P a \<or> rx_needs P b"
| "rx_needs P (Or a b) \<longleftrightarrow> rx_needs P a \<and> rx_needs P b"
| "rx_needs P (Group i a) \<longleftrightarrow> rx_needs P a"
| "rx_needs P _ \<longleftrightarrow> False"

lemma rx_needs_match:
  "(pv', s', g') \<in> set (rx_matches r (pv, s, g)) \<Longrightarrow> rx_needs P r \<Longrightarrow> \<exists>c\<in>set s. P c"
proof (induction r arbitrary: pv s g pv' s' g')
  case (Many greedy lo hi p)
  then obtain k where "k \<in> set (run_lengths greedy lo hi (length (takeWhile p s)))" by auto
  then have "0 < k" "k \<le> length (takeWhile p s)"
    using run_lengths_le run_lengths_ge Many.prems(2) by fastforce+
  then have "takeWhile p s \<noteq> []" by auto
  then show ?case using Many.prems(2) by (cases s) (auto split: if_splits)
next
  case (Cat a b)
  then obtain pv1 s1 g1 where 1: "(pv1, s1, g1) \<in> set (rx_matches a (pv, s, g))"
    and 2: "(pv', s', g') \<in> set (rx_matches b (pv1, s1, g1))" by auto
  obtain m where "s = m @ s1" using rx_matches_suffix [OF 1] by blast
  then show ?case using Cat.IH(1) [OF 1] Cat.IH(2) [OF 2] Cat.prems(2) by auto
qed (fastforce split: if_splits list.splits)+

lemma replace_all_unneeded:
  assumes "rx_needs P r" and "\<forall>c\<in>set s. \<not> P c"
  shows "replace_all r t s = s"
proof -
  have "replace_from r t pv s = s" for pv
    using assms(2)
  proof (induction s arbitrary: pv)
    case (Cons c s)
    then have "rx_matches r (pv, c # s, []) = []"
      using rx_needs_match [OF _ assms(1), of _ _ _ pv "c # s" "[]"]
      by (cases "rx_matches r (pv, c # s, [])") auto
    then show ?case using Cons by (subst replace_from.simps) simp
  next
    case Nil
    then have "rx_matches r (pv, [], []) = []"
      using rx_needs_match [OF _ assms(1), of _ _ _ pv "[]" "[]"]
      by (cases "rx_matches r (pv, [], [])") auto
    then show ?case by (subst replace_from.simps) simp
  qed
  then show ?thesis by (simp add: replace_all_def)
qed

lemma word_bound_first [simp]:
  "rx_matches (Cat WordBound r) (pv, s, g) = (if at_word_bound pv s then rx_matches r (pv, s, g) else [])"
  by simp

section \<open>Splitting at a character\<close>

lemma split_char_append_gen:
  "split_char c (a @ b) =
     butlast (split_char c a) @ (last (split_char c a) @ hd (split_char c b)) # tl (split_char c b)"
proof (induction a)
  case Nil
  then show ?case by simp
next
  case (Cons x a)
  show ?case
  proof (cases "split_char c a")
    case (Cons w ws)
    with Cons.IH show ?thesis by (cases ws) auto
  qed simp
qed

lemma split_char_within:
  assumes "sublist w s" and "c \<notin> set w"
  shows "\<exists>q\<in>set (split_char c s). sublist w q"
proof -
  obtain u v where s: "s = u @ w @ v" using assms(1) by (auto simp: sublist_def)
  have "split_char c (w @ v) = (w @ hd (split_char c v)) # tl (split_char c v)"
    using split_char_append_gen [of c w v] assms(2) by (simp add: split_char_no_sep)
  then have "last (split_char c u) @ w @ hd (split_char c v) \<in> set (split_char c s)"
    using split_char_append_gen [of c u "w @ v"] s by simp
  then show ?thesis by (auto simp: sublist_def)
qed

section \<open>Replacements that only add redaction marks\<close>

text \<open>
  A replacement is a redaction when every replacement text, split at the mark \<open>*\<close>, begins with a
  prefix of the match, ends with a suffix of the match and has only fixed texts in between. Then a
  text without the mark occurs in the result only where it already occurred in the input, or in a
  fixed text.
\<close>

abbreviation (input) mark :: char where
  "mark \<equiv> CHR ''*''"

definition redacts :: "string set \<Rightarrow> string \<Rightarrow> string \<Rightarrow> bool" where
  "redacts fixed m e \<longleftrightarrow>
     m \<noteq> [] \<and> (\<exists>x mid z. split_char mark e = x # mid @ [z] \<and> prefix x m \<and> suffix z m \<and> set mid \<subseteq> fixed)"

locale redaction =
  fixes r :: rx and t :: "piece list" and fixed :: "string set"
  assumes redacts_match:
    "(pv', s', g) \<in> set (rx_matches r (pv, m @ s', [])) \<Longrightarrow> redacts fixed m (expand t g)"
begin

lemma replace_segments:
  "prefix (hd (split_char mark (replace_from r t pv s))) s \<and>
   (\<forall>q\<in>set (tl (split_char mark (replace_from r t pv s))). sublist q s \<or> q \<in> fixed)"
proof (induction "length s" arbitrary: pv s rule: less_induct)
  case less
  show ?case
  proof (cases "rx_matches r (pv, s, [])")
    case Nil
    show ?thesis
    proof (cases s)
      case (Cons c s2)
      let ?o = "split_char mark (replace_from r t (Some c) s2)"
      have eq: "replace_from r t pv s = c # replace_from r t (Some c) s2"
        using Nil Cons by (subst replace_from.simps) simp
      obtain h tl' where o: "?o = h # tl'" by (cases ?o) auto
      have "prefix h s2" and rest: "\<forall>q\<in>set tl'. sublist q s2 \<or> q \<in> fixed"
        using less [of s2 "Some c"] Cons o by auto
      moreover from \<open>prefix h s2\<close> have "sublist h s2" by (rule prefix_imp_sublist)
      ultimately show ?thesis using Cons eq o by (auto simp: sublist_Cons_right)
    qed (use Nil in \<open>subst (1 2) replace_from.simps; simp\<close>)
  next
    case (Cons p ps)
    obtain pv' s' g where p: "p = (pv', s', g)" by (cases p)
    have mem: "(pv', s', g) \<in> set (rx_matches r (pv, s, []))" using Cons p by simp
    then obtain m where s: "s = m @ s'" using rx_matches_suffix by blast
    have "redacts fixed m (expand t g)" using redacts_match mem s by blast
    then obtain x mid z where m: "m \<noteq> []" and e: "split_char mark (expand t g) = x # mid @ [z]"
      and xz: "prefix x m" "suffix z m" "set mid \<subseteq> fixed" by (auto simp: redacts_def)
    have eq: "replace_from r t pv s = expand t g @ replace_from r t pv' s'"
      using Cons p s m by (subst replace_from.simps) simp
    let ?o = "split_char mark (replace_from r t pv' s')"
    obtain h tl' where o: "?o = h # tl'" by (cases ?o) auto
    have h: "prefix h s'" and rest: "\<forall>q\<in>set tl'. sublist q s' \<or> q \<in> fixed"
      using less [of s' pv'] s m o by auto
    have "split_char mark (replace_from r t pv s) = x # mid @ (z @ h) # tl'"
      unfolding eq split_char_append_gen e o by (simp add: butlast_append)
    moreover have "sublist (z @ h) s"
      using xz(2) h s by (auto simp: suffix_def prefix_def sublist_def) blast
    moreover have "prefix x s" using xz(1) s by (auto simp: prefix_def)
    moreover have "\<forall>q\<in>set tl'. sublist q s \<or> q \<in> fixed"
      using rest s by (auto intro: sublist_order.order_trans)
    ultimately show ?thesis using xz(3) by auto
  qed
qed

lemma replace_adds_nothing:
  assumes "sublist w (replace_all r t s)" and "mark \<notin> set w"
  shows "sublist w s \<or> (\<exists>f\<in>fixed. sublist w f)"
proof -
  let ?o = "split_char mark (replace_all r t s)"
  obtain q where q: "q \<in> set ?o" "sublist w q" using split_char_within [OF assms] by blast
  have "q = hd ?o \<or> q \<in> set (tl ?o)" using q(1) by (cases ?o) auto
  then have "sublist q s \<or> q \<in> fixed"
    using replace_segments [of None s] by (auto simp: replace_all_def prefix_imp_sublist)
  with q(2) show ?thesis by (auto intro: sublist_order.order_trans)
qed

end

end
