(* ===== verification/Log_Text.thy ===== *)
theory Log_Text
  imports Regex
begin

text \<open>
  The text that leaves the process through its log: \<^verbatim>\<open>src/src/platform/logger.ts\<close>. The rules that
  remove credentials and paths, truncation and the replacement of control characters.

  Main result: a bearer credential in a text of at most 8192 characters does not survive redaction.
  Each later rule is an instance of the locale \<open>redaction\<close>, so it cannot bring one back.
\<close>

section \<open>Redaction\<close>

definition REDACTED_SECRET :: string where
  "REDACTED_SECRET = ''***redacted***''"

definition LOG_TRUNCATED_MARKER :: string where
  "LOG_TRUNCATED_MARKER = '' ...[truncated]''"

definition DEFAULT_LOG_VALUE_MAX_LEN :: nat where
  "DEFAULT_LOG_VALUE_MAX_LEN = 256"

definition DEFAULT_LOG_MESSAGE_MAX_LEN :: nat where
  "DEFAULT_LOG_MESSAGE_MAX_LEN = 4096"

definition DEFAULT_REDACTION_INPUT_MAX_LEN :: nat where
  "DEFAULT_REDACTION_INPUT_MAX_LEN = 8 * 1024"

text \<open>The character classes of the patterns.\<close>

definition upper_letter :: char_class where
  "upper_letter c \<longleftrightarrow> 65 \<le> code_unit c \<and> code_unit c \<le> 90"

definition lower_letter :: char_class where
  "lower_letter c \<longleftrightarrow> 97 \<le> code_unit c \<and> code_unit c \<le> 122"

definition alnum :: char_class where
  "alnum c \<longleftrightarrow> upper_letter c \<or> lower_letter c \<or> is_digit c"

definition alnum_or :: "string \<Rightarrow> char_class" where
  "alnum_or extra c \<longleftrightarrow> alnum c \<or> c \<in> set extra"

definition token_char :: char_class where
  "token_char = alnum_or ''._-~+/=''"

definition not_in :: "string \<Rightarrow> char_class" where
  "not_in w c \<longleftrightarrow> c \<notin> set w"

definition dash :: rx where
  "dash = optional_char (\<lambda>c. c \<in> set ''_-'')"

definition bearer_rule :: "rx \<times> piece list" where
  "bearer_rule =
     (rx_seq [lit_i ''Bearer'', one_or_more js_ws, one_or_more token_char],
      [Lit (''Bearer '' @ REDACTED_SECRET)])"

definition authorization_rules :: "(rx \<times> piece list) list" where
  "authorization_rules =
     [(rx_seq [WordBound, lit_i ''Authorization:'', zero_or_more js_ws,
               Group 1 (rx_alts [lit_i ''Basic'', lit_i ''Token'', lit_i ''ApiKey'']),
               one_or_more js_ws, one_or_more (\<lambda>c. \<not> js_ws c)],
       [Lit ''Authorization: '', Ref 1, Lit ('' '' @ REDACTED_SECRET)]),
      (rx_seq [WordBound, lit_i ''Authorization:'', zero_or_more js_ws, lit_i ''Digest'', WordBound,
               Many True 0 (Some 512) (not_in [CHR 0x0D, CHR 0x0A])],
       [Lit (''Authorization: Digest '' @ REDACTED_SECRET)])]"

definition at_least :: "nat \<Rightarrow> char_class \<Rightarrow> rx" where
  "at_least n p = Many True n None p"

definition whole_secret_rules :: "(rx \<times> piece list) list" where
  "whole_secret_rules =
     [(rx_seq [WordBound, lit ''eyJ'', at_least 8 (alnum_or ''_-''), lit ''.'', at_least 8 (alnum_or ''._-''),
               lit ''.'', at_least 8 (alnum_or ''._-''), WordBound],
       [Lit REDACTED_SECRET]),
      (rx_seq [WordBound, rx_alts [lit ''sk'', lit ''ak''], lit ''-'', one_or_more token_char, WordBound],
       [Lit REDACTED_SECRET]),
      (rx_seq [WordBound,
               rx_alts
                 [rx_seq [lit ''xox'', Cls (\<lambda>c. c \<in> set ''baprs''), lit ''-'', at_least 12 (alnum_or ''-'')],
                  rx_seq [lit ''gh'', Cls (\<lambda>c. c \<in> set ''oprsu''), lit ''_'', at_least 16 (alnum_or ''_'')],
                  rx_seq [lit ''hf_'', at_least 16 alnum],
                  rx_seq [lit ''xai-'', at_least 16 token_char],
                  rx_seq [lit ''AIza'', at_least 16 (alnum_or ''-_'')],
                  rx_seq [lit ''AKIA'', Many True 16 (Some 16) (\<lambda>c. is_digit c \<or> upper_letter c)]],
               WordBound],
       [Lit REDACTED_SECRET])]"

definition key_name :: rx where
  "key_name = rx_seq [lit_i ''api'', dash, lit_i ''key'']"

definition token_name :: "string \<Rightarrow> rx" where
  "token_name w = rx_seq [lit_i w, dash, lit_i ''token'']"

definition named_secret_rule :: "rx \<times> piece list" where
  "named_secret_rule =
     (Cat WordBound
        (Cat (Group 1 (rx_seq
                [Cls (\<lambda>c. upper_letter c \<or> lower_letter c \<or> c = CHR ''_''), zero_or_more (alnum_or ''_-''),
                 rx_alts [key_name, token_name ''access'', token_name ''auth'', token_name ''bearer'',
                          lit_i ''token'', lit_i ''secret'', lit_i ''digest'', lit_i ''signature'', lit_i ''sig''],
                 zero_or_more (alnum_or ''_-''), WordBound, zero_or_more js_ws, Cls (\<lambda>c. c \<in> set '':=''),
                 zero_or_more js_ws]))
             (Group 2 (at_least 16 token_char))),
      [Ref 1, Lit REDACTED_SECRET])"

definition hex_digit_i :: char_class where
  "hex_digit_i c \<longleftrightarrow> is_digit c \<or> (97 \<le> code_unit (lower_char c) \<and> code_unit (lower_char c) \<le> 102)"

definition digest_rule :: "rx \<times> piece list" where
  "digest_rule =
     (Cat WordBound
        (Cat (Group 1 (rx_alts [key_name, lit_i ''token'', lit_i ''secret'', lit_i ''digest'', lit_i ''signature'']))
             (Cat (Cls (\<lambda>c. c = CHR ''='')) (Cat (Group 2 (Many True 64 (Some 64) hex_digit_i)) WordBound))),
      [Ref 1, Lit (''='' @ REDACTED_SECRET)])"

definition query_rule :: "rx \<times> piece list" where
  "query_rule =
     (Cat (Group 1 (rx_seq
             [Cls (\<lambda>c. c \<in> set ''?&''),
              rx_alts [key_name, token_name ''access'', token_name ''auth'', token_name ''bearer'',
                       rx_seq [lit_i ''client'', dash, lit_i ''secret''], lit_i ''secret'', lit_i ''signature'',
                       lit_i ''sig'', lit_i ''token''],
              lit ''='']))
          (Group 2 (one_or_more (\<lambda>c. c \<notin> set ''&#'' \<and> \<not> js_ws c))),
      [Ref 1, Lit REDACTED_SECRET])"

definition userinfo_rule :: "rx \<times> piece list" where
  "userinfo_rule =
     (Cat (Group 1 (rx_seq [lit_i ''http'', optional_char (\<lambda>c. lower_char c = CHR ''s''), lit ''://'']))
          (Cat (Group 2 (one_or_more (\<lambda>c. c \<notin> set '':/@'' \<and> \<not> js_ws c)))
             (Cat (Cls (\<lambda>c. c = CHR '':''))
                (Cat (Group 3 (one_or_more (\<lambda>c. c \<notin> set ''@/'' \<and> \<not> js_ws c))) (Cls (\<lambda>c. c = CHR ''@''))))),
      [Ref 1, Lit (REDACTED_SECRET @ '':'' @ REDACTED_SECRET @ ''@'')])"

definition assignment_rules :: "(rx \<times> piece list) list" where
  "assignment_rules = [named_secret_rule, digest_rule, query_rule, userinfo_rule]"

definition apply_rules :: "(rx \<times> piece list) list \<Rightarrow> string \<Rightarrow> string" where
  "apply_rules rules s = foldl (\<lambda>v (r, t). replace_all r t v) s rules"

definition redactSensitiveText :: "string \<Rightarrow> string" where
  "redactSensitiveText value =
     (let truncated = length value > DEFAULT_REDACTION_INPUT_MAX_LEN;
          input = (if truncated then take DEFAULT_REDACTION_INPUT_MAX_LEN value else value);
          redacted = apply_rules (authorization_rules @ bearer_rule # whole_secret_rules @ assignment_rules) input
      in if truncated then redacted @ LOG_TRUNCATED_MARKER else redacted)"

text \<open>
  \<open>value.split(/\s+/)\<close>: the maximal runs of white space separate the tokens, a leading or trailing
  run gives an empty token.
\<close>

fun split_ws_from :: "bool \<Rightarrow> string \<Rightarrow> string list" where
  "split_ws_from inRun [] = [[]]"
| "split_ws_from inRun (c # s) =
     (if js_ws c then (if inRun then split_ws_from True s else [] # split_ws_from True s)
      else (case split_ws_from False s of [] \<Rightarrow> [[c]] | w # ws \<Rightarrow> (c # w) # ws))"

definition split_ws :: "string \<Rightarrow> string list" where
  "split_ws s = split_ws_from False s"

definition path_token_rx :: rx where
  "path_token_rx =
     rx_seq [Bol, Group 1 (zero_or_more (\<lambda>c. c \<in> set [CHR ''('', CHR 0x22, CHR 0x27, CHR 0x60, CHR ''['']))
      , Group 2 (Many False 0 None (not_in [CHR 0x0A, CHR 0x0D]))
      , Group 3 (zero_or_more (\<lambda>c. c \<in> set [CHR '')'', CHR '']'', CHR 0x22, CHR 0x27, CHR 0x60, CHR ''.'', CHR '','',
                                            CHR '':'', CHR '';'', CHR ''!'', CHR ''?'']))
      , Eol]"

definition sanitizePathLikeToken :: "string \<Rightarrow> string" where
  "sanitizePathLikeToken token =
     (let m = rx_matches path_token_rx (None, token, []);
          leading = (case m of [] \<Rightarrow> [] | (_, _, g) # _ \<Rightarrow> group_text g 1);
          core = (case m of [] \<Rightarrow> token | (_, _, g) # _ \<Rightarrow> group_text g 2);
          trailing = (case m of [] \<Rightarrow> [] | (_, _, g) # _ \<Rightarrow> group_text g 3);
          looksLikeFileUrl = starts_with ''file://'' core;
          looksLikeWindowsAbsolutePath =
            (case core of c # d # e # _ \<Rightarrow> (upper_letter c \<or> lower_letter c) \<and> d = CHR '':'' \<and> e = CHR 0x5C | _ \<Rightarrow> False);
          looksLikeUnixAbsolutePath = starts_with ''/'' core
      in if \<not> looksLikeFileUrl \<and> \<not> looksLikeWindowsAbsolutePath \<and> \<not> looksLikeUnixAbsolutePath then token
         else leading @ ''<path>'' @ trailing)"

definition redactAbsolutePaths :: "string \<Rightarrow> string" where
  "redactAbsolutePaths value = trim (join '' '' (map sanitizePathLikeToken (split_ws value)))"

section \<open>Truncation and control characters\<close>

definition truncateLogText :: "string \<Rightarrow> nat \<Rightarrow> string" where
  "truncateLogText value maxLen =
     (if length value \<le> maxLen then value
      else if maxLen \<le> length LOG_TRUNCATED_MARKER then take maxLen LOG_TRUNCATED_MARKER
      else take (maxLen - length LOG_TRUNCATED_MARKER) value @ LOG_TRUNCATED_MARKER)"

definition log_control :: char_class where
  "log_control c \<longleftrightarrow> (let u = code_unit c in u \<le> 31 \<or> (127 \<le> u \<and> u \<le> 159))"

definition sanitizeLogValue :: "string \<Rightarrow> nat \<Rightarrow> string" where
  "sanitizeLogValue value maxLen =
     truncateLogText (replace_all (Cls log_control) [Lit '' ''] value) maxLen"

text \<open>\<open>safeErrorMessage\<close> on the text it takes from the value, the message of an error or \<open>String(error)\<close>.\<close>

definition safeErrorText :: "string \<Rightarrow> nat \<Rightarrow> string" where
  "safeErrorText message maxLen = sanitizeLogValue (redactAbsolutePaths (redactSensitiveText message)) maxLen"

definition sanitizeLogMessage :: "string \<Rightarrow> nat \<Rightarrow> string" where
  "sanitizeLogMessage message maxLen = sanitizeLogValue (redactSensitiveText message) maxLen"

definition formatMultilineLog :: "string \<Rightarrow> string \<Rightarrow> string \<Rightarrow> string" where
  "formatMultilineLog timestamp pre message =
     (let lines = split_char (CHR 0x0A) message;
          firstLine = (case lines of [] \<Rightarrow> [] | l # _ \<Rightarrow> l);
          rendered = join [CHR 0x0A]
            (map (\<lambda>line. ''  '' @ sanitizeLogMessage line DEFAULT_LOG_MESSAGE_MAX_LEN) (drop 1 lines));
          first = ''['' @ timestamp @ ''] '' @ pre @ sanitizeLogMessage firstLine DEFAULT_LOG_MESSAGE_MAX_LEN @ [CHR 0x0A]
      in if length rendered > 0 then first @ rendered @ [CHR 0x0A] else first)"

section \<open>What redaction leaves of the text\<close>

definition fixed_texts :: "string set" where
  "fixed_texts = {[], ''redacted'', '':''}"

lemma split_redacted:
  "mark \<notin> set x \<Longrightarrow> split_char mark (x @ REDACTED_SECRET @ v) =
     x # [[], [], ''redacted'', [], []] @ split_char mark v"
  by (induction x) (auto simp: REDACTED_SECRET_def)

lemma redacts_prefix:
  "m \<noteq> [] \<Longrightarrow> prefix x m \<Longrightarrow> mark \<notin> set x \<Longrightarrow> redacts fixed_texts m (x @ REDACTED_SECRET)"
  using split_redacted [of x "[]"]
  by (auto simp: redacts_def fixed_texts_def intro!: exI [of _ x] exI [of _ "[[], [], ''redacted'', [], []]"])

lemma redacts_whole: "m \<noteq> [] \<Longrightarrow> redacts fixed_texts m REDACTED_SECRET"
  using redacts_prefix [of m "[]"] by simp

lemma redacts_userinfo:
  "m \<noteq> [] \<Longrightarrow> prefix x m \<Longrightarrow> suffix ''@'' m \<Longrightarrow> mark \<notin> set x \<Longrightarrow>
   redacts fixed_texts m (x @ REDACTED_SECRET @ '':'' @ REDACTED_SECRET @ ''@'')"
  using split_redacted [of x "'':'' @ REDACTED_SECRET @ ''@''"] split_redacted [of "'':''" "''@''"]
  by (auto simp: redacts_def fixed_texts_def
      intro!: exI [of _ x] exI [of _ "[[], [], ''redacted'', [], [], '':'', [], [], ''redacted'', [], []]"] exI [of _ "''@''"])

lemma whole_secret_redaction:
  assumes "rx_min r > 0"
  shows "redaction r [Lit REDACTED_SECRET] fixed_texts"
proof
  fix pv' s' g pv m
  assume "(pv', s', g) \<in> set (rx_matches r (pv, m @ s', []))"
  from rx_matches_min [OF this] assms have "m \<noteq> []" by auto
  then show "redacts fixed_texts m (expand [Lit REDACTED_SECRET] g)"
    by (simp add: expand_def redacts_whole)
qed

definition no_mark :: char_class where
  "no_mark c \<longleftrightarrow> c \<noteq> mark"

text \<open>
  A rule that keeps its first group, followed by a fixed text the rest of the match begins with and
  possibly by one the match ends with.
\<close>

lemma kept_group_match:
  assumes m: "(pv', s', g) \<in> set (rx_matches (Cat (Group 1 a) b) (pv, m @ s', []))"
    and "rx_min a > 0" and "1 \<notin> rx_groups b" and "rx_over no_mark a"
    and k: "\<And>pv' s' g' pv y g. (pv', s', g') \<in> set (rx_matches b (pv, y @ s', g)) \<Longrightarrow> prefix k y \<and> suffix z y"
  shows "m \<noteq> [] \<and> prefix (group_text g 1 @ k) m \<and> suffix z m \<and> mark \<notin> set (group_text g 1)"
proof -
  obtain x y where xy: "m @ s' = x @ y @ s'" "group_text g 1 = x" "\<forall>c\<in>set x. no_mark c"
    and b: "\<exists>pv1 g1. (pv', s', g) \<in> set (rx_matches b (pv1, y @ s', g1))"
    by (rule leading_group_match [OF m assms(3,4)])
  from b obtain pv1 g1 where "(pv', s', g) \<in> set (rx_matches b (pv1, y @ s', g1))" by (elim exE)
  then have "prefix k y \<and> suffix z y" by (rule k)
  moreover have "m \<noteq> []" using rx_matches_min [OF m] assms(2) by auto
  moreover have "m = x @ y" using xy(1) by simp
  moreover have "mark \<notin> set x" using xy(3) unfolding no_mark_def by blast
  ultimately show ?thesis unfolding xy(2) by (auto simp: suffix_def prefix_def)
qed

lemma kept_group_redaction:
  assumes "rx_min a > 0" and "1 \<notin> rx_groups b" and "rx_over no_mark a"
    and "\<And>pv' s' g' pv y g. (pv', s', g') \<in> set (rx_matches b (pv, y @ s', g)) \<Longrightarrow> prefix k y" and "mark \<notin> set k"
  shows "redaction (Cat (Group 1 a) b) [Ref 1, Lit (k @ REDACTED_SECRET)] fixed_texts"
proof
  fix pv' s' g pv m
  assume "(pv', s', g) \<in> set (rx_matches (Cat (Group 1 a) b) (pv, m @ s', []))"
  from kept_group_match [OF this assms(1-3), of k "[]"] assms(4,5)
  show "redacts fixed_texts m (expand [Ref 1, Lit (k @ REDACTED_SECRET)] g)"
    using redacts_prefix [of m "group_text g 1 @ k"] by (simp add: expand_def)
qed

lemma userinfo_redaction:
  assumes "rx_min a > 0" and "1 \<notin> rx_groups b" and "rx_over no_mark a"
    and "\<And>pv' s' g' pv y g. (pv', s', g') \<in> set (rx_matches b (pv, y @ s', g)) \<Longrightarrow> suffix ''@'' y"
  shows "redaction (Cat (Group 1 a) b)
           [Ref 1, Lit (REDACTED_SECRET @ '':'' @ REDACTED_SECRET @ ''@'')] fixed_texts"
proof
  fix pv' s' g pv m
  assume "(pv', s', g) \<in> set (rx_matches (Cat (Group 1 a) b) (pv, m @ s', []))"
  from kept_group_match [OF this assms(1-3), of "[]" "''@''"] assms(4)
  show "redacts fixed_texts m (expand [Ref 1, Lit (REDACTED_SECRET @ '':'' @ REDACTED_SECRET @ ''@'')] g)"
    using redacts_userinfo [of m "group_text g 1"] by (simp add: expand_def)
qed

lemma word_bound_redaction: "redaction r t F \<Longrightarrow> redaction (Cat WordBound r) t F"
  by (auto simp: redaction_def split: if_splits)

lemma match_starts_with_char:
  assumes "(pv', s', g') \<in> set (rx_matches (Cat (Cls (\<lambda>d. d = c)) b) (pv, y @ s', g))"
  shows "prefix [c] y"
proof -
  obtain s1 pv1 where "y @ s' = c # s1" and b: "(pv', s', g') \<in> set (rx_matches b (pv1, s1, g))"
    using assms by (auto split: list.splits if_splits dest: sym)
  moreover from rx_matches_suffix [OF b] obtain m where "s1 = m @ s'" by blast
  ultimately show ?thesis by (auto simp: prefix_def)
qed

lemma match_ends_with_char:
  "(pv', s', g') \<in> set (rx_matches (Cls (\<lambda>d. d = c)) (pv, y @ s', g)) \<Longrightarrow> suffix [c] y"
  by (auto simp: suffix_def Cons_eq_append_conv split: list.splits if_splits)

lemma match_ends_with_rest:
  assumes "(pv', s', g') \<in> set (rx_matches (Cat a b) (pv, y @ s', g))"
    and b: "\<And>pv y g. (pv', s', g') \<in> set (rx_matches b (pv, y @ s', g)) \<Longrightarrow> suffix z y"
  shows "suffix z y"
proof -
  obtain pv1 s1 g1 where a: "(pv1, s1, g1) \<in> set (rx_matches a (pv, y @ s', g))"
    and 1: "(pv', s', g') \<in> set (rx_matches b (pv1, s1, g1))"
    using assms(1) by auto
  obtain m where "y @ s' = m @ s1" using rx_matches_suffix [OF a] by blast
  moreover obtain y2 where y2: "s1 = y2 @ s'" using rx_matches_suffix [OF 1] by blast
  moreover have "suffix z y2" using b 1 y2 by blast
  ultimately show ?thesis by (auto simp: suffix_def)
qed

lemma kept_group_redaction_only:
  assumes "rx_min a > 0" and "1 \<notin> rx_groups b" and "rx_over no_mark a"
  shows "redaction (Cat (Group 1 a) b) [Ref 1, Lit REDACTED_SECRET] fixed_texts"
  using kept_group_redaction [where k = "[]", OF assms] by simp

lemma rx_seq_facts [simp]:
  "rx_over P (rx_seq rs) \<longleftrightarrow> (\<forall>r\<in>set rs. rx_over P r)"
  "rx_min (rx_seq rs) = sum_list (map rx_min rs)"
  "rx_groups (rx_seq rs) = (\<Union>r\<in>set rs. rx_groups r)"
  by (induction rs rule: rx_seq.induct) auto

lemma rx_alts_facts [simp]:
  "rx_over P (rx_alts rs) \<longleftrightarrow> (\<forall>r\<in>set rs. rx_over P r)"
  "0 < rx_min (rx_alts rs) \<longleftrightarrow> (\<forall>r\<in>set rs. 0 < rx_min r)"
  by (induction rs rule: rx_alts.induct) auto

lemma rx_literal_facts [simp]:
  "rx_over P (lit w) \<longleftrightarrow> (\<forall>c\<in>set w. P c)"
  "rx_min (lit w) = length w" "rx_min (lit_i w) = length w"
  "rx_groups (lit w) = {}" "rx_groups (lit_i w) = {}"
  by (auto simp: lit_def lit_i_def sum_list_triv o_def)

lemma lower_mark [simp]: "lower_char mark = mark"
  by (simp add: lower_char_def code_unit_def)

lemma over_no_mark [simp]:
  "rx_over no_mark (Cls p) \<longleftrightarrow> \<not> p mark" "rx_over no_mark (Many g lo hi p) \<longleftrightarrow> \<not> p mark"
  by (auto simp: no_mark_def)

declare rx_over.simps(1,2) [simp del]

lemma no_mark_lit_i: "\<forall>c\<in>set w. lower_char c \<noteq> mark \<Longrightarrow> rx_over no_mark (lit_i w)"
  by (auto simp: lit_i_def)

lemmas class_defs =
  key_name_def token_name_def dash_def one_or_more_def zero_or_more_def optional_char_def at_least_def

lemma no_mark_classes [simp]:
  "\<not> alnum_or ''_-'' mark" "\<not> upper_letter mark" "\<not> lower_letter mark" "\<not> js_ws mark"
  by (simp_all add: alnum_or_def alnum_def upper_letter_def lower_letter_def js_ws_def is_digit_def code_unit_def)

lemma names_no_mark [simp]:
  "rx_over no_mark (lit_i ''api'')" "rx_over no_mark (lit_i ''key'')" "rx_over no_mark (lit_i ''access'')"
  "rx_over no_mark (lit_i ''auth'')" "rx_over no_mark (lit_i ''bearer'')" "rx_over no_mark (lit_i ''token'')"
  "rx_over no_mark (lit_i ''secret'')" "rx_over no_mark (lit_i ''digest'')" "rx_over no_mark (lit_i ''signature'')"
  "rx_over no_mark (lit_i ''sig'')" "rx_over no_mark (lit_i ''client'')" "rx_over no_mark (lit_i ''http'')"
  "rx_over no_mark dash" "rx_over no_mark key_name" "rx_over no_mark (token_name ''access'')"
  "rx_over no_mark (token_name ''auth'')" "rx_over no_mark (token_name ''bearer'')"
  by (simp_all add: no_mark_lit_i lower_char_def code_unit_def key_name_def token_name_def dash_def
      optional_char_def)

lemma whole_secret_rules_redact:
  "(r, t) \<in> set whole_secret_rules \<Longrightarrow> redaction r t fixed_texts"
  by (auto simp: whole_secret_rules_def intro!: whole_secret_redaction)

lemma named_secret_rule_redacts: "redaction (fst named_secret_rule) (snd named_secret_rule) fixed_texts"
  unfolding named_secret_rule_def fst_conv snd_conv
  by (intro word_bound_redaction kept_group_redaction_only) (simp_all add: zero_or_more_def at_least_def)

lemma digest_rule_redacts: "redaction (fst digest_rule) (snd digest_rule) fixed_texts"
  unfolding digest_rule_def fst_conv snd_conv
  by (intro word_bound_redaction kept_group_redaction)
    (simp_all only: rx_alts_facts match_starts_with_char, simp_all add: key_name_def)

lemma query_rule_redacts: "redaction (fst query_rule) (snd query_rule) fixed_texts"
  unfolding query_rule_def fst_conv snd_conv
  by (intro word_bound_redaction kept_group_redaction_only)
    (simp_all add: one_or_more_def, simp add: no_mark_def)

lemma userinfo_rule_redacts: "redaction (fst userinfo_rule) (snd userinfo_rule) fixed_texts"
  unfolding userinfo_rule_def fst_conv snd_conv
proof (rule userinfo_redaction)
  fix pv' s' g' pv y g
  assume m: "(pv', s', g') \<in> set (rx_matches
    (Cat (Group 2 (one_or_more (\<lambda>c. c \<notin> set '':/@'' \<and> \<not> js_ws c)))
             (Cat (Cls (\<lambda>c. c = CHR '':''))
                (Cat (Group 3 (one_or_more (\<lambda>c. c \<notin> set ''@/'' \<and> \<not> js_ws c))) (Cls (\<lambda>c. c = CHR ''@''))))) (pv, y @ s', g))"
  show "suffix ''@'' y"
    by (rule match_ends_with_rest [OF m], erule match_ends_with_rest, erule match_ends_with_rest,
        erule match_ends_with_char)
qed (simp_all add: optional_char_def one_or_more_def, simp add: no_mark_def)

lemma later_rules_redact:
  "(r, t) \<in> set (whole_secret_rules @ assignment_rules) \<Longrightarrow> redaction r t fixed_texts"
  using whole_secret_rules_redact named_secret_rule_redacts digest_rule_redacts query_rule_redacts
    userinfo_rule_redacts
  by (auto simp: assignment_rules_def) (metis fst_conv snd_conv)+

lemma apply_rules_add_nothing:
  assumes "\<And>r t. (r, t) \<in> set rules \<Longrightarrow> redaction r t fixed_texts"
    and "sublist w (apply_rules rules s)" and "mark \<notin> set w" and "\<forall>f\<in>fixed_texts. \<not> sublist w f"
  shows "sublist w s"
  using assms(1,2)
proof (induction rules arbitrary: s)
  case Nil
  then show ?case by (simp add: apply_rules_def)
next
  case (Cons p rules)
  obtain r t where p: "p = (r, t)" by (cases p)
  have "sublist w (apply_rules rules (replace_all r t s))"
    using Cons.prems(2) p by (simp add: apply_rules_def)
  with Cons.IH Cons.prems(1) have "sublist w (replace_all r t s)" by simp
  moreover have "redaction r t fixed_texts" using Cons.prems(1) p by simp
  ultimately show ?case using redaction.replace_adds_nothing assms(3,4) by blast
qed

section \<open>Bearer credentials\<close>

text \<open>The text starts with \<open>Bearer\<close> in any case, white space and a character of a token.\<close>

definition bearer_at :: "string \<Rightarrow> bool" where
  "bearer_at s \<longleftrightarrow> to_lower (take 6 s) = ''bearer'' \<and>
     (case drop 6 s of [] \<Rightarrow> False
      | c # r \<Rightarrow> js_ws c \<and> (case dropWhile js_ws r of [] \<Rightarrow> False | d # _ \<Rightarrow> token_char d))"

lemma lit_i_Cons:
  "rx_matches (lit_i (c # w)) (pv, s, g) =
     (case s of [] \<Rightarrow> [] | d # s' \<Rightarrow> if lower_char d = lower_char c then rx_matches (lit_i w) (Some d, s', g) else [])"
  by (cases w; cases s) (simp_all add: lit_i_def)

lemma lit_i_matches:
  "rx_matches (lit_i w) (pv, s, g) =
     (if to_lower (take (length w) s) = to_lower w then [advance (length w) (pv, s, g)] else [])"
proof (induction w arbitrary: pv s)
  case Nil
  then show ?case by (simp add: lit_i_def to_lower_def advance_def)
next
  case (Cons c w)
  show ?case
  proof (cases s)
    case (Cons d s')
    then show ?thesis
      using Cons.IH [of "Some d" s'] by (cases w) (auto simp: lit_i_Cons to_lower_def advance_def)
  qed (simp add: lit_i_Cons to_lower_def)
qed

lemma one_or_more_matches:
  "rx_matches (one_or_more p) (pv, s, g) = map (\<lambda>k. advance k (pv, s, g)) (rev [1..<Suc (length (takeWhile p s))])"
  by (simp add: one_or_more_def run_lengths_def Let_def)

lemma drop_in_run: "k < length (takeWhile p s) \<Longrightarrow> \<exists>c r. drop k s = c # r \<and> p c"
proof -
  assume k: "k < length (takeWhile p s)"
  then have "k < length s" using length_takeWhile_le [of p s] by linarith
  moreover have "p (s ! k)" using k by (metis nth_mem set_takeWhileD takeWhile_nth)
  ultimately show ?thesis using Cons_nth_drop_Suc [of k s] by metis
qed

lemma token_not_ws: "token_char c \<Longrightarrow> \<not> js_ws c"
  by (auto simp: token_char_def alnum_or_def alnum_def upper_letter_def lower_letter_def is_digit_def js_ws_def
      code_unit_def Let_def)

lemma ws_then_token:
  "concat (map (rx_matches (one_or_more token_char)) (rx_matches (one_or_more js_ws) (pv, s, g))) \<noteq> [] \<longleftrightarrow>
   (case s of [] \<Rightarrow> False
      | c # r \<Rightarrow> js_ws c \<and> (case dropWhile js_ws r of [] \<Rightarrow> False | d # _ \<Rightarrow> token_char d))" (is "?l \<longleftrightarrow> ?r")
proof
  let ?n = "length (takeWhile js_ws s)"
  assume ?l
  then obtain k where k: "1 \<le> k" "k \<le> ?n" and t: "rx_matches (one_or_more token_char) (advance k (pv, s, g)) \<noteq> []"
    by (auto simp: one_or_more_matches)
  from t have "takeWhile token_char (drop k s) \<noteq> []"
    by (auto simp: advance_def one_or_more_matches)
  then obtain d r' where d: "drop k s = d # r'" "token_char d"
    by (cases "drop k s") (auto split: if_splits)
  have "k = ?n"
    using k d drop_in_run [of k js_ws s] token_not_ws by (metis le_neq_implies_less list.inject)
  then have "dropWhile js_ws s = d # r'" using d by (simp add: dropWhile_eq_drop)
  moreover obtain c r where "s = c # r" "js_ws c" using k by (cases s) (auto split: if_splits)
  ultimately show ?r using d by simp
next
  assume ?r
  then obtain c r d r' where s: "s = c # r" "js_ws c" and d: "dropWhile js_ws r = d # r'" "token_char d"
    by (auto split: list.splits)
  let ?n = "length (takeWhile js_ws s)"
  have "drop ?n s = d # r'" using s d by (simp add: dropWhile_eq_drop [symmetric])
  then have "rx_matches (one_or_more token_char) (advance ?n (pv, s, g)) \<noteq> []"
    using d(2) by (simp add: advance_def one_or_more_matches)
  moreover have "advance ?n (pv, s, g) \<in> set (rx_matches (one_or_more js_ws) (pv, s, g))"
    using s unfolding one_or_more_matches by (auto simp: image_iff)
  ultimately show ?l by fastforce
qed

lemma bearer_rule_matches:
  "rx_matches (fst bearer_rule) (pv, s, g) \<noteq> [] \<longleftrightarrow> bearer_at s"
proof -
  have l: "to_lower ''Bearer'' = ''bearer''" by code_simp
  have "rx_matches (lit_i ''Bearer'') (pv, s, g) = (if to_lower (take 6 s) = ''bearer'' then [advance 6 (pv, s, g)] else [])"
    using lit_i_matches [of "''Bearer''" pv s g] l by (simp add: eval_nat_numeral)
  moreover have "rx_matches (fst bearer_rule) (pv, s, g) =
      concat (map (\<lambda>q. concat (map (rx_matches (one_or_more token_char)) (rx_matches (one_or_more js_ws) q)))
        (rx_matches (lit_i ''Bearer'') (pv, s, g)))"
    by (simp add: bearer_rule_def fun_eq_iff cong: map_cong)
  ultimately show ?thesis
    using ws_then_token [of "Some (s ! 5)" "drop 6 s" g] by (simp add: bearer_at_def advance_def)
qed

lemma bearer_at_iff:
  "bearer_at s \<longleftrightarrow>
     (\<exists>b ws t r. s = b @ ws @ t # r \<and> to_lower b = ''bearer'' \<and> ws \<noteq> [] \<and> (\<forall>c\<in>set ws. js_ws c) \<and> token_char t)"
    (is "_ \<longleftrightarrow> ?r")
proof
  assume l: "bearer_at s"
  then obtain c r t r' where "to_lower (take 6 s) = ''bearer''" "drop 6 s = c # r" "js_ws c"
    "dropWhile js_ws r = t # r'" "token_char t"
    by (auto simp: bearer_at_def split: list.splits)
  moreover then have "s = take 6 s @ (c # takeWhile js_ws r) @ t # r'"
    by (metis append_Cons append_take_drop_id takeWhile_dropWhile_id)
  moreover have "\<forall>d\<in>set (c # takeWhile js_ws r). js_ws d" using \<open>js_ws c\<close> by (auto dest: set_takeWhileD)
  ultimately show ?r by (metis list.distinct(1))
next
  assume ?r
  then obtain b ws t r where s: "s = b @ ws @ t # r" "to_lower b = ''bearer''" "ws \<noteq> []"
    "\<forall>c\<in>set ws. js_ws c" "token_char t" by blast
  have "length b = 6" using arg_cong [OF s(2), of length] by (simp add: to_lower_def)
  moreover obtain c ws' where "ws = c # ws'" using s(3) by (cases ws) auto
  moreover have "dropWhile js_ws (ws' @ t # r) = t # r"
    using s(4,5) \<open>ws = c # ws'\<close> token_not_ws by (simp add: dropWhile_append3)
  ultimately show "bearer_at s" using s by (simp add: bearer_at_def)
qed

lemma lower_b:
  assumes "lower_char d = CHR ''b''"
  shows "token_char d"
proof -
  have "code_unit (lower_char d) = 98" using assms by (simp add: code_unit_def)
  then have "code_unit d = 66 \<or> code_unit d = 98"
    by (auto simp: lower_char_def Let_def code_unit_char_of split: if_splits)
  then show ?thesis
    by (auto simp: token_char_def alnum_or_def alnum_def upper_letter_def lower_letter_def)
qed

lemma bearer_at_hd: "bearer_at s \<Longrightarrow> \<exists>d s'. s = d # s' \<and> lower_char d = CHR ''b''"
  by (cases s) (auto simp: bearer_at_def to_lower_def)

definition bearer_mark :: string where
  "bearer_mark = ''Bearer '' @ REDACTED_SECRET"

lemma no_bearer_in_mark: "k < length bearer_mark \<Longrightarrow> \<not> bearer_at (drop k bearer_mark @ x)"
proof
  assume k: "k < length bearer_mark" and b: "bearer_at (drop k bearer_mark @ x)"
  have len: "length bearer_mark = 21" by (simp add: bearer_mark_def REDACTED_SECRET_def)
  have "lower_char (bearer_mark ! k) = CHR ''b''"
    using bearer_at_hd [OF b] k by (metis Cons_nth_drop_Suc append_Cons list.inject)
  moreover have "list_all (\<lambda>k. lower_char (bearer_mark ! k) \<noteq> CHR ''b'') [1..<21]" by code_simp
  ultimately have "k = 0" using k len by (cases k) (auto simp: list_all_iff)
  with b show False
    by (simp add: bearer_at_def bearer_mark_def REDACTED_SECRET_def token_char_def alnum_or_def alnum_def
        upper_letter_def lower_letter_def is_digit_def js_ws_def code_unit_def)
qed

abbreviation (input) unbearer :: "char option \<Rightarrow> string \<Rightarrow> string" where
  "unbearer \<equiv> replace_from (fst bearer_rule) (snd bearer_rule)"

lemma unbearer_step:
  "bearer_at s \<Longrightarrow> \<exists>pv' s'. length s' < length s \<and> unbearer pv s = bearer_mark @ unbearer pv' s'"
  "\<not> bearer_at (c # s) \<Longrightarrow> unbearer pv (c # s) = c # unbearer (Some c) s"
  "unbearer pv [] = []"
proof -
  assume "bearer_at s"
  then obtain pv' s' g ps where m: "rx_matches (fst bearer_rule) (pv, s, []) = (pv', s', g) # ps"
    using bearer_rule_matches [of pv s "[]"] by (cases "rx_matches (fst bearer_rule) (pv, s, [])") auto
  moreover have "length s' < length s"
  proof -
    have "rx_min (fst bearer_rule) > 0" by (simp add: bearer_rule_def)
    moreover have "(pv', s', g) \<in> set (rx_matches (fst bearer_rule) (pv, s, []))" using m by simp
    ultimately show ?thesis using rx_matches_min by fastforce
  qed
  moreover have "expand (snd bearer_rule) g = bearer_mark"
    by (simp add: bearer_rule_def expand_def bearer_mark_def)
  ultimately show "\<exists>pv' s'. length s' < length s \<and> unbearer pv s = bearer_mark @ unbearer pv' s'"
    by (subst replace_from.simps) auto
next
  assume "\<not> bearer_at (c # s)"
  then show "unbearer pv (c # s) = c # unbearer (Some c) s"
    using bearer_rule_matches [of pv "c # s" "[]"] by (subst replace_from.simps) simp
next
  have "\<not> bearer_at []" by (simp add: bearer_at_def to_lower_def)
  then show "unbearer pv [] = []"
    using bearer_rule_matches [of pv "[]" "[]"] by (subst replace_from.simps) simp
qed

lemma unbearer_keeps:
  assumes "unbearer pv s = z @ out" and "\<forall>c\<in>set z. lower_char c \<noteq> CHR ''b''"
  shows "\<exists>pv' s'. s = z @ s' \<and> out = unbearer pv' s'"
  using assms
proof (induction z arbitrary: pv s)
  case (Cons c z)
  have lb: "lower_char (CHR ''B'') = CHR ''b''" by code_simp
  have "\<not> bearer_at s"
  proof
    assume "bearer_at s"
    from unbearer_step(1) [OF this, of pv] Cons.prems lb show False
      by (auto simp: bearer_mark_def)
  qed
  moreover then obtain d s2 where "s = d # s2"
    using Cons.prems(1) unbearer_step(3) [of pv] by (cases s) auto
  ultimately show ?case using Cons unbearer_step(2) [of d s2 pv] by auto
qed auto

lemma unbearer_token:
  assumes "unbearer pv s = t # out" and "token_char t"
  shows "\<exists>d s'. s = d # s' \<and> token_char d"
proof (cases "bearer_at s")
  case True
  then show ?thesis using bearer_at_hd lower_b by blast
next
  case False
  then show ?thesis
    using assms by (cases s) (auto simp: unbearer_step(2,3))
qed

lemma ws_not_b: "js_ws c \<Longrightarrow> lower_char c \<noteq> CHR ''b''"
  using lower_b token_not_ws by blast

lemma bearer_at_window:
  assumes "bearer_at (c # x)"
  obtains z t r where "x = z @ t # r" "\<forall>d\<in>set z. lower_char d \<noteq> CHR ''b''" "token_char t"
    "\<And>t' r'. token_char t' \<Longrightarrow> bearer_at (c # z @ t' # r')"
proof -
  obtain b ws t r where b: "c # x = b @ ws @ t # r" "to_lower b = ''bearer''" "ws \<noteq> []"
    "\<forall>c\<in>set ws. js_ws c" "token_char t" using assms unfolding bearer_at_iff by blast
  then obtain b' where b': "b = c # b'" by (cases b) (auto simp: to_lower_def)
  then have "map lower_char b' = ''earer''" using b(2) by (simp add: to_lower_def)
  then have "lower_char d \<noteq> CHR ''b''" if "d \<in> set b'" for d
    using that arg_cong [of _ _ set] by fastforce
  then have "\<forall>d\<in>set (b' @ ws). lower_char d \<noteq> CHR ''b''" using b(4) ws_not_b by auto
  moreover have "bearer_at (c # (b' @ ws) @ t' # r')" if "token_char t'" for t' r'
    unfolding bearer_at_iff using b b' that by (intro exI [of _ b] exI [of _ ws]) auto
  ultimately show ?thesis using that [of "b' @ ws" t r] b b' by auto
qed

lemma unbearer_clean: "unbearer pv s = u @ v \<Longrightarrow> \<not> bearer_at v"
proof (induction "length s" arbitrary: pv s u rule: less_induct)
  case less
  show ?case
  proof (cases "bearer_at s")
    case True
    then obtain pv' s' where s': "length s' < length s" and eq: "unbearer pv s = bearer_mark @ unbearer pv' s'"
      using unbearer_step(1) by blast
    show ?thesis
    proof (cases "length u < length bearer_mark")
      case True
      then have "v = drop (length u) bearer_mark @ unbearer pv' s'"
        using less.prems eq by (simp add: append_eq_append_conv_if split: if_splits)
      then show ?thesis using no_bearer_in_mark [OF True] by simp
    next
      case False
      then obtain u' where "unbearer pv' s' = u' @ v"
        using less.prems eq by (auto simp: append_eq_append_conv_if split: if_splits)
      then show ?thesis by (rule less.hyps [OF s'])
    qed
  next
    case nb: False
    show ?thesis
    proof (cases s)
      case (Cons c s2)
      then have eq: "unbearer pv s = c # unbearer (Some c) s2" using nb unbearer_step(2) by blast
      show ?thesis
      proof (cases u)
        case Nil
        show ?thesis
        proof
          assume "bearer_at v"
          with Nil less.prems eq have "bearer_at (c # unbearer (Some c) s2)" by simp
          then obtain z t r where z: "unbearer (Some c) s2 = z @ t # r" "\<forall>d\<in>set z. lower_char d \<noteq> CHR ''b''"
            "token_char t" and w: "\<And>t' r'. token_char t' \<Longrightarrow> bearer_at (c # z @ t' # r')"
            by (rule bearer_at_window) blast
          from unbearer_keeps [OF z(1,2)] obtain pv' s' where "s2 = z @ s'" "t # r = unbearer pv' s'" by blast
          moreover from unbearer_token [of pv' s' t r] calculation(2) z(3) obtain d s3 where
            "s' = d # s3" "token_char d" by metis
          ultimately show False using w nb Cons by simp
        qed
      next
        case (Cons d u')
        then show ?thesis using less.hyps [of s2 "Some c" u'] less.prems eq \<open>s = c # s2\<close> by simp
      qed
    qed (use less.prems in \<open>simp add: unbearer_step(3) bearer_at_def to_lower_def\<close>)
  qed
qed

lemma bearer_window_not_fixed:
  assumes "to_lower b = ''bearer''" and "f \<in> fixed_texts"
  shows "\<not> sublist (b @ x) f"
proof
  assume "sublist (b @ x) f"
  then have "set b \<subseteq> set f" by (auto simp: sublist_def)
  moreover obtain d b' where "b = d # b'" "lower_char d = CHR ''b''"
    using assms(1) by (cases b) (auto simp: to_lower_def)
  ultimately have d: "d \<in> set f" "lower_char d = CHR ''b''" by auto
  have "list_all (\<lambda>c. lower_char c \<noteq> CHR ''b'') (''redacted'' @ '':'')" by code_simp
  with d assms(2) show False by (auto simp: fixed_texts_def)
qed

lemma later_rules_no_bearer:
  assumes clean: "\<And>u v. s = u @ v \<Longrightarrow> \<not> bearer_at v"
    and "apply_rules (whole_secret_rules @ assignment_rules) s = u @ v"
  shows "\<not> bearer_at v"
proof
  assume "bearer_at v"
  then obtain b ws t r where v: "v = b @ ws @ t # r" "to_lower b = ''bearer''" "ws \<noteq> []"
    "\<forall>c\<in>set ws. js_ws c" "token_char t" unfolding bearer_at_iff by blast
  let ?w = "b @ ws @ [t]"
  have "mark \<notin> set b"
  proof
    assume "mark \<in> set b"
    then have "mark \<in> set (to_lower b)" by (force simp: to_lower_def image_iff)
    with v(2) show False by simp
  qed
  moreover have "\<not> token_char mark"
    by (simp add: token_char_def alnum_or_def alnum_def upper_letter_def lower_letter_def is_digit_def code_unit_def)
  ultimately have "mark \<notin> set ?w" using v(4,5) no_mark_classes(4) by auto
  moreover have "sublist ?w (apply_rules (whole_secret_rules @ assignment_rules) s)"
    unfolding sublist_def using assms(2) v(1) by (intro exI [of _ u] exI [of _ r]) simp
  moreover have "\<forall>f\<in>fixed_texts. \<not> sublist ?w f" using bearer_window_not_fixed [OF v(2)] by blast
  ultimately have "sublist ?w s" using apply_rules_add_nothing later_rules_redact by blast
  then obtain u' v' where "s = u' @ (b @ ws @ t # v')" by (auto simp: sublist_def)
  moreover have "bearer_at (b @ ws @ t # v')" unfolding bearer_at_iff using v by blast
  ultimately show False using clean by blast
qed

lemma redacted_has_no_bearer:
  "apply_rules (authorization_rules @ bearer_rule # whole_secret_rules @ assignment_rules) s = u @ v \<Longrightarrow>
   \<not> bearer_at v"
proof -
  let ?x = "apply_rules authorization_rules s"
  assume "apply_rules (authorization_rules @ bearer_rule # whole_secret_rules @ assignment_rules) s = u @ v"
  then have "apply_rules (whole_secret_rules @ assignment_rules) (unbearer None ?x) = u @ v"
    by (simp add: apply_rules_def replace_all_def case_prod_beta)
  then show ?thesis by (rule later_rules_no_bearer [rotated]) (rule unbearer_clean)
qed

section \<open>Sanitized values\<close>

lemma replace_all_class: "replace_all (Cls p) [Lit [d]] s = map (\<lambda>c. if p c then d else c) s"
proof -
  have "replace_from (Cls p) [Lit [d]] pv s = map (\<lambda>c. if p c then d else c) s" for pv
  proof (induction s arbitrary: pv)
    case Nil
    show ?case by (subst replace_from.simps) simp
  next
    case (Cons c s)
    show ?case by (subst replace_from.simps) (simp add: Cons expand_def)
  qed
  then show ?thesis by (simp add: replace_all_def)
qed

lemma truncateLogText_length: "length (truncateLogText v n) \<le> n"
  by (simp add: truncateLogText_def)

lemma truncateLogText_set: "set (truncateLogText v n) \<subseteq> set v \<union> set LOG_TRUNCATED_MARKER"
  by (auto simp: truncateLogText_def dest: in_set_takeD)

lemma sanitizeLogValue_clean: "c \<in> set (sanitizeLogValue v n) \<Longrightarrow> \<not> log_control c"
proof -
  have "\<not> log_control (CHR '' '')" by (simp add: log_control_def code_unit_def)
  moreover have "list_all (\<lambda>c. \<not> log_control c) LOG_TRUNCATED_MARKER"
    unfolding LOG_TRUNCATED_MARKER_def by code_simp
  moreover assume "c \<in> set (sanitizeLogValue v n)"
  then have "c \<in> set (map (\<lambda>c. if log_control c then CHR '' '' else c) v) \<union> set LOG_TRUNCATED_MARKER"
    unfolding sanitizeLogValue_def replace_all_class using truncateLogText_set by blast
  ultimately show ?thesis by (auto simp: list_all_iff)
qed

lemma sanitizeLogValue_length: "length (sanitizeLogValue v n) \<le> n"
  by (simp add: sanitizeLogValue_def truncateLogText_length)

lemma sanitizeLogValue_id:
  "\<forall>c\<in>set v. \<not> log_control c \<Longrightarrow> length v \<le> n \<Longrightarrow> sanitizeLogValue v n = v"
  by (simp add: sanitizeLogValue_def replace_all_class truncateLogText_def map_idI)

section \<open>Properties\<close>

text \<open>
  C23 (redaction_removes_bearer). In a text of at most 8192 characters, redaction leaves no bearer
  credential: nowhere in the result do the letters of \<open>Bearer\<close>, in any case, white space and a
  character of a token follow each other. The rules applied after the bearer rule cannot bring one
  back.
\<close>

theorem redaction_removes_bearer:
  "length s \<le> DEFAULT_REDACTION_INPUT_MAX_LEN \<Longrightarrow> redactSensitiveText s = u @ v \<Longrightarrow> \<not> bearer_at v"
  using redacted_has_no_bearer [of s u v] by (simp add: redactSensitiveText_def Let_def)

theorem redaction_removes_bearer_witness:
  "\<not> bearer_at (drop 3 (redactSensitiveText ''a: Bearer abc.def''))"
  using redaction_removes_bearer
    [of "''a: Bearer abc.def''" "take 3 (redactSensitiveText ''a: Bearer abc.def'')"
        "drop 3 (redactSensitiveText ''a: Bearer abc.def'')"]
  by (simp add: DEFAULT_REDACTION_INPUT_MAX_LEN_def)

text \<open>
  Control characters that are not white space are replaced after the redaction rules have run, so a
  token separated from \<open>Bearer\<close> by such a character is logged in clear.
\<close>

lemma needs_missing:
  "\<forall>p\<in>set rules. rx_needs (\<lambda>c. c \<notin> set s) (fst p) \<Longrightarrow> apply_rules rules s = s"
proof (induction rules)
  case (Cons p rules)
  then have "replace_all (fst p) (snd p) s = s"
    by (intro replace_all_unneeded [of "\<lambda>c. c \<notin> set s"]) auto
  with Cons show ?case by (simp add: apply_rules_def case_prod_beta)
qed (simp add: apply_rules_def)

lemma lit_needs [simp]:
  "rx_needs P (lit w) \<longleftrightarrow> (\<exists>c\<in>set w. P c)"
  "rx_needs P (lit_i w) \<longleftrightarrow> (\<exists>c\<in>set w. \<forall>d. lower_char d = lower_char c \<longrightarrow> P d)"
  "rx_needs P (rx_seq rs) \<longleftrightarrow> (\<exists>r\<in>set rs. rx_needs P r)"
  "rx_needs P (rx_alts rs) \<longleftrightarrow> (\<forall>r\<in>set rs. rx_needs P r)"
proof -
  show seq: "rx_needs P (rx_seq rs) \<longleftrightarrow> (\<exists>r\<in>set rs. rx_needs P r)" for rs
    by (induction rs rule: rx_seq.induct) auto
  show "rx_needs P (lit w) \<longleftrightarrow> (\<exists>c\<in>set w. P c)"
    "rx_needs P (lit_i w) \<longleftrightarrow> (\<exists>c\<in>set w. \<forall>d. lower_char d = lower_char c \<longrightarrow> P d)"
    by (simp_all add: lit_def lit_i_def seq)
  show "rx_needs P (rx_alts rs) \<longleftrightarrow> (\<forall>r\<in>set rs. rx_needs P r)"
    by (induction rs rule: rx_alts.induct) auto
qed

definition leaked :: string where
  "leaked = ''Bearer'' @ [CHR 0x00] @ ''abc''"

lemma leaked_chars:
  "\<forall>d\<in>set leaked. \<not> js_ws d \<and> lower_char d \<noteq> lower_char (CHR '':'') \<and> d \<notin> set ''.-_zK:=?&''"
  by code_simp

lemma leaked_untouched: "redactSensitiveText leaked = leaked"
proof -
  have "\<forall>p\<in>set (authorization_rules @ bearer_rule # whole_secret_rules @ assignment_rules).
      rx_needs (\<lambda>c. c \<notin> set leaked) (fst p)"
    using leaked_chars
    by (auto simp: authorization_rules_def bearer_rule_def whole_secret_rules_def assignment_rules_def
        named_secret_rule_def digest_rule_def query_rule_def userinfo_rule_def one_or_more_def)
  then have "apply_rules (authorization_rules @ bearer_rule # whole_secret_rules @ assignment_rules) leaked = leaked"
    by (rule needs_missing)
  moreover have "length leaked \<le> DEFAULT_REDACTION_INPUT_MAX_LEN"
    by (simp add: leaked_def DEFAULT_REDACTION_INPUT_MAX_LEN_def)
  ultimately show ?thesis by (simp add: redactSensitiveText_def Let_def)
qed

lemma token_logged_after_control_char:
  "sanitizeLogMessage leaked DEFAULT_LOG_MESSAGE_MAX_LEN = ''Bearer abc''"
  unfolding sanitizeLogMessage_def leaked_untouched sanitizeLogValue_def replace_all_class
  by (simp add: leaked_def log_control_def code_unit_def truncateLogText_def DEFAULT_LOG_MESSAGE_MAX_LEN_def)

end
