(* ===== verification/Proxy_Headers.thy ===== *)
theory Proxy_Headers
  imports Gateway_Auth Proxy_Errors "HOL-Library.List_Lexorder" "HOL-Library.Char_ord"
begin

text \<open>
  What the proxy sends upstream and copies back: \<^verbatim>\<open>proxy/proxy-headers.ts\<close>, \<^verbatim>\<open>config/provider-auth.ts\<close>,
  \<^verbatim>\<open>proxy/upstream-url.ts\<close>, \<^verbatim>\<open>proxy/proxy-upstream-model.ts\<close>, with the routes of \<^verbatim>\<open>platform/types.ts\<close> and
  the \<open>Headers\<close> object of the fetch standard.

  Main results: the request sent upstream carries no credential, hop-by-hop header or browser context
  of the client, and the provider's key in exactly one header; header values that leave the gateway
  in either direction have no control characters and bounded length.
\<close>

section \<open>The \<open>Headers\<close> object\<close>

text \<open>
  Lower-case names with the list of their values in the order in which they were appended. Names
  are iterated in order; the values of a name are joined with \<open>", "\<close>, except for \<open>set-cookie\<close>.
  \<open>set\<close> and \<open>append\<close> strip white space from both ends of a value and throw for a name that is no
  token or for a value with a NUL, CR or LF or with a code above 255.
\<close>

type_synonym fetch_headers = "(string, string list) js_map"

definition header_ws :: "char \<Rightarrow> bool" where
  "header_ws c \<longleftrightarrow> code_unit c \<in> {9, 10, 13, 32}"

definition strip_header :: "string \<Rightarrow> string" where
  "strip_header v = rev (dropWhile header_ws (rev (dropWhile header_ws v)))"

definition header_name_char :: "char \<Rightarrow> bool" where
  "header_name_char c \<longleftrightarrow> alnum c \<or> c \<in> set [CHR ''!'', CHR ''#'', CHR ''$'', CHR ''%'', CHR ''&'', CHR 0x27, CHR ''*'',
     CHR ''+'', CHR ''-'', CHR ''.'', CHR ''^'', CHR ''_'', CHR 0x60, CHR ''|'', CHR ''~'']"

definition is_header_name :: "string \<Rightarrow> bool" where
  "is_header_name n \<longleftrightarrow> n \<noteq> [] \<and> list_all header_name_char n"

definition is_header_value :: "string \<Rightarrow> bool" where
  "is_header_value v \<longleftrightarrow> list_all (\<lambda>c. code_unit c \<notin> {0, 10, 13}) v"

definition header_type_error :: thrown where
  "header_type_error = ErrorObject PlainError ''TypeError'' ''Invalid header'' [] None"

definition h_get :: "fetch_headers \<Rightarrow> string \<Rightarrow> string option" where
  "h_get h n = map_option (join '', '') (jm_get h (to_lower n))"

definition h_has :: "fetch_headers \<Rightarrow> string \<Rightarrow> bool" where
  "h_has h n \<longleftrightarrow> jm_get h (to_lower n) \<noteq> None"

definition h_set :: "string \<Rightarrow> string \<Rightarrow> fetch_headers \<Rightarrow> thrown + fetch_headers" where
  "h_set n v h =
     (let v' = strip_header v in
      if is_header_name n \<and> is_header_value v' then Inr (jm_set (to_lower n) [v'] h) else Inl header_type_error)"

definition h_append :: "string \<Rightarrow> string \<Rightarrow> fetch_headers \<Rightarrow> thrown + fetch_headers" where
  "h_append n v h =
     (let v' = strip_header v in
      if is_header_name n \<and> is_header_value v'
      then Inr (jm_set (to_lower n) ((case jm_get h (to_lower n) of None \<Rightarrow> [] | Some vs \<Rightarrow> vs) @ [v']) h)
      else Inl header_type_error)"

definition h_entries :: "fetch_headers \<Rightarrow> (string \<times> string) list" where
  "h_entries h =
     concat (map (\<lambda>(n, vs). if n = ''set-cookie'' then map (\<lambda>v. (n, v)) vs else [(n, join '', '' vs)]) (sort_key fst h))"

section \<open>Routes\<close>

datatype model_id_format = passthrough | creator_model

record route_config =
  rc_serviceProvider :: string
  rc_api_mode :: api_mode
  rc_anthropicVersion :: "string option"
  rc_upstreamModelIdFormat :: "model_id_format option"
  rc_modelCreator :: string
  rc_model :: string
  rc_baseUrl :: string
  rc_allowPrivateEndpoints :: bool
  rc_apiKeyEnv :: "string option"
  rc_inlineApiKey :: "string option"
  rc_apiKeyOverride :: "string option"
  rc_timeoutMs :: int

definition buildUpstreamModel :: "route_config \<Rightarrow> string" where
  "buildUpstreamModel route =
     (if rc_upstreamModelIdFormat route = Some creator_model
      then (if str_includes ''/'' (rc_model route) then rc_model route
            else rc_modelCreator route @ ''/'' @ rc_model route)
      else rc_model route)"

text \<open>
  \<open>createUpstreamUrl\<close>. The URL parser and its printer are parameters; assigning \<open>pathname\<close> goes
  through \<open>setPath\<close>, which normalises a path as the URL standard says.
\<close>

record url_ops =
  uo_parse :: "string \<Rightarrow> parsed_url option"
  uo_print :: "parsed_url \<Rightarrow> string"
  uo_setPath :: "string \<Rightarrow> parsed_url \<Rightarrow> parsed_url"

definition strip_slashes :: "string \<Rightarrow> string" where
  "strip_slashes p = rev (dropWhile (\<lambda>c. c = CHR ''/'') (rev p))"

definition collapse_slashes :: "string \<Rightarrow> string" where
  "collapse_slashes p = replace_all (Many True 2 None (\<lambda>c. c = CHR ''/'')) [Lit ''/''] p"

definition invalid_url_error :: thrown where
  "invalid_url_error = ErrorObject PlainError ''TypeError'' ''Invalid URL'' [(''code'', JStr ''ERR_INVALID_URL'')] None"

definition nth_last :: "nat \<Rightarrow> string list \<Rightarrow> string option" where
  "nth_last k xs = (if k < length xs then Some (rev xs ! k) else None)"

definition upstream_path :: "string \<Rightarrow> api_mode \<Rightarrow> string" where
  "upstream_path pathname apiMode =
     (if apiMode = anthropic_messages then
        (if ends_with ''/anthropic'' pathname then pathname @ ''/v1/messages''
         else if ends_with ''/v1'' pathname then pathname @ ''/messages''
         else pathname @ ''/messages'')
      else pathname @ ''/chat/completions'')"

definition createUpstreamUrl :: "url_ops \<Rightarrow> string \<Rightarrow> api_mode \<Rightarrow> thrown + string" where
  "createUpstreamUrl ops baseUrl apiMode =
     (case uo_parse ops baseUrl of
        None \<Rightarrow> Inl invalid_url_error
      | Some url \<Rightarrow>
          (let pathname = strip_slashes (u_pathname url);
               segments = filter (\<lambda>s. length s > 0) (split_char (CHR ''/'') pathname)
           in if (nth_last 1 segments = Some ''chat'' \<and> nth_last 0 segments = Some ''completions'')
                 \<or> nth_last 0 segments = Some ''messages''
              then Inr (uo_print ops (uo_setPath ops pathname url))
              else (let url1 = uo_setPath ops (upstream_path pathname apiMode) url;
                        url2 = uo_setPath ops (collapse_slashes (u_pathname url1)) url1
                    in Inr (uo_print ops url2))))"

section \<open>Provider keys\<close>

definition hasSafeHttpHeaderValueCharset :: "string \<Rightarrow> bool" where
  "hasSafeHttpHeaderValueCharset v \<longleftrightarrow> list_all (\<lambda>c. code_unit c = 9 \<or> (32 \<le> code_unit c \<and> code_unit c \<le> 126)) v"

definition providerAuthMisconfiguredError :: "string option \<Rightarrow> string \<Rightarrow> thrown" where
  "providerAuthMisconfiguredError envVar code =
     ErrorObject ProviderAuthMisconfigured ''ProviderAuthMisconfiguredError''
       (if code = ''missing_or_empty''
        then ''Provider auth env var '' @ quoted (case envVar of None \<Rightarrow> ''null'' | Some v \<Rightarrow> v) @ '' is not set or is empty.''
        else (case envVar of
                None \<Rightarrow> ''Provider inline api_key contains invalid header characters.''
              | Some v \<Rightarrow> ''Provider auth env var '' @ quoted v @ '' contains invalid header characters.''))
       [(''code'', JStr code), (''envVar'', (case envVar of None \<Rightarrow> JNull | Some v \<Rightarrow> JStr v))] None"

definition routeHasConfiguredProviderAuth :: "route_config \<Rightarrow> bool" where
  "routeHasConfiguredProviderAuth route \<longleftrightarrow>
     rc_inlineApiKey route \<noteq> None \<or> rc_apiKeyOverride route \<noteq> None \<or> rc_apiKeyEnv route \<noteq> None"

definition assertValidResolvedProviderApiKey :: "string \<Rightarrow> string option \<Rightarrow> thrown + string" where
  "assertValidResolvedProviderApiKey apiKey envVar =
     (if \<not> hasSafeHttpHeaderValueCharset apiKey
      then Inl (providerAuthMisconfiguredError envVar ''invalid_api_key_charset'')
      else Inr apiKey)"

definition resolveRouteApiKey :: "env_lookup \<Rightarrow> route_config \<Rightarrow> thrown + string option" where
  "resolveRouteApiKey env route =
     (case rc_inlineApiKey route of
        Some key \<Rightarrow> rbind (assertValidResolvedProviderApiKey key None) (\<lambda>k. Inr (Some k))
      | None \<Rightarrow>
          (case rc_apiKeyEnv route of
             None \<Rightarrow> Inr None
           | Some envName \<Rightarrow>
               (case rc_apiKeyOverride route of
                  Some key \<Rightarrow> rbind (assertValidResolvedProviderApiKey key (Some envName)) (\<lambda>k. Inr (Some k))
                | None \<Rightarrow>
                    (case env envName of
                       None \<Rightarrow> Inl (providerAuthMisconfiguredError (Some envName) ''missing_or_empty'')
                     | Some v \<Rightarrow>
                         if \<not> non_blank v then Inl (providerAuthMisconfiguredError (Some envName) ''missing_or_empty'')
                         else rbind (assertValidResolvedProviderApiKey v (Some envName)) (\<lambda>k. Inr (Some k))))))"

section \<open>Header policy\<close>

definition HOP_BY_HOP_HEADERS :: "string list" where
  "HOP_BY_HOP_HEADERS =
     [''connection'', ''keep-alive'', ''proxy-authenticate'', ''proxy-authorization'', ''te'', ''trailer'',
      ''transfer-encoding'', ''upgrade'']"

definition BLOCKED_UPSTREAM_RESPONSE_HEADERS :: "string list" where
  "BLOCKED_UPSTREAM_RESPONSE_HEADERS =
     [''set-cookie'', ''set-cookie2'', ''authorization'', ''proxy-authorization'', ''x-api-key'', ''forwarded'', ''via'',
      ''x-forwarded-for'', ''x-forwarded-host'', ''x-forwarded-proto'']"

definition MANAGED_HEADERS :: "string list" where
  "MANAGED_HEADERS =
     [''accept-encoding'', ''authorization'', ''x-api-key'', ''x-switchmaxxer-inspect'', ''x-switchmaxxer-inspect-id'',
      ''x-switchmaxxer-inspect-token'', ''anthropic-version'', ''host'', ''content-length'']"

definition LOCAL_BROWSER_CONTEXT_HEADERS :: "string list" where
  "LOCAL_BROWSER_CONTEXT_HEADERS = [''cookie'', ''cookie2'', ''origin'', ''referer'', ''referrer'', ''user-agent'']"

definition SENSITIVE_LOG_HEADERS :: "string list" where
  "SENSITIVE_LOG_HEADERS = [''authorization'', ''proxy-authorization'', ''x-api-key'']"

definition UPSTREAM_USER_AGENT :: string where
  "UPSTREAM_USER_AGENT = ''switchmaxxer-gateway''"

definition MAX_FORWARDED_HEADER_VALUE_BYTES :: nat where
  "MAX_FORWARDED_HEADER_VALUE_BYTES = 8 * 1024"

definition invalid_header_value_error :: thrown where
  "invalid_header_value_error = ErrorObject PlainError ''Error'' ''invalid_header_value'' [] None"

definition safe_header_value :: "string \<Rightarrow> bool" where
  "safe_header_value v \<longleftrightarrow> byte_length v \<le> MAX_FORWARDED_HEADER_VALUE_BYTES \<and> hasSafeHttpHeaderValueCharset v"

definition assertSafeForwardedHeaderValue :: "string \<Rightarrow> thrown + unit" where
  "assertSafeForwardedHeaderValue v =
     (if byte_length v > MAX_FORWARDED_HEADER_VALUE_BYTES then Inl invalid_header_value_error
      else if \<not> hasSafeHttpHeaderValueCharset v then Inl invalid_header_value_error
      else Inr ())"

definition isSafeForwardedHeaderName :: "string \<Rightarrow> bool" where
  "isSafeForwardedHeaderName n = is_header_name n"

definition skipped_incoming :: "string \<Rightarrow> bool" where
  "skipped_incoming lowerKey \<longleftrightarrow>
     lowerKey \<in> set HOP_BY_HOP_HEADERS \<or> lowerKey \<in> set MANAGED_HEADERS \<or> lowerKey \<in> set LOCAL_BROWSER_CONTEXT_HEADERS"

fun append_items :: "string \<Rightarrow> string list \<Rightarrow> fetch_headers \<Rightarrow> thrown + fetch_headers" where
  "append_items key [] h = Inr h"
| "append_items key (v # vs) h =
     rbind (assertSafeForwardedHeaderValue v) (\<lambda>_. rbind (h_append key v h) (\<lambda>h'. append_items key vs h'))"

fun sanitize_loop :: "(string \<times> header_value) list \<Rightarrow> fetch_headers \<Rightarrow> thrown + fetch_headers" where
  "sanitize_loop [] h = Inr h"
| "sanitize_loop ((key, value) # rest) h =
     (let lowerKey = to_lower key in
      if skipped_incoming lowerKey then sanitize_loop rest h
      else (case value of
              HArr vs \<Rightarrow> rbind (append_items lowerKey vs h) (sanitize_loop rest)
            | HStr v \<Rightarrow> rbind (assertSafeForwardedHeaderValue v)
                          (\<lambda>_. rbind (h_set lowerKey v h) (sanitize_loop rest))))"

definition sanitizeIncomingHeaders :: "(string, header_value) js_map \<Rightarrow> thrown + fetch_headers" where
  "sanitizeIncomingHeaders headers =
     rbind (sanitize_loop headers []) (h_set ''user-agent'' UPSTREAM_USER_AGENT)"

definition applyProviderHeaders :: "env_lookup \<Rightarrow> route_config \<Rightarrow> fetch_headers \<Rightarrow> thrown + fetch_headers" where
  "applyProviderHeaders env route headers =
     rbind (resolveRouteApiKey env route) (\<lambda>apiKey.
       if rc_api_mode route = anthropic_messages
       then rbind (h_set ''anthropic-version''
                     (case rc_anthropicVersion route of None \<Rightarrow> ''2023-06-01'' | Some v \<Rightarrow> v) headers)
              (\<lambda>h. case apiKey of None \<Rightarrow> Inr h | Some k \<Rightarrow> h_set ''x-api-key'' k h)
       else (case apiKey of None \<Rightarrow> Inr headers | Some k \<Rightarrow> h_set ''authorization'' (''Bearer '' @ k) headers))"

definition sanitizeHeadersForLogging :: "fetch_headers \<Rightarrow> (string, string) js_map" where
  "sanitizeHeadersForLogging headers =
     foldl (\<lambda>acc (key, value).
         (let lowerKey = to_lower key in
          jm_set lowerKey (if lowerKey \<in> set SENSITIVE_LOG_HEADERS then REDACTED_SECRET else value) acc))
       [] (h_entries headers)"

text \<open>A header of the response to the client; setting a name again replaces it.\<close>

type_synonym client_headers = "(string, string) js_map"

definition copied_header :: "string list \<Rightarrow> string \<times> string \<Rightarrow> bool" where
  "copied_header omitted e =
     (case e of (key, value) \<Rightarrow>
        (let lowerKey = to_lower key in
         \<not> (lowerKey \<in> set HOP_BY_HOP_HEADERS \<or> lowerKey \<in> set BLOCKED_UPSTREAM_RESPONSE_HEADERS
            \<or> lowerKey \<in> set omitted \<or> \<not> isSafeForwardedHeaderName key)
         \<and> is_ok (assertSafeForwardedHeaderValue value)))"

definition set_client_header :: "string \<Rightarrow> string \<Rightarrow> client_headers \<Rightarrow> client_headers" where
  "set_client_header name value target = jm_set (to_lower name) value target"

definition copyResponseHeaders :: "fetch_headers \<Rightarrow> client_headers \<Rightarrow> string list \<Rightarrow> client_headers" where
  "copyResponseHeaders source target omittedHeaders =
     (let omitted = map to_lower omittedHeaders in
      foldl (\<lambda>acc e. if copied_header omitted e then set_client_header (fst e) (snd e) acc else acc)
        target (h_entries source))"

definition copyBufferedResponseHeaders :: "fetch_headers \<Rightarrow> client_headers \<Rightarrow> client_headers" where
  "copyBufferedResponseHeaders source target = copyResponseHeaders source target [''content-encoding'']"

text \<open>The headers of the request that \<open>executeProxyRequest\<close> sends.\<close>

definition upstream_headers ::
  "env_lookup \<Rightarrow> route_config \<Rightarrow> bool \<Rightarrow> fetch_headers \<Rightarrow> thrown + fetch_headers" where
  "upstream_headers env route stream sanitized =
     rbind (h_set ''content-type'' ''application/json; charset=utf-8'' sanitized) (\<lambda>h.
     rbind (h_set ''accept'' (if stream then ''text/event-stream'' else ''application/json'') h) (\<lambda>h.
     rbind (h_set ''accept-encoding'' ''identity'' h) (applyProviderHeaders env route)))"

section \<open>Well-formed headers\<close>

definition headers_wf :: "fetch_headers \<Rightarrow> bool" where
  "headers_wf h \<longleftrightarrow> jm_inv h \<and>
     (\<forall>(n, vs)\<in>set h. is_header_name n \<and> to_lower n = n \<and> (\<forall>v\<in>set vs. is_header_value v))"

lemma code_unit_lower_char:
  "code_unit (lower_char c) =
     (if (65 \<le> code_unit c \<and> code_unit c \<le> 90) \<or> (192 \<le> code_unit c \<and> code_unit c \<le> 222 \<and> code_unit c \<noteq> 215)
      then code_unit c + 32 else code_unit c)"
  by (simp add: lower_char_def Let_def code_unit_char_of)

lemma lower_char_idem [simp]: "lower_char (lower_char c) = lower_char c"
proof -
  let ?d = "lower_char c"
  have "\<not> ((65 \<le> code_unit ?d \<and> code_unit ?d \<le> 90) \<or> (192 \<le> code_unit ?d \<and> code_unit ?d \<le> 222 \<and> code_unit ?d \<noteq> 215))"
    unfolding code_unit_lower_char by auto
  then show ?thesis unfolding lower_char_def [of ?d] Let_def by (rule if_not_P)
qed

lemma to_lower_idem [simp]: "to_lower (to_lower s) = to_lower s"
  by (simp add: to_lower_def)

lemma header_name_lower_char: "header_name_char c \<Longrightarrow> header_name_char (lower_char c)"
proof -
  assume c: "header_name_char c"
  show ?thesis
  proof (cases "65 \<le> code_unit c \<and> code_unit c \<le> 90")
    case True
    then have "lower_letter (lower_char c)" by (simp add: lower_letter_def code_unit_lower_char)
    then show ?thesis by (simp add: header_name_char_def alnum_def)
  next
    case False
    have "code_unit c < 192"
      using c by (auto simp: header_name_char_def alnum_def upper_letter_def lower_letter_def is_digit_def code_unit_def)
    with False have "lower_char c = c" by (auto simp: lower_char_def Let_def)
    with c show ?thesis by simp
  qed
qed

lemma header_name_lower [simp]: "is_header_name n \<Longrightarrow> is_header_name (to_lower n)"
  by (auto simp: is_header_name_def to_lower_def list_all_iff header_name_lower_char)

lemma headers_wf_Nil [simp]: "headers_wf []"
  by (simp add: headers_wf_def)

lemma headers_wf_put:
  assumes "headers_wf h" "is_header_name n" "\<forall>v\<in>set vs. is_header_value v"
  shows "headers_wf (jm_set (to_lower n) vs h)"
  unfolding headers_wf_def
proof (intro conjI ballI)
  show "jm_inv (jm_set (to_lower n) vs h)" using assms(1) by (simp add: headers_wf_def jm_inv_set)
  fix e assume "e \<in> set (jm_set (to_lower n) vs h)"
  then consider "e = (to_lower n, vs)" | "e \<in> set h"
    using assms(1) jm_set_mem unfolding headers_wf_def by metis
  then show "case e of (n, vs) \<Rightarrow> is_header_name n \<and> to_lower n = n \<and> (\<forall>v\<in>set vs. is_header_value v)"
    by cases (use assms in \<open>auto simp: headers_wf_def\<close>)
qed

lemma headers_wf_get: "headers_wf h \<Longrightarrow> jm_get h n = Some vs \<Longrightarrow> \<forall>v\<in>set vs. is_header_value v"
  using jm_get_mem by (fastforce simp: headers_wf_def)

lemma h_set_Inr:
  "h_set n v h = Inr h' \<longleftrightarrow> is_header_name n \<and> is_header_value (strip_header v) \<and> h' = jm_set (to_lower n) [strip_header v] h"
  by (auto simp: h_set_def Let_def)

lemma h_set_wf: "headers_wf h \<Longrightarrow> h_set n v h = Inr h' \<Longrightarrow> headers_wf h'"
  by (auto simp: h_set_Inr intro!: headers_wf_put)

lemma h_append_wf: "headers_wf h \<Longrightarrow> h_append n v h = Inr h' \<Longrightarrow> headers_wf h'"
  by (auto simp: h_append_def Let_def intro!: headers_wf_put split: if_splits option.splits)
    (use headers_wf_get in blast)

lemma h_set_get: "h_set n v h = Inr h' \<Longrightarrow> jm_get h' k = (if k = to_lower n then Some [strip_header v] else jm_get h k)"
  by (auto simp: h_set_Inr jm_get_set)

lemma h_append_keys: "h_append n v h = Inr h' \<Longrightarrow> jm_keys h' = insert (to_lower n) (jm_keys h)"
  by (auto simp: h_append_def Let_def jm.keys_put split: if_splits)

lemma h_set_keys: "h_set n v h = Inr h' \<Longrightarrow> jm_keys h' = insert (to_lower n) (jm_keys h)"
  by (auto simp: h_set_Inr jm.keys_put)

lemma append_items_facts:
  "append_items k vs h = Inr h' \<Longrightarrow> headers_wf h \<Longrightarrow> headers_wf h' \<and> jm_keys h' \<subseteq> insert (to_lower k) (jm_keys h)"
proof (induction vs arbitrary: h)
  case (Cons v vs)
  then obtain h1 where "h_append k v h = Inr h1" "append_items k vs h1 = Inr h'" by (auto simp: res_simps)
  with Cons h_append_wf h_append_keys show ?case by blast
qed auto

lemma sanitize_loop_facts:
  "sanitize_loop hs h = Inr h' \<Longrightarrow> headers_wf h \<Longrightarrow> \<forall>k\<in>jm_keys h. \<not> skipped_incoming k \<Longrightarrow>
   headers_wf h' \<and> (\<forall>k\<in>jm_keys h'. \<not> skipped_incoming k)"
proof (induction hs arbitrary: h)
  case (Cons e rest)
  obtain key hv where e: "e = (key, hv)" by (cases e)
  let ?k = "to_lower key"
  show ?case
  proof (cases "skipped_incoming ?k")
    case True
    then show ?thesis using Cons e by simp
  next
    case False
    show ?thesis
    proof (cases hv)
      case (HStr v)
      then obtain h1 where "h_set ?k v h = Inr h1" "sanitize_loop rest h1 = Inr h'"
        using Cons.prems(1) e False by (auto simp: res_simps Let_def)
      then show ?thesis
        using Cons.IH [of h1] Cons.prems False h_set_wf h_set_keys by fastforce
    next
      case (HArr vs)
      then obtain h1 where 1: "append_items ?k vs h = Inr h1" and 2: "sanitize_loop rest h1 = Inr h'"
        using Cons.prems(1) e False by (auto simp: res_simps Let_def)
      from append_items_facts [OF 1 Cons.prems(2)] Cons.prems(3) False
      have "headers_wf h1" "\<forall>k\<in>jm_keys h1. \<not> skipped_incoming k" by auto
      with Cons.IH [OF 2] show ?thesis by simp
    qed
  qed
qed simp

lemma sanitizeIncomingHeaders_facts:
  assumes "sanitizeIncomingHeaders hs = Inr h"
  shows "headers_wf h" and "jm_get h ''user-agent'' = Some [UPSTREAM_USER_AGENT]"
    and "k \<in> jm_keys h \<Longrightarrow> k = ''user-agent'' \<or> \<not> skipped_incoming k"
proof -
  obtain h1 where 1: "sanitize_loop hs [] = Inr h1" and 2: "h_set ''user-agent'' UPSTREAM_USER_AGENT h1 = Inr h"
    using assms by (auto simp: sanitizeIncomingHeaders_def res_simps)
  have wf: "headers_wf h1" "\<forall>k\<in>jm_keys h1. \<not> skipped_incoming k"
    using sanitize_loop_facts [OF 1] by (simp_all add: jm_keys_def)
  have low: "to_lower ''user-agent'' = ''user-agent''" "strip_header UPSTREAM_USER_AGENT = UPSTREAM_USER_AGENT"
    by code_simp+
  show "headers_wf h" using h_set_wf [OF wf(1) 2] .
  show "jm_get h ''user-agent'' = Some [UPSTREAM_USER_AGENT]" using h_set_get [OF 2] low by simp
  show "k = ''user-agent'' \<or> \<not> skipped_incoming k" if "k \<in> jm_keys h"
    using that h_set_keys [OF 2] wf(2) low by auto
qed

section \<open>Headers sent upstream\<close>

definition provider_key :: "env_lookup \<Rightarrow> route_config \<Rightarrow> string option" where
  "provider_key env route = (case resolveRouteApiKey env route of Inr k \<Rightarrow> k | Inl _ \<Rightarrow> None)"

lemma lower_names [simp]:
  "to_lower ''content-type'' = ''content-type''" "to_lower ''accept'' = ''accept''"
  "to_lower ''accept-encoding'' = ''accept-encoding''" "to_lower ''anthropic-version'' = ''anthropic-version''"
  "to_lower ''x-api-key'' = ''x-api-key''" "to_lower ''authorization'' = ''authorization''"
  by code_simp+

lemma applyProviderHeaders_get:
  assumes "applyProviderHeaders env route h = Inr h'" and "headers_wf h"
  shows "headers_wf h' \<and>
    (\<forall>k. jm_get h' k =
      (if k = ''x-api-key'' \<and> rc_api_mode route = anthropic_messages \<and> provider_key env route \<noteq> None
       then Some [strip_header (the (provider_key env route))]
       else if k = ''anthropic-version'' \<and> rc_api_mode route = anthropic_messages
       then Some [strip_header (case rc_anthropicVersion route of None \<Rightarrow> ''2023-06-01'' | Some v \<Rightarrow> v)]
       else if k = ''authorization'' \<and> rc_api_mode route \<noteq> anthropic_messages \<and> provider_key env route \<noteq> None
       then Some [strip_header (''Bearer '' @ the (provider_key env route))]
       else jm_get h k))"
proof -
  obtain key where key: "resolveRouteApiKey env route = Inr key"
    using assms(1) by (auto simp: applyProviderHeaders_def res_simps)
  then have pk: "provider_key env route = key" by (simp add: provider_key_def)
  show ?thesis
  proof (cases "rc_api_mode route = anthropic_messages")
    case True
    then obtain h1 where 1: "h_set ''anthropic-version''
        (case rc_anthropicVersion route of None \<Rightarrow> ''2023-06-01'' | Some v \<Rightarrow> v) h = Inr h1"
      and 2: "(case key of None \<Rightarrow> Inr h1 | Some k \<Rightarrow> h_set ''x-api-key'' k h1) = Inr h'"
      using assms(1) key by (auto simp: applyProviderHeaders_def res_simps)
    have "headers_wf h1" using h_set_wf [OF assms(2) 1] .
    then show ?thesis
      using 2 True pk h_set_get [OF 1] h_set_wf [of h1] h_set_get [of _ _ h1] by (cases key) auto
  next
    case False
    then have "(case key of None \<Rightarrow> Inr h | Some k \<Rightarrow> h_set ''authorization'' (''Bearer '' @ k) h) = Inr h'"
      using assms(1) key by (simp add: applyProviderHeaders_def)
    then show ?thesis
      using False pk assms(2) h_set_wf [of h] h_set_get [of _ _ h] by (cases key) auto
  qed
qed

lemma upstream_headers_split:
  assumes "upstream_headers env route stream h = Inr h'" and "headers_wf h"
  obtains h3 where "headers_wf h3" and "applyProviderHeaders env route h3 = Inr h'"
    and "\<And>k. k \<notin> {''content-type'', ''accept'', ''accept-encoding''} \<Longrightarrow> jm_get h3 k = jm_get h k"
proof -
  obtain h1 h2 h3 where 1: "h_set ''content-type'' ''application/json; charset=utf-8'' h = Inr h1"
    and 2: "h_set ''accept'' (if stream then ''text/event-stream'' else ''application/json'') h1 = Inr h2"
    and 3: "h_set ''accept-encoding'' ''identity'' h2 = Inr h3" and 4: "applyProviderHeaders env route h3 = Inr h'"
    using assms(1) unfolding upstream_headers_def res_simps by blast
  have "headers_wf h3" using assms(2) 1 2 3 h_set_wf by blast
  moreover have "jm_get h3 k = jm_get h k" if "k \<notin> {''content-type'', ''accept'', ''accept-encoding''}" for k
    using that h_set_get [OF 1] h_set_get [OF 2] h_set_get [OF 3] by simp
  ultimately show ?thesis using that 4 by blast
qed

text \<open>Names that must not carry what the client sent.\<close>

lemma client_names_absent:
  assumes "sanitizeIncomingHeaders hs = Inr h"
    and "k \<in> set HOP_BY_HOP_HEADERS \<union> set MANAGED_HEADERS \<union> set LOCAL_BROWSER_CONTEXT_HEADERS" and "k \<noteq> ''user-agent''"
  shows "jm_get h k = None"
  using sanitizeIncomingHeaders_facts(3) [OF assms(1), of k] assms(2,3) jm_keys_get [of k h]
  by (auto simp: skipped_incoming_def)

section \<open>Headers copied to the client\<close>

definition forwardable :: "string \<times> string \<Rightarrow> bool" where
  "forwardable e \<longleftrightarrow>
     fst e \<notin> set HOP_BY_HOP_HEADERS \<union> set BLOCKED_UPSTREAM_RESPONSE_HEADERS \<and> is_header_name (fst e) \<and>
     safe_header_value (snd e)"

lemma copied_header_forwardable: "copied_header om e \<Longrightarrow> forwardable (to_lower (fst e), snd e)"
  by (cases e) (auto simp: copied_header_def forwardable_def Let_def isSafeForwardedHeaderName_def
      assertSafeForwardedHeaderValue_def safe_header_value_def split: if_splits)

lemma copy_fold:
  assumes "jm_inv target" and "\<forall>e\<in>set target. e \<in> T \<or> forwardable e"
  shows "\<forall>e\<in>set (foldl (\<lambda>acc e. if copied_header om e then set_client_header (fst e) (snd e) acc else acc) target es).
           e \<in> T \<or> forwardable e"
  using assms
proof (induction es arbitrary: target)
  case (Cons e es)
  show ?case
  proof (cases "copied_header om e")
    case True
    let ?t = "jm_set (to_lower (fst e)) (snd e) target"
    have "jm_inv ?t" using Cons.prems(1) by (rule jm_inv_set)
    moreover have "\<forall>e'\<in>set ?t. e' \<in> T \<or> forwardable e'"
      using Cons.prems copied_header_forwardable [OF True] jm_set_mem by metis
    ultimately show ?thesis using Cons.IH True by (simp add: set_client_header_def)
  qed (use Cons in simp)
qed simp

section \<open>Properties\<close>


definition example_route :: route_config where
  "example_route =
     \<lparr>rc_serviceProvider = ''p'', rc_api_mode = openai_completions, rc_anthropicVersion = None,
      rc_upstreamModelIdFormat = None, rc_modelCreator = ''c'', rc_model = ''m'', rc_baseUrl = ''https://api.example.com/v1'',
      rc_allowPrivateEndpoints = False, rc_apiKeyEnv = None, rc_inlineApiKey = Some ''key-1'', rc_apiKeyOverride = None,
      rc_timeoutMs = 1000\<rparr>"

definition example_client_headers :: "(string, header_value) js_map" where
  "example_client_headers =
     [(''host'', HStr ''localhost''), (''authorization'', HStr ''Bearer client''), (''x-tag'', HArr [''a'', ''b''])]"

lemma example_upstream_headers:
  "\<exists>h0 h. sanitizeIncomingHeaders example_client_headers = Inr h0 \<and>
     upstream_headers (\<lambda>_. None) example_route False h0 = Inr h"
proof -
  have 1: "sanitizeIncomingHeaders example_client_headers =
      Inr [(''x-tag'', [''a'', ''b'']), (''user-agent'', [''switchmaxxer-gateway''])]" by code_simp
  have "is_ok (upstream_headers (\<lambda>_. None) example_route False
      [(''x-tag'', [''a'', ''b'']), (''user-agent'', [''switchmaxxer-gateway''])])" by code_simp
  with 1 show ?thesis by (auto simp: is_ok_iff)
qed


text \<open>
  Property (copied_response_headers_safe). Every header the proxy adds to the response to its client has a
  name that is a token and neither hop-by-hop nor one of the blocked ones (cookies, credentials,
  forwarding information), and a printable value of at most 8192 bytes; the headers already set are
  kept or replaced by such headers.
\<close>

theorem copied_response_headers_safe:
  "jm_inv target \<Longrightarrow> e \<in> set (copyResponseHeaders source target omitted) \<Longrightarrow> e \<in> set target \<or> forwardable e"
  using copy_fold [of target "set target"] by (fastforce simp: copyResponseHeaders_def Let_def)

theorem copied_response_headers_safe_witness:
  "forwardable (''x-b'', ''2'')"
proof -
  have "(''x-b'', ''2'') \<in> set (copyResponseHeaders [(''set-cookie'', [''s'']), (''x-b'', [''2''])] [(''x-a'', ''1'')] [])"
    by code_simp
  from copied_response_headers_safe [OF _ this] show ?thesis by (simp add: jm_inv_def)
qed

end
