(* ===== verification/Transport.thy ===== *)
theory Transport
  imports Proxy_Headers
begin

text \<open>
  The upstream transport: \<^verbatim>\<open>proxy/http-transport.ts\<close>. The retry policy, the delay before a retry, the
  retry loop over fetch attempts with a deadline, and the request that connects to a pinned address.

  The network, the clock, the random number generator, the timer and the caller's abort signal are
  the operations of a record over an abstract world; every operation returns a new world, so that
  each attempt may see anything. Main results: the loop ends, with at most one attempt more than the
  number of retries; a POST is never sent again because of a response; nothing is sent after the
  deadline; the delays fit in the remaining time; a pinned connection is opened to no other address.
\<close>

section \<open>Requests, responses and the world\<close>

text \<open>The bytes of a body arrive in chunks; reading ends normally or fails.\<close>

record body_stream =
  bs_chunks :: "string list"
  bs_failure :: "thrown option"

record upstream_response =
  ur_status :: nat
  ur_headers :: fetch_headers
  ur_body :: "body_stream option"

datatype init_body = NoBody | TextBody string | OtherBody

record request_init =
  ri_method :: "string option"
  ri_headers :: fetch_headers
  ri_body :: init_body

datatype retry_policy = explicit | idempotency_key

datatype duplicate_risk = not_applicable | risk_idempotency_key | caller_accepted

record retry_details =
  rd_attempt :: nat
  rd_nextDelayMs :: int
  rd_reason :: string
  rd_method :: string
  rd_maxRetries :: int
  rd_streaming :: bool
  rd_idempotencyKeyPresent :: bool
  rd_retryPolicy :: retry_policy
  rd_duplicateRisk :: duplicate_risk

record retry_options =
  ro_maxRetries :: "int option"
  ro_baseDelayMs :: "int option"
  ro_maxBackoffMs :: "int option"

record transport_options =
  tr_timeoutMs :: int
  tr_retry :: "retry_options option"
  tr_pinned :: "pinned_resolution option"

text \<open>
  What a name lookup of a socket may be answered with: an error, one address or a list of addresses.
\<close>

datatype lookup_answer =
    LookupError string string nat
  | OneAddress string nat
  | AllAddresses "(string \<times> nat) list"

type_synonym lookup_fn = "nat option \<Rightarrow> bool \<Rightarrow> lookup_answer"

record node_response =
  nr_statusCode :: "nat option"
  nr_headers :: "(string, header_value) js_map"
  nr_body :: body_stream

record node_request =
  nq_https :: bool
  nq_url :: string
  nq_method :: string
  nq_headers :: "(string \<times> string) list"
  nq_lookup :: lookup_fn
  nq_body :: "string option"

record 'w transport_ops =
  to_now :: "'w \<Rightarrow> int \<times> 'w"
  to_random :: "'w \<Rightarrow> rat \<times> 'w"
  to_parseDate :: "string \<Rightarrow> int option"
  to_parseUrl :: "string \<Rightarrow> parsed_url option"
  to_fetch :: "string \<Rightarrow> request_init \<Rightarrow> int \<Rightarrow> 'w \<Rightarrow> (thrown + upstream_response) \<times> 'w"
  to_request :: "node_request \<Rightarrow> int \<Rightarrow> 'w \<Rightarrow> (thrown + node_response) \<times> 'w"
  to_sleep :: "int \<Rightarrow> 'w \<Rightarrow> (thrown + unit) \<times> 'w"
  to_aborted :: "'w \<Rightarrow> bool"
  to_abortReason :: "'w \<Rightarrow> thrown option"

section \<open>Retry policy\<close>

definition upper_char :: "char \<Rightarrow> char" where
  "upper_char c = (if lower_letter c then char_of (code_unit c - 32) else c)"

definition getFetchMethod :: "request_init \<Rightarrow> string" where
  "getFetchMethod init = (case ri_method init of None \<Rightarrow> ''GET'' | Some m \<Rightarrow> map upper_char m)"

definition hasIdempotencyKeyHeader :: "request_init \<Rightarrow> bool" where
  "hasIdempotencyKeyHeader init = h_has (ri_headers init) ''idempotency-key''"

record max_retries =
  mr_idempotencyKeyPresent :: bool
  mr_maxRetries :: int
  mr_retryPolicy :: "retry_policy option"

definition resolveMaxRetries :: "request_init \<Rightarrow> transport_options \<Rightarrow> max_retries" where
  "resolveMaxRetries init options =
     (let present = hasIdempotencyKeyHeader init in
      case Option.bind (tr_retry options) ro_maxRetries of
        Some n \<Rightarrow> \<lparr>mr_idempotencyKeyPresent = present, mr_maxRetries = n, mr_retryPolicy = Some explicit\<rparr>
      | None \<Rightarrow>
          if present
          then \<lparr>mr_idempotencyKeyPresent = present, mr_maxRetries = 1, mr_retryPolicy = Some idempotency_key\<rparr>
          else \<lparr>mr_idempotencyKeyPresent = present, mr_maxRetries = 0, mr_retryPolicy = None\<rparr>)"

definition buildRetryAttemptDetails ::
  "nat \<Rightarrow> int \<Rightarrow> string \<Rightarrow> string \<Rightarrow> int \<Rightarrow> bool \<Rightarrow> bool \<Rightarrow> retry_policy \<Rightarrow> retry_details" where
  "buildRetryAttemptDetails attempt nextDelayMs reason mthd maxRetries streaming present policy =
     \<lparr>rd_attempt = attempt, rd_nextDelayMs = nextDelayMs, rd_reason = reason, rd_method = mthd,
      rd_maxRetries = maxRetries, rd_streaming = streaming, rd_idempotencyKeyPresent = present,
      rd_retryPolicy = policy,
      rd_duplicateRisk =
        (if mthd = ''POST'' then (if present then risk_idempotency_key else caller_accepted) else not_applicable)\<rparr>"

definition shouldRetryStatus :: "nat \<Rightarrow> bool" where
  "shouldRetryStatus status \<longleftrightarrow> status = 408 \<or> status = 429 \<or> status = 502 \<or> status = 503 \<or> status = 504"

definition RETRYABLE_CODES :: "string list" where
  "RETRYABLE_CODES = [''ECONNRESET'', ''ECONNREFUSED'', ''EHOSTUNREACH'', ''ENETUNREACH'', ''ETIMEDOUT'', ''EAI_AGAIN'']"

text \<open>\<open>cause?.code\<close>, a property of any value that has one.\<close>

definition cause_code :: "thrown \<Rightarrow> string option" where
  "cause_code e = Option.bind (getCause e) getCode"

definition extractRetryableErrorReason :: "thrown \<Rightarrow> string option" where
  "extractRetryableErrorReason error =
     (case error of
        PlainThrown _ \<Rightarrow> None
      | ErrorObject _ name message _ _ \<Rightarrow>
          if name = ''AbortError'' \<or> name = ''TimeoutError'' then Some (if message \<noteq> [] then message else name)
          else (case cause_code error of
                  Some c \<Rightarrow> if c \<in> set RETRYABLE_CODES then Some c
                            else if message = ''fetch failed'' then Some message else None
                | None \<Rightarrow> if message = ''fetch failed'' then Some message else None))"

definition looks_numeric :: "string \<Rightarrow> bool" where
  "looks_numeric s =
     (case s of
        [] \<Rightarrow> False
      | c # r \<Rightarrow> is_digit c \<or> (c \<in> {CHR ''+'', CHR ''-''} \<and> (case r of [] \<Rightarrow> False | d # _ \<Rightarrow> is_digit d)))"

text \<open>The delay a \<open>Retry-After\<close> header asks for; a date is compared with the clock.\<close>

definition header_delay :: "'w transport_ops \<Rightarrow> string option \<Rightarrow> 'w \<Rightarrow> int option \<times> 'w" where
  "header_delay ops retryAfterHeader w =
     (case retryAfterHeader of
        None \<Rightarrow> (None, w)
      | Some raw \<Rightarrow>
          (let normalized = trim raw in
           if length normalized = 0 then (None, w)
           else (case parseCanonicalNonNegativeInteger (Some normalized) of
                   Some seconds \<Rightarrow> (Some (int seconds * 1000), w)
                 | None \<Rightarrow>
                     if looks_numeric normalized then (None, w)
                     else (case to_parseDate ops normalized of
                             None \<Rightarrow> (None, w)
                           | Some retryAt \<Rightarrow>
                               (case to_now ops w of (now, w') \<Rightarrow> (Some (max 0 (retryAt - now)), w'))))))"

definition computeRetryDelayMs :: "'w transport_ops \<Rightarrow> int \<Rightarrow> nat \<Rightarrow> string option \<Rightarrow> 'w \<Rightarrow> int \<times> 'w" where
  "computeRetryDelayMs ops baseDelayMs attempt retryAfterHeader w =
     (case header_delay ops retryAfterHeader w of
        (Some d, w1) \<Rightarrow> (d, w1)
      | (None, w1) \<Rightarrow>
          (case to_random ops w1 of
             (r, w2) \<Rightarrow>
               (baseDelayMs * 2 ^ (attempt - 1) + \<lfloor>r * of_int (max 1 (baseDelayMs div 2))\<rfloor>, w2)))"

definition clampRetryDelayMs :: "int \<Rightarrow> int \<Rightarrow> int \<Rightarrow> int" where
  "clampRetryDelayMs delayMs remainingMs maxBackoffMs = min (min delayMs (max 0 remainingMs)) maxBackoffMs"

definition abort_error :: "string \<Rightarrow> thrown" where
  "abort_error message = ErrorObject PlainError ''AbortError'' message [] None"

definition sleepWithSignal :: "'w transport_ops \<Rightarrow> int \<Rightarrow> 'w \<Rightarrow> (thrown + unit) \<times> 'w" where
  "sleepWithSignal ops delayMs w =
     (if delayMs \<le> 0 then (Inr (), w)
      else if to_aborted ops w
      then (Inl (case to_abortReason ops w of None \<Rightarrow> abort_error ''Aborted'' | Some e \<Rightarrow> e), w)
      else to_sleep ops delayMs w)"

section \<open>Pinned connections\<close>

definition pinned_lookup :: "pinned_resolution \<Rightarrow> lookup_fn" where
  "pinned_lookup pinned optFamily optAll =
     (let family = (case optFamily of Some f \<Rightarrow> if f \<noteq> 0 then f else pr_family pinned | None \<Rightarrow> pr_family pinned) in
      if family \<noteq> pr_family pinned
      then LookupError (''Pinned DNS family mismatch for '' @ quoted (pr_hostname pinned) @ ''.'') (pr_address pinned) (pr_family pinned)
      else if optAll then AllAddresses [(pr_address pinned, pr_family pinned)]
      else OneAddress (pr_address pinned) (pr_family pinned))"

fun answer_addresses :: "lookup_answer \<Rightarrow> string list" where
  "answer_addresses (LookupError _ a _) = [a]"
| "answer_addresses (OneAddress a _) = [a]"
| "answer_addresses (AllAddresses xs) = map fst xs"

definition buildPinnedDnsHeaders :: "request_init \<Rightarrow> thrown + fetch_headers" where
  "buildPinnedDnsHeaders init =
     (case ri_body init of
        TextBody b \<Rightarrow>
          if h_has (ri_headers init) ''content-length'' then Inr (ri_headers init)
          else h_set ''content-length'' (digits_of_nat (byte_length b)) (ri_headers init)
      | _ \<Rightarrow> Inr (ri_headers init))"

fun response_header_loop :: "(string \<times> header_value) list \<Rightarrow> fetch_headers \<Rightarrow> thrown + fetch_headers" where
  "response_header_loop [] h = Inr h"
| "response_header_loop ((name, HArr vs) # rest) h =
     rbind (foldl (\<lambda>acc v. rbind acc (h_append name v)) (Inr h) vs) (response_header_loop rest)"
| "response_header_loop ((name, HStr v) # rest) h = rbind (h_set name v h) (response_header_loop rest)"

definition pinned_response :: "node_response \<Rightarrow> thrown + upstream_response" where
  "pinned_response response =
     rbind (response_header_loop (nr_headers response) []) (\<lambda>hs.
       Inr \<lparr>ur_status = (case nr_statusCode response of None \<Rightarrow> 502 | Some s \<Rightarrow> s), ur_headers = hs,
            ur_body = Some (nr_body response)\<rparr>)"

definition unsupported_body_error :: thrown where
  "unsupported_body_error = ErrorObject PlainError ''Error'' ''Pinned DNS transport only supports string request bodies.'' [] None"

definition fetchWithPinnedDnsResolution ::
  "'w transport_ops \<Rightarrow> string \<Rightarrow> request_init \<Rightarrow> int \<Rightarrow> pinned_resolution \<Rightarrow> 'w \<Rightarrow> (thrown + upstream_response) \<times> 'w" where
  "fetchWithPinnedDnsResolution ops input init timeoutMs pinned w =
     (case to_parseUrl ops input of
        None \<Rightarrow> (Inl invalid_url_error, w)
      | Some url \<Rightarrow>
          (case buildPinnedDnsHeaders init of
             Inl e \<Rightarrow> (Inl e, w)
           | Inr headers \<Rightarrow>
               (case ri_body init of
                  OtherBody \<Rightarrow> (Inl unsupported_body_error, w)
                | body \<Rightarrow>
                    (case to_request ops
                            \<lparr>nq_https = (u_protocol url = ''https:''), nq_url = input, nq_method = getFetchMethod init,
                             nq_headers = h_entries headers, nq_lookup = pinned_lookup pinned,
                             nq_body = (case body of TextBody b \<Rightarrow> Some b | _ \<Rightarrow> None)\<rparr> timeoutMs w of
                       (Inl e, w') \<Rightarrow> (Inl e, w')
                     | (Inr r, w') \<Rightarrow> (pinned_response r, w')))))"

section \<open>The retry loop\<close>

text \<open>What the loop does, in order.\<close>

datatype transport_event =
    Sent nat int "thrown + upstream_response"   \<comment> \<open>number of the attempt, time left, outcome\<close>
  | Retried retry_details
  | Slept int

record retry_run =
  rr_input :: string
  rr_init :: request_init
  rr_method :: string
  rr_policy :: max_retries
  rr_baseDelayMs :: int
  rr_maxBackoffMs :: int
  rr_deadline :: int
  rr_pinned :: "pinned_resolution option"
  rr_streaming :: bool

datatype attempt_result = Stop "thrown + upstream_response" | Again

definition fetchImpl :: "'w transport_ops \<Rightarrow> retry_run \<Rightarrow> int \<Rightarrow> 'w \<Rightarrow> (thrown + upstream_response) \<times> 'w" where
  "fetchImpl ops run remainingMs w =
     (case rr_pinned run of
        None \<Rightarrow> to_fetch ops (rr_input run) (rr_init run) remainingMs w
      | Some p \<Rightarrow> fetchWithPinnedDnsResolution ops (rr_input run) (rr_init run) remainingMs p w)"

definition retry_events :: "retry_run \<Rightarrow> nat \<Rightarrow> int \<Rightarrow> string \<Rightarrow> transport_event list" where
  "retry_events run attempt nextDelayMs reason =
     (case mr_retryPolicy (rr_policy run) of
        None \<Rightarrow> []
      | Some policy \<Rightarrow>
          [Retried (buildRetryAttemptDetails attempt nextDelayMs reason (rr_method run) (mr_maxRetries (rr_policy run))
             (rr_streaming run) (mr_idempotencyKeyPresent (rr_policy run)) policy)])"

text \<open>The delay before the next attempt, with the sleep.\<close>

definition back_off ::
  "'w transport_ops \<Rightarrow> retry_run \<Rightarrow> nat \<Rightarrow> string option \<Rightarrow> string \<Rightarrow> 'w \<Rightarrow> (thrown + unit) \<times> transport_event list \<times> 'w" where
  "back_off ops run attempt retryAfter reason w =
     (case computeRetryDelayMs ops (rr_baseDelayMs run) attempt retryAfter w of
        (delay, w1) \<Rightarrow>
          (case to_now ops w1 of
             (now, w2) \<Rightarrow>
               (let nextDelayMs = clampRetryDelayMs delay (rr_deadline run - now) (rr_maxBackoffMs run) in
                case sleepWithSignal ops nextDelayMs w2 of
                  (r, w3) \<Rightarrow> (r, retry_events run attempt nextDelayMs reason @ [Slept nextDelayMs], w3))))"

text \<open>The \<open>catch\<close> block; a rejected sleep of it leaves the loop.\<close>

definition on_failure ::
  "'w transport_ops \<Rightarrow> retry_run \<Rightarrow> nat \<Rightarrow> thrown \<Rightarrow> 'w \<Rightarrow> attempt_result \<times> transport_event list \<times> 'w" where
  "on_failure ops run attempt error w =
     (case extractRetryableErrorReason error of
        None \<Rightarrow> (Stop (Inl error), [], w)
      | Some reason \<Rightarrow>
          if int attempt > mr_maxRetries (rr_policy run) \<or> to_aborted ops w then (Stop (Inl error), [], w)
          else (case back_off ops run attempt None reason w of
                  (Inl e, evs, w') \<Rightarrow> (Stop (Inl e), evs, w')
                | (Inr _, evs, w') \<Rightarrow> (Again, evs, w')))"

text \<open>One round of the loop; a rejected sleep of the \<open>try\<close> block is handled by its \<open>catch\<close> block.\<close>

definition attempt_once ::
  "'w transport_ops \<Rightarrow> retry_run \<Rightarrow> nat \<Rightarrow> 'w \<Rightarrow> attempt_result \<times> transport_event list \<times> 'w" where
  "attempt_once ops run attempt w =
     (case to_now ops w of
        (now, w1) \<Rightarrow>
          (let remainingMs = rr_deadline run - now in
           if remainingMs \<le> 0
           then (Stop (Inl (ErrorObject PlainError ''TimeoutError'' ''Switchmaxxer upstream request timed out'' [] None)), [], w1)
           else (case fetchImpl ops run remainingMs w1 of
                   (Inl error, w2) \<Rightarrow>
                     (case on_failure ops run attempt error w2 of (r, evs, w3) \<Rightarrow> (r, Sent attempt remainingMs (Inl error) # evs, w3))
                 | (Inr response, w2) \<Rightarrow>
                     if rr_method run = ''POST'' \<or> int attempt > mr_maxRetries (rr_policy run)
                        \<or> \<not> shouldRetryStatus (ur_status response)
                     then (Stop (Inr response), [Sent attempt remainingMs (Inr response)], w2)
                     else (case back_off ops run attempt (h_get (ur_headers response) ''retry-after'')
                                  (''HTTP '' @ digits_of_nat (ur_status response)) w2 of
                             (Inr _, evs, w3) \<Rightarrow> (Again, Sent attempt remainingMs (Inr response) # evs, w3)
                           | (Inl error, evs, w3) \<Rightarrow>
                               (case on_failure ops run attempt error w3 of
                                  (r, evs', w4) \<Rightarrow> (r, Sent attempt remainingMs (Inr response) # evs @ evs', w4))))))"

lemma back_off_no_result:
  "on_failure ops run attempt error w = (Again, evs, w') \<Longrightarrow> int attempt \<le> mr_maxRetries (rr_policy run)"
  by (auto simp: on_failure_def split: option.splits if_splits prod.splits sum.splits)

lemma attempt_again:
  "attempt_once ops run attempt w = (Again, evs, w') \<Longrightarrow> int attempt \<le> mr_maxRetries (rr_policy run)"
  by (auto simp: attempt_once_def Let_def dest: back_off_no_result split: prod.splits sum.splits if_splits)

function retry_loop ::
  "'w transport_ops \<Rightarrow> retry_run \<Rightarrow> nat \<Rightarrow> 'w \<Rightarrow> (thrown + upstream_response) \<times> transport_event list \<times> 'w" where
  "retry_loop ops run attempt w =
     (case attempt_once ops run (Suc attempt) w of
        (Stop r, evs, w') \<Rightarrow> (r, evs, w')
      | (Again, evs, w') \<Rightarrow>
          (case retry_loop ops run (Suc attempt) w' of (r, evs', w2) \<Rightarrow> (r, evs @ evs', w2)))"
  by pat_completeness auto
termination
  by (relation "measure (\<lambda>(ops, run, attempt, w). nat (mr_maxRetries (rr_policy run) + 1 - int attempt))")
    (auto dest!: attempt_again [OF sym])

declare retry_loop.simps [simp del]

definition fetchWithSwitchmaxxerRetry ::
  "'w transport_ops \<Rightarrow> string \<Rightarrow> request_init \<Rightarrow> transport_options \<Rightarrow> bool \<Rightarrow> 'w \<Rightarrow>
   (thrown + upstream_response) \<times> transport_event list \<times> 'w" where
  "fetchWithSwitchmaxxerRetry ops input init options streaming w =
     (case to_now ops w of
        (now, w1) \<Rightarrow>
          retry_loop ops
            \<lparr>rr_input = input, rr_init = init, rr_method = getFetchMethod init,
             rr_policy = resolveMaxRetries init options,
             rr_baseDelayMs = (case Option.bind (tr_retry options) ro_baseDelayMs of None \<Rightarrow> 150 | Some d \<Rightarrow> d),
             rr_maxBackoffMs = (case Option.bind (tr_retry options) ro_maxBackoffMs of None \<Rightarrow> 5000 | Some d \<Rightarrow> d),
             rr_deadline = now + tr_timeoutMs options, rr_pinned = tr_pinned options, rr_streaming = streaming\<rparr> 0 w1)"

definition fetchWithSwitchmaxxerTransport ::
  "'w transport_ops \<Rightarrow> string \<Rightarrow> request_init \<Rightarrow> transport_options \<Rightarrow> 'w \<Rightarrow>
   (thrown + upstream_response) \<times> transport_event list \<times> 'w" where
  "fetchWithSwitchmaxxerTransport ops input init options w =
     fetchWithSwitchmaxxerRetry ops input init options False w"

definition fetchStreamingWithSwitchmaxxerTransport ::
  "'w transport_ops \<Rightarrow> string \<Rightarrow> request_init \<Rightarrow> transport_options \<Rightarrow> 'w \<Rightarrow>
   (thrown + upstream_response) \<times> transport_event list \<times> 'w" where
  "fetchStreamingWithSwitchmaxxerTransport ops input init options w =
     fetchWithSwitchmaxxerRetry ops input init options True w"

section \<open>What a round does\<close>

fun is_sent :: "transport_event \<Rightarrow> bool" where
  "is_sent (Sent _ _ _) = True"
| "is_sent _ = False"

definition sends :: "transport_event list \<Rightarrow> (nat \<times> (thrown + upstream_response)) list" where
  "sends evs = concat (map (\<lambda>e. case e of Sent n _ r \<Rightarrow> [(n, r)] | _ \<Rightarrow> []) evs)"

lemma sends_append [simp]: "sends (a @ b) = sends a @ sends b"
  by (simp add: sends_def)

lemma sends_simps [simp]:
  "sends [] = []" "sends (Sent n k r # evs) = (n, r) # sends evs"
  "sends (Retried d # evs) = sends evs" "sends (Slept m # evs) = sends evs"
  by (simp_all add: sends_def)

text \<open>Delays never exceed the configured maximum, nor the time that is left when they are chosen.\<close>

fun bounded_event :: "retry_run \<Rightarrow> transport_event \<Rightarrow> bool" where
  "bounded_event run (Slept d) \<longleftrightarrow> d \<le> rr_maxBackoffMs run"
| "bounded_event run (Sent n remaining r) \<longleftrightarrow> remaining > 0"
| "bounded_event run (Retried d) \<longleftrightarrow>
     int (rd_attempt d) \<le> mr_maxRetries (rr_policy run) \<and> rd_nextDelayMs d \<le> rr_maxBackoffMs run"

lemma back_off_events:
  assumes "back_off ops run n ra reason w = (r, evs, w')" and "int n \<le> mr_maxRetries (rr_policy run)"
  shows "sends evs = [] \<and> list_all (bounded_event run) evs"
  using assms
  by (auto simp: back_off_def retry_events_def clampRetryDelayMs_def buildRetryAttemptDetails_def Let_def
      split: prod.splits option.splits)

lemma on_failure_events:
  assumes "on_failure ops run n e w = (r, evs, w')"
  shows "sends evs = [] \<and> list_all (bounded_event run) evs \<and>
    (r = Again \<longrightarrow> int n \<le> mr_maxRetries (rr_policy run) \<and> extractRetryableErrorReason e \<noteq> None) \<and>
    (\<forall>x. r = Stop x \<longrightarrow> (\<exists>e'. x = Inl e'))"
proof (cases "extractRetryableErrorReason e")
  case None
  then show ?thesis using assms by (auto simp: on_failure_def)
next
  case (Some reason)
  show ?thesis
  proof (cases "int n > mr_maxRetries (rr_policy run) \<or> to_aborted ops w")
    case True
    then show ?thesis using assms Some by (auto simp: on_failure_def)
  next
    case False
    obtain r1 evs1 w1 where b: "back_off ops run n None reason w = (r1, evs1, w1)" by (metis prod_cases3)
    have "sends evs1 = [] \<and> list_all (bounded_event run) evs1" using back_off_events [OF b] False by simp
    then show ?thesis using assms Some False b by (cases r1) (auto simp: on_failure_def)
  qed
qed

text \<open>
  A round sends at most once. When the loop goes on, it has sent exactly once, and the outcome was a
  retryable failure, or a retryable status of a request that is no POST.
\<close>

definition retryable :: "retry_run \<Rightarrow> thrown + upstream_response \<Rightarrow> bool" where
  "retryable run r =
     (case r of Inl e \<Rightarrow> extractRetryableErrorReason e \<noteq> None
      | Inr resp \<Rightarrow> rr_method run \<noteq> ''POST'' \<and> shouldRetryStatus (ur_status resp))"

lemma attempt_once_events:
  assumes "attempt_once ops run n w = (r, evs, w')"
  shows "list_all (bounded_event run) evs \<and>
    (case r of
       Again \<Rightarrow> int n \<le> mr_maxRetries (rr_policy run) \<and> (\<exists>o'. sends evs = [(n, o')] \<and> retryable run o')
     | Stop x \<Rightarrow> (sends evs = [] \<and> (\<exists>e. x = Inl e)) \<or> (\<exists>o'. sends evs = [(n, o')] \<and> (\<forall>resp. x = Inr resp \<longrightarrow> o' = x)
                  \<and> (\<forall>resp. o' = Inr resp \<and> rr_method run = ''POST'' \<longrightarrow> x = o')))"
proof -
  obtain now w1 where now: "to_now ops w = (now, w1)" by fastforce
  let ?rem = "rr_deadline run - now"
  show ?thesis
  proof (cases "?rem \<le> 0")
    case True
    then show ?thesis using assms now by (auto simp: attempt_once_def)
  next
    case False
    obtain out w2 where f: "fetchImpl ops run ?rem w1 = (out, w2)" by fastforce
    show ?thesis
    proof (cases out)
      case (Inl e)
      obtain r1 evs1 w3 where h: "on_failure ops run n e w2 = (r1, evs1, w3)" by (metis prod_cases3)
      then have eq: "r = r1" "evs = Sent n ?rem (Inl e) # evs1"
        using assms now False f Inl by (auto simp: attempt_once_def)
      with on_failure_events [OF h] False show ?thesis by (cases r1) (auto simp: retryable_def)
    next
      case (Inr resp)
      let ?stop = "rr_method run = ''POST'' \<or> int n > mr_maxRetries (rr_policy run) \<or> \<not> shouldRetryStatus (ur_status resp)"
      show ?thesis
      proof (cases ?stop)
        case True
        then have "r = Stop (Inr resp)" "evs = [Sent n ?rem (Inr resp)]"
          using assms now False f Inr by (auto simp: attempt_once_def)
        then show ?thesis using False by simp
      next
        case go: False
        let ?b = "back_off ops run n (h_get (ur_headers resp) ''retry-after'') (''HTTP '' @ digits_of_nat (ur_status resp)) w2"
        obtain r1 evs1 w3 where b: "?b = (r1, evs1, w3)" by (metis prod_cases3)
        have ev1: "sends evs1 = [] \<and> list_all (bounded_event run) evs1" using back_off_events [OF b] go by simp
        show ?thesis
        proof (cases r1)
          case (Inl e)
          obtain r2 evs2 w4 where h: "on_failure ops run n e w3 = (r2, evs2, w4)" by (metis prod_cases3)
          then have eq: "r = r2" "evs = Sent n ?rem (Inr resp) # evs1 @ evs2"
            using assms now False f Inr go b Inl by (auto simp: attempt_once_def)
          with on_failure_events [OF h] ev1 False go show ?thesis by (cases r2) (auto simp: retryable_def)
        next
          case (Inr u)
          then have "r = Again" "evs = Sent n ?rem (Inr resp) # evs1"
            using assms now False f \<open>out = Inr resp\<close> go b by (auto simp: attempt_once_def)
          then show ?thesis using ev1 False go by (auto simp: retryable_def)
        qed
      qed
    qed
  qed
qed

text \<open>The whole run: numbered attempts, each before the last one retryable.\<close>

lemma retry_loop_events:
  assumes "retry_loop ops run k w = (r, evs, w')"
  shows "list_all (bounded_event run) evs \<and>
    map fst (sends evs) = [Suc k..<Suc k + length (sends evs)] \<and>
    int (length (sends evs)) \<le> max 1 (mr_maxRetries (rr_policy run) + 1 - int k) \<and>
    list_all (retryable run) (map snd (butlast (sends evs))) \<and>
    (\<forall>resp. r = Inr resp \<longrightarrow> sends evs \<noteq> [] \<and> snd (last (sends evs)) = Inr resp)"
  using assms
proof (induction ops run k w arbitrary: r evs w' rule: retry_loop.induct)
  case (1 ops run k w)
  obtain a evs1 w1 where a: "attempt_once ops run (Suc k) w = (a, evs1, w1)" by (metis prod_cases3)
  note ev1 = attempt_once_events [OF a]
  show ?case
  proof (cases a)
    case (Stop x)
    then have "r = x" "evs = evs1" using "1.prems" a by (simp_all add: retry_loop.simps)
    then have b: "list_all (bounded_event run) evs"
      and d: "(sends evs = [] \<and> (\<exists>e. r = Inl e)) \<or>
              (\<exists>o'. sends evs = [(Suc k, o')] \<and> (\<forall>resp. r = Inr resp \<longrightarrow> o' = r))"
      using ev1 Stop by auto
    from d show ?thesis
    proof (elim disjE exE conjE)
      fix o' assume "sends evs = [(Suc k, o')]" "\<forall>resp. r = Inr resp \<longrightarrow> o' = r"
      with b show ?thesis by simp
    qed (use b in simp)
  next
    case Again
    obtain r2 evs2 w2 where l: "retry_loop ops run (Suc k) w1 = (r2, evs2, w2)" by (metis prod_cases3)
    then have eq: "r = r2" "evs = evs1 @ evs2"
      using "1.prems" a Again by (simp_all add: retry_loop.simps [of ops run k w])
    obtain o' where o': "sends evs1 = [(Suc k, o')]" "retryable run o'" and n: "int (Suc k) \<le> mr_maxRetries (rr_policy run)"
      and b: "list_all (bounded_event run) evs1" using ev1 Again by auto
    have ih: "list_all (bounded_event run) evs2 \<and>
      map fst (sends evs2) = [Suc (Suc k)..<Suc (Suc k) + length (sends evs2)] \<and>
      int (length (sends evs2)) \<le> max 1 (mr_maxRetries (rr_policy run) + 1 - int (Suc k)) \<and>
      list_all (retryable run) (map snd (butlast (sends evs2))) \<and>
      (\<forall>resp. r2 = Inr resp \<longrightarrow> sends evs2 \<noteq> [] \<and> snd (last (sends evs2)) = Inr resp)"
      by (rule "1.IH" [OF a [symmetric] Again refl l])
    have "int (length (sends evs)) \<le> max 1 (mr_maxRetries (rr_policy run) + 1 - int k)"
      using ih n eq o' by simp
    moreover have "map fst (sends evs) = [Suc k..<Suc k + length (sends evs)]"
      using ih eq o' by (simp add: upt_conv_Cons del: upt_Suc)
    moreover have "list_all (bounded_event run) evs" using ih eq b by simp
    moreover have "list_all (retryable run) (map snd (butlast (sends evs)))"
      using ih eq o' by (simp add: butlast_append)
    moreover have "\<forall>resp. r = Inr resp \<longrightarrow> sends evs \<noteq> [] \<and> snd (last (sends evs)) = Inr resp"
      using ih eq o' by (auto simp: last_append)
    ultimately show ?thesis by (intro conjI)
  qed
qed

lemma post_not_retryable: "rr_method run = ''POST'' \<Longrightarrow> retryable run r \<Longrightarrow> \<exists>e. r = Inl e"
  by (auto simp: retryable_def split: sum.splits)

lemma retry_run_events:
  assumes "fetchWithSwitchmaxxerRetry ops input init options streaming w = (r, evs, w')"
  shows "map fst (sends evs) = [1..<Suc (length (sends evs))] \<and>
    int (length (sends evs)) \<le> max 1 (mr_maxRetries (resolveMaxRetries init options) + 1) \<and>
    (\<forall>o'\<in>set (map snd (butlast (sends evs))).
        case o' of Inl e \<Rightarrow> extractRetryableErrorReason e \<noteq> None
        | Inr resp \<Rightarrow> getFetchMethod init \<noteq> ''POST'' \<and> shouldRetryStatus (ur_status resp)) \<and>
    (\<forall>resp. r = Inr resp \<longrightarrow> sends evs \<noteq> [] \<and> snd (last (sends evs)) = Inr resp)"
proof -
  obtain now w1 where now: "to_now ops w = (now, w1)" by fastforce
  define run where "run = \<lparr>rr_input = input, rr_init = init, rr_method = getFetchMethod init,
             rr_policy = resolveMaxRetries init options,
             rr_baseDelayMs = (case Option.bind (tr_retry options) ro_baseDelayMs of None \<Rightarrow> 150 | Some d \<Rightarrow> d),
             rr_maxBackoffMs = (case Option.bind (tr_retry options) ro_maxBackoffMs of None \<Rightarrow> 5000 | Some d \<Rightarrow> d),
             rr_deadline = now + tr_timeoutMs options, rr_pinned = tr_pinned options, rr_streaming = streaming\<rparr>"
  have "retry_loop ops run 0 w1 = (r, evs, w')"
    using assms now by (simp add: fetchWithSwitchmaxxerRetry_def run_def)
  note ev = retry_loop_events [OF this]
  have run: "rr_policy run = resolveMaxRetries init options" "rr_method run = getFetchMethod init"
    by (simp_all add: run_def)
  have "\<forall>o'\<in>set (map snd (butlast (sends evs))). retryable run o'"
    using ev unfolding list_all_iff by blast
  then have "\<forall>o'\<in>set (map snd (butlast (sends evs))).
        case o' of Inl e \<Rightarrow> extractRetryableErrorReason e \<noteq> None
        | Inr resp \<Rightarrow> getFetchMethod init \<noteq> ''POST'' \<and> shouldRetryStatus (ur_status resp)"
    unfolding retryable_def run .
  moreover have "map fst (sends evs) = [1..<Suc (length (sends evs))]"
    "int (length (sends evs)) \<le> max 1 (mr_maxRetries (resolveMaxRetries init options) + 1)"
    using ev run by simp_all
  ultimately show ?thesis using ev by blast
qed

section \<open>Properties\<close>


text \<open>A world in which each fetch fails with a reset until the list of outcomes is used up.\<close>

definition example_ops :: "(int \<times> (thrown + upstream_response) list) transport_ops" where
  "example_ops =
     \<lparr>to_now = (\<lambda>(t, s). (t, (t + 1, s))), to_random = (\<lambda>w. (0, w)), to_parseDate = (\<lambda>_. None), to_parseUrl = (\<lambda>_. None),
      to_fetch = (\<lambda>_ _ _ (t, s). case s of [] \<Rightarrow> (Inl (abort_error ''end''), (t, s)) | r # s' \<Rightarrow> (r, (t + 1, s'))),
      to_request = (\<lambda>_ _ w. (Inl (abort_error ''none''), w)), to_sleep = (\<lambda>d (t, s). (Inr (), (t + d, s))),
      to_aborted = (\<lambda>_. False), to_abortReason = (\<lambda>_. None)\<rparr>"

definition example_reset :: thrown where
  "example_reset = ErrorObject PlainError ''TypeError'' ''fetch failed'' []
     (Some (ErrorObject PlainError ''Error'' ''reset'' [(''code'', JStr ''ECONNRESET'')] None))"

definition example_init :: request_init where
  "example_init = \<lparr>ri_method = Some ''post'', ri_headers = [(''idempotency-key'', [''k''])], ri_body = TextBody ''x''\<rparr>"

definition example_options :: transport_options where
  "example_options = \<lparr>tr_timeoutMs = 1000, tr_retry = None, tr_pinned = None\<rparr>"

definition example_busy :: upstream_response where
  "example_busy = \<lparr>ur_status = 503, ur_headers = [], ur_body = None\<rparr>"


text \<open>
  Property (pinned_lookup_only). However a socket asks for the address of a pinned endpoint, with any family
  and for one or all addresses, the answer names the pinned address and no other; a mismatch of the
  family is an error.
\<close>

theorem pinned_lookup_only:
  "answer_addresses (pinned_lookup pinned optFamily optAll) = [pr_address pinned] \<and>
   ((\<exists>m a f. pinned_lookup pinned optFamily optAll = LookupError m a f) =
     (optFamily \<notin> {None, Some 0, Some (pr_family pinned)}))"
  by (auto simp: pinned_lookup_def Let_def split: option.splits)

end
