(* ===== verification/Translate_Request.thy ===== *)
theory Translate_Request
  imports Json_Bounds
begin

text \<open>
  Translation of an OpenAI chat request into an Anthropic messages request:
  \<^verbatim>\<open>translation/translate-openai-to-anthropic.ts\<close> and \<^verbatim>\<open>translation/translation-shared.ts\<close>.

  \<open>randomUUID\<close> is a parameter \<open>uuid\<close>: the \<open>n\<close>-th identifier drawn; the functions that draw
  one take and return the number of draws so far.
\<close>

section \<open>Shared\<close>

datatype translation_error =
    UnsupportedTextContent string
  | AnthropicMessagesRequired
  | JsonObjectRequired string
  | TranslationJson json_error
  | InvalidSsePayload
  | SseRemainderLimit nat nat
  | SseOptionError
  | NullPropertyRead

definition parseJsonObjectWithinBounds :: "(string \<Rightarrow> json option) \<Rightarrow> string \<Rightarrow> string \<Rightarrow> translation_error + json" where
  "parseJsonObjectWithinBounds parse rawJson label =
     (case parseJsonWithinBounds parse hard_json_bounds rawJson of
        Inl e \<Rightarrow> Inl (TranslationJson e)
      | Inr parsed \<Rightarrow> if \<not> isObjectLike (Some parsed) then Inl (JsonObjectRequired label) else Inr parsed)"

definition in_quotes :: "string \<Rightarrow> string" where
  "in_quotes s = [CHR 0x27] @ s @ [CHR 0x27]"

definition call_id :: "(nat \<Rightarrow> string) \<Rightarrow> nat \<Rightarrow> string" where
  "call_id uuid n = ''call_'' @ removeAll CHR ''-'' (uuid n)"

text \<open>\<open>typeof v === "string" && v.trim().length > 0\<close>\<close>

definition non_blank_text :: "json option \<Rightarrow> string option" where
  "non_blank_text v = (case as_string v of Some s \<Rightarrow> if non_blank s then Some s else None | None \<Rightarrow> None)"

section \<open>Text content\<close>

definition text_block :: "string \<Rightarrow> json" where
  "text_block s = JObj [(''type'', JStr ''text''), (''text'', JStr s)]"

definition isTextBlock :: "json \<Rightarrow> bool" where
  "isTextBlock v \<longleftrightarrow> isObjectLike (Some v) \<and> jprop v ''type'' = Some (JStr ''text'') \<and> as_string (jprop v ''text'') \<noteq> None"

definition isInputTextBlock :: "json \<Rightarrow> bool" where
  "isInputTextBlock v \<longleftrightarrow>
     isObjectLike (Some v) \<and> jprop v ''type'' = Some (JStr ''input_text'') \<and> as_string (jprop v ''text'') \<noteq> None"

definition block_text :: "json \<Rightarrow> string" where
  "block_text v = (case as_string (jprop v ''text'') of Some s \<Rightarrow> s | None \<Rightarrow> [])"

definition text_part :: "json \<Rightarrow> translation_error + string" where
  "text_part item =
     (case item of
        JStr s \<Rightarrow> Inr s
      | _ \<Rightarrow> if isTextBlock item then Inr (block_text item)
             else Inl (UnsupportedTextContent ''Encountered unsupported array content block during text normalization.''))"

definition normalizeTextContent :: "json option \<Rightarrow> translation_error + string" where
  "normalizeTextContent content =
     (case content of
        Some (JStr s) \<Rightarrow> Inr s
      | Some (JArr items) \<Rightarrow> rbind (rtraverse text_part items) (\<lambda>parts. Inr (concat parts))
      | Some JNull \<Rightarrow> Inr []
      | None \<Rightarrow> Inr []
      | _ \<Rightarrow> Inl (UnsupportedTextContent ''Encountered unsupported non-text content during normalization.''))"

fun content_blocks :: "json list \<Rightarrow> translation_error + json list" where
  "content_blocks [] = Inr []"
| "content_blocks (item # items) =
     (case item of
        JStr s \<Rightarrow> rbind (content_blocks items) (\<lambda>bs. Inr (text_block s # bs))
      | _ \<Rightarrow>
          if \<not> isObjectLike (Some item) then content_blocks items
          else if isTextBlock item \<or> isInputTextBlock item
          then rbind (content_blocks items) (\<lambda>bs. Inr (text_block (block_text item) # bs))
          else Inl (UnsupportedTextContent (''Encountered unsupported message block type '' @
                 in_quotes (case as_string (jprop item ''type'') of Some t \<Rightarrow> t | None \<Rightarrow> ''unknown'') @
                 '' while translating request content.'')))"

definition toAnthropicContent :: "json option \<Rightarrow> translation_error + json" where
  "toAnthropicContent content =
     (case content of
        Some (JStr s) \<Rightarrow> Inr (JStr s)
      | Some (JArr items) \<Rightarrow>
          rbind (content_blocks items) (\<lambda>bs. Inr (if length bs > 0 then JArr bs else JStr []))
      | _ \<Rightarrow> rbind (normalizeTextContent content) (\<lambda>s. Inr (JStr s)))"

section \<open>Messages\<close>

datatype message_role = system_role | user_role | assistant_role

definition mapMessageRole :: "json option \<Rightarrow> message_role" where
  "mapMessageRole role =
     (if role = Some (JStr ''system'') \<or> role = Some (JStr ''developer'') then system_role
      else if role = Some (JStr ''assistant'') then assistant_role
      else user_role)"

fun role_name :: "message_role \<Rightarrow> string" where
  "role_name system_role = ''system''"
| "role_name user_role = ''user''"
| "role_name assistant_role = ''assistant''"

definition parseToolArguments :: "(string \<Rightarrow> json option) \<Rightarrow> json option \<Rightarrow> translation_error + json" where
  "parseToolArguments parse argumentsValue =
     (case argumentsValue of
        None \<Rightarrow> Inr (JObj [])
      | Some JNull \<Rightarrow> Inr (JObj [])
      | Some (JStr s) \<Rightarrow>
          if s = [] then Inr (JObj [])
          else (case parseJsonObjectWithinBounds parse s ''OpenAI tool call arguments'' of
                  Inl _ \<Rightarrow> Inl (UnsupportedTextContent ''Encountered invalid OpenAI tool call arguments JSON.'')
                | Inr v \<Rightarrow> Inr v)
      | Some v \<Rightarrow>
          if isObjectLike (Some v) then Inr v
          else Inl (UnsupportedTextContent ''Encountered unsupported OpenAI tool call arguments.''))"

definition tool_result_block :: "json \<Rightarrow> translation_error + json" where
  "tool_result_block item =
     (case item of
        JStr s \<Rightarrow> Inr (text_block s)
      | _ \<Rightarrow> if isObjectLike (Some item) \<and> (isTextBlock item \<or> isInputTextBlock item)
             then Inr (text_block (block_text item))
             else Inl (UnsupportedTextContent ''Encountered unsupported OpenAI tool result content block.''))"

definition toAnthropicToolResultContent :: "json option \<Rightarrow> translation_error + json" where
  "toAnthropicToolResultContent content =
     (case content of
        Some (JArr items) \<Rightarrow> rbind (rtraverse tool_result_block items) (\<lambda>bs. Inr (JArr bs))
      | _ \<Rightarrow> rbind (normalizeTextContent content) (\<lambda>s. Inr (JStr s)))"

text \<open>One tool call of an assistant message; \<open>n\<close> counts the identifiers drawn.\<close>

definition tool_use_block ::
  "(string \<Rightarrow> json option) \<Rightarrow> (nat \<Rightarrow> string) \<Rightarrow> nat \<Rightarrow> json \<Rightarrow> translation_error + json \<times> nat" where
  "tool_use_block parse uuid n toolCall =
     rbind (rensure (isObjectLike (Some toolCall)) (UnsupportedTextContent ''Encountered malformed OpenAI tool call.'')) (\<lambda>_.
     let functionValue = jprop toolCall ''function'';
         functionRecord = (if isObjectLike functionValue then functionValue else None);
         name = (case Option.bind functionRecord (\<lambda>f. as_string (jprop f ''name'')) of Some s \<Rightarrow> s | None \<Rightarrow> []);
         (ident, n') = (case non_blank_text (jprop toolCall ''id'') of Some s \<Rightarrow> (s, n) | None \<Rightarrow> (call_id uuid n, Suc n))
     in rbind (rensure (non_blank name) (UnsupportedTextContent ''Encountered OpenAI tool call without a function name.'')) (\<lambda>_.
        rbind (parseToolArguments parse (Option.bind functionRecord (\<lambda>f. jprop f ''arguments''))) (\<lambda>inp.
        Inr (JObj [(''type'', JStr ''tool_use''), (''id'', JStr ident), (''name'', JStr name), (''input'', inp)], n'))))"

fun tool_use_blocks ::
  "(string \<Rightarrow> json option) \<Rightarrow> (nat \<Rightarrow> string) \<Rightarrow> nat \<Rightarrow> json list \<Rightarrow> translation_error + json list \<times> nat" where
  "tool_use_blocks parse uuid n [] = Inr ([], n)"
| "tool_use_blocks parse uuid n (t # ts) =
     rbind (tool_use_block parse uuid n t) (\<lambda>(b, n').
     rbind (tool_use_blocks parse uuid n' ts) (\<lambda>(bs, n''). Inr (b # bs, n'')))"

definition toAnthropicAssistantContent ::
  "(string \<Rightarrow> json option) \<Rightarrow> (nat \<Rightarrow> string) \<Rightarrow> nat \<Rightarrow> json \<Rightarrow> translation_error + json \<times> nat" where
  "toAnthropicAssistantContent parse uuid n item =
     (let toolCalls = (case as_array (jprop item ''tool_calls'') of Some ts \<Rightarrow> ts | None \<Rightarrow> [])
      in if length toolCalls = 0 then rbind (toAnthropicContent (jprop item ''content'')) (\<lambda>c. Inr (c, n))
         else
           rbind (toAnthropicContent (jprop item ''content'')) (\<lambda>c.
           rbind (normalizeTextContent (Some c)) (\<lambda>s.
           rbind (tool_use_blocks parse uuid n toolCalls) (\<lambda>(bs, n').
           Inr (JArr ((if length s > 0 then [text_block s] else []) @ bs), n')))))"

definition message_json :: "string \<Rightarrow> json \<Rightarrow> json" where
  "message_json role content = JObj [(''role'', JStr role), (''content'', content)]"

definition toAnthropicMessage ::
  "(string \<Rightarrow> json option) \<Rightarrow> (nat \<Rightarrow> string) \<Rightarrow> nat \<Rightarrow> json \<Rightarrow> translation_error + json option \<times> nat" where
  "toAnthropicMessage parse uuid n item =
     (if jprop item ''role'' = Some (JStr ''tool'') then
        (case non_blank_text (jprop item ''tool_call_id'') of
           None \<Rightarrow> Inl (UnsupportedTextContent ''Encountered OpenAI tool result without a tool_call_id.'')
         | Some toolUseId \<Rightarrow>
             rbind (toAnthropicToolResultContent (jprop item ''content'')) (\<lambda>c.
             Inr (Some (message_json ''user'' (JArr [JObj [(''type'', JStr ''tool_result''),
               (''tool_use_id'', JStr toolUseId), (''content'', c)]])), n)))
      else
        let role = mapMessageRole (jprop item ''role'')
        in if role = system_role then Inr (None, n)
           else if role = assistant_role
           then rbind (toAnthropicAssistantContent parse uuid n item) (\<lambda>(c, n'). Inr (Some (message_json ''assistant'' c), n'))
           else rbind (toAnthropicContent (jprop item ''content'')) (\<lambda>c. Inr (Some (message_json ''user'' c), n)))"

section \<open>Tools\<close>

definition translate_tool :: "json \<Rightarrow> json" where
  "translate_tool tool =
     (if \<not> isObjectLike (Some tool) then tool
      else if as_string (jprop tool ''name'') \<noteq> None \<and> isObjectLike (jprop tool ''input_schema'') then tool
      else if jprop tool ''type'' \<noteq> Some (JStr ''function'') then tool
      else (case jprop tool ''function'' of
              None \<Rightarrow> tool
            | Some f \<Rightarrow>
                if \<not> isObjectLike (Some f) then tool
                else (case non_blank_text (jprop f ''name'') of
                        None \<Rightarrow> tool
                      | Some name \<Rightarrow>
                          JObj ([(''name'', JStr name),
                                 (''input_schema'',
                                    (case jprop f ''parameters'' of
                                       Some p \<Rightarrow> if isObjectLike (Some p) then p
                                                 else JObj [(''type'', JStr ''object''), (''properties'', JObj [])]
                                     | None \<Rightarrow> JObj [(''type'', JStr ''object''), (''properties'', JObj [])]))] @
                                (case as_string (jprop f ''description'') of
                                   Some d \<Rightarrow> [(''description'', JStr d)] | None \<Rightarrow> [])))))"

definition translateOpenAiToolsToAnthropic :: "json option \<Rightarrow> json option" where
  "translateOpenAiToolsToAnthropic tools = map_option (\<lambda>ts. JArr (map translate_tool ts)) (as_array tools)"

text \<open>The value and \<open>omitTools\<close>.\<close>

definition translateOpenAiToolChoiceToAnthropic :: "json option \<Rightarrow> json option \<times> bool" where
  "translateOpenAiToolChoiceToAnthropic toolChoice =
     (case toolChoice of
        None \<Rightarrow> (None, False)
      | Some v \<Rightarrow>
          if v = JStr ''none'' then (None, True)
          else if v = JStr ''auto'' then (Some (JObj [(''type'', JStr ''auto'')]), False)
          else if v = JStr ''required'' then (Some (JObj [(''type'', JStr ''any'')]), False)
          else if isObjectLike (Some v) \<and> jprop v ''type'' = Some (JStr ''function'') then
            (case Option.bind (jprop v ''function'')
                    (\<lambda>f. if isObjectLike (Some f) then non_blank_text (jprop f ''name'') else None) of
               Some name \<Rightarrow> (Some (JObj [(''type'', JStr ''tool''), (''name'', JStr name)]), False)
             | None \<Rightarrow> (Some v, False))
          else (Some v, False))"

section \<open>The request\<close>

text \<open>The loop over the input messages: translated messages, system texts, identifiers drawn.\<close>

fun translate_messages ::
  "(string \<Rightarrow> json option) \<Rightarrow> (nat \<Rightarrow> string) \<Rightarrow> nat \<Rightarrow> json list \<Rightarrow> translation_error + json list \<times> string list" where
  "translate_messages parse uuid n [] = Inr ([], [])"
| "translate_messages parse uuid n (item # items) =
     (if \<not> isObjectLike (Some item) then translate_messages parse uuid n items
      else if mapMessageRole (jprop item ''role'') = system_role then
        rbind (toAnthropicContent (jprop item ''content'')) (\<lambda>c.
        rbind (normalizeTextContent (Some c)) (\<lambda>systemText.
        rbind (translate_messages parse uuid n items) (\<lambda>(ms, sys).
        Inr (ms, if length systemText > 0 then systemText # sys else sys))))
      else
        rbind (toAnthropicMessage parse uuid n item) (\<lambda>(m, n').
        rbind (translate_messages parse uuid n' items) (\<lambda>(ms, sys).
        Inr (case m of Some msg \<Rightarrow> msg # ms | None \<Rightarrow> ms, sys))))"

definition opt_field :: "string \<Rightarrow> json option \<Rightarrow> (string \<times> json) list" where
  "opt_field name v = (case v of Some x \<Rightarrow> [(name, x)] | None \<Rightarrow> [])"

definition stop_sequences :: "json option \<Rightarrow> json option" where
  "stop_sequences stop =
     (case stop of
        Some (JStr s) \<Rightarrow> Some (JArr [JStr s])
      | Some (JArr items) \<Rightarrow> Some (JArr (filter (\<lambda>x. as_string (Some x) \<noteq> None) items))
      | _ \<Rightarrow> None)"

definition requested_max_tokens :: "json \<Rightarrow> json" where
  "requested_max_tokens body =
     (case as_number (jprop body ''max_tokens'') of
        Some n \<Rightarrow> JNum n
      | None \<Rightarrow> (case as_number (jprop body ''max_completion_tokens'') of Some n \<Rightarrow> JNum n | None \<Rightarrow> JNum 1024))"

definition buildAnthropicRequestBodyFromOpenAi ::
  "(string \<Rightarrow> json option) \<Rightarrow> (nat \<Rightarrow> string) \<Rightarrow> json \<Rightarrow> string \<Rightarrow> translation_error + json" where
  "buildAnthropicRequestBodyFromOpenAi parse uuid parsedBody upstreamModel =
     (let inputMessages = (case as_array (jprop parsedBody ''messages'') of Some ms \<Rightarrow> ms | None \<Rightarrow> [])
      in rbind (translate_messages parse uuid 0 inputMessages) (\<lambda>(anthropicMessages, systemParts).
         if length anthropicMessages = 0 then Inl AnthropicMessagesRequired
         else
           let (choice, omitTools) = translateOpenAiToolChoiceToAnthropic (jprop parsedBody ''tool_choice'');
               tools = translateOpenAiToolsToAnthropic (jprop parsedBody ''tools'')
           in Inr (JObj ([(''model'', JStr upstreamModel), (''messages'', JArr anthropicMessages),
                          (''max_tokens'', requested_max_tokens parsedBody),
                          (''stream'', JBool (jprop parsedBody ''stream'' = Some (JBool True)))] @
                         (if length systemParts > 0
                          then [(''system'', JStr (join [CHR 0x0A, CHR 0x0A] systemParts))] else []) @
                         opt_field ''temperature'' (jprop parsedBody ''temperature'') @
                         opt_field ''top_p'' (jprop parsedBody ''top_p'') @
                         opt_field ''metadata'' (jprop parsedBody ''metadata'') @
                         opt_field ''tools'' (if omitTools then None else tools) @
                         opt_field ''tool_choice'' choice @
                         opt_field ''stop_sequences'' (stop_sequences (jprop parsedBody ''stop''))))))"

section \<open>Text is preserved\<close>

text \<open>The text a content value carries, read off directly.\<close>

definition item_text :: "json \<Rightarrow> string" where
  "item_text item = (case item of JStr s \<Rightarrow> s | _ \<Rightarrow> if isTextBlock item \<or> isInputTextBlock item then block_text item else [])"

definition content_text :: "json option \<Rightarrow> string" where
  "content_text content =
     (case content of
        Some (JStr s) \<Rightarrow> s
      | Some (JArr items) \<Rightarrow> concat (map item_text items)
      | _ \<Rightarrow> [])"

lemma text_block_simps [simp]:
  "isTextBlock (text_block s)" "block_text (text_block s) = s" "text_part (text_block s) = Inr s"
  by (simp_all add: isTextBlock_def block_text_def text_block_def text_part_def)

lemma isTextBlock_obj: "isTextBlock item \<or> isInputTextBlock item \<Longrightarrow> isObjectLike (Some item)"
  by (auto simp: isTextBlock_def isInputTextBlock_def)

lemma content_blocks_text:
  "content_blocks items = Inr bs \<Longrightarrow> rtraverse text_part bs = Inr ts \<Longrightarrow> concat ts = concat (map item_text items)"
proof (induction items arbitrary: bs ts)
  case (Cons item items)
  show ?case
  proof (cases "\<exists>s. item = JStr s")
    case True
    with Cons show ?thesis by (auto simp: res_simps item_text_def)
  next
    case False
    show ?thesis
    proof (cases "isObjectLike (Some item)")
      case True
      with False Cons show ?thesis by (cases item) (auto simp: res_simps item_text_def split: if_splits)
    next
      case no: False
      with isTextBlock_obj [of item] have t: "item_text item = []"
        using False by (cases item) (auto simp: item_text_def)
      from no False Cons.prems(1) have "content_blocks items = Inr bs"
        by (cases item) auto
      with Cons t show ?thesis by simp
    qed
  qed
qed simp

lemma content_blocks_texts: "content_blocks items = Inr bs \<Longrightarrow> \<exists>ts. bs = map text_block ts"
proof (induction items arbitrary: bs)
  case (Cons item items)
  then show ?case
    by (cases item) (auto simp: res_simps split: if_splits intro: exI [of _ "_ # _"] dest!: Cons.IH
        simp flip: list.map(2))
qed simp

lemma text_blocks_parts [simp]: "rtraverse text_part (map text_block ts) = Inr ts"
  by (induction ts) auto

lemma content_roundtrip:
  assumes "toAnthropicContent content = Inr c"
  shows "normalizeTextContent (Some c) = Inr (content_text content)"
proof (cases "\<exists>items. content = Some (JArr items)")
  case True
  then obtain items where items: "content = Some (JArr items)" ..
  with assms obtain bs where bs: "content_blocks items = Inr bs" "c = (if length bs > 0 then JArr bs else JStr [])"
    by (auto simp: toAnthropicContent_def res_simps)
  then obtain ts where ts: "bs = map text_block ts" using content_blocks_texts by blast
  with content_blocks_text [OF bs(1), of ts] bs(2) items show ?thesis
    by (auto simp: normalizeTextContent_def content_text_def)
next
  case False
  with assms show ?thesis
    by (auto simp: toAnthropicContent_def normalizeTextContent_def content_text_def res_simps
        split: option.splits json.splits)
qed

section \<open>The message list\<close>

definition is_system :: "json \<Rightarrow> bool" where
  "is_system item \<longleftrightarrow> isObjectLike (Some item) \<and> mapMessageRole (jprop item ''role'') = system_role"

definition is_turn :: "json \<Rightarrow> bool" where
  "is_turn item \<longleftrightarrow> isObjectLike (Some item) \<and> mapMessageRole (jprop item ''role'') \<noteq> system_role"

definition system_texts :: "json list \<Rightarrow> string list" where
  "system_texts items = filter (\<lambda>s. s \<noteq> []) (map (\<lambda>i. content_text (jprop i ''content'')) (filter is_system items))"

definition turn_of :: "(string \<Rightarrow> json option) \<Rightarrow> (nat \<Rightarrow> string) \<Rightarrow> json \<Rightarrow> json \<Rightarrow> bool" where
  "turn_of parse uuid item m \<longleftrightarrow>
     (\<exists>n n'. toAnthropicMessage parse uuid n item = Inr (Some m, n')) \<and>
     jprop m ''role'' = Some (JStr (if jprop item ''role'' = Some (JStr ''assistant'') then ''assistant'' else ''user''))"

lemma message_of_turn:
  assumes "toAnthropicMessage parse uuid n item = Inr (m, n')" "mapMessageRole (jprop item ''role'') \<noteq> system_role"
  shows "\<exists>msg. m = Some msg \<and> turn_of parse uuid item msg"
  using assms unfolding turn_of_def
  by (auto simp: toAnthropicMessage_def mapMessageRole_def message_json_def res_simps Let_def
      split: if_splits option.splits; blast)

lemma translate_messages_spec:
  "translate_messages parse uuid n items = Inr (ms, sys) \<Longrightarrow>
   sys = system_texts items \<and> list_all2 (turn_of parse uuid) (filter is_turn items) ms"
proof (induction items arbitrary: n ms sys)
  case Nil
  then show ?case by (simp add: system_texts_def)
next
  case (Cons item items)
  consider "\<not> isObjectLike (Some item)" | "is_system item" | "is_turn item"
    by (auto simp: is_system_def is_turn_def)
  then show ?case
  proof cases
    case 1
    with Cons show ?thesis by (auto simp: is_system_def is_turn_def system_texts_def)
  next
    case 2
    then have "isObjectLike (Some item)" "mapMessageRole (jprop item ''role'') = system_role" "\<not> is_turn item"
      by (simp_all add: is_system_def is_turn_def)
    with Cons.prems obtain c t ms' sys' where c: "toAnthropicContent (jprop item ''content'') = Inr c"
        "normalizeTextContent (Some c) = Inr t" "translate_messages parse uuid n items = Inr (ms', sys')"
        "ms = ms'" "sys = (if length t > 0 then t # sys' else sys')"
      by (auto simp: res_simps)
    with content_roundtrip [OF c(1)] Cons.IH [OF c(3)] 2 \<open>\<not> is_turn item\<close> show ?thesis
      by (simp add: system_texts_def)
  next
    case 3
    then have "isObjectLike (Some item)" "mapMessageRole (jprop item ''role'') \<noteq> system_role" "\<not> is_system item"
      by (simp_all add: is_system_def is_turn_def)
    with Cons.prems obtain m n' ms' where m: "toAnthropicMessage parse uuid n item = Inr (m, n')"
        "translate_messages parse uuid n' items = Inr (ms', sys)"
        "ms = (case m of Some msg \<Rightarrow> msg # ms' | None \<Rightarrow> ms')"
      by (auto simp: res_simps)
    with message_of_turn [OF m(1)] 3 Cons.IH [OF m(2)] \<open>\<not> is_system item\<close> show ?thesis
      by (auto simp: is_turn_def system_texts_def)
  qed
qed

lemma map_of_opt_field: "map_of (opt_field k v) k' = (if k = k' then v else None)"
  by (auto simp: opt_field_def split: option.split)

lemma translate_messages_empty: "translate_messages parse uuid n items = Inr ([], sys) \<Longrightarrow> filter is_turn items = []"
  using translate_messages_spec [of parse uuid n items "[]" sys] by simp

section \<open>Tool calls\<close>

text \<open>A tool call as OpenAI clients send it, and the block that carries it to Anthropic.\<close>

definition openai_call :: "(rat \<Rightarrow> string) \<Rightarrow> string \<times> string \<times> json \<Rightarrow> json" where
  "openai_call nts call = (case call of (ident, name, v) \<Rightarrow>
     JObj [(''id'', JStr ident), (''type'', JStr ''function''),
           (''function'', JObj [(''name'', JStr name), (''arguments'', JStr (json_stringify nts v))])])"

definition anthropic_call :: "string \<times> string \<times> json \<Rightarrow> json" where
  "anthropic_call call = (case call of (ident, name, v) \<Rightarrow>
     JObj [(''type'', JStr ''tool_use''), (''id'', JStr ident), (''name'', JStr name), (''input'', v)])"

text \<open>
  A call both sides can carry: identifier and name are not blank, the arguments are an object that
  fits the bounds, and the parser inverts the printer on it.
\<close>

definition portable_call :: "(string \<Rightarrow> json option) \<Rightarrow> (rat \<Rightarrow> string) \<Rightarrow> string \<times> string \<times> json \<Rightarrow> bool" where
  "portable_call parse nts call \<longleftrightarrow> (case call of (ident, name, v) \<Rightarrow>
     non_blank ident \<and> non_blank name \<and> isRecord (Some v) \<and>
     is_ok (safeJsonStringifyWithinBounds nts hard_json_bounds v) \<and> parse (json_stringify nts v) = Some v)"

lemma stringify_record: "isRecord (Some v) \<Longrightarrow> json_stringify nts v \<noteq> [] \<and> isObjectLike (Some v) \<and> v \<noteq> JNull"
  by (cases v) auto

lemma portable_tool_use:
  assumes "portable_call parse nts call" "\<And>n. plain_text (nts n)"
  shows "tool_use_block parse uuid n (openai_call nts call) = Inr (anthropic_call call, n)"
proof -
  obtain ident name v where call: "call = (ident, name, v)" by (cases call)
  from assms(1) call have p: "non_blank ident" "non_blank name" "isRecord (Some v)" "parse (json_stringify nts v) = Some v"
    "safeJsonStringifyWithinBounds nts hard_json_bounds v = Inr (json_stringify nts v)"
    by (auto simp: portable_call_def is_ok_iff safeJsonStringifyWithinBounds_def res_simps Let_def split: if_splits)
  have "parseJsonWithinBounds parse hard_json_bounds (json_stringify nts v) = Inr v"
    by (rule printed_parses) (use assms(2) p in auto)
  then have "parseToolArguments parse (Some (JStr (json_stringify nts v))) = Inr v"
    using stringify_record [OF p(3), of nts] by (simp add: parseToolArguments_def parseJsonObjectWithinBounds_def)
  with p(1,2) call show ?thesis
    by (simp add: tool_use_block_def openai_call_def anthropic_call_def non_blank_text_def)
qed

lemma portable_tool_uses:
  assumes "list_all (portable_call parse nts) calls" "\<And>n. plain_text (nts n)"
  shows "tool_use_blocks parse uuid n (map (openai_call nts) calls) = Inr (map anthropic_call calls, n)"
  using assms(1) by (induction calls) (simp_all add: portable_tool_use assms(2))

section \<open>Properties\<close>

text \<open>C38 (request_translation_spec). A translated request names the upstream model, asks for a stream exactly
  when the client does, has a numeric token limit, and has one message per message of the client that
  is not a system message, in the same order and with the same side speaking; the system messages'
  texts, in order and none dropped but empty ones, are the system prompt.\<close>

theorem request_translation_spec:
  assumes "buildAnthropicRequestBodyFromOpenAi parse uuid body upstreamModel = Inr out"
  shows "\<exists>items ms. jprop body ''messages'' = Some (JArr items) \<and> ms \<noteq> [] \<and>
    jprop out ''messages'' = Some (JArr ms) \<and> list_all2 (turn_of parse uuid) (filter is_turn items) ms \<and>
    jprop out ''system'' = (if system_texts items = [] then None
                           else Some (JStr (join [CHR 0x0A, CHR 0x0A] (system_texts items)))) \<and>
    jprop out ''model'' = Some (JStr upstreamModel) \<and> (\<exists>n. jprop out ''max_tokens'' = Some (JNum n)) \<and>
    jprop out ''stream'' = Some (JBool (jprop body ''stream'' = Some (JBool True)))"
proof -
  let ?items = "case as_array (jprop body ''messages'') of Some ms \<Rightarrow> ms | None \<Rightarrow> []"
  from assms obtain ms sys where t: "translate_messages parse uuid 0 ?items = Inr (ms, sys)" and ne: "ms \<noteq> []"
    by (auto simp: buildAnthropicRequestBodyFromOpenAi_def res_simps Let_def split: if_splits)
  note spec = translate_messages_spec [OF t]
  obtain items where items: "jprop body ''messages'' = Some (JArr items)" "?items = items"
  proof (cases "as_array (jprop body ''messages'')")
    case None
    with spec ne show ?thesis by simp
  qed (use that in auto)
  have tokens: "\<exists>n. requested_max_tokens body = JNum n"
    by (auto simp: requested_max_tokens_def split: option.split)
  obtain choice omit where "translateOpenAiToolChoiceToAnthropic (jprop body ''tool_choice'') = (choice, omit)"
    by fastforce
  with assms t ne items spec tokens show ?thesis
    by (auto simp: buildAnthropicRequestBodyFromOpenAi_def Let_def map_of_append map_add_def map_of_opt_field)
qed

definition example_chat :: json where
  "example_chat = JObj [(''messages'', JArr [
     JObj [(''role'', JStr ''system''), (''content'', JStr ''be brief'')],
     JObj [(''role'', JStr ''user''), (''content'', JArr [JStr ''hi''])]])]"

theorem request_translation_spec_witness:
  "\<exists>out. buildAnthropicRequestBodyFromOpenAi (\<lambda>_. None) (\<lambda>_. []) example_chat ''m'' = Inr out \<and>
     jprop out ''system'' = Some (JStr ''be brief'') \<and> jprop out ''model'' = Some (JStr ''m'')"
proof -
  have "is_ok (buildAnthropicRequestBodyFromOpenAi (\<lambda>_. None) (\<lambda>_. []) example_chat ''m'')"
    by (simp add: buildAnthropicRequestBodyFromOpenAi_def example_chat_def mapMessageRole_def toAnthropicContent_def
        normalizeTextContent_def toAnthropicMessage_def translateOpenAiToolChoiceToAnthropic_def)
  then obtain out where out: "buildAnthropicRequestBodyFromOpenAi (\<lambda>_. None) (\<lambda>_. []) example_chat ''m'' = Inr out"
    by (auto simp: is_ok_iff)
  with request_translation_spec [OF out] show ?thesis
    by (auto simp: example_chat_def system_texts_def is_system_def mapMessageRole_def content_text_def)
qed

end
