(* ===== verification/Translate_Response.thy ===== *)
theory Translate_Response
  imports Translate_Request
begin

text \<open>
  Translation of Anthropic responses and event streams into the OpenAI shape:
  \<^verbatim>\<open>translation/translate-anthropic-to-openai.ts\<close>.

  A complete response is the record the code's type \<open>AnthropicResponseBody\<close> describes. The stream
  translator's mutable state is a record that each event takes and returns; an event that throws
  also returns the state as it is then. \<open>formatSseChunk\<close> is applied to the chunks an event yields.
\<close>

section \<open>Complete responses\<close>

record anthropic_response =
  ar_id :: "string option"
  ar_content :: "json list option"
  ar_stop_reason :: "string option"
  ar_input_tokens :: "rat option"
  ar_output_tokens :: "rat option"

definition isIgnorableAnthropicContentBlockType :: "json option \<Rightarrow> bool" where
  "isIgnorableAnthropicContentBlockType blockType \<longleftrightarrow>
     blockType = Some (JStr ''thinking'') \<or> blockType = Some (JStr ''redacted_thinking'')"

definition function_call :: "string \<Rightarrow> string \<Rightarrow> string \<Rightarrow> json" where
  "function_call ident name arguments =
     JObj [(''id'', JStr ident), (''type'', JStr ''function''),
           (''function'', JObj [(''name'', JStr name), (''arguments'', JStr arguments)])]"

definition tool_input :: "json \<Rightarrow> json" where
  "tool_input block = (case jprop block ''input'' of None \<Rightarrow> JObj [] | Some JNull \<Rightarrow> JObj [] | Some v \<Rightarrow> v)"

text \<open>The loop over the content blocks: text parts, tool calls; \<open>n\<close> counts the identifiers drawn.\<close>

fun assistant_parts ::
  "(rat \<Rightarrow> string) \<Rightarrow> (nat \<Rightarrow> string) \<Rightarrow> nat \<Rightarrow> json list \<Rightarrow> translation_error + string list \<times> json list" where
  "assistant_parts nts uuid n [] = Inr ([], [])"
| "assistant_parts nts uuid n (block # blocks) =
     (let blockType = jprop block ''type''
      in if block = JNull then Inl NullPropertyRead
         else if isIgnorableAnthropicContentBlockType blockType then assistant_parts nts uuid n blocks
         else if blockType = Some (JStr ''text'') \<and> as_string (jprop block ''text'') \<noteq> None then
           rbind (assistant_parts nts uuid n blocks) (\<lambda>(ts, cs). Inr (block_text block # ts, cs))
         else if blockType = Some (JStr ''tool_use'') then
           (case non_blank_text (jprop block ''name'') of
              None \<Rightarrow> Inl (UnsupportedTextContent ''Encountered malformed Anthropic tool_use block while translating response.'')
            | Some name \<Rightarrow>
                let (ident, n') = (case non_blank_text (jprop block ''id'') of Some s \<Rightarrow> (s, n) | None \<Rightarrow> (call_id uuid n, Suc n))
                in case safeJsonStringifyWithinBounds nts hard_json_bounds (tool_input block) of
                     Inl e \<Rightarrow> Inl (TranslationJson e)
                   | Inr arguments \<Rightarrow>
                       rbind (assistant_parts nts uuid n' blocks) (\<lambda>(ts, cs).
                       Inr (ts, function_call ident name arguments # cs)))
         else Inl (UnsupportedTextContent (''Encountered unsupported upstream content block type '' @
                in_quotes (case as_string blockType of Some t \<Rightarrow> t | None \<Rightarrow> ''unknown'') @
                '' while translating response.'')))"

definition translateAnthropicAssistantMessage ::
  "(rat \<Rightarrow> string) \<Rightarrow> (nat \<Rightarrow> string) \<Rightarrow> json list option \<Rightarrow> translation_error + json" where
  "translateAnthropicAssistantMessage nts uuid content =
     (case content of
        None \<Rightarrow> Inr (JObj [(''role'', JStr ''assistant''), (''content'', JStr [])])
      | Some blocks \<Rightarrow>
          rbind (assistant_parts nts uuid 0 blocks) (\<lambda>(textParts, toolCalls).
          Inr (JObj ([(''role'', JStr ''assistant''),
                      (''content'', if length textParts > 0 then JStr (concat textParts)
                                    else if length toolCalls > 0 then JNull else JStr [])] @
                     (if length toolCalls > 0 then [(''tool_calls'', JArr toolCalls)] else [])))))"

definition mapStopReason :: "string option \<Rightarrow> string" where
  "mapStopReason stopReason =
     (if stopReason = Some ''end_turn'' \<or> stopReason = Some ''stop_sequence'' then ''stop''
      else if stopReason = Some ''max_tokens'' then ''length''
      else if stopReason = Some ''tool_use'' then ''tool_calls''
      else ''stop'')"

definition or_zero :: "rat option \<Rightarrow> rat" where
  "or_zero v = (case v of Some n \<Rightarrow> n | None \<Rightarrow> 0)"

definition translateAnthropicResponse ::
  "(rat \<Rightarrow> string) \<Rightarrow> (nat \<Rightarrow> string) \<Rightarrow> anthropic_response \<Rightarrow> string \<Rightarrow> int \<Rightarrow> translation_error + json" where
  "translateAnthropicResponse nts uuid upstreamBody model nowMs =
     (let promptTokens = or_zero (ar_input_tokens upstreamBody);
          completionTokens = or_zero (ar_output_tokens upstreamBody);
          created = of_int (nowMs div 1000)
      in rbind (translateAnthropicAssistantMessage nts uuid (ar_content upstreamBody)) (\<lambda>message.
         Inr (JObj [(''id'', JStr (case ar_id upstreamBody of Some i \<Rightarrow> i | None \<Rightarrow> ''switchmaxxer-'' @ nts created)),
                    (''object'', JStr ''chat.completion''), (''created'', JNum created), (''model'', JStr model),
                    (''choices'', JArr [JObj [(''index'', JNum 0), (''message'', message),
                       (''finish_reason'', JStr (mapStopReason (ar_stop_reason upstreamBody)))]]),
                    (''usage'', JObj [(''prompt_tokens'', JNum promptTokens), (''completion_tokens'', JNum completionTokens),
                       (''total_tokens'', JNum (promptTokens + completionTokens))])])))"

section \<open>Server-sent events\<close>

abbreviation LF :: char where "LF \<equiv> CHR 0x0A"

abbreviation CR :: char where "CR \<equiv> CHR 0x0D"

definition MAX_SSE_REMAINDER_BYTES :: nat where
  "MAX_SSE_REMAINDER_BYTES = 64 * 1024"

text \<open>\<open>replace(/\r\n/g, "\n")\<close> and \<open>replace(/\r/g, "\n")\<close>\<close>

fun replace_crlf :: "string \<Rightarrow> string" where
  "replace_crlf (x # y # s) = (if x = CR \<and> y = LF then LF # replace_crlf s else x # replace_crlf (y # s))"
| "replace_crlf s = s"

definition replace_cr :: "string \<Rightarrow> string" where
  "replace_cr s = map (\<lambda>c. if c = CR then LF else c) s"

definition resolveMaxSseRemainderBytes :: "rat option \<Rightarrow> translation_error + nat" where
  "resolveMaxSseRemainderBytes maxRemainderBytes =
     (case maxRemainderBytes of
        None \<Rightarrow> Inr MAX_SSE_REMAINDER_BYTES
      | Some v \<Rightarrow> if v \<le> 0 then Inl SseOptionError else Inr (nat \<lfloor>v\<rfloor>))"

definition assertSseRemainderWithinLimit :: "string \<Rightarrow> nat \<Rightarrow> translation_error + unit" where
  "assertSseRemainderWithinLimit remainder maxRemainderBytes =
     rensure (byte_length remainder \<le> maxRemainderBytes) (SseRemainderLimit maxRemainderBytes (byte_length remainder))"

definition parseSseEvents :: "string \<Rightarrow> rat option \<Rightarrow> translation_error + string list \<times> string" where
  "parseSseEvents buffer maxBytes =
     rbind (resolveMaxSseRemainderBytes maxBytes) (\<lambda>maxRemainderBytes.
     let normalized = replace_cr (replace_crlf buffer);
         parts = split2 LF LF normalized
     in if length parts = 1
        then rbind (assertSseRemainderWithinLimit normalized maxRemainderBytes) (\<lambda>_. Inr ([], normalized))
        else rbind (assertSseRemainderWithinLimit (last parts) maxRemainderBytes) (\<lambda>_. Inr (butlast parts, last parts)))"

definition formatSseChunk :: "(rat \<Rightarrow> string) \<Rightarrow> json option \<Rightarrow> string" where
  "formatSseChunk nts payload =
     (case payload of
        None \<Rightarrow> ''data: [DONE]'' @ [LF, LF]
      | Some v \<Rightarrow> ''data: '' @ json_stringify nts v @ [LF, LF])"

definition createOpenAiStreamChunk :: "string \<Rightarrow> string \<Rightarrow> int \<Rightarrow> json \<Rightarrow> string option \<Rightarrow> json" where
  "createOpenAiStreamChunk ident model nowMs delta finishReason =
     JObj [(''id'', JStr ident), (''object'', JStr ''chat.completion.chunk''), (''created'', JNum (of_int (nowMs div 1000))),
           (''model'', JStr model),
           (''choices'', JArr [JObj [(''index'', JNum 0), (''delta'', delta),
              (''finish_reason'', (case finishReason of Some r \<Rightarrow> JStr r | None \<Rightarrow> JNull))]])]"

section \<open>The stream translator\<close>

record stream_state =
  sm_placeholderResponseId :: string
  sm_announcedRole :: bool
  sm_nextToolCallIndex :: nat
  sm_toolCallIndexes :: "(rat, nat) js_map"
  sm_ignoredContentBlockIndexes :: "rat list"

definition ignoreAnthropicContentBlockIndex :: "rat option \<Rightarrow> stream_state \<Rightarrow> stream_state" where
  "ignoreAnthropicContentBlockIndex index st =
     (case index of
        None \<Rightarrow> st
      | Some i \<Rightarrow> st\<lparr>sm_ignoredContentBlockIndexes := List.insert i (sm_ignoredContentBlockIndexes st)\<rparr>)"

definition isIgnoredAnthropicContentBlockIndex :: "rat option \<Rightarrow> stream_state \<Rightarrow> bool" where
  "isIgnoredAnthropicContentBlockIndex index st =
     (case index of None \<Rightarrow> False | Some i \<Rightarrow> i \<in> set (sm_ignoredContentBlockIndexes st))"

definition serializeInitialStreamingToolArguments :: "(rat \<Rightarrow> string) \<Rightarrow> json option \<Rightarrow> translation_error + string" where
  "serializeInitialStreamingToolArguments nts inp =
     (case inp of
        None \<Rightarrow> Inr []
      | Some (JObj []) \<Rightarrow> Inr []
      | Some (JArr []) \<Rightarrow> Inr []
      | Some v \<Rightarrow> (case safeJsonStringifyWithinBounds nts hard_json_bounds v of
                       Inl e \<Rightarrow> Inl (TranslationJson e) | Inr s \<Rightarrow> Inr s))"

text \<open>The deltas a chunk can carry, before they are put into the chunk envelope.\<close>

datatype chunk =
    RoleChunk
  | TextChunk string
  | ToolStart nat string string string        \<comment> \<open>index, id, name, arguments\<close>
  | ToolDelta nat string                      \<comment> \<open>index, arguments\<close>
  | FinishChunk string
  | DoneChunk

fun chunk_delta :: "chunk \<Rightarrow> json" where
  "chunk_delta RoleChunk = JObj [(''role'', JStr ''assistant''), (''content'', JStr [])]"
| "chunk_delta (TextChunk t) = JObj [(''content'', JStr t)]"
| "chunk_delta (ToolStart i ident name args) =
     JObj [(''tool_calls'', JArr [JObj [(''index'', JNum (of_nat i)), (''id'', JStr ident), (''type'', JStr ''function''),
       (''function'', JObj [(''name'', JStr name), (''arguments'', JStr args)])]])]"
| "chunk_delta (ToolDelta i args) =
     JObj [(''tool_calls'', JArr [JObj [(''index'', JNum (of_nat i)), (''function'', JObj [(''arguments'', JStr args)])]])]"
| "chunk_delta (FinishChunk r) = JObj []"
| "chunk_delta DoneChunk = JObj []"

fun render_chunk :: "(rat \<Rightarrow> string) \<Rightarrow> string \<Rightarrow> string \<Rightarrow> int \<Rightarrow> chunk \<Rightarrow> string" where
  "render_chunk nts ident model nowMs DoneChunk = formatSseChunk nts None"
| "render_chunk nts ident model nowMs (FinishChunk r) =
     formatSseChunk nts (Some (createOpenAiStreamChunk ident model nowMs (JObj []) (Some r)))"
| "render_chunk nts ident model nowMs c =
     formatSseChunk nts (Some (createOpenAiStreamChunk ident model nowMs (chunk_delta c) None))"

definition announce :: "stream_state \<Rightarrow> chunk list" where
  "announce st = (if sm_announcedRole st then [] else [RoleChunk])"

definition on_message_start :: "json \<Rightarrow> stream_state \<Rightarrow> chunk list \<times> stream_state" where
  "on_message_start parsed st =
     (let message = (case jprop parsed ''message'' of Some m \<Rightarrow> if isObjectLike (Some m) then m else parsed | None \<Rightarrow> parsed);
          st1 = (case as_string (jprop message ''id'') of Some i \<Rightarrow> st\<lparr>sm_placeholderResponseId := i\<rparr> | None \<Rightarrow> st)
      in ([RoleChunk], st1\<lparr>sm_announcedRole := True\<rparr>))"

definition object_prop :: "json \<Rightarrow> string \<Rightarrow> json option" where
  "object_prop v k = (case jprop v k of Some x \<Rightarrow> if isObjectLike (Some x) then Some x else None | None \<Rightarrow> None)"

definition sub_prop :: "json option \<Rightarrow> string \<Rightarrow> json option" where
  "sub_prop v k = Option.bind v (\<lambda>x. jprop x k)"

definition on_block_start ::
  "(rat \<Rightarrow> string) \<Rightarrow> string \<Rightarrow> json \<Rightarrow> stream_state \<Rightarrow> (translation_error + chunk list) \<times> stream_state" where
  "on_block_start nts freshId parsed st =
     (let index = as_number (jprop parsed ''index''); block = object_prop parsed ''content_block''
      in if isIgnorableAnthropicContentBlockType (sub_prop block ''type'')
         then (Inr [], ignoreAnthropicContentBlockIndex index st)
         else if sub_prop block ''type'' \<noteq> Some (JStr ''tool_use'') then (Inr [], st)
         else (case as_string (sub_prop block ''name'') of
                 None \<Rightarrow> (Inr [], st)
               | Some name \<Rightarrow>
                   let toolCallIndex = sm_nextToolCallIndex st;
                       ident = (case non_blank_text (sub_prop block ''id'') of Some s \<Rightarrow> s | None \<Rightarrow> freshId);
                       st' = st\<lparr>sm_nextToolCallIndex := toolCallIndex + 1,
                               sm_toolCallIndexes :=
                                 (case index of Some i \<Rightarrow> jm_set i toolCallIndex (sm_toolCallIndexes st)
                                              | None \<Rightarrow> sm_toolCallIndexes st),
                               sm_announcedRole := True\<rparr>
                   in (rbind (serializeInitialStreamingToolArguments nts (sub_prop block ''input'')) (\<lambda>args.
                         Inr (announce st @ [ToolStart toolCallIndex ident name args])), st')))"

definition on_block_delta :: "json \<Rightarrow> stream_state \<Rightarrow> chunk list \<times> stream_state" where
  "on_block_delta parsed st =
     (let index = as_number (jprop parsed ''index''); delta = object_prop parsed ''delta'';
          deltaText = (case as_string (sub_prop delta ''text'') of Some t \<Rightarrow> t | None \<Rightarrow> []);
          partial = (if sub_prop delta ''type'' = Some (JStr ''input_json_delta'')
                     then as_string (sub_prop delta ''partial_json'') else None)
      in if isIgnoredAnthropicContentBlockIndex index st then ([], st)
         else (case partial of
                 Some json \<Rightarrow>
                   (case Option.bind index (jm_get (sm_toolCallIndexes st)) of
                      None \<Rightarrow> ([], st)
                    | Some toolCallIndex \<Rightarrow> (announce st @ [ToolDelta toolCallIndex json], st\<lparr>sm_announcedRole := True\<rparr>))
               | None \<Rightarrow>
                   if length deltaText = 0 then ([], st)
                   else (announce st @ [TextChunk deltaText], st\<lparr>sm_announcedRole := True\<rparr>)))"

definition on_block_stop :: "json \<Rightarrow> stream_state \<Rightarrow> stream_state" where
  "on_block_stop parsed st =
     (case as_number (jprop parsed ''index'') of
        None \<Rightarrow> st
      | Some i \<Rightarrow> st\<lparr>sm_toolCallIndexes := jm_delete i (sm_toolCallIndexes st),
                    sm_ignoredContentBlockIndexes := removeAll i (sm_ignoredContentBlockIndexes st)\<rparr>)"

definition on_message_delta :: "json \<Rightarrow> chunk list" where
  "on_message_delta parsed =
     [FinishChunk (mapStopReason (as_string (sub_prop (object_prop parsed ''delta'') ''stop_reason'')))]"

text \<open>The fields of an event: the last \<open>event:\<close> line, the \<open>data:\<close> lines joined.\<close>

fun event_fields :: "string \<Rightarrow> string list \<Rightarrow> string list \<Rightarrow> string \<times> string list" where
  "event_fields eventName dataLines [] = (eventName, dataLines)"
| "event_fields eventName dataLines (line # lines) =
     (if starts_with ''event:'' line then event_fields (trim (drop 6 line)) dataLines lines
      else if starts_with ''data:'' line then event_fields eventName (dataLines @ [trim (drop 5 line)]) lines
      else event_fields eventName dataLines lines)"

definition event_chunks ::
  "(string \<Rightarrow> json option) \<Rightarrow> (rat \<Rightarrow> string) \<Rightarrow> string \<Rightarrow> string \<Rightarrow> stream_state \<Rightarrow>
   (translation_error + chunk list) \<times> stream_state" where
  "event_chunks parse nts freshId rawEvent st =
     (let (eventName, dataLines) = event_fields [] [] (split_char LF rawEvent); rawData = join [LF] dataLines
      in if length rawData = 0 \<or> rawData = ''[DONE]'' then (Inr [], st)
         else (case parseJsonObjectWithinBounds parse rawData ''Anthropic SSE event'' of
                 Inl _ \<Rightarrow> (Inl InvalidSsePayload, st)
               | Inr parsed \<Rightarrow>
                   if eventName = ''message_start'' then apfst Inr (on_message_start parsed st)
                   else if eventName = ''content_block_start'' then on_block_start nts freshId parsed st
                   else if eventName = ''content_block_delta'' then apfst Inr (on_block_delta parsed st)
                   else if eventName = ''content_block_stop'' then (Inr [], on_block_stop parsed st)
                   else if eventName = ''message_delta'' then (Inr (on_message_delta parsed), st)
                   else if eventName = ''message_stop'' then (Inr [DoneChunk], st)
                   else (Inr [], st)))"

definition translateAnthropicEventToOpenAiChunks ::
  "(string \<Rightarrow> json option) \<Rightarrow> (rat \<Rightarrow> string) \<Rightarrow> string \<Rightarrow> int \<Rightarrow> string \<Rightarrow> string \<Rightarrow> stream_state \<Rightarrow>
   (translation_error + string list) \<times> stream_state" where
  "translateAnthropicEventToOpenAiChunks parse nts freshId nowMs rawEvent model st =
     (let (r, st') = event_chunks parse nts freshId rawEvent st
      in (rbind r (\<lambda>cs. Inr (map (render_chunk nts (sm_placeholderResponseId st') model nowMs) cs)), st'))"

section \<open>Splitting a stream into events\<close>

text \<open>The use of the parser on a stream that arrives in pieces: what remains is put before the next piece.\<close>

fun sse_feed :: "rat option \<Rightarrow> string \<Rightarrow> string list \<Rightarrow> translation_error + string list \<times> string" where
  "sse_feed maxBytes buffer [] = Inr ([], buffer)"
| "sse_feed maxBytes buffer (piece # pieces) =
     rbind (parseSseEvents (buffer @ piece) maxBytes) (\<lambda>(events, remainder).
     rbind (sse_feed maxBytes remainder pieces) (\<lambda>(events', remainder'). Inr (events @ events', remainder')))"

lemma replace_crlf_id: "CR \<notin> set s \<Longrightarrow> replace_crlf s = s"
  by (induction s rule: replace_crlf.induct) auto

lemma replace_cr_id: "CR \<notin> set s \<Longrightarrow> replace_cr s = s"
  by (auto simp: replace_cr_def intro: map_idI)

lemma split2_single: "split2 a b s = [w] \<Longrightarrow> w = s"
  by (induction a b s arbitrary: w rule: split2.induct) (auto split: if_splits list.splits)

lemma split2_append:
  "split2 a b (s @ t) = butlast (split2 a b s) @ split2 a b (last (split2 a b s) @ t)"
proof (induction a b s rule: split2.induct)
  case (3 a b x y s)
  show ?case
  proof (cases "x = a \<and> y = b")
    case True
    with 3(1) show ?thesis by simp
  next
    case False
    obtain w ws where w: "split2 a b (y # s) = w # ws" by (cases "split2 a b (y # s)") auto
    note IH = 3(2) [OF False]
    show ?thesis
    proof (cases ws)
      case Nil
      with w have "split2 a b (y # s) = [y # s]" using split2_single by blast
      with False have "split2 a b (x # y # s) = [x # y # s]" by simp
      then show ?thesis by (simp del: split2.simps)
    next
      case (Cons v vs)
      with IH w have "split2 a b (y # s @ t) = w # butlast ws @ split2 a b (last ws @ t)" by simp
      with False Cons w show ?thesis by auto
    qed
  qed
qed simp_all

lemma split2_last: "split2 a b (last (split2 a b s)) = [last (split2 a b s)]"
  using split2_append [of a b s "[]"] append_butlast_last_id [OF split2_not_Nil, of a b s] by (metis append_Nil2 same_append_eq)

lemma split2_parts: "w \<in> set (split2 a b s) \<Longrightarrow> set w \<subseteq> set s"
proof (induction a b s arbitrary: w rule: split2.induct)
  case (3 a b x y s)
  show ?case
  proof (cases "x = a \<and> y = b")
    case True
    with 3 show ?thesis by fastforce
  next
    case False
    obtain v vs where v: "split2 a b (y # s) = v # vs" by (cases "split2 a b (y # s)") auto
    have sub: "u \<in> set (v # vs) \<Longrightarrow> set u \<subseteq> set (y # s)" for u using 3(2) [OF False] v by simp
    from 3(3) False v have "w = x # v \<or> w \<in> set vs" by simp
    with sub show ?thesis by fastforce
  qed
qed auto

lemma parse_events_split:
  assumes "CR \<notin> set buffer" "parseSseEvents buffer maxBytes = Inr (events, remainder)"
  shows "events @ [remainder] = split2 LF LF buffer" "remainder = last (split2 LF LF buffer)"
    "events = butlast (split2 LF LF buffer)" "CR \<notin> set remainder"
proof -
  have n: "replace_cr (replace_crlf buffer) = buffer"
    using assms(1) by (simp add: replace_cr_id replace_crlf_id)
  obtain w ws where w: "split2 LF LF buffer = w # ws" by (cases "split2 LF LF buffer") auto
  have "remainder = last (split2 LF LF buffer) \<and> events = butlast (split2 LF LF buffer)"
  proof (cases ws)
    case Nil
    with w split2_single [of LF LF buffer w] assms(2) n show ?thesis
      by (auto simp: parseSseEvents_def res_simps Let_def)
  next
    case (Cons v vs)
    with w assms(2) n show ?thesis by (auto simp: parseSseEvents_def res_simps Let_def)
  qed
  then show 1: "remainder = last (split2 LF LF buffer)" "events = butlast (split2 LF LF buffer)" by simp_all
  then show "events @ [remainder] = split2 LF LF buffer" by simp
  have "set (last (split2 LF LF buffer)) \<subseteq> set buffer"
    using split2_parts [of "last (split2 LF LF buffer)" LF LF buffer] by simp
  with 1 assms(1) show "CR \<notin> set remainder" by blast
qed

lemma sse_feed_split:
  assumes "CR \<notin> set buffer" "list_all (\<lambda>p. CR \<notin> set p) pieces" "sse_feed maxBytes buffer pieces = Inr (events, remainder)"
    and "split2 LF LF buffer = [buffer]"
  shows "events @ [remainder] = split2 LF LF (buffer @ concat pieces)"
  using assms
proof (induction pieces arbitrary: buffer events)
  case (Cons piece pieces)
  from Cons.prems(3) obtain ev1 r1 ev2 where p: "parseSseEvents (buffer @ piece) maxBytes = Inr (ev1, r1)"
    "sse_feed maxBytes r1 pieces = Inr (ev2, remainder)" "events = ev1 @ ev2"
    by (auto simp: res_simps)
  have cr: "CR \<notin> set (buffer @ piece)" using Cons.prems(1,2) by simp
  note split = parse_events_split [OF cr p(1)]
  have "split2 LF LF r1 = [r1]" using split(2) by (simp add: split2_last)
  then have "ev2 @ [remainder] = split2 LF LF (r1 @ concat pieces)"
    using Cons.IH [OF split(4) _ p(2)] Cons.prems(2) by simp
  then show ?case
    using split2_append [of LF LF "buffer @ piece" "concat pieces"] split p(3) by simp
qed simp

section \<open>Tool calls come back unchanged\<close>

lemma assistant_parts_call:
  assumes "portable_call parse nts call"
  shows "assistant_parts nts uuid n (anthropic_call call # blocks) =
    rbind (assistant_parts nts uuid n blocks) (\<lambda>(ts, cs). Inr (ts, openai_call nts call # cs))"
proof -
  obtain ident name v where call: "call = (ident, name, v)" by (cases call)
  from assms call have p: "non_blank ident" "non_blank name" "isRecord (Some v)"
    "safeJsonStringifyWithinBounds nts hard_json_bounds v = Inr (json_stringify nts v)"
    by (auto simp: portable_call_def is_ok_iff safeJsonStringifyWithinBounds_def res_simps Let_def split: if_splits)
  have "tool_input (anthropic_call call) = v"
    using p(3) call by (cases v) (simp_all add: tool_input_def anthropic_call_def)
  with p call show ?thesis
    by (simp add: anthropic_call_def openai_call_def function_call_def isIgnorableAnthropicContentBlockType_def non_blank_text_def)
qed

lemma assistant_parts_calls:
  "list_all (portable_call parse nts) calls \<Longrightarrow>
   assistant_parts nts uuid n (map anthropic_call calls) = Inr ([], map (openai_call nts) calls)"
proof (induction calls)
  case (Cons call calls)
  then show ?case using assistant_parts_call [of parse nts call uuid n "map anthropic_call calls"] by simp
qed simp

lemma assistant_parts_text:
  "assistant_parts nts uuid n (text_block s # blocks) =
   rbind (assistant_parts nts uuid n blocks) (\<lambda>(ts, cs). Inr (s # ts, cs))"
  by (simp add: text_block_def block_text_def isIgnorableAnthropicContentBlockType_def)

section \<open>Well-formed streams\<close>

text \<open>
  What an OpenAI client relies on: the role comes before any content, tool calls are numbered in the
  order they start, a delta belongs to a call that has started.
\<close>

fun well_formed :: "nat \<Rightarrow> bool \<Rightarrow> chunk list \<Rightarrow> bool" where
  "well_formed n announced [] = True"
| "well_formed n announced (c # cs) =
     (case c of
        RoleChunk \<Rightarrow> well_formed n True cs
      | TextChunk t \<Rightarrow> announced \<and> t \<noteq> [] \<and> well_formed n announced cs
      | ToolStart i ident name args \<Rightarrow> announced \<and> i = n \<and> well_formed (Suc n) announced cs
      | ToolDelta i args \<Rightarrow> announced \<and> i < n \<and> well_formed n announced cs
      | _ \<Rightarrow> well_formed n announced cs)"

definition indexes_inv :: "stream_state \<Rightarrow> bool" where
  "indexes_inv st \<longleftrightarrow> list_all (\<lambda>(k, i). i < sm_nextToolCallIndex st) (sm_toolCallIndexes st)"

text \<open>The events of a stream in turn, up to the first one that throws; each comes with the identifier drawn for it.\<close>

fun stream_run ::
  "(string \<Rightarrow> json option) \<Rightarrow> (rat \<Rightarrow> string) \<Rightarrow> stream_state \<Rightarrow> (string \<times> string) list \<Rightarrow> chunk list \<times> stream_state" where
  "stream_run parse nts st [] = ([], st)"
| "stream_run parse nts st ((freshId, rawEvent) # events) =
     (case event_chunks parse nts freshId rawEvent st of
        (Inl e, st') \<Rightarrow> ([], st')
      | (Inr cs, st') \<Rightarrow> (case stream_run parse nts st' events of (cs', st'') \<Rightarrow> (cs @ cs', st'')))"

definition stream_init :: "string \<Rightarrow> stream_state" where
  "stream_init ident = \<lparr>sm_placeholderResponseId = ident, sm_announcedRole = False, sm_nextToolCallIndex = 0,
     sm_toolCallIndexes = [], sm_ignoredContentBlockIndexes = []\<rparr>"

text \<open>One event: what follows it is well formed from the state it leaves.\<close>

definition event_ok :: "stream_state \<Rightarrow> chunk list \<Rightarrow> stream_state \<Rightarrow> bool" where
  "event_ok st cs st' \<longleftrightarrow> indexes_inv st' \<and>
     (\<forall>rest. well_formed (sm_nextToolCallIndex st') (sm_announcedRole st') rest \<longrightarrow>
        well_formed (sm_nextToolCallIndex st) (sm_announcedRole st) (cs @ rest))"

lemma event_ok_same:
  "indexes_inv st' \<Longrightarrow> sm_nextToolCallIndex st' = sm_nextToolCallIndex st \<Longrightarrow> sm_announcedRole st' = sm_announcedRole st \<Longrightarrow>
   event_ok st [] st'"
  by (simp add: event_ok_def)

lemma jm_set_all: "list_all P m \<Longrightarrow> P (k, v) \<Longrightarrow> list_all P (jm_set k v m)"
  by (induction m) auto

lemma indexes_inv_mono:
  "list_all (\<lambda>(k, i). i < (n :: nat)) m \<Longrightarrow> list_all (\<lambda>(k, i). i < Suc n) m"
  by (auto simp: list_all_iff)

lemma indexes_inv_set:
  "list_all (\<lambda>(k, i). i < (n :: nat)) m \<Longrightarrow> list_all (\<lambda>(k, i). i < Suc n) (jm_set k n m)"
  using indexes_inv_mono [of n m] by (simp add: jm_set_all)

lemma message_start_ok: "indexes_inv st \<Longrightarrow> on_message_start parsed st = (cs, st') \<Longrightarrow> event_ok st cs st'"
  by (auto simp: on_message_start_def Let_def event_ok_def indexes_inv_def split: option.splits)

lemma block_start_ok:
  assumes "indexes_inv st" "on_block_start nts freshId parsed st = (Inr cs, st')"
  shows "event_ok st cs st'"
  using assms
  by (auto simp: on_block_start_def Let_def event_ok_def indexes_inv_def ignoreAnthropicContentBlockIndex_def announce_def
      res_simps intro: indexes_inv_set indexes_inv_mono split: if_splits option.splits)

lemma block_delta_ok:
  assumes "indexes_inv st" "on_block_delta parsed st = (cs, st')"
  shows "event_ok st cs st'"
proof -
  have "jm_get (sm_toolCallIndexes st) k = Some i \<Longrightarrow> i < sm_nextToolCallIndex st" for k i
    using assms(1) jm_get_mem by (fastforce simp: indexes_inv_def list_all_iff)
  with assms show ?thesis
    by (auto simp: on_block_delta_def Let_def event_ok_def indexes_inv_def announce_def
        split: if_splits option.splits Option.bind_splits)
qed

lemma block_stop_ok: "indexes_inv st \<Longrightarrow> event_ok st [] (on_block_stop parsed st)"
  by (auto simp: on_block_stop_def indexes_inv_def jm_delete_def list_all_iff intro!: event_ok_same split: option.split)

lemma event_chunks_ok:
  assumes "indexes_inv st" "event_chunks parse nts freshId rawEvent st = (Inr cs, st')"
  shows "event_ok st cs st'"
  using assms message_start_ok [OF assms(1)] block_start_ok [OF assms(1)] block_delta_ok [OF assms(1)] block_stop_ok [OF assms(1)]
  by (auto simp: event_chunks_def Let_def on_message_delta_def apfst_def map_prod_def
      intro: event_ok_same split: prod.splits if_splits sum.splits) (auto simp: event_ok_def)

lemma stream_run_ok:
  "indexes_inv st \<Longrightarrow> stream_run parse nts st events = (cs, st') \<Longrightarrow>
   well_formed (sm_nextToolCallIndex st) (sm_announcedRole st) cs"
proof (induction events arbitrary: st cs st')
  case (Cons e events)
  obtain freshId rawEvent where e: "e = (freshId, rawEvent)" by (cases e)
  obtain r st1 where r: "event_chunks parse nts freshId rawEvent st = (r, st1)" by fastforce
  show ?case
  proof (cases r)
    case (Inl err)
    with Cons.prems(2) e r show ?thesis by simp
  next
    case (Inr cs1)
    obtain cs2 st2 where run: "stream_run parse nts st1 events = (cs2, st2)" by fastforce
    from event_chunks_ok [OF Cons.prems(1)] r Inr have ok: "event_ok st cs1 st1" by simp
    with Cons.IH [OF _ run] have "well_formed (sm_nextToolCallIndex st1) (sm_announcedRole st1) cs2"
      by (simp add: event_ok_def)
    with ok Cons.prems(2) e r Inr run show ?thesis by (auto simp: event_ok_def)
  qed
qed simp

section \<open>Properties\<close>

text \<open>Property (sse_pieces_irrelevant). For a stream without carriage returns it does not matter in which pieces it
  arrives: fed piece by piece within the limit, the parser yields the events and the remainder of
  the whole.\<close>

theorem sse_pieces_irrelevant:
  assumes "CR \<notin> set (concat pieces)" and "sse_feed maxBytes [] pieces = Inr (events, remainder)"
  shows "events @ [remainder] = split2 LF LF (concat pieces)"
  using sse_feed_split [of "[]" pieces maxBytes events remainder] assms by (auto simp: list_all_iff)

theorem sse_pieces_irrelevant_witness:
  "[''a'', ''b''] = split2 LF LF (concat [[CHR ''a'', LF], [LF, CHR ''b'']])"
  using sse_pieces_irrelevant [of "[[CHR ''a'', LF], [LF, CHR ''b'']]" None "[''a'']" "''b''"]
  by (simp add: parseSseEvents_def resolveMaxSseRemainderBytes_def MAX_SSE_REMAINDER_BYTES_def replace_cr_def
      assertSseRemainderWithinLimit_def byte_length_def code_unit_def rensure_def)

text \<open>Property (sse_crlf_at_boundary). With carriage returns it does matter: when a piece ends between the carriage
  return and the line feed of a line end, the line end is counted twice and the event is cut in two,
  its name in one part and its data in the other.\<close>

theorem sse_crlf_at_boundary:
  "sse_feed None [] [''event: x'' @ [CR, LF] @ ''data: y'' @ [CR, LF, CR, LF]] =
     Inr ([''event: x'' @ [LF] @ ''data: y''], []) \<and>
   sse_feed None [] [''event: x'' @ [CR], [LF] @ ''data: y'' @ [CR, LF, CR, LF]] =
     Inr ([''event: x'', ''data: y''], [])"
  by (simp add: parseSseEvents_def resolveMaxSseRemainderBytes_def MAX_SSE_REMAINDER_BYTES_def replace_cr_def
      assertSseRemainderWithinLimit_def byte_length_def code_unit_def rensure_def)

text \<open>Property (tool_calls_come_back). The tool calls of an assistant message, translated for Anthropic and back, are
  the same calls with the same identifiers, names and argument texts, and its text is unchanged, for
  calls with identifiers, names and object arguments as the gateway itself prints them.\<close>

theorem tool_calls_come_back:
  assumes "list_all (portable_call parse nts) calls" "calls \<noteq> []" "\<And>n. plain_text (nts n)"
    and "item = JObj [(''role'', JStr ''assistant''), (''content'', JStr s), (''tool_calls'', JArr (map (openai_call nts) calls))]"
  shows "\<exists>blocks. toAnthropicAssistantContent parse uuid n item = Inr (JArr blocks, n) \<and>
    translateAnthropicAssistantMessage nts uuid' (Some blocks) =
      Inr (JObj [(''role'', JStr ''assistant''), (''content'', if s = [] then JNull else JStr s),
                 (''tool_calls'', JArr (map (openai_call nts) calls))])"
proof -
  have "toAnthropicAssistantContent parse uuid n item =
      Inr (JArr ((if length s > 0 then [text_block s] else []) @ map anthropic_call calls), n)"
    using assms(2) portable_tool_uses [OF assms(1,3), of uuid n]
    by (simp add: assms(4) toAnthropicAssistantContent_def toAnthropicContent_def normalizeTextContent_def)
  moreover have "assistant_parts nts uuid' 0 ((if length s > 0 then [text_block s] else []) @ map anthropic_call calls) =
      Inr (if s = [] then [] else [s], map (openai_call nts) calls)"
    using assistant_parts_calls [OF assms(1), of uuid' 0]
    by (simp add: assistant_parts_text del: assistant_parts.simps(2))
  ultimately show ?thesis
    using assms(2) by (simp add: translateAnthropicAssistantMessage_def)
qed

theorem tool_calls_come_back_witness:
  "\<exists>blocks. toAnthropicAssistantContent (\<lambda>_. Some (JObj [])) (\<lambda>_. []) 0
       (JObj [(''role'', JStr ''assistant''), (''content'', JStr ''ok''),
              (''tool_calls'', JArr [openai_call (\<lambda>_. ''0'') (''c1'', ''f'', JObj [])])]) = Inr (JArr blocks, 0) \<and>
     is_ok (translateAnthropicAssistantMessage (\<lambda>_. ''0'') (\<lambda>_. []) (Some blocks))"
proof -
  have fits: "assertJsonValueWithinBounds hard_json_bounds (JObj []) = Inr ()"
    by (simp add: json_within_bounds_iff node_count.simps json_depth.simps max_list_def hard_json_bounds_def)
  have limit: "2 \<le> maxSerializedBytes hard_json_bounds" by (simp add: hard_json_bounds_def)
  have "list_all (portable_call (\<lambda>_. Some (JObj [])) (\<lambda>_. ''0'')) [(''c1'', ''f'', JObj [])]"
    using limit by (simp add: portable_call_def js_string_defs safeJsonStringifyWithinBounds_def fits)
  then have "\<exists>blocks. toAnthropicAssistantContent (\<lambda>_. Some (JObj [])) (\<lambda>_. []) 0
       (JObj [(''role'', JStr ''assistant''), (''content'', JStr ''ok''),
              (''tool_calls'', JArr (map (openai_call (\<lambda>_. ''0'')) [(''c1'', ''f'', JObj [])]))]) = Inr (JArr blocks, 0) \<and>
     translateAnthropicAssistantMessage (\<lambda>_. ''0'') (\<lambda>_. []) (Some blocks) =
       Inr (JObj [(''role'', JStr ''assistant''), (''content'', if ''ok'' = [] then JNull else JStr ''ok''),
                 (''tool_calls'', JArr (map (openai_call (\<lambda>_. ''0'')) [(''c1'', ''f'', JObj [])]))])"
    by (rule tool_calls_come_back [OF _ _ _ refl]) (simp_all add: plain_text_def)
  then obtain blocks where "toAnthropicAssistantContent (\<lambda>_. Some (JObj [])) (\<lambda>_. []) 0
       (JObj [(''role'', JStr ''assistant''), (''content'', JStr ''ok''),
              (''tool_calls'', JArr [openai_call (\<lambda>_. ''0'') (''c1'', ''f'', JObj [])])]) = Inr (JArr blocks, 0)"
    "is_ok (translateAnthropicAssistantMessage (\<lambda>_. ''0'') (\<lambda>_. []) (Some blocks))"
    by (auto simp: is_ok_iff)
  then show ?thesis by blast
qed

text \<open>C37 (stream_well_formed). Whatever events the provider sends, and wherever the translation stops, the
  chunks sent to the client announce the role before any content, number the tool calls 0, 1, 2 in the
  order in which they start, and send argument deltas only for calls that have started.\<close>

theorem stream_well_formed:
  "well_formed 0 False (fst (stream_run parse nts (stream_init ident) events))"
  using stream_run_ok [of "stream_init ident" parse nts events]
  by (cases "stream_run parse nts (stream_init ident) events") (simp add: stream_init_def indexes_inv_def)

end
