(* ===== verification/Proxy_Streaming.thy ===== *)
theory Proxy_Streaming
  imports Transport Translate_Response
begin

text \<open>
  Delivery of an upstream response: \<^verbatim>\<open>proxy/proxy-response-buffer.ts\<close>, \<^verbatim>\<open>platform/http-json.ts\<close> and
  \<^verbatim>\<open>proxy/proxy-streaming.ts\<close>. Bounded reading of a body, the monitor of a stream's progress, the relay of
  a stream that is passed through, and the pump that translates an Anthropic stream for an OpenAI
  client.

  Timers, the close and the finish of the client connection are events of the environment; the lists
  of events given to the relay and the pump fix an arbitrary schedule. Main results: bodies and
  streams are bounded; a relayed stream is the upstream stream; a pumped stream is the translation of
  the upstream events and ends with the terminal chunk; a relay that exceeds a limit is not ended by
  the proxy.
\<close>

section \<open>The response to the client\<close>

record client_response =
  cr_statusCode :: nat
  cr_headers :: client_headers
  cr_headersSent :: bool
  cr_ended :: bool
  cr_destroyed :: bool
  cr_written :: "string list"

definition response_open :: "client_response \<Rightarrow> bool" where
  "response_open r \<longleftrightarrow> \<not> cr_destroyed r \<and> \<not> cr_ended r"

definition cr_write :: "string \<Rightarrow> client_response \<Rightarrow> client_response" where
  "cr_write chunk r =
     (if response_open r then r\<lparr>cr_written := cr_written r @ [chunk], cr_headersSent := True\<rparr> else r)"

definition cr_end :: "client_response \<Rightarrow> client_response" where
  "cr_end r = (if response_open r then r\<lparr>cr_ended := True, cr_headersSent := True\<rparr> else r)"

definition cr_setHeader :: "string \<Rightarrow> string \<Rightarrow> client_response \<Rightarrow> client_response" where
  "cr_setHeader n v r = r\<lparr>cr_headers := set_client_header n v (cr_headers r)\<rparr>"

definition cr_removeHeader :: "string \<Rightarrow> client_response \<Rightarrow> client_response" where
  "cr_removeHeader n r = r\<lparr>cr_headers := jm_delete (to_lower n) (cr_headers r)\<rparr>"

text \<open>The summary of a request's shape, and what a request reports besides its response: log lines,
  observations and captured exchanges.\<close>

record request_shape =
  sh_messageCount :: nat
  sh_hasSystemMessage :: bool
  sh_promptChars :: nat
  sh_toolCount :: nat
  sh_hasMetadata :: bool
  sh_maxTokens :: "rat option"
  sh_temperature :: "rat option"

datatype proxy_effect =
    RequestReceived api_mode
  | BoundCapture
  | DebugIngress request_shape
  | DebugRouteResolution bool
  | RequestLine
  | RouteResolved
  | ForwardLine string string                       \<comment> \<open>upstream model, url\<close>
  | DebugUpstreamRequest nat
  | InspectToProvider string "(string, string) js_map" string
  | UpstreamRequestStarted
  | RetryLogged retry_details
  | DebugError string string                        \<comment> \<open>stage, reason\<close>
  | ErrorLine string nat                            \<comment> \<open>message, status\<close>
  | Lifecycle                                       \<comment> \<open>the listener of the finish event\<close>
  | DebugResponsePath bool                          \<comment> \<open>streamed\<close>
  | UpstreamLine nat
  | UpstreamStarted nat
  | UpstreamCompleted nat "nat option"
  | ClientStarted nat
  | InspectFromProvider nat "(string, string) js_map" string
  | InspectToClient nat string

section \<open>Bounded bodies\<close>

fun read_chunks :: "nat \<Rightarrow> thrown \<Rightarrow> nat \<Rightarrow> string list \<Rightarrow> thrown option \<Rightarrow> thrown + string list" where
  "read_chunks maxBytes tooLarge sofar [] failure = (case failure of None \<Rightarrow> Inr [] | Some e \<Rightarrow> Inl e)"
| "read_chunks maxBytes tooLarge sofar (c # cs) failure =
     (if sofar + length c > maxBytes then Inl tooLarge
      else rbind (read_chunks maxBytes tooLarge (sofar + length c) cs failure) (\<lambda>rest. Inr (c # rest)))"

definition declared_too_large :: "fetch_headers \<Rightarrow> nat \<Rightarrow> bool" where
  "declared_too_large headers maxBytes =
     (case h_get headers ''content-length'' of
        None \<Rightarrow> False
      | Some raw \<Rightarrow> (case parseCanonicalNonNegativeInteger (Some raw) of None \<Rightarrow> False | Some n \<Rightarrow> n > maxBytes))"

definition bufferResponseWithinLimit :: "upstream_response \<Rightarrow> nat \<Rightarrow> thrown + string" where
  "bufferResponseWithinLimit response maxBytes =
     (case ur_body response of
        None \<Rightarrow> Inr []
      | Some body \<Rightarrow>
          if declared_too_large (ur_headers response) maxBytes then Inl (bufferedResponseLimitError maxBytes)
          else rbind (read_chunks maxBytes (bufferedResponseLimitError maxBytes) 0 (bs_chunks body) (bs_failure body))
                 (\<lambda>cs. Inr (concat cs)))"

definition httpResponseBodyTooLargeError :: "nat \<Rightarrow> thrown" where
  "httpResponseBodyTooLargeError maxBytes =
     ErrorObject PlainError ''HttpResponseBodyTooLargeError''
       (''response body exceeded '' @ digits_of_nat maxBytes @ '' bytes'') [(''maxBytes'', JNum (of_nat maxBytes))] None"

definition readResponseTextWithinBounds :: "(string \<Rightarrow> string) \<Rightarrow> upstream_response \<Rightarrow> nat \<Rightarrow> thrown + string" where
  "readResponseTextWithinBounds utf8 response maxBytes =
     (if declared_too_large (ur_headers response) maxBytes then Inl (httpResponseBodyTooLargeError maxBytes)
      else (case ur_body response of
              None \<Rightarrow> Inr []
            | Some body \<Rightarrow>
                rbind (read_chunks maxBytes (httpResponseBodyTooLargeError maxBytes) 0 (bs_chunks body) (bs_failure body))
                  (\<lambda>cs. Inr (utf8 (concat cs)))))"

fun json_error_thrown :: "json_error \<Rightarrow> thrown" where
  "json_error_thrown JsonStructureTooLarge = ErrorObject PlainError ''Error'' ''json_structure_too_large'' [] None"
| "json_error_thrown JsonSerializedTooLarge = ErrorObject PlainError ''Error'' ''json_serialized_too_large'' [] None"
| "json_error_thrown JsonSyntaxError = ErrorObject PlainError ''SyntaxError'' ''Unexpected token in JSON'' [] None"

definition parseJsonResponseWithinBounds ::
  "(string \<Rightarrow> json option) \<Rightarrow> (string \<Rightarrow> string) \<Rightarrow> json_bounds \<Rightarrow> upstream_response \<Rightarrow> thrown + json" where
  "parseJsonResponseWithinBounds parse utf8 bounds response =
     rbind (readResponseTextWithinBounds utf8 response (maxSerializedBytes bounds)) (\<lambda>rawText.
       case parseJsonWithinBounds parse bounds rawText of Inl e \<Rightarrow> Inl (json_error_thrown e) | Inr v \<Rightarrow> Inr v)"

definition parseJsonObjectResponseWithinBounds ::
  "(string \<Rightarrow> json option) \<Rightarrow> (string \<Rightarrow> string) \<Rightarrow> json_bounds \<Rightarrow> upstream_response \<Rightarrow> thrown + json" where
  "parseJsonObjectResponseWithinBounds parse utf8 bounds response =
     rbind (parseJsonResponseWithinBounds parse utf8 bounds response) (\<lambda>parsed.
       if isRecord (Some parsed) then Inr parsed
       else Inl (ErrorObject PlainError ''Error'' ''json_payload_not_object'' [] None))"

lemma read_chunks_all:
  "read_chunks n e t cs failure = Inr ds \<Longrightarrow> ds = cs \<and> failure = None \<and> t + length (concat cs) \<le> max n t"
proof (induction cs arbitrary: t ds)
  case Nil
  then show ?case by (auto split: option.splits)
next
  case (Cons c cs)
  then obtain ds' where "read_chunks n e (t + length c) cs failure = Inr ds'" "ds = c # ds'" "t + length c \<le> n"
    by (auto simp: res_simps split: if_splits)
  with Cons.IH show ?case by fastforce
qed

lemma buffered_within_limit:
  "bufferResponseWithinLimit response maxBytes = Inr b \<Longrightarrow> length b \<le> maxBytes"
  by (auto simp: bufferResponseWithinLimit_def res_simps dest!: read_chunks_all split: option.splits if_splits)

section \<open>Stream limits and progress\<close>

record stream_limits =
  sl_idleTimeoutMs :: int
  sl_maxLifetimeMs :: int
  sl_minBytesPerSecond :: int
  sl_rateWindowMs :: int
  sl_maxEventBytes :: nat
  sl_maxTotalBytes :: nat

text \<open>The closure of the progress monitor; \<open>pg_armed\<close> says whether its timer is set.\<close>

record progress =
  pg_windowStartedAt :: int
  pg_bytes :: nat
  pg_armed :: bool

definition progress_start :: "int \<Rightarrow> progress" where
  "progress_start now = \<lparr>pg_windowStartedAt = now, pg_bytes = 0, pg_armed = True\<rparr>"

definition recordProgress :: "nat \<Rightarrow> progress \<Rightarrow> progress" where
  "recordProgress bytes p = (if bytes > 0 then p\<lparr>pg_bytes := pg_bytes p + bytes\<rparr> else p)"

definition progress_clear :: "progress \<Rightarrow> progress" where
  "progress_clear p = p\<lparr>pg_armed := False\<rparr>"

definition rate_error :: "stream_limits \<Rightarrow> thrown" where
  "rate_error limits =
     streamingResponseLimitError ''upstream_stream_rate_too_low''
       (''Streaming response fell below streamMinBytesPerSecond ('' @ digits_of_int (sl_minBytesPerSecond limits) @
        '' B/s over '' @ digits_of_int (sl_rateWindowMs limits) @ '' ms).'')"

text \<open>\<open>Math.ceil(a / 1000)\<close>\<close>

definition ceil_thousandth :: "int \<Rightarrow> int" where
  "ceil_thousandth a = - ((- a) div 1000)"

text \<open>The timer fires: the window was too slow, or a new window starts.\<close>

definition progress_check :: "stream_limits \<Rightarrow> int \<Rightarrow> progress \<Rightarrow> progress option" where
  "progress_check limits now p =
     (let elapsedMs = max 1 (now - pg_windowStartedAt p);
          minimumBytes = ceil_thousandth (sl_minBytesPerSecond limits * elapsedMs)
      in if int (pg_bytes p) < minimumBytes then None else Some (progress_start now))"

definition lifetime_error :: "stream_limits \<Rightarrow> thrown" where
  "lifetime_error limits =
     streamingResponseLimitError ''upstream_stream_lifetime_exceeded''
       (''Streaming response exceeded streamMaxLifetimeMs ('' @ digits_of_int (sl_maxLifetimeMs limits) @ '' ms).'')"

definition oversized_error :: "stream_limits \<Rightarrow> thrown" where
  "oversized_error limits =
     streamingResponseLimitError ''upstream_stream_oversized''
       (''Streaming response exceeded streamMaxTotalBytes ('' @ digits_of_nat (sl_maxTotalBytes limits) @ '' bytes).'')"

definition event_oversized_error :: "stream_limits \<Rightarrow> thrown" where
  "event_oversized_error limits =
     streamingResponseLimitError ''upstream_stream_event_oversized''
       (''Streaming SSE event exceeded streamMaxEventBytes ('' @ digits_of_nat (sl_maxEventBytes limits) @ '' bytes).'')"

definition limit_code :: "thrown \<Rightarrow> string" where
  "limit_code e = (case limit_error e of None \<Rightarrow> [] | Some c \<Rightarrow> cl_code c)"

definition limit_message :: "thrown \<Rightarrow> string" where
  "limit_message e = (case limit_error e of None \<Rightarrow> [] | Some c \<Rightarrow> cl_message c)"

definition prepareStreamingResponseHeaders ::
  "string option \<Rightarrow> string option \<Rightarrow> string option \<Rightarrow> client_response \<Rightarrow> client_response" where
  "prepareStreamingResponseHeaders contentType cacheControl connection r =
     cr_removeHeader ''content-length''
       ((case connection of None \<Rightarrow> (\<lambda>x. x) | Some v \<Rightarrow> cr_setHeader ''connection'' v)
         ((case cacheControl of None \<Rightarrow> (\<lambda>x. x) | Some v \<Rightarrow> cr_setHeader ''cache-control'' v)
           ((case contentType of None \<Rightarrow> (\<lambda>x. x) | Some v \<Rightarrow> cr_setHeader ''content-type'' v) r)))"

text \<open>What the environment may do while a stream is delivered.\<close>

datatype side_event =
    IdleFires
  | LifetimeFires
  | RateFires int       \<comment> \<open>the time at which the progress timer fires\<close>
  | ClientCloses
  | ClientFinishes

section \<open>Relaying a stream\<close>

text \<open>
  \<open>pipeOpenAiStreamingResponse\<close>. The upstream stream is destroyed at most once: \<open>destroy\<close> on a
  destroyed stream does nothing, whatever error it is given. A listener removed while an event is
  being emitted still sees that event, so the chunk that exceeds the limit is written. \<open>ry_result\<close> is
  the promise: pending, resolved or rejected.
\<close>

record relay =
  ry_total :: nat
  ry_upstreamLogged :: bool
  ry_aborted :: "string option"
  ry_destroyed :: bool
  ry_piped :: bool
  ry_idleArmed :: bool
  ry_lifetimeArmed :: bool
  ry_progress :: progress
  ry_closeRecorded :: bool
  ry_client :: client_response
  ry_result :: "thrown option option"
  ry_effects :: "proxy_effect list"

datatype relay_event =
    Data string
  | StreamEnds
  | StreamFails thrown
  | Side side_event

definition ry_log :: "proxy_effect list \<Rightarrow> relay \<Rightarrow> relay" where
  "ry_log es s = s\<lparr>ry_effects := ry_effects s @ es\<rparr>"

definition ry_clear :: "relay \<Rightarrow> relay" where
  "ry_clear s = s\<lparr>ry_idleArmed := False, ry_lifetimeArmed := False, ry_progress := progress_clear (ry_progress s)\<rparr>"

text \<open>\<open>abortStream\<close> with its listener \<open>onAbort\<close>.\<close>

definition ry_abort :: "string \<Rightarrow> relay \<Rightarrow> relay" where
  "ry_abort reason s =
     (if ry_aborted s = None
      then (ry_clear s)\<lparr>ry_aborted := Some reason, ry_piped := False, ry_destroyed := True\<rparr>
      else s)"

text \<open>A \<open>destroy\<close> with an error: the error is emitted unless the stream is already destroyed.\<close>

definition ry_settle :: "thrown option \<Rightarrow> relay \<Rightarrow> relay" where
  "ry_settle r s = (ry_clear s)\<lparr>ry_result := Some r, ry_piped := False, ry_destroyed := True\<rparr>"

definition ry_on_error :: "thrown \<Rightarrow> relay \<Rightarrow> relay" where
  "ry_on_error e s =
     (if ry_aborted s = Some ''streaming_idle_timeout'' then ry_settle None s
      else ry_settle (Some e)
             (ry_log [DebugError ''response_delivery'' (case e of ErrorObject _ _ m _ _ \<Rightarrow> m | PlainThrown _ \<Rightarrow> [])] s))"

definition ry_destroy :: "thrown \<Rightarrow> relay \<Rightarrow> relay" where
  "ry_destroy e s = (if ry_destroyed s then s else ry_on_error e (s\<lparr>ry_destroyed := True\<rparr>))"

definition ry_exceed :: "thrown \<Rightarrow> relay \<Rightarrow> relay" where
  "ry_exceed e s =
     ry_destroy e
       (ry_abort (limit_code e)
         (ry_log [DebugError ''response_stream'' (limit_code e), ErrorLine (limit_message e) 502] s))"

definition ry_started :: "nat \<Rightarrow> relay \<Rightarrow> relay" where
  "ry_started status s = ry_log [UpstreamStarted status, UpstreamLine status] s"

definition ry_data :: "stream_limits \<Rightarrow> nat \<Rightarrow> string \<Rightarrow> relay \<Rightarrow> relay" where
  "ry_data limits status chunk s0 =
     (let piped = ry_piped s0;
          s1 = s0\<lparr>ry_idleArmed := True, ry_progress := recordProgress (length chunk) (ry_progress s0),
                  ry_total := ry_total s0 + length chunk\<rparr>;
          s2 = (if ry_total s1 > sl_maxTotalBytes limits then ry_exceed (oversized_error limits) s1 else s1);
          s3 = (if ry_upstreamLogged s2 then s2 else ry_started status (s2\<lparr>ry_upstreamLogged := True\<rparr>))
      in if piped then s3\<lparr>ry_client := cr_write chunk (ry_client s3)\<rparr> else s3)"

definition ry_end :: "nat \<Rightarrow> relay \<Rightarrow> relay" where
  "ry_end status s0 =
     (let s1 = ry_clear s0;
          s2 = (if ry_upstreamLogged s1 then s1 else ry_started status s1);
          s3 = ry_log [UpstreamCompleted status None] s2
      in if ry_piped s3 then s3\<lparr>ry_client := cr_end (ry_client s3)\<rparr> else s3)"

definition ry_idle :: "relay \<Rightarrow> relay" where
  "ry_idle s0 =
     (let s1 = ry_log [DebugError ''response_stream'' ''streaming_idle_timeout'',
                       ErrorLine ''Streaming response idle timeout reached'' 504] s0;
          s2 = ry_abort ''streaming_idle_timeout'' s1;
          s3 = s2\<lparr>ry_client := cr_end (ry_client s2)\<rparr>
      in ry_destroy (ErrorObject PlainError ''Error'' ''Streaming response idle timeout reached'' [] None) s3)"

definition ry_side :: "stream_limits \<Rightarrow> side_event \<Rightarrow> relay \<Rightarrow> relay" where
  "ry_side limits e s =
     (case e of
        IdleFires \<Rightarrow> if ry_idleArmed s then ry_idle (s\<lparr>ry_idleArmed := False\<rparr>) else s
      | LifetimeFires \<Rightarrow> if ry_lifetimeArmed s then ry_exceed (lifetime_error limits) (s\<lparr>ry_lifetimeArmed := False\<rparr>) else s
      | RateFires now \<Rightarrow>
          if pg_armed (ry_progress s)
          then (case progress_check limits now (ry_progress s) of
                  None \<Rightarrow> ry_exceed (rate_error limits) (s\<lparr>ry_progress := progress_clear (ry_progress s)\<rparr>)
                | Some p \<Rightarrow> s\<lparr>ry_progress := p\<rparr>)
          else s
      | ClientCloses \<Rightarrow>
          (let s1 = (if \<not> ry_closeRecorded s \<and> \<not> cr_ended (ry_client s)
                     then ry_log [DebugError ''response_stream'' ''client_closed''] (s\<lparr>ry_closeRecorded := True\<rparr>) else s);
               s2 = s1\<lparr>ry_client := (ry_client s1)\<lparr>cr_destroyed := True\<rparr>\<rparr>
           in ry_settle None (ry_abort ''client_closed'' s2))
      | ClientFinishes \<Rightarrow> if cr_ended (ry_client s) then ry_settle None s else s)"

definition ry_step :: "stream_limits \<Rightarrow> nat \<Rightarrow> relay_event \<Rightarrow> relay \<Rightarrow> relay" where
  "ry_step limits status ev s =
     (if ry_result s \<noteq> None then s
      else (case ev of
              Data chunk \<Rightarrow> if ry_destroyed s then s else ry_data limits status chunk s
            | StreamEnds \<Rightarrow> if ry_destroyed s then s else ry_end status (s\<lparr>ry_destroyed := True\<rparr>)
            | StreamFails e \<Rightarrow> ry_destroy e s
            | Side e \<Rightarrow> ry_side limits e s))"

definition ry_init :: "int \<Rightarrow> client_response \<Rightarrow> relay" where
  "ry_init now r =
     \<lparr>ry_total = 0, ry_upstreamLogged = False, ry_aborted = None, ry_destroyed = False, ry_piped = True,
      ry_idleArmed = True, ry_lifetimeArmed = True, ry_progress = progress_start now, ry_closeRecorded = False,
      ry_client = prepareStreamingResponseHeaders None None None r, ry_result = None,
      ry_effects = [ClientStarted (cr_statusCode r)]\<rparr>"

definition pipeOpenAiStreamingResponse ::
  "stream_limits \<Rightarrow> upstream_response \<Rightarrow> int \<Rightarrow> relay_event list \<Rightarrow> client_response \<Rightarrow> relay" where
  "pipeOpenAiStreamingResponse limits upstream now events r =
     (if ur_body upstream = None
      then (ry_init now r)\<lparr>ry_client := cr_end r, ry_result := Some None, ry_effects := [UpstreamLine (ur_status upstream)]\<rparr>
      else foldl (\<lambda>s ev. ry_step limits (ur_status upstream) ev s) (ry_init now r) events)"

subsection \<open>What the relay delivers\<close>

text \<open>The chunks among the events, and a response nothing has been written to.\<close>

fun relay_data :: "relay_event list \<Rightarrow> string list" where
  "relay_data [] = []"
| "relay_data (Data c # evs) = c # relay_data evs"
| "relay_data (ev # evs) = relay_data evs"

definition fresh_response :: "nat \<Rightarrow> client_headers \<Rightarrow> client_response" where
  "fresh_response status headers =
     \<lparr>cr_statusCode = status, cr_headers = headers, cr_headersSent = False, cr_ended = False, cr_destroyed = False,
      cr_written = []\<rparr>"

definition relay_live :: "stream_limits \<Rightarrow> string list \<Rightarrow> relay \<Rightarrow> bool" where
  "relay_live limits cs s \<longleftrightarrow>
     ry_result s = None \<and> \<not> ry_destroyed s \<and> ry_piped s \<and> ry_aborted s = None \<and> response_open (ry_client s) \<and>
     cr_written (ry_client s) = cs \<and> ry_total s = length (concat cs) \<and> ry_total s \<le> sl_maxTotalBytes limits"

lemmas relay_defs = ry_log_def ry_clear_def ry_abort_def ry_settle_def ry_on_error_def ry_destroy_def ry_exceed_def
  ry_started_def ry_data_def ry_end_def ry_idle_def ry_side_def ry_step_def Let_def

lemmas client_defs = response_open_def cr_write_def cr_end_def

lemma relay_init_live: "relay_live limits [] (ry_init now (fresh_response status headers))"
  by (simp add: relay_live_def ry_init_def fresh_response_def prepareStreamingResponseHeaders_def cr_removeHeader_def
      response_open_def)

text \<open>A stream that is destroyed stays destroyed, and nothing more is written.\<close>

lemma relay_dead_step:
  assumes "ry_destroyed s"
  shows "ry_destroyed (ry_step limits status ev s)"
    and "cr_written (ry_client (ry_step limits status ev s)) = cr_written (ry_client s)"
proof -
  have side: "ry_destroyed (ry_side limits e s) \<and> cr_written (ry_client (ry_side limits e s)) = cr_written (ry_client s)" for e
    using assms by (cases e) (auto simp: relay_defs client_defs split: option.splits)
  show "ry_destroyed (ry_step limits status ev s)" "cr_written (ry_client (ry_step limits status ev s)) = cr_written (ry_client s)"
    using side assms by (cases ev; simp add: ry_step_def ry_destroy_def)+
qed

lemma relay_dead_run:
  assumes "ry_destroyed s"
  shows "cr_written (ry_client (foldl (\<lambda>s ev. ry_step limits status ev s) s evs)) = cr_written (ry_client s)"
  using assms by (induction evs arbitrary: s) (simp_all add: relay_dead_step)

text \<open>A chunk is written; a live relay stays live, unless the chunk exceeds the limit.\<close>

lemma relay_live_data:
  assumes "relay_live limits cs s"
  shows "length (concat (cs @ [c])) \<le> sl_maxTotalBytes limits \<Longrightarrow> relay_live limits (cs @ [c]) (ry_step limits status (Data c) s)"
    and "cr_written (ry_client (ry_step limits status (Data c) s)) = cs @ [c]"
    and "sl_maxTotalBytes limits < length (concat (cs @ [c])) \<Longrightarrow> ry_destroyed (ry_step limits status (Data c) s)"
  using assms by (simp_all add: relay_live_def relay_defs client_defs)

lemma relay_live_other:
  assumes "relay_live limits cs s" "\<And>c. ev \<noteq> Data c"
  shows "cr_written (ry_client (ry_step limits status ev s)) = cs"
    and "relay_live limits cs (ry_step limits status ev s) \<or> ry_destroyed (ry_step limits status ev s)"
proof -
  have side: "cr_written (ry_client (ry_side limits e s)) = cs \<and>
    (relay_live limits cs (ry_side limits e s) \<or> ry_destroyed (ry_side limits e s))" for e
    using assms(1) by (cases e) (auto simp: relay_live_def relay_defs client_defs split: option.splits)
  show "cr_written (ry_client (ry_step limits status ev s)) = cs"
    "relay_live limits cs (ry_step limits status ev s) \<or> ry_destroyed (ry_step limits status ev s)"
    using assms side by (cases ev; simp add: relay_live_def relay_defs client_defs)+
qed

lemma relay_run_prefix:
  assumes "relay_live limits cs s"
  shows "\<exists>ds. prefix ds (relay_data evs) \<and>
    cr_written (ry_client (foldl (\<lambda>s ev. ry_step limits status ev s) s evs)) = cs @ ds \<and>
    length (concat (butlast (cs @ ds))) \<le> sl_maxTotalBytes limits"
  using assms
proof (induction evs arbitrary: s cs)
  case Nil
  then have "length (concat cs) \<le> sl_maxTotalBytes limits" by (simp add: relay_live_def)
  then have "length (concat (butlast cs)) \<le> sl_maxTotalBytes limits"
    by (cases cs rule: rev_cases) auto
  with Nil show ?case by (simp add: relay_live_def)
next
  case (Cons ev evs)
  have cs: "length (concat cs) \<le> sl_maxTotalBytes limits" using Cons.prems by (simp add: relay_live_def)
  then have bl: "length (concat (butlast cs)) \<le> sl_maxTotalBytes limits" by (cases cs rule: rev_cases) auto
  show ?case
  proof (cases "\<exists>c. ev = Data c")
    case True
    then obtain c where c: "ev = Data c" ..
    note step = relay_live_data [where c = c and status = status, OF Cons.prems]
    show ?thesis
    proof (cases "length (concat (cs @ [c])) \<le> sl_maxTotalBytes limits")
      case True
      from Cons.IH [OF step(1) [OF this]] c show ?thesis
        by (metis append.assoc append_Cons append_Nil foldl_Cons prefix_code(3) relay_data.simps(2))
    next
      case False
      with step(2,3) c cs relay_dead_run show ?thesis by (intro exI [of _ "[c]"]) simp
    qed
  next
    case False
    then have data: "relay_data (ev # evs) = relay_data evs" by (cases ev) auto
    note step = relay_live_other [where ev = ev and status = status, OF Cons.prems]
    show ?thesis
    proof (cases "relay_live limits cs (ry_step limits status ev s)")
      case True
      from Cons.IH [OF this] data show ?thesis by simp
    next
      case False
      with step \<open>\<not> (\<exists>c. ev = Data c)\<close> have "ry_destroyed (ry_step limits status ev s)" by auto
      with relay_dead_run step(1) \<open>\<not> (\<exists>c. ev = Data c)\<close> bl data show ?thesis by (intro exI [of _ "[]"]) simp
    qed
  qed
qed

lemma relay_live_run:
  "relay_live limits cs s \<Longrightarrow> length (concat (cs @ ds)) \<le> sl_maxTotalBytes limits \<Longrightarrow>
   relay_live limits (cs @ ds) (foldl (\<lambda>s ev. ry_step limits status ev s) s (map Data ds))"
proof (induction ds arbitrary: s cs)
  case (Cons d ds)
  from relay_live_data(1) [OF Cons.prems(1), of d status] Cons.prems(2) Cons.IH [of "cs @ [d]"] show ?case by simp
qed simp

lemma relay_live_ends:
  assumes "relay_live limits cs s"
  shows "cr_written (ry_client (ry_step limits status (Side ClientFinishes) (ry_step limits status StreamEnds s))) = cs"
    and "cr_ended (ry_client (ry_step limits status (Side ClientFinishes) (ry_step limits status StreamEnds s)))"
    and "ry_result (ry_step limits status (Side ClientFinishes) (ry_step limits status StreamEnds s)) = Some None"
  using assms by (simp_all add: relay_live_def relay_defs client_defs)

text \<open>
  C26 (relay_prefix). Whatever the timers, the upstream connection and the client do, the chunks a
  pass-through stream has written to the client are, in order and unchanged, the first chunks the
  upstream sent; all of them but the last fit into \<open>streamMaxTotalBytes\<close>.
\<close>

theorem relay_prefix:
  "prefix (cr_written (ry_client (pipeOpenAiStreamingResponse limits upstream now events (fresh_response status headers))))
     (relay_data events) \<and>
   length (concat (butlast (cr_written (ry_client
     (pipeOpenAiStreamingResponse limits upstream now events (fresh_response status headers)))))) \<le> sl_maxTotalBytes limits"
proof (cases "ur_body upstream")
  case None
  then show ?thesis by (simp add: pipeOpenAiStreamingResponse_def cr_end_def fresh_response_def)
next
  case (Some body)
  with relay_run_prefix [where evs = events and status = "ur_status upstream", OF relay_init_live, of limits now status headers] show ?thesis
    by (auto simp: pipeOpenAiStreamingResponse_def)
qed

text \<open>
  Property (relay_complete). A pass-through stream within the limit is delivered whole: every chunk is
  written, the response is ended and the relay returns when the client has taken it.
\<close>

theorem relay_complete:
  assumes "ur_body upstream \<noteq> None" "length (concat cs) \<le> sl_maxTotalBytes limits"
  shows "cr_written (ry_client (pipeOpenAiStreamingResponse limits upstream now
             (map Data cs @ [StreamEnds, Side ClientFinishes]) (fresh_response status headers))) = cs \<and>
         cr_ended (ry_client (pipeOpenAiStreamingResponse limits upstream now
             (map Data cs @ [StreamEnds, Side ClientFinishes]) (fresh_response status headers))) \<and>
         ry_result (pipeOpenAiStreamingResponse limits upstream now
             (map Data cs @ [StreamEnds, Side ClientFinishes]) (fresh_response status headers)) = Some None"
proof -
  have "relay_live limits cs (foldl (\<lambda>s ev. ry_step limits (ur_status upstream) ev s)
      (ry_init now (fresh_response status headers)) (map Data cs))" (is "relay_live limits cs ?s")
    using relay_live_run [OF relay_init_live, of cs limits] assms(2) by simp
  from relay_live_ends [OF this, of "ur_status upstream"] assms(1) show ?thesis
    by (auto simp: pipeOpenAiStreamingResponse_def)
qed

subsection \<open>A relay that exceeds a limit\<close>

text \<open>
  \<open>exceedStreamLimit\<close> aborts first: the listener destroys the stream without an error, so the later
  \<open>destroy\<close> with the error does nothing. The response is neither ended nor destroyed, and the relay
  waits for its client.
\<close>

definition relay_waits :: "relay \<Rightarrow> bool" where
  "relay_waits s \<longleftrightarrow>
     ry_result s = None \<and> ry_destroyed s \<and> ry_aborted s \<noteq> None \<and> \<not> ry_piped s \<and> \<not> ry_idleArmed s \<and> \<not> ry_lifetimeArmed s \<and>
     \<not> pg_armed (ry_progress s) \<and> response_open (ry_client s)"

lemma relay_waits_step:
  "relay_waits s \<Longrightarrow> ev \<noteq> Side ClientCloses \<Longrightarrow> ry_step limits status ev s = s"
  by (cases ev) (auto simp: relay_waits_def relay_defs client_defs split: side_event.splits)

lemma relay_waits_run:
  "relay_waits s \<Longrightarrow> Side ClientCloses \<notin> set evs \<Longrightarrow> foldl (\<lambda>s ev. ry_step limits status ev s) s evs = s"
  by (induction evs) (auto simp: relay_waits_step)

lemma relay_exceeds:
  assumes "relay_live limits cs s" "sl_maxTotalBytes limits < length (concat (cs @ [c]))"
  shows "relay_waits (ry_step limits status (Data c) s)"
  using assms by (simp add: relay_live_def relay_waits_def relay_defs client_defs progress_clear_def)

text \<open>
  Property (relay_limit_waits). When a pass-through stream exceeds \<open>streamMaxTotalBytes\<close> the proxy stops
  reading, but nothing it does afterwards ends the response or settles the relay: neither timers nor
  the upstream can, only the client by closing its connection.
\<close>

theorem relay_limit_waits:
  assumes "ur_body upstream \<noteq> None" "length (concat cs) \<le> sl_maxTotalBytes limits"
    and "sl_maxTotalBytes limits < length (concat (cs @ [c]))" "Side ClientCloses \<notin> set evs"
  shows "ry_result (pipeOpenAiStreamingResponse limits upstream now (map Data cs @ Data c # evs) (fresh_response status headers)) = None \<and>
         response_open (ry_client (pipeOpenAiStreamingResponse limits upstream now (map Data cs @ Data c # evs)
           (fresh_response status headers)))"
proof -
  have live: "relay_live limits cs (foldl (\<lambda>s ev. ry_step limits (ur_status upstream) ev s)
      (ry_init now (fresh_response status headers)) (map Data cs))" (is "relay_live limits cs ?s")
    using relay_live_run [OF relay_init_live, of cs limits] assms(2) by simp
  note waits = relay_exceeds [OF live assms(3), of "ur_status upstream"]
  from relay_waits_run [OF waits assms(4), of limits "ur_status upstream"] assms(1) waits show ?thesis
    by (auto simp: pipeOpenAiStreamingResponse_def relay_waits_def)
qed

definition example_limits :: stream_limits where
  "example_limits = \<lparr>sl_idleTimeoutMs = 300000, sl_maxLifetimeMs = 3600000, sl_minBytesPerSecond = 1, sl_rateWindowMs = 60000,
     sl_maxEventBytes = 256, sl_maxTotalBytes = 8\<rparr>"

definition example_stream :: upstream_response where
  "example_stream = \<lparr>ur_status = 200, ur_headers = [], ur_body = Some \<lparr>bs_chunks = [], bs_failure = None\<rparr>\<rparr>"

theorem relay_complete_witness:
  "ry_result (pipeOpenAiStreamingResponse example_limits example_stream 0
     (map Data [''data'', ''more''] @ [StreamEnds, Side ClientFinishes]) (fresh_response 200 [])) = Some None"
  using relay_complete [of example_stream "[''data'', ''more'']" example_limits 0 200 "[]"]
  by (simp add: example_stream_def example_limits_def)

theorem relay_limit_waits_witness:
  "ry_result (pipeOpenAiStreamingResponse example_limits example_stream 0
     (map Data [''data'', ''more''] @ Data ''!'' # [Side LifetimeFires, Side IdleFires, StreamEnds]) (fresh_response 200 [])) = None"
  using relay_limit_waits [of example_stream "[''data'', ''more'']" example_limits "''!''" "[Side LifetimeFires, Side IdleFires, StreamEnds]" 0 200 "[]"]
  by (simp add: example_stream_def example_limits_def)

section \<open>Translating a stream\<close>

text \<open>
  \<open>pipeAnthropicStreamingToOpenAi\<close>. A read of the upstream body is preceded by the side events that
  happen while it is awaited; \<open>during\<close> gives those that happen while the client takes a chunk. Once
  the pump is aborted its reader is cancelled and the pending read ends the loop. \<open>decode\<close> is the
  streaming UTF-8 decoder with its state.
\<close>

record 'u pump_env =
  pe_limits :: stream_limits
  pe_parse :: "string \<Rightarrow> json option"
  pe_nts :: "rat \<Rightarrow> string"
  pe_freshId :: "nat \<Rightarrow> string"
  pe_now :: "nat \<Rightarrow> int"
  pe_model :: string
  pe_status :: nat
  pe_decode :: "'u \<Rightarrow> string \<Rightarrow> string \<times> 'u"
  pe_flush :: "'u \<Rightarrow> string"
  pe_during :: "nat \<Rightarrow> side_event list"

record 'u pump =
  pu_decoder :: 'u
  pu_buffer :: string
  pu_total :: nat
  pu_upstreamLogged :: bool
  pu_aborted :: "string option"
  pu_terminal :: "thrown option"
  pu_idleArmed :: bool
  pu_lifetimeArmed :: bool
  pu_progress :: progress
  pu_closeRecorded :: bool
  pu_sentDone :: bool
  pu_state :: stream_state
  pu_events :: nat
  pu_writes :: nat
  pu_client :: client_response
  pu_effects :: "proxy_effect list"

datatype read_outcome = ReadChunk string | ReadDone | ReadFails thrown

definition pu_log :: "proxy_effect list \<Rightarrow> 'u pump \<Rightarrow> 'u pump" where
  "pu_log es s = s\<lparr>pu_effects := pu_effects s @ es\<rparr>"

definition pu_abort :: "string \<Rightarrow> 'u pump \<Rightarrow> 'u pump" where
  "pu_abort reason s =
     (if pu_aborted s = None
      then s\<lparr>pu_aborted := Some reason, pu_idleArmed := False, pu_lifetimeArmed := False,
             pu_progress := progress_clear (pu_progress s)\<rparr>
      else s)"

definition pu_exceed :: "thrown \<Rightarrow> 'u pump \<Rightarrow> 'u pump" where
  "pu_exceed e s =
     pu_abort (limit_code e)
       (pu_log [DebugError ''response_stream'' (limit_code e), ErrorLine (limit_message e) 502] (s\<lparr>pu_terminal := Some e\<rparr>))"

definition pu_side :: "stream_limits \<Rightarrow> side_event \<Rightarrow> 'u pump \<Rightarrow> 'u pump" where
  "pu_side limits e s =
     (case e of
        IdleFires \<Rightarrow>
          if pu_idleArmed s
          then (let s1 = pu_abort ''streaming_idle_timeout''
                      (pu_log [DebugError ''response_stream'' ''streaming_idle_timeout'',
                               ErrorLine ''Streaming response idle timeout reached'' 504] (s\<lparr>pu_idleArmed := False\<rparr>))
                in s1\<lparr>pu_client := cr_end (pu_client s1)\<rparr>)
          else s
      | LifetimeFires \<Rightarrow> if pu_lifetimeArmed s then pu_exceed (lifetime_error limits) (s\<lparr>pu_lifetimeArmed := False\<rparr>) else s
      | RateFires now \<Rightarrow>
          if pg_armed (pu_progress s)
          then (case progress_check limits now (pu_progress s) of
                  None \<Rightarrow> pu_exceed (rate_error limits) (s\<lparr>pu_progress := progress_clear (pu_progress s)\<rparr>)
                | Some p \<Rightarrow> s\<lparr>pu_progress := p\<rparr>)
          else s
      | ClientCloses \<Rightarrow>
          (let s1 = (if \<not> pu_closeRecorded s \<and> \<not> cr_ended (pu_client s)
                     then pu_log [DebugError ''response_stream'' ''client_closed''] (s\<lparr>pu_closeRecorded := True\<rparr>) else s);
               s2 = s1\<lparr>pu_client := (pu_client s1)\<lparr>cr_destroyed := True\<rparr>\<rparr>
           in pu_abort ''client_closed'' s2)
      | ClientFinishes \<Rightarrow> if cr_ended (pu_client s) then pu_abort ''client_finished'' s else s)"

definition pu_sides :: "stream_limits \<Rightarrow> side_event list \<Rightarrow> 'u pump \<Rightarrow> 'u pump" where
  "pu_sides limits es s = foldl (\<lambda>s e. pu_side limits e s) s es"

definition pu_stopped :: "'u pump \<Rightarrow> bool" where
  "pu_stopped s \<longleftrightarrow> pu_aborted s \<noteq> None \<or> \<not> response_open (pu_client s)"

text \<open>The loop over the chunks of an event, and over the events of a piece.\<close>

fun write_chunks :: "'u pump_env \<Rightarrow> string list \<Rightarrow> 'u pump \<Rightarrow> 'u pump" where
  "write_chunks env [] s = s"
| "write_chunks env (c # cs) s =
     (let s1 = (if cr_headersSent (pu_client s) then s else pu_log [ClientStarted (cr_statusCode (pu_client s))] s);
          s2 = s1\<lparr>pu_sentDone := pu_sentDone s1 \<or> c = formatSseChunk (pe_nts env) None,
                  pu_progress := recordProgress (byte_length c) (pu_progress s1),
                  pu_client := cr_write c (pu_client s1),
                  pu_writes := Suc (pu_writes s1)\<rparr>;
          s3 = pu_sides (pe_limits env) (pe_during env (pu_writes s1)) s2
      in if pu_stopped s3 then s3 else write_chunks env cs s3)"

fun translation_thrown :: "translation_error \<Rightarrow> thrown" where
  "translation_thrown (UnsupportedTextContent m) = ErrorObject UnsupportedTextContentClass ''UnsupportedTextContentError'' m [] None"
| "translation_thrown AnthropicMessagesRequired =
     ErrorObject AnthropicMessagesRequiredClass ''AnthropicMessagesRequiredError''
       ''Anthropic request translation requires at least one non-system message.'' [] None"
| "translation_thrown (JsonObjectRequired l) = ErrorObject PlainError ''Error'' (l @ '' must be a JSON object.'') [] None"
| "translation_thrown (TranslationJson e) = json_error_thrown e"
| "translation_thrown InvalidSsePayload = ErrorObject PlainError ''Error'' ''Invalid Anthropic SSE event payload.'' [] None"
| "translation_thrown (SseRemainderLimit n m) =
     ErrorObject PlainError ''SseRemainderLimitError''
       (''SSE remainder exceeded maxRemainderBytes ('' @ digits_of_nat n @ '' bytes).'') [] None"
| "translation_thrown SseOptionError = ErrorObject PlainError ''Error'' [] [] None"
| "translation_thrown NullPropertyRead = ErrorObject PlainError ''TypeError'' [] [] None"

fun pump_events :: "'u pump_env \<Rightarrow> string list \<Rightarrow> 'u pump \<Rightarrow> (thrown + unit) \<times> 'u pump" where
  "pump_events env [] s = (Inr (), s)"
| "pump_events env (e # es) s =
     (case translateAnthropicEventToOpenAiChunks (pe_parse env) (pe_nts env) (pe_freshId env (pu_events s))
             (pe_now env (pu_events s)) e (pe_model env) (pu_state s) of
        (Inl err, st') \<Rightarrow> (Inl (translation_thrown err), s\<lparr>pu_state := st', pu_events := Suc (pu_events s)\<rparr>)
      | (Inr cs, st') \<Rightarrow>
          (let s1 = write_chunks env cs (s\<lparr>pu_state := st', pu_events := Suc (pu_events s)\<rparr>) in
           if pu_stopped s1 then (Inr (), s1) else pump_events env es s1))"

text \<open>The body of the read loop for a piece of the stream.\<close>

definition pump_piece :: "'u pump_env \<Rightarrow> string \<Rightarrow> 'u pump \<Rightarrow> (thrown + unit) \<times> 'u pump" where
  "pump_piece env bytes s0 =
     (let s1 = s0\<lparr>pu_idleArmed := True, pu_total := pu_total s0 + length bytes\<rparr> in
      if pu_total s1 > sl_maxTotalBytes (pe_limits env) then (Inl (oversized_error (pe_limits env)), s1)
      else
        (let s2 = (if pu_upstreamLogged s1 then s1
                   else pu_log [UpstreamStarted (pe_status env), UpstreamLine (pe_status env)] (s1\<lparr>pu_upstreamLogged := True\<rparr>));
             (txt, dec) = pe_decode env (pu_decoder s2) bytes;
             s3 = s2\<lparr>pu_buffer := pu_buffer s2 @ txt, pu_decoder := dec\<rparr>
         in if byte_length (pu_buffer s3) > sl_maxEventBytes (pe_limits env)
            then (Inl (event_oversized_error (pe_limits env)), s3)
            else (case parseSseEvents (pu_buffer s3) (Some (of_nat (sl_maxEventBytes (pe_limits env)))) of
                    Inl (SseRemainderLimit _ _) \<Rightarrow> (Inl (event_oversized_error (pe_limits env)), s3)
                  | Inl e \<Rightarrow> (Inl (translation_thrown e), s3)
                  | Inr (events, remainder) \<Rightarrow> pump_events env events (s3\<lparr>pu_buffer := remainder\<rparr>))))"

definition is_stream_limit :: "thrown \<Rightarrow> bool" where
  "is_stream_limit e = (case e of ErrorObject (StreamingResponseLimit _) _ _ _ _ \<Rightarrow> True | _ \<Rightarrow> False)"

text \<open>The outcome of the loop: it ended, or an error left it; \<open>None\<close> while it waits for a read.\<close>

fun pump_loop :: "'u pump_env \<Rightarrow> (side_event list \<times> read_outcome) list \<Rightarrow> 'u pump \<Rightarrow> (thrown + unit) option \<times> 'u pump" where
  "pump_loop env [] s = (if pu_aborted s \<noteq> None then (Some (Inr ()), s) else (None, s))"
| "pump_loop env ((sides, outcome) # script) s =
     (if pu_aborted s \<noteq> None then (Some (Inr ()), s)
      else
        (let s1 = pu_sides (pe_limits env) sides s in
         if pu_aborted s1 \<noteq> None then (Some (Inr ()), s1)
         else (case outcome of
                 ReadDone \<Rightarrow> (Some (Inr ()), s1)
               | ReadFails e \<Rightarrow> (Some (Inl e), s1)
               | ReadChunk bytes \<Rightarrow>
                   (case pump_piece env bytes s1 of
                      (Inl e, s2) \<Rightarrow> (Some (Inl e), s2)
                    | (Inr _, s2) \<Rightarrow> pump_loop env script s2))))"

definition pu_clear :: "'u pump \<Rightarrow> 'u pump" where
  "pu_clear s = s\<lparr>pu_idleArmed := False, pu_lifetimeArmed := False, pu_progress := progress_clear (pu_progress s)\<rparr>"

definition error_text :: "thrown \<Rightarrow> string \<Rightarrow> string" where
  "error_text e fallback = (case e of ErrorObject _ _ m _ _ \<Rightarrow> m | PlainThrown _ \<Rightarrow> fallback)"

text \<open>The code after the loop.\<close>

definition pump_finish :: "'u pump_env \<Rightarrow> 'u pump \<Rightarrow> (thrown + unit) \<times> 'u pump" where
  "pump_finish env s =
     (case pu_terminal s of
        Some e \<Rightarrow> (Inl e, s)
      | None \<Rightarrow>
          if pu_stopped s then (Inr (), s)
          else
            (let rest = pu_buffer s @ pe_flush env (pu_decoder s);
                 incomplete = ErrorObject PlainError ''Error'' ''Incomplete Anthropic SSE event payload.'' [] None
             in if length (trim rest) > 0
                then (Inl incomplete, pu_log [DebugError ''response_translation'' ''Incomplete Anthropic SSE event payload.''] s)
                else
                  (let s1 = (if pu_upstreamLogged s then s
                             else pu_log [UpstreamStarted (pe_status env), UpstreamLine (pe_status env)] s);
                       s2 = pu_log [UpstreamCompleted (pe_status env) None] s1;
                       s3 = (if pu_sentDone s2 then s2
                             else (let t = (if cr_headersSent (pu_client s2) then s2
                                            else pu_log [ClientStarted (cr_statusCode (pu_client s2))] s2)
                                   in t\<lparr>pu_client := cr_write (formatSseChunk (pe_nts env) None) (pu_client t)\<rparr>))
                   in (Inr (), s3\<lparr>pu_client := cr_end (pu_client s3)\<rparr>))))"

definition pump_init :: "string \<Rightarrow> 'u \<Rightarrow> int \<Rightarrow> client_response \<Rightarrow> 'u pump" where
  "pump_init placeholder dec now r =
     \<lparr>pu_decoder = dec, pu_buffer = [], pu_total = 0, pu_upstreamLogged = False, pu_aborted = None, pu_terminal = None,
      pu_idleArmed = True, pu_lifetimeArmed = True, pu_progress = progress_start now, pu_closeRecorded = False,
      pu_sentDone = False, pu_state = stream_init placeholder, pu_events = 0, pu_writes = 0,
      pu_client = prepareStreamingResponseHeaders (Some ''text/event-stream; charset=utf-8'') (Some ''no-cache'') (Some ''keep-alive'') r,
      pu_effects = []\<rparr>"

definition pipeAnthropicStreamingToOpenAi ::
  "'u pump_env \<Rightarrow> upstream_response \<Rightarrow> string \<Rightarrow> 'u \<Rightarrow> int \<Rightarrow> (side_event list \<times> read_outcome) list \<Rightarrow> client_response \<Rightarrow>
   (thrown + unit) option \<times> 'u pump" where
  "pipeAnthropicStreamingToOpenAi env upstream placeholder dec now script r =
     (if ur_body upstream = None
      then (Some (Inr ()), (pump_init placeholder dec now r)\<lparr>pu_client := cr_end r, pu_effects := [UpstreamLine (pe_status env)]\<rparr>)
      else
        (case pump_loop env script (pump_init placeholder dec now r) of
           (None, s) \<Rightarrow> (None, s)
         | (Some (Inl e), s) \<Rightarrow>
             if is_stream_limit e then (Some (Inl e), pu_clear (pu_exceed e s))
             else if pu_aborted s = None
             then (Some (Inl e), pu_clear (pu_log [DebugError ''response_translation'' (error_text e ''stream_translation_failed'')] s))
             else (case pump_finish env (pu_clear s) of (r, s') \<Rightarrow> (Some r, s'))
         | (Some (Inr _), s) \<Rightarrow> (case pump_finish env (pu_clear s) of (r, s') \<Rightarrow> (Some r, s'))))"

subsection \<open>What the pump delivers\<close>

text \<open>
  The reference: the pieces are decoded, split into events, the events translated one after the
  other, and the terminal chunk added unless the translation has it.
\<close>

fun decode_pieces :: "('u \<Rightarrow> string \<Rightarrow> string \<times> 'u) \<Rightarrow> 'u \<Rightarrow> string list \<Rightarrow> string list \<times> 'u" where
  "decode_pieces decode dec [] = ([], dec)"
| "decode_pieces decode dec (b # bs) =
     (case decode dec b of (t, dec1) \<Rightarrow> (case decode_pieces decode dec1 bs of (ts, dec2) \<Rightarrow> (t # ts, dec2)))"

fun translate_events :: "'u pump_env \<Rightarrow> nat \<Rightarrow> stream_state \<Rightarrow> string list \<Rightarrow> translation_error + string list \<times> stream_state" where
  "translate_events env n st [] = Inr ([], st)"
| "translate_events env n st (e # es) =
     (case translateAnthropicEventToOpenAiChunks (pe_parse env) (pe_nts env) (pe_freshId env n) (pe_now env n) e (pe_model env) st of
        (Inl err, st') \<Rightarrow> Inl err
      | (Inr cs, st') \<Rightarrow> rbind (translate_events env (Suc n) st' es) (\<lambda>(cs', st''). Inr (cs @ cs', st'')))"

definition done_chunk :: "'u pump_env \<Rightarrow> string" where
  "done_chunk env = formatSseChunk (pe_nts env) None"

definition pump_open :: "'u pump \<Rightarrow> bool" where
  "pump_open s \<longleftrightarrow> pu_aborted s = None \<and> pu_terminal s = None \<and> response_open (pu_client s)"

text \<open>A side event either leaves the run alone or stops it for good.\<close>

definition same_run :: "'u pump \<Rightarrow> 'u pump \<Rightarrow> bool" where
  "same_run s t \<longleftrightarrow>
     pu_decoder t = pu_decoder s \<and> pu_buffer t = pu_buffer s \<and> pu_total t = pu_total s \<and> pu_sentDone t = pu_sentDone s \<and>
     pu_state t = pu_state s \<and> pu_events t = pu_events s \<and> pu_client t = pu_client s"

lemma pu_side_aborted: "pu_aborted s \<noteq> None \<Longrightarrow> pu_aborted (pu_side limits e s) \<noteq> None"
  by (cases e) (auto simp: pu_side_def pu_abort_def pu_exceed_def pu_log_def Let_def split: option.splits)

lemma pu_side_quiet:
  "pu_aborted (pu_side limits e s) = None \<Longrightarrow> same_run s (pu_side limits e s) \<and> pu_terminal (pu_side limits e s) = pu_terminal s"
  by (cases e) (auto simp: pu_side_def pu_abort_def pu_exceed_def pu_log_def Let_def same_run_def split: option.splits if_splits)

lemma pu_sides_aborted: "pu_aborted s \<noteq> None \<Longrightarrow> pu_aborted (pu_sides limits es s) \<noteq> None"
  unfolding pu_sides_def
proof (induction es arbitrary: s)
  case (Cons e es)
  from Cons.IH [OF pu_side_aborted [OF Cons.prems]] show ?case by simp
qed simp

lemma pu_sides_quiet:
  "pu_aborted (pu_sides limits es s) = None \<Longrightarrow>
   same_run s (pu_sides limits es s) \<and> pu_terminal (pu_sides limits es s) = pu_terminal s"
proof (induction es arbitrary: s)
  case (Cons e es)
  have tail: "pu_aborted (pu_sides limits es (pu_side limits e s)) = None" using Cons.prems by (simp add: pu_sides_def)
  with pu_sides_aborted have "pu_aborted (pu_side limits e s) = None" by blast
  with pu_side_quiet [of limits e s] Cons.IH [OF tail] show ?case by (simp add: pu_sides_def same_run_def)
qed (simp add: pu_sides_def same_run_def)

text \<open>The state after chunks have been written, as far as the result depends on it.\<close>

lemma write_chunks_open:
  "pump_open (write_chunks env cs s) \<Longrightarrow> pump_open s \<Longrightarrow>
   pu_decoder (write_chunks env cs s) = pu_decoder s \<and> pu_buffer (write_chunks env cs s) = pu_buffer s \<and>
   pu_total (write_chunks env cs s) = pu_total s \<and> pu_state (write_chunks env cs s) = pu_state s \<and>
   pu_events (write_chunks env cs s) = pu_events s \<and>
   pu_sentDone (write_chunks env cs s) = (pu_sentDone s \<or> done_chunk env \<in> set cs) \<and>
   cr_written (pu_client (write_chunks env cs s)) = cr_written (pu_client s) @ cs"
proof (induction cs arbitrary: s)
  case (Cons c cs)
  let ?s1 = "if cr_headersSent (pu_client s) then s else pu_log [ClientStarted (cr_statusCode (pu_client s))] s"
  let ?s2 = "?s1\<lparr>pu_sentDone := pu_sentDone ?s1 \<or> c = formatSseChunk (pe_nts env) None,
                  pu_progress := recordProgress (byte_length c) (pu_progress ?s1),
                  pu_client := cr_write c (pu_client ?s1), pu_writes := Suc (pu_writes ?s1)\<rparr>"
  let ?s3 = "pu_sides (pe_limits env) (pe_during env (pu_writes ?s1)) ?s2"
  have unfolded: "write_chunks env (c # cs) s = (if pu_stopped ?s3 then ?s3 else write_chunks env cs ?s3)"
    by (simp only: write_chunks.simps Let_def)
  have s2: "pump_open ?s2" "pu_decoder ?s2 = pu_decoder s" "pu_buffer ?s2 = pu_buffer s" "pu_total ?s2 = pu_total s"
    "pu_state ?s2 = pu_state s" "pu_events ?s2 = pu_events s" "pu_sentDone ?s2 = (pu_sentDone s \<or> c = done_chunk env)"
    "cr_written (pu_client ?s2) = cr_written (pu_client s) @ [c]"
    using Cons.prems(2) by (simp_all add: pump_open_def pu_log_def client_defs done_chunk_def)
  show ?case
  proof (cases "pu_stopped ?s3")
    case True
    with unfolded Cons.prems(1) show ?thesis by (simp add: pump_open_def pu_stopped_def)
  next
    case False
    then have quiet: "same_run ?s2 ?s3" "pu_terminal ?s3 = pu_terminal ?s2"
      using pu_sides_quiet [of "pe_limits env" "pe_during env (pu_writes ?s1)" ?s2] by (simp_all add: pu_stopped_def)
    from False quiet s2(1) have "pump_open ?s3" by (simp add: pump_open_def pu_stopped_def)
    with Cons.IH [of ?s3] unfolded False Cons.prems(1) quiet s2 show ?thesis by (auto simp: same_run_def)
  qed
qed simp

lemma write_chunks_ok:
  "pump_open s \<Longrightarrow> pu_aborted (write_chunks env cs s) = None \<Longrightarrow> pump_open (write_chunks env cs s)"
proof (induction cs arbitrary: s)
  case (Cons c cs)
  let ?s1 = "if cr_headersSent (pu_client s) then s else pu_log [ClientStarted (cr_statusCode (pu_client s))] s"
  let ?s2 = "?s1\<lparr>pu_sentDone := pu_sentDone ?s1 \<or> c = formatSseChunk (pe_nts env) None,
                  pu_progress := recordProgress (byte_length c) (pu_progress ?s1),
                  pu_client := cr_write c (pu_client ?s1), pu_writes := Suc (pu_writes ?s1)\<rparr>"
  let ?s3 = "pu_sides (pe_limits env) (pe_during env (pu_writes ?s1)) ?s2"
  have unfolded: "write_chunks env (c # cs) s = (if pu_stopped ?s3 then ?s3 else write_chunks env cs ?s3)"
    by (simp only: write_chunks.simps Let_def)
  have s2: "pump_open ?s2" using Cons.prems(1) by (simp add: pump_open_def pu_log_def client_defs)
  have s3: "pump_open ?s3" if "pu_aborted ?s3 = None"
    using pu_sides_quiet [OF that] that s2 by (simp add: pump_open_def same_run_def)
  show ?case
  proof (cases "pu_stopped ?s3")
    case True
    with unfolded Cons.prems(2) s3 show ?thesis by simp
  next
    case False
    then have "pump_open ?s3" using s3 by (simp add: pu_stopped_def)
    with Cons.IH [of ?s3] False unfolded Cons.prems(2) show ?thesis by simp
  qed
qed simp

lemma pump_events_ok:
  "pump_open s \<Longrightarrow> pump_events env es s = (Inr (), t) \<Longrightarrow> pu_aborted t = None \<Longrightarrow> pump_open t"
proof (induction es arbitrary: s)
  case (Cons e es)
  obtain r st' where tr: "translateAnthropicEventToOpenAiChunks (pe_parse env) (pe_nts env) (pe_freshId env (pu_events s))
      (pe_now env (pu_events s)) e (pe_model env) (pu_state s) = (r, st')" by fastforce
  with Cons.prems(2) obtain cs where r: "r = Inr cs" by (cases r) auto
  let ?s = "s\<lparr>pu_state := st', pu_events := Suc (pu_events s)\<rparr>"
  let ?s1 = "write_chunks env cs ?s"
  have "pump_open ?s" using Cons.prems(1) by (simp add: pump_open_def)
  note ok = write_chunks_ok [OF this, of env cs]
  show ?case
  proof (cases "pu_stopped ?s1")
    case True
    with Cons.prems(2,3) tr r ok show ?thesis by (simp add: Let_def)
  next
    case False
    then have "pump_open ?s1" using ok by (simp add: pu_stopped_def)
    with Cons.IH False Cons.prems(2,3) tr r show ?thesis by (simp add: Let_def)
  qed
qed simp

lemma pump_events_open:
  "pump_open s \<Longrightarrow> pump_events env es s = (Inr (), t) \<Longrightarrow> pump_open t \<Longrightarrow>
   \<exists>cs. translate_events env (pu_events s) (pu_state s) es = Inr (cs, pu_state t) \<and>
     pu_events t = pu_events s + length es \<and> pu_decoder t = pu_decoder s \<and> pu_buffer t = pu_buffer s \<and>
     pu_total t = pu_total s \<and> pu_sentDone t = (pu_sentDone s \<or> done_chunk env \<in> set cs) \<and>
     cr_written (pu_client t) = cr_written (pu_client s) @ cs"
proof (induction es arbitrary: s)
  case (Cons e es)
  obtain r st' where tr: "translateAnthropicEventToOpenAiChunks (pe_parse env) (pe_nts env) (pe_freshId env (pu_events s))
      (pe_now env (pu_events s)) e (pe_model env) (pu_state s) = (r, st')" by fastforce
  with Cons.prems(2) obtain cs where r: "r = Inr cs" by (cases r) auto
  let ?s = "s\<lparr>pu_state := st', pu_events := Suc (pu_events s)\<rparr>"
  let ?s1 = "write_chunks env cs ?s"
  have s: "pump_open ?s" using Cons.prems(1) by (simp add: pump_open_def)
  have run: "(if pu_stopped ?s1 then (Inr (), ?s1) else pump_events env es ?s1) = (Inr (), t)"
    using Cons.prems(2) tr r by (simp add: Let_def)
  then have going: "\<not> pu_stopped ?s1" using Cons.prems(3) by (auto simp: pump_open_def pu_stopped_def split: if_splits)
  then have s1: "pump_open ?s1" using write_chunks_ok [OF s] by (simp add: pu_stopped_def)
  from Cons.IH [OF s1] going run Cons.prems(3)
  obtain ds where "translate_events env (pu_events ?s1) (pu_state ?s1) es = Inr (ds, pu_state t)"
    "pu_events t = pu_events ?s1 + length es" "pu_decoder t = pu_decoder ?s1" "pu_buffer t = pu_buffer ?s1"
    "pu_total t = pu_total ?s1" "pu_sentDone t = (pu_sentDone ?s1 \<or> done_chunk env \<in> set ds)"
    "cr_written (pu_client t) = cr_written (pu_client ?s1) @ ds" by auto
  with write_chunks_open [OF s1 s] tr r show ?case by (auto simp: res_simps)
qed simp

lemma translate_events_append:
  "translate_events env n st es = Inr (cs, st') \<Longrightarrow> translate_events env (n + length es) st' fs = Inr (ds, st'') \<Longrightarrow>
   translate_events env n st (es @ fs) = Inr (cs @ ds, st'')"
proof (induction es arbitrary: n st cs)
  case (Cons e es)
  obtain r st1 where tr: "translateAnthropicEventToOpenAiChunks (pe_parse env) (pe_nts env) (pe_freshId env n)
      (pe_now env n) e (pe_model env) st = (r, st1)" by fastforce
  with Cons.prems(1) obtain c cs1 where "r = Inr c" "translate_events env (Suc n) st1 es = Inr (cs1, st')" "cs = c @ cs1"
    by (cases r) (auto simp: res_simps)
  with Cons.IH [of "Suc n" st1 cs1] Cons.prems(2) tr show ?case by simp
qed simp

text \<open>One piece of the stream.\<close>

lemma pump_piece_run:
  assumes "pump_piece env bytes s = (Inr (), t)" "pe_decode env (pu_decoder s) bytes = (txt, dec)" "pump_open s"
  obtains events remainder u where
    "parseSseEvents (pu_buffer s @ txt) (Some (of_nat (sl_maxEventBytes (pe_limits env)))) = Inr (events, remainder)"
    "pump_events env events u = (Inr (), t)" "pump_open u" "pu_buffer u = remainder" "pu_decoder u = dec"
    "pu_total u = pu_total s + length bytes" "pu_total u \<le> sl_maxTotalBytes (pe_limits env)" "pu_state u = pu_state s"
    "pu_events u = pu_events s" "pu_sentDone u = pu_sentDone s" "pu_client u = pu_client s"
proof -
  let ?s1 = "s\<lparr>pu_idleArmed := True, pu_total := pu_total s + length bytes\<rparr>"
  let ?s2 = "if pu_upstreamLogged ?s1 then ?s1
             else pu_log [UpstreamStarted (pe_status env), UpstreamLine (pe_status env)] (?s1\<lparr>pu_upstreamLogged := True\<rparr>)"
  let ?s3 = "?s2\<lparr>pu_buffer := pu_buffer ?s2 @ txt, pu_decoder := dec\<rparr>"
  have s2: "pu_decoder ?s2 = pu_decoder s" "pu_buffer ?s2 = pu_buffer s" by (simp_all add: pu_log_def)
  have tot: "pu_total s + length bytes \<le> sl_maxTotalBytes (pe_limits env)"
    using assms(1) by (auto simp: pump_piece_def Let_def split: if_splits)
  have u: "(if byte_length (pu_buffer ?s3) > sl_maxEventBytes (pe_limits env)
            then (Inl (event_oversized_error (pe_limits env)), ?s3)
            else (case parseSseEvents (pu_buffer ?s3) (Some (of_nat (sl_maxEventBytes (pe_limits env)))) of
                    Inl (SseRemainderLimit _ _) \<Rightarrow> (Inl (event_oversized_error (pe_limits env)), ?s3)
                  | Inl e \<Rightarrow> (Inl (translation_thrown e), ?s3)
                  | Inr (events, remainder) \<Rightarrow> pump_events env events (?s3\<lparr>pu_buffer := remainder\<rparr>))) = (Inr (), t)"
    using assms(1,2) tot s2 unfolding pump_piece_def Let_def by (simp split: if_splits)
  then obtain events remainder where p: "parseSseEvents (pu_buffer ?s3) (Some (of_nat (sl_maxEventBytes (pe_limits env)))) = Inr (events, remainder)"
    "pump_events env events (?s3\<lparr>pu_buffer := remainder\<rparr>) = (Inr (), t)"
    by (auto split: if_splits sum.splits translation_error.splits)
  have "pu_buffer ?s3 = pu_buffer s @ txt" by (simp add: pu_log_def)
  from p(1) [unfolded this] show thesis
    by (rule that [OF _ p(2)]) (use tot assms(3) in \<open>simp_all add: pu_log_def pump_open_def\<close>)
qed

text \<open>The pieces a script delivers before the stream ends.\<close>

fun script_pieces :: "(side_event list \<times> read_outcome) list \<Rightarrow> string list" where
  "script_pieces ((_, ReadChunk b) # script) = b # script_pieces script"
| "script_pieces _ = []"

lemma pump_loop_open:
  "pump_loop env script s = (Some (Inr ()), t) \<Longrightarrow> pump_open s \<Longrightarrow> pu_aborted t = None \<Longrightarrow>
   pump_open t \<and> (\<exists>txts events cs. decode_pieces (pe_decode env) (pu_decoder s) (script_pieces script) = (txts, pu_decoder t) \<and>
     sse_feed (Some (of_nat (sl_maxEventBytes (pe_limits env)))) (pu_buffer s) txts = Inr (events, pu_buffer t) \<and>
     translate_events env (pu_events s) (pu_state s) events = Inr (cs, pu_state t) \<and>
     pu_events t = pu_events s + length events \<and>
     pu_sentDone t = (pu_sentDone s \<or> done_chunk env \<in> set cs) \<and>
     pu_total s + length (concat (script_pieces script)) \<le> max (pu_total s) (sl_maxTotalBytes (pe_limits env)) \<and>
     cr_written (pu_client t) = cr_written (pu_client s) @ cs)"
proof (induction script arbitrary: s)
  case Nil
  then show ?case by (auto split: if_splits)
next
  case (Cons step script)
  obtain sides outcome where step: "step = (sides, outcome)" by fastforce
  let ?s1 = "pu_sides (pe_limits env) sides s"
  have s0: "pu_aborted s = None" using Cons.prems(2) by (simp add: pump_open_def)
  with Cons.prems(1,3) step have s1: "pu_aborted ?s1 = None" by (auto simp: Let_def split: if_splits)
  note quiet = pu_sides_quiet [OF s1]
  have open1: "pump_open ?s1" using Cons.prems(2) quiet s1 by (simp add: pump_open_def same_run_def)
  show ?case
  proof (cases outcome)
    case (ReadChunk bytes)
    obtain r u where piece: "pump_piece env bytes ?s1 = (r, u)" by fastforce
    with Cons.prems(1) s0 s1 step ReadChunk have r: "r = Inr ()" and rest: "pump_loop env script u = (Some (Inr ()), t)"
      by (auto simp: Let_def split: sum.splits)
    from rest Cons.prems(3) have u: "pu_aborted u = None" by (cases script) (auto split: if_splits prod.splits)
    obtain tx dec where d: "pe_decode env (pu_decoder ?s1) bytes = (tx, dec)" by fastforce
    from piece r have "pump_piece env bytes ?s1 = (Inr (), u)" by simp
    from pump_piece_run [OF this d open1] obtain events remainder v where v:
      "parseSseEvents (pu_buffer ?s1 @ tx) (Some (of_nat (sl_maxEventBytes (pe_limits env)))) = Inr (events, remainder)"
      "pump_events env events v = (Inr (), u)" "pump_open v" "pu_buffer v = remainder" "pu_decoder v = dec"
      "pu_total v = pu_total ?s1 + length bytes" "pu_total v \<le> sl_maxTotalBytes (pe_limits env)" "pu_state v = pu_state ?s1"
      "pu_events v = pu_events ?s1" "pu_sentDone v = pu_sentDone ?s1" "pu_client v = pu_client ?s1" by metis
    have openu: "pump_open u" by (rule pump_events_ok [OF v(3,2) u])
    from pump_events_open [OF v(3,2) openu] obtain cs where cs:
      "translate_events env (pu_events v) (pu_state v) events = Inr (cs, pu_state u)"
      "pu_events u = pu_events v + length events" "pu_decoder u = pu_decoder v" "pu_buffer u = pu_buffer v"
      "pu_total u = pu_total v" "pu_sentDone u = (pu_sentDone v \<or> done_chunk env \<in> set cs)"
      "cr_written (pu_client u) = cr_written (pu_client v) @ cs" by blast
    from Cons.IH [OF rest openu Cons.prems(3)] obtain txts events' ds where ih: "pump_open t"
      "decode_pieces (pe_decode env) (pu_decoder u) (script_pieces script) = (txts, pu_decoder t)"
      "sse_feed (Some (of_nat (sl_maxEventBytes (pe_limits env)))) (pu_buffer u) txts = Inr (events', pu_buffer t)"
      "translate_events env (pu_events u) (pu_state u) events' = Inr (ds, pu_state t)"
      "pu_events t = pu_events u + length events'" "pu_sentDone t = (pu_sentDone u \<or> done_chunk env \<in> set ds)"
      "pu_total u + length (concat (script_pieces script)) \<le> max (pu_total u) (sl_maxTotalBytes (pe_limits env))"
      "cr_written (pu_client t) = cr_written (pu_client u) @ ds" by blast
    have same: "pu_decoder ?s1 = pu_decoder s" "pu_buffer ?s1 = pu_buffer s" "pu_total ?s1 = pu_total s"
      "pu_state ?s1 = pu_state s" "pu_events ?s1 = pu_events s" "pu_sentDone ?s1 = pu_sentDone s" "pu_client ?s1 = pu_client s"
      using quiet by (simp_all add: same_run_def)
    have "translate_events env (pu_events s) (pu_state s) (events @ events') = Inr (cs @ ds, pu_state t)"
      using translate_events_append [of env "pu_events s" "pu_state s" events cs "pu_state u" events' ds] cs(1,2) ih(4) v(8,9) same
      by simp
    moreover have "decode_pieces (pe_decode env) (pu_decoder s) (script_pieces (step # script)) = (tx # txts, pu_decoder t)"
      using d ih(2) cs(3) v(5) same step ReadChunk by simp
    moreover have "sse_feed (Some (of_nat (sl_maxEventBytes (pe_limits env)))) (pu_buffer s) (tx # txts) = Inr (events @ events', pu_buffer t)"
      using v(1,4) ih(3) cs(4) same by simp
    moreover have "pu_total s + length (concat (script_pieces (step # script))) \<le> max (pu_total s) (sl_maxTotalBytes (pe_limits env))"
      using ih(7) cs(5) v(6,7) same step ReadChunk by simp
    moreover have "pu_events t = pu_events s + length (events @ events')"
      "pu_sentDone t = (pu_sentDone s \<or> done_chunk env \<in> set (cs @ ds))"
      "cr_written (pu_client t) = cr_written (pu_client s) @ cs @ ds"
      using ih cs v same by auto
    ultimately show ?thesis using ih(1) by blast
  next
    case ReadDone
    with Cons.prems(1) s0 s1 step have "t = ?s1" by (simp add: Let_def)
    with open1 quiet step ReadDone show ?thesis by (simp add: same_run_def)
  next
    case (ReadFails e)
    with Cons.prems(1) s0 s1 step show ?thesis by (simp add: Let_def)
  qed
qed

lemma pump_clear_simps [simp]:
  "pu_aborted (pu_clear s) = pu_aborted s" "pu_terminal (pu_clear s) = pu_terminal s" "pu_client (pu_clear s) = pu_client s"
  "pu_buffer (pu_clear s) = pu_buffer s" "pu_decoder (pu_clear s) = pu_decoder s" "pu_sentDone (pu_clear s) = pu_sentDone s"
  by (simp_all add: pu_clear_def)

lemma pump_finish_open:
  assumes "pump_open s" "pump_finish env s = (Inr (), t)"
  shows "trim (pu_buffer s @ pe_flush env (pu_decoder s)) = []" "cr_ended (pu_client t)"
    "cr_written (pu_client t) = cr_written (pu_client s) @ (if pu_sentDone s then [] else [done_chunk env])"
    "pu_aborted t = pu_aborted s"
proof -
  have go: "pu_terminal s = None" "\<not> pu_stopped s" using assms(1) by (simp_all add: pump_open_def pu_stopped_def)
  with assms(2) show tr: "trim (pu_buffer s @ pe_flush env (pu_decoder s)) = []"
    by (auto simp: pump_finish_def Let_def split: if_splits)
  have "response_open (pu_client s)" using assms(1) by (simp add: pump_open_def)
  with assms(2) go tr
  show "cr_ended (pu_client t)" "pu_aborted t = pu_aborted s"
    "cr_written (pu_client t) = cr_written (pu_client s) @ (if pu_sentDone s then [] else [done_chunk env])"
    by (auto simp: pump_finish_def Let_def pu_log_def client_defs done_chunk_def)
qed

lemma pump_finish_aborted: "pu_aborted s \<noteq> None \<Longrightarrow> pump_finish env s = (r, t) \<Longrightarrow> pu_aborted t \<noteq> None"
  by (auto simp: pump_finish_def pu_stopped_def split: option.splits)

lemma pump_init_open: "pump_open (pump_init placeholder dec now (fresh_response status headers))"
  by (simp add: pump_open_def pump_init_def fresh_response_def prepareStreamingResponseHeaders_def cr_removeHeader_def
      cr_setHeader_def response_open_def)

text \<open>A pump that resolves without having been aborted went through the whole stream.\<close>

lemma pump_resolved:
  assumes "pipeAnthropicStreamingToOpenAi env upstream placeholder dec now script r = (Some (Inr ()), t)"
    and "ur_body upstream \<noteq> None" "pu_aborted t = None"
  obtains u where "pump_loop env script (pump_init placeholder dec now r) = (Some (Inr ()), u)" "pu_aborted u = None"
    "pump_finish env (pu_clear u) = (Inr (), t)"
proof -
  obtain q u where q: "pump_loop env script (pump_init placeholder dec now r) = (q, u)" by fastforce
  show thesis
  proof (cases q)
    case None
    with assms q show ?thesis by (auto simp: pipeAnthropicStreamingToOpenAi_def)
  next
    case (Some o')
    show ?thesis
    proof (cases o')
      case (Inl e)
      show ?thesis
      proof (cases "is_stream_limit e \<or> pu_aborted u = None")
        case True
        with assms q Some Inl show ?thesis by (auto simp: pipeAnthropicStreamingToOpenAi_def split: if_splits)
      next
        case False
        with assms(1,2) q Some Inl have "pump_finish env (pu_clear u) = (Inr (), t)"
          by (auto simp: pipeAnthropicStreamingToOpenAi_def split: prod.splits)
        with pump_finish_aborted [of "pu_clear u" env] False assms(3) show ?thesis by simp
      qed
    next
      case (Inr x)
      with assms(1,2) q Some have fin: "pump_finish env (pu_clear u) = (Inr (), t)"
        by (auto simp: pipeAnthropicStreamingToOpenAi_def split: prod.splits)
      then have "pu_aborted u = None" using pump_finish_aborted [OF _ fin] assms(3) by (cases "pu_aborted u") simp_all
      with that q Some Inr fin show ?thesis by simp
    qed
  qed
qed

text \<open>
  C13 (pump_delivers). When the translation of an Anthropic stream returns normally and was not
  aborted, then whatever the timers did meanwhile: the pieces fit into \<open>streamMaxTotalBytes\<close>, they
  split into complete events with nothing but white space left, every event was translated, and the
  client received exactly the translated chunks in order, with one terminal chunk added if the
  translation did not have it, and the response was ended.
\<close>

theorem pump_delivers:
  assumes "pipeAnthropicStreamingToOpenAi env upstream placeholder dec now script (fresh_response status headers) = (Some (Inr ()), t)"
    and "ur_body upstream \<noteq> None" "pu_aborted t = None"
  shows "length (concat (script_pieces script)) \<le> sl_maxTotalBytes (pe_limits env) \<and> cr_ended (pu_client t) \<and>
    (\<exists>txts dec' events remainder cs st. decode_pieces (pe_decode env) dec (script_pieces script) = (txts, dec') \<and>
      sse_feed (Some (of_nat (sl_maxEventBytes (pe_limits env)))) [] txts = Inr (events, remainder) \<and>
      trim (remainder @ pe_flush env dec') = [] \<and>
      translate_events env 0 (stream_init placeholder) events = Inr (cs, st) \<and>
      cr_written (pu_client t) = cs @ (if done_chunk env \<in> set cs then [] else [done_chunk env]))"
proof -
  let ?s = "pump_init placeholder dec now (fresh_response status headers)"
  from pump_resolved [OF assms] obtain u where u: "pump_loop env script ?s = (Some (Inr ()), u)" "pu_aborted u = None"
    "pump_finish env (pu_clear u) = (Inr (), t)" .
  have init: "pu_decoder ?s = dec" "pu_buffer ?s = []" "pu_total ?s = 0" "pu_state ?s = stream_init placeholder"
    "pu_events ?s = 0" "pu_sentDone ?s = False" "cr_written (pu_client ?s) = []"
    by (simp_all add: pump_init_def fresh_response_def prepareStreamingResponseHeaders_def cr_removeHeader_def cr_setHeader_def)
  note run = pump_loop_open [OF u(1) pump_init_open u(2), unfolded init]
  then have "pump_open (pu_clear u)" by (simp add: pump_open_def)
  note fin = pump_finish_open [OF this u(3), simplified]
  from run obtain txts events cs where feed:
    "decode_pieces (pe_decode env) dec (script_pieces script) = (txts, pu_decoder u)"
    "sse_feed (Some (of_nat (sl_maxEventBytes (pe_limits env)))) [] txts = Inr (events, pu_buffer u)"
    "translate_events env 0 (stream_init placeholder) events = Inr (cs, pu_state u)"
    and rest: "pu_sentDone u = (done_chunk env \<in> set cs)" "cr_written (pu_client u) = cs"
    "length (concat (script_pieces script)) \<le> sl_maxTotalBytes (pe_limits env)" by auto
  from fin(3) rest have "cr_written (pu_client t) = cs @ (if done_chunk env \<in> set cs then [] else [done_chunk env])" by simp
  with feed fin(1,2) rest(3) show ?thesis by blast
qed

definition example_pump :: "unit pump_env" where
  "example_pump =
     \<lparr>pe_limits = example_limits\<lparr>sl_maxTotalBytes := 64\<rparr>, pe_parse = (\<lambda>_. Some (JObj [])), pe_nts = (\<lambda>_. ''0''),
      pe_freshId = (\<lambda>_. ''call''), pe_now = (\<lambda>_. 0), pe_model = ''m'', pe_status = 200, pe_decode = (\<lambda>_ b. (b, ())),
      pe_flush = (\<lambda>_. []), pe_during = (\<lambda>_. [])\<rparr>"

definition example_script :: "(side_event list \<times> read_outcome) list" where
  "example_script = [([], ReadChunk ''data: [DONE]''), ([ClientFinishes], ReadChunk [LF, LF]), ([], ReadDone)]"

lemma example_events:
  "parseSseEvents ''data: [DONE]'' (Some 256) = Inr ([], ''data: [DONE]'')"
  "parseSseEvents (''data: [DONE]'' @ [LF, LF]) (Some 256) = Inr ([''data: [DONE]''], [])"
  by code_simp+

lemma example_chunks: "translateAnthropicEventToOpenAiChunks parse nts freshId now ''data: [DONE]'' m st = (Inr [], st)"
  by (simp add: translateAnthropicEventToOpenAiChunks_def event_chunks_def js_string_defs)

lemma example_pump_runs:
  "map_prod id pu_aborted
     (pipeAnthropicStreamingToOpenAi example_pump example_stream ''p'' () 0 example_script (fresh_response 200 [])) =
   (Some (Inr ()), None)"
  using example_events
  by (simp add: pipeAnthropicStreamingToOpenAi_def example_pump_def example_script_def example_stream_def example_limits_def
      example_chunks pump_init_def fresh_response_def prepareStreamingResponseHeaders_def cr_removeHeader_def cr_setHeader_def
      pump_piece_def pu_log_def byte_length_def code_unit_def pu_sides_def pu_side_def pump_finish_def pu_clear_def
      pu_stopped_def client_defs trim_def Let_def)

theorem pump_delivers_witness:
  "cr_ended (pu_client (snd (pipeAnthropicStreamingToOpenAi example_pump example_stream ''p'' () 0 example_script (fresh_response 200 []))))"
proof -
  obtain r t where run: "pipeAnthropicStreamingToOpenAi example_pump example_stream ''p'' () 0 example_script (fresh_response 200 []) = (r, t)"
    by fastforce
  with example_pump_runs have "r = Some (Inr ())" "pu_aborted t = None" by simp_all
  with pump_delivers [of example_pump example_stream "''p''" "()" 0 example_script 200 "[]" t] run show ?thesis
    by (simp add: example_stream_def)
qed

end
