(* ===== verification/Proxy_Core.thy ===== *)
theory Proxy_Core
  imports Proxy_Streaming
begin

text \<open>
  One proxied request from its parsed body to the response: \<^verbatim>\<open>proxy/proxy-request-shape.ts\<close>,
  \<^verbatim>\<open>proxy/proxy-forwarding.ts\<close>, \<^verbatim>\<open>proxy/proxy-response-handlers.ts\<close>, \<^verbatim>\<open>proxy/proxy-core.ts\<close> and the two entry
  points \<^verbatim>\<open>proxy-openai.ts\<close> and \<^verbatim>\<open>proxy-anthropic.ts\<close>.

  The request is answered from the route table, the body is rewritten or translated, headers and
  provider credentials are built, the endpoint is resolved and pinned, the request is sent once, and
  the response is buffered, relayed or translated. The network, resolver, environment and schedule of
  a stream are a record of parameters. Log lines, observations and captures are recorded as effects
  in the order they are made.
\<close>

section \<open>Shape and rewriting of the body\<close>

fun json_array :: "json option \<Rightarrow> json list" where
  "json_array (Some (JArr items)) = items"
| "json_array _ = []"

definition countMessages :: "json option \<Rightarrow> nat" where
  "countMessages messages = length (filter (\<lambda>item. isObjectLike (Some item)) (json_array messages))"

definition hasOpenAiSystemMessage :: "json option \<Rightarrow> bool" where
  "hasOpenAiSystemMessage messages =
     list_ex (\<lambda>item. isObjectLike (Some item) \<and> jprop item ''role'' = Some (JStr ''system'')) (json_array messages)"

text \<open>The text length a message adds: content that cannot be normalised counts as nothing.\<close>

fun prompt_chars :: "nat \<Rightarrow> json list \<Rightarrow> translation_error + nat" where
  "prompt_chars n [] = Inr n"
| "prompt_chars n (item # items) =
     (if \<not> isObjectLike (Some item) then prompt_chars n items
      else (case normalizeTextContent (jprop item ''content'') of
              Inr t \<Rightarrow> prompt_chars (n + length t) items
            | Inl (UnsupportedTextContent m) \<Rightarrow> prompt_chars n items
            | Inl e \<Rightarrow> Inl e))"

definition buildRequestShapeSummary :: "json \<Rightarrow> api_mode \<Rightarrow> translation_error + request_shape" where
  "buildRequestShapeSummary parsedBody surface =
     (let toolCount = length (json_array (jprop parsedBody ''tools''));
          hasMetadata = isObjectLike (jprop parsedBody ''metadata'');
          maxTokens = as_number (jprop parsedBody ''max_tokens'');
          temperature = as_number (jprop parsedBody ''temperature'')
      in case surface of
           anthropic_messages \<Rightarrow>
             (let systemValue = (case as_string (jprop parsedBody ''system'') of Some s \<Rightarrow> s | None \<Rightarrow> [])
              in Inr \<lparr>sh_messageCount = countMessages (jprop parsedBody ''messages''),
                      sh_hasSystemMessage = (length (trim systemValue) > 0), sh_promptChars = length systemValue,
                      sh_toolCount = toolCount, sh_hasMetadata = hasMetadata, sh_maxTokens = maxTokens,
                      sh_temperature = temperature\<rparr>)
         | openai_completions \<Rightarrow>
             rbind (prompt_chars 0 (json_array (jprop parsedBody ''messages''))) (\<lambda>promptChars.
             Inr \<lparr>sh_messageCount = countMessages (jprop parsedBody ''messages''),
                  sh_hasSystemMessage = hasOpenAiSystemMessage (jprop parsedBody ''messages''), sh_promptChars = promptChars,
                  sh_toolCount = toolCount, sh_hasMetadata = hasMetadata,
                  sh_maxTokens = (case maxTokens of Some n \<Rightarrow> Some n | None \<Rightarrow> as_number (jprop parsedBody ''max_completion_tokens'')),
                  sh_temperature = temperature\<rparr>))"

text \<open>\<open>{...parsedBody, ...updatedFields}\<close>\<close>

fun spread :: "json \<Rightarrow> (string \<times> json) list \<Rightarrow> json" where
  "spread (JObj entries) updated = JObj (foldl (\<lambda>fs (k, v). jm_set k v fs) entries updated)"
| "spread other updated = JObj (foldl (\<lambda>fs (k, v). jm_set k v fs) [] updated)"

definition buildPatchedJsonBody ::
  "(rat \<Rightarrow> string) \<Rightarrow> string \<Rightarrow> json \<Rightarrow> (string \<times> json) list \<Rightarrow> nat \<Rightarrow> json_error + string" where
  "buildPatchedJsonBody nts rawBody parsedBody updatedFields maxBytes =
     (if list_ex (\<lambda>(key, v). jprop parsedBody key \<noteq> Some v) updatedFields
      then safeJsonStringifyWithinBounds nts (hard_json_bounds\<lparr>maxSerializedBytes := maxBytes\<rparr>) (spread parsedBody updatedFields)
      else Inr rawBody)"

section \<open>The parts of a request\<close>

text \<open>
  What a request uses of its surroundings: the transport, URLs, the environment, the resolver with
  its shared cache and what other requests do to it meanwhile, JSON and UTF-8, fresh identifiers, the
  view of a parsed body as the declared response type, and the schedule of a stream.
\<close>

record ('w, 'u) proxy_env =
  px_ops :: "'w transport_ops"
  px_urls :: url_ops
  px_getenv :: env_lookup
  px_lookup :: "string \<Rightarrow> (string \<times> nat) list option"
  px_lookupError :: "string \<Rightarrow> thrown"
  px_others :: "endpoint_cache \<Rightarrow> endpoint_cache"
  px_resolvedAt :: int
  px_parse :: "string \<Rightarrow> json option"
  px_nts :: "rat \<Rightarrow> string"
  px_uuid :: "nat \<Rightarrow> string"
  px_utf8decode :: "string \<Rightarrow> string"
  px_utf8encode :: "string \<Rightarrow> string"
  px_asAnthropic :: "json \<Rightarrow> thrown + anthropic_response"
  px_now :: int
  px_relayEvents :: "relay_event list"
  px_pump :: "'u pump_env"
  px_placeholder :: string
  px_decoder :: 'u
  px_script :: "(side_event list \<times> read_outcome) list"

record proxy_config =
  pc_routes :: "(string, route_config) js_map"
  pc_limits :: stream_limits
  pc_maxBufferedUpstreamResponseBytes :: "nat option"
  pc_maxPayloadSize :: nat

record proxy_context =
  cx_requestId :: string
  cx_caller :: string
  cx_bareModel :: string
  cx_stream :: bool
  cx_apiMode :: api_mode
  cx_requestStartedAt :: int

record 'w proxy_state =
  ps_response :: client_response
  ps_effects :: "proxy_effect list"
  ps_sent :: "transport_event list"
  ps_cache :: endpoint_cache
  ps_world :: 'w

text \<open>The promise: pending, rejected or fulfilled.\<close>

type_synonym outcome = "(thrown + unit) option"

section \<open>Answers and context\<close>

definition buildErrorBody :: "string \<Rightarrow> string \<Rightarrow> json" where
  "buildErrorBody message code =
     JObj [(''error'', JObj [(''message'', JStr message), (''type'', JStr ''switchmaxxer_error''), (''code'', JStr code)])]"

definition cr_endWith :: "string \<Rightarrow> client_response \<Rightarrow> client_response" where
  "cr_endWith body r = cr_end (cr_write body r)"

definition sendJsonError :: "(rat \<Rightarrow> string) \<Rightarrow> nat \<Rightarrow> string \<Rightarrow> string \<Rightarrow> client_response \<Rightarrow> client_response" where
  "sendJsonError nts statusCode message code r =
     (let body = json_stringify nts (buildErrorBody message code) @ [LF]
      in cr_endWith body
           (cr_setHeader ''content-length'' (digits_of_nat (byte_length body))
             (cr_setHeader ''content-type'' ''application/json; charset=utf-8'' (r\<lparr>cr_statusCode := statusCode\<rparr>))))"

definition safeLogField :: "string option \<Rightarrow> nat \<Rightarrow> string" where
  "safeLogField v maxLen = (case v of None \<Rightarrow> ''unknown'' | Some s \<Rightarrow> sanitizeLogValue s maxLen)"

definition getResponseSafeRouteHint :: "string \<Rightarrow> string" where
  "getResponseSafeRouteHint bareModel =
     (let hint = safeLogField (Some bareModel) 128 in if length hint > 0 then hint else ''unknown'')"

fun headerValue :: "header_value option \<Rightarrow> string option" where
  "headerValue None = None"
| "headerValue (Some (HStr v)) = (let t = trim v in if length t > 0 then Some t else None)"
| "headerValue (Some (HArr [])) = None"
| "headerValue (Some (HArr (v # vs))) = (let t = trim v in if length t > 0 then Some t else None)"

definition getCallerDisplayLabel :: "http_request \<Rightarrow> string" where
  "getCallerDisplayLabel request =
     (case headerValue (header request ''x-switchmaxxer-caller'') of
        Some c \<Rightarrow> sanitizeLogValue c 128
      | None \<Rightarrow> (case headerValue (header request ''x-switchmaxxer-client'') of
                   Some c \<Rightarrow> sanitizeLogValue c 128
                 | None \<Rightarrow> (case headerValue (header request ''x-client-name'') of
                              Some c \<Rightarrow> sanitizeLogValue c 128
                            | None \<Rightarrow> sanitizeLogValue (case rq_remoteAddress request of Some a \<Rightarrow> a | None \<Rightarrow> ''unknown'') 128)))"

definition createContext :: "string \<Rightarrow> int \<Rightarrow> http_request \<Rightarrow> json \<Rightarrow> api_mode \<Rightarrow> proxy_context" where
  "createContext requestId now request parsedBody surface =
     \<lparr>cx_requestId = requestId, cx_caller = getCallerDisplayLabel request,
      cx_bareModel = (case as_string (jprop parsedBody ''model'') of Some m \<Rightarrow> m | None \<Rightarrow> []),
      cx_stream = (jprop parsedBody ''stream'' = Some (JBool True)), cx_apiMode = surface, cx_requestStartedAt = now\<rparr>"

definition resolveRoute :: "proxy_config \<Rightarrow> proxy_context \<Rightarrow> route_config option" where
  "resolveRoute config cx = (if length (cx_bareModel cx) = 0 then None else jm_get (pc_routes config) (cx_bareModel cx))"

definition px_emit :: "proxy_effect list \<Rightarrow> 'w proxy_state \<Rightarrow> 'w proxy_state" where
  "px_emit es s = s\<lparr>ps_effects := ps_effects s @ es\<rparr>"

definition px_error :: "(rat \<Rightarrow> string) \<Rightarrow> nat \<Rightarrow> string \<Rightarrow> string \<Rightarrow> 'w proxy_state \<Rightarrow> 'w proxy_state" where
  "px_error nts statusCode message code s = s\<lparr>ps_response := sendJsonError nts statusCode message code (ps_response s)\<rparr>"

definition validateCommonRouteState ::
  "(rat \<Rightarrow> string) \<Rightarrow> route_config option \<Rightarrow> proxy_context \<Rightarrow> 'w proxy_state \<Rightarrow> bool \<times> 'w proxy_state" where
  "validateCommonRouteState nts route cx s =
     (if length (cx_bareModel cx) = 0
      then (False, px_error nts 400 (''Request body must include a string '' @ quoted ''model'' @ '' field'') ''invalid_request''
              (px_emit [DebugError ''request_validation'' ''missing_model_field'',
                        ErrorLine (''Request body must include a string '' @ quoted ''model'' @ '' field'') 400] s))
      else if route = None
      then (False, px_error nts 404 (''No route found for model '' @ quoted (getResponseSafeRouteHint (cx_bareModel cx))) ''route_not_found''
              (px_emit [DebugError ''route_resolution'' ''route_not_found'',
                        ErrorLine ''No route found in the active configuration'' 404] s))
      else (True, s))"

definition validateListenerForRequest ::
  "(rat \<Rightarrow> string) \<Rightarrow> route_config \<Rightarrow> proxy_context \<Rightarrow> 'w proxy_state \<Rightarrow> bool \<times> 'w proxy_state" where
  "validateListenerForRequest nts route cx s =
     (if cx_apiMode cx = openai_completions \<or> rc_api_mode route = cx_apiMode cx then (True, s)
      else (False, px_error nts 400 (''Route '' @ quoted (cx_bareModel cx) @ '' is not compatible with the Anthropic listener'')
              ''route_incompatible_with_listener''
              (px_emit [DebugError ''listener_compatibility'' ''route_incompatible_with_listener'',
                        ErrorLine ''Route is not compatible with the Anthropic listener'' 400] s)))"

section \<open>Forwarding\<close>

definition resolvedPrivateEndpointThrown :: "string \<Rightarrow> string \<Rightarrow> thrown" where
  "resolvedPrivateEndpointThrown hostname address =
     ErrorObject ResolvedPrivateEndpoint ''ResolvedPrivateEndpointError''
       (''Provider endpoint hostname '' @ quoted hostname @ '' resolved to private/local address '' @ quoted address @
        '', but '' @ quoted ''allow_private_endpoints'' @ '' is false.'')
       [(''hostname'', JStr hostname), (''address'', JStr address)] None"

fun endpoint_thrown :: "(string \<Rightarrow> thrown) \<Rightarrow> endpoint_error \<Rightarrow> thrown" where
  "endpoint_thrown lookupError (ResolvedPrivateEndpointError h a) = resolvedPrivateEndpointThrown h a"
| "endpoint_thrown lookupError (LookupFailed h) = lookupError h"
| "endpoint_thrown lookupError (NoUsableAddress h) =
     ErrorObject PlainError ''Error'' (''Provider endpoint hostname '' @ quoted h @ '' did not resolve to any usable address.'') [] None"
| "endpoint_thrown lookupError _ = ErrorObject PlainError ''Error'' [] [] None"

definition forward_options :: "int \<Rightarrow> pinned_resolution option \<Rightarrow> transport_options" where
  "forward_options timeoutMs pinned =
     \<lparr>tr_timeoutMs = timeoutMs,
      tr_retry = Some \<lparr>ro_maxRetries = Some 0, ro_baseDelayMs = None, ro_maxBackoffMs = None\<rparr>,
      tr_pinned = pinned\<rparr>"

definition forwardUpstreamRequestWithMode ::
  "('w, 'u) proxy_env \<Rightarrow> string \<Rightarrow> bool \<Rightarrow> fetch_headers \<Rightarrow> string \<Rightarrow> bool \<Rightarrow> int \<Rightarrow> 'w proxy_state \<Rightarrow>
   (thrown + upstream_response) \<times> 'w proxy_state" where
  "forwardUpstreamRequestWithMode env upstreamUrl allowPrivate headers body streaming timeoutMs s =
     (case uo_parse (px_urls env) upstreamUrl of
        None \<Rightarrow> (Inl invalid_url_error, s)
      | Some url \<Rightarrow>
          (case assertResolvedProviderEndpointPolicy (px_lookup env) (px_others env) url allowPrivate
                  (default_deps (px_resolvedAt env)) (ps_cache s) of
             (Inl e, cache') \<Rightarrow> (Inl (endpoint_thrown (px_lookupError env) e), s\<lparr>ps_cache := cache'\<rparr>)
           | (Inr pinned, cache') \<Rightarrow>
               (let init = \<lparr>ri_method = Some ''POST'', ri_headers = headers, ri_body = TextBody body\<rparr>;
                    transport = (if streaming then fetchStreamingWithSwitchmaxxerTransport else fetchWithSwitchmaxxerTransport)
                in case transport (px_ops env) upstreamUrl init (forward_options timeoutMs pinned) (ps_world s) of
                     (r, evs, w') \<Rightarrow>
                       (r, px_emit (concat (map (\<lambda>ev. case ev of Retried d \<Rightarrow> [RetryLogged d] | _ \<Rightarrow> []) evs))
                             (s\<lparr>ps_cache := cache', ps_sent := ps_sent s @ evs, ps_world := w'\<rparr>)))))"

section \<open>Delivering the response\<close>

definition appendTrailingNewline :: "string \<Rightarrow> string" where
  "appendTrailingNewline buffer = (if buffer \<noteq> [] \<and> last buffer = LF then buffer else buffer @ [LF])"

definition normalizeFetchInspectionHeaders :: "fetch_headers \<Rightarrow> (string, string) js_map" where
  "normalizeFetchInspectionHeaders headers = foldl (\<lambda>m (n, v). jm_set (to_lower n) v m) [] (h_entries headers)"

definition maxBuffered :: "proxy_config \<Rightarrow> nat" where
  "maxBuffered config = (case pc_maxBufferedUpstreamResponseBytes config of Some n \<Rightarrow> n | None \<Rightarrow> 16 * 1024 * 1024)"

type_synonym delivery = "outcome \<times> client_response \<times> proxy_effect list"

definition sendBufferedResponse :: "upstream_response \<Rightarrow> string \<Rightarrow> string option \<Rightarrow> client_response \<Rightarrow> delivery" where
  "sendBufferedResponse upstream buffered contentType r =
     (Some (Inr ()),
      cr_endWith buffered
        (cr_setHeader ''content-length'' (digits_of_nat (length buffered))
          (case contentType of None \<Rightarrow> r | Some t \<Rightarrow> cr_setHeader ''content-type'' t r)),
      [UpstreamLine (ur_status upstream), UpstreamCompleted (ur_status upstream) (Some (length buffered)),
       ClientStarted (cr_statusCode r), InspectToClient (cr_statusCode r) buffered])"

text \<open>Copy the headers, read the body within the limit, record it and send it.\<close>

definition send_buffered_passthrough ::
  "proxy_config \<Rightarrow> upstream_response \<Rightarrow> (string \<Rightarrow> string) \<Rightarrow> client_response \<Rightarrow> delivery" where
  "send_buffered_passthrough config upstream adjust r0 =
     (let r = r0\<lparr>cr_headers := copyBufferedResponseHeaders (ur_headers upstream) (cr_headers r0)\<rparr>
      in case bufferResponseWithinLimit upstream (maxBuffered config) of
           Inl e \<Rightarrow> (Some (Inl e), r, [DebugError ''response_delivery'' (error_text e ''buffer_response_failed'')])
         | Inr buffer \<Rightarrow>
             (case sendBufferedResponse upstream (adjust buffer) None r of
                (out, r', es) \<Rightarrow>
                  (out, r', InspectFromProvider (ur_status upstream) (normalizeFetchInspectionHeaders (ur_headers upstream))
                              (adjust buffer) # es)))"

definition relay_delivery :: "('w, 'u) proxy_env \<Rightarrow> proxy_config \<Rightarrow> upstream_response \<Rightarrow> client_response \<Rightarrow> delivery" where
  "relay_delivery env config upstream r =
     (let s = pipeOpenAiStreamingResponse (pc_limits config) upstream (px_now env) (px_relayEvents env) r
      in (map_option (\<lambda>o'. case o' of None \<Rightarrow> Inr () | Some e \<Rightarrow> Inl e) (ry_result s), ry_client s, ry_effects s))"

definition pump_delivery ::
  "('w, 'u) proxy_env \<Rightarrow> proxy_config \<Rightarrow> route_config \<Rightarrow> upstream_response \<Rightarrow> client_response \<Rightarrow> delivery" where
  "pump_delivery env config route upstream r =
     (case pipeAnthropicStreamingToOpenAi
             ((px_pump env)\<lparr>pe_limits := pc_limits config, pe_model := rc_model route, pe_status := ur_status upstream\<rparr>)
             upstream (px_placeholder env) (px_decoder env) (px_now env) (px_script env) r of
        (out, s) \<Rightarrow> (out, pu_client s, pu_effects s))"

definition translated_delivery ::
  "('w, 'u) proxy_env \<Rightarrow> proxy_config \<Rightarrow> route_config \<Rightarrow> upstream_response \<Rightarrow> client_response \<Rightarrow> delivery" where
  "translated_delivery env config route upstream r =
     (let failed = (\<lambda>e es. (Some (Inl e), r, es @ [DebugError ''response_translation'' (error_text e ''anthropic_response_json_failed'')]))
      in case bufferResponseWithinLimit upstream (maxBuffered config) of
           Inl e \<Rightarrow> failed e []
         | Inr bytes \<Rightarrow>
             (let rawBody = px_utf8decode env bytes;
                  recorded = [InspectFromProvider (ur_status upstream) (normalizeFetchInspectionHeaders (ur_headers upstream)) rawBody]
              in case parseJsonWithinBounds (px_parse env) hard_json_bounds rawBody of
                   Inl e \<Rightarrow> failed (json_error_thrown e) recorded
                 | Inr parsed \<Rightarrow>
                     (case px_asAnthropic env parsed of
                        Inl e \<Rightarrow> (Some (Inl e), r, recorded)
                      | Inr upstreamBody \<Rightarrow>
                          (case translateAnthropicResponse (px_nts env) (px_uuid env) upstreamBody (rc_model route) (px_now env) of
                             Inl e \<Rightarrow> (Some (Inl (translation_thrown e)), r, recorded)
                           | Inr translated \<Rightarrow>
                               (case safeJsonStringifyWithinBounds (px_nts env) hard_json_bounds translated of
                                  Inl e \<Rightarrow> (Some (Inl (json_error_thrown e)), r, recorded)
                                | Inr txt \<Rightarrow>
                                    (case sendBufferedResponse upstream (px_utf8encode env (txt @ [LF]))
                                            (Some ''application/json; charset=utf-8'') r of
                                       (out, r', es) \<Rightarrow> (out, r', recorded @ es)))))))"

text \<open>The beginning both handlers share: the listener of the finish event, the status and its observation.\<close>

definition with_started :: "upstream_response \<Rightarrow> bool \<Rightarrow> client_response \<Rightarrow> (client_response \<Rightarrow> delivery) \<Rightarrow> delivery" where
  "with_started upstream streamed r k =
     (case k (r\<lparr>cr_statusCode := ur_status upstream\<rparr>) of
        (out, r', es) \<Rightarrow> (out, r', [Lifecycle, UpstreamStarted (ur_status upstream), DebugResponsePath streamed] @ es))"

definition handleUpstreamResponseForOpenAiClient ::
  "('w, 'u) proxy_env \<Rightarrow> proxy_config \<Rightarrow> upstream_response \<Rightarrow> route_config \<Rightarrow> proxy_context \<Rightarrow> client_response \<Rightarrow> delivery" where
  "handleUpstreamResponseForOpenAiClient env config upstream route cx r =
     (if ur_status upstream \<ge> 400
      then with_started upstream False r (send_buffered_passthrough config upstream appendTrailingNewline)
      else if cx_stream cx
      then with_started upstream True r
             (if rc_api_mode route = openai_completions then relay_delivery env config upstream else pump_delivery env config route upstream)
      else if rc_api_mode route = openai_completions
      then with_started upstream False r (send_buffered_passthrough config upstream appendTrailingNewline)
      else with_started upstream False r (translated_delivery env config route upstream))"

definition pipeAnthropicStreamingPassThrough ::
  "('w, 'u) proxy_env \<Rightarrow> proxy_config \<Rightarrow> upstream_response \<Rightarrow> client_response \<Rightarrow> delivery" where
  "pipeAnthropicStreamingPassThrough env config upstream r =
     relay_delivery env config upstream
       (prepareStreamingResponseHeaders (Some ''text/event-stream; charset=utf-8'') None None
         (r\<lparr>cr_headers := copyResponseHeaders (ur_headers upstream) (cr_headers r) []\<rparr>))"

definition handleUpstreamResponseForAnthropicClient ::
  "('w, 'u) proxy_env \<Rightarrow> proxy_config \<Rightarrow> upstream_response \<Rightarrow> route_config \<Rightarrow> proxy_context \<Rightarrow> client_response \<Rightarrow> delivery" where
  "handleUpstreamResponseForAnthropicClient env config upstream route cx r =
     (if ur_status upstream \<ge> 400 then with_started upstream False r (send_buffered_passthrough config upstream (\<lambda>b. b))
      else if cx_stream cx then with_started upstream True r (pipeAnthropicStreamingPassThrough env config upstream)
      else with_started upstream False r (send_buffered_passthrough config upstream (\<lambda>b. b)))"

definition sendJsonErrorIfWritable ::
  "(rat \<Rightarrow> string) \<Rightarrow> nat \<Rightarrow> string \<Rightarrow> string \<Rightarrow> client_response \<Rightarrow> bool \<times> client_response" where
  "sendJsonErrorIfWritable nts statusCode message code r =
     (if cr_headersSent r \<or> cr_ended r then (False, r\<lparr>cr_destroyed := True\<rparr>)
      else (True, sendJsonError nts statusCode message code r))"

section \<open>The request\<close>

definition isJsonRequestBodyBoundsError :: "thrown \<Rightarrow> bool" where
  "isJsonRequestBodyBoundsError e =
     (case e of ErrorObject _ _ m _ _ \<Rightarrow> m = ''json_serialized_too_large'' \<or> m = ''json_structure_too_large'' | _ \<Rightarrow> False)"

text \<open>The answer to a failed rewriting, if it is one of the foreseen failures.\<close>

definition rewrite_failure ::
  "(rat \<Rightarrow> string) \<Rightarrow> proxy_config \<Rightarrow> thrown \<Rightarrow> 'w proxy_state \<Rightarrow> outcome \<times> 'w proxy_state" where
  "rewrite_failure nts config e s =
     (if error_class_of e = Some AnthropicMessagesRequiredClass
      then (Some (Inr ()), px_error nts 400 ''Request body must include at least one non-system message'' ''invalid_request''
              (px_emit [DebugError ''request_translation'' ''anthropic_messages_required''] s))
      else if error_class_of e = Some UnsupportedTextContentClass
      then (Some (Inr ()), px_error nts 400 ''Request body contains unsupported content for this translation path'' ''unsupported_content_shape''
              (px_emit [DebugError ''request_translation'' (error_text e [])] s))
      else if isJsonRequestBodyBoundsError e
      then (Some (Inr ()), px_error nts 413
              (''Request body exceeds max_payload_size ('' @ digits_of_nat (pc_maxPayloadSize config) @ '' bytes) after proxy rewriting'')
              ''payload_too_large''
              (px_emit [DebugError ''request_translation'' ''payload_too_large''] s))
      else (Some (Inl e), s))"

text \<open>Sanitised client headers, the headers of the proxy and the provider's credentials.\<close>

definition header_failure :: "(rat \<Rightarrow> string) \<Rightarrow> thrown \<Rightarrow> 'w proxy_state \<Rightarrow> outcome \<times> 'w proxy_state" where
  "header_failure nts e s =
     (if is_error e \<and> error_text e [] = ''invalid_header_value''
      then (Some (Inr ()), px_error nts 400 ''Request headers contain an invalid value'' ''invalid_header_value''
              (px_emit [DebugError ''request_validation'' ''invalid_header_value''] s))
      else (Some (Inl e), s))"

definition auth_failure :: "(rat \<Rightarrow> string) \<Rightarrow> thrown \<Rightarrow> 'w proxy_state \<Rightarrow> outcome \<times> 'w proxy_state" where
  "auth_failure nts e s =
     (if error_class_of e = Some ProviderAuthMisconfigured
      then (Some (Inr ()), px_error nts 500 ''Upstream provider auth is misconfigured.'' ''invalid_provider_auth''
              (px_emit [DebugError ''upstream_fetch'' ''invalid_provider_auth'', ErrorLine (error_text e []) 500] s))
      else (Some (Inl e), s))"

type_synonym ('w, 'u) response_handler =
  "('w, 'u) proxy_env \<Rightarrow> proxy_config \<Rightarrow> upstream_response \<Rightarrow> route_config \<Rightarrow> proxy_context \<Rightarrow> client_response \<Rightarrow> delivery"

text \<open>Sending the request and delivering its response.\<close>

definition send_and_deliver ::
  "('w, 'u) proxy_env \<Rightarrow> ('w, 'u) response_handler \<Rightarrow> proxy_config \<Rightarrow> route_config \<Rightarrow> proxy_context \<Rightarrow>
   string \<Rightarrow> fetch_headers \<Rightarrow> string \<Rightarrow> 'w proxy_state \<Rightarrow> outcome \<times> 'w proxy_state" where
  "send_and_deliver env handle config route cx upstreamUrl headers body s =
     (case forwardUpstreamRequestWithMode env upstreamUrl (rc_allowPrivateEndpoints route) headers body (cx_stream cx)
             (rc_timeoutMs route) (px_emit [UpstreamRequestStarted] s) of
        (Inl e, s1) \<Rightarrow>
          (let c = classifyFetchError e
           in (Some (Inr ()), px_error (px_nts env) (cl_statusCode c) (cl_message c) (cl_code c)
                 (px_emit [DebugError ''upstream_fetch'' (cl_code c), ErrorLine (cl_message c) (cl_statusCode c)] s1)))
      | (Inr upstream, s1) \<Rightarrow>
          (case handle env config upstream route cx (ps_response s1) of
             (out, r, es) \<Rightarrow>
               (let s2 = px_emit es (s1\<lparr>ps_response := r\<rparr>)
                in case out of
                     None \<Rightarrow> (None, s2)
                   | Some (Inr _) \<Rightarrow> (Some (Inr ()), s2)
                   | Some (Inl e) \<Rightarrow>
                       (let c = classifyResponseDeliveryError e
                        in (Some (Inr ()),
                            (px_emit [DebugError ''response_delivery'' (cl_code c), ErrorLine (cl_message c) (cl_statusCode c)] s2)
                              \<lparr>ps_response := snd (sendJsonErrorIfWritable (px_nts env) (cl_statusCode c) (cl_message c) (cl_code c) r)\<rparr>)))))"

text \<open>The part of the request after its route is known and accepted.\<close>

definition forward_request ::
  "('w, 'u) proxy_env \<Rightarrow> (route_config \<Rightarrow> string \<Rightarrow> nat \<Rightarrow> thrown + string) \<Rightarrow> ('w, 'u) response_handler \<Rightarrow>
   proxy_config \<Rightarrow> http_request \<Rightarrow> proxy_context \<Rightarrow> route_config \<Rightarrow> string \<Rightarrow> 'w proxy_state \<Rightarrow> outcome \<times> 'w proxy_state" where
  "forward_request env buildRequestBody handleResponse config request cx route rawBody s =
     (case createUpstreamUrl (px_urls env) (rc_baseUrl route) (rc_api_mode route) of
        Inl e \<Rightarrow> (Some (Inl e), s)
      | Inr upstreamUrl \<Rightarrow>
          (case buildRequestBody route rawBody (pc_maxPayloadSize config) of
             Inl e \<Rightarrow> rewrite_failure (px_nts env) config e s
           | Inr body \<Rightarrow>
               (let s1 = px_emit [ForwardLine (buildUpstreamModel route) upstreamUrl, DebugUpstreamRequest (byte_length body)] s
                in case sanitizeIncomingHeaders (rq_headers request) of
                     Inl e \<Rightarrow> header_failure (px_nts env) e s1
                   | Inr sanitized \<Rightarrow>
                       (case upstream_headers (px_getenv env) route (cx_stream cx) sanitized of
                          Inl e \<Rightarrow> auth_failure (px_nts env) e s1
                        | Inr headers \<Rightarrow>
                            send_and_deliver env handleResponse config route cx upstreamUrl headers body
                              (px_emit [InspectToProvider upstreamUrl (normalizeFetchInspectionHeaders headers) body] s1)))))"

definition executeProxyRequest ::
  "('w, 'u) proxy_env \<Rightarrow> api_mode \<Rightarrow> (route_config \<Rightarrow> string \<Rightarrow> nat \<Rightarrow> thrown + string) \<Rightarrow> ('w, 'u) response_handler \<Rightarrow>
   proxy_config \<Rightarrow> string \<Rightarrow> int \<Rightarrow> http_request \<Rightarrow> json \<Rightarrow> string \<Rightarrow> 'w proxy_state \<Rightarrow> outcome \<times> 'w proxy_state" where
  "executeProxyRequest env surface buildRequestBody handleResponse config requestId now request parsedBody rawBody s0 =
     (let nts = px_nts env;
          cx = createContext requestId now request parsedBody surface;
          s1 = px_emit [RequestReceived surface, BoundCapture] s0;
          s2 = s1\<lparr>ps_response := cr_setHeader ''x-switchmaxxer-request-id'' requestId (ps_response s1)\<rparr>;
          found = resolveRoute config cx
      in case buildRequestShapeSummary parsedBody surface of
           Inl e \<Rightarrow> (Some (Inl (translation_thrown e)), s2)
         | Inr shape \<Rightarrow>
             (case validateCommonRouteState nts found cx
                     (px_emit [DebugIngress shape, DebugRouteResolution (found \<noteq> None), RequestLine] s2) of
                (valid, s3) \<Rightarrow>
                  (case (valid, found) of
                     (True, Some route) \<Rightarrow>
                       (case validateListenerForRequest nts route cx (px_emit [RouteResolved] s3) of
                          (False, s4) \<Rightarrow> (Some (Inr ()), s4)
                        | (True, s4) \<Rightarrow> forward_request env buildRequestBody handleResponse config request cx route rawBody s4)
                   | _ \<Rightarrow> (Some (Inr ()), s3))))"

definition lift_json :: "json_error + 'a \<Rightarrow> thrown + 'a" where
  "lift_json r = (case r of Inl e \<Rightarrow> Inl (json_error_thrown e) | Inr x \<Rightarrow> Inr x)"

definition openai_request_body ::
  "('w, 'u) proxy_env \<Rightarrow> json \<Rightarrow> route_config \<Rightarrow> string \<Rightarrow> nat \<Rightarrow> thrown + string" where
  "openai_request_body env parsedBody route rawBody maxBytes =
     (if rc_api_mode route = anthropic_messages
      then (case buildAnthropicRequestBodyFromOpenAi (px_parse env) (px_uuid env) parsedBody (buildUpstreamModel route) of
              Inl e \<Rightarrow> Inl (translation_thrown e)
            | Inr v \<Rightarrow> lift_json (safeJsonStringifyWithinBounds (px_nts env) (hard_json_bounds\<lparr>maxSerializedBytes := maxBytes\<rparr>) v))
      else lift_json (buildPatchedJsonBody (px_nts env) rawBody parsedBody [(''model'', JStr (buildUpstreamModel route))] maxBytes))"

definition proxyChatCompletion ::
  "('w, 'u) proxy_env \<Rightarrow> proxy_config \<Rightarrow> string \<Rightarrow> int \<Rightarrow> http_request \<Rightarrow> json \<Rightarrow> string \<Rightarrow> 'w proxy_state \<Rightarrow>
   outcome \<times> 'w proxy_state" where
  "proxyChatCompletion env config requestId now request parsedBody rawBody s =
     executeProxyRequest env openai_completions (openai_request_body env parsedBody) handleUpstreamResponseForOpenAiClient
       config requestId now request parsedBody rawBody s"

definition proxyAnthropicMessage ::
  "('w, 'u) proxy_env \<Rightarrow> proxy_config \<Rightarrow> string \<Rightarrow> int \<Rightarrow> http_request \<Rightarrow> json \<Rightarrow> string \<Rightarrow> 'w proxy_state \<Rightarrow>
   outcome \<times> 'w proxy_state" where
  "proxyAnthropicMessage env config requestId now request parsedBody rawBody s =
     executeProxyRequest env anthropic_messages
       (\<lambda>route raw maxBytes. lift_json (buildPatchedJsonBody (px_nts env) raw parsedBody [(''model'', JStr (buildUpstreamModel route))] maxBytes))
       handleUpstreamResponseForAnthropicClient config requestId now request parsedBody rawBody s"

section \<open>How a request goes\<close>

lemma px_emit_simps [simp]:
  "ps_response (px_emit es s) = ps_response s" "ps_sent (px_emit es s) = ps_sent s" "ps_cache (px_emit es s) = ps_cache s"
  "ps_world (px_emit es s) = ps_world s" "ps_effects (px_emit es s) = ps_effects s @ es"
  by (simp_all add: px_emit_def)

lemma px_error_simps [simp]:
  "ps_response (px_error nts st m c s) = sendJsonError nts st m c (ps_response s)" "ps_sent (px_error nts st m c s) = ps_sent s"
  "ps_cache (px_error nts st m c s) = ps_cache s" "ps_world (px_error nts st m c s) = ps_world s"
  by (simp_all add: px_error_def)

definition GATEWAY_STATUSES :: "nat list" where
  "GATEWAY_STATUSES = [400, 404, 413, 500]"

text \<open>The request ends before anything is sent: with an answer of the gateway, or by an exception.\<close>

definition refused :: "(rat \<Rightarrow> string) \<Rightarrow> client_response \<Rightarrow> 'w proxy_state \<Rightarrow> outcome \<Rightarrow> 'w proxy_state \<Rightarrow> bool" where
  "refused nts r s out t \<longleftrightarrow> ps_sent t = ps_sent s \<and> ps_cache t = ps_cache s \<and>
     ((\<exists>e. out = Some (Inl e) \<and> ps_response t = r) \<or>
      (out = Some (Inr ()) \<and> (\<exists>st m c. st \<in> set GATEWAY_STATUSES \<and> ps_response t = sendJsonError nts st m c r)))"

lemma refused_thrown: "ps_sent t = ps_sent s \<Longrightarrow> ps_cache t = ps_cache s \<Longrightarrow> ps_response t = r \<Longrightarrow> refused nts r s (Some (Inl e)) t"
  by (simp add: refused_def)

lemma refused_error:
  "ps_sent t = ps_sent s \<Longrightarrow> ps_cache t = ps_cache s \<Longrightarrow> ps_response t = r \<Longrightarrow> st \<in> set GATEWAY_STATUSES \<Longrightarrow>
   refused nts r s (Some (Inr ())) (px_error nts st m c t)"
  by (auto simp: refused_def)

lemma rewrite_failure_refused:
  assumes "rewrite_failure nts config e t = (out, t')" "ps_sent t = ps_sent s" "ps_cache t = ps_cache s" "ps_response t = r"
  shows "refused nts r s out t'"
  using assms by (auto simp: rewrite_failure_def GATEWAY_STATUSES_def intro!: refused_thrown refused_error split: if_splits)

lemma header_failure_refused:
  assumes "header_failure nts e t = (out, t')" "ps_sent t = ps_sent s" "ps_cache t = ps_cache s" "ps_response t = r"
  shows "refused nts r s out t'"
  using assms by (auto simp: header_failure_def GATEWAY_STATUSES_def intro!: refused_thrown refused_error split: if_splits)

lemma auth_failure_refused:
  assumes "auth_failure nts e t = (out, t')" "ps_sent t = ps_sent s" "ps_cache t = ps_cache s" "ps_response t = r"
  shows "refused nts r s out t'"
  using assms by (auto simp: auth_failure_def GATEWAY_STATUSES_def intro!: refused_thrown refused_error split: if_splits)

lemma common_state_cases:
  assumes "validateCommonRouteState nts found cx t = (ok, t')" "ps_sent t = ps_sent s" "ps_cache t = ps_cache s" "ps_response t = r"
  shows "ok \<and> t' = t \<and> found \<noteq> None \<or> \<not> ok \<and> refused nts r s (Some (Inr ())) t'"
  using assms by (auto simp: validateCommonRouteState_def GATEWAY_STATUSES_def intro!: refused_error split: if_splits)

lemma listener_cases:
  assumes "validateListenerForRequest nts route cx t = (ok, t')" "ps_sent t = ps_sent s" "ps_cache t = ps_cache s" "ps_response t = r"
  shows "ok \<and> t' = t \<or> \<not> ok \<and> refused nts r s (Some (Inr ())) t'"
  using assms by (auto simp: validateListenerForRequest_def GATEWAY_STATUSES_def intro!: refused_error split: if_splits)

text \<open>Either the request is refused, or it is sent and its response delivered.\<close>

definition delivered ::
  "('w, 'u) proxy_env \<Rightarrow> (route_config \<Rightarrow> string \<Rightarrow> nat \<Rightarrow> thrown + string) \<Rightarrow> ('w, 'u) response_handler \<Rightarrow>
   proxy_config \<Rightarrow> http_request \<Rightarrow> proxy_context \<Rightarrow> string \<Rightarrow> route_config \<Rightarrow> client_response \<Rightarrow> 'w proxy_state \<Rightarrow>
   outcome \<Rightarrow> 'w proxy_state \<Rightarrow> bool" where
  "delivered env build handle config request cx rawBody route r s out t \<longleftrightarrow>
     (\<exists>url sanitized headers body u.
       createUpstreamUrl (px_urls env) (rc_baseUrl route) (rc_api_mode route) = Inr url \<and>
       build route rawBody (pc_maxPayloadSize config) = Inr body \<and> sanitizeIncomingHeaders (rq_headers request) = Inr sanitized \<and>
       upstream_headers (px_getenv env) route (cx_stream cx) sanitized = Inr headers \<and>
       ps_sent u = ps_sent s \<and> ps_cache u = ps_cache s \<and> ps_response u = r \<and> ps_world u = ps_world s \<and>
       send_and_deliver env handle config route cx url headers body u = (out, t))"

lemma forward_cases:
  assumes "forward_request env build handle config request cx route rawBody u = (out, t)"
    and "ps_sent u = ps_sent s" "ps_cache u = ps_cache s" "ps_response u = r" "ps_world u = ps_world s"
  shows "refused (px_nts env) r s out t \<or> delivered env build handle config request cx rawBody route r s out t"
proof (cases "createUpstreamUrl (px_urls env) (rc_baseUrl route) (rc_api_mode route)")
  case (Inl e)
  with assms show ?thesis by (auto simp: forward_request_def intro!: disjI1 refused_thrown)
next
  case url: (Inr url)
  show ?thesis
  proof (cases "build route rawBody (pc_maxPayloadSize config)")
    case (Inl e)
    with assms(1) url have "rewrite_failure (px_nts env) config e u = (out, t)" by (simp add: forward_request_def)
    from rewrite_failure_refused [OF this assms(2-4)] show ?thesis ..
  next
    case body: (Inr body)
    let ?u = "px_emit [ForwardLine (buildUpstreamModel route) url, DebugUpstreamRequest (byte_length body)] u"
    have u: "ps_sent ?u = ps_sent s" "ps_cache ?u = ps_cache s" "ps_response ?u = r" using assms(2-4) by simp_all
    show ?thesis
    proof (cases "sanitizeIncomingHeaders (rq_headers request)")
      case (Inl e)
      with assms(1) url body have "header_failure (px_nts env) e ?u = (out, t)" by (simp add: forward_request_def)
      from header_failure_refused [OF this u] show ?thesis ..
    next
      case sanitized: (Inr sanitized)
      show ?thesis
      proof (cases "upstream_headers (px_getenv env) route (cx_stream cx) sanitized")
        case (Inl e)
        with assms(1) url body sanitized have "auth_failure (px_nts env) e ?u = (out, t)" by (simp add: forward_request_def)
        from auth_failure_refused [OF this u] show ?thesis ..
      next
        case headers: (Inr headers)
        with assms url body sanitized show ?thesis
          by (auto simp: forward_request_def delivered_def
              intro!: disjI2 exI [of _ "px_emit [InspectToProvider url (normalizeFetchInspectionHeaders headers) body] ?u"])
      qed
    qed
  qed
qed

lemma execute_cases:
  assumes "executeProxyRequest env surface build handle config requestId now request parsedBody rawBody s = (out, t)"
  defines "r \<equiv> cr_setHeader ''x-switchmaxxer-request-id'' requestId (ps_response s)"
    and "cx \<equiv> createContext requestId now request parsedBody surface"
  shows "refused (px_nts env) r s out t \<or>
    (\<exists>route. resolveRoute config cx = Some route \<and> delivered env build handle config request cx rawBody route r s out t)"
proof (cases "buildRequestShapeSummary parsedBody surface")
  case (Inl e)
  with assms(1) have "refused (px_nts env) r s out t" by (auto simp: executeProxyRequest_def r_def intro!: refused_thrown)
  then show ?thesis ..
next
  case (Inr shape)
  define found where "found = resolveRoute config cx"
  define s2 where "s2 = px_emit [DebugIngress shape, DebugRouteResolution (found \<noteq> None), RequestLine]
    ((px_emit [RequestReceived surface, BoundCapture] s)\<lparr>ps_response := r\<rparr>)"
  have s2: "ps_sent s2 = ps_sent s" "ps_cache s2 = ps_cache s" "ps_response s2 = r" "ps_world s2 = ps_world s"
    by (simp_all add: s2_def)
  obtain valid s3 where common: "validateCommonRouteState (px_nts env) found cx s2 = (valid, s3)" by fastforce
  have run: "(case (valid, found) of
       (True, Some route) \<Rightarrow>
         (case validateListenerForRequest (px_nts env) route cx (px_emit [RouteResolved] s3) of
            (False, s4) \<Rightarrow> (Some (Inr ()), s4)
          | (True, s4) \<Rightarrow> forward_request env build handle config request cx route rawBody s4)
     | _ \<Rightarrow> (Some (Inr ()), s3)) = (out, t)"
    using assms(1) Inr common unfolding executeProxyRequest_def Let_def found_def s2_def r_def cx_def by simp
  note c = common_state_cases [OF common s2(1-3)]
  show ?thesis
  proof (cases valid)
    case False
    with run c show ?thesis by auto
  next
    case True
    with c obtain route where route: "found = Some route" and s3: "s3 = s2" by auto
    obtain ok s4 where listener: "validateListenerForRequest (px_nts env) route cx (px_emit [RouteResolved] s2) = (ok, s4)" by fastforce
    note l = listener_cases [OF listener, of s r]
    show ?thesis
    proof (cases ok)
      case False
      with run True route s3 listener l s2 show ?thesis by simp
    next
      case ok: True
      with l s2 have s4: "s4 = px_emit [RouteResolved] s2" by simp
      from run True route s3 listener ok
      have "forward_request env build handle config request cx route rawBody s4 = (out, t)" by simp
      from forward_cases [OF this, of s r] s2 s4 route show ?thesis by (auto simp: found_def)
    qed
  qed
qed

section \<open>One request upstream\<close>

lemma forward_facts:
  assumes "forwardUpstreamRequestWithMode env url allow headers body streaming timeoutMs s = (r, t)"
  shows "ps_response t = ps_response s \<and>
    (\<exists>evs. ps_sent t = ps_sent s @ evs \<and> length (sends evs) \<le> 1 \<and> (\<forall>resp. r = Inr resp \<longrightarrow> map snd (sends evs) = [Inr resp]))"
proof (cases "uo_parse (px_urls env) url")
  case None
  with assms show ?thesis by (auto simp: forwardUpstreamRequestWithMode_def sends_def)
next
  case (Some u)
  obtain q cache' where q: "assertResolvedProviderEndpointPolicy (px_lookup env) (px_others env) u allow
      (default_deps (px_resolvedAt env)) (ps_cache s) = (q, cache')" by fastforce
  show ?thesis
  proof (cases q)
    case (Inl e)
    with assms Some q show ?thesis by (auto simp: forwardUpstreamRequestWithMode_def sends_def)
  next
    case (Inr pinned)
    let ?init = "\<lparr>ri_method = Some ''POST'', ri_headers = headers, ri_body = TextBody body\<rparr>"
    obtain r' evs w' where fetch: "fetchWithSwitchmaxxerRetry (px_ops env) url ?init (forward_options timeoutMs pinned) streaming
        (ps_world s) = (r', evs, w')" by (metis prod_cases3)
    then have t: "r = r'" "ps_sent t = ps_sent s @ evs" "ps_response t = ps_response s"
      using assms Some q Inr
      by (auto simp: forwardUpstreamRequestWithMode_def Let_def fetchStreamingWithSwitchmaxxerTransport_def
          fetchWithSwitchmaxxerTransport_def split: if_splits)
    have "mr_maxRetries (resolveMaxRetries ?init (forward_options timeoutMs pinned)) = 0"
      by (simp add: resolveMaxRetries_def forward_options_def Let_def)
    with retry_run_events [OF fetch] have one: "length (sends evs) \<le> 1"
      and last: "\<forall>resp. r' = Inr resp \<longrightarrow> sends evs \<noteq> [] \<and> snd (last (sends evs)) = Inr resp" by simp_all
    have "map snd (sends evs) = [Inr resp]" if "r' = Inr resp" for resp
      using one last that by (cases "sends evs") auto
    with t one show ?thesis by blast
  qed
qed

lemma deliver_sends:
  assumes "send_and_deliver env handle config route cx url headers body s = (out, t)"
  shows "\<exists>evs. ps_sent t = ps_sent s @ evs \<and> length (sends evs) \<le> 1"
proof -
  obtain q u where f: "forwardUpstreamRequestWithMode env url (rc_allowPrivateEndpoints route) headers body (cx_stream cx)
      (rc_timeoutMs route) (px_emit [UpstreamRequestStarted] s) = (q, u)" by fastforce
  from assms f have "ps_sent t = ps_sent u"
    by (cases q) (auto simp: send_and_deliver_def Let_def split: prod.splits option.splits sum.splits)
  with forward_facts [OF f] show ?thesis by auto
qed

section \<open>One answer\<close>

definition unanswered :: "client_response \<Rightarrow> bool" where
  "unanswered r \<longleftrightarrow> response_open r \<and> \<not> cr_headersSent r \<and> cr_written r = []"

definition answered :: "client_response \<Rightarrow> bool" where
  "answered r \<longleftrightarrow> cr_ended r \<and> \<not> cr_destroyed r \<and> length (cr_written r) = 1"

lemma unanswered_header [simp]: "unanswered (cr_setHeader n v r) = unanswered r"
  by (simp add: unanswered_def cr_setHeader_def response_open_def)

lemma unanswered_update [simp]:
  "unanswered (r\<lparr>cr_statusCode := st\<rparr>) = unanswered r" "unanswered (r\<lparr>cr_headers := h\<rparr>) = unanswered r"
  by (simp_all add: unanswered_def response_open_def)

lemma status_header [simp]: "cr_statusCode (cr_setHeader n v r) = cr_statusCode r"
  by (simp add: cr_setHeader_def)

lemma endWith_answers:
  assumes "unanswered r"
  shows "answered (cr_endWith body r)" "cr_statusCode (cr_endWith body r) = cr_statusCode r"
  using assms by (simp_all add: unanswered_def answered_def cr_endWith_def client_defs)

lemma sendJsonError_answers:
  assumes "unanswered r"
  shows "answered (sendJsonError nts st m c r)" "cr_statusCode (sendJsonError nts st m c r) = st"
  using assms by (simp_all add: sendJsonError_def Let_def endWith_answers)

text \<open>
  What the request relies on in a response handler: a response that is not streamed is either sent
  whole, with the status of the provider, or not begun when the handler fails.
\<close>

locale buffering_handler =
  fixes handle :: "('w, 'u) response_handler"
  assumes handles: "\<not> cx_stream cx \<Longrightarrow> unanswered r \<Longrightarrow> handle env config upstream route cx r = (out, r', es) \<Longrightarrow>
    (out = Some (Inr ()) \<and> answered r' \<and> cr_statusCode r' = ur_status upstream) \<or> (\<exists>e. out = Some (Inl e) \<and> unanswered r')"
begin

lemma deliver_answers:
  assumes "send_and_deliver env handle config route cx url headers body s = (out, t)" "\<not> cx_stream cx" "unanswered (ps_response s)"
  shows "out = Some (Inr ()) \<and> answered (ps_response t) \<and>
    (cr_statusCode (ps_response t) \<in> {502, 504} \<or>
     (\<exists>resp evs. ps_sent t = ps_sent s @ evs \<and> map snd (sends evs) = [Inr resp] \<and> cr_statusCode (ps_response t) = ur_status resp))"
proof -
  obtain q u where f: "forwardUpstreamRequestWithMode env url (rc_allowPrivateEndpoints route) headers body (cx_stream cx)
      (rc_timeoutMs route) (px_emit [UpstreamRequestStarted] s) = (q, u)" by fastforce
  note facts = forward_facts [OF f]
  then have u: "unanswered (ps_response u)" using assms(3) by simp
  show ?thesis
  proof (cases q)
    case (Inl e)
    with assms(1) f have "out = Some (Inr ())" "ps_response t = sendJsonError (px_nts env) (cl_statusCode (classifyFetchError e)) (cl_message (classifyFetchError e))
         (cl_code (classifyFetchError e)) (ps_response u)"
      by (auto simp: send_and_deliver_def Let_def)
    with sendJsonError_answers [OF u] classifyFetchError_status [of e] show ?thesis by auto
  next
    case (Inr upstream)
    obtain o' r es where h: "handle env config upstream route cx (ps_response u) = (o', r, es)" by (metis prod_cases3)
    from handles [OF assms(2) u h] show ?thesis
    proof (elim disjE exE conjE)
      assume ok: "o' = Some (Inr ())" "answered r" "cr_statusCode r = ur_status upstream"
      with assms(1) f Inr h have t: "out = Some (Inr ())" "ps_response t = r" "ps_sent t = ps_sent u"
        by (auto simp: send_and_deliver_def Let_def)
      from facts Inr obtain evs where "ps_sent u = ps_sent s @ evs" "map snd (sends evs) = [Inr upstream]" by auto
      with t ok show ?thesis by auto
    next
      fix e
      assume failed: "o' = Some (Inl e)" "unanswered r"
      with assms(1) f Inr h have "out = Some (Inr ())"
        "ps_response t = sendJsonError (px_nts env) (cl_statusCode (classifyResponseDeliveryError e))
           (cl_message (classifyResponseDeliveryError e)) (cl_code (classifyResponseDeliveryError e)) r"
        by (auto simp: send_and_deliver_def Let_def sendJsonErrorIfWritable_def unanswered_def client_defs)
      with sendJsonError_answers [OF failed(2)] classifyResponseDeliveryError_status [of e] show ?thesis by auto
    qed
  qed
qed

lemma request_answers:
  assumes "executeProxyRequest env surface build handle config requestId now request parsedBody rawBody s = (out, t)"
    and "jprop parsedBody ''stream'' \<noteq> Some (JBool True)" "unanswered (ps_response s)"
  shows "(\<exists>e. out = Some (Inl e) \<and> unanswered (ps_response t) \<and> ps_sent t = ps_sent s) \<or>
    (out = Some (Inr ()) \<and> answered (ps_response t) \<and>
     (cr_statusCode (ps_response t) \<in> {400, 404, 413, 500} \<and> ps_sent t = ps_sent s \<or>
      cr_statusCode (ps_response t) \<in> {502, 504} \<or>
      (\<exists>resp evs. ps_sent t = ps_sent s @ evs \<and> map snd (sends evs) = [Inr resp] \<and> cr_statusCode (ps_response t) = ur_status resp)))"
proof -
  let ?cx = "createContext requestId now request parsedBody surface"
  let ?r = "cr_setHeader ''x-switchmaxxer-request-id'' requestId (ps_response s)"
  have r: "unanswered ?r" using assms(3) by simp
  have cx: "\<not> cx_stream ?cx" using assms(2) by (simp add: createContext_def)
  from execute_cases [OF assms(1)] show ?thesis
  proof
    assume "refused (px_nts env) ?r s out t"
    with sendJsonError_answers [OF r] r show ?thesis by (auto simp: refused_def GATEWAY_STATUSES_def)
  next
    assume "\<exists>route. resolveRoute config ?cx = Some route \<and> delivered env build handle config request ?cx rawBody route ?r s out t"
    then obtain route url headers body u where "ps_sent u = ps_sent s" "ps_response u = ?r"
      "send_and_deliver env handle config route ?cx url headers body u = (out, t)" by (auto simp: delivered_def)
    with deliver_answers [OF _ cx, of env config route url headers body u out t] r show ?thesis by auto
  qed
qed

end

lemma buffered_passthrough_answers:
  assumes "unanswered r" "send_buffered_passthrough config upstream adjust r = (out, r', es)"
  shows "(out = Some (Inr ()) \<and> answered r' \<and> cr_statusCode r' = cr_statusCode r) \<or> (\<exists>e. out = Some (Inl e) \<and> unanswered r')"
  using assms by (auto simp: send_buffered_passthrough_def sendBufferedResponse_def Let_def endWith_answers split: sum.splits)

lemma translated_answers:
  assumes "unanswered r" "translated_delivery env config route upstream r = (out, r', es)"
  shows "(out = Some (Inr ()) \<and> answered r' \<and> cr_statusCode r' = cr_statusCode r) \<or> (\<exists>e. out = Some (Inl e) \<and> unanswered r')"
  using assms by (auto simp: translated_delivery_def sendBufferedResponse_def Let_def endWith_answers split: sum.splits)

lemma started_answers:
  assumes "unanswered r" "with_started upstream streamed r k = (out, r', es)"
    and "\<And>r o' r' es. unanswered r \<Longrightarrow> k r = (o', r', es) \<Longrightarrow>
      (o' = Some (Inr ()) \<and> answered r' \<and> cr_statusCode r' = cr_statusCode r) \<or> (\<exists>e. o' = Some (Inl e) \<and> unanswered r')"
  shows "(out = Some (Inr ()) \<and> answered r' \<and> cr_statusCode r' = ur_status upstream) \<or> (\<exists>e. out = Some (Inl e) \<and> unanswered r')"
  using assms(1,2) assms(3) [of "r\<lparr>cr_statusCode := ur_status upstream\<rparr>"]
  by (auto simp: with_started_def split: prod.splits)

lemmas started_buffered = started_answers [OF _ _ buffered_passthrough_answers]

lemmas started_translated = started_answers [OF _ _ translated_answers]

interpretation openai_handler: buffering_handler handleUpstreamResponseForOpenAiClient
proof
  fix cx :: proxy_context and r env config upstream route out r' es
  assume a: "\<not> cx_stream cx" "unanswered r" "handleUpstreamResponseForOpenAiClient env config upstream route cx r = (out, r', es)"
  show "(out = Some (Inr ()) \<and> answered r' \<and> cr_statusCode r' = ur_status upstream) \<or> (\<exists>e. out = Some (Inl e) \<and> unanswered r')"
  proof (cases "ur_status upstream \<ge> 400 \<or> rc_api_mode route = openai_completions")
    case True
    with a have "with_started upstream False r (send_buffered_passthrough config upstream appendTrailingNewline) = (out, r', es)"
      by (auto simp: handleUpstreamResponseForOpenAiClient_def split: if_splits)
    with a(2) show ?thesis by (rule started_buffered)
  next
    case False
    with a have "with_started upstream False r (translated_delivery env config route upstream) = (out, r', es)"
      by (auto simp: handleUpstreamResponseForOpenAiClient_def split: if_splits)
    with a(2) show ?thesis by (rule started_translated)
  qed
qed

interpretation anthropic_handler: buffering_handler handleUpstreamResponseForAnthropicClient
proof
  fix cx :: proxy_context and r env config upstream route out r' es
  assume a: "\<not> cx_stream cx" "unanswered r" "handleUpstreamResponseForAnthropicClient env config upstream route cx r = (out, r', es)"
  then have "with_started upstream False r (send_buffered_passthrough config upstream (\<lambda>b. b)) = (out, r', es)"
    by (auto simp: handleUpstreamResponseForAnthropicClient_def split: if_splits)
  with a(2) show "(out = Some (Inr ()) \<and> answered r' \<and> cr_statusCode r' = ur_status upstream) \<or> (\<exists>e. out = Some (Inl e) \<and> unanswered r')"
    by (rule started_buffered)
qed

section \<open>Properties\<close>

text \<open>A request at its start.\<close>

definition proxy_start :: "client_response \<Rightarrow> endpoint_cache \<Rightarrow> 'w \<Rightarrow> 'w proxy_state" where
  "proxy_start r cache w = \<lparr>ps_response = r, ps_effects = [], ps_sent = [], ps_cache = cache, ps_world = w\<rparr>"

text \<open>
  C12 (proxied_request_sent_once). A client request is sent to the provider at most once, whatever the network, the
  provider and the client do, for both listeners: model requests are not repeated.
\<close>

theorem proxied_request_sent_once:
  "length (sends (ps_sent (snd (proxyChatCompletion env config requestId now request parsedBody rawBody (proxy_start r cache w))))) \<le> 1 \<and>
   length (sends (ps_sent (snd (proxyAnthropicMessage env config requestId now request parsedBody rawBody (proxy_start r cache w))))) \<le> 1"
proof -
  have "length (sends (ps_sent t)) \<le> 1"
    if run: "executeProxyRequest env surface build handle config requestId now request parsedBody rawBody (proxy_start r cache w) = (out, t)"
    for surface build and handle :: "('a, 'b) response_handler" and out t
    using execute_cases [OF run] deliver_sends by (force simp: refused_def delivered_def proxy_start_def sends_def)
  then show ?thesis
    unfolding proxyChatCompletion_def proxyAnthropicMessage_def by (metis prod.collapse)
qed


definition example_env :: "(int \<times> (thrown + upstream_response) list, unit) proxy_env" where
  "example_env =
     \<lparr>px_ops = example_ops, px_urls = \<lparr>uo_parse = (\<lambda>_. Some example_url), uo_print = (\<lambda>_. ''https://api.test/v1''), uo_setPath = (\<lambda>_ u. u)\<rparr>,
      px_getenv = (\<lambda>_. None), px_lookup = (\<lambda>_. Some [(''8.8.8.8'', 4)]), px_lookupError = (\<lambda>_. example_reset), px_others = (\<lambda>c. c),
      px_resolvedAt = 0, px_parse = (\<lambda>_. None), px_nts = (\<lambda>_. ''0''), px_uuid = (\<lambda>_. ''u''), px_utf8decode = (\<lambda>b. b),
      px_utf8encode = (\<lambda>t. t), px_asAnthropic = (\<lambda>_. Inl example_reset), px_now = 0, px_relayEvents = [], px_pump = example_pump,
      px_placeholder = ''p'', px_decoder = (), px_script = []\<rparr>"

definition example_config :: proxy_config where
  "example_config = \<lparr>pc_routes = [(''m'', example_route)], pc_limits = example_limits,
     pc_maxBufferedUpstreamResponseBytes = None, pc_maxPayloadSize = 1024\<rparr>"

definition example_request :: http_request where
  "example_request = \<lparr>rq_method = Some ''POST'', rq_url = Some ''/v1/chat/completions'', rq_headers = [], rq_remoteAddress = None\<rparr>"


text \<open>
  Property (upstream_connection_public). When a route does not allow private endpoints and something is sent to its
  provider, the host name of the URL either is an address literal or a name of the local machine, which
  the validation of the configuration refuses, or it was resolved to an address that is not private,
  local or special-use, and the one connection that is made is pinned to this address.
\<close>

theorem upstream_connection_public:
  assumes "forwardUpstreamRequestWithMode env upstreamUrl False headers body streaming timeoutMs s = (r, t)"
    and "ps_sent t \<noteq> ps_sent s"
  shows "\<exists>url pinned evs w'. uo_parse (px_urls env) upstreamUrl = Some url \<and>
    fetchWithSwitchmaxxerRetry (px_ops env) upstreamUrl \<lparr>ri_method = Some ''POST'', ri_headers = headers, ri_body = TextBody body\<rparr>
      (forward_options timeoutMs pinned) streaming (ps_world s) = (r, evs, w') \<and> ps_sent t = ps_sent s @ evs \<and>
    (case pinned of
       None \<Rightarrow> isIP (u_hostname url) \<noteq> 0 \<or> u_hostname url = ''localhost'' \<or> ends_with ''.localhost'' (u_hostname url)
     | Some p \<Rightarrow> \<not> isPrivateOrLocalHostname (pr_address p))"
proof -
  obtain url where url: "uo_parse (px_urls env) upstreamUrl = Some url"
    using assms by (cases "uo_parse (px_urls env) upstreamUrl") (auto simp: forwardUpstreamRequestWithMode_def)
  obtain q cache' where q: "assertResolvedProviderEndpointPolicy (px_lookup env) (px_others env) url False
      (default_deps (px_resolvedAt env)) (ps_cache s) = (q, cache')" by fastforce
  with assms url obtain pinned where pinned: "q = Inr pinned"
    by (cases q) (auto simp: forwardUpstreamRequestWithMode_def)
  obtain r' evs w' where fetch: "fetchWithSwitchmaxxerRetry (px_ops env) upstreamUrl
      \<lparr>ri_method = Some ''POST'', ri_headers = headers, ri_body = TextBody body\<rparr> (forward_options timeoutMs pinned) streaming
      (ps_world s) = (r', evs, w')" by (metis prod_cases3)
  then have t: "r = r'" "ps_sent t = ps_sent s @ evs"
    using assms(1) url q pinned
    by (auto simp: forwardUpstreamRequestWithMode_def Let_def fetchStreamingWithSwitchmaxxerTransport_def
        fetchWithSwitchmaxxerTransport_def split: if_splits)
  have "case pinned of
       None \<Rightarrow> isIP (u_hostname url) \<noteq> 0 \<or> u_hostname url = ''localhost'' \<or> ends_with ''.localhost'' (u_hostname url)
     | Some p \<Rightarrow> \<not> isPrivateOrLocalHostname (pr_address p)"
  proof (cases pinned)
    case None
    with resolution_unpinned [OF q [unfolded pinned None]] show ?thesis by simp
  next
    case (Some p)
    with resolution_public [OF q [unfolded pinned Some]] show ?thesis by simp
  qed
  with url fetch t show ?thesis by blast
qed

lemma attempt_sends:
  assumes "to_now ops w = (now, w1)" "now < rr_deadline run"
  shows "fst (snd (attempt_once ops run attempt w)) \<noteq> []"
  using assms by (auto simp: attempt_once_def Let_def split: prod.splits sum.splits)

lemma loop_sends:
  assumes "to_now ops w = (now, w1)" "now < rr_deadline run"
  shows "fst (snd (retry_loop ops run attempt w)) \<noteq> []"
  using attempt_sends [OF assms, of "Suc attempt"]
  by (subst retry_loop.simps) (auto split: prod.splits attempt_result.splits)

lemma example_fetch:
  "fst (snd (fetchWithSwitchmaxxerRetry example_ops u init (forward_options 1000 pinned) streaming (0, outcomes))) \<noteq> []"
  by (simp add: fetchWithSwitchmaxxerRetry_def example_ops_def forward_options_def loop_sends del: fst_conv snd_conv)

lemma example_forward_sends:
  assumes "forwardUpstreamRequestWithMode example_env ''https://api.test/v1'' False [] ''{}'' False 1000
    (proxy_start (fresh_response 200 []) [] (0, [Inr example_busy])) = (r, t)"
  shows "ps_sent t \<noteq> []"
proof -
  obtain cache' where res: "assertResolvedProviderEndpointPolicy (\<lambda>_. Some [(''8.8.8.8'', 4)]) id example_url False (default_deps 0) [] =
      (Inr (Some \<lparr>pr_hostname = ''api.test'', pr_address = ''8.8.8.8'', pr_family = 4\<rparr>), cache')"
    using example_resolution by (metis prod.collapse)
  show ?thesis
    using assms res example_fetch [of "''https://api.test/v1''" "\<lparr>ri_method = Some ''POST'', ri_headers = [], ri_body = TextBody ''{}''\<rparr>"
        "Some \<lparr>pr_hostname = ''api.test'', pr_address = ''8.8.8.8'', pr_family = 4\<rparr>" False "[Inr example_busy]"]
    by (auto simp: forwardUpstreamRequestWithMode_def example_env_def proxy_start_def Let_def id_def fetchWithSwitchmaxxerTransport_def
        split: prod.splits)
qed

theorem upstream_connection_public_witness:
  "\<exists>url (pinned :: pinned_resolution option). uo_parse (px_urls example_env) ''https://api.test/v1'' = Some url \<and>
    (case pinned of
       None \<Rightarrow> isIP (u_hostname url) \<noteq> 0 \<or> u_hostname url = ''localhost'' \<or> ends_with ''.localhost'' (u_hostname url)
     | Some p \<Rightarrow> \<not> isPrivateOrLocalHostname (pr_address p))"
proof -
  let ?s = "proxy_start (fresh_response 200 []) [] (0, [Inr example_busy])"
  obtain r t where run: "forwardUpstreamRequestWithMode example_env ''https://api.test/v1'' False [] ''{}'' False 1000 ?s = (r, t)" by fastforce
  from example_forward_sends [OF run] have "ps_sent t \<noteq> ps_sent ?s" by (simp add: proxy_start_def)
  from upstream_connection_public [OF run this] show ?thesis by blast
qed

lemma jm_set_others: "filter (\<lambda>e. fst e \<noteq> k) (jm_set k v m) = filter (\<lambda>e. fst e \<noteq> k) m"
  by (induction m) auto

lemma map_of_jm_set: "map_of (jm_set k v m) k = Some v"
  by (induction m) auto

lemma jm_set_order: "map fst (jm_set k v m) = (if k \<in> set (map fst m) then map fst m else map fst m @ [k])"
  by (induction m) auto

text \<open>
  Property (patched_body_spec). The body sent for a route of the same dialect is the client's own text if it names
  the upstream model already; otherwise it is the printed form, within the payload limit, of the
  client's object with the model replaced and every other field unchanged and in its place.
\<close>

theorem patched_body_spec:
  assumes "buildPatchedJsonBody nts rawBody (JObj fs) [(''model'', JStr model)] maxBytes = Inr body"
  shows "(body = rawBody \<and> jprop (JObj fs) ''model'' = Some (JStr model)) \<or>
    (\<exists>gs. body = json_stringify nts (JObj gs) \<and> byte_length body \<le> maxBytes \<and> jprop (JObj gs) ''model'' = Some (JStr model) \<and>
       filter (\<lambda>e. fst e \<noteq> ''model'') gs = filter (\<lambda>e. fst e \<noteq> ''model'') fs \<and>
       map fst gs = (if ''model'' \<in> set (map fst fs) then map fst fs else map fst fs @ [''model'']))"
proof (cases "jprop (JObj fs) ''model'' = Some (JStr model)")
  case True
  with assms show ?thesis by (simp add: buildPatchedJsonBody_def)
next
  case False
  let ?gs = "jm_set ''model'' (JStr model) fs"
  from assms False have "body = json_stringify nts (JObj ?gs)" "byte_length body \<le> maxBytes"
    by (auto simp: buildPatchedJsonBody_def safeJsonStringifyWithinBounds_def res_simps Let_def split: if_splits)
  then show ?thesis using jm_set_others [of "''model''" "JStr model" fs] map_of_jm_set [of "''model''" "JStr model" fs]
      jm_set_order [of "''model''" "JStr model" fs]
    by (intro disjI2 exI [of _ ?gs]) simp
qed

theorem patched_body_spec_witness:
  "\<exists>gs. json_stringify (\<lambda>_. ''1'') (JObj [(''model'', JStr ''a/b''), (''n'', JNum 1)]) = json_stringify (\<lambda>_. ''1'') (JObj gs) \<and>
     jprop (JObj gs) ''model'' = Some (JStr ''a/b'')"
proof -
  have "buildPatchedJsonBody (\<lambda>_. ''1'') ''raw'' (JObj [(''model'', JStr ''b''), (''n'', JNum 1)]) [(''model'', JStr ''a/b'')] 64 =
      Inr (json_stringify (\<lambda>_. ''1'') (JObj [(''model'', JStr ''a/b''), (''n'', JNum 1)]))"
  proof -
    have "byte_length (json_stringify (\<lambda>_. ''1'') (JObj [(''model'', JStr ''a/b''), (''n'', JNum 1)])) \<le> 64"
      by (simp add: byte_length_def code_unit_def quote_string_def escape_char_def)
    then show ?thesis
      by (simp add: buildPatchedJsonBody_def safeJsonStringifyWithinBounds_def assertJsonValueWithinBounds_def hard_json_bounds_def
          del: json_stringify.simps)
  qed
  from patched_body_spec [OF this] show ?thesis by auto
qed

lemma client_headers_kept [simp]: "cr_headers (cr_write c r) = cr_headers r" "cr_headers (cr_end r) = cr_headers r"
  by (simp_all add: client_defs)

lemma relay_client_kept [simp]:
  "ry_client (ry_log es s) = ry_client s" "ry_client (ry_clear s) = ry_client s" "ry_client (ry_abort reason s) = ry_client s"
  "ry_client (ry_settle r s) = ry_client s" "ry_client (ry_on_error e s) = ry_client s" "ry_client (ry_started st s) = ry_client s"
  by (simp_all add: ry_log_def ry_clear_def ry_abort_def ry_settle_def ry_on_error_def ry_started_def)

lemma relay_client_destroy [simp]: "ry_client (ry_destroy e s) = ry_client s" "ry_client (ry_exceed e s) = ry_client s"
  by (simp_all add: ry_destroy_def ry_exceed_def)

lemma relay_headers_side: "cr_headers (ry_client (ry_side limits e s)) = cr_headers (ry_client s)"
  by (cases e) (simp_all add: ry_side_def ry_idle_def Let_def split: option.splits)

lemma relay_headers_step: "cr_headers (ry_client (ry_step limits status ev s)) = cr_headers (ry_client s)"
  by (cases ev) (simp_all add: ry_step_def ry_data_def ry_end_def relay_headers_side Let_def)

lemma relay_headers_run:
  "cr_headers (ry_client (foldl (\<lambda>s ev. ry_step limits status ev s) s evs)) = cr_headers (ry_client s)"
  by (induction evs arbitrary: s) (simp_all add: relay_headers_step)

text \<open>
  Property (openai_stream_no_content_type). The pass-through of a stream to an OpenAI client sends the headers
  the response had before and none of the provider's, so in particular no content type.
\<close>

theorem openai_stream_no_content_type:
  assumes "rc_api_mode route = openai_completions" "cx_stream cx" "ur_status upstream < 400"
  shows "jm_get (cr_headers (fst (snd (handleUpstreamResponseForOpenAiClient env config upstream route cx (fresh_response 200 hs)))))
           ''content-type'' = jm_get hs ''content-type''"
proof -
  let ?r = "(fresh_response 200 hs)\<lparr>cr_statusCode := ur_status upstream\<rparr>"
  let ?s = "pipeOpenAiStreamingResponse (pc_limits config) upstream (px_now env) (px_relayEvents env) ?r"
  have lower: "to_lower ''content-length'' = ''content-length''" by code_simp
  have "cr_headers (ry_client ?s) = (if ur_body upstream = None then hs else jm_delete ''content-length'' hs)"
    by (simp add: pipeOpenAiStreamingResponse_def relay_headers_run ry_init_def prepareStreamingResponseHeaders_def
        cr_removeHeader_def fresh_response_def cr_end_def lower)
  then have "jm_get (cr_headers (ry_client ?s)) ''content-type'' = jm_get hs ''content-type''" by (simp add: jm_get_delete)
  moreover have "handleUpstreamResponseForOpenAiClient env config upstream route cx (fresh_response 200 hs) =
      with_started upstream True (fresh_response 200 hs) (relay_delivery env config upstream)"
    using assms by (simp add: handleUpstreamResponseForOpenAiClient_def)
  ultimately show ?thesis by (simp add: with_started_def relay_delivery_def Let_def)
qed

theorem openai_stream_no_content_type_witness:
  "jm_get (cr_headers (fst (snd (handleUpstreamResponseForOpenAiClient example_env example_config example_stream
       (example_route\<lparr>rc_api_mode := openai_completions\<rparr>)
       (createContext ''r'' 0 example_request (JObj [(''stream'', JBool True)]) openai_completions) (fresh_response 200 [])))))
     ''content-type'' = None"
proof -
  have "rc_api_mode (example_route\<lparr>rc_api_mode := openai_completions\<rparr>) = openai_completions"
    "cx_stream (createContext ''r'' 0 example_request (JObj [(''stream'', JBool True)]) openai_completions)"
    "ur_status example_stream < 400"
    by (simp_all add: createContext_def example_stream_def)
  from openai_stream_no_content_type [OF this, of example_env example_config "[]"] show ?thesis by simp
qed

end
