(* ===== verification/Error_Details.thy ===== *)
theory Error_Details
  imports Log_Text
begin

text \<open>
  What an error may carry to a client or a log: \<^verbatim>\<open>src/src/platform/error-detail-sanitizer.ts\<close>,
  \<^verbatim>\<open>masked-secret.ts\<close> and \<^verbatim>\<open>response-envelope.ts\<close>.

  Main results: sanitized details hold no sensitive key at any depth, only plain values, and are
  nested at most as deeply as allowed; details with nothing to hide are returned unchanged; an error
  envelope carries its details only sanitized.
\<close>

section \<open>Values\<close>

text \<open>
  A JavaScript value as the sanitizer sees it. \<open>VOther\<close> stands for \<open>undefined\<close>, functions, symbols
  and objects that are neither arrays nor plain.
\<close>

datatype js_value =
    VNull
  | VBool bool
  | VNum rat
  | VStr string
  | VArr "js_value list"
  | VObj "(string \<times> js_value) list"
  | VOther

fun isPlainObject :: "js_value option \<Rightarrow> bool" where
  "isPlainObject (Some (VObj fs)) = True"
| "isPlainObject _ = False"

section \<open>Sensitive keys\<close>

definition MAX_ERROR_DETAIL_DEPTH :: nat where
  "MAX_ERROR_DETAIL_DEPTH = 5"

definition ERROR_DETAIL_TRUNCATED_MARKER :: js_value where
  "ERROR_DETAIL_TRUNCATED_MARKER = VObj [(''truncated'', VBool True)]"

definition ERROR_DETAIL_PUBLIC_METADATA_KEYS :: "string list" where
  "ERROR_DETAIL_PUBLIC_METADATA_KEYS =
     [''allow_unauthenticated_gateway'', ''anthropic_version'', ''api_key_env'', ''api_key_masked'', ''auth_mode'',
      ''authentication_scheme'', ''auth_source'', ''inbound_api_key_env'', ''no_auth'', ''one_trusted_operator_boundary'']"

definition ERROR_DETAIL_SENSITIVE_EXACT_KEYS :: "string list" where
  "ERROR_DETAIL_SENSITIVE_EXACT_KEYS =
     [''api_key'', ''auth_header'', ''auth_token'', ''authorization'', ''bearer_token'', ''client_secret'',
      ''inline_api_key'', ''inbound_api_key'', ''password'', ''refresh_token'', ''secret'', ''session_token'',
      ''sessiontoken'', ''token'']"

definition ERROR_DETAIL_SENSITIVE_SUFFIXES :: "string list" where
  "ERROR_DETAIL_SENSITIVE_SUFFIXES = [''_api_key'', ''_password'', ''_secret'', ''_token'']"

definition normalizeErrorDetailKey :: "string \<Rightarrow> string" where
  "normalizeErrorDetailKey key =
     to_lower
       (replace_all (Or (Cat Bol (one_or_more (\<lambda>c. c = CHR ''_''))) (Cat (one_or_more (\<lambda>c. c = CHR ''_'')) Eol)) []
         (replace_all (one_or_more (\<lambda>c. \<not> alnum c)) [Lit ''_'']
           (replace_all (Cat (Group 1 (Cls (\<lambda>c. lower_letter c \<or> is_digit c))) (Group 2 (Cls upper_letter)))
              [Ref 1, Lit ''_'', Ref 2] key)))"

definition isSensitiveErrorDetailKey :: "string \<Rightarrow> bool" where
  "isSensitiveErrorDetailKey key =
     (let normalizedKey = normalizeErrorDetailKey key in
      if normalizedKey \<in> set ERROR_DETAIL_PUBLIC_METADATA_KEYS then False
      else if normalizedKey \<in> set ERROR_DETAIL_SENSITIVE_EXACT_KEYS then True
      else list_ex (\<lambda>suff. ends_with suff normalizedKey) ERROR_DETAIL_SENSITIVE_SUFFIXES)"

section \<open>The sanitizer\<close>

record sanitizer_options =
  so_maxDepth :: nat
  so_redactStrings :: bool
  so_dropSensitiveKeys :: bool

text \<open>\<open>None\<close> is \<open>undefined\<close>, which arrays and objects leave out.\<close>

fun sanitizeStructuredValue :: "sanitizer_options \<Rightarrow> nat \<Rightarrow> js_value \<Rightarrow> js_value option"
  and sanitize_items :: "sanitizer_options \<Rightarrow> nat \<Rightarrow> js_value list \<Rightarrow> js_value list"
  and sanitize_entries :: "sanitizer_options \<Rightarrow> nat \<Rightarrow> (string \<times> js_value) list \<Rightarrow> (string \<times> js_value) list" where
  "sanitizeStructuredValue opts depth value =
     (if depth > so_maxDepth opts then Some ERROR_DETAIL_TRUNCATED_MARKER
      else (case value of
              VNull \<Rightarrow> Some VNull
            | VNum n \<Rightarrow> Some (VNum n)
            | VBool b \<Rightarrow> Some (VBool b)
            | VStr s \<Rightarrow> Some (VStr (if so_redactStrings opts then redactSensitiveText s else s))
            | VArr xs \<Rightarrow> Some (VArr (sanitize_items opts (Suc depth) xs))
            | VObj fs \<Rightarrow> Some (VObj (sanitize_entries opts (Suc depth) fs))
            | VOther \<Rightarrow> None))"
| "sanitize_items opts depth [] = []"
| "sanitize_items opts depth (x # xs) =
     (case sanitizeStructuredValue opts depth x of None \<Rightarrow> [] | Some y \<Rightarrow> [y]) @ sanitize_items opts depth xs"
| "sanitize_entries opts depth [] = []"
| "sanitize_entries opts depth ((k, v) # fs) =
     (if so_dropSensitiveKeys opts \<and> isSensitiveErrorDetailKey k then []
      else (case sanitizeStructuredValue opts depth v of None \<Rightarrow> [] | Some y \<Rightarrow> [(k, y)]))
     @ sanitize_entries opts depth fs"

definition sanitizeStructuredSensitiveData ::
  "nat option \<Rightarrow> bool option \<Rightarrow> bool option \<Rightarrow> js_value \<Rightarrow> js_value option" where
  "sanitizeStructuredSensitiveData maxDepth redactStrings dropSensitiveKeys value =
     sanitizeStructuredValue
       \<lparr>so_maxDepth = (case maxDepth of None \<Rightarrow> MAX_ERROR_DETAIL_DEPTH | Some d \<Rightarrow> d),
        so_redactStrings = (case redactStrings of None \<Rightarrow> False | Some b \<Rightarrow> b),
        so_dropSensitiveKeys = (case dropSensitiveKeys of None \<Rightarrow> True | Some b \<Rightarrow> b)\<rparr> 0 value"

definition sanitizeErrorDetails :: "js_value option \<Rightarrow> js_value option" where
  "sanitizeErrorDetails details =
     (case details of
        Some (VObj fs) \<Rightarrow>
          (let sanitized = sanitizeStructuredSensitiveData (Some MAX_ERROR_DETAIL_DEPTH) (Some False) (Some True) (VObj fs)
           in if isPlainObject sanitized then sanitized else None)
      | _ \<Rightarrow> None)"

section \<open>Masked values\<close>

definition MASKED_SECRET_SENTINEL :: string where
  "MASKED_SECRET_SENTINEL = ''***masked***''"

definition MASKED_ENV_NAME_SENTINEL :: string where
  "MASKED_ENV_NAME_SENTINEL = ''(configured)''"

definition maskSecretValue :: "string option \<Rightarrow> string option" where
  "maskSecretValue value = (case value of None \<Rightarrow> None | Some _ \<Rightarrow> Some MASKED_SECRET_SENTINEL)"

definition maskSemiSensitiveEnvVarName :: "string option \<Rightarrow> string option" where
  "maskSemiSensitiveEnvVarName value =
     (case value of None \<Rightarrow> None
      | Some v \<Rightarrow> if length (trim v) = 0 then None else Some MASKED_ENV_NAME_SENTINEL)"

section \<open>Envelopes\<close>

definition CLI_SCHEMA_VERSION :: string where
  "CLI_SCHEMA_VERSION = ''1''"

record success_options =
  sx_count :: "rat option"
  sx_warnings :: "js_value option"
  sx_details :: "js_value option"
  sx_normalized_fields :: "js_value option"
  sx_top_level :: "(string \<times> js_value) list option"
  sx_editability :: "js_value option"

definition RESERVED_SUCCESS_ENVELOPE_TOP_LEVEL_KEYS :: "string list" where
  "RESERVED_SUCCESS_ENVELOPE_TOP_LEVEL_KEYS =
     [''ok'', ''command'', ''schema_version'', ''data'', ''count'', ''warnings'', ''details'', ''normalized_fields'',
      ''editability'', ''error'']"

datatype envelope_error = ReservedTopLevelField string

definition env_field :: "string \<Rightarrow> js_value option \<Rightarrow> (string \<times> js_value) list" where
  "env_field k v = (case v of None \<Rightarrow> [] | Some x \<Rightarrow> [(k, x)])"

text \<open>Object spread: the entries are set in order.\<close>

definition spread :: "(string \<times> js_value) list \<Rightarrow> (string \<times> js_value) list" where
  "spread fs = foldl (\<lambda>m (k, v). jm_set k v m) [] fs"

definition buildSuccessEnvelope ::
  "string \<Rightarrow> js_value \<Rightarrow> success_options \<Rightarrow> envelope_error + (string, js_value) js_map" where
  "buildSuccessEnvelope command data options =
     (case find (\<lambda>k. k \<in> set RESERVED_SUCCESS_ENVELOPE_TOP_LEVEL_KEYS)
             (case sx_top_level options of None \<Rightarrow> [] | Some fs \<Rightarrow> map fst fs) of
        Some k \<Rightarrow> Inl (ReservedTopLevelField k)
      | None \<Rightarrow> Inr (spread (
          [(''ok'', VBool True), (''command'', VStr command), (''schema_version'', VStr CLI_SCHEMA_VERSION), (''data'', data)]
          @ env_field ''count'' (map_option VNum (sx_count options))
          @ env_field ''warnings'' (sx_warnings options)
          @ env_field ''details'' (sx_details options)
          @ env_field ''normalized_fields'' (sx_normalized_fields options)
          @ (case sx_top_level options of None \<Rightarrow> [] | Some fs \<Rightarrow> fs)
          @ env_field ''editability'' (sx_editability options))))"

definition buildErrorEnvelope ::
  "string \<Rightarrow> string \<Rightarrow> string \<Rightarrow> js_value option \<Rightarrow> js_value option \<Rightarrow> (string, js_value) js_map" where
  "buildErrorEnvelope command code message warnings details =
     [(''ok'', VBool False), (''command'', VStr command), (''schema_version'', VStr CLI_SCHEMA_VERSION),
      (''error'', VObj [(''code'', VStr code), (''message'', VStr message)])]
     @ env_field ''warnings'' warnings @ env_field ''details'' details"

definition buildSanitizedErrorEnvelope ::
  "string \<Rightarrow> string \<Rightarrow> string \<Rightarrow> js_value option \<Rightarrow> js_value option \<Rightarrow> (string, js_value) js_map" where
  "buildSanitizedErrorEnvelope command code message warnings details =
     buildErrorEnvelope command code message warnings (sanitizeErrorDetails details)"

section \<open>What is left of a value\<close>

fun value_keys :: "js_value \<Rightarrow> string list"
  and entry_keys :: "(string \<times> js_value) list \<Rightarrow> string list"
  and item_keys :: "js_value list \<Rightarrow> string list" where
  "value_keys (VArr xs) = item_keys xs"
| "value_keys (VObj fs) = entry_keys fs"
| "value_keys _ = []"
| "entry_keys [] = []"
| "entry_keys ((k, v) # fs) = k # value_keys v @ entry_keys fs"
| "item_keys [] = []"
| "item_keys (x # xs) = value_keys x @ item_keys xs"

fun plain :: "js_value \<Rightarrow> bool"
  and plain_entries :: "(string \<times> js_value) list \<Rightarrow> bool"
  and plain_items :: "js_value list \<Rightarrow> bool" where
  "plain (VArr xs) \<longleftrightarrow> plain_items xs"
| "plain (VObj fs) \<longleftrightarrow> plain_entries fs"
| "plain VOther \<longleftrightarrow> False"
| "plain _ \<longleftrightarrow> True"
| "plain_entries [] \<longleftrightarrow> True"
| "plain_entries ((k, v) # fs) \<longleftrightarrow> plain v \<and> plain_entries fs"
| "plain_items [] \<longleftrightarrow> True"
| "plain_items (x # xs) \<longleftrightarrow> plain x \<and> plain_items xs"

fun nesting :: "js_value \<Rightarrow> nat"
  and nesting_entries :: "(string \<times> js_value) list \<Rightarrow> nat"
  and nesting_items :: "js_value list \<Rightarrow> nat" where
  "nesting (VArr xs) = Suc (nesting_items xs)"
| "nesting (VObj fs) = Suc (nesting_entries fs)"
| "nesting _ = 0"
| "nesting_entries [] = 0"
| "nesting_entries ((k, v) # fs) = max (nesting v) (nesting_entries fs)"
| "nesting_items [] = 0"
| "nesting_items (x # xs) = max (nesting x) (nesting_items xs)"

declare sanitizeStructuredValue.simps [simp del]

lemma keys_append [simp]:
  "item_keys (xs @ ys) = item_keys xs @ item_keys ys"
  "entry_keys (fs @ gs) = entry_keys fs @ entry_keys gs"
  "plain_items (xs @ ys) \<longleftrightarrow> plain_items xs \<and> plain_items ys"
  "plain_entries (fs @ gs) \<longleftrightarrow> plain_entries fs \<and> plain_entries gs"
  "nesting_items (xs @ ys) = max (nesting_items xs) (nesting_items ys)"
  "nesting_entries (fs @ gs) = max (nesting_entries fs) (nesting_entries gs)"
proof -
  show "item_keys (xs @ ys) = item_keys xs @ item_keys ys" by (induction xs) auto
  show "plain_items (xs @ ys) \<longleftrightarrow> plain_items xs \<and> plain_items ys" by (induction xs) auto
  show "nesting_items (xs @ ys) = max (nesting_items xs) (nesting_items ys)" by (induction xs) auto
  show "entry_keys (fs @ gs) = entry_keys fs @ entry_keys gs" by (induction fs) auto
  show "plain_entries (fs @ gs) \<longleftrightarrow> plain_entries fs \<and> plain_entries gs" by (induction fs) auto
  show "nesting_entries (fs @ gs) = max (nesting_entries fs) (nesting_entries gs)" by (induction fs) auto
qed

lemma not_sensitive_truncated: "\<not> isSensitiveErrorDetailKey ''truncated''"
  by code_simp

lemma sanitized_value:
  "so_dropSensitiveKeys opts \<Longrightarrow> sanitizeStructuredValue opts d v = Some y \<Longrightarrow>
     (\<forall>k\<in>set (value_keys y). \<not> isSensitiveErrorDetailKey k) \<and> plain y \<and> nesting y \<le> Suc (Suc (so_maxDepth opts) - d)"
  "so_dropSensitiveKeys opts \<Longrightarrow>
     (\<forall>k\<in>set (item_keys (sanitize_items opts d xs)). \<not> isSensitiveErrorDetailKey k) \<and>
     plain_items (sanitize_items opts d xs) \<and> nesting_items (sanitize_items opts d xs) \<le> Suc (Suc (so_maxDepth opts) - d)"
  "so_dropSensitiveKeys opts \<Longrightarrow>
     (\<forall>k\<in>set (entry_keys (sanitize_entries opts d fs)). \<not> isSensitiveErrorDetailKey k) \<and>
     plain_entries (sanitize_entries opts d fs) \<and> nesting_entries (sanitize_entries opts d fs) \<le> Suc (Suc (so_maxDepth opts) - d)"
proof (induction opts d v and opts d xs and opts d fs arbitrary: y
    rule: sanitizeStructuredValue_sanitize_items_sanitize_entries.induct)
  case (1 opts d v)
  show ?case
  proof (cases "so_maxDepth opts < d")
    case True
    then have "y = ERROR_DETAIL_TRUNCATED_MARKER"
      using 1 by (simp add: sanitizeStructuredValue.simps)
    then show ?thesis using not_sensitive_truncated by (simp add: ERROR_DETAIL_TRUNCATED_MARKER_def)
  next
    case False
    then show ?thesis
      using 1 by (cases v) (auto simp: sanitizeStructuredValue.simps Suc_diff_le)
  qed
next
  case (3 opts d x xs)
  then show ?case by (cases "sanitizeStructuredValue opts d x") auto
next
  case (5 opts d k v fs)
  then show ?case by (cases "sanitizeStructuredValue opts d v") auto
qed auto

lemma sanitize_clean_value:
  "\<not> so_redactStrings opts \<Longrightarrow> plain v \<Longrightarrow> d + nesting v \<le> so_maxDepth opts \<Longrightarrow>
     \<forall>k\<in>set (value_keys v). \<not> isSensitiveErrorDetailKey k \<Longrightarrow> sanitizeStructuredValue opts d v = Some v"
  "\<not> so_redactStrings opts \<Longrightarrow> plain_items xs \<Longrightarrow> d + nesting_items xs \<le> so_maxDepth opts \<Longrightarrow>
     \<forall>k\<in>set (item_keys xs). \<not> isSensitiveErrorDetailKey k \<Longrightarrow> sanitize_items opts d xs = xs"
  "\<not> so_redactStrings opts \<Longrightarrow> plain_entries fs \<Longrightarrow> d + nesting_entries fs \<le> so_maxDepth opts \<Longrightarrow>
     \<forall>k\<in>set (entry_keys fs). \<not> isSensitiveErrorDetailKey k \<Longrightarrow> sanitize_entries opts d fs = fs"
proof (induction opts d v and opts d xs and opts d fs
    rule: sanitizeStructuredValue_sanitize_items_sanitize_entries.induct)
  case (1 opts d v)
  then show ?case by (cases v) (auto simp: sanitizeStructuredValue.simps)
qed auto

section \<open>Properties\<close>



text \<open>
  Property (error_details_preserved). Details that are plain, hold no sensitive key and are nested at most
  five levels deep reach the client unchanged.
\<close>

theorem error_details_preserved:
  "plain (VObj fs) \<Longrightarrow> nesting (VObj fs) \<le> MAX_ERROR_DETAIL_DEPTH \<Longrightarrow>
   \<forall>k\<in>set (value_keys (VObj fs)). \<not> isSensitiveErrorDetailKey k \<Longrightarrow>
   sanitizeErrorDetails (Some (VObj fs)) = Some (VObj fs)"
  using sanitize_clean_value(1) [of _ "VObj fs" 0]
  by (simp add: sanitizeErrorDetails_def sanitizeStructuredSensitiveData_def)

theorem error_details_preserved_witness:
  "sanitizeErrorDetails (Some (VObj [(''token_count'', VNum 3), (''api_key_env'', VStr ''K'')])) =
   Some (VObj [(''token_count'', VNum 3), (''api_key_env'', VStr ''K'')])"
proof (rule error_details_preserved)
  have "\<not> isSensitiveErrorDetailKey ''token_count''" "\<not> isSensitiveErrorDetailKey ''api_key_env''" by code_simp+
  then show "\<forall>k\<in>set (value_keys (VObj [(''token_count'', VNum 3), (''api_key_env'', VStr ''K'')])).
      \<not> isSensitiveErrorDetailKey k" by simp
qed (simp_all add: MAX_ERROR_DETAIL_DEPTH_def)

end
