(* ===== verification/Logger.thy ===== *)
theory Logger
  imports Log_Text
begin

text \<open>
  Log levels and writers: the rest of \<^verbatim>\<open>src/src/platform/logger.ts\<close>. The state of the module, the
  context of an asynchronous call tree, the functions that write a record and \<open>withLogWriters\<close>.

  Main results: a record contains no control character besides its line ends, whatever is logged;
  settings changed inside \<open>withLogWriters\<close> are not visible outside it.
\<close>

section \<open>Levels and writers\<close>

datatype log_level = Debug | Info | Warn | ErrorLevel

definition normalizeLogLevel :: "string option \<Rightarrow> log_level option" where
  "normalizeLogLevel value =
     (case value of None \<Rightarrow> None
      | Some v \<Rightarrow> (let n = to_lower (trim v) in
          if n = ''debug'' then Some Debug else if n = ''info'' then Some Info
          else if n = ''warn'' then Some Warn else if n = ''error'' then Some ErrorLevel else None))"

fun log_level_rank :: "log_level \<Rightarrow> nat" where
  "log_level_rank Debug = 10"
| "log_level_rank Info = 20"
| "log_level_rank Warn = 30"
| "log_level_rank ErrorLevel = 40"

text \<open>
  The store of an asynchronous call tree is a mutable object; \<open>logLevelOverride\<close> distinguishes an
  absent property from one that is \<open>null\<close>. A writer is named by a number, the default writers are
  the streams of the process.
\<close>

record logger_context =
  stdoutWriter :: "nat option"
  stderrWriter :: "nat option"
  effectiveLogLevel :: "log_level option"
  logLevelOverride :: "log_level option option"

datatype sink = ProcessStdout | ProcessStderr | Writer nat

record logger_state =
  lg_env :: "string \<Rightarrow> string option"
  processLogLevel :: "log_level option"
  runtimeLogLevelOverride :: "log_level option"
  lg_context :: "logger_context option"
  lg_output :: "(sink \<times> string) list"

definition resolveProcessLogLevel :: "logger_state \<Rightarrow> log_level \<times> logger_state" where
  "resolveProcessLogLevel st =
     (case processLogLevel st of
        Some l \<Rightarrow> (l, st)
      | None \<Rightarrow>
          (let l = (case normalizeLogLevel (lg_env st ''SWITCHMAXXER_LOG_LEVEL'') of None \<Rightarrow> Info | Some l \<Rightarrow> l)
           in (l, st\<lparr>processLogLevel := Some l\<rparr>)))"

definition currentLogLevel :: "logger_state \<Rightarrow> log_level \<times> logger_state" where
  "currentLogLevel st =
     (let ctx = lg_context st;
          override = Option.bind ctx logLevelOverride;
          effective = Option.bind ctx effectiveLogLevel
      in case override of
           Some (Some l) \<Rightarrow> (l, st)
         | _ \<Rightarrow> (case effective of
                   Some l \<Rightarrow> (l, st)
                 | None \<Rightarrow> (case runtimeLogLevelOverride st of
                              Some l \<Rightarrow> (l, st)
                            | None \<Rightarrow> resolveProcessLogLevel st)))"

definition shouldLog :: "log_level \<Rightarrow> logger_state \<Rightarrow> bool \<times> logger_state" where
  "shouldLog level st =
     (case currentLogLevel st of (cur, st') \<Rightarrow> (log_level_rank cur \<le> log_level_rank level, st'))"

definition isDebugLoggingEnabled :: "logger_state \<Rightarrow> bool \<times> logger_state" where
  "isDebugLoggingEnabled st = (case currentLogLevel st of (cur, st') \<Rightarrow> (cur = Debug, st'))"

definition stdout_sink :: "logger_state \<Rightarrow> sink" where
  "stdout_sink st = (case Option.bind (lg_context st) stdoutWriter of None \<Rightarrow> ProcessStdout | Some w \<Rightarrow> Writer w)"

definition stderr_sink :: "logger_state \<Rightarrow> sink" where
  "stderr_sink st = (case Option.bind (lg_context st) stderrWriter of None \<Rightarrow> ProcessStderr | Some w \<Rightarrow> Writer w)"

definition emit :: "sink \<Rightarrow> string \<Rightarrow> logger_state \<Rightarrow> logger_state" where
  "emit k message st = st\<lparr>lg_output := lg_output st @ [(k, message)]\<rparr>"

definition logLine :: "string \<Rightarrow> string \<Rightarrow> logger_state \<Rightarrow> logger_state" where
  "logLine timestamp message st =
     (case shouldLog Info st of
        (False, st') \<Rightarrow> st'
      | (True, st') \<Rightarrow> emit (stdout_sink st')
          (''['' @ timestamp @ ''] '' @ sanitizeLogMessage message DEFAULT_LOG_MESSAGE_MAX_LEN @ [CHR 0x0A]) st')"

definition logWarning :: "string \<Rightarrow> string \<Rightarrow> logger_state \<Rightarrow> logger_state" where
  "logWarning timestamp message st =
     (case shouldLog Warn st of
        (False, st') \<Rightarrow> st'
      | (True, st') \<Rightarrow> emit (stderr_sink st') (formatMultilineLog timestamp ''! WARNING   '' message) st')"

definition logError :: "string \<Rightarrow> string \<Rightarrow> logger_state \<Rightarrow> logger_state" where
  "logError timestamp message st =
     (case shouldLog ErrorLevel st of
        (False, st') \<Rightarrow> st'
      | (True, st') \<Rightarrow> emit (stderr_sink st')
          (''['' @ timestamp @ ''] ! ERROR     '' @ sanitizeLogMessage message DEFAULT_LOG_MESSAGE_MAX_LEN @ [CHR 0x0A]) st')"

definition logDebug :: "string \<Rightarrow> string \<Rightarrow> logger_state \<Rightarrow> logger_state" where
  "logDebug timestamp message st =
     (case shouldLog Debug st of
        (False, st') \<Rightarrow> st'
      | (True, st') \<Rightarrow> emit (stdout_sink st')
          (''['' @ timestamp @ ''] .. DEBUG    '' @ sanitizeLogMessage message DEFAULT_LOG_MESSAGE_MAX_LEN @ [CHR 0x0A]) st')"

definition setRuntimeLogLevelOverride :: "log_level option \<Rightarrow> logger_state \<Rightarrow> logger_state" where
  "setRuntimeLogLevelOverride level st =
     (case lg_context st of
        Some ctx \<Rightarrow> st\<lparr>lg_context := Some (ctx\<lparr>logLevelOverride := Some level\<rparr>)\<rparr>
      | None \<Rightarrow> st\<lparr>runtimeLogLevelOverride := level\<rparr>)"

definition setProcessLogLevel :: "log_level \<Rightarrow> logger_state \<Rightarrow> logger_state" where
  "setProcessLogLevel level st =
     (case lg_context st of
        Some ctx \<Rightarrow> st\<lparr>lg_context := Some (ctx\<lparr>effectiveLogLevel := Some level\<rparr>)\<rparr>
      | None \<Rightarrow> st\<lparr>processLogLevel := Some level\<rparr>)"

definition resetProcessLogLevel :: "logger_state \<Rightarrow> logger_state" where
  "resetProcessLogLevel st =
     (case lg_context st of
        Some ctx \<Rightarrow> st\<lparr>lg_context := Some (ctx\<lparr>effectiveLogLevel := None\<rparr>)\<rparr>
      | None \<Rightarrow> st\<lparr>processLogLevel := None\<rparr>)"

text \<open>
  \<open>withLogWriters\<close> runs a function in a context of its own; the caller's context is current again
  when it returns.
\<close>

definition nested_context :: "nat option \<Rightarrow> nat option \<Rightarrow> logger_state \<Rightarrow> logger_context \<times> logger_state" where
  "nested_context out err st =
     (let cur = (case lg_context st of
                   None \<Rightarrow> \<lparr>stdoutWriter = None, stderrWriter = None, effectiveLogLevel = None, logLevelOverride = None\<rparr>
                 | Some c \<Rightarrow> c);
          (eff, st') = (case effectiveLogLevel cur of
                          Some l \<Rightarrow> (l, st)
                        | None \<Rightarrow> currentLogLevel st)
      in (\<lparr>stdoutWriter = (case out of Some w \<Rightarrow> Some w | None \<Rightarrow> stdoutWriter cur),
           stderrWriter = (case err of Some w \<Rightarrow> Some w | None \<Rightarrow> stderrWriter cur),
           effectiveLogLevel = Some eff,
           logLevelOverride =
             (case logLevelOverride cur of Some o' \<Rightarrow> Some o' | None \<Rightarrow> Some (runtimeLogLevelOverride st'))\<rparr>, st'))"

definition withLogWriters ::
  "nat option \<Rightarrow> nat option \<Rightarrow> (logger_state \<Rightarrow> 'a \<times> logger_state) \<Rightarrow> logger_state \<Rightarrow> 'a \<times> logger_state" where
  "withLogWriters out err fn st =
     (case nested_context out err st of
        (ctx, st1) \<Rightarrow>
          (case fn (st1\<lparr>lg_context := Some ctx\<rparr>) of
             (x, st2) \<Rightarrow> (x, st2\<lparr>lg_context := lg_context st1\<rparr>)))"

section \<open>Programs that log\<close>

text \<open>The calls the program makes on the logger, nested call trees included.\<close>

datatype log_op =
    OpLine string string
  | OpWarning string string
  | OpError string string
  | OpDebug string string
  | OpOverride "log_level option"
  | OpSetLevel log_level
  | OpResetLevel
  | OpNested "nat option" "nat option" "log_op list"

fun run_log_op :: "log_op \<Rightarrow> logger_state \<Rightarrow> logger_state"
  and run_log_ops :: "log_op list \<Rightarrow> logger_state \<Rightarrow> logger_state" where
  "run_log_op (OpLine t m) st = logLine t m st"
| "run_log_op (OpWarning t m) st = logWarning t m st"
| "run_log_op (OpError t m) st = logError t m st"
| "run_log_op (OpDebug t m) st = logDebug t m st"
| "run_log_op (OpOverride l) st = setRuntimeLogLevelOverride l st"
| "run_log_op (OpSetLevel l) st = setProcessLogLevel l st"
| "run_log_op OpResetLevel st = resetProcessLogLevel st"
| "run_log_op (OpNested out err ops) st = snd (withLogWriters out err (\<lambda>s. ((), run_log_ops ops s)) st)"
| "run_log_ops [] st = st"
| "run_log_ops (p # ps) st = run_log_ops ps (run_log_op p st)"

definition env_log_level :: "logger_state \<Rightarrow> log_level" where
  "env_log_level st = (case normalizeLogLevel (lg_env st ''SWITCHMAXXER_LOG_LEVEL'') of None \<Rightarrow> Info | Some l \<Rightarrow> l)"

text \<open>The settings of the process are the same, up to reading the level from the environment once.\<close>

definition same_settings :: "logger_state \<Rightarrow> logger_state \<Rightarrow> bool" where
  "same_settings st st' \<longleftrightarrow>
     lg_env st' = lg_env st \<and> runtimeLogLevelOverride st' = runtimeLogLevelOverride st \<and>
     (processLogLevel st' = processLogLevel st \<or>
      (processLogLevel st = None \<and> processLogLevel st' = Some (env_log_level st)))"

lemma same_settings_refl [simp]: "same_settings st st"
  by (simp add: same_settings_def)

lemma same_settings_trans [trans]: "same_settings a b \<Longrightarrow> same_settings b c \<Longrightarrow> same_settings a c"
  by (auto simp: same_settings_def env_log_level_def)

lemma same_settings_context [simp]:
  "same_settings (st\<lparr>lg_context := c\<rparr>) st' = same_settings st st'"
  "same_settings st (st'\<lparr>lg_context := c\<rparr>) = same_settings st st'"
  "same_settings st (emit k m st') = same_settings st st'"
  by (simp_all add: same_settings_def env_log_level_def emit_def)

lemma currentLogLevel_facts:
  assumes "currentLogLevel st = (l, st')"
  shows "same_settings st st' \<and> lg_context st' = lg_context st \<and> lg_output st' = lg_output st"
  using assms
  by (auto simp: currentLogLevel_def resolveProcessLogLevel_def same_settings_def env_log_level_def Let_def
      split: option.splits)

lemma shouldLog_facts:
  assumes "shouldLog l st = (b, st')"
  shows "same_settings st st' \<and> lg_context st' = lg_context st \<and> lg_output st' = lg_output st"
  using assms currentLogLevel_facts by (fastforce simp: shouldLog_def split: prod.splits)

lemmas log_call_defs = logLine_def logWarning_def logError_def logDebug_def

lemma log_call_settings:
  "same_settings st (logLine t m st)" "same_settings st (logWarning t m st)"
  "same_settings st (logError t m st)" "same_settings st (logDebug t m st)"
  by (auto simp: log_call_defs dest: shouldLog_facts split: prod.split bool.split)

lemma log_call_context:
  "lg_context (logLine t m st) = lg_context st" "lg_context (logWarning t m st) = lg_context st"
  "lg_context (logError t m st) = lg_context st" "lg_context (logDebug t m st) = lg_context st"
  by (auto simp: log_call_defs emit_def dest: shouldLog_facts split: prod.split bool.split)

lemma nested_context_facts:
  assumes "nested_context out err st = (ctx, st')"
  shows "same_settings st st' \<and> lg_context st' = lg_context st \<and> lg_output st' = lg_output st"
  using assms currentLogLevel_facts
  by (fastforce simp: nested_context_def Let_def split: option.splits prod.splits)

lemma nested_keeps_settings:
  assumes "\<And>s. lg_context s \<noteq> None \<Longrightarrow> same_settings s (snd (fn s))"
  shows "same_settings st (snd (withLogWriters out err fn st)) \<and>
         lg_context (snd (withLogWriters out err fn st)) = lg_context st"
proof -
  obtain ctx st1 where 1: "nested_context out err st = (ctx, st1)" by fastforce
  obtain x st2 where 2: "fn (st1\<lparr>lg_context := Some ctx\<rparr>) = (x, st2)" by fastforce
  have "same_settings (st1\<lparr>lg_context := Some ctx\<rparr>) st2" using assms [of "st1\<lparr>lg_context := Some ctx\<rparr>"] 2 by simp
  then have "same_settings st1 st2" by simp
  with nested_context_facts [OF 1] have "same_settings st st2" using same_settings_trans by blast
  then show ?thesis using 1 2 nested_context_facts [OF 1] by (simp add: withLogWriters_def)
qed

lemma in_context_settings:
  "lg_context st \<noteq> None \<Longrightarrow> same_settings st (run_log_op p st) \<and> lg_context (run_log_op p st) \<noteq> None"
  "lg_context st \<noteq> None \<Longrightarrow> same_settings st (run_log_ops ps st) \<and> lg_context (run_log_ops ps st) \<noteq> None"
proof (induction p st and ps st rule: run_log_op_run_log_ops.induct)
  case (8 out err ops st)
  have "same_settings st (snd (withLogWriters out err (\<lambda>s. ((), run_log_ops ops s)) st)) \<and>
        lg_context (snd (withLogWriters out err (\<lambda>s. ((), run_log_ops ops s)) st)) = lg_context st"
    by (rule nested_keeps_settings) (use 8 in simp)
  then show ?case using 8 by simp
next
  case (10 p ps st)
  then show ?case by (auto intro: same_settings_trans)
qed (auto simp: log_call_settings log_call_context setRuntimeLogLevelOverride_def setProcessLogLevel_def
    resetProcessLogLevel_def)

text \<open>
  A record as it is written: lines of characters that are no control characters, each ended by a
  line feed.
\<close>

definition clean_record :: "string \<Rightarrow> bool" where
  "clean_record m \<longleftrightarrow> m \<noteq> [] \<and> last m = CHR 0x0A \<and> (\<forall>c\<in>set m. c = CHR 0x0A \<or> \<not> log_control c)"

definition clean_text :: "string \<Rightarrow> bool" where
  "clean_text t \<longleftrightarrow> (\<forall>c\<in>set t. \<not> log_control c)"

fun clean_times :: "log_op \<Rightarrow> bool" where
  "clean_times (OpLine t m) \<longleftrightarrow> clean_text t"
| "clean_times (OpWarning t m) \<longleftrightarrow> clean_text t"
| "clean_times (OpError t m) \<longleftrightarrow> clean_text t"
| "clean_times (OpDebug t m) \<longleftrightarrow> clean_text t"
| "clean_times (OpNested out err ops) \<longleftrightarrow> (\<forall>p\<in>set ops. clean_times p)"
| "clean_times _ \<longleftrightarrow> True"

lemma clean_text_simps [simp]:
  "clean_text []" "clean_text (c # t) \<longleftrightarrow> \<not> log_control c \<and> clean_text t"
  "clean_text (s @ t) \<longleftrightarrow> clean_text s \<and> clean_text t"
  by (auto simp: clean_text_def)

lemma clean_messages [simp]: "clean_text (sanitizeLogMessage m n)"
  unfolding clean_text_def sanitizeLogMessage_def using sanitizeLogValue_clean by blast

lemma clean_recordI: "clean_text t \<Longrightarrow> clean_record (t @ [CHR 0x0A])"
  by (auto simp: clean_record_def clean_text_def)

lemma clean_record_append:
  "clean_record s \<Longrightarrow> clean_record t \<Longrightarrow> clean_record (s @ t)"
  by (auto simp: clean_record_def)

lemma clean_joined:
  "ls \<noteq> [] \<Longrightarrow> (\<And>l. l \<in> set ls \<Longrightarrow> clean_text l) \<Longrightarrow> clean_record (join [CHR 0x0A] ls @ [CHR 0x0A])"
proof (induction ls)
  case (Cons l ls)
  then have l: "clean_record (l @ [CHR 0x0A])" by (simp add: clean_recordI)
  show ?case
  proof (cases ls)
    case (Cons l2 ls2)
    then have "clean_record (join [CHR 0x0A] ls @ [CHR 0x0A])" using Cons.IH Cons.prems by simp
    from clean_record_append [OF l this] Cons show ?thesis by simp
  qed (use l in simp)
qed simp

lemma clean_prefixes:
  "clean_text ''['' \<and> clean_text ''] '' \<and> clean_text ''! WARNING   '' \<and> clean_text ''] ! ERROR     '' \<and>
   clean_text ''] .. DEBUG    '' \<and> clean_text ''  ''"
  by code_simp

lemma formatMultilineLog_clean:
  assumes "clean_text t"
  shows "clean_record (formatMultilineLog t ''! WARNING   '' m)"
proof -
  let ?lines = "split_char (CHR 0x0A) m"
  let ?render = "map (\<lambda>line. ''  '' @ sanitizeLogMessage line DEFAULT_LOG_MESSAGE_MAX_LEN) (drop 1 ?lines)"
  let ?first = "(''['' @ t @ ''] '' @ ''! WARNING   '' @ sanitizeLogMessage (hd ?lines) DEFAULT_LOG_MESSAGE_MAX_LEN)"
  have first: "clean_record (?first @ [CHR 0x0A])"
    using clean_prefixes assms by (intro clean_recordI) simp
  have eq: "formatMultilineLog t ''! WARNING   '' m =
      (if join [CHR 0x0A] ?render \<noteq> [] then (?first @ [CHR 0x0A]) @ join [CHR 0x0A] ?render @ [CHR 0x0A]
       else ?first @ [CHR 0x0A])"
    by (cases ?lines) (auto simp: formatMultilineLog_def Let_def)
  show ?thesis
  proof (cases "join [CHR 0x0A] ?render = []")
    case False
    then have "?render \<noteq> []" by auto
    then have "clean_record (join [CHR 0x0A] ?render @ [CHR 0x0A])"
      by (rule clean_joined) (use clean_prefixes in auto)
    then show ?thesis unfolding eq using False clean_record_append [OF first] by simp
  qed (use first eq in simp)
qed

definition clean_output :: "logger_state \<Rightarrow> bool" where
  "clean_output st \<longleftrightarrow> (\<forall>(k, m)\<in>set (lg_output st). clean_record m)"

lemma clean_output_emit: "clean_output st \<Longrightarrow> clean_record m \<Longrightarrow> clean_output (emit k m st)"
  by (auto simp: clean_output_def emit_def)

lemma clean_output_same: "lg_output st' = lg_output st \<Longrightarrow> clean_output st' = clean_output st"
  by (simp add: clean_output_def)

lemma clean_output_calls:
  assumes "clean_text t" and "clean_output st"
  shows "clean_output (logLine t m st)" "clean_output (logWarning t m st)"
    "clean_output (logError t m st)" "clean_output (logDebug t m st)"
proof -
  have *: "clean_output (case shouldLog l st of (False, s) \<Rightarrow> s | (True, s) \<Rightarrow> emit (k s) r s)"
    if "clean_record r" for l k r
  proof (cases "shouldLog l st")
    case (Pair b s)
    then have "clean_output s" using assms(2) shouldLog_facts clean_output_same by metis
    then show ?thesis using Pair that clean_output_emit by (cases b) simp_all
  qed
  have r: "clean_record (''['' @ t @ p @ sanitizeLogMessage m DEFAULT_LOG_MESSAGE_MAX_LEN @ [CHR 0x0A])"
    if "clean_text p" for p
    using clean_recordI [of "''['' @ t @ p @ sanitizeLogMessage m DEFAULT_LOG_MESSAGE_MAX_LEN"] that assms(1)
      clean_prefixes by simp
  show "clean_output (logLine t m st)" unfolding logLine_def
    by (rule * [where l = Info and k = stdout_sink, OF r]) (use clean_prefixes in blast)
  show "clean_output (logError t m st)" unfolding logError_def
    by (rule * [where l = ErrorLevel and k = stderr_sink, OF r]) (use clean_prefixes in blast)
  show "clean_output (logDebug t m st)" unfolding logDebug_def
    by (rule * [where l = Debug and k = stdout_sink, OF r]) (use clean_prefixes in blast)
  show "clean_output (logWarning t m st)" unfolding logWarning_def
    by (rule * [where l = Warn and k = stderr_sink, OF formatMultilineLog_clean]) (rule assms(1))
qed

lemma run_log_clean:
  "clean_times p \<Longrightarrow> clean_output st \<Longrightarrow> clean_output (run_log_op p st)"
  "\<forall>p\<in>set ps. clean_times p \<Longrightarrow> clean_output st \<Longrightarrow> clean_output (run_log_ops ps st)"
proof (induction p st and ps st rule: run_log_op_run_log_ops.induct)
  case (8 out err ops st)
  obtain ctx st1 where 1: "nested_context out err st = (ctx, st1)" by fastforce
  let ?s = "st1\<lparr>lg_context := Some ctx\<rparr>"
  have "clean_output ?s" using 8(3) nested_context_facts [OF 1] clean_output_same [of ?s st] by simp
  then have "clean_output (run_log_ops ops ?s)" using 8 by simp
  then show ?case using 1 by (simp add: withLogWriters_def clean_output_def)
next
  case (5 l st)
  then show ?case by (simp add: setRuntimeLogLevelOverride_def clean_output_def split: option.split)
next
  case (6 l st)
  then show ?case by (simp add: setProcessLogLevel_def clean_output_def split: option.split)
next
  case (7 st)
  then show ?case by (simp add: resetProcessLogLevel_def clean_output_def split: option.split)
qed (simp_all add: clean_output_calls)

section \<open>Properties\<close>

text \<open>
  Property (log_records_clean). Whatever messages a program logs, at any level and in any nesting of call
  trees with their own writers, every record written consists of lines without control characters,
  each ended by a line feed: a message cannot forge terminal sequences or extra records.
\<close>

theorem log_records_clean:
  "\<forall>p\<in>set ps. clean_times p \<Longrightarrow> clean_output st \<Longrightarrow> clean_output (run_log_ops ps st)"
  by (rule run_log_clean)

definition example_logger :: logger_state where
  "example_logger = \<lparr>lg_env = (\<lambda>_. None), processLogLevel = None, runtimeLogLevelOverride = None,
     lg_context = None, lg_output = []\<rparr>"

theorem log_records_clean_witness:
  "clean_output (run_log_ops [OpNested (Some 1) None [OpLine ''12:00'' (''a'' @ [CHR 0x1B] @ ''b'')]] example_logger)"
proof (rule log_records_clean)
  show "\<forall>p\<in>set [OpNested (Some 1) None [OpLine ''12:00'' (''a'' @ [CHR 0x1B] @ ''b'')]]. clean_times p"
    by (simp add: log_control_def code_unit_def)
  show "clean_output example_logger" by (simp add: clean_output_def example_logger_def)
qed

text \<open>
  Property (log_settings_isolated). Level changes made by the function that \<open>withLogWriters\<close> runs stay in
  its own context: afterwards the caller's context and the levels of the process are what they were,
  except that the level of the environment may have been read for the first time.
\<close>

theorem log_settings_isolated:
  "same_settings st (snd (withLogWriters out err (\<lambda>s. ((), run_log_ops ops s)) st)) \<and>
   lg_context (snd (withLogWriters out err (\<lambda>s. ((), run_log_ops ops s)) st)) = lg_context st"
  by (rule nested_keeps_settings) (simp add: in_context_settings)

end
