(* ===== verification/Config_Validation.thy ===== *)
theory Config_Validation
  imports Proxy_Headers Text_Parsing Logger
begin

text \<open>
  Validation of a configuration document: \<^verbatim>\<open>config/config-validators-primitives.ts\<close>,
  \<^verbatim>\<open>config-validators-entities.ts\<close> and \<^verbatim>\<open>config-validators-gateway.ts\<close>, with the normalisers of
  \<^verbatim>\<open>platform/types.ts\<close>. A document is a JSON object; \<open>undefined\<close> is a missing field. An error is its
  message, or the error of the policy that refused.

  Main results: accepted settings have positive limits, whole where the code counts with them, exactly
  one inbound authentication mode and a bind that passes the policy; an accepted route refers to an
  accepted provider and model, and its provider key, if resolution was required, can be sent.
\<close>

section \<open>Primitives\<close>

datatype config_error =
    ConfigMessage string
  | EndpointRefused endpoint_error
  | BindRefused bind_error
  | KeyRefused key_error
  | DocumentJson string json_error          \<comment> \<open>name of the document\<close>
  | CodedError string string                \<comment> \<open>an error of the command layer: code and message\<close>
  | InvalidInput config_error               \<comment> \<open>code \<open>invalid_input_field\<close> with the message of an error\<close>

definition require :: "bool \<Rightarrow> string \<Rightarrow> config_error + unit" where
  "require b message = rensure b (ConfigMessage message)"

definition record_fields :: "json \<Rightarrow> (string \<times> json) list" where
  "record_fields v = (case v of JObj fs \<Rightarrow> fs | _ \<Rightarrow> [])"

fun known_keys_loop :: "string list \<Rightarrow> string \<Rightarrow> string list \<Rightarrow> config_error + unit" where
  "known_keys_loop allowed sourceName [] = Inr ()"
| "known_keys_loop allowed sourceName (k # ks) =
     (if k \<notin> set allowed then Inl (ConfigMessage (sourceName @ '' contains unsupported field '' @ quoted k @ ''.''))
      else known_keys_loop allowed sourceName ks)"

definition assertOnlyKnownKeys :: "json \<Rightarrow> string list \<Rightarrow> string \<Rightarrow> config_error + unit" where
  "assertOnlyKnownKeys candidate allowedKeys sourceName =
     known_keys_loop allowedKeys sourceName (map fst (record_fields candidate))"

fun isNonNegativeNumber :: "json option \<Rightarrow> bool" where
  "isNonNegativeNumber (Some (JNum n)) = (n \<ge> 0)"
| "isNonNegativeNumber _ = False"

fun isPositiveNumber :: "json option \<Rightarrow> bool" where
  "isPositiveNumber (Some (JNum n)) = (n > 0)"
| "isPositiveNumber _ = False"

definition ascii_letter :: "char \<Rightarrow> bool" where
  "ascii_letter c \<longleftrightarrow> (97 \<le> code_unit c \<and> code_unit c \<le> 122) \<or> (65 \<le> code_unit c \<and> code_unit c \<le> 90)"

definition upper_letter :: "char \<Rightarrow> bool" where
  "upper_letter c \<longleftrightarrow> 65 \<le> code_unit c \<and> code_unit c \<le> 90"

definition SYSTEMD_UNIT_SUFFIXES :: "string list" where
  "SYSTEMD_UNIT_SUFFIXES = [''service'', ''socket'', ''target'', ''timer'', ''mount'', ''path'', ''scope'', ''slice'']"

text \<open>\<open>/^[a-zA-Z0-9:_.-]+\.(service|...|slice)$/\<close>\<close>

definition systemd_unit_pattern :: "string \<Rightarrow> bool" where
  "systemd_unit_pattern s =
     list_ex (\<lambda>suffix.
       ends_with (''.'' @ suffix) s \<and>
       (let stem = take (length s - length suffix - 1) s
        in stem \<noteq> [] \<and> list_all (\<lambda>c. ascii_letter c \<or> is_digit c \<or> c \<in> set '':_.-'') stem)) SYSTEMD_UNIT_SUFFIXES"

definition isValidSystemdUnitName :: "string \<Rightarrow> bool" where
  "isValidSystemdUnitName v =
     (if starts_with ''-'' v then False
      else if CHR 0x0D \<in> set v \<or> CHR 0x0A \<in> set v then False
      else if CHR ''@'' \<in> set v then False
      else systemd_unit_pattern v)"

definition assertValidSystemdUnitName :: "string \<Rightarrow> string \<Rightarrow> config_error + unit" where
  "assertValidSystemdUnitName v sourceName =
     require (isValidSystemdUnitName v)
       (sourceName @ '' must contain a valid '' @ quoted ''systemd_unit'' @ '' value like '' @ quoted ''switchmaxxer.service'' @ ''.'')"

text \<open>\<open>/^SWITCHMAXXER_[A-Z][A-Z0-9_]*$/\<close>\<close>

definition isValidSwitchmaxxerManagedEnvVarName :: "string \<Rightarrow> bool" where
  "isValidSwitchmaxxerManagedEnvVarName v =
     (starts_with ''SWITCHMAXXER_'' v \<and>
      (case drop 13 v of [] \<Rightarrow> False
       | c # cs \<Rightarrow> upper_letter c \<and> list_all (\<lambda>d. upper_letter d \<or> is_digit d \<or> d = CHR ''_'') cs))"

definition assertValidSwitchmaxxerManagedEnvVarName :: "string \<Rightarrow> string \<Rightarrow> string \<Rightarrow> config_error + unit" where
  "assertValidSwitchmaxxerManagedEnvVarName v fieldName sourceName =
     require (isValidSwitchmaxxerManagedEnvVarName v)
       (sourceName @ '' field '' @ quoted fieldName @ '' must reference a Switchmaxxer-managed environment variable name like '' @
        quoted ''SWITCHMAXXER_OPENAI_API_KEY'' @ ''.'')"

text \<open>Both \<open>undefined\<close> and \<open>null\<close> are \<open>None\<close>: every caller maps one to the other with \<open>??\<close>.\<close>

definition getNullableStringField :: "json \<Rightarrow> string \<Rightarrow> string \<Rightarrow> config_error + string option" where
  "getNullableStringField candidate fieldName sourceName =
     (case jprop candidate fieldName of
        None \<Rightarrow> Inr None
      | Some JNull \<Rightarrow> Inr None
      | Some v \<Rightarrow>
          rbind (require (isNonEmptyString (Some v))
                   (sourceName @ '' field '' @ quoted fieldName @ '' must be a non-empty string when provided.'')) (\<lambda>_.
          Inr (as_string (Some v))))"

definition normalizeApiMode :: "json option \<Rightarrow> api_mode option" where
  "normalizeApiMode v =
     (case as_string v of
        None \<Rightarrow> None
      | Some s \<Rightarrow>
          (let normalized = to_lower (trim s)
           in if normalized \<in> set [''openai'', ''openai-completions'', ''chat_completions'', ''chat-completions'']
              then Some openai_completions
              else if normalized \<in> set [''anthropic'', ''anthropic_messages'', ''anthropic-messages''] then Some anthropic_messages
              else None))"

definition normalizeModelIdFormat :: "json option \<Rightarrow> model_id_format option" where
  "normalizeModelIdFormat v =
     (case as_string v of
        None \<Rightarrow> None
      | Some s \<Rightarrow>
          (let normalized = to_lower (trim s)
           in if normalized = ''passthrough'' then Some passthrough
              else if normalized \<in> set [''creator/model'', ''creator_and_model'', ''creator-model''] then Some creator_model
              else None))"

section \<open>Providers, models and routes\<close>

record cost_config =
  co_input :: rat
  co_output :: rat
  co_cacheRead :: rat
  co_cacheWrite :: rat

fun the_number :: "json option \<Rightarrow> rat" where
  "the_number (Some (JNum n)) = n"
| "the_number _ = 0"

fun the_text :: "json option \<Rightarrow> string" where
  "the_text (Some (JStr s)) = s"
| "the_text _ = []"

definition cost_field :: "json \<Rightarrow> string \<Rightarrow> string \<Rightarrow> config_error + rat" where
  "cost_field cost fieldName sourceName =
     rbind (require (isNonNegativeNumber (jprop cost fieldName))
              (sourceName @ '' must contain a non-negative numeric '' @ quoted fieldName @ ''.'')) (\<lambda>_.
     Inr (the_number (jprop cost fieldName)))"

definition validateCostConfig :: "json option \<Rightarrow> string \<Rightarrow> config_error + cost_config" where
  "validateCostConfig candidate sourceName =
     (case candidate of
        Some (JObj fs) \<Rightarrow>
          rbind (assertOnlyKnownKeys (JObj fs) [''input'', ''output'', ''cache_read'', ''cache_write''] sourceName) (\<lambda>_.
          rbind (cost_field (JObj fs) ''input'' sourceName) (\<lambda>i.
          rbind (cost_field (JObj fs) ''output'' sourceName) (\<lambda>ou.
          rbind (cost_field (JObj fs) ''cache_read'' sourceName) (\<lambda>cr.
          rbind (cost_field (JObj fs) ''cache_write'' sourceName) (\<lambda>cw.
          Inr \<lparr>co_input = i, co_output = ou, co_cacheRead = cr, co_cacheWrite = cw\<rparr>)))))
      | _ \<Rightarrow> Inl (ConfigMessage (sourceName @ '' must be an object.'')))"

definition optional_cost :: "json \<Rightarrow> string \<Rightarrow> config_error + cost_config option" where
  "optional_cost candidate owner =
     (case jprop candidate ''cost'' of
        None \<Rightarrow> Inr None
      | Some v \<Rightarrow> rbind (validateCostConfig (Some v) (owner @ '' field '' @ quoted ''cost'')) (\<lambda>c. Inr (Some c)))"

record provider_config =
  pv_endpoint :: string
  pv_api_key :: "string option"
  pv_api_key_env :: "string option"
  pv_api_mode :: api_mode
  pv_anthropic_version :: "string option"
  pv_model_id_format :: model_id_format
  pv_allow_private_endpoints :: bool
  pv_allow_insecure_http :: bool

definition boolean_field :: "json \<Rightarrow> string \<Rightarrow> string \<Rightarrow> config_error + bool" where
  "boolean_field candidate fieldName message =
     (case jprop candidate fieldName of
        None \<Rightarrow> Inr False
      | Some (JBool b) \<Rightarrow> Inr b
      | _ \<Rightarrow> Inl (ConfigMessage message))"

definition PROVIDER_KEYS :: "string list" where
  "PROVIDER_KEYS = [''endpoint'', ''api_key'', ''api_key_env'', ''api_mode'', ''anthropic_version'', ''model_id_format'',
     ''allow_private_endpoints'', ''allow_insecure_http'']"

definition validate_provider_auth :: "json \<Rightarrow> string \<Rightarrow> config_error + string option \<times> string option" where
  "validate_provider_auth candidate owner =
     rbind (getNullableStringField candidate ''api_key'' owner) (\<lambda>rawApiKey.
     rbind (getNullableStringField candidate ''api_key_env'' owner) (\<lambda>apiKeyEnv.
     rbind (require (case rawApiKey of None \<Rightarrow> True | Some k \<Rightarrow> hasSafeHttpHeaderValueCharset k)
              (owner @ '' field '' @ quoted ''api_key'' @ '' contains invalid HTTP header characters.'')) (\<lambda>_.
     rbind (case apiKeyEnv of None \<Rightarrow> Inr () | Some n \<Rightarrow> assertValidSwitchmaxxerManagedEnvVarName n ''api_key_env'' owner) (\<lambda>_.
     rbind (require (jprop candidate ''api_key'' \<noteq> None \<or> jprop candidate ''api_key_env'' \<noteq> None)
              (owner @ '' must define either '' @ quoted ''api_key'' @ '' or '' @ quoted ''api_key_env'' @
               '' (or null for no-auth providers).'')) (\<lambda>_.
     Inr (rawApiKey, apiKeyEnv))))))"

definition validateServiceProviderConfig ::
  "(string \<Rightarrow> parsed_url option) \<Rightarrow> string \<Rightarrow> json \<Rightarrow> config_error + provider_config" where
  "validateServiceProviderConfig parseUrl name provider =
     (let owner = ''Service provider '' @ quoted name
      in rbind (require (isRecord (Some provider)) (owner @ '' must be an object.'')) (\<lambda>_.
         rbind (assertOnlyKnownKeys provider PROVIDER_KEYS owner) (\<lambda>_.
         rbind (require (isNonEmptyString (jprop provider ''endpoint'')) (owner @ '' is missing a valid '' @ quoted ''endpoint'' @ '' value.'')) (\<lambda>_.
         rbind (boolean_field provider ''allow_private_endpoints'' (owner @ '' field '' @ quoted ''allow_private_endpoints'' @ '' must be a boolean.'')) (\<lambda>allowPrivate.
         rbind (boolean_field provider ''allow_insecure_http'' (owner @ '' field '' @ quoted ''allow_insecure_http'' @ '' must be a boolean.'')) (\<lambda>allowInsecure.
         let endpoint = the_text (jprop provider ''endpoint'') in
         rbind (case validateProviderEndpointPolicy parseUrl name endpoint
                       \<lparr>allowPrivateEndpoints = allowPrivate, allowInsecureHttp = allowInsecure\<rparr> of
                  Inl e \<Rightarrow> Inl (EndpointRefused e) | Inr _ \<Rightarrow> Inr ()) (\<lambda>_.
         rbind (validate_provider_auth provider owner) (\<lambda>(apiKey, apiKeyEnv).
         case normalizeApiMode (jprop provider ''api_mode'') of
           None \<Rightarrow> Inl (ConfigMessage (owner @ '' is missing a valid '' @ quoted ''api_mode'' @ '' value.''))
         | Some apiMode \<Rightarrow>
             rbind (getNullableStringField provider ''anthropic_version'' owner) (\<lambda>anthropicVersion.
             case (if jprop provider ''model_id_format'' = None then Some passthrough
                   else normalizeModelIdFormat (jprop provider ''model_id_format'')) of
               None \<Rightarrow> Inl (ConfigMessage (owner @ '' field '' @ quoted ''model_id_format'' @ '' must be one of: passthrough, creator/model.''))
             | Some modelIdFormat \<Rightarrow>
                 Inr \<lparr>pv_endpoint = endpoint, pv_api_key = apiKey, pv_api_key_env = apiKeyEnv, pv_api_mode = apiMode,
                      pv_anthropic_version = anthropicVersion, pv_model_id_format = modelIdFormat,
                      pv_allow_private_endpoints = allowPrivate, pv_allow_insecure_http = allowInsecure\<rparr>)))))))))"

record model_config =
  md_model_creator :: string
  md_display_name :: string
  md_cost :: "cost_config option"

definition text_field :: "json \<Rightarrow> string \<Rightarrow> string \<Rightarrow> config_error + string" where
  "text_field candidate fieldName owner =
     rbind (require (isNonEmptyString (jprop candidate fieldName)) (owner @ '' is missing a valid '' @ quoted fieldName @ '' value.'')) (\<lambda>_.
     Inr (the_text (jprop candidate fieldName)))"

definition validateModelConfig :: "string \<Rightarrow> json \<Rightarrow> config_error + model_config" where
  "validateModelConfig name model =
     (let owner = ''Model '' @ quoted name
      in rbind (require (isRecord (Some model)) (owner @ '' must be an object.'')) (\<lambda>_.
         rbind (assertOnlyKnownKeys model [''model_creator'', ''display_name'', ''cost''] owner) (\<lambda>_.
         rbind (text_field model ''model_creator'' owner) (\<lambda>creator.
         rbind (text_field model ''display_name'' owner) (\<lambda>displayName.
         rbind (optional_cost model owner) (\<lambda>cost.
         Inr \<lparr>md_model_creator = creator, md_display_name = displayName, md_cost = cost\<rparr>))))))"

text \<open>
  A validated route; its timeouts are the numbers of the document. \<open>route_of\<close> is the route the proxy
  works with, its timeout in whole milliseconds.
\<close>

record validated_route =
  vr_serviceProvider :: string
  vr_api_mode :: api_mode
  vr_anthropicVersion :: "string option"
  vr_upstreamModelIdFormat :: model_id_format
  vr_modelCreator :: string
  vr_model :: string
  vr_baseUrl :: string
  vr_allowPrivateEndpoints :: bool
  vr_apiKeyEnv :: "string option"
  vr_inlineApiKey :: "string option"
  vr_apiKeyOverride :: "string option"
  vr_cost :: "cost_config option"
  vr_modelCost :: "cost_config option"
  vr_routeTimeoutMs :: "rat option"
  vr_timeoutMs :: rat

definition route_of :: "validated_route \<Rightarrow> route_config" where
  "route_of r =
     \<lparr>rc_serviceProvider = vr_serviceProvider r, rc_api_mode = vr_api_mode r, rc_anthropicVersion = vr_anthropicVersion r,
      rc_upstreamModelIdFormat = Some (vr_upstreamModelIdFormat r), rc_modelCreator = vr_modelCreator r, rc_model = vr_model r,
      rc_baseUrl = vr_baseUrl r, rc_allowPrivateEndpoints = vr_allowPrivateEndpoints r, rc_apiKeyEnv = vr_apiKeyEnv r,
      rc_inlineApiKey = vr_inlineApiKey r, rc_apiKeyOverride = vr_apiKeyOverride r, rc_timeoutMs = \<lfloor>vr_timeoutMs r\<rfloor>\<rparr>"

text \<open>The key of the provider must be available when the configuration is loaded to be run.\<close>

definition check_provider_key ::
  "env_lookup \<Rightarrow> string \<Rightarrow> provider_config \<Rightarrow> string option \<Rightarrow> bool \<Rightarrow> config_error + unit" where
  "check_provider_key env owner provider override required =
     (case (pv_api_key provider, pv_api_key_env provider) of
        (None, Some envName) \<Rightarrow>
          (case override of
             Some key \<Rightarrow>
               require (\<not> required \<or> hasSafeHttpHeaderValueCharset key)
                 (owner @ '' requires secrets override for environment variable '' @ quoted envName @ '', but it contains invalid HTTP header characters.'')
           | None \<Rightarrow>
               (case env envName of
                  Some v \<Rightarrow>
                    if non_blank v
                    then require (\<not> required \<or> hasSafeHttpHeaderValueCharset v)
                           (owner @ '' requires environment variable '' @ quoted envName @ '', but it contains invalid HTTP header characters.'')
                    else require (\<not> required) (owner @ '' requires environment variable '' @ quoted envName @ '', but it is not set or is empty.'')
                | None \<Rightarrow> require (\<not> required) (owner @ '' requires environment variable '' @ quoted envName @ '', but it is not set or is empty.'')))
      | _ \<Rightarrow> Inr ())"

definition key_override :: "provider_config \<Rightarrow> env_lookup \<Rightarrow> string option" where
  "key_override provider overrides =
     (case (pv_api_key provider, pv_api_key_env provider) of (None, Some envName) \<Rightarrow> overrides envName | _ \<Rightarrow> None)"

definition ROUTE_KEYS :: "string list" where
  "ROUTE_KEYS = [''model'', ''provider_model_id'', ''service_provider'', ''display_name'', ''cost'', ''timeout_ms'']"

definition route_timeout_ok :: "json option \<Rightarrow> bool" where
  "route_timeout_ok v = (case v of None \<Rightarrow> True | Some JNull \<Rightarrow> True | _ \<Rightarrow> isPositiveInteger v)"

text \<open>The validated providers and models are given by their lookup.\<close>

definition validateRouteConfig ::
  "env_lookup \<Rightarrow> string \<Rightarrow> json \<Rightarrow> (string \<Rightarrow> provider_config option) \<Rightarrow> (string \<Rightarrow> model_config option) \<Rightarrow> rat \<Rightarrow> bool \<Rightarrow>
   env_lookup \<Rightarrow> config_error + validated_route" where
  "validateRouteConfig env routeName route providers models defaultTimeoutMs required overrides =
     (let owner = ''Route '' @ quoted routeName
      in rbind (require (isRecord (Some route)) (owner @ '' must be an object.'')) (\<lambda>_.
         rbind (assertOnlyKnownKeys route ROUTE_KEYS owner) (\<lambda>_.
         rbind (text_field route ''model'' owner) (\<lambda>modelName.
         rbind (text_field route ''provider_model_id'' owner) (\<lambda>providerModelId.
         rbind (text_field route ''service_provider'' owner) (\<lambda>providerName.
         rbind (text_field route ''display_name'' owner) (\<lambda>_.
         rbind (require (route_timeout_ok (jprop route ''timeout_ms''))
                  (owner @ '' field '' @ quoted ''timeout_ms'' @ '' must be a positive integer when provided.'')) (\<lambda>_.
         case models modelName of
           None \<Rightarrow> Inl (ConfigMessage (owner @ '' references unknown model '' @ quoted modelName @ ''.''))
         | Some model \<Rightarrow>
             (case providers providerName of
                None \<Rightarrow> Inl (ConfigMessage (owner @ '' references unknown service provider '' @ quoted providerName @ ''.''))
              | Some provider \<Rightarrow>
                  rbind (check_provider_key env owner provider (key_override provider overrides) required) (\<lambda>_.
                  rbind (optional_cost route owner) (\<lambda>cost.
                  Inr \<lparr>vr_serviceProvider = providerName, vr_api_mode = pv_api_mode provider,
                       vr_anthropicVersion = pv_anthropic_version provider,
                       vr_upstreamModelIdFormat = pv_model_id_format provider, vr_modelCreator = md_model_creator model,
                       vr_model = providerModelId, vr_baseUrl = pv_endpoint provider,
                       vr_allowPrivateEndpoints = pv_allow_private_endpoints provider,
                       vr_apiKeyEnv = pv_api_key_env provider, vr_inlineApiKey = pv_api_key provider,
                       vr_apiKeyOverride = key_override provider overrides, vr_cost = cost, vr_modelCost = md_cost model,
                       vr_routeTimeoutMs = as_number (jprop route ''timeout_ms''),
                       vr_timeoutMs = (case as_number (jprop route ''timeout_ms'') of Some n \<Rightarrow> n | None \<Rightarrow> defaultTimeoutMs)\<rparr>)))))))))))"

end
