(* ===== verification/Gateway_Settings.thy ===== *)
theory Gateway_Settings
  imports Config_Validation
begin

text \<open>
  Validation of the settings of the gateway: \<^verbatim>\<open>config/config-validators-gateway.ts\<close> with the capability
  names of \<^verbatim>\<open>platform/mcp-capabilities.ts\<close>. The sets of sources that were already warned about are the
  state of that module; a warning is the message handed to the logger.

  Main results: accepted settings are well formed (positive limits, whole where the gateway counts with
  them, exactly one inbound authentication mode, a bind the policy allows), and validation of the
  capabilities never yields one the document does not ask for, read access apart.
\<close>

section \<open>Fields with a default\<close>

definition CONFIG_DOCUMENT_TOP_LEVEL_KEYS :: "string list" where
  "CONFIG_DOCUMENT_TOP_LEVEL_KEYS =
     [''config_version'', ''port'', ''bind_host'', ''allow_remote_bind'', ''allow_wildcard_bind'', ''max_connections'',
      ''timeout_ms'', ''stream_idle_timeout_ms'', ''stream_max_lifetime_ms'', ''stream_min_bytes_per_second'',
      ''stream_rate_window_ms'', ''stream_max_event_bytes'', ''stream_max_total_bytes'', ''max_concurrent_streams_per_ip'',
      ''max_concurrent_json_parses'', ''max_buffered_upstream_response_bytes'', ''shutdown_timeout_ms'', ''max_payload_size'',
      ''inbound_api_key_env'', ''allow_unauthenticated_gateway'', ''one_trusted_operator_boundary'',
      ''allow_unauthenticated_health'', ''rate_limit'', ''systemd_unit'', ''log_level'', ''observability'', ''mcp'',
      ''service_providers'', ''routes'', ''models'', ''benchmark'']"

definition assertOnlyKnownConfigDocumentKeys :: "json \<Rightarrow> string \<Rightarrow> config_error + unit" where
  "assertOnlyKnownConfigDocumentKeys candidate sourceName =
     assertOnlyKnownKeys candidate CONFIG_DOCUMENT_TOP_LEVEL_KEYS sourceName"

definition or_default :: "json option \<Rightarrow> json option \<Rightarrow> json option" where
  "or_default v fallback = (case v of None \<Rightarrow> fallback | Some x \<Rightarrow> Some x)"

definition positive_number :: "json \<Rightarrow> string \<Rightarrow> rat option \<Rightarrow> string \<Rightarrow> config_error + rat" where
  "positive_number candidate fieldName fallback sourceName =
     (let v = or_default (jprop candidate fieldName) (map_option JNum fallback)
      in rbind (require (isPositiveNumber v) (sourceName @ '' must contain a positive numeric '' @ quoted fieldName @ ''.'')) (\<lambda>_.
         Inr (the_number v)))"

definition positive_integer :: "json \<Rightarrow> string \<Rightarrow> rat \<Rightarrow> string \<Rightarrow> config_error + rat" where
  "positive_integer candidate fieldName fallback sourceName =
     (let v = or_default (jprop candidate fieldName) (Some (JNum fallback))
      in rbind (require (isPositiveInteger v) (sourceName @ '' must contain a positive integer '' @ quoted fieldName @ ''.'')) (\<lambda>_.
         Inr (the_number v)))"

definition non_empty_text :: "json \<Rightarrow> string \<Rightarrow> string \<Rightarrow> string \<Rightarrow> config_error + string" where
  "non_empty_text candidate fieldName fallback sourceName =
     (let v = or_default (jprop candidate fieldName) (Some (JStr fallback))
      in rbind (require (isNonEmptyString v) (sourceName @ '' must contain a non-empty string '' @ quoted fieldName @ ''.'')) (\<lambda>_.
         Inr (the_text v)))"

definition flag_setting :: "json \<Rightarrow> string \<Rightarrow> string \<Rightarrow> config_error + bool" where
  "flag_setting candidate fieldName sourceName =
     boolean_field candidate fieldName (sourceName @ '' field '' @ quoted fieldName @ '' must be a boolean when provided.'')"

section \<open>The settings of the gateway\<close>

record settings_defaults =
  df_bindHost :: string
  df_maxConnections :: rat
  df_maxPayloadSize :: rat
  df_streamMaxLifetimeMs :: rat
  df_streamMinBytesPerSecond :: rat
  df_streamRateWindowMs :: rat
  df_streamMaxEventBytes :: rat
  df_streamMaxTotalBytes :: rat
  df_maxConcurrentStreamsPerIp :: rat
  df_maxConcurrentJsonParses :: rat
  df_maxBufferedUpstreamResponseBytes :: rat
  df_shutdownTimeoutMs :: rat
  df_systemdUnit :: string

text \<open>The settings, in the four groups the function validates one after the other.\<close>

record stream_settings =
  st_port :: rat
  st_timeoutMs :: rat
  st_streamIdleTimeoutMs :: rat
  st_streamMaxLifetimeMs :: rat
  st_streamMinBytesPerSecond :: rat
  st_streamRateWindowMs :: rat
  st_streamMaxEventBytes :: rat
  st_streamMaxTotalBytes :: rat

record capacity_settings =
  st_maxConcurrentStreamsPerIp :: rat
  st_maxConcurrentJsonParses :: rat
  st_maxBufferedUpstreamResponseBytes :: rat
  st_shutdownTimeoutMs :: rat
  st_bindHost :: string
  st_allowRemoteBind :: bool
  st_allowWildcardBind :: bool
  st_maxConnections :: rat
  st_maxPayloadSize :: rat

record inbound_settings =
  st_inboundApiKeyEnv :: "string option"
  st_allowUnauthenticatedGateway :: bool
  st_oneTrustedOperatorBoundary :: bool
  st_allowUnauthenticatedHealth :: bool

record process_settings =
  st_rateLimitRequests :: rat
  st_rateLimitWindow :: string
  st_systemdUnit :: string
  st_logLevel :: "log_level option"

record runtime_settings =
  st_stream :: stream_settings
  st_capacity :: capacity_settings
  st_inbound :: inbound_settings
  st_process :: process_settings

definition validate_stream_settings :: "json \<Rightarrow> string \<Rightarrow> settings_defaults \<Rightarrow> config_error + stream_settings" where
  "validate_stream_settings candidate sourceName defaults =
     rbind (assertOnlyKnownConfigDocumentKeys candidate sourceName) (\<lambda>_.
     rbind (positive_number candidate ''port'' None sourceName) (\<lambda>port.
     rbind (positive_number candidate ''timeout_ms'' None sourceName) (\<lambda>timeoutMs.
     rbind (positive_number candidate ''stream_idle_timeout_ms'' None sourceName) (\<lambda>idle.
     rbind (positive_number candidate ''stream_max_lifetime_ms'' (Some (df_streamMaxLifetimeMs defaults)) sourceName) (\<lambda>lifetime.
     rbind (positive_integer candidate ''stream_min_bytes_per_second'' (df_streamMinBytesPerSecond defaults) sourceName) (\<lambda>minBytes.
     rbind (positive_integer candidate ''stream_rate_window_ms'' (df_streamRateWindowMs defaults) sourceName) (\<lambda>window.
     rbind (positive_integer candidate ''stream_max_event_bytes'' (df_streamMaxEventBytes defaults) sourceName) (\<lambda>event.
     rbind (positive_integer candidate ''stream_max_total_bytes'' (df_streamMaxTotalBytes defaults) sourceName) (\<lambda>totalBytes.
     Inr \<lparr>st_port = port, st_timeoutMs = timeoutMs, st_streamIdleTimeoutMs = idle, st_streamMaxLifetimeMs = lifetime,
          st_streamMinBytesPerSecond = minBytes, st_streamRateWindowMs = window, st_streamMaxEventBytes = event,
          st_streamMaxTotalBytes = totalBytes\<rparr>)))))))))"

definition validate_capacity_settings :: "json \<Rightarrow> string \<Rightarrow> settings_defaults \<Rightarrow> config_error + capacity_settings" where
  "validate_capacity_settings candidate sourceName defaults =
     rbind (positive_integer candidate ''max_concurrent_streams_per_ip'' (df_maxConcurrentStreamsPerIp defaults) sourceName) (\<lambda>streams.
     rbind (positive_integer candidate ''max_concurrent_json_parses'' (df_maxConcurrentJsonParses defaults) sourceName) (\<lambda>parses.
     rbind (positive_integer candidate ''max_buffered_upstream_response_bytes'' (df_maxBufferedUpstreamResponseBytes defaults) sourceName) (\<lambda>buffered.
     rbind (positive_number candidate ''shutdown_timeout_ms'' (Some (df_shutdownTimeoutMs defaults)) sourceName) (\<lambda>shutdown.
     rbind (non_empty_text candidate ''bind_host'' (df_bindHost defaults) sourceName) (\<lambda>bindHost.
     rbind (flag_setting candidate ''allow_remote_bind'' sourceName) (\<lambda>remoteBind.
     rbind (flag_setting candidate ''allow_wildcard_bind'' sourceName) (\<lambda>wildcardBind.
     rbind (positive_integer candidate ''max_connections'' (df_maxConnections defaults) sourceName) (\<lambda>connections.
     rbind (positive_integer candidate ''max_payload_size'' (df_maxPayloadSize defaults) sourceName) (\<lambda>payload.
     Inr \<lparr>st_maxConcurrentStreamsPerIp = streams, st_maxConcurrentJsonParses = parses,
          st_maxBufferedUpstreamResponseBytes = buffered, st_shutdownTimeoutMs = shutdown, st_bindHost = bindHost,
          st_allowRemoteBind = remoteBind, st_allowWildcardBind = wildcardBind, st_maxConnections = connections,
          st_maxPayloadSize = payload\<rparr>)))))))))"

definition bind_of :: "capacity_settings \<Rightarrow> string option \<Rightarrow> bool \<Rightarrow> bind_input" where
  "bind_of c keyEnv unauthenticated =
     \<lparr>bp_bindHost = st_bindHost c, bp_inboundApiKeyEnv = keyEnv, bp_allowUnauthenticatedGateway = unauthenticated,
      bp_allowRemoteBind = st_allowRemoteBind c, bp_allowWildcardBind = st_allowWildcardBind c\<rparr>"

definition inbound_key_env_ok :: "json option \<Rightarrow> bool" where
  "inbound_key_env_ok v = (case v of None \<Rightarrow> True | Some JNull \<Rightarrow> True | _ \<Rightarrow> isNonEmptyString v)"

definition validate_inbound_settings :: "json \<Rightarrow> string \<Rightarrow> capacity_settings \<Rightarrow> config_error + inbound_settings" where
  "validate_inbound_settings candidate sourceName c =
     rbind (require (inbound_key_env_ok (jprop candidate ''inbound_api_key_env''))
              (sourceName @ '' must contain a non-empty string '' @ quoted ''inbound_api_key_env'' @ '' when provided.'')) (\<lambda>_.
     rbind (getNullableStringField candidate ''inbound_api_key_env'' sourceName) (\<lambda>keyEnv.
     rbind (case keyEnv of None \<Rightarrow> Inr ()
            | Some n \<Rightarrow> assertValidSwitchmaxxerManagedEnvVarName n ''inbound_api_key_env'' sourceName) (\<lambda>_.
     rbind (flag_setting candidate ''allow_unauthenticated_gateway'' sourceName) (\<lambda>unauthenticated.
     rbind (flag_setting candidate ''one_trusted_operator_boundary'' sourceName) (\<lambda>boundary.
     rbind (flag_setting candidate ''allow_unauthenticated_health'' sourceName) (\<lambda>health.
     rbind (require (\<not> (keyEnv \<noteq> None \<and> unauthenticated))
              (sourceName @ '' must not set both '' @ quoted ''inbound_api_key_env'' @ '' and '' @
               quoted ''allow_unauthenticated_gateway'' @ ''. Choose exactly one inbound auth mode.'')) (\<lambda>_.
     rbind (require (\<not> (keyEnv = None \<and> \<not> unauthenticated))
              (sourceName @ '' must set either '' @ quoted ''inbound_api_key_env'' @ '' or '' @
               quoted ''allow_unauthenticated_gateway: true'' @ ''.'')) (\<lambda>_.
     rbind (case assertGatewayBindPolicy (bind_of c keyEnv unauthenticated) of
              Inl e \<Rightarrow> Inl (BindRefused e) | Inr _ \<Rightarrow> Inr ()) (\<lambda>_.
     Inr \<lparr>st_inboundApiKeyEnv = keyEnv, st_allowUnauthenticatedGateway = unauthenticated,
          st_oneTrustedOperatorBoundary = boundary, st_allowUnauthenticatedHealth = health\<rparr>)))))))))"

definition validate_process_settings :: "json \<Rightarrow> string \<Rightarrow> settings_defaults \<Rightarrow> config_error + process_settings" where
  "validate_process_settings candidate sourceName defaults =
     (case jprop candidate ''rate_limit'' of
        Some (JObj fs) \<Rightarrow>
          rbind (assertOnlyKnownKeys (JObj fs) [''requests'', ''window''] (sourceName @ '' field '' @ quoted ''rate_limit'')) (\<lambda>_.
          rbind (require (isPositiveInteger (map_of fs ''requests''))
                   (sourceName @ '' field '' @ quoted ''rate_limit.requests'' @ '' must be a positive integer.'')) (\<lambda>_.
          rbind (require (isNonEmptyString (map_of fs ''window''))
                   (sourceName @ '' field '' @ quoted ''rate_limit.window'' @ '' must be a non-empty duration string.'')) (\<lambda>_.
          rbind (require (parseRateLimitWindowMs (the_text (map_of fs ''window'')) \<noteq> None)
                   (sourceName @ '' field '' @ quoted ''rate_limit.window'' @ '' must be a duration like '' @ quoted ''250ms'' @
                    '', '' @ quoted ''1s'' @ '', '' @ quoted ''5m'' @ '', or '' @ quoted ''1h'' @ ''.'')) (\<lambda>_.
          rbind (non_empty_text candidate ''systemd_unit'' (df_systemdUnit defaults) sourceName) (\<lambda>systemdUnit.
          rbind (assertValidSystemdUnitName systemdUnit sourceName) (\<lambda>_.
          rbind (case jprop candidate ''log_level'' of
                   None \<Rightarrow> Inr None
                 | Some v \<Rightarrow>
                     (case normalizeLogLevel (as_string (Some v)) of
                        None \<Rightarrow> Inl (ConfigMessage (sourceName @ '' must contain a valid '' @ quoted ''log_level'' @
                                      '' value: debug, info, warn, or error.''))
                      | Some level \<Rightarrow> Inr (Some level))) (\<lambda>logLevel.
          Inr \<lparr>st_rateLimitRequests = the_number (map_of fs ''requests''), st_rateLimitWindow = the_text (map_of fs ''window''),
               st_systemdUnit = systemdUnit, st_logLevel = logLevel\<rparr>)))))))
      | _ \<Rightarrow> Inl (ConfigMessage (sourceName @ '' must contain a '' @ quoted ''rate_limit'' @ '' object.'')))"

definition validateRuntimeSettings :: "json \<Rightarrow> string \<Rightarrow> settings_defaults \<Rightarrow> config_error + runtime_settings" where
  "validateRuntimeSettings candidate sourceName defaults =
     rbind (validate_stream_settings candidate sourceName defaults) (\<lambda>s.
     rbind (validate_capacity_settings candidate sourceName defaults) (\<lambda>c.
     rbind (validate_inbound_settings candidate sourceName c) (\<lambda>i.
     rbind (validate_process_settings candidate sourceName defaults) (\<lambda>p.
     Inr \<lparr>st_stream = s, st_capacity = c, st_inbound = i, st_process = p\<rparr>))))"

section \<open>Retention, benchmark and capability settings\<close>

definition validateObservabilitySettings :: "json \<Rightarrow> string \<Rightarrow> config_error + string option" where
  "validateObservabilitySettings candidate sourceName =
     (case jprop candidate ''observability'' of
        None \<Rightarrow> Inr None
      | Some (JObj fs) \<Rightarrow>
          rbind (assertOnlyKnownKeys (JObj fs) [''retention''] (sourceName @ '' field '' @ quoted ''observability'')) (\<lambda>_.
          case map_of fs ''retention'' of
            None \<Rightarrow> Inr None
          | Some (JObj gs) \<Rightarrow>
              rbind (assertOnlyKnownKeys (JObj gs) [''older_than''] (sourceName @ '' field '' @ quoted ''observability.retention'')) (\<lambda>_.
              case map_of gs ''older_than'' of
                None \<Rightarrow> Inr None
              | Some JNull \<Rightarrow> Inr None
              | Some v \<Rightarrow>
                  rbind (require (isRetentionDurationString (as_string (Some v)))
                           (sourceName @ '' field '' @ quoted ''observability.retention.older_than'' @ '' must be a duration like '' @
                            quoted ''14d'' @ '', '' @ quoted ''168h'' @ '', '' @ quoted ''30m'' @ '', or '' @ quoted ''2w'' @ ''.'')) (\<lambda>_.
                  Inr (as_string (Some v))))
          | Some _ \<Rightarrow> Inl (ConfigMessage (sourceName @ '' field '' @ quoted ''observability.retention'' @ '' must be an object when provided.'')))
      | Some _ \<Rightarrow> Inl (ConfigMessage (sourceName @ '' field '' @ quoted ''observability'' @ '' must be an object when provided.'')))"

record benchmark_settings =
  bs_defaultMaxTokens :: rat
  bs_defaultAnthropicVersion :: string

definition validateBenchmarkSettings :: "json \<Rightarrow> string \<Rightarrow> benchmark_settings \<Rightarrow> config_error + benchmark_settings" where
  "validateBenchmarkSettings candidate sourceName defaults =
     (let owner = sourceName @ '' field '' @ quoted ''benchmark''
      in case jprop candidate ''benchmark'' of
           None \<Rightarrow> Inr defaults
         | Some (JObj fs) \<Rightarrow>
             rbind (assertOnlyKnownKeys (JObj fs) [''default_max_tokens'', ''default_anthropic_version''] owner) (\<lambda>_.
             let tokens = or_default (map_of fs ''default_max_tokens'') (Some (JNum (bs_defaultMaxTokens defaults)))
             in rbind (require (isPositiveInteger tokens)
                         (sourceName @ '' field '' @ quoted ''benchmark.default_max_tokens'' @ '' must be a positive integer.'')) (\<lambda>_.
                rbind (getNullableStringField (JObj fs) ''default_anthropic_version'' owner) (\<lambda>version.
                Inr \<lparr>bs_defaultMaxTokens = the_number tokens,
                     bs_defaultAnthropicVersion = (case version of Some v \<Rightarrow> v | None \<Rightarrow> bs_defaultAnthropicVersion defaults)\<rparr>)))
         | Some _ \<Rightarrow> Inl (ConfigMessage (owner @ '' must be an object when provided.'')))"

datatype mcp_capability = Read | Mutation | Privileged

fun capability_name :: "mcp_capability \<Rightarrow> string" where
  "capability_name Read = ''read''"
| "capability_name Mutation = ''mutation''"
| "capability_name Privileged = ''privileged''"

definition ALL_MCP_TOOL_CAPABILITIES :: "mcp_capability list" where
  "ALL_MCP_TOOL_CAPABILITIES = [Read, Mutation, Privileged]"

definition DEFAULT_MCP_TOOL_CAPABILITIES :: "mcp_capability list" where
  "DEFAULT_MCP_TOOL_CAPABILITIES = [Read]"

text \<open>The sets of warned sources, and the messages logged so far, oldest first.\<close>

record warnings =
  wn_mcpSources :: "string list"
  wn_privateProviders :: "string list"
  wn_log :: "string list"

definition logMcpCapabilityMigrationWarning :: "string \<Rightarrow> string \<Rightarrow> warnings \<Rightarrow> warnings" where
  "logMcpCapabilityMigrationWarning sourceName fieldName w =
     (let warningKey = sourceName @ '':'' @ fieldName
      in if warningKey \<in> set (wn_mcpSources w) then w
         else w\<lparr>wn_mcpSources := wn_mcpSources w @ [warningKey],
                wn_log := wn_log w @
                  [sourceName @ '' omits '' @ quoted fieldName @ ''; defaulting MCP sessions to read-only access. '' @
                   ''Set '' @ [dquote] @ ''mcp'' @ [dquote] @ '': { '' @ [dquote] @ ''capabilities'' @ [dquote] @ '': ['' @
                   [dquote] @ ''read'' @ [dquote] @ '', '' @ [dquote] @ ''mutation'' @ [dquote] @ '', '' @
                   [dquote] @ ''privileged'' @ [dquote] @
                   ''] } only for trusted clients that intentionally need full local control.'']\<rparr>)"

definition logPrivateEndpointProviderWarnings :: "string list \<Rightarrow> warnings \<Rightarrow> warnings" where
  "logPrivateEndpointProviderWarnings providerNames w =
     (let newlyWarned = filter (\<lambda>n. n \<notin> set (wn_privateProviders w)) providerNames;
          single = (length newlyWarned = 1);
          newline = [CHR 0x0A]
      in if newlyWarned = [] then w
         else w\<lparr>wn_privateProviders := wn_privateProviders w @ newlyWarned,
                wn_log := wn_log w @
                  [''The following '' @ (if single then ''service provider'' else ''service providers'') @ '' '' @
                   (if single then ''enables'' else ''enable'') @ '' '' @ quoted ''allow_private_endpoints'' @ ''.'' @ newline @
                   ''This permits private-address routing and should only be used for intentionally trusted local or private upstreams. DNS hostnames still use pinned-resolution dispatch:'' @ newline @
                   join newline (map (\<lambda>n. ''  - '' @ n) newlyWarned)]\<rparr>)"

definition capability_of :: "json \<Rightarrow> mcp_capability option" where
  "capability_of v =
     (case v of JStr s \<Rightarrow> find (\<lambda>c. capability_name c = s) ALL_MCP_TOOL_CAPABILITIES | _ \<Rightarrow> None)"

fun capability_loop :: "string \<Rightarrow> json list \<Rightarrow> mcp_capability list \<Rightarrow> config_error + mcp_capability list" where
  "capability_loop sourceName [] normalized = Inr normalized"
| "capability_loop sourceName (v # vs) normalized =
     (case capability_of v of
        None \<Rightarrow> Inl (ConfigMessage (sourceName @ '' field '' @ quoted ''mcp.capabilities'' @ '' may only contain: '' @
                      join '', '' (map capability_name ALL_MCP_TOOL_CAPABILITIES) @ ''.''))
      | Some c \<Rightarrow> capability_loop sourceName vs (if c \<in> set normalized then normalized else normalized @ [c]))"

definition validateMcpSettings :: "json \<Rightarrow> string \<Rightarrow> warnings \<Rightarrow> (config_error + mcp_capability list) \<times> warnings" where
  "validateMcpSettings candidate sourceName w =
     (case jprop candidate ''mcp'' of
        None \<Rightarrow> (Inr DEFAULT_MCP_TOOL_CAPABILITIES, logMcpCapabilityMigrationWarning sourceName ''mcp'' w)
      | Some (JObj fs) \<Rightarrow>
          (case assertOnlyKnownKeys (JObj fs) [''capabilities''] (sourceName @ '' field '' @ quoted ''mcp'') of
             Inl e \<Rightarrow> (Inl e, w)
           | Inr _ \<Rightarrow>
               (case map_of fs ''capabilities'' of
                  None \<Rightarrow> (Inr DEFAULT_MCP_TOOL_CAPABILITIES, logMcpCapabilityMigrationWarning sourceName ''mcp.capabilities'' w)
                | Some (JArr vs) \<Rightarrow> (capability_loop sourceName vs [], w)
                | Some _ \<Rightarrow> (Inl (ConfigMessage (sourceName @ '' field '' @ quoted ''mcp.capabilities'' @ '' must be an array when provided.'')), w)))
      | Some _ \<Rightarrow> (Inl (ConfigMessage (sourceName @ '' field '' @ quoted ''mcp'' @ '' must be an object when provided.'')), w))"

section \<open>What accepted settings satisfy\<close>

definition whole_positive :: "rat \<Rightarrow> bool" where
  "whole_positive n \<longleftrightarrow> n \<in> \<int> \<and> n > 0"

definition stream_settings_ok :: "stream_settings \<Rightarrow> bool" where
  "stream_settings_ok s \<longleftrightarrow>
     st_port s > 0 \<and> st_timeoutMs s > 0 \<and> st_streamIdleTimeoutMs s > 0 \<and> st_streamMaxLifetimeMs s > 0 \<and>
     whole_positive (st_streamMinBytesPerSecond s) \<and> whole_positive (st_streamRateWindowMs s) \<and>
     whole_positive (st_streamMaxEventBytes s) \<and> whole_positive (st_streamMaxTotalBytes s)"

definition capacity_settings_ok :: "capacity_settings \<Rightarrow> bool" where
  "capacity_settings_ok c \<longleftrightarrow>
     whole_positive (st_maxConcurrentStreamsPerIp c) \<and> whole_positive (st_maxConcurrentJsonParses c) \<and>
     whole_positive (st_maxBufferedUpstreamResponseBytes c) \<and> st_shutdownTimeoutMs c > 0 \<and> non_blank (st_bindHost c) \<and>
     whole_positive (st_maxConnections c) \<and> whole_positive (st_maxPayloadSize c)"

text \<open>Exactly one mode of inbound authentication, and a bind the policy allows in that mode.\<close>

definition inbound_settings_ok :: "capacity_settings \<Rightarrow> inbound_settings \<Rightarrow> bool" where
  "inbound_settings_ok c i \<longleftrightarrow>
     (case st_inboundApiKeyEnv i of
        None \<Rightarrow> st_allowUnauthenticatedGateway i
      | Some n \<Rightarrow> \<not> st_allowUnauthenticatedGateway i \<and> isValidSwitchmaxxerManagedEnvVarName n) \<and>
     is_ok (assertGatewayBindPolicy (bind_of c (st_inboundApiKeyEnv i) (st_allowUnauthenticatedGateway i)))"

definition process_settings_ok :: "process_settings \<Rightarrow> bool" where
  "process_settings_ok p \<longleftrightarrow>
     whole_positive (st_rateLimitRequests p) \<and> parseRateLimitWindowMs (st_rateLimitWindow p) \<noteq> None \<and>
     isValidSystemdUnitName (st_systemdUnit p)"

definition settings_ok :: "runtime_settings \<Rightarrow> bool" where
  "settings_ok s \<longleftrightarrow> stream_settings_ok (st_stream s) \<and> capacity_settings_ok (st_capacity s) \<and>
     inbound_settings_ok (st_capacity s) (st_inbound s) \<and> process_settings_ok (st_process s)"

lemma record_fields_JObj [simp]: "record_fields (JObj fs) = fs"
  by (simp add: record_fields_def)

lemma require_Inr [simp, res_simps]: "require b m = Inr x \<longleftrightarrow> b"
  by (simp add: require_def rensure_def)

lemma isPositiveNumber_the_number: "isPositiveNumber v \<Longrightarrow> the_number v > 0"
  by (cases v rule: isPositiveNumber.cases) simp_all

lemma isPositiveInteger_the_number: "isPositiveInteger v \<Longrightarrow> whole_positive (the_number v)"
  by (cases v rule: isPositiveInteger.cases) (simp_all add: whole_positive_def)

lemma isNonEmptyString_the_text: "isNonEmptyString v \<Longrightarrow> non_blank (the_text v)"
  by (cases v rule: the_text.cases) (simp_all add: isNonEmptyString_def)

named_theorems setting_facts \<open>what an accepted field satisfies\<close>

lemma positive_number_accepted [setting_facts]: "positive_number c f d src = Inr n \<Longrightarrow> n > 0"
  by (auto simp: positive_number_def Let_def res_simps isPositiveNumber_the_number)

lemma positive_integer_accepted [setting_facts]: "positive_integer c f d src = Inr n \<Longrightarrow> whole_positive n"
  by (auto simp: positive_integer_def Let_def res_simps isPositiveInteger_the_number)

lemma non_empty_text_accepted [setting_facts]: "non_empty_text c f d src = Inr s \<Longrightarrow> non_blank s"
  by (auto simp: non_empty_text_def Let_def res_simps isNonEmptyString_the_text)

lemma stream_settings_accepted: "validate_stream_settings c src d = Inr s \<Longrightarrow> stream_settings_ok s"
  unfolding validate_stream_settings_def stream_settings_ok_def
  by (clarsimp simp: rbind_Inr_iff) (simp add: setting_facts)

lemma capacity_settings_accepted: "validate_capacity_settings c src d = Inr s \<Longrightarrow> capacity_settings_ok s"
  unfolding validate_capacity_settings_def capacity_settings_ok_def
  by (clarsimp simp: rbind_Inr_iff) (simp add: setting_facts)

lemma inbound_settings_accepted:
  assumes "validate_inbound_settings candidate src c = Inr i"
  shows "inbound_settings_ok c i"
  using assms unfolding validate_inbound_settings_def inbound_settings_ok_def
  by (clarsimp simp: rbind_Inr_iff)
    (auto simp: assertValidSwitchmaxxerManagedEnvVarName_def is_ok_def split: option.splits sum.splits)

lemma process_settings_accepted: "validate_process_settings c src d = Inr p \<Longrightarrow> process_settings_ok p"
  unfolding validate_process_settings_def process_settings_ok_def
  by (clarsimp simp: rbind_Inr_iff assertValidSystemdUnitName_def isPositiveInteger_the_number
      split: option.splits json.splits)

lemma known_keys_loop_Inr: "known_keys_loop allowed src ks = Inr u \<longleftrightarrow> set ks \<subseteq> set allowed"
  by (induction ks) auto

lemma settings_accepted:
  assumes "validateRuntimeSettings candidate src d = Inr s"
  shows "settings_ok s" and "set (map fst (record_fields candidate)) \<subseteq> set CONFIG_DOCUMENT_TOP_LEVEL_KEYS"
proof -
  from assms obtain a where a: "validate_stream_settings candidate src d = Inr a" "st_stream s = a"
    and c: "validate_capacity_settings candidate src d = Inr (st_capacity s)"
    and i: "validate_inbound_settings candidate src (st_capacity s) = Inr (st_inbound s)"
    and p: "validate_process_settings candidate src d = Inr (st_process s)"
    by (auto simp: validateRuntimeSettings_def rbind_Inr_iff)
  from a c i p show "settings_ok s"
    by (auto simp: settings_ok_def intro: stream_settings_accepted capacity_settings_accepted
        inbound_settings_accepted process_settings_accepted)
  from a(1) show "set (map fst (record_fields candidate)) \<subseteq> set CONFIG_DOCUMENT_TOP_LEVEL_KEYS"
    by (auto simp: validate_stream_settings_def rbind_Inr_iff assertOnlyKnownConfigDocumentKeys_def
        assertOnlyKnownKeys_def known_keys_loop_Inr)
qed

section \<open>Capabilities and warnings\<close>

lemma capability_of_Some: "capability_of v = Some c \<longleftrightarrow> v = JStr (capability_name c)"
  by (cases v; cases c) (auto simp: capability_of_def ALL_MCP_TOOL_CAPABILITIES_def split: if_splits)

lemma capability_loop_Inr:
  "capability_loop src vs acc = Inr caps \<Longrightarrow> distinct acc \<Longrightarrow>
     distinct caps \<and> set caps = set acc \<union> {c. JStr (capability_name c) \<in> set vs}"
proof (induction vs arbitrary: acc)
  case (Cons v vs)
  then obtain c where c: "v = JStr (capability_name c)"
    and step: "capability_loop src vs (if c \<in> set acc then acc else acc @ [c]) = Inr caps"
    by (auto simp: capability_of_Some split: option.splits)
  have inj: "capability_name d = capability_name c \<longleftrightarrow> d = c" for d
    by (cases c; cases d) simp_all
  have dist: "distinct (if c \<in> set acc then acc else acc @ [c])"
    using Cons.prems(2) by simp
  from Cons.IH [OF step dist] show ?case
    by (auto simp: c inj)
qed simp

definition requested_capabilities :: "json \<Rightarrow> mcp_capability set" where
  "requested_capabilities candidate =
     {c. \<exists>mcp vs. jprop candidate ''mcp'' = Some mcp \<and> jprop mcp ''capabilities'' = Some (JArr vs) \<and>
                 JStr (capability_name c) \<in> set vs}"

text \<open>
  Property (mcp_capabilities_requested). The capabilities of an accepted document are distinct and are exactly
  those it lists; a document that lists none gives read access only, and its source is warned about.
\<close>

theorem mcp_capabilities_requested:
  assumes "fst (validateMcpSettings candidate src w) = Inr caps"
  shows "distinct caps \<and> (set caps = requested_capabilities candidate \<or>
     caps = [Read] \<and> (\<exists>warned. snd (validateMcpSettings candidate src w) = logMcpCapabilityMigrationWarning src warned w))"
proof (cases "jprop candidate ''mcp''")
  case None
  then show ?thesis using assms
    by (auto simp: validateMcpSettings_def DEFAULT_MCP_TOOL_CAPABILITIES_def)
next
  case (Some mcp)
  with assms obtain fs where mcp: "mcp = JObj fs"
    by (cases mcp) (auto simp: validateMcpSettings_def)
  show ?thesis
  proof (cases "map_of fs ''capabilities''")
    case None
    with assms Some mcp show ?thesis
      by (auto simp: validateMcpSettings_def DEFAULT_MCP_TOOL_CAPABILITIES_def split: sum.splits)
  next
    case caps: (Some v)
    with assms Some mcp obtain vs where v: "v = JArr vs" and loop: "capability_loop src vs [] = Inr caps"
      by (auto simp: validateMcpSettings_def split: sum.splits json.splits)
    from capability_loop_Inr [OF loop] Some mcp caps v show ?thesis
      by (simp add: requested_capabilities_def)
  qed
qed

theorem mcp_capabilities_requested_witness:
  "fst (validateMcpSettings (JObj []) ''config.json'' \<lparr>wn_mcpSources = [], wn_privateProviders = [], wn_log = []\<rparr>) = Inr [Read] \<and>
   (let d = JObj [(''mcp'', JObj [(''capabilities'', JArr [JStr ''mutation'', JStr ''mutation''])])];
        w = \<lparr>wn_mcpSources = [], wn_privateProviders = [], wn_log = []\<rparr>
    in fst (validateMcpSettings d ''config.json'' w) = Inr [Mutation] \<and> {Mutation} = requested_capabilities d)"
proof -
  let ?d = "JObj [(''mcp'', JObj [(''capabilities'', JArr [JStr ''mutation'', JStr ''mutation''])])]"
  let ?w = "\<lparr>wn_mcpSources = [], wn_privateProviders = [], wn_log = []\<rparr>"
  have d: "fst (validateMcpSettings ?d ''config.json'' ?w) = Inr [Mutation]"
    by (simp add: validateMcpSettings_def assertOnlyKnownKeys_def capability_of_def ALL_MCP_TOOL_CAPABILITIES_def)
  with mcp_capabilities_requested [OF d] show ?thesis
    by (simp add: validateMcpSettings_def [of "JObj []"] DEFAULT_MCP_TOOL_CAPABILITIES_def)
qed

lemma mcp_warning_once:
  "logMcpCapabilityMigrationWarning src f (logMcpCapabilityMigrationWarning src f w) = logMcpCapabilityMigrationWarning src f w"
  by (simp add: logMcpCapabilityMigrationWarning_def Let_def)

lemma private_warning_once:
  "logPrivateEndpointProviderWarnings ns (logPrivateEndpointProviderWarnings ns w) = logPrivateEndpointProviderWarnings ns w"
  by (auto simp: logPrivateEndpointProviderWarnings_def Let_def filter_empty_conv)

end
