(* ===== verification/Config_Loading.thy ===== *)
theory Config_Loading
  imports Gateway_Settings
begin

text \<open>
  Loading of a configuration: \<^verbatim>\<open>config/config-read.ts\<close>, \<^verbatim>\<open>catalog.ts\<close>, \<^verbatim>\<open>secrets-path.ts\<close>,
  \<^verbatim>\<open>secrets.ts\<close> and \<^verbatim>\<open>config.ts\<close>, with the environment readers of \<^verbatim>\<open>platform/env.ts\<close>. The operating
  system (files, working directory, environment), \<open>JSON.parse\<close>, the URL parser and the text of a number
  are fields of \<open>config_host\<close>.

  Main results: no file is read that is a symbolic link, accessible to others or too large; splitting
  for a write undoes composing with the catalog; in a loaded configuration every provider endpoint passes
  the endpoint policy, every route has a provider key that can be sent, or needs none, and the inbound
  key is long enough.
\<close>

section \<open>The host\<close>

record fs_failure =
  ff_code :: string
  ff_message :: string

record config_host =
  hs_cwd :: string
  hs_env :: env_lookup
  hs_homedir :: string
  hs_resolve :: "string list \<Rightarrow> string"                    \<comment> \<open>\<open>path.resolve\<close>\<close>
  hs_exists :: "string \<Rightarrow> bool"
  hs_isSymbolicLink :: "string \<Rightarrow> fs_failure + bool"       \<comment> \<open>\<open>lstatSync\<close>\<close>
  hs_stat :: "string \<Rightarrow> fs_failure + nat \<times> nat"           \<comment> \<open>mode and size\<close>
  hs_readFile :: "string \<Rightarrow> fs_failure + string"
  hs_realpath :: "string \<Rightarrow> fs_failure + string"
  hs_parseJson :: "string \<Rightarrow> json option"
  hs_parseUrl :: "string \<Rightarrow> parsed_url option"
  hs_numberText :: "rat \<Rightarrow> string"

definition basename :: "string \<Rightarrow> string" where
  "basename p = rev (takeWhile (\<lambda>c. c \<noteq> CHR ''/'') (rev p))"

definition dirname :: "string \<Rightarrow> string" where
  "dirname p = (let d = rev (drop 1 (dropWhile (\<lambda>c. c \<noteq> CHR ''/'') (rev p))) in if d = [] then ''/'' else d)"

definition path_join :: "string \<Rightarrow> string \<Rightarrow> string" where
  "path_join dir file = (if dir = ''/'' then ''/'' @ file else dir @ ''/'' @ file)"

definition getEnvValue :: "string \<Rightarrow> env_lookup \<Rightarrow> string option" where
  "getEnvValue name env = env name"

definition getNonEmptyEnvValue :: "string \<Rightarrow> env_lookup \<Rightarrow> string option" where
  "getNonEmptyEnvValue name env =
     (case getEnvValue name env of Some v \<Rightarrow> if length (trim v) > 0 then Some v else None | None \<Rightarrow> None)"

definition isEnvFlagEnabled :: "string \<Rightarrow> env_lookup \<Rightarrow> bool" where
  "isEnvFlagEnabled name env = (getEnvValue name env = Some ''1'')"

definition parsePositiveIntegerEnv :: "string \<Rightarrow> env_lookup \<Rightarrow> nat option" where
  "parsePositiveIntegerEnv name env =
     (case getNonEmptyEnvValue name env of None \<Rightarrow> None | Some raw \<Rightarrow> parseCanonicalPositiveInteger (Some raw))"

definition parseNonNegativeIntegerEnv :: "string \<Rightarrow> env_lookup \<Rightarrow> nat option" where
  "parseNonNegativeIntegerEnv name env =
     (case getNonEmptyEnvValue name env of None \<Rightarrow> None | Some raw \<Rightarrow> parseCanonicalNonNegativeInteger (Some raw))"

definition resolvePositiveIntegerEnv :: "string \<Rightarrow> nat \<Rightarrow> env_lookup \<Rightarrow> nat" where
  "resolvePositiveIntegerEnv name fallback env =
     (case parsePositiveIntegerEnv name env of Some n \<Rightarrow> n | None \<Rightarrow> fallback)"

definition resolveNonNegativeIntegerEnv :: "string \<Rightarrow> nat \<Rightarrow> env_lookup \<Rightarrow> nat" where
  "resolveNonNegativeIntegerEnv name fallback env =
     (case parseNonNegativeIntegerEnv name env of Some n \<Rightarrow> n | None \<Rightarrow> fallback)"

section \<open>Reading a file\<close>

definition MAX_CONFIG_FILE_BYTES :: nat where
  "MAX_CONFIG_FILE_BYTES = 8 * 1024 * 1024"

definition octal_digit :: "nat \<Rightarrow> char" where
  "octal_digit n = char_of (48 + n mod 8)"

definition formatFileMode :: "nat \<Rightarrow> string" where
  "formatFileMode mode = [CHR ''0'', octal_digit (mode div 64), octal_digit (mode div 8), octal_digit mode]"

definition insecure_mode :: "nat \<Rightarrow> bool" where
  "insecure_mode mode \<longleftrightarrow> mode mod 64 \<noteq> 0"

text \<open>The file's size, or the message of the error inside the first \<open>try\<close>.\<close>

definition inspect_file :: "config_host \<Rightarrow> string \<Rightarrow> string \<Rightarrow> string + nat" where
  "inspect_file host sourcePath logicalName =
     (case hs_isSymbolicLink host sourcePath of
        Inl e \<Rightarrow> Inl (ff_message e)
      | Inr True \<Rightarrow> Inl (logicalName @ '' at '' @ quoted sourcePath @ '' must not be a symbolic link.'')
      | Inr False \<Rightarrow>
          (case hs_stat host sourcePath of
             Inl e \<Rightarrow> Inl (ff_message e)
           | Inr (mode, sizeBytes) \<Rightarrow>
               if insecure_mode mode
               then Inl (logicalName @ '' at '' @ quoted sourcePath @ '' has insecure mode '' @ formatFileMode mode @ ''; '' @
                         ''it must not be group- or world-accessible. '' @ ''Run: chmod 0600 '' @ sourcePath)
               else Inr sizeBytes))"

definition readConfigTextWithinLimit :: "config_host \<Rightarrow> string \<Rightarrow> string \<Rightarrow> nat \<Rightarrow> config_error + string" where
  "readConfigTextWithinLimit host sourcePath logicalName maxBytes =
     (let unreadable = (\<lambda>message. ConfigMessage (''Unable to read '' @ logicalName @ '' at '' @ quoted sourcePath @ '': '' @ message))
      in if \<not> hs_exists host sourcePath
         then Inl (ConfigMessage (''Unable to find '' @ logicalName @ '' at '' @ quoted sourcePath @ ''.''))
         else (case inspect_file host sourcePath logicalName of
                 Inl message \<Rightarrow> Inl (unreadable message)
               | Inr sizeBytes \<Rightarrow>
                   if sizeBytes > maxBytes
                   then Inl (ConfigMessage (logicalName @ '' at '' @ quoted sourcePath @ '' exceeds the maximum supported size of '' @
                               digits_of_nat (maxBytes div (1024 * 1024)) @ '' MB.''))
                   else (case hs_readFile host sourcePath of
                           Inl e \<Rightarrow> Inl (unreadable (ff_message e))
                         | Inr content \<Rightarrow> Inr content)))"

text \<open>A file whose content is a JSON object within the bounds, as the three loaders read it.\<close>

definition read_json_object :: "config_host \<Rightarrow> string \<Rightarrow> string \<Rightarrow> nat \<Rightarrow> config_error + json" where
  "read_json_object host sourcePath sourceName maxBytes =
     rbind (readConfigTextWithinLimit host sourcePath sourceName maxBytes) (\<lambda>rawText.
     rbind (case parseJsonWithinBounds (hs_parseJson host) (hard_json_bounds\<lparr>maxSerializedBytes := maxBytes\<rparr>) rawText of
              Inl e \<Rightarrow> Inl (DocumentJson sourceName e) | Inr v \<Rightarrow> Inr v) (\<lambda>parsed.
     rbind (require (isRecord (Some parsed)) (sourceName @ '' must contain a top-level object.'')) (\<lambda>_.
     Inr parsed)))"

section \<open>\<open>JSON.stringify(document, null, 2)\<close>\<close>

definition indentation :: "nat \<Rightarrow> string" where
  "indentation n = CHR 0x0A # replicate (2 * n) (CHR 0x20)"

fun pretty_json :: "(rat \<Rightarrow> string) \<Rightarrow> nat \<Rightarrow> json \<Rightarrow> string"
  and pretty_items :: "(rat \<Rightarrow> string) \<Rightarrow> nat \<Rightarrow> json list \<Rightarrow> string list"
  and pretty_fields :: "(rat \<Rightarrow> string) \<Rightarrow> nat \<Rightarrow> (string \<times> json) list \<Rightarrow> string list" where
  "pretty_json nts n JNull = ''null''"
| "pretty_json nts n (JBool b) = (if b then ''true'' else ''false'')"
| "pretty_json nts n (JNum x) = nts x"
| "pretty_json nts n (JStr s) = quote_string s"
| "pretty_json nts n (JArr xs) =
     (if xs = [] then ''[]'' else ''['' @ join '','' (pretty_items nts (Suc n) xs) @ indentation n @ '']'')"
| "pretty_json nts n (JObj fs) =
     (if fs = [] then ''{}'' else ''{'' @ join '','' (pretty_fields nts (Suc n) fs) @ indentation n @ ''}'')"
| "pretty_items nts n [] = []"
| "pretty_items nts n (x # xs) = (indentation n @ pretty_json nts n x) # pretty_items nts n xs"
| "pretty_fields nts n [] = []"
| "pretty_fields nts n ((k, v) # fs) =
     (indentation n @ quote_string k @ '': '' @ pretty_json nts n v) # pretty_fields nts n fs"

definition document_text :: "config_host \<Rightarrow> json \<Rightarrow> string" where
  "document_text host document = pretty_json (hs_numberText host) 0 document @ [CHR 0x0A]"

section \<open>Versions\<close>

definition CURRENT_CONFIG_VERSION :: rat where
  "CURRENT_CONFIG_VERSION = 1"

definition CURRENT_CATALOG_VERSION :: rat where
  "CURRENT_CATALOG_VERSION = 1"

fun isPositiveVersionInteger :: "json \<Rightarrow> bool" where
  "isPositiveVersionInteger (JNum n) = (n \<in> \<int> \<and> n > 0)"
| "isPositiveVersionInteger _ = False"

definition jset :: "string \<Rightarrow> json \<Rightarrow> json \<Rightarrow> json" where
  "jset k v document = JObj (jm_set k v (record_fields document))"

definition jdelete :: "string \<Rightarrow> json \<Rightarrow> json" where
  "jdelete k document = JObj (jm_delete k (record_fields document))"

text \<open>The two migrations differ in the field and the current version only.\<close>

definition migrate_document :: "(rat \<Rightarrow> string) \<Rightarrow> string \<Rightarrow> rat \<Rightarrow> json \<Rightarrow> string \<Rightarrow> config_error + json" where
  "migrate_document nts fieldName current document sourceName =
     (case jprop document fieldName of
        None \<Rightarrow> Inr (jset fieldName (JNum current) document)
      | Some rawVersion \<Rightarrow>
          rbind (require (isPositiveVersionInteger rawVersion)
                   (sourceName @ '' field '' @ quoted fieldName @ '' must be a positive integer when provided.'')) (\<lambda>_.
          let n = the_number (Some rawVersion)
          in rbind (require (\<not> n > current)
                      (sourceName @ '' uses unsupported future '' @ fieldName @ '' '' @ nts n @
                       ''. Current supported version is '' @ nts current @ ''.'')) (\<lambda>_.
             rbind (require (\<not> n < current)
                      (sourceName @ '' uses unsupported '' @ fieldName @ '' '' @ nts n @
                       ''. Add a migration path before loading it with this release.'')) (\<lambda>_.
             Inr document))))"

definition migrateConfigDocumentToCurrentVersion :: "(rat \<Rightarrow> string) \<Rightarrow> json \<Rightarrow> string \<Rightarrow> config_error + json" where
  "migrateConfigDocumentToCurrentVersion nts = migrate_document nts ''config_version'' CURRENT_CONFIG_VERSION"

definition migrateCatalogDocumentToCurrentVersion :: "(rat \<Rightarrow> string) \<Rightarrow> json \<Rightarrow> string \<Rightarrow> config_error + json" where
  "migrateCatalogDocumentToCurrentVersion nts = migrate_document nts ''catalog_version'' CURRENT_CATALOG_VERSION"

definition loadJsonObject :: "config_host \<Rightarrow> string \<Rightarrow> string \<Rightarrow> config_error + json \<times> string" where
  "loadJsonObject host configPath sourceName =
     rbind (read_json_object host configPath sourceName MAX_CONFIG_FILE_BYTES) (\<lambda>parsed.
     rbind (migrateConfigDocumentToCurrentVersion (hs_numberText host) parsed sourceName) (\<lambda>document.
     Inr (document, document_text host document)))"

section \<open>The catalog\<close>

definition CATALOG_SECTION_KEYS :: "string list" where
  "CATALOG_SECTION_KEYS = [''service_providers'', ''routes'', ''models'']"

record loaded_catalog =
  ct_sourcePath :: string
  ct_sourceFile :: string
  ct_document :: json
  ct_rawText :: string

definition loadCatalogJsonObject :: "config_host \<Rightarrow> string \<Rightarrow> config_error + loaded_catalog" where
  "loadCatalogJsonObject host sourcePath =
     (let sourceFile = basename sourcePath
      in rbind (read_json_object host sourcePath sourceFile MAX_CONFIG_FILE_BYTES) (\<lambda>parsed.
         rbind (migrateCatalogDocumentToCurrentVersion (hs_numberText host) parsed sourceFile) (\<lambda>document.
         rbind (assertOnlyKnownKeys document (''catalog_version'' # CATALOG_SECTION_KEYS) sourceFile) (\<lambda>_.
         Inr \<lparr>ct_sourcePath = sourcePath, ct_sourceFile = sourceFile, ct_document = document,
              ct_rawText = document_text host document\<rparr>))))"

definition resolveCatalogPathForConfig :: "config_host \<Rightarrow> string \<Rightarrow> string" where
  "resolveCatalogPathForConfig host configPath = path_join (dirname (hs_resolve host [configPath])) ''catalog.json''"

definition loadCatalogForConfig :: "config_host \<Rightarrow> string \<Rightarrow> config_error + loaded_catalog" where
  "loadCatalogForConfig host configPath = loadCatalogJsonObject host (resolveCatalogPathForConfig host configPath)"

fun no_section_loop :: "json \<Rightarrow> string \<Rightarrow> string list \<Rightarrow> config_error + unit" where
  "no_section_loop document sourceName [] = Inr ()"
| "no_section_loop document sourceName (key # keys) =
     (if jprop document key \<noteq> None
      then Inl (ConfigMessage (sourceName @ '' must not define '' @ quoted key @ ''. '' @
                  ''Keep provider, route, and model catalog sections in catalog.json.''))
      else no_section_loop document sourceName keys)"

definition assertRuntimeConfigDoesNotOwnCatalogSections :: "json \<Rightarrow> string \<Rightarrow> config_error + unit" where
  "assertRuntimeConfigDoesNotOwnCatalogSections document sourceName = no_section_loop document sourceName CATALOG_SECTION_KEYS"

definition assertCatalogSectionPresent :: "json \<Rightarrow> string \<Rightarrow> string \<Rightarrow> config_error + unit" where
  "assertCatalogSectionPresent catalogDocument catalogSourceName key =
     require (jprop catalogDocument key \<noteq> None) (catalogSourceName @ '' must contain a '' @ quoted key @ '' object.'')"

fun compose_loop :: "loaded_catalog \<Rightarrow> string list \<Rightarrow> json \<Rightarrow> config_error + json" where
  "compose_loop catalog [] document = Inr document"
| "compose_loop catalog (key # keys) document =
     rbind (assertCatalogSectionPresent (ct_document catalog) (ct_sourceFile catalog) key) (\<lambda>_.
     compose_loop catalog keys (jset key (the (jprop (ct_document catalog) key)) document))"

definition composeConfigDocumentWithCatalog :: "json \<Rightarrow> loaded_catalog \<Rightarrow> string \<Rightarrow> config_error + json" where
  "composeConfigDocumentWithCatalog configDocument catalog configSourceName =
     rbind (assertRuntimeConfigDoesNotOwnCatalogSections configDocument configSourceName) (\<lambda>_.
     compose_loop catalog CATALOG_SECTION_KEYS configDocument)"

text \<open>A field set to \<open>undefined\<close> is absent from what is written.\<close>

definition optional_entry :: "string \<Rightarrow> json option \<Rightarrow> (string \<times> json) list" where
  "optional_entry k v = (case v of None \<Rightarrow> [] | Some x \<Rightarrow> [(k, x)])"

definition splitEffectiveConfigDocumentForWrite :: "json \<Rightarrow> loaded_catalog \<Rightarrow> json \<times> json" where
  "splitEffectiveConfigDocumentForWrite effective catalog =
     (fold jdelete CATALOG_SECTION_KEYS effective,
      JObj ((''catalog_version'',
               (case jprop (ct_document catalog) ''catalog_version'' of
                  None \<Rightarrow> JNum CURRENT_CATALOG_VERSION | Some JNull \<Rightarrow> JNum CURRENT_CATALOG_VERSION | Some v \<Rightarrow> v)) #
            concat (map (\<lambda>k. optional_entry k (jprop effective k)) CATALOG_SECTION_KEYS)))"

section \<open>The secrets file\<close>

definition MAX_SECRETS_FILE_BYTES :: nat where
  "MAX_SECRETS_FILE_BYTES = 1024 * 1024"

definition nonEmptyString :: "string option \<Rightarrow> string option" where
  "nonEmptyString v = (case v of None \<Rightarrow> None | Some s \<Rightarrow> if length (trim s) > 0 then Some (trim s) else None)"

definition resolveCanonicalPathWithMissingFallback :: "config_host \<Rightarrow> string \<Rightarrow> config_error + string" where
  "resolveCanonicalPathWithMissingFallback host candidatePath =
     rbind (case hs_isSymbolicLink host candidatePath of
              Inl e \<Rightarrow> if ff_code e \<noteq> ''ENOENT'' then Inl (ConfigMessage (ff_message e)) else Inr ()
            | Inr isLink \<Rightarrow>
                require (\<not> isLink) (''SWITCHMAXXER_SECRETS_PATH must not point to a symbolic link: '' @ quoted candidatePath @ ''.'')) (\<lambda>_.
     case hs_realpath host candidatePath of
       Inr p \<Rightarrow> Inr p
     | Inl e \<Rightarrow> if ff_code e = ''ENOENT'' then Inr candidatePath else Inl (ConfigMessage (ff_message e)))"

definition resolveDefaultSecretsPath :: "config_host \<Rightarrow> string" where
  "resolveDefaultSecretsPath host =
     (case getNonEmptyEnvValue ''XDG_CONFIG_HOME'' (hs_env host) of
        Some xdgConfigHome \<Rightarrow> hs_resolve host [xdgConfigHome, ''switchmaxxer'', ''secrets.json'']
      | None \<Rightarrow>
          (let configuredHomeDir = (case getNonEmptyEnvValue ''HOME'' (hs_env host) of Some h \<Rightarrow> h | None \<Rightarrow> hs_homedir host)
           in case nonEmptyString (Some configuredHomeDir) of
                Some home \<Rightarrow> hs_resolve host [home, ''.config'', ''switchmaxxer'', ''secrets.json'']
              | None \<Rightarrow> hs_resolve host [hs_cwd host, ''secrets.json'']))"

definition resolveSecretsPath :: "config_host \<Rightarrow> config_error + string" where
  "resolveSecretsPath host =
     (case getNonEmptyEnvValue ''SWITCHMAXXER_SECRETS_PATH'' (hs_env host) of
        Some explicitPath \<Rightarrow> resolveCanonicalPathWithMissingFallback host (hs_resolve host [hs_cwd host, explicitPath])
      | None \<Rightarrow> Inr (resolveDefaultSecretsPath host))"

fun api_key_override_loop ::
  "string \<Rightarrow> (string \<times> json) list \<Rightarrow> (string, string) js_map \<Rightarrow> config_error + (string, string) js_map" where
  "api_key_override_loop sourceFile [] overrides = Inr overrides"
| "api_key_override_loop sourceFile ((envVarName, v) # entries) overrides =
     rbind (assertValidSwitchmaxxerManagedEnvVarName envVarName (''api_key_overrides.'' @ envVarName) sourceFile) (\<lambda>_.
     rbind (require (isNonEmptyString (Some v))
              (sourceFile @ '' field '' @ quoted (''api_key_overrides.'' @ envVarName) @ '' must be a non-empty string.'')) (\<lambda>_.
     api_key_override_loop sourceFile entries (jm_set envVarName (the_text (Some v)) overrides)))"

definition validateApiKeyOverrides :: "json option \<Rightarrow> string \<Rightarrow> config_error + (string, string) js_map" where
  "validateApiKeyOverrides v sourceFile =
     (case v of
        None \<Rightarrow> Inr []
      | Some (JObj fs) \<Rightarrow> api_key_override_loop sourceFile fs []
      | Some _ \<Rightarrow> Inl (ConfigMessage (sourceFile @ '' field '' @ quoted ''api_key_overrides'' @ '' must be an object when provided.'')))"

record loaded_secrets =
  sc_sourceFile :: string
  sc_sourcePath :: string
  sc_apiKeyOverrides :: "(string, string) js_map"

definition readSecretsJsonObject :: "config_host \<Rightarrow> string \<Rightarrow> config_error + string \<times> json" where
  "readSecretsJsonObject host sourcePath =
     rbind (read_json_object host sourcePath (basename sourcePath) MAX_SECRETS_FILE_BYTES) (\<lambda>parsed.
     Inr (basename sourcePath, parsed))"

definition loadSecretsFile :: "config_host \<Rightarrow> string \<Rightarrow> config_error + loaded_secrets" where
  "loadSecretsFile host secretsPath =
     (let sourcePath = hs_resolve host [secretsPath]
      in rbind (readSecretsJsonObject host sourcePath) (\<lambda>(sourceFile, document).
         rbind (assertOnlyKnownKeys document [''api_key_overrides''] sourceFile) (\<lambda>_.
         rbind (validateApiKeyOverrides (jprop document ''api_key_overrides'') sourceFile) (\<lambda>overrides.
         Inr \<lparr>sc_sourceFile = sourceFile, sc_sourcePath = sourcePath, sc_apiKeyOverrides = overrides\<rparr>))))"

definition loadConfiguredSecretsFile :: "config_host \<Rightarrow> config_error + loaded_secrets" where
  "loadConfiguredSecretsFile host = rbind (resolveSecretsPath host) (loadSecretsFile host)"

definition loadOptionalConfiguredSecretsFile :: "config_host \<Rightarrow> config_error + loaded_secrets option" where
  "loadOptionalConfiguredSecretsFile host =
     rbind (resolveSecretsPath host) (\<lambda>sourcePath.
     if \<not> hs_exists host sourcePath \<and> getNonEmptyEnvValue ''SWITCHMAXXER_SECRETS_PATH'' (hs_env host) = None then Inr None
     else rbind (loadSecretsFile host sourcePath) (\<lambda>s. Inr (Some s)))"

section \<open>Loading a configuration\<close>

definition settings_default_values :: settings_defaults where
  "settings_default_values =
     \<lparr>df_bindHost = ''127.0.0.1'', df_maxConnections = 200, df_maxPayloadSize = 4000000,
      df_streamMaxLifetimeMs = 10 * 60000, df_streamMinBytesPerSecond = 16, df_streamRateWindowMs = 30000,
      df_streamMaxEventBytes = 1 * 1024 * 1024, df_streamMaxTotalBytes = 64 * 1024 * 1024,
      df_maxConcurrentStreamsPerIp = 8, df_maxConcurrentJsonParses = 4,
      df_maxBufferedUpstreamResponseBytes = 16 * 1024 * 1024, df_shutdownTimeoutMs = 30000,
      df_systemdUnit = ''switchmaxxer.service''\<rparr>"

definition benchmark_default_values :: benchmark_settings where
  "benchmark_default_values = \<lparr>bs_defaultMaxTokens = 32, bs_defaultAnthropicVersion = ''2023-06-01''\<rparr>"

record config_snapshot =
  cs_sourceFile :: string
  cs_sourcePath :: string
  cs_rawText :: string
  cs_document :: json
  cs_providers :: "(string, provider_config) js_map"
  cs_models :: "(string, model_config) js_map"
  cs_routes :: "(string, validated_route) js_map"
  cs_settings :: runtime_settings
  cs_retentionOlderThan :: "string option"
  cs_mcpCapabilities :: "mcp_capability list"
  cs_benchmark :: benchmark_settings

text \<open>The three loops over a section: the name is checked, then the entry is validated and stored.\<close>

fun section_loop ::
  "string \<Rightarrow> (string \<Rightarrow> json \<Rightarrow> config_error + 'a) \<Rightarrow> (string \<times> json) list \<Rightarrow> (string, 'a) js_map \<Rightarrow>
   config_error + (string, 'a) js_map" where
  "section_loop label validate [] acc = Inr acc"
| "section_loop label validate ((name, v) # entries) acc =
     rbind (case assertSafeObjectKey name label of Inl e \<Rightarrow> Inl (KeyRefused e) | Inr _ \<Rightarrow> Inr ()) (\<lambda>_.
     rbind (validate name v) (\<lambda>x.
     section_loop label validate entries (jm_set name x acc)))"

definition section_fields :: "json \<Rightarrow> string \<Rightarrow> string \<Rightarrow> config_error + (string \<times> json) list" where
  "section_fields candidate key sourceFile =
     (case jprop candidate key of
        Some (JObj fs) \<Rightarrow> Inr fs
      | _ \<Rightarrow> Inl (ConfigMessage (sourceFile @ '' must contain a '' @ quoted key @ '' object.'')))"

definition override_lookup :: "loaded_secrets option \<Rightarrow> env_lookup" where
  "override_lookup s = (case s of None \<Rightarrow> (\<lambda>_. None) | Some f \<Rightarrow> jm_get (sc_apiKeyOverrides f))"

definition check_inbound_key :: "env_lookup \<Rightarrow> string \<Rightarrow> string option \<Rightarrow> env_lookup \<Rightarrow> config_error + unit" where
  "check_inbound_key env sourceFile keyEnv overrides =
     (case keyEnv of
        None \<Rightarrow> Inr ()
      | Some name \<Rightarrow>
          (let inboundApiKey = resolveInboundApiKeyValue env name overrides
           in rbind (require (case inboundApiKey of Some k \<Rightarrow> non_blank k | None \<Rightarrow> False)
                       (sourceFile @ '' requires environment variable '' @ quoted name @
                        '' for inbound gateway auth, but it is not set or is empty.'')) (\<lambda>_.
              require (MIN_INBOUND_API_KEY_LENGTH \<le> length (the inboundApiKey))
                (sourceFile @ '' requires environment variable '' @ quoted name @ '' for inbound gateway auth to be at least '' @
                 digits_of_nat MIN_INBOUND_API_KEY_LENGTH @ '' characters long.''))))"

text \<open>
  The function in the order of its statements, in three parts: the document and the settings before the
  capabilities (which may warn), the secrets and the providers (after which private providers are
  warned about), the models and routes.
\<close>

definition load_document :: "config_host \<Rightarrow> string \<Rightarrow> config_error + json \<times> runtime_settings \<times> string option" where
  "load_document host configPath =
     (let sourceFile = basename configPath
      in rbind (loadJsonObject host configPath sourceFile) (\<lambda>(configDocument, _).
         rbind (assertRuntimeConfigDoesNotOwnCatalogSections configDocument sourceFile) (\<lambda>_.
         rbind (loadCatalogForConfig host configPath) (\<lambda>catalog.
         rbind (composeConfigDocumentWithCatalog configDocument catalog sourceFile) (\<lambda>candidate.
         rbind (validateRuntimeSettings candidate sourceFile settings_default_values) (\<lambda>settings.
         rbind (validateObservabilitySettings candidate sourceFile) (\<lambda>retention.
         Inr (candidate, settings, retention))))))))"

definition load_providers ::
  "config_host \<Rightarrow> string \<Rightarrow> bool \<Rightarrow> json \<Rightarrow> runtime_settings \<Rightarrow>
   config_error + benchmark_settings \<times> loaded_secrets option \<times> (string \<times> json) list \<times> (string \<times> json) list \<times>
     (string, provider_config) js_map" where
  "load_providers host sourceFile requireRuntimeEnv candidate settings =
     rbind (validateBenchmarkSettings candidate sourceFile benchmark_default_values) (\<lambda>benchmark.
     rbind (if requireRuntimeEnv then loadOptionalConfiguredSecretsFile host else Inr None) (\<lambda>secrets.
     rbind (if requireRuntimeEnv
            then check_inbound_key (hs_env host) sourceFile (st_inboundApiKeyEnv (st_inbound settings)) (override_lookup secrets)
            else Inr ()) (\<lambda>_.
     rbind (section_fields candidate ''service_providers'' sourceFile) (\<lambda>providersRecord.
     rbind (section_fields candidate ''routes'' sourceFile) (\<lambda>routesRecord.
     rbind (section_fields candidate ''models'' sourceFile) (\<lambda>modelsRecord.
     rbind (section_loop ''Provider name'' (validateServiceProviderConfig (hs_parseUrl host)) providersRecord []) (\<lambda>providers.
     Inr (benchmark, secrets, routesRecord, modelsRecord, providers))))))))"

definition load_routes ::
  "config_host \<Rightarrow> string \<Rightarrow> bool \<Rightarrow> rat \<Rightarrow> loaded_secrets option \<Rightarrow> (string \<times> json) list \<Rightarrow> (string \<times> json) list \<Rightarrow>
   (string, provider_config) js_map \<Rightarrow>
   config_error + (string, model_config) js_map \<times> (string, validated_route) js_map" where
  "load_routes host sourceFile requireRuntimeEnv timeoutMs secrets routesRecord modelsRecord providers =
     rbind (section_loop ''Model name'' validateModelConfig modelsRecord []) (\<lambda>models.
     rbind (require (routesRecord \<noteq> []) (sourceFile @ '' must define at least one route.'')) (\<lambda>_.
     rbind (section_loop ''Route name''
              (\<lambda>routeName route. validateRouteConfig (hs_env host) routeName route (jm_get providers) (jm_get models) timeoutMs
                 requireRuntimeEnv (override_lookup secrets)) routesRecord []) (\<lambda>routes.
     Inr (models, routes))))"

definition private_providers :: "(string, provider_config) js_map \<Rightarrow> string list" where
  "private_providers providers = map fst (filter (\<lambda>(_, p). pv_allow_private_endpoints p) providers)"

definition loadValidatedConfigSnapshot ::
  "config_host \<Rightarrow> string \<Rightarrow> bool \<Rightarrow> warnings \<Rightarrow> (config_error + config_snapshot) \<times> warnings" where
  "loadValidatedConfigSnapshot host configPath requireRuntimeEnv w =
     (let sourceFile = basename configPath
      in case load_document host configPath of
           Inl e \<Rightarrow> (Inl e, w)
         | Inr (candidate, settings, retention) \<Rightarrow>
             (case validateMcpSettings candidate sourceFile w of
                (Inl e, w) \<Rightarrow> (Inl e, w)
              | (Inr capabilities, w) \<Rightarrow>
                  (case load_providers host sourceFile requireRuntimeEnv candidate settings of
                     Inl e \<Rightarrow> (Inl e, w)
                   | Inr (benchmark, secrets, routesRecord, modelsRecord, providers) \<Rightarrow>
                       (rbind (load_routes host sourceFile requireRuntimeEnv (st_timeoutMs (st_stream settings)) secrets
                                 routesRecord modelsRecord providers) (\<lambda>(models, routes).
                        Inr \<lparr>cs_sourceFile = sourceFile, cs_sourcePath = configPath, cs_rawText = document_text host candidate,
                             cs_document = candidate, cs_providers = providers, cs_models = models, cs_routes = routes,
                             cs_settings = settings, cs_retentionOlderThan = retention, cs_mcpCapabilities = capabilities,
                             cs_benchmark = benchmark\<rparr>),
                        logPrivateEndpointProviderWarnings (private_providers providers) w))))"

text \<open>An absent path and the empty one both mean \<open>config.json\<close> in the working directory.\<close>

definition resolve_config_path :: "config_host \<Rightarrow> string option \<Rightarrow> string" where
  "resolve_config_path host configPath =
     (case configPath of
        Some p \<Rightarrow> if p \<noteq> [] then hs_resolve host [p] else path_join (hs_cwd host) ''config.json''
      | None \<Rightarrow> path_join (hs_cwd host) ''config.json'')"

definition load_existing :: "config_host \<Rightarrow> string option \<Rightarrow> bool \<Rightarrow> warnings \<Rightarrow> (config_error + config_snapshot) \<times> warnings" where
  "load_existing host configPath requireRuntimeEnv w =
     (let resolvedPath = resolve_config_path host configPath
      in if \<not> hs_exists host resolvedPath
         then (Inl (ConfigMessage (''Unable to find config.json at '' @ quoted resolvedPath @ ''.'')), w)
         else loadValidatedConfigSnapshot host resolvedPath requireRuntimeEnv w)"

definition loadCliValidatedConfigSnapshot :: "config_host \<Rightarrow> string option \<Rightarrow> warnings \<Rightarrow> (config_error + config_snapshot) \<times> warnings" where
  "loadCliValidatedConfigSnapshot host configPath = load_existing host configPath False"

definition loadConfig :: "config_host \<Rightarrow> string option \<Rightarrow> warnings \<Rightarrow> (config_error + config_snapshot) \<times> warnings" where
  "loadConfig host configPath = load_existing host configPath True"

section \<open>The catalog\<close>

lemma jprop_record_fields: "jprop d k = map_of (record_fields d) k"
  by (cases d) (simp_all add: record_fields_def)

lemma jprop_jset [simp]: "jprop (jset k v d) k' = (if k' = k then Some v else jprop d k')"
proof -
  have "map_of (jm_set k v fs) k' = (if k' = k then Some v else map_of fs k')" for fs :: "(string \<times> json) list"
    by (induction fs) auto
  then show ?thesis by (simp add: jset_def jprop_record_fields)
qed

lemma map_of_jm_delete [simp]: "map_of (jm_delete k fs) k' = (if k' = k then None else map_of fs k')"
  by (induction fs) (auto simp: jm_delete_def)

lemma jprop_jdelete [simp]: "jprop (jdelete k d) k' = (if k' = k then None else jprop d k')"
  by (simp add: jdelete_def jprop_record_fields)

lemma jm_delete_unset: "map_of fs k = None \<Longrightarrow> jm_delete k fs = fs"
  by (induction fs) (auto simp: jm_delete_def split: if_splits)

lemma jm_delete_set: "map_of fs k = None \<Longrightarrow> jm_delete k (jm_set k v fs) = fs"
  by (induction fs) (auto simp: jm_delete_def jm_delete_unset [unfolded jm_delete_def] split: if_splits)

lemma no_section_loop_Inr: "no_section_loop d src ks = Inr u \<longleftrightarrow> (\<forall>k\<in>set ks. jprop d k = None)"
  by (induction ks) auto

lemma compose_Inr:
  "composeConfigDocumentWithCatalog config catalog src = Inr d \<longleftrightarrow>
     (\<forall>k\<in>set CATALOG_SECTION_KEYS. jprop config k = None \<and> jprop (ct_document catalog) k \<noteq> None) \<and>
     d = jset ''models'' (the (jprop (ct_document catalog) ''models''))
          (jset ''routes'' (the (jprop (ct_document catalog) ''routes''))
            (jset ''service_providers'' (the (jprop (ct_document catalog) ''service_providers'')) config))"
  by (auto simp: composeConfigDocumentWithCatalog_def assertRuntimeConfigDoesNotOwnCatalogSections_def
      rbind_Inr_iff no_section_loop_Inr CATALOG_SECTION_KEYS_def assertCatalogSectionPresent_def)

lemma delete_set_sections:
  assumes "map_of fs a = None" "map_of fs b = None" "map_of fs c = None" "distinct [a, b, c]"
  shows "jm_delete c (jm_delete b (jm_delete a (jm_set c z (jm_set b y (jm_set a x fs))))) = fs"
  using assms
proof (induction fs)
  case Nil
  then show ?case by (auto simp: jm_delete_def)
next
  case (Cons e fs)
  then show ?case by (auto simp: jm_delete_def split: if_splits)
qed

lemma split_of_compose:
  assumes "composeConfigDocumentWithCatalog (JObj fs) catalog src = Inr d"
  shows "fst (splitEffectiveConfigDocumentForWrite d catalog) = JObj fs"
proof -
  from assms have "map_of fs ''service_providers'' = None" "map_of fs ''routes'' = None" "map_of fs ''models'' = None"
    and d: "d = jset ''models'' (the (jprop (ct_document catalog) ''models''))
          (jset ''routes'' (the (jprop (ct_document catalog) ''routes''))
            (jset ''service_providers'' (the (jprop (ct_document catalog) ''service_providers'')) (JObj fs)))"
    by (auto simp: compose_Inr CATALOG_SECTION_KEYS_def)
  from delete_set_sections [OF this(1-3)] show ?thesis
    by (simp add: splitEffectiveConfigDocumentForWrite_def CATALOG_SECTION_KEYS_def d jset_def jdelete_def)
qed

lemma map_of_optional_entries:
  "map_of (concat (map (\<lambda>k. optional_entry k (f k)) ks)) k = (if k \<in> set ks then f k else None)"
proof (induction ks)
  case (Cons x ks)
  then show ?case by (cases "f x") (auto simp: optional_entry_def)
qed simp

lemma split_keeps_sections:
  assumes "k \<in> set CATALOG_SECTION_KEYS"
  shows "jprop (snd (splitEffectiveConfigDocumentForWrite d catalog)) k = jprop d k"
proof -
  from assms have "k \<noteq> ''catalog_version''" by (auto simp: CATALOG_SECTION_KEYS_def)
  with assms show ?thesis
    by (simp add: splitEffectiveConfigDocumentForWrite_def map_of_optional_entries)
qed

lemma compose_sections:
  assumes "composeConfigDocumentWithCatalog config catalog src = Inr d" "k \<in> set CATALOG_SECTION_KEYS"
  shows "jprop d k = jprop (ct_document catalog) k"
proof -
  from assms have "jprop (ct_document catalog) k = Some (the (jprop (ct_document catalog) k))"
    by (auto simp: compose_Inr)
  with assms show ?thesis
    by (auto simp: compose_Inr CATALOG_SECTION_KEYS_def)
qed

text \<open>Writing an effective document and loading it again gives it back, up to the order of its fields.\<close>

lemma compose_of_split:
  assumes "d = JObj fs" "\<forall>k\<in>set CATALOG_SECTION_KEYS. jprop d k \<noteq> None"
    and "ct_document catalog' = snd (splitEffectiveConfigDocumentForWrite d catalog)"
  shows "\<exists>d'. composeConfigDocumentWithCatalog (fst (splitEffectiveConfigDocumentForWrite d catalog)) catalog' src = Inr d' \<and>
    (\<forall>k. jprop d' k = jprop d k)"
proof -
  let ?config = "fst (splitEffectiveConfigDocumentForWrite d catalog)"
  have config: "jprop ?config k = (if k \<in> set CATALOG_SECTION_KEYS then None else jprop d k)" for k
    by (simp add: splitEffectiveConfigDocumentForWrite_def CATALOG_SECTION_KEYS_def)
  with assms(2) obtain d' where d': "composeConfigDocumentWithCatalog ?config catalog' src = Inr d'"
    by (simp add: compose_Inr assms(3) split_keeps_sections)
  have other: "jprop d' k = jprop ?config k" if "k \<notin> set CATALOG_SECTION_KEYS" for k
    using d' that by (auto simp: compose_Inr CATALOG_SECTION_KEYS_def)
  have "jprop d' k = jprop d k" for k
    using compose_sections [OF d'] other config by (cases "k \<in> set CATALOG_SECTION_KEYS") (simp_all add: assms(3) split_keeps_sections)
  with d' show ?thesis by blast
qed

section \<open>What a loaded configuration satisfies\<close>

lemma section_loop_entry:
  assumes "section_loop label f es acc = Inr m" "jm_get m n = Some x"
  shows "jm_get acc n = Some x \<or> (\<exists>v. (n, v) \<in> set es \<and> f n v = Inr x \<and> \<not> isReservedObjectKey n)"
  using assms
proof (induction label f es acc rule: section_loop.induct)
  case (2 label f name v es acc)
  from 2(2) obtain y where y: "f name v = Inr y" and safe: "\<not> isReservedObjectKey name"
    and rest: "section_loop label f es (jm_set name y acc) = Inr m"
    by (auto simp: rbind_Inr_iff assertSafeObjectKey_def rensure_def split: sum.splits if_splits)
  from 2(1) [OF _ y rest 2(3)] safe have "jm_get (jm_set name y acc) n = Some x \<or>
      (\<exists>v. (n, v) \<in> set es \<and> f n v = Inr x \<and> \<not> isReservedObjectKey n)"
    by (simp add: assertSafeObjectKey_def rensure_def)
  then show ?case using y safe by (auto simp: jm_get_set split: if_splits)
qed simp

definition endpoint_options_of :: "provider_config \<Rightarrow> endpoint_options" where
  "endpoint_options_of p = \<lparr>allowPrivateEndpoints = pv_allow_private_endpoints p, allowInsecureHttp = pv_allow_insecure_http p\<rparr>"

definition provider_ok :: "(string \<Rightarrow> parsed_url option) \<Rightarrow> string \<Rightarrow> provider_config \<Rightarrow> bool" where
  "provider_ok parseUrl name p \<longleftrightarrow>
     is_ok (validateProviderEndpointPolicy parseUrl name (pv_endpoint p) (endpoint_options_of p)) \<and>
     (case pv_api_key p of None \<Rightarrow> True | Some k \<Rightarrow> hasSafeHttpHeaderValueCharset k) \<and>
     (case pv_api_key_env p of None \<Rightarrow> True | Some n \<Rightarrow> isValidSwitchmaxxerManagedEnvVarName n)"

lemma provider_auth_accepted:
  assumes "validate_provider_auth v owner = Inr (key, keyEnv)"
  shows "(case key of None \<Rightarrow> True | Some k \<Rightarrow> hasSafeHttpHeaderValueCharset k) \<and>
    (case keyEnv of None \<Rightarrow> True | Some n \<Rightarrow> isValidSwitchmaxxerManagedEnvVarName n)"
  using assms unfolding validate_provider_auth_def
  by (clarsimp simp: rbind_Inr_iff)
    (auto simp: assertValidSwitchmaxxerManagedEnvVarName_def split: option.splits)

lemma provider_accepted:
  assumes "validateServiceProviderConfig parseUrl name v = Inr p"
  shows "provider_ok parseUrl name p"
proof -
  from assms obtain auth where auth: "validate_provider_auth v (''Service provider '' @ quoted name) = Inr auth"
    and keys: "pv_api_key p = fst auth" "pv_api_key_env p = snd auth"
    and policy: "is_ok (validateProviderEndpointPolicy parseUrl name (pv_endpoint p) (endpoint_options_of p))"
    unfolding validateServiceProviderConfig_def Let_def
    by (clarsimp simp: rbind_Inr_iff)
      (auto simp: rbind_Inr_iff endpoint_options_of_def is_ok_def split: option.splits sum.splits)
  from auth obtain k n where "auth = (k, n)" by (cases auth)
  with provider_auth_accepted auth keys policy show ?thesis
    by (simp add: provider_ok_def)
qed

text \<open>A route with the provider it was built from.\<close>

definition route_from :: "validated_route \<Rightarrow> provider_config \<Rightarrow> bool" where
  "route_from r p \<longleftrightarrow>
     vr_baseUrl r = pv_endpoint p \<and> vr_api_mode r = pv_api_mode p \<and>
     vr_allowPrivateEndpoints r = pv_allow_private_endpoints p \<and>
     vr_inlineApiKey r = pv_api_key p \<and> vr_apiKeyEnv r = pv_api_key_env p"

lemma text_field_Inr: "text_field v f owner = Inr s \<Longrightarrow> s = the_text (jprop v f) \<and> non_blank s"
  by (auto simp: text_field_def rbind_Inr_iff isNonEmptyString_the_text)

lemma route_accepted:
  assumes "validateRouteConfig env name v providers models timeoutMs required overrides = Inr r"
  obtains p m where "providers (vr_serviceProvider r) = Some p" "route_from r p"
    "vr_apiKeyOverride r = key_override p overrides"
    "check_provider_key env (''Route '' @ quoted name) p (key_override p overrides) required = Inr ()"
    "timeoutMs > 0 \<longrightarrow> vr_timeoutMs r > 0"
proof -
  from assms obtain model p cost where
    "providers (the_text (jprop v ''service_provider'')) = Some p"
    and check: "check_provider_key env (''Route '' @ quoted name) p (key_override p overrides) required = Inr ()"
    and timeout: "route_timeout_ok (jprop v ''timeout_ms'')"
    and r: "vr_serviceProvider r = the_text (jprop v ''service_provider'')" "route_from r p"
      "vr_apiKeyOverride r = key_override p overrides"
      "vr_timeoutMs r = (case as_number (jprop v ''timeout_ms'') of Some n \<Rightarrow> n | None \<Rightarrow> timeoutMs)"
    unfolding validateRouteConfig_def Let_def route_from_def
    by (clarsimp simp: rbind_Inr_iff) (auto simp: rbind_Inr_iff dest!: text_field_Inr split: option.splits)
  moreover have "timeoutMs > 0 \<longrightarrow> vr_timeoutMs r > 0"
    using timeout r(4)
    by (cases "jprop v ''timeout_ms''" rule: as_number.cases) (auto simp: route_timeout_ok_def)
  ultimately show thesis using that by simp
qed

text \<open>The check at load time is the one the proxy makes when it sends a request.\<close>

lemma checked_key_resolves:
  assumes "check_provider_key env owner p (key_override p overrides) True = Inr ()" "route_from r p"
    and "vr_apiKeyOverride r = key_override p overrides"
    and "case pv_api_key p of None \<Rightarrow> True | Some k \<Rightarrow> hasSafeHttpHeaderValueCharset k"
  shows "is_ok (resolveRouteApiKey env (route_of r))"
  using assms
  by (auto simp: check_provider_key_def key_override_def route_from_def resolveRouteApiKey_def route_of_def
      assertValidResolvedProviderApiKey_def is_ok_def require_def rensure_def split: option.splits if_splits)

definition inbound_key_ok :: "env_lookup \<Rightarrow> env_lookup \<Rightarrow> inbound_settings \<Rightarrow> bool" where
  "inbound_key_ok env overrides i =
     (case st_inboundApiKeyEnv i of
        None \<Rightarrow> st_allowUnauthenticatedGateway i
      | Some name \<Rightarrow>
          (case resolveInboundApiKeyValue env name overrides of
             None \<Rightarrow> False | Some k \<Rightarrow> MIN_INBOUND_API_KEY_LENGTH \<le> length k))"

definition loaded_route_ok :: "config_host \<Rightarrow> bool \<Rightarrow> config_snapshot \<Rightarrow> string \<Rightarrow> validated_route \<Rightarrow> bool" where
  "loaded_route_ok host required s name r \<longleftrightarrow>
     \<not> isReservedObjectKey name \<and> vr_timeoutMs r > 0 \<and>
     (case jm_get (cs_providers s) (vr_serviceProvider r) of
        None \<Rightarrow> False
      | Some p \<Rightarrow> provider_ok (hs_parseUrl host) (vr_serviceProvider r) p \<and> route_from r p) \<and>
     (required \<longrightarrow> is_ok (resolveRouteApiKey (hs_env host) (route_of r)))"

lemma load_document_Inr:
  assumes "load_document host path = Inr (candidate, settings, retention)"
  shows "settings_ok settings"
  using assms unfolding load_document_def Let_def
  by (clarsimp simp: rbind_Inr_iff) (rule settings_accepted)

lemma load_providers_Inr:
  assumes "load_providers host src required candidate settings = Inr (benchmark, secrets, routes, models, providers)"
  shows "\<lbrakk>required; settings_ok settings\<rbrakk> \<Longrightarrow> loadOptionalConfiguredSecretsFile host = Inr secrets \<and> inbound_key_ok (hs_env host) (override_lookup secrets) (st_inbound settings)"
    and "jm_get providers n = Some p \<Longrightarrow> provider_ok (hs_parseUrl host) n p"
proof -
  from assms have
    key: "required \<Longrightarrow> loadOptionalConfiguredSecretsFile host = Inr secrets \<and> check_inbound_key (hs_env host) src (st_inboundApiKeyEnv (st_inbound settings)) (override_lookup secrets) = Inr ()"
    and loop: "\<exists>es. section_loop ''Provider name'' (validateServiceProviderConfig (hs_parseUrl host)) es [] = Inr providers"
    by (auto simp: load_providers_def rbind_Inr_iff split: if_splits)
  show "loadOptionalConfiguredSecretsFile host = Inr secrets \<and> inbound_key_ok (hs_env host) (override_lookup secrets) (st_inbound settings)" if "required" "settings_ok settings"
    using key that
    by (auto simp: check_inbound_key_def Let_def inbound_key_ok_def rbind_Inr_iff settings_ok_def inbound_settings_ok_def
        split: option.splits)
  show "provider_ok (hs_parseUrl host) n p" if "jm_get providers n = Some p"
    using section_loop_entry [OF _ that] loop provider_accepted by fastforce
qed

lemma load_routes_Inr:
  assumes "load_routes host src required timeoutMs secrets es ms providers = Inr (models, routes)" "jm_get routes n = Some r"
  obtains v where "validateRouteConfig (hs_env host) n v (jm_get providers) (jm_get models) timeoutMs required (override_lookup secrets) = Inr r"
    "\<not> isReservedObjectKey n"
proof -
  from assms(1) have "section_loop ''Route name''
      (\<lambda>name route. validateRouteConfig (hs_env host) name route (jm_get providers) (jm_get models) timeoutMs required (override_lookup secrets)) es []
      = Inr routes"
    by (auto simp: load_routes_def rbind_Inr_iff)
  from section_loop_entry [OF this assms(2)] that show thesis by auto
qed

lemma snapshot_loaded:
  assumes "loadValidatedConfigSnapshot host path required w = (Inr s, w')"
  obtains candidate w1 retention benchmark secrets es ms where
    "load_document host path = Inr (candidate, cs_settings s, retention)"
    "validateMcpSettings candidate (basename path) w = (Inr (cs_mcpCapabilities s), w1)"
    "load_providers host (basename path) required candidate (cs_settings s) = Inr (benchmark, secrets, es, ms, cs_providers s)"
    "load_routes host (basename path) required (st_timeoutMs (st_stream (cs_settings s))) secrets es ms (cs_providers s)
       = Inr (cs_models s, cs_routes s)"
    "cs_document s = candidate"
proof -
  from assms obtain candidate settings retention where doc: "load_document host path = Inr (candidate, settings, retention)"
    by (cases "load_document host path") (auto simp: loadValidatedConfigSnapshot_def)
  obtain m w1 where mcp: "validateMcpSettings candidate (basename path) w = (m, w1)" by fastforce
  from assms doc mcp obtain caps where caps: "m = Inr caps"
    by (cases m) (auto simp: loadValidatedConfigSnapshot_def)
  from assms doc mcp caps obtain benchmark secrets es ms providers where
    prov: "load_providers host (basename path) required candidate settings = Inr (benchmark, secrets, es, ms, providers)"
    by (cases "load_providers host (basename path) required candidate settings") (auto simp: loadValidatedConfigSnapshot_def)
  from assms doc mcp caps prov obtain models routes where
    routes: "load_routes host (basename path) required (st_timeoutMs (st_stream settings)) secrets es ms providers = Inr (models, routes)"
    by (cases "load_routes host (basename path) required (st_timeoutMs (st_stream settings)) secrets es ms providers")
      (auto simp: loadValidatedConfigSnapshot_def)
  from assms doc mcp caps prov routes have "cs_settings s = settings" "cs_mcpCapabilities s = caps" "cs_providers s = providers"
    "cs_models s = models" "cs_routes s = routes" "cs_document s = candidate"
    by (auto simp: loadValidatedConfigSnapshot_def)
  with doc mcp caps prov routes show thesis by (intro that) simp_all
qed

lemma loaded_routes:
  assumes "loadValidatedConfigSnapshot host path required w = (Inr s, w')" "jm_get (cs_routes s) n = Some r"
  shows "loaded_route_ok host required s n r"
proof -
  obtain candidate retention benchmark secrets es ms where doc: "load_document host path = Inr (candidate, cs_settings s, retention)"
    and prov: "load_providers host (basename path) required candidate (cs_settings s) = Inr (benchmark, secrets, es, ms, cs_providers s)"
    and routes: "load_routes host (basename path) required (st_timeoutMs (st_stream (cs_settings s))) secrets es ms (cs_providers s)
       = Inr (cs_models s, cs_routes s)"
    by (rule snapshot_loaded [OF assms(1)])
  from load_document_Inr [OF doc] have timeout: "st_timeoutMs (st_stream (cs_settings s)) > 0"
    by (simp add: settings_ok_def stream_settings_ok_def)
  from load_routes_Inr [OF routes assms(2)] obtain v where
    v: "validateRouteConfig (hs_env host) n v (jm_get (cs_providers s)) (jm_get (cs_models s)) (st_timeoutMs (st_stream (cs_settings s))) required
          (override_lookup secrets) = Inr r" and safe: "\<not> isReservedObjectKey n" .
  from route_accepted [OF v] obtain p where p: "jm_get (cs_providers s) (vr_serviceProvider r) = Some p" "route_from r p"
    "vr_apiKeyOverride r = key_override p (override_lookup secrets)"
    "check_provider_key (hs_env host) (''Route '' @ quoted n) p (key_override p (override_lookup secrets)) required = Inr ()"
    "vr_timeoutMs r > 0" using timeout by metis
  have ok: "provider_ok (hs_parseUrl host) (vr_serviceProvider r) p"
    by (rule load_providers_Inr(2) [OF prov p(1)])
  have "is_ok (resolveRouteApiKey (hs_env host) (route_of r))" if required
    using checked_key_resolves p ok that by (auto simp: provider_ok_def)
  with p ok safe show ?thesis by (simp add: loaded_route_ok_def)
qed

section \<open>An example\<close>

definition example_settings_document :: json where
  "example_settings_document = JObj
     [(''port'', JNum 8080), (''timeout_ms'', JNum 30000), (''stream_idle_timeout_ms'', JNum 15000),
      (''inbound_api_key_env'', JStr ''SWITCHMAXXER_GATE''), (''mcp'', JObj [(''capabilities'', JArr [JStr ''read''])]),
      (''rate_limit'', JObj [(''requests'', JNum 60), (''window'', JStr ''1m'')])]"

definition example_catalog_document :: json where
  "example_catalog_document = JObj
     [(''catalog_version'', JNum 1),
      (''service_providers'', JObj [(''p'', JObj [(''endpoint'', JStr ''u''), (''api_key_env'', JStr ''SWITCHMAXXER_P''), (''api_mode'', JStr ''openai'')])]),
      (''routes'', JObj [(''r'', JObj [(''model'', JStr ''m''), (''provider_model_id'', JStr ''x''), (''service_provider'', JStr ''p''), (''display_name'', JStr ''R'')])]),
      (''models'', JObj [(''m'', JObj [(''model_creator'', JStr ''a''), (''display_name'', JStr ''b'')])])]"

definition example_config_host :: config_host where
  "example_config_host =
     \<lparr>hs_cwd = ''/c'',
      hs_env = (\<lambda>n. if n = ''SWITCHMAXXER_GATE'' then Some (replicate 32 (CHR ''k'')) else if n = ''SWITCHMAXXER_P'' then Some ''pk'' else None),
      hs_homedir = ''/h'', hs_resolve = last,
      hs_exists = (\<lambda>p. p = ''/c/config.json'' \<or> p = ''/c/catalog.json''),
      hs_isSymbolicLink = (\<lambda>_. Inr False), hs_stat = (\<lambda>_. Inr (384, 1)),
      hs_readFile = (\<lambda>p. Inr (if p = ''/c/config.json'' then ''s'' else ''c'')), hs_realpath = Inr,
      hs_parseJson = (\<lambda>t. Some (if t = ''s'' then example_settings_document else example_catalog_document)),
      hs_parseUrl = (\<lambda>_. Some example_url),
      hs_numberText = (\<lambda>_. ''1'')\<rparr>"

definition no_warnings :: warnings where
  "no_warnings = \<lparr>wn_mcpSources = [], wn_privateProviders = [], wn_log = []\<rparr>"

lemma example_documents_fit:
  "assertJsonValueWithinBounds (hard_json_bounds\<lparr>maxSerializedBytes := n\<rparr>) example_settings_document = Inr ()"
  "assertJsonValueWithinBounds (hard_json_bounds\<lparr>maxSerializedBytes := n\<rparr>) example_catalog_document = Inr ()"
  by (simp_all add: json_within_bounds_iff hard_json_bounds_def node_count.simps json_depth.simps max_list_def
      example_settings_document_def example_catalog_document_def)

lemma example_nesting:
  "assertRawJsonNestingWithinBounds ''s'' (maxDepth hard_json_bounds) = Inr ()"
  "assertRawJsonNestingWithinBounds ''c'' (maxDepth hard_json_bounds) = Inr ()"
  by (simp_all add: assertRawJsonNestingWithinBounds_def raw_step_def hard_json_bounds_def)

lemma example_read:
  "read_json_object example_config_host ''/c/config.json'' ''config.json'' MAX_CONFIG_FILE_BYTES = Inr example_settings_document"
  "read_json_object example_config_host ''/c/catalog.json'' ''catalog.json'' MAX_CONFIG_FILE_BYTES = Inr example_catalog_document"
proof -
  have "isRecord (Some example_settings_document)" "isRecord (Some example_catalog_document)"
    by (simp_all add: example_settings_document_def example_catalog_document_def)
  moreover have "readConfigTextWithinLimit example_config_host ''/c/config.json'' ''config.json'' MAX_CONFIG_FILE_BYTES = Inr ''s''"
    "readConfigTextWithinLimit example_config_host ''/c/catalog.json'' ''catalog.json'' MAX_CONFIG_FILE_BYTES = Inr ''c''"
    by (simp_all add: readConfigTextWithinLimit_def inspect_file_def insecure_mode_def example_config_host_def
        MAX_CONFIG_FILE_BYTES_def)
  ultimately show
    "read_json_object example_config_host ''/c/config.json'' ''config.json'' MAX_CONFIG_FILE_BYTES = Inr example_settings_document"
    "read_json_object example_config_host ''/c/catalog.json'' ''catalog.json'' MAX_CONFIG_FILE_BYTES = Inr example_catalog_document"
    by (simp_all add: read_json_object_def parseJsonWithinBounds_def example_documents_fit example_nesting require_def
        byte_length_def code_unit_def MAX_CONFIG_FILE_BYTES_def example_config_host_def)
qed

definition example_effective_document :: json where
  "example_effective_document =
     JObj (record_fields example_settings_document @ [(''config_version'', JNum 1)] @ tl (record_fields example_catalog_document))"

lemma example_migrated:
  "loadJsonObject example_config_host ''/c/config.json'' ''config.json'' =
     Inr (jset ''config_version'' (JNum 1) example_settings_document,
          document_text example_config_host (jset ''config_version'' (JNum 1) example_settings_document))"
  by (simp add: loadJsonObject_def example_read migrateConfigDocumentToCurrentVersion_def migrate_document_def
      CURRENT_CONFIG_VERSION_def) (simp add: example_settings_document_def)

lemma example_catalog:
  "\<exists>catalog. loadCatalogForConfig example_config_host ''/c/config.json'' = Inr catalog \<and> ct_document catalog = example_catalog_document"
proof -
  have path: "resolveCatalogPathForConfig example_config_host ''/c/config.json'' = ''/c/catalog.json''"
    "basename ''/c/catalog.json'' = ''catalog.json''"
    by (simp_all add: resolveCatalogPathForConfig_def path_join_def dirname_def basename_def example_config_host_def)
  show ?thesis
    by (simp add: loadCatalogForConfig_def loadCatalogJsonObject_def path example_read
        migrateCatalogDocumentToCurrentVersion_def migrate_document_def CURRENT_CATALOG_VERSION_def)
      (simp add: example_catalog_document_def require_def assertOnlyKnownKeys_def CATALOG_SECTION_KEYS_def Let_def)
qed

lemma example_composed:
  assumes "ct_document catalog = example_catalog_document"
  shows "composeConfigDocumentWithCatalog (jset ''config_version'' (JNum 1) example_settings_document) catalog src =
     Inr example_effective_document"
  by (simp add: composeConfigDocumentWithCatalog_def assertRuntimeConfigDoesNotOwnCatalogSections_def CATALOG_SECTION_KEYS_def
      assertCatalogSectionPresent_def assms require_def)
    (simp add: example_settings_document_def example_catalog_document_def example_effective_document_def jset_def)

lemmas example_field_defs = positive_number_def positive_integer_def non_empty_text_def flag_setting_def boolean_field_def
  or_default_def require_def isNonEmptyString_def getNullableStringField_def Let_def

lemma example_checks:
  "isLoopbackHostname ''127.0.0.1'' False" "\<not> isWildcardBindHostname ''127.0.0.1''"
  "isValidSwitchmaxxerManagedEnvVarName ''SWITCHMAXXER_GATE''" "isValidSwitchmaxxerManagedEnvVarName ''SWITCHMAXXER_P''"
  "isValidSystemdUnitName ''switchmaxxer.service''"
  "\<not> isPrivateOrLocalHostname ''api.test''" "\<not> looksLikeNonCanonicalNumericHostname ''api.test''"
  "\<not> isReservedObjectKey ''p''" "\<not> isReservedObjectKey ''m''" "\<not> isReservedObjectKey ''r''"
  "hasSafeHttpHeaderValueCharset ''pk''"
  by code_simp+

lemma example_window: "parseRateLimitWindowMs ''1m'' = Some 60000"
  by (simp add: parseRateLimitWindowMs_def rate_window_match_def parse_int_digits_def round_double_small
      canonical_positive_def is_digit_def code_unit_def js_string_defs Let_def)

lemma example_settings:
  "\<exists>s. validateRuntimeSettings example_effective_document src settings_default_values = Inr s \<and>
     st_inboundApiKeyEnv (st_inbound s) = Some ''SWITCHMAXXER_GATE''"
proof -
  let ?d = "example_effective_document"
  note documents = example_effective_document_def example_settings_document_def example_catalog_document_def
  have "\<exists>t. validate_stream_settings ?d src settings_default_values = Inr t"
    by (simp add: validate_stream_settings_def assertOnlyKnownConfigDocumentKeys_def assertOnlyKnownKeys_def
        CONFIG_DOCUMENT_TOP_LEVEL_KEYS_def example_field_defs settings_default_values_def documents)
  moreover obtain c where c: "validate_capacity_settings ?d src settings_default_values = Inr c"
    and bind: "st_bindHost c = ''127.0.0.1''" "\<not> st_allowRemoteBind c" "\<not> st_allowWildcardBind c"
    by (simp add: validate_capacity_settings_def example_field_defs settings_default_values_def non_blank_def js_string_defs
        documents)
  moreover have "\<exists>i. validate_inbound_settings ?d src c = Inr i \<and> st_inboundApiKeyEnv i = Some ''SWITCHMAXXER_GATE''"
    by (simp add: validate_inbound_settings_def inbound_key_env_ok_def example_field_defs non_blank_def js_string_defs
        assertValidSwitchmaxxerManagedEnvVarName_def example_checks assertGatewayBindPolicy_def bind_of_def bind documents)
  moreover have "\<exists>p. validate_process_settings ?d src settings_default_values = Inr p"
    by (simp add: example_window validate_process_settings_def assertOnlyKnownKeys_def example_field_defs non_blank_def js_string_defs
        assertValidSystemdUnitName_def example_checks settings_default_values_def documents)
  ultimately show ?thesis
    by (auto simp: validateRuntimeSettings_def)
qed

lemma example_document_loaded:
  "\<exists>s retention. load_document example_config_host ''/c/config.json'' = Inr (example_effective_document, s, retention) \<and>
     st_inboundApiKeyEnv (st_inbound s) = Some ''SWITCHMAXXER_GATE''"
proof -
  obtain catalog where catalog: "loadCatalogForConfig example_config_host ''/c/config.json'' = Inr catalog"
    and doc: "ct_document catalog = example_catalog_document" using example_catalog by blast
  obtain s where s: "validateRuntimeSettings example_effective_document ''config.json'' settings_default_values = Inr s"
    "st_inboundApiKeyEnv (st_inbound s) = Some ''SWITCHMAXXER_GATE''" using example_settings by blast
  have base: "basename ''/c/config.json'' = ''config.json''" by (simp add: basename_def)
  have owns: "assertRuntimeConfigDoesNotOwnCatalogSections (jset ''config_version'' (JNum 1) example_settings_document) ''config.json'' = Inr ()"
    by (simp add: assertRuntimeConfigDoesNotOwnCatalogSections_def CATALOG_SECTION_KEYS_def example_settings_document_def)
  have "validateObservabilitySettings example_effective_document ''config.json'' = Inr None"
    by (simp add: validateObservabilitySettings_def example_effective_document_def example_settings_document_def
        example_catalog_document_def)
  with catalog s owns show ?thesis
    by (simp add: load_document_def base example_migrated example_composed [OF doc])
qed

lemma example_providers_loaded:
  assumes "st_inboundApiKeyEnv (st_inbound settings) = Some ''SWITCHMAXXER_GATE''"
  shows "\<exists>benchmark providers. load_providers example_config_host ''config.json'' True example_effective_document settings =
      Inr (benchmark, None, [(''r'', JObj [(''model'', JStr ''m''), (''provider_model_id'', JStr ''x''), (''service_provider'', JStr ''p''),
                                   (''display_name'', JStr ''R'')])],
           [(''m'', JObj [(''model_creator'', JStr ''a''), (''display_name'', JStr ''b'')])], [(''p'', providers)]) \<and>
      pv_api_key providers = None \<and> pv_api_key_env providers = Some ''SWITCHMAXXER_P'' \<and> \<not> pv_allow_private_endpoints providers"
proof -
  have secrets: "loadOptionalConfiguredSecretsFile example_config_host = Inr None"
    by (simp add: loadOptionalConfiguredSecretsFile_def resolveSecretsPath_def resolveDefaultSecretsPath_def
        getNonEmptyEnvValue_def getEnvValue_def nonEmptyString_def js_string_defs example_config_host_def)
  have key: "check_inbound_key (hs_env example_config_host) ''config.json'' (Some ''SWITCHMAXXER_GATE'') (override_lookup None) = Inr ()"
    by (simp add: check_inbound_key_def resolveInboundApiKeyValue_def resolveInboundApiKey_def override_lookup_def
        example_config_host_def js_string_defs non_blank_def require_def MIN_INBOUND_API_KEY_LENGTH_def numeral_eq_Suc)
  have policy: "\<exists>u. validateProviderEndpointPolicy (hs_parseUrl example_config_host) ''p'' ''u''
       \<lparr>allowPrivateEndpoints = False, allowInsecureHttp = False\<rparr> = Inr u"
    by (simp add: validateProviderEndpointPolicy_def example_config_host_def example_url_def example_checks)
  have auth: "validate_provider_auth (JObj [(''endpoint'', JStr ''u''), (''api_key_env'', JStr ''SWITCHMAXXER_P''), (''api_mode'', JStr ''openai'')])
      owner = Inr (None, Some ''SWITCHMAXXER_P'')" for owner
    by (simp add: validate_provider_auth_def example_field_defs non_blank_def js_string_defs
        assertValidSwitchmaxxerManagedEnvVarName_def example_checks)
  have "\<exists>p. validateServiceProviderConfig (hs_parseUrl example_config_host) ''p''
      (JObj [(''endpoint'', JStr ''u''), (''api_key_env'', JStr ''SWITCHMAXXER_P''), (''api_mode'', JStr ''openai'')]) = Inr p \<and>
      pv_api_key p = None \<and> pv_api_key_env p = Some ''SWITCHMAXXER_P'' \<and> \<not> pv_allow_private_endpoints p"
    using policy
    by (auto simp: validateServiceProviderConfig_def assertOnlyKnownKeys_def PROVIDER_KEYS_def example_field_defs non_blank_def
        js_string_defs auth normalizeApiMode_def)
  then show ?thesis
    using secrets key assms
    by (auto simp: load_providers_def validateBenchmarkSettings_def section_fields_def assertSafeObjectKey_def rensure_def
        example_checks example_effective_document_def example_settings_document_def example_catalog_document_def)
qed

lemma example_routes_loaded:
  assumes "pv_api_key p = None" "pv_api_key_env p = Some ''SWITCHMAXXER_P''" "\<not> pv_allow_private_endpoints p"
  shows "\<exists>models r. load_routes example_config_host ''config.json'' True timeoutMs None
      [(''r'', JObj [(''model'', JStr ''m''), (''provider_model_id'', JStr ''x''), (''service_provider'', JStr ''p''), (''display_name'', JStr ''R'')])]
      [(''m'', JObj [(''model_creator'', JStr ''a''), (''display_name'', JStr ''b'')])] [(''p'', p)] = Inr (models, [(''r'', r)]) \<and>
      \<not> vr_allowPrivateEndpoints r"
proof -
  have key: "check_provider_key (hs_env example_config_host) owner p (key_override p (override_lookup None)) True = Inr ()" for owner
    using assms
    by (simp add: check_provider_key_def key_override_def override_lookup_def example_config_host_def non_blank_def js_string_defs
        example_checks require_def)
  show ?thesis
    by (simp add: load_routes_def validateModelConfig_def validateRouteConfig_def assertOnlyKnownKeys_def ROUTE_KEYS_def
        example_field_defs text_field_def optional_cost_def non_blank_def js_string_defs assertSafeObjectKey_def example_checks
        route_timeout_ok_def jm_get_def key assms)
qed

lemma example_loads:
  "\<exists>s w. loadConfig example_config_host (Some ''/c/config.json'') no_warnings = (Inr s, w) \<and>
     (\<exists>r. jm_get (cs_routes s) ''r'' = Some r \<and> \<not> vr_allowPrivateEndpoints r)"
proof -
  obtain settings retention where doc: "load_document example_config_host ''/c/config.json'' = Inr (example_effective_document, settings, retention)"
    and key: "st_inboundApiKeyEnv (st_inbound settings) = Some ''SWITCHMAXXER_GATE''"
    using example_document_loaded by blast
  have mcp: "validateMcpSettings example_effective_document ''config.json'' no_warnings = (Inr [Read], no_warnings)"
    by (simp add: validateMcpSettings_def assertOnlyKnownKeys_def capability_of_def ALL_MCP_TOOL_CAPABILITIES_def
        example_effective_document_def example_settings_document_def example_catalog_document_def)
  note prov = example_providers_loaded [OF key]
  have base: "basename ''/c/config.json'' = ''config.json''" by (simp add: basename_def)
  have path: "resolve_config_path example_config_host (Some ''/c/config.json'') = ''/c/config.json''"
    "hs_exists example_config_host ''/c/config.json''"
    by (simp_all add: resolve_config_path_def example_config_host_def)
  from prov obtain benchmark p routes models where p:
    "load_providers example_config_host ''config.json'' True example_effective_document settings = Inr (benchmark, None, routes, models, [(''p'', p)])"
    and "\<exists>ms r. load_routes example_config_host ''config.json'' True (st_timeoutMs (st_stream settings)) None routes models [(''p'', p)] = Inr (ms, [(''r'', r)]) \<and>
      \<not> vr_allowPrivateEndpoints r"
    using example_routes_loaded [of _ "st_timeoutMs (st_stream settings)"] by metis
  then show ?thesis
    by (auto simp: loadConfig_def load_existing_def path loadValidatedConfigSnapshot_def base doc mcp jm_get_def Let_def)
qed

section \<open>Properties\<close>

lemma loaded_settings:
  assumes "loadValidatedConfigSnapshot host path True w = (Inr s, w')"
  shows "settings_ok (cs_settings s) \<and> (\<exists>secrets. loadOptionalConfiguredSecretsFile host = Inr secrets \<and>
    inbound_key_ok (hs_env host) (override_lookup secrets) (st_inbound (cs_settings s)))"
proof -
  obtain candidate retention benchmark secrets es ms where doc: "load_document host path = Inr (candidate, cs_settings s, retention)"
    and prov: "load_providers host (basename path) True candidate (cs_settings s) = Inr (benchmark, secrets, es, ms, cs_providers s)"
    by (rule snapshot_loaded [OF assms])
  from load_document_Inr [OF doc] load_providers_Inr(1) [OF prov] show ?thesis by blast
qed

lemma loadConfig_snapshot:
  "loadConfig host path w = (Inr s, w') \<Longrightarrow> loadValidatedConfigSnapshot host (resolve_config_path host path) True w = (Inr s, w')"
  by (auto simp: loadConfig_def load_existing_def Let_def split: if_splits)



text \<open>
  Property (secure_config_read). The text of a configuration, catalog or secrets file is only used if the
  path is no symbolic link, the mode gives nothing to group or others, and the size is within the limit.
\<close>

theorem secure_config_read:
  assumes "readConfigTextWithinLimit host p name maxBytes = Inr content"
  shows "hs_exists host p \<and> hs_isSymbolicLink host p = Inr False \<and> hs_readFile host p = Inr content \<and>
    (\<exists>mode sizeBytes. hs_stat host p = Inr (mode, sizeBytes) \<and> mode mod 64 = 0 \<and> sizeBytes \<le> maxBytes)"
  using assms
  by (auto simp: readConfigTextWithinLimit_def inspect_file_def insecure_mode_def Let_def
      split: if_splits sum.splits bool.splits prod.splits)

theorem secure_config_read_witness:
  "hs_stat example_config_host ''/c/config.json'' = Inr (384, 1) \<and>
   (\<exists>mode sizeBytes. hs_stat example_config_host ''/c/config.json'' = Inr (mode, sizeBytes) \<and> mode mod 64 = 0 \<and> sizeBytes \<le> 10)"
  using secure_config_read [of example_config_host "''/c/config.json''" "''config.json''" 10 "''s''"]
  by (simp add: readConfigTextWithinLimit_def inspect_file_def insecure_mode_def example_config_host_def)

text \<open>
  C39 (catalog_round_trip). Splitting an effective document for a write undoes composing: the
  configuration document comes back as it was, with its catalog's sections; and what is written composes
  to a document with the same fields as the one that was split.
\<close>

theorem catalog_round_trip:
  assumes "composeConfigDocumentWithCatalog (JObj fs) catalog src = Inr d"
    and "ct_document catalog' = snd (splitEffectiveConfigDocumentForWrite d catalog)"
  shows "fst (splitEffectiveConfigDocumentForWrite d catalog) = JObj fs \<and>
    (\<exists>d'. composeConfigDocumentWithCatalog (JObj fs) catalog' src' = Inr d' \<and> (\<forall>k. jprop d' k = jprop d k)) \<and>
    (\<forall>k. k \<in> set CATALOG_SECTION_KEYS \<longrightarrow> jprop (ct_document catalog') k = jprop (ct_document catalog) k)"
proof -
  from assms(1) have fs: "fst (splitEffectiveConfigDocumentForWrite d catalog) = JObj fs"
    by (rule split_of_compose)
  have present: "\<forall>k\<in>set CATALOG_SECTION_KEYS. jprop d k \<noteq> None"
    using assms(1) compose_sections [OF assms(1)] by (simp add: compose_Inr)
  from assms(1) obtain es where "d = JObj es" by (auto simp: compose_Inr jset_def)
  from compose_of_split [OF this present assms(2)] fs
  have "\<exists>d'. composeConfigDocumentWithCatalog (JObj fs) catalog' src' = Inr d' \<and> (\<forall>k. jprop d' k = jprop d k)"
    by simp
  with fs show ?thesis
    using compose_sections [OF assms(1)] by (simp add: assms(2) split_keeps_sections)
qed

definition example_loaded_catalog :: loaded_catalog where
  "example_loaded_catalog = \<lparr>ct_sourcePath = [], ct_sourceFile = [], ct_document = example_catalog_document, ct_rawText = []\<rparr>"

theorem catalog_round_trip_witness:
  "fst (splitEffectiveConfigDocumentForWrite example_effective_document example_loaded_catalog) =
     jset ''config_version'' (JNum 1) example_settings_document"
proof -
  have "jset ''config_version'' (JNum 1) example_settings_document = JObj (record_fields example_settings_document @ [(''config_version'', JNum 1)])"
    by (simp add: jset_def example_settings_document_def)
  moreover have "composeConfigDocumentWithCatalog (jset ''config_version'' (JNum 1) example_settings_document) example_loaded_catalog []
      = Inr example_effective_document"
    by (rule example_composed) (simp add: example_loaded_catalog_def)
  ultimately show ?thesis
    using catalog_round_trip [where catalog' = "example_loaded_catalog\<lparr>ct_document :=
        snd (splitEffectiveConfigDocumentForWrite example_effective_document example_loaded_catalog)\<rparr>"] by simp
qed

end
