(* ===== verification/Config_Lock.thy ===== *)
theory Config_Lock
  imports Config_Loading
begin

text \<open>
  The lock around a change of the configuration: \<open>withConfigMutationLock\<close> of \<^verbatim>\<open>config/config-file.ts\<close>.
  Processes that modify the same configuration run the function concurrently; each step below is one
  system call on the lock file (or the decision between two of them), and \<open>lock_reach\<close> interleaves the
  steps of any number of processes with the passing of time.

  Main results: a lock file is there only while its creator has not finished, so nothing is left behind
  when all processes are done; two processes are inside at the same time only after somebody removed a
  lock file that was not its own, and that does happen without any stale lock, because the function
  also removes the file when it was refused.
\<close>

section \<open>Staleness\<close>

definition CONFIG_MUTATION_LOCK_STALE_AFTER_MS :: int where
  "CONFIG_MUTATION_LOCK_STALE_AFTER_MS = 30000"

definition lock_metadata_bounds :: json_bounds where
  "lock_metadata_bounds = \<lparr>maxNodeCount = 64, maxDepth = 8, maxSerializedBytes = 4 * 1024\<rparr>"

record lock_metadata =
  lm_pid :: "rat option"
  lm_createdAtMs :: "int option"
  lm_hostname :: "string option"

definition no_metadata :: lock_metadata where
  "no_metadata = \<lparr>lm_pid = None, lm_createdAtMs = None, lm_hostname = None\<rparr>"

text \<open>
  What a process can find out: \<open>JSON.parse\<close>, \<open>Date.parse\<close>, \<open>process.kill(pid, 0)\<close>, its host name, and the
  text it writes into a lock file at a given time.
\<close>

record lock_host =
  lh_parse :: "string \<Rightarrow> json option"
  lh_parseDate :: "string \<Rightarrow> int option"
  lh_kill :: "rat \<Rightarrow> fs_failure + unit"
  lh_hostname :: "nat \<Rightarrow> string"
  lh_metadata :: "nat \<Rightarrow> int \<Rightarrow> string"

text \<open>The metadata of a lock file; \<open>None\<close> is a file that cannot be read within its limit.\<close>

definition parseConfigMutationLockMetadata :: "lock_host \<Rightarrow> string option \<Rightarrow> lock_metadata" where
  "parseConfigMutationLockMetadata lh rawText =
     (case rawText of
        None \<Rightarrow> no_metadata
      | Some content \<Rightarrow>
          (case parseJsonWithinBounds (lh_parse lh) lock_metadata_bounds content of
             Inl _ \<Rightarrow> no_metadata
           | Inr parsed \<Rightarrow>
               if \<not> isRecord (Some parsed) then no_metadata
               else \<lparr>lm_pid = (if isPositiveInteger (jprop parsed ''pid'') then as_number (jprop parsed ''pid'') else None),
                     lm_createdAtMs = Option.bind (as_string (jprop parsed ''created_at'')) (lh_parseDate lh),
                     lm_hostname = (case as_string (jprop parsed ''hostname'') of
                                      Some h \<Rightarrow> if length (trim h) > 0 then Some h else None | None \<Rightarrow> None)\<rparr>))"

definition isPidLive :: "lock_host \<Rightarrow> rat \<Rightarrow> bool" where
  "isPidLive lh pid =
     (case lh_kill lh pid of
        Inr _ \<Rightarrow> True
      | Inl e \<Rightarrow> if ff_code e = ''ESRCH'' then False else if ff_code e = ''EPERM'' then True else True)"

text \<open>A lock file: who created it, what is written in it, when it was last modified.\<close>

record lock_file =
  lf_owner :: nat
  lf_text :: string
  lf_mtimeMs :: int

definition getConfigMutationLockAgeMs :: "int \<Rightarrow> lock_file option \<Rightarrow> lock_metadata \<Rightarrow> int option" where
  "getConfigMutationLockAgeMs now file metadata =
     (case lm_createdAtMs metadata of
        Some createdAt \<Rightarrow> Some (max 0 (now - createdAt))
      | None \<Rightarrow> (case file of Some f \<Rightarrow> Some (max 0 (now - lf_mtimeMs f)) | None \<Rightarrow> None))"

definition isStaleConfigMutationLock :: "lock_host \<Rightarrow> nat \<Rightarrow> int \<Rightarrow> lock_file option \<Rightarrow> bool" where
  "isStaleConfigMutationLock lh proc now file =
     (let metadata = parseConfigMutationLockMetadata lh
            (case file of Some f \<Rightarrow> if byte_length (lf_text f) > 4 * 1024 then None else Some (lf_text f) | None \<Rightarrow> None)
      in if (case lm_pid metadata of
               Some pid \<Rightarrow> lm_hostname metadata = Some (lh_hostname lh proc) \<and> isPidLive lh pid
             | None \<Rightarrow> False) then False
         else (case getConfigMutationLockAgeMs now file metadata of
                 Some ageMs \<Rightarrow> ageMs > CONFIG_MUTATION_LOCK_STALE_AFTER_MS
               | None \<Rightarrow> False))"

section \<open>The function as a sequence of system calls\<close>

datatype lock_refusal = AlreadyModified | RecoveryRaced

datatype lock_phase =
    Starting                        \<comment> \<open>before the first \<open>openSync(lockPath, "wx")\<close>\<close>
  | Refused                         \<comment> \<open>\<open>EEXIST\<close>: decide whether the lock is stale\<close>
  | Reclaiming                      \<comment> \<open>the lock is stale: \<open>unlinkSync(lockPath)\<close>\<close>
  | Retrying                        \<comment> \<open>second \<open>openSync\<close>\<close>
  | Acquired                        \<comment> \<open>the lock file is open: \<open>writeSync\<close> of the metadata\<close>
  | Inside                          \<comment> \<open>the caller's function runs\<close>
  | Leaving "lock_refusal option"   \<comment> \<open>the \<open>finally\<close> block\<close>
  | Finished "lock_refusal option"

record lock_state =
  ls_file :: "lock_file option"
  ls_phase :: "nat \<Rightarrow> lock_phase"
  ls_now :: int
  ls_foreignRemovals :: nat         \<comment> \<open>how often a process removed a lock file it did not create\<close>

definition set_phase :: "nat \<Rightarrow> lock_phase \<Rightarrow> lock_state \<Rightarrow> lock_state" where
  "set_phase proc ph s = s\<lparr>ls_phase := (ls_phase s)(proc := ph)\<rparr>"

text \<open>\<open>openSync(lockPath, "wx", 0o600)\<close>: creates the file, or fails with \<open>EEXIST\<close>.\<close>

definition tryAcquireConfigMutationLock :: "nat \<Rightarrow> lock_phase \<Rightarrow> lock_state \<Rightarrow> lock_state" where
  "tryAcquireConfigMutationLock proc refused s =
     (case ls_file s of
        None \<Rightarrow> set_phase proc Acquired (s\<lparr>ls_file := Some \<lparr>lf_owner = proc, lf_text = [], lf_mtimeMs = ls_now s\<rparr>\<rparr>)
      | Some _ \<Rightarrow> set_phase proc refused s)"

text \<open>\<open>unlinkSync(lockPath)\<close>; that there is no file is not an error for either caller.\<close>

definition unlink_lock :: "nat \<Rightarrow> lock_state \<Rightarrow> lock_state" where
  "unlink_lock proc s =
     (case ls_file s of
        None \<Rightarrow> s
      | Some f \<Rightarrow> s\<lparr>ls_file := None, ls_foreignRemovals := ls_foreignRemovals s + (if lf_owner f = proc then 0 else 1)\<rparr>)"

text \<open>The write goes to the open file, even if the path no longer names it.\<close>

definition write_metadata :: "lock_host \<Rightarrow> nat \<Rightarrow> lock_state \<Rightarrow> lock_state" where
  "write_metadata lh proc s =
     (case ls_file s of
        None \<Rightarrow> s
      | Some f \<Rightarrow> if lf_owner f = proc then s\<lparr>ls_file := Some (f\<lparr>lf_text := lh_metadata lh proc (ls_now s), lf_mtimeMs := ls_now s\<rparr>)\<rparr> else s)"

definition withConfigMutationLock_step :: "lock_host \<Rightarrow> nat \<Rightarrow> lock_state \<Rightarrow> lock_state" where
  "withConfigMutationLock_step lh proc s =
     (case ls_phase s proc of
        Starting \<Rightarrow> tryAcquireConfigMutationLock proc Refused s
      | Refused \<Rightarrow>
          if isStaleConfigMutationLock lh proc (ls_now s) (ls_file s) then set_phase proc Reclaiming s
          else set_phase proc (Leaving (Some AlreadyModified)) s
      | Reclaiming \<Rightarrow> set_phase proc Retrying (unlink_lock proc s)
      | Retrying \<Rightarrow> tryAcquireConfigMutationLock proc (Leaving (Some RecoveryRaced)) s
      | Acquired \<Rightarrow> set_phase proc Inside (write_metadata lh proc s)
      | Inside \<Rightarrow> set_phase proc (Leaving None) s
      | Leaving r \<Rightarrow> set_phase proc (Finished r) (unlink_lock proc s)
      | Finished r \<Rightarrow> s)"

definition lock_start :: lock_state where
  "lock_start = \<lparr>ls_file = None, ls_phase = (\<lambda>_. Starting), ls_now = 0, ls_foreignRemovals = 0\<rparr>"

inductive lock_reach :: "lock_host \<Rightarrow> lock_state \<Rightarrow> bool" for lh where
  start: "lock_reach lh lock_start"
| step: "lock_reach lh s \<Longrightarrow> lock_reach lh (withConfigMutationLock_step lh proc s)"
| tick: "lock_reach lh s \<Longrightarrow> d \<ge> 0 \<Longrightarrow> lock_reach lh (s\<lparr>ls_now := ls_now s + d\<rparr>)"

section \<open>What the lock guarantees\<close>

text \<open>Whoever has created a lock file and has not yet left.\<close>

fun holding :: "lock_phase \<Rightarrow> bool" where
  "holding Acquired = True"
| "holding Inside = True"
| "holding (Leaving r) = (r = None)"
| "holding _ = False"

definition holds :: "lock_state \<Rightarrow> nat \<Rightarrow> bool" where
  "holds s proc \<longleftrightarrow> holding (ls_phase s proc)"

definition lock_inv :: "lock_state \<Rightarrow> bool" where
  "lock_inv s \<longleftrightarrow>
     (\<forall>f. ls_file s = Some f \<longrightarrow> holds s (lf_owner f)) \<and>
     (\<forall>p. ls_foreignRemovals s = 0 \<and> holds s p \<longrightarrow> map_option lf_owner (ls_file s) = Some p)"

lemma holds_set_phase [simp]: "holds (set_phase p ph s) q = (if q = p then holding ph else holds s q)"
  by (simp add: holds_def set_phase_def)

lemma set_phase_simps [simp]:
  "ls_file (set_phase p ph s) = ls_file s" "ls_foreignRemovals (set_phase p ph s) = ls_foreignRemovals s"
  "ls_now (set_phase p ph s) = ls_now s"
  by (simp_all add: set_phase_def)

lemma lock_inv_set_phase:
  assumes "lock_inv s" "holding ph = holds s p"
  shows "lock_inv (set_phase p ph s)"
  using assms by (auto simp: lock_inv_def)

lemma lock_inv_acquire:
  assumes "lock_inv s" "\<not> holds s p" "\<not> holding refused"
  shows "lock_inv (tryAcquireConfigMutationLock p refused s)"
proof (cases "ls_file s")
  case None
  let ?t = "s\<lparr>ls_file := Some \<lparr>lf_owner = p, lf_text = [], lf_mtimeMs = ls_now s\<rparr>\<rparr>"
  have "holds ?t q = holds s q" for q by (simp add: holds_def)
  with assms None show ?thesis
    by (auto simp: lock_inv_def tryAcquireConfigMutationLock_def)
next
  case (Some f)
  with assms show ?thesis by (simp add: tryAcquireConfigMutationLock_def lock_inv_set_phase)
qed

text \<open>Removing the file of another process costs the guarantee; the own file is gone with the phase.\<close>

lemma unlink_simps [simp]:
  "ls_file (unlink_lock p s) = None" "holds (unlink_lock p s) q = holds s q"
  by (simp_all add: unlink_lock_def holds_def split: option.splits)

lemma unlink_foreign:
  "ls_foreignRemovals (unlink_lock p s) = 0 \<Longrightarrow>
     ls_foreignRemovals s = 0 \<and> (\<forall>f. ls_file s = Some f \<longrightarrow> lf_owner f = p)"
  by (simp add: unlink_lock_def split: option.splits if_splits)

lemma lock_inv_unlink:
  assumes "lock_inv s" "\<not> holding ph"
  shows "lock_inv (set_phase p ph (unlink_lock p s))"
proof -
  have "\<not> holds s q" if "ls_foreignRemovals (unlink_lock p s) = 0" "q \<noteq> p" for q
  proof
    assume "holds s q"
    with assms(1) unlink_foreign [OF that(1)] have "map_option lf_owner (ls_file s) = Some q"
      unfolding lock_inv_def by blast
    with unlink_foreign [OF that(1)] that(2) show False by (cases "ls_file s") simp_all
  qed
  with assms(2) show ?thesis by (cases "ls_foreignRemovals (unlink_lock p s) = 0") (simp_all add: lock_inv_def)
qed

lemma write_simps [simp]:
  "map_option lf_owner (ls_file (write_metadata lh p s)) = map_option lf_owner (ls_file s)"
  "ls_phase (write_metadata lh p s) = ls_phase s" "ls_foreignRemovals (write_metadata lh p s) = ls_foreignRemovals s"
  by (simp_all add: write_metadata_def split: option.splits)

lemma lock_inv_owner:
  "lock_inv s \<longleftrightarrow>
     (\<forall>p. map_option lf_owner (ls_file s) = Some p \<longrightarrow> holds s p) \<and>
     (\<forall>p. ls_foreignRemovals s = 0 \<and> holds s p \<longrightarrow> map_option lf_owner (ls_file s) = Some p)"
  by (cases "ls_file s") (simp_all add: lock_inv_def)

lemma lock_inv_write: "lock_inv (write_metadata lh p s) = lock_inv s"
  by (simp add: lock_inv_owner holds_def)

lemma lock_inv_step:
  assumes "lock_inv s"
  shows "lock_inv (withConfigMutationLock_step lh p s)"
  using assms
  by (cases "ls_phase s p")
    (simp_all add: withConfigMutationLock_step_def holds_def lock_inv_write lock_inv_acquire lock_inv_set_phase lock_inv_unlink)

lemma lock_inv_reachable: "lock_reach lh s \<Longrightarrow> lock_inv s"
proof (induction rule: lock_reach.induct)
  case start
  show ?case by (simp add: lock_inv_def lock_start_def holds_def)
next
  case (step s p)
  then show ?case by (simp add: lock_inv_step)
next
  case (tick s d)
  then show ?case by (simp add: lock_inv_def holds_def)
qed

section \<open>An example\<close>

definition example_lock_host :: lock_host where
  "example_lock_host =
     \<lparr>lh_parse = (\<lambda>_. Some (JObj [(''pid'', JNum 7), (''hostname'', JStr ''h''), (''created_at'', JStr ''t'')])),
      lh_parseDate = (\<lambda>_. Some 0), lh_kill = (\<lambda>_. Inr ()), lh_hostname = (\<lambda>_. ''h''), lh_metadata = (\<lambda>_ _. ''m'')\<rparr>"

definition run_procs :: "lock_host \<Rightarrow> nat list \<Rightarrow> lock_state" where
  "run_procs lh ps = fold (withConfigMutationLock_step lh) ps lock_start"

lemma run_procs_reachable: "lock_reach lh (run_procs lh ps)"
proof -
  have "lock_reach lh s \<Longrightarrow> lock_reach lh (fold (withConfigMutationLock_step lh) ps s)" for s
    by (induction ps arbitrary: s) (simp_all add: lock_reach.step)
  then show ?thesis by (simp add: run_procs_def lock_reach.start)
qed

lemma fresh_lock_not_stale:
  assumes "lm_createdAtMs (parseConfigMutationLockMetadata lh (Some (lh_metadata lh 0 0))) \<in> {None, Some 0}"
  shows "\<not> isStaleConfigMutationLock lh p 0 (Some \<lparr>lf_owner = q, lf_text = lh_metadata lh 0 0, lf_mtimeMs = 0\<rparr>)"
  using assms
  by (auto simp: isStaleConfigMutationLock_def getConfigMutationLockAgeMs_def CONFIG_MUTATION_LOCK_STALE_AFTER_MS_def Let_def
      parseConfigMutationLockMetadata_def [of _ None] no_metadata_def)

section \<open>Properties\<close>

text \<open>
  Property (config_lock_cleaned_up). At every moment, whatever the interleaving of the processes, a lock file is
  there only while the process that created it is still between opening it and its final removal; once
  every process has returned or thrown there is no lock file.
\<close>

theorem config_lock_cleaned_up:
  assumes "lock_reach lh s"
  shows "case ls_file s of None \<Rightarrow> True | Some f \<Rightarrow> \<not> (\<exists>r. ls_phase s (lf_owner f) = Finished r) \<and> holds s (lf_owner f)"
  using lock_inv_reachable [OF assms]
  by (cases "ls_file s") (auto simp: lock_inv_def holds_def)

theorem config_lock_cleaned_up_witness:
  "\<exists>f. ls_file (run_procs example_lock_host [0, 0]) = Some f \<and> holds (run_procs example_lock_host [0, 0]) (lf_owner f)"
proof -
  have "\<exists>f. ls_file (run_procs example_lock_host [0, 0]) = Some f"
    by (simp add: run_procs_def lock_start_def withConfigMutationLock_step_def tryAcquireConfigMutationLock_def
        set_phase_def write_metadata_def)
  then show ?thesis
    using config_lock_cleaned_up [OF run_procs_reachable [of example_lock_host "[0, 0]"]] by auto
qed


lemma example_holder:
  "ls_foreignRemovals (run_procs example_lock_host [0, 0, 1]) = 0" "holds (run_procs example_lock_host [0, 0, 1]) 0"
  by (simp_all add: run_procs_def lock_start_def withConfigMutationLock_step_def tryAcquireConfigMutationLock_def
      set_phase_def write_metadata_def holds_def)


text \<open>
  Property (config_lock_lost_after_refusal). The lock does not survive a refused attempt: with no time passed and no
  stale lock, a second process that finds the lock taken is refused, removes the first one's lock file
  on its way out, and a third process enters while the first is still inside.
\<close>

theorem config_lock_lost_after_refusal:
  assumes "lm_createdAtMs (parseConfigMutationLockMetadata lh (Some (lh_metadata lh 0 0))) \<in> {None, Some 0}"
  shows "\<exists>s. lock_reach lh s \<and> ls_now s = 0 \<and> ls_phase s 0 = Inside \<and> ls_phase s 2 = Inside \<and>
    ls_phase s 1 = Finished (Some AlreadyModified)"
proof -
  have "ls_now (run_procs lh [0, 0, 1, 1, 1, 2, 2]) = 0 \<and> ls_phase (run_procs lh [0, 0, 1, 1, 1, 2, 2]) 0 = Inside \<and>
      ls_phase (run_procs lh [0, 0, 1, 1, 1, 2, 2]) 2 = Inside \<and>
      ls_phase (run_procs lh [0, 0, 1, 1, 1, 2, 2]) 1 = Finished (Some AlreadyModified)"
    using fresh_lock_not_stale [OF assms]
    by (simp add: run_procs_def lock_start_def withConfigMutationLock_step_def tryAcquireConfigMutationLock_def
        set_phase_def write_metadata_def unlink_lock_def)
  then show ?thesis using run_procs_reachable by blast
qed

theorem config_lock_lost_after_refusal_witness:
  "\<exists>s. lock_reach example_lock_host s \<and> ls_phase s 0 = Inside \<and> ls_phase s 2 = Inside"
proof -
  have "assertJsonValueWithinBounds lock_metadata_bounds (JObj [(''pid'', JNum 7), (''hostname'', JStr ''h''), (''created_at'', JStr ''t'')]) = Inr ()"
    by (simp add: json_within_bounds_iff lock_metadata_bounds_def node_count.simps json_depth.simps max_list_def)
  then have "lm_createdAtMs (parseConfigMutationLockMetadata example_lock_host (Some (lh_metadata example_lock_host 0 0))) = Some 0"
    by (simp add: parseConfigMutationLockMetadata_def parseJsonWithinBounds_def example_lock_host_def byte_length_def code_unit_def
        lock_metadata_bounds_def assertRawJsonNestingWithinBounds_def raw_step_def)
  with config_lock_lost_after_refusal [of example_lock_host] show ?thesis by auto
qed

end
