(* ===== verification/Config_Write.thy ===== *)
theory Config_Write
  imports Config_Loading
begin

text \<open>
  Writing a configuration file: the backup and the atomic replacement of \<^verbatim>\<open>config/config-file.ts\<close>. The
  disk is a map from paths to contents and modes. Every system call may fail: an operation is given a
  list of outcomes, one per call, and a call that fails has no effect. A crash is the case that every
  call from some point on fails.

  Main results: whatever fails, the file is the old one or the new one, never anything in between; a
  document with an inline provider key is written with mode 0600, and only after a backup.
\<close>

section \<open>System calls\<close>

record disk_file =
  dk_text :: string
  dk_mode :: nat

type_synonym disk = "(string, disk_file) js_map"

record io_state =
  io_disk :: disk
  io_outcomes :: "fs_failure option list"      \<comment> \<open>of the calls to come; none listed is success\<close>

type_synonym 'a io = "io_state \<Rightarrow> (config_error + 'a) \<times> io_state"

definition ioreturn :: "'a \<Rightarrow> 'a io" where
  "ioreturn x s = (Inr x, s)"

definition iothrow :: "config_error \<Rightarrow> 'a io" where
  "iothrow e s = (Inl e, s)"

definition iobind :: "'a io \<Rightarrow> ('a \<Rightarrow> 'b io) \<Rightarrow> 'b io" where
  "iobind m f s = (case m s of (Inl e, t) \<Rightarrow> (Inl e, t) | (Inr x, t) \<Rightarrow> f x t)"

definition iolift :: "config_error + 'a \<Rightarrow> 'a io" where
  "iolift r s = (r, s)"

definition syscall :: "(disk \<Rightarrow> config_error + 'a \<times> disk) \<Rightarrow> 'a io" where
  "syscall f s =
     (let t = s\<lparr>io_outcomes := drop 1 (io_outcomes s)\<rparr>
      in case io_outcomes s of
           Some e # _ \<Rightarrow> (Inl (ConfigMessage (ff_message e)), t)
         | _ \<Rightarrow> (case f (io_disk s) of Inl e \<Rightarrow> (Inl e, t) | Inr (x, d) \<Rightarrow> (Inr x, t\<lparr>io_disk := d\<rparr>)))"

text \<open>\<open>try { m } catch (e) { best-effort clean-up; throw e }\<close>\<close>

definition iocleanup :: "'a io \<Rightarrow> unit io \<Rightarrow> 'a io" where
  "iocleanup m clean s = (case m s of (Inl e, t) \<Rightarrow> (Inl e, snd (clean t)) | (Inr x, t) \<Rightarrow> (Inr x, t))"

definition missing_file :: "string \<Rightarrow> config_error" where
  "missing_file p = ConfigMessage (''ENOENT: no such file or directory, '' @ quoted p)"

definition sys_openExclusive :: "string \<Rightarrow> unit io" where
  "sys_openExclusive p = syscall (\<lambda>d.
     case jm_get d p of
       Some _ \<Rightarrow> Inl (ConfigMessage (''EEXIST: file already exists, '' @ quoted p))
     | None \<Rightarrow> Inr ((), jm_set p \<lparr>dk_text = [], dk_mode = 384\<rparr> d))"

definition on_file :: "string \<Rightarrow> (disk_file \<Rightarrow> 'a) \<Rightarrow> (disk_file \<Rightarrow> disk_file) \<Rightarrow> 'a io" where
  "on_file p get upd = syscall (\<lambda>d.
     case jm_get d p of None \<Rightarrow> Inl (missing_file p) | Some f \<Rightarrow> Inr (get f, jm_set p (upd f) d))"

definition sys_write :: "string \<Rightarrow> string \<Rightarrow> unit io" where
  "sys_write p t = on_file p (\<lambda>_. ()) (\<lambda>f. f\<lparr>dk_text := t\<rparr>)"

definition sys_close :: "string \<Rightarrow> unit io" where
  "sys_close p = syscall (\<lambda>d. Inr ((), d))"

definition sys_chmod :: "string \<Rightarrow> nat \<Rightarrow> unit io" where
  "sys_chmod p m = on_file p (\<lambda>_. ()) (\<lambda>f. f\<lparr>dk_mode := m\<rparr>)"

definition sys_stat :: "string \<Rightarrow> disk_file io" where
  "sys_stat p = on_file p (\<lambda>f. f) (\<lambda>f. f)"

definition sys_read :: "string \<Rightarrow> string io" where
  "sys_read p = on_file p dk_text (\<lambda>f. f)"

definition sys_rename :: "string \<Rightarrow> string \<Rightarrow> unit io" where
  "sys_rename p q = syscall (\<lambda>d.
     case jm_get d p of None \<Rightarrow> Inl (missing_file p) | Some f \<Rightarrow> Inr ((), jm_set q f (jm_delete p d)))"

definition sys_unlink :: "string \<Rightarrow> unit io" where
  "sys_unlink p = syscall (\<lambda>d. if jm_get d p = None then Inl (missing_file p) else Inr ((), jm_delete p d))"

definition sys_mkdir :: "string \<Rightarrow> unit io" where
  "sys_mkdir p = syscall (\<lambda>d. Inr ((), d))"

text \<open>\<open>existsSync\<close> never throws.\<close>

definition sys_exists :: "string \<Rightarrow> bool io" where
  "sys_exists p s = (Inr (jm_get (io_disk s) p \<noteq> None), s)"

section \<open>Modes and backups\<close>

definition inline_key_entry :: "json \<Rightarrow> bool" where
  "inline_key_entry v =
     (isRecord (Some v) \<and>
      (case as_string (jprop v ''api_key'') of Some k \<Rightarrow> length (trim k) > 0 | None \<Rightarrow> False))"

definition configDocumentContainsInlineProviderApiKey :: "json \<Rightarrow> bool" where
  "configDocumentContainsInlineProviderApiKey document =
     (case jprop document ''service_providers'' of
        Some (JObj providers) \<Rightarrow> list_ex (\<lambda>(_, v). inline_key_entry v) providers
      | _ \<Rightarrow> False)"

definition resolveConfigTargetMode :: "string \<Rightarrow> json \<Rightarrow> nat option io" where
  "resolveConfigTargetMode sourcePath document =
     (if configDocumentContainsInlineProviderApiKey document then ioreturn (Some 384)
      else iobind (sys_exists sourcePath) (\<lambda>there.
           if there then iobind (sys_stat sourcePath) (\<lambda>f. ioreturn (Some (dk_mode f mod 512))) else ioreturn None))"

definition parsed_has_inline_key :: "(string \<Rightarrow> json option) \<Rightarrow> string \<Rightarrow> bool" where
  "parsed_has_inline_key parse content =
     (case parseJsonWithinBounds parse (hard_json_bounds\<lparr>maxSerializedBytes := MAX_CONFIG_FILE_BYTES\<rparr>) content of
        Inr v \<Rightarrow> isRecord (Some v) \<and> configDocumentContainsInlineProviderApiKey v
      | Inl _ \<Rightarrow> False)"

definition resolveConfigBackupMode :: "(string \<Rightarrow> json option) \<Rightarrow> string \<Rightarrow> nat io" where
  "resolveConfigBackupMode parse sourcePath =
     iobind (sys_stat sourcePath) (\<lambda>f. \<lambda>s.
       (case sys_read sourcePath s of
          (Inr content, t) \<Rightarrow> (Inr (if parsed_has_inline_key parse content then 384 else dk_mode f mod 512), t)
        | (Inl _, t) \<Rightarrow> (Inr (dk_mode f mod 512), t)))"

definition assertConfigBackupSourceWithinLimit :: "string \<Rightarrow> unit io" where
  "assertConfigBackupSourceWithinLimit sourcePath =
     iobind (sys_stat sourcePath) (\<lambda>f.
       if byte_length (dk_text f) > MAX_CONFIG_FILE_BYTES
       then iothrow (ConfigMessage (''Config file '' @ quoted sourcePath @ '' exceeds the maximum supported size of '' @
              digits_of_nat (MAX_CONFIG_FILE_BYTES div (1024 * 1024)) @ '' MB; refusing to create backup.''))
       else ioreturn ())"

definition resolveConfigBackupPath :: "string \<Rightarrow> string" where
  "resolveConfigBackupPath sourcePath =
     path_join (dirname sourcePath) (''.switchmaxxer/catalog-backups/'' @ basename sourcePath @ ''.bak'')"

definition backup_temp_path :: "string \<Rightarrow> string \<Rightarrow> string" where
  "backup_temp_path backupPath rand = backupPath @ ''.tmp-'' @ rand"

definition writeConfigBackupSnapshot :: "(string \<Rightarrow> json option) \<Rightarrow> string \<Rightarrow> string \<Rightarrow> string \<Rightarrow> unit io" where
  "writeConfigBackupSnapshot parse rand sourcePath backupPath =
     iobind (assertConfigBackupSourceWithinLimit sourcePath) (\<lambda>_.
     iobind (sys_mkdir (dirname backupPath)) (\<lambda>_.
     iobind (resolveConfigBackupMode parse sourcePath) (\<lambda>backupMode.
     let tempBackupPath = backup_temp_path backupPath rand
     in iobind (sys_read sourcePath) (\<lambda>sourceBytes.
        iocleanup
          (iobind (sys_openExclusive tempBackupPath) (\<lambda>_.
           iobind (sys_write tempBackupPath sourceBytes) (\<lambda>_.
           iobind (sys_close tempBackupPath) (\<lambda>_.
           iobind (if backupMode \<noteq> 384 then sys_chmod tempBackupPath backupMode else ioreturn ()) (\<lambda>_.
           sys_rename tempBackupPath backupPath)))))
          (sys_unlink tempBackupPath)))))"

section \<open>The replacement\<close>

definition temp_path :: "string \<Rightarrow> string \<Rightarrow> string \<Rightarrow> string" where
  "temp_path sourcePath tempLabel rand = sourcePath @ ''.'' @ tempLabel @ ''-'' @ rand"

text \<open>
  \<open>rand1\<close> and \<open>rand2\<close> are the two random suffixes, \<open>validate\<close> the optional check of the temporary file.
  \<open>prepare_replacement\<close> is the body of the \<open>try\<close> up to the final rename.
\<close>

definition prepare_replacement ::
  "config_host \<Rightarrow> string \<Rightarrow> string \<Rightarrow> string \<Rightarrow> json \<Rightarrow> unit io \<Rightarrow> unit io" where
  "prepare_replacement host rand2 tempPath sourcePath document validate =
     iobind (sys_openExclusive tempPath) (\<lambda>_.
     iobind (sys_write tempPath (document_text host document)) (\<lambda>_.
     iobind (sys_close tempPath) (\<lambda>_.
     iobind (resolveConfigTargetMode sourcePath document) (\<lambda>targetMode.
     iobind (case targetMode of Some m \<Rightarrow> if m \<noteq> 384 then sys_chmod tempPath m else ioreturn () | None \<Rightarrow> ioreturn ()) (\<lambda>_.
     iobind validate (\<lambda>_.
     iobind (sys_exists sourcePath) (\<lambda>there.
     if there then writeConfigBackupSnapshot (hs_parseJson host) rand2 sourcePath (resolveConfigBackupPath sourcePath)
     else ioreturn ())))))))"

definition writeConfigJsonDocumentAtomically ::
  "config_host \<Rightarrow> string \<Rightarrow> string \<Rightarrow> string \<Rightarrow> string \<Rightarrow> json \<Rightarrow> unit io \<Rightarrow> unit io" where
  "writeConfigJsonDocumentAtomically host rand1 rand2 tempLabel sourcePath document validate =
     (let tempPath = temp_path sourcePath tempLabel rand1
      in iocleanup
           (iobind (prepare_replacement host rand2 tempPath sourcePath document validate) (\<lambda>_.
            sys_rename tempPath sourcePath))
           (sys_unlink tempPath))"

section \<open>Frame\<close>

text \<open>An operation keeps what is outside a set of paths.\<close>

definition only_touches :: "string set \<Rightarrow> 'a io \<Rightarrow> bool" where
  "only_touches P m \<longleftrightarrow> (\<forall>s p. p \<notin> P \<longrightarrow> jm_get (io_disk (snd (m s))) p = jm_get (io_disk s) p)"

named_theorems frame \<open>which paths an operation may change\<close>

lemma only_touchesD: "only_touches P m \<Longrightarrow> m s = (r, t) \<Longrightarrow> p \<notin> P \<Longrightarrow> jm_get (io_disk t) p = jm_get (io_disk s) p"
  by (metis only_touches_def snd_conv)

lemma touches_bind [frame]: "only_touches P m \<Longrightarrow> (\<And>x. only_touches P (f x)) \<Longrightarrow> only_touches P (iobind m f)"
  unfolding only_touches_def iobind_def by (auto split: prod.splits sum.splits) (metis snd_conv)+

lemma touches_cleanup [frame]: "only_touches P m \<Longrightarrow> only_touches P c \<Longrightarrow> only_touches P (iocleanup m c)"
  unfolding only_touches_def iocleanup_def by (auto split: prod.splits sum.splits) (metis snd_conv)+

lemma touches_return [frame]: "only_touches P (ioreturn x)" "only_touches P (iothrow e)" "only_touches P (sys_exists p)"
  by (simp_all add: only_touches_def ioreturn_def iothrow_def sys_exists_def)

lemma touches_syscall:
  assumes "\<And>d x d' q. f d = Inr (x, d') \<Longrightarrow> q \<notin> P \<Longrightarrow> jm_get d' q = jm_get d q"
  shows "only_touches P (syscall f)"
  using assms by (auto simp: only_touches_def syscall_def Let_def split: list.splits option.splits sum.splits)

lemma touches_on_file: "p \<in> P \<or> (\<forall>f. upd f = f) \<Longrightarrow> only_touches P (on_file p get upd)"
  unfolding on_file_def by (rule touches_syscall) (auto simp: jm_get_set split: option.splits)

lemma touches_calls [frame]:
  "p \<in> P \<Longrightarrow> only_touches P (sys_openExclusive p)" "p \<in> P \<Longrightarrow> only_touches P (sys_write p t)"
  "only_touches P (sys_close p)" "p \<in> P \<Longrightarrow> only_touches P (sys_chmod p m)" "only_touches P (sys_stat p)"
  "only_touches P (sys_read p)" "p \<in> P \<Longrightarrow> q \<in> P \<Longrightarrow> only_touches P (sys_rename p q)" "p \<in> P \<Longrightarrow> only_touches P (sys_unlink p)"
  "only_touches P (sys_mkdir p)"
  unfolding sys_openExclusive_def sys_close_def sys_rename_def sys_unlink_def sys_mkdir_def sys_write_def sys_chmod_def
    sys_stat_def sys_read_def
  by (intro touches_syscall touches_on_file; auto simp: jm_get_set jm_get_delete split: option.splits if_splits)+

lemma touches_backup_mode [frame]: "only_touches P (resolveConfigBackupMode parse p)"
  unfolding resolveConfigBackupMode_def
proof (rule touches_bind)
  fix f
  have "only_touches P (sys_read p)" by (rule frame)
  then show "only_touches P (\<lambda>s. case sys_read p s of
       (Inr content, t) \<Rightarrow> (Inr (if parsed_has_inline_key parse content then 384 else dk_mode f mod 512), t)
     | (Inl _, t) \<Rightarrow> (Inr (dk_mode f mod 512), t))"
    unfolding only_touches_def by (auto split: prod.splits sum.splits) (metis snd_conv)+
qed (rule frame)

lemma touches_target_mode [frame]: "only_touches P (resolveConfigTargetMode p d)"
  unfolding resolveConfigTargetMode_def by (auto intro!: frame)

lemma touches_backup [frame]:
  "{b, backup_temp_path b rand} \<subseteq> P \<Longrightarrow> only_touches P (writeConfigBackupSnapshot parse rand p b)"
  unfolding writeConfigBackupSnapshot_def assertConfigBackupSourceWithinLimit_def Let_def by (auto intro!: frame)

definition backup_paths :: "string \<Rightarrow> string \<Rightarrow> string set" where
  "backup_paths rand p = {resolveConfigBackupPath p, backup_temp_path (resolveConfigBackupPath p) rand}"

lemma touches_prepare [frame]:
  assumes "only_touches {} validate"
  shows "only_touches (insert temp (backup_paths rand p)) (prepare_replacement host rand temp p d validate)"
proof -
  have "only_touches (insert temp (backup_paths rand p)) validate"
    using assms by (simp add: only_touches_def)
  then show ?thesis
    unfolding prepare_replacement_def
    by (auto intro!: frame simp: backup_paths_def split: option.splits)
qed

section \<open>What a successful call did\<close>

lemma iobind_Inr: "iobind m f s = (Inr y, u) \<longleftrightarrow> (\<exists>x t. m s = (Inr x, t) \<and> f x t = (Inr y, u))"
  by (auto simp: iobind_def split: prod.splits sum.splits)

lemma iobind_Inl: "iobind m f s = (Inl e, u) \<longleftrightarrow> m s = (Inl e, u) \<or> (\<exists>x t. m s = (Inr x, t) \<and> f x t = (Inl e, u))"
  by (auto simp: iobind_def split: prod.splits sum.splits)

lemma iocleanup_Inr: "iocleanup m c s = (Inr y, u) \<longleftrightarrow> m s = (Inr y, u)"
  by (auto simp: iocleanup_def split: prod.splits sum.splits)

lemma ioreturn_iff: "ioreturn x s = (r, t) \<longleftrightarrow> r = Inr x \<and> t = s"
  by (auto simp: ioreturn_def)

lemma syscall_Inr: "syscall f s = (Inr x, t) \<Longrightarrow> \<exists>d. f (io_disk s) = Inr (x, d) \<and> io_disk t = d"
  by (auto simp: syscall_def Let_def split: list.splits option.splits sum.splits)

lemma syscall_Inl: "syscall f s = (Inl e, t) \<Longrightarrow> io_disk t = io_disk s"
  by (auto simp: syscall_def Let_def split: list.splits option.splits sum.splits)

lemma on_file_Inr:
  assumes "on_file p get upd s = (Inr x, t)"
  obtains f where "jm_get (io_disk s) p = Some f" "x = get f" "jm_get (io_disk t) p = Some (upd f)"
  using syscall_Inr [OF assms [unfolded on_file_def]] that
  by (auto simp: jm_get_set dest!: sym [of _ "io_disk t"] split: option.splits)

lemma rename_Inr:
  assumes "sys_rename p q s = (Inr x, t)"
  obtains f where "jm_get (io_disk s) p = Some f" "jm_get (io_disk t) q = Some f"
  using syscall_Inr [OF assms [unfolded sys_rename_def]] that
  by (auto simp: jm_get_set dest!: sym [of _ "io_disk t"] split: option.splits)

lemma open_Inr:
  assumes "sys_openExclusive p s = (Inr x, t)"
  shows "jm_get (io_disk t) p = Some \<lparr>dk_text = [], dk_mode = 384\<rparr>"
  using syscall_Inr [OF assms [unfolded sys_openExclusive_def]]
  by (auto simp: jm_get_set dest!: sym [of _ "io_disk t"] split: option.splits)

lemma write_Inr:
  assumes "sys_write p content s = (Inr x, t)" "jm_get (io_disk s) p = Some f"
  shows "jm_get (io_disk t) p = Some (f\<lparr>dk_text := content\<rparr>)"
  using assms by (auto simp: sys_write_def elim!: on_file_Inr)

lemma chmod_Inr:
  assumes "sys_chmod p m s = (Inr x, t)" "jm_get (io_disk s) p = Some f"
  shows "jm_get (io_disk t) p = Some (f\<lparr>dk_mode := m\<rparr>)"
  using assms by (auto simp: sys_chmod_def elim!: on_file_Inr)

text \<open>The mode a replacement ends up with.\<close>

definition new_mode :: "json \<Rightarrow> disk_file option \<Rightarrow> nat" where
  "new_mode document old =
     (if configDocumentContainsInlineProviderApiKey document then 384
      else (case old of Some f \<Rightarrow> dk_mode f mod 512 | None \<Rightarrow> 384))"

lemma target_mode_Inr:
  assumes "resolveConfigTargetMode p document s = (Inr m, t)"
  shows "(case m of Some n \<Rightarrow> n | None \<Rightarrow> 384) = new_mode document (jm_get (io_disk s) p)"
  using assms
  by (auto simp: resolveConfigTargetMode_def new_mode_def iobind_Inr ioreturn_iff sys_exists_def sys_stat_def
      elim!: on_file_Inr split: if_splits option.splits)

lemma backup_Inr:
  assumes "writeConfigBackupSnapshot parse rand p b s = (Inr x, t)" "jm_get (io_disk s) p = Some f"
    and "p \<notin> {b, backup_temp_path b rand}"
  shows "\<exists>m. jm_get (io_disk t) b = Some \<lparr>dk_text = dk_text f, dk_mode = m\<rparr>"
proof -
  let ?temp = "backup_temp_path b rand"
  from assms(1) obtain u0 s0 u1 s1 mode s2 content s3 s4 s5 s6 s7 where
    a: "assertConfigBackupSourceWithinLimit p s = (Inr u0, s0)" "sys_mkdir (dirname b) s0 = (Inr u1, s1)"
      "resolveConfigBackupMode parse p s1 = (Inr mode, s2)"
    and r: "sys_read p s2 = (Inr content, s3)"
    and w: "sys_openExclusive ?temp s3 = (Inr (), s4)" "sys_write ?temp content s4 = (Inr (), s5)"
    and c: "sys_close ?temp s5 = (Inr (), s6)"
    and m: "(if mode \<noteq> 384 then sys_chmod ?temp mode else ioreturn ()) s6 = (Inr (), s7)"
    and rn: "sys_rename ?temp b s7 = (Inr x, t)"
    by (auto simp: writeConfigBackupSnapshot_def Let_def iobind_Inr iocleanup_Inr)
  have limit: "only_touches {} (assertConfigBackupSourceWithinLimit p)"
    unfolding assertConfigBackupSourceWithinLimit_def by (auto intro!: frame)
  have "jm_get (io_disk s2) p = jm_get (io_disk s) p"
    using only_touchesD [OF limit a(1)] only_touchesD [OF touches_calls(9) [where P = "{}"] a(2)]
      only_touchesD [OF touches_backup_mode [where P = "{}"] a(3)] by auto
  with r assms(2) have content: "content = dk_text f" by (auto simp: sys_read_def elim!: on_file_Inr)
  from write_Inr [OF w(2) open_Inr [OF w(1)]] only_touchesD [OF touches_calls(3) [where P = "{}"] c, of ?temp]
  have s6: "jm_get (io_disk s6) ?temp = Some \<lparr>dk_text = content, dk_mode = 384\<rparr>" by simp
  have "\<exists>n. jm_get (io_disk s7) ?temp = Some \<lparr>dk_text = content, dk_mode = n\<rparr>"
    using m s6 chmod_Inr by (auto simp: ioreturn_iff split: if_splits)
  with rn content show ?thesis by (auto elim!: rename_Inr)
qed

lemma prepare_Inr:
  assumes "prepare_replacement host rand temp p document validate s = (Inr x, t)" "only_touches {} validate"
    and "p \<noteq> temp" "p \<notin> backup_paths rand p" "temp \<notin> backup_paths rand p"
  shows "jm_get (io_disk t) temp = Some \<lparr>dk_text = document_text host document, dk_mode = new_mode document (jm_get (io_disk s) p)\<rparr> \<and>
    (\<forall>f. jm_get (io_disk s) p = Some f \<longrightarrow>
       (\<exists>m. jm_get (io_disk t) (resolveConfigBackupPath p) = Some \<lparr>dk_text = dk_text f, dk_mode = m\<rparr>))"
proof -
  from assms(1) obtain s1 s2 s3 mode s4 s5 s6 where
    w: "sys_openExclusive temp s = (Inr (), s1)" "sys_write temp (document_text host document) s1 = (Inr (), s2)"
    and c: "sys_close temp s2 = (Inr (), s3)" and m: "resolveConfigTargetMode p document s3 = (Inr mode, s4)"
    and ch: "(case mode of Some m \<Rightarrow> if m \<noteq> 384 then sys_chmod temp m else ioreturn () | None \<Rightarrow> ioreturn ()) s4 = (Inr (), s5)"
    and v: "validate s5 = (Inr (), s6)"
    and b: "(if jm_get (io_disk s6) p \<noteq> None then writeConfigBackupSnapshot (hs_parseJson host) rand p (resolveConfigBackupPath p)
       else ioreturn ()) s6 = (Inr x, t)"
    by (auto simp: prepare_replacement_def iobind_Inr sys_exists_def)
  have p3: "jm_get (io_disk s3) p = jm_get (io_disk s) p"
    using only_touchesD [OF touches_calls(1) [of temp "{temp}"] w(1)] only_touchesD [OF touches_calls(2) [of temp "{temp}"] w(2)]
      only_touchesD [OF touches_calls(3) [where P = "{}"] c] assms(3) by simp
  from write_Inr [OF w(2) open_Inr [OF w(1)]] only_touchesD [OF touches_calls(3) [where P = "{}"] c, of temp]
    only_touchesD [OF touches_target_mode [where P = "{}"] m, of temp]
  have s4: "jm_get (io_disk s4) temp = Some \<lparr>dk_text = document_text host document, dk_mode = 384\<rparr>" by simp
  have "jm_get (io_disk s5) temp = Some \<lparr>dk_text = document_text host document, dk_mode = (case mode of Some n \<Rightarrow> n | None \<Rightarrow> 384)\<rparr>"
    using ch s4 chmod_Inr by (fastforce simp: ioreturn_iff split: option.splits if_splits)
  with target_mode_Inr [OF m] p3
  have s5: "jm_get (io_disk s5) temp = Some \<lparr>dk_text = document_text host document, dk_mode = new_mode document (jm_get (io_disk s) p)\<rparr>"
    by simp
  have "only_touches {temp} (case mode of Some m \<Rightarrow> if m \<noteq> 384 then sys_chmod temp m else ioreturn () | None \<Rightarrow> ioreturn ())"
    by (auto intro!: frame split: option.splits)
  from only_touchesD [OF this ch] only_touchesD [OF touches_target_mode [where P = "{}"] m] only_touchesD [OF assms(2) v] p3 assms(3)
  have p6: "jm_get (io_disk s6) p = jm_get (io_disk s) p" by simp
  have t: "jm_get (io_disk t) temp = jm_get (io_disk s6) temp"
  proof -
    have "only_touches (backup_paths rand p) (writeConfigBackupSnapshot (hs_parseJson host) rand p (resolveConfigBackupPath p))"
      by (rule touches_backup) (simp add: backup_paths_def)
    from b only_touchesD [OF this, of s6 "Inr x" t temp] assms(5) show ?thesis
      by (auto simp: ioreturn_iff split: if_splits)
  qed
  from s5 only_touchesD [OF assms(2) v, of temp] t backup_Inr b p6 assms(4) show ?thesis
    by (auto simp: backup_paths_def)
qed

section \<open>The paths are different\<close>

lemma basename_append:
  assumes "CHR ''/'' \<notin> set y"
  shows "basename (x @ y) = basename x @ y"
proof -
  have "takeWhile (\<lambda>c. c \<noteq> CHR ''/'') (rev y @ rev x) = rev y @ takeWhile (\<lambda>c. c \<noteq> CHR ''/'') (rev x)"
    by (rule takeWhile_append2) (use assms in auto)
  then show ?thesis by (simp add: basename_def)
qed

lemma basename_after_slash: "CHR ''/'' \<notin> set y \<Longrightarrow> basename (x @ ''/'' @ y) = y"
  using basename_append [of y "x @ ''/''"] by (simp add: basename_def)

lemma basename_no_slash: "CHR ''/'' \<notin> set (basename p)"
  by (auto simp: basename_def dest: set_takeWhileD)

lemma basename_backup: "basename (resolveConfigBackupPath p) = basename p @ ''.bak''"
proof -
  have "resolveConfigBackupPath p =
      ((if dirname p = ''/'' then [] else dirname p) @ ''/.switchmaxxer/catalog-backups'') @ ''/'' @ (basename p @ ''.bak'')"
    by (simp add: resolveConfigBackupPath_def path_join_def)
  moreover have "CHR ''/'' \<notin> set (basename p @ ''.bak'')" using basename_no_slash [of p] by simp
  ultimately show ?thesis by (metis basename_after_slash)
qed

text \<open>What is assumed of the suffixes: hexadecimal digits contain no slash.\<close>

definition plain_suffixes :: "string \<Rightarrow> string \<Rightarrow> string \<Rightarrow> bool" where
  "plain_suffixes tempLabel rand1 rand2 \<longleftrightarrow>
     tempLabel \<in> {''tmp'', ''catalog-tmp''} \<and> CHR ''/'' \<notin> set rand1 \<and> CHR ''/'' \<notin> set rand2"

lemma paths_differ:
  assumes "plain_suffixes tempLabel rand1 rand2"
  shows "p \<noteq> temp_path p tempLabel rand1" "p \<notin> backup_paths rand2 p" "temp_path p tempLabel rand1 \<notin> backup_paths rand2 p"
proof -
  have temp: "basename (temp_path p tempLabel rand1) = basename p @ ''.'' @ tempLabel @ ''-'' @ rand1"
    using assms by (auto simp: temp_path_def plain_suffixes_def intro!: basename_append)
  have backup: "basename (backup_temp_path (resolveConfigBackupPath p) rand2) = basename p @ ''.bak.tmp-'' @ rand2"
    using assms by (simp add: backup_temp_path_def plain_suffixes_def basename_append basename_backup)
  show "p \<noteq> temp_path p tempLabel rand1" by (simp add: temp_path_def)
  show "p \<notin> backup_paths rand2 p"
    using basename_backup [of p] backup by (auto simp: backup_paths_def)
  show "temp_path p tempLabel rand1 \<notin> backup_paths rand2 p"
    using basename_backup [of p] backup temp assms by (auto simp: backup_paths_def plain_suffixes_def)
qed

text \<open>The outcome of a replacement, whatever fails.\<close>

lemma replacement_outcome:
  assumes "writeConfigJsonDocumentAtomically host rand1 rand2 tempLabel p document validate s = (r, t)"
    and "only_touches {} validate" "plain_suffixes tempLabel rand1 rand2"
  shows "(case r of
      Inl _ \<Rightarrow> jm_get (io_disk t) p = jm_get (io_disk s) p
    | Inr _ \<Rightarrow>
        jm_get (io_disk t) p = Some \<lparr>dk_text = document_text host document, dk_mode = new_mode document (jm_get (io_disk s) p)\<rparr> \<and>
        (case jm_get (io_disk s) p of None \<Rightarrow> True
         | Some f \<Rightarrow> \<exists>m. jm_get (io_disk t) (resolveConfigBackupPath p) = Some \<lparr>dk_text = dk_text f, dk_mode = m\<rparr>)) \<and>
    (\<forall>q. q \<notin> {p, temp_path p tempLabel rand1} \<union> backup_paths rand2 p \<longrightarrow> jm_get (io_disk t) q = jm_get (io_disk s) q)"
proof -
  let ?temp = "temp_path p tempLabel rand1"
  let ?prepare = "prepare_replacement host rand2 ?temp p document validate"
  note differ = paths_differ [OF assms(3), of p]
  have prepare: "only_touches (insert ?temp (backup_paths rand2 p)) ?prepare"
    by (rule touches_prepare [OF assms(2)])
  have "only_touches ({p, ?temp} \<union> backup_paths rand2 p) ?prepare"
    using prepare by (simp add: only_touches_def)
  then have all: "only_touches ({p, ?temp} \<union> backup_paths rand2 p)
      (writeConfigJsonDocumentAtomically host rand1 rand2 tempLabel p document validate)"
    unfolding writeConfigJsonDocumentAtomically_def Let_def by (auto intro!: frame)
  have unlink: "jm_get (io_disk (snd (sys_unlink ?temp u))) p = jm_get (io_disk u) p" for u
    using touches_calls(8) [of ?temp "{?temp}"] differ(1) by (simp add: only_touches_def)
  show ?thesis
  proof (cases r)
    case (Inl e)
    with assms(1) obtain u where "iobind ?prepare (\<lambda>_. sys_rename ?temp p) s = (Inl e, u)" and t: "t = snd (sys_unlink ?temp u)"
      by (auto simp: writeConfigJsonDocumentAtomically_def Let_def iocleanup_def split: prod.splits sum.splits)
    then have "jm_get (io_disk u) p = jm_get (io_disk s) p"
      using only_touchesD [OF prepare, of s _ _ p] differ
      by (auto simp: iobind_Inl sys_rename_def dest!: syscall_Inl)
    with Inl t unlink only_touchesD [OF all assms(1)] show ?thesis by simp
  next
    case (Inr x)
    with assms(1) obtain u where u: "?prepare s = (Inr (), u)" and rename: "sys_rename ?temp p u = (Inr x, t)"
      by (auto simp: writeConfigJsonDocumentAtomically_def Let_def iocleanup_Inr iobind_Inr)
    have backup: "jm_get (io_disk t) (resolveConfigBackupPath p) = jm_get (io_disk u) (resolveConfigBackupPath p)"
      by (rule only_touchesD [OF touches_calls(7) [of ?temp "{?temp, p}" p] rename])
        (use differ in \<open>auto simp: backup_paths_def\<close>)
    from rename prepare_Inr [OF u assms(2) differ] Inr backup only_touchesD [OF all assms(1)] show ?thesis
      by (auto elim!: rename_Inr split: option.splits)
  qed
qed

section \<open>Properties\<close>


definition example_disk :: io_state where
  "example_disk = \<lparr>io_disk = [(''/c/config.json'', \<lparr>dk_text = ''old'', dk_mode = 416\<rparr>)],
     io_outcomes = [Some \<lparr>ff_code = ''EIO'', ff_message = ''EIO''\<rparr>]\<rparr>"


end
