(* ===== verification/Config_Read_Model.thy ===== *)
theory Config_Read_Model
  imports Config_Write
begin

text \<open>
  The views of a configuration the command line and the MCP server work with: \<^verbatim>\<open>config/read-model.ts\<close> with
  \<^verbatim>\<open>platform/masked-secret.ts\<close>.

  Main results: a document for display contains no inline provider key and is otherwise unchanged; the
  route count of a model is the number of routes that use it.
\<close>

section \<open>Masking\<close>

definition MASKED_SECRET_SENTINEL :: string where
  "MASKED_SECRET_SENTINEL = ''***masked***''"

definition MASKED_ENV_NAME_SENTINEL :: string where
  "MASKED_ENV_NAME_SENTINEL = ''(configured)''"

definition maskSecretValue :: "string option \<Rightarrow> string option" where
  "maskSecretValue v = (case v of None \<Rightarrow> None | Some _ \<Rightarrow> Some MASKED_SECRET_SENTINEL)"

definition maskSemiSensitiveEnvVarName :: "string option \<Rightarrow> string option" where
  "maskSemiSensitiveEnvVarName v =
     (case v of None \<Rightarrow> None | Some s \<Rightarrow> if length (trim s) = 0 then None else Some MASKED_ENV_NAME_SENTINEL)"

definition mask_provider :: "json \<Rightarrow> json" where
  "mask_provider v = (if inline_key_entry v then jset ''api_key'' (JStr MASKED_SECRET_SENTINEL) v else v)"

text \<open>The provider entries are changed in place, so the section keeps its position in the document.\<close>

definition sanitizeConfigDocumentForDisplay :: "json \<Rightarrow> json" where
  "sanitizeConfigDocumentForDisplay document =
     (case jprop document ''service_providers'' of
        Some (JObj providers) \<Rightarrow> jset ''service_providers'' (JObj (map (\<lambda>(n, v). (n, mask_provider v)) providers)) document
      | _ \<Rightarrow> document)"

section \<open>Reading for display and for changes\<close>

text \<open>This reader uses the default limit of \<open>parseJsonWithinBounds\<close> and always names the file \<open>config.json\<close>.\<close>

definition readRawConfigJsonObject :: "config_host \<Rightarrow> string \<Rightarrow> config_error + json \<times> string" where
  "readRawConfigJsonObject host sourcePath =
     rbind (readConfigTextWithinLimit host sourcePath ''config.json'' MAX_CONFIG_FILE_BYTES) (\<lambda>rawText.
     rbind (case parseJsonWithinBounds (hs_parseJson host) hard_json_bounds rawText of
              Inl e \<Rightarrow> Inl (DocumentJson ''config.json'' e) | Inr v \<Rightarrow> Inr v) (\<lambda>parsed.
     rbind (require (isRecord (Some parsed)) ''config.json must contain a top-level object.'') (\<lambda>_.
     rbind (migrateConfigDocumentToCurrentVersion (hs_numberText host) parsed ''config.json'') (\<lambda>document.
     Inr (document, document_text host document)))))"

definition readEffectiveConfigJsonObject :: "config_host \<Rightarrow> string \<Rightarrow> config_error + json \<times> string" where
  "readEffectiveConfigJsonObject host sourcePath =
     rbind (readRawConfigJsonObject host sourcePath) (\<lambda>(parsed, _).
     rbind (assertRuntimeConfigDoesNotOwnCatalogSections parsed (basename sourcePath)) (\<lambda>_.
     rbind (loadCatalogForConfig host sourcePath) (\<lambda>catalog.
     rbind (composeConfigDocumentWithCatalog parsed catalog (basename sourcePath)) (\<lambda>document.
     Inr (document, document_text host document)))))"

definition resolveCliConfigPath :: "config_host \<Rightarrow> string option \<Rightarrow> string" where
  "resolveCliConfigPath host configPath = resolve_config_path host configPath"

definition loadConfigDocumentForDisplay :: "config_host \<Rightarrow> string option \<Rightarrow> config_error + string \<times> string \<times> json \<times> string" where
  "loadConfigDocumentForDisplay host configPath =
     (let sourcePath = resolveCliConfigPath host configPath
      in rbind (readEffectiveConfigJsonObject host sourcePath) (\<lambda>(parsed, _).
         let document = sanitizeConfigDocumentForDisplay parsed
         in Inr (basename sourcePath, sourcePath, document, document_text host document)))"

text \<open>Here a JSON error is not wrapped.\<close>

definition loadRawConfigJsonDocument :: "config_host \<Rightarrow> string option \<Rightarrow> config_error + string \<times> string \<times> json" where
  "loadRawConfigJsonDocument host configPath =
     (let sourcePath = resolveCliConfigPath host configPath; sourceFile = basename sourcePath
      in rbind (readConfigTextWithinLimit host sourcePath sourceFile MAX_CONFIG_FILE_BYTES) (\<lambda>rawText.
         rbind (case parseJsonWithinBounds (hs_parseJson host) (hard_json_bounds\<lparr>maxSerializedBytes := MAX_CONFIG_FILE_BYTES\<rparr>) rawText of
                  Inl e \<Rightarrow> Inl (DocumentJson [] e) | Inr v \<Rightarrow> Inr v) (\<lambda>parsed.
         rbind (require (isRecord (Some parsed)) (sourceFile @ '' must contain a top-level object.'')) (\<lambda>_.
         rbind (migrateConfigDocumentToCurrentVersion (hs_numberText host) parsed sourceFile) (\<lambda>document.
         Inr (sourcePath, sourceFile, document))))))"

definition loadConfigJsonDocument :: "config_host \<Rightarrow> string option \<Rightarrow> config_error + string \<times> string \<times> json" where
  "loadConfigJsonDocument host configPath =
     (let sourcePath = resolveCliConfigPath host configPath
      in rbind (readEffectiveConfigJsonObject host sourcePath) (\<lambda>(parsed, _). Inr (sourcePath, basename sourcePath, parsed)))"

definition resolveConfiguredObservabilityRetentionOlderThan :: "config_host \<Rightarrow> string option \<Rightarrow> config_error + string option" where
  "resolveConfiguredObservabilityRetentionOlderThan host configPath =
     rbind (loadConfigJsonDocument host configPath) (\<lambda>(_, sourceFile, document).
     case jprop document ''observability'' of
       None \<Rightarrow> Inr None
     | Some (JObj fs) \<Rightarrow>
         (case map_of fs ''retention'' of
            None \<Rightarrow> Inr None
          | Some (JObj gs) \<Rightarrow>
              (case map_of gs ''older_than'' of
                 None \<Rightarrow> Inr None
               | Some JNull \<Rightarrow> Inr None
               | Some v \<Rightarrow>
                   rbind (require (isRetentionDurationString (as_string (Some v)))
                            (sourceFile @ '' field '' @ quoted ''observability.retention.older_than'' @ '' must be a duration like '' @
                             quoted ''14d'' @ '', '' @ quoted ''168h'' @ '', '' @ quoted ''30m'' @ '', or '' @ quoted ''2w'' @ ''.'')) (\<lambda>_.
                   Inr (as_string (Some v))))
          | Some _ \<Rightarrow> Inl (ConfigMessage (sourceFile @ '' field '' @ quoted ''observability.retention'' @ '' must be an object when provided.'')))
     | Some _ \<Rightarrow> Inl (ConfigMessage (sourceFile @ '' field '' @ quoted ''observability'' @ '' must be an object when provided.'')))"

section \<open>The read model\<close>

datatype auth_source = inline_override | secrets_override | env_var | not_required

definition getAuthSource :: "provider_config \<Rightarrow> (string, string) js_map \<Rightarrow> auth_source" where
  "getAuthSource provider apiKeyOverrides =
     (if pv_api_key provider \<noteq> None then inline_override
      else (case pv_api_key_env provider of
              Some n \<Rightarrow> if jm_get apiKeyOverrides n \<noteq> None then secrets_override else env_var
            | None \<Rightarrow> not_required))"

record model_read_model =
  mr_name :: string
  mr_display_name :: string
  mr_model_creator :: string
  mr_route_count :: nat
  mr_cost :: "cost_config option"

record provider_read_model =
  pm_name :: string
  pm_endpoint :: string
  pm_api_mode :: api_mode
  pm_anthropic_version :: "string option"
  pm_model_id_format :: model_id_format
  pm_api_key_env :: "string option"
  pm_api_key_masked :: "string option"
  pm_allow_private_endpoints :: bool
  pm_allow_insecure_http :: bool
  pm_auth_source :: auth_source

record route_read_model =
  rm_name :: string
  rm_model :: string
  rm_service_provider :: string
  rm_provider_model_id :: string
  rm_display_name :: string
  rm_api_mode :: api_mode
  rm_cost :: "cost_config option"
  rm_model_cost :: "cost_config option"
  rm_effective_cost :: "cost_config option"
  rm_timeout_ms :: "rat option"
  rm_effective_timeout_ms :: rat

record cli_read_model =
  cr_sourceFile :: string
  cr_sourcePath :: string
  cr_rawText :: string
  cr_models :: "model_read_model list"
  cr_providers :: "provider_read_model list"
  cr_routes :: "route_read_model list"

definition safe_name :: "string \<Rightarrow> string \<Rightarrow> config_error + unit" where
  "safe_name name label = (case assertSafeObjectKey name label of Inl e \<Rightarrow> Inl (KeyRefused e) | Inr _ \<Rightarrow> Inr ())"

definition route_view :: "config_snapshot \<Rightarrow> string \<times> json \<Rightarrow> config_error + route_read_model" where
  "route_view snapshot entry =
     (case entry of (name, route) \<Rightarrow>
        rbind (safe_name name ''Route name'') (\<lambda>_.
        rbind (require (isRecord (Some route)) (''Route '' @ quoted name @ '' must be stored as an object in config.json.'')) (\<lambda>_.
        let modelName = the_text (jprop route ''model'')
        in case jm_get (cs_routes snapshot) name of
             None \<Rightarrow> Inl (ConfigMessage (''Route '' @ quoted name @ '' is missing normalized route config''))
           | Some routeConfig \<Rightarrow>
               (case jm_get (cs_models snapshot) modelName of
                  None \<Rightarrow> Inl (ConfigMessage (''Route '' @ quoted name @ '' references missing model '' @ quoted modelName @ '' in read model snapshot''))
                | Some model \<Rightarrow>
                    Inr \<lparr>rm_name = name, rm_model = modelName, rm_service_provider = the_text (jprop route ''service_provider''),
                         rm_provider_model_id = the_text (jprop route ''provider_model_id''),
                         rm_display_name = the_text (jprop route ''display_name''), rm_api_mode = vr_api_mode routeConfig,
                         rm_cost = vr_cost routeConfig, rm_model_cost = md_cost model,
                         rm_effective_cost = (case vr_cost routeConfig of Some c \<Rightarrow> Some c | None \<Rightarrow> md_cost model),
                         rm_timeout_ms = vr_routeTimeoutMs routeConfig, rm_effective_timeout_ms = vr_timeoutMs routeConfig\<rparr>))))"

definition count_of :: "(string, nat) js_map \<Rightarrow> string \<Rightarrow> nat" where
  "count_of counts m = (case jm_get counts m of Some n \<Rightarrow> n | None \<Rightarrow> 0)"

definition count_route :: "route_read_model \<Rightarrow> (string, nat) js_map \<Rightarrow> (string, nat) js_map" where
  "count_route route counts =
     (if length (rm_model route) > 0 then jm_set (rm_model route) (count_of counts (rm_model route) + 1) counts else counts)"

definition routeCountsByModel :: "route_read_model list \<Rightarrow> (string, nat) js_map" where
  "routeCountsByModel routes = fold count_route routes []"

definition model_view :: "config_snapshot \<Rightarrow> (string, nat) js_map \<Rightarrow> string \<times> json \<Rightarrow> config_error + model_read_model" where
  "model_view snapshot counts entry =
     (case entry of (name, _) \<Rightarrow>
        rbind (safe_name name ''Model name'') (\<lambda>_.
        case jm_get (cs_models snapshot) name of
          None \<Rightarrow> Inl (ConfigMessage (''Model '' @ quoted name @ '' is missing from read model snapshot''))
        | Some model \<Rightarrow>
            Inr \<lparr>mr_name = name, mr_display_name = md_display_name model, mr_model_creator = md_model_creator model,
                 mr_route_count = count_of counts name, mr_cost = md_cost model\<rparr>))"

definition provider_view :: "(string, string) js_map \<Rightarrow> string \<times> provider_config \<Rightarrow> config_error + provider_read_model" where
  "provider_view overrides entry =
     (case entry of (name, p) \<Rightarrow>
        rbind (safe_name name ''Provider name'') (\<lambda>_.
        Inr \<lparr>pm_name = name, pm_endpoint = pv_endpoint p, pm_api_mode = pv_api_mode p,
             pm_anthropic_version = pv_anthropic_version p, pm_model_id_format = pv_model_id_format p,
             pm_api_key_env = pv_api_key_env p,
             pm_api_key_masked = (case pv_api_key p of None \<Rightarrow> None | Some _ \<Rightarrow> Some MASKED_SECRET_SENTINEL),
             pm_allow_private_endpoints = pv_allow_private_endpoints p, pm_allow_insecure_http = pv_allow_insecure_http p,
             pm_auth_source = getAuthSource p overrides\<rparr>))"

definition object_fields :: "json option \<Rightarrow> (string \<times> json) list" where
  "object_fields v = (case v of Some (JObj fs) \<Rightarrow> fs | _ \<Rightarrow> [])"

definition build_read_model :: "config_snapshot \<Rightarrow> (string, string) js_map \<Rightarrow> config_error + cli_read_model" where
  "build_read_model snapshot overrides =
     rbind (rtraverse (route_view snapshot) (object_fields (jprop (cs_document snapshot) ''routes''))) (\<lambda>routes.
     rbind (rtraverse (model_view snapshot (routeCountsByModel routes)) (object_fields (jprop (cs_document snapshot) ''models''))) (\<lambda>models.
     rbind (rtraverse (provider_view overrides) (cs_providers snapshot)) (\<lambda>providers.
     Inr \<lparr>cr_sourceFile = cs_sourceFile snapshot, cr_sourcePath = cs_sourcePath snapshot, cr_rawText = cs_rawText snapshot,
          cr_models = models, cr_providers = providers, cr_routes = routes\<rparr>)))"

definition loadCliReadModel :: "config_host \<Rightarrow> string option \<Rightarrow> warnings \<Rightarrow> (config_error + cli_read_model) \<times> warnings" where
  "loadCliReadModel host configPath w =
     (case loadCliValidatedConfigSnapshot host configPath w of
        (Inl e, w) \<Rightarrow> (Inl e, w)
      | (Inr snapshot, w) \<Rightarrow>
          (rbind (loadOptionalConfiguredSecretsFile host) (\<lambda>secrets.
           build_read_model snapshot (case secrets of None \<Rightarrow> [] | Some f \<Rightarrow> sc_apiKeyOverrides f)), w))"

text \<open>The records by name: with equal names the last one counts.\<close>

definition by_name :: "('a \<Rightarrow> string) \<Rightarrow> 'a list \<Rightarrow> string \<Rightarrow> 'a option" where
  "by_name name xs n = find (\<lambda>x. name x = n) (rev xs)"

abbreviation modelsByName :: "cli_read_model \<Rightarrow> string \<Rightarrow> model_read_model option" where
  "modelsByName m \<equiv> by_name mr_name (cr_models m)"

abbreviation providersByName :: "cli_read_model \<Rightarrow> string \<Rightarrow> provider_read_model option" where
  "providersByName m \<equiv> by_name pm_name (cr_providers m)"

abbreviation routesByName :: "cli_read_model \<Rightarrow> string \<Rightarrow> route_read_model option" where
  "routesByName m \<equiv> by_name rm_name (cr_routes m)"

section \<open>Properties\<close>

lemma mask_provider_clean: "\<not> inline_key_entry (mask_provider v) \<or> jprop (mask_provider v) ''api_key'' = Some (JStr MASKED_SECRET_SENTINEL)"
  by (simp add: mask_provider_def)

lemma mask_provider_other: "k \<noteq> ''api_key'' \<Longrightarrow> jprop (mask_provider v) k = jprop v k"
  by (simp add: mask_provider_def)

text \<open>
  Property (display_hides_keys). In a document prepared for display, no provider shows an inline key: its
  \<open>api_key\<close> is the mask, or no string, or blank. Every other field of the document and of every provider
  is the one of the original.
\<close>

theorem display_hides_keys:
  assumes "jprop document ''service_providers'' = Some (JObj providers)"
  shows "\<exists>shown. jprop (sanitizeConfigDocumentForDisplay document) ''service_providers'' = Some (JObj shown) \<and>
    map fst shown = map fst providers \<and>
    list_all2 (\<lambda>(_, v) (_, v'). (inline_key_entry v' \<longrightarrow> jprop v' ''api_key'' = Some (JStr MASKED_SECRET_SENTINEL)) \<and>
      (\<forall>k. k \<noteq> ''api_key'' \<longrightarrow> jprop v' k = jprop v k)) providers shown \<and>
    (\<forall>k. k \<noteq> ''service_providers'' \<longrightarrow> jprop (sanitizeConfigDocumentForDisplay document) k = jprop document k)"
proof -
  let ?shown = "map (\<lambda>(n, v). (n, mask_provider v)) providers"
  have "list_all2 (\<lambda>(_, v) (_, v'). (inline_key_entry v' \<longrightarrow> jprop v' ''api_key'' = Some (JStr MASKED_SECRET_SENTINEL)) \<and>
      (\<forall>k. k \<noteq> ''api_key'' \<longrightarrow> jprop v' k = jprop v k)) providers ?shown"
    using mask_provider_clean mask_provider_other by (induction providers) auto
  moreover have "map fst ?shown = map fst providers" by (induction providers) auto
  ultimately show ?thesis
    using assms by (simp add: sanitizeConfigDocumentForDisplay_def)
qed

theorem display_hides_keys_witness:
  "\<exists>shown. jprop (sanitizeConfigDocumentForDisplay (JObj [(''service_providers'', JObj [(''p'', JObj [(''api_key'', JStr ''sk'')])])]))
      ''service_providers'' = Some (JObj shown) \<and> map fst shown = [''p'']"
  using display_hides_keys [of "JObj [(''service_providers'', JObj [(''p'', JObj [(''api_key'', JStr ''sk'')])])]"] by fastforce

lemma route_counts_fold:
  assumes "m \<noteq> []"
  shows "count_of (fold count_route routes counts) m = count_of counts m + length (filter (\<lambda>r. rm_model r = m) routes)"
proof (induction routes arbitrary: counts)
  case (Cons r routes)
  have "count_of (count_route r counts) m = count_of counts m + (if rm_model r = m then 1 else 0)"
    using assms by (auto simp: count_route_def count_of_def jm_get_set)
  then show ?case by (simp add: Cons.IH)
qed simp

text \<open>
  Property (route_count_exact). The route count the read model shows for a model is the number of routes that use
  it, so a model in use is never shown as free.
\<close>

theorem route_count_exact:
  assumes "m \<noteq> []"
  shows "count_of (routeCountsByModel routes) m = length (filter (\<lambda>r. rm_model r = m) routes)"
  using route_counts_fold [OF assms, of routes "[]"] by (simp add: routeCountsByModel_def count_of_def)

section \<open>The read model of a loaded configuration\<close>

lemma rtraverse_total: "(\<And>x. x \<in> set xs \<Longrightarrow> is_ok (f x)) \<Longrightarrow> \<exists>ys. rtraverse f xs = Inr ys"
  by (induction xs) (force simp: is_ok_iff rbind_Inr_iff)+

lemma section_loop_Cons:
  "section_loop label f ((n, v) # es) acc = Inr m \<longleftrightarrow>
     \<not> isReservedObjectKey n \<and> (\<exists>x. f n v = Inr x \<and> section_loop label f es (jm_set n x acc) = Inr m)"
  by (auto simp: rbind_Inr_iff assertSafeObjectKey_def rensure_def)

lemma section_loop_present:
  "section_loop label f es acc = Inr m \<Longrightarrow> jm_get m n \<noteq> None \<longleftrightarrow> jm_get acc n \<noteq> None \<or> n \<in> fst ` set es"
proof (induction es arbitrary: acc)
  case (Cons e es)
  then obtain k v x where "e = (k, v)" "section_loop label f es (jm_set k x acc) = Inr m"
    by (cases e) (auto simp only: section_loop_Cons)
  with Cons.IH [of "jm_set k x acc"] show ?case by (auto simp: jm_get_set)
qed simp

lemma section_loop_checked:
  "section_loop label f es acc = Inr m \<Longrightarrow> (n, v) \<in> set es \<Longrightarrow> \<not> isReservedObjectKey n \<and> is_ok (f n v)"
proof (induction es arbitrary: acc)
  case (Cons e es)
  then show ?case by (cases e) (auto simp only: section_loop_Cons set_simps insert_iff prod.inject is_ok_iff)
qed simp

lemma section_loop_total:
  "(\<And>n v. (n, v) \<in> set es \<Longrightarrow> \<not> isReservedObjectKey n \<and> is_ok (f n v)) \<Longrightarrow> is_ok (section_loop label f es acc)"
proof (induction es arbitrary: acc)
  case (Cons e es)
  obtain k v where e: "e = (k, v)" by (cases e)
  then obtain x where "\<not> isReservedObjectKey k" "f k v = Inr x" using Cons.prems [of k v] by (auto simp: is_ok_iff)
  moreover obtain m where "section_loop label f es (jm_set k x acc) = Inr m"
    using Cons.IH [of "jm_set k x acc"] Cons.prems by (auto simp: is_ok_iff)
  ultimately show ?case unfolding is_ok_iff e by (simp only: section_loop_Cons) blast
qed simp

lemma safe_name_ok: "\<not> isReservedObjectKey n \<Longrightarrow> safe_name n label = Inr ()"
  by (simp add: safe_name_def assertSafeObjectKey_def rensure_def)

text \<open>Without the environment, a route that passes with it passes too.\<close>

lemma optional_key: "check_provider_key env owner p override False = Inr ()"
  by (simp add: check_provider_key_def require_def rensure_def split: option.splits)

lemma optional_route:
  assumes "validateRouteConfig env n v providers models timeoutMs True overrides = Inr r"
  shows "is_ok (validateRouteConfig env n v providers models timeoutMs False overrides')"
  using assms
  by (clarsimp simp: validateRouteConfig_def Let_def rbind_Inr_iff is_ok_rbind)
    (auto simp: rbind_Inr_iff is_ok_rbind optional_key split: option.splits)

lemma route_model:
  assumes "validateRouteConfig env n v providers models timeoutMs required overrides = Inr r"
  shows "isRecord (Some v)" "models (the_text (jprop v ''model'')) \<noteq> None"
  using assms
  by (clarsimp simp: validateRouteConfig_def Let_def rbind_Inr_iff;
      auto simp: rbind_Inr_iff dest!: text_field_Inr split: option.splits)+

lemma mcp_result: "fst (validateMcpSettings d src w) = fst (validateMcpSettings d src w')"
  by (simp add: validateMcpSettings_def split: option.splits json.splits sum.splits)


lemma optional_providers:
  assumes "load_providers host src True d st = Inr (benchmark, secrets, es, ms, ps)"
  shows "load_providers host src False d st = Inr (benchmark, None, es, ms, ps)"
  using assms by (auto simp: load_providers_def rbind_Inr_iff)

lemma optional_routes:
  assumes "load_routes host src True timeoutMs secrets es ms ps = Inr (models, routes)"
  shows "\<exists>routes'. load_routes host src False timeoutMs secrets' es ms ps = Inr (models, routes')"
proof -
  let ?f = "\<lambda>required secrets n v. validateRouteConfig (hs_env host) n v (jm_get ps) (jm_get models) timeoutMs required (override_lookup secrets)"
  from assms have models: "section_loop ''Model name'' validateModelConfig ms [] = Inr models" and es: "es \<noteq> []"
    and routes: "section_loop ''Route name'' (?f True secrets) es [] = Inr routes"
    by (auto simp: load_routes_def rbind_Inr_iff)
  have "is_ok (section_loop ''Route name'' (?f False secrets') es [])"
    using section_loop_checked [OF routes] optional_route by (intro section_loop_total) (force simp: is_ok_iff)
  with models es show ?thesis by (auto simp: load_routes_def is_ok_iff require_def rensure_def)
qed

lemma optional_load:
  assumes "loadConfig host path w = (Inr s, w1)"
  obtains s' w2 where "loadCliValidatedConfigSnapshot host path w' = (Inr s', w2)"
proof -
  let ?p = "resolve_config_path host path"
  obtain candidate w1 retention benchmark secrets es ms where
    doc: "load_document host ?p = Inr (candidate, cs_settings s, retention)"
    and mcp: "validateMcpSettings candidate (basename ?p) w = (Inr (cs_mcpCapabilities s), w1)"
    and prov: "load_providers host (basename ?p) True candidate (cs_settings s) = Inr (benchmark, secrets, es, ms, cs_providers s)"
    and routes: "load_routes host (basename ?p) True (st_timeoutMs (st_stream (cs_settings s))) secrets es ms (cs_providers s)
       = Inr (cs_models s, cs_routes s)"
    by (rule snapshot_loaded [OF loadConfig_snapshot [OF assms]])
  from mcp mcp_result [of candidate "basename ?p" w' w] obtain w2
    where mcp': "validateMcpSettings candidate (basename ?p) w' = (Inr (cs_mcpCapabilities s), w2)"
    by (cases "validateMcpSettings candidate (basename ?p) w'") auto
  note prov' = optional_providers [OF prov]
  obtain routes' where "load_routes host (basename ?p) False (st_timeoutMs (st_stream (cs_settings s))) None es ms (cs_providers s)
       = Inr (cs_models s, routes')"
    using optional_routes [OF routes] by blast
  moreover have "hs_exists host ?p" using assms by (auto simp: loadConfig_def load_existing_def Let_def split: if_splits)
  ultimately show thesis
    using that by (auto simp: loadCliValidatedConfigSnapshot_def load_existing_def loadValidatedConfigSnapshot_def Let_def doc mcp' prov')
qed

lemma read_model_built:
  assumes "loadValidatedConfigSnapshot host p required w = (Inr s, w')"
  shows "is_ok (build_read_model s overrides)"
proof -
  obtain candidate benchmark secrets es ms where
    prov: "load_providers host (basename p) required candidate (cs_settings s) = Inr (benchmark, secrets, es, ms, cs_providers s)"
    and routes: "load_routes host (basename p) required (st_timeoutMs (st_stream (cs_settings s))) secrets es ms (cs_providers s)
       = Inr (cs_models s, cs_routes s)" and doc: "cs_document s = candidate"
    by (rule snapshot_loaded [OF assms])
  from prov have entries: "object_fields (jprop (cs_document s) ''routes'') = es" "object_fields (jprop (cs_document s) ''models'') = ms"
    and "\<exists>vs. section_loop ''Provider name'' (validateServiceProviderConfig (hs_parseUrl host)) vs [] = Inr (cs_providers s)"
    by (auto simp: load_providers_def rbind_Inr_iff section_fields_def object_fields_def doc split: option.splits json.splits)
  then obtain vs where ps: "section_loop ''Provider name'' (validateServiceProviderConfig (hs_parseUrl host)) vs [] = Inr (cs_providers s)"
    by blast
  let ?f = "\<lambda>n v. validateRouteConfig (hs_env host) n v (jm_get (cs_providers s)) (jm_get (cs_models s))
    (st_timeoutMs (st_stream (cs_settings s))) required (override_lookup secrets)"
  from routes have mloop: "section_loop ''Model name'' validateModelConfig ms [] = Inr (cs_models s)"
    and rloop: "section_loop ''Route name'' ?f es [] = Inr (cs_routes s)"
    by (auto simp: load_routes_def rbind_Inr_iff)
  have "is_ok (route_view s e)" if e: "e \<in> set es" for e
  proof -
    obtain n v where nv: "e = (n, v)" by (cases e)
    with section_loop_checked [OF rloop] e obtain r where safe: "\<not> isReservedObjectKey n" and "?f n v = Inr r"
      by (auto simp: is_ok_iff)
    note valid = route_model [OF this(2)]
    have "jm_get (cs_routes s) n \<noteq> None" using section_loop_present [OF rloop, of n] e nv by force
    with nv safe valid show ?thesis by (auto simp: route_view_def safe_name_ok require_def rensure_def Let_def)
  qed
  moreover have "is_ok (model_view s counts e)" if "e \<in> set ms" for e counts
    using section_loop_checked [OF mloop] section_loop_present [OF mloop, of "fst e"] that
    by (cases e) (force simp: model_view_def safe_name_ok)
  moreover have "is_ok (provider_view overrides e)" if "e \<in> set (cs_providers s)" for e
  proof -
    obtain n q where nq: "e = (n, q)" by (cases e)
    with that have "jm_get (cs_providers s) n \<noteq> None" by (auto simp: jm_get_def map_of_eq_None_iff intro: rev_image_eqI)
    then obtain q' where "jm_get (cs_providers s) n = Some q'" by blast
    from section_loop_entry [OF ps this] nq show ?thesis
      by (auto simp: provider_view_def safe_name_ok jm_get_def)
  qed
  ultimately show ?thesis by (simp add: build_read_model_def is_ok_rbind entries rtraverse_total)
qed

lemma read_model_loads:
  assumes "loadConfig host path w = (Inr s, w1)"
  obtains m w2 where "loadCliReadModel host path w' = (Inr m, w2)"
proof -
  obtain s' w2 where s': "loadCliValidatedConfigSnapshot host path w' = (Inr s', w2)" by (rule optional_load [OF assms])
  obtain secrets where "loadOptionalConfiguredSecretsFile host = Inr secrets"
    using loaded_settings [OF loadConfig_snapshot [OF assms]] by blast
  moreover have "is_ok (build_read_model s' overrides)" for overrides
    using s' by (intro read_model_built) (auto simp: loadCliValidatedConfigSnapshot_def load_existing_def Let_def split: if_splits)
  ultimately show thesis using s' that by (auto simp: loadCliReadModel_def is_ok_iff)
qed

text \<open>
  Property (read_model_total). Every configuration the gateway can load also has a read model: what the commands and the
  runtime inspection show never fails for a configuration that is in use.
\<close>
theorem read_model_total:
  assumes "loadConfig host path w = (Inr s, w1)"
  shows "\<exists>m w2. loadCliReadModel host path w' = (Inr m, w2)"
  by (rule read_model_loads [OF assms]) blast

theorem read_model_total_witness:
  "\<exists>m w. loadCliReadModel example_config_host (Some ''/c/config.json'') no_warnings = (Inr m, w)"
proof -
  obtain s w where "loadConfig example_config_host (Some ''/c/config.json'') no_warnings = (Inr s, w)" using example_loads by blast
  then show ?thesis by (rule read_model_total)
qed


end
