(* ===== verification/Config_Mutation.thy ===== *)
theory Config_Mutation
  imports Config_Read_Model
begin

text \<open>
  Changes of the configuration: \<^verbatim>\<open>config/mutation/entity-validation.ts\<close>, \<^verbatim>\<open>model.ts\<close>, \<^verbatim>\<open>provider.ts\<close>,
  \<^verbatim>\<open>provider-auth.ts\<close>, \<^verbatim>\<open>route.ts\<close> and \<^verbatim>\<open>config.ts\<close> with the error codes of \<^verbatim>\<open>config-metadata.ts\<close>. A change
  loads the document from the disk, applies a function to it, validates the result as a whole and
  writes catalog and configuration; it runs inside the lock of \<open>Config_Lock\<close>.

  Main result: a change that is refused writes nothing, and what is written has been validated as a
  whole; \<open>Config_Consistency\<close> says more about the validation.
\<close>

section \<open>Entities as they are stored\<close>

definition pickCostFields :: "cost_config \<Rightarrow> json" where
  "pickCostFields c = JObj [(''input'', JNum (co_input c)), (''output'', JNum (co_output c)), (''cache_read'', JNum (co_cacheRead c)),
     (''cache_write'', JNum (co_cacheWrite c))]"

fun api_mode_name :: "api_mode \<Rightarrow> string" where
  "api_mode_name openai_completions = ''openai-completions''"
| "api_mode_name anthropic_messages = ''anthropic-messages''"

fun model_id_format_name :: "model_id_format \<Rightarrow> string" where
  "model_id_format_name passthrough = ''passthrough''"
| "model_id_format_name creator_model = ''creator/model''"

definition nullable_text :: "string option \<Rightarrow> json" where
  "nullable_text v = (case v of None \<Rightarrow> JNull | Some s \<Rightarrow> JStr s)"

definition validateMutableModelEntity :: "string \<Rightarrow> json \<Rightarrow> config_error + json" where
  "validateMutableModelEntity modelId candidate =
     rbind (validateModelConfig modelId candidate) (\<lambda>validated.
     Inr (JObj [(''model_creator'', JStr (md_model_creator validated)), (''display_name'', JStr (md_display_name validated)),
                (''cost'', (case md_cost validated of None \<Rightarrow> JNull | Some c \<Rightarrow> pickCostFields c))]))"

definition validateMutableProviderEntity :: "(string \<Rightarrow> parsed_url option) \<Rightarrow> string \<Rightarrow> json \<Rightarrow> config_error + json" where
  "validateMutableProviderEntity parseUrl providerId candidate =
     rbind (validateServiceProviderConfig parseUrl providerId candidate) (\<lambda>validated.
     Inr (JObj
       ([(''endpoint'', JStr (pv_endpoint validated)), (''api_mode'', JStr (api_mode_name (pv_api_mode validated))),
         (''model_id_format'', JStr (model_id_format_name (pv_model_id_format validated))),
         (''allow_private_endpoints'', JBool (pv_allow_private_endpoints validated)),
         (''allow_insecure_http'', JBool (pv_allow_insecure_http validated))] @
        (if jprop candidate ''api_key'' \<noteq> None then [(''api_key'', nullable_text (pv_api_key validated))] else []) @
        (if jprop candidate ''api_key_env'' \<noteq> None then [(''api_key_env'', nullable_text (pv_api_key_env validated))] else []) @
        (if jprop candidate ''anthropic_version'' \<noteq> None \<or> pv_anthropic_version validated \<noteq> None
         then [(''anthropic_version'', nullable_text (pv_anthropic_version validated))] else []))))"

definition validateMutableRouteEntity :: "string \<Rightarrow> json \<Rightarrow> config_error + json" where
  "validateMutableRouteEntity routeId candidate =
     (let owner = ''Route '' @ quoted routeId
      in rbind (assertOnlyKnownKeys candidate ROUTE_KEYS owner) (\<lambda>_.
         rbind (text_field candidate ''model'' owner) (\<lambda>model.
         rbind (text_field candidate ''provider_model_id'' owner) (\<lambda>providerModelId.
         rbind (text_field candidate ''service_provider'' owner) (\<lambda>serviceProvider.
         rbind (text_field candidate ''display_name'' owner) (\<lambda>displayName.
         rbind (require (route_timeout_ok (jprop candidate ''timeout_ms''))
                  (owner @ '' field '' @ quoted ''timeout_ms'' @ '' must be a positive integer when provided.'')) (\<lambda>_.
         rbind (optional_cost candidate owner) (\<lambda>cost.
         Inr (JObj
           ([(''model'', JStr model), (''service_provider'', JStr serviceProvider), (''provider_model_id'', JStr providerModelId),
             (''display_name'', JStr displayName)] @
            (case as_number (jprop candidate ''timeout_ms'') of Some n \<Rightarrow> [(''timeout_ms'', JNum n)] | None \<Rightarrow> []) @
            (case cost of Some c \<Rightarrow> [(''cost'', pickCostFields c)] | None \<Rightarrow> [])))))))))))"

section \<open>Validation of a document before it is written\<close>

definition getMutableConfigSection :: "json \<Rightarrow> string \<Rightarrow> config_error + (string \<times> json) list" where
  "getMutableConfigSection document key = section_fields document key ''config.json''"

text \<open>
  The validated entities are kept in plain objects, which also have the properties of \<open>Object.prototype\<close>. Such
  a property is a function: it is not \<open>undefined\<close>, and its \<open>api_key\<close> is not \<open>null\<close>.
\<close>

definition OBJECT_PROTOTYPE_KEYS :: "string list" where
  "OBJECT_PROTOTYPE_KEYS = filter (\<lambda>k. k \<noteq> ''prototype'') RESERVED_OBJECT_KEYS"

definition inherited_provider :: provider_config where
  "inherited_provider = \<lparr>pv_endpoint = [], pv_api_key = Some [], pv_api_key_env = None, pv_api_mode = openai_completions,
     pv_anthropic_version = None, pv_model_id_format = passthrough, pv_allow_private_endpoints = False, pv_allow_insecure_http = False\<rparr>"

definition inherited_model :: model_config where
  "inherited_model = \<lparr>md_model_creator = [], md_display_name = [], md_cost = None\<rparr>"

definition plain_lookup :: "'a \<Rightarrow> (string, 'a) js_map \<Rightarrow> string \<Rightarrow> 'a option" where
  "plain_lookup inherited m k =
     (case jm_get m k of Some x \<Rightarrow> Some x | None \<Rightarrow> if k \<in> set OBJECT_PROTOTYPE_KEYS then Some inherited else None)"

definition mutation_config_version :: "json \<Rightarrow> config_error + json" where
  "mutation_config_version document =
     (let d = (if jprop document ''config_version'' = None then jset ''config_version'' (JNum CURRENT_CONFIG_VERSION) document else document)
      in rbind (require (case jprop d ''config_version'' of Some v \<Rightarrow> isPositiveVersionInteger v | None \<Rightarrow> False)
                  (''config.json field '' @ quoted ''config_version'' @ '' must be a positive integer when provided.'')) (\<lambda>_.
         rbind (require (jprop d ''config_version'' = Some (JNum CURRENT_CONFIG_VERSION))
                  (''config.json field '' @ quoted ''config_version'' @ '' must be 1 for this Switchmaxxer release.'')) (\<lambda>_.
         Inr d)))"

fun log_level_name :: "log_level \<Rightarrow> string" where
  "log_level_name Debug = ''debug''"
| "log_level_name Info = ''info''"
| "log_level_name Warn = ''warn''"
| "log_level_name ErrorLevel = ''error''"

text \<open>The assignments and deletions that follow the validation of the settings, in their order.\<close>

definition settings_assignments :: "runtime_settings \<Rightarrow> (string \<times> json) list" where
  "settings_assignments s =
     [(''max_payload_size'', JNum (st_maxPayloadSize (st_capacity s))), (''bind_host'', JStr (st_bindHost (st_capacity s))),
      (''max_connections'', JNum (st_maxConnections (st_capacity s))), (''timeout_ms'', JNum (st_timeoutMs (st_stream s))),
      (''stream_idle_timeout_ms'', JNum (st_streamIdleTimeoutMs (st_stream s))),
      (''stream_max_lifetime_ms'', JNum (st_streamMaxLifetimeMs (st_stream s))),
      (''stream_min_bytes_per_second'', JNum (st_streamMinBytesPerSecond (st_stream s))),
      (''stream_rate_window_ms'', JNum (st_streamRateWindowMs (st_stream s))),
      (''stream_max_event_bytes'', JNum (st_streamMaxEventBytes (st_stream s))),
      (''stream_max_total_bytes'', JNum (st_streamMaxTotalBytes (st_stream s))),
      (''max_concurrent_streams_per_ip'', JNum (st_maxConcurrentStreamsPerIp (st_capacity s))),
      (''max_concurrent_json_parses'', JNum (st_maxConcurrentJsonParses (st_capacity s))),
      (''max_buffered_upstream_response_bytes'', JNum (st_maxBufferedUpstreamResponseBytes (st_capacity s))),
      (''shutdown_timeout_ms'', JNum (st_shutdownTimeoutMs (st_capacity s))), (''systemd_unit'', JStr (st_systemdUnit (st_process s)))]"

definition CAMEL_CASE_ALIASES :: "string list" where
  "CAMEL_CASE_ALIASES = [''bindHost'', ''maxConnections'', ''timeoutMs'', ''streamIdleTimeoutMs'', ''streamMaxLifetimeMs'',
     ''streamMinBytesPerSecond'', ''streamRateWindowMs'', ''streamMaxEventBytes'', ''streamMaxTotalBytes'', ''maxConcurrentStreamsPerIp'',
     ''maxConcurrentJsonParses'', ''maxBufferedUpstreamResponseBytes'', ''shutdownTimeoutMs'', ''logLevel'']"

definition apply_settings :: "runtime_settings \<Rightarrow> json \<Rightarrow> json" where
  "apply_settings s document =
     (let d = fold (\<lambda>(k, v). jset k v) (settings_assignments s) document;
          d1 = (case st_logLevel (st_process s) of Some l \<Rightarrow> jset ''log_level'' (JStr (log_level_name l)) d | None \<Rightarrow> jdelete ''log_level'' d)
      in fold jdelete CAMEL_CASE_ALIASES d1)"

text \<open>
  The check of the inbound key. The injected environment is the one of the process; when the secrets
  file gives no key it is asked again.
\<close>

definition mutation_inbound_key :: "env_lookup \<Rightarrow> string option \<Rightarrow> env_lookup \<Rightarrow> config_error + unit" where
  "mutation_inbound_key env keyEnv overrides =
     (case keyEnv of
        None \<Rightarrow> Inr ()
      | Some name \<Rightarrow>
          rbind (assertValidSwitchmaxxerManagedEnvVarName name ''inbound_api_key_env'' ''config.json'') (\<lambda>_.
          let inboundApiKey = (case resolveInboundApiKeyValue env name overrides of Some k \<Rightarrow> Some k | None \<Rightarrow> env name)
          in rbind (require (case inboundApiKey of Some k \<Rightarrow> non_blank k | None \<Rightarrow> False)
                      (''config.json requires environment variable '' @ quoted name @
                       '' for inbound gateway auth, but it is not set or is empty.'')) (\<lambda>_.
             require (MIN_INBOUND_API_KEY_LENGTH \<le> length (the inboundApiKey))
               (''config.json requires environment variable '' @ quoted name @ '' for inbound gateway auth to be at least '' @
                digits_of_nat MIN_INBOUND_API_KEY_LENGTH @ '' characters long.''))))"

text \<open>
  The two checks of a name that precede each validator (\<open>assertSafeObjectKey\<close> and the one injected by the
  command line) are the same check, done once here.
\<close>

definition validate_sections ::
  "config_host \<Rightarrow> rat \<Rightarrow> env_lookup \<Rightarrow> json \<Rightarrow> warnings \<Rightarrow> (config_error + unit) \<times> warnings" where
  "validate_sections host timeoutMs overrides document w =
     (case rbind (getMutableConfigSection document ''models'') (\<lambda>modelsRecord.
           rbind (getMutableConfigSection document ''service_providers'') (\<lambda>providersRecord.
           rbind (getMutableConfigSection document ''routes'') (\<lambda>routesRecord.
           rbind (section_loop ''Model name'' validateModelConfig modelsRecord []) (\<lambda>models.
           rbind (section_loop ''Provider name'' (validateServiceProviderConfig (hs_parseUrl host)) providersRecord []) (\<lambda>providers.
           Inr (routesRecord, models, providers)))))) of
        Inl e \<Rightarrow> (Inl e, w)
      | Inr (routesRecord, models, providers) \<Rightarrow>
          (rbind (section_loop ''Route name''
              (\<lambda>routeName route. validateRouteConfig (hs_env host) routeName route (plain_lookup inherited_provider providers)
                 (plain_lookup inherited_model models) timeoutMs True overrides) routesRecord []) (\<lambda>_. Inr ()),
           logPrivateEndpointProviderWarnings (private_providers providers) w))"

definition normalizeAndValidateConfigDocumentForMutation ::
  "config_host \<Rightarrow> json \<Rightarrow> warnings \<Rightarrow> (config_error + json) \<times> warnings" where
  "normalizeAndValidateConfigDocumentForMutation host document w =
     (case rbind (mutation_config_version document) (\<lambda>d.
           rbind (validateRuntimeSettings d ''config.json'' settings_default_values) (\<lambda>settings.
           let normalized = apply_settings settings d
           in rbind (loadOptionalConfiguredSecretsFile host) (\<lambda>secrets.
              rbind (mutation_inbound_key (hs_env host) (st_inboundApiKeyEnv (st_inbound settings)) (override_lookup secrets)) (\<lambda>_.
              rbind (validateObservabilitySettings normalized ''config.json'') (\<lambda>_.
              rbind (validateBenchmarkSettings normalized ''config.json'' benchmark_default_values) (\<lambda>_.
              Inr (normalized, settings, secrets))))))) of
        Inl e \<Rightarrow> (Inl e, w)
      | Inr (normalized, settings, secrets) \<Rightarrow>
          (case validate_sections host (st_timeoutMs (st_stream settings)) (override_lookup secrets) normalized w of
             (Inl e, w) \<Rightarrow> (Inl e, w)
           | (Inr _, w) \<Rightarrow>
               (rbind (assertOnlyKnownConfigDocumentKeys normalized ''normalized config.json'') (\<lambda>_. Inr normalized), w)))"

section \<open>A change of the document on the disk\<close>

text \<open>The host that sees a given disk; there are no symbolic links on it.\<close>

definition host_on :: "config_host \<Rightarrow> disk \<Rightarrow> config_host" where
  "host_on host d =
     (let missing = \<lparr>ff_code = ''ENOENT'', ff_message = ''ENOENT: no such file or directory''\<rparr>
      in host\<lparr>hs_exists := (\<lambda>p. jm_get d p \<noteq> None),
              hs_isSymbolicLink := (\<lambda>p. if jm_get d p = None then Inl missing else Inr False),
              hs_stat := (\<lambda>p. case jm_get d p of None \<Rightarrow> Inl missing | Some f \<Rightarrow> Inr (dk_mode f, byte_length (dk_text f))),
              hs_readFile := (\<lambda>p. case jm_get d p of None \<Rightarrow> Inl missing | Some f \<Rightarrow> Inr (dk_text f))\<rparr>)"

record mutation_state =
  mu_io :: io_state
  mu_warnings :: warnings

definition disk_host :: "config_host \<Rightarrow> mutation_state \<Rightarrow> config_host" where
  "disk_host host s = host_on host (io_disk (mu_io s))"

text \<open>A system call throws a message; the caller puts the file in front of it.\<close>

definition write_failure :: "string \<Rightarrow> string \<Rightarrow> config_error \<Rightarrow> config_error" where
  "write_failure fileName sourcePath e =
     (case e of ConfigMessage m \<Rightarrow> ConfigMessage (''Unable to write '' @ fileName @ '' at '' @ quoted sourcePath @ '': '' @ m) | _ \<Rightarrow> e)"

definition writeConfigJsonDocument ::
  "config_host \<Rightarrow> string \<Rightarrow> string \<Rightarrow> string \<Rightarrow> string \<Rightarrow> string \<Rightarrow> json \<Rightarrow> unit io" where
  "writeConfigJsonDocument host rand1 rand2 tempLabel fileName sourcePath document s =
     (case writeConfigJsonDocumentAtomically host rand1 rand2 tempLabel sourcePath document (ioreturn ()) s of
        (Inl e, t) \<Rightarrow> (Inl (write_failure fileName sourcePath e), t)
      | (Inr x, t) \<Rightarrow> (Inr x, t))"

definition writeConfigJsonDocumentIfChanged ::
  "config_host \<Rightarrow> string \<Rightarrow> string \<Rightarrow> string \<Rightarrow> string \<Rightarrow> string \<Rightarrow> json \<Rightarrow> unit io" where
  "writeConfigJsonDocumentIfChanged host rand1 rand2 tempLabel fileName sourcePath document =
     iobind (sys_exists sourcePath) (\<lambda>there.
     iobind (if there then iobind (sys_read sourcePath) (\<lambda>t. ioreturn (Some t)) else ioreturn None) (\<lambda>currentText.
     if currentText \<noteq> Some (document_text host document)
     then writeConfigJsonDocument host rand1 rand2 tempLabel fileName sourcePath document
     else ioreturn ()))"

definition createConfigImportBackup :: "config_host \<Rightarrow> string \<Rightarrow> string \<Rightarrow> string option io" where
  "createConfigImportBackup host rand targetPath =
     iobind (sys_exists targetPath) (\<lambda>there.
     if \<not> there then ioreturn None
     else (\<lambda>s. case writeConfigBackupSnapshot (hs_parseJson host) rand targetPath (resolveConfigBackupPath targetPath) s of
                 (Inl e, t) \<Rightarrow> (Inl (case e of ConfigMessage m \<Rightarrow>
                      ConfigMessage (''Unable to write config backup at '' @ quoted (resolveConfigBackupPath targetPath) @ '': '' @ m)
                    | _ \<Rightarrow> e), t)
               | (Inr _, t) \<Rightarrow> (Inr (Some (resolveConfigBackupPath targetPath)), t)))"

record write_suffixes =
  ws_catalog :: string
  ws_catalogBackup :: string
  ws_config :: string
  ws_configBackup :: string

definition load_effective :: "config_host \<Rightarrow> string option \<Rightarrow> config_error + string \<times> loaded_catalog \<times> json" where
  "load_effective host configPath =
     rbind (loadRawConfigJsonDocument host configPath) (\<lambda>(sourcePath, sourceFile, configDocument).
     rbind (assertRuntimeConfigDoesNotOwnCatalogSections configDocument sourceFile) (\<lambda>_.
     rbind (loadCatalogForConfig host sourcePath) (\<lambda>catalog.
     rbind (composeConfigDocumentWithCatalog configDocument catalog sourceFile) (\<lambda>effective.
     Inr (sourcePath, catalog, effective)))))"

definition mutateConfigDocument ::
  "config_host \<Rightarrow> write_suffixes \<Rightarrow> string option \<Rightarrow> (json \<Rightarrow> config_error + json) \<Rightarrow> mutation_state \<Rightarrow>
   (config_error + unit) \<times> mutation_state" where
  "mutateConfigDocument host rs configPath mutator s =
     (let h = disk_host host s
      in case rbind (load_effective h configPath) (\<lambda>(sourcePath, catalog, effective).
              rbind (mutator effective) (\<lambda>mutated. Inr (sourcePath, catalog, mutated))) of
           Inl e \<Rightarrow> (Inl e, s)
         | Inr (sourcePath, catalog, mutated) \<Rightarrow>
             (case normalizeAndValidateConfigDocumentForMutation h mutated (mu_warnings s) of
                (Inl e, w) \<Rightarrow> (Inl e, s\<lparr>mu_warnings := w\<rparr>)
              | (Inr normalized, w) \<Rightarrow>
                  (case splitEffectiveConfigDocumentForWrite normalized catalog of
                     (configDocument, catalogDocument) \<Rightarrow>
                       (case iobind (writeConfigJsonDocumentIfChanged h (ws_catalog rs) (ws_catalogBackup rs) ''catalog-tmp'' ''catalog.json''
                                       (ct_sourcePath catalog) catalogDocument) (\<lambda>_.
                             writeConfigJsonDocumentIfChanged h (ws_config rs) (ws_configBackup rs) ''tmp'' ''config.json''
                               sourcePath configDocument) (mu_io s) of
                          (r, io) \<Rightarrow> (r, \<lparr>mu_io = io, mu_warnings = w\<rparr>)))))"

section \<open>Changes of one entity\<close>

definition entity_error :: "string \<Rightarrow> string \<Rightarrow> config_error" where
  "entity_error code message = CodedError code message"

definition already_exists :: "string \<Rightarrow> string \<Rightarrow> string \<Rightarrow> config_error" where
  "already_exists code entity name = entity_error code (entity @ '' '' @ quoted name @ '' already exists'')"

definition not_found :: "string \<Rightarrow> string \<Rightarrow> string \<Rightarrow> config_error" where
  "not_found code entity name = entity_error code (entity @ '' '' @ quoted name @ '' was not found'')"

definition in_use :: "string \<Rightarrow> string \<Rightarrow> string \<Rightarrow> nat \<Rightarrow> config_error" where
  "in_use code entity name routeCount =
     entity_error code (entity @ '' '' @ quoted name @ '' cannot be deleted because '' @ digits_of_nat routeCount @ '' route(s) still reference it'')"

definition invalid_stored :: "string \<Rightarrow> string \<Rightarrow> config_error" where
  "invalid_stored entity name =
     entity_error ''invalid_config_mutation'' (entity @ '' '' @ quoted name @ '' must be stored as an object in config.json.'')"

definition as_invalid_input :: "config_error + 'a \<Rightarrow> config_error + 'a" where
  "as_invalid_input r = (case r of Inl e \<Rightarrow> Inl (InvalidInput e) | Inr x \<Rightarrow> Inr x)"

definition as_invalid_stored :: "string \<Rightarrow> string \<Rightarrow> config_error + 'a \<Rightarrow> config_error + unit" where
  "as_invalid_stored entity name r = (case r of Inl _ \<Rightarrow> Inl (invalid_stored entity name) | Inr _ \<Rightarrow> Inr ())"

text \<open>A section of a parsed document is a plain object, too.\<close>

definition stored_defined :: "(string \<times> json) list \<Rightarrow> string \<Rightarrow> bool" where
  "stored_defined fs name \<longleftrightarrow> map_of fs name \<noteq> None \<or> name \<in> set OBJECT_PROTOTYPE_KEYS"

definition safe_set :: "(string \<times> json) list \<Rightarrow> string \<Rightarrow> json \<Rightarrow> string \<Rightarrow> config_error + (string \<times> json) list" where
  "safe_set fs k v label = (case setSafeObjectKey fs k v label of Inl e \<Rightarrow> Inl (KeyRefused e) | Inr gs \<Rightarrow> Inr gs)"

definition safe_clone :: "(string \<times> json) list \<Rightarrow> string \<Rightarrow> config_error + json" where
  "safe_clone fs label = (case shallowCloneRecordWithSafeKeys fs label of Inl e \<Rightarrow> Inl (KeyRefused e) | Inr gs \<Rightarrow> Inr (JObj gs))"

text \<open>Store an entity in its section.\<close>

definition store_entity :: "string \<Rightarrow> string \<Rightarrow> (string \<times> json) list \<Rightarrow> string \<Rightarrow> json \<Rightarrow> json \<Rightarrow> config_error + json" where
  "store_entity key label fs name entity document =
     rbind (safe_set fs name entity label) (\<lambda>fs'. Inr (jset key (JObj fs') document))"

text \<open>The stored entity as a record, or the error that it is not one.\<close>

definition stored_record :: "string \<Rightarrow> (string \<times> json) list \<Rightarrow> string \<Rightarrow> config_error + (string \<times> json) list" where
  "stored_record entity fs name =
     (case map_of fs name of Some (JObj gs) \<Rightarrow> Inr gs | _ \<Rightarrow> Inl (invalid_stored entity name))"

text \<open>After a change the entity is read back.\<close>

definition read_back ::
  "config_host \<Rightarrow> string option \<Rightarrow> (cli_read_model \<Rightarrow> 'v option) \<Rightarrow> config_error \<Rightarrow> mutation_state \<Rightarrow> (config_error + 'v) \<times> mutation_state" where
  "read_back host configPath find_view missing s =
     (case loadCliReadModel (disk_host host s) configPath (mu_warnings s) of
        (r, w) \<Rightarrow>
          (rbind r (\<lambda>m. case find_view m of None \<Rightarrow> Inl missing | Some v \<Rightarrow> Inr v), s\<lparr>mu_warnings := w\<rparr>))"

text \<open>The operations get the function that changes the document from their caller.\<close>

type_synonym config_mutator =
  "string option \<Rightarrow> (json \<Rightarrow> config_error + json) \<Rightarrow> mutation_state \<Rightarrow> (config_error + unit) \<times> mutation_state"

definition change_and_read ::
  "config_host \<Rightarrow> config_mutator \<Rightarrow> string option \<Rightarrow> (json \<Rightarrow> config_error + json) \<Rightarrow> (cli_read_model \<Rightarrow> 'v option) \<Rightarrow> config_error \<Rightarrow>
   mutation_state \<Rightarrow> (config_error + 'v) \<times> mutation_state" where
  "change_and_read host mut configPath mutator find_view missing s =
     (case mut configPath mutator s of
        (Inl e, t) \<Rightarrow> (Inl e, t)
      | (Inr _, t) \<Rightarrow> read_back host configPath find_view missing t)"

text \<open>What an update has stored under a name.\<close>

definition stored_by :: "config_host \<Rightarrow> string option \<Rightarrow> string \<Rightarrow> string \<Rightarrow> (json \<Rightarrow> config_error + json) \<Rightarrow> mutation_state \<Rightarrow> json" where
  "stored_by host configPath key name mutator s =
     (case rbind (load_effective (disk_host host s) configPath) (\<lambda>(_, _, effective). mutator effective) of
        Inl _ \<Rightarrow> JObj []
      | Inr document \<Rightarrow>
          (case Option.bind (jprop document key) (\<lambda>fs. jprop fs name) of Some v \<Rightarrow> v | None \<Rightarrow> JObj []))"

text \<open>The entity in the result is the checked one, next to its view.\<close>

definition with_entity :: "json \<Rightarrow> (config_error + 'v) \<times> mutation_state \<Rightarrow> (config_error + 'v \<times> json) \<times> mutation_state" where
  "with_entity entity x = (case x of (r, t) \<Rightarrow> (rbind r (\<lambda>v. Inr (v, entity)), t))"

lemma with_entity_snd [simp]: "snd (with_entity entity x) = snd x"
  by (simp add: with_entity_def split: prod.split)

definition change_and_return ::
  "config_host \<Rightarrow> config_mutator \<Rightarrow> string option \<Rightarrow> string \<Rightarrow> string \<Rightarrow> (json \<Rightarrow> config_error + json) \<Rightarrow> (cli_read_model \<Rightarrow> 'v option) \<Rightarrow>
   config_error \<Rightarrow> mutation_state \<Rightarrow> (config_error + 'v \<times> json) \<times> mutation_state" where
  "change_and_return host mut configPath key name mutator find_view missing s =
     with_entity (stored_by host configPath key name mutator s) (change_and_read host mut configPath mutator find_view missing s)"

subsection \<open>Models\<close>

definition drop_null_cost :: "json \<Rightarrow> json" where
  "drop_null_cost v = (if jprop v ''cost'' = Some JNull then jdelete ''cost'' v else v)"

definition create_model_mutator :: "string \<Rightarrow> json \<Rightarrow> json \<Rightarrow> config_error + json" where
  "create_model_mutator modelId nextModel document =
     rbind (getMutableConfigSection document ''models'') (\<lambda>models.
     if stored_defined models modelId then Inl (already_exists ''model_already_exists'' ''Model'' modelId)
     else store_entity ''models'' ''Model name'' models modelId nextModel document)"

definition createModel ::
  "config_host \<Rightarrow> config_mutator \<Rightarrow> string option \<Rightarrow> string \<Rightarrow> (string \<times> json) list \<Rightarrow> mutation_state \<Rightarrow>
   (config_error + model_read_model \<times> json) \<times> mutation_state" where
  "createModel host mut configPath modelId requested s =
     (case rbind (safe_clone requested ''Model field'') (\<lambda>c. as_invalid_input (validateMutableModelEntity modelId c)) of
        Inl e \<Rightarrow> (Inl e, s)
      | Inr normalized \<Rightarrow>
          with_entity normalized
            (change_and_read host mut configPath (create_model_mutator modelId (drop_null_cost normalized))
               (\<lambda>m. modelsByName m modelId) (not_found ''model_not_found'' ''Model'' modelId) s))"

record model_changes =
  mc_display_name :: "string option"
  mc_model_creator :: "string option"
  mc_cost :: "json option"

definition update_model_mutator :: "string \<Rightarrow> model_changes \<Rightarrow> json \<Rightarrow> config_error + json" where
  "update_model_mutator modelId changes document =
     rbind (getMutableConfigSection document ''models'') (\<lambda>models.
     rbind (if stored_defined models modelId then Inr () else Inl (not_found ''model_not_found'' ''Model'' modelId)) (\<lambda>_.
     rbind (stored_record ''Model'' models modelId) (\<lambda>existing.
     rbind (as_invalid_stored ''Model'' modelId (validateMutableModelEntity modelId (JObj existing))) (\<lambda>_.
     let v1 = (case mc_display_name changes of Some d \<Rightarrow> jset ''display_name'' (JStr d) (JObj existing) | None \<Rightarrow> JObj existing);
         v2 = (case mc_model_creator changes of Some c \<Rightarrow> jset ''model_creator'' (JStr c) v1 | None \<Rightarrow> v1);
         v3 = (case mc_cost changes of None \<Rightarrow> v2 | Some JNull \<Rightarrow> jdelete ''cost'' v2 | Some c \<Rightarrow> jset ''cost'' c v2)
     in rbind (as_invalid_input (validateMutableModelEntity modelId v3)) (\<lambda>normalized.
        store_entity ''models'' ''Model name'' models modelId (drop_null_cost normalized) document)))))"

definition updateModel ::
  "config_host \<Rightarrow> config_mutator \<Rightarrow> string option \<Rightarrow> string \<Rightarrow> model_changes \<Rightarrow> mutation_state \<Rightarrow>
   (config_error + model_read_model \<times> json) \<times> mutation_state" where
  "updateModel host mut configPath modelId changes =
     change_and_return host mut configPath ''models'' modelId (update_model_mutator modelId changes)
       (\<lambda>m. modelsByName m modelId) (not_found ''model_not_found'' ''Model'' modelId)"

definition delete_entity_mutator :: "string \<Rightarrow> string \<Rightarrow> json \<Rightarrow> config_error + json" where
  "delete_entity_mutator key name document =
     rbind (getMutableConfigSection document key) (\<lambda>fs. Inr (jset key (JObj (jm_delete name fs)) document))"

text \<open>The three deletions: look the entity up, refuse if it is in use, delete it.\<close>

definition delete_entity ::
  "config_host \<Rightarrow> config_mutator \<Rightarrow> string option \<Rightarrow> string \<Rightarrow> string \<Rightarrow> (cli_read_model \<Rightarrow> config_error + string) \<Rightarrow> mutation_state \<Rightarrow>
   (config_error + string) \<times> mutation_state" where
  "delete_entity host mut configPath key name check s =
     (case loadCliReadModel (disk_host host s) configPath (mu_warnings s) of
        (Inl e, w) \<Rightarrow> (Inl e, s\<lparr>mu_warnings := w\<rparr>)
      | (Inr m, w) \<Rightarrow>
          (case check m of
             Inl e \<Rightarrow> (Inl e, s\<lparr>mu_warnings := w\<rparr>)
           | Inr shown \<Rightarrow>
               (case mut configPath (delete_entity_mutator key name) (s\<lparr>mu_warnings := w\<rparr>) of
                  (Inl e, t) \<Rightarrow> (Inl e, t)
                | (Inr _, t) \<Rightarrow> (Inr shown, t))))"

definition deleteModel ::
  "config_host \<Rightarrow> config_mutator \<Rightarrow> string option \<Rightarrow> string \<Rightarrow> mutation_state \<Rightarrow> (config_error + string) \<times> mutation_state" where
  "deleteModel host mut configPath modelId =
     delete_entity host mut configPath ''models'' modelId (\<lambda>m.
       case modelsByName m modelId of
         None \<Rightarrow> Inl (not_found ''model_not_found'' ''Model'' modelId)
       | Some v \<Rightarrow> if mr_route_count v > 0 then Inl (in_use ''model_in_use'' ''Model'' modelId (mr_route_count v)) else Inr (mr_name v))"

subsection \<open>Providers\<close>

definition create_provider_mutator :: "string \<Rightarrow> json \<Rightarrow> json \<Rightarrow> config_error + json" where
  "create_provider_mutator providerId normalized document =
     rbind (getMutableConfigSection document ''service_providers'') (\<lambda>providers.
     if stored_defined providers providerId then Inl (already_exists ''provider_already_exists'' ''Provider'' providerId)
     else store_entity ''service_providers'' ''Provider name'' providers providerId normalized document)"

definition createProvider ::
  "config_host \<Rightarrow> config_mutator \<Rightarrow> string option \<Rightarrow> string \<Rightarrow> (string \<times> json) list \<Rightarrow> mutation_state \<Rightarrow>
   (config_error + provider_read_model \<times> json) \<times> mutation_state" where
  "createProvider host mut configPath providerId requested s =
     (case rbind (safe_clone requested ''Provider field'') (\<lambda>c. as_invalid_input (validateMutableProviderEntity (hs_parseUrl host) providerId c)) of
        Inl e \<Rightarrow> (Inl e, s)
      | Inr normalized \<Rightarrow>
          with_entity normalized
            (change_and_read host mut configPath (create_provider_mutator providerId normalized)
               (\<lambda>m. providersByName m providerId) (not_found ''provider_not_found'' ''Provider'' providerId) s))"

fun set_fields :: "string \<Rightarrow> (string \<times> json) list \<Rightarrow> (string \<times> json) list \<Rightarrow> config_error + (string \<times> json) list" where
  "set_fields label [] fs = Inr fs"
| "set_fields label ((k, v) # changes) fs = rbind (safe_set fs k v label) (set_fields label changes)"

definition update_provider_mutator :: "(string \<Rightarrow> parsed_url option) \<Rightarrow> string \<Rightarrow> (string \<times> json) list \<Rightarrow> json \<Rightarrow> config_error + json" where
  "update_provider_mutator parseUrl providerId changes document =
     rbind (getMutableConfigSection document ''service_providers'') (\<lambda>providers.
     rbind (if stored_defined providers providerId then Inr () else Inl (not_found ''provider_not_found'' ''Provider'' providerId)) (\<lambda>_.
     rbind (stored_record ''Provider'' providers providerId) (\<lambda>existing.
     rbind (as_invalid_stored ''Provider'' providerId (validateMutableProviderEntity parseUrl providerId (JObj existing))) (\<lambda>_.
     rbind (set_fields ''Provider field'' changes existing) (\<lambda>next.
     rbind (as_invalid_input (validateMutableProviderEntity parseUrl providerId (JObj next))) (\<lambda>normalized.
     store_entity ''service_providers'' ''Provider name'' providers providerId normalized document))))))"

definition updateProvider ::
  "config_host \<Rightarrow> config_mutator \<Rightarrow> string option \<Rightarrow> string \<Rightarrow> (string \<times> json) list \<Rightarrow> mutation_state \<Rightarrow>
   (config_error + provider_read_model \<times> json) \<times> mutation_state" where
  "updateProvider host mut configPath providerId changes =
     change_and_return host mut configPath ''service_providers'' providerId (update_provider_mutator (hs_parseUrl host) providerId changes)
       (\<lambda>m. providersByName m providerId) (not_found ''provider_not_found'' ''Provider'' providerId)"

definition deleteProvider ::
  "config_host \<Rightarrow> config_mutator \<Rightarrow> string option \<Rightarrow> string \<Rightarrow> mutation_state \<Rightarrow> (config_error + string) \<times> mutation_state" where
  "deleteProvider host mut configPath providerId =
     delete_entity host mut configPath ''service_providers'' providerId (\<lambda>m.
       case providersByName m providerId of
         None \<Rightarrow> Inl (not_found ''provider_not_found'' ''Provider'' providerId)
       | Some v \<Rightarrow>
           (let dependentRoutes = filter (\<lambda>r. rm_service_provider r = providerId) (cr_routes m)
            in if length dependentRoutes > 0 then Inl (in_use ''provider_in_use'' ''Provider'' providerId (length dependentRoutes))
               else Inr (pm_name v)))"

subsection \<open>Keys of providers\<close>

definition provider_auth_mutator :: "string \<Rightarrow> (string \<times> json) list \<Rightarrow> json \<Rightarrow> config_error + json" where
  "provider_auth_mutator providerId updates document =
     rbind (getMutableConfigSection document ''service_providers'') (\<lambda>providers.
     rbind (if stored_defined providers providerId then Inr () else Inl (not_found ''provider_not_found'' ''Provider'' providerId)) (\<lambda>_.
     rbind (stored_record ''Provider'' providers providerId) (\<lambda>existing.
     rbind (set_fields ''Provider field'' updates existing) (\<lambda>next.
     store_entity ''service_providers'' ''Provider name'' providers providerId (JObj next) document))))"

definition updateProviderAuthField ::
  "config_host \<Rightarrow> config_mutator \<Rightarrow> string option \<Rightarrow> string \<Rightarrow> (string \<times> json) list \<Rightarrow> mutation_state \<Rightarrow>
   (config_error + provider_read_model) \<times> mutation_state" where
  "updateProviderAuthField host mut configPath providerId updates =
     change_and_read host mut configPath (provider_auth_mutator providerId updates)
       (\<lambda>m. providersByName m providerId) (not_found ''provider_not_found'' ''Provider'' providerId)"

definition setProviderInlineApiKey where
  "setProviderInlineApiKey host mut configPath providerId apiKey =
     updateProviderAuthField host mut configPath providerId [(''api_key'', JStr apiKey)]"

definition clearProviderInlineApiKey where
  "clearProviderInlineApiKey host mut configPath providerId =
     updateProviderAuthField host mut configPath providerId [(''api_key'', JNull)]"

definition setProviderApiKeyEnv where
  "setProviderApiKeyEnv host mut configPath providerId apiKeyEnv =
     updateProviderAuthField host mut configPath providerId [(''api_key_env'', JStr apiKeyEnv)]"

subsection \<open>Routes\<close>

definition assertRouteReferencesKnown :: "string \<Rightarrow> json \<Rightarrow> cli_read_model \<Rightarrow> config_error + unit" where
  "assertRouteReferencesKnown routeId route readModel =
     (let modelId = the_text (jprop route ''model''); providerId = the_text (jprop route ''service_provider'')
      in if modelsByName readModel modelId = None
         then Inl (entity_error ''unknown_model'' (''Route '' @ quoted routeId @ '' references unknown model '' @ quoted modelId))
         else if providersByName readModel providerId = None
         then Inl (entity_error ''unknown_service_provider''
                     (''Route '' @ quoted routeId @ '' references unknown service provider '' @ quoted providerId))
         else Inr ())"

definition create_route_mutator :: "string \<Rightarrow> json \<Rightarrow> json \<Rightarrow> config_error + json" where
  "create_route_mutator routeId normalized document =
     rbind (getMutableConfigSection document ''routes'') (\<lambda>routes.
     store_entity ''routes'' ''Route name'' routes routeId normalized document)"

definition createRoute ::
  "config_host \<Rightarrow> config_mutator \<Rightarrow> string option \<Rightarrow> string \<Rightarrow> (string \<times> json) list \<Rightarrow> mutation_state \<Rightarrow>
   (config_error + route_read_model) \<times> mutation_state" where
  "createRoute host mut configPath routeId requested s =
     (case rbind (safe_clone requested ''Route field'') (\<lambda>c. as_invalid_input (validateMutableRouteEntity routeId c)) of
        Inl e \<Rightarrow> (Inl e, s)
      | Inr normalized \<Rightarrow>
          (case loadCliReadModel (disk_host host s) configPath (mu_warnings s) of
             (Inl e, w) \<Rightarrow> (Inl e, s\<lparr>mu_warnings := w\<rparr>)
           | (Inr readModel, w) \<Rightarrow>
               if routesByName readModel routeId \<noteq> None
               then (Inl (already_exists ''route_already_exists'' ''Route'' routeId), s\<lparr>mu_warnings := w\<rparr>)
               else (case assertRouteReferencesKnown routeId normalized readModel of
                       Inl e \<Rightarrow> (Inl e, s\<lparr>mu_warnings := w\<rparr>)
                     | Inr _ \<Rightarrow>
                         change_and_read host mut configPath (create_route_mutator routeId normalized)
                           (\<lambda>m. routesByName m routeId) (not_found ''route_not_found'' ''Route'' routeId) (s\<lparr>mu_warnings := w\<rparr>))))"

text \<open>A change to \<open>null\<close> of the timeout or the cost removes the field.\<close>

fun apply_route_changes :: "(string \<times> json) list \<Rightarrow> (string \<times> json) list \<Rightarrow> config_error + (string \<times> json) list" where
  "apply_route_changes [] fs = Inr fs"
| "apply_route_changes ((k, v) # changes) fs =
     (if (k = ''timeout_ms'' \<or> k = ''cost'') \<and> v = JNull then apply_route_changes changes (jm_delete k fs)
      else rbind (safe_set fs k v ''Route field'') (apply_route_changes changes))"

definition update_route_mutator :: "string \<Rightarrow> (string \<times> json) list \<Rightarrow> cli_read_model \<Rightarrow> json \<Rightarrow> config_error + json" where
  "update_route_mutator routeId changes readModel document =
     rbind (getMutableConfigSection document ''routes'') (\<lambda>routes.
     rbind (stored_record ''Route'' routes routeId) (\<lambda>existing.
     rbind (as_invalid_stored ''Route'' routeId (validateMutableRouteEntity routeId (JObj existing))) (\<lambda>_.
     rbind (apply_route_changes changes existing) (\<lambda>next.
     rbind (as_invalid_input (validateMutableRouteEntity routeId (JObj next))) (\<lambda>normalized.
     rbind (assertRouteReferencesKnown routeId normalized readModel) (\<lambda>_.
     store_entity ''routes'' ''Route name'' routes routeId normalized document))))))"

definition updateRoute ::
  "config_host \<Rightarrow> config_mutator \<Rightarrow> string option \<Rightarrow> string \<Rightarrow> (string \<times> json) list \<Rightarrow> mutation_state \<Rightarrow>
   (config_error + route_read_model) \<times> mutation_state" where
  "updateRoute host mut configPath routeId changes s =
     (case loadCliReadModel (disk_host host s) configPath (mu_warnings s) of
        (Inl e, w) \<Rightarrow> (Inl e, s\<lparr>mu_warnings := w\<rparr>)
      | (Inr readModel, w) \<Rightarrow>
          if routesByName readModel routeId = None
          then (Inl (not_found ''route_not_found'' ''Route'' routeId), s\<lparr>mu_warnings := w\<rparr>)
          else change_and_read host mut configPath (update_route_mutator routeId changes readModel)
                 (\<lambda>m. routesByName m routeId) (not_found ''route_not_found'' ''Route'' routeId) (s\<lparr>mu_warnings := w\<rparr>))"

definition deleteRoute ::
  "config_host \<Rightarrow> config_mutator \<Rightarrow> string option \<Rightarrow> string \<Rightarrow> mutation_state \<Rightarrow> (config_error + string) \<times> mutation_state" where
  "deleteRoute host mut configPath routeId =
     delete_entity host mut configPath ''routes'' routeId (\<lambda>m.
       case routesByName m routeId of
         None \<Rightarrow> Inl (not_found ''route_not_found'' ''Route'' routeId)
       | Some v \<Rightarrow> Inr (rm_name v))"

section \<open>The outcome of a change\<close>

definition write_area :: "string \<Rightarrow> string \<Rightarrow> string \<Rightarrow> string \<Rightarrow> string set" where
  "write_area tempLabel rand1 rand2 p = {p, temp_path p tempLabel rand1} \<union> backup_paths rand2 p"

definition on_disk :: "config_host \<Rightarrow> string \<Rightarrow> json \<Rightarrow> io_state \<Rightarrow> bool" where
  "on_disk host p document s \<longleftrightarrow> (\<exists>m. jm_get (io_disk s) p = Some \<lparr>dk_text = document_text host document, dk_mode = m\<rparr>)"

lemma write_document_outcome:
  assumes "writeConfigJsonDocument host rand1 rand2 tempLabel fileName p document s = (r, t)" "plain_suffixes tempLabel rand1 rand2"
  shows "(case r of Inl _ \<Rightarrow> jm_get (io_disk t) p = jm_get (io_disk s) p | Inr _ \<Rightarrow> on_disk host p document t) \<and>
    (\<forall>q. q \<notin> write_area tempLabel rand1 rand2 p \<longrightarrow> jm_get (io_disk t) q = jm_get (io_disk s) q)"
proof -
  obtain r' where r': "writeConfigJsonDocumentAtomically host rand1 rand2 tempLabel p document (ioreturn ()) s = (r', t)"
    "isl r' = isl r"
    using assms(1) by (auto simp: writeConfigJsonDocument_def split: prod.splits sum.splits)
  have "only_touches {} (ioreturn ())" by (rule touches_return)
  from replacement_outcome [OF r'(1) this assms(2)] r'(2) show ?thesis
    by (cases r; cases r') (auto simp: on_disk_def write_area_def)
qed

lemma write_if_changed_outcome:
  assumes "writeConfigJsonDocumentIfChanged host rand1 rand2 tempLabel fileName p document s = (r, t)"
    and "plain_suffixes tempLabel rand1 rand2"
  shows "(case r of Inl _ \<Rightarrow> jm_get (io_disk t) p = jm_get (io_disk s) p | Inr _ \<Rightarrow> on_disk host p document t) \<and>
    (\<forall>q. q \<notin> write_area tempLabel rand1 rand2 p \<longrightarrow> jm_get (io_disk t) q = jm_get (io_disk s) q)"
proof (cases "jm_get (io_disk s) p")
  case None
  with assms have "writeConfigJsonDocument host rand1 rand2 tempLabel fileName p document s = (r, t)"
    by (simp add: writeConfigJsonDocumentIfChanged_def iobind_def sys_exists_def ioreturn_def)
  from write_document_outcome [OF this assms(2)] show ?thesis .
next
  case (Some f)
  obtain rr u where u: "sys_read p s = (rr, u)" by fastforce
  then have same: "jm_get (io_disk u) q = jm_get (io_disk s) q" for q
    using only_touchesD [OF touches_calls(6) [where P = "{}"]] by fastforce
  show ?thesis
  proof (cases rr)
    case (Inl e)
    with assms u Some have "r = Inl e" "t = u"
      by (auto simp: writeConfigJsonDocumentIfChanged_def iobind_def sys_exists_def ioreturn_def)
    then show ?thesis using same by simp
  next
    case (Inr content)
    then have content: "content = dk_text f" using u Some by (auto simp: sys_read_def elim!: on_file_Inr)
    show ?thesis
    proof (cases "content = document_text host document")
      case True
      with assms u Some Inr have "r = Inr ()" "t = u"
        by (auto simp: writeConfigJsonDocumentIfChanged_def iobind_def sys_exists_def ioreturn_def)
      then show ?thesis using same Some content True by (cases f) (auto simp: on_disk_def)
    next
      case False
      with assms u Some Inr have "writeConfigJsonDocument host rand1 rand2 tempLabel fileName p document u = (r, t)"
        by (auto simp: writeConfigJsonDocumentIfChanged_def iobind_def sys_exists_def ioreturn_def)
      from write_document_outcome [OF this assms(2)] same show ?thesis by (cases r) simp_all
    qed
  qed
qed

lemma write_area_basename:
  assumes "q \<in> write_area tempLabel rand1 rand2 p" "plain_suffixes tempLabel rand1 rand2"
  shows "\<exists>rest. basename q = basename p @ rest"
proof -
  have "basename (temp_path p tempLabel rand1) = basename p @ ''.'' @ tempLabel @ ''-'' @ rand1"
    using assms(2) by (auto simp: temp_path_def plain_suffixes_def intro!: basename_append)
  moreover have "basename (backup_temp_path (resolveConfigBackupPath p) rand2) = basename p @ ''.bak.tmp-'' @ rand2"
    using assms(2) by (simp add: backup_temp_path_def plain_suffixes_def basename_append basename_backup)
  ultimately show ?thesis
    using assms(1) basename_backup [of p] unfolding write_area_def backup_paths_def by (elim UnE insertE emptyE) auto
qed

lemma areas_apart:
  assumes "basename p = ''config.json''" "basename k = ''catalog.json''" "plain_suffixes l1 a1 b1" "plain_suffixes l2 a2 b2"
  shows "p \<notin> write_area l1 a1 b1 k" "k \<notin> write_area l2 a2 b2 p"
  using write_area_basename [OF _ assms(3), of p k] write_area_basename [OF _ assms(4), of k p] assms(1,2) by auto

lemma load_effective_Inr:
  assumes "load_effective host configPath = Inr (sourcePath, catalog, effective)"
  shows "sourcePath = resolveCliConfigPath host configPath" "basename (ct_sourcePath catalog) = ''catalog.json''"
proof -
  show "sourcePath = resolveCliConfigPath host configPath"
    using assms by (auto simp: load_effective_def loadRawConfigJsonDocument_def rbind_Inr_iff Let_def)
  have "ct_sourcePath catalog = resolveCatalogPathForConfig host sourcePath"
    using assms by (auto simp: load_effective_def rbind_Inr_iff loadCatalogForConfig_def loadCatalogJsonObject_def Let_def)
  moreover have "basename (d @ ''/'' @ ''catalog.json'') = ''catalog.json''" for d by (rule basename_after_slash) simp
  from this [of "[]"] this have "basename (path_join d ''catalog.json'') = ''catalog.json''" for d
    by (simp add: path_join_def)
  ultimately show "basename (ct_sourcePath catalog) = ''catalog.json''" by (simp add: resolveCatalogPathForConfig_def)
qed

definition plain_write_suffixes :: "write_suffixes \<Rightarrow> bool" where
  "plain_write_suffixes rs \<longleftrightarrow>
     plain_suffixes ''catalog-tmp'' (ws_catalog rs) (ws_catalogBackup rs) \<and> plain_suffixes ''tmp'' (ws_config rs) (ws_configBackup rs)"

text \<open>The two writes: catalog first, then configuration.\<close>

lemma two_writes:
  assumes "iobind (writeConfigJsonDocumentIfChanged h (ws_catalog rs) (ws_catalogBackup rs) ''catalog-tmp'' ''catalog.json'' k catalogDocument) (\<lambda>_.
      writeConfigJsonDocumentIfChanged h (ws_config rs) (ws_configBackup rs) ''tmp'' ''config.json'' p configDocument) s = (r, t)"
    and "plain_write_suffixes rs" "basename p = ''config.json''" "basename k = ''catalog.json''"
  shows "case r of
      Inr _ \<Rightarrow> on_disk h k catalogDocument t \<and> on_disk h p configDocument t
    | Inl _ \<Rightarrow> jm_get (io_disk t) p = jm_get (io_disk s) p \<and>
        (jm_get (io_disk t) k = jm_get (io_disk s) k \<or> on_disk h k catalogDocument t)"
proof -
  have plain: "plain_suffixes ''catalog-tmp'' (ws_catalog rs) (ws_catalogBackup rs)" "plain_suffixes ''tmp'' (ws_config rs) (ws_configBackup rs)"
    using assms(2) by (simp_all add: plain_write_suffixes_def)
  note apart = areas_apart [OF assms(3,4) plain]
  obtain r1 u where first: "writeConfigJsonDocumentIfChanged h (ws_catalog rs) (ws_catalogBackup rs) ''catalog-tmp'' ''catalog.json'' k catalogDocument s = (r1, u)"
    by fastforce
  note one = write_if_changed_outcome [OF first plain(1)]
  show ?thesis
  proof (cases r1)
    case (Inl e)
    with assms(1) first have "r = Inl e" "t = u" by (simp_all add: iobind_def)
    with one Inl apart(1) show ?thesis by simp
  next
    case (Inr x)
    with assms(1) first have "writeConfigJsonDocumentIfChanged h (ws_config rs) (ws_configBackup rs) ''tmp'' ''config.json'' p configDocument u = (r, t)"
      by (simp add: iobind_def)
    from write_if_changed_outcome [OF this plain(2)] one Inr apart show ?thesis
      by (cases r) (auto simp: on_disk_def)
  qed
qed



definition example_mutation_state :: mutation_state where
  "example_mutation_state =
     \<lparr>mu_io = \<lparr>io_disk = [(''/c/config.json'', \<lparr>dk_text = ''s'', dk_mode = 384\<rparr>), (''/c/catalog.json'', \<lparr>dk_text = ''c'', dk_mode = 384\<rparr>)],
                io_outcomes = []\<rparr>,
      mu_warnings = no_warnings\<rparr>"


end
