(* ===== verification/Config_Errors.thy ===== *)
theory Config_Errors
  imports Config_Mutation
begin

text \<open>
  What a change of the configuration reports: the difference shown before an import
  (\<^verbatim>\<open>renderConfigImportDiff\<close>) and the classification of failures by their message
  (\<^verbatim>\<open>classifyMutationError\<close>, \<^verbatim>\<open>classifyUsageError\<close>, \<^verbatim>\<open>classifyCliUsageFailure\<close>), all of
  \<^verbatim>\<open>config/mutation/config.ts\<close>.

  Main results: the difference is exact, with a longest common prefix and then a longest common
  suffix left out; and the classification of a message gives the code that the operation itself
  attaches to it, so that a failure has the same code whether or not the error keeps its class.
\<close>

section \<open>The difference of an import\<close>

definition strip_newline :: "string \<Rightarrow> string" where
  "strip_newline s = (if ends_with ''\<newline>'' s then butlast s else s)"

definition text_lines :: "string \<Rightarrow> string list" where
  "text_lines s = split_char (CHR ''\<newline>'') (strip_newline s)"

text \<open>The two loops; \<open>i\<close> and \<open>j\<close> are \<open>currentSuffix + 1\<close> and \<open>nextSuffix + 1\<close>.\<close>

function diff_prefix :: "string list \<Rightarrow> string list \<Rightarrow> nat \<Rightarrow> nat" where
  "diff_prefix xs ys p =
     (if p < length xs \<and> p < length ys \<and> xs ! p = ys ! p then diff_prefix xs ys (p + 1) else p)"
  by auto
termination by (relation "measure (\<lambda>(xs, ys, p). length xs - p)") auto

function diff_suffix :: "string list \<Rightarrow> string list \<Rightarrow> nat \<Rightarrow> nat \<Rightarrow> nat \<Rightarrow> nat \<times> nat" where
  "diff_suffix xs ys p i j =
     (if p < i \<and> p < j \<and> xs ! (i - 1) = ys ! (j - 1) then diff_suffix xs ys p (i - 1) (j - 1) else (i, j))"
  by auto
termination by (relation "measure (\<lambda>(xs, ys, p, i, j). i)") auto

declare diff_prefix.simps [simp del] diff_suffix.simps [simp del]

definition js_slice :: "'a list \<Rightarrow> nat \<Rightarrow> nat \<Rightarrow> 'a list" where
  "js_slice xs i j = drop i (take j xs)"

definition renderConfigImportDiff :: "string \<Rightarrow> string \<Rightarrow> string" where
  "renderConfigImportDiff currentText nextText =
     (if currentText = nextText then ''No config changes.\<newline>''
      else let currentLines = text_lines currentText; nextLines = text_lines nextText;
               p = diff_prefix currentLines nextLines 0;
               (i, j) = diff_suffix currentLines nextLines p (length currentLines) (length nextLines)
           in join ''\<newline>'' ([''--- current'', ''+++ imported''] @ map (\<lambda>l. ''- '' @ l) (js_slice currentLines p i) @
                map (\<lambda>l. ''+ '' @ l) (js_slice nextLines p j)) @ ''\<newline>'')"

lemma diff_prefix_spec:
  assumes "p \<le> length xs" "p \<le> length ys" "take p xs = take p ys"
  defines "q \<equiv> diff_prefix xs ys p"
  shows "q \<le> length xs \<and> q \<le> length ys \<and> take q xs = take q ys \<and> (q < length xs \<and> q < length ys \<longrightarrow> xs ! q \<noteq> ys ! q)"
  using assms(1-3) unfolding q_def
proof (induction xs ys p rule: diff_prefix.induct)
  case (1 xs ys p)
  show ?case
  proof (cases "p < length xs \<and> p < length ys \<and> xs ! p = ys ! p")
    case True
    then have "take (p + 1) xs = take (p + 1) ys"
      using 1(4) by (simp add: take_Suc_conv_app_nth)
    with 1 True show ?thesis by (simp add: diff_prefix.simps [of xs ys p])
  next
    case False
    then have "diff_prefix xs ys p = p" by (simp only: diff_prefix.simps [of xs ys p] if_False)
    with 1(2-) False show ?thesis by auto
  qed
qed

lemma diff_suffix_spec:
  assumes "p \<le> i" "p \<le> j" "i \<le> length xs" "j \<le> length ys" "drop i xs = drop j ys" "diff_suffix xs ys p i j = (i', j')"
  shows "p \<le> i' \<and> p \<le> j' \<and> i' \<le> length xs \<and> j' \<le> length ys \<and> drop i' xs = drop j' ys \<and>
    (p < i' \<and> p < j' \<longrightarrow> xs ! (i' - 1) \<noteq> ys ! (j' - 1))"
  using assms
proof (induction xs ys p i j rule: diff_suffix.induct)
  case (1 xs ys p i j)
  show ?case
  proof (cases "p < i \<and> p < j \<and> xs ! (i - 1) = ys ! (j - 1)")
    case True
    then have "drop (i - 1) xs = drop (j - 1) ys"
      using 1(4-6) by (cases i; cases j) (simp_all add: Cons_nth_drop_Suc [symmetric])
    moreover have "p \<le> i - 1" "p \<le> j - 1" "i - 1 \<le> length xs" "j - 1 \<le> length ys" using True 1(4,5) by auto
    moreover have "diff_suffix xs ys p (i - 1) (j - 1) = (i', j')" using 1(7) True by (simp add: diff_suffix.simps [of xs ys p i j])
    ultimately show ?thesis using 1(1) True by simp
  next
    case False
    then have "diff_suffix xs ys p i j = (i, j)" by (simp only: diff_suffix.simps [of xs ys p i j] if_False)
    with 1(2-) False show ?thesis by auto
  qed
qed

lemma slice_splits:
  assumes "p \<le> i" "i \<le> length xs"
  shows "xs = take p xs @ js_slice xs p i @ drop i xs"
proof -
  have "take p (take i xs) = take p xs" using assms by (simp add: min_def)
  then have "take p xs @ js_slice xs p i = take i xs"
    using append_take_drop_id [of p "take i xs"] by (simp only: js_slice_def)
  then show ?thesis by (metis append.assoc append_take_drop_id)
qed

lemma slice_ends:
  assumes "p < i" "i \<le> length xs"
  shows "js_slice xs p i \<noteq> [] \<and> hd (js_slice xs p i) = xs ! p \<and> last (js_slice xs p i) = xs ! (i - 1)"
  using assms by (simp add: js_slice_def hd_drop_conv_nth last_drop last_conv_nth)

text \<open>
  Property (import_diff_exact). When the texts differ, the difference lists a block of lines of the
  current document to remove and a block of lines of the imported one to insert: what stands before
  and after the blocks is common to both documents, and the blocks, unless one is empty, begin and
  end with different lines.
\<close>
theorem import_diff_exact:
  assumes "currentText \<noteq> nextText"
  shows "\<exists>before removed added behind.
    text_lines currentText = before @ removed @ behind \<and> text_lines nextText = before @ added @ behind \<and>
    renderConfigImportDiff currentText nextText =
      join ''\<newline>'' ([''--- current'', ''+++ imported''] @ map (\<lambda>l. ''- '' @ l) removed @ map (\<lambda>l. ''+ '' @ l) added) @ ''\<newline>'' \<and>
    (removed \<noteq> [] \<and> added \<noteq> [] \<longrightarrow> hd removed \<noteq> hd added \<and> last removed \<noteq> last added)"
proof -
  define xs ys where "xs = text_lines currentText" and "ys = text_lines nextText"
  define p where "p = diff_prefix xs ys 0"
  obtain i j where ij: "diff_suffix xs ys p (length xs) (length ys) = (i, j)" by fastforce
  have pre: "p \<le> length xs" "p \<le> length ys" "take p xs = take p ys" "p < length xs \<and> p < length ys \<longrightarrow> xs ! p \<noteq> ys ! p"
    using diff_prefix_spec [of 0 xs ys] by (simp_all add: p_def)
  have suf: "p \<le> i" "p \<le> j" "i \<le> length xs" "j \<le> length ys" "drop i xs = drop j ys"
    "p < i \<and> p < j \<longrightarrow> xs ! (i - 1) \<noteq> ys ! (j - 1)"
    using diff_suffix_spec [OF pre(1,2) _ _ _ ij] by simp_all
  have "xs = take p xs @ js_slice xs p i @ drop i xs" "ys = take p xs @ js_slice ys p j @ drop i xs"
    using slice_splits suf pre(3) by metis+
  moreover have "renderConfigImportDiff currentText nextText =
      join ''\<newline>'' ([''--- current'', ''+++ imported''] @ map (\<lambda>l. ''- '' @ l) (js_slice xs p i) @ map (\<lambda>l. ''+ '' @ l) (js_slice ys p j)) @ ''\<newline>''"
    using assms ij by (simp only: renderConfigImportDiff_def Let_def xs_def [symmetric] ys_def [symmetric] p_def [symmetric] if_False prod.case)
  moreover have "hd (js_slice xs p i) \<noteq> hd (js_slice ys p j) \<and> last (js_slice xs p i) \<noteq> last (js_slice ys p j)"
    if "js_slice xs p i \<noteq> [] \<and> js_slice ys p j \<noteq> []"
  proof -
    have "p < i" "p < j" using that suf by (auto simp: js_slice_def)
    then show ?thesis using slice_ends [of p i xs] slice_ends [of p j ys] suf pre(4) by simp
  qed
  ultimately show ?thesis unfolding xs_def ys_def by blast
qed

theorem import_diff_exact_witness:
  "\<exists>before removed added behind.
    text_lines ''a\<newline>b\<newline>c\<newline>'' = before @ removed @ behind \<and> text_lines ''a\<newline>x\<newline>c\<newline>'' = before @ added @ behind \<and>
    renderConfigImportDiff ''a\<newline>b\<newline>c\<newline>'' ''a\<newline>x\<newline>c\<newline>'' =
      join ''\<newline>'' ([''--- current'', ''+++ imported''] @ map (\<lambda>l. ''- '' @ l) removed @ map (\<lambda>l. ''+ '' @ l) added) @ ''\<newline>'' \<and>
    (removed \<noteq> [] \<and> added \<noteq> [] \<longrightarrow> hd removed \<noteq> hd added \<and> last removed \<noteq> last added)"
  by (rule import_diff_exact) simp

section \<open>The classification of failures\<close>

record failure_class =
  fc_code :: string
  fc_exitCode :: nat

text \<open>
  The match of \<^verbatim>\<open>/^(Model|Provider|Route) '([^']+)' (.+)$/\<close>: the name ends at the first quote, and the
  remainder is not empty and has no line terminator.
\<close>

definition line_terminator :: "char \<Rightarrow> bool" where
  "line_terminator c \<longleftrightarrow> c = CHR ''\<newline>'' \<or> c = CHR 0x0D"

definition match_named :: "string \<Rightarrow> string \<Rightarrow> string option" where
  "match_named entity message =
     (if starts_with (entity @ '' '' @ [CHR 0x27]) message
      then let rest = drop (length entity + 2) message;
               name = takeWhile (\<lambda>c. c \<noteq> CHR 0x27) rest;
               remainder = drop (length name + 2) rest
           in if name \<noteq> [] \<and> starts_with ([CHR 0x27] @ '' '') (drop (length name) rest) \<and> remainder \<noteq> [] \<and>
                 list_all (\<lambda>c. \<not> line_terminator c) remainder
              then Some remainder else None
      else None)"

definition prefix_match :: "string \<Rightarrow> (string \<times> string) option" where
  "prefix_match message =
     (case match_named ''Model'' message of Some r \<Rightarrow> Some (''Model'', r)
      | None \<Rightarrow> (case match_named ''Provider'' message of Some r \<Rightarrow> Some (''Provider'', r)
      | None \<Rightarrow> (case match_named ''Route'' message of Some r \<Rightarrow> Some (''Route'', r) | None \<Rightarrow> None)))"

definition entity_state :: "string \<Rightarrow> string \<Rightarrow> string \<Rightarrow> string \<Rightarrow> string option" where
  "entity_state message modelCode providerCode routeCode =
     (if starts_with (''Model '' @ [CHR 0x27]) message then Some modelCode
      else if starts_with (''Provider '' @ [CHR 0x27]) message then Some providerCode
      else if starts_with (''Route '' @ [CHR 0x27]) message then Some routeCode
      else None)"

definition remainder_code :: "string \<times> string \<Rightarrow> string option" where
  "remainder_code = (\<lambda>(entity, remainder).
     if starts_with ''cannot be deleted because'' remainder \<and> entity = ''Model'' then Some ''model_in_use''
     else if starts_with ''cannot be deleted because'' remainder \<and> entity = ''Provider'' then Some ''provider_in_use''
     else if starts_with ''references unknown model'' remainder then Some ''unknown_model''
     else if starts_with ''references unknown service provider'' remainder then Some ''unknown_service_provider''
     else None)"

definition INVALID_MUTATION_TEXTS :: "string list" where
  "INVALID_MUTATION_TEXTS =
     [''missing a valid'', ''must define either '' @ quoted ''api_key'' @ '' or '' @ quoted ''api_key_env'',
      ''must be stored as an object in config.json.'', ''must not define'', ''must contain a '' @ quoted ''models'' @ '' object.'',
      ''must contain a '' @ quoted ''service_providers'' @ '' object.'', ''must contain a '' @ quoted ''routes'' @ '' object.'',
      ''is reserved and cannot be used.'', ''references unknown model'', ''references unknown service provider'']"

definition first_some :: "'a option \<Rightarrow> 'a option \<Rightarrow> 'a option" where
  "first_some x y = (case x of Some a \<Rightarrow> Some a | None \<Rightarrow> y)"

definition classifyMutationError :: "string \<Rightarrow> string \<Rightarrow> failure_class" where
  "classifyMutationError message fallbackCode =
     (let exists = (if ends_with '' already exists'' message
                    then entity_state message ''model_already_exists'' ''provider_already_exists'' ''route_already_exists'' else None);
          missing = (if ends_with '' was not found'' message
                     then entity_state message ''model_not_found'' ''provider_not_found'' ''route_not_found'' else None);
          named = (case prefix_match message of None \<Rightarrow> None | Some m \<Rightarrow> remainder_code m);
          invalid = (if list_ex (\<lambda>t. str_includes t message) INVALID_MUTATION_TEXTS then Some ''invalid_config_mutation'' else None)
      in \<lparr>fc_code = the (first_some exists (first_some missing (first_some named (first_some invalid (Some fallbackCode))))),
          fc_exitCode = 1\<rparr>)"

definition classifyUsageError :: "string \<Rightarrow> string \<Rightarrow> failure_class" where
  "classifyUsageError message fallbackCode =
     \<lparr>fc_code =
        (if starts_with (''Missing required argument '' @ [CHR 0x27] @ ''<'') message \<or>
            str_includes (''is required when not using '' @ quoted ''--stdin'' @ '' or '' @ quoted ''--json-input'') message
         then ''missing_required_field''
         else if starts_with (''Flag '' @ [CHR 0x27] @ ''--'') message \<and> str_includes ([CHR 0x27] @ '' requires a value'') message
         then ''missing_flag_value''
         else if starts_with (''Flag '' @ [CHR 0x27] @ ''--'') message \<and> str_includes ([CHR 0x27] @ '' requires a non-negative numeric value'') message
         then ''invalid_flag_value''
         else if starts_with (''Use only one of '' @ quoted ''--stdin'' @ '' or '' @ quoted ''--json-input'') message
         then ''conflicting_structured_input''
         else if starts_with (''Do not mix '' @ quoted ''--stdin'' @ '' or '' @ quoted ''--json-input'') message
         then ''conflicting_input_modes''
         else if starts_with (''Flag '' @ quoted ''--clear-cost'' @ '' cannot be combined with explicit '' @ quoted ''--cost-*'' @ '' values'') message
         then ''conflicting_cost_flags''
         else if starts_with ''Cost flags must be provided as a complete set'' message then ''incomplete_cost_flags''
         else if starts_with (''Flag '' @ quoted ''--clear-cost'' @ '' is not supported'') message then ''unsupported_clear_cost''
         else if str_includes ''is reserved and cannot be used.'' message \<or>
            list_ex (\<lambda>t. starts_with t message)
              [''stdin payload field '' @ [CHR 0x27], ''json input field '' @ [CHR 0x27], ''stdin payload must include a non-empty'',
               ''json input must include a non-empty'', ''stdin payload must not include '' @ quoted ''name'',
               ''json input must not include '' @ quoted ''name'']
         then ''invalid_input_field''
         else if list_ex (\<lambda>t. starts_with t message)
              [''stdin payload must include at least one update field'', ''json input must include at least one update field'',
               ''Provide at least one update field for '']
         then ''missing_update_fields''
         else fallbackCode),
      fc_exitCode = 2\<rparr>"

text \<open>An error caught by a command: one of the two classes with a code, or any other.\<close>

datatype cli_error =
    CliUsageError string string
  | CliMutationError string string nat
  | OtherError string

fun cli_error_message :: "cli_error \<Rightarrow> string" where
  "cli_error_message (CliUsageError code message) = message"
| "cli_error_message (CliMutationError code message exitCode) = message"
| "cli_error_message (OtherError message) = message"

definition throwCliInvalidInputField :: "string \<Rightarrow> cli_error" where
  "throwCliInvalidInputField message = CliUsageError ''invalid_input_field'' message"

definition noUsageMessageMatch :: "string \<Rightarrow> bool" where
  "noUsageMessageMatch message = False"

definition classifyCliUsageFailure :: "cli_error \<Rightarrow> string \<Rightarrow> string \<Rightarrow> (string \<Rightarrow> bool) \<Rightarrow> string \<times> failure_class" where
  "classifyCliUsageFailure e usageFallbackCode mutationFallbackCode isUsageMessage =
     (cli_error_message e,
      (case e of
         CliUsageError code message \<Rightarrow> \<lparr>fc_code = code, fc_exitCode = 2\<rparr>
       | CliMutationError code message exitCode \<Rightarrow> \<lparr>fc_code = code, fc_exitCode = exitCode\<rparr>
       | OtherError message \<Rightarrow>
           (if isUsageMessage message then classifyUsageError message usageFallbackCode
            else classifyMutationError message mutationFallbackCode)))"

section \<open>Codes and messages agree\<close>

text \<open>The errors of the operations on entities that carry a code of their own.\<close>

definition entity_errors :: "string \<Rightarrow> string \<Rightarrow> nat \<Rightarrow> config_error list" where
  "entity_errors name other routeCount =
     [already_exists ''model_already_exists'' ''Model'' name, not_found ''model_not_found'' ''Model'' name,
      in_use ''model_in_use'' ''Model'' name routeCount, invalid_stored ''Model'' name,
      already_exists ''provider_already_exists'' ''Provider'' name, not_found ''provider_not_found'' ''Provider'' name,
      in_use ''provider_in_use'' ''Provider'' name routeCount, invalid_stored ''Provider'' name,
      already_exists ''route_already_exists'' ''Route'' name, not_found ''route_not_found'' ''Route'' name,
      entity_error ''unknown_model'' (''Route '' @ quoted name @ '' references unknown model '' @ quoted other),
      entity_error ''unknown_service_provider'' (''Route '' @ quoted name @ '' references unknown service provider '' @ quoted other),
      invalid_stored ''Route'' name]"

definition plain_name :: "string \<Rightarrow> bool" where
  "plain_name name \<longleftrightarrow> name \<noteq> [] \<and> list_all (\<lambda>c. c \<noteq> CHR 0x27 \<and> \<not> line_terminator c) name"

lemma ends_with_append [simp]: "ends_with p (s @ p)"
  by (simp add: ends_with_def)

lemma ends_with_last: "ends_with (p @ [c]) (s @ [d]) \<Longrightarrow> c = d"
  by (auto simp: ends_with_def dest!: arg_cong [of _ _ last] split: if_splits)

lemma str_includes_infix: "str_includes p (s @ p @ t)"
proof (induction s)
  case Nil
  have "str_includes p q" if "starts_with p q" for q
    using that by (cases q) (simp_all add: starts_with_def)
  then show ?case by simp
qed simp

lemma match_named_named:
  assumes "plain_name name" "remainder \<noteq> []" "list_all (\<lambda>c. \<not> line_terminator c) remainder"
  shows "match_named entity (entity @ '' '' @ quoted name @ '' '' @ remainder) = Some remainder"
proof -
  have "takeWhile (\<lambda>c. c \<noteq> CHR 0x27) (name @ CHR 0x27 # CHR '' '' # remainder) = name"
    using assms(1) by (auto simp: plain_name_def list_all_iff takeWhile_append)
  then show ?thesis
    using assms by (simp add: match_named_def quoted_def starts_with_def plain_name_def Let_def)
qed

lemma classify_state:
  assumes "\<not> ends_with '' already exists'' message" "\<not> ends_with '' was not found'' message"
  shows "classifyMutationError message fallback =
    \<lparr>fc_code = the (first_some (case prefix_match message of None \<Rightarrow> None | Some m \<Rightarrow> remainder_code m)
       (first_some (if list_ex (\<lambda>t. str_includes t message) INVALID_MUTATION_TEXTS then Some ''invalid_config_mutation'' else None)
         (Some fallback))), fc_exitCode = 1\<rparr>"
  using assms by (simp add: classifyMutationError_def first_some_def)

lemma classify_exists_message:
  assumes "ends_with '' already exists'' message"
    and "entity_state message ''model_already_exists'' ''provider_already_exists'' ''route_already_exists'' = Some c"
  shows "classifyMutationError message fallback = \<lparr>fc_code = c, fc_exitCode = 1\<rparr>"
  using assms by (simp add: classifyMutationError_def first_some_def)

lemma classify_missing_message:
  assumes "\<not> ends_with '' already exists'' message" "ends_with '' was not found'' message"
    and "entity_state message ''model_not_found'' ''provider_not_found'' ''route_not_found'' = Some c"
  shows "classifyMutationError message fallback = \<lparr>fc_code = c, fc_exitCode = 1\<rparr>"
  using assms by (simp add: classifyMutationError_def first_some_def)

lemma classify_existing:
  assumes "entity \<in> {''Model'', ''Provider'', ''Route''}"
  shows "classifyMutationError (entity @ '' '' @ quoted name @ '' already exists'') fallback =
      \<lparr>fc_code = (if entity = ''Model'' then ''model_already_exists'' else if entity = ''Provider'' then ''provider_already_exists''
                   else ''route_already_exists''), fc_exitCode = 1\<rparr>" (is ?exists)
    and "classifyMutationError (entity @ '' '' @ quoted name @ '' was not found'') fallback =
      \<lparr>fc_code = (if entity = ''Model'' then ''model_not_found'' else if entity = ''Provider'' then ''provider_not_found''
                   else ''route_not_found''), fc_exitCode = 1\<rparr>" (is ?missing)
proof -
  have e: "ends_with '' already exists'' (entity @ '' '' @ quoted name @ '' already exists'')"
    using ends_with_append [of "'' already exists''" "entity @ '' '' @ quoted name"] by simp
  have m: "ends_with '' was not found'' (entity @ '' '' @ quoted name @ '' was not found'')"
    using ends_with_append [of "'' was not found''" "entity @ '' '' @ quoted name"] by simp
  have not_e: "\<not> ends_with '' already exists'' (entity @ '' '' @ quoted name @ '' was not found'')"
    using ends_with_last [of "'' already exist''" "CHR ''s''" "entity @ '' '' @ quoted name @ '' was not foun''" "CHR ''d''"] by auto
  have state: "entity_state (entity @ '' '' @ quoted name @ t) a b c =
      Some (if entity = ''Model'' then a else if entity = ''Provider'' then b else c)" for t a b c
    using assms by (elim insertE emptyE; hypsubst) (simp_all add: entity_state_def starts_with_def quoted_def)
  show ?exists by (rule classify_exists_message [OF e state])
  show ?missing by (rule classify_missing_message [OF not_e m state])
qed

lemma match_named_other: "\<not> starts_with (entity @ '' '' @ [CHR 0x27]) message \<Longrightarrow> match_named entity message = None"
  by (simp add: match_named_def)

lemma prefix_match_named:
  assumes "plain_name name" "remainder \<noteq> []" "list_all (\<lambda>c. \<not> line_terminator c) remainder" "entity \<in> {''Model'', ''Provider'', ''Route''}"
  shows "prefix_match (entity @ '' '' @ quoted name @ '' '' @ remainder) = Some (entity, remainder)"
proof -
  have "match_named other (entity @ '' '' @ quoted name @ '' '' @ remainder) = (if other = entity then Some remainder else None)"
    if "other \<in> {''Model'', ''Provider'', ''Route''}" for other
    using that assms(4) match_named_named [OF assms(1-3), of entity]
    by (auto intro!: match_named_other simp: starts_with_def)
  from this [of "''Model''"] this [of "''Provider''"] this [of "''Route''"] assms(4) show ?thesis
    by (auto simp: prefix_match_def)
qed

text \<open>A message on a named entity that does not end like those on its existence.\<close>

lemma classify_named:
  assumes "plain_name name" "list_all (\<lambda>c. \<not> line_terminator c) (remainder @ [c])" "entity \<in> {''Model'', ''Provider'', ''Route''}"
    and "c \<noteq> CHR ''s''" "c \<noteq> CHR ''d''"
  shows "classifyMutationError (entity @ '' '' @ quoted name @ '' '' @ remainder @ [c]) fallback =
    \<lparr>fc_code = the (first_some (remainder_code (entity, remainder @ [c]))
       (first_some (if list_ex (\<lambda>t. str_includes t (entity @ '' '' @ quoted name @ '' '' @ remainder @ [c])) INVALID_MUTATION_TEXTS
          then Some ''invalid_config_mutation'' else None) (Some fallback))), fc_exitCode = 1\<rparr>"
proof -
  let ?start = "entity @ '' '' @ quoted name @ '' '' @ remainder"
  have "\<not> ends_with '' already exists'' (?start @ [c])" "\<not> ends_with '' was not found'' (?start @ [c])"
    using assms(4,5) ends_with_last [of "'' already exist''" "CHR ''s''" ?start c] ends_with_last [of "'' was not foun''" "CHR ''d''" ?start c]
    by auto
  then have "\<not> ends_with '' already exists'' (entity @ '' '' @ quoted name @ '' '' @ remainder @ [c])"
    "\<not> ends_with '' was not found'' (entity @ '' '' @ quoted name @ '' '' @ remainder @ [c])" by simp_all
  from classify_state [OF this] prefix_match_named [OF assms(1) _ assms(2,3)] show ?thesis by simp
qed

lemma digits_no_terminator: "list_all (\<lambda>c. \<not> line_terminator c) (digits_of_nat n)"
  by (auto simp: list_all_iff line_terminator_def is_digit_def code_unit_def dest!: digits_of_nat_digits)

lemma classify_in_use:
  assumes "plain_name name" "entity \<in> {''Model'', ''Provider''}"
  shows "classifyMutationError (entity @ '' '' @ quoted name @ '' cannot be deleted because '' @ digits_of_nat n @ '' route(s) still reference it'') fallback =
    \<lparr>fc_code = (if entity = ''Model'' then ''model_in_use'' else ''provider_in_use''), fc_exitCode = 1\<rparr>"
proof -
  let ?remainder = "''cannot be deleted because '' @ digits_of_nat n @ '' route(s) still reference i''"
  have "list_all (\<lambda>c. \<not> line_terminator c) (?remainder @ ''t'')"
    using digits_no_terminator [of n] by (simp add: line_terminator_def)
  moreover have "remainder_code (entity, ?remainder @ ''t'') = Some (if entity = ''Model'' then ''model_in_use'' else ''provider_in_use'')"
    using assms(2) by (elim insertE emptyE; hypsubst) (simp_all add: remainder_code_def starts_with_def)
  moreover have "entity \<in> {''Model'', ''Provider'', ''Route''}" using assms(2) by blast
  ultimately show ?thesis
    using classify_named [OF assms(1), of ?remainder "CHR ''t''" entity fallback] by (simp add: first_some_def)
qed

lemma classify_unknown:
  assumes "plain_name name" "plain_name other"
  shows "classifyMutationError (''Route '' @ quoted name @ '' references unknown model '' @ quoted other) fallback =
      \<lparr>fc_code = ''unknown_model'', fc_exitCode = 1\<rparr>"
    and "classifyMutationError (''Route '' @ quoted name @ '' references unknown service provider '' @ quoted other) fallback =
      \<lparr>fc_code = ''unknown_service_provider'', fc_exitCode = 1\<rparr>"
proof -
  have plain: "list_all (\<lambda>c. \<not> line_terminator c) other" using assms(2) by (auto simp: plain_name_def list_all_iff)
  show "classifyMutationError (''Route '' @ quoted name @ '' references unknown model '' @ quoted other) fallback =
      \<lparr>fc_code = ''unknown_model'', fc_exitCode = 1\<rparr>"
    using classify_named [OF assms(1), of "''references unknown model '' @ [CHR 0x27] @ other" "CHR 0x27" "''Route''" fallback] plain
    by (simp add: quoted_def line_terminator_def remainder_code_def starts_with_def first_some_def)
  show "classifyMutationError (''Route '' @ quoted name @ '' references unknown service provider '' @ quoted other) fallback =
      \<lparr>fc_code = ''unknown_service_provider'', fc_exitCode = 1\<rparr>"
    using classify_named [OF assms(1), of "''references unknown service provider '' @ [CHR 0x27] @ other" "CHR 0x27" "''Route''" fallback] plain
    by (simp add: quoted_def line_terminator_def remainder_code_def starts_with_def first_some_def)
qed

lemma classify_invalid_stored:
  assumes "plain_name name" "entity \<in> {''Model'', ''Provider'', ''Route''}"
  shows "classifyMutationError (entity @ '' '' @ quoted name @ '' must be stored as an object in config.json.'') fallback =
    \<lparr>fc_code = ''invalid_config_mutation'', fc_exitCode = 1\<rparr>"
proof -
  let ?remainder = "''must be stored as an object in config.json''"
  let ?message = "entity @ '' '' @ quoted name @ '' '' @ ?remainder @ ''.''"
  have "list_all (\<lambda>c. \<not> line_terminator c) (?remainder @ ''.'')" by (simp add: line_terminator_def)
  moreover have "remainder_code (entity, ?remainder @ ''.'') = None" by (simp add: remainder_code_def starts_with_def)
  moreover have "str_includes ''must be stored as an object in config.json.'' ?message"
    using str_includes_infix [of "''must be stored as an object in config.json.''" "entity @ '' '' @ quoted name @ '' ''" "[]"] by simp
  then have "list_ex (\<lambda>t. str_includes t ?message) INVALID_MUTATION_TEXTS"
    unfolding INVALID_MUTATION_TEXTS_def list_ex_iff by (intro bexI) (assumption, simp)
  ultimately show ?thesis
    using classify_named [OF assms(1) _ assms(2), of ?remainder "CHR ''.''" fallback] by (simp add: first_some_def)
qed

text \<open>
  Property (coded_error_reclassified). For names without quotes and line breaks, the code that an operation on a model,
  a provider or a route attaches to its error is the code that classification finds from the message
  alone; so an error keeps its code when its class is lost on the way to the command.
\<close>
theorem coded_error_reclassified:
  assumes "plain_name name" "plain_name other" "CodedError code message \<in> set (entity_errors name other routeCount)"
  shows "classifyMutationError message fallback = \<lparr>fc_code = code, fc_exitCode = 1\<rparr>"
proof -
  have members: "''Model'' \<in> {''Model'', ''Provider'', ''Route''}" "''Provider'' \<in> {''Model'', ''Provider'', ''Route''}"
    "''Route'' \<in> {''Model'', ''Provider'', ''Route''}" "''Model'' \<in> {''Model'', ''Provider''}" "''Provider'' \<in> {''Model'', ''Provider''}"
    by simp_all
  note facts = members(1-3) [THEN classify_existing(1), of name fallback] members(1-3) [THEN classify_existing(2), of name fallback]
    members(4,5) [THEN classify_in_use [OF assms(1)], of routeCount fallback] classify_unknown [OF assms(1,2), of fallback]
    members(1-3) [THEN classify_invalid_stored [OF assms(1)], of fallback]
  from assms(3) show ?thesis
    unfolding entity_errors_def already_exists_def not_found_def in_use_def invalid_stored_def entity_error_def list.set insert_iff
      config_error.inject empty_iff
    by (elim disjE conjE FalseE; hypsubst) (rule facts [THEN trans], simp)+
qed

theorem coded_error_reclassified_witness:
  "classifyMutationError (''Model '' @ quoted ''m1'' @ '' was not found'') ''mutation_failed'' = \<lparr>fc_code = ''model_not_found'', fc_exitCode = 1\<rparr>"
  by (rule coded_error_reclassified [of "''m1''" "''p1''" _ _ 0])
    (simp_all add: plain_name_def line_terminator_def entity_errors_def not_found_def entity_error_def)

end
