(* ===== verification/Gateway_Process.thy ===== *)
theory Gateway_Process
  imports Config_Read_Model Rate_Limits
begin

text \<open>
  The life of the gateway process: the runtime snapshot of \<^verbatim>\<open>runtime/runtime-snapshot.ts\<close>, start and
  reload of \<^verbatim>\<open>gateway/runtime.ts\<close>, and the server life cycle of \<^verbatim>\<open>gateway/gateway-runner.ts\<close> with its
  signals, fatal errors and graceful shutdown, as a function of the events of the process.

  Main results: in every state a process can reach, the configuration in use satisfies the bind policy
  and has the address the process started with; a shutdown that has begun always ends, with the exit
  code of the reason it began with; a reload that fails keeps the configuration; but the inbound token
  is never refreshed.
\<close>

section \<open>Snapshots\<close>

datatype integrity_status = IntegrityOk | IntegrityFatal

record fatal_state =
  ft_processIntegrityStatus :: integrity_status
  ft_lastFatalError :: "string option"
  ft_lastFatalAt :: "string option"

datatype reload_status = NeverAttempted | ReloadOk | ReloadFailed

record reload_state =
  re_lastReloadStatus :: reload_status
  re_lastReloadError :: "string option"
  re_lastReloadAttemptedAt :: "string option"
  re_lastReloadSucceededAt :: "string option"

record runtime_snapshot =
  sn_config :: config_snapshot
  sn_readModel :: cli_read_model
  sn_rateLimiter :: rl_config
  sn_loadedAt :: string
  sn_reloadState :: reload_state
  sn_fatalState :: fatal_state

record address_overrides =
  ov_host :: "string option"
  ov_port :: "rat option"

definition createInitialGatewayReloadState :: reload_state where
  "createInitialGatewayReloadState =
     \<lparr>re_lastReloadStatus = NeverAttempted, re_lastReloadError = None, re_lastReloadAttemptedAt = None, re_lastReloadSucceededAt = None\<rparr>"

definition createHealthyGatewayFatalState :: fatal_state where
  "createHealthyGatewayFatalState =
     \<lparr>ft_processIntegrityStatus = IntegrityOk, ft_lastFatalError = None, ft_lastFatalAt = None\<rparr>"

abbreviation bindHost :: "config_snapshot \<Rightarrow> string" where
  "bindHost c \<equiv> st_bindHost (st_capacity (cs_settings c))"

abbreviation port :: "config_snapshot \<Rightarrow> rat" where
  "port c \<equiv> st_port (st_stream (cs_settings c))"

definition applyGatewayRunOverrides :: "config_snapshot \<Rightarrow> address_overrides \<Rightarrow> config_snapshot" where
  "applyGatewayRunOverrides config overrides =
     (if ov_host overrides = None \<and> ov_port overrides = None then config
      else let s = cs_settings config
           in config\<lparr>cs_settings := s\<lparr>
                st_capacity := (st_capacity s)\<lparr>st_bindHost := (case ov_host overrides of Some h \<Rightarrow> h | None \<Rightarrow> bindHost config)\<rparr>,
                st_stream := (st_stream s)\<lparr>st_port := (case ov_port overrides of Some p \<Rightarrow> p | None \<Rightarrow> port config)\<rparr>\<rparr>\<rparr>)"

definition createGatewayRuntimeRateLimiter :: "config_snapshot \<Rightarrow> config_error + rl_config" where
  "createGatewayRuntimeRateLimiter config =
     (let rateLimit = st_process (cs_settings config)
      in case parseRateLimitWindowMs (st_rateLimitWindow rateLimit) of
           None \<Rightarrow> Inl (ConfigMessage (''Gateway rate limit window '' @ quoted (st_rateLimitWindow rateLimit) @ '' is invalid.''))
         | Some windowMs \<Rightarrow>
             (case createGlobalRateLimiter \<lfloor>st_rateLimitRequests rateLimit\<rfloor> (int windowMs) None None of
                Inl _ \<Rightarrow> Inl (ConfigMessage ''Global rate limiter configuration is invalid.'')
              | Inr limiter \<Rightarrow> Inr limiter))"

definition buildInitialGatewayRuntimeSnapshot :: "config_snapshot \<Rightarrow> cli_read_model \<Rightarrow> string \<Rightarrow> config_error + runtime_snapshot" where
  "buildInitialGatewayRuntimeSnapshot config readModel loadedAt =
     rbind (createGatewayRuntimeRateLimiter config) (\<lambda>limiter.
     Inr \<lparr>sn_config = config, sn_readModel = readModel, sn_rateLimiter = limiter, sn_loadedAt = loadedAt,
          sn_reloadState = createInitialGatewayReloadState, sn_fatalState = createHealthyGatewayFatalState\<rparr>)"

definition buildReloadedGatewayRuntimeSnapshot ::
  "(rat \<Rightarrow> string) \<Rightarrow> runtime_snapshot \<Rightarrow> config_snapshot \<Rightarrow> cli_read_model \<Rightarrow> string \<Rightarrow> config_error + runtime_snapshot" where
  "buildReloadedGatewayRuntimeSnapshot nts currentRuntime nextConfig nextReadModel reloadedAt =
     (let current = sn_config currentRuntime
      in rbind (require (port nextConfig = port current \<and> bindHost nextConfig = bindHost current)
                  (''Reload requires restart when '' @ quoted ''port'' @ '' or '' @ quoted ''bindHost'' @ '' changes (current '' @
                   bindHost current @ '':'' @ nts (port current) @ '', next '' @ bindHost nextConfig @ '':'' @ nts (port nextConfig) @ '').'')) (\<lambda>_.
         rbind (createGatewayRuntimeRateLimiter nextConfig) (\<lambda>limiter.
         Inr \<lparr>sn_config = nextConfig, sn_readModel = nextReadModel, sn_rateLimiter = limiter, sn_loadedAt = reloadedAt,
              sn_reloadState = \<lparr>re_lastReloadStatus = ReloadOk, re_lastReloadError = None,
                re_lastReloadAttemptedAt = Some reloadedAt, re_lastReloadSucceededAt = Some reloadedAt\<rparr>,
              sn_fatalState = sn_fatalState currentRuntime\<rparr>)))"

definition markGatewayRuntimeReloadFailure :: "runtime_snapshot \<Rightarrow> string \<Rightarrow> string \<Rightarrow> runtime_snapshot" where
  "markGatewayRuntimeReloadFailure currentRuntime message attemptedAt =
     currentRuntime\<lparr>sn_reloadState := (sn_reloadState currentRuntime)\<lparr>re_lastReloadStatus := ReloadFailed,
       re_lastReloadError := Some message, re_lastReloadAttemptedAt := Some attemptedAt\<rparr>\<rparr>"

definition markGatewayRuntimeFatalError :: "runtime_snapshot \<Rightarrow> string \<Rightarrow> string \<Rightarrow> runtime_snapshot" where
  "markGatewayRuntimeFatalError currentRuntime message fatalAt =
     currentRuntime\<lparr>sn_fatalState :=
       \<lparr>ft_processIntegrityStatus = IntegrityFatal, ft_lastFatalError = Some message, ft_lastFatalAt = Some fatalAt\<rparr>\<rparr>"

section \<open>The process\<close>

text \<open>
  What the process is started with. The overrides of keys from the secrets file are read once, when the
  runtime is constructed. \<open>pd_messageOf\<close> gives the text of an error value.
\<close>

record process_deps =
  pd_configPath :: "string option"
  pd_address :: address_overrides
  pd_logLevel :: "log_level option"
  pd_envLogLevel :: "string option"
  pd_env :: env_lookup
  pd_apiKeyOverrides :: env_lookup
  pd_messageOf :: "config_error \<Rightarrow> string"
  pd_numberText :: "rat \<Rightarrow> string"

text \<open>Loading reads the disk several times; it may change in between.\<close>

record host_views =
  hv_config :: config_host
  hv_readModel :: config_host
  hv_inlineKeys :: config_host
  hv_mode :: config_host

datatype process_end = Exited nat | KilledBySignal

datatype log_entry = LineEntry string | WarningEntry string | DebugEntry string | StartupEntry string rat nat string

record process_state =
  pr_runtime :: runtime_snapshot
  pr_logLevel :: log_level
  pr_retention :: "string option"                  \<comment> \<open>as the observability module was configured\<close>
  pr_pruneTimer :: bool
  pr_maxConnections :: rat
  pr_inlineKeys :: "string list"
  pr_worldReadable :: "string option"
  pr_handlers :: bool
  pr_shutdownStarted :: bool
  pr_exitCode :: nat                               \<comment> \<open>of the shutdown in progress\<close>
  pr_shutdownTimeoutMs :: rat
  pr_forcedExitTimer :: bool
  pr_finalizing :: bool
  pr_processExitCode :: nat                        \<comment> \<open>\<open>process.exitCode\<close>\<close>
  pr_end :: "process_end option"
  pr_warnings :: warnings
  pr_log :: "log_entry list"

definition log_to :: "log_entry \<Rightarrow> process_state \<Rightarrow> process_state" where
  "log_to e s = s\<lparr>pr_log := pr_log s @ [e]\<rparr>"

definition processLogLevelOverride :: "string option \<Rightarrow> log_level option" where
  "processLogLevelOverride v =
     (if v = Some ''debug'' then Some Debug else if v = Some ''info'' then Some Info
      else if v = Some ''warn'' then Some Warn else if v = Some ''error'' then Some ErrorLevel else None)"

definition applyEffectiveLogLevel :: "process_deps \<Rightarrow> log_level option \<Rightarrow> log_level" where
  "applyEffectiveLogLevel d configLogLevel =
     (case pd_logLevel d of Some l \<Rightarrow> l
      | None \<Rightarrow> (case processLogLevelOverride (pd_envLogLevel d) of Some l \<Rightarrow> l
      | None \<Rightarrow> (case configLogLevel of Some l \<Rightarrow> l | None \<Rightarrow> Info)))"

definition resolveInboundGatewayAuthState :: "process_deps \<Rightarrow> config_snapshot \<Rightarrow> auth_state" where
  "resolveInboundGatewayAuthState d config =
     resolveLocalGatewayInboundAuthState (pd_env d) (st_inboundApiKeyEnv (st_inbound (cs_settings config)))
       (st_allowUnauthenticatedGateway (st_inbound (cs_settings config))) (pd_apiKeyOverrides d)"

definition effective_bind :: "config_snapshot \<Rightarrow> bind_input" where
  "effective_bind config =
     bind_of (st_capacity (cs_settings config)) (st_inboundApiKeyEnv (st_inbound (cs_settings config)))
       (st_allowUnauthenticatedGateway (st_inbound (cs_settings config)))"

definition check_bind :: "config_snapshot \<Rightarrow> config_error + unit" where
  "check_bind config = (case assertGatewayBindPolicy (effective_bind config) of Inl e \<Rightarrow> Inl (BindRefused e) | Inr _ \<Rightarrow> Inr ())"

text \<open>Load, apply the overrides, check the bind policy, load the read model.\<close>

definition load_runtime_inputs ::
  "process_deps \<Rightarrow> host_views \<Rightarrow> warnings \<Rightarrow> (config_error + config_snapshot \<times> cli_read_model) \<times> warnings" where
  "load_runtime_inputs d views w =
     (case loadConfig (hv_config views) (pd_configPath d) w of
        (Inl e, w) \<Rightarrow> (Inl e, w)
      | (Inr loaded, w) \<Rightarrow>
          (let config = applyGatewayRunOverrides loaded (pd_address d)
           in case check_bind config of
                Inl e \<Rightarrow> (Inl e, w)
              | Inr _ \<Rightarrow>
                  (case loadCliReadModel (hv_readModel views) (pd_configPath d) w of
                     (Inl e, w) \<Rightarrow> (Inl e, w)
                   | (Inr readModel, w) \<Rightarrow> (Inr (config, readModel), w))))"

definition getInlineApiKeyProviderNames :: "config_host \<Rightarrow> string option \<Rightarrow> warnings \<Rightarrow> (config_error + string list) \<times> warnings" where
  "getInlineApiKeyProviderNames host configPath w =
     (case loadCliReadModel host configPath w of
        (Inl e, w) \<Rightarrow> (Inl e, w)
      | (Inr m, w) \<Rightarrow> (Inr (map pm_name (filter (\<lambda>p. pm_auth_source p = inline_override) (cr_providers m))), w))"

definition octal_mode :: "nat \<Rightarrow> string" where
  "octal_mode mode = ''0'' @ digits_of_nat (mode div 64 mod 8) @ digits_of_nat (mode div 8 mod 8) @ digits_of_nat (mode mod 8)"

definition getWorldReadableConfigWarning :: "config_host \<Rightarrow> string option \<Rightarrow> config_error + string option" where
  "getWorldReadableConfigWarning host configPath =
     (let resolvedPath = resolveCliConfigPath host configPath
      in case hs_stat host resolvedPath of
           Inl f \<Rightarrow> Inl (ConfigMessage (ff_message f))
         | Inr (mode, _) \<Rightarrow>
             Inr (if even (mode div 4) then None
                  else Some (resolvedPath @ '' is world-readable (mode '' @ octal_mode mode @ ''). Run: chmod 0600 '' @ resolvedPath)))"

definition buildGatewayRemoteBindWarning :: "(rat \<Rightarrow> string) \<Rightarrow> config_snapshot \<Rightarrow> string option" where
  "buildGatewayRemoteBindWarning nts config =
     (let address = bindHost config @ '':'' @ nts (port config)
      in if \<not> isGatewayRemoteBindEnabled (effective_bind config) then None
         else if isWildcardBindHostname (bindHost config)
         then Some (''Gateway wildcard bind is enabled on '' @ address @ ''. This binds the gateway to all network interfaces on the host; '' @
                    ''protect the inbound auth token, review firewall/VPN/container exposure, and monitor upstream provider quota.'')
         else Some (''Gateway remote bind is enabled on '' @ address @ ''. This can make the gateway reachable from other machines; '' @
                    ''protect the inbound auth token and monitor upstream provider quota.''))"

definition syncActiveRuntimeSideEffects ::
  "process_deps \<Rightarrow> host_views \<Rightarrow> process_state \<Rightarrow> (config_error + string list \<times> string option) \<times> process_state" where
  "syncActiveRuntimeSideEffects d views s =
     (let config = sn_config (pr_runtime s);
          s1 = s\<lparr>pr_logLevel := applyEffectiveLogLevel d (st_logLevel (st_process (cs_settings config)))\<rparr>;
          s2 = (if resolveInboundGatewayAuthState d config = disabled_explicit
                then log_to (WarningEntry ''Gateway inbound auth is explicitly disabled. The gateway will accept unauthenticated inbound requests.'') s1
                else s1);
          s3 = s2\<lparr>pr_retention := cs_retentionOlderThan config\<rparr>
      in case getInlineApiKeyProviderNames (hv_inlineKeys views) (pd_configPath d) (pr_warnings s3) of
           (r, w) \<Rightarrow>
             (rbind r (\<lambda>names. rbind (getWorldReadableConfigWarning (hv_mode views) (pd_configPath d)) (\<lambda>warning. Inr (names, warning))),
              s3\<lparr>pr_warnings := w\<rparr>))"

definition logActiveConfigWarnings :: "process_deps \<Rightarrow> string list \<Rightarrow> string option \<Rightarrow> process_state \<Rightarrow> process_state" where
  "logActiveConfigWarnings d inlineApiKeyProviders worldReadable s =
     (let config = sn_config (pr_runtime s);
          warn = (\<lambda>m s. case m of None \<Rightarrow> s | Some t \<Rightarrow> log_to (WarningEntry t) s);
          s1 = warn worldReadable (warn (buildGatewayRemoteBindWarning (pd_numberText d) config) s)
      in if inlineApiKeyProviders = [] then s1
         else fold (\<lambda>n. log_to (WarningEntry (''Provider '' @ quoted n @ '' has a raw api_key set in the active config file.''))) inlineApiKeyProviders
                (log_to (WarningEntry (''Plaintext inline api_key values were detected in '' @ cs_sourceFile config @
                   ''. Prefer api_key_env for provider secrets.'')) s1))"

definition syncRetentionPruneSchedule :: "process_state \<Rightarrow> process_state" where
  "syncRetentionPruneSchedule s = s\<lparr>pr_pruneTimer := (cs_retentionOlderThan (sn_config (pr_runtime s)) \<noteq> None)\<rparr>"

section \<open>Reload\<close>

definition reloadRuntime ::
  "process_deps \<Rightarrow> host_views \<Rightarrow> string \<Rightarrow> process_state \<Rightarrow> (config_error + runtime_snapshot) \<times> process_state" where
  "reloadRuntime d views reloadAttemptedAt s =
     (case load_runtime_inputs d views (pr_warnings s) of
        (r, w) \<Rightarrow>
          (rbind r (\<lambda>(nextConfig, nextReadModel).
             buildReloadedGatewayRuntimeSnapshot (pd_numberText d) (pr_runtime s) nextConfig nextReadModel reloadAttemptedAt),
           s\<lparr>pr_warnings := w\<rparr>))"

definition reloadActiveConfig ::
  "process_deps \<Rightarrow> host_views \<Rightarrow> string \<Rightarrow> process_state \<Rightarrow> (config_error + unit) \<times> process_state" where
  "reloadActiveConfig d views now s =
     (case reloadRuntime d views now s of
        (Inl e, s) \<Rightarrow> (Inl e, s)
      | (Inr runtime, s) \<Rightarrow>
          (case syncActiveRuntimeSideEffects d views (s\<lparr>pr_runtime := runtime\<rparr>) of
             (Inl e, s) \<Rightarrow> (Inl e, s)
           | (Inr (inlineApiKeyProviders, worldReadable), s) \<Rightarrow>
               (let config = sn_config (pr_runtime s);
                    s1 = (syncRetentionPruneSchedule s)\<lparr>pr_inlineKeys := inlineApiKeyProviders, pr_worldReadable := worldReadable,
                      pr_maxConnections := st_maxConnections (st_capacity (cs_settings config))\<rparr>;
                    s2 = log_to (LineEntry (''Config reloaded: '' @ cs_sourceFile config @ '' ('' @ digits_of_nat (length (cs_routes config)) @
                           '' route(s))'')) s1;
                    s3 = log_to (DebugEntry (''reload  source_file='' @ cs_sourceFile config @ ''  bind_host='' @ bindHost config @ ''  port='' @
                           pd_numberText d (port config) @ ''  max_connections='' @
                           pd_numberText d (st_maxConnections (st_capacity (cs_settings config))))) s2
                in (Inr (), logActiveConfigWarnings d inlineApiKeyProviders worldReadable s3))))"

definition error_line :: "string \<Rightarrow> string \<Rightarrow> string" where
  "error_line label message =
     ''x ERROR     model='' @ label @ ''  reason='' @ [CHR 0x22] @ safeErrorText message 512 @ [CHR 0x22] @ ''  status=1''"

definition handleSighup :: "process_deps \<Rightarrow> host_views \<Rightarrow> string \<Rightarrow> process_state \<Rightarrow> process_state" where
  "handleSighup d views now s =
     (case reloadActiveConfig d views now s of
        (Inr _, s) \<Rightarrow> s
      | (Inl e, s) \<Rightarrow>
          log_to (LineEntry (error_line ''reload'' (pd_messageOf d e)))
            (s\<lparr>pr_runtime := markGatewayRuntimeReloadFailure (pr_runtime s) (pd_messageOf d e) now\<rparr>))"

section \<open>Shutdown\<close>

datatype shutdown_reason = SIGINT | SIGTERM | FatalRuntimeError

fun reason_name :: "shutdown_reason \<Rightarrow> string" where
  "reason_name SIGINT = ''SIGINT''"
| "reason_name SIGTERM = ''SIGTERM''"
| "reason_name FatalRuntimeError = ''fatal_runtime_error''"

text \<open>
  The timer is armed and the server is closed for new connections; the callback of the close and the
  timer are later events. Disposing of the resources of the request handler is not part of this state.
\<close>

definition beginGatewayGracefulShutdown :: "shutdown_reason \<Rightarrow> nat \<Rightarrow> process_state \<Rightarrow> process_state" where
  "beginGatewayGracefulShutdown reason exitCode s =
     (if pr_shutdownStarted s then s
      else (log_to (WarningEntry
              (if reason = FatalRuntimeError then ''Fatal runtime error detected; shutting down gracefully.''
               else ''Received '' @ reason_name reason @ ''; shutting down gracefully.'')) s)
             \<lparr>pr_pruneTimer := False, pr_forcedExitTimer := True, pr_exitCode := exitCode,
              pr_shutdownTimeoutMs := st_shutdownTimeoutMs (st_capacity (cs_settings (sn_config (pr_runtime s)))), pr_shutdownStarted := True\<rparr>)"

definition triggerGracefulShutdown :: "shutdown_reason \<Rightarrow> process_state \<Rightarrow> process_state" where
  "triggerGracefulShutdown reason = beginGatewayGracefulShutdown reason (if reason = FatalRuntimeError then 1 else 0)"

definition handleFatalRuntimeError :: "string \<Rightarrow> string \<Rightarrow> string \<Rightarrow> process_state \<Rightarrow> process_state" where
  "handleFatalRuntimeError source message now s =
     triggerGracefulShutdown FatalRuntimeError
       ((log_to (LineEntry (error_line source message))
           (s\<lparr>pr_runtime := markGatewayRuntimeFatalError (pr_runtime s) message now\<rparr>))\<lparr>pr_processExitCode := 1\<rparr>)"

definition process_exit :: "nat \<Rightarrow> process_state \<Rightarrow> process_state" where
  "process_exit code s = s\<lparr>pr_end := Some (Exited code)\<rparr>"

text \<open>The events of the process and what its handlers do; without handlers, the defaults of the platform.\<close>

datatype process_event =
    Listening
  | Sighup host_views string
  | Sigint
  | Sigterm
  | UnhandledRejection string string         \<comment> \<open>message, time\<close>
  | UncaughtException string string
  | ServerError string
  | ServerClosed
  | FinalizerDone "string option"            \<comment> \<open>the message when it failed\<close>
  | ForcedExitTimeout

definition server_listening :: "process_deps \<Rightarrow> process_state \<Rightarrow> process_state" where
  "server_listening d s =
     (let config = sn_config (pr_runtime s)
      in logActiveConfigWarnings d (pr_inlineKeys s) (pr_worldReadable s)
           (log_to (StartupEntry (bindHost config) (port config) (length (cs_routes config)) (cs_sourcePath config)) s))"

definition process_step :: "process_deps \<Rightarrow> process_event \<Rightarrow> process_state \<Rightarrow> process_state" where
  "process_step d e s =
     (if pr_end s \<noteq> None then s
      else case e of
        Listening \<Rightarrow> server_listening d s
      | Sighup views now \<Rightarrow> if pr_handlers s then handleSighup d views now s else s\<lparr>pr_end := Some KilledBySignal\<rparr>
      | Sigint \<Rightarrow> if pr_handlers s then triggerGracefulShutdown SIGINT s else s\<lparr>pr_end := Some KilledBySignal\<rparr>
      | Sigterm \<Rightarrow> if pr_handlers s then triggerGracefulShutdown SIGTERM s else s\<lparr>pr_end := Some KilledBySignal\<rparr>
      | UnhandledRejection m now \<Rightarrow>
          if pr_handlers s then handleFatalRuntimeError ''unhandled_rejection'' m now s else process_exit 1 s
      | UncaughtException m now \<Rightarrow>
          if pr_handlers s then handleFatalRuntimeError ''uncaught_exception'' m now s else process_exit 1 s
      | ServerError m \<Rightarrow> process_exit 1 (log_to (LineEntry (error_line ''startup'' m)) s)
      | ServerClosed \<Rightarrow>
          if pr_shutdownStarted s \<and> \<not> pr_finalizing s then s\<lparr>pr_handlers := False, pr_finalizing := True\<rparr> else s
      | FinalizerDone failure \<Rightarrow>
          if pr_finalizing s
          then process_exit (pr_exitCode s)
                 ((case failure of None \<Rightarrow> s
                   | Some m \<Rightarrow> log_to (WarningEntry (''Shutdown finalizer failed: '' @ safeErrorText m 256)) s)\<lparr>pr_forcedExitTimer := False\<rparr>)
          else s
      | ForcedExitTimeout \<Rightarrow>
          if pr_forcedExitTimer s
          then process_exit 1 (log_to (WarningEntry (''Graceful shutdown timed out after '' @
                 pd_numberText d (pr_shutdownTimeoutMs s) @ ''ms; forcing exit.'')) s)
          else s)"

text \<open>The state before the first side effect.\<close>

definition process_begin :: "runtime_snapshot \<Rightarrow> warnings \<Rightarrow> process_state" where
  "process_begin runtime w =
     \<lparr>pr_runtime = runtime, pr_logLevel = Info, pr_retention = None, pr_pruneTimer = False, pr_maxConnections = 0,
      pr_inlineKeys = [], pr_worldReadable = None, pr_handlers = False, pr_shutdownStarted = False, pr_exitCode = 0,
      pr_shutdownTimeoutMs = 0, pr_forcedExitTimer = False, pr_finalizing = False, pr_processExitCode = 0, pr_end = None,
      pr_warnings = w, pr_log = []\<rparr>"

text \<open>Start: load, check, build the snapshot, apply its side effects, install the handlers.\<close>

definition runGatewayRun :: "process_deps \<Rightarrow> host_views \<Rightarrow> string \<Rightarrow> warnings \<Rightarrow> config_error + process_state" where
  "runGatewayRun d views now w =
     (case load_runtime_inputs d views w of
        (Inl e, w) \<Rightarrow> Inl e
      | (Inr (config, readModel), w) \<Rightarrow>
          rbind (buildInitialGatewayRuntimeSnapshot config readModel now) (\<lambda>runtime.
          case syncActiveRuntimeSideEffects d views (process_begin runtime w) of
            (Inl e, _) \<Rightarrow> Inl e
          | (Inr (inlineApiKeyProviders, worldReadable), s) \<Rightarrow>
              Inr ((syncRetentionPruneSchedule s)
                     \<lparr>pr_inlineKeys := inlineApiKeyProviders, pr_worldReadable := worldReadable,
                      pr_maxConnections := st_maxConnections (st_capacity (cs_settings config)), pr_handlers := True\<rparr>)))"


section \<open>Reachable states\<close>

inductive reaches :: "process_deps \<Rightarrow> process_state \<Rightarrow> process_state \<Rightarrow> bool" for d where
  start: "reaches d s s"
| step: "reaches d s t \<Longrightarrow> reaches d s (process_step d e t)"

lemma log_to_simps [simp]:
  "pr_runtime (log_to e s) = pr_runtime s" "pr_shutdownStarted (log_to e s) = pr_shutdownStarted s"
  "pr_exitCode (log_to e s) = pr_exitCode s" "pr_forcedExitTimer (log_to e s) = pr_forcedExitTimer s"
  "pr_finalizing (log_to e s) = pr_finalizing s" "pr_end (log_to e s) = pr_end s" "pr_handlers (log_to e s) = pr_handlers s"
  by (simp_all add: log_to_def)

text \<open>Operations that change neither the snapshot nor the state of the shutdown.\<close>

definition same_core :: "process_state \<Rightarrow> process_state \<Rightarrow> bool" where
  "same_core s t \<longleftrightarrow> pr_runtime t = pr_runtime s \<and> pr_shutdownStarted t = pr_shutdownStarted s \<and> pr_exitCode t = pr_exitCode s \<and>
     pr_forcedExitTimer t = pr_forcedExitTimer s \<and> pr_finalizing t = pr_finalizing s \<and> pr_end t = pr_end s \<and> pr_handlers t = pr_handlers s"

lemma same_core_refl [simp]: "same_core s s"
  by (simp add: same_core_def)

lemma same_core_trans: "same_core s t \<Longrightarrow> same_core t u \<Longrightarrow> same_core s u"
  by (simp add: same_core_def)

lemma same_core_log [simp]: "same_core s (log_to e t) = same_core s t"
  by (simp add: same_core_def)

lemma same_core_fold: "same_core s t \<Longrightarrow> same_core s (fold (\<lambda>n. log_to (f n)) ns t)"
  by (induction ns arbitrary: t) simp_all

lemma warnings_same_core: "same_core s t \<Longrightarrow> same_core s (logActiveConfigWarnings d ns wr t)"
  by (auto simp: logActiveConfigWarnings_def Let_def intro!: same_core_fold split: option.splits)

lemma sync_same_core: "syncActiveRuntimeSideEffects d views s = (r, t) \<Longrightarrow> same_core s t"
  by (auto simp: syncActiveRuntimeSideEffects_def Let_def same_core_def split: prod.splits if_splits)

lemma reload_runtime_same_core: "reloadRuntime d views now s = (r, t) \<Longrightarrow> same_core s t"
  by (auto simp: reloadRuntime_def same_core_def split: prod.splits)

lemma listening_same_core: "same_core s (server_listening d s)"
  by (simp add: server_listening_def Let_def warnings_same_core)

section \<open>The configuration in use\<close>

lemma inputs_checked: "load_runtime_inputs d views w = (Inr (c, m), w') \<Longrightarrow> check_bind c = Inr ()"
  by (auto simp: load_runtime_inputs_def Let_def split: prod.splits sum.splits)

lemma reloaded_config:
  assumes "reloadRuntime d views now s = (Inr n, t)"
  shows "check_bind (sn_config n) = Inr () \<and> bindHost (sn_config n) = bindHost (sn_config (pr_runtime s)) \<and>
    port (sn_config n) = port (sn_config (pr_runtime s)) \<and> sn_fatalState n = sn_fatalState (pr_runtime s) \<and> sn_loadedAt n = now \<and>
    sn_reloadState n = \<lparr>re_lastReloadStatus = ReloadOk, re_lastReloadError = None, re_lastReloadAttemptedAt = Some now,
      re_lastReloadSucceededAt = Some now\<rparr>"
proof -
  from assms obtain c m w where "load_runtime_inputs d views (pr_warnings s) = (Inr (c, m), w)"
    and "buildReloadedGatewayRuntimeSnapshot (pd_numberText d) (pr_runtime s) c m now = Inr n"
    by (auto simp: reloadRuntime_def rbind_Inr_iff split: prod.splits)
  then show ?thesis
    using inputs_checked by (auto simp: buildReloadedGatewayRuntimeSnapshot_def Let_def rbind_Inr_iff)
qed

text \<open>A reload ends in one of three ways.\<close>

lemma sighup_cases:
  obtains (kept) e where "pr_runtime (handleSighup d views now s) = markGatewayRuntimeReloadFailure (pr_runtime s) (pd_messageOf d e) now"
  | (reloaded) n t where "reloadRuntime d views now s = (Inr n, t)" "pr_runtime (handleSighup d views now s) = n"
  | (half) n t e where "reloadRuntime d views now s = (Inr n, t)"
      "pr_runtime (handleSighup d views now s) = markGatewayRuntimeReloadFailure n (pd_messageOf d e) now"
proof (cases "reloadRuntime d views now s")
  case (Pair r t)
  note core = reload_runtime_same_core [OF Pair]
  show ?thesis
  proof (cases r)
    case (Inl e)
    with Pair core show ?thesis by (intro kept [of e]) (simp add: handleSighup_def reloadActiveConfig_def same_core_def)
  next
    case (Inr n)
    obtain r2 u where sync: "syncActiveRuntimeSideEffects d views (t\<lparr>pr_runtime := n\<rparr>) = (r2, u)" by fastforce
    have u: "pr_runtime u = n" using sync_same_core [OF sync] by (simp add: same_core_def)
    show ?thesis
    proof (cases r2)
      case (Inl e)
      with Pair Inr sync u show ?thesis by (intro half [of n t e]) (simp_all add: handleSighup_def reloadActiveConfig_def)
    next
      case (Inr x)
      have "pr_runtime (handleSighup d views now s) = n"
        using Pair \<open>r = Inr n\<close> Inr sync u warnings_same_core [OF same_core_refl]
        by (auto simp: handleSighup_def reloadActiveConfig_def Let_def same_core_def syncRetentionPruneSchedule_def split: prod.splits)
      with Pair \<open>r = Inr n\<close> show ?thesis by (intro reloaded [of n t]) simp_all
    qed
  qed
qed


definition address_ok :: "process_state \<Rightarrow> process_state \<Rightarrow> bool" where
  "address_ok s t \<longleftrightarrow>
     (let c = sn_config (pr_runtime t); c0 = sn_config (pr_runtime s)
      in bindHost c = bindHost c0 \<and> port c = port c0 \<and> check_bind c = Inr ())"

lemma sighup_address: "address_ok s0 s \<Longrightarrow> address_ok s0 (handleSighup d views now s)"
  by (rule sighup_cases [of d views now s])
    (auto simp: address_ok_def Let_def markGatewayRuntimeReloadFailure_def dest!: reloaded_config)

lemma shutdown_runtime [simp]: "pr_runtime (triggerGracefulShutdown reason s) = pr_runtime s"
  by (simp add: triggerGracefulShutdown_def beginGatewayGracefulShutdown_def)

lemma fatal_config [simp]: "sn_config (pr_runtime (handleFatalRuntimeError src m now s)) = sn_config (pr_runtime s)"
  by (simp add: handleFatalRuntimeError_def markGatewayRuntimeFatalError_def)

lemma listening_runtime [simp]: "pr_runtime (server_listening d s) = pr_runtime s"
  using listening_same_core [of s d] by (simp add: same_core_def)

lemma step_config:
  assumes "\<And>views now. e \<noteq> Sighup views now"
  shows "sn_config (pr_runtime (process_step d e s)) = sn_config (pr_runtime s)"
  using assms by (cases e) (auto simp: process_step_def process_exit_def split: option.splits)

lemma address_end [simp]: "address_ok s0 (s\<lparr>pr_end := x\<rparr>) = address_ok s0 s"
  by (simp add: address_ok_def)

lemma step_address: "address_ok s0 s \<Longrightarrow> address_ok s0 (process_step d e s)"
proof (cases "\<exists>views now. e = Sighup views now")
  case True
  moreover assume "address_ok s0 s"
  ultimately show ?thesis by (auto simp: process_step_def sighup_address)
next
  case False
  moreover assume "address_ok s0 s"
  ultimately show ?thesis using step_config [of e d s] by (simp add: address_ok_def)
qed

lemma started:
  assumes "runGatewayRun d views now w = Inr s"
  obtains c m w' where "load_runtime_inputs d views w = (Inr (c, m), w')" "sn_config (pr_runtime s) = c" "\<not> pr_shutdownStarted s"
    "\<not> pr_forcedExitTimer s" "\<not> pr_finalizing s" "pr_end s = None" "pr_handlers s" "sn_fatalState (pr_runtime s) = createHealthyGatewayFatalState"
proof -
  from assms obtain c m w1 runtime where c: "load_runtime_inputs d views w = (Inr (c, m), w1)"
    and runtime: "buildInitialGatewayRuntimeSnapshot c m now = Inr runtime"
    unfolding runGatewayRun_def
    by (cases "load_runtime_inputs d views w"; cases "fst (load_runtime_inputs d views w)") (auto simp: rbind_Inr_iff)
  let ?s0 = "process_begin runtime w1"
  obtain r u where u: "syncActiveRuntimeSideEffects d views ?s0 = (r, u)" by fastforce
  have core: "same_core ?s0 u" by (rule sync_same_core [OF u])
  have "\<exists>ns wr mc. s = (syncRetentionPruneSchedule u)\<lparr>pr_inlineKeys := ns, pr_worldReadable := wr, pr_maxConnections := mc, pr_handlers := True\<rparr>"
    using assms u by (auto simp: runGatewayRun_def c runtime split: sum.splits)
  moreover have "sn_config runtime = c" "sn_fatalState runtime = createHealthyGatewayFatalState"
    using runtime by (auto simp: buildInitialGatewayRuntimeSnapshot_def rbind_Inr_iff)
  ultimately show ?thesis
    using core by (intro that [OF c]) (auto simp: same_core_def process_begin_def syncRetentionPruneSchedule_def)
qed

lemma start_checked:
  assumes "runGatewayRun d views now w = Inr s"
  shows "address_ok s s"
proof -
  obtain c m w' where "load_runtime_inputs d views w = (Inr (c, m), w')" "sn_config (pr_runtime s) = c"
    by (rule started [OF assms])
  then show ?thesis using inputs_checked by (auto simp: address_ok_def)
qed

text \<open>On a disk that does not change, a configuration that loads and may be bound to starts the gateway.\<close>

definition stable_views :: "config_host \<Rightarrow> host_views" where
  "stable_views host = \<lparr>hv_config = host, hv_readModel = host, hv_inlineKeys = host, hv_mode = host\<rparr>"

lemma limiter_built:
  assumes "settings_ok (cs_settings c)"
  shows "is_ok (createGatewayRuntimeRateLimiter (applyGatewayRunOverrides c overrides))"
proof -
  let ?p = "st_process (cs_settings c)"
  have "\<lfloor>st_rateLimitRequests ?p\<rfloor> > 0" and window: "parseRateLimitWindowMs (st_rateLimitWindow ?p) \<noteq> None"
    using assms by (auto simp: settings_ok_def process_settings_ok_def whole_positive_def elim!: Ints_cases)
  moreover have "st_process (cs_settings (applyGatewayRunOverrides c overrides)) = ?p"
    by (simp add: applyGatewayRunOverrides_def Let_def)
  ultimately show ?thesis
    by (auto simp: createGatewayRuntimeRateLimiter_def createGlobalRateLimiter_def Let_def dest: rate_window_positive)
qed

lemma loaded_file_private:
  assumes "loadConfig host path w = (Inr c, w1)"
  shows "getWorldReadableConfigWarning host path = Inr None"
proof -
  let ?p = "resolve_config_path host path"
  obtain d retention where "load_document host ?p = Inr (d, cs_settings c, retention)"
    by (rule snapshot_loaded [OF loadConfig_snapshot [OF assms]])
  then obtain content where "readConfigTextWithinLimit host ?p (basename ?p) MAX_CONFIG_FILE_BYTES = Inr content"
    by (auto simp: load_document_def loadJsonObject_def read_json_object_def Let_def rbind_Inr_iff)
  then obtain mode sizeBytes where "hs_stat host ?p = Inr (mode, sizeBytes)" "mode mod 64 = 0"
    by (auto simp: readConfigTextWithinLimit_def inspect_file_def insecure_mode_def Let_def
        split: if_splits sum.splits bool.splits prod.splits)
  moreover from this(2) have "even (mode div 4)" by presburger
  ultimately show ?thesis by (simp add: getWorldReadableConfigWarning_def resolveCliConfigPath_def)
qed

lemma gateway_starts:
  assumes "loadConfig host (pd_configPath d) w = (Inr c, w1)" "check_bind (applyGatewayRunOverrides c (pd_address d)) = Inr ()"
  obtains s where "runGatewayRun d (stable_views host) now w = Inr s" "sn_config (pr_runtime s) = applyGatewayRunOverrides c (pd_address d)"
    "pr_worldReadable s = None"
proof -
  let ?c = "applyGatewayRunOverrides c (pd_address d)"
  obtain m w2 where m: "loadCliReadModel host (pd_configPath d) w1 = (Inr m, w2)" by (rule read_model_loads [OF assms(1)])
  then have inputs: "load_runtime_inputs d (stable_views host) w = (Inr (?c, m), w2)"
    using assms by (simp add: load_runtime_inputs_def stable_views_def Let_def)
  have "settings_ok (cs_settings c)" using loaded_settings [OF loadConfig_snapshot [OF assms(1)]] by blast
  from limiter_built [OF this] obtain l where "createGatewayRuntimeRateLimiter ?c = Inr l" by (auto simp: is_ok_iff)
  then obtain runtime where runtime: "buildInitialGatewayRuntimeSnapshot ?c m now = Inr runtime"
    by (simp add: buildInitialGatewayRuntimeSnapshot_def)
  have sync: "\<exists>names u. syncActiveRuntimeSideEffects d (stable_views host) s0 = (Inr (names, None), u)" for s0
  proof -
    obtain m' w3 where "loadCliReadModel host (pd_configPath d) (pr_warnings s0) = (Inr m', w3)" by (rule read_model_loads [OF assms(1)])
    with loaded_file_private [OF assms(1)] show ?thesis
      by (simp add: syncActiveRuntimeSideEffects_def stable_views_def getInlineApiKeyProviderNames_def log_to_def Let_def)
  qed
  obtain names u where "syncActiveRuntimeSideEffects d (stable_views host) (process_begin runtime w2) = (Inr (names, None), u)"
    using sync by blast
  with inputs runtime obtain s where s: "runGatewayRun d (stable_views host) now w = Inr s" "pr_worldReadable s = None"
    by (simp add: runGatewayRun_def)
  from started [OF s(1)] inputs have "sn_config (pr_runtime s) = ?c" by (metis Inr_inject Pair_inject)
  with s that show thesis by blast
qed

text \<open>
  Property (loadable_config_starts). A configuration that loads starts the gateway, as soon as the overrides of the
  command line satisfy the bind policy: the read model, the rate limiter and the side effects cannot fail
  for it. The warning about a world-readable file is then never given, since such a file does not load.
\<close>
theorem loadable_config_starts:
  assumes "loadConfig host (pd_configPath d) w = (Inr c, w1)" "check_bind (applyGatewayRunOverrides c (pd_address d)) = Inr ()"
  shows "\<exists>s. runGatewayRun d (stable_views host) now w = Inr s \<and>
    sn_config (pr_runtime s) = applyGatewayRunOverrides c (pd_address d) \<and> pr_worldReadable s = None"
  by (rule gateway_starts [OF assms]) blast

definition example_deps :: process_deps where
  "example_deps = \<lparr>pd_configPath = Some ''/c/config.json'', pd_address = \<lparr>ov_host = None, ov_port = None\<rparr>, pd_logLevel = None,
     pd_envLogLevel = None, pd_env = hs_env example_config_host,
     pd_apiKeyOverrides = (\<lambda>n. if n = ''SWITCHMAXXER_GATE'' then Some (replicate 32 (CHR ''o'')) else None),
     pd_messageOf = (\<lambda>_. ''e''), pd_numberText = (\<lambda>_. ''1'')\<rparr>"

lemma settings_bind: "settings_ok (cs_settings c) \<Longrightarrow> check_bind c = Inr ()"
  by (auto simp: settings_ok_def inbound_settings_ok_def check_bind_def effective_bind_def is_ok_def split: sum.splits)

lemma example_config:
  obtains c w where "loadConfig example_config_host (pd_configPath example_deps) no_warnings = (Inr c, w)"
    "check_bind (applyGatewayRunOverrides c (pd_address example_deps)) = Inr ()" 
proof -
  obtain c w where c: "loadConfig example_config_host (Some ''/c/config.json'') no_warnings = (Inr c, w)" using example_loads by blast
  then have "settings_ok (cs_settings c)" using loaded_settings [OF loadConfig_snapshot] by blast
  with c that show thesis by (simp add: example_deps_def applyGatewayRunOverrides_def settings_bind)
qed

lemma example_started:
  obtains s where "runGatewayRun example_deps (stable_views example_config_host) now no_warnings = Inr s"
  by (metis example_config gateway_starts)

theorem loadable_config_starts_witness:
  "\<exists>s. runGatewayRun example_deps (stable_views example_config_host) ''t'' no_warnings = Inr s \<and> pr_worldReadable s = None"
proof -
  obtain c w where "loadConfig example_config_host (pd_configPath example_deps) no_warnings = (Inr c, w)"
    "check_bind (applyGatewayRunOverrides c (pd_address example_deps)) = Inr ()" by (rule example_config)
  from loadable_config_starts [OF this, of "''t''"] show ?thesis by blast
qed

text \<open>
  C21 (address_fixed_and_allowed). In every state a started gateway can reach, whatever reloads, signals and
  errors occur, the configuration in use satisfies the bind policy with the overrides of the command line
  applied, and its host and port are the ones the server listens on.
\<close>
theorem address_fixed_and_allowed:
  assumes "runGatewayRun d views now w = Inr s" "reaches d s t"
  shows "check_bind (sn_config (pr_runtime t)) = Inr () \<and> bindHost (sn_config (pr_runtime t)) = bindHost (sn_config (pr_runtime s)) \<and>
    port (sn_config (pr_runtime t)) = port (sn_config (pr_runtime s))"
proof -
  from assms(2) have "address_ok s s \<Longrightarrow> address_ok s t"
    by (induction rule: reaches.induct) (simp_all add: step_address)
  with start_checked [OF assms(1)] show ?thesis by (simp add: address_ok_def Let_def)
qed

theorem address_fixed_and_allowed_witness:
  "\<exists>s. runGatewayRun example_deps (stable_views example_config_host) ''t'' no_warnings = Inr s \<and>
     bindHost (sn_config (pr_runtime (process_step example_deps (Sighup (stable_views example_config_host) ''u'') s))) = bindHost (sn_config (pr_runtime s))"
proof -
  obtain s where s: "runGatewayRun example_deps (stable_views example_config_host) ''t'' no_warnings = Inr s" by (rule example_started)
  from address_fixed_and_allowed [OF s reaches.step [OF reaches.start]] s show ?thesis by blast
qed

section \<open>The outcome of a reload\<close>

text \<open>
  Property (reload_outcome). A reload either fails and keeps everything but its own status, or succeeds with a
  checked configuration, or ends between: the new configuration is in use and marked as loaded, but the
  reload is reported as failed.
\<close>
theorem reload_outcome:
  "let old = pr_runtime s; new = pr_runtime (handleSighup d views now s)
   in (re_lastReloadStatus (sn_reloadState new) = ReloadFailed \<and> new = old\<lparr>sn_reloadState := sn_reloadState new\<rparr> \<and>
       re_lastReloadSucceededAt (sn_reloadState new) = re_lastReloadSucceededAt (sn_reloadState old)) \<or>
      (check_bind (sn_config new) = Inr () \<and> sn_loadedAt new = now \<and> sn_fatalState new = sn_fatalState old \<and>
       re_lastReloadSucceededAt (sn_reloadState new) = Some now \<and>
       (re_lastReloadStatus (sn_reloadState new) = ReloadOk \<and> re_lastReloadError (sn_reloadState new) = None \<or>
        re_lastReloadStatus (sn_reloadState new) = ReloadFailed))"
  by (rule sighup_cases [of d views now s])
    (auto simp: markGatewayRuntimeReloadFailure_def Let_def dest!: reloaded_config)

section \<open>Shutdown ends\<close>

definition shutdown_inv :: "process_state \<Rightarrow> bool" where
  "shutdown_inv s \<longleftrightarrow> (pr_finalizing s \<longrightarrow> pr_shutdownStarted s) \<and> (pr_end s = None \<longrightarrow> pr_shutdownStarted s = pr_forcedExitTimer s) \<and>
     (pr_end s = None \<longrightarrow> pr_handlers s \<noteq> pr_finalizing s)"

text \<open>A handler that leaves the shutdown alone.\<close>

definition same_shutdown :: "process_state \<Rightarrow> process_state \<Rightarrow> bool" where
  "same_shutdown s t \<longleftrightarrow> pr_shutdownStarted t = pr_shutdownStarted s \<and> pr_exitCode t = pr_exitCode s \<and>
     pr_forcedExitTimer t = pr_forcedExitTimer s \<and> pr_finalizing t = pr_finalizing s \<and> pr_end t = pr_end s \<and> pr_handlers t = pr_handlers s"

lemma same_core_shutdown: "same_core s t \<Longrightarrow> same_shutdown s t"
  by (simp add: same_core_def same_shutdown_def)

lemma sighup_same_shutdown: "same_shutdown s (handleSighup d views now s)"
proof -
  obtain r t where r: "reloadRuntime d views now s = (r, t)" by fastforce
  have sync: "same_shutdown s u" if "syncActiveRuntimeSideEffects d views (t\<lparr>pr_runtime := n\<rparr>) = (q, u)" for n q u
    using sync_same_core [OF that] reload_runtime_same_core [OF r] by (simp add: same_core_def same_shutdown_def)
  show ?thesis
    using r reload_runtime_same_core [OF r] sync warnings_same_core [OF same_core_refl]
    by (fastforce simp: handleSighup_def reloadActiveConfig_def Let_def same_core_def same_shutdown_def syncRetentionPruneSchedule_def
        split: prod.splits sum.splits)
qed

lemma step_shutdown:
  assumes "shutdown_inv s"
  shows "shutdown_inv (process_step d e s)"
    and "pr_shutdownStarted s \<Longrightarrow> pr_shutdownStarted (process_step d e s) \<and> pr_exitCode (process_step d e s) = pr_exitCode s"
  using assms listening_same_core [of s d] sighup_same_shutdown [of s d]
  by (cases e; auto simp: process_step_def process_exit_def shutdown_inv_def same_core_def same_shutdown_def
      triggerGracefulShutdown_def beginGatewayGracefulShutdown_def handleFatalRuntimeError_def split: option.splits)+


lemma reaches_trans: "reaches d t u \<Longrightarrow> reaches d s t \<Longrightarrow> reaches d s u"
  by (induction rule: reaches.induct) (auto intro: reaches.intros)

lemma reachable_shutdown:
  assumes "reaches d s t" "shutdown_inv s"
  shows "shutdown_inv t \<and> (pr_shutdownStarted s \<longrightarrow> pr_shutdownStarted t \<and> pr_exitCode t = pr_exitCode s)"
  using assms by (induction rule: reaches.induct) (auto simp: step_shutdown)

lemma start_shutdown:
  assumes "runGatewayRun d views now w = Inr s"
  shows "shutdown_inv s"
  by (rule started [OF assms]) (simp add: shutdown_inv_def)

definition process_run :: "process_deps \<Rightarrow> process_event list \<Rightarrow> process_state \<Rightarrow> process_state" where
  "process_run d es s = fold (process_step d) es s"

lemma run_reaches: "reaches d s (process_run d es s)"
proof (induction es arbitrary: s)
  case (Cons e es)
  from Cons [of "process_step d e s"] reaches.step [OF reaches.start, of d s e] show ?case
    by (auto simp: process_run_def intro: reaches_trans)
qed (simp add: process_run_def reaches.start)

lemma finalizer_exits:
  assumes "shutdown_inv s" "pr_shutdownStarted s" "pr_end s = None"
  shows "pr_end (process_run d [ServerClosed, FinalizerDone failure] s) = Some (Exited (pr_exitCode s))"
  using assms by (auto simp: process_run_def process_step_def process_exit_def shutdown_inv_def split: option.splits)

text \<open>
  C22 (shutdown_ends). Once a shutdown has begun, no later event takes it back or changes its exit code; if the
  process is still running, it exits with code 1 when the timer fires, and with the code of the shutdown
  once the server has closed and the finalizer has ended, whether or not that failed.
\<close>
theorem shutdown_ends:
  assumes "runGatewayRun d views now w = Inr s0" "reaches d s0 s" "pr_shutdownStarted s" "reaches d s t" "pr_end t = None"
  shows "pr_shutdownStarted t \<and> pr_exitCode t = pr_exitCode s \<and>
    pr_end (process_step d ForcedExitTimeout t) = Some (Exited 1) \<and>
    pr_end (process_run d [ServerClosed, FinalizerDone failure] t) = Some (Exited (pr_exitCode s))"
proof -
  have "shutdown_inv s" using reachable_shutdown [OF assms(2) start_shutdown [OF assms(1)]] by simp
  then have t: "shutdown_inv t" "pr_shutdownStarted t" "pr_exitCode t = pr_exitCode s"
    using reachable_shutdown [OF assms(4)] assms(3) by simp_all
  then have "pr_end (process_step d ForcedExitTimeout t) = Some (Exited 1)"
    using assms(5) by (simp add: process_step_def process_exit_def shutdown_inv_def)
  with t finalizer_exits [OF t(1,2) assms(5)] show ?thesis by simp
qed

theorem shutdown_ends_witness:
  "\<exists>s. runGatewayRun example_deps (stable_views example_config_host) ''t'' no_warnings = Inr s \<and>
     pr_end (process_run example_deps [Sigterm, ServerClosed, FinalizerDone None] s) = Some (Exited 0)"
proof -
  obtain s where s: "runGatewayRun example_deps (stable_views example_config_host) ''t'' no_warnings = Inr s" by (rule example_started)
  let ?t = "process_step example_deps Sigterm s"
  have t: "pr_shutdownStarted ?t" "pr_end ?t = None" "pr_exitCode ?t = 0"
    by (rule started [OF s], simp add: process_step_def triggerGracefulShutdown_def beginGatewayGracefulShutdown_def)+
  from shutdown_ends [OF s reaches.step [OF reaches.start] t(1) reaches.start t(2), of None] t(3) s show ?thesis
    by (auto simp: process_run_def)
qed

text \<open>
  Property (fatal_error_exits_zero). A fatal error during a shutdown that a signal has begun marks the process as
  broken and sets its exit code, but the process still exits with code 0.
\<close>
theorem fatal_error_exits_zero:
  assumes "runGatewayRun d views now w = Inr s"
  shows "let t = process_run d [Sigterm, UncaughtException message now', ServerClosed, FinalizerDone None] s
    in pr_end t = Some (Exited 0) \<and> pr_processExitCode t = 1 \<and>
       ft_processIntegrityStatus (sn_fatalState (pr_runtime t)) = IntegrityFatal"
  by (rule started [OF assms])
    (simp add: process_run_def process_step_def process_exit_def triggerGracefulShutdown_def beginGatewayGracefulShutdown_def
      handleFatalRuntimeError_def markGatewayRuntimeFatalError_def log_to_def)

theorem fatal_error_exits_zero_witness:
  "\<exists>s. runGatewayRun example_deps (stable_views example_config_host) ''t'' no_warnings = Inr s \<and>
     pr_end (process_run example_deps [Sigterm, UncaughtException ''m'' ''u'', ServerClosed, FinalizerDone None] s) = Some (Exited 0)"
proof -
  obtain s where s: "runGatewayRun example_deps (stable_views example_config_host) ''t'' no_warnings = Inr s" by (rule example_started)
  from fatal_error_exits_zero [OF s, of "''m''" "''u''"] s show ?thesis by (auto simp: Let_def)
qed

section \<open>The inbound token\<close>

lemma managed_name_not_blank: "isValidSwitchmaxxerManagedEnvVarName name \<Longrightarrow> trim name \<noteq> []"
  by (cases name) (auto simp: isValidSwitchmaxxerManagedEnvVarName_def starts_with_def trim_def js_ws_def code_unit_def Let_def)

text \<open>
  Property (inbound_token_not_refreshed). The token that requests must present is resolved with the overrides that were read
  when the process was constructed. A reload validates the configuration with the secrets file as it is
  then; when that gives another token, the old one stays in force.
\<close>
theorem inbound_token_not_refreshed:
  assumes "loadConfig host path w = (Inr config, w')" "st_inboundApiKeyEnv (st_inbound (cs_settings config)) = Some name"
    and "pd_apiKeyOverrides d name = Some old" "non_blank old" "MIN_INBOUND_API_KEY_LENGTH \<le> length old"
  shows "\<exists>secrets validated. loadOptionalConfiguredSecretsFile host = Inr secrets \<and>
      resolveInboundApiKeyValue (hs_env host) name (override_lookup secrets) = Some validated \<and>
      MIN_INBOUND_API_KEY_LENGTH \<le> length validated \<and>
      resolveInboundGatewayAuthState d (applyGatewayRunOverrides config (pd_address d)) = token old name"
proof -
  let ?i = "st_inbound (cs_settings config)"
  obtain secrets where ok: "settings_ok (cs_settings config)" "loadOptionalConfiguredSecretsFile host = Inr secrets"
    "inbound_key_ok (hs_env host) (override_lookup secrets) ?i"
    using loaded_settings [OF loadConfig_snapshot [OF assms(1)]] by blast
  then have "isValidSwitchmaxxerManagedEnvVarName name" "st_inboundApiKeyEnv ?i = Some name"
    using assms(2) by (simp_all add: settings_ok_def inbound_settings_ok_def)
  then have "resolveInboundGatewayAuthState d (applyGatewayRunOverrides config (pd_address d)) = token old name"
    using assms(3-5) managed_name_not_blank [of name]
    by (simp add: resolveInboundGatewayAuthState_def resolveLocalGatewayInboundAuthState_def resolveInboundApiKey_def
        applyGatewayRunOverrides_def Let_def non_blank_def)
  moreover obtain validated where "resolveInboundApiKeyValue (hs_env host) name (override_lookup secrets) = Some validated"
    "MIN_INBOUND_API_KEY_LENGTH \<le> length validated"
    using ok(3) assms(2) by (auto simp: inbound_key_ok_def split: option.splits)
  ultimately show ?thesis using ok(2) by blast
qed

theorem inbound_token_not_refreshed_witness:
  "\<exists>c w. loadConfig example_config_host (Some ''/c/config.json'') no_warnings = (Inr c, w) \<and>
     resolveInboundApiKeyValue (hs_env example_config_host) ''SWITCHMAXXER_GATE'' (override_lookup None) = Some (replicate 32 (CHR ''k'')) \<and>
     resolveInboundGatewayAuthState example_deps (applyGatewayRunOverrides c (pd_address example_deps)) =
       token (replicate 32 (CHR ''o'')) ''SWITCHMAXXER_GATE''"
proof -
  obtain c w where c: "loadConfig example_config_host (Some ''/c/config.json'') no_warnings = (Inr c, w)"
    using example_loads by blast
  have name: "st_inboundApiKeyEnv (st_inbound (cs_settings c)) = Some ''SWITCHMAXXER_GATE''"
  proof -
    have "resolve_config_path example_config_host (Some ''/c/config.json'') = ''/c/config.json''"
      by (simp add: resolve_config_path_def example_config_host_def)
    with c obtain d retention where "load_document example_config_host ''/c/config.json'' = Inr (d, cs_settings c, retention)"
      using snapshot_loaded [OF loadConfig_snapshot [OF c]] by metis
    with example_document_loaded show ?thesis by auto
  qed
  have "\<exists>secrets validated. loadOptionalConfiguredSecretsFile example_config_host = Inr secrets \<and>
      resolveInboundApiKeyValue (hs_env example_config_host) ''SWITCHMAXXER_GATE'' (override_lookup secrets) = Some validated \<and>
      MIN_INBOUND_API_KEY_LENGTH \<le> length validated \<and>
      resolveInboundGatewayAuthState example_deps (applyGatewayRunOverrides c (pd_address example_deps)) =
        token (replicate 32 (CHR ''o'')) ''SWITCHMAXXER_GATE''"
    by (rule inbound_token_not_refreshed [OF c name])
      (simp_all add: example_deps_def non_blank_def js_string_defs MIN_INBOUND_API_KEY_LENGTH_def numeral_eq_Suc)
  moreover have "resolveInboundApiKeyValue (hs_env example_config_host) ''SWITCHMAXXER_GATE'' (override_lookup None) = Some (replicate 32 (CHR ''k''))"
    by (simp add: resolveInboundApiKeyValue_def resolveInboundApiKey_def override_lookup_def example_config_host_def js_string_defs numeral_eq_Suc)
  ultimately show ?thesis using c by blast
qed

end
