(* ===== verification/Mcp_Tools.thy ===== *)
theory Mcp_Tools
  imports Gateway_Settings
begin

text \<open>
  The tools of the MCP server, \<^verbatim>\<open>src/src/subsystems/mcp/tools.ts\<close>: their names, capabilities and input
  schemas, and the validator of tool arguments.

  Main results: the validator accepts exactly the values that conform to the schema, and it never reads
  the upper bound on the number of items that some schemas state.
\<close>

section \<open>Schemas\<close>

datatype schema = Schema
  (s_type: "string list")                     \<comment> \<open>one type or several; \<open>[]\<close> if absent\<close>
  (s_enum: "string list option")
  (s_minLength: "nat option")
  (s_maxLength: "nat option")
  (s_minimum: "rat option")
  (s_maximum: "rat option")
  (s_minItems: "nat option")
  (s_maxItems: "nat option")
  (s_items: "schema option")
  (s_closed: bool)                            \<comment> \<open>\<open>additionalProperties: false\<close>\<close>
  (s_properties: "(string \<times> schema) list")
  (s_required: "string list")
  (s_oneOf: "schema list option")

definition text_schema :: "nat \<Rightarrow> schema" where
  "text_schema n = Schema [''string''] None (Some n) None None None None None None False [] [] None"

definition nullable_text_schema :: "nat \<Rightarrow> schema" where
  "nullable_text_schema n = Schema [''string'', ''null''] None (Some n) None None None None None None False [] [] None"

definition bounded_text_schema :: "nat \<Rightarrow> nat \<Rightarrow> schema" where
  "bounded_text_schema n m = Schema [''string''] None (Some n) (Some m) None None None None None False [] [] None"

definition enum_schema :: "string list \<Rightarrow> schema" where
  "enum_schema values = Schema [''string''] (Some values) None None None None None None None False [] [] None"

definition flag_schema :: schema where
  "flag_schema = Schema [''boolean''] None None None None None None None None False [] [] None"

definition integer_schema :: "bool \<Rightarrow> rat \<Rightarrow> rat option \<Rightarrow> schema" where
  "integer_schema nullable n m =
     Schema (if nullable then [''integer'', ''null''] else [''integer'']) None None None (Some n) m None None None False [] [] None"

definition array_schema :: "nat \<Rightarrow> nat \<Rightarrow> schema \<Rightarrow> schema" where
  "array_schema n m items = Schema [''array''] None None None None None (Some n) (Some m) (Some items) False [] [] None"

definition object_schema_of :: "bool \<Rightarrow> (string \<times> schema) list \<Rightarrow> string list \<Rightarrow> schema list \<Rightarrow> schema" where
  "object_schema_of additional properties required oneOf =
     Schema [''object''] None None None None None None None None additional properties required (if oneOf = [] then None else Some oneOf)"

definition object_schema :: "(string \<times> schema) list \<Rightarrow> string list \<Rightarrow> schema" where
  "object_schema properties required = object_schema_of True properties required []"

definition amount_schema :: schema where
  "amount_schema = Schema [''number''] None None None (Some 0) None None None None False [] [] None"

definition cost_schema :: "bool \<Rightarrow> schema" where
  "cost_schema allowNull =
     Schema (if allowNull then [''object'', ''null''] else [''object'']) None None None None None None None None True
       [(''input'', amount_schema), (''output'', amount_schema), (''cache_read'', amount_schema), (''cache_write'', amount_schema)]
       [''input'', ''output'', ''cache_read'', ''cache_write''] None"

section \<open>Values allowed in filters\<close>

definition BENCH_MAX_ITERATIONS :: nat where "BENCH_MAX_ITERATIONS = 500"

definition BENCH_MAX_CONCURRENCY :: nat where "BENCH_MAX_CONCURRENCY = 16"

definition BENCH_MAX_PROMPT_LENGTH :: nat where "BENCH_MAX_PROMPT_LENGTH = 65536"

definition BENCH_MAX_ROUTES :: nat where "BENCH_MAX_ROUTES = 32"

definition API_MODES :: "string list" where
  "API_MODES = [''openai-completions'', ''anthropic-messages'']"

definition MODEL_ID_FORMATS :: "string list" where
  "MODEL_ID_FORMATS = [''passthrough'', ''creator/model'']"

definition OBSERVATION_KINDS :: "string list" where
  "OBSERVATION_KINDS = [''debug'', ''measurement'', ''usage'', ''cost'', ''benchmark'', ''optimization'', ''system'', ''error'']"

definition OBSERVATION_EVENTS :: "string list" where
  "OBSERVATION_EVENTS =
     [''debug_ingress'', ''debug_route_resolution'', ''debug_upstream_request'', ''debug_upstream_retry'', ''debug_response_path'',
      ''debug_client_response'', ''debug_error_context'', ''request_received'', ''route_resolved'', ''upstream_request_started'',
      ''upstream_response_started'', ''upstream_response_completed'', ''client_response_started'', ''client_response_completed'',
      ''usage_counted'', ''cost_estimated'', ''benchmark_sample_attached'', ''optimization_inputs_recorded'',
      ''inspection_secret_reveal_requested'', ''rate_limited'', ''auth_failed'', ''auth_rate_limited'']"

definition OBSERVATION_OUTCOMES :: "string list" where
  "OBSERVATION_OUTCOMES =
     [''started'', ''in_progress'', ''succeeded'', ''failed'', ''cancelled'', ''timed_out'', ''rejected'', ''partial'', ''unknown'']"

definition CONTROL_PLANE_ACTION_SOURCE_SURFACES :: "string list" where
  "CONTROL_PLANE_ACTION_SOURCE_SURFACES = [''cli'', ''mcp'']"

definition CONTROL_PLANE_ACTION_OPERATIONS :: "string list" where
  "CONTROL_PLANE_ACTION_OPERATIONS =
     [''optimize_apply'', ''optimize_restore'', ''models_create'', ''models_update'', ''models_delete'', ''providers_create'',
      ''providers_update'', ''providers_delete'', ''providers_set_key'', ''providers_clear_key'', ''providers_set_key_env'',
      ''routes_create'', ''routes_update'', ''routes_delete'']"

definition CONTROL_PLANE_ACTION_STATUSES :: "string list" where
  "CONTROL_PLANE_ACTION_STATUSES = [''started'', ''succeeded'', ''failed'', ''noop'', ''dry_run_succeeded'', ''dry_run_failed'']"

definition CONTROL_PLANE_ACTION_TARGET_KINDS :: "string list" where
  "CONTROL_PLANE_ACTION_TARGET_KINDS = [''model'', ''provider'', ''route'']"

section \<open>The tools\<close>

record tool_definition =
  td_capability :: mcp_capability
  td_name :: string
  td_description :: string
  td_inputSchema :: schema

definition defineTool :: "mcp_capability \<Rightarrow> string \<Rightarrow> string \<Rightarrow> schema \<Rightarrow> tool_definition" where
  "defineTool capability name description inputSchema =
     \<lparr>td_capability = capability, td_name = name, td_description = description, td_inputSchema = inputSchema\<rparr>"

definition toolCommandMap :: "(string \<times> string) list" where
  "toolCommandMap =
     [(''config_schema'', ''config schema''),
      (''config_validate'', ''config validate''),
      (''config_show'', ''config show''),
      (''models_list'', ''models list''),
      (''models_show'', ''models show''),
      (''models_create'', ''models create''),
      (''models_update'', ''models update''),
      (''models_delete'', ''models delete''),
      (''providers_list'', ''providers list''),
      (''providers_show'', ''providers show''),
      (''providers_create'', ''providers create''),
      (''providers_update'', ''providers update''),
      (''providers_delete'', ''providers delete''),
      (''providers_set_key'', ''providers set-key''),
      (''providers_clear_key'', ''providers clear-key''),
      (''providers_set_key_env'', ''providers set-key-env''),
      (''routes_list'', ''routes list''),
      (''routes_show'', ''routes show''),
      (''routes_explain'', ''routes explain''),
      (''routes_create'', ''routes create''),
      (''routes_update'', ''routes update''),
      (''routes_delete'', ''routes delete''),
      (''gateway_health'', ''gateway health''),
      (''gateway_status'', ''gateway status''),
      (''gateway_runtime_config'', ''gateway runtime config''),
      (''trace_list'', ''trace list''),
      (''trace_show'', ''trace show''),
      (''trace_stats'', ''trace stats''),
      (''trace_observations'', ''trace observations''),
      (''trace_verify'', ''trace verify''),
      (''trace_repair'', ''trace repair''),
      (''prune'', ''prune''),
      (''ledger_list'', ''ledger list''),
      (''ledger_show'', ''ledger show''),
      (''bench_list'', ''bench list''),
      (''bench_show'', ''bench show''),
      (''bench_run'', ''bench''),
      (''optimize_list'', ''optimize list''),
      (''optimize_show'', ''optimize show''),
      (''optimize_run'', ''optimize''),
      (''optimize_apply'', ''optimize apply''),
      (''optimize_restore'', ''optimize restore'')]"

text \<open>The lookup in the literal is by own names; a name of \<open>Object.prototype\<close> is not the name of a tool.\<close>

definition getToolEnvelopeCommand :: "string \<Rightarrow> string" where
  "getToolEnvelopeCommand toolName =
     (case map_of toolCommandMap toolName of
        Some command \<Rightarrow> command
      | None \<Rightarrow> map (\<lambda>c. if c = CHR ''_'' then CHR '' '' else c) toolName)"

definition getToolDefinitions :: "tool_definition list" where
  "getToolDefinitions =
     [defineTool Read ''config_schema''
        ''Return the supported machine-facing config schema metadata for Switchmaxxer.''
        (object_schema [] []),
      defineTool Read ''config_validate''
        ''Validate the selected Switchmaxxer config.json for runtime use.''
        (object_schema [] []),
      defineTool Read ''config_show''
        ''Return the current Switchmaxxer config document and source path.''
        (object_schema [] []),
      defineTool Read ''models_list''
        ''List canonical models from the active Switchmaxxer config.''
        (object_schema [] []),
      defineTool Read ''models_show''
        ''Show one canonical model from the active Switchmaxxer config.''
        (object_schema [(''model_id'', text_schema 1)] [''model_id'']),
      defineTool Mutation ''models_create''
        ''Create one canonical model in the active Switchmaxxer config.''
        (object_schema [(''model_id'', text_schema 1), (''display_name'', text_schema 1), (''model_creator'', text_schema 1), (''cost'',
          cost_schema True)] [''model_id'', ''display_name'', ''model_creator'']),
      defineTool Mutation ''models_update''
        ''Update one canonical model in the active Switchmaxxer config.''
        (object_schema [(''model_id'', text_schema 1), (''display_name'', text_schema 1), (''model_creator'', text_schema 1), (''cost'',
          cost_schema True)] [''model_id'']),
      defineTool Mutation ''models_delete''
        ''Delete one canonical model from the active Switchmaxxer config.''
        (object_schema [(''model_id'', text_schema 1)] [''model_id'']),
      defineTool Read ''providers_list''
        ''List configured service providers from the active Switchmaxxer config.''
        (object_schema [] []),
      defineTool Read ''providers_show''
        ''Show one configured service provider from the active Switchmaxxer config.''
        (object_schema [(''provider_id'', text_schema 1)] [''provider_id'']),
      defineTool Mutation ''providers_create''
        (''Create one configured service provider in the active Switchmaxxer config without auth material. Use providers_set_key or providers_set_key_env afterward for provider auth. The optional '' @ quoted ''no_auth'' @ '' field is accepted for symmetry with providers_update; if provided it must be true (providers_create always creates a no-auth provider).'')
        (object_schema [(''provider_id'', text_schema 1), (''endpoint'', text_schema 1), (''allow_private_endpoints'', flag_schema),
          (''allow_insecure_http'', flag_schema), (''api_mode'', enum_schema API_MODES), (''anthropic_version'', nullable_text_schema 1),
          (''model_id_format'', enum_schema MODEL_ID_FORMATS), (''no_auth'', flag_schema)] [''provider_id'', ''endpoint'', ''api_mode'']),
      defineTool Mutation ''providers_update''
        ''Update one configured service provider in the active Switchmaxxer config. Inline api_key is not accepted here; use providers_set_key or providers_clear_key for inline api_key changes.''
        (object_schema [(''provider_id'', text_schema 1), (''endpoint'', text_schema 1), (''allow_private_endpoints'', flag_schema),
          (''allow_insecure_http'', flag_schema), (''api_mode'', enum_schema API_MODES), (''anthropic_version'', nullable_text_schema 1),
          (''model_id_format'', enum_schema MODEL_ID_FORMATS), (''api_key_env'', nullable_text_schema 1), (''no_auth'',
          flag_schema)] [''provider_id'']),
      defineTool Mutation ''providers_delete''
        ''Delete one configured service provider from the active Switchmaxxer config.''
        (object_schema [(''provider_id'', text_schema 1)] [''provider_id'']),
      defineTool Privileged ''providers_set_key''
        ''Set one provider inline api_key in the active Switchmaxxer config.''
        (object_schema [(''provider_id'', text_schema 1), (''api_key'', text_schema 1)] [''provider_id'', ''api_key'']),
      defineTool Privileged ''providers_clear_key''
        ''Clear one provider inline api_key in the active Switchmaxxer config.''
        (object_schema [(''provider_id'', text_schema 1)] [''provider_id'']),
      defineTool Privileged ''providers_set_key_env''
        ''Set one provider api_key_env in the active Switchmaxxer config.''
        (object_schema [(''provider_id'', text_schema 1), (''api_key_env'', text_schema 1)] [''provider_id'', ''api_key_env'']),
      defineTool Read ''routes_list''
        ''List configured routes from the active Switchmaxxer config.''
        (object_schema [] []),
      defineTool Read ''routes_show''
        ''Show one configured route from the active Switchmaxxer config.''
        (object_schema [(''route_id'', text_schema 1)] [''route_id'']),
      defineTool Read ''routes_explain''
        ''Explain the meaning of one configured route in operator-facing terms.''
        (object_schema [(''route_id'', text_schema 1)] [''route_id'']),
      defineTool Mutation ''routes_create''
        ''Create one configured route in the active Switchmaxxer config.''
        (object_schema [(''route_id'', text_schema 1), (''model'', text_schema 1), (''service_provider'', text_schema 1), (''provider_model_id'',
          text_schema 1), (''display_name'', text_schema 1), (''timeout_ms'', integer_schema False 1 None), (''cost'',
          cost_schema True)] [''route_id'', ''model'', ''service_provider'', ''provider_model_id'', ''display_name'']),
      defineTool Mutation ''routes_update''
        ''Update one configured route in the active Switchmaxxer config.''
        (object_schema [(''route_id'', text_schema 1), (''model'', text_schema 1), (''service_provider'', text_schema 1), (''provider_model_id'',
          text_schema 1), (''display_name'', text_schema 1), (''timeout_ms'', integer_schema True 1 None), (''cost'',
          cost_schema True)] [''route_id'']),
      defineTool Mutation ''routes_delete''
        ''Delete one configured route from the active Switchmaxxer config.''
        (object_schema [(''route_id'', text_schema 1)] [''route_id'']),
      defineTool Read ''gateway_health''
        ''Return a health snapshot for the local gateway and selected config.''
        (object_schema [(''check'', enum_schema [''gateway'', ''config'', ''providers'', ''routes'', ''all'']), (''timeout_ms'',
          integer_schema False 1 None)] []),
      defineTool Read ''gateway_status''
        ''Return a status snapshot for the local gateway listener and selected config.''
        (object_schema [] []),
      defineTool Read ''gateway_runtime_config''
        ''Fetch the live gateway runtime config endpoint for the selected config.''
        (object_schema [] []),
      defineTool Read ''trace_list''
        ''List persisted request traces from the local Switchmaxxer observability store.''
        (object_schema [(''route_id'', text_schema 1), (''provider_id'', text_schema 1), (''outcome'', enum_schema OBSERVATION_OUTCOMES),
          (''limit'', integer_schema False 1 None)] []),
      defineTool Read ''trace_show''
        ''Show one persisted trace with observations and linked benchmark samples.''
        (object_schema [(''trace_id'', text_schema 1)] [''trace_id'']),
      defineTool Read ''trace_stats''
        ''Return aggregate persisted trace stats from the local observability store.''
        (object_schema [(''route_id'', text_schema 1), (''provider_id'', text_schema 1), (''outcome'', enum_schema OBSERVATION_OUTCOMES)] []),
      defineTool Read ''trace_observations''
        ''List persisted raw observations from the local Switchmaxxer observability store.''
        (object_schema [(''route_id'', text_schema 1), (''provider_id'', text_schema 1), (''kind'', enum_schema OBSERVATION_KINDS), (''event'',
          enum_schema OBSERVATION_EVENTS), (''limit'', integer_schema False 1 None)] []),
      defineTool Read ''trace_verify''
        ''Verify that persisted request execution summaries still match canonical observations.''
        (object_schema [(''trace_id'', text_schema 1), (''all'', flag_schema), (''batch_size'', integer_schema False 1 None)] []),
      defineTool Mutation ''trace_repair''
        ''Repair persisted request execution summaries from canonical observations.''
        (object_schema [(''trace_id'', text_schema 1), (''all'', flag_schema), (''batch_size'', integer_schema False 1 None)] []),
      defineTool Privileged ''prune''
        ''Prune persisted observability rows older than a retention duration from the local Switchmaxxer observability store.''
        (object_schema [(''older_than'', text_schema 2)] []),
      defineTool Privileged ''ledger_list''
        ''List Control Plane Audit Ledger events from the local Switchmaxxer observability store.''
        (object_schema [(''route_id'', text_schema 1), (''target_id'', text_schema 1), (''target_kind'',
          enum_schema CONTROL_PLANE_ACTION_TARGET_KINDS), (''operation'', enum_schema CONTROL_PLANE_ACTION_OPERATIONS), (''status'',
          enum_schema CONTROL_PLANE_ACTION_STATUSES), (''source_surface'', enum_schema CONTROL_PLANE_ACTION_SOURCE_SURFACES), (''session_id'',
          text_schema 1), (''own_session'', flag_schema), (''run_id'', text_schema 1), (''mutation_event_id'', text_schema 1), (''since'',
          text_schema 2), (''limit'', integer_schema False 1 None)] []),
      defineTool Privileged ''ledger_show''
        ''Show one Control Plane Audit Ledger event from the local Switchmaxxer observability store.''
        (object_schema [(''ledger_event_id'', text_schema 1)] [''ledger_event_id'']),
      defineTool Read ''bench_list''
        ''List persisted benchmark runs from the local Switchmaxxer observability store.''
        (object_schema [(''limit'', integer_schema False 1 None)] []),
      defineTool Read ''bench_show''
        ''Show one persisted benchmark run report from the local Switchmaxxer observability store.''
        (object_schema [(''run_id'', text_schema 1)] [''run_id'']),
      defineTool Read ''optimize_list''
        ''List persisted optimization runs from the local Switchmaxxer observability store.''
        (object_schema [(''limit'', integer_schema False 1 None)] []),
      defineTool Read ''optimize_show''
        ''Show one persisted optimization recommendation report from the local Switchmaxxer observability store.''
        (object_schema [(''run_id'', text_schema 1)] [''run_id'']),
      defineTool Privileged ''optimize_run''
        ''Run a persisted route optimization recommendation for one canonical model.''
        (object_schema [(''model'', text_schema 1), (''objective'', enum_schema [''cost'', ''latency'']), (''routes'',
          array_schema 1 BENCH_MAX_ROUTES (text_schema 1)), (''input_tokens'', integer_schema False 0 None), (''output_tokens'',
          integer_schema False 0 None), (''cache_read_tokens'', integer_schema False 0 None), (''cache_write_tokens'',
          integer_schema False 0 None), (''prompt'', bounded_text_schema 1 BENCH_MAX_PROMPT_LENGTH), (''iterations'',
          integer_schema False 1 (Some (of_nat BENCH_MAX_ITERATIONS))), (''warmup'', integer_schema False 0 None), (''concurrency'',
          integer_schema False 1 (Some (of_nat BENCH_MAX_CONCURRENCY))), (''path_mode'', enum_schema [''gateway'', ''direct'', ''both'']),
          (''timeout_ms'', integer_schema False 1 None)] [''model'', ''objective'']),
      defineTool Mutation ''optimize_apply''
        ''Apply one persisted optimization winner to an existing route by changing its provider binding. reload and verify require the MCP server to be started with optimizePostActions runtime dependencies.''
        (object_schema [(''run_id'', text_schema 1), (''route_id'', text_schema 1), (''dry_run'', flag_schema), (''reload'', flag_schema),
          (''verify'', flag_schema)] [''run_id'', ''route_id'']),
      defineTool Mutation ''optimize_restore''
        ''Restore the provider binding changed by a previous optimize_apply restore point. reload and verify require the MCP server to be started with optimizePostActions runtime dependencies.''
        (object_schema_of True [(''action_id'', text_schema 1), (''run_id'', text_schema 1), (''route_id'', text_schema 1), (''dry_run'',
          flag_schema), (''reload'', flag_schema), (''verify'', flag_schema)] [] [object_schema_of False [(''action_id'',
          text_schema 1)] [''action_id''] [], object_schema_of False [(''run_id'', text_schema 1), (''route_id'', text_schema 1)] [''run_id'',
          ''route_id''] []]),
      defineTool Privileged ''bench_run''
        ''Execute a persisted benchmark run through the local gateway, direct upstream providers, or both.''
        (object_schema_of True [(''route_id'', text_schema 1), (''routes'', array_schema 1 BENCH_MAX_ROUTES (text_schema 1)), (''prompt'',
          bounded_text_schema 1 BENCH_MAX_PROMPT_LENGTH), (''iterations'', integer_schema False 1 (Some (of_nat BENCH_MAX_ITERATIONS))),
          (''warmup'', integer_schema False 0 None), (''concurrency'', integer_schema False 1 (Some (of_nat BENCH_MAX_CONCURRENCY))),
          (''path_mode'', enum_schema [''gateway'', ''direct'', ''both'']), (''timeout_ms'',
          integer_schema False 1 None)] [''prompt''] [object_schema_of False [(''route_id'', text_schema 1)] [''route_id''] [],
          object_schema_of False [(''routes'', array_schema 1 BENCH_MAX_ROUTES (text_schema 1))] [''routes''] []])]"

definition getToolDefinition :: "string \<Rightarrow> tool_definition option" where
  "getToolDefinition toolName = find (\<lambda>tool. td_name tool = toolName) getToolDefinitions"

definition isMcpMutationToolName :: "string \<Rightarrow> bool" where
  "isMcpMutationToolName toolName =
     (case getToolDefinition toolName of None \<Rightarrow> True | Some tool \<Rightarrow> td_capability tool \<noteq> Read)"

text \<open>The capabilities of a session; without a session, the default ones.\<close>

definition granted :: "mcp_capability list option \<Rightarrow> mcp_capability list" where
  "granted capabilities = (case capabilities of Some cs \<Rightarrow> cs | None \<Rightarrow> DEFAULT_MCP_TOOL_CAPABILITIES)"

definition getAllowedToolDefinitions :: "mcp_capability list option \<Rightarrow> tool_definition list" where
  "getAllowedToolDefinitions capabilities = filter (\<lambda>tool. td_capability tool \<in> set (granted capabilities)) getToolDefinitions"

definition sessionCanCallTool :: "mcp_capability \<Rightarrow> mcp_capability list option \<Rightarrow> bool" where
  "sessionCanCallTool capability capabilities \<longleftrightarrow> capability \<in> set (granted capabilities)"

definition formatMcpToolList :: "string list \<Rightarrow> string" where
  "formatMcpToolList toolNames = join [CHR 0x0A] (map (\<lambda>n. ''  '' @ n) toolNames)"

section \<open>Validation of arguments\<close>

definition valueMatchesSchemaType :: "json \<Rightarrow> string \<Rightarrow> bool" where
  "valueMatchesSchemaType v expectedType =
     (if expectedType = ''null'' then v = JNull
      else if expectedType = ''string'' then (case v of JStr _ \<Rightarrow> True | _ \<Rightarrow> False)
      else if expectedType = ''boolean'' then (case v of JBool _ \<Rightarrow> True | _ \<Rightarrow> False)
      else if expectedType = ''number'' then (case v of JNum _ \<Rightarrow> True | _ \<Rightarrow> False)
      else if expectedType = ''integer'' then (case v of JNum n \<Rightarrow> n \<in> \<int> | _ \<Rightarrow> False)
      else if expectedType = ''array'' then (case v of JArr _ \<Rightarrow> True | _ \<Rightarrow> False)
      else if expectedType = ''object'' then (case v of JObj _ \<Rightarrow> True | _ \<Rightarrow> False)
      else False)"

definition describeSchemaType :: "string list \<Rightarrow> string" where
  "describeSchemaType types = join '' or '' types"

type_synonym tool_input_error = "string \<times> string"

definition invalid_input_field :: "string \<Rightarrow> tool_input_error" where
  "invalid_input_field message = (''invalid_input_field'', message)"

definition invalid_tool_input :: "string \<Rightarrow> tool_input_error" where
  "invalid_tool_input message = (''invalid_tool_input'', message)"

definition orelse :: "'a option \<Rightarrow> 'a option \<Rightarrow> 'a option" where
  "orelse a b = (case a of Some x \<Rightarrow> Some x | None \<Rightarrow> b)"

definition complain :: "bool \<Rightarrow> 'a \<Rightarrow> 'a option" where
  "complain ok e = (if ok then None else Some e)"

definition check_type :: "json \<Rightarrow> schema \<Rightarrow> string \<Rightarrow> tool_input_error option" where
  "check_type v s fieldPath =
     (if s_type s = [] then None
      else complain (list_ex (valueMatchesSchemaType v) (s_type s))
             (if fieldPath = ''arguments'' then invalid_tool_input (''Tool arguments must be a '' @ describeSchemaType (s_type s) @ ''.'')
              else invalid_input_field (''field '' @ quoted fieldPath @ '' must be '' @ describeSchemaType (s_type s))))"

definition check_enum :: "json \<Rightarrow> schema \<Rightarrow> string \<Rightarrow> tool_input_error option" where
  "check_enum v s fieldPath =
     (case s_enum s of
        None \<Rightarrow> None
      | Some allowed \<Rightarrow>
          complain (case v of JStr t \<Rightarrow> t \<in> set allowed | _ \<Rightarrow> False)
            (if fieldPath = ''arguments'' then invalid_tool_input (''Tool arguments must be one of: '' @ join '', '' allowed)
             else invalid_input_field (''field '' @ quoted fieldPath @ '' must be one of: '' @ join '', '' allowed)))"

definition at_least :: "('a \<Rightarrow> 'a \<Rightarrow> bool) \<Rightarrow> 'a option \<Rightarrow> 'a \<Rightarrow> bool" where
  "at_least le bound x = (case bound of None \<Rightarrow> True | Some b \<Rightarrow> le b x)"

definition check_text :: "json \<Rightarrow> schema \<Rightarrow> string \<Rightarrow> tool_input_error option" where
  "check_text v s fieldPath =
     (case v of
        JStr t \<Rightarrow>
          orelse (complain (at_least (\<le>) (s_minLength s) (length t))
                    (invalid_input_field (''field '' @ quoted fieldPath @ '' must be at least '' @ digits_of_nat (the (s_minLength s)) @ '' characters'')))
                 (complain (at_least (\<ge>) (s_maxLength s) (length t))
                    (invalid_input_field (''field '' @ quoted fieldPath @ '' must be at most '' @ digits_of_nat (the (s_maxLength s)) @ '' characters'')))
      | _ \<Rightarrow> None)"

definition check_number :: "(rat \<Rightarrow> string) \<Rightarrow> json \<Rightarrow> schema \<Rightarrow> string \<Rightarrow> tool_input_error option" where
  "check_number nts v s fieldPath =
     (case v of
        JNum n \<Rightarrow>
          orelse (complain (at_least (\<le>) (s_minimum s) n)
                    (invalid_input_field (''field '' @ quoted fieldPath @ '' must be at least '' @ nts (the (s_minimum s)))))
                 (complain (at_least (\<ge>) (s_maximum s) n)
                    (invalid_input_field (''field '' @ quoted fieldPath @ '' must be at most '' @ nts (the (s_maximum s)))))
      | _ \<Rightarrow> None)"

definition check_min_items :: "json \<Rightarrow> schema \<Rightarrow> string \<Rightarrow> tool_input_error option" where
  "check_min_items v s fieldPath =
     (case v of
        JArr vs \<Rightarrow>
          complain (at_least (\<le>) (s_minItems s) (length vs))
            (invalid_input_field (''field '' @ quoted fieldPath @ '' must contain at least '' @ digits_of_nat (the (s_minItems s)) @ '' item(s)''))
      | _ \<Rightarrow> None)"

definition nested_path :: "string \<Rightarrow> string \<Rightarrow> string" where
  "nested_path fieldPath key = (if fieldPath = ''arguments'' then key else fieldPath @ ''.'' @ key)"

definition check_fields :: "(string \<times> json) list \<Rightarrow> schema \<Rightarrow> string \<Rightarrow> tool_input_error option" where
  "check_fields fs s fieldPath =
     orelse (if s_closed s
             then map_option (\<lambda>key. invalid_input_field (''field '' @ quoted (nested_path fieldPath key) @ '' is not allowed''))
                    (find (\<lambda>key. map_of (s_properties s) key = None) (map fst fs))
             else None)
       (map_option (\<lambda>key. (''missing_required_field'', ''Tool input requires '' @ quoted (nested_path fieldPath key) @ ''.''))
          (find (\<lambda>key. map_of fs key = None) (s_required s)))"

definition array_items :: "json \<Rightarrow> json list" where
  "array_items v = (case v of JArr vs \<Rightarrow> vs | _ \<Rightarrow> [])"

definition one_of_error :: "string \<Rightarrow> tool_input_error" where
  "one_of_error fieldPath =
     (if fieldPath = ''arguments''
      then invalid_tool_input (''Tool arguments must provide exactly one of '' @ quoted ''route_id'' @ '' or '' @ quoted ''routes'' @ ''.'')
      else invalid_input_field (''field '' @ quoted fieldPath @ '' must satisfy exactly one schema branch''))"

lemma schema_parts_smaller:
  "s_items s = Some it \<Longrightarrow> size it < size s"
  "s_oneOf s = Some branches \<Longrightarrow> size_list size branches < size s"
  "size_list (size_prod (\<lambda>_. 0) size) (s_properties s) < size s"
  by (cases s; simp)+

function (sequential) validateToolSchemaValue :: "(rat \<Rightarrow> string) \<Rightarrow> json \<Rightarrow> schema \<Rightarrow> string \<Rightarrow> tool_input_error option"
  and validate_items :: "(rat \<Rightarrow> string) \<Rightarrow> json list \<Rightarrow> schema \<Rightarrow> string \<Rightarrow> nat \<Rightarrow> tool_input_error option"
  and validate_properties :: "(rat \<Rightarrow> string) \<Rightarrow> (string \<times> json) list \<Rightarrow> (string \<times> schema) list \<Rightarrow> string \<Rightarrow> tool_input_error option"
  and match_count :: "(rat \<Rightarrow> string) \<Rightarrow> json \<Rightarrow> schema list \<Rightarrow> string \<Rightarrow> nat" where
  "validateToolSchemaValue nts v s fieldPath =
      orelse (check_type v s fieldPath)
     (orelse (check_enum v s fieldPath)
     (orelse (check_text v s fieldPath)
     (orelse (check_number nts v s fieldPath)
     (orelse (check_min_items v s fieldPath)
     (orelse (case s_items s of Some it \<Rightarrow> validate_items nts (array_items v) it fieldPath 0 | None \<Rightarrow> None)
     (orelse (if isRecord (Some v)
              then orelse (check_fields (record_fields v) s fieldPath) (validate_properties nts (record_fields v) (s_properties s) fieldPath)
              else None)
             (case s_oneOf s of
                None \<Rightarrow> None
              | Some branches \<Rightarrow> complain (match_count nts v branches fieldPath = 1) (one_of_error fieldPath))))))))"
| "validate_items nts [] it fieldPath index = None"
| "validate_items nts (v # vs) it fieldPath index =
     orelse (validateToolSchemaValue nts v it (fieldPath @ ''['' @ digits_of_nat index @ '']''))
       (validate_items nts vs it fieldPath (Suc index))"
| "validate_properties nts fs [] fieldPath = None"
| "validate_properties nts fs ((key, s) # properties) fieldPath =
     orelse (case map_of fs key of None \<Rightarrow> None | Some v \<Rightarrow> validateToolSchemaValue nts v s (nested_path fieldPath key))
       (validate_properties nts fs properties fieldPath)"
| "match_count nts v [] fieldPath = 0"
| "match_count nts v (s # schemas) fieldPath =
     (if validateToolSchemaValue nts v s fieldPath = None then 1 else 0) + match_count nts v schemas fieldPath"
  by pat_completeness auto

termination
  by (relation "measures
        [case_sum (case_sum (\<lambda>(_, _, s, _). size s) (\<lambda>(_, _, it, _, _). size it))
           (case_sum (\<lambda>(_, _, ps, _). size_list (size_prod (\<lambda>_. 0) size) ps) (\<lambda>(_, _, ss, _). size_list size ss)),
         case_sum (case_sum (\<lambda>_. 0) (\<lambda>(_, vs, _, _, _). Suc (length vs))) (case_sum (\<lambda>_. 0) (\<lambda>_. 0))]")
    (simp_all add: schema_parts_smaller)

definition validateToolArguments :: "(rat \<Rightarrow> string) \<Rightarrow> tool_definition \<Rightarrow> json \<Rightarrow> tool_input_error option" where
  "validateToolArguments nts toolDefinition args = validateToolSchemaValue nts args (td_inputSchema toolDefinition) ''arguments''"

section \<open>What the validator accepts\<close>

lemma property_smaller:
  assumes "(key, p) \<in> set (s_properties s)"
  shows "size p < size s"
proof -
  have "size_prod (\<lambda>_. 0) size (key, p) \<le> size_list (size_prod (\<lambda>_. 0) size) (s_properties s)"
    using assms by (rule size_list_estimation' [OF _ order_refl])
  with schema_parts_smaller(3) [of s] show ?thesis by simp
qed

lemma branch_smaller:
  assumes "s_oneOf s = Some branches" "p \<in> set branches"
  shows "size p < size s"
  using size_list_estimation' [OF assms(2) order_refl, of size] schema_parts_smaller(2) [OF assms(1)] by simp

text \<open>
  The meaning of a schema: no messages, no order of checks, no paths. \<open>maxItems\<close> is not part of it.
\<close>

function conforms :: "json \<Rightarrow> schema \<Rightarrow> bool" where
  "conforms v s \<longleftrightarrow>
     (s_type s \<noteq> [] \<longrightarrow> (\<exists>t\<in>set (s_type s). valueMatchesSchemaType v t)) \<and>
     (\<forall>allowed. s_enum s = Some allowed \<longrightarrow> (\<exists>t\<in>set allowed. v = JStr t)) \<and>
     (\<forall>t. v = JStr t \<longrightarrow> (\<forall>n. s_minLength s = Some n \<longrightarrow> n \<le> length t) \<and> (\<forall>n. s_maxLength s = Some n \<longrightarrow> length t \<le> n)) \<and>
     (\<forall>x. v = JNum x \<longrightarrow> (\<forall>n. s_minimum s = Some n \<longrightarrow> n \<le> x) \<and> (\<forall>n. s_maximum s = Some n \<longrightarrow> x \<le> n)) \<and>
     (\<forall>vs. v = JArr vs \<longrightarrow> (\<forall>n. s_minItems s = Some n \<longrightarrow> n \<le> length vs)) \<and>
     (\<forall>it. s_items s = Some it \<longrightarrow> (\<forall>w\<in>set (array_items v). conforms w it)) \<and>
     (\<forall>fs. v = JObj fs \<longrightarrow> (s_closed s \<longrightarrow> fst ` set fs \<subseteq> fst ` set (s_properties s)) \<and> set (s_required s) \<subseteq> fst ` set fs) \<and>
     (\<forall>(key, p)\<in>set (s_properties s). \<forall>w. map_of (record_fields v) key = Some w \<longrightarrow> conforms w p) \<and>
     (\<forall>branches. s_oneOf s = Some branches \<longrightarrow> length (filter (conforms v) branches) = 1)"
  by pat_completeness auto

termination
  by (relation "measure (\<lambda>(_, s). size s)") (auto simp: schema_parts_smaller(1) property_smaller branch_smaller)

declare conforms.simps [simp del] validateToolSchemaValue.simps [simp del]

lemma orelse_None [simp]: "orelse a b = None \<longleftrightarrow> a = None \<and> b = None"
  by (simp add: orelse_def split: option.splits)

lemma complain_None [simp]: "complain ok e = None \<longleftrightarrow> ok"
  by (simp add: complain_def)

lemma at_least_iff: "at_least le bound x \<longleftrightarrow> (\<forall>b. bound = Some b \<longrightarrow> le b x)"
  by (simp add: at_least_def split: option.splits)

lemma check_type_None: "check_type v s p = None \<longleftrightarrow> (s_type s \<noteq> [] \<longrightarrow> (\<exists>t\<in>set (s_type s). valueMatchesSchemaType v t))"
  by (auto simp: check_type_def list_ex_iff)

lemma check_enum_None: "check_enum v s p = None \<longleftrightarrow> (\<forall>allowed. s_enum s = Some allowed \<longrightarrow> (\<exists>t\<in>set allowed. v = JStr t))"
  by (cases v) (auto simp: check_enum_def split: option.splits)

lemma check_text_None:
  "check_text v s p = None \<longleftrightarrow>
     (\<forall>t. v = JStr t \<longrightarrow> (\<forall>n. s_minLength s = Some n \<longrightarrow> n \<le> length t) \<and> (\<forall>n. s_maxLength s = Some n \<longrightarrow> length t \<le> n))"
  by (cases v) (auto simp: check_text_def at_least_iff)

lemma check_number_None:
  "check_number nts v s p = None \<longleftrightarrow>
     (\<forall>x. v = JNum x \<longrightarrow> (\<forall>n. s_minimum s = Some n \<longrightarrow> n \<le> x) \<and> (\<forall>n. s_maximum s = Some n \<longrightarrow> x \<le> n))"
  by (cases v) (auto simp: check_number_def at_least_iff)

lemma check_min_items_None:
  "check_min_items v s p = None \<longleftrightarrow> (\<forall>vs. v = JArr vs \<longrightarrow> (\<forall>n. s_minItems s = Some n \<longrightarrow> n \<le> length vs))"
  by (cases v) (auto simp: check_min_items_def at_least_iff)

lemma check_fields_None:
  "check_fields fs s p = None \<longleftrightarrow>
     (s_closed s \<longrightarrow> fst ` set fs \<subseteq> fst ` set (s_properties s)) \<and> set (s_required s) \<subseteq> fst ` set fs"
  by (auto simp: check_fields_def find_None_iff map_of_eq_None_iff)

lemmas check_None = check_type_None check_enum_None check_text_None check_number_None check_min_items_None

lemma validator_agrees:
  "validateToolSchemaValue nts v s p = None \<longleftrightarrow> conforms v s"
  "validate_items nts vs it p i = None \<longleftrightarrow> (\<forall>w\<in>set vs. conforms w it)"
  "validate_properties nts fs ps p = None \<longleftrightarrow> (\<forall>(key, q)\<in>set ps. \<forall>w. map_of fs key = Some w \<longrightarrow> conforms w q)"
  "match_count nts v ss p = length (filter (conforms v) ss)"
proof (induction nts v s p and nts vs it p i and nts fs ps p and nts v ss p
    rule: validateToolSchemaValue_validate_items_validate_properties_match_count.induct)
  case (1 nts v s p)
  have items: "(case s_items s of Some it \<Rightarrow> validate_items nts (array_items v) it p 0 | None \<Rightarrow> None) = None \<longleftrightarrow>
      (\<forall>it. s_items s = Some it \<longrightarrow> (\<forall>w\<in>set (array_items v). conforms w it))"
    using 1(1) by (auto split: option.splits)
  have branches: "(case s_oneOf s of None \<Rightarrow> None | Some branches \<Rightarrow> complain (match_count nts v branches p = 1) (one_of_error p)) = None \<longleftrightarrow>
      (\<forall>branches. s_oneOf s = Some branches \<longrightarrow> length (filter (conforms v) branches) = 1)"
    using 1(3) by (auto split: option.splits)
  have fields: "(if isRecord (Some v) then orelse (check_fields (record_fields v) s p) (validate_properties nts (record_fields v) (s_properties s) p)
        else None) = None \<longleftrightarrow>
      (\<forall>fs. v = JObj fs \<longrightarrow> (s_closed s \<longrightarrow> fst ` set fs \<subseteq> fst ` set (s_properties s)) \<and> set (s_required s) \<subseteq> fst ` set fs) \<and>
      (\<forall>(key, q)\<in>set (s_properties s). \<forall>w. map_of (record_fields v) key = Some w \<longrightarrow> conforms w q)"
    using 1(2) by (cases v) (simp_all add: check_fields_None record_fields_def)
  show ?case
    unfolding validateToolSchemaValue.simps [of nts v s p] conforms.simps [of v s] orelse_None check_None items fields branches
    by (simp only: conj_assoc)
qed (auto split: option.splits)


text \<open>
  Property (max_items_ignored). The upper bound that the schemas of \<open>bench_run\<close> and \<open>optimize_run\<close> state for the number
  of routes is not checked: any number of route names is accepted.
\<close>
theorem max_items_ignored:
  "n \<noteq> 0 \<Longrightarrow> validateToolSchemaValue nts (JArr (replicate n (JStr ''r''))) (array_schema 1 BENCH_MAX_ROUTES (text_schema 1)) p = None"
proof -
  assume n: "n \<noteq> 0"
  have "conforms (JStr ''r'') (text_schema 1)"
    by (subst conforms.simps) (simp add: text_schema_def valueMatchesSchemaType_def record_fields_def)
  with n show ?thesis
    unfolding validator_agrees
    by (subst conforms.simps) (simp add: array_schema_def valueMatchesSchemaType_def array_items_def record_fields_def)
qed

theorem max_items_ignored_witness:
  "validateToolSchemaValue (\<lambda>_. []) (JArr (replicate 33 (JStr ''r''))) (array_schema 1 BENCH_MAX_ROUTES (text_schema 1)) ''routes'' = None"
  by (rule max_items_ignored) simp

section \<open>The list of tools\<close>

lemma tool_names_distinct: "distinct (map td_name getToolDefinitions)"
  by (simp add: getToolDefinitions_def defineTool_def)

lemma getToolDefinition_iff: "getToolDefinition n = Some t \<longleftrightarrow> t \<in> set getToolDefinitions \<and> td_name t = n"
proof
  assume "getToolDefinition n = Some t"
  then show "t \<in> set getToolDefinitions \<and> td_name t = n"
    unfolding getToolDefinition_def by (auto simp: find_Some_iff)
next
  assume t: "t \<in> set getToolDefinitions \<and> td_name t = n"
  then obtain u where u: "getToolDefinition n = Some u"
    unfolding getToolDefinition_def by (cases "find (\<lambda>tool. td_name tool = n) getToolDefinitions") (auto simp: find_None_iff)
  then have "u \<in> set getToolDefinitions" "td_name u = n"
    unfolding getToolDefinition_def by (auto simp: find_Some_iff)
  with t have "u = t" using tool_names_distinct by (auto simp: distinct_map dest: inj_onD)
  with u show "getToolDefinition n = Some t" by simp
qed

end
