(* ===== verification/Config_Path.thy ===== *)
theory Config_Path
  imports Config_Read_Model "HOL-Library.Sublist"
begin

text \<open>
  Paths of a configuration below an allowed directory: \<open>resolveBoundedConfigPath\<close> of
  \<^verbatim>\<open>src/src/subsystems/config/read-model.ts\<close>, with the functions of Node's \<^verbatim>\<open>path\<close> it uses for POSIX paths.

  Main result: a path is accepted exactly when it and, if the file exists, the file it leads to lie in
  the allowed directory.
\<close>

section \<open>POSIX paths\<close>

fun normal_segments :: "string list \<Rightarrow> string list \<Rightarrow> string list" where
  "normal_segments acc [] = rev acc"
| "normal_segments acc (s # ss) =
     (if s = [] \<or> s = ''.'' then normal_segments acc ss
      else if s = ''..'' then normal_segments (tl acc) ss
      else normal_segments (s # acc) ss)"

definition is_absolute :: "string \<Rightarrow> bool" where
  "is_absolute p \<longleftrightarrow> starts_with ''/'' p"

definition path_segments :: "string \<Rightarrow> string list" where
  "path_segments p = normal_segments [] (split_char (CHR ''/'') p)"

definition absolute_path :: "string list \<Rightarrow> string" where
  "absolute_path ss = ''/'' @ join ''/'' ss"

definition path_resolve :: "string \<Rightarrow> string \<Rightarrow> string" where
  "path_resolve cwd p = absolute_path (path_segments (if is_absolute p then p else cwd @ ''/'' @ p))"

definition common_prefix_length :: "string list \<Rightarrow> string list \<Rightarrow> nat" where
  "common_prefix_length xs ys = length (takeWhile (\<lambda>(x, y). x = y) (zip xs ys))"

definition path_relative :: "string \<Rightarrow> string \<Rightarrow> string" where
  "path_relative from to =
     (let xs = path_segments from; ys = path_segments to; n = common_prefix_length xs ys
      in join ''/'' (replicate (length xs - n) ''..'' @ drop n ys))"

section \<open>Bounded paths\<close>

definition escapes_root :: "string \<Rightarrow> bool" where
  "escapes_root relative \<longleftrightarrow> relative = ''..'' \<or> starts_with ''../'' relative \<or> is_absolute relative"

definition requested_path :: "string option \<Rightarrow> string \<Rightarrow> string" where
  "requested_path configPath normalizedRoot =
     (case configPath of
        Some p \<Rightarrow> if non_blank p then path_resolve normalizedRoot p else path_resolve normalizedRoot ''config.json''
      | None \<Rightarrow> path_resolve normalizedRoot ''config.json'')"

definition resolveBoundedConfigPath :: "config_host \<Rightarrow> string option \<Rightarrow> string \<Rightarrow> config_error + string" where
  "resolveBoundedConfigPath host configPath allowedRoot =
     (let normalizedRoot = path_resolve (hs_cwd host) allowedRoot;
          shown = (case configPath of Some p \<Rightarrow> p | None \<Rightarrow> ''config.json'');
          resolvedPath = requested_path configPath normalizedRoot
      in if escapes_root (path_relative normalizedRoot resolvedPath)
         then Inl (ConfigMessage (''Config path '' @ quoted shown @ '' escapes the allowed config root '' @ quoted normalizedRoot @ ''.''))
         else if \<not> hs_exists host resolvedPath then Inr resolvedPath
         else (case hs_realpath host resolvedPath of
                 Inl e \<Rightarrow> Inl (ConfigMessage (ff_message e))
               | Inr realResolvedPath \<Rightarrow>
                   if escapes_root (path_relative normalizedRoot realResolvedPath)
                   then Inl (ConfigMessage (''Config path '' @ quoted shown @ '' resolves outside the allowed config root '' @ quoted normalizedRoot @ ''.''))
                   else Inr resolvedPath))"

section \<open>Staying in a directory\<close>

definition inside :: "string \<Rightarrow> string \<Rightarrow> bool" where
  "inside directory p \<longleftrightarrow> prefix (path_segments directory) (path_segments p)"

definition plain_segment :: "string \<Rightarrow> bool" where
  "plain_segment s \<longleftrightarrow> s \<noteq> [] \<and> s \<noteq> ''.'' \<and> s \<noteq> ''..'' \<and> CHR ''/'' \<notin> set s"

lemma split_char_free: "w \<in> set (split_char c s) \<Longrightarrow> c \<notin> set w"
proof (induction s arbitrary: w)
  case (Cons x s)
  then show ?case by (cases "split_char c s") (auto split: if_splits)
qed simp

lemma normal_segments_plain:
  "list_all plain_segment acc \<Longrightarrow> list_all (\<lambda>s. CHR ''/'' \<notin> set s) ss \<Longrightarrow> list_all plain_segment (normal_segments acc ss)"
proof (induction ss arbitrary: acc)
  case (Cons s ss)
  have tl: "list_all plain_segment (tl acc)" using Cons.prems(1) by (cases acc) simp_all
  consider "s = [] \<or> s = ''.''" | "s = ''..''" | "plain_segment s" using Cons.prems(2) by (auto simp: plain_segment_def)
  then show ?case
  proof cases
    case 3
    then have "s \<noteq> []" "s \<noteq> ''.''" "s \<noteq> ''..''" by (simp_all add: plain_segment_def)
    with 3 Cons.IH [of "s # acc"] Cons.prems show ?thesis by simp
  qed (use Cons.IH [of acc] Cons.IH [OF tl] Cons.prems in auto)
qed simp

lemma path_segments_plain: "s \<in> set (path_segments p) \<Longrightarrow> plain_segment s"
  using normal_segments_plain [of "[]" "split_char (CHR ''/'') p"] split_char_free by (auto simp: path_segments_def list_all_iff)

lemma common_prefix_iff: "common_prefix_length xs ys = length xs \<longleftrightarrow> prefix xs ys"
proof (induction xs arbitrary: ys)
  case (Cons x xs)
  then show ?case by (cases ys) (simp_all add: common_prefix_length_def)
qed (simp add: common_prefix_length_def)

lemma common_prefix_le: "common_prefix_length xs ys \<le> length xs"
  unfolding common_prefix_length_def by (rule order_trans [OF length_takeWhile_le]) simp

lemma join_head: "ws \<noteq> [] \<Longrightarrow> join sep ws = hd ws @ (if tl ws = [] then [] else sep @ join sep (tl ws))"
  by (cases ws rule: list.exhaust; cases "tl ws") simp_all

lemma plain_inside:
  assumes "\<forall>s\<in>set ws. plain_segment s"
  shows "\<not> escapes_root (join ''/'' ws)"
proof (cases "ws = []")
  case False
  then have w: "plain_segment (hd ws)" using assms by simp
  obtain rest where j: "join ''/'' ws = hd ws @ rest" "rest = [] \<or> (\<exists>r. rest = CHR ''/'' # r)"
    using join_head [OF False] by (cases "tl ws = []") auto
  show ?thesis
    using w j
    by (cases "hd ws" rule: list.exhaust; cases "tl (hd ws)"; cases "tl (tl (hd ws))")
      (auto simp: escapes_root_def is_absolute_def starts_with_def plain_segment_def)
qed (simp add: escapes_root_def is_absolute_def starts_with_def)

lemma dots_escape: "0 < n \<Longrightarrow> escapes_root (join ''/'' (replicate n ''..'' @ ws))"
  by (cases n) (auto simp: join_head escapes_root_def starts_with_def)

lemma escapes_iff: "escapes_root (path_relative d p) \<longleftrightarrow> \<not> inside d p"
proof -
  let ?n = "common_prefix_length (path_segments d) (path_segments p)"
  show ?thesis
  proof (cases "?n = length (path_segments d)")
    case True
    have "\<forall>s\<in>set (drop ?n (path_segments p)). plain_segment s" using path_segments_plain in_set_dropD by fast
    then show ?thesis using True plain_inside by (simp add: path_relative_def Let_def inside_def common_prefix_iff [symmetric])
  next
    case False
    then have "0 < length (path_segments d) - ?n" using common_prefix_le [of "path_segments d" "path_segments p"] by simp
    from dots_escape [OF this] False show ?thesis
      by (simp add: path_relative_def Let_def inside_def common_prefix_iff [symmetric])
  qed
qed

text \<open>
  C17 (bounded_path_inside). The path of a configuration is accepted exactly when it lies in the allowed
  directory, whatever dots and slashes it contains, and, if the file exists, the file it leads to through
  symbolic links lies there too.
\<close>
theorem bounded_path_inside:
  "resolveBoundedConfigPath host configPath allowedRoot = Inr p \<longleftrightarrow>
     (let root = path_resolve (hs_cwd host) allowedRoot
      in p = requested_path configPath root \<and> inside root p \<and>
         (hs_exists host p \<longrightarrow> (\<exists>q. hs_realpath host p = Inr q \<and> inside root q)))"
  by (auto simp: resolveBoundedConfigPath_def Let_def escapes_iff split: sum.splits)

theorem bounded_path_inside_witness:
  "resolveBoundedConfigPath example_config_host (Some ''a/../config.json'') ''/c'' = Inr ''/c/config.json'' \<and>
   resolveBoundedConfigPath example_config_host (Some ''../c2/config.json'') ''/c'' \<noteq> Inr ''/c2/config.json''"
proof -
  note eval = requested_path_def path_resolve_def path_segments_def absolute_path_def is_absolute_def starts_with_def inside_def
    non_blank_def js_string_defs example_config_host_def Let_def
  have "resolveBoundedConfigPath example_config_host (Some ''a/../config.json'') ''/c'' = Inr ''/c/config.json''"
    unfolding bounded_path_inside by (simp add: eval)
  moreover have "resolveBoundedConfigPath example_config_host (Some ''../c2/config.json'') ''/c'' \<noteq> Inr ''/c2/config.json''"
    unfolding bounded_path_inside by (simp add: eval)
  ultimately show ?thesis by blast
qed

end
