(* ===== verification/Mcp_Protocol.thy ===== *)
theory Mcp_Protocol
  imports Mcp_Tools Config_Path Error_Details
begin

text \<open>
  The transport of the MCP server: framing and envelopes of \<^verbatim>\<open>mcp/protocol.ts\<close> and the sessions of
  \<^verbatim>\<open>mcp/session.ts\<close> (under \<^verbatim>\<open>src/src/subsystems/\<close>).

  Main results: the messages do not depend on the pieces in which the input arrives; with one path of
  the observability store, its open handles are exactly those of the sessions.
\<close>

section \<open>Messages\<close>

definition MAX_MCP_MESSAGE_BYTES :: nat where
  "MAX_MCP_MESSAGE_BYTES = 16 * 1024 * 1024"

definition MAX_MCP_PARSER_BUFFER_BYTES :: nat where
  "MAX_MCP_PARSER_BUFFER_BYTES = MAX_MCP_MESSAGE_BYTES + 64 * 1024"

abbreviation newline :: char where
  "newline \<equiv> CHR 0x0A"

text \<open>The written line, or \<open>None\<close> when the body has a line break and the function throws.\<close>

definition writeProtocolMessage :: "(rat \<Rightarrow> string) \<Rightarrow> json \<Rightarrow> string option" where
  "writeProtocolMessage nts payload =
     (let body = json_stringify nts payload
      in if newline \<in> set body \<or> CHR 0x0D \<in> set body then None else Some (body @ [newline]))"

definition rpc_error :: "json \<Rightarrow> rat \<Rightarrow> string \<Rightarrow> json" where
  "rpc_error ident code message =
     JObj [(''jsonrpc'', JStr ''2.0''), (''id'', ident), (''error'', JObj [(''code'', JNum code), (''message'', JStr message)])]"

definition writeJsonRpcError :: "(rat \<Rightarrow> string) \<Rightarrow> json \<Rightarrow> rat \<Rightarrow> string \<Rightarrow> string option" where
  "writeJsonRpcError nts ident code message = writeProtocolMessage nts (rpc_error ident code message)"

definition appendMcpParserChunk :: "string \<Rightarrow> string \<Rightarrow> string + string" where
  "appendMcpParserChunk buffer chunk =
     (if length buffer + length chunk > MAX_MCP_PARSER_BUFFER_BYTES
      then Inl (''MCP parser buffer exceeded the maximum size of '' @ digits_of_nat MAX_MCP_PARSER_BUFFER_BYTES @ '' bytes'')
      else Inr (buffer @ chunk))"

fun isJsonRpcIdCandidate :: "json \<Rightarrow> bool" where
  "isJsonRpcIdCandidate JNull = True"
| "isJsonRpcIdCandidate (JStr _) = True"
| "isJsonRpcIdCandidate (JNum _) = True"
| "isJsonRpcIdCandidate _ = False"

definition ENVELOPE_KEYS :: "string list" where
  "ENVELOPE_KEYS = [''jsonrpc'', ''id'', ''method'', ''params'']"

text \<open>A request that passed: its fields. \<open>None\<close> is the protocol error -32600.\<close>

definition validateJsonRpcRequestEnvelope :: "json \<Rightarrow> (string \<times> json) list option" where
  "validateJsonRpcRequestEnvelope v =
     (case v of
        JObj fs \<Rightarrow>
          if list_ex (\<lambda>(k, _). k \<notin> set ENVELOPE_KEYS) fs then None
          else if map_of fs ''jsonrpc'' \<noteq> Some (JStr ''2.0'') then None
          else (case map_of fs ''method'' of
                  Some (JStr m) \<Rightarrow>
                    if m = [] then None
                    else if (case map_of fs ''id'' of Some i \<Rightarrow> \<not> isJsonRpcIdCandidate i | None \<Rightarrow> False) then None
                    else if (case map_of fs ''params'' of Some p \<Rightarrow> \<not> isRecord (Some p) | None \<Rightarrow> False) then None
                    else Some ([(''jsonrpc'', JStr ''2.0''), (''method'', JStr m)]
                           @ (case map_of fs ''id'' of Some i \<Rightarrow> [(''id'', i)] | None \<Rightarrow> [])
                           @ (case map_of fs ''params'' of Some p \<Rightarrow> [(''params'', p)] | None \<Rightarrow> []))
                | _ \<Rightarrow> None)
      | _ \<Rightarrow> None)"

text \<open>What one line of the input is.\<close>

datatype frame =
    TooLong
  | Blank
  | ProtocolError rat string
  | Message "(string \<times> json) list"

record codec =
  co_utf8 :: "string \<Rightarrow> string"                \<comment> \<open>decoding of a buffer\<close>
  co_parse :: "string \<Rightarrow> json option"          \<comment> \<open>\<open>JSON.parse\<close>\<close>

definition frame_of :: "codec \<Rightarrow> string \<Rightarrow> frame" where
  "frame_of co rawLine =
     (let line = (if rawLine \<noteq> [] \<and> last rawLine = CHR 0x0D then butlast rawLine else rawLine)
      in if length line > MAX_MCP_MESSAGE_BYTES then TooLong
         else let body = trim (co_utf8 co line)
              in if body = [] then Blank
                 else (case parseJsonWithinBounds (co_parse co) (hard_json_bounds\<lparr>maxSerializedBytes := MAX_MCP_MESSAGE_BYTES\<rparr>) body of
                         Inl _ \<Rightarrow> ProtocolError (-32700) ''Invalid JSON-RPC message body''
                       | Inr parsedBody \<Rightarrow>
                           (case validateJsonRpcRequestEnvelope parsedBody of
                              None \<Rightarrow> ProtocolError (-32600) ''Invalid Request''
                            | Some request \<Rightarrow> Message request)))"

lemma rest_shorter: "newline \<in> set buffer \<Longrightarrow> length (tl (dropWhile (\<lambda>c. c \<noteq> newline) buffer)) < length buffer"
  by (induction buffer) auto

text \<open>
  The loop over the lines of the buffer. The handlers act on the state of the server and may throw, which ends the
  loop; the result is the outcome, the buffer and the state.
\<close>

function processMcpBuffer ::
  "codec \<Rightarrow> ((string \<times> json) list \<Rightarrow> 's \<Rightarrow> (string + unit) \<times> 's) \<Rightarrow> (rat \<Rightarrow> string \<Rightarrow> 's \<Rightarrow> (string + unit) \<times> 's) \<Rightarrow>
   string \<Rightarrow> 's \<Rightarrow> (string + unit) \<times> string \<times> 's" where
  "processMcpBuffer co onMessage onProtocolError buffer s =
     (if newline \<notin> set buffer then (Inr (), buffer, s)
      else let line = takeWhile (\<lambda>c. c \<noteq> newline) buffer;
               rest = tl (dropWhile (\<lambda>c. c \<noteq> newline) buffer)
           in case frame_of co line of
                TooLong \<Rightarrow>
                  (Inl (''MCP message exceeds the maximum size of '' @ digits_of_nat MAX_MCP_MESSAGE_BYTES @ '' bytes''), rest, s)
              | Blank \<Rightarrow> processMcpBuffer co onMessage onProtocolError rest s
              | ProtocolError code message \<Rightarrow>
                  (case onProtocolError code message s of
                     (Inl e, s) \<Rightarrow> (Inl e, rest, s)
                   | (Inr _, s) \<Rightarrow> processMcpBuffer co onMessage onProtocolError rest s)
              | Message request \<Rightarrow>
                  (case onMessage request s of
                     (Inl e, s) \<Rightarrow> (Inl e, rest, s)
                   | (Inr _, s) \<Rightarrow> processMcpBuffer co onMessage onProtocolError rest s))"
  by pat_completeness auto

termination
  by (relation "measure (\<lambda>(_, _, _, buffer, _). length buffer)") (simp_all add: rest_shorter [simplified])

declare processMcpBuffer.simps [simp del]

section \<open>Framing\<close>

text \<open>The reference: the complete lines of the whole input, in order.\<close>

definition handle_line ::
  "codec \<Rightarrow> ((string \<times> json) list \<Rightarrow> 's \<Rightarrow> (string + unit) \<times> 's) \<Rightarrow> (rat \<Rightarrow> string \<Rightarrow> 's \<Rightarrow> (string + unit) \<times> 's) \<Rightarrow>
   string \<Rightarrow> 's \<Rightarrow> (string + unit) \<times> 's" where
  "handle_line co onMessage onProtocolError line s =
     (case frame_of co line of
        TooLong \<Rightarrow> (Inl (''MCP message exceeds the maximum size of '' @ digits_of_nat MAX_MCP_MESSAGE_BYTES @ '' bytes''), s)
      | Blank \<Rightarrow> (Inr (), s)
      | ProtocolError code message \<Rightarrow> onProtocolError code message s
      | Message request \<Rightarrow> onMessage request s)"

fun handle_lines ::
  "codec \<Rightarrow> ((string \<times> json) list \<Rightarrow> 's \<Rightarrow> (string + unit) \<times> 's) \<Rightarrow> (rat \<Rightarrow> string \<Rightarrow> 's \<Rightarrow> (string + unit) \<times> 's) \<Rightarrow>
   string list \<Rightarrow> 's \<Rightarrow> (string + unit) \<times> 's" where
  "handle_lines co f g [] s = (Inr (), s)"
| "handle_lines co f g (line # ls) s =
     (case handle_line co f g line s of (Inl e, s) \<Rightarrow> (Inl e, s) | (Inr _, s) \<Rightarrow> handle_lines co f g ls s)"

text \<open>The serving loop: every piece of the input is appended and processed; an error ends it.\<close>

fun feed ::
  "codec \<Rightarrow> ((string \<times> json) list \<Rightarrow> 's \<Rightarrow> (string + unit) \<times> 's) \<Rightarrow> (rat \<Rightarrow> string \<Rightarrow> 's \<Rightarrow> (string + unit) \<times> 's) \<Rightarrow>
   string \<Rightarrow> string list \<Rightarrow> 's \<Rightarrow> (string + unit) \<times> string \<times> 's" where
  "feed co f g buffer [] s = (Inr (), buffer, s)"
| "feed co f g buffer (chunk # chunks) s =
     (case appendMcpParserChunk buffer chunk of
        Inl e \<Rightarrow> (Inl e, buffer, s)
      | Inr b \<Rightarrow>
          (case processMcpBuffer co f g b s of
             (Inl e, b, s) \<Rightarrow> (Inl e, b, s)
           | (Inr _, b, s) \<Rightarrow> feed co f g b chunks s))"

lemma split_first:
  assumes "newline \<in> set buffer"
  shows "split_char newline buffer =
    takeWhile (\<lambda>c. c \<noteq> newline) buffer # split_char newline (tl (dropWhile (\<lambda>c. c \<noteq> newline) buffer))"
proof -
  have "dropWhile (\<lambda>c. c \<noteq> newline) buffer \<noteq> []" using assms by (auto simp: dropWhile_eq_Nil_conv)
  then obtain r where r: "dropWhile (\<lambda>c. c \<noteq> newline) buffer = newline # r"
    using hd_dropWhile [of "\<lambda>c. c \<noteq> newline" buffer] by (cases "dropWhile (\<lambda>c. c \<noteq> newline) buffer") auto
  then have "buffer = takeWhile (\<lambda>c. c \<noteq> newline) buffer @ newline # r" by (metis takeWhile_dropWhile_id)
  with r show ?thesis using split_char_append [of newline "takeWhile (\<lambda>c. c \<noteq> newline) buffer" r]
    by (auto dest: set_takeWhileD)
qed

abbreviation first_line :: "string \<Rightarrow> string" where
  "first_line buffer \<equiv> takeWhile (\<lambda>c. c \<noteq> newline) buffer"

abbreviation after_line :: "string \<Rightarrow> string" where
  "after_line buffer \<equiv> tl (dropWhile (\<lambda>c. c \<noteq> newline) buffer)"

lemma process_line:
  assumes "newline \<in> set buffer"
  shows "processMcpBuffer co f g buffer s =
    (case handle_line co f g (first_line buffer) s of
       (Inl e, s) \<Rightarrow> (Inl e, after_line buffer, s)
     | (Inr _, s) \<Rightarrow> processMcpBuffer co f g (after_line buffer) s)"
  using assms by (subst processMcpBuffer.simps) (simp add: handle_line_def Let_def split: frame.split)

lemma processed_lines:
  assumes "processMcpBuffer co f g buffer s = (r, b, t)"
  shows "handle_lines co f g (butlast (split_char newline buffer)) s = (r, t) \<and> (r = Inr () \<longrightarrow> b = last (split_char newline buffer))"
  using assms
proof (induction "length buffer" arbitrary: buffer s rule: less_induct)
  case less
  show ?case
  proof (cases "newline \<in> set buffer")
    case False
    with less.prems show ?thesis by (subst (asm) processMcpBuffer.simps) (auto simp: split_char_no_sep)
  next
    case True
    note IH = less.hyps [OF rest_shorter [OF True]]
    obtain q u where q: "handle_line co f g (first_line buffer) s = (q, u)" by fastforce
    show ?thesis
      using less.prems q IH by (cases q) (auto simp: split_first [OF True] process_line [OF True])
  qed
qed

lemma handle_lines_append:
  "handle_lines co f g (as @ bs) s =
     (case handle_lines co f g as s of (Inl e, s) \<Rightarrow> (Inl e, s) | (Inr _, s) \<Rightarrow> handle_lines co f g bs s)"
  by (induction as arbitrary: s) (auto split: prod.split sum.split)

lemma split_prefix_bounded:
  assumes "newline \<notin> set a" "\<forall>w\<in>set (split_char newline (a @ b)). length w \<le> n"
  shows "length a \<le> n"
proof -
  have "a @ hd (split_char newline b) \<in> set (split_char newline (a @ b))"
    using split_char_append_gen [of newline a b] assms(1) by (simp add: split_char_no_sep)
  with assms(2) show ?thesis by fastforce
qed

lemma feed_lines:
  assumes "newline \<notin> set buffer"
    and "\<forall>w\<in>set (split_char newline (buffer @ concat chunks)). length w \<le> MAX_MCP_MESSAGE_BYTES"
    and "\<forall>c\<in>set chunks. length c \<le> 64 * 1024"
    and "feed co f g buffer chunks s = (r, b, t)"
  shows "handle_lines co f g (butlast (split_char newline (buffer @ concat chunks))) s = (r, t) \<and>
    (r = Inr () \<longrightarrow> b = last (split_char newline (buffer @ concat chunks)))"
  using assms
proof (induction chunks arbitrary: buffer s)
  case Nil
  then show ?case by (simp add: split_char_no_sep)
next
  case (Cons c cs)
  let ?rest = "concat cs" and ?b = "buffer @ c"
  let ?left = "last (split_char newline ?b)"
  have whole: "split_char newline (buffer @ concat (c # cs)) = butlast (split_char newline ?b) @ split_char newline (?left @ ?rest)"
  proof -
    have "newline \<notin> set ?left" by (rule split_char_free [OF last_in_set]) simp
    then have "split_char newline (?left @ ?rest) = (?left @ hd (split_char newline ?rest)) # tl (split_char newline ?rest)"
      using split_char_append_gen [of newline ?left ?rest] by (simp add: split_char_no_sep)
    then show ?thesis using split_char_append_gen [of newline ?b ?rest] by simp
  qed
  have clean: "newline \<notin> set ?left" by (rule split_char_free [OF last_in_set]) simp
  have "length buffer + length c \<le> MAX_MCP_PARSER_BUFFER_BYTES"
    using split_prefix_bounded [OF Cons.prems(1,2)] Cons.prems(3) by (simp add: MAX_MCP_PARSER_BUFFER_BYTES_def)
  then have append: "appendMcpParserChunk buffer c = Inr ?b" by (simp add: appendMcpParserChunk_def)
  obtain r1 b1 t1 where p: "processMcpBuffer co f g ?b s = (r1, b1, t1)" by (metis prod_cases3)
  note lines = processed_lines [OF p]
  have rest: "butlast (split_char newline (buffer @ concat (c # cs))) = butlast (split_char newline ?b) @ butlast (split_char newline (?left @ ?rest))"
    "last (split_char newline (buffer @ concat (c # cs))) = last (split_char newline (?left @ ?rest))"
    unfolding whole by (simp_all add: butlast_append)
  show ?case
  proof (cases r1)
    case (Inl e)
    with lines Cons.prems(4) append p show ?thesis unfolding rest by (auto simp: handle_lines_append)
  next
    case (Inr x)
    with lines have b1: "b1 = ?left" and done_lines: "handle_lines co f g (butlast (split_char newline ?b)) s = (Inr (), t1)" by simp_all
    have "feed co f g ?left cs t1 = (r, b, t)" using Cons.prems(4) append p Inr b1 by simp
    moreover have "\<forall>w\<in>set (split_char newline (?left @ ?rest)). length w \<le> MAX_MCP_MESSAGE_BYTES"
      using Cons.prems(2) unfolding whole by simp
    ultimately show ?thesis
      using Cons.IH [OF clean, of t1] Cons.prems(3) unfolding rest by (simp add: handle_lines_append done_lines)
  qed
qed


definition example_codec :: codec where
  "example_codec = \<lparr>co_utf8 = (\<lambda>b. b), co_parse = (\<lambda>_. None)\<rparr>"


section \<open>Sessions\<close>

text \<open>
  Handles of the observability store and abort controllers are numbered as they are created. \<open>st_open n p create\<close> is
  the outcome of the \<open>n\<close>-th attempt to open the store at \<open>p\<close>: an exception, or whether there is a store
  (with \<open>create\<close> there always is).
\<close>

record session_state =
  ss_handle :: "nat option"
  ss_dbPath :: "string option"
  ss_knownMissing :: bool
  ss_controller :: nat

record session_module =
  sm_sessions :: "(string, session_state) js_map"
  sm_attempts :: nat
  sm_open :: "nat list"                           \<comment> \<open>handles opened and not yet closed\<close>
  sm_controllers :: nat
  sm_aborted :: "nat list"

record session_context =
  cx_sessionId :: string
  cx_handle :: "nat option"
  cx_dbPath :: "string option"
  cx_knownMissing :: bool
  cx_granted :: "mcp_capability list"
  cx_signal :: nat

type_synonym store_opening = "nat \<Rightarrow> string \<Rightarrow> bool \<Rightarrow> string + bool"

definition DEFAULT_MCP_SESSION_ID :: string where
  "DEFAULT_MCP_SESSION_ID = ''stdio''"

definition getOrCreateSessionState :: "string \<Rightarrow> session_module \<Rightarrow> session_state \<times> session_module" where
  "getOrCreateSessionState sessionId m =
     (case jm_get (sm_sessions m) sessionId of
        Some existing \<Rightarrow> (existing, m)
      | None \<Rightarrow>
          (let created = \<lparr>ss_handle = None, ss_dbPath = None, ss_knownMissing = False, ss_controller = sm_controllers m\<rparr>
           in (created, m\<lparr>sm_sessions := jm_set sessionId created (sm_sessions m), sm_controllers := Suc (sm_controllers m)\<rparr>)))"

definition syncContextFromState :: "session_context \<Rightarrow> session_state \<Rightarrow> session_context" where
  "syncContextFromState c st =
     c\<lparr>cx_handle := ss_handle st, cx_dbPath := ss_dbPath st, cx_knownMissing := ss_knownMissing st, cx_signal := ss_controller st\<rparr>"

definition createMcpSessionContext :: "string \<Rightarrow> mcp_capability list \<Rightarrow> session_module \<Rightarrow> session_context \<times> session_module" where
  "createMcpSessionContext sessionId grantedCapabilities m =
     (case getOrCreateSessionState sessionId m of
        (st, m) \<Rightarrow>
          (\<lparr>cx_sessionId = sessionId, cx_handle = ss_handle st, cx_dbPath = ss_dbPath st, cx_knownMissing = ss_knownMissing st,
            cx_granted = grantedCapabilities, cx_signal = ss_controller st\<rparr>, m))"

definition abortMcpSessionContext :: "session_context \<Rightarrow> session_module \<Rightarrow> session_context \<times> session_module" where
  "abortMcpSessionContext c m =
     (case jm_get (sm_sessions m) (cx_sessionId c) of
        Some st \<Rightarrow>
          (c\<lparr>cx_signal := ss_controller st\<rparr>,
           if ss_controller st \<in> set (sm_aborted m) then m else m\<lparr>sm_aborted := ss_controller st # sm_aborted m\<rparr>)
      | None \<Rightarrow>
          (c\<lparr>cx_signal := sm_controllers m\<rparr>,
           m\<lparr>sm_aborted := sm_controllers m # sm_aborted m, sm_controllers := Suc (sm_controllers m)\<rparr>))"

text \<open>One opening: a new handle, no store, or an exception.\<close>

definition open_store :: "store_opening \<Rightarrow> string \<Rightarrow> bool \<Rightarrow> session_module \<Rightarrow> (string + nat option) \<times> session_module" where
  "open_store st_open dbPath create m =
     (let n = sm_attempts m; m = m\<lparr>sm_attempts := Suc n\<rparr>
      in case st_open n dbPath create of
           Inl e \<Rightarrow> (Inl e, m)
         | Inr found \<Rightarrow>
             if create \<or> found then (Inr (Some n), m\<lparr>sm_open := n # sm_open m\<rparr>) else (Inr None, m))"

definition set_session :: "session_context \<Rightarrow> session_state \<Rightarrow> session_module \<Rightarrow> session_context \<times> session_module" where
  "set_session c st m = (syncContextFromState c st, m\<lparr>sm_sessions := jm_set (cx_sessionId c) st (sm_sessions m)\<rparr>)"

text \<open>The handle for a session; the call without a session context opens a handle for its caller.\<close>

definition getSessionObservabilityHandle ::
  "store_opening \<Rightarrow> string \<Rightarrow> bool \<Rightarrow> session_context \<Rightarrow> session_module \<Rightarrow> (string + nat option) \<times> session_context \<times> session_module" where
  "getSessionObservabilityHandle st_open dbPath createIfMissing c m =
     (case getOrCreateSessionState (cx_sessionId c) m of
        (st, m) \<Rightarrow>
          if ss_handle st \<noteq> None \<and> ss_dbPath st = Some dbPath
          then (Inr (ss_handle st), syncContextFromState c st, m)
          else if \<not> createIfMissing \<and> ss_dbPath st = Some dbPath \<and> ss_knownMissing st
          then (Inr None, syncContextFromState c st, m)
          else (case open_store st_open dbPath createIfMissing m of
                  (Inl e, m) \<Rightarrow> (Inl e, c, m)
                | (Inr handle, m) \<Rightarrow>
                    (Inr handle, set_session c (st\<lparr>ss_handle := handle, ss_dbPath := Some dbPath, ss_knownMissing := (handle = None)\<rparr>) m)))"

definition closeMcpSessionContext :: "session_context \<Rightarrow> session_module \<Rightarrow> session_context \<times> session_module" where
  "closeMcpSessionContext c m =
     (case abortMcpSessionContext c m of
        (c, m) \<Rightarrow>
          (c\<lparr>cx_handle := None, cx_dbPath := None, cx_knownMissing := False\<rparr>,
           m\<lparr>sm_open := (case jm_get (sm_sessions m) (cx_sessionId c) of
                            Some st \<Rightarrow> (case ss_handle st of Some h \<Rightarrow> filter (\<lambda>x. x \<noteq> h) (sm_open m) | None \<Rightarrow> sm_open m)
                          | None \<Rightarrow> sm_open m),
             sm_sessions := jm_delete (cx_sessionId c) (sm_sessions m)\<rparr>))"

text \<open>Operations on sessions, by any number of contexts, with one path of the store.\<close>

datatype session_op =
    CreateSession string "mcp_capability list"
  | GetHandle session_context bool
  | AbortSession session_context
  | CloseSession session_context

definition session_step :: "store_opening \<Rightarrow> string \<Rightarrow> session_op \<Rightarrow> session_module \<Rightarrow> session_module" where
  "session_step st_open dbPath operation m =
     (case operation of
        CreateSession sid caps \<Rightarrow> snd (createMcpSessionContext sid caps m)
      | GetHandle c create \<Rightarrow> snd (snd (getSessionObservabilityHandle st_open dbPath create c m))
      | AbortSession c \<Rightarrow> snd (abortMcpSessionContext c m)
      | CloseSession c \<Rightarrow> snd (closeMcpSessionContext c m))"

definition no_sessions :: session_module where
  "no_sessions = \<lparr>sm_sessions = [], sm_attempts = 0, sm_open = [], sm_controllers = 0, sm_aborted = []\<rparr>"

definition held :: "session_module \<Rightarrow> string \<Rightarrow> nat option" where
  "held m sid = (case jm_get (sm_sessions m) sid of Some st \<Rightarrow> ss_handle st | None \<Rightarrow> None)"

definition sessions_inv :: "string \<Rightarrow> session_module \<Rightarrow> bool" where
  "sessions_inv dbPath m \<longleftrightarrow>
     (\<forall>h. h \<in> set (sm_open m) \<longleftrightarrow> (\<exists>sid. held m sid = Some h)) \<and>
     (\<forall>sid sid' h. held m sid = Some h \<and> held m sid' = Some h \<longrightarrow> sid = sid') \<and>
     (\<forall>h\<in>set (sm_open m). h < sm_attempts m) \<and>
     (\<forall>sid st. jm_get (sm_sessions m) sid = Some st \<and> ss_handle st \<noteq> None \<longrightarrow> ss_dbPath st = Some dbPath)"

lemma get_or_create:
  assumes "getOrCreateSessionState sid m = (st, m')" "sessions_inv p m"
  shows "sessions_inv p m' \<and> held m' = held m \<and> jm_get (sm_sessions m') sid = Some st \<and> sm_open m' = sm_open m \<and> sm_attempts m' = sm_attempts m"
proof (cases "jm_get (sm_sessions m) sid")
  case (Some x)
  with assms show ?thesis by (simp add: getOrCreateSessionState_def)
next
  case None
  with assms(1) have m': "m' = m\<lparr>sm_sessions := jm_set sid st (sm_sessions m), sm_controllers := Suc (sm_controllers m)\<rparr>" "ss_handle st = None"
    by (auto simp: getOrCreateSessionState_def Let_def)
  with None have "held m' = held m" by (auto simp: held_def jm_get_set fun_eq_iff)
  with assms(2) m' show ?thesis by (auto simp: sessions_inv_def jm_get_set)
qed

lemma update_free: "f i = None \<Longrightarrow> (\<exists>j. (f(i := Some n)) j = Some h) \<longleftrightarrow> h = n \<or> (\<exists>j. f j = Some h)"
  by (metis fun_upd_apply option.distinct(1) option.inject)

lemma release_own:
  assumes "f i = Some k" "\<And>j. f j = Some k \<Longrightarrow> j = i"
  shows "(\<exists>j. (f(i := None)) j = Some h) \<longleftrightarrow> h \<noteq> k \<and> (\<exists>j. f j = Some h)"
  using assms by (metis fun_upd_apply option.distinct(1) option.inject)

lemma handle_inv:
  assumes "sessions_inv p m"
  shows "sessions_inv p (snd (snd (getSessionObservabilityHandle st_open p create c m)))"
proof -
  obtain st m1 where g: "getOrCreateSessionState (cx_sessionId c) m = (st, m1)" by fastforce
  note m1 = get_or_create [OF g assms]
  show ?thesis
  proof (cases "ss_handle st \<noteq> None \<and> ss_dbPath st = Some p \<or> \<not> create \<and> ss_dbPath st = Some p \<and> ss_knownMissing st")
    case True
    then show ?thesis using m1 by (auto simp: getSessionObservabilityHandle_def g)
  next
    case False
    then have none: "ss_handle st = None" using m1 by (auto simp: sessions_inv_def)
    moreover have st: "jm_get (sm_sessions m1) (cx_sessionId c) = Some st" using m1 by simp
    ultimately have free: "held m1 (cx_sessionId c) = None" by (simp add: held_def)
    obtain r m2 where o: "open_store st_open p create m1 = (r, m2)" by fastforce
    have held2: "held m2 = held m1" "sm_sessions m2 = sm_sessions m1" and cases:
      "(\<exists>e. r = Inl e) \<and> sm_open m2 = sm_open m1 \<or> r = Inr None \<and> sm_open m2 = sm_open m1 \<or>
       r = Inr (Some (sm_attempts m1)) \<and> sm_open m2 = sm_attempts m1 # sm_open m1"
      "sm_attempts m2 = Suc (sm_attempts m1)"
      using o by (auto simp: open_store_def held_def fun_eq_iff Let_def split: sum.splits if_splits)
    have step: "snd (snd (getSessionObservabilityHandle st_open p create c m)) =
        (case r of Inl _ \<Rightarrow> m2 | Inr h \<Rightarrow> snd (set_session c (st\<lparr>ss_handle := h, ss_dbPath := Some p, ss_knownMissing := (h = None)\<rparr>) m2))"
      using False by (auto simp: getSessionObservabilityHandle_def g o split: sum.splits)
    have held3: "held (snd (set_session c (st\<lparr>ss_handle := h, ss_dbPath := q, ss_knownMissing := k\<rparr>) m2)) = (held m1)(cx_sessionId c := h)" for h q k
      by (auto simp: held_def set_session_def jm_get_set held2 fun_eq_iff)
    from m1 have inv1: "sessions_inv p m1" by simp
    show ?thesis
    proof (cases r)
      case (Inl e)
      then show ?thesis unfolding step using inv1 cases held2 by (auto simp: sessions_inv_def)
    next
      case (Inr h)
      let ?m = "snd (set_session c (st\<lparr>ss_handle := h, ss_dbPath := Some p, ss_knownMissing := (h = None)\<rparr>) m2)"
      have m: "sm_open ?m = sm_open m2" "sm_attempts ?m = sm_attempts m2"
        "\<And>sid. jm_get (sm_sessions ?m) sid =
           (if sid = cx_sessionId c then Some (st\<lparr>ss_handle := h, ss_dbPath := Some p, ss_knownMissing := (h = None)\<rparr>) else jm_get (sm_sessions m1) sid)"
        by (simp_all add: set_session_def jm_get_set held2)
      show ?thesis
      proof (cases h)
        case None
        then show ?thesis unfolding step using Inr inv1 cases free m held3 by (auto simp: sessions_inv_def fun_upd_idem)
      next
        case (Some n)
        then have n: "n = sm_attempts m1" "sm_open ?m = n # sm_open m1" "sm_attempts ?m = Suc n" using Inr cases m by auto
        then have new: "held m1 sid \<noteq> Some n" for sid using inv1 by (force simp: sessions_inv_def)
        have hm: "held ?m = (held m1)(cx_sessionId c := Some n)" using held3 Some by simp
        have all: "h' \<in> set (sm_open ?m) \<longleftrightarrow> (\<exists>sid. held ?m sid = Some h')" for h'
          using inv1 unfolding hm n(2) update_free [of "held m1", OF free] by (simp add: sessions_inv_def)
        have one: "held ?m sid = Some h' \<and> held ?m sid' = Some h' \<longrightarrow> sid = sid'" for sid sid' h'
          using inv1 new unfolding hm by (auto simp: sessions_inv_def)
        have "\<forall>h'\<in>set (sm_open ?m). h' < sm_attempts ?m"
          using inv1 unfolding n(2,3) by (auto simp: sessions_inv_def n(1) less_Suc_eq)
        moreover have "\<forall>sid st'. jm_get (sm_sessions ?m) sid = Some st' \<and> ss_handle st' \<noteq> None \<longrightarrow> ss_dbPath st' = Some p"
          using inv1 by (auto simp: sessions_inv_def m(3))
        ultimately have "sessions_inv p ?m" using all one unfolding sessions_inv_def by blast
        then show ?thesis unfolding step Inr by simp
      qed
    qed
  qed
qed

lemma abort_inv: "sessions_inv p m \<Longrightarrow> sessions_inv p (snd (abortMcpSessionContext c m))"
  by (auto simp: abortMcpSessionContext_def sessions_inv_def held_def split: option.splits)

lemma close_inv:
  assumes "sessions_inv p m"
  shows "sessions_inv p (snd (closeMcpSessionContext c m))" "held (snd (closeMcpSessionContext c m)) = (held m)(cx_sessionId c := None)"
proof -
  obtain c1 m1 where a: "abortMcpSessionContext c m = (c1, m1)" by fastforce
  then have c1: "cx_sessionId c1 = cx_sessionId c" and m1: "sessions_inv p m1" "sm_sessions m1 = sm_sessions m"
    using abort_inv [OF assms, of c] by (auto simp: abortMcpSessionContext_def split: option.splits)
  let ?m = "snd (closeMcpSessionContext c m)"
  have m: "sm_sessions ?m = jm_delete (cx_sessionId c) (sm_sessions m1)" "sm_attempts ?m = sm_attempts m1"
    "sm_open ?m = (case held m1 (cx_sessionId c) of Some h \<Rightarrow> filter (\<lambda>x. x \<noteq> h) (sm_open m1) | None \<Rightarrow> sm_open m1)"
    by (simp_all add: closeMcpSessionContext_def a c1 held_def split: option.split)
  have held': "held ?m = (held m1)(cx_sessionId c := None)" by (simp add: held_def m jm_get_delete fun_eq_iff)
  then show "held ?m = (held m)(cx_sessionId c := None)" by (simp add: held_def m1(2) fun_eq_iff)
  have "h \<in> set (sm_open ?m) \<longleftrightarrow> (\<exists>sid. held ?m sid = Some h)" for h
  proof (cases "held m1 (cx_sessionId c)")
    case None
    then show ?thesis using m1(1) unfolding held' m(3) by (simp add: fun_upd_idem sessions_inv_def)
  next
    case (Some k)
    then have "j = cx_sessionId c" if "held m1 j = Some k" for j using m1(1) that unfolding sessions_inv_def by blast
    then have "(\<exists>sid. held ?m sid = Some h) \<longleftrightarrow> h \<noteq> k \<and> (\<exists>sid. held m1 sid = Some h)"
      unfolding held' by (intro release_own Some)
    with Some show ?thesis using m1(1) by (simp add: m(3) sessions_inv_def conj_commute)
  qed
  moreover have "held ?m sid = Some h \<and> held ?m sid' = Some h \<longrightarrow> sid = sid'" for sid sid' h
    using m1(1) by (auto simp: sessions_inv_def held' split: if_splits)
  moreover have "\<forall>h\<in>set (sm_open ?m). h < sm_attempts ?m"
    using m1(1) by (auto simp: sessions_inv_def m split: option.splits)
  moreover have "\<forall>sid st. jm_get (sm_sessions ?m) sid = Some st \<and> ss_handle st \<noteq> None \<longrightarrow> ss_dbPath st = Some p"
    using m1(1) by (auto simp: sessions_inv_def m(1) jm_get_delete split: if_splits)
  ultimately show "sessions_inv p ?m" unfolding sessions_inv_def by blast
qed

lemma session_step_inv: "sessions_inv p m \<Longrightarrow> sessions_inv p (session_step st_open p operation m)"
  using get_or_create
  by (cases operation)
    (auto simp: session_step_def createMcpSessionContext_def handle_inv abort_inv close_inv(1) split: prod.splits)

text \<open>
  Property (session_handles_released). With one path of the store, whatever sessions are created, used, aborted and
  closed in any order: the open handles of the store are exactly those held by the sessions, one each,
  so that none is open when every session is closed.
\<close>
theorem session_handles_released:
  "let m = fold (session_step st_open p) operations no_sessions
   in (\<forall>h. h \<in> set (sm_open m) \<longleftrightarrow> (\<exists>!sid. held m sid = Some h)) \<and> (sm_sessions m = [] \<longrightarrow> sm_open m = [])"
proof -
  let ?m = "fold (session_step st_open p) operations no_sessions"
  have "sessions_inv p m \<Longrightarrow> sessions_inv p (fold (session_step st_open p) operations m)" for m
    by (induction operations arbitrary: m) (simp_all add: session_step_inv)
  moreover have "sessions_inv p no_sessions" by (simp add: sessions_inv_def no_sessions_def held_def jm_get_def)
  ultimately have inv: "sessions_inv p ?m" by blast
  then have "h \<in> set (sm_open ?m) \<longleftrightarrow> (\<exists>!sid. held ?m sid = Some h)" for h unfolding sessions_inv_def by blast
  moreover have "sm_open ?m = []" if "sm_sessions ?m = []"
  proof -
    have "held ?m sid = None" for sid using that by (simp add: held_def jm_get_def)
    with inv have "h \<notin> set (sm_open ?m)" for h by (simp add: sessions_inv_def)
    then show ?thesis by (cases "sm_open ?m") auto
  qed
  ultimately show ?thesis by (simp add: Let_def)
qed

text \<open>
  Property (replaced_handle_leaks). When the path of the store changes during a session, the handle of the old path is
  replaced without being closed, and stays open after the session is closed.
\<close>
theorem replaced_handle_leaks:
  "let c = \<lparr>cx_sessionId = ''s'', cx_handle = None, cx_dbPath = None, cx_knownMissing = False, cx_granted = [], cx_signal = 0\<rparr>;
       opens = (\<lambda>_ _ _. Inr True);
       m = session_step opens ''b'' (CloseSession c) (session_step opens ''b'' (GetHandle c True) (session_step opens ''a'' (GetHandle c True) no_sessions))
   in sm_sessions m = [] \<and> sm_open m = [0]"
  by (simp add: session_step_def getSessionObservabilityHandle_def getOrCreateSessionState_def open_store_def set_session_def
      closeMcpSessionContext_def abortMcpSessionContext_def no_sessions_def jm_get_def jm_delete_def Let_def)

end
