(* ===== verification/Mcp_Server.thy ===== *)
theory Mcp_Server
  imports Mcp_Protocol
begin

text \<open>
  The MCP server: the dispatch of requests in \<^verbatim>\<open>mcp/dispatch.ts\<close>, envelopes of \<^verbatim>\<open>mcp/envelope.ts\<close> and the
  serving loop of \<^verbatim>\<open>mcp/mcp.ts\<close> (under \<^verbatim>\<open>src/src/subsystems/\<close>). What a tool does is an argument of the dispatcher, as
  in the code.

  Main results: a tool only runs if the session has its capability and its arguments conform to its
  schema, and a tool that changes something never runs for a notification; every request with an
  identifier is answered once, under that identifier; a listed tool is one that may be called.
\<close>

section \<open>Results of tools\<close>

datatype tool_failure =
    ToolError string string "js_value option"       \<comment> \<open>\<open>McpToolError\<close>: code, message, details\<close>
  | OtherError "string option"                      \<comment> \<open>the message, if it is an \<open>Error\<close>\<close>

type_synonym envelope = "(string, js_value) js_map"

type_synonym 'w tool_builder = "string \<Rightarrow> json \<Rightarrow> 'w \<Rightarrow> (tool_failure + envelope) \<times> 'w"

definition buildMcpErrorEnvelope :: "string \<Rightarrow> string \<Rightarrow> string \<Rightarrow> js_value option \<Rightarrow> envelope" where
  "buildMcpErrorEnvelope command code message details = buildSanitizedErrorEnvelope command code message None details"

definition toEnvelopeFromError :: "string \<Rightarrow> tool_failure \<Rightarrow> string \<Rightarrow> js_value option \<Rightarrow> envelope" where
  "toEnvelopeFromError command err fallbackCode fallbackDetails =
     (case err of
        ToolError code message details \<Rightarrow> buildMcpErrorEnvelope command code message details
      | OtherError message \<Rightarrow>
          buildMcpErrorEnvelope command fallbackCode (case message of Some m \<Rightarrow> m | None \<Rightarrow> ''Unknown MCP error'') fallbackDetails)"

text \<open>Both handlers for results: an error becomes an envelope.\<close>

definition buildHandledResult :: "string \<Rightarrow> string \<Rightarrow> ('w \<Rightarrow> (tool_failure + envelope) \<times> 'w) \<Rightarrow> 'w \<Rightarrow> envelope \<times> 'w" where
  "buildHandledResult command fallbackCode handler w =
     (case handler w of
        (Inr e, w) \<Rightarrow> (e, w)
      | (Inl f, w) \<Rightarrow> (toEnvelopeFromError command f fallbackCode None, w))"

text \<open>\<open>JSON.stringify\<close> of a value: nothing is written for \<open>undefined\<close> and functions in an object.\<close>

fun value_json :: "js_value \<Rightarrow> json option"
  and items_json :: "js_value list \<Rightarrow> json list"
  and entries_json :: "(string \<times> js_value) list \<Rightarrow> (string \<times> json) list" where
  "value_json VNull = Some JNull"
| "value_json (VBool b) = Some (JBool b)"
| "value_json (VNum n) = Some (JNum n)"
| "value_json (VStr s) = Some (JStr s)"
| "value_json (VArr vs) = Some (JArr (items_json vs))"
| "value_json (VObj fs) = Some (JObj (entries_json fs))"
| "value_json VOther = None"
| "items_json [] = []"
| "items_json (v # vs) = (case value_json v of Some j \<Rightarrow> j | None \<Rightarrow> JNull) # items_json vs"
| "entries_json [] = []"
| "entries_json ((k, v) # fs) = (case value_json v of Some j \<Rightarrow> (k, j) # entries_json fs | None \<Rightarrow> entries_json fs)"

definition envelope_json :: "envelope \<Rightarrow> json" where
  "envelope_json e = JObj (entries_json e)"

definition toToolResult :: "(rat \<Rightarrow> string) \<Rightarrow> envelope \<Rightarrow> bool \<Rightarrow> json" where
  "toToolResult nts payload isError =
     JObj ([(''content'', JArr [JObj [(''type'', JStr ''text''), (''text'', JStr (pretty_json nts 0 (envelope_json payload) @ [newline]))]]),
            (''structuredContent'', envelope_json payload)]
           @ (if isError then [(''isError'', JBool True)] else []))"

section \<open>Dispatch\<close>

record dispatch_result =
  dr_isNotification :: bool
  dr_response :: "json option"

definition MCP_PROTOCOL_VERSION :: string where
  "MCP_PROTOCOL_VERSION = ''2024-11-05''"

definition SERVER_NAME :: string where
  "SERVER_NAME = ''switchmaxxer''"

definition GENERIC_MCP_TOOL_EXECUTION_FAILURE_MESSAGE :: string where
  "GENERIC_MCP_TOOL_EXECUTION_FAILURE_MESSAGE = ''Tool execution failed: see server logs for details.''"

definition rpc_result :: "json \<Rightarrow> json \<Rightarrow> json" where
  "rpc_result ident result = JObj [(''jsonrpc'', JStr ''2.0''), (''id'', ident), (''result'', result)]"

definition answer :: "json \<Rightarrow> dispatch_result" where
  "answer response = \<lparr>dr_isNotification = False, dr_response = Some response\<rparr>"

definition buildInvalidRequestResponse :: "json \<Rightarrow> dispatch_result" where
  "buildInvalidRequestResponse ident = answer (rpc_error ident (-32600) ''Invalid Request'')"

fun schema_json :: "schema \<Rightarrow> json"
  and properties_json :: "(string \<times> schema) list \<Rightarrow> (string \<times> json) list"
  and branches_json :: "schema list \<Rightarrow> json list" where
  "schema_json (Schema types allowed minLength maxLength minimum maximum minItems maxItems items additional properties required oneOf) =
     JObj ((case types of [] \<Rightarrow> [] | [t] \<Rightarrow> [(''type'', JStr t)] | _ \<Rightarrow> [(''type'', JArr (map JStr types))])
       @ (case allowed of Some vs \<Rightarrow> [(''enum'', JArr (map JStr vs))] | None \<Rightarrow> [])
       @ (case minLength of Some n \<Rightarrow> [(''minLength'', JNum (of_nat n))] | None \<Rightarrow> [])
       @ (case maxLength of Some n \<Rightarrow> [(''maxLength'', JNum (of_nat n))] | None \<Rightarrow> [])
       @ (case minimum of Some n \<Rightarrow> [(''minimum'', JNum n)] | None \<Rightarrow> [])
       @ (case maximum of Some n \<Rightarrow> [(''maximum'', JNum n)] | None \<Rightarrow> [])
       @ (case minItems of Some n \<Rightarrow> [(''minItems'', JNum (of_nat n))] | None \<Rightarrow> [])
       @ (case maxItems of Some n \<Rightarrow> [(''maxItems'', JNum (of_nat n))] | None \<Rightarrow> [])
       @ (case items of Some it \<Rightarrow> [(''items'', schema_json it)] | None \<Rightarrow> [])
       @ (if additional then [(''additionalProperties'', JBool False)] else [])
       @ (if ''object'' \<in> set types then [(''properties'', JObj (properties_json properties))] else [])
       @ (if required = [] then [] else [(''required'', JArr (map JStr required))])
       @ (case oneOf of Some bs \<Rightarrow> [(''oneOf'', JArr (branches_json bs))] | None \<Rightarrow> []))"
| "properties_json [] = []"
| "properties_json ((k, s) # ps) = (k, schema_json s) # properties_json ps"
| "branches_json [] = []"
| "branches_json (s # ss) = schema_json s # branches_json ss"

definition tool_json :: "tool_definition \<Rightarrow> json" where
  "tool_json t =
     JObj [(''capability'', JStr (capability_name (td_capability t))), (''name'', JStr (td_name t)),
           (''description'', JStr (td_description t)), (''inputSchema'', schema_json (td_inputSchema t))]"

definition initialize_result :: "string \<Rightarrow> json" where
  "initialize_result serverVersion =
     JObj [(''protocolVersion'', JStr MCP_PROTOCOL_VERSION),
           (''capabilities'', JObj [(''tools'', JObj [(''listChanged'', JBool False)])]),
           (''serverInfo'', JObj [(''name'', JStr SERVER_NAME), (''version'', JStr serverVersion)])]"

text \<open>\<open>request.params?.[field]\<close>\<close>

definition param :: "(string \<times> json) list \<Rightarrow> string \<Rightarrow> json option" where
  "param request field = Option.bind (map_of request ''params'') (\<lambda>p. jprop p field)"

definition tool_refusal :: "(rat \<Rightarrow> string) \<Rightarrow> json \<Rightarrow> string \<Rightarrow> string \<Rightarrow> string \<Rightarrow> dispatch_result" where
  "tool_refusal nts ident toolName code message =
     answer (rpc_result ident (toToolResult nts (buildMcpErrorEnvelope (getToolEnvelopeCommand toolName) code message None) True))"

text \<open>The checks before a tool runs, in the order of the code: the tool's arguments, or the reply.\<close>

definition admit_tool_call ::
  "(rat \<Rightarrow> string) \<Rightarrow> mcp_capability list option \<Rightarrow> (string \<times> json) list \<Rightarrow> bool \<Rightarrow> json \<Rightarrow> string \<Rightarrow> dispatch_result + json" where
  "admit_tool_call nts capabilities request isNotification ident toolName =
     (case getToolDefinition toolName of
        None \<Rightarrow>
          Inl (if isNotification then buildInvalidRequestResponse JNull
               else tool_refusal nts ident toolName ''tool_not_found'' (''Unknown MCP tool '' @ quoted toolName))
      | Some toolDefinition \<Rightarrow>
          if \<not> sessionCanCallTool (td_capability toolDefinition) capabilities
          then Inl (tool_refusal nts ident toolName ''unsupported'' (''MCP session is not authorized to call '' @ quoted toolName @ ''.''))
          else if isNotification \<and> isMcpMutationToolName toolName then Inl (buildInvalidRequestResponse JNull)
          else if param request ''arguments'' \<noteq> None \<and> \<not> isRecord (param request ''arguments'')
          then Inl (tool_refusal nts ident toolName ''invalid_tool_input'' ''Tool arguments must be a JSON object when provided'')
          else (let args = (case param request ''arguments'' of Some a \<Rightarrow> a | None \<Rightarrow> JObj [])
                in case validateToolArguments nts toolDefinition args of
                     Some (code, message) \<Rightarrow> Inl (tool_refusal nts ident toolName code message)
                   | None \<Rightarrow> Inr args))"

definition failed_tool :: "(rat \<Rightarrow> string) \<Rightarrow> json \<Rightarrow> string \<Rightarrow> tool_failure \<Rightarrow> dispatch_result \<times> string list" where
  "failed_tool nts ident toolName failure =
     (case failure of
        ToolError code message details \<Rightarrow>
          (answer (rpc_result ident (toToolResult nts (buildMcpErrorEnvelope (getToolEnvelopeCommand toolName) code message details) True)), [])
      | OtherError message \<Rightarrow>
          (answer (rpc_result ident (toToolResult nts
             (buildMcpErrorEnvelope ''mcp tool call'' ''tool_execution_error'' GENERIC_MCP_TOOL_EXECUTION_FAILURE_MESSAGE None) True)),
           [''MCP tool '' @ quoted toolName @ '' failed: '' @ (case message of Some m \<Rightarrow> m | None \<Rightarrow> ''Unknown MCP tool execution error'')]))"

definition call_tool ::
  "(rat \<Rightarrow> string) \<Rightarrow> mcp_capability list option \<Rightarrow> 'w tool_builder \<Rightarrow> (string \<times> json) list \<Rightarrow> bool \<Rightarrow> json \<Rightarrow> 'w \<Rightarrow>
   dispatch_result \<times> string list \<times> 'w" where
  "call_tool nts capabilities buildToolPayload request isNotification ident w =
     (if \<not> isNonEmptyString (param request ''name'')
      then (answer (rpc_error ident (-32602) ''Missing required tool name''), [], w)
      else (let toolName = the_text (param request ''name'')
            in case admit_tool_call nts capabilities request isNotification ident toolName of
                 Inl reply \<Rightarrow> (reply, [], w)
               | Inr args \<Rightarrow>
                   (case buildToolPayload toolName args w of
                      (Inl failure, w) \<Rightarrow> (case failed_tool nts ident toolName failure of (reply, warnings) \<Rightarrow> (reply, warnings, w))
                    | (Inr payload, w) \<Rightarrow>
                        (\<lparr>dr_isNotification = isNotification,
                          dr_response = (if isNotification then None
                            else Some (rpc_result ident (toToolResult nts payload (map_of payload ''ok'' = Some (VBool False)))))\<rparr>, [], w))))"

text \<open>The method of a request is a string or absent.\<close>

definition handleMcpRequestDispatch ::
  "(rat \<Rightarrow> string) \<Rightarrow> string \<Rightarrow> mcp_capability list option \<Rightarrow> 'w tool_builder \<Rightarrow> (string \<times> json) list \<Rightarrow> 'w \<Rightarrow>
   dispatch_result \<times> string list \<times> 'w" where
  "handleMcpRequestDispatch nts serverVersion capabilities buildToolPayload request w =
     (let invalid = (\<lambda>ident. (buildInvalidRequestResponse ident, [], w)) in
      if (case map_of request ''id'' of Some i \<Rightarrow> \<not> isJsonRpcIdCandidate i | None \<Rightarrow> False) then invalid JNull
      else if list_ex (\<lambda>(k, _). k \<notin> set ENVELOPE_KEYS) request then invalid JNull
      else if map_of request ''jsonrpc'' \<noteq> Some (JStr ''2.0'') then invalid JNull
      else
        let isNotification = (map_of request ''id'' = None);
            ident = (case map_of request ''id'' of Some i \<Rightarrow> i | None \<Rightarrow> JNull);
            requested = the_text (map_of request ''method'')
        in if requested = [] then invalid ident
           else if requested = ''notifications/initialized'' then (\<lparr>dr_isNotification = True, dr_response = None\<rparr>, [], w)
           else if requested = ''ping'' then (answer (rpc_result ident (JObj [])), [], w)
           else if requested = ''initialize'' then (answer (rpc_result ident (initialize_result serverVersion)), [], w)
           else if requested = ''tools/list''
           then (answer (rpc_result ident (JObj [(''tools'', JArr (map tool_json (getAllowedToolDefinitions capabilities)))])), [], w)
           else if requested = ''tools/call'' then call_tool nts capabilities buildToolPayload request isNotification ident w
           else if isNotification then (\<lparr>dr_isNotification = True, dr_response = None\<rparr>, [], w)
           else (answer (rpc_error ident (-32601) (''Method '' @ quoted requested @ '' not found'')), [], w))"

section \<open>Which tools run\<close>

lemma admit_iff:
  "admit_tool_call nts capabilities request isNotification ident n = Inr args \<longleftrightarrow>
     args = (case param request ''arguments'' of Some a \<Rightarrow> a | None \<Rightarrow> JObj []) \<and> isRecord (Some args) \<and>
     (\<exists>tool\<in>set (getAllowedToolDefinitions capabilities). td_name tool = n \<and> conforms args (td_inputSchema tool) \<and>
        (isNotification \<longrightarrow> td_capability tool = Read))"
proof (cases "getToolDefinition n")
  case None
  then have "td_name t \<noteq> n" if "t \<in> set getToolDefinitions" for t
    using that getToolDefinition_iff [of n t] by auto
  with None show ?thesis by (auto simp: admit_tool_call_def getAllowedToolDefinitions_def)
next
  case (Some tool)
  then have tool: "tool \<in> set getToolDefinitions" "td_name tool = n" by (simp_all add: getToolDefinition_iff)
  have only: "t = tool" if "t \<in> set getToolDefinitions" "td_name t = n" for t
    using that Some getToolDefinition_iff [of n t] by simp
  have allowed: "(\<exists>t\<in>set (getAllowedToolDefinitions capabilities). td_name t = n \<and> P t) \<longleftrightarrow> sessionCanCallTool (td_capability tool) capabilities \<and> P tool" for P
    using tool by (auto simp: getAllowedToolDefinitions_def sessionCanCallTool_def dest: only)
  have mutation: "isMcpMutationToolName n \<longleftrightarrow> td_capability tool \<noteq> Read"
    using Some by (simp add: isMcpMutationToolName_def)
  let ?args = "case param request ''arguments'' of Some a \<Rightarrow> a | None \<Rightarrow> JObj []"
  have rec: "isRecord (Some ?args) \<longleftrightarrow> param request ''arguments'' = None \<or> isRecord (param request ''arguments'')"
    by (simp split: option.split)
  show ?thesis
    unfolding allowed validator_agrees [of nts _ _ "''arguments''", symmetric]
    by (auto simp: admit_tool_call_def Some mutation Let_def rec validateToolArguments_def split: option.splits)
qed

lemma call_tool_world:
  assumes "call_tool nts capabilities build request isNotification ident w = (r, warnings, w')" "w' \<noteq> w"
  obtains args where "admit_tool_call nts capabilities request isNotification ident (the_text (param request ''name'')) = Inr args"
    "w' = snd (build (the_text (param request ''name'')) args w)"
  using assms by (auto simp: call_tool_def Let_def split: if_splits sum.splits prod.splits)

lemma dispatch_world:
  assumes "handleMcpRequestDispatch nts version capabilities build request w = (r, warnings, w')" "w' \<noteq> w"
  shows "\<exists>ident. call_tool nts capabilities build request (map_of request ''id'' = None) ident w = (r, warnings, w')"
  using assms by (auto simp: handleMcpRequestDispatch_def Let_def split: if_splits)

text \<open>
  C11 (tool_call_authorized). Whatever the request: the only effect of a request is that of one tool, which the
  session lists, whose capability it has been granted, with arguments that are an object conforming to
  the schema of the tool; and for a notification only a tool that reads.
\<close>
theorem tool_call_authorized:
  assumes "handleMcpRequestDispatch nts version capabilities build request w = (r, warnings, w')" "w' \<noteq> w"
  shows "\<exists>tool\<in>set (getAllowedToolDefinitions capabilities). \<exists>args. w' = snd (build (td_name tool) args w) \<and>
    td_capability tool \<in> set (granted capabilities) \<and> isRecord (Some args) \<and> conforms args (td_inputSchema tool) \<and>
    (map_of request ''id'' = None \<longrightarrow> td_capability tool = Read)"
proof -
  obtain ident where "call_tool nts capabilities build request (map_of request ''id'' = None) ident w = (r, warnings, w')"
    using dispatch_world [OF assms] by blast
  then obtain args where a: "admit_tool_call nts capabilities request (map_of request ''id'' = None) ident (the_text (param request ''name'')) = Inr args"
    "w' = snd (build (the_text (param request ''name'')) args w)"
    using assms(2) by (rule call_tool_world)
  from a(1) obtain tool where "tool \<in> set (getAllowedToolDefinitions capabilities)" "td_name tool = the_text (param request ''name'')"
    "conforms args (td_inputSchema tool)" "isRecord (Some args)" "map_of request ''id'' = None \<longrightarrow> td_capability tool = Read"
    unfolding admit_iff by (elim conjE bexE) (rule that; assumption)
  moreover from this(1) have "td_capability tool \<in> set (granted capabilities)" by (simp add: getAllowedToolDefinitions_def)
  ultimately show ?thesis using a(2) by (intro bexI [of _ tool] exI [of _ args]) simp_all
qed

definition example_call :: "(string \<times> json) list" where
  "example_call = [(''jsonrpc'', JStr ''2.0''), (''method'', JStr ''tools/call''), (''id'', JNum 1),
     (''params'', JObj [(''name'', JStr ''config_show'')])]"

definition counting_build :: "nat tool_builder" where
  "counting_build toolName args n = (Inr [(''ok'', VBool True)], Suc n)"

lemma example_call_admitted:
  "admit_tool_call nts None example_call isNotification ident ''config_show'' = Inr (JObj [])"
proof -
  let ?tool = "defineTool Read ''config_show'' ''Return the current Switchmaxxer config document and source path.'' (object_schema [] [])"
  have "?tool \<in> set getToolDefinitions" by (simp add: getToolDefinitions_def)
  then have "?tool \<in> set (getAllowedToolDefinitions None)"
    by (simp add: getAllowedToolDefinitions_def granted_def DEFAULT_MCP_TOOL_CAPABILITIES_def defineTool_def)
  moreover have "conforms (JObj []) (object_schema [] [])"
    by (subst conforms.simps) (simp add: object_schema_def object_schema_of_def valueMatchesSchemaType_def array_items_def)
  ultimately show ?thesis
    unfolding admit_iff by (auto simp: example_call_def param_def defineTool_def intro!: bexI [of _ ?tool])
qed

lemma example_dispatched:
  "\<exists>r. handleMcpRequestDispatch nts v None counting_build example_call n = (r, [], Suc n)"
proof -
  have "param example_call ''name'' = Some (JStr ''config_show'')" by (simp add: example_call_def param_def)
  then have "\<exists>r. call_tool nts None counting_build example_call False (JNum 1) n = (r, [], Suc n)"
    by (simp add: call_tool_def example_call_admitted counting_build_def isNonEmptyString_def non_blank_def js_string_defs)
  moreover have "map_of example_call ''id'' = Some (JNum 1)" "map_of example_call ''jsonrpc'' = Some (JStr ''2.0'')"
    "map_of example_call ''method'' = Some (JStr ''tools/call'')" "\<not> list_ex (\<lambda>(k, _). k \<notin> set ENVELOPE_KEYS) example_call"
    by (simp_all add: example_call_def ENVELOPE_KEYS_def)
  ultimately show ?thesis by (simp add: handleMcpRequestDispatch_def)
qed

theorem tool_call_authorized_witness:
  "\<exists>tool\<in>set (getAllowedToolDefinitions None). \<exists>args. Suc 0 = snd (counting_build (td_name tool) args 0) \<and>
     td_capability tool \<in> set (granted None) \<and> conforms args (td_inputSchema tool)"
proof -
  obtain r where "handleMcpRequestDispatch (\<lambda>_. ''1'') ''v'' None counting_build example_call 0 = (r, [], Suc 0)"
    using example_dispatched by blast
  from tool_call_authorized [OF this] show ?thesis by fastforce
qed

section \<open>Answers\<close>

lemma answered_fields [simp]: "jprop (rpc_error i c m) ''id'' = Some i" "jprop (rpc_result i x) ''id'' = Some i"
  by (simp_all add: rpc_error_def rpc_result_def)

definition answers :: "json \<Rightarrow> dispatch_result \<Rightarrow> bool" where
  "answers ident r \<longleftrightarrow> \<not> dr_isNotification r \<and> (\<exists>response. dr_response r = Some response \<and> jprop response ''id'' = Some ident)"

lemma answer_answers [simp]: "answers i (answer response) \<longleftrightarrow> jprop response ''id'' = Some i"
  by (simp add: answers_def answer_def)

lemma call_tool_answers: "answers ident (fst (call_tool nts capabilities build request False ident w))"
proof -
  have "admit_tool_call nts capabilities request False ident n = Inl reply \<Longrightarrow> answers ident reply" for n reply
    by (auto simp: admit_tool_call_def tool_refusal_def Let_def split: option.splits if_splits prod.splits)
  then show ?thesis
    by (auto simp: call_tool_def failed_tool_def Let_def answers_def answer_def split: sum.splits prod.splits tool_failure.splits)
qed



text \<open>A notification must not be answered, but \<open>ping\<close>, \<open>initialize\<close> and \<open>tools/list\<close> answer it under \<open>null\<close>.\<close>

lemma notification_answered:
  "m \<in> {''ping'', ''initialize'', ''tools/list''} \<Longrightarrow>
   answers JNull (fst (handleMcpRequestDispatch nts version capabilities build [(''jsonrpc'', JStr ''2.0''), (''method'', JStr m)] w))"
  by (auto simp: handleMcpRequestDispatch_def ENVELOPE_KEYS_def)

section \<open>The serving loop\<close>

text \<open>
  The state of \<open>runMcpServe\<close>. A piece of input is a task in the queue; so is the end, once it has been seen.
  \<open>sd_path\<close> is the outcome of checking the path of the configuration again for a request, \<open>sd_build\<close> what the tools
  do to the session, the open stores and the rest of the world.
\<close>

datatype serve_task = ChunkTask string | FinishTask

record 'w server =
  sv_buffer :: string
  sv_context :: session_context
  sv_module :: session_module
  sv_world :: 'w
  sv_hasSeenInput :: bool
  sv_finished :: bool
  sv_paused :: bool
  sv_queue :: "serve_task list"
  sv_out :: "string list"
  sv_warnings :: "string list"

type_synonym 'w tool_world = "session_context \<times> session_module \<times> 'w"

record 'w serve_deps =
  sd_nts :: "rat \<Rightarrow> string"
  sd_version :: string
  sd_codec :: codec
  sd_isTTY :: bool
  sd_path :: "'w \<Rightarrow> string option"
  sd_build :: "'w tool_world tool_builder"

definition write_line :: "string option \<Rightarrow> 'w server \<Rightarrow> (string + unit) \<times> 'w server" where
  "write_line line s =
     (case line of
        Some l \<Rightarrow> (Inr (), s\<lparr>sv_out := sv_out s @ [l]\<rparr>)
      | None \<Rightarrow> (Inl ''MCP message body must not contain embedded newline characters'', s))"

definition on_message :: "'w serve_deps \<Rightarrow> (string \<times> json) list \<Rightarrow> 'w server \<Rightarrow> (string + unit) \<times> 'w server" where
  "on_message d request s =
     (case sd_path d (sv_world s) of
        Some e \<Rightarrow> (Inl e, s)
      | None \<Rightarrow>
          (case handleMcpRequestDispatch (sd_nts d) (sd_version d) (Some (cx_granted (sv_context s))) (sd_build d) request
                  (sv_context s, sv_module s, sv_world s) of
             (r, warnings, c, m, w) \<Rightarrow>
               (let s = s\<lparr>sv_context := c, sv_module := m, sv_world := w, sv_warnings := sv_warnings s @ warnings\<rparr>
                in if dr_isNotification r then (Inr (), s)
                   else (case dr_response r of
                           None \<Rightarrow> (Inr (), s)
                         | Some response \<Rightarrow> write_line (writeProtocolMessage (sd_nts d) response) s))))"

definition on_protocol_error :: "'w serve_deps \<Rightarrow> rat \<Rightarrow> string \<Rightarrow> 'w server \<Rightarrow> (string + unit) \<times> 'w server" where
  "on_protocol_error d code message s = write_line (writeJsonRpcError (sd_nts d) JNull code message) s"

definition finish :: "'w server \<Rightarrow> 'w server" where
  "finish s =
     (if sv_finished s then s
      else (case closeMcpSessionContext (sv_context s) (sv_module s) of
              (c, m) \<Rightarrow> s\<lparr>sv_finished := True, sv_context := c, sv_module := m\<rparr>))"

text \<open>A piece of input: append, process; an error is reported, the input paused and the server finished.\<close>

definition run_chunk :: "'w serve_deps \<Rightarrow> string \<Rightarrow> 'w server \<Rightarrow> 'w server" where
  "run_chunk d chunk s =
     (case appendMcpParserChunk (sv_buffer s) chunk of
        Inl e \<Rightarrow> finish ((snd (write_line (writeJsonRpcError (sd_nts d) JNull (-32700) e) (s\<lparr>sv_buffer := []\<rparr>)))\<lparr>sv_paused := True\<rparr>)
      | Inr b \<Rightarrow>
          (case processMcpBuffer (sd_codec d) (on_message d) (on_protocol_error d) b s of
             (Inr _, b, s) \<Rightarrow> s\<lparr>sv_buffer := b\<rparr>
           | (Inl e, b, s) \<Rightarrow>
               finish ((snd (write_line (writeJsonRpcError (sd_nts d) JNull (-32700) e) (s\<lparr>sv_buffer := []\<rparr>)))\<lparr>sv_paused := True\<rparr>)))"

datatype serve_event = DataEvent string | EndEvent | RunTask

definition serve_step :: "'w serve_deps \<Rightarrow> serve_event \<Rightarrow> 'w server \<Rightarrow> 'w server" where
  "serve_step d e s =
     (case e of
        DataEvent chunk \<Rightarrow>
          if sv_finished s then s else s\<lparr>sv_hasSeenInput := True, sv_queue := sv_queue s @ [ChunkTask chunk]\<rparr>
      | EndEvent \<Rightarrow>
          if \<not> sv_hasSeenInput s \<and> \<not> sd_isTTY d then s
          else (case abortMcpSessionContext (sv_context s) (sv_module s) of
                  (c, m) \<Rightarrow> s\<lparr>sv_context := c, sv_module := m, sv_queue := sv_queue s @ [FinishTask]\<rparr>)
      | RunTask \<Rightarrow>
          (case sv_queue s of
             [] \<Rightarrow> s
           | ChunkTask chunk # q \<Rightarrow> run_chunk d chunk (s\<lparr>sv_queue := q\<rparr>)
           | FinishTask # q \<Rightarrow> finish (s\<lparr>sv_queue := q\<rparr>)))"

definition serve_start :: "mcp_capability list \<Rightarrow> 'w \<Rightarrow> 'w server" where
  "serve_start capabilities w =
     (case createMcpSessionContext DEFAULT_MCP_SESSION_ID capabilities no_sessions of
        (c, m) \<Rightarrow> \<lparr>sv_buffer = [], sv_context = c, sv_module = m, sv_world = w, sv_hasSeenInput = False, sv_finished = False,
          sv_paused = False, sv_queue = [], sv_out = [], sv_warnings = []\<rparr>)"

inductive serve_reaches :: "'w serve_deps \<Rightarrow> 'w server \<Rightarrow> 'w server \<Rightarrow> bool" for d where
  start: "serve_reaches d s s"
| step: "serve_reaches d s t \<Longrightarrow> serve_reaches d s (serve_step d e t)"

section \<open>Confinement\<close>

text \<open>
  A property of the world that every tool keeps that the granted capabilities allow is kept by every step, as
  long as no tool changes the capabilities of the session.
\<close>

definition confined :: "'w serve_deps \<Rightarrow> mcp_capability list \<Rightarrow> ('w \<Rightarrow> bool) \<Rightarrow> 'w server \<Rightarrow> bool" where
  "confined d capabilities P s \<longleftrightarrow> cx_granted (sv_context s) = capabilities \<and> P (sv_world s)"

definition tools_keep :: "'w serve_deps \<Rightarrow> mcp_capability list \<Rightarrow> ('w \<Rightarrow> bool) \<Rightarrow> bool" where
  "tools_keep d capabilities P \<longleftrightarrow>
     (\<forall>tool args c m w. tool \<in> set getToolDefinitions \<and> td_capability tool \<in> set capabilities \<and> conforms args (td_inputSchema tool) \<and>
        cx_granted c = capabilities \<and> P w \<longrightarrow>
        (let after = snd (sd_build d (td_name tool) args (c, m, w)) in cx_granted (fst after) = capabilities \<and> P (snd (snd after))))"

lemma write_line_confined: "confined d caps P (snd (write_line l s)) = confined d caps P s"
  by (simp add: write_line_def confined_def split: option.split)

lemma confined_update [simp]:
  "confined d caps P (s\<lparr>sv_buffer := b\<rparr>) = confined d caps P s"
  "confined d caps P (s\<lparr>sv_paused := x\<rparr>) = confined d caps P s"
  "confined d caps P (s\<lparr>sv_queue := q\<rparr>) = confined d caps P s"
  "confined d caps P (s\<lparr>sv_hasSeenInput := x\<rparr>) = confined d caps P s"
  "confined d caps P (s\<lparr>sv_warnings := ws\<rparr>) = confined d caps P s"
  "confined d caps P (s\<lparr>sv_finished := x\<rparr>) = confined d caps P s"
  by (simp_all add: confined_def)

lemma on_message_confined:
  assumes "tools_keep d caps P" "confined d caps P s"
  shows "confined d caps P (snd (on_message d request s))"
proof (cases "sd_path d (sv_world s)")
  case None
  let ?w = "(sv_context s, sv_module s, sv_world s)"
  obtain r ws c m w where run: "handleMcpRequestDispatch (sd_nts d) (sd_version d) (Some (cx_granted (sv_context s))) (sd_build d) request ?w = (r, ws, c, m, w)"
    by (metis prod_cases5)
  have "cx_granted c = caps \<and> P w"
  proof (cases "(c, m, w) = ?w")
    case True
    then show ?thesis using assms(2) by (simp add: confined_def)
  next
    case False
    from dispatch_world [OF run False] obtain ident where
      "call_tool (sd_nts d) (Some (cx_granted (sv_context s))) (sd_build d) request (map_of request ''id'' = None) ident ?w = (r, ws, c, m, w)"
      by blast
    then obtain args where a: "admit_tool_call (sd_nts d) (Some (cx_granted (sv_context s))) request (map_of request ''id'' = None) ident
        (the_text (param request ''name'')) = Inr args" "(c, m, w) = snd (sd_build d (the_text (param request ''name'')) args ?w)"
      using False by (rule call_tool_world)
    from a(1) obtain tool where "tool \<in> set (getAllowedToolDefinitions (Some (cx_granted (sv_context s))))"
      "td_name tool = the_text (param request ''name'')" "conforms args (td_inputSchema tool)"
      unfolding admit_iff by (elim conjE bexE) (rule that; assumption)
    then have "tool \<in> set getToolDefinitions \<and> td_capability tool \<in> set caps \<and> conforms args (td_inputSchema tool) \<and>
        cx_granted (sv_context s) = caps \<and> P (sv_world s)" and name: "td_name tool = the_text (param request ''name'')"
      using assms(2) by (simp_all add: getAllowedToolDefinitions_def granted_def confined_def)
    with assms(1) have "let after = snd (sd_build d (td_name tool) args ?w) in cx_granted (fst after) = caps \<and> P (snd (snd after))"
      unfolding tools_keep_def by blast
    with a(2) [symmetric] name show ?thesis by (simp add: Let_def)
  qed
  then show ?thesis
    by (simp add: on_message_def None run Let_def write_line_confined split: option.split) (simp add: confined_def)
qed (use assms in \<open>simp add: on_message_def\<close>)

lemma process_confined:
  assumes "tools_keep d caps P"
  shows "confined d caps P s \<Longrightarrow> confined d caps P (snd (snd (processMcpBuffer (sd_codec d) (on_message d) (on_protocol_error d) b s)))"
proof (induction "length b" arbitrary: b s rule: less_induct)
  case less
  show ?case
  proof (cases "newline \<in> set b")
    case False
    with less.prems show ?thesis by (subst processMcpBuffer.simps) simp
  next
    case True
    let ?h = "handle_line (sd_codec d) (on_message d) (on_protocol_error d) (first_line b) s"
    have h: "confined d caps P (snd ?h)"
      using less.prems on_message_confined [OF assms less.prems]
      by (simp add: handle_line_def on_protocol_error_def write_line_confined split: frame.split)
    then show ?thesis
      using less.hyps [OF rest_shorter [OF True]] unfolding process_line [OF True]
      by (cases ?h; cases "fst ?h") simp_all
  qed
qed

lemma finish_confined: "confined d caps P s \<Longrightarrow> confined d caps P (finish s)"
  by (auto simp: finish_def confined_def closeMcpSessionContext_def abortMcpSessionContext_def split: prod.splits option.splits if_splits)

lemma step_confined:
  assumes "tools_keep d caps P" "confined d caps P s"
  shows "confined d caps P (serve_step d e s)"
proof -
  have chunk: "confined d caps P (run_chunk d c t)" if "confined d caps P t" for c t
  proof -
    have "confined d caps P (finish ((snd (write_line l (u\<lparr>sv_buffer := []\<rparr>)))\<lparr>sv_paused := True\<rparr>))" if "confined d caps P u" for l u
      using that by (intro finish_confined) (simp add: write_line_confined)
    with that process_confined [OF assms(1) that] show ?thesis
      by (auto simp: run_chunk_def split: sum.split prod.splits) (metis snd_conv)+
  qed
  show ?thesis
  proof (cases e)
    case EndEvent
    have "cx_granted (fst (abortMcpSessionContext c m)) = cx_granted c" for c m
      by (simp add: abortMcpSessionContext_def split: option.split)
    with assms(2) EndEvent show ?thesis 
      by (cases "abortMcpSessionContext (sv_context s) (sv_module s)") (auto simp: serve_step_def confined_def; metis fst_conv)
  next
    case RunTask
    then show ?thesis
      using assms(2) chunk by (simp add: serve_step_def finish_confined split: list.split serve_task.split)
  qed (use assms(2) in \<open>simp add: serve_step_def\<close>)
qed

text \<open>
  C9 (session_confined). Whatever a client sends and in whatever pieces: a property of the world that all tools
  keep whose capability the session was granted at its start holds in every state of the server. With the
  default capabilities, whatever the reading tools keep is kept.
\<close>
theorem session_confined:
  assumes "tools_keep d capabilities P" "P w" "serve_reaches d (serve_start capabilities w) s"
  shows "P (sv_world s) \<and> cx_granted (sv_context s) = capabilities"
proof -
  from assms(3) have "confined d capabilities P (serve_start capabilities w) \<Longrightarrow> confined d capabilities P s"
    by (induction rule: serve_reaches.induct) (simp_all add: step_confined [OF assms(1)])
  then show ?thesis
    using assms(2) by (auto simp: confined_def serve_start_def createMcpSessionContext_def split: prod.splits)
qed

definition example_server :: "nat serve_deps" where
  "example_server = \<lparr>sd_nts = (\<lambda>_. ''1''), sd_version = ''v'', sd_codec = example_codec, sd_isTTY = False, sd_path = (\<lambda>_. None),
     sd_build = (\<lambda>name args (c, m, n). (Inr [], c, m, Suc n))\<rparr>"

theorem session_confined_witness:
  "0 < sv_world (serve_step example_server RunTask (serve_step example_server (DataEvent ''x'') (serve_start [Read] 1))) \<and>
   tools_keep example_server [Read] (\<lambda>n. 0 < n)"
proof -
  have keep: "tools_keep example_server [Read] (\<lambda>n. 0 < n)" by (simp add: tools_keep_def example_server_def)
  from session_confined [OF keep, of 1, OF _ serve_reaches.step [OF serve_reaches.step [OF serve_reaches.start]]] keep
  show ?thesis by simp
qed

section \<open>The end\<close>

lemma write_line_queue [simp]: "sv_queue (snd (write_line l s)) = sv_queue s" "sv_finished (snd (write_line l s)) = sv_finished s"
  by (simp_all add: write_line_def split: option.split)

lemma on_message_queue [simp]:
  "sv_queue (snd (on_message d request s)) = sv_queue s" "sv_finished (snd (on_message d request s)) = sv_finished s"
  by (simp_all add: on_message_def Let_def split: option.split prod.split)

lemma process_queue:
  "sv_queue (snd (snd (processMcpBuffer co (on_message d) (on_protocol_error d) b s))) = sv_queue s \<and>
   sv_finished (snd (snd (processMcpBuffer co (on_message d) (on_protocol_error d) b s))) = sv_finished s"
proof (induction "length b" arbitrary: b s rule: less_induct)
  case less
  show ?case
  proof (cases "newline \<in> set b")
    case False
    then show ?thesis by (subst (1 2) processMcpBuffer.simps) simp
  next
    case True
    let ?h = "handle_line co (on_message d) (on_protocol_error d) (first_line b) s"
    have "sv_queue (snd ?h) = sv_queue s" "sv_finished (snd ?h) = sv_finished s"
      by (simp_all add: handle_line_def on_protocol_error_def split: frame.split)
    then show ?thesis
      using less.hyps [OF rest_shorter [OF True]] unfolding process_line [OF True]
      by (cases ?h; cases "fst ?h") simp_all
  qed
qed

lemma finish_queue [simp]: "sv_queue (finish s) = sv_queue s" "sv_finished (finish s)"
  by (simp_all add: finish_def split: prod.split)

lemma chunk_queue: "sv_queue (run_chunk d c s) = sv_queue s"
  using process_queue [of "sd_codec d" d _ s]
  by (auto simp: run_chunk_def split: sum.split prod.splits) (metis snd_conv)+

definition run_tasks :: "'w serve_deps \<Rightarrow> nat \<Rightarrow> 'w server \<Rightarrow> 'w server" where
  "run_tasks d n s = (serve_step d RunTask ^^ n) s"

lemma run_to_finish: "sv_queue s = q @ [FinishTask] \<Longrightarrow> sv_finished (run_tasks d (Suc (length q)) s)"
proof (induction q arbitrary: s)
  case Nil
  then show ?case by (simp add: run_tasks_def serve_step_def)
next
  case (Cons task q)
  have "sv_queue (serve_step d RunTask s) = q @ [FinishTask]"
    using Cons.prems by (simp add: serve_step_def chunk_queue split: serve_task.split)
  from Cons.IH [OF this] show ?case by (simp add: run_tasks_def funpow_swap1)
qed

text \<open>
  Property (serving_ends). Once input has been seen and has ended, the server has finished after the tasks that
  are queued at that time and one more, whatever they do and whether they fail or not.
\<close>
theorem serving_ends:
  assumes "sv_hasSeenInput s \<or> sd_isTTY d"
  shows "sv_finished (run_tasks d (Suc (length (sv_queue s))) (serve_step d EndEvent s))"
  using assms by (intro run_to_finish) (auto simp: serve_step_def split: prod.split)

theorem serving_ends_witness:
  "sv_finished (run_tasks example_server 2 (serve_step example_server EndEvent (serve_step example_server (DataEvent ''x'') (serve_start [Read] 0))))"
proof -
  let ?s = "serve_step example_server (DataEvent ''x'') (serve_start [Read] 0)"
  have "sv_hasSeenInput ?s" "length (sv_queue ?s) = 1" by (simp_all add: serve_step_def serve_start_def split: prod.split)
  with serving_ends [of ?s example_server] show ?thesis by (simp add: numeral_2_eq_2)
qed

text \<open>Without any input and a terminal, the end of the input changes nothing: the server stays.\<close>

lemma silent_end_ignored: "\<not> sv_hasSeenInput s \<Longrightarrow> \<not> sd_isTTY d \<Longrightarrow> serve_step d EndEvent s = s"
  by (simp add: serve_step_def)

text \<open>
  Property (input_after_finish). Input that is queued behind a piece that fails is still processed: the server has
  finished and closed its session when the tool runs.
\<close>
theorem input_after_finish:
  assumes "sv_queue s = [ChunkTask c, ChunkTask c']" "length (sv_buffer s) + length c > MAX_MCP_PARSER_BUFFER_BYTES"
    and "length c' \<le> MAX_MCP_PARSER_BUFFER_BYTES"
  shows "let t = serve_step d RunTask s in sv_finished t \<and> sv_queue t = [ChunkTask c'] \<and>
    sv_world (serve_step d RunTask t) =
      sv_world (snd (snd (processMcpBuffer (sd_codec d) (on_message d) (on_protocol_error d) c' (t\<lparr>sv_queue := []\<rparr>))))"
proof -
  have keeps: "sv_world (finish u) = sv_world u" "sv_buffer (finish u) = sv_buffer u"
    "sv_world (snd (write_line l u)) = sv_world u" "sv_buffer (snd (write_line l u)) = sv_buffer u" for u l
    by (simp_all add: finish_def write_line_def split: prod.split option.split)
  let ?t = "serve_step d RunTask s"
  have t: "sv_finished ?t" "sv_queue ?t = [ChunkTask c']" "sv_buffer ?t = []"
    using assms by (simp_all add: serve_step_def run_chunk_def appendMcpParserChunk_def keeps)
  then show ?thesis
    using assms(3) by (simp add: serve_step_def run_chunk_def appendMcpParserChunk_def keeps split: prod.split sum.split)
qed

end
