(* ===== verification/Input_Contracts.thy ===== *)
theory Input_Contracts
  imports Config_Mutation
begin

text \<open>
  The contracts that the input of a command or a tool for a model, a provider or a route must meet before
  the configuration is changed: \<^verbatim>\<open>config/model-input-contract.ts\<close>, \<^verbatim>\<open>provider-input-contract.ts\<close>,
  \<^verbatim>\<open>provider-auth-input-contract.ts\<close>, \<^verbatim>\<open>route-input-contract.ts\<close> and the field lists of
  \<^verbatim>\<open>entity-input-shapes.ts\<close>. A contract is made from functions of its client, the record
  \<open>contract_deps\<close>; what these must promise is the locale \<open>input_contract\<close>.

  An input field is \<^typ>\<open>json option\<close> with \<open>None\<close> for \<open>undefined\<close>; a result that may be \<open>null\<close> or
  \<open>undefined\<close> is an option of an option, \<open>None\<close> for \<open>undefined\<close> and \<open>Some None\<close> for \<open>null\<close>.

  Main results: a model or a route that the contract accepts is accepted by the validation of the store, and
  with the values of the input; an accepted update changes something; without authentication no key is left.
\<close>

section \<open>Field lists\<close>

definition MODEL_MCP_SHOW :: "string list" where "MODEL_MCP_SHOW = [''model_id'']"

definition MODEL_MCP_CREATE :: "string list" where
  "MODEL_MCP_CREATE = [''model_id'', ''display_name'', ''model_creator'', ''cost'']"

definition MODEL_MCP_UPDATE :: "string list" where
  "MODEL_MCP_UPDATE = [''model_id'', ''display_name'', ''model_creator'', ''cost'']"

definition MODEL_MCP_DELETE :: "string list" where "MODEL_MCP_DELETE = [''model_id'']"

definition PROVIDER_MCP_SHOW :: "string list" where "PROVIDER_MCP_SHOW = [''provider_id'']"

definition PROVIDER_MCP_CREATE :: "string list" where
  "PROVIDER_MCP_CREATE = [''provider_id'', ''endpoint'', ''allow_private_endpoints'', ''allow_insecure_http'', ''api_mode'',
     ''anthropic_version'', ''model_id_format'', ''no_auth'']"

definition PROVIDER_MCP_UPDATE :: "string list" where
  "PROVIDER_MCP_UPDATE = [''provider_id'', ''endpoint'', ''allow_private_endpoints'', ''allow_insecure_http'', ''api_mode'',
     ''anthropic_version'', ''model_id_format'', ''api_key_env'', ''no_auth'']"

definition PROVIDER_MCP_DELETE :: "string list" where "PROVIDER_MCP_DELETE = [''provider_id'']"

definition PROVIDER_MCP_SET_KEY :: "string list" where "PROVIDER_MCP_SET_KEY = [''provider_id'', ''api_key'']"

definition PROVIDER_MCP_CLEAR_KEY :: "string list" where "PROVIDER_MCP_CLEAR_KEY = [''provider_id'']"

definition PROVIDER_MCP_SET_KEY_ENV :: "string list" where "PROVIDER_MCP_SET_KEY_ENV = [''provider_id'', ''api_key_env'']"

definition ROUTE_MCP_SHOW :: "string list" where "ROUTE_MCP_SHOW = [''route_id'']"

definition ROUTE_MCP_EXPLAIN :: "string list" where "ROUTE_MCP_EXPLAIN = [''route_id'']"

definition ROUTE_MCP_CREATE :: "string list" where
  "ROUTE_MCP_CREATE = [''route_id'', ''model'', ''service_provider'', ''provider_model_id'', ''display_name'', ''timeout_ms'', ''cost'']"

definition ROUTE_MCP_UPDATE :: "string list" where
  "ROUTE_MCP_UPDATE = [''route_id'', ''model'', ''service_provider'', ''provider_model_id'', ''display_name'', ''timeout_ms'', ''cost'']"

definition ROUTE_MCP_DELETE :: "string list" where "ROUTE_MCP_DELETE = [''route_id'']"

section \<open>The functions of the client\<close>

record 'e contract_deps =
  cd_assertSafeIdentifier :: "string \<Rightarrow> string \<Rightarrow> 'e + unit"
  cd_normalizeCost :: "json option \<Rightarrow> bool \<Rightarrow> string \<Rightarrow> 'e + cost_config option option"
  cd_normalizeApiMode :: "json option \<Rightarrow> api_mode option"
  cd_normalizeModelIdFormat :: "json option \<Rightarrow> model_id_format option"
  cd_missingRequiredField :: "string \<Rightarrow> 'e"
  cd_invalidInputField :: "string \<Rightarrow> 'e"
  cd_invalidFlagValue :: "string \<Rightarrow> 'e"
  cd_conflictingInputModes :: "string \<Rightarrow> 'e"
  cd_missingUpdateFields :: "string \<Rightarrow> 'e"
  cd_rejectMaskedSecretSentinel :: "string \<Rightarrow> string \<Rightarrow> 'e + unit"

text \<open>The readers that the four contracts define alike.\<close>

definition readRequiredString :: "'e contract_deps \<Rightarrow> json option \<Rightarrow> string \<Rightarrow> string \<Rightarrow> 'e + string" where
  "readRequiredString d v missingMessage invalidMessage =
     (if v = None then Inl (cd_missingRequiredField d missingMessage)
      else if \<not> isNonEmptyString v then Inl (cd_invalidInputField d invalidMessage)
      else Inr (the_text v))"

definition readOptionalString :: "'e contract_deps \<Rightarrow> json option \<Rightarrow> string \<Rightarrow> 'e + string option" where
  "readOptionalString d v invalidMessage =
     (if v = None then Inr None
      else if \<not> isNonEmptyString v then Inl (cd_invalidInputField d invalidMessage)
      else Inr (Some (the_text v)))"

definition readOptionalNullableString :: "'e contract_deps \<Rightarrow> json option \<Rightarrow> string \<Rightarrow> 'e + string option option" where
  "readOptionalNullableString d v invalidMessage =
     (if v = None then Inr None
      else if v = Some JNull then Inr (Some None)
      else if \<not> isNonEmptyString v then Inl (cd_invalidInputField d invalidMessage)
      else Inr (Some (Some (the_text v))))"

definition readOptionalBoolean :: "'e contract_deps \<Rightarrow> json option \<Rightarrow> string \<Rightarrow> 'e + bool option" where
  "readOptionalBoolean d v invalidMessage =
     (case v of None \<Rightarrow> Inr None | Some (JBool b) \<Rightarrow> Inr (Some b) | _ \<Rightarrow> Inl (cd_invalidInputField d invalidMessage))"

definition readOptionalTimeout :: "'e contract_deps \<Rightarrow> json option \<Rightarrow> string \<Rightarrow> bool \<Rightarrow> 'e + rat option option" where
  "readOptionalTimeout d v invalidMessage allowNull =
     (if v = None then Inr None
      else if v = Some JNull then Inr (if allowNull then Some None else None)
      else if \<not> isPositiveInteger v then Inl (cd_invalidInputField d invalidMessage)
      else Inr (Some (Some (the_number v))))"

section \<open>Models\<close>

record model_create_options =
  mco_name :: "json option"
  mco_displayName :: "json option"
  mco_modelCreator :: "json option"
  mco_cost :: "json option"
  mco_missingNameMessage :: string
  mco_missingDisplayNameMessage :: string
  mco_missingModelCreatorMessage :: string
  mco_invalidNameMessage :: string
  mco_invalidDisplayNameMessage :: string
  mco_invalidModelCreatorMessage :: string
  mco_identifierLabel :: string
  mco_costFieldName :: string

record model_create_input =
  mci_name :: string
  mci_display_name :: string
  mci_model_creator :: string
  mci_cost :: "cost_config option"

definition present :: "'a option option \<Rightarrow> 'a option" where
  "present v = (case v of Some (Some x) \<Rightarrow> Some x | _ \<Rightarrow> None)"

definition validateModelCreateInput :: "'e contract_deps \<Rightarrow> model_create_options \<Rightarrow> 'e + model_create_input" where
  "validateModelCreateInput d o1 =
     rbind (readRequiredString d (mco_name o1) (mco_missingNameMessage o1) (mco_invalidNameMessage o1)) (\<lambda>name.
     rbind (cd_assertSafeIdentifier d name (mco_identifierLabel o1)) (\<lambda>_.
     rbind (readRequiredString d (mco_displayName o1) (mco_missingDisplayNameMessage o1) (mco_invalidDisplayNameMessage o1)) (\<lambda>displayName.
     rbind (readRequiredString d (mco_modelCreator o1) (mco_missingModelCreatorMessage o1) (mco_invalidModelCreatorMessage o1)) (\<lambda>modelCreator.
     rbind (cd_normalizeCost d (mco_cost o1) False (mco_costFieldName o1)) (\<lambda>cost.
     Inr \<lparr>mci_name = name, mci_display_name = displayName, mci_model_creator = modelCreator, mci_cost = present cost\<rparr>)))))"

record model_update_options =
  muo_name :: "json option"
  muo_displayName :: "json option"
  muo_modelCreator :: "json option"
  muo_cost :: "json option"
  muo_missingNameMessage :: string
  muo_invalidDisplayNameMessage :: string
  muo_invalidModelCreatorMessage :: string
  muo_identifierLabel :: string
  muo_costFieldName :: string
  muo_missingUpdateFieldsMessage :: string

record model_update_input =
  mui_name :: string
  mui_display_name :: "string option"
  mui_model_creator :: "string option"
  mui_cost :: "cost_config option option"

definition validateModelUpdateInput :: "'e contract_deps \<Rightarrow> model_update_options \<Rightarrow> 'e + model_update_input" where
  "validateModelUpdateInput d o1 =
     rbind (readRequiredString d (muo_name o1) (muo_missingNameMessage o1) (muo_missingNameMessage o1)) (\<lambda>name.
     rbind (cd_assertSafeIdentifier d name (muo_identifierLabel o1)) (\<lambda>_.
     rbind (readOptionalString d (muo_displayName o1) (muo_invalidDisplayNameMessage o1)) (\<lambda>displayName.
     rbind (readOptionalString d (muo_modelCreator o1) (muo_invalidModelCreatorMessage o1)) (\<lambda>modelCreator.
     rbind (cd_normalizeCost d (muo_cost o1) True (muo_costFieldName o1)) (\<lambda>cost.
     if displayName = None \<and> modelCreator = None \<and> cost = None
     then Inl (cd_missingUpdateFields d (muo_missingUpdateFieldsMessage o1))
     else Inr \<lparr>mui_name = name, mui_display_name = displayName, mui_model_creator = modelCreator, mui_cost = cost\<rparr>)))))"

section \<open>Providers\<close>

record provider_create_options =
  pco_name :: "json option"
  pco_endpoint :: "json option"
  pco_allowPrivateEndpoints :: "json option"
  pco_allowInsecureHttp :: "json option"
  pco_apiMode :: "json option"
  pco_apiKey :: "json option"
  pco_apiKeyEnv :: "json option"
  pco_noAuth :: bool
  pco_anthropicVersion :: "json option"
  pco_modelIdFormat :: "json option"
  pco_missingNameMessage :: string
  pco_invalidNameMessage :: string
  pco_missingEndpointMessage :: string
  pco_invalidEndpointMessage :: string
  pco_identifierLabel :: string
  pco_invalidApiModeMessage :: string              \<comment> \<open>with the label of the field in place of \<open>%FIELD%\<close>\<close>
  pco_invalidAllowPrivateEndpointsMessage :: string
  pco_invalidAllowInsecureHttpMessage :: string
  pco_invalidApiKeyMessage :: string
  pco_invalidApiKeyEnvMessage :: string
  pco_invalidAnthropicVersionMessage :: string
  pco_invalidModelIdFormatMessage :: string
  pco_conflictingAuthMessage :: string
  pco_missingAuthMessage :: string

record provider_create_input =
  pci_name :: string
  pci_endpoint :: string
  pci_allow_private_endpoints :: "bool option"
  pci_allow_insecure_http :: "bool option"
  pci_api_mode :: api_mode
  pci_api_key :: "string option option"
  pci_api_key_env :: "string option option"
  pci_anthropic_version :: "string option option"
  pci_model_id_format :: "model_id_format option"

definition readApiMode :: "'e contract_deps \<Rightarrow> json option \<Rightarrow> string \<Rightarrow> 'e + api_mode" where
  "readApiMode d v errorMessage =
     (case cd_normalizeApiMode d v of None \<Rightarrow> Inl (cd_invalidFlagValue d errorMessage) | Some m \<Rightarrow> Inr m)"

definition readOptionalApiMode :: "'e contract_deps \<Rightarrow> json option \<Rightarrow> string \<Rightarrow> 'e + api_mode option" where
  "readOptionalApiMode d v errorMessage =
     (if v = None then Inr None else rbind (readApiMode d v errorMessage) (\<lambda>m. Inr (Some m)))"

definition readOptionalModelIdFormat :: "'e contract_deps \<Rightarrow> json option \<Rightarrow> string \<Rightarrow> 'e + model_id_format option" where
  "readOptionalModelIdFormat d v errorMessage =
     (if v = None then Inr None
      else (case cd_normalizeModelIdFormat d v of None \<Rightarrow> Inl (cd_invalidFlagValue d errorMessage) | Some f \<Rightarrow> Inr (Some f)))"

definition validateProviderCreateInput :: "'e contract_deps \<Rightarrow> provider_create_options \<Rightarrow> 'e + provider_create_input" where
  "validateProviderCreateInput d o1 =
     rbind (readRequiredString d (pco_name o1) (pco_missingNameMessage o1) (pco_invalidNameMessage o1)) (\<lambda>name.
     rbind (cd_assertSafeIdentifier d name (pco_identifierLabel o1)) (\<lambda>_.
     rbind (readRequiredString d (pco_endpoint o1) (pco_missingEndpointMessage o1) (pco_invalidEndpointMessage o1)) (\<lambda>endpoint.
     rbind (readApiMode d (pco_apiMode o1) (pco_invalidApiModeMessage o1)) (\<lambda>apiMode.
     rbind (readOptionalBoolean d (pco_allowPrivateEndpoints o1) (pco_invalidAllowPrivateEndpointsMessage o1)) (\<lambda>allowPrivateEndpoints.
     rbind (readOptionalBoolean d (pco_allowInsecureHttp o1) (pco_invalidAllowInsecureHttpMessage o1)) (\<lambda>allowInsecureHttp.
     rbind (readOptionalNullableString d (pco_apiKey o1) (pco_invalidApiKeyMessage o1)) (\<lambda>apiKey.
     rbind (readOptionalNullableString d (pco_apiKeyEnv o1) (pco_invalidApiKeyEnvMessage o1)) (\<lambda>apiKeyEnv.
     rbind (readOptionalNullableString d (pco_anthropicVersion o1) (pco_invalidAnthropicVersionMessage o1)) (\<lambda>anthropicVersion.
     rbind (readOptionalModelIdFormat d (pco_modelIdFormat o1) (pco_invalidModelIdFormatMessage o1)) (\<lambda>modelIdFormat.
     if pco_noAuth o1 \<and> (apiKey \<noteq> None \<or> apiKeyEnv \<noteq> None)
     then Inl (cd_conflictingInputModes d (pco_conflictingAuthMessage o1))
     else let normalizedApiKeyEnv = (if pco_noAuth o1 then Some None else apiKeyEnv)
          in if \<not> pco_noAuth o1 \<and> apiKey = None \<and> normalizedApiKeyEnv = None
             then Inl (cd_missingRequiredField d (pco_missingAuthMessage o1))
             else Inr \<lparr>pci_name = name, pci_endpoint = endpoint, pci_allow_private_endpoints = allowPrivateEndpoints,
                       pci_allow_insecure_http = allowInsecureHttp, pci_api_mode = apiMode, pci_api_key = apiKey,
                       pci_api_key_env = normalizedApiKeyEnv, pci_anthropic_version = anthropicVersion,
                       pci_model_id_format = modelIdFormat\<rparr>))))))))))"

record provider_update_options =
  puo_name :: "json option"
  puo_endpoint :: "json option"
  puo_allowPrivateEndpoints :: "json option"
  puo_allowInsecureHttp :: "json option"
  puo_apiMode :: "json option"
  puo_apiKeyEnv :: "json option"
  puo_noAuth :: bool
  puo_anthropicVersion :: "json option"
  puo_modelIdFormat :: "json option"
  puo_missingNameMessage :: string
  puo_identifierLabel :: string
  puo_invalidEndpointMessage :: string
  puo_invalidAllowPrivateEndpointsMessage :: string
  puo_invalidAllowInsecureHttpMessage :: string
  puo_invalidApiModeMessage :: string
  puo_invalidApiKeyEnvMessage :: string
  puo_invalidAnthropicVersionMessage :: string
  puo_invalidModelIdFormatMessage :: string
  puo_conflictingAuthMessage :: string
  puo_missingUpdateFieldsMessage :: string

record provider_update_input =
  pui_name :: string
  pui_endpoint :: "string option"
  pui_allow_private_endpoints :: "bool option"
  pui_allow_insecure_http :: "bool option"
  pui_api_mode :: "api_mode option"
  pui_api_key_env :: "string option option"
  pui_anthropic_version :: "string option option"
  pui_model_id_format :: "model_id_format option"

definition validateProviderUpdateInput :: "'e contract_deps \<Rightarrow> provider_update_options \<Rightarrow> 'e + provider_update_input" where
  "validateProviderUpdateInput d o1 =
     rbind (readRequiredString d (puo_name o1) (puo_missingNameMessage o1) (puo_missingNameMessage o1)) (\<lambda>name.
     rbind (cd_assertSafeIdentifier d name (puo_identifierLabel o1)) (\<lambda>_.
     rbind (readOptionalString d (puo_endpoint o1) (puo_invalidEndpointMessage o1)) (\<lambda>endpoint.
     rbind (readOptionalBoolean d (puo_allowPrivateEndpoints o1) (puo_invalidAllowPrivateEndpointsMessage o1)) (\<lambda>allowPrivateEndpoints.
     rbind (readOptionalBoolean d (puo_allowInsecureHttp o1) (puo_invalidAllowInsecureHttpMessage o1)) (\<lambda>allowInsecureHttp.
     rbind (readOptionalApiMode d (puo_apiMode o1) (puo_invalidApiModeMessage o1)) (\<lambda>apiMode.
     rbind (readOptionalNullableString d (puo_apiKeyEnv o1) (puo_invalidApiKeyEnvMessage o1)) (\<lambda>apiKeyEnv.
     rbind (readOptionalNullableString d (puo_anthropicVersion o1) (puo_invalidAnthropicVersionMessage o1)) (\<lambda>anthropicVersion.
     rbind (readOptionalModelIdFormat d (puo_modelIdFormat o1) (puo_invalidModelIdFormatMessage o1)) (\<lambda>modelIdFormat.
     if puo_noAuth o1 \<and> apiKeyEnv \<noteq> None then Inl (cd_conflictingInputModes d (puo_conflictingAuthMessage o1))
     else let normalizedApiKeyEnv = (if puo_noAuth o1 then Some None else apiKeyEnv)
          in if endpoint = None \<and> allowPrivateEndpoints = None \<and> allowInsecureHttp = None \<and> apiMode = None \<and>
                normalizedApiKeyEnv = None \<and> anthropicVersion = None \<and> modelIdFormat = None
             then Inl (cd_missingUpdateFields d (puo_missingUpdateFieldsMessage o1))
             else Inr \<lparr>pui_name = name, pui_endpoint = endpoint, pui_allow_private_endpoints = allowPrivateEndpoints,
                       pui_allow_insecure_http = allowInsecureHttp, pui_api_mode = apiMode, pui_api_key_env = normalizedApiKeyEnv,
                       pui_anthropic_version = anthropicVersion, pui_model_id_format = modelIdFormat\<rparr>)))))))))"

section \<open>Keys of providers\<close>

record provider_auth_options =
  pao_providerId :: "json option"
  pao_missingProviderIdMessage :: string
  pao_invalidProviderIdMessage :: string
  pao_identifierLabel :: string

definition validateProviderClearKeyInput :: "'e contract_deps \<Rightarrow> provider_auth_options \<Rightarrow> 'e + string" where
  "validateProviderClearKeyInput d o1 =
     rbind (readRequiredString d (pao_providerId o1) (pao_missingProviderIdMessage o1) (pao_invalidProviderIdMessage o1)) (\<lambda>providerId.
     rbind (cd_assertSafeIdentifier d providerId (pao_identifierLabel o1)) (\<lambda>_.
     Inr providerId))"

text \<open>The options of the key itself: its value, the two messages and the label of the field.\<close>

definition validateProviderSetKeyInput ::
  "'e contract_deps \<Rightarrow> provider_auth_options \<Rightarrow> json option \<Rightarrow> string \<Rightarrow> string \<Rightarrow> string \<Rightarrow> 'e + string \<times> string" where
  "validateProviderSetKeyInput d o1 apiKeyValue missingApiKeyMessage invalidApiKeyMessage apiKeyFieldLabel =
     rbind (validateProviderClearKeyInput d o1) (\<lambda>providerId.
     rbind (readRequiredString d apiKeyValue missingApiKeyMessage invalidApiKeyMessage) (\<lambda>apiKey.
     rbind (cd_rejectMaskedSecretSentinel d apiKey apiKeyFieldLabel) (\<lambda>_.
     Inr (providerId, apiKey))))"

definition validateProviderSetKeyEnvInput ::
  "'e contract_deps \<Rightarrow> provider_auth_options \<Rightarrow> json option \<Rightarrow> string \<Rightarrow> string \<Rightarrow> 'e + string \<times> string" where
  "validateProviderSetKeyEnvInput d o1 apiKeyEnvValue missingApiKeyEnvMessage invalidApiKeyEnvMessage =
     rbind (validateProviderClearKeyInput d o1) (\<lambda>providerId.
     rbind (readRequiredString d apiKeyEnvValue missingApiKeyEnvMessage invalidApiKeyEnvMessage) (\<lambda>apiKeyEnv.
     Inr (providerId, apiKeyEnv)))"

section \<open>Routes\<close>

record route_create_options =
  rco_name :: "json option"
  rco_model :: "json option"
  rco_serviceProvider :: "json option"
  rco_providerModelId :: "json option"
  rco_displayName :: "json option"
  rco_timeoutMs :: "json option"
  rco_cost :: "json option"
  rco_missingNameMessage :: string
  rco_invalidNameMessage :: string
  rco_missingModelMessage :: string
  rco_invalidModelMessage :: string
  rco_missingServiceProviderMessage :: string
  rco_invalidServiceProviderMessage :: string
  rco_missingProviderModelIdMessage :: string
  rco_invalidProviderModelIdMessage :: string
  rco_missingDisplayNameMessage :: string
  rco_invalidDisplayNameMessage :: string
  rco_invalidTimeoutMessage :: string
  rco_identifierLabel :: string
  rco_costFieldName :: string

record route_create_input =
  rci_name :: string
  rci_model :: string
  rci_service_provider :: string
  rci_provider_model_id :: string
  rci_display_name :: string
  rci_timeout_ms :: "rat option"
  rci_cost :: "cost_config option"

definition validateRouteCreateInput :: "'e contract_deps \<Rightarrow> route_create_options \<Rightarrow> 'e + route_create_input" where
  "validateRouteCreateInput d o1 =
     rbind (readRequiredString d (rco_name o1) (rco_missingNameMessage o1) (rco_invalidNameMessage o1)) (\<lambda>name.
     rbind (cd_assertSafeIdentifier d name (rco_identifierLabel o1)) (\<lambda>_.
     rbind (readRequiredString d (rco_model o1) (rco_missingModelMessage o1) (rco_invalidModelMessage o1)) (\<lambda>model.
     rbind (readRequiredString d (rco_serviceProvider o1) (rco_missingServiceProviderMessage o1) (rco_invalidServiceProviderMessage o1)) (\<lambda>serviceProvider.
     rbind (readRequiredString d (rco_providerModelId o1) (rco_missingProviderModelIdMessage o1) (rco_invalidProviderModelIdMessage o1)) (\<lambda>providerModelId.
     rbind (readRequiredString d (rco_displayName o1) (rco_missingDisplayNameMessage o1) (rco_invalidDisplayNameMessage o1)) (\<lambda>displayName.
     rbind (readOptionalTimeout d (rco_timeoutMs o1) (rco_invalidTimeoutMessage o1) False) (\<lambda>timeoutMs.
     rbind (cd_normalizeCost d (rco_cost o1) False (rco_costFieldName o1)) (\<lambda>cost.
     Inr \<lparr>rci_name = name, rci_model = model, rci_service_provider = serviceProvider, rci_provider_model_id = providerModelId,
          rci_display_name = displayName, rci_timeout_ms = present timeoutMs, rci_cost = present cost\<rparr>))))))))"

record route_update_options =
  ruo_name :: "json option"
  ruo_model :: "json option"
  ruo_serviceProvider :: "json option"
  ruo_providerModelId :: "json option"
  ruo_displayName :: "json option"
  ruo_timeoutMs :: "json option"
  ruo_cost :: "json option"
  ruo_missingNameMessage :: string
  ruo_invalidModelMessage :: string
  ruo_invalidServiceProviderMessage :: string
  ruo_invalidProviderModelIdMessage :: string
  ruo_invalidDisplayNameMessage :: string
  ruo_invalidTimeoutMessage :: string
  ruo_identifierLabel :: string
  ruo_costFieldName :: string
  ruo_missingUpdateFieldsMessage :: string

record route_update_input =
  rui_name :: string
  rui_model :: "string option"
  rui_service_provider :: "string option"
  rui_provider_model_id :: "string option"
  rui_display_name :: "string option"
  rui_timeout_ms :: "rat option option"
  rui_cost :: "cost_config option option"

definition validateRouteUpdateInput :: "'e contract_deps \<Rightarrow> route_update_options \<Rightarrow> 'e + route_update_input" where
  "validateRouteUpdateInput d o1 =
     rbind (readRequiredString d (ruo_name o1) (ruo_missingNameMessage o1) (ruo_missingNameMessage o1)) (\<lambda>name.
     rbind (cd_assertSafeIdentifier d name (ruo_identifierLabel o1)) (\<lambda>_.
     rbind (readOptionalString d (ruo_model o1) (ruo_invalidModelMessage o1)) (\<lambda>model.
     rbind (readOptionalString d (ruo_serviceProvider o1) (ruo_invalidServiceProviderMessage o1)) (\<lambda>serviceProvider.
     rbind (readOptionalString d (ruo_providerModelId o1) (ruo_invalidProviderModelIdMessage o1)) (\<lambda>providerModelId.
     rbind (readOptionalString d (ruo_displayName o1) (ruo_invalidDisplayNameMessage o1)) (\<lambda>displayName.
     rbind (readOptionalTimeout d (ruo_timeoutMs o1) (ruo_invalidTimeoutMessage o1) True) (\<lambda>timeoutMs.
     rbind (cd_normalizeCost d (ruo_cost o1) True (ruo_costFieldName o1)) (\<lambda>cost.
     if model = None \<and> serviceProvider = None \<and> providerModelId = None \<and> displayName = None \<and> timeoutMs = None \<and> cost = None
     then Inl (cd_missingUpdateFields d (ruo_missingUpdateFieldsMessage o1))
     else Inr \<lparr>rui_name = name, rui_model = model, rui_service_provider = serviceProvider, rui_provider_model_id = providerModelId,
               rui_display_name = displayName, rui_timeout_ms = timeoutMs, rui_cost = cost\<rparr>))))))))"

section \<open>What the clients hand on\<close>

text \<open>The entities that are created from an accepted input, the changes of an accepted update.\<close>

definition optional_field :: "string \<Rightarrow> ('a \<Rightarrow> json) \<Rightarrow> 'a option \<Rightarrow> (string \<times> json) list" where
  "optional_field k f v = (case v of None \<Rightarrow> [] | Some x \<Rightarrow> [(k, f x)])"

definition nullable :: "('a \<Rightarrow> json) \<Rightarrow> 'a option \<Rightarrow> json" where
  "nullable f v = (case v of None \<Rightarrow> JNull | Some x \<Rightarrow> f x)"

definition model_create_fields :: "model_create_input \<Rightarrow> (string \<times> json) list" where
  "model_create_fields i =
     [(''display_name'', JStr (mci_display_name i)), (''model_creator'', JStr (mci_model_creator i))] @
     optional_field ''cost'' pickCostFields (mci_cost i)"

definition route_create_fields :: "route_create_input \<Rightarrow> (string \<times> json) list" where
  "route_create_fields i =
     [(''model'', JStr (rci_model i)), (''service_provider'', JStr (rci_service_provider i)),
      (''provider_model_id'', JStr (rci_provider_model_id i)), (''display_name'', JStr (rci_display_name i))] @
     optional_field ''timeout_ms'' JNum (rci_timeout_ms i) @ optional_field ''cost'' pickCostFields (rci_cost i)"

definition route_update_fields :: "route_update_input \<Rightarrow> (string \<times> json) list" where
  "route_update_fields i =
     optional_field ''model'' JStr (rui_model i) @ optional_field ''service_provider'' JStr (rui_service_provider i) @
     optional_field ''provider_model_id'' JStr (rui_provider_model_id i) @ optional_field ''display_name'' JStr (rui_display_name i) @
     optional_field ''timeout_ms'' (nullable JNum) (rui_timeout_ms i) @ optional_field ''cost'' (nullable pickCostFields) (rui_cost i)"

section \<open>Accepted input\<close>

lemma readRequiredString_Inr: "readRequiredString d v m n = Inr s \<longleftrightarrow> v = Some (JStr s) \<and> non_blank s"
  by (cases v; cases "the v") (auto simp: readRequiredString_def isNonEmptyString_def)

lemma readOptionalString_Inr: "readOptionalString d v m = Inr r \<longleftrightarrow> v = map_option JStr r \<and> (\<forall>s. r = Some s \<longrightarrow> non_blank s)"
  by (cases v; cases "the v"; cases r) (auto simp: readOptionalString_def isNonEmptyString_def)

lemma readOptionalNullableString_Inr:
  "readOptionalNullableString d v m = Inr r \<longleftrightarrow> v = map_option (nullable JStr) r \<and> (\<forall>s. r = Some (Some s) \<longrightarrow> non_blank s)"
  by (cases v; cases "the v"; cases r; cases "the r")
    (auto simp: readOptionalNullableString_def isNonEmptyString_def nullable_def)

lemma readOptionalTimeout_Inr:
  "readOptionalTimeout d v m a = Inr r \<longleftrightarrow>
     v = None \<and> r = None \<or> v = Some JNull \<and> r = (if a then Some None else None) \<or> (\<exists>n. v = Some (JNum n) \<and> n \<in> \<int> \<and> n > 0 \<and> r = Some (Some n))"
  by (cases v; cases "the v") (auto simp: readOptionalTimeout_def)

lemmas readers_Inr = readRequiredString_Inr readOptionalString_Inr readOptionalNullableString_Inr readOptionalTimeout_Inr

lemma picked_cost:
  assumes "validateCostConfig v l = Inr k"
  shows "validateCostConfig (Some (pickCostFields k)) l' = Inr k"
proof -
  have "co_input k \<ge> 0" "co_output k \<ge> 0" "co_cacheRead k \<ge> 0" "co_cacheWrite k \<ge> 0"
    using assms by (auto simp: validateCostConfig_def rbind_Inr_iff cost_field_def require_def elim!: isNonNegativeNumber.elims
        split: option.splits json.splits)
  then show ?thesis
    by (simp add: validateCostConfig_def pickCostFields_def assertOnlyKnownKeys_def record_fields_def cost_field_def require_def)
qed

text \<open>
  What a client must promise: reserved names are refused, a cost is validated as in the configuration, and
  only an update may take \<open>null\<close> for it.
\<close>

locale input_contract =
  fixes d :: "'e contract_deps"
  assumes safe_identifier: "cd_assertSafeIdentifier d v l = Inr () \<longleftrightarrow> \<not> isReservedObjectKey v"
    and no_cost: "cd_normalizeCost d None a n = Inr c \<Longrightarrow> c = None"
    and null_cost: "cd_normalizeCost d (Some JNull) a n = Inr c \<Longrightarrow> c = (if a then Some None else None)"
    and some_cost: "x \<noteq> JNull \<Longrightarrow> cd_normalizeCost d (Some x) a n = Inr c \<Longrightarrow> \<exists>k label. c = Some (Some k) \<and> validateCostConfig (Some x) label = Inr k"
begin

lemma safe_unit: "cd_assertSafeIdentifier d v l = Inr u \<longleftrightarrow> \<not> isReservedObjectKey v"
  using safe_identifier [of v l] by (cases u) simp

lemma created_cost:
  assumes "cd_normalizeCost d v False n = Inr c"
  shows "present c = None \<or> (\<exists>k l. present c = Some k \<and> validateCostConfig v l = Inr k)"
proof (cases v)
  case None
  with assms have "c = None" by (intro no_cost) simp
  then show ?thesis by (simp add: present_def)
next
  case (Some x)
  with assms null_cost [of False n c] some_cost [of x False n c] show ?thesis by (cases "x = JNull") (auto simp: present_def)
qed

lemma model_created:
  assumes "validateModelCreateInput d o1 = Inr i"
  shows "\<not> isReservedObjectKey (mci_name i) \<and> mco_name o1 = Some (JStr (mci_name i)) \<and>
    validateMutableModelEntity n (JObj (model_create_fields i)) =
      Inr (JObj [(''model_creator'', JStr (mci_model_creator i)), (''display_name'', JStr (mci_display_name i)),
                 (''cost'', nullable pickCostFields (mci_cost i))])"
proof -
  from assms obtain c where c: "cd_normalizeCost d (mco_cost o1) False (mco_costFieldName o1) = Inr c" "mci_cost i = present c"
    and texts: "non_blank (mci_display_name i)" "non_blank (mci_model_creator i)"
    and name: "\<not> isReservedObjectKey (mci_name i)" "mco_name o1 = Some (JStr (mci_name i))"
    by (auto simp: validateModelCreateInput_def rbind_Inr_iff readers_Inr safe_unit)
  have cost: "optional_cost (JObj (model_create_fields i)) owner = Inr (mci_cost i)" for owner
    using created_cost [OF c(1)] c(2)
    by (auto simp: optional_cost_def model_create_fields_def optional_field_def rbind_Inr_iff picked_cost split: option.splits)
  have fields: "jprop (JObj (model_create_fields i)) ''display_name'' = Some (JStr (mci_display_name i))"
    "jprop (JObj (model_create_fields i)) ''model_creator'' = Some (JStr (mci_model_creator i))"
    by (simp_all add: model_create_fields_def)
  have "assertOnlyKnownKeys (JObj (model_create_fields i)) [''model_creator'', ''display_name'', ''cost''] owner = Inr ()" for owner
    by (simp add: assertOnlyKnownKeys_def record_fields_def model_create_fields_def optional_field_def split: option.split)
  with cost texts fields name show ?thesis
    by (simp add: validateMutableModelEntity_def validateModelConfig_def text_field_def require_def isNonEmptyString_def nullable_def Let_def)
qed

lemma route_created:
  assumes "validateRouteCreateInput d o1 = Inr i"
  shows "\<not> isReservedObjectKey (rci_name i) \<and> rco_name o1 = Some (JStr (rci_name i)) \<and>
    validateMutableRouteEntity n (JObj (route_create_fields i)) = Inr (JObj (route_create_fields i))"
proof -
  from assms obtain c t where c: "cd_normalizeCost d (rco_cost o1) False (rco_costFieldName o1) = Inr c" "rci_cost i = present c"
    and t: "readOptionalTimeout d (rco_timeoutMs o1) (rco_invalidTimeoutMessage o1) False = Inr t" "rci_timeout_ms i = present t"
    and texts: "non_blank (rci_model i)" "non_blank (rci_service_provider i)" "non_blank (rci_provider_model_id i)" "non_blank (rci_display_name i)"
    and name: "\<not> isReservedObjectKey (rci_name i)" "rco_name o1 = Some (JStr (rci_name i))"
    by (auto simp: validateRouteCreateInput_def rbind_Inr_iff readRequiredString_Inr safe_unit)
  have cost: "optional_cost (JObj (route_create_fields i)) owner = Inr (rci_cost i)" for owner
    using created_cost [OF c(1)] c(2)
    by (auto simp: optional_cost_def route_create_fields_def optional_field_def rbind_Inr_iff picked_cost split: option.splits)
  have timeout: "route_timeout_ok (jprop (JObj (route_create_fields i)) ''timeout_ms'')"
    "as_number (jprop (JObj (route_create_fields i)) ''timeout_ms'') = rci_timeout_ms i"
    using t by (auto simp: route_create_fields_def optional_field_def readOptionalTimeout_Inr present_def route_timeout_ok_def split: option.splits)
  have fields: "jprop (JObj (route_create_fields i)) ''model'' = Some (JStr (rci_model i))"
    "jprop (JObj (route_create_fields i)) ''service_provider'' = Some (JStr (rci_service_provider i))"
    "jprop (JObj (route_create_fields i)) ''provider_model_id'' = Some (JStr (rci_provider_model_id i))"
    "jprop (JObj (route_create_fields i)) ''display_name'' = Some (JStr (rci_display_name i))"
    by (simp_all add: route_create_fields_def)
  have "assertOnlyKnownKeys (JObj (route_create_fields i)) ROUTE_KEYS owner = Inr ()" for owner
    by (simp add: assertOnlyKnownKeys_def record_fields_def route_create_fields_def optional_field_def ROUTE_KEYS_def split: option.split)
  with cost texts timeout fields name show ?thesis
    by (simp add: validateMutableRouteEntity_def text_field_def require_def isNonEmptyString_def Let_def)
      (simp add: route_create_fields_def optional_field_def)
qed

lemma updates_change_something:
  "validateModelUpdateInput d mo = Inr mi \<Longrightarrow> mui_display_name mi \<noteq> None \<or> mui_model_creator mi \<noteq> None \<or> mui_cost mi \<noteq> None"
  "validateRouteUpdateInput d ro = Inr ri \<Longrightarrow> route_update_fields ri \<noteq> []"
  by (auto simp: validateModelUpdateInput_def validateRouteUpdateInput_def route_update_fields_def optional_field_def rbind_Inr_iff
      split: if_splits option.splits)

end

text \<open>Without authentication no key is left, whatever the functions of the client.\<close>

lemma no_auth_clears_env:
  "validateProviderCreateInput d po = Inr ci \<Longrightarrow> pco_noAuth po \<Longrightarrow> pci_api_key ci = None \<and> pci_api_key_env ci = Some None"
  "validateProviderUpdateInput d uo = Inr ui \<Longrightarrow> puo_noAuth uo \<Longrightarrow> pui_api_key_env ui = Some None"
  by (auto simp: validateProviderCreateInput_def validateProviderUpdateInput_def rbind_Inr_iff Let_def split: if_splits)

end
