(* ===== verification/Mcp_Parsers.thy ===== *)
theory Mcp_Parsers
  imports Mcp_Server Input_Contracts
begin

text \<open>
  The parsers of tool arguments of the MCP server: \<^verbatim>\<open>mcp/parsers-shared.ts\<close>, \<^verbatim>\<open>parsers-models.ts\<close>,
  \<^verbatim>\<open>parsers-providers.ts\<close>, \<^verbatim>\<open>parsers-routes.ts\<close>, \<^verbatim>\<open>parsers-bench-gateway.ts\<close>,
  \<^verbatim>\<open>parsers-observability.ts\<close> and \<^verbatim>\<open>parsers-optimize.ts\<close>, with the checks of benchmark plans, of filters and
  of maintenance scopes that they call in \<^verbatim>\<open>subsystems/observability/\<close>. They run after the validator of
  \<open>Mcp_Tools\<close> and are the instance of \<open>input_contract\<close> that the server uses.

  Main results: the server's functions keep the promises of \<open>input_contract\<close>; what they accept for a new
  model or route the store accepts; after the validator they refuse only blank texts and reserved
  names; a benchmark that is accepted is within all its limits.
\<close>

section \<open>Errors and fields\<close>

definition missingRequiredFieldError :: "string \<Rightarrow> tool_failure" where
  "missingRequiredFieldError message = ToolError ''missing_required_field'' message None"

definition invalidInputFieldError :: "string \<Rightarrow> tool_failure" where
  "invalidInputFieldError message = ToolError ''invalid_input_field'' message None"

fun key_error_text :: "key_error \<Rightarrow> string" where
  "key_error_text (ReservedKey label k) = label @ '' '' @ quoted k @ '' is reserved and cannot be used.''"
| "key_error_text (ReservedField label path k) = label @ '' field '' @ quoted path @ '' uses reserved object key '' @ quoted k @ ''.''"

definition assert_safe_field :: "string \<Rightarrow> string \<Rightarrow> tool_failure + unit" where
  "assert_safe_field v label =
     (case assertSafeObjectKey v label of Inl e \<Rightarrow> Inl (invalidInputFieldError (key_error_text e)) | Inr _ \<Rightarrow> Inr ())"

definition tool_requires :: "string \<Rightarrow> string \<Rightarrow> string" where
  "tool_requires toolName field = ''Tool '' @ quoted toolName @ '' requires non-empty '' @ quoted field @ ''.''"

definition field_must :: "string \<Rightarrow> string \<Rightarrow> string" where
  "field_must field what = ''field '' @ quoted field @ '' must be '' @ what"

type_synonym tool_params = "(string \<times> json) list"

definition getOptionalString :: "tool_params \<Rightarrow> string \<Rightarrow> string option" where
  "getOptionalString params field = as_string (map_of params field)"

definition expectToolParamsObject :: "json option \<Rightarrow> tool_failure + tool_params" where
  "expectToolParamsObject params =
     (case params of
        None \<Rightarrow> Inr []
      | Some (JObj fs) \<Rightarrow> Inr fs
      | _ \<Rightarrow> Inl (invalidInputFieldError ''tool arguments must be a JSON object''))"

fun rejectUnknownToolFields :: "string list \<Rightarrow> string list \<Rightarrow> string \<Rightarrow> tool_failure + unit" where
  "rejectUnknownToolFields [] allowedFields toolName = Inr ()"
| "rejectUnknownToolFields (field # rest) allowedFields toolName =
     (if field \<notin> set allowedFields
      then Inl (invalidInputFieldError (''Tool '' @ quoted toolName @ '' does not support field '' @ quoted field @ ''.''))
      else rejectUnknownToolFields rest allowedFields toolName)"

definition parseToolArgs :: "json option \<Rightarrow> string \<Rightarrow> string list \<Rightarrow> (tool_params \<Rightarrow> tool_failure + 'a) \<Rightarrow> tool_failure + 'a" where
  "parseToolArgs params toolName allowedFields check =
     rbind (expectToolParamsObject params) (\<lambda>objectParams.
     rbind (rejectUnknownToolFields (map fst objectParams) allowedFields toolName) (\<lambda>_.
     check objectParams))"

definition hasOwnToolField :: "tool_params \<Rightarrow> string \<Rightarrow> bool" where
  "hasOwnToolField params field \<longleftrightarrow> map_of params field \<noteq> None"

definition getOptionalBooleanField :: "tool_params \<Rightarrow> string \<Rightarrow> bool option" where
  "getOptionalBooleanField params field =
     (if hasOwnToolField params field then Some (map_of params field = Some (JBool True)) else None)"

definition getOptionalPositiveInteger :: "tool_params \<Rightarrow> string \<Rightarrow> tool_failure + rat option" where
  "getOptionalPositiveInteger params field =
     (case map_of params field of
        None \<Rightarrow> Inr None
      | Some (JNum n) \<Rightarrow>
          if n \<notin> \<int> \<or> n \<le> 0 then Inl (invalidInputFieldError (field_must field ''a positive integer'')) else Inr (Some n)
      | Some _ \<Rightarrow> Inl (invalidInputFieldError (field_must field ''a positive integer'')))"

definition getOptionalNonNegativeInteger :: "tool_params \<Rightarrow> string \<Rightarrow> tool_failure + rat option" where
  "getOptionalNonNegativeInteger params field =
     (case map_of params field of
        None \<Rightarrow> Inr None
      | Some (JNum n) \<Rightarrow>
          if n \<notin> \<int> \<or> n < 0 then Inl (invalidInputFieldError (field_must field ''a non-negative integer'')) else Inr (Some n)
      | Some _ \<Rightarrow> Inl (invalidInputFieldError (field_must field ''a non-negative integer'')))"

definition cost_label :: string where
  "cost_label = ''field '' @ quoted ''cost''"

definition normalizeCostInput :: "json option \<Rightarrow> bool \<Rightarrow> tool_failure + cost_config option option" where
  "normalizeCostInput candidate allowNull =
     (case candidate of
        None \<Rightarrow> Inr None
      | Some JNull \<Rightarrow> Inr (if allowNull then Some None else None)
      | Some v \<Rightarrow>
          (case validateCostConfig (Some v) cost_label of
             Inl e \<Rightarrow> Inl (invalidInputFieldError (case e of ConfigMessage m \<Rightarrow> m | _ \<Rightarrow> cost_label @ '' is invalid''))
           | Inr k \<Rightarrow> Inr (Some (Some k))))"

definition getRequiredToolString :: "tool_params \<Rightarrow> string \<Rightarrow> string \<Rightarrow> tool_failure + string" where
  "getRequiredToolString params field toolName =
     (let v = map_of params field
      in if \<not> isNonEmptyString v then Inl (missingRequiredFieldError (tool_requires toolName field))
         else rbind (if field = ''model_id'' \<or> field = ''provider_id'' \<or> field = ''route_id''
                     then assert_safe_field (the_text v) (''field '' @ quoted field) else Inr ()) (\<lambda>_.
              Inr (the_text v)))"

definition normalizeToolModelIdFormat :: "json option \<Rightarrow> string \<Rightarrow> tool_failure + model_id_format" where
  "normalizeToolModelIdFormat v field =
     (case normalizeModelIdFormat v of
        None \<Rightarrow> Inl (invalidInputFieldError (field_must field ''one of: passthrough, creator/model''))
      | Some f \<Rightarrow> Inr f)"

definition rejectMaskedSecretSentinel :: "string \<Rightarrow> string \<Rightarrow> tool_failure + unit" where
  "rejectMaskedSecretSentinel v field =
     (if v = MASKED_SECRET_SENTINEL
      then Inl (invalidInputFieldError (''field '' @ quoted field @
                  '' looks like the masked sentinel returned by providers_show; pass the real secret''))
      else Inr ())"

definition getProviderApiKeyEnv :: "tool_params \<Rightarrow> tool_failure + string option option" where
  "getProviderApiKeyEnv params =
     (case map_of params ''api_key_env'' of
        None \<Rightarrow> Inr None
      | Some JNull \<Rightarrow> Inr (Some None)
      | Some v \<Rightarrow>
          if \<not> isNonEmptyString (Some v) then Inl (invalidInputFieldError (field_must ''api_key_env'' ''a non-empty string or null''))
          else Inr (Some (Some (the_text (Some v)))))"

definition getToolNullableStringField :: "tool_params \<Rightarrow> string \<Rightarrow> tool_failure + string option option" where
  "getToolNullableStringField params field =
     (case map_of params field of
        None \<Rightarrow> Inr None
      | Some JNull \<Rightarrow> Inr (Some None)
      | Some v \<Rightarrow>
          if \<not> isNonEmptyString (Some v) then Inl (invalidInputFieldError (field_must field ''a non-empty string or null''))
          else Inr (Some (Some (the_text (Some v)))))"

text \<open>
  The three readers of an observation filter, and \<open>getOptionalKnownValue\<close> of the ledger, differ in their lists of
  values only.
\<close>

definition getOptionalKnownValue :: "tool_params \<Rightarrow> string \<Rightarrow> string list \<Rightarrow> tool_failure + string option" where
  "getOptionalKnownValue params field allowedValues =
     (case getOptionalString params field of
        None \<Rightarrow> Inr None
      | Some v \<Rightarrow>
          if v \<notin> set allowedValues then Inl (invalidInputFieldError (field_must field (''one of: '' @ join '', '' allowedValues)))
          else Inr (Some v))"

definition getOptionalObservationOutcome :: "tool_params \<Rightarrow> string \<Rightarrow> tool_failure + string option" where
  "getOptionalObservationOutcome params field = getOptionalKnownValue params field OBSERVATION_OUTCOMES"

definition getOptionalObservationKind :: "tool_params \<Rightarrow> string \<Rightarrow> tool_failure + string option" where
  "getOptionalObservationKind params field = getOptionalKnownValue params field OBSERVATION_KINDS"

definition getOptionalObservationEvent :: "tool_params \<Rightarrow> string \<Rightarrow> tool_failure + string option" where
  "getOptionalObservationEvent params field = getOptionalKnownValue params field OBSERVATION_EVENTS"

text \<open>The functions the server gives to the contracts.\<close>

definition mcp_contract :: "tool_failure contract_deps" where
  "mcp_contract =
     \<lparr>cd_assertSafeIdentifier = assert_safe_field,
      cd_normalizeCost = (\<lambda>v allowNull fieldName. normalizeCostInput v allowNull),
      cd_normalizeApiMode = normalizeApiMode,
      cd_normalizeModelIdFormat = normalizeModelIdFormat,
      cd_missingRequiredField = missingRequiredFieldError,
      cd_invalidInputField = invalidInputFieldError,
      cd_invalidFlagValue = invalidInputFieldError,
      cd_conflictingInputModes = (\<lambda>message. ToolError ''conflicting_input_modes'' message None),
      cd_missingUpdateFields = (\<lambda>message. ToolError ''missing_update_fields'' message None),
      cd_rejectMaskedSecretSentinel = rejectMaskedSecretSentinel\<rparr>"

lemma safe_field_iff [simp]: "assert_safe_field v l = Inr u \<longleftrightarrow> \<not> isReservedObjectKey v"
  by (cases u) (simp add: assert_safe_field_def assertSafeObjectKey_def rensure_def)

interpretation mcp_input: input_contract mcp_contract
  by unfold_locales
    (auto simp: mcp_contract_def normalizeCostInput_def split: json.splits option.splits sum.splits if_splits)

section \<open>Models\<close>

definition parseModelsShowArgs :: "json option \<Rightarrow> tool_failure + string" where
  "parseModelsShowArgs params =
     parseToolArgs params ''models_show'' MODEL_MCP_SHOW (\<lambda>objectParams. getRequiredToolString objectParams ''model_id'' ''models_show'')"

definition parseModelsCreateArgs :: "json option \<Rightarrow> tool_failure + model_create_input" where
  "parseModelsCreateArgs params =
     parseToolArgs params ''models_create'' MODEL_MCP_CREATE (\<lambda>objectParams.
       validateModelCreateInput mcp_contract
         \<lparr>mco_name = map_of objectParams ''model_id'', mco_displayName = map_of objectParams ''display_name'',
          mco_modelCreator = map_of objectParams ''model_creator'', mco_cost = map_of objectParams ''cost'',
          mco_missingNameMessage = tool_requires ''models_create'' ''model_id'',
          mco_missingDisplayNameMessage = tool_requires ''models_create'' ''display_name'',
          mco_missingModelCreatorMessage = tool_requires ''models_create'' ''model_creator'',
          mco_invalidNameMessage = tool_requires ''models_create'' ''model_id'',
          mco_invalidDisplayNameMessage = tool_requires ''models_create'' ''display_name'',
          mco_invalidModelCreatorMessage = tool_requires ''models_create'' ''model_creator'',
          mco_identifierLabel = ''field '' @ quoted ''model_id'', mco_costFieldName = cost_label\<rparr>)"

definition parseModelsUpdateArgs :: "json option \<Rightarrow> tool_failure + model_update_input" where
  "parseModelsUpdateArgs params =
     parseToolArgs params ''models_update'' MODEL_MCP_UPDATE (\<lambda>objectParams.
       validateModelUpdateInput mcp_contract
         \<lparr>muo_name = map_of objectParams ''model_id'', muo_displayName = map_of objectParams ''display_name'',
          muo_modelCreator = map_of objectParams ''model_creator'', muo_cost = map_of objectParams ''cost'',
          muo_missingNameMessage = tool_requires ''models_update'' ''model_id'',
          muo_invalidDisplayNameMessage = field_must ''display_name'' ''a non-empty string'',
          muo_invalidModelCreatorMessage = field_must ''model_creator'' ''a non-empty string'',
          muo_identifierLabel = ''field '' @ quoted ''model_id'', muo_costFieldName = cost_label,
          muo_missingUpdateFieldsMessage = ''Provide at least one update field for '' @ quoted ''models update'' @ '': '' @
            quoted ''display_name'' @ '', '' @ quoted ''model_creator'' @ '', or '' @ quoted ''cost''\<rparr>)"

definition parseModelsDeleteArgs :: "json option \<Rightarrow> tool_failure + string" where
  "parseModelsDeleteArgs params =
     parseToolArgs params ''models_delete'' MODEL_MCP_DELETE (\<lambda>objectParams. getRequiredToolString objectParams ''model_id'' ''models_delete'')"

section \<open>Providers\<close>

definition json_flag :: "bool option \<Rightarrow> json option" where
  "json_flag = map_option JBool"

definition json_nullable_text :: "string option option \<Rightarrow> json option" where
  "json_nullable_text = map_option (nullable JStr)"

definition json_format :: "model_id_format option \<Rightarrow> json option" where
  "json_format = map_option (\<lambda>f. JStr (model_id_format_name f))"

definition API_MODE_MESSAGE :: string where
  "API_MODE_MESSAGE = field_must ''api_mode'' (''a valid API mode such as '' @ quoted ''openai-completions'' @ '' or '' @ quoted ''anthropic-messages'')"

definition MODEL_ID_FORMAT_MESSAGE :: string where
  "MODEL_ID_FORMAT_MESSAGE = field_must ''model_id_format'' ''one of: passthrough, creator/model''"

definition parseProvidersShowArgs :: "json option \<Rightarrow> tool_failure + string" where
  "parseProvidersShowArgs params =
     parseToolArgs params ''providers_show'' PROVIDER_MCP_SHOW (\<lambda>objectParams. getRequiredToolString objectParams ''provider_id'' ''providers_show'')"

definition tool_model_id_format :: "tool_params \<Rightarrow> tool_failure + model_id_format option" where
  "tool_model_id_format objectParams =
     (if map_of objectParams ''model_id_format'' = None then Inr None
      else rbind (normalizeToolModelIdFormat (map_of objectParams ''model_id_format'') ''model_id_format'') (\<lambda>f. Inr (Some f)))"

definition NO_AUTH_MESSAGE :: string where
  "NO_AUTH_MESSAGE = ''field '' @ quoted ''no_auth'' @ '' for '' @ quoted ''providers_create'' @
     '' must be true when provided (providers_create always creates a no-auth provider; use providers_set_key or providers_set_key_env afterward for provider auth)''"

definition parseProvidersCreateArgs :: "json option \<Rightarrow> tool_failure + provider_create_input" where
  "parseProvidersCreateArgs params =
     parseToolArgs params ''providers_create'' PROVIDER_MCP_CREATE (\<lambda>objectParams.
     let allowPrivateEndpoints = getOptionalBooleanField objectParams ''allow_private_endpoints'';
         allowInsecureHttp = getOptionalBooleanField objectParams ''allow_insecure_http''
     in rbind (getToolNullableStringField objectParams ''anthropic_version'') (\<lambda>anthropicVersion.
        rbind (tool_model_id_format objectParams) (\<lambda>modelIdFormat.
        if hasOwnToolField objectParams ''no_auth'' \<and> map_of objectParams ''no_auth'' \<noteq> Some (JBool True)
        then Inl (invalidInputFieldError NO_AUTH_MESSAGE)
        else validateProviderCreateInput mcp_contract
          \<lparr>pco_name = map_of objectParams ''provider_id'', pco_endpoint = map_of objectParams ''endpoint'',
           pco_allowPrivateEndpoints = json_flag allowPrivateEndpoints, pco_allowInsecureHttp = json_flag allowInsecureHttp,
           pco_apiMode = map_of objectParams ''api_mode'', pco_apiKey = None, pco_apiKeyEnv = None, pco_noAuth = True,
           pco_anthropicVersion = json_nullable_text anthropicVersion, pco_modelIdFormat = json_format modelIdFormat,
           pco_missingNameMessage = tool_requires ''providers_create'' ''provider_id'',
           pco_invalidNameMessage = tool_requires ''providers_create'' ''provider_id'',
           pco_missingEndpointMessage = tool_requires ''providers_create'' ''endpoint'',
           pco_invalidEndpointMessage = tool_requires ''providers_create'' ''endpoint'',
           pco_identifierLabel = ''field '' @ quoted ''provider_id'',
           pco_invalidApiModeMessage = API_MODE_MESSAGE,
           pco_invalidAllowPrivateEndpointsMessage = field_must ''allow_private_endpoints'' ''a boolean'',
           pco_invalidAllowInsecureHttpMessage = field_must ''allow_insecure_http'' ''a boolean'',
           pco_invalidApiKeyMessage = field_must ''api_key'' ''a non-empty string or null'',
           pco_invalidApiKeyEnvMessage = field_must ''api_key_env'' ''a non-empty string or null'',
           pco_invalidAnthropicVersionMessage = field_must ''anthropic_version'' ''a non-empty string or null'',
           pco_invalidModelIdFormatMessage = MODEL_ID_FORMAT_MESSAGE,
           pco_conflictingAuthMessage = ''field '' @ quoted ''no_auth'' @ '' cannot be combined with '' @ quoted ''api_key'' @ '' or '' @ quoted ''api_key_env'',
           pco_missingAuthMessage =
             ''MCP providers_create creates a no-auth provider; use providers_set_key or providers_set_key_env afterward for provider auth''\<rparr>)))"

text \<open>The requested provider that the parser adds to its result.\<close>

definition provider_create_fields :: "provider_create_input \<Rightarrow> (string \<times> json) list" where
  "provider_create_fields i =
     [(''endpoint'', JStr (pci_endpoint i))] @
     optional_field ''allow_private_endpoints'' JBool (pci_allow_private_endpoints i) @
     optional_field ''allow_insecure_http'' JBool (pci_allow_insecure_http i) @
     [(''api_mode'', JStr (api_mode_name (pci_api_mode i)))] @
     optional_field ''anthropic_version'' (nullable JStr) (pci_anthropic_version i) @
     optional_field ''model_id_format'' (\<lambda>f. JStr (model_id_format_name f)) (pci_model_id_format i) @
     [(''api_key_env'', JNull)]"

definition parseProvidersUpdateArgs :: "json option \<Rightarrow> tool_failure + provider_update_input" where
  "parseProvidersUpdateArgs params =
     parseToolArgs params ''providers_update'' PROVIDER_MCP_UPDATE (\<lambda>objectParams.
     let allowPrivateEndpoints = getOptionalBooleanField objectParams ''allow_private_endpoints'';
         allowInsecureHttp = getOptionalBooleanField objectParams ''allow_insecure_http''
     in rbind (getToolNullableStringField objectParams ''anthropic_version'') (\<lambda>anthropicVersion.
        rbind (tool_model_id_format objectParams) (\<lambda>modelIdFormat.
        rbind (getProviderApiKeyEnv objectParams) (\<lambda>apiKeyEnv.
        validateProviderUpdateInput mcp_contract
          \<lparr>puo_name = map_of objectParams ''provider_id'', puo_endpoint = map_of objectParams ''endpoint'',
           puo_allowPrivateEndpoints = json_flag allowPrivateEndpoints, puo_allowInsecureHttp = json_flag allowInsecureHttp,
           puo_apiMode = map_of objectParams ''api_mode'', puo_apiKeyEnv = json_nullable_text apiKeyEnv,
           puo_noAuth = (map_of objectParams ''no_auth'' = Some (JBool True)),
           puo_anthropicVersion = json_nullable_text anthropicVersion, puo_modelIdFormat = json_format modelIdFormat,
           puo_missingNameMessage = tool_requires ''providers_update'' ''provider_id'',
           puo_identifierLabel = ''field '' @ quoted ''provider_id'',
           puo_invalidEndpointMessage = field_must ''endpoint'' ''a non-empty string'',
           puo_invalidAllowPrivateEndpointsMessage = field_must ''allow_private_endpoints'' ''a boolean'',
           puo_invalidAllowInsecureHttpMessage = field_must ''allow_insecure_http'' ''a boolean'',
           puo_invalidApiModeMessage = API_MODE_MESSAGE,
           puo_invalidApiKeyEnvMessage = field_must ''api_key_env'' ''a non-empty string or null'',
           puo_invalidAnthropicVersionMessage = field_must ''anthropic_version'' ''a non-empty string or null'',
           puo_invalidModelIdFormatMessage = MODEL_ID_FORMAT_MESSAGE,
           puo_conflictingAuthMessage = ''field '' @ quoted ''no_auth'' @ '' cannot be combined with '' @ quoted ''api_key_env'',
           puo_missingUpdateFieldsMessage = ''Provide at least one update field for '' @ quoted ''providers update'' @ '': '' @
             join '', '' (map quoted [''endpoint'', ''allow_private_endpoints'', ''allow_insecure_http'', ''api_mode'', ''anthropic_version'',
               ''model_id_format'', ''api_key_env'']) @ '', or '' @ quoted ''no_auth''\<rparr>))))"

text \<open>The flag \<open>noAuth\<close> of the result is computed from the key.\<close>

definition update_no_auth :: "provider_update_input \<Rightarrow> bool" where
  "update_no_auth i \<longleftrightarrow> pui_api_key_env i = Some None"

definition parseProvidersDeleteArgs :: "json option \<Rightarrow> tool_failure + string" where
  "parseProvidersDeleteArgs params =
     parseToolArgs params ''providers_delete'' PROVIDER_MCP_DELETE
       (\<lambda>objectParams. getRequiredToolString objectParams ''provider_id'' ''providers_delete'')"

definition provider_auth_input :: "tool_params \<Rightarrow> string \<Rightarrow> provider_auth_options" where
  "provider_auth_input objectParams toolName =
     \<lparr>pao_providerId = map_of objectParams ''provider_id'', pao_missingProviderIdMessage = tool_requires toolName ''provider_id'',
      pao_invalidProviderIdMessage = tool_requires toolName ''provider_id'', pao_identifierLabel = ''field '' @ quoted ''provider_id''\<rparr>"

definition parseProvidersSetKeyArgs :: "json option \<Rightarrow> tool_failure + string \<times> string" where
  "parseProvidersSetKeyArgs params =
     parseToolArgs params ''providers_set_key'' PROVIDER_MCP_SET_KEY (\<lambda>objectParams.
       validateProviderSetKeyInput mcp_contract (provider_auth_input objectParams ''providers_set_key'') (map_of objectParams ''api_key'')
         (tool_requires ''providers_set_key'' ''api_key'') (tool_requires ''providers_set_key'' ''api_key'') ''api_key'')"

definition parseProvidersClearKeyArgs :: "json option \<Rightarrow> tool_failure + string" where
  "parseProvidersClearKeyArgs params =
     parseToolArgs params ''providers_clear_key'' PROVIDER_MCP_CLEAR_KEY (\<lambda>objectParams.
       validateProviderClearKeyInput mcp_contract (provider_auth_input objectParams ''providers_clear_key''))"

definition parseProvidersSetKeyEnvArgs :: "json option \<Rightarrow> tool_failure + string \<times> string" where
  "parseProvidersSetKeyEnvArgs params =
     parseToolArgs params ''providers_set_key_env'' PROVIDER_MCP_SET_KEY_ENV (\<lambda>objectParams.
       validateProviderSetKeyEnvInput mcp_contract (provider_auth_input objectParams ''providers_set_key_env'') (map_of objectParams ''api_key_env'')
         (tool_requires ''providers_set_key_env'' ''api_key_env'') (tool_requires ''providers_set_key_env'' ''api_key_env''))"

section \<open>Routes\<close>

definition parseRoutesShowArgs :: "json option \<Rightarrow> string \<Rightarrow> tool_failure + string" where
  "parseRoutesShowArgs params toolName =
     parseToolArgs params toolName (if toolName = ''routes_explain'' then ROUTE_MCP_EXPLAIN else ROUTE_MCP_SHOW)
       (\<lambda>objectParams. getRequiredToolString objectParams ''route_id'' toolName)"

definition parseRoutesCreateArgs :: "json option \<Rightarrow> tool_failure + route_create_input" where
  "parseRoutesCreateArgs params =
     parseToolArgs params ''routes_create'' ROUTE_MCP_CREATE (\<lambda>objectParams.
     rbind (getOptionalPositiveInteger objectParams ''timeout_ms'') (\<lambda>timeoutMs.
     let needs = tool_requires ''routes_create''
     in validateRouteCreateInput mcp_contract
          \<lparr>rco_name = map_of objectParams ''route_id'', rco_model = map_of objectParams ''model'',
           rco_serviceProvider = map_of objectParams ''service_provider'', rco_providerModelId = map_of objectParams ''provider_model_id'',
           rco_displayName = map_of objectParams ''display_name'', rco_timeoutMs = map_option JNum timeoutMs,
           rco_cost = map_of objectParams ''cost'',
           rco_missingNameMessage = needs ''route_id'', rco_invalidNameMessage = needs ''route_id'',
           rco_missingModelMessage = needs ''model'', rco_invalidModelMessage = needs ''model'',
           rco_missingServiceProviderMessage = needs ''service_provider'', rco_invalidServiceProviderMessage = needs ''service_provider'',
           rco_missingProviderModelIdMessage = needs ''provider_model_id'', rco_invalidProviderModelIdMessage = needs ''provider_model_id'',
           rco_missingDisplayNameMessage = needs ''display_name'', rco_invalidDisplayNameMessage = needs ''display_name'',
           rco_invalidTimeoutMessage = field_must ''timeout_ms'' ''a positive integer'',
           rco_identifierLabel = ''field '' @ quoted ''route_id'', rco_costFieldName = cost_label\<rparr>))"

definition parseRoutesUpdateArgs :: "json option \<Rightarrow> tool_failure + route_update_input" where
  "parseRoutesUpdateArgs params =
     parseToolArgs params ''routes_update'' ROUTE_MCP_UPDATE (\<lambda>objectParams.
     rbind (if hasOwnToolField objectParams ''timeout_ms''
            then if map_of objectParams ''timeout_ms'' = Some JNull then Inr (Some JNull)
                 else rbind (getOptionalPositiveInteger objectParams ''timeout_ms'') (\<lambda>n. Inr (map_option JNum n))
            else Inr None) (\<lambda>timeoutMs.
     validateRouteUpdateInput mcp_contract
       \<lparr>ruo_name = map_of objectParams ''route_id'', ruo_model = map_of objectParams ''model'',
        ruo_serviceProvider = map_of objectParams ''service_provider'', ruo_providerModelId = map_of objectParams ''provider_model_id'',
        ruo_displayName = map_of objectParams ''display_name'', ruo_timeoutMs = timeoutMs, ruo_cost = map_of objectParams ''cost'',
        ruo_missingNameMessage = tool_requires ''routes_update'' ''route_id'',
        ruo_invalidModelMessage = field_must ''model'' ''a non-empty string'',
        ruo_invalidServiceProviderMessage = field_must ''service_provider'' ''a non-empty string'',
        ruo_invalidProviderModelIdMessage = field_must ''provider_model_id'' ''a non-empty string'',
        ruo_invalidDisplayNameMessage = field_must ''display_name'' ''a non-empty string'',
        ruo_invalidTimeoutMessage = field_must ''timeout_ms'' ''a positive integer or null'',
        ruo_identifierLabel = ''field '' @ quoted ''route_id'', ruo_costFieldName = cost_label,
        ruo_missingUpdateFieldsMessage = ''Provide at least one update field for '' @ quoted ''routes update'' @ '': '' @
          join '', '' (map quoted [''model'', ''service_provider'', ''provider_model_id'', ''display_name'', ''timeout_ms'']) @ '', or '' @ quoted ''cost''\<rparr>))"

definition parseRoutesDeleteArgs :: "json option \<Rightarrow> tool_failure + string" where
  "parseRoutesDeleteArgs params =
     parseToolArgs params ''routes_delete'' ROUTE_MCP_DELETE (\<lambda>objectParams. getRequiredToolString objectParams ''route_id'' ''routes_delete'')"

section \<open>Gateway health and benchmarks\<close>

record gateway_health_args =
  gh_check :: "string option"
  gh_timeoutMs :: "rat option"

definition parseGatewayHealthArgs :: "json option \<Rightarrow> tool_failure + gateway_health_args" where
  "parseGatewayHealthArgs params =
     parseToolArgs params ''gateway_health'' [''check'', ''timeout_ms''] (\<lambda>objectParams.
     let check = getOptionalString objectParams ''check''
     in if check \<noteq> None \<and> the check \<notin> set [''all'', ''gateway'', ''config'', ''providers'', ''routes'']
        then Inl (invalidInputFieldError (field_must ''check'' ''one of: gateway, config, providers, routes, all''))
        else rbind (getOptionalPositiveInteger objectParams ''timeout_ms'') (\<lambda>timeoutMs.
             Inr \<lparr>gh_check = check, gh_timeoutMs = timeoutMs\<rparr>))"

definition parseBenchListArgs :: "json option \<Rightarrow> tool_failure + rat option" where
  "parseBenchListArgs params =
     parseToolArgs params ''bench_list'' [''limit''] (\<lambda>objectParams. getOptionalPositiveInteger objectParams ''limit'')"

definition non_empty :: "string option \<Rightarrow> tool_failure \<Rightarrow> tool_failure + string" where
  "non_empty v e = (case v of None \<Rightarrow> Inl e | Some s \<Rightarrow> if s = [] then Inl e else Inr s)"

definition parseBenchShowArgs :: "json option \<Rightarrow> tool_failure + string" where
  "parseBenchShowArgs params =
     parseToolArgs params ''bench_show'' [''run_id''] (\<lambda>objectParams.
       non_empty (getOptionalString objectParams ''run_id'') (invalidInputFieldError (tool_requires ''bench_show'' ''run_id'')))"

subsection \<open>Benchmark plans\<close>

definition BENCH_MAX_TOTAL_TASKS :: nat where "BENCH_MAX_TOTAL_TASKS = 50000"

definition assertBenchmarkPromptLength :: "string \<Rightarrow> string \<Rightarrow> string + unit" where
  "assertBenchmarkPromptLength prompt surface =
     (if length prompt > BENCH_MAX_PROMPT_LENGTH
      then Inl (if surface = ''bench''
                then ''Benchmark prompt must be at most '' @ digits_of_nat BENCH_MAX_PROMPT_LENGTH @ '' characters for '' @ quoted ''bench''
                else ''field '' @ quoted ''prompt'' @ '' must be at most '' @ digits_of_nat BENCH_MAX_PROMPT_LENGTH @ '' characters for '' @ quoted surface)
      else Inr ())"

definition calculateBenchmarkTaskCount :: "nat \<Rightarrow> string \<Rightarrow> rat \<Rightarrow> rat \<Rightarrow> rat" where
  "calculateBenchmarkTaskCount routeCount pathMode warmup iterations =
     of_nat routeCount * (if pathMode = ''both'' then 2 else 1) * (warmup + iterations)"

text \<open>The total is computed exactly; a double is rounded, but not across the limit.\<close>

definition assertBenchmarkTaskPlanSize :: "(rat \<Rightarrow> string) \<Rightarrow> nat \<Rightarrow> string \<Rightarrow> rat \<Rightarrow> rat \<Rightarrow> string \<Rightarrow> string + unit" where
  "assertBenchmarkTaskPlanSize nts routeCount pathMode warmup iterations surface =
     (let totalTasks = calculateBenchmarkTaskCount routeCount pathMode warmup iterations
      in if totalTasks \<le> of_nat BENCH_MAX_TOTAL_TASKS then Inr ()
         else Inl (''Benchmark plan must contain at most '' @ digits_of_nat BENCH_MAX_TOTAL_TASKS @ '' tasks for '' @ quoted surface @
                   ''; requested '' @ nts totalTasks))"

definition BENCH_PATH_MODES :: "string list" where "BENCH_PATH_MODES = [''gateway'', ''direct'', ''both'']"

definition isBenchPathModeValue :: "string option \<Rightarrow> bool" where
  "isBenchPathModeValue v = list_ex (\<lambda>mode. Some mode = v) BENCH_PATH_MODES"

datatype bench_route_issue = conflicting_selectors | missing_selector | invalid_route_list | too_many_routes

definition normalizeRouteNames :: "json list option \<Rightarrow> string list option" where
  "normalizeRouteNames routeNames =
     (case routeNames of
        None \<Rightarrow> None
      | Some [] \<Rightarrow> None
      | Some vs \<Rightarrow>
          (let normalized = map (\<lambda>v. case v of JStr s \<Rightarrow> trim s | _ \<Rightarrow> []) vs
           in if list_ex (\<lambda>n. n = []) normalized then None else Some normalized))"

definition normalizeBenchRouteSelection :: "string option \<Rightarrow> json list option \<Rightarrow> nat \<Rightarrow> bench_route_issue + string list" where
  "normalizeBenchRouteSelection routeName routeNames maxRoutes =
     (let normalizedRouteName = map_option trim routeName;
          hasRouteName = (normalizedRouteName \<noteq> None \<and> the normalizedRouteName \<noteq> []);
          hasRouteList = (routeNames \<noteq> None)
      in if hasRouteName = hasRouteList then Inl (if hasRouteName then conflicting_selectors else missing_selector)
         else (case (if hasRouteName then Some [the normalizedRouteName] else normalizeRouteNames routeNames) of
                 None \<Rightarrow> Inl invalid_route_list
               | Some normalized \<Rightarrow> if length normalized > maxRoutes then Inl too_many_routes else Inr normalized))"

datatype bench_execution_issue = prompt_too_long | iterations_too_high | concurrency_too_high

definition exceeds :: "rat option \<Rightarrow> nat \<Rightarrow> bool" where
  "exceeds v limit = (case v of None \<Rightarrow> False | Some n \<Rightarrow> n > of_nat limit)"

definition validateBenchExecutionInput ::
  "string \<Rightarrow> rat option \<Rightarrow> rat option \<Rightarrow> nat \<Rightarrow> nat \<Rightarrow> nat \<Rightarrow> bench_execution_issue option" where
  "validateBenchExecutionInput prompt iterations concurrency maxPromptLength maxIterations maxConcurrency =
     (if length prompt > maxPromptLength then Some prompt_too_long
      else if exceeds iterations maxIterations then Some iterations_too_high
      else if exceeds concurrency maxConcurrency then Some concurrency_too_high
      else None)"

record bench_run_args =
  br_prompt :: string
  br_routeNames :: "string list"
  br_iterations :: "rat option"
  br_warmup :: "rat option"
  br_concurrency :: "rat option"
  br_pathModeValue :: "string option"
  br_timeoutMs :: "rat option"

definition route_issue_text :: "bench_route_issue \<Rightarrow> string" where
  "route_issue_text issue =
     (case issue of
        invalid_route_list \<Rightarrow> field_must ''routes'' ''a non-empty array of route names''
      | too_many_routes \<Rightarrow> ''field '' @ quoted ''routes'' @ '' must contain at most '' @ digits_of_nat BENCH_MAX_ROUTES @ '' route names for '' @ quoted ''bench_run''
      | _ \<Rightarrow> ''Tool arguments must provide exactly one of '' @ quoted ''route_id'' @ '' or '' @ quoted ''routes'' @ ''.'')"

definition at_most_for :: "string \<Rightarrow> nat \<Rightarrow> string \<Rightarrow> string" where
  "at_most_for field limit toolName = field_must field (''at most '' @ digits_of_nat limit @ '' for '' @ quoted toolName)"

definition execution_issue :: "string \<Rightarrow> rat option \<Rightarrow> rat option \<Rightarrow> tool_failure + unit" where
  "execution_issue prompt iterations concurrency =
     (case validateBenchExecutionInput prompt iterations concurrency BENCH_MAX_PROMPT_LENGTH BENCH_MAX_ITERATIONS BENCH_MAX_CONCURRENCY of
        None \<Rightarrow> Inr ()
      | Some prompt_too_long \<Rightarrow>
          (case assertBenchmarkPromptLength prompt ''bench_run'' of Inl e \<Rightarrow> Inl (invalidInputFieldError e) | Inr _ \<Rightarrow> Inr ())
      | Some iterations_too_high \<Rightarrow> Inl (invalidInputFieldError (at_most_for ''iterations'' BENCH_MAX_ITERATIONS ''bench_run''))
      | Some concurrency_too_high \<Rightarrow> Inl (invalidInputFieldError (at_most_for ''concurrency'' BENCH_MAX_CONCURRENCY ''bench_run'')))"

definition or_else :: "'a option \<Rightarrow> 'a \<Rightarrow> 'a" where
  "or_else v fallback = (case v of Some x \<Rightarrow> x | None \<Rightarrow> fallback)"

definition select_routes :: "tool_params \<Rightarrow> tool_failure + string list" where
  "select_routes objectParams =
     (case normalizeBenchRouteSelection (getOptionalString objectParams ''route_id'')
             (case map_of objectParams ''routes'' of None \<Rightarrow> None | Some (JArr vs) \<Rightarrow> Some vs | _ \<Rightarrow> Some []) BENCH_MAX_ROUTES of
        Inl issue \<Rightarrow> Inl (invalidInputFieldError (route_issue_text issue))
      | Inr names \<Rightarrow> Inr names)"

definition check_plan :: "(rat \<Rightarrow> string) \<Rightarrow> string list \<Rightarrow> string option \<Rightarrow> rat option \<Rightarrow> rat option \<Rightarrow> tool_failure + unit" where
  "check_plan nts routeNames pathModeValue warmup iterations =
     (case assertBenchmarkTaskPlanSize nts (length routeNames) (or_else pathModeValue ''both'') (or_else warmup 1) (or_else iterations 3) ''bench_run'' of
        Inl e \<Rightarrow> Inl (invalidInputFieldError e)
      | Inr _ \<Rightarrow> Inr ())"

definition PATH_MODE_MESSAGE :: string where
  "PATH_MODE_MESSAGE = field_must ''path_mode'' ''one of: gateway, direct, both''"

definition parseBenchRunArgs :: "(rat \<Rightarrow> string) \<Rightarrow> json option \<Rightarrow> tool_failure + bench_run_args" where
  "parseBenchRunArgs nts params =
     parseToolArgs params ''bench_run''
       [''prompt'', ''route_id'', ''routes'', ''iterations'', ''warmup'', ''concurrency'', ''path_mode'', ''timeout_ms''] (\<lambda>objectParams.
     rbind (non_empty (getOptionalString objectParams ''prompt'') (invalidInputFieldError (tool_requires ''bench_run'' ''prompt''))) (\<lambda>prompt.
     rbind (select_routes objectParams) (\<lambda>routeNames.
     rbind (getOptionalPositiveInteger objectParams ''iterations'') (\<lambda>iterations.
     rbind (getOptionalNonNegativeInteger objectParams ''warmup'') (\<lambda>warmup.
     rbind (getOptionalPositiveInteger objectParams ''concurrency'') (\<lambda>concurrency.
     let pathModeValue = getOptionalString objectParams ''path_mode''
     in rbind (getOptionalPositiveInteger objectParams ''timeout_ms'') (\<lambda>timeoutMs.
        rbind (execution_issue prompt iterations concurrency) (\<lambda>_.
        rbind (if pathModeValue \<noteq> None \<and> \<not> isBenchPathModeValue pathModeValue
               then Inl (invalidInputFieldError PATH_MODE_MESSAGE) else Inr ()) (\<lambda>_.
        rbind (check_plan nts routeNames pathModeValue warmup iterations) (\<lambda>_.
        Inr \<lparr>br_prompt = prompt, br_routeNames = routeNames, br_iterations = iterations, br_warmup = warmup,
             br_concurrency = concurrency, br_pathModeValue = pathModeValue, br_timeoutMs = timeoutMs\<rparr>))))))))))"

section \<open>Observability\<close>

record trace_list_args =
  tl_routeId :: "string option"
  tl_providerId :: "string option"
  tl_outcome :: "string option"
  tl_limit :: "rat option"

definition parseTraceListArgs :: "json option \<Rightarrow> tool_failure + trace_list_args" where
  "parseTraceListArgs params =
     parseToolArgs params ''trace_list'' [''route_id'', ''provider_id'', ''outcome'', ''limit''] (\<lambda>objectParams.
     rbind (getOptionalObservationOutcome objectParams ''outcome'') (\<lambda>outcome.
     rbind (getOptionalPositiveInteger objectParams ''limit'') (\<lambda>limit.
     Inr \<lparr>tl_routeId = getOptionalString objectParams ''route_id'', tl_providerId = getOptionalString objectParams ''provider_id'',
          tl_outcome = outcome, tl_limit = limit\<rparr>)))"

text \<open>Two parsers throw a plain error.\<close>

definition parseTraceShowArgs :: "json option \<Rightarrow> tool_failure + string" where
  "parseTraceShowArgs params =
     parseToolArgs params ''trace_show'' [''trace_id''] (\<lambda>objectParams.
       non_empty (getOptionalString objectParams ''trace_id'') (OtherError (Some (tool_requires ''trace_show'' ''trace_id''))))"

record trace_stats_args =
  ts_routeId :: "string option"
  ts_providerId :: "string option"
  ts_outcome :: "string option"

definition parseTraceStatsArgs :: "json option \<Rightarrow> tool_failure + trace_stats_args" where
  "parseTraceStatsArgs params =
     parseToolArgs params ''trace_stats'' [''route_id'', ''provider_id'', ''outcome''] (\<lambda>objectParams.
     rbind (getOptionalObservationOutcome objectParams ''outcome'') (\<lambda>outcome.
     Inr \<lparr>ts_routeId = getOptionalString objectParams ''route_id'', ts_providerId = getOptionalString objectParams ''provider_id'',
          ts_outcome = outcome\<rparr>))"

record trace_observations_args =
  to_routeId :: "string option"
  to_providerId :: "string option"
  to_kind :: "string option"
  to_event :: "string option"
  to_limit :: "rat option"

definition parseTraceObservationsArgs :: "json option \<Rightarrow> tool_failure + trace_observations_args" where
  "parseTraceObservationsArgs params =
     parseToolArgs params ''trace_observations'' [''route_id'', ''provider_id'', ''kind'', ''event'', ''limit''] (\<lambda>objectParams.
     rbind (getOptionalObservationKind objectParams ''kind'') (\<lambda>kind.
     rbind (getOptionalObservationEvent objectParams ''event'') (\<lambda>event.
     rbind (getOptionalPositiveInteger objectParams ''limit'') (\<lambda>limit.
     Inr \<lparr>to_routeId = getOptionalString objectParams ''route_id'', to_providerId = getOptionalString objectParams ''provider_id'',
          to_kind = kind, to_event = event, to_limit = limit\<rparr>))))"

definition validateTraceMaintenanceScope :: "string option \<Rightarrow> bool \<Rightarrow> rat option \<Rightarrow> string option" where
  "validateTraceMaintenanceScope traceId everything batchSize =
     (if everything \<and> traceId \<noteq> None then Some (''Use either '' @ quoted ''<trace-id>'' @ '' or '' @ quoted ''--all'' @ '', not both'')
      else if \<not> everything \<and> traceId = None then Some (''Provide '' @ quoted ''<trace-id>'' @ '' or '' @ quoted ''--all'')
      else if \<not> everything \<and> batchSize \<noteq> None then Some (''Flag '' @ quoted ''--batch-size'' @ '' is only supported with '' @ quoted ''--all'')
      else None)"

record trace_scope_args =
  sc_traceId :: "string option"
  sc_all :: bool
  sc_batchSize :: "rat option"

definition parseTraceScopeArgs :: "json option \<Rightarrow> string \<Rightarrow> tool_failure + trace_scope_args" where
  "parseTraceScopeArgs params toolName =
     parseToolArgs params toolName [''trace_id'', ''all'', ''batch_size''] (\<lambda>objectParams.
     let traceId = getOptionalString objectParams ''trace_id''; everything = (map_of objectParams ''all'' = Some (JBool True))
     in rbind (getOptionalPositiveInteger objectParams ''batch_size'') (\<lambda>batchSize.
        case validateTraceMaintenanceScope traceId everything batchSize of
          Some e \<Rightarrow> Inl (invalidInputFieldError e)
        | None \<Rightarrow> Inr \<lparr>sc_traceId = traceId, sc_all = everything, sc_batchSize = batchSize\<rparr>))"

definition parseTraceVerifyArgs :: "json option \<Rightarrow> tool_failure + trace_scope_args" where
  "parseTraceVerifyArgs params = parseTraceScopeArgs params ''trace_verify''"

definition parseTraceRepairArgs :: "json option \<Rightarrow> tool_failure + trace_scope_args" where
  "parseTraceRepairArgs params = parseTraceScopeArgs params ''trace_repair''"

definition PRUNE_OLDER_THAN_MESSAGE :: string where
  "PRUNE_OLDER_THAN_MESSAGE = ''duration like '' @ quoted ''14d'' @ '', '' @ quoted ''168h'' @ '', '' @ quoted ''30m'' @ '', or '' @ quoted ''2w''"

definition validatePruneOlderThan :: "string option \<Rightarrow> string option" where
  "validatePruneOlderThan olderThan =
     (case olderThan of
        None \<Rightarrow> None
      | Some v \<Rightarrow> if isRetentionDurationString (Some v) then None else Some PRUNE_OLDER_THAN_MESSAGE)"

definition parsePruneArgs :: "json option \<Rightarrow> tool_failure + string option" where
  "parsePruneArgs params =
     parseToolArgs params ''prune'' [''older_than''] (\<lambda>objectParams.
     let olderThan = getOptionalString objectParams ''older_than''
     in if validatePruneOlderThan olderThan \<noteq> None
        then Inl (invalidInputFieldError (field_must ''older_than'' (''a '' @ PRUNE_OLDER_THAN_MESSAGE @ ''.'')))
        else Inr olderThan)"

record ledger_list_args =
  ll_routeId :: "string option"
  ll_targetId :: "string option"
  ll_targetKind :: "string option"
  ll_operation :: "string option"
  ll_status :: "string option"
  ll_sourceSurface :: "string option"
  ll_sessionId :: "string option"
  ll_ownSession :: bool
  ll_optimizationRunId :: "string option"
  ll_mutationEventId :: "string option"
  ll_since :: "string option"
  ll_limit :: "rat option"

definition parseLedgerListArgs :: "json option \<Rightarrow> tool_failure + ledger_list_args" where
  "parseLedgerListArgs params =
     parseToolArgs params ''ledger_list''
       [''route_id'', ''target_id'', ''target_kind'', ''operation'', ''status'', ''source_surface'', ''session_id'', ''own_session'', ''run_id'',
        ''mutation_event_id'', ''since'', ''limit''] (\<lambda>objectParams.
     let ownSession = (getOptionalBooleanField objectParams ''own_session'' = Some True);
         since = getOptionalString objectParams ''since''
     in if validatePruneOlderThan since \<noteq> None
        then Inl (invalidInputFieldError (field_must ''since'' ''one of <number>m, <number>h, <number>d, or <number>w''))
        else rbind (getOptionalKnownValue objectParams ''target_kind'' CONTROL_PLANE_ACTION_TARGET_KINDS) (\<lambda>targetKind.
             rbind (getOptionalKnownValue objectParams ''operation'' CONTROL_PLANE_ACTION_OPERATIONS) (\<lambda>operation.
             rbind (getOptionalKnownValue objectParams ''status'' CONTROL_PLANE_ACTION_STATUSES) (\<lambda>status.
             rbind (getOptionalKnownValue objectParams ''source_surface'' CONTROL_PLANE_ACTION_SOURCE_SURFACES) (\<lambda>sourceSurface.
             rbind (getOptionalPositiveInteger objectParams ''limit'') (\<lambda>limit.
             Inr \<lparr>ll_routeId = getOptionalString objectParams ''route_id'', ll_targetId = getOptionalString objectParams ''target_id'',
                  ll_targetKind = targetKind, ll_operation = operation, ll_status = status, ll_sourceSurface = sourceSurface,
                  ll_sessionId = getOptionalString objectParams ''session_id'', ll_ownSession = ownSession,
                  ll_optimizationRunId = getOptionalString objectParams ''run_id'',
                  ll_mutationEventId = getOptionalString objectParams ''mutation_event_id'', ll_since = since, ll_limit = limit\<rparr>))))))"

definition parseLedgerShowArgs :: "json option \<Rightarrow> tool_failure + string" where
  "parseLedgerShowArgs params =
     parseToolArgs params ''ledger_show'' [''ledger_event_id''] (\<lambda>objectParams.
       non_empty (getOptionalString objectParams ''ledger_event_id'') (OtherError (Some (tool_requires ''ledger_show'' ''ledger_event_id''))))"

section \<open>Optimization\<close>

definition getRequiredOptimizeString :: "tool_params \<Rightarrow> string \<Rightarrow> string \<Rightarrow> tool_failure + string" where
  "getRequiredOptimizeString params field toolName =
     rbind (non_empty (getOptionalString params field) (invalidInputFieldError (tool_requires toolName field))) (\<lambda>v.
     rbind (assert_safe_field v (''field '' @ quoted field)) (\<lambda>_. Inr v))"

text \<open>The routes seen so far are kept in the order of their first occurrence.\<close>

fun unique_routes :: "json list \<Rightarrow> string list \<Rightarrow> tool_failure + string list" where
  "unique_routes [] uniqueRoutes = Inr uniqueRoutes"
| "unique_routes (route # rest) uniqueRoutes =
     (case route of
        JStr s \<Rightarrow>
          if length (trim s) = 0
          then Inl (invalidInputFieldError (''field '' @ quoted ''routes'' @ '' must contain only non-empty route names''))
          else rbind (assert_safe_field s (''field '' @ quoted ''routes'')) (\<lambda>_.
               unique_routes rest (if s \<in> set uniqueRoutes then uniqueRoutes else uniqueRoutes @ [s]))
      | _ \<Rightarrow> Inl (invalidInputFieldError (''field '' @ quoted ''routes'' @ '' must contain only non-empty route names'')))"

definition getOptionalRoutes :: "tool_params \<Rightarrow> tool_failure + string list option" where
  "getOptionalRoutes params =
     (case map_of params ''routes'' of
        None \<Rightarrow> Inr None
      | Some (JArr vs) \<Rightarrow>
          rbind (unique_routes vs []) (\<lambda>uniqueRoutes.
          if length uniqueRoutes = 0 then Inl (invalidInputFieldError (field_must ''routes'' ''a non-empty array of route names''))
          else if length uniqueRoutes > BENCH_MAX_ROUTES
          then Inl (invalidInputFieldError (''field '' @ quoted ''routes'' @ '' must contain at most '' @ digits_of_nat BENCH_MAX_ROUTES @
                 '' route names for '' @ quoted ''optimize_run''))
          else Inr (Some uniqueRoutes))
      | Some _ \<Rightarrow> Inl (invalidInputFieldError (field_must ''routes'' ''an array of route names'')))"

definition parseOptimizeListArgs :: "json option \<Rightarrow> tool_failure + rat option" where
  "parseOptimizeListArgs params =
     parseToolArgs params ''optimize_list'' [''limit''] (\<lambda>objectParams. getOptionalPositiveInteger objectParams ''limit'')"

definition parseOptimizeShowArgs :: "json option \<Rightarrow> tool_failure + string" where
  "parseOptimizeShowArgs params =
     parseToolArgs params ''optimize_show'' [''run_id''] (\<lambda>objectParams. getRequiredOptimizeString objectParams ''run_id'' ''optimize_show'')"

record optimize_flags =
  of_dryRun :: bool
  of_reload :: bool
  of_verify :: bool

definition optimize_flags_of :: "tool_params \<Rightarrow> optimize_flags" where
  "optimize_flags_of params =
     \<lparr>of_dryRun = or_else (getOptionalBooleanField params ''dry_run'') False,
      of_reload = or_else (getOptionalBooleanField params ''reload'') False,
      of_verify = or_else (getOptionalBooleanField params ''verify'') False\<rparr>"

definition parseOptimizeApplyArgs :: "json option \<Rightarrow> tool_failure + string \<times> string \<times> optimize_flags" where
  "parseOptimizeApplyArgs params =
     parseToolArgs params ''optimize_apply'' [''run_id'', ''route_id'', ''dry_run'', ''reload'', ''verify''] (\<lambda>objectParams.
     rbind (getRequiredOptimizeString objectParams ''run_id'' ''optimize_apply'') (\<lambda>runId.
     rbind (getRequiredOptimizeString objectParams ''route_id'' ''optimize_apply'') (\<lambda>routeId.
     Inr (runId, routeId, optimize_flags_of objectParams))))"

datatype restore_target = RestoreAction string | RestoreRunRoute string string

definition parseOptimizeRestoreArgs :: "json option \<Rightarrow> tool_failure + restore_target \<times> optimize_flags" where
  "parseOptimizeRestoreArgs params =
     parseToolArgs params ''optimize_restore'' [''action_id'', ''run_id'', ''route_id'', ''dry_run'', ''reload'', ''verify''] (\<lambda>objectParams.
     let has = (\<lambda>field. case getOptionalString objectParams field of None \<Rightarrow> False | Some v \<Rightarrow> length (trim v) > 0);
         hasRunRoute = (has ''run_id'' \<and> has ''route_id'');
         flags = optimize_flags_of objectParams
     in if (has ''action_id'' \<and> (has ''run_id'' \<or> has ''route_id'')) \<or> (\<not> has ''action_id'' \<and> \<not> hasRunRoute)
        then Inl (invalidInputFieldError (''Tool '' @ quoted ''optimize_restore'' @ '' requires either '' @ quoted ''action_id'' @ '' or both '' @
               quoted ''run_id'' @ '' and '' @ quoted ''route_id'' @ ''.''))
        else if has ''action_id''
        then rbind (getRequiredOptimizeString objectParams ''action_id'' ''optimize_restore'') (\<lambda>actionId. Inr (RestoreAction actionId, flags))
        else rbind (getRequiredOptimizeString objectParams ''run_id'' ''optimize_restore'') (\<lambda>runId.
             rbind (getRequiredOptimizeString objectParams ''route_id'' ''optimize_restore'') (\<lambda>routeId.
             Inr (RestoreRunRoute runId routeId, flags))))"

record reference_tokens =
  rt_input_tokens :: rat
  rt_output_tokens :: rat
  rt_cache_read_tokens :: rat
  rt_cache_write_tokens :: rat

definition DEFAULT_OPTIMIZE_REFERENCE_TOKENS :: reference_tokens where
  "DEFAULT_OPTIMIZE_REFERENCE_TOKENS =
     \<lparr>rt_input_tokens = 1000, rt_output_tokens = 1000, rt_cache_read_tokens = 0, rt_cache_write_tokens = 0\<rparr>"

record latency_args =
  la_prompt :: string
  la_iterations :: "rat option"
  la_warmup :: "rat option"
  la_concurrency :: "rat option"
  la_pathModeValue :: "string option"
  la_timeoutMs :: "rat option"

datatype optimize_objective = CostObjective reference_tokens | LatencyObjective latency_args

record optimize_run_args =
  or_modelId :: string
  or_requestedRoutes :: "string list option"
  or_objective :: optimize_objective

definition parse_latency :: "tool_params \<Rightarrow> tool_failure + latency_args" where
  "parse_latency objectParams =
     rbind (non_empty (getOptionalString objectParams ''prompt'')
              (invalidInputFieldError (''Tool '' @ quoted ''optimize_run'' @ '' requires non-empty '' @ quoted ''prompt'' @ '' when objective is '' @
                 quoted ''latency'' @ ''.''))) (\<lambda>prompt.
     rbind (case assertBenchmarkPromptLength prompt ''optimize_run'' of Inl e \<Rightarrow> Inl (invalidInputFieldError e) | Inr _ \<Rightarrow> Inr ()) (\<lambda>_.
     rbind (getOptionalPositiveInteger objectParams ''iterations'') (\<lambda>iterations.
     if exceeds iterations BENCH_MAX_ITERATIONS
     then Inl (invalidInputFieldError (at_most_for ''iterations'' BENCH_MAX_ITERATIONS ''optimize_run''))
     else rbind (getOptionalNonNegativeInteger objectParams ''warmup'') (\<lambda>warmup.
          rbind (getOptionalPositiveInteger objectParams ''concurrency'') (\<lambda>concurrency.
          if exceeds concurrency BENCH_MAX_CONCURRENCY
          then Inl (invalidInputFieldError (at_most_for ''concurrency'' BENCH_MAX_CONCURRENCY ''optimize_run''))
          else let pathModeValue = getOptionalString objectParams ''path_mode''
               in if pathModeValue \<noteq> None \<and> \<not> isBenchPathModeValue pathModeValue then Inl (invalidInputFieldError PATH_MODE_MESSAGE)
                  else rbind (getOptionalPositiveInteger objectParams ''timeout_ms'') (\<lambda>timeoutMs.
                       Inr \<lparr>la_prompt = prompt, la_iterations = iterations, la_warmup = warmup, la_concurrency = concurrency,
                            la_pathModeValue = pathModeValue, la_timeoutMs = timeoutMs\<rparr>))))))"

definition parse_reference_tokens :: "tool_params \<Rightarrow> tool_failure + reference_tokens" where
  "parse_reference_tokens objectParams =
     (let fallback = DEFAULT_OPTIMIZE_REFERENCE_TOKENS
      in rbind (getOptionalNonNegativeInteger objectParams ''input_tokens'') (\<lambda>inp.
         rbind (getOptionalNonNegativeInteger objectParams ''output_tokens'') (\<lambda>outp.
         rbind (getOptionalNonNegativeInteger objectParams ''cache_read_tokens'') (\<lambda>rd.
         rbind (getOptionalNonNegativeInteger objectParams ''cache_write_tokens'') (\<lambda>wr.
         Inr \<lparr>rt_input_tokens = or_else inp (rt_input_tokens fallback), rt_output_tokens = or_else outp (rt_output_tokens fallback),
              rt_cache_read_tokens = or_else rd (rt_cache_read_tokens fallback),
              rt_cache_write_tokens = or_else wr (rt_cache_write_tokens fallback)\<rparr>)))))"

definition parseOptimizeRunArgs :: "json option \<Rightarrow> tool_failure + optimize_run_args" where
  "parseOptimizeRunArgs params =
     parseToolArgs params ''optimize_run''
       [''model'', ''objective'', ''routes'', ''input_tokens'', ''output_tokens'', ''cache_read_tokens'', ''cache_write_tokens'', ''prompt'',
        ''iterations'', ''warmup'', ''concurrency'', ''path_mode'', ''timeout_ms''] (\<lambda>objectParams.
     rbind (getRequiredOptimizeString objectParams ''model'' ''optimize_run'') (\<lambda>modelId.
     rbind (getRequiredOptimizeString objectParams ''objective'' ''optimize_run'') (\<lambda>objective.
     if objective \<noteq> ''cost'' \<and> objective \<noteq> ''latency'' then Inl (invalidInputFieldError (field_must ''objective'' ''one of: cost, latency''))
     else rbind (getOptionalRoutes objectParams) (\<lambda>requestedRoutes.
          rbind (if objective = ''latency'' then rbind (parse_latency objectParams) (\<lambda>l. Inr (LatencyObjective l))
                 else rbind (parse_reference_tokens objectParams) (\<lambda>t. Inr (CostObjective t))) (\<lambda>what.
          Inr \<lparr>or_modelId = modelId, or_requestedRoutes = requestedRoutes, or_objective = what\<rparr>)))))"

section \<open>What the parsers accept\<close>

lemma parseToolArgs_Inr:
  "parseToolArgs params toolName allowedFields check = Inr r \<longleftrightarrow>
     (\<exists>fs. expectToolParamsObject params = Inr fs \<and> rejectUnknownToolFields (map fst fs) allowedFields toolName = Inr () \<and> check fs = Inr r)"
  by (auto simp: parseToolArgs_def rbind_Inr_iff)

lemma known_fields: "rejectUnknownToolFields ks allowed t = Inr u \<longleftrightarrow> set ks \<subseteq> set allowed"
  by (induction ks) simp_all

lemma params_object [simp]: "expectToolParamsObject (Some (JObj fs)) = Inr fs"
  by (simp add: expectToolParamsObject_def)

lemma positive_integer_Inr:
  "getOptionalPositiveInteger fs k = Inr r \<longleftrightarrow> map_of fs k = map_option JNum r \<and> (\<forall>n. r = Some n \<longrightarrow> n \<in> \<int> \<and> n > 0)"
  by (cases r) (auto simp: getOptionalPositiveInteger_def not_le split: option.splits json.splits)

lemma non_negative_integer_Inr:
  "getOptionalNonNegativeInteger fs k = Inr r \<longleftrightarrow> map_of fs k = map_option JNum r \<and> (\<forall>n. r = Some n \<longrightarrow> n \<in> \<int> \<and> n \<ge> 0)"
  by (cases r) (auto simp: getOptionalNonNegativeInteger_def not_less split: option.splits json.splits)

lemma non_empty_Inr: "non_empty v e = Inr s \<longleftrightarrow> v = Some s \<and> s \<noteq> []"
  by (auto simp: non_empty_def split: option.splits)

lemma selected_routes:
  "select_routes fs = Inr names \<Longrightarrow> names \<noteq> [] \<and> length names \<le> BENCH_MAX_ROUTES \<and> [] \<notin> set names"
  by (auto simp: select_routes_def normalizeBenchRouteSelection_def normalizeRouteNames_def Let_def list_ex_iff
      split: if_splits option.splits list.splits sum.splits)

lemma checked_plan:
  "check_plan nts names mode warmup iterations = Inr u \<longleftrightarrow>
     calculateBenchmarkTaskCount (length names) (or_else mode ''both'') (or_else warmup 1) (or_else iterations 3) \<le> of_nat BENCH_MAX_TOTAL_TASKS"
  by (simp add: check_plan_def assertBenchmarkTaskPlanSize_def Let_def)

lemma execution_ok:
  "execution_issue prompt iterations concurrency = Inr u \<Longrightarrow>
     length prompt \<le> BENCH_MAX_PROMPT_LENGTH \<and> \<not> exceeds iterations BENCH_MAX_ITERATIONS \<and> \<not> exceeds concurrency BENCH_MAX_CONCURRENCY"
  by (auto simp: execution_issue_def validateBenchExecutionInput_def assertBenchmarkPromptLength_def split: if_splits)

text \<open>
  Property (bench_plan_bounded). A benchmark that the parser accepts is within all its limits: a prompt of 1 to 65536
  characters, 1 to 32 named routes, at most 500 iterations, 16 requests at a time and 50000 tasks in all,
  counting both paths and the rounds of warming up.
\<close>
theorem bench_plan_bounded:
  assumes "parseBenchRunArgs nts params = Inr a"
  shows "0 < length (br_prompt a) \<and> length (br_prompt a) \<le> BENCH_MAX_PROMPT_LENGTH \<and>
    br_routeNames a \<noteq> [] \<and> length (br_routeNames a) \<le> BENCH_MAX_ROUTES \<and> [] \<notin> set (br_routeNames a) \<and>
    1 \<le> or_else (br_iterations a) 3 \<and> or_else (br_iterations a) 3 \<le> 500 \<and>
    1 \<le> or_else (br_concurrency a) 1 \<and> or_else (br_concurrency a) 1 \<le> 16 \<and> 0 \<le> or_else (br_warmup a) 1 \<and>
    calculateBenchmarkTaskCount (length (br_routeNames a)) (or_else (br_pathModeValue a) ''both'') (or_else (br_warmup a) 1)
      (or_else (br_iterations a) 3) \<le> 50000"
proof -
  from assms obtain fs where run: "execution_issue (br_prompt a) (br_iterations a) (br_concurrency a) = Inr ()" "br_prompt a \<noteq> []"
    and names: "select_routes fs = Inr (br_routeNames a)"
    and it: "getOptionalPositiveInteger fs ''iterations'' = Inr (br_iterations a)"
    and co: "getOptionalPositiveInteger fs ''concurrency'' = Inr (br_concurrency a)"
    and wa: "getOptionalNonNegativeInteger fs ''warmup'' = Inr (br_warmup a)"
    and plan: "check_plan nts (br_routeNames a) (br_pathModeValue a) (br_warmup a) (br_iterations a) = Inr ()"
    by (auto simp: parseBenchRunArgs_def parseToolArgs_Inr rbind_Inr_iff non_empty_Inr Let_def)
  have whole: "n \<in> \<int> \<Longrightarrow> n > 0 \<Longrightarrow> (1::rat) \<le> n" for n by (auto elim!: Ints_cases)
  have "1 \<le> or_else (br_iterations a) 3" "1 \<le> or_else (br_concurrency a) 1" "0 \<le> or_else (br_warmup a) 1"
    using it co wa whole by (auto simp: positive_integer_Inr non_negative_integer_Inr or_else_def split: option.splits)
  moreover have "or_else (br_iterations a) 3 \<le> 500" "or_else (br_concurrency a) 1 \<le> 16"
    using execution_ok [OF run(1)]
    by (auto simp: exceeds_def or_else_def BENCH_MAX_ITERATIONS_def BENCH_MAX_CONCURRENCY_def not_less split: option.splits)
  ultimately show ?thesis
    using selected_routes [OF names] execution_ok [OF run(1)] run(2) plan by (simp add: checked_plan BENCH_MAX_TOTAL_TASKS_def)
qed

theorem bench_plan_bounded_witness:
  "\<exists>a. parseBenchRunArgs (\<lambda>_. []) (Some (JObj [(''prompt'', JStr ''hi''), (''route_id'', JStr '' r ''), (''warmup'', JNum 0)])) = Inr a \<and>
     br_routeNames a = [''r''] \<and>
     calculateBenchmarkTaskCount (length (br_routeNames a)) (or_else (br_pathModeValue a) ''both'') (or_else (br_warmup a) 1)
       (or_else (br_iterations a) 3) \<le> 50000"
proof -
  let ?a = "\<lparr>br_prompt = ''hi'', br_routeNames = [''r''], br_iterations = None, br_warmup = Some 0, br_concurrency = None,
    br_pathModeValue = None, br_timeoutMs = None\<rparr>"
  have "parseBenchRunArgs (\<lambda>_. []) (Some (JObj [(''prompt'', JStr ''hi''), (''route_id'', JStr '' r ''), (''warmup'', JNum 0)])) = Inr ?a"
    by (simp add: parseBenchRunArgs_def parseToolArgs_def getOptionalString_def non_empty_def select_routes_def normalizeBenchRouteSelection_def js_string_defs
        getOptionalPositiveInteger_def getOptionalNonNegativeInteger_def execution_issue_def validateBenchExecutionInput_def exceeds_def
        check_plan_def assertBenchmarkTaskPlanSize_def calculateBenchmarkTaskCount_def or_else_def BENCH_MAX_ROUTES_def BENCH_MAX_PROMPT_LENGTH_def
        BENCH_MAX_TOTAL_TASKS_def Let_def)
  from bench_plan_bounded [OF this] this show ?thesis by (intro exI [of _ ?a]) simp
qed

text \<open>
  Property (created_entity_stored). What the parser accepts for a new model or a new route, the validation of the store
  accepts too, with exactly the values of the arguments; only the state of the configuration can refuse it.
\<close>
theorem created_entity_stored:
  "(\<forall>i. parseModelsCreateArgs params = Inr i \<longrightarrow>
      validateMutableModelEntity (mci_name i) (JObj (model_create_fields i)) =
        Inr (JObj [(''model_creator'', JStr (mci_model_creator i)), (''display_name'', JStr (mci_display_name i)),
                   (''cost'', nullable pickCostFields (mci_cost i))])) \<and>
   (\<forall>i. parseRoutesCreateArgs params = Inr i \<longrightarrow>
      validateMutableRouteEntity (rci_name i) (JObj (route_create_fields i)) = Inr (JObj (route_create_fields i)))"
  using mcp_input.model_created mcp_input.route_created
  by (auto simp: parseModelsCreateArgs_def parseRoutesCreateArgs_def parseToolArgs_Inr rbind_Inr_iff Let_def)

theorem created_entity_stored_witness:
  "\<exists>i. parseModelsCreateArgs (Some (JObj [(''model_id'', JStr ''m''), (''display_name'', JStr ''M''), (''model_creator'', JStr ''c'')])) = Inr i \<and>
     validateMutableModelEntity (mci_name i) (JObj (model_create_fields i)) =
       Inr (JObj [(''model_creator'', JStr ''c''), (''display_name'', JStr ''M''), (''cost'', JNull)])"
proof -
  let ?p = "Some (JObj [(''model_id'', JStr ''m''), (''display_name'', JStr ''M''), (''model_creator'', JStr ''c'')])"
  let ?i = "\<lparr>mci_name = ''m'', mci_display_name = ''M'', mci_model_creator = ''c'', mci_cost = None\<rparr>"
  have "\<not> isReservedObjectKey ''m''" by (simp add: isReservedObjectKey_def RESERVED_OBJECT_KEYS_def js_string_defs)
  then have "parseModelsCreateArgs ?p = Inr ?i"
    by (simp add: parseModelsCreateArgs_def parseToolArgs_Inr known_fields MODEL_MCP_CREATE_def validateModelCreateInput_def rbind_Inr_iff
        readers_Inr mcp_contract_def normalizeCostInput_def present_def non_blank_def js_string_defs)
  with created_entity_stored [of ?p] show ?thesis by (intro exI [of _ ?i]) (simp add: nullable_def)
qed

section \<open>Parsers after the validator\<close>

lemma conforms_text: "conforms v (text_schema 1) \<longleftrightarrow> (\<exists>s. v = JStr s \<and> s \<noteq> [])"
  by (subst conforms.simps) (cases v; auto simp: text_schema_def valueMatchesSchemaType_def record_fields_def Suc_le_eq)

lemma conforms_integer: "conforms v (integer_schema False 1 None) \<longleftrightarrow> (\<exists>n. v = JNum n \<and> n \<in> \<int> \<and> n \<ge> 1)"
  by (subst conforms.simps) (cases v; auto simp: integer_schema_def valueMatchesSchemaType_def record_fields_def)

lemma conforms_amount: "conforms v amount_schema \<longleftrightarrow> (\<exists>n. v = JNum n \<and> n \<ge> 0)"
  by (subst conforms.simps) (cases v; auto simp: amount_schema_def valueMatchesSchemaType_def record_fields_def)

lemma conforms_object:
  "conforms (JObj fs) (object_schema props req) \<longleftrightarrow>
     fst ` set fs \<subseteq> fst ` set props \<and> set req \<subseteq> fst ` set fs \<and> (\<forall>(key, p)\<in>set props. \<forall>w. map_of fs key = Some w \<longrightarrow> conforms w p)"
  by (subst conforms.simps) (simp add: object_schema_def object_schema_of_def valueMatchesSchemaType_def record_fields_def)

definition cost_keys :: "string list" where
  "cost_keys = [''input'', ''output'', ''cache_read'', ''cache_write'']"

lemma conforms_cost_object:
  "conforms (JObj fs) (cost_schema True) \<longleftrightarrow>
     fst ` set fs \<subseteq> set cost_keys \<and> set cost_keys \<subseteq> fst ` set fs \<and> (\<forall>k\<in>set cost_keys. \<forall>w. map_of fs k = Some w \<longrightarrow> conforms w amount_schema)"
  by (subst conforms.simps) (simp add: cost_schema_def cost_keys_def valueMatchesSchemaType_def record_fields_def)

lemma conforms_cost_kind:
  assumes "conforms v (cost_schema True)"
  obtains "v = JNull" | fs where "v = JObj fs"
proof -
  have "\<exists>t\<in>set (s_type (cost_schema True)). valueMatchesSchemaType v t"
    using assms by (subst (asm) conforms.simps) (simp add: cost_schema_def)
  then show ?thesis using that by (cases v) (auto simp: cost_schema_def valueMatchesSchemaType_def)
qed

lemma known_keys_subset: "set ks \<subseteq> set allowed \<Longrightarrow> known_keys_loop allowed l ks = Inr ()"
  by (induction ks) simp_all

lemma conforms_cost:
  assumes "conforms v (cost_schema True)"
  shows "\<exists>c. normalizeCostInput (Some v) a = Inr c"
  using assms
proof (cases rule: conforms_cost_kind)
  case 1
  then show ?thesis by (simp add: normalizeCostInput_def)
next
  case (2 fs)
  with assms have c: "fst ` set fs \<subseteq> set cost_keys" "set cost_keys \<subseteq> fst ` set fs"
    "\<And>k w. k \<in> set cost_keys \<Longrightarrow> map_of fs k = Some w \<Longrightarrow> \<exists>n. w = JNum n \<and> n \<ge> 0"
    by (simp_all add: conforms_cost_object conforms_amount)
  have given: "cost_field (JObj fs) k l = Inr (the_number (map_of fs k))" if "k \<in> set cost_keys" for k l
  proof -
    have "k \<in> fst ` set fs" using c(2) that by blast
    then obtain w where w: "map_of fs k = Some w" by (cases "map_of fs k") (auto simp: map_of_eq_None_iff)
    with c(3) [OF that w] show ?thesis by (auto simp: cost_field_def require_def)
  qed
  have "assertOnlyKnownKeys (JObj fs) cost_keys l = Inr ()" for l
    using c(1) by (simp add: assertOnlyKnownKeys_def record_fields_def known_keys_subset)
  then have "\<exists>k. validateCostConfig (Some (JObj fs)) cost_label = Inr k"
    using given by (simp add: validateCostConfig_def cost_keys_def)
  with 2 show ?thesis by (auto simp: normalizeCostInput_def)
qed

definition blank_field :: "tool_params \<Rightarrow> string \<Rightarrow> bool" where
  "blank_field fs k \<longleftrightarrow> \<not> non_blank (the_text (map_of fs k))"

lemma given_text:
  assumes "k \<in> fst ` set fs" "\<And>w. map_of fs k = Some w \<Longrightarrow> conforms w (text_schema 1)"
  shows "\<exists>s. map_of fs k = Some (JStr s)"
proof -
  from assms(1) obtain w where "map_of fs k = Some w" by (cases "map_of fs k") (auto simp: map_of_eq_None_iff)
  with assms(2) [OF this] show ?thesis unfolding conforms_text by auto
qed

lemma schema_of_create:
  "getToolDefinition ''models_create'' = Some tool \<Longrightarrow> td_inputSchema tool =
     object_schema [(''model_id'', text_schema 1), (''display_name'', text_schema 1), (''model_creator'', text_schema 1), (''cost'', cost_schema True)]
       [''model_id'', ''display_name'', ''model_creator'']"
  "getToolDefinition ''routes_create'' = Some tool \<Longrightarrow> td_inputSchema tool =
     object_schema [(''route_id'', text_schema 1), (''model'', text_schema 1), (''service_provider'', text_schema 1),
         (''provider_model_id'', text_schema 1), (''display_name'', text_schema 1), (''timeout_ms'', integer_schema False 1 None), (''cost'', cost_schema True)]
       [''route_id'', ''model'', ''service_provider'', ''provider_model_id'', ''display_name'']"
  by (auto simp: getToolDefinition_def getToolDefinitions_def defineTool_def)

lemma text_given:
  assumes "conforms (JObj fs) (object_schema props req)" "k \<in> set req" "(k, text_schema 1) \<in> set props"
  shows "\<exists>s. map_of fs k = Some (JStr s)"
proof -
  have "k \<in> fst ` set fs" "\<And>w. map_of fs k = Some w \<Longrightarrow> conforms w (text_schema 1)"
    using assms unfolding conforms_object by auto
  then show ?thesis by (rule given_text)
qed

lemma cost_given:
  assumes "conforms (JObj fs) (object_schema props req)" "(''cost'', cost_schema True) \<in> set props"
  shows "\<exists>c. normalizeCostInput (map_of fs ''cost'') False = Inr c"
proof (cases "map_of fs ''cost''")
  case (Some w)
  with assms have "conforms w (cost_schema True)" unfolding conforms_object by auto
  with Some conforms_cost show ?thesis by simp
qed (simp add: normalizeCostInput_def)

lemma timeout_given:
  assumes "conforms (JObj fs) (object_schema props req)" "(''timeout_ms'', integer_schema False 1 None) \<in> set props"
  shows "\<exists>r. getOptionalPositiveInteger fs ''timeout_ms'' = Inr r"
proof (cases "map_of fs ''timeout_ms''")
  case (Some w)
  with assms have "conforms w (integer_schema False 1 None)" unfolding conforms_object by auto
  then obtain n where "w = JNum n" "n \<in> \<int>" "n \<ge> 1" unfolding conforms_integer by auto
  with Some show ?thesis by (simp add: getOptionalPositiveInteger_def)
qed (simp add: getOptionalPositiveInteger_def)

text \<open>
  C34 (parser_refuses_blank_or_reserved). Of the arguments that the validator accepts for a new model or a new
  route, the parser refuses exactly those with a blank text or with a reserved name: the two checks of the
  server do not contradict each other.
\<close>
theorem parser_refuses_blank_or_reserved:
  assumes "getToolDefinition ''models_create'' = Some model_tool" "getToolDefinition ''routes_create'' = Some route_tool"
  shows "(validateToolArguments nts model_tool (JObj fs) = None \<longrightarrow>
      (is_ok (parseModelsCreateArgs (Some (JObj fs))) \<longleftrightarrow>
         \<not> isReservedObjectKey (the_text (map_of fs ''model_id'')) \<and> list_all (\<lambda>k. \<not> blank_field fs k) [''model_id'', ''display_name'', ''model_creator''])) \<and>
    (validateToolArguments nts route_tool (JObj fs) = None \<longrightarrow>
      (is_ok (parseRoutesCreateArgs (Some (JObj fs))) \<longleftrightarrow>
         \<not> isReservedObjectKey (the_text (map_of fs ''route_id'')) \<and>
         list_all (\<lambda>k. \<not> blank_field fs k) [''route_id'', ''model'', ''service_provider'', ''provider_model_id'', ''display_name'']))"
proof (intro conjI impI)
  assume "validateToolArguments nts model_tool (JObj fs) = None"
  then have c: "conforms (JObj fs) (object_schema [(''model_id'', text_schema 1), (''display_name'', text_schema 1),
      (''model_creator'', text_schema 1), (''cost'', cost_schema True)] [''model_id'', ''display_name'', ''model_creator''])"
    by (simp only: validateToolArguments_def validator_agrees schema_of_create(1) [OF assms(1)] simp_thms)
  obtain i n m where t: "map_of fs ''model_id'' = Some (JStr i)" "map_of fs ''display_name'' = Some (JStr n)" "map_of fs ''model_creator'' = Some (JStr m)"
    using text_given [OF c, of "''model_id''"] text_given [OF c, of "''display_name''"] text_given [OF c, of "''model_creator''"] by auto
  obtain k where k: "normalizeCostInput (map_of fs ''cost'') False = Inr k" using cost_given [OF c] by auto
  have known: "set (map fst fs) \<subseteq> set MODEL_MCP_CREATE" using c unfolding conforms_object by (auto simp: MODEL_MCP_CREATE_def)
  show "is_ok (parseModelsCreateArgs (Some (JObj fs))) \<longleftrightarrow>
      \<not> isReservedObjectKey (the_text (map_of fs ''model_id'')) \<and> list_all (\<lambda>k. \<not> blank_field fs k) [''model_id'', ''display_name'', ''model_creator'']"
    using t k known
    by (auto simp: is_ok_iff parseModelsCreateArgs_def parseToolArgs_Inr known_fields validateModelCreateInput_def rbind_Inr_iff
        readRequiredString_Inr mcp_contract_def blank_field_def)
next
  assume "validateToolArguments nts route_tool (JObj fs) = None"
  then have c: "conforms (JObj fs) (object_schema [(''route_id'', text_schema 1), (''model'', text_schema 1), (''service_provider'', text_schema 1),
      (''provider_model_id'', text_schema 1), (''display_name'', text_schema 1), (''timeout_ms'', integer_schema False 1 None), (''cost'', cost_schema True)]
      [''route_id'', ''model'', ''service_provider'', ''provider_model_id'', ''display_name''])"
    by (simp only: validateToolArguments_def validator_agrees schema_of_create(2) [OF assms(2)] simp_thms)
  obtain i m p q n where t: "map_of fs ''route_id'' = Some (JStr i)" "map_of fs ''model'' = Some (JStr m)"
    "map_of fs ''service_provider'' = Some (JStr p)" "map_of fs ''provider_model_id'' = Some (JStr q)" "map_of fs ''display_name'' = Some (JStr n)"
    using text_given [OF c, of "''route_id''"] text_given [OF c, of "''model''"] text_given [OF c, of "''service_provider''"]
      text_given [OF c, of "''provider_model_id''"] text_given [OF c, of "''display_name''"] by auto
  obtain k where k: "normalizeCostInput (map_of fs ''cost'') False = Inr k" using cost_given [OF c] by auto
  obtain r where r: "getOptionalPositiveInteger fs ''timeout_ms'' = Inr r" using timeout_given [OF c] by auto
  then have r': "\<exists>u. readOptionalTimeout d (map_option JNum r) l False = Inr u" for d :: "tool_failure contract_deps" and l
    by (cases r) (auto simp: positive_integer_Inr readOptionalTimeout_Inr)
  have known: "set (map fst fs) \<subseteq> set ROUTE_MCP_CREATE" using c unfolding conforms_object by (auto simp: ROUTE_MCP_CREATE_def)
  show "is_ok (parseRoutesCreateArgs (Some (JObj fs))) \<longleftrightarrow>
      \<not> isReservedObjectKey (the_text (map_of fs ''route_id'')) \<and>
      list_all (\<lambda>k. \<not> blank_field fs k) [''route_id'', ''model'', ''service_provider'', ''provider_model_id'', ''display_name'']"
    using t k known r r'
    by (auto simp: is_ok_iff parseRoutesCreateArgs_def parseToolArgs_Inr known_fields validateRouteCreateInput_def rbind_Inr_iff
        readRequiredString_Inr mcp_contract_def blank_field_def Let_def)
qed

definition blank_model :: tool_params where
  "blank_model = [(''model_id'', JStr ''m''), (''display_name'', JStr '' ''), (''model_creator'', JStr ''c'')]"

theorem parser_refuses_blank_or_reserved_witness:
  "\<exists>t. getToolDefinition ''models_create'' = Some t \<and> validateToolArguments (\<lambda>_. []) t (JObj blank_model) = None \<and>
     \<not> is_ok (parseModelsCreateArgs (Some (JObj blank_model)))"
proof -
  obtain t r where t: "getToolDefinition ''models_create'' = Some t" "getToolDefinition ''routes_create'' = Some r"
    by (simp add: getToolDefinition_def getToolDefinitions_def defineTool_def)
  have "conforms (JObj blank_model) (td_inputSchema t)"
    unfolding schema_of_create(1) [OF t(1)] conforms_object
    by (simp add: blank_model_def conforms_text del: One_nat_def)
  then have v: "validateToolArguments (\<lambda>_. []) t (JObj blank_model) = None" by (simp add: validateToolArguments_def validator_agrees)
  have "blank_field blank_model ''display_name''" by (simp add: blank_field_def blank_model_def non_blank_def js_string_defs)
  with parser_refuses_blank_or_reserved [OF t, of "\<lambda>_. []" blank_model] v t(1) show ?thesis by auto
qed

text \<open>
  Property (key_input_guarded). An inline key that the server accepts for a provider is neither blank nor the mask
  that it shows for a key, and the name of the provider is not reserved; creating a provider never sets a key.
\<close>
theorem key_input_guarded:
  "(\<forall>p k. parseProvidersSetKeyArgs params = Inr (p, k) \<longrightarrow> non_blank k \<and> k \<noteq> MASKED_SECRET_SENTINEL \<and> \<not> isReservedObjectKey p) \<and>
   (\<forall>i. parseProvidersCreateArgs params = Inr i \<longrightarrow>
      map_of (provider_create_fields i) ''api_key'' = None \<and> map_of (provider_create_fields i) ''api_key_env'' = Some JNull)"
  by (auto simp: parseProvidersSetKeyArgs_def parseToolArgs_Inr validateProviderSetKeyInput_def validateProviderClearKeyInput_def
      rbind_Inr_iff readRequiredString_Inr mcp_contract_def rejectMaskedSecretSentinel_def provider_create_fields_def optional_field_def
      split: if_splits option.splits)

theorem key_input_guarded_witness:
  "parseProvidersSetKeyArgs (Some (JObj [(''provider_id'', JStr ''p''), (''api_key'', JStr MASKED_SECRET_SENTINEL)])) \<noteq>
     Inr (''p'', MASKED_SECRET_SENTINEL)"
  using key_input_guarded [of "Some (JObj [(''provider_id'', JStr ''p''), (''api_key'', JStr MASKED_SECRET_SENTINEL)])"] by auto

end
