(* ===== verification/Config_Metadata.thy ===== *)
theory Config_Metadata
  imports Input_Contracts Mcp_Tools
begin

text \<open>
  The table that describes the fields of models, providers and routes, \<^verbatim>\<open>config/config-metadata.ts\<close>, and the
  description that the MCP server gives of it. Main result: for models and routes the description agrees with
  the field lists of the tools; for providers it promises a key at creation, which the tool refuses.
\<close>

section \<open>The table\<close>

definition MCP_USAGE_ERROR_CODES :: "string list" where
  "MCP_USAGE_ERROR_CODES =
     [''missing_required_field'', ''missing_flag_value'', ''invalid_flag_value'', ''conflicting_structured_input'', ''conflicting_input_modes'',
      ''conflicting_cost_flags'', ''incomplete_cost_flags'', ''unsupported_clear_cost'', ''invalid_input_field'', ''missing_update_fields'']"

definition MCP_ENTITY_STATE_ERROR_CODES :: "string list" where
  "MCP_ENTITY_STATE_ERROR_CODES =
     [''model_not_found'', ''provider_not_found'', ''route_not_found'', ''model_already_exists'', ''provider_already_exists'',
      ''route_already_exists'', ''model_in_use'', ''provider_in_use'', ''unknown_model'', ''unknown_service_provider'']"

record field_metadata =
  fm_type :: string
  fm_role :: "string option"
  fm_required_on_create :: "bool option"
  fm_writable_on :: "string list option"
  fm_mutation_mode :: "string option"
  fm_flag :: "string option"
  fm_flags :: "string list option"
  fm_clearable_on_update :: "bool option"
  fm_clear_flag :: "string option"
  fm_values :: "string list option"
  fm_constraints :: "string list option"
  fm_derived :: "bool option"
  fm_effective :: "bool option"
  fm_notes :: "string list option"

record entity_metadata =
  em_list_command :: string
  em_show_command :: string
  em_create_command :: string
  em_update_command :: string
  em_delete_command :: string
  em_show_includes_editability :: bool
  em_structured_input :: "string list"
  em_delete_constraints :: "string list"
  em_state_errors :: "string list"
  em_fields :: "(string \<times> field_metadata) list"

definition plain_field :: "string \<Rightarrow> field_metadata" where
  "plain_field t =
     \<lparr>fm_type = t, fm_role = None, fm_required_on_create = None, fm_writable_on = None, fm_mutation_mode = None, fm_flag = None,
      fm_flags = None, fm_clearable_on_update = None, fm_clear_flag = None, fm_values = None, fm_constraints = None,
      fm_derived = None, fm_effective = None, fm_notes = None\<rparr>"

definition model_fields :: "(string \<times> field_metadata) list" where
  "model_fields =
     [(''name'', (plain_field ''string'')\<lparr>fm_role := Some ''identifier'', fm_required_on_create := Some True, fm_writable_on := Some [''create''],
         fm_mutation_mode := Some ''positional''\<rparr>),
      (''display_name'', (plain_field ''string'')\<lparr>fm_required_on_create := Some True, fm_writable_on := Some [''create'', ''update''],
         fm_mutation_mode := Some ''flag_or_structured_input'', fm_flag := Some ''--display-name''\<rparr>),
      (''model_creator'', (plain_field ''string'')\<lparr>fm_required_on_create := Some True, fm_writable_on := Some [''create'', ''update''],
         fm_mutation_mode := Some ''flag_or_structured_input'', fm_flag := Some ''--model-creator''\<rparr>),
      (''cost'', (plain_field ''cost'')\<lparr>fm_required_on_create := Some False, fm_writable_on := Some [''create'', ''update''],
         fm_clearable_on_update := Some True, fm_mutation_mode := Some ''cost_flags_or_structured_input'',
         fm_flags := Some [''--cost-input'', ''--cost-output'', ''--cost-cache-read'', ''--cost-cache-write''], fm_clear_flag := Some ''--clear-cost'',
         fm_constraints := Some [''all four cost flags are required when using flag-based cost input'', ''cost flags cannot be mixed with --stdin or --json-input'']\<rparr>),
      (''route_count'', (plain_field ''integer'')\<lparr>fm_derived := Some True\<rparr>)]"

definition provider_fields :: "(string \<times> field_metadata) list" where
  "provider_fields =
     [(''name'', (plain_field ''string'')\<lparr>fm_role := Some ''identifier'', fm_required_on_create := Some True, fm_writable_on := Some [''create''],
         fm_mutation_mode := Some ''positional''\<rparr>),
      (''endpoint'', (plain_field ''string'')\<lparr>fm_required_on_create := Some True, fm_writable_on := Some [''create'', ''update''],
         fm_mutation_mode := Some ''flag_or_structured_input'', fm_flag := Some ''--endpoint''\<rparr>),
      (''allow_private_endpoints'', (plain_field ''boolean'')\<lparr>fm_required_on_create := Some False, fm_writable_on := Some [''create'', ''update''],
         fm_mutation_mode := Some ''flag_or_structured_input'', fm_flag := Some ''--allow-private-endpoints'',
         fm_notes := Some [''required to permit localhost, loopback, link-local, or RFC1918/private provider endpoints'']\<rparr>),
      (''allow_insecure_http'', (plain_field ''boolean'')\<lparr>fm_required_on_create := Some False, fm_writable_on := Some [''create'', ''update''],
         fm_mutation_mode := Some ''flag_or_structured_input'', fm_flag := Some ''--allow-insecure-http'',
         fm_notes := Some [''required to permit plain http:// provider endpoints instead of https://'']\<rparr>),
      (''api_mode'', (plain_field ''enum'')\<lparr>fm_values := Some API_MODES, fm_required_on_create := Some True,
         fm_writable_on := Some [''create'', ''update''], fm_mutation_mode := Some ''flag_or_structured_input'', fm_flag := Some ''--api-mode''\<rparr>),
      (''anthropic_version'', (plain_field ''string_or_null'')\<lparr>fm_required_on_create := Some False, fm_writable_on := Some [''create'', ''update''],
         fm_mutation_mode := Some ''flag_or_structured_input'', fm_flag := Some ''--anthropic-version''\<rparr>),
      (''model_id_format'', (plain_field ''enum'')\<lparr>fm_values := Some MODEL_ID_FORMATS, fm_required_on_create := Some False,
         fm_writable_on := Some [''create'', ''update''], fm_mutation_mode := Some ''flag_or_structured_input'', fm_flag := Some ''--model-id-format'',
         fm_notes := Some [''controls how provider_model_id is shaped for upstream requests'']\<rparr>),
      (''api_key'', (plain_field ''secret_or_null'')\<lparr>fm_required_on_create := Some False, fm_writable_on := Some [''create''],
         fm_mutation_mode := Some ''stdin_or_structured_input'', fm_flag := Some ''--api-key-stdin'',
         fm_notes := Some [''providers show returns a masked display-safe value rather than the raw secret'', ''rotate or clear inline secrets after creation with providers set-key / providers clear-key rather than providers update'']\<rparr>),
      (''api_key_env'', (plain_field ''string_or_null'')\<lparr>fm_required_on_create := Some False, fm_writable_on := Some [''create'', ''update''],
         fm_mutation_mode := Some ''flag_or_structured_input'', fm_flag := Some ''--api-key-env''\<rparr>),
      (''auth_source'', (plain_field ''enum'')\<lparr>fm_values := Some [''inline override'', ''secrets override'', ''env var'', ''not required''],
         fm_derived := Some True\<rparr>)]"

definition route_fields :: "(string \<times> field_metadata) list" where
  "route_fields =
     [(''name'', (plain_field ''string'')\<lparr>fm_role := Some ''identifier'', fm_required_on_create := Some True, fm_writable_on := Some [''create''],
         fm_mutation_mode := Some ''positional''\<rparr>),
      (''display_name'', (plain_field ''string'')\<lparr>fm_required_on_create := Some True, fm_writable_on := Some [''create'', ''update''],
         fm_mutation_mode := Some ''flag_or_structured_input'', fm_flag := Some ''--display-name''\<rparr>),
      (''model'', (plain_field ''string'')\<lparr>fm_required_on_create := Some True, fm_writable_on := Some [''create'', ''update''],
         fm_mutation_mode := Some ''flag_or_structured_input'', fm_flag := Some ''--model''\<rparr>),
      (''service_provider'', (plain_field ''string'')\<lparr>fm_required_on_create := Some True, fm_writable_on := Some [''create'', ''update''],
         fm_mutation_mode := Some ''flag_or_structured_input'', fm_flag := Some ''--service-provider''\<rparr>),
      (''provider_model_id'', (plain_field ''string'')\<lparr>fm_required_on_create := Some True, fm_writable_on := Some [''create'', ''update''],
         fm_mutation_mode := Some ''flag_or_structured_input'', fm_flag := Some ''--provider-model-id''\<rparr>),
      (''timeout_ms'', (plain_field ''integer_or_null'')\<lparr>fm_required_on_create := Some False, fm_writable_on := Some [''create'', ''update''],
         fm_clearable_on_update := Some True, fm_mutation_mode := Some ''flag_or_structured_input'', fm_flag := Some ''--timeout-ms'',
         fm_clear_flag := Some ''--clear-timeout-ms'',
         fm_constraints := Some [''route timeout override must be a positive integer when provided'', ''when omitted, the route inherits the top-level timeout_ms default'']\<rparr>),
      (''cost'', (plain_field ''cost'')\<lparr>fm_required_on_create := Some False, fm_writable_on := Some [''create'', ''update''],
         fm_clearable_on_update := Some True, fm_mutation_mode := Some ''cost_flags_or_structured_input'',
         fm_flags := Some [''--cost-input'', ''--cost-output'', ''--cost-cache-read'', ''--cost-cache-write''], fm_clear_flag := Some ''--clear-cost'',
         fm_constraints := Some [''all four cost flags are required when using flag-based cost input'', ''cost flags cannot be mixed with --stdin or --json-input'', ''route cost overrides model cost when both are present'']\<rparr>),
      (''api_mode'', (plain_field ''enum'')\<lparr>fm_derived := Some True\<rparr>),
      (''model_cost'', (plain_field ''cost_or_null'')\<lparr>fm_derived := Some True\<rparr>),
      (''effective_timeout_ms'', (plain_field ''integer_or_null'')\<lparr>fm_effective := Some True\<rparr>),
      (''effective_cost'', (plain_field ''cost_or_null'')\<lparr>fm_effective := Some True\<rparr>)]"

definition buildConfigEntityDefinitions :: "(string \<times> entity_metadata) list" where
  "buildConfigEntityDefinitions =
     [(''model'', \<lparr>em_list_command = ''switchmaxxer models list'',
         em_show_command = ''switchmaxxer models show <model-id>'',
         em_create_command = ''switchmaxxer models create <model-id>'',
         em_update_command = ''switchmaxxer models update <model-id>'',
         em_delete_command = ''switchmaxxer models delete <model-id>'',
         em_show_includes_editability = True,
         em_structured_input = [''--stdin'', ''--json-input''],
         em_delete_constraints = [''model delete is blocked while any route still references the model''],
         em_state_errors = [''model_not_found'', ''model_already_exists'', ''model_in_use''],
         em_fields = model_fields\<rparr>),
      (''provider'', \<lparr>em_list_command = ''switchmaxxer providers list'',
         em_show_command = ''switchmaxxer providers show <provider-id>'',
         em_create_command = ''switchmaxxer providers create <provider-id>'',
         em_update_command = ''switchmaxxer providers update <provider-id>'',
         em_delete_command = ''switchmaxxer providers delete <provider-id>'',
         em_show_includes_editability = True,
         em_structured_input = [''--stdin'', ''--json-input''],
         em_delete_constraints = [''provider delete is blocked while any route still references the provider''],
         em_state_errors = [''provider_not_found'', ''provider_already_exists'', ''provider_in_use''],
         em_fields = provider_fields\<rparr>),
      (''route'', \<lparr>em_list_command = ''switchmaxxer routes list'',
         em_show_command = ''switchmaxxer routes show <route-id>'',
         em_create_command = ''switchmaxxer routes create <route-id>'',
         em_update_command = ''switchmaxxer routes update <route-id>'',
         em_delete_command = ''switchmaxxer routes delete <route-id>'',
         em_show_includes_editability = True,
         em_structured_input = [''--stdin'', ''--json-input''],
         em_delete_constraints = [],
         em_state_errors = [''route_not_found'', ''route_already_exists'', ''unknown_model'', ''unknown_service_provider''],
         em_fields = route_fields\<rparr>)]"


section \<open>What the MCP server shows of it\<close>

definition texts :: "string list \<Rightarrow> json" where
  "texts ss = JArr (map JStr ss)"

definition shown :: "string \<Rightarrow> ('a \<Rightarrow> json) \<Rightarrow> 'a option \<Rightarrow> (string \<times> json) list" where
  "shown k f v = (case v of None \<Rightarrow> [] | Some x \<Rightarrow> [(k, f x)])"

definition buildMcpFieldProjection :: "field_metadata \<Rightarrow> json" where
  "buildMcpFieldProjection f =
     JObj ([(''type'', JStr (fm_type f))] @ shown ''role'' JStr (fm_role f) @ shown ''required_on_create'' JBool (fm_required_on_create f) @
       shown ''writable_on'' texts (fm_writable_on f) @ shown ''clearable_on_update'' JBool (fm_clearable_on_update f) @
       shown ''values'' texts (fm_values f) @ shown ''constraints'' texts (fm_constraints f) @ shown ''derived'' JBool (fm_derived f) @
       shown ''effective'' JBool (fm_effective f) @ shown ''notes'' texts (fm_notes f))"

definition buildConfigMetadataProjection :: "(entity_metadata \<Rightarrow> json) \<Rightarrow> json" where
  "buildConfigMetadataProjection projectEntity =
     JObj [(''entities'', JObj (map (\<lambda>(n, e). (n, projectEntity e)) buildConfigEntityDefinitions)),
           (''error_codes'', JObj [(''mutation_usage'', texts MCP_USAGE_ERROR_CODES), (''entity_state'', texts MCP_ENTITY_STATE_ERROR_CODES)])]"

definition buildMcpConfigSchemaMetadata :: json where
  "buildMcpConfigSchemaMetadata =
     buildConfigMetadataProjection (\<lambda>e.
       JObj [(''show_includes_editability'', JBool (em_show_includes_editability e)),
             (''delete_constraints'', texts (em_delete_constraints e)), (''state_errors'', texts (em_state_errors e)),
             (''fields'', JObj (map (\<lambda>(n, f). (n, buildMcpFieldProjection f)) (em_fields e)))])"

definition editability :: "string list \<Rightarrow> string list \<Rightarrow> string list \<Rightarrow> json" where
  "editability writable derived effective = JObj [(''writable'', texts writable), (''derived'', texts derived), (''effective'', texts effective)]"

definition buildModelFieldMetadata :: json where
  "buildModelFieldMetadata = editability [''display_name'', ''model_creator'', ''cost''] [''name'', ''route_count''] []"

definition buildProviderFieldMetadata :: json where
  "buildProviderFieldMetadata =
     editability [''endpoint'', ''allow_private_endpoints'', ''allow_insecure_http'', ''api_mode'', ''anthropic_version'', ''model_id_format'',
       ''api_key_env''] [''name'', ''auth_source''] []"

definition buildRouteFieldMetadata :: json where
  "buildRouteFieldMetadata =
     editability [''display_name'', ''model'', ''service_provider'', ''provider_model_id'', ''timeout_ms'', ''cost'']
       [''name'', ''api_mode'', ''model_cost''] [''effective_cost'', ''effective_timeout_ms'']"

section \<open>Agreement with the tools\<close>

text \<open>The fields of an entity with a mark, read off the description itself.\<close>

definition described :: "string \<Rightarrow> (json \<Rightarrow> bool) \<Rightarrow> string set" where
  "described entity P =
     (case Option.bind (jprop buildMcpConfigSchemaMetadata ''entities'') (\<lambda>es. Option.bind (jprop es entity) (\<lambda>e. jprop e ''fields'')) of
        Some (JObj fs) \<Rightarrow> set (map fst (filter (\<lambda>(_, f). P f) fs))
      | _ \<Rightarrow> {})"

definition writable_on :: "string \<Rightarrow> json \<Rightarrow> bool" where
  "writable_on operation f = (case jprop f ''writable_on'' of Some (JArr vs) \<Rightarrow> JStr operation \<in> set vs | _ \<Rightarrow> False)"

definition required_on_create :: "json \<Rightarrow> bool" where
  "required_on_create f \<longleftrightarrow> jprop f ''required_on_create'' = Some (JBool True)"

definition tool_required :: "string \<Rightarrow> string set" where
  "tool_required toolName =
     (case getToolDefinition toolName of Some t \<Rightarrow> set (s_required (td_inputSchema t)) | None \<Rightarrow> {})"

definition listed :: "string \<Rightarrow> json \<Rightarrow> string set" where
  "listed k e = (case jprop e k of Some (JArr vs) \<Rightarrow> the_text ` Some ` set vs | _ \<Rightarrow> {})"

lemmas described_defs =
  described_def buildMcpConfigSchemaMetadata_def buildConfigMetadataProjection_def buildConfigEntityDefinitions_def
  buildMcpFieldProjection_def plain_field_def shown_def texts_def writable_on_def required_on_create_def

lemma described_model:
  "described ''model'' (writable_on ''create'') = {''name'', ''display_name'', ''model_creator'', ''cost''}"
  "described ''model'' (writable_on ''update'') = {''display_name'', ''model_creator'', ''cost''}"
  "described ''model'' required_on_create = {''name'', ''display_name'', ''model_creator''}"
  by (simp_all add: described_defs model_fields_def)

lemma described_route:
  "described ''route'' (writable_on ''create'') = {''name'', ''display_name'', ''model'', ''service_provider'', ''provider_model_id'', ''timeout_ms'', ''cost''}"
  "described ''route'' (writable_on ''update'') = {''display_name'', ''model'', ''service_provider'', ''provider_model_id'', ''timeout_ms'', ''cost''}"
  "described ''route'' required_on_create = {''name'', ''display_name'', ''model'', ''service_provider'', ''provider_model_id''}"
  by (simp_all add: described_defs route_fields_def)

lemma described_provider:
  "described ''provider'' (writable_on ''create'') = {''name'', ''endpoint'', ''allow_private_endpoints'', ''allow_insecure_http'', ''api_mode'',
     ''anthropic_version'', ''model_id_format'', ''api_key'', ''api_key_env''}"
  "described ''provider'' (writable_on ''update'') = {''endpoint'', ''allow_private_endpoints'', ''allow_insecure_http'', ''api_mode'',
     ''anthropic_version'', ''model_id_format'', ''api_key_env''}"
  "described ''provider'' required_on_create = {''name'', ''endpoint'', ''api_mode''}"
  by (simp_all add: described_defs provider_fields_def)

lemma tools_require:
  "tool_required ''models_create'' = {''model_id'', ''display_name'', ''model_creator''}"
  "tool_required ''routes_create'' = {''route_id'', ''model'', ''service_provider'', ''provider_model_id'', ''display_name''}"
  "tool_required ''providers_create'' = {''provider_id'', ''endpoint'', ''api_mode''}"
  by (simp_all add: tool_required_def getToolDefinition_def getToolDefinitions_def defineTool_def object_schema_def object_schema_of_def)

text \<open>
  Property (metadata_describes_tools). What the MCP server describes as writable and required for models and routes is what its
  tools take and require, next to the identifier, and what it lists as editable beside an entity; for
  providers this holds of updates and of required fields.
\<close>
theorem metadata_describes_tools:
  "described ''model'' (writable_on ''create'') - {''name''} = set MODEL_MCP_CREATE - {''model_id''} \<and>
   described ''model'' (writable_on ''update'') = set MODEL_MCP_UPDATE - {''model_id''} \<and>
   described ''model'' required_on_create - {''name''} = tool_required ''models_create'' - {''model_id''} \<and>
   described ''route'' (writable_on ''create'') - {''name''} = set ROUTE_MCP_CREATE - {''route_id''} \<and>
   described ''route'' (writable_on ''update'') = set ROUTE_MCP_UPDATE - {''route_id''} \<and>
   described ''route'' required_on_create - {''name''} = tool_required ''routes_create'' - {''route_id''} \<and>
   described ''provider'' (writable_on ''update'') = set PROVIDER_MCP_UPDATE - {''provider_id'', ''no_auth''} \<and>
   described ''provider'' required_on_create - {''name''} = tool_required ''providers_create'' - {''provider_id''} \<and>
   listed ''writable'' buildModelFieldMetadata = described ''model'' (writable_on ''update'') \<and>
   listed ''writable'' buildProviderFieldMetadata = described ''provider'' (writable_on ''update'') \<and>
   listed ''writable'' buildRouteFieldMetadata = described ''route'' (writable_on ''update'')"
  unfolding described_model described_route described_provider tools_require
  by (simp add: listed_def buildModelFieldMetadata_def buildProviderFieldMetadata_def buildRouteFieldMetadata_def editability_def texts_def
      MODEL_MCP_CREATE_def MODEL_MCP_UPDATE_def ROUTE_MCP_CREATE_def ROUTE_MCP_UPDATE_def PROVIDER_MCP_UPDATE_def insert_commute insert_Diff_if)

text \<open>
  Property (metadata_promises_keys). The description says of both kinds of keys that they are writable when a provider is
  created, but the tool that creates providers takes neither.
\<close>
theorem metadata_promises_keys:
  "{''api_key'', ''api_key_env''} \<subseteq> described ''provider'' (writable_on ''create'') \<and>
   {''api_key'', ''api_key_env''} \<inter> set PROVIDER_MCP_CREATE = {}"
  unfolding described_provider by (simp add: PROVIDER_MCP_CREATE_def)

end
