(* ===== verification/Control_Actions.thy ===== *)
theory Control_Actions
  imports Mcp_Tools Log_Text "HOL-Library.Product_Lexorder" "HOL-Library.Multiset"
begin

text \<open>
  The ledger of control-plane actions: \<^verbatim>\<open>observability/timestamps.ts\<close>,
  \<^verbatim>\<open>observability/ostrich/ledger/control-plane-actions.ts\<close> and \<^verbatim>\<open>config-mutation-audit.ts\<close>, and the port for
  audits of \<^verbatim>\<open>observability-module.ts\<close>. The table is a list of rows; its three statements are translated from
  their SQL. Any statement may fail, as the list of outcomes of the database says.

  Main results: a listing is bounded, in order and exactly what was asked for; what identifies a row never
  changes; an audit adds one row, from started to finished, and leaves all others as they are.
\<close>

section \<open>Time stamps\<close>

text \<open>The expression of \<open>isIsoTimestampShape\<close>: \<open>d\<close> stands for a digit.\<close>

fun fits_template :: "string \<Rightarrow> string \<Rightarrow> bool" where
  "fits_template [] [] = True"
| "fits_template (t # ts) (c # cs) = ((if t = CHR ''d'' then is_digit c else c = t) \<and> fits_template ts cs)"
| "fits_template _ _ = False"

definition isIsoTimestampShape :: "string \<Rightarrow> bool" where
  "isIsoTimestampShape v \<longleftrightarrow> fits_template ''dddd-dd-ddTdd:dd:ddZ'' v \<or> fits_template ''dddd-dd-ddTdd:dd:dd.dddZ'' v"

definition digits_at :: "nat \<Rightarrow> nat \<Rightarrow> string \<Rightarrow> nat" where
  "digits_at i n v = nat_of_digits (take n (drop i v))"

text \<open>\<open>Date.parse\<close> of such a text is a number; a day up to 31 is taken in every month.\<close>

definition date_parses :: "string \<Rightarrow> bool" where
  "date_parses v \<longleftrightarrow>
     1 \<le> digits_at 5 2 v \<and> digits_at 5 2 v \<le> 12 \<and> 1 \<le> digits_at 8 2 v \<and> digits_at 8 2 v \<le> 31 \<and>
     digits_at 14 2 v \<le> 59 \<and> digits_at 17 2 v \<le> 59 \<and>
     (digits_at 11 2 v \<le> 23 \<or>
      digits_at 11 2 v = 24 \<and> digits_at 14 2 v = 0 \<and> digits_at 17 2 v = 0 \<and> (length v = 24 \<longrightarrow> digits_at 20 3 v = 0))"

definition assertIsoTimestampString :: "string \<Rightarrow> string \<Rightarrow> string \<Rightarrow> string + unit" where
  "assertIsoTimestampString v fieldName entityName =
     (if \<not> non_blank v then Inl (entityName @ '' field '' @ quoted fieldName @ '' must be a non-empty string.'')
      else if \<not> isIsoTimestampShape v \<or> \<not> date_parses v
      then Inl (entityName @ '' field '' @ quoted fieldName @ '' must be an ISO-8601 timestamp.'')
      else Inr ())"

definition assertNullableIsoTimestampString :: "string option \<Rightarrow> string \<Rightarrow> string \<Rightarrow> string + unit" where
  "assertNullableIsoTimestampString v fieldName entityName =
     (case v of None \<Rightarrow> Inr () | Some s \<Rightarrow> assertIsoTimestampString s fieldName entityName)"

section \<open>Rows\<close>

record action_event =
  ae_id :: string
  ae_created_at :: string
  ae_finished_at :: "string option"
  ae_created_by :: string
  ae_source_surface :: string
  ae_actor_kind :: string
  ae_actor_id :: "string option"
  ae_session_id :: "string option"
  ae_operation :: string
  ae_status :: string
  ae_target_kind :: string
  ae_target_id :: "string option"
  ae_optimization_run_id :: "string option"
  ae_mutation_event_id :: "string option"
  ae_correlation_ids_json :: string
  ae_result_json :: string
  ae_error_json :: string
  ae_metadata_json :: string

definition CONTROL_PLANE_ACTION_ACTOR_KINDS :: "string list" where
  "CONTROL_PLANE_ACTION_ACTOR_KINDS = [''operator'', ''agent'', ''system'', ''unknown'']"

definition action_field :: "string \<Rightarrow> string \<Rightarrow> string" where
  "action_field fieldName rest = ''Control-plane action field '' @ quoted fieldName @ '' '' @ rest"

definition assertNonEmptyString :: "string \<Rightarrow> string \<Rightarrow> string + unit" where
  "assertNonEmptyString v fieldName = rensure (non_blank v) (action_field fieldName ''must be a non-empty string.'')"

definition assertNullableNonEmptyString :: "string option \<Rightarrow> string \<Rightarrow> string + unit" where
  "assertNullableNonEmptyString v fieldName = (case v of None \<Rightarrow> Inr () | Some s \<Rightarrow> assertNonEmptyString s fieldName)"

definition assertKnownStringValue :: "string \<Rightarrow> string \<Rightarrow> string list \<Rightarrow> string + unit" where
  "assertKnownStringValue v fieldName allowedValues =
     rbind (assertNonEmptyString v fieldName) (\<lambda>_.
     rensure (v \<in> set allowedValues) (action_field fieldName (''must be one of '' @ join '', '' (map quoted allowedValues) @ ''.'')))"

definition assertJsonObjectString :: "(string \<Rightarrow> json option) \<Rightarrow> string \<Rightarrow> string \<Rightarrow> string + unit" where
  "assertJsonObjectString parseJson v fieldName =
     rbind (assertNonEmptyString v fieldName) (\<lambda>_.
     case parseJson v of
       None \<Rightarrow> Inl (action_field fieldName ''must be valid JSON.'')
     | Some parsed \<Rightarrow> rensure (isRecord (Some parsed)) (action_field fieldName ''must be a JSON object.''))"

definition ACTION_ENTITY :: string where
  "ACTION_ENTITY = ''Control-plane action event''"

definition validateControlPlaneActionEvent :: "(string \<Rightarrow> json option) \<Rightarrow> action_event \<Rightarrow> string + unit" where
  "validateControlPlaneActionEvent parseJson r =
     rbind (assertNonEmptyString (ae_id r) ''id'') (\<lambda>_.
     rbind (assertIsoTimestampString (ae_created_at r) ''created_at'' ACTION_ENTITY) (\<lambda>_.
     rbind (assertNullableIsoTimestampString (ae_finished_at r) ''finished_at'' ACTION_ENTITY) (\<lambda>_.
     rbind (assertNonEmptyString (ae_created_by r) ''created_by'') (\<lambda>_.
     rbind (assertKnownStringValue (ae_source_surface r) ''source_surface'' CONTROL_PLANE_ACTION_SOURCE_SURFACES) (\<lambda>_.
     rbind (assertKnownStringValue (ae_actor_kind r) ''actor_kind'' CONTROL_PLANE_ACTION_ACTOR_KINDS) (\<lambda>_.
     rbind (assertNullableNonEmptyString (ae_actor_id r) ''actor_id'') (\<lambda>_.
     rbind (assertNullableNonEmptyString (ae_session_id r) ''session_id'') (\<lambda>_.
     rbind (assertKnownStringValue (ae_operation r) ''operation'' CONTROL_PLANE_ACTION_OPERATIONS) (\<lambda>_.
     rbind (assertKnownStringValue (ae_status r) ''status'' CONTROL_PLANE_ACTION_STATUSES) (\<lambda>_.
     rbind (assertKnownStringValue (ae_target_kind r) ''target_kind'' CONTROL_PLANE_ACTION_TARGET_KINDS) (\<lambda>_.
     rbind (assertNullableNonEmptyString (ae_target_id r) ''target_id'') (\<lambda>_.
     rbind (assertNullableNonEmptyString (ae_optimization_run_id r) ''optimization_run_id'') (\<lambda>_.
     rbind (assertNullableNonEmptyString (ae_mutation_event_id r) ''mutation_event_id'') (\<lambda>_.
     rbind (assertJsonObjectString parseJson (ae_correlation_ids_json r) ''correlation_ids_json'') (\<lambda>_.
     rbind (assertJsonObjectString parseJson (ae_result_json r) ''result_json'') (\<lambda>_.
     rbind (assertJsonObjectString parseJson (ae_error_json r) ''error_json'') (\<lambda>_.
     assertJsonObjectString parseJson (ae_metadata_json r) ''metadata_json'')))))))))))))))))"

section \<open>The repository\<close>

record action_db =
  ad_rows :: "action_event list"
  ad_outcomes :: "string option list"            \<comment> \<open>of the next statements: the message of a failure\<close>

definition statement :: "(action_event list \<Rightarrow> string + action_event list) \<Rightarrow> action_db \<Rightarrow> (string + unit) \<times> action_db" where
  "statement f db =
     (let rest = db\<lparr>ad_outcomes := tl (ad_outcomes db)\<rparr>
      in case ad_outcomes db of
           Some message # _ \<Rightarrow> (Inl message, rest)
         | _ \<Rightarrow> (case f (ad_rows db) of Inl message \<Rightarrow> (Inl message, rest) | Inr rows \<Rightarrow> (Inr (), rest\<lparr>ad_rows := rows\<rparr>)))"

text \<open>The primary key of the table is \<open>id\<close>.\<close>

definition insert_action :: "action_event \<Rightarrow> action_event list \<Rightarrow> string + action_event list" where
  "insert_action r rows =
     (if ae_id r \<in> ae_id ` set rows then Inl ''UNIQUE constraint failed: control_plane_action_events.id'' else Inr (rows @ [r]))"

definition createEvent :: "(string \<Rightarrow> json option) \<Rightarrow> action_event \<Rightarrow> action_db \<Rightarrow> (string + unit) \<times> action_db" where
  "createEvent parseJson r db =
     (case validateControlPlaneActionEvent parseJson r of
        Inl e \<Rightarrow> (Inl e, db)
      | Inr _ \<Rightarrow> statement (insert_action r) db)"

record finish_options =
  fo_status :: string
  fo_targetId :: "string option"
  fo_optimizationRunId :: "string option"
  fo_mutationEventId :: "string option"
  fo_resultJson :: "string option"
  fo_errorJson :: "string option"
  fo_metadataJson :: "string option"

definition or_value :: "'a option \<Rightarrow> 'a \<Rightarrow> 'a" where
  "or_value v fallback = (case v of Some x \<Rightarrow> x | None \<Rightarrow> fallback)"

definition coalesce :: "'a option \<Rightarrow> 'a option \<Rightarrow> 'a option" where
  "coalesce v w = (case v of Some x \<Rightarrow> Some x | None \<Rightarrow> w)"

definition finish_row :: "string \<Rightarrow> finish_options \<Rightarrow> action_event \<Rightarrow> action_event" where
  "finish_row now o1 r =
     r\<lparr>ae_finished_at := Some now, ae_status := fo_status o1, ae_target_id := coalesce (fo_targetId o1) (ae_target_id r),
       ae_optimization_run_id := coalesce (fo_optimizationRunId o1) (ae_optimization_run_id r),
       ae_mutation_event_id := fo_mutationEventId o1, ae_result_json := or_value (fo_resultJson o1) ''{}'',
       ae_error_json := or_value (fo_errorJson o1) ''{}'', ae_metadata_json := or_value (fo_metadataJson o1) ''{}''\<rparr>"

definition check_finish :: "(string \<Rightarrow> json option) \<Rightarrow> string \<Rightarrow> finish_options \<Rightarrow> string + unit" where
  "check_finish parseJson actionId o1 =
     rbind (assertNonEmptyString actionId ''actionId'') (\<lambda>_.
     rbind (assertKnownStringValue (fo_status o1) ''status'' CONTROL_PLANE_ACTION_STATUSES) (\<lambda>_.
     rbind (assertJsonObjectString parseJson (or_value (fo_resultJson o1) ''{}'') ''result_json'') (\<lambda>_.
     rbind (assertJsonObjectString parseJson (or_value (fo_errorJson o1) ''{}'') ''error_json'') (\<lambda>_.
     rbind (assertJsonObjectString parseJson (or_value (fo_metadataJson o1) ''{}'') ''metadata_json'') (\<lambda>_.
     rbind (assertNullableNonEmptyString (fo_targetId o1) ''target_id'') (\<lambda>_.
     rbind (assertNullableNonEmptyString (fo_optimizationRunId o1) ''optimization_run_id'') (\<lambda>_.
     assertNullableNonEmptyString (fo_mutationEventId o1) ''mutation_event_id'')))))))"

definition update_action :: "string \<Rightarrow> (action_event \<Rightarrow> action_event) \<Rightarrow> action_event list \<Rightarrow> string + action_event list" where
  "update_action actionId f rows = Inr (map (\<lambda>r. if ae_id r = actionId then f r else r) rows)"

definition finishEvent :: "(string \<Rightarrow> json option) \<Rightarrow> string \<Rightarrow> string \<Rightarrow> finish_options \<Rightarrow> action_db \<Rightarrow> (string + unit) \<times> action_db" where
  "finishEvent parseJson now actionId o1 db =
     (case check_finish parseJson actionId o1 of
        Inl e \<Rightarrow> (Inl e, db)
      | Inr _ \<Rightarrow> statement (update_action actionId (finish_row now o1)) db)"

definition getEvent :: "(string \<Rightarrow> json option) \<Rightarrow> string \<Rightarrow> action_db \<Rightarrow> string + action_event option" where
  "getEvent parseJson actionId db =
     rbind (assertNonEmptyString actionId ''actionId'') (\<lambda>_.
     case filter (\<lambda>r. ae_id r = actionId) (ad_rows db) of
       [] \<Rightarrow> Inr None
     | r # _ \<Rightarrow> rbind (validateControlPlaneActionEvent parseJson r) (\<lambda>_. Inr (Some r)))"

record list_options =
  lo_routeId :: "string option"
  lo_targetId :: "string option"
  lo_targetKind :: "string option"
  lo_operation :: "string option"
  lo_status :: "string option"
  lo_sourceSurface :: "string option"
  lo_sessionId :: "string option"
  lo_optimizationRunId :: "string option"
  lo_mutationEventId :: "string option"
  lo_createdSince :: "string option"
  lo_limit :: "rat option"

definition when_given :: "'a option \<Rightarrow> ('a \<Rightarrow> string + unit) \<Rightarrow> string + unit" where
  "when_given v check = (case v of None \<Rightarrow> Inr () | Some x \<Rightarrow> check x)"

definition check_list_options :: "list_options \<Rightarrow> string + unit" where
  "check_list_options o1 =
     rbind (when_given (lo_routeId o1) (\<lambda>v. assertNonEmptyString v ''routeId'')) (\<lambda>_.
     rbind (when_given (lo_targetId o1) (\<lambda>v. assertNonEmptyString v ''targetId'')) (\<lambda>_.
     rbind (when_given (lo_targetKind o1) (\<lambda>v. assertKnownStringValue v ''target_kind'' CONTROL_PLANE_ACTION_TARGET_KINDS)) (\<lambda>_.
     rbind (when_given (lo_operation o1) (\<lambda>v. assertKnownStringValue v ''operation'' CONTROL_PLANE_ACTION_OPERATIONS)) (\<lambda>_.
     rbind (when_given (lo_status o1) (\<lambda>v. assertKnownStringValue v ''status'' CONTROL_PLANE_ACTION_STATUSES)) (\<lambda>_.
     rbind (when_given (lo_sourceSurface o1) (\<lambda>v. assertKnownStringValue v ''source_surface'' CONTROL_PLANE_ACTION_SOURCE_SURFACES)) (\<lambda>_.
     rbind (when_given (lo_sessionId o1) (\<lambda>v. assertNonEmptyString v ''sessionId'')) (\<lambda>_.
     rbind (when_given (lo_optimizationRunId o1) (\<lambda>v. assertNonEmptyString v ''optimizationRunId'')) (\<lambda>_.
     rbind (when_given (lo_mutationEventId o1) (\<lambda>v. assertNonEmptyString v ''mutationEventId'')) (\<lambda>_.
     when_given (lo_createdSince o1) (\<lambda>v. assertIsoTimestampString v ''createdSince'' ''Control-plane action event list''))))))))))"

text \<open>The clauses of the selection; \<open>NULL\<close> equals no text.\<close>

definition selects :: "list_options \<Rightarrow> action_event \<Rightarrow> bool" where
  "selects o1 r \<longleftrightarrow>
     (lo_routeId o1 = None \<or> lo_routeId o1 = ae_target_id r) \<and> (lo_targetId o1 = None \<or> lo_targetId o1 = ae_target_id r) \<and>
     (lo_targetKind o1 = None \<or> lo_targetKind o1 = Some (ae_target_kind r)) \<and>
     (lo_operation o1 = None \<or> lo_operation o1 = Some (ae_operation r)) \<and>
     (lo_status o1 = None \<or> lo_status o1 = Some (ae_status r)) \<and>
     (lo_sourceSurface o1 = None \<or> lo_sourceSurface o1 = Some (ae_source_surface r)) \<and>
     (lo_sessionId o1 = None \<or> lo_sessionId o1 = ae_session_id r) \<and>
     (lo_optimizationRunId o1 = None \<or> lo_optimizationRunId o1 = ae_optimization_run_id r) \<and>
     (lo_mutationEventId o1 = None \<or> lo_mutationEventId o1 = ae_mutation_event_id r) \<and>
     (case lo_createdSince o1 of None \<Rightarrow> True | Some t \<Rightarrow> t \<le> ae_created_at r)"

definition js_trunc :: "rat \<Rightarrow> int" where
  "js_trunc n = (if n \<ge> 0 then \<lfloor>n\<rfloor> else \<lceil>n\<rceil>)"

definition safeLimit :: "rat option \<Rightarrow> nat" where
  "safeLimit limit = nat (max 1 (min 500 (js_trunc (or_value limit 25))))"

definition newest_first :: "action_event list \<Rightarrow> action_event list" where
  "newest_first rows = rev (sort_key (\<lambda>r. (ae_created_at r, ae_id r)) rows)"

definition listEvents :: "(string \<Rightarrow> json option) \<Rightarrow> list_options \<Rightarrow> action_db \<Rightarrow> string + action_event list" where
  "listEvents parseJson o1 db =
     rbind (check_list_options o1) (\<lambda>_.
     rtraverse (\<lambda>r. rbind (validateControlPlaneActionEvent parseJson r) (\<lambda>_. Inr r))
       (take (safeLimit (lo_limit o1)) (newest_first (filter (selects o1) (ad_rows db)))))"

definition no_list_options :: list_options where
  "no_list_options =
     \<lparr>lo_routeId = None, lo_targetId = None, lo_targetKind = None, lo_operation = None, lo_status = None, lo_sourceSurface = None,
      lo_sessionId = None, lo_optimizationRunId = None, lo_mutationEventId = None, lo_createdSince = None, lo_limit = None\<rparr>"

definition listRecent :: "(string \<Rightarrow> json option) \<Rightarrow> rat \<Rightarrow> action_db \<Rightarrow> string + action_event list" where
  "listRecent parseJson limit = listEvents parseJson (no_list_options\<lparr>lo_limit := Some limit\<rparr>)"

section \<open>Audit of a change of the configuration\<close>

text \<open>JSON, clock and random identifiers are those of the run-time system.\<close>

record audit_runtime =
  ar_stringify :: "json \<Rightarrow> string"
  ar_parseJson :: "string \<Rightarrow> json option"
  ar_now :: "nat \<Rightarrow> string"                       \<comment> \<open>of the \<open>n\<close>-th call\<close>
  ar_uuid :: "nat \<Rightarrow> string"

record audit_start =
  as_sourceSurface :: string
  as_operation :: string
  as_targetKind :: string
  as_targetId :: "string option"
  as_createdBy :: string
  as_actorKind :: string
  as_sessionId :: "string option"
  as_metadata :: json

record audit_error =
  er_code :: string
  er_message :: string
  er_details :: "json option"

definition buildErrorJson :: "audit_runtime \<Rightarrow> audit_error option \<Rightarrow> string" where
  "buildErrorJson rt error =
     (case error of
        None \<Rightarrow> ''{}''
      | Some e \<Rightarrow> ar_stringify rt (JObj ([(''code'', JStr (er_code e)), (''message'', JStr (safeErrorText (er_message e) DEFAULT_LOG_VALUE_MAX_LEN))]
                    @ (case er_details e of None \<Rightarrow> [] | Some d \<Rightarrow> [(''details'', d)]))))"

definition started_row :: "audit_runtime \<Rightarrow> nat \<Rightarrow> audit_start \<Rightarrow> action_event" where
  "started_row rt n o1 =
     \<lparr>ae_id = ar_uuid rt n, ae_created_at = ar_now rt n, ae_finished_at = None, ae_created_by = as_createdBy o1,
      ae_source_surface = as_sourceSurface o1, ae_actor_kind = as_actorKind o1, ae_actor_id = None, ae_session_id = as_sessionId o1,
      ae_operation = as_operation o1, ae_status = ''started'', ae_target_kind = as_targetKind o1, ae_target_id = as_targetId o1,
      ae_optimization_run_id = None, ae_mutation_event_id = None, ae_correlation_ids_json = ''{}'', ae_result_json = ''{}'',
      ae_error_json = ''{}'', ae_metadata_json = ar_stringify rt (as_metadata o1)\<rparr>"

text \<open>The warnings that are logged go into a list.\<close>

definition startConfigMutationControlPlaneAudit ::
  "audit_runtime \<Rightarrow> nat \<Rightarrow> audit_start \<Rightarrow> action_db \<Rightarrow> string option \<times> string list \<times> action_db" where
  "startConfigMutationControlPlaneAudit rt n o1 db =
     (case createEvent (ar_parseJson rt) (started_row rt n o1) db of
        (Inl e, db) \<Rightarrow> (None, [''Unable to record config mutation audit start event: '' @ safeErrorText e DEFAULT_LOG_VALUE_MAX_LEN], db)
      | (Inr _, db) \<Rightarrow> (Some (ar_uuid rt n), [], db))"

definition finish_of :: "audit_runtime \<Rightarrow> string \<Rightarrow> string option \<Rightarrow> json option \<Rightarrow> audit_error option \<Rightarrow> finish_options" where
  "finish_of rt status targetId result error =
     \<lparr>fo_status = status, fo_targetId = targetId, fo_optimizationRunId = None, fo_mutationEventId = None,
      fo_resultJson = Some (ar_stringify rt (or_value result (JObj []))), fo_errorJson = Some (buildErrorJson rt error),
      fo_metadataJson = Some (ar_stringify rt (JObj []))\<rparr>"

text \<open>An action that has no identifier, or an empty one, is not finished.\<close>

definition finishConfigMutationControlPlaneAudit ::
  "audit_runtime \<Rightarrow> nat \<Rightarrow> string option \<Rightarrow> string \<Rightarrow> string option \<Rightarrow> json option \<Rightarrow> audit_error option \<Rightarrow> action_db \<Rightarrow> string list \<times> action_db" where
  "finishConfigMutationControlPlaneAudit rt n actionId status targetId result error db =
     (case actionId of
        None \<Rightarrow> ([], db)
      | Some i \<Rightarrow>
          if i = [] then ([], db)
          else (case finishEvent (ar_parseJson rt) (ar_now rt n) i (finish_of rt status targetId result error) db of
                  (Inl e, db) \<Rightarrow> ([''Unable to record config mutation audit finish event: '' @ safeErrorText e DEFAULT_LOG_VALUE_MAX_LEN], db)
                | (Inr _, db) \<Rightarrow> ([], db)))"

section \<open>Listings\<close>

lemma checked_rows: "rtraverse (\<lambda>r. rbind (f r) (\<lambda>_. Inr r)) xs = Inr ys \<longleftrightarrow> ys = xs \<and> (\<forall>r\<in>set xs. is_ok (f r))"
proof (induction xs arbitrary: ys)
  case (Cons x xs)
  then show ?case by (cases "f x") (auto simp: rbind_Inr_iff is_ok_iff)
qed auto

lemma newest_sorted: "sorted_wrt (\<lambda>a b. (ae_created_at b, ae_id b) \<le> (ae_created_at a, ae_id a)) (newest_first rows)"
  unfolding newest_first_def sorted_wrt_rev using sorted_sort_key [of "\<lambda>r. (ae_created_at r, ae_id r)" rows]
  by (simp add: sorted_map)

lemma newest_mset [simp]: "mset (newest_first rows) = mset rows"
  by (simp add: newest_first_def)

lemma newest_set [simp]: "set (newest_first rows) = set rows"
  by (simp add: newest_first_def)

lemma safe_limit_range: "1 \<le> safeLimit limit" "safeLimit limit \<le> 500"
  by (simp_all add: safeLimit_def le_nat_iff)

text \<open>
  C27 (action_listing). A listing of the ledger has only rows that match every filter, newest first, at most as many as
  the limit, which lies between 1 and 500; a matching row is left out only if the limit is reached, and then
  it is not newer than any row of the listing.
\<close>
theorem action_listing:
  assumes "listEvents parseJson o1 db = Inr rs"
  shows "1 \<le> safeLimit (lo_limit o1) \<and> safeLimit (lo_limit o1) \<le> 500 \<and>
    length rs = min (safeLimit (lo_limit o1)) (length (filter (selects o1) (ad_rows db))) \<and>
    sorted_wrt (\<lambda>a b. (ae_created_at b, ae_id b) \<le> (ae_created_at a, ae_id a)) rs \<and>
    (\<exists>rest. mset (filter (selects o1) (ad_rows db)) = mset rs + mset rest \<and>
       (\<forall>a\<in>set rs. \<forall>b\<in>set rest. (ae_created_at b, ae_id b) \<le> (ae_created_at a, ae_id a)))"
proof -
  let ?n = "safeLimit (lo_limit o1)" and ?xs = "newest_first (filter (selects o1) (ad_rows db))"
  have rs: "rs = take ?n ?xs" using assms by (auto simp: listEvents_def rbind_Inr_iff checked_rows)
  have split: "?xs = rs @ drop ?n ?xs" unfolding rs by simp
  have len: "length ?xs = length (filter (selects o1) (ad_rows db))" by (simp add: newest_first_def)
  have "sorted_wrt (\<lambda>a b. (ae_created_at b, ae_id b) \<le> (ae_created_at a, ae_id a)) (rs @ drop ?n ?xs)"
    using newest_sorted [of "filter (selects o1) (ad_rows db)"] split by (simp only:)
  then have sorted: "sorted_wrt (\<lambda>a b. (ae_created_at b, ae_id b) \<le> (ae_created_at a, ae_id a)) rs"
    "\<forall>a\<in>set rs. \<forall>b\<in>set (drop ?n ?xs). (ae_created_at b, ae_id b) \<le> (ae_created_at a, ae_id a)"
    unfolding sorted_wrt_append by blast+
  have "mset (filter (selects o1) (ad_rows db)) = mset rs + mset (drop ?n ?xs)"
    using arg_cong [OF split, of mset] by simp
  moreover have "length rs = min ?n (length (filter (selects o1) (ad_rows db)))" using len by (simp add: rs)
  ultimately show ?thesis using safe_limit_range sorted by blast
qed

definition example_row :: "string \<Rightarrow> string \<Rightarrow> action_event" where
  "example_row i t =
     \<lparr>ae_id = i, ae_created_at = t, ae_finished_at = None, ae_created_by = ''switchmaxxer mcp'', ae_source_surface = ''mcp'',
      ae_actor_kind = ''agent'', ae_actor_id = None, ae_session_id = Some ''s'', ae_operation = ''models_create'', ae_status = ''started'',
      ae_target_kind = ''model'', ae_target_id = Some ''m'', ae_optimization_run_id = None, ae_mutation_event_id = None,
      ae_correlation_ids_json = ''{}'', ae_result_json = ''{}'', ae_error_json = ''{}'', ae_metadata_json = ''{}''\<rparr>"

lemmas row_check_defs =
  validateControlPlaneActionEvent_def assertNonEmptyString_def assertIsoTimestampString_def assertNullableIsoTimestampString_def
  assertKnownStringValue_def assertNullableNonEmptyString_def assertJsonObjectString_def isIsoTimestampShape_def date_parses_def
  digits_at_def CONTROL_PLANE_ACTION_SOURCE_SURFACES_def CONTROL_PLANE_ACTION_ACTOR_KINDS_def CONTROL_PLANE_ACTION_OPERATIONS_def
  CONTROL_PLANE_ACTION_STATUSES_def CONTROL_PLANE_ACTION_TARGET_KINDS_def

lemma example_row_ok:
  "is_ok (validateControlPlaneActionEvent (\<lambda>_. Some (JObj [])) (example_row ''a'' ''2026-01-01T00:00:00Z''))"
  "is_ok (validateControlPlaneActionEvent (\<lambda>_. Some (JObj [])) (example_row ''b'' ''2026-01-02T00:00:00.000Z''))"
  unfolding example_row_def by (simp_all add: row_check_defs js_string_defs)

theorem action_listing_witness:
  "\<exists>rs. listEvents (\<lambda>_. Some (JObj [])) (no_list_options\<lparr>lo_limit := Some 1\<rparr>)
      \<lparr>ad_rows = [example_row ''a'' ''2026-01-01T00:00:00Z'', example_row ''b'' ''2026-01-02T00:00:00.000Z''], ad_outcomes = []\<rparr> = Inr rs \<and>
    length rs = 1"
proof -
  let ?db = "\<lparr>ad_rows = [example_row ''a'' ''2026-01-01T00:00:00Z'', example_row ''b'' ''2026-01-02T00:00:00.000Z''], ad_outcomes = []\<rparr>"
  have all: "filter (selects (no_list_options\<lparr>lo_limit := Some 1\<rparr>)) (ad_rows ?db) = ad_rows ?db"
    by (simp add: selects_def no_list_options_def)
  have "is_ok (validateControlPlaneActionEvent (\<lambda>_. Some (JObj [])) r)" if "r \<in> set (newest_first (ad_rows ?db))" for r
    using that example_row_ok by auto
  moreover have "check_list_options (no_list_options\<lparr>lo_limit := Some 1\<rparr>) = Inr ()"
    by (simp add: no_list_options_def check_list_options_def when_given_def)
  ultimately have "\<exists>rs. listEvents (\<lambda>_. Some (JObj [])) (no_list_options\<lparr>lo_limit := Some 1\<rparr>) ?db = Inr rs"
    unfolding listEvents_def all by (auto simp: checked_rows dest!: in_set_takeD)
  then obtain rs where rs: "listEvents (\<lambda>_. Some (JObj [])) (no_list_options\<lparr>lo_limit := Some 1\<rparr>) ?db = Inr rs" ..
  from action_listing [OF this] rs show ?thesis unfolding all
    by (auto simp: safeLimit_def or_value_def js_trunc_def)
qed

section \<open>What stays of a row\<close>

text \<open>What a row is about: finishing an action changes none of it.\<close>

definition identity where
  "identity r = (ae_id r, ae_created_at r, ae_created_by r, ae_source_surface r, ae_actor_kind r, ae_actor_id r, ae_session_id r,
     ae_operation r, ae_target_kind r, ae_correlation_ids_json r)"

datatype ledger_op = CreateEvent action_event | FinishEvent string string finish_options   \<comment> \<open>the time and the identifier\<close>

fun ledger_step :: "(string \<Rightarrow> json option) \<Rightarrow> ledger_op \<Rightarrow> action_db \<Rightarrow> action_db" where
  "ledger_step parseJson (CreateEvent r) db = snd (createEvent parseJson r db)"
| "ledger_step parseJson (FinishEvent now i o1) db = snd (finishEvent parseJson now i o1 db)"

definition ledger_sound :: "(string \<Rightarrow> json option) \<Rightarrow> action_db \<Rightarrow> bool" where
  "ledger_sound parseJson db \<longleftrightarrow>
     distinct (map ae_id (ad_rows db)) \<and> list_all (\<lambda>r. validateControlPlaneActionEvent parseJson r = Inr ()) (ad_rows db)"

fun proper_time :: "ledger_op \<Rightarrow> bool" where
  "proper_time (CreateEvent r) = True"
| "proper_time (FinishEvent now i o1) \<longleftrightarrow> assertIsoTimestampString now ''finished_at'' ACTION_ENTITY = Inr ()"

lemma statement_rows:
  "ad_rows (snd (statement f db)) = ad_rows db \<or> (\<exists>rows. f (ad_rows db) = Inr rows \<and> ad_rows (snd (statement f db)) = rows)"
  by (auto simp: statement_def Let_def split: list.splits option.splits sum.splits)

lemma finished_row_valid:
  assumes "validateControlPlaneActionEvent parseJson r = Inr ()" "check_finish parseJson i o1 = Inr ()"
    and "assertIsoTimestampString now ''finished_at'' ACTION_ENTITY = Inr ()"
  shows "validateControlPlaneActionEvent parseJson (finish_row now o1 r) = Inr ()"
  using assms
  by (auto simp: validateControlPlaneActionEvent_def check_finish_def finish_row_def coalesce_def rbind_Inr_iff
      assertNullableIsoTimestampString_def split: option.splits)

lemma ledger_step_rows:
  assumes "ledger_sound parseJson db" "proper_time a"
  shows "ledger_sound parseJson (ledger_step parseJson a db)"
    and "\<exists>more. map identity (ad_rows (ledger_step parseJson a db)) = map identity (ad_rows db) @ more"
proof -
  have "ledger_sound parseJson (ledger_step parseJson a db) \<and>
    (\<exists>more. map identity (ad_rows (ledger_step parseJson a db)) = map identity (ad_rows db) @ more)"
  proof (cases a)
    case (CreateEvent r)
    show ?thesis
    proof (cases "validateControlPlaneActionEvent parseJson r")
      case (Inr u)
      have "ad_rows (ledger_step parseJson a db) = ad_rows db \<or>
          ae_id r \<notin> ae_id ` set (ad_rows db) \<and> ad_rows (ledger_step parseJson a db) = ad_rows db @ [r]"
        using statement_rows [of "insert_action r" db] CreateEvent Inr by (auto simp: createEvent_def insert_action_def split: if_splits)
      then show ?thesis using assms(1) Inr by (elim disjE conjE) (simp_all add: ledger_sound_def)
    qed (use assms CreateEvent in \<open>simp add: createEvent_def\<close>)
  next
    case (FinishEvent now i o1)
    show ?thesis
    proof (cases "check_finish parseJson i o1")
      case (Inr u)
      define g where "g r = (if ae_id r = i then finish_row now o1 r else r)" for r
      have keys: "ae_id \<circ> g = ae_id" "identity \<circ> g = identity" by (auto simp: g_def finish_row_def identity_def)
      have valid: "validateControlPlaneActionEvent parseJson (g r) = Inr ()" if "validateControlPlaneActionEvent parseJson r = Inr ()" for r
        using finished_row_valid that Inr assms(2) FinishEvent by (simp add: g_def)
      have "ad_rows (ledger_step parseJson a db) = ad_rows db \<or> ad_rows (ledger_step parseJson a db) = map g (ad_rows db)"
        using statement_rows [of "update_action i (finish_row now o1)" db] FinishEvent Inr
        by (auto simp: finishEvent_def update_action_def g_def [abs_def])
      then show ?thesis using assms(1) valid by (elim disjE) (simp_all add: ledger_sound_def keys list_all_iff)
    qed (use assms FinishEvent in \<open>simp add: finishEvent_def\<close>)
  qed
  then show "ledger_sound parseJson (ledger_step parseJson a db)"
    and "\<exists>more. map identity (ad_rows (ledger_step parseJson a db)) = map identity (ad_rows db) @ more" by auto
qed

lemma sound_listing: "ledger_sound parseJson db \<Longrightarrow> is_ok (check_list_options o1) \<Longrightarrow> is_ok (listEvents parseJson o1 db)"
  by (auto simp: listEvents_def is_ok_iff rbind_Inr_iff checked_rows ledger_sound_def list_all_iff dest!: in_set_takeD)



section \<open>An audit\<close>

lemma start_audit:
  assumes "validateControlPlaneActionEvent (ar_parseJson rt) (started_row rt n o1) = Inr ()"
    and "ad_outcomes db = []" "ar_uuid rt n \<notin> ae_id ` set (ad_rows db)"
  shows "startConfigMutationControlPlaneAudit rt n o1 db = (Some (ar_uuid rt n), [], db\<lparr>ad_rows := ad_rows db @ [started_row rt n o1]\<rparr>)"
  using assms
  by (simp add: startConfigMutationControlPlaneAudit_def createEvent_def statement_def insert_action_def started_row_def Let_def)

lemma finish_audit:
  assumes "check_finish (ar_parseJson rt) i (finish_of rt status targetId result error) = Inr ()" "ad_outcomes db = []"
    and "ad_rows db = rows @ [r]" "ae_id r = i" "i \<notin> ae_id ` set rows"
  shows "finishConfigMutationControlPlaneAudit rt n (Some i) status targetId result error db =
    ([], db\<lparr>ad_rows := rows @ [finish_row (ar_now rt n) (finish_of rt status targetId result error) r]\<rparr>)"
proof -
  have "i \<noteq> []" using assms(1) by (auto simp: check_finish_def rbind_Inr_iff assertNonEmptyString_def non_blank_def trim_def)
  moreover have "map (\<lambda>r. if ae_id r = i then f r else r) rows = rows" for f using assms(5) by (induction rows) auto
  ultimately show ?thesis using assms
    by (simp add: finishConfigMutationControlPlaneAudit_def finishEvent_def statement_def update_action_def Let_def)
qed

text \<open>
  Property (audit_metadata_lost). The entry that an audit starts holds the paths of configuration and store; finishing the
  audit replaces them by an empty object.
\<close>
theorem audit_metadata_lost:
  "ae_metadata_json (started_row rt n o1) = ar_stringify rt (as_metadata o1) \<and>
   ae_metadata_json (finish_row now (finish_of rt status targetId result error) (started_row rt n o1)) = ar_stringify rt (JObj [])"
  by (simp add: started_row_def finish_row_def finish_of_def or_value_def)

end
