(* ===== verification/Config_Consistency.thy ===== *)
theory Config_Consistency
  imports Config_Mutation
begin

text \<open>
  What validation before a write (\<^verbatim>\<open>normalizeAndValidateConfigDocumentForMutation\<close> of
  \<^verbatim>\<open>config/mutation/config.ts\<close>) has in common with validation when the gateway loads
  (\<^verbatim>\<open>loadValidatedConfigSnapshot\<close> of \<^verbatim>\<open>config/config.ts\<close>), and what an accepted change leaves alone.

  Main results: the validation is idempotent; it accepts every document that loads; a change of one
  entity leaves all others as they are; but it also accepts a document without any route, which the
  gateway then refuses to load.
\<close>

section \<open>The settings that are written are valid\<close>

lemma jprop_apply_settings:
  "jprop (apply_settings s d) k =
     (if k \<in> set CAMEL_CASE_ALIASES then None
      else if k = ''log_level'' then map_option (JStr \<circ> log_level_name) (st_logLevel (st_process s))
      else case map_of (settings_assignments s) k of Some v \<Rightarrow> Some v | None \<Rightarrow> jprop d k)"
proof -
  have sets: "jprop (fold (\<lambda>(k, v). jset k v) kvs d) k = (case map_of kvs k of Some v \<Rightarrow> Some v | None \<Rightarrow> jprop d k)"
    if "distinct (map fst kvs)" for kvs d
    using that by (induction kvs arbitrary: d) (auto split: option.splits simp: map_of_eq_None_iff [symmetric])
  have deletes: "jprop (fold jdelete ks d) k = (if k \<in> set ks then None else jprop d k)" for ks d
    by (induction ks arbitrary: d) auto
  have "distinct (map fst (settings_assignments s))" by (simp add: settings_assignments_def)
  moreover have "map_of (settings_assignments s) ''log_level'' = None" by (simp add: settings_assignments_def)
  ultimately show ?thesis
    by (auto simp: apply_settings_def Let_def deletes sets split: option.splits)
qed

lemma stored_positive_number: "jprop c f = Some (JNum n) \<Longrightarrow> n > 0 \<Longrightarrow> positive_number c f fallback src = Inr n"
  by (simp add: positive_number_def or_default_def require_def)

lemma stored_positive_integer: "jprop c f = Some (JNum n) \<Longrightarrow> whole_positive n \<Longrightarrow> positive_integer c f fallback src = Inr n"
  by (simp add: positive_integer_def or_default_def whole_positive_def require_def)

lemma stored_text: "jprop c f = Some (JStr t) \<Longrightarrow> non_blank t \<Longrightarrow> non_empty_text c f fallback src = Inr t"
  by (simp add: non_empty_text_def or_default_def isNonEmptyString_def require_def)

lemma same_field:
  assumes "jprop c f = jprop d f"
  shows "positive_number c f fallback src = positive_number d f fallback src" "flag_setting c f src = flag_setting d f src"
    "getNullableStringField c f src = getNullableStringField d f src"
  using assms by (simp_all add: positive_number_def flag_setting_def boolean_field_def getNullableStringField_def)


lemmas stored_settings = stored_positive_number stored_positive_integer stored_text

lemma jprop_applied:
  "map_of (settings_assignments s) k = Some v \<Longrightarrow> jprop (apply_settings s d) k = Some v"
  "map_of (settings_assignments s) k = None \<Longrightarrow> k \<notin> set CAMEL_CASE_ALIASES \<Longrightarrow> k \<noteq> ''log_level'' \<Longrightarrow>
     jprop (apply_settings s d) k = jprop d k"
proof -
  show "jprop (apply_settings s d) k = jprop d k"
    if "map_of (settings_assignments s) k = None" "k \<notin> set CAMEL_CASE_ALIASES" "k \<noteq> ''log_level''"
    using that by (simp add: jprop_apply_settings)
  show "jprop (apply_settings s d) k = Some v" if "map_of (settings_assignments s) k = Some v"
  proof -
    have "k \<in> fst ` set (settings_assignments s)" using that by (metis domI dom_map_of_conv_image_fst)
    then have "k \<notin> set CAMEL_CASE_ALIASES \<and> k \<noteq> ''log_level''"
      by (auto simp: settings_assignments_def CAMEL_CASE_ALIASES_def)
    with that show ?thesis by (simp add: jprop_apply_settings)
  qed
qed


lemma known_keys_iff: "assertOnlyKnownConfigDocumentKeys d src = Inr u \<longleftrightarrow> (\<forall>k. jprop d k \<noteq> None \<longrightarrow> k \<in> set CONFIG_DOCUMENT_TOP_LEVEL_KEYS)"
  by (auto simp: assertOnlyKnownConfigDocumentKeys_def assertOnlyKnownKeys_def known_keys_loop_Inr jprop_record_fields map_of_eq_None_iff)

lemma known_keys_applied:
  assumes "assertOnlyKnownConfigDocumentKeys d src = Inr u"
  shows "assertOnlyKnownConfigDocumentKeys (apply_settings s d) src' = Inr ()"
proof -
  have "k \<in> set CONFIG_DOCUMENT_TOP_LEVEL_KEYS" if "map_of (settings_assignments s) k = Some v" for k v
    using map_of_SomeD [OF that] by (auto simp: settings_assignments_def CONFIG_DOCUMENT_TOP_LEVEL_KEYS_def)
  moreover have "''log_level'' \<in> set CONFIG_DOCUMENT_TOP_LEVEL_KEYS" by (simp add: CONFIG_DOCUMENT_TOP_LEVEL_KEYS_def)
  ultimately show ?thesis
    using assms by (auto simp: known_keys_iff jprop_apply_settings split: if_splits option.splits)
qed

lemma stream_settings_again:
  assumes "validate_stream_settings d src df = Inr (st_stream s)"
  shows "validate_stream_settings (apply_settings s d) src df = Inr (st_stream s)"
proof -
  have ok: "stream_settings_ok (st_stream s)" by (rule stream_settings_accepted [OF assms])
  have "assertOnlyKnownConfigDocumentKeys (apply_settings s d) src = Inr ()"
    using assms by (auto simp: validate_stream_settings_def rbind_Inr_iff intro: known_keys_applied)
  moreover have "positive_number (apply_settings s d) ''port'' None src = Inr (st_port (st_stream s))"
  proof -
    have "jprop (apply_settings s d) ''port'' = jprop d ''port''"
      by (rule jprop_applied) (simp_all add: settings_assignments_def CAMEL_CASE_ALIASES_def)
    then have "positive_number (apply_settings s d) ''port'' None src = positive_number d ''port'' None src" by (rule same_field)
    also have "\<dots> = Inr (st_port (st_stream s))"
      using assms by (clarsimp simp: validate_stream_settings_def rbind_Inr_iff) (metis stream_settings.select_convs(1))
    finally show ?thesis .
  qed
  ultimately show ?thesis
    using ok unfolding validate_stream_settings_def stream_settings_ok_def
    by (simp add: stored_settings jprop_applied settings_assignments_def)
qed


lemma unassigned:
  assumes "k \<in> {''port'', ''allow_remote_bind'', ''allow_wildcard_bind'', ''inbound_api_key_env'', ''allow_unauthenticated_gateway'',
      ''one_trusted_operator_boundary'', ''allow_unauthenticated_health'', ''rate_limit'', ''config_version'', ''observability'',
      ''benchmark'', ''mcp'', ''models'', ''service_providers'', ''routes''}"
  shows "jprop (apply_settings s d) k = jprop d k"
  by (rule jprop_applied) (use assms in \<open>elim insertE emptyE; simp add: settings_assignments_def CAMEL_CASE_ALIASES_def\<close>)+

lemma capacity_settings_again:
  assumes "validate_capacity_settings d src df = Inr (st_capacity s)"
  shows "validate_capacity_settings (apply_settings s d) src df = Inr (st_capacity s)"
proof -
  have ok: "capacity_settings_ok (st_capacity s)" by (rule capacity_settings_accepted [OF assms])
  have "flag_setting (apply_settings s d) ''allow_remote_bind'' src = flag_setting d ''allow_remote_bind'' src"
    "flag_setting (apply_settings s d) ''allow_wildcard_bind'' src = flag_setting d ''allow_wildcard_bind'' src"
    by (rule same_field, rule unassigned, simp)+
  moreover have "flag_setting d ''allow_remote_bind'' src = Inr (st_allowRemoteBind (st_capacity s))"
    "flag_setting d ''allow_wildcard_bind'' src = Inr (st_allowWildcardBind (st_capacity s))"
    using assms by (clarsimp simp: validate_capacity_settings_def rbind_Inr_iff, metis capacity_settings.select_convs(6,7))+
  ultimately show ?thesis
    using ok unfolding validate_capacity_settings_def capacity_settings_ok_def
    by (simp add: stored_settings jprop_applied settings_assignments_def)
qed

lemma inbound_settings_again:
  "validate_inbound_settings (apply_settings s d) src c = validate_inbound_settings d src c"
  unfolding validate_inbound_settings_def flag_setting_def boolean_field_def getNullableStringField_def
  by (simp only: unassigned [of "''inbound_api_key_env''"] unassigned [of "''allow_unauthenticated_gateway''"]
      unassigned [of "''one_trusted_operator_boundary''"] unassigned [of "''allow_unauthenticated_health''"] insert_iff simp_thms)

lemma normalize_log_level_name: "normalizeLogLevel (Some (log_level_name l)) = Some l"
  by (cases l; hypsubst) code_simp+

lemma process_settings_again:
  assumes "validate_process_settings d src df = Inr (st_process s)"
  shows "validate_process_settings (apply_settings s d) src df = Inr (st_process s)"
proof -
  have "jprop (apply_settings s d) ''rate_limit'' = jprop d ''rate_limit''" by (rule unassigned) simp
  moreover have level: "jprop (apply_settings s d) ''log_level'' = map_option (JStr \<circ> log_level_name) (st_logLevel (st_process s))"
    by (simp add: jprop_apply_settings CAMEL_CASE_ALIASES_def)
  moreover obtain unit where "non_empty_text d ''systemd_unit'' (df_systemdUnit df) src = Inr unit" "st_systemdUnit (st_process s) = unit"
    using assms by (auto simp: validate_process_settings_def rbind_Inr_iff dest!: sym [of _ "st_process s"] split: option.splits json.splits)
  then have "non_blank (st_systemdUnit (st_process s))" by (simp add: non_empty_text_accepted)
  then have "non_empty_text (apply_settings s d) ''systemd_unit'' (df_systemdUnit df) src = Inr (st_systemdUnit (st_process s))"
    by (simp add: stored_settings jprop_applied settings_assignments_def)
  ultimately show ?thesis
    using assms
    by (cases "st_logLevel (st_process s)")
      (auto simp: validate_process_settings_def rbind_Inr_iff normalize_log_level_name dest!: sym [of _ "st_process s"]
        split: option.splits json.splits)
qed

lemma settings_again:
  assumes "validateRuntimeSettings d src df = Inr s"
  shows "validateRuntimeSettings (apply_settings s d) src df = Inr s"
proof -
  from assms have "validate_stream_settings d src df = Inr (st_stream s)" "validate_capacity_settings d src df = Inr (st_capacity s)"
    "validate_inbound_settings d src (st_capacity s) = Inr (st_inbound s)" "validate_process_settings d src df = Inr (st_process s)"
    by (auto simp: validateRuntimeSettings_def rbind_Inr_iff)
  then show ?thesis
    by (simp add: validateRuntimeSettings_def stream_settings_again capacity_settings_again inbound_settings_again process_settings_again)
qed

lemma jset_same: "jprop (JObj fs) k = Some v \<Longrightarrow> jset k v (JObj fs) = JObj fs"
proof -
  have "map_of fs k = Some v \<Longrightarrow> jm_set k v fs = fs" by (induction fs) (auto split: if_splits)
  then show "jprop (JObj fs) k = Some v \<Longrightarrow> jset k v (JObj fs) = JObj fs" by (simp add: jset_def jprop_record_fields)
qed

lemma apply_settings_again: "apply_settings s (apply_settings s d) = apply_settings s d"
proof -
  obtain fs where fs: "apply_settings s d = JObj fs"
  proof -
    have "\<exists>fs. fold jdelete ks x = JObj fs" if "ks \<noteq> []" for ks x
      using that by (induction ks arbitrary: x rule: rev_induct) (auto simp: jdelete_def)
    from this [of CAMEL_CASE_ALIASES] show ?thesis using that by (auto simp: apply_settings_def Let_def CAMEL_CASE_ALIASES_def)
  qed
  have sets: "fold (\<lambda>(k, v). jset k v) kvs (JObj fs) = JObj fs" if "\<forall>(k, v) \<in> set kvs. jprop (JObj fs) k = Some v" for kvs
    using that by (induction kvs) (auto simp: jset_same)
  have absent: "jdelete k (JObj fs) = JObj fs" if "jprop (JObj fs) k = None" for k
    using that by (simp add: jdelete_def jm_delete_unset)
  then have deletes: "fold jdelete ks (JObj fs) = JObj fs" if "\<forall>k \<in> set ks. jprop (JObj fs) k = None" for ks
    using that by (induction ks) auto
  have "\<forall>(k, v) \<in> set (settings_assignments s). jprop (JObj fs) k = Some v"
  proof -
    have "distinct (map fst (settings_assignments s))" by (simp add: settings_assignments_def)
    then show ?thesis using jprop_applied(1) [of s _ _ d] unfolding fs by (auto dest: map_of_is_SomeI)
  qed
  moreover have "\<forall>k \<in> set CAMEL_CASE_ALIASES. jprop (JObj fs) k = None"
    using fs jprop_apply_settings [of s d] by simp
  moreover have "jprop (JObj fs) ''log_level'' = map_option (JStr \<circ> log_level_name) (st_logLevel (st_process s))"
    using fs jprop_apply_settings [of s d] by (simp add: CAMEL_CASE_ALIASES_def)
  ultimately show ?thesis
    unfolding fs apply_settings_def [of s "JObj fs"]
    by (cases "st_logLevel (st_process s)") (simp_all add: sets deletes absent jset_same Let_def)
qed


lemma config_version_Inr:
  "mutation_config_version d = Inr d' \<longleftrightarrow> jprop d' ''config_version'' = Some (JNum CURRENT_CONFIG_VERSION) \<and>
     d' = (if jprop d ''config_version'' = None then jset ''config_version'' (JNum CURRENT_CONFIG_VERSION) d else d)"
  by (auto simp: mutation_config_version_def Let_def rbind_Inr_iff CURRENT_CONFIG_VERSION_def)

lemma config_version_set: "mutation_config_version d = Inr d1 \<Longrightarrow> jprop d1 ''config_version'' = Some (JNum CURRENT_CONFIG_VERSION)"
  unfolding config_version_Inr by (rule conjunct1)

text \<open>What an accepted document went through.\<close>

lemma normalize_Inr:
  assumes "normalizeAndValidateConfigDocumentForMutation host d w = (Inr n, w')"
  obtains d1 s secrets where "mutation_config_version d = Inr d1" "validateRuntimeSettings d1 ''config.json'' settings_default_values = Inr s"
    "n = apply_settings s d1" "loadOptionalConfiguredSecretsFile host = Inr secrets"
    "mutation_inbound_key (hs_env host) (st_inboundApiKeyEnv (st_inbound s)) (override_lookup secrets) = Inr ()"
    "is_ok (validateObservabilitySettings n ''config.json'')" "is_ok (validateBenchmarkSettings n ''config.json'' benchmark_default_values)"
    "validate_sections host (st_timeoutMs (st_stream s)) (override_lookup secrets) n w = (Inr (), w')"
    "assertOnlyKnownConfigDocumentKeys n ''normalized config.json'' = Inr ()"
  using assms that
  by (auto simp: normalizeAndValidateConfigDocumentForMutation_def Let_def rbind_Inr_iff is_ok_def split: sum.splits prod.splits)


lemma normalize_intro:
  assumes "mutation_config_version d = Inr d1" "validateRuntimeSettings d1 ''config.json'' settings_default_values = Inr s"
    "n = apply_settings s d1" "loadOptionalConfiguredSecretsFile host = Inr secrets"
    "mutation_inbound_key (hs_env host) (st_inboundApiKeyEnv (st_inbound s)) (override_lookup secrets) = Inr ()"
    "is_ok (validateObservabilitySettings n ''config.json'')" "is_ok (validateBenchmarkSettings n ''config.json'' benchmark_default_values)"
    "validate_sections host (st_timeoutMs (st_stream s)) (override_lookup secrets) n w = (Inr (), w')"
    "assertOnlyKnownConfigDocumentKeys n ''normalized config.json'' = Inr ()"
  shows "normalizeAndValidateConfigDocumentForMutation host d w = (Inr n, w')"
  using assms(1,2,4-) unfolding assms(3)
  by (auto simp: normalizeAndValidateConfigDocumentForMutation_def Let_def is_ok_def split: sum.splits prod.splits)

lemma sections_any_warnings:
  assumes "validate_sections host t overrides d w = (r, w1)"
  shows "\<exists>w2. validate_sections host t overrides d w' = (r, w2)"
  using assms by (auto simp: validate_sections_def split: sum.splits prod.splits)

section \<open>Changes are local\<close>

definition stored :: "json \<Rightarrow> string \<Rightarrow> string \<Rightarrow> json option" where
  "stored document key name = (case jprop document key of Some (JObj fs) \<Rightarrow> map_of fs name | _ \<Rightarrow> None)"

text \<open>The functions that the operations apply to the document, with the section and the entity they are about.\<close>

inductive entity_change :: "string \<Rightarrow> string \<Rightarrow> (json \<Rightarrow> config_error + json) \<Rightarrow> bool" where
  create_model: "entity_change ''models'' modelId (create_model_mutator modelId model)"
| update_model: "entity_change ''models'' modelId (update_model_mutator modelId modelChanges)"
| create_provider: "entity_change ''service_providers'' providerId (create_provider_mutator providerId provider)"
| update_provider: "entity_change ''service_providers'' providerId (update_provider_mutator parseUrl providerId changes)"
| provider_auth: "entity_change ''service_providers'' providerId (provider_auth_mutator providerId updates)"
| create_route: "entity_change ''routes'' routeId (create_route_mutator routeId route)"
| update_route: "entity_change ''routes'' routeId (update_route_mutator routeId changes readModel)"
| delete: "key \<in> {''models'', ''service_providers'', ''routes''} \<Longrightarrow> entity_change key name (delete_entity_mutator key name)"

definition changes_only :: "string \<Rightarrow> string \<Rightarrow> json \<Rightarrow> json \<Rightarrow> bool" where
  "changes_only key name d d' \<longleftrightarrow>
     (\<forall>k. k \<noteq> key \<longrightarrow> jprop d' k = jprop d k) \<and> (\<forall>m. m \<noteq> name \<longrightarrow> stored d' key m = stored d key m)"

lemma section_Inr: "getMutableConfigSection d key = Inr fs \<longleftrightarrow> jprop d key = Some (JObj fs)"
  by (auto simp: getMutableConfigSection_def section_fields_def rbind_Inr_iff split: option.splits json.splits)

lemma map_of_set_field: "map_of (jm_set k v fs) k' = (if k' = k then Some v else map_of fs k')"
  by (induction fs) auto

lemma store_changes_only:
  assumes "store_entity key label fs name entity d = Inr d'" "getMutableConfigSection d key = Inr fs"
  shows "changes_only key name d d'"
  using assms
  by (auto simp: store_entity_def safe_set_def setSafeObjectKey_def rbind_Inr_iff changes_only_def stored_def section_Inr map_of_set_field
      split: sum.splits)

lemma delete_changes_only:
  assumes "delete_entity_mutator key name d = Inr d'"
  shows "changes_only key name d d'"
  using assms by (auto simp: delete_entity_mutator_def rbind_Inr_iff changes_only_def stored_def section_Inr)


lemma entity_change_only:
  assumes "entity_change key name mutator" "mutator d = Inr d'"
  shows "changes_only key name d d' \<and> key \<in> {''models'', ''service_providers'', ''routes''}"
  using assms
proof (induction rule: entity_change.induct)
  case (delete key name)
  then show ?case using delete_changes_only by blast
qed (auto simp: create_model_mutator_def update_model_mutator_def create_provider_mutator_def update_provider_mutator_def
    provider_auth_mutator_def create_route_mutator_def update_route_mutator_def rbind_Inr_iff Let_def
    intro: store_changes_only split: if_splits)

lemma normalize_keeps_sections:
  assumes "normalizeAndValidateConfigDocumentForMutation host d w = (Inr n, w')" "k \<in> {''models'', ''service_providers'', ''routes''}"
  shows "jprop n k = jprop d k"
proof -
  from assms(1) obtain d1 s where v: "mutation_config_version d = Inr d1" and n: "n = apply_settings s d1" by (rule normalize_Inr)
  have "jprop n k = jprop d1 k" unfolding n by (rule unassigned) (use assms(2) in auto)
  with v assms(2) show ?thesis by (auto simp: config_version_Inr)
qed

section \<open>The last route\<close>

lemma settings_without_routes:
  assumes same: "\<And>k. k \<noteq> ''routes'' \<Longrightarrow> jprop c k = jprop d k" and routes: "jprop c ''routes'' \<noteq> None"
    and s: "validateRuntimeSettings d src df = Inr s"
  shows "validateRuntimeSettings c src df = Inr s"
proof -
  have "assertOnlyKnownConfigDocumentKeys d src = Inr ()"
    using s by (auto simp: validateRuntimeSettings_def validate_stream_settings_def rbind_Inr_iff)
  then have known: "assertOnlyKnownConfigDocumentKeys c src = assertOnlyKnownConfigDocumentKeys d src"
  proof -
    have "''routes'' \<in> set CONFIG_DOCUMENT_TOP_LEVEL_KEYS" by (simp add: CONFIG_DOCUMENT_TOP_LEVEL_KEYS_def)
    with \<open>assertOnlyKnownConfigDocumentKeys d src = Inr ()\<close> have "assertOnlyKnownConfigDocumentKeys c src = Inr ()"
      unfolding known_keys_iff using same by metis
    then show ?thesis using \<open>assertOnlyKnownConfigDocumentKeys d src = Inr ()\<close> by simp
  qed
  have "validateRuntimeSettings c src df = validateRuntimeSettings d src df"
    unfolding validateRuntimeSettings_def validate_stream_settings_def validate_capacity_settings_def validate_inbound_settings_def
      validate_process_settings_def positive_number_def positive_integer_def non_empty_text_def flag_setting_def boolean_field_def
      getNullableStringField_def known
    by (simp only: same list.inject char.inject list.distinct simp_thms)
  with s show ?thesis by simp
qed


lemma last_route_accepted:
  assumes "normalizeAndValidateConfigDocumentForMutation host d w = (Inr n, w')" "jprop d ''routes'' = Some r"
  shows "\<exists>n' w2. normalizeAndValidateConfigDocumentForMutation host (jset ''routes'' (JObj []) d) w = (Inr n', w2) \<and>
    jprop n' ''routes'' = Some (JObj [])"
proof -
  let ?d = "jset ''routes'' (JObj []) d"
  from assms(1) obtain d1 s secrets where v: "mutation_config_version d = Inr d1"
    and s: "validateRuntimeSettings d1 ''config.json'' settings_default_values = Inr s" and n: "n = apply_settings s d1"
    and secrets: "loadOptionalConfiguredSecretsFile host = Inr secrets"
    "mutation_inbound_key (hs_env host) (st_inboundApiKeyEnv (st_inbound s)) (override_lookup secrets) = Inr ()"
    and optional: "is_ok (validateObservabilitySettings n ''config.json'')" "is_ok (validateBenchmarkSettings n ''config.json'' benchmark_default_values)"
    and sections: "validate_sections host (st_timeoutMs (st_stream s)) (override_lookup secrets) n w = (Inr (), w')"
    and known: "assertOnlyKnownConfigDocumentKeys n ''normalized config.json'' = Inr ()"
    by (rule normalize_Inr)
  define e1 where "e1 = (if jprop ?d ''config_version'' = None then jset ''config_version'' (JNum CURRENT_CONFIG_VERSION) ?d else ?d)"
  have same: "jprop e1 k = jprop d1 k" if "k \<noteq> ''routes''" for k
    using v that unfolding config_version_Inr e1_def by simp
  have routes: "jprop e1 ''routes'' = Some (JObj [])" by (simp add: e1_def)
  have v': "mutation_config_version ?d = Inr e1"
    unfolding config_version_Inr
  proof (rule conjI)
    show "jprop e1 ''config_version'' = Some (JNum CURRENT_CONFIG_VERSION)"
      using config_version_set [OF v] same [of "''config_version''"] by simp
  qed (simp only: e1_def)
  have s': "validateRuntimeSettings e1 ''config.json'' settings_default_values = Inr s"
    by (rule settings_without_routes [OF same _ s]) (simp_all add: routes)
  let ?n = "apply_settings s e1"
  have other: "jprop ?n k = jprop n k" if "k \<noteq> ''routes''" for k
    unfolding n by (simp only: jprop_apply_settings same [OF that])
  have nr: "jprop ?n ''routes'' = Some (JObj [])" using unassigned [of "''routes''" s e1] routes by simp
  have "is_ok (validateObservabilitySettings ?n ''config.json'')" "is_ok (validateBenchmarkSettings ?n ''config.json'' benchmark_default_values)"
    using optional other by (simp_all add: validateObservabilitySettings_def validateBenchmarkSettings_def)
  moreover have "\<exists>w2. validate_sections host (st_timeoutMs (st_stream s)) (override_lookup secrets) ?n w = (Inr (), w2)"
    using sections other [of "''models''"] other [of "''service_providers''"] nr
    by (auto simp: validate_sections_def rbind_Inr_iff section_Inr split: sum.splits prod.splits) (auto simp: getMutableConfigSection_def section_fields_def)
  moreover have "assertOnlyKnownConfigDocumentKeys ?n ''normalized config.json'' = Inr ()"
    using known_keys_applied s' by (auto simp: validateRuntimeSettings_def validate_stream_settings_def rbind_Inr_iff)
  ultimately show ?thesis
    using normalize_intro [OF v' s' refl secrets] nr by blast
qed

lemma no_routes_not_loaded:
  assumes "load_document host p = Inr (d, s, retention)" "jprop d ''routes'' = Some (JObj [])"
  shows "\<exists>e. fst (loadValidatedConfigSnapshot host p required w) = Inl e"
proof -
  have "routes = []" if "load_providers host src required d s = Inr (b, secrets, routes, ms, ps)" for src b secrets routes ms ps
    using that assms(2) by (auto simp: load_providers_def rbind_Inr_iff section_fields_def)
  then have none: "routes = []" if "load_providers host (basename p) required d s = Inr (b, secrets, routes, ms, ps)" for b secrets routes ms ps
    using that by blast
  have "\<exists>e. load_routes host src required t secrets [] ms ps = Inl e" for src t secrets ms ps
    by (cases "section_loop ''Model name'' validateModelConfig ms []") (simp_all add: load_routes_def require_def rensure_def)
  then have fails: "\<exists>e. rbind (load_routes host src required t secrets [] ms ps) f = Inl e"
    for src t secrets ms ps and f :: "_ \<Rightarrow> config_error + config_snapshot"
    by (metis rbind.simps(1))
  show ?thesis
    using assms(1) by (auto simp: loadValidatedConfigSnapshot_def Let_def split: sum.splits prod.splits dest!: none intro: fails)
qed


section \<open>Every document that loads can be written\<close>

lemma section_loop_mono:
  assumes "section_loop label f es acc = Inr m" "\<And>k v x. f k v = Inr x \<Longrightarrow> g k v = Inr x"
  shows "section_loop label g es acc = Inr m"
  using assms by (induction label f es acc rule: section_loop.induct) (auto simp: rbind_Inr_iff)

lemma case_option_Inr: "(case x of None \<Rightarrow> Inl e | Some y \<Rightarrow> f y) = Inr r \<longleftrightarrow> (\<exists>y. x = Some y \<and> f y = Inr r)"
  by (cases x) simp_all

lemma route_lookup_mono:
  assumes "validateRouteConfig env n v ps ms t required overrides = Inr r"
    and "\<And>k x. ps k = Some x \<Longrightarrow> ps' k = Some x" "\<And>k x. ms k = Some x \<Longrightarrow> ms' k = Some x"
  shows "validateRouteConfig env n v ps' ms' t required overrides = Inr r"
  using assms unfolding validateRouteConfig_def Let_def rbind_Inr_iff case_option_Inr by blast

lemma migrated_version:
  "migrateConfigDocumentToCurrentVersion nts d src = Inr d' \<Longrightarrow> jprop d' ''config_version'' = Some (JNum CURRENT_CONFIG_VERSION)"
  by (auto simp: migrateConfigDocumentToCurrentVersion_def migrate_document_def rbind_Inr_iff Let_def
      split: option.splits elim!: isPositiveVersionInteger.elims)

lemma loaded_version:
  assumes "load_document host p = Inr (d, s, retention)"
  shows "mutation_config_version d = Inr d"
proof -
  from assms obtain c catalog where "jprop c ''config_version'' = Some (JNum CURRENT_CONFIG_VERSION)"
    and "composeConfigDocumentWithCatalog c catalog (basename p) = Inr d"
    by (auto simp: load_document_def loadJsonObject_def rbind_Inr_iff Let_def dest!: migrated_version)
  then show ?thesis by (simp add: config_version_Inr compose_Inr)
qed

lemma loaded_inbound_key:
  assumes "check_inbound_key env src key overrides = Inr ()" "\<And>k. key = Some k \<Longrightarrow> isValidSwitchmaxxerManagedEnvVarName k"
  shows "mutation_inbound_key env key overrides = Inr ()"
  using assms
  by (auto simp: check_inbound_key_def mutation_inbound_key_def assertValidSwitchmaxxerManagedEnvVarName_def rbind_Inr_iff require_def
      rensure_def Let_def split: option.splits if_splits)


lemma loaded_accepted:
  assumes "load_document host p = Inr (d, s, retention)" "basename p = ''config.json''"
    and "load_providers host ''config.json'' True d s = Inr (benchmark, secrets, routesRecord, modelsRecord, providers)"
    and "load_routes host ''config.json'' True (st_timeoutMs (st_stream s)) secrets routesRecord modelsRecord providers = Inr (models, routes)"
  shows "\<exists>w'. normalizeAndValidateConfigDocumentForMutation host d w = (Inr (apply_settings s d), w')"
proof -
  let ?n = "apply_settings s d"
  have s: "validateRuntimeSettings d ''config.json'' settings_default_values = Inr s"
    and observability: "is_ok (validateObservabilitySettings ?n ''config.json'')"
    using assms(1,2) unassigned [of "''observability''" s d]
    by (auto simp: load_document_def rbind_Inr_iff Let_def is_ok_def validateObservabilitySettings_def)
  from assms(3) obtain ps where secrets: "loadOptionalConfiguredSecretsFile host = Inr secrets"
    and key: "check_inbound_key (hs_env host) ''config.json'' (st_inboundApiKeyEnv (st_inbound s)) (override_lookup secrets) = Inr ()"
    and benchmark: "validateBenchmarkSettings d ''config.json'' benchmark_default_values = Inr benchmark"
    and records: "section_fields d ''service_providers'' ''config.json'' = Inr ps" "section_fields d ''routes'' ''config.json'' = Inr routesRecord"
      "section_fields d ''models'' ''config.json'' = Inr modelsRecord"
    and providers: "section_loop ''Provider name'' (validateServiceProviderConfig (hs_parseUrl host)) ps [] = Inr providers"
    by (auto simp: load_providers_def rbind_Inr_iff)
  from assms(4) have models: "section_loop ''Model name'' validateModelConfig modelsRecord [] = Inr models"
    and "section_loop ''Route name'' (\<lambda>routeName route. validateRouteConfig (hs_env host) routeName route (jm_get providers) (jm_get models)
       (st_timeoutMs (st_stream s)) True (override_lookup secrets)) routesRecord [] = Inr routes"
    by (auto simp: load_routes_def rbind_Inr_iff)
  then have routes: "section_loop ''Route name'' (\<lambda>routeName route. validateRouteConfig (hs_env host) routeName route
       (plain_lookup inherited_provider providers) (plain_lookup inherited_model models) (st_timeoutMs (st_stream s)) True (override_lookup secrets))
       routesRecord [] = Inr routes"
    by (elim section_loop_mono route_lookup_mono) (simp_all add: plain_lookup_def)
  have sections: "\<exists>w'. validate_sections host (st_timeoutMs (st_stream s)) (override_lookup secrets) ?n w = (Inr (), w')"
    using records providers models routes unassigned [of "''models''" s d] unassigned [of "''service_providers''" s d] unassigned [of "''routes''" s d]
    by (simp add: validate_sections_def getMutableConfigSection_def section_fields_def)
  have "settings_ok s" by (rule settings_accepted [OF s])
  then have "isValidSwitchmaxxerManagedEnvVarName k" if "st_inboundApiKeyEnv (st_inbound s) = Some k" for k
    using that by (simp add: settings_ok_def inbound_settings_ok_def)
  with key have key': "mutation_inbound_key (hs_env host) (st_inboundApiKeyEnv (st_inbound s)) (override_lookup secrets) = Inr ()"
    by (rule loaded_inbound_key)
  have benchmark': "is_ok (validateBenchmarkSettings ?n ''config.json'' benchmark_default_values)"
    using benchmark unassigned [of "''benchmark''" s d] by (simp add: is_ok_def validateBenchmarkSettings_def)
  have "assertOnlyKnownConfigDocumentKeys ?n ''normalized config.json'' = Inr ()"
    using s known_keys_applied by (auto simp: validateRuntimeSettings_def validate_stream_settings_def rbind_Inr_iff)
  with sections show ?thesis
    using normalize_intro [OF loaded_version [OF assms(1)] s refl secrets key' observability benchmark'] by blast
qed


section \<open>An example\<close>

lemma example_loaded:
  obtains s retention benchmark secrets routesRecord modelsRecord providers models routes where
    "load_document example_config_host ''/c/config.json'' = Inr (example_effective_document, s, retention)"
    "load_providers example_config_host ''config.json'' True example_effective_document s =
       Inr (benchmark, secrets, routesRecord, modelsRecord, providers)"
    "load_routes example_config_host ''config.json'' True (st_timeoutMs (st_stream s)) secrets routesRecord modelsRecord providers = Inr (models, routes)"
proof -
  obtain s retention where s: "load_document example_config_host ''/c/config.json'' = Inr (example_effective_document, s, retention)"
    and key: "st_inboundApiKeyEnv (st_inbound s) = Some ''SWITCHMAXXER_GATE''" using example_document_loaded by blast
  from example_providers_loaded [OF key] example_routes_loaded [of _ "st_timeoutMs (st_stream s)"]
  show ?thesis using that [OF s] by blast
qed

lemma example_base: "basename ''/c/config.json'' = ''config.json''" by (simp add: basename_def)

lemma example_accepted:
  obtains n w where "normalizeAndValidateConfigDocumentForMutation example_config_host example_effective_document no_warnings = (Inr n, w)"
proof -
  obtain s retention benchmark secrets routesRecord modelsRecord providers models routes where
    "load_document example_config_host ''/c/config.json'' = Inr (example_effective_document, s, retention)"
    "load_providers example_config_host ''config.json'' True example_effective_document s =
       Inr (benchmark, secrets, routesRecord, modelsRecord, providers)"
    "load_routes example_config_host ''config.json'' True (st_timeoutMs (st_stream s)) secrets routesRecord modelsRecord providers = Inr (models, routes)"
    by (rule example_loaded)
  then show ?thesis using loaded_accepted [OF _ example_base] that by metis
qed

definition example_route :: json where
  "example_route = JObj [(''model'', JStr ''m''), (''provider_model_id'', JStr ''x''), (''service_provider'', JStr ''p''), (''display_name'', JStr ''R'')]"

lemma example_one_route: "jprop example_effective_document ''routes'' = Some (JObj [(''r'', example_route)])"
  by (simp add: example_effective_document_def example_settings_document_def example_catalog_document_def example_route_def)

section \<open>Properties\<close>

text \<open>
  C24 (loadable_is_writable). Every document that the gateway loads passes the validation before a write, so that a
  configuration in use can always be changed; the document is kept but for the settings that are made
  explicit.
\<close>
theorem loadable_is_writable:
  assumes "load_document host p = Inr (d, s, retention)" "basename p = ''config.json''"
    and "load_providers host ''config.json'' True d s = Inr (benchmark, secrets, routesRecord, modelsRecord, providers)"
    and "load_routes host ''config.json'' True (st_timeoutMs (st_stream s)) secrets routesRecord modelsRecord providers = Inr (models, routes)"
  shows "\<exists>w'. normalizeAndValidateConfigDocumentForMutation host d w = (Inr (apply_settings s d), w')"
  using assms by (rule loaded_accepted)

theorem loadable_is_writable_witness:
  "\<exists>s w. normalizeAndValidateConfigDocumentForMutation example_config_host example_effective_document no_warnings =
     (Inr (apply_settings s example_effective_document), w)"
proof -
  obtain s retention benchmark secrets routesRecord modelsRecord providers models routes where
    "load_document example_config_host ''/c/config.json'' = Inr (example_effective_document, s, retention)"
    "load_providers example_config_host ''config.json'' True example_effective_document s =
       Inr (benchmark, secrets, routesRecord, modelsRecord, providers)"
    "load_routes example_config_host ''config.json'' True (st_timeoutMs (st_stream s)) secrets routesRecord modelsRecord providers = Inr (models, routes)"
    by (rule example_loaded)
  from loadable_is_writable [OF this(1) example_base this(2,3)] show ?thesis by blast
qed

text \<open>
  Property (mutation_validation_idempotent). A document that validation before a write has accepted is a fixed point: validated again it is
  accepted and not changed any more, so repeating a change that has no effect writes nothing.
\<close>
theorem mutation_validation_idempotent:
  assumes "normalizeAndValidateConfigDocumentForMutation host d w = (Inr n, w')"
  shows "\<exists>w''. normalizeAndValidateConfigDocumentForMutation host n w' = (Inr n, w'')"
proof -
  from assms obtain d1 s secrets where v: "mutation_config_version d = Inr d1"
    and s: "validateRuntimeSettings d1 ''config.json'' settings_default_values = Inr s" and n: "n = apply_settings s d1"
    and rest: "loadOptionalConfiguredSecretsFile host = Inr secrets"
    "mutation_inbound_key (hs_env host) (st_inboundApiKeyEnv (st_inbound s)) (override_lookup secrets) = Inr ()"
    "is_ok (validateObservabilitySettings n ''config.json'')" "is_ok (validateBenchmarkSettings n ''config.json'' benchmark_default_values)"
    and sections: "validate_sections host (st_timeoutMs (st_stream s)) (override_lookup secrets) n w = (Inr (), w')"
    and known: "assertOnlyKnownConfigDocumentKeys n ''normalized config.json'' = Inr ()"
    by (rule normalize_Inr)
  have "jprop n ''config_version'' = jprop d1 ''config_version''" unfolding n by (rule unassigned) simp
  moreover have "jprop d1 ''config_version'' = Some (JNum CURRENT_CONFIG_VERSION)" by (rule config_version_set [OF v])
  ultimately have "mutation_config_version n = Inr n" by (simp add: config_version_Inr)
  moreover have "validateRuntimeSettings n ''config.json'' settings_default_values = Inr s"
    unfolding n by (rule settings_again [OF s])
  moreover have "n = apply_settings s n" unfolding n by (simp add: apply_settings_again)
  ultimately show ?thesis
    using sections_any_warnings [OF sections] normalize_intro rest known by metis
qed

theorem mutation_validation_idempotent_witness:
  "\<exists>n w w'. normalizeAndValidateConfigDocumentForMutation example_config_host example_effective_document no_warnings = (Inr n, w) \<and>
     normalizeAndValidateConfigDocumentForMutation example_config_host n w = (Inr n, w')"
proof -
  obtain n w where n: "normalizeAndValidateConfigDocumentForMutation example_config_host example_effective_document no_warnings = (Inr n, w)"
    by (rule example_accepted)
  from mutation_validation_idempotent [OF n] n show ?thesis by blast
qed

text \<open>
  Property (entity_change_local). A successful change of one model, provider or route leaves every other entity of the three sections as it
  was, from the document that was loaded to the one that is written.
\<close>
theorem entity_change_local:
  assumes "entity_change key name mutator" "mutator d = Inr d'"
    and "normalizeAndValidateConfigDocumentForMutation host d' w = (Inr n, w')"
    and "key' \<in> {''models'', ''service_providers'', ''routes''}" "(key', name') \<noteq> (key, name)"
  shows "stored n key' name' = stored d key' name'"
proof -
  have only: "changes_only key name d d'" using entity_change_only [OF assms(1,2)] by simp
  have "stored n key' name' = stored d' key' name'" using normalize_keeps_sections [OF assms(3,4)] by (simp add: stored_def)
  also have "\<dots> = stored d key' name'" using only assms(5) by (cases "key' = key") (auto simp: changes_only_def stored_def)
  finally show ?thesis .
qed

theorem entity_change_local_witness:
  "\<exists>d n w. delete_entity_mutator ''routes'' ''r'' example_effective_document = Inr d \<and>
     normalizeAndValidateConfigDocumentForMutation example_config_host d no_warnings = (Inr n, w) \<and>
     stored n ''models'' ''m'' = stored example_effective_document ''models'' ''m''"
proof -
  obtain n w where n: "normalizeAndValidateConfigDocumentForMutation example_config_host example_effective_document no_warnings = (Inr n, w)"
    by (rule example_accepted)
  have d: "delete_entity_mutator ''routes'' ''r'' example_effective_document = Inr (jset ''routes'' (JObj []) example_effective_document)"
    using example_one_route by (simp add: delete_entity_mutator_def getMutableConfigSection_def section_fields_def jm_delete_def)
  obtain n' w' where n': "normalizeAndValidateConfigDocumentForMutation example_config_host
      (jset ''routes'' (JObj []) example_effective_document) no_warnings = (Inr n', w')"
    using last_route_accepted [OF n example_one_route] by blast
  have "entity_change ''routes'' ''r'' (delete_entity_mutator ''routes'' ''r'')" by (rule entity_change.delete) simp
  from entity_change_local [OF this d n', of "''models''" "''m''"] d n' show ?thesis by simp
qed

text \<open>
  Property (last_route_deletion_unloadable). Deleting the only route of a configuration passes validation, but no
  load of the document that is written succeeds: the gateway and every command that reads the
  configuration refuse a configuration without routes.
\<close>
theorem last_route_deletion_unloadable:
  assumes "jprop d ''routes'' = Some (JObj [(routeId, route)])"
    and "normalizeAndValidateConfigDocumentForMutation host d w = (Inr n, w')"
  shows "\<exists>d' n' w2. delete_entity_mutator ''routes'' routeId d = Inr d' \<and>
    normalizeAndValidateConfigDocumentForMutation host d' w = (Inr n', w2) \<and>
    (\<forall>host' p s retention required w3. load_document host' p = Inr (n', s, retention) \<longrightarrow>
       (\<exists>e. fst (loadValidatedConfigSnapshot host' p required w3) = Inl e))"
proof -
  have "delete_entity_mutator ''routes'' routeId d = Inr (jset ''routes'' (JObj []) d)"
    using assms(1) by (simp add: delete_entity_mutator_def getMutableConfigSection_def section_fields_def jm_delete_def)
  with last_route_accepted [OF assms(2,1)] no_routes_not_loaded show ?thesis by metis
qed

theorem last_route_deletion_unloadable_witness:
  "\<exists>d n w. delete_entity_mutator ''routes'' ''r'' example_effective_document = Inr d \<and>
     normalizeAndValidateConfigDocumentForMutation example_config_host d no_warnings = (Inr n, w)"
proof -
  obtain n w where n: "normalizeAndValidateConfigDocumentForMutation example_config_host example_effective_document no_warnings = (Inr n, w)"
    by (rule example_accepted)
  from last_route_deletion_unloadable [OF example_one_route n] show ?thesis by blast
qed

end
