(* ===== verification/Mcp_Config_Tools.thy ===== *)
theory Mcp_Config_Tools
  imports Mcp_Parsers Config_Metadata Control_Actions Config_Consistency
begin

text \<open>
  What the tools for the configuration do: \<^verbatim>\<open>mcp/config-entity-handlers.ts\<close>, \<^verbatim>\<open>config-runtime.ts\<close>, \<^verbatim>\<open>helpers.ts\<close>,
  \<^verbatim>\<open>read-tools.ts\<close> and \<^verbatim>\<open>tool-payload-builder.ts\<close>. A tool that changes the configuration parses its arguments, starts an
  audit in the store of the session, makes one change with the operations of \<open>Config_Mutation\<close> and finishes the
  audit. The tools of observability, benchmarks, optimisation and the gateway are an argument.

  Main results: without the capability for privileged tools a session changes no key of a provider; every call
  that changes the configuration leaves one row in the ledger, which says how it ended; reading changes nothing.
\<close>

section \<open>Surroundings and state\<close>

record tool_env =
  te_host :: config_host
  te_suffixes :: write_suffixes
  te_configPath :: "string option"
  te_errorText :: "config_error \<Rightarrow> string"               \<comment> \<open>the message of an error\<close>
  te_storePath :: "string + string"                       \<comment> \<open>\<open>resolveObservabilityStorePath\<close>, which may throw\<close>
  te_open :: store_opening
  te_audit :: audit_runtime

record tools_state =
  tw_config :: mutation_state
  tw_actions :: action_db                                 \<comment> \<open>the ledger in the store\<close>
  tw_ticks :: nat                                         \<comment> \<open>readings of clock and random numbers\<close>
  tw_log :: "string list"

record tools_world = tools_state +
  tw_context :: session_context
  tw_sessions :: session_module

text \<open>A handler throws, or its promise is rejected, or it gives an envelope.\<close>

datatype payload = Threw tool_failure | Rejected tool_failure | Resolved envelope

text \<open>\<open>Promise.resolve(handler()).catch(...)\<close> handles a rejection, not an error thrown by the handler itself.\<close>

fun buildHandledPayload :: "string \<Rightarrow> string \<Rightarrow> payload \<Rightarrow> payload" where
  "buildHandledPayload command fallbackCode (Rejected f) = Resolved (toEnvelopeFromError command f fallbackCode None)"
| "buildHandledPayload command fallbackCode p = p"

section \<open>Values and envelopes\<close>

fun js_of_json :: "json \<Rightarrow> js_value"
  and js_of_items :: "json list \<Rightarrow> js_value list"
  and js_of_entries :: "(string \<times> json) list \<Rightarrow> (string \<times> js_value) list" where
  "js_of_json JNull = VNull"
| "js_of_json (JBool b) = VBool b"
| "js_of_json (JNum n) = VNum n"
| "js_of_json (JStr s) = VStr s"
| "js_of_json (JArr vs) = VArr (js_of_items vs)"
| "js_of_json (JObj fs) = VObj (js_of_entries fs)"
| "js_of_items [] = []"
| "js_of_items (v # vs) = js_of_json v # js_of_items vs"
| "js_of_entries [] = []"
| "js_of_entries ((k, v) # fs) = (k, js_of_json v) # js_of_entries fs"

definition no_options :: success_options where
  "no_options = \<lparr>sx_count = None, sx_warnings = None, sx_details = None, sx_normalized_fields = None, sx_top_level = None, sx_editability = None\<rparr>"

definition succeed_with :: "string \<Rightarrow> json \<Rightarrow> success_options \<Rightarrow> tool_failure + envelope" where
  "succeed_with command data options =
     (case buildSuccessEnvelope command (js_of_json data) options of
        Inl (ReservedTopLevelField k) \<Rightarrow>
          Inl (OtherError (Some (''Success envelope top_level must not override reserved field '' @ quoted k @ ''.'')))
      | Inr e \<Rightarrow> Inr e)"

definition config_failure :: "tool_env \<Rightarrow> config_error \<Rightarrow> tool_failure" where
  "config_failure E e =
     (case e of
        CodedError code message \<Rightarrow> ToolError code message None
      | InvalidInput cause \<Rightarrow> invalidInputFieldError (te_errorText E cause)
      | _ \<Rightarrow> OtherError (Some (te_errorText E e)))"

text \<open>A failed change is an invalid input unless it has a code of its own.\<close>

definition tool_mutator :: "tool_env \<Rightarrow> config_mutator" where
  "tool_mutator E configPath mutator s =
     (case mutateConfigDocument (te_host E) (te_suffixes E) configPath mutator s of
        (Inr u, t) \<Rightarrow> (Inr u, t)
      | (Inl e, t) \<Rightarrow> (Inl (case e of CodedError _ _ \<Rightarrow> e | InvalidInput _ \<Rightarrow> e | _ \<Rightarrow> InvalidInput e), t))"

definition toolReadModel :: "tool_env \<Rightarrow> mutation_state \<Rightarrow> (config_error + cli_read_model) \<times> mutation_state" where
  "toolReadModel E s =
     (case loadCliReadModel (disk_host (te_host E) s) (te_configPath E) (mu_warnings s) of (r, w) \<Rightarrow> (r, s\<lparr>mu_warnings := w\<rparr>))"

text \<open>An operation on the configuration whose result is shown; the envelope of \<open>buildHandledResult\<close>.\<close>

definition answer_with ::
  "tool_env \<Rightarrow> string \<Rightarrow> string \<Rightarrow> ('v \<Rightarrow> tool_failure + envelope) \<Rightarrow> (mutation_state \<Rightarrow> (config_error + 'v) \<times> mutation_state) \<Rightarrow>
   mutation_state \<Rightarrow> envelope \<times> mutation_state" where
  "answer_with E command fallbackCode show_result operation =
     buildHandledResult command fallbackCode (\<lambda>s.
       case operation s of
         (Inl e, t) \<Rightarrow> (Inl (config_failure E e), t)
       | (Inr v, t) \<Rightarrow> (show_result v, t))"

section \<open>Views\<close>

definition cost_view :: "cost_config option \<Rightarrow> json" where
  "cost_view c =
     (case c of
        None \<Rightarrow> JNull
      | Some k \<Rightarrow> JObj [(''input'', JNum (co_input k)), (''output'', JNum (co_output k)), (''cacheRead'', JNum (co_cacheRead k)),
          (''cacheWrite'', JNum (co_cacheWrite k))])"

definition modelView :: "model_read_model \<Rightarrow> json" where
  "modelView m =
     JObj [(''name'', JStr (mr_name m)), (''display_name'', JStr (mr_display_name m)), (''model_creator'', JStr (mr_model_creator m)),
           (''route_count'', JNum (of_nat (mr_route_count m))), (''cost'', cost_view (mr_cost m))]"

fun auth_source_name :: "auth_source \<Rightarrow> string" where
  "auth_source_name inline_override = ''inline override''"
| "auth_source_name secrets_override = ''secrets override''"
| "auth_source_name env_var = ''env var''"
| "auth_source_name not_required = ''not required''"

definition buildProviderView :: "provider_read_model \<Rightarrow> json" where
  "buildProviderView p =
     JObj [(''name'', JStr (pm_name p)), (''api_mode'', JStr (api_mode_name (pm_api_mode p))), (''endpoint'', JStr (pm_endpoint p)),
           (''allow_private_endpoints'', JBool (pm_allow_private_endpoints p)), (''allow_insecure_http'', JBool (pm_allow_insecure_http p)),
           (''anthropic_version'', nullable_text (pm_anthropic_version p)),
           (''model_id_format'', JStr (model_id_format_name (pm_model_id_format p))),
           (''auth_source'', JStr (auth_source_name (pm_auth_source p))),
           (''api_key_env'', nullable_text (maskSemiSensitiveEnvVarName (pm_api_key_env p))), (''api_key'', nullable_text (pm_api_key_masked p))]"

definition buildRouteView :: "route_read_model \<Rightarrow> json" where
  "buildRouteView r =
     JObj [(''name'', JStr (rm_name r)), (''display_name'', JStr (rm_display_name r)), (''model'', JStr (rm_model r)),
           (''service_provider'', JStr (rm_service_provider r)), (''provider_model_id'', JStr (rm_provider_model_id r)),
           (''api_mode'', JStr (api_mode_name (rm_api_mode r))), (''timeout_ms'', nullable JNum (rm_timeout_ms r)),
           (''effective_timeout_ms'', JNum (rm_effective_timeout_ms r)), (''cost'', cost_view (rm_cost r)),
           (''model_cost'', cost_view (rm_model_cost r)), (''effective_cost'', cost_view (rm_effective_cost r))]"

text \<open>The touched fields whose texts differ; values of JSON have the same text if they are equal.\<close>

definition normalized_entry :: "(string \<times> json) list \<Rightarrow> json \<Rightarrow> string \<Rightarrow> js_value list" where
  "normalized_entry requested stored_value field =
     (if map_of requested field = jprop stored_value field then []
      else [VObj ((''field'', VStr field) # (''input'', case map_of requested field of Some v \<Rightarrow> js_of_json v | None \<Rightarrow> VOther) #
                  [(''stored'', case jprop stored_value field of Some v \<Rightarrow> js_of_json v | None \<Rightarrow> VOther)])])"

definition collectNormalizedFields :: "(string \<times> json) list \<Rightarrow> json \<Rightarrow> string list \<Rightarrow> js_value list" where
  "collectNormalizedFields requested stored_value touched = concat (map (normalized_entry requested stored_value) touched)"

definition with_normalized :: "js_value list \<Rightarrow> success_options" where
  "with_normalized fs = no_options\<lparr>sx_normalized_fields := (if fs = [] then None else Some (VArr fs))\<rparr>"

definition deleted_view :: "string \<Rightarrow> json" where
  "deleted_view n = JObj [(''name'', JStr n), (''deleted'', JBool True)]"

section \<open>Changes\<close>

text \<open>Costs are compared as the parser gives them, in the names of the program, not in those of the document.\<close>

definition requested_model :: "model_create_input \<Rightarrow> (string \<times> json) list" where
  "requested_model i =
     [(''display_name'', JStr (mci_display_name i)), (''model_creator'', JStr (mci_model_creator i))] @
     optional_field ''cost'' (\<lambda>c. cost_view (Some c)) (mci_cost i)"

definition buildModelsCreatePayload :: "tool_env \<Rightarrow> model_create_input \<Rightarrow> mutation_state \<Rightarrow> envelope \<times> mutation_state" where
  "buildModelsCreatePayload E i =
     answer_with E ''models create'' ''models_create_error''
       (\<lambda>(v, normalized). succeed_with ''models create'' (modelView v)
          (with_normalized (collectNormalizedFields (requested_model i) normalized (map fst (requested_model i)))))
       (createModel (te_host E) (tool_mutator E) (te_configPath E) (mci_name i) (model_create_fields i))"

definition model_update_values :: "model_update_input \<Rightarrow> (string \<times> json) list" where
  "model_update_values i =
     optional_field ''display_name'' JStr (mui_display_name i) @ optional_field ''model_creator'' JStr (mui_model_creator i) @
     optional_field ''cost'' cost_view (mui_cost i)"

definition model_update_changes :: "model_update_input \<Rightarrow> model_changes" where
  "model_update_changes i =
     \<lparr>mc_display_name = mui_display_name i, mc_model_creator = mui_model_creator i, mc_cost = map_option (nullable pickCostFields) (mui_cost i)\<rparr>"

definition buildModelsUpdatePayload :: "tool_env \<Rightarrow> model_update_input \<Rightarrow> mutation_state \<Rightarrow> envelope \<times> mutation_state" where
  "buildModelsUpdatePayload E i =
     answer_with E ''models update'' ''models_update_error''
       (\<lambda>(v, normalized). succeed_with ''models update'' (modelView v)
          (with_normalized (collectNormalizedFields (model_update_values i) normalized (map fst (model_update_values i)))))
       (updateModel (te_host E) (tool_mutator E) (te_configPath E) (mui_name i) (model_update_changes i))"

definition buildModelsDeletePayload :: "tool_env \<Rightarrow> string \<Rightarrow> mutation_state \<Rightarrow> envelope \<times> mutation_state" where
  "buildModelsDeletePayload E modelId =
     answer_with E ''models delete'' ''models_delete_error'' (\<lambda>n. succeed_with ''models delete'' (deleted_view n) no_options)
       (deleteModel (te_host E) (tool_mutator E) (te_configPath E) modelId)"

definition buildProvidersCreatePayload :: "tool_env \<Rightarrow> provider_create_input \<Rightarrow> mutation_state \<Rightarrow> envelope \<times> mutation_state" where
  "buildProvidersCreatePayload E i =
     answer_with E ''providers create'' ''providers_create_error''
       (\<lambda>(v, normalized). succeed_with ''providers create'' (buildProviderView v)
          (with_normalized (collectNormalizedFields (provider_create_fields i) normalized (map fst (provider_create_fields i)))))
       (createProvider (te_host E) (tool_mutator E) (te_configPath E) (pci_name i) (provider_create_fields i))"

text \<open>Clearing the key from the environment clears the inline key, too.\<close>

definition provider_update_values :: "provider_update_input \<Rightarrow> (string \<times> json) list" where
  "provider_update_values i =
     optional_field ''endpoint'' JStr (pui_endpoint i) @
     optional_field ''allow_private_endpoints'' JBool (pui_allow_private_endpoints i) @
     optional_field ''allow_insecure_http'' JBool (pui_allow_insecure_http i) @
     optional_field ''api_mode'' (\<lambda>m. JStr (api_mode_name m)) (pui_api_mode i) @
     optional_field ''anthropic_version'' nullable_text (pui_anthropic_version i) @
     optional_field ''model_id_format'' (\<lambda>f. JStr (model_id_format_name f)) (pui_model_id_format i) @
     optional_field ''api_key_env'' nullable_text (pui_api_key_env i) @
     (if update_no_auth i then [(''api_key'', JNull)] else [])"

definition buildProvidersUpdatePayload :: "tool_env \<Rightarrow> provider_update_input \<Rightarrow> mutation_state \<Rightarrow> envelope \<times> mutation_state" where
  "buildProvidersUpdatePayload E i =
     answer_with E ''providers update'' ''providers_update_error''
       (\<lambda>(v, normalized). succeed_with ''providers update'' (buildProviderView v)
          (with_normalized (collectNormalizedFields (provider_update_values i) normalized (map fst (provider_update_values i)))))
       (updateProvider (te_host E) (tool_mutator E) (te_configPath E) (pui_name i) (provider_update_values i))"

definition buildProvidersDeletePayload :: "tool_env \<Rightarrow> string \<Rightarrow> mutation_state \<Rightarrow> envelope \<times> mutation_state" where
  "buildProvidersDeletePayload E providerId =
     answer_with E ''providers delete'' ''providers_delete_error'' (\<lambda>n. succeed_with ''providers delete'' (deleted_view n) no_options)
       (deleteProvider (te_host E) (tool_mutator E) (te_configPath E) providerId)"

definition show_provider :: "string \<Rightarrow> provider_read_model \<Rightarrow> tool_failure + envelope" where
  "show_provider command p = succeed_with command (buildProviderView p) no_options"

definition buildProvidersSetKeyPayload :: "tool_env \<Rightarrow> string \<times> string \<Rightarrow> mutation_state \<Rightarrow> envelope \<times> mutation_state" where
  "buildProvidersSetKeyPayload E a =
     answer_with E ''providers set-key'' ''providers_set_key_error'' (show_provider ''providers set-key'')
       (setProviderInlineApiKey (te_host E) (tool_mutator E) (te_configPath E) (fst a) (snd a))"

definition buildProvidersClearKeyPayload :: "tool_env \<Rightarrow> string \<Rightarrow> mutation_state \<Rightarrow> envelope \<times> mutation_state" where
  "buildProvidersClearKeyPayload E providerId =
     answer_with E ''providers clear-key'' ''providers_clear_key_error'' (show_provider ''providers clear-key'')
       (clearProviderInlineApiKey (te_host E) (tool_mutator E) (te_configPath E) providerId)"

definition buildProvidersSetKeyEnvPayload :: "tool_env \<Rightarrow> string \<times> string \<Rightarrow> mutation_state \<Rightarrow> envelope \<times> mutation_state" where
  "buildProvidersSetKeyEnvPayload E a =
     answer_with E ''providers set-key-env'' ''providers_set_key_env_error'' (show_provider ''providers set-key-env'')
       (setProviderApiKeyEnv (te_host E) (tool_mutator E) (te_configPath E) (fst a) (snd a))"

definition buildRoutesCreatePayload :: "tool_env \<Rightarrow> route_create_input \<Rightarrow> mutation_state \<Rightarrow> envelope \<times> mutation_state" where
  "buildRoutesCreatePayload E i =
     answer_with E ''routes create'' ''routes_create_error'' (\<lambda>r. succeed_with ''routes create'' (buildRouteView r) no_options)
       (createRoute (te_host E) (tool_mutator E) (te_configPath E) (rci_name i) (route_create_fields i))"

definition buildRoutesUpdatePayload :: "tool_env \<Rightarrow> route_update_input \<Rightarrow> mutation_state \<Rightarrow> envelope \<times> mutation_state" where
  "buildRoutesUpdatePayload E i =
     answer_with E ''routes update'' ''routes_update_error'' (\<lambda>r. succeed_with ''routes update'' (buildRouteView r) no_options)
       (updateRoute (te_host E) (tool_mutator E) (te_configPath E) (rui_name i) (route_update_fields i))"

definition buildRoutesDeletePayload :: "tool_env \<Rightarrow> string \<Rightarrow> mutation_state \<Rightarrow> envelope \<times> mutation_state" where
  "buildRoutesDeletePayload E routeId =
     answer_with E ''routes delete'' ''routes_delete_error'' (\<lambda>n. succeed_with ''routes delete'' (deleted_view n) no_options)
       (deleteRoute (te_host E) (tool_mutator E) (te_configPath E) routeId)"

section \<open>Reading\<close>

definition on_read_model :: "tool_env \<Rightarrow> (cli_read_model \<Rightarrow> tool_failure + envelope) \<Rightarrow> mutation_state \<Rightarrow> (tool_failure + envelope) \<times> mutation_state" where
  "on_read_model E f s =
     (case toolReadModel E s of
        (Inl e, t) \<Rightarrow> (Inl (config_failure E e), t)
      | (Inr m, t) \<Rightarrow> (f m, t))"

definition missing_entity :: "string \<Rightarrow> string \<Rightarrow> string \<Rightarrow> string \<Rightarrow> envelope" where
  "missing_entity command code entity n = buildMcpErrorEnvelope command code (entity @ '' '' @ quoted n @ '' was not found'') None"

definition list_with :: "string \<Rightarrow> json list \<Rightarrow> tool_failure + envelope" where
  "list_with command vs = succeed_with command (JArr vs) (no_options\<lparr>sx_count := Some (of_nat (length vs))\<rparr>)"

definition show_with :: "string \<Rightarrow> json \<Rightarrow> json \<Rightarrow> tool_failure + envelope" where
  "show_with command v metadata = succeed_with command v (no_options\<lparr>sx_editability := Some (js_of_json metadata)\<rparr>)"

definition buildModelsShowToolPayload :: "string \<Rightarrow> cli_read_model \<Rightarrow> tool_failure + envelope" where
  "buildModelsShowToolPayload modelId m =
     (case modelsByName m modelId of
        None \<Rightarrow> Inr (missing_entity ''models show'' ''model_not_found'' ''Model'' modelId)
      | Some v \<Rightarrow> show_with ''models show'' (modelView v) buildModelFieldMetadata)"

definition buildProvidersShowToolPayload :: "string \<Rightarrow> cli_read_model \<Rightarrow> tool_failure + envelope" where
  "buildProvidersShowToolPayload providerId m =
     (case providersByName m providerId of
        None \<Rightarrow> Inr (missing_entity ''providers show'' ''provider_not_found'' ''Provider'' providerId)
      | Some v \<Rightarrow> show_with ''providers show'' (buildProviderView v) buildProviderFieldMetadata)"

definition buildRoutesShowToolPayload :: "string \<Rightarrow> cli_read_model \<Rightarrow> tool_failure + envelope" where
  "buildRoutesShowToolPayload routeId m =
     (case routesByName m routeId of
        None \<Rightarrow> Inr (missing_entity ''routes show'' ''route_not_found'' ''Route'' routeId)
      | Some v \<Rightarrow> show_with ''routes show'' (buildRouteView v) buildRouteFieldMetadata)"

text \<open>\<open>value || "(none)"\<close>\<close>

definition or_none :: "string \<Rightarrow> string" where
  "or_none v = (if v = [] then ''(none)'' else v)"

definition explanation_lines :: "(rat \<Rightarrow> string) \<Rightarrow> route_read_model \<Rightarrow> string list" where
  "explanation_lines nts r =
     [''Route Name Meaning: callers use '' @ quoted (rm_name r) @ '' as the operator-facing route key.'',
      ''Display Name Meaning: '' @ quoted (or_none (rm_display_name r)) @ '' is the human-facing label stored on this route.'',
      ''Canonical Model Meaning: '' @ quoted (or_none (rm_model r)) @ '' is the canonical model key referenced by this route.'',
      ''Service Provider Meaning: '' @ quoted (or_none (rm_service_provider r)) @
        '' is the configured provider entry this route uses for upstream transport.'',
      ''Provider Model ID Meaning: '' @ quoted (or_none (rm_provider_model_id r)) @
        '' is the exact model identifier sent to the upstream provider.'',
      ''API Mode Meaning: '' @ quoted (api_mode_name (rm_api_mode r)) @ '' is the outbound API dialect configured on the selected provider.'',
      ''Timeout Meaning: route timeout override is '' @ quoted (case rm_timeout_ms r of Some n \<Rightarrow> nts n | None \<Rightarrow> ''(inherit)'') @
        '', and the effective request timeout is '' @ quoted (nts (rm_effective_timeout_ms r)) @ '' milliseconds.'']"

definition explanation :: "(rat \<Rightarrow> string) \<Rightarrow> route_read_model \<Rightarrow> json" where
  "explanation nts r =
     JObj [(''name'', JStr (rm_name r)), (''display_name'', JStr (rm_display_name r)), (''model'', JStr (rm_model r)),
           (''service_provider'', JStr (rm_service_provider r)), (''provider_model_id'', JStr (rm_provider_model_id r)),
           (''api_mode'', JStr (api_mode_name (rm_api_mode r))), (''timeout_ms'', nullable JNum (rm_timeout_ms r)),
           (''effective_timeout_ms'', JNum (rm_effective_timeout_ms r)), (''explanation_lines'', texts (explanation_lines nts r))]"

definition buildRoutesExplainPayload :: "tool_env \<Rightarrow> string \<Rightarrow> mutation_state \<Rightarrow> envelope \<times> mutation_state" where
  "buildRoutesExplainPayload E routeId =
     buildHandledResult ''routes explain'' ''routes_explain_error'' (on_read_model E (\<lambda>m.
       case routesByName m routeId of
         None \<Rightarrow> Inr (missing_entity ''routes explain'' ''route_not_found'' ''Route'' routeId)
       | Some r \<Rightarrow> succeed_with ''routes explain'' (explanation (hs_numberText (te_host E)) r) no_options))"

definition buildConfigShowToolPayload :: "tool_env \<Rightarrow> mutation_state \<Rightarrow> tool_failure + envelope" where
  "buildConfigShowToolPayload E s =
     (case loadConfigDocumentForDisplay (disk_host (te_host E) s) (te_configPath E) of
        Inl e \<Rightarrow> Inl (config_failure E e)
      | Inr (sourceFile, sourcePath, document, _) \<Rightarrow>
          succeed_with ''config show''
            (JObj [(''source_path'', JStr sourcePath), (''source_file'', JStr sourceFile), (''document'', document)]) no_options)"

subsection \<open>Validation of the configuration\<close>

definition inline_warning :: "provider_read_model \<Rightarrow> json" where
  "inline_warning p =
     JObj [(''code'', JStr ''inline_api_key_override''),
           (''message'', JStr (''Provider '' @ quoted (pm_name p) @ '' is using an inline api_key override that takes precedence over api_key_env.'')),
           (''provider'', JStr (pm_name p))]"

definition getConfigWarnings :: "cli_read_model \<Rightarrow> json list" where
  "getConfigWarnings m = map inline_warning (filter (\<lambda>p. pm_auth_source p = inline_override) (cr_providers m))"

definition missing_env :: "env_lookup \<Rightarrow> provider_read_model \<Rightarrow> bool" where
  "missing_env env p \<longleftrightarrow>
     pm_auth_source p = env_var \<and> (case pm_api_key_env p of None \<Rightarrow> False | Some n \<Rightarrow> non_blank n \<and> getNonEmptyEnvValue n env = None)"

definition missing_env_detail :: "cli_read_model \<Rightarrow> provider_read_model \<Rightarrow> json" where
  "missing_env_detail m p =
     (let n = (case pm_api_key_env p of Some n \<Rightarrow> n | None \<Rightarrow> [])
      in JObj [(''code'', JStr ''missing_env_var''),
               (''message'', JStr (''Provider '' @ quoted (pm_name p) @ '' depends on missing environment variable '' @ quoted n @ ''.'')),
               (''provider'', JStr (pm_name p)), (''env_var'', JStr n),
               (''affected_routes'', texts (map rm_name (filter (\<lambda>r. rm_service_provider r = pm_name p) (cr_routes m))))])"

definition getConfigMissingEnvDetails :: "env_lookup \<Rightarrow> cli_read_model \<Rightarrow> json list" where
  "getConfigMissingEnvDetails env m = map (missing_env_detail m) (filter (missing_env env) (cr_providers m))"

text \<open>The read model is loaded anew for the warnings and for the details; a failure gives the empty list.\<close>

definition buildConfigValidatePayload :: "tool_env \<Rightarrow> mutation_state \<Rightarrow> (tool_failure + envelope) \<times> mutation_state" where
  "buildConfigValidatePayload E s =
     (case loadConfig (disk_host (te_host E) s) (te_configPath E) (mu_warnings s) of
        (r, w) \<Rightarrow>
          (case toolReadModel E (s\<lparr>mu_warnings := w\<rparr>) of
             (m, t) \<Rightarrow>
               (case rbind r (\<lambda>c. rbind m (\<lambda>v. Inr (c, v))) of
                  Inr (c, v) \<Rightarrow>
                    (succeed_with ''config validate''
                       (JObj [(''valid'', JBool True), (''source_file'', JStr (cs_sourceFile c)), (''bind_host'', JStr (st_bindHost (st_capacity (cs_settings c)))),
                              (''route_count'', JNum (of_nat (length (cs_routes c))))])
                       (no_options\<lparr>sx_warnings := Some (js_of_json (JArr (getConfigWarnings v)))\<rparr>), t)
                | Inl e \<Rightarrow>
                    (let shown = (\<lambda>f. case m of Inl _ \<Rightarrow> [] | Inr v \<Rightarrow> f v)
                     in (Inr (buildSanitizedErrorEnvelope ''config validate'' ''invalid_config'' (te_errorText E e)
                           (Some (js_of_json (JArr (shown getConfigWarnings))))
                           (Some (js_of_json (JObj [(''missing_env'', JArr (shown (getConfigMissingEnvDetails (hs_env (te_host E)))))])))), t)))))"

section \<open>Audits\<close>

text \<open>An audit that has been opened: the path of the store and the identifier of the action, if one was recorded.\<close>

type_synonym mcp_audit = "(string \<times> string option) option"

definition audit_handle :: "tool_env \<Rightarrow> string \<Rightarrow> tools_world \<Rightarrow> (string + nat option) \<times> tools_world" where
  "audit_handle E dbPath w =
     (case getSessionObservabilityHandle (te_open E) dbPath True (tw_context w) (tw_sessions w) of
        (r, c, m) \<Rightarrow> (r, w\<lparr>tw_context := c, tw_sessions := m\<rparr>))"

definition log_all :: "string list \<Rightarrow> tools_world \<Rightarrow> tools_world" where
  "log_all ls w = w\<lparr>tw_log := tw_log w @ ls\<rparr>"

definition audit_unavailable :: "string \<Rightarrow> string" where
  "audit_unavailable message =
     ''Unable to open observability store for MCP config mutation audit: '' @ safeErrorText message DEFAULT_LOG_VALUE_MAX_LEN"

definition audit_start_of :: "tool_env \<Rightarrow> string \<Rightarrow> string \<Rightarrow> string \<Rightarrow> string \<Rightarrow> string \<Rightarrow> audit_start" where
  "audit_start_of E sessionId dbPath operation targetKind targetId =
     \<lparr>as_sourceSurface = ''mcp'', as_operation = operation, as_targetKind = targetKind, as_targetId = Some targetId,
      as_createdBy = ''switchmaxxer mcp'', as_actorKind = ''agent'', as_sessionId = Some sessionId,
      as_metadata = JObj [(''requested_config_path'', nullable_text (te_configPath E)), (''observability_store_path'', JStr dbPath)]\<rparr>"

definition createMcpMutationAudit :: "tool_env \<Rightarrow> string \<Rightarrow> string \<Rightarrow> string \<Rightarrow> tools_world \<Rightarrow> mcp_audit \<times> tools_world" where
  "createMcpMutationAudit E operation targetKind targetId w =
     (case te_storePath E of
        Inl e \<Rightarrow> (None, log_all [audit_unavailable e] w)
      | Inr dbPath \<Rightarrow>
          (case audit_handle E dbPath w of
             (Inl e, w) \<Rightarrow> (None, log_all [audit_unavailable e] w)
           | (Inr None, w) \<Rightarrow> (None, w)
           | (Inr (Some _), w) \<Rightarrow>
               (case startConfigMutationControlPlaneAudit (te_audit E) (tw_ticks w)
                       (audit_start_of E (cx_sessionId (tw_context w)) dbPath operation targetKind targetId) (tw_actions w) of
                  (actionId, ls, db) \<Rightarrow>
                    (Some (dbPath, actionId), log_all ls (w\<lparr>tw_ticks := Suc (tw_ticks w), tw_actions := db\<rparr>)))))"

text \<open>The store is opened again to finish the audit; that may throw.\<close>

definition finish_mcp_audit ::
  "tool_env \<Rightarrow> mcp_audit \<Rightarrow> string \<Rightarrow> string \<Rightarrow> json option \<Rightarrow> audit_error option \<Rightarrow> tools_world \<Rightarrow> (string + unit) \<times> tools_world" where
  "finish_mcp_audit E audit status targetId result error w =
     (case audit of
        None \<Rightarrow> (Inr (), w)
      | Some (dbPath, actionId) \<Rightarrow>
          (case audit_handle E dbPath w of
             (Inl e, w) \<Rightarrow> (Inl e, w)
           | (Inr None, w) \<Rightarrow> (Inr (), w)
           | (Inr (Some _), w) \<Rightarrow>
               (case finishConfigMutationControlPlaneAudit (te_audit E) (tw_ticks w) actionId status (Some targetId) result error (tw_actions w) of
                  (ls, db) \<Rightarrow> (Inr (), log_all ls (w\<lparr>tw_ticks := Suc (tw_ticks w), tw_actions := db\<rparr>)))))"

definition envelope_ok :: "envelope \<Rightarrow> bool" where
  "envelope_ok e \<longleftrightarrow> map_of e ''ok'' = Some (VBool True)"

definition error_text :: "envelope \<Rightarrow> string \<Rightarrow> string" where
  "error_text e field =
     (case map_of e ''error'' of
        Some (VObj fs) \<Rightarrow> (case map_of fs field of Some (VStr s) \<Rightarrow> s | _ \<Rightarrow> [])
      | _ \<Rightarrow> [])"

definition error_of :: "envelope \<Rightarrow> audit_error" where
  "error_of e = \<lparr>er_code = error_text e ''code'', er_message = error_text e ''message'', er_details = Option.bind (map_of e ''details'') value_json\<rparr>"

definition fail_audit :: "tool_env \<Rightarrow> mcp_audit \<Rightarrow> string \<Rightarrow> envelope \<Rightarrow> tools_world \<Rightarrow> (string + unit) \<times> tools_world" where
  "fail_audit E audit targetId e = finish_mcp_audit E audit ''failed'' targetId None (Some (error_of e))"

text \<open>What follows an error, of the handler or of the finished audit.\<close>

definition caught :: "tool_env \<Rightarrow> string \<Rightarrow> string \<Rightarrow> mcp_audit \<Rightarrow> string \<Rightarrow> tool_failure \<Rightarrow> tools_world \<Rightarrow> payload \<times> tools_world" where
  "caught E command fallbackCode audit targetId f w =
     (let e = toEnvelopeFromError command f fallbackCode None
      in case fail_audit E audit targetId e w of
           (Inl message, w) \<Rightarrow> (Rejected (OtherError (Some message)), w)
         | (Inr _, w) \<Rightarrow> (Resolved e, w))"

definition run_audited ::
  "tool_env \<Rightarrow> string \<Rightarrow> string \<Rightarrow> mcp_audit \<Rightarrow> string \<Rightarrow> (mutation_state \<Rightarrow> (tool_failure + envelope) \<times> mutation_state) \<Rightarrow>
   tools_world \<Rightarrow> payload \<times> tools_world" where
  "run_audited E command fallbackCode audit targetId handler w =
     (case handler (tw_config w) of
        (r, s) \<Rightarrow>
          (let w = w\<lparr>tw_config := s\<rparr>
           in case r of
                Inl f \<Rightarrow> caught E command fallbackCode audit targetId f w
              | Inr e \<Rightarrow>
                  (case (if envelope_ok e then finish_mcp_audit E audit ''succeeded'' targetId (Some (JObj [])) None w
                         else fail_audit E audit targetId e w) of
                     (Inl message, w) \<Rightarrow> caught E command fallbackCode audit targetId (OtherError (Some message)) w
                   | (Inr _, w) \<Rightarrow> (Resolved e, w))))"

definition runAuditedParsedMcpMutation ::
  "tool_env \<Rightarrow> string \<Rightarrow> string \<Rightarrow> string \<Rightarrow> string \<Rightarrow> ('a \<Rightarrow> string) \<Rightarrow> tool_failure + 'a \<Rightarrow>
   ('a \<Rightarrow> mutation_state \<Rightarrow> (tool_failure + envelope) \<times> mutation_state) \<Rightarrow> tools_world \<Rightarrow> payload \<times> tools_world" where
  "runAuditedParsedMcpMutation E command fallbackCode operation targetKind targetId parsed handler w =
     (case parsed of
        Inl f \<Rightarrow> (buildHandledPayload command fallbackCode (Rejected f), w)
      | Inr args \<Rightarrow>
          (case createMcpMutationAudit E operation targetKind (targetId args) w of
             (audit, w) \<Rightarrow>
               (case run_audited E command fallbackCode audit (targetId args) (handler args) w of
                  (p, w) \<Rightarrow> (buildHandledPayload command fallbackCode p, w))))"

section \<open>The tools\<close>

definition requirePrivilegedProviderAuthMutation :: "string \<Rightarrow> string list \<Rightarrow> mcp_capability list option \<Rightarrow> tool_failure + unit" where
  "requirePrivilegedProviderAuthMutation command authFields capabilities =
     (if authFields = [] \<or> sessionCanCallTool Privileged capabilities then Inr ()
      else Inl (ToolError ''unsupported''
             (''MCP session is not authorized to change provider auth fields through '' @ quoted command @ ''.'')
             (Some (VObj [(''fields'', VArr (map VStr authFields))]))))"

text \<open>\<open>Array.from(new Set(...))\<close>\<close>

definition first_occurrences :: "string list \<Rightarrow> string list" where
  "first_occurrences xs = rev (remdups (rev xs))"

definition getProvidersUpdateAuthFields :: "provider_update_input \<Rightarrow> string list" where
  "getProvidersUpdateAuthFields i =
     first_occurrences ((if pui_api_key_env i \<noteq> None then [''api_key_env''] else []) @
       (if update_no_auth i then [''no_auth'', ''api_key'', ''api_key_env''] else []))"

definition always :: "('a \<Rightarrow> mutation_state \<Rightarrow> envelope \<times> mutation_state) \<Rightarrow> 'a \<Rightarrow> mutation_state \<Rightarrow> (tool_failure + envelope) \<times> mutation_state" where
  "always build args s = (case build args s of (e, t) \<Rightarrow> (Inr e, t))"

definition update_provider_handler ::
  "tool_env \<Rightarrow> mcp_capability list \<Rightarrow> provider_update_input \<Rightarrow> mutation_state \<Rightarrow> (tool_failure + envelope) \<times> mutation_state" where
  "update_provider_handler E capabilities i s =
     (case requirePrivilegedProviderAuthMutation ''providers_update'' (getProvidersUpdateAuthFields i) (Some capabilities) of
        Inl f \<Rightarrow> (Inl f, s)
      | Inr _ \<Rightarrow> always (buildProvidersUpdatePayload E) i s)"

definition reading :: "(mutation_state \<Rightarrow> (tool_failure + envelope) \<times> mutation_state) \<Rightarrow> tools_world \<Rightarrow> payload \<times> tools_world" where
  "reading f w =
     (case f (tw_config w) of
        (Inl e, s) \<Rightarrow> (Threw e, w\<lparr>tw_config := s\<rparr>)
      | (Inr e, s) \<Rightarrow> (Resolved e, w\<lparr>tw_config := s\<rparr>))"

definition showing ::
  "tool_env \<Rightarrow> tool_failure + string \<Rightarrow> (string \<Rightarrow> cli_read_model \<Rightarrow> tool_failure + envelope) \<Rightarrow> tools_world \<Rightarrow> payload \<times> tools_world" where
  "showing E parsed f = reading (\<lambda>s. case parsed of Inl e \<Rightarrow> (Inl e, s) | Inr n \<Rightarrow> on_read_model E (f n) s)"

definition reading_handlers :: "tool_env \<Rightarrow> (string \<times> (json option \<Rightarrow> tools_world \<Rightarrow> payload \<times> tools_world)) list" where
  "reading_handlers E =
     [(''config_validate'', \<lambda>_. reading (buildConfigValidatePayload E)),
      (''config_schema'', \<lambda>_. reading (\<lambda>s. (succeed_with ''config schema'' buildMcpConfigSchemaMetadata no_options, s))),
      (''config_show'', \<lambda>_. reading (\<lambda>s. (buildConfigShowToolPayload E s, s))),
      (''models_list'', \<lambda>_. reading (on_read_model E (\<lambda>m. list_with ''models list'' (map modelView (cr_models m))))),
      (''models_show'', \<lambda>p. showing E (parseModelsShowArgs p) buildModelsShowToolPayload),
      (''providers_list'', \<lambda>_. reading (on_read_model E (\<lambda>m. list_with ''providers list'' (map buildProviderView (cr_providers m))))),
      (''providers_show'', \<lambda>p. showing E (parseProvidersShowArgs p) buildProvidersShowToolPayload),
      (''routes_list'', \<lambda>_. reading (on_read_model E (\<lambda>m. list_with ''routes list'' (map buildRouteView (cr_routes m))))),
      (''routes_show'', \<lambda>p. showing E (parseRoutesShowArgs p ''routes_show'') buildRoutesShowToolPayload),
      (''routes_explain'', \<lambda>p. reading (\<lambda>s. case parseRoutesShowArgs p ''routes_explain'' of
                                            Inl e \<Rightarrow> (Inl e, s)
                                          | Inr n \<Rightarrow> always (buildRoutesExplainPayload E) n s))]"

definition changing_handlers :: "tool_env \<Rightarrow> (string \<times> (json option \<Rightarrow> tools_world \<Rightarrow> payload \<times> tools_world)) list" where
  "changing_handlers E =
     [(''models_create'', \<lambda>p. runAuditedParsedMcpMutation E ''models create'' ''models_create_error'' ''models_create'' ''model'' mci_name
         (parseModelsCreateArgs p) (always (buildModelsCreatePayload E))),
      (''models_update'', \<lambda>p. runAuditedParsedMcpMutation E ''models update'' ''models_update_error'' ''models_update'' ''model'' mui_name
         (parseModelsUpdateArgs p) (always (buildModelsUpdatePayload E))),
      (''models_delete'', \<lambda>p. runAuditedParsedMcpMutation E ''models delete'' ''models_delete_error'' ''models_delete'' ''model'' (\<lambda>n. n)
         (parseModelsDeleteArgs p) (always (buildModelsDeletePayload E))),
      (''providers_create'', \<lambda>p. runAuditedParsedMcpMutation E ''providers create'' ''providers_create_error'' ''providers_create'' ''provider''
         pci_name (parseProvidersCreateArgs p) (always (buildProvidersCreatePayload E))),
      (''providers_update'', \<lambda>p w. runAuditedParsedMcpMutation E ''providers update'' ''providers_update_error'' ''providers_update'' ''provider''
         pui_name (parseProvidersUpdateArgs p) (update_provider_handler E (cx_granted (tw_context w))) w),
      (''providers_delete'', \<lambda>p. runAuditedParsedMcpMutation E ''providers delete'' ''providers_delete_error'' ''providers_delete'' ''provider''
         (\<lambda>n. n) (parseProvidersDeleteArgs p) (always (buildProvidersDeletePayload E))),
      (''providers_set_key'', \<lambda>p. runAuditedParsedMcpMutation E ''providers set-key'' ''providers_set_key_error'' ''providers_set_key'' ''provider''
         fst (parseProvidersSetKeyArgs p) (always (buildProvidersSetKeyPayload E))),
      (''providers_clear_key'', \<lambda>p. runAuditedParsedMcpMutation E ''providers clear-key'' ''providers_clear_key_error'' ''providers_clear_key''
         ''provider'' (\<lambda>n. n) (parseProvidersClearKeyArgs p) (always (buildProvidersClearKeyPayload E))),
      (''providers_set_key_env'', \<lambda>p. runAuditedParsedMcpMutation E ''providers set-key-env'' ''providers_set_key_env_error''
         ''providers_set_key_env'' ''provider'' fst (parseProvidersSetKeyEnvArgs p) (always (buildProvidersSetKeyEnvPayload E))),
      (''routes_create'', \<lambda>p. runAuditedParsedMcpMutation E ''routes create'' ''routes_create_error'' ''routes_create'' ''route'' rci_name
         (parseRoutesCreateArgs p) (always (buildRoutesCreatePayload E))),
      (''routes_update'', \<lambda>p. runAuditedParsedMcpMutation E ''routes update'' ''routes_update_error'' ''routes_update'' ''route'' rui_name
         (parseRoutesUpdateArgs p) (always (buildRoutesUpdatePayload E))),
      (''routes_delete'', \<lambda>p. runAuditedParsedMcpMutation E ''routes delete'' ''routes_delete_error'' ''routes_delete'' ''route'' (\<lambda>n. n)
         (parseRoutesDeleteArgs p) (always (buildRoutesDeletePayload E)))]"

definition toolFallbackErrorCodes :: "(string \<times> string) list" where
  "toolFallbackErrorCodes =
     [(''config_validate'', ''invalid_config''), (''config_schema'', ''tool_execution_error''), (''config_show'', ''tool_execution_error''),
      (''models_list'', ''models_list_error''), (''models_show'', ''models_show_error''), (''models_create'', ''models_create_error''),
      (''models_update'', ''models_update_error''), (''models_delete'', ''models_delete_error''), (''providers_list'', ''providers_list_error''),
      (''providers_show'', ''providers_show_error''), (''providers_create'', ''providers_create_error''),
      (''providers_update'', ''providers_update_error''), (''providers_delete'', ''providers_delete_error''),
      (''providers_set_key'', ''providers_set_key_error''), (''providers_clear_key'', ''providers_clear_key_error''),
      (''providers_set_key_env'', ''providers_set_key_env_error''), (''routes_list'', ''routes_list_error''),
      (''routes_show'', ''routes_show_error''), (''routes_explain'', ''routes_explain_error''), (''routes_create'', ''routes_create_error''),
      (''routes_update'', ''routes_update_error''), (''routes_delete'', ''routes_delete_error'')]"

text \<open>The other tools are those of the argument \<open>others\<close>.\<close>

definition buildToolPayload :: "tool_env \<Rightarrow> tools_world tool_builder \<Rightarrow> tools_world tool_builder" where
  "buildToolPayload E others toolName params w =
     (case (map_of (reading_handlers E @ changing_handlers E) toolName, map_of toolFallbackErrorCodes toolName) of
        (Some handler, Some fallbackCode) \<Rightarrow>
          (case handler (Some params) w of
             (p, w) \<Rightarrow>
               (case buildHandledPayload (getToolEnvelopeCommand toolName) fallbackCode p of
                  Threw f \<Rightarrow> (Inl f, w)
                | Rejected f \<Rightarrow> (Inl f, w)
                | Resolved e \<Rightarrow> (Inr e, w)))
      | _ \<Rightarrow> others toolName params w)"

text \<open>The tools of a server: its session and its open stores are part of what they work on.\<close>

definition session_tools :: "tool_env \<Rightarrow> tools_world tool_builder \<Rightarrow> tools_state tool_world tool_builder" where
  "session_tools E others toolName params x =
     (case x of (c, m, st) \<Rightarrow>
        (case buildToolPayload E others toolName params (tools_state.extend st (tools_world.fields c m)) of
           (r, w) \<Rightarrow> (r, tw_context w, tw_sessions w, tools_state.truncate w)))"

section \<open>One change at most\<close>

text \<open>The writes that a change ends with, and the effect of a call on the disk: none, or one change of the loaded document.\<close>

definition write_effective :: "tool_env \<Rightarrow> string \<Rightarrow> loaded_catalog \<Rightarrow> json \<Rightarrow> io_state \<Rightarrow> io_state" where
  "write_effective E p catalog normalized io =
     (case splitEffectiveConfigDocumentForWrite normalized catalog of
        (configDocument, catalogDocument) \<Rightarrow>
          snd (iobind (writeConfigJsonDocumentIfChanged (host_on (te_host E) (io_disk io)) (ws_catalog (te_suffixes E))
                         (ws_catalogBackup (te_suffixes E)) ''catalog-tmp'' ''catalog.json'' (ct_sourcePath catalog) catalogDocument) (\<lambda>_.
                writeConfigJsonDocumentIfChanged (host_on (te_host E) (io_disk io)) (ws_config (te_suffixes E))
                  (ws_configBackup (te_suffixes E)) ''tmp'' ''config.json'' p configDocument) io))"

definition config_step :: "tool_env \<Rightarrow> (json \<Rightarrow> json \<Rightarrow> bool) \<Rightarrow> mutation_state \<Rightarrow> mutation_state \<Rightarrow> bool" where
  "config_step E P s t \<longleftrightarrow>
     mu_io t = mu_io s \<or>
     (\<exists>p catalog d n. load_effective (disk_host (te_host E) s) (te_configPath E) = Inr (p, catalog, d) \<and> P d n \<and>
        mu_io t = write_effective E p catalog n (mu_io s))"

text \<open>A function on documents such that \<open>P\<close> relates the loaded document and what is written.\<close>

definition leads_to :: "tool_env \<Rightarrow> (json \<Rightarrow> config_error + json) \<Rightarrow> (json \<Rightarrow> json \<Rightarrow> bool) \<Rightarrow> bool" where
  "leads_to E f P \<longleftrightarrow>
     (\<forall>d d' h w n w'. f d = Inr d' \<and> normalizeAndValidateConfigDocumentForMutation h d' w = (Inr n, w') \<longrightarrow> P d n)"

named_theorems config_steps \<open>effects of the operations on the configuration\<close>

lemma same_io_step: "mu_io t = mu_io s \<Longrightarrow> config_step E P s t"
  by (simp add: config_step_def)

lemma step_warnings [simp]: "config_step E P (s\<lparr>mu_warnings := w\<rparr>) t = config_step E P s t"
  "config_step E P s (t\<lparr>mu_warnings := w\<rparr>) = config_step E P s t"
  by (simp_all add: config_step_def disk_host_def)

lemma mutator_step:
  assumes "leads_to E f P"
  shows "config_step E P s (snd (tool_mutator E (te_configPath E) f s))"
proof -
  obtain r t where run: "mutateConfigDocument (te_host E) (te_suffixes E) (te_configPath E) f s = (r, t)" by fastforce
  then have t: "snd (tool_mutator E (te_configPath E) f s) = t" by (cases r) (simp_all add: tool_mutator_def)
  have "config_step E P s t"
  proof (cases "rbind (load_effective (disk_host (te_host E) s) (te_configPath E)) (\<lambda>(sourcePath, catalog, effective).
      rbind (f effective) (\<lambda>mutated. Inr (sourcePath, catalog, mutated)))")
    case (Inl e)
    with run show ?thesis by (auto simp: mutateConfigDocument_def Let_def intro: same_io_step)
  next
    case (Inr x)
    then obtain p catalog d d' where x: "x = (p, catalog, d')" and l: "load_effective (disk_host (te_host E) s) (te_configPath E) = Inr (p, catalog, d)"
      and d': "f d = Inr d'" by (auto simp: rbind_Inr_iff)
    obtain m w where n: "normalizeAndValidateConfigDocumentForMutation (disk_host (te_host E) s) d' (mu_warnings s) = (m, w)" by fastforce
    show ?thesis
    proof (cases m)
      case (Inl e)
      with run n Inr x show ?thesis by (auto simp: mutateConfigDocument_def Let_def intro: same_io_step)
    next
      case m: (Inr n')
      then have "P d n'" using assms d' n unfolding leads_to_def by blast
      moreover have "mu_io t = write_effective E p catalog n' (mu_io s)"
        using run n m Inr x
        by (auto simp: mutateConfigDocument_def write_effective_def disk_host_def Let_def split: prod.splits)
      ultimately show ?thesis using l unfolding config_step_def by blast
    qed
  qed
  with t show ?thesis by simp
qed

lemma read_back_io: "mu_io (snd (read_back host configPath f missing s)) = mu_io s"
  by (simp add: read_back_def split: prod.split)

lemma change_and_read_step [config_steps]:
  assumes "leads_to E f P"
  shows "config_step E P s (snd (change_and_read (te_host E) (tool_mutator E) (te_configPath E) f g missing s))"
proof (cases "tool_mutator E (te_configPath E) f s")
  case (Pair r t)
  then have "config_step E P s t" using mutator_step [OF assms, of s] by simp
  moreover have "config_step E P s u" if "mu_io u = mu_io t" "config_step E P s t" for u using that by (simp add: config_step_def)
  ultimately show ?thesis using Pair by (simp add: change_and_read_def read_back_io split: sum.split)
qed

lemma change_and_return_step [config_steps]:
  "leads_to E f P \<Longrightarrow> config_step E P s (snd (change_and_return (te_host E) (tool_mutator E) (te_configPath E) key n f g missing s))"
  by (simp add: change_and_return_def change_and_read_step)

lemma delete_step [config_steps]:
  assumes "leads_to E (delete_entity_mutator key n) P"
  shows "config_step E P s (snd (delete_entity (te_host E) (tool_mutator E) (te_configPath E) key n check s))"
proof -
  have "config_step E P s (snd (tool_mutator E (te_configPath E) (delete_entity_mutator key n) (s\<lparr>mu_warnings := w\<rparr>)))" for w
    using mutator_step [OF assms, of "s\<lparr>mu_warnings := w\<rparr>"] by simp
  then show ?thesis
    by (auto simp: delete_entity_def same_io_step split: prod.split sum.split) (metis snd_conv)+
qed

lemma create_route_step [config_steps]:
  assumes "\<And>v. leads_to E (create_route_mutator n v) P"
  shows "config_step E P s (snd (createRoute (te_host E) (tool_mutator E) (te_configPath E) n fs s))"
  using change_and_read_step [OF assms, of "s\<lparr>mu_warnings := _\<rparr>"] by (auto simp: createRoute_def same_io_step split: prod.split sum.split)

lemma update_route_step [config_steps]:
  assumes "\<And>m. leads_to E (update_route_mutator n fs m) P"
  shows "config_step E P s (snd (updateRoute (te_host E) (tool_mutator E) (te_configPath E) n fs s))"
  using change_and_read_step [OF assms, of "s\<lparr>mu_warnings := _\<rparr>"] by (auto simp: updateRoute_def same_io_step split: prod.split sum.split)

lemma create_model_step [config_steps]:
  assumes "\<And>v. leads_to E (create_model_mutator n v) P"
  shows "config_step E P s (snd (createModel (te_host E) (tool_mutator E) (te_configPath E) n fs s))"
  using change_and_read_step [OF assms] by (auto simp: createModel_def same_io_step split: sum.split)

lemma as_invalid_input_Inr [simp]: "as_invalid_input r = Inr x \<longleftrightarrow> r = Inr x"
  by (simp add: as_invalid_input_def split: sum.split)

lemma create_provider_step [config_steps]:
  assumes "\<And>c v. safe_clone fs ''Provider field'' = Inr c \<Longrightarrow> validateMutableProviderEntity (hs_parseUrl (te_host E)) n c = Inr v \<Longrightarrow>
      leads_to E (create_provider_mutator n v) P"
  shows "config_step E P s (snd (createProvider (te_host E) (tool_mutator E) (te_configPath E) n fs s))"
proof (cases "rbind (safe_clone fs ''Provider field'') (\<lambda>c. as_invalid_input (validateMutableProviderEntity (hs_parseUrl (te_host E)) n c))")
  case (Inr v)
  then have "leads_to E (create_provider_mutator n v) P"
    by (auto simp: rbind_Inr_iff intro: assms)
  from change_and_read_step [OF this] Inr show ?thesis by (simp add: createProvider_def)
qed (simp add: createProvider_def same_io_step)

lemma answer_step [config_steps]:
  "config_step E P s (snd (operation s)) \<Longrightarrow> config_step E P s (snd (answer_with E command code f operation s))"
  by (auto simp: answer_with_def buildHandledResult_def split: prod.splits sum.splits)

section \<open>Keys of providers\<close>

text \<open>A provider that is there before and after has the same keys; a new one has none.\<close>

definition entry_keys_kept :: "json option \<Rightarrow> json option \<Rightarrow> bool" where
  "entry_keys_kept before after =
     (case after of
        None \<Rightarrow> True
      | Some e' \<Rightarrow>
          (case before of
             Some e \<Rightarrow> jprop e' ''api_key'' = jprop e ''api_key'' \<and> jprop e' ''api_key_env'' = jprop e ''api_key_env''
           | None \<Rightarrow> jprop e' ''api_key'' = None \<and> jprop e' ''api_key_env'' = Some JNull))"

definition keys_kept :: "json \<Rightarrow> json \<Rightarrow> bool" where
  "keys_kept d d' \<longleftrightarrow> (\<forall>n. entry_keys_kept (stored d ''service_providers'' n) (stored d' ''service_providers'' n))"

lemma entry_keys_same [simp]: "entry_keys_kept x x"
  by (simp add: entry_keys_kept_def split: option.split)

lemma nullable_field_kept:
  "getNullableStringField c k owner = Inr v \<Longrightarrow> jprop c k \<noteq> None \<Longrightarrow> jprop c k = Some (nullable_text v)"
  by (auto simp: getNullableStringField_def nullable_text_def isNonEmptyString_def rbind_Inr_iff require_def split: option.splits json.splits)

lemma provider_keys_kept:
  assumes "validateMutableProviderEntity parseUrl n c = Inr e" "k \<in> {''api_key'', ''api_key_env''}"
  shows "jprop e k = jprop c k"
proof -
  from assms(1) obtain v where v: "validateServiceProviderConfig parseUrl n c = Inr v"
    and e: "e = JObj
       ([(''endpoint'', JStr (pv_endpoint v)), (''api_mode'', JStr (api_mode_name (pv_api_mode v))),
         (''model_id_format'', JStr (model_id_format_name (pv_model_id_format v))),
         (''allow_private_endpoints'', JBool (pv_allow_private_endpoints v)), (''allow_insecure_http'', JBool (pv_allow_insecure_http v))] @
        (if jprop c ''api_key'' \<noteq> None then [(''api_key'', nullable_text (pv_api_key v))] else []) @
        (if jprop c ''api_key_env'' \<noteq> None then [(''api_key_env'', nullable_text (pv_api_key_env v))] else []) @
        (if jprop c ''anthropic_version'' \<noteq> None \<or> pv_anthropic_version v \<noteq> None
         then [(''anthropic_version'', nullable_text (pv_anthropic_version v))] else []))"
    unfolding validateMutableProviderEntity_def by (auto simp: rbind_Inr_iff)
  from v have "\<exists>owner. validate_provider_auth c owner = Inr (pv_api_key v, pv_api_key_env v)"
    by (fastforce simp: validateServiceProviderConfig_def Let_def rbind_Inr_iff split: option.splits)
  then obtain owner where "getNullableStringField c ''api_key'' owner = Inr (pv_api_key v)"
    "getNullableStringField c ''api_key_env'' owner = Inr (pv_api_key_env v)"
    by (auto simp: validate_provider_auth_def rbind_Inr_iff)
  then show ?thesis using nullable_field_kept assms(2) unfolding e by auto
qed

lemma set_fields_other: "set_fields label changes fs = Inr gs \<Longrightarrow> k \<notin> fst ` set changes \<Longrightarrow> map_of gs k = map_of fs k"
proof (induction changes arbitrary: fs)
  case (Cons c changes)
  obtain l v where c: "c = (l, v)" by fastforce
  with Cons.prems obtain hs where hs: "safe_set fs l v label = Inr hs" "set_fields label changes hs = Inr gs"
    by (auto simp: rbind_Inr_iff)
  then have "map_of hs k = map_of fs k" using Cons.prems(2) c
    by (auto simp: safe_set_def setSafeObjectKey_def map_of_set_field rbind_Inr_iff split: sum.splits if_splits)
  with Cons.IH [OF hs(2)] Cons.prems(2) show ?case by simp
qed simp

lemma kept_section:
  assumes "normalizeAndValidateConfigDocumentForMutation h d' w = (Inr n, w')"
  shows "stored n ''service_providers'' m = stored d' ''service_providers'' m"
  using normalize_keeps_sections [OF assms, of "''service_providers''"] by (simp add: stored_def)

lemma keys_kept_elsewhere:
  assumes "entity_change key n f" "key \<noteq> ''service_providers''"
  shows "leads_to E f keys_kept"
proof (unfold leads_to_def, intro allI impI, elim conjE)
  fix d d' h w m w' assume f: "f d = Inr d'" and m: "normalizeAndValidateConfigDocumentForMutation h d' w = (Inr m, w')"
  have "jprop d' ''service_providers'' = jprop d ''service_providers''"
    using entity_change_only [OF assms(1) f] assms(2) by (auto simp: changes_only_def)
  then have "stored d' ''service_providers'' k = stored d ''service_providers'' k" for k by (simp add: stored_def)
  then show "keys_kept d m" unfolding keys_kept_def kept_section [OF m] by simp
qed

lemma provider_change_keeps:
  assumes "\<And>d d'. f d = Inr d' \<Longrightarrow> changes_only ''service_providers'' n d d' \<and>
     entry_keys_kept (stored d ''service_providers'' n) (stored d' ''service_providers'' n)"
  shows "leads_to E f keys_kept"
proof (unfold leads_to_def, intro allI impI, elim conjE)
  fix d d' h w m w' assume f: "f d = Inr d'" and m: "normalizeAndValidateConfigDocumentForMutation h d' w = (Inr m, w')"
  have "stored d' ''service_providers'' k = stored d ''service_providers'' k" if "k \<noteq> n" for k
    using assms [OF f] that by (simp add: changes_only_def)
  then have "entry_keys_kept (stored d ''service_providers'' k) (stored d' ''service_providers'' k)" for k
    using assms [OF f] by (cases "k = n") simp_all
  then show "keys_kept d m" unfolding keys_kept_def kept_section [OF m] by blast
qed

lemma delete_provider_keeps: "leads_to E (delete_entity_mutator ''service_providers'' n) keys_kept"
proof (rule provider_change_keeps)
  fix d d' assume f: "delete_entity_mutator ''service_providers'' n d = Inr d'"
  then have "stored d' ''service_providers'' n = None"
    by (auto simp: delete_entity_mutator_def rbind_Inr_iff stored_def section_Inr)
  with delete_changes_only [OF f] show "changes_only ''service_providers'' n d d' \<and>
     entry_keys_kept (stored d ''service_providers'' n) (stored d' ''service_providers'' n)" by (simp add: entry_keys_kept_def)
qed

lemma stored_entity:
  assumes "store_entity ''service_providers'' label fs n e d = Inr d'"
  shows "stored d' ''service_providers'' n = Some e"
  using assms by (auto simp: store_entity_def safe_set_def setSafeObjectKey_def rbind_Inr_iff stored_def map_of_set_field split: sum.splits)

lemma create_provider_keeps:
  assumes "jprop e ''api_key'' = None" "jprop e ''api_key_env'' = Some JNull"
  shows "leads_to E (create_provider_mutator n e) keys_kept"
proof (rule provider_change_keeps)
  fix d d' assume f: "create_provider_mutator n e d = Inr d'"
  then obtain fs where fs: "jprop d ''service_providers'' = Some (JObj fs)" "map_of fs n = None"
    "store_entity ''service_providers'' ''Provider name'' fs n e d = Inr d'"
    by (auto simp: create_provider_mutator_def rbind_Inr_iff section_Inr stored_defined_def split: if_splits)
  then have "stored d ''service_providers'' n = None" by (simp add: stored_def)
  with stored_entity [OF fs(3)] entity_change_only [OF entity_change.create_provider f] assms
  show "changes_only ''service_providers'' n d d' \<and>
     entry_keys_kept (stored d ''service_providers'' n) (stored d' ''service_providers'' n)" by (simp add: entry_keys_kept_def)
qed

lemma update_provider_keeps:
  assumes "{''api_key'', ''api_key_env''} \<inter> fst ` set changes = {}"
  shows "leads_to E (update_provider_mutator parseUrl n changes) keys_kept"
proof (rule provider_change_keeps)
  fix d d' assume f: "update_provider_mutator parseUrl n changes d = Inr d'"
  then obtain fs gs hs e where fs: "jprop d ''service_providers'' = Some (JObj fs)" "map_of fs n = Some (JObj gs)"
    "set_fields ''Provider field'' changes gs = Inr hs" "validateMutableProviderEntity parseUrl n (JObj hs) = Inr e"
    "store_entity ''service_providers'' ''Provider name'' fs n e d = Inr d'"
    by (auto simp: update_provider_mutator_def rbind_Inr_iff section_Inr stored_record_def split: if_splits option.splits json.splits)
  have "jprop e k = jprop (JObj gs) k" if "k \<in> {''api_key'', ''api_key_env''}" for k
    using provider_keys_kept [OF fs(4) that] set_fields_other [OF fs(3), of k] that assms by auto
  moreover have "stored d ''service_providers'' n = Some (JObj gs)" using fs(1,2) by (simp add: stored_def)
  ultimately show "changes_only ''service_providers'' n d d' \<and>
     entry_keys_kept (stored d ''service_providers'' n) (stored d' ''service_providers'' n)"
    using stored_entity [OF fs(5)] entity_change_only [OF entity_change.update_provider f] by (simp add: entry_keys_kept_def)
qed

section \<open>Calls of tools\<close>

lemma audit_handle_state [simp]:
  "tw_config (snd (audit_handle E p w)) = tw_config w" "tw_actions (snd (audit_handle E p w)) = tw_actions w"
  by (simp_all add: audit_handle_def split: prod.split)

lemma log_all_state [simp]: "tw_config (log_all ls w) = tw_config w" "tw_actions (log_all ls w) = tw_actions w"
  by (simp_all add: log_all_def)

lemma audit_keeps_config [simp]:
  "tw_config (snd (createMcpMutationAudit E operation kind targetId w)) = tw_config w"
  "tw_config (snd (finish_mcp_audit E audit status targetId result error w)) = tw_config w"
proof -
  have a: "tw_config t = tw_config w" if "audit_handle E p w = (r, t)" for p r t
    using audit_handle_state(1) [of E p w] that by simp
  show "tw_config (snd (createMcpMutationAudit E operation kind targetId w)) = tw_config w"
    using a by (auto simp: createMcpMutationAudit_def split: sum.split prod.split option.split)
  show "tw_config (snd (finish_mcp_audit E audit status targetId result error w)) = tw_config w"
    using a by (auto simp: finish_mcp_audit_def split: sum.split prod.split option.split)
qed

lemma finished_config:
  "finish_mcp_audit E audit status targetId result error w = (x, t) \<Longrightarrow> tw_config t = tw_config w"
  "fail_audit E audit targetId e w = (x, t) \<Longrightarrow> tw_config t = tw_config w"
  by (metis audit_keeps_config(2) snd_conv) (metis audit_keeps_config(2) fail_audit_def snd_conv)

lemma caught_config [simp]: "tw_config (snd (caught E command code audit targetId f w)) = tw_config w"
  by (auto simp: caught_def Let_def dest: finished_config split: prod.split sum.split)

lemma run_audited_config: "tw_config (snd (run_audited E command code audit targetId handler w)) = snd (handler (tw_config w))"
proof -
  obtain r s where h: "handler (tw_config w) = (r, s)" by fastforce
  show ?thesis
  proof (cases r)
    case (Inl f)
    with h show ?thesis by (simp add: run_audited_def Let_def)
  next
    case (Inr e)
    let ?w = "w\<lparr>tw_config := s\<rparr>"
    let ?f = "if envelope_ok e then finish_mcp_audit E audit ''succeeded'' targetId (Some (JObj [])) None ?w else fail_audit E audit targetId e ?w"
    obtain x t where f: "?f = (x, t)" by fastforce
    then have "tw_config t = s" using finished_config by (fastforce split: if_splits)
    with h Inr f show ?thesis by (cases x) (simp_all add: run_audited_def Let_def)
  qed
qed

lemma audited_step:
  assumes "\<And>args. parsed = Inr args \<Longrightarrow> config_step E P (tw_config w) (snd (handler args (tw_config w)))"
  shows "config_step E P (tw_config w) (tw_config (snd (runAuditedParsedMcpMutation E command code operation kind targetId parsed handler w)))"
proof (cases parsed)
  case (Inr args)
  obtain audit u where a: "createMcpMutationAudit E operation kind (targetId args) w = (audit, u)" by fastforce
  then have u: "tw_config u = tw_config w" using audit_keeps_config(1) [of E operation kind "targetId args" w] by simp
  obtain p v where r: "run_audited E command code audit (targetId args) (handler args) u = (p, v)" by fastforce
  then have "tw_config v = snd (handler args (tw_config w))"
    using run_audited_config [of E command code audit "targetId args" "handler args" u] u by simp
  then show ?thesis using assms [OF Inr] Inr a r by (simp add: runAuditedParsedMcpMutation_def)
qed (simp add: runAuditedParsedMcpMutation_def same_io_step)

lemma always_snd [simp]: "snd (always build args s) = snd (build args s)"
  by (simp add: always_def split: prod.split)

lemma reading_keeps:
  "tw_config (snd (reading f w)) = snd (f (tw_config w))" "tw_actions (snd (reading f w)) = tw_actions w"
  "tw_context (snd (reading f w)) = tw_context w" "tw_sessions (snd (reading f w)) = tw_sessions w"
  by (auto simp: reading_def split: prod.split sum.split)

lemma read_model_io: "toolReadModel E s = (r, t) \<Longrightarrow> mu_io t = mu_io s"
  by (auto simp: toolReadModel_def split: prod.splits)

lemma on_read_model_ioD: "on_read_model E f s = (r, t) \<Longrightarrow> mu_io t = mu_io s"
  by (auto simp: on_read_model_def dest: read_model_io split: prod.splits sum.splits)

lemma on_read_model_io [simp]: "mu_io (snd (on_read_model E f s)) = mu_io s"
  using on_read_model_ioD by (metis surjective_pairing)

lemma validate_io [simp]: "mu_io (snd (buildConfigValidatePayload E s)) = mu_io s"
  by (auto simp: buildConfigValidatePayload_def Let_def dest: read_model_io split: prod.split sum.split)

lemma explain_io [simp]: "mu_io (snd (buildRoutesExplainPayload E n s)) = mu_io s"
  by (auto simp: buildRoutesExplainPayload_def buildHandledResult_def dest: on_read_model_ioD split: prod.split sum.split)

text \<open>What the handlers for reading leave alone.\<close>

lemma reading_handlers_keep:
  assumes "(n, handler) \<in> set (reading_handlers E)"
  shows "mu_io (tw_config (snd (handler params w))) = mu_io (tw_config w) \<and> tw_actions (snd (handler params w)) = tw_actions w \<and>
    tw_context (snd (handler params w)) = tw_context w"
  using assms unfolding reading_handlers_def showing_def
  by (auto simp: reading_keeps split: sum.split)

subsection \<open>Sessions without privileged tools\<close>

lemma set_safe_map: "setSafeObjectKey fs k v label = Inr gs \<Longrightarrow> map_of gs k' = (if k' = k then Some v else map_of fs k')"
  by (auto simp: setSafeObjectKey_def map_of_set_field rbind_Inr_iff)

lemma clone_other: "clone_loop m fs label = Inr gs \<Longrightarrow> k \<notin> fst ` set fs \<Longrightarrow> map_of gs k = map_of m k"
  by (induction fs arbitrary: m) (auto simp: rbind_Inr_iff set_safe_map)

lemma clone_snoc: "clone_loop m (fs @ [(k, v)]) label = Inr gs \<Longrightarrow> map_of gs k = Some v"
  by (induction fs arbitrary: m) (auto simp: rbind_Inr_iff set_safe_map)

lemma created_provider_keys:
  assumes "safe_clone (provider_create_fields i) label = Inr c"
  shows "jprop c ''api_key'' = None" "jprop c ''api_key_env'' = Some JNull"
proof -
  from assms obtain gs where c: "c = JObj gs" and g: "clone_loop [] (provider_create_fields i) label = Inr gs"
    by (auto simp: safe_clone_def shallowCloneRecordWithSafeKeys_def split: sum.splits)
  have "''api_key'' \<notin> fst ` set (provider_create_fields i)"
    by (auto simp: provider_create_fields_def optional_field_def split: option.splits)
  with clone_other [OF g] c show "jprop c ''api_key'' = None" by simp
  have "\<exists>fs. provider_create_fields i = fs @ [(''api_key_env'', JNull)]" by (simp add: provider_create_fields_def)
  with clone_snoc g c show "jprop c ''api_key_env'' = Some JNull" by auto
qed

lemma entity_builds_keep_keys:
  "config_step E keys_kept s (snd (buildModelsCreatePayload E mc s))"
  "config_step E keys_kept s (snd (buildModelsUpdatePayload E mu s))"
  "config_step E keys_kept s (snd (buildModelsDeletePayload E n s))"
  "config_step E keys_kept s (snd (buildRoutesCreatePayload E rc s))"
  "config_step E keys_kept s (snd (buildRoutesUpdatePayload E ru s))"
  "config_step E keys_kept s (snd (buildRoutesDeletePayload E n s))"
proof -
  note elsewhere = keys_kept_elsewhere [OF entity_change.create_model] keys_kept_elsewhere [OF entity_change.update_model]
    keys_kept_elsewhere [OF entity_change.create_route] keys_kept_elsewhere [OF entity_change.update_route]
    keys_kept_elsewhere [OF entity_change.delete, of "''models''"] keys_kept_elsewhere [OF entity_change.delete, of "''routes''"]
  show "config_step E keys_kept s (snd (buildModelsCreatePayload E mc s))"
    unfolding buildModelsCreatePayload_def by (rule answer_step, rule create_model_step, rule elsewhere) simp
  show "config_step E keys_kept s (snd (buildModelsUpdatePayload E mu s))"
    unfolding buildModelsUpdatePayload_def updateModel_def by (rule answer_step, rule change_and_return_step, rule elsewhere) simp
  show "config_step E keys_kept s (snd (buildModelsDeletePayload E n s))"
    unfolding buildModelsDeletePayload_def deleteModel_def by (rule answer_step, rule delete_step, rule elsewhere) simp_all
  show "config_step E keys_kept s (snd (buildRoutesCreatePayload E rc s))"
    unfolding buildRoutesCreatePayload_def by (rule answer_step, rule create_route_step, rule elsewhere) simp
  show "config_step E keys_kept s (snd (buildRoutesUpdatePayload E ru s))"
    unfolding buildRoutesUpdatePayload_def by (rule answer_step, rule update_route_step, rule elsewhere) simp
  show "config_step E keys_kept s (snd (buildRoutesDeletePayload E n s))"
    unfolding buildRoutesDeletePayload_def deleteRoute_def by (rule answer_step, rule delete_step, rule elsewhere) simp_all
qed

lemma provider_builds_keep_keys:
  "config_step E keys_kept s (snd (buildProvidersCreatePayload E pc s))"
  "config_step E keys_kept s (snd (buildProvidersDeletePayload E n s))"
proof -
  have "config_step E keys_kept s (snd (createProvider (te_host E) (tool_mutator E) (te_configPath E) (pci_name pc) (provider_create_fields pc) s))"
  proof (rule create_provider_step)
    fix c v assume "safe_clone (provider_create_fields pc) ''Provider field'' = Inr c"
      "validateMutableProviderEntity (hs_parseUrl (te_host E)) (pci_name pc) c = Inr v"
    then show "leads_to E (create_provider_mutator (pci_name pc) v) keys_kept"
      using created_provider_keys provider_keys_kept by (intro create_provider_keeps) auto
  qed
  then show "config_step E keys_kept s (snd (buildProvidersCreatePayload E pc s))"
    unfolding buildProvidersCreatePayload_def by (rule answer_step)
  show "config_step E keys_kept s (snd (buildProvidersDeletePayload E n s))"
    unfolding buildProvidersDeletePayload_def deleteProvider_def by (intro config_steps delete_provider_keeps)
qed

text \<open>The guard of the tool that updates providers.\<close>

lemma update_provider_keeps_keys:
  assumes "Privileged \<notin> set capabilities"
  shows "config_step E keys_kept s (snd (update_provider_handler E capabilities i s))"
proof (cases "getProvidersUpdateAuthFields i = []")
  case True
  then have "pui_api_key_env i = None" "\<not> update_no_auth i"
    by (auto simp: getProvidersUpdateAuthFields_def first_occurrences_def update_no_auth_def split: if_splits)
  then have "{''api_key'', ''api_key_env''} \<inter> fst ` set (provider_update_values i) = {}"
    by (auto simp: provider_update_values_def optional_field_def split: option.splits)
  then have "config_step E keys_kept s (snd (buildProvidersUpdatePayload E i s))"
    unfolding buildProvidersUpdatePayload_def updateProvider_def by (intro config_steps update_provider_keeps)
  with True show ?thesis by (simp add: update_provider_handler_def requirePrivilegedProviderAuthMutation_def)
next
  case False
  with assms show ?thesis
    by (simp add: update_provider_handler_def requirePrivilegedProviderAuthMutation_def sessionCanCallTool_def granted_def same_io_step)
qed

definition key_tools :: "string set" where
  "key_tools = {''providers_set_key'', ''providers_clear_key'', ''providers_set_key_env''}"

lemma unprivileged_handlers:
  "list_all (\<lambda>(n, handler). n \<notin> key_tools \<longrightarrow> (\<forall>params w. Privileged \<notin> set (cx_granted (tw_context w)) \<longrightarrow>
     config_step E keys_kept (tw_config w) (tw_config (snd (handler params w))))) (changing_handlers E)"
  unfolding changing_handlers_def list.pred_inject prod.case
  by (intro conjI impI allI audited_step TrueI)
    (simp_all add: key_tools_def entity_builds_keep_keys provider_builds_keep_keys update_provider_keeps_keys)

lemma unprivileged_handler_step:
  "(n, handler) \<in> set (changing_handlers E) \<Longrightarrow> n \<notin> key_tools \<Longrightarrow> Privileged \<notin> set (cx_granted (tw_context w)) \<Longrightarrow>
   config_step E keys_kept (tw_config w) (tw_config (snd (handler params w)))"
  using unprivileged_handlers [of E] by (auto simp: list_all_iff)

lemma build_handled:
  assumes "buildToolPayload E others n args w = (r, w')" "map_of (reading_handlers E @ changing_handlers E) n = Some handler"
    and "map_of toolFallbackErrorCodes n \<noteq> None"
  shows "w' = snd (handler (Some args) w)"
  using assms by (auto simp: buildToolPayload_def split: prod.splits payload.splits)

lemma fallback_known: "n \<in> fst ` set (reading_handlers E @ changing_handlers E) \<Longrightarrow> map_of toolFallbackErrorCodes n \<noteq> None"
  by (auto simp: reading_handlers_def changing_handlers_def toolFallbackErrorCodes_def)

lemma key_tools_privileged: "tool \<in> set getToolDefinitions \<Longrightarrow> td_name tool \<in> key_tools \<Longrightarrow> td_capability tool = Privileged"
  by (auto simp: getToolDefinitions_def defineTool_def key_tools_def)

text \<open>
  C7 (unprivileged_keys_kept). In a session that was not granted the privileged tools, no tool for the configuration that it may
  call changes a key: either the disk stays as it is, or one document is written in which every provider
  that was there has the keys it had, and a new provider has none.
\<close>
theorem unprivileged_keys_kept:
  assumes "tool \<in> set getToolDefinitions" "td_capability tool \<in> set (cx_granted (tw_context w))"
    and "Privileged \<notin> set (cx_granted (tw_context w))"
    and "td_name tool \<in> fst ` set (reading_handlers E @ changing_handlers E)"
    and "buildToolPayload E others (td_name tool) args w = (r, w')"
  shows "mu_io (tw_config w') = mu_io (tw_config w) \<or>
    (\<exists>p catalog before after. load_effective (disk_host (te_host E) (tw_config w)) (te_configPath E) = Inr (p, catalog, before) \<and>
       mu_io (tw_config w') = write_effective E p catalog after (mu_io (tw_config w)) \<and>
       (\<forall>n. entry_keys_kept (stored before ''service_providers'' n) (stored after ''service_providers'' n)))"
proof -
  obtain handler where h: "map_of (reading_handlers E @ changing_handlers E) (td_name tool) = Some handler"
    using assms(4) by (meson map_of_eq_None_iff not_None_eq)
  note w' = build_handled [OF assms(5) h fallback_known [OF assms(4)]]
  have "td_name tool \<notin> key_tools" using key_tools_privileged [OF assms(1)] assms(2,3) by auto
  then have "config_step E keys_kept (tw_config w) (tw_config w')"
    using map_of_SomeD [OF h] reading_handlers_keep [of _ handler E] unprivileged_handler_step [OF _ _ assms(3)]
    unfolding w' by (auto intro: same_io_step)
  then show ?thesis unfolding config_step_def keys_kept_def by blast
qed

section \<open>Sessions that only read\<close>

definition unchanged :: "tools_world \<Rightarrow> tools_world \<Rightarrow> bool" where
  "unchanged w w' \<longleftrightarrow>
     mu_io (tw_config w') = mu_io (tw_config w) \<and> tw_actions w' = tw_actions w \<and> cx_granted (tw_context w') = cx_granted (tw_context w)"

definition changing_names :: "string set" where
  "changing_names =
     {''models_create'', ''models_update'', ''models_delete'', ''providers_create'', ''providers_update'', ''providers_delete'',
      ''providers_set_key'', ''providers_clear_key'', ''providers_set_key_env'', ''routes_create'', ''routes_update'', ''routes_delete''}"

lemma changing_handler_names: "fst ` set (changing_handlers E) = changing_names"
  by (simp add: changing_handlers_def changing_names_def)

lemma reading_names: "list_all (\<lambda>(n, handler). n \<notin> changing_names) (reading_handlers E)"
  by (simp add: reading_handlers_def changing_names_def)

lemma changing_definitions: "list_all (\<lambda>t. td_capability t = Read \<longrightarrow> td_name t \<notin> changing_names) getToolDefinitions"
  by (simp add: getToolDefinitions_def defineTool_def changing_names_def)

lemma changing_tools_change: "tool \<in> set getToolDefinitions \<Longrightarrow> td_name tool \<in> fst ` set (changing_handlers E) \<Longrightarrow> td_capability tool \<noteq> Read"
  using changing_definitions unfolding list_all_iff changing_handler_names by blast

lemma read_tool_unchanged:
  assumes "tool \<in> set getToolDefinitions" "td_capability tool = Read" "\<And>u. unchanged u (snd (others (td_name tool) args u))"
  shows "unchanged w (snd (buildToolPayload E others (td_name tool) args w))"
proof -
  have none: "map_of (changing_handlers E) (td_name tool) = None"
    using changing_tools_change [OF assms(1), of E] assms(2) unfolding map_of_eq_None_iff by blast
  then have all: "map_of (reading_handlers E @ changing_handlers E) (td_name tool) = map_of (reading_handlers E) (td_name tool)"
    unfolding map_of_append map_add_def by (simp split: option.split)
  show ?thesis
  proof (cases "map_of (reading_handlers E) (td_name tool)")
    case None
    then show ?thesis using assms(3) by (simp add: buildToolPayload_def all del: map_of_append)
  next
    case (Some handler)
    have in_reading: "(td_name tool, handler) \<in> set (reading_handlers E)" by (rule map_of_SomeD [OF Some])
    then have "td_name tool \<in> fst ` set (reading_handlers E @ changing_handlers E)" unfolding set_append image_Un by (metis UnI1 fst_conv imageI)
    note known = fallback_known [OF this]
    obtain r w' where run: "buildToolPayload E others (td_name tool) args w = (r, w')" by (cases "buildToolPayload E others (td_name tool) args w")
    have "w' = snd (handler (Some args) w)" by (rule build_handled [OF run _ known]) (simp only: all Some)
    then show ?thesis unfolding run snd_conv unchanged_def using reading_handlers_keep [OF in_reading, of "Some args" w] by metis
  qed
qed

text \<open>
  C10 (read_session_changes_nothing). A server whose session was granted the reading tools only never changes the disk nor the
  ledger, whatever its client sends, in whatever pieces, provided that the reading tools of the other
  subsystems do not.
\<close>
theorem read_session_changes_nothing:
  assumes "sd_build d = session_tools E others"
    and "\<forall>tool\<in>set getToolDefinitions. td_capability tool = Read \<longrightarrow> (\<forall>args u. unchanged u (snd (others (td_name tool) args u)))"
    and "serve_reaches d (serve_start [Read] st) s"
  shows "mu_io (tw_config (sv_world s)) = mu_io (tw_config st) \<and> tw_actions (sv_world s) = tw_actions st"
proof -
  let ?P = "\<lambda>u :: tools_state. mu_io (tw_config u) = mu_io (tw_config st) \<and> tw_actions u = tw_actions st"
  have keep: "tools_keep d [Read] ?P"
    unfolding tools_keep_def
  proof (intro allI impI, elim conjE)
    fix tool args and c :: session_context and m and u :: tools_state
    assume t: "tool \<in> set getToolDefinitions" "td_capability tool \<in> set [Read]" "cx_granted c = [Read]"
      "mu_io (tw_config u) = mu_io (tw_config st)" "tw_actions u = tw_actions st"
    let ?w = "tools_state.extend u (tools_world.fields c m)"
    have "unchanged ?w (snd (buildToolPayload E others (td_name tool) args ?w))"
      using t(1,2) assms(2) by (intro read_tool_unchanged) auto
    moreover obtain r w' where "buildToolPayload E others (td_name tool) args ?w = (r, w')" by fastforce
    ultimately show "let after = snd (sd_build d (td_name tool) args (c, m, u)) in cx_granted (fst after) = [Read] \<and> ?P (snd (snd after))"
      using t(3-5) by (simp add: assms(1) session_tools_def unchanged_def Let_def tools_state.defs tools_world.defs)
  qed
  from assms(3) have "confined d [Read] ?P (serve_start [Read] st) \<Longrightarrow> confined d [Read] ?P s"
    by (induction rule: serve_reaches.induct) (simp_all add: step_confined [OF keep])
  then show ?thesis by (auto simp: confined_def serve_start_def createMcpSessionContext_def split: prod.splits)
qed

section \<open>Audited changes\<close>

lemma audit_handle_opens:
  assumes "\<And>k p c. \<exists>found. te_open E k p c = Inr found"
  shows "\<exists>h c m. audit_handle E p w = (Inr (Some h), w\<lparr>tw_context := c, tw_sessions := m\<rparr>) \<and> cx_sessionId c = cx_sessionId (tw_context w)"
proof -
  obtain st m where g: "getOrCreateSessionState (cx_sessionId (tw_context w)) (tw_sessions w) = (st, m)" by fastforce
  obtain found where f: "te_open E (sm_attempts m) p True = Inr found" using assms by blast
  show ?thesis
  proof (cases "ss_handle st \<noteq> None \<and> ss_dbPath st = Some p")
    case True
    with g show ?thesis by (auto simp: audit_handle_def getSessionObservabilityHandle_def syncContextFromState_def)
  next
    case False
    then show ?thesis using g f
      by (auto simp: audit_handle_def getSessionObservabilityHandle_def open_store_def set_session_def syncContextFromState_def Let_def)
  qed
qed

definition audit_ready :: "tool_env \<Rightarrow> tools_world \<Rightarrow> bool" where
  "audit_ready E w \<longleftrightarrow>
     (let rt = te_audit E; i = ar_uuid rt (tw_ticks w)
      in ad_outcomes (tw_actions w) = [] \<and> non_blank i \<and> i \<notin> ae_id ` set (ad_rows (tw_actions w)) \<and>
         assertIsoTimestampString (ar_now rt (tw_ticks w)) ''created_at'' ACTION_ENTITY = Inr () \<and>
         non_blank (cx_sessionId (tw_context w)))"

definition json_runtime :: "audit_runtime \<Rightarrow> bool" where
  "json_runtime rt \<longleftrightarrow>
     (\<forall>fs. non_blank (ar_stringify rt (JObj fs)) \<and> isRecord (ar_parseJson rt (ar_stringify rt (JObj fs)))) \<and>
     isRecord (ar_parseJson rt ''{}'')"

lemma json_object_checked:
  "non_blank t \<Longrightarrow> isRecord (parseJson t) \<Longrightarrow> assertJsonObjectString parseJson t f = Inr ()"
  by (cases "parseJson t") (simp_all add: assertJsonObjectString_def assertNonEmptyString_def)

lemma json_object_ok:
  assumes "json_runtime rt"
  shows "assertJsonObjectString (ar_parseJson rt) (ar_stringify rt (JObj fs)) f = Inr ()"
    and "assertJsonObjectString (ar_parseJson rt) ''{}'' f = Inr ()"
proof -
  have "non_blank ''{}''" by (simp add: js_string_defs)
  then show "assertJsonObjectString (ar_parseJson rt) ''{}'' f = Inr ()"
    using assms by (intro json_object_checked) (simp_all add: json_runtime_def)
  show "assertJsonObjectString (ar_parseJson rt) (ar_stringify rt (JObj fs)) f = Inr ()"
    using assms by (intro json_object_checked) (simp_all add: json_runtime_def)
qed

lemma started_row_valid:
  assumes "audit_ready E w" "json_runtime (te_audit E)" "operation \<in> set CONTROL_PLANE_ACTION_OPERATIONS"
    and "kind \<in> set CONTROL_PLANE_ACTION_TARGET_KINDS" "non_blank operation" "non_blank kind" "non_blank targetId"
  shows "validateControlPlaneActionEvent (ar_parseJson (te_audit E))
    (started_row (te_audit E) (tw_ticks w) (audit_start_of E (cx_sessionId (tw_context w)) dbPath operation kind targetId)) = Inr ()"
proof -
  have "non_blank ''switchmaxxer mcp''" "non_blank ''mcp''" "non_blank ''agent''" "non_blank ''started''" by (simp_all add: js_string_defs)
  then show ?thesis
    using assms
    by (simp add: validateControlPlaneActionEvent_def started_row_def audit_start_of_def audit_ready_def Let_def assertNonEmptyString_def
        assertKnownStringValue_def assertNullableNonEmptyString_def assertNullableIsoTimestampString_def json_object_ok
        CONTROL_PLANE_ACTION_SOURCE_SURFACES_def CONTROL_PLANE_ACTION_ACTOR_KINDS_def CONTROL_PLANE_ACTION_STATUSES_def)
qed

lemma finish_checked:
  assumes "json_runtime rt" "non_blank i" "non_blank targetId" "status \<in> {''succeeded'', ''failed''}"
    and "\<forall>v. result' = Some v \<longrightarrow> (\<exists>fs. v = JObj fs)"
  shows "check_finish (ar_parseJson rt) i (finish_of rt status (Some targetId) result' error) = Inr ()"
proof -
  have "non_blank status" using assms(4) by (auto simp: js_string_defs)
  moreover have "\<exists>fs. or_value result' (JObj []) = JObj fs" using assms(5) by (cases result') (auto simp: or_value_def)
  moreover have "assertJsonObjectString (ar_parseJson rt) (buildErrorJson rt error) ''error_json'' = Inr ()"
    using json_object_ok [OF assms(1)] by (auto simp: buildErrorJson_def split: option.split)
  ultimately show ?thesis
    using assms json_object_ok [OF assms(1)]
    by (auto simp: check_finish_def finish_of_def assertNonEmptyString_def assertKnownStringValue_def assertNullableNonEmptyString_def
        or_value_def CONTROL_PLANE_ACTION_STATUSES_def)
qed

lemma toEnvelopeFromError_fails [simp]: "\<not> envelope_ok (toEnvelopeFromError command f code details)"
  by (simp add: envelope_ok_def toEnvelopeFromError_def buildMcpErrorEnvelope_def buildSanitizedErrorEnvelope_def buildErrorEnvelope_def
      split: tool_failure.split)

text \<open>An audit that has been started: its row is the last of the ledger.\<close>

definition audit_open :: "tools_world \<Rightarrow> action_event list \<Rightarrow> action_event \<Rightarrow> bool" where
  "audit_open w rows r \<longleftrightarrow>
     ad_rows (tw_actions w) = rows @ [r] \<and> ae_id r \<notin> ae_id ` set rows \<and> non_blank (ae_id r) \<and> ad_outcomes (tw_actions w) = []"

lemma audit_started:
  assumes "te_storePath E = Inr path" "\<And>k p c. \<exists>found. te_open E k p c = Inr found" "audit_ready E w" "json_runtime (te_audit E)"
    and "operation \<in> set CONTROL_PLANE_ACTION_OPERATIONS" "kind \<in> set CONTROL_PLANE_ACTION_TARGET_KINDS"
    and "non_blank operation" "non_blank kind" "non_blank targetId"
  obtains r v where "createMcpMutationAudit E operation kind targetId w = (Some (path, Some (ae_id r)), v)"
    "audit_open v (ad_rows (tw_actions w)) r" "ae_operation r = operation" "ae_source_surface r = ''mcp''"
    "ae_session_id r = Some (cx_sessionId (tw_context w))" "ae_target_id r = Some targetId"
proof -
  obtain h c m where a: "audit_handle E path w = (Inr (Some h), w\<lparr>tw_context := c, tw_sessions := m\<rparr>)" "cx_sessionId c = cx_sessionId (tw_context w)"
    using audit_handle_opens [OF assms(2)] by blast
  let ?o = "audit_start_of E (cx_sessionId (tw_context w)) path operation kind targetId"
  let ?r = "started_row (te_audit E) (tw_ticks w) ?o"
  have ready: "ad_outcomes (tw_actions w) = []" "ar_uuid (te_audit E) (tw_ticks w) \<notin> ae_id ` set (ad_rows (tw_actions w))"
    "non_blank (ar_uuid (te_audit E) (tw_ticks w))"
    using assms(3) by (simp_all add: audit_ready_def Let_def)
  note started = start_audit [OF started_row_valid [OF assms(3,4,5,6,7,8,9), of path] ready(1,2)]
  have i: "ae_id ?r = ar_uuid (te_audit E) (tw_ticks w)" by (simp add: started_row_def)
  show thesis
  proof (rule that)
    show "createMcpMutationAudit E operation kind targetId w = (Some (path, Some (ae_id ?r)),
        log_all [] (w\<lparr>tw_context := c, tw_sessions := m, tw_ticks := Suc (tw_ticks w),
          tw_actions := (tw_actions w)\<lparr>ad_rows := ad_rows (tw_actions w) @ [?r]\<rparr>\<rparr>))"
      using started a by (simp add: createMcpMutationAudit_def assms(1) i)
    show "audit_open (log_all [] (w\<lparr>tw_context := c, tw_sessions := m, tw_ticks := Suc (tw_ticks w),
          tw_actions := (tw_actions w)\<lparr>ad_rows := ad_rows (tw_actions w) @ [?r]\<rparr>\<rparr>)) (ad_rows (tw_actions w)) ?r"
      using ready i by (simp add: audit_open_def)
  qed (simp_all add: started_row_def audit_start_of_def)
qed

lemma audit_finished:
  assumes "\<And>k p c. \<exists>found. te_open E k p c = Inr found" "json_runtime (te_audit E)" "audit_open w rows r" "non_blank targetId"
    and "status \<in> {''succeeded'', ''failed''}" "\<forall>v. result' = Some v \<longrightarrow> (\<exists>fs. v = JObj fs)"
  obtains v now where "finish_mcp_audit E (Some (path, Some (ae_id r))) status targetId result' error w = (Inr (), v)"
    "ad_rows (tw_actions v) = rows @ [finish_row now (finish_of (te_audit E) status (Some targetId) result' error) r]"
proof -
  obtain h c m where a: "audit_handle E path w = (Inr (Some h), w\<lparr>tw_context := c, tw_sessions := m\<rparr>)"
    using audit_handle_opens [OF assms(1)] by blast
  have c: "check_finish (ar_parseJson (te_audit E)) (ae_id r) (finish_of (te_audit E) status (Some targetId) result' error) = Inr ()"
    using assms by (intro finish_checked) (auto simp: audit_open_def)
  from assms(3) have w: "ad_outcomes (tw_actions w) = []" "ad_rows (tw_actions w) = rows @ [r]" "ae_id r \<notin> ae_id ` set rows"
    by (simp_all add: audit_open_def)
  note f = finish_audit [OF c w(1,2) refl w(3), of "tw_ticks w"]
  show thesis
    by (rule that [of "log_all [] (w\<lparr>tw_context := c, tw_sessions := m, tw_ticks := Suc (tw_ticks w), tw_actions := (tw_actions w)\<lparr>ad_rows :=
        rows @ [finish_row (ar_now (te_audit E) (tw_ticks w)) (finish_of (te_audit E) status (Some targetId) result' error) r]\<rparr>\<rparr>)"
        "ar_now (te_audit E) (tw_ticks w)"]) (simp_all add: finish_mcp_audit_def a f)
qed

text \<open>A call that left one row, which says whether the envelope is one of success.\<close>

definition one_row :: "tools_world \<Rightarrow> string \<Rightarrow> envelope \<Rightarrow> tools_world \<Rightarrow> bool" where
  "one_row w operation e w' \<longleftrightarrow>
     (\<exists>row. ad_rows (tw_actions w') = ad_rows (tw_actions w) @ [row] \<and> ae_operation row = operation \<and> ae_source_surface row = ''mcp'' \<and>
        ae_session_id row = Some (cx_sessionId (tw_context w)) \<and> ae_finished_at row \<noteq> None \<and>
        ae_status row = (if envelope_ok e then ''succeeded'' else ''failed''))"

lemma finished_fields:
  "ae_operation (finish_row now (finish_of rt status t result' error) r) = ae_operation r"
  "ae_source_surface (finish_row now (finish_of rt status t result' error) r) = ae_source_surface r"
  "ae_session_id (finish_row now (finish_of rt status t result' error) r) = ae_session_id r"
  "ae_finished_at (finish_row now (finish_of rt status t result' error) r) = Some now"
  "ae_status (finish_row now (finish_of rt status t result' error) r) = status"
  by (simp_all add: finish_row_def finish_of_def)

lemma run_audited_row:
  assumes opens: "\<And>k p c. \<exists>found. te_open E k p c = Inr found" and rt: "json_runtime (te_audit E)"
    and open': "audit_open u (ad_rows (tw_actions w)) r" and t: "non_blank targetId"
    and r: "ae_operation r = operation" "ae_source_surface r = ''mcp''" "ae_session_id r = Some (cx_sessionId (tw_context w))"
  shows "\<exists>e w'. run_audited E command code (Some (path, Some (ae_id r))) targetId handler u = (Resolved e, w') \<and> one_row w operation e w'"
proof -
  obtain x s where h: "handler (tw_config u) = (x, s)" by fastforce
  have kept: "audit_open (u\<lparr>tw_config := s\<rparr>) (ad_rows (tw_actions w)) r" using open' by (simp add: audit_open_def)
  have row: "one_row w operation e v"
    if "ad_rows (tw_actions v) = ad_rows (tw_actions w) @ [finish_row now (finish_of (te_audit E) status (Some targetId) result' error) r]"
      "status = (if envelope_ok e then ''succeeded'' else ''failed'')" for e v now status result' error
    using that r by (auto simp: one_row_def finished_fields)
  have failed: "\<exists>v. fail_audit E (Some (path, Some (ae_id r))) targetId e (u\<lparr>tw_config := s\<rparr>) = (Inr (), v) \<and> one_row w operation e v"
    if "\<not> envelope_ok e" for e
    using audit_finished [OF opens rt kept t, of "''failed''" None path "Some (error_of e)"] row that
    unfolding fail_audit_def by (metis insertCI option.distinct(1))
  show ?thesis
  proof (cases x)
    case (Inl f)
    obtain v where "fail_audit E (Some (path, Some (ae_id r))) targetId (toEnvelopeFromError command f code None) (u\<lparr>tw_config := s\<rparr>) = (Inr (), v)"
      "one_row w operation (toEnvelopeFromError command f code None) v"
      using failed toEnvelopeFromError_fails by blast
    with Inl h show ?thesis by (simp add: run_audited_def caught_def Let_def)
  next
    case (Inr e)
    show ?thesis
    proof (cases "envelope_ok e")
      case True
      obtain v now where "finish_mcp_audit E (Some (path, Some (ae_id r))) ''succeeded'' targetId (Some (JObj [])) None (u\<lparr>tw_config := s\<rparr>) = (Inr (), v)"
        "ad_rows (tw_actions v) = ad_rows (tw_actions w) @ [finish_row now (finish_of (te_audit E) ''succeeded'' (Some targetId) (Some (JObj [])) None) r]"
        using audit_finished [OF opens rt kept t, of "''succeeded''" "Some (JObj [])" path None] by blast
      with True h Inr row show ?thesis by (auto simp: run_audited_def Let_def)
    next
      case False
      with failed [OF this] h Inr show ?thesis by (auto simp: run_audited_def Let_def)
    qed
  qed
qed

text \<open>What a call of a tool that changes the configuration leaves in the ledger.\<close>

definition call_audited :: "tools_world \<Rightarrow> string \<Rightarrow> payload \<times> tools_world \<Rightarrow> bool" where
  "call_audited w operation x \<longleftrightarrow>
     (\<exists>e. fst x = Resolved e \<and> (snd x = w \<and> \<not> envelope_ok e \<or> one_row w operation e (snd x)))"

lemma audited_call:
  assumes "te_storePath E = Inr path" "\<And>k p c. \<exists>found. te_open E k p c = Inr found" "audit_ready E w" "json_runtime (te_audit E)"
    and "operation \<in> set CONTROL_PLANE_ACTION_OPERATIONS" "kind \<in> set CONTROL_PLANE_ACTION_TARGET_KINDS" "non_blank operation" "non_blank kind"
    and "\<And>a. parsed = Inr a \<Longrightarrow> non_blank (targetId a)"
  shows "call_audited w operation (runAuditedParsedMcpMutation E command code operation kind targetId parsed handler w)"
proof (cases parsed)
  case (Inl f)
  then show ?thesis by (simp add: call_audited_def runAuditedParsedMcpMutation_def)
next
  case (Inr a)
  obtain r v where a: "createMcpMutationAudit E operation kind (targetId a) w = (Some (path, Some (ae_id r)), v)"
    "audit_open v (ad_rows (tw_actions w)) r" "ae_operation r = operation" "ae_source_surface r = ''mcp''"
    "ae_session_id r = Some (cx_sessionId (tw_context w))" "ae_target_id r = Some (targetId a)"
    using audit_started [OF assms(1-8) assms(9) [OF Inr]] by blast
  from run_audited_row [OF assms(2,4) a(2) assms(9) [OF Inr] a(3-5), of command code path "handler a"] a(1) Inr
  show ?thesis by (auto simp: call_audited_def runAuditedParsedMcpMutation_def)
qed

lemma required_name: "getRequiredToolString fs k t = Inr n \<Longrightarrow> non_blank n"
  by (auto simp: getRequiredToolString_def Let_def rbind_Inr_iff isNonEmptyString_def split: option.splits json.splits if_splits)

lemma validated_names:
  "validateModelCreateInput d mco = Inr mc \<Longrightarrow> non_blank (mci_name mc)"
  "validateModelUpdateInput d muo = Inr mu \<Longrightarrow> non_blank (mui_name mu)"
  "validateProviderClearKeyInput d o1 = Inr n \<Longrightarrow> non_blank n"
  "validateProviderSetKeyInput d o1 v m1 m2 l = Inr a \<Longrightarrow> non_blank (fst a)"
  "validateProviderSetKeyEnvInput d o1 v m1 m2 = Inr a \<Longrightarrow> non_blank (fst a)"
  "validateRouteCreateInput d rco = Inr rc \<Longrightarrow> non_blank (rci_name rc)"
  "validateRouteUpdateInput d ruo = Inr ru \<Longrightarrow> non_blank (rui_name ru)"
  by (auto simp: validateModelCreateInput_def validateModelUpdateInput_def validateProviderSetKeyInput_def validateProviderClearKeyInput_def
      validateProviderSetKeyEnvInput_def validateRouteCreateInput_def validateRouteUpdateInput_def rbind_Inr_iff readRequiredString_Inr
      split: if_splits)

lemma validated_provider_names:
  "validateProviderCreateInput d pco = Inr pc \<Longrightarrow> non_blank (pci_name pc)"
  "validateProviderUpdateInput d puo = Inr pu \<Longrightarrow> non_blank (pui_name pu)"
  unfolding validateProviderCreateInput_def validateProviderUpdateInput_def rbind_Inr_iff readRequiredString_Inr Let_def
  by ((elim exE conjE, auto split: if_split_asm) [1])+

lemma parsed_targets:
  "parseModelsCreateArgs p = Inr mc \<Longrightarrow> non_blank (mci_name mc)"
  "parseModelsUpdateArgs p = Inr mu \<Longrightarrow> non_blank (mui_name mu)"
  "parseModelsDeleteArgs p = Inr n \<Longrightarrow> non_blank n"
  "parseProvidersCreateArgs p = Inr pc \<Longrightarrow> non_blank (pci_name pc)"
  "parseProvidersUpdateArgs p = Inr pu \<Longrightarrow> non_blank (pui_name pu)"
  "parseProvidersDeleteArgs p = Inr n \<Longrightarrow> non_blank n"
  "parseProvidersSetKeyArgs p = Inr a \<Longrightarrow> non_blank (fst a)"
  "parseProvidersClearKeyArgs p = Inr n \<Longrightarrow> non_blank n"
  "parseProvidersSetKeyEnvArgs p = Inr a \<Longrightarrow> non_blank (fst a)"
  "parseRoutesCreateArgs p = Inr rc \<Longrightarrow> non_blank (rci_name rc)"
  "parseRoutesUpdateArgs p = Inr ru \<Longrightarrow> non_blank (rui_name ru)"
  "parseRoutesDeleteArgs p = Inr n \<Longrightarrow> non_blank n"
  unfolding parseModelsCreateArgs_def parseModelsUpdateArgs_def parseModelsDeleteArgs_def parseProvidersCreateArgs_def
      parseProvidersUpdateArgs_def parseProvidersDeleteArgs_def parseProvidersSetKeyArgs_def parseProvidersClearKeyArgs_def
      parseProvidersSetKeyEnvArgs_def parseRoutesCreateArgs_def parseRoutesUpdateArgs_def parseRoutesDeleteArgs_def parseToolArgs_Inr
      rbind_Inr_iff Let_def
  by (auto dest: required_name validated_names validated_provider_names split: if_split_asm)

lemma audited_handlers:
  assumes "te_storePath E = Inr path" "\<And>k p c. \<exists>found. te_open E k p c = Inr found" "audit_ready E w" "json_runtime (te_audit E)"
  shows "list_all (\<lambda>(n, handler). \<forall>params. call_audited w n (handler params w)) (changing_handlers E)"
  unfolding changing_handlers_def list.pred_inject prod.case
  by (intro conjI allI; (rule audited_call [OF assms])?)
    (simp_all add: CONTROL_PLANE_ACTION_OPERATIONS_def CONTROL_PLANE_ACTION_TARGET_KINDS_def parsed_targets, simp_all add: js_string_defs)


section \<open>Divergences\<close>

text \<open>
  Property (cost_always_reported). A cost that was stored as it was requested is still reported as a field that was normalised.
\<close>
theorem cost_always_reported:
  assumes "mci_cost i = Some c" "jprop stored_value ''cost'' = Some (pickCostFields c)"
  shows "collectNormalizedFields (requested_model i) stored_value (map fst (requested_model i)) \<noteq> []"
proof -
  have "map_of (requested_model i) ''cost'' = Some (cost_view (Some c))" "''cost'' \<in> set (map fst (requested_model i))"
    using assms(1) by (simp_all add: requested_model_def optional_field_def)
  moreover have "cost_view (Some c) \<noteq> pickCostFields c" by (simp add: cost_view_def pickCostFields_def)
  ultimately have "normalized_entry (requested_model i) stored_value ''cost'' \<noteq> []" using assms(2) by (simp add: normalized_entry_def)
  then show ?thesis using \<open>''cost'' \<in> _\<close> unfolding collectNormalizedFields_def by force
qed

text \<open>
  Property (null_env_clears_key). An update with the null name of a variable writes null for the inline key, too.
\<close>
theorem null_env_clears_key:
  "pui_api_key_env i = Some None \<Longrightarrow>
     map_of (provider_update_values i) ''api_key'' = Some JNull \<and> map_of (provider_update_values i) ''api_key_env'' = Some JNull"
  by (simp add: provider_update_values_def update_no_auth_def optional_field_def nullable_text_def split: option.split)

text \<open>
  Property (read_failure_unclassified). When the configuration cannot be read, the listing of models fails with the error itself: the
  code that the table has for this tool is not used.
\<close>
theorem read_failure_unclassified:
  assumes "toolReadModel E (tw_config w) = (Inl e, s)"
  shows "fst (buildToolPayload E others ''models_list'' args w) = Inl (config_failure E e)"
  using assms by (simp add: buildToolPayload_def reading_handlers_def toolFallbackErrorCodes_def reading_def on_read_model_def)

section \<open>Examples\<close>

definition example_tool_env :: tool_env where
  "example_tool_env =
     \<lparr>te_host = example_config_host, te_suffixes = \<lparr>ws_catalog = ''1'', ws_catalogBackup = ''2'', ws_config = ''3'', ws_configBackup = ''4''\<rparr>,
      te_configPath = None, te_errorText = (\<lambda>_. ''e''), te_storePath = Inr ''/c/store'', te_open = (\<lambda>_ _ _. Inr True),
      te_audit = \<lparr>ar_stringify = (\<lambda>_. ''{}''), ar_parseJson = (\<lambda>_. Some (JObj [])), ar_now = (\<lambda>_. ''2026-01-01T00:00:00Z''),
        ar_uuid = (\<lambda>n. replicate (Suc n) (CHR ''u''))\<rparr>\<rparr>"

definition example_tools_state :: tools_state where
  "example_tools_state =
     \<lparr>tw_config = example_mutation_state, tw_actions = \<lparr>ad_rows = [], ad_outcomes = []\<rparr>, tw_ticks = 0, tw_log = []\<rparr>"

definition example_tools_world :: "mcp_capability list \<Rightarrow> tools_world" where
  "example_tools_world capabilities =
     (case createMcpSessionContext ''s'' capabilities no_sessions of
        (c, m) \<Rightarrow> tools_state.extend example_tools_state (tools_world.fields c m))"

definition no_other_tools :: "tools_world tool_builder" where
  "no_other_tools toolName params w = (Inr [], w)"

definition example_tool_server :: "tools_state serve_deps" where
  "example_tool_server = \<lparr>sd_nts = (\<lambda>_. ''1''), sd_version = ''v'', sd_codec = example_codec, sd_isTTY = False, sd_path = (\<lambda>_. None),
     sd_build = session_tools example_tool_env no_other_tools\<rparr>"

lemma example_delete_tool: "\<exists>tool\<in>set getToolDefinitions. td_name tool = ''models_delete'' \<and> td_capability tool = Mutation"
  by (simp add: getToolDefinitions_def defineTool_def)

lemma example_changing: "''models_delete'' \<in> fst ` set (changing_handlers E)"
  by (simp add: changing_handlers_def)

lemma example_granted [simp]: "cx_granted (tw_context (example_tools_world capabilities)) = capabilities"
  by (simp add: example_tools_world_def createMcpSessionContext_def tools_state.defs tools_world.defs split: prod.split)

theorem unprivileged_keys_kept_witness:
  "\<exists>w'. w' = snd (buildToolPayload example_tool_env no_other_tools ''models_delete'' (JObj []) (example_tools_world [Read, Mutation])) \<and>
     (mu_io (tw_config w') = mu_io (tw_config (example_tools_world [Read, Mutation])) \<or>
      (\<exists>p catalog before after. load_effective (disk_host (te_host example_tool_env) (tw_config (example_tools_world [Read, Mutation])))
           (te_configPath example_tool_env) = Inr (p, catalog, before) \<and>
         mu_io (tw_config w') = write_effective example_tool_env p catalog after (mu_io (tw_config (example_tools_world [Read, Mutation]))) \<and>
         (\<forall>n. entry_keys_kept (stored before ''service_providers'' n) (stored after ''service_providers'' n))))"
proof -
  obtain tool where t: "tool \<in> set getToolDefinitions" "td_name tool = ''models_delete''" "td_capability tool = Mutation"
    using example_delete_tool by blast
  let ?w = "example_tools_world [Read, Mutation]"
  have "td_name tool \<in> fst ` set (reading_handlers example_tool_env @ changing_handlers example_tool_env)"
    unfolding t(2) set_append image_Un using example_changing by blast
  from unprivileged_keys_kept [OF t(1) _ _ this surjective_pairing, of ?w no_other_tools "JObj []"] t(2,3)
  show ?thesis by simp
qed

theorem read_session_changes_nothing_witness:
  "mu_io (tw_config (sv_world (serve_step example_tool_server (DataEvent ''x'') (serve_start [Read] example_tools_state)))) = mu_io example_mutation_state"
proof -
  have "sd_build example_tool_server = session_tools example_tool_env no_other_tools" by (simp add: example_tool_server_def)
  moreover have "\<forall>tool\<in>set getToolDefinitions. td_capability tool = Read \<longrightarrow> (\<forall>args u. unchanged u (snd (no_other_tools (td_name tool) args u)))"
    by (simp add: no_other_tools_def unchanged_def)
  moreover have "tw_config example_tools_state = example_mutation_state" by (simp add: example_tools_state_def)
  ultimately show ?thesis
    using read_session_changes_nothing [OF _ _ serve_reaches.step [OF serve_reaches.start], of example_tool_server example_tool_env no_other_tools
        "DataEvent ''x''" example_tools_state] by (simp only:)
qed


end
