(* ===== verification/Optimize_Report.thy ===== *)
theory Optimize_Report
  imports Mcp_Parsers "HOL-Library.Multiset"
begin

text \<open>
  The reports of the optimiser, \<^verbatim>\<open>observability/ostrich/optimization/optimize-report-builder.ts\<close>: which routes of a
  model compete, how they are ranked by cost or by latency, and what is stored of a run and read back. The
  numbers of JavaScript are rationals here; \<open>fl\<close> is the rounding of one operation to a double, and \<open>lc\<close> is
  \<open>localeCompare\<close>. \<open>Array.prototype.sort\<close> is a stable insertion sort, which gives the result of every stable
  sort as long as the comparison is consistent.

  Main results: the ranking lists every candidate once, those with a score in order; the winner has the least
  score and the ties are exactly the others with that score; a run that was stored is read back with its winner.
\<close>

section \<open>Sorting\<close>

fun insert_by :: "('a \<Rightarrow> 'a \<Rightarrow> rat) \<Rightarrow> 'a \<Rightarrow> 'a list \<Rightarrow> 'a list" where
  "insert_by cmp x [] = [x]"
| "insert_by cmp x (y # ys) = (if cmp x y \<le> 0 then x # y # ys else y # insert_by cmp x ys)"

definition js_sort :: "('a \<Rightarrow> 'a \<Rightarrow> rat) \<Rightarrow> 'a list \<Rightarrow> 'a list" where
  "js_sort cmp xs = foldr (insert_by cmp) xs []"

text \<open>A comparison whose signs are those of a total preorder.\<close>

definition consistent :: "('a \<Rightarrow> 'a \<Rightarrow> rat) \<Rightarrow> bool" where
  "consistent cmp \<longleftrightarrow>
     (\<forall>x y. cmp x y \<le> 0 \<or> cmp y x \<le> 0) \<and> (\<forall>x y z. cmp x y \<le> 0 \<longrightarrow> cmp y z \<le> 0 \<longrightarrow> cmp x z \<le> 0)"

lemma mset_insert_by [simp]: "mset (insert_by cmp x ys) = add_mset x (mset ys)"
  by (induction ys) auto

lemma mset_js_sort [simp]: "mset (js_sort cmp xs) = mset xs"
  by (induction xs) (simp_all add: js_sort_def)

lemma set_js_sort [simp]: "set (js_sort cmp xs) = set xs"
  by (metis mset_js_sort set_mset_mset)

lemma length_js_sort [simp]: "length (js_sort cmp xs) = length xs"
  by (metis mset_js_sort size_mset)

lemma js_sort_empty [simp]: "js_sort cmp xs = [] \<longleftrightarrow> xs = []"
  by (metis length_0_conv length_js_sort)

lemma insert_by_sorted:
  assumes "consistent cmp" "sorted_wrt (\<lambda>x y. cmp x y \<le> 0) ys"
  shows "sorted_wrt (\<lambda>x y. cmp x y \<le> 0) (insert_by cmp x ys)"
  using assms(2)
proof (induction ys)
  case (Cons y ys)
  have set: "set (insert_by cmp x ys) = insert x (set ys)" by (metis mset_insert_by set_mset_add_mset_insert set_mset_mset)
  show ?case
    using assms(1) Cons set by (auto simp: consistent_def; blast)
qed simp

lemma js_sort_sorted: "consistent cmp \<Longrightarrow> sorted_wrt (\<lambda>x y. cmp x y \<le> 0) (js_sort cmp xs)"
  by (induction xs) (simp_all add: js_sort_def insert_by_sorted)

text \<open>With different keys the order of the keys decides.\<close>

lemma sorted_by_key_unique:
  fixes key :: "'a \<Rightarrow> 'b :: linorder"
  assumes "mset xs = mset ys" "sorted (map key xs)" "sorted (map key ys)" "inj_on key (set xs)"
  shows "xs = ys"
proof -
  have "map key xs = map key ys" using assms(1-3) by (metis mset_map sorted_list_of_multiset_mset sorted_sort_id)
  moreover have "set xs = set ys" using assms(1) by (metis set_mset_mset)
  ultimately show ?thesis using assms(4) by (simp add: inj_on_map_eq_map)
qed

section \<open>Candidates\<close>

record optimize_failure =
  ox_code :: string
  ox_message :: string
  ox_details :: "json option"

definition buildOptimizeFailure :: "string \<Rightarrow> string \<Rightarrow> json option \<Rightarrow> optimize_failure" where
  "buildOptimizeFailure code message details = \<lparr>ox_code = code, ox_message = message, ox_details = details\<rparr>"

text \<open>The list of routes of the command line; \<open>None\<close> when the flag is not given.\<close>

definition normalizeOptimizeRoutesCsv :: "string option \<Rightarrow> string + string list option" where
  "normalizeOptimizeRoutesCsv routesCsv =
     (case routesCsv of
        None \<Rightarrow> Inr None
      | Some csv \<Rightarrow>
          (let uniqueRoutes = rev (remdups (rev (filter (\<lambda>r. length r > 0) (map trim (split_char (CHR '','') csv)))))
           in if length uniqueRoutes = 0 then Inl (''Flag '' @ quoted ''--routes'' @ '' must contain at least one route id'')
              else if length uniqueRoutes > BENCH_MAX_ROUTES
              then Inl (''Flag '' @ quoted ''--routes'' @ '' must contain at most '' @ digits_of_nat BENCH_MAX_ROUTES @ '' route ids'')
              else Inr (Some uniqueRoutes)))"

fun requested_candidates :: "cli_read_model \<Rightarrow> string \<Rightarrow> string list \<Rightarrow> optimize_failure + route_read_model list" where
  "requested_candidates m modelId [] = Inr []"
| "requested_candidates m modelId (routeName # rest) =
     (case routesByName m routeName of
        None \<Rightarrow> Inl (buildOptimizeFailure ''route_not_found'' (''Route '' @ quoted routeName @ '' was not found'') None)
      | Some route \<Rightarrow>
          if rm_model route \<noteq> modelId
          then Inl (buildOptimizeFailure ''optimize_route_model_mismatch''
                 (''Route '' @ quoted routeName @ '' targets model '' @ quoted (rm_model route) @ '', not '' @ quoted modelId)
                 (Some (JObj [(''route_id'', JStr routeName), (''route_model'', JStr (rm_model route)), (''target_model'', JStr modelId)])))
          else rbind (requested_candidates m modelId rest) (\<lambda>candidates. Inr (route # candidates)))"

definition selectOptimizeCandidateRoutes ::
  "cli_read_model \<Rightarrow> string \<Rightarrow> string list option \<Rightarrow> optimize_failure + route_read_model list" where
  "selectOptimizeCandidateRoutes readModel modelId requestedRoutes =
     (if modelsByName readModel modelId = None
      then Inl (buildOptimizeFailure ''model_not_found'' (''Model '' @ quoted modelId @ '' was not found'') None)
      else rbind (case requestedRoutes of
                    Some names \<Rightarrow> requested_candidates readModel modelId names
                  | None \<Rightarrow> Inr (filter (\<lambda>r. rm_model r = modelId) (cr_routes readModel))) (\<lambda>candidates.
           if length candidates = 0
           then Inl (buildOptimizeFailure ''optimize_no_candidates'' (''Model '' @ quoted modelId @ '' has no candidate routes'') None)
           else if length candidates < 2
           then Inl (buildOptimizeFailure ''optimize_insufficient_candidates''
                  (''Model '' @ quoted modelId @ '' has only '' @ digits_of_nat (length candidates) @
                   '' candidate route; optimize requires at least 2'') None)
           else Inr candidates))"

section \<open>Entries of a ranking\<close>

record latency_stats =
  lt_measured :: nat
  lt_successful :: nat
  lt_failed :: nat
  lt_median :: "rat option"
  lt_average :: "rat option"
  lt_min :: "rat option"
  lt_max :: "rat option"

datatype ranking_details =
  CostDetails reference_tokens "cost_config option" string "rat option"      \<comment> \<open>tokens, effective cost, its source, estimate\<close>
| LatencyDetails latency_stats "(string \<times> latency_stats) list"               \<comment> \<open>of all samples and by path\<close>

record ranking_entry =
  oe_rank :: "nat option"
  oe_objective :: string
  oe_route_id :: string
  oe_display_name :: "string option"
  oe_model :: string
  oe_service_provider :: string
  oe_provider_model_id :: string
  oe_score :: "rat option"
  oe_score_unit :: string
  oe_details :: ranking_details
  oe_disqualified :: "(string \<times> string) option"                              \<comment> \<open>reason and message\<close>

text \<open>\<open>route.display_name || null\<close>\<close>

definition shown_name :: "route_read_model \<Rightarrow> string option" where
  "shown_name r = (if rm_display_name r = [] then None else Some (rm_display_name r))"

definition entry_of ::
  "string \<Rightarrow> string \<Rightarrow> route_read_model \<Rightarrow> rat option \<Rightarrow> ranking_details \<Rightarrow> (string \<times> string) option \<Rightarrow> ranking_entry" where
  "entry_of objective unit r score details disqualified =
     \<lparr>oe_rank = None, oe_objective = objective, oe_route_id = rm_name r, oe_display_name = shown_name r, oe_model = rm_model r,
      oe_service_provider = rm_service_provider r, oe_provider_model_id = rm_provider_model_id r, oe_score = score,
      oe_score_unit = unit, oe_details = details, oe_disqualified = disqualified\<rparr>"

definition getCostSource :: "route_read_model \<Rightarrow> string" where
  "getCostSource r = (if rm_cost r \<noteq> None then ''route'' else if rm_model_cost r \<noteq> None then ''model'' else ''none'')"

definition per_million :: "(rat \<Rightarrow> rat) \<Rightarrow> rat \<Rightarrow> rat \<Rightarrow> rat" where
  "per_million fl tokens price = fl (fl (tokens / 1000000) * price)"

definition estimateCost :: "(rat \<Rightarrow> rat) \<Rightarrow> cost_config \<Rightarrow> reference_tokens \<Rightarrow> rat" where
  "estimateCost fl cost t =
     fl (fl (fl (per_million fl (rt_input_tokens t) (co_input cost) + per_million fl (rt_output_tokens t) (co_output cost)) +
       per_million fl (rt_cache_read_tokens t) (co_cacheRead cost)) + per_million fl (rt_cache_write_tokens t) (co_cacheWrite cost))"

definition cost_entry :: "(rat \<Rightarrow> rat) \<Rightarrow> reference_tokens \<Rightarrow> route_read_model \<Rightarrow> ranking_entry" where
  "cost_entry fl t r =
     (case rm_effective_cost r of
        None \<Rightarrow> entry_of ''cost'' ''usd'' r None (CostDetails t None ''none'' None)
                 (Some (''missing_effective_cost'', ''Route '' @ quoted (rm_name r) @ '' has no route or model cost metadata''))
      | Some c \<Rightarrow> (let estimatedCost = estimateCost fl c t
                   in entry_of ''cost'' ''usd'' r (Some estimatedCost) (CostDetails t (Some c) (getCostSource r) (Some estimatedCost)) None))"

subsection \<open>Latency\<close>

record benchmark_sample =
  sp_route_id :: "string option"
  sp_is_warmup :: rat
  sp_outcome :: string
  sp_latency_ms :: "rat option"
  sp_score_json :: "string option"

definition median :: "(rat \<Rightarrow> rat) \<Rightarrow> rat list \<Rightarrow> rat option" where
  "median fl vs =
     (if vs = [] then None
      else let s = sort vs; midpoint = length s div 2
           in if length s mod 2 = 1 then Some (s ! midpoint) else Some (fl (fl (s ! (midpoint - 1) + s ! midpoint) / 2)))"

definition average :: "(rat \<Rightarrow> rat) \<Rightarrow> rat list \<Rightarrow> rat option" where
  "average fl vs = (if vs = [] then None else Some (fl (foldl (\<lambda>s v. fl (s + v)) 0 vs / of_nat (length vs))))"

definition benchmarkPathFromScoreJson :: "(string \<Rightarrow> json option) \<Rightarrow> string option \<Rightarrow> string" where
  "benchmarkPathFromScoreJson parseJson scoreJson =
     (case scoreJson of
        None \<Rightarrow> ''gateway''
      | Some t \<Rightarrow>
          (case parseJson t of
             Some parsed \<Rightarrow> if isRecord (Some parsed) \<and> jprop parsed ''path'' = Some (JStr ''direct'') then ''direct'' else ''gateway''
           | None \<Rightarrow> ''gateway''))"

definition measured :: "benchmark_sample list \<Rightarrow> benchmark_sample list" where
  "measured samples = filter (\<lambda>s. sp_is_warmup s = 0) samples"

definition latency_values :: "benchmark_sample list \<Rightarrow> rat list" where
  "latency_values samples = map (the \<circ> sp_latency_ms) (filter (\<lambda>s. sp_outcome s = ''succeeded'' \<and> sp_latency_ms s \<noteq> None) (measured samples))"

definition latencyStats :: "(rat \<Rightarrow> rat) \<Rightarrow> benchmark_sample list \<Rightarrow> latency_stats" where
  "latencyStats fl samples =
     (let measuredSamples = measured samples; vs = latency_values samples
      in \<lparr>lt_measured = length measuredSamples, lt_successful = length vs, lt_failed = length measuredSamples - length vs,
          lt_median = median fl vs, lt_average = average fl vs,
          lt_min = (if vs = [] then None else Some (Min (set vs))), lt_max = (if vs = [] then None else Some (Max (set vs)))\<rparr>)"

text \<open>\<open>Map\<close> from a key to the samples with that key, in order.\<close>

definition add_to_bucket :: "'k \<Rightarrow> 'v \<Rightarrow> ('k, 'v list) js_map \<Rightarrow> ('k, 'v list) js_map" where
  "add_to_bucket k v m = jm_set k ((case jm_get m k of None \<Rightarrow> [] | Some b \<Rightarrow> b) @ [v]) m"

definition summarizeLatencyByPath ::
  "(rat \<Rightarrow> rat) \<Rightarrow> (string \<Rightarrow> string \<Rightarrow> int) \<Rightarrow> (string \<Rightarrow> json option) \<Rightarrow> benchmark_sample list \<Rightarrow> (string \<times> latency_stats) list" where
  "summarizeLatencyByPath fl lc parseJson samples =
     (let buckets = foldl (\<lambda>m s. add_to_bucket (benchmarkPathFromScoreJson parseJson (sp_score_json s)) s m) [] (measured samples)
      in map (\<lambda>(pathName, bucket). (pathName, latencyStats fl bucket)) (js_sort (\<lambda>l r. of_int (lc (fst l) (fst r))) buckets))"

definition samples_by_route :: "benchmark_sample list \<Rightarrow> (string, benchmark_sample list) js_map" where
  "samples_by_route samples =
     foldl (\<lambda>m s. case sp_route_id s of None \<Rightarrow> m | Some r \<Rightarrow> add_to_bucket r s m) [] samples"

definition latency_entry ::
  "(rat \<Rightarrow> rat) \<Rightarrow> (string \<Rightarrow> string \<Rightarrow> int) \<Rightarrow> (string \<Rightarrow> json option) \<Rightarrow> (string, benchmark_sample list) js_map \<Rightarrow>
   route_read_model \<Rightarrow> ranking_entry" where
  "latency_entry fl lc parseJson samplesByRoute r =
     (let routeSamples = (case jm_get samplesByRoute (rm_name r) of None \<Rightarrow> [] | Some b \<Rightarrow> b);
          stats = latencyStats fl routeSamples; byPath = summarizeLatencyByPath fl lc parseJson routeSamples
      in entry_of ''latency'' ''ms'' r (lt_median stats) (LatencyDetails stats byPath)
           (if lt_median stats = None
            then Some (''no_successful_measured_samples'', ''Route '' @ quoted (rm_name r) @ '' has no successful measured benchmark samples'')
            else None))"

section \<open>Rankings\<close>

definition entry_score :: "ranking_entry \<Rightarrow> rat" where
  "entry_score e = (case oe_score e of Some s \<Rightarrow> s | None \<Rightarrow> 0)"

text \<open>\<open>left.score - right.score || left.route_id.localeCompare(right.route_id)\<close>\<close>

definition by_score :: "(string \<Rightarrow> string \<Rightarrow> int) \<Rightarrow> ranking_entry \<Rightarrow> ranking_entry \<Rightarrow> rat" where
  "by_score lc l r =
     (let d = entry_score l - entry_score r in if d \<noteq> 0 then d else of_int (lc (oe_route_id l) (oe_route_id r)))"

definition rank_value :: "ranking_entry \<Rightarrow> nat" where
  "rank_value e = (case oe_rank e of Some n \<Rightarrow> n | None \<Rightarrow> MAX_SAFE_INTEGER)"

definition by_rank :: "ranking_entry \<Rightarrow> ranking_entry \<Rightarrow> rat" where
  "by_rank l r = of_nat (rank_value l) - of_nat (rank_value r)"

definition qualified_entries :: "(string \<Rightarrow> string \<Rightarrow> int) \<Rightarrow> ranking_entry list \<Rightarrow> ranking_entry list" where
  "qualified_entries lc entries = js_sort (by_score lc) (filter (\<lambda>e. oe_score e \<noteq> None) entries)"

definition ranks_by_route :: "ranking_entry list \<Rightarrow> (string, nat) js_map" where
  "ranks_by_route qualified = foldl (\<lambda>m (index, e). jm_set (oe_route_id e) (Suc index) m) [] (enumerate 0 qualified)"

definition ranked :: "ranking_entry list \<Rightarrow> ranking_entry \<Rightarrow> ranking_entry" where
  "ranked qualified e = e\<lparr>oe_rank := jm_get (ranks_by_route qualified) (oe_route_id e)\<rparr>"

definition full_ranking :: "ranking_entry list \<Rightarrow> ranking_entry list \<Rightarrow> ranking_entry list" where
  "full_ranking qualified entries =
     js_sort by_rank (map (ranked qualified) (filter (\<lambda>e. oe_score e \<noteq> None) entries)) @ filter (\<lambda>e. oe_score e = None) entries"

definition disqualified_of :: "ranking_entry list \<Rightarrow> (string \<times> string \<times> string) list" where
  "disqualified_of ranking =
     concat (map (\<lambda>e. case oe_disqualified e of None \<Rightarrow> [] | Some (reason, message) \<Rightarrow> [(oe_route_id e, reason, message)]) ranking)"

section \<open>Reports\<close>

record optimize_warning =
  ow_code :: string
  ow_message :: string
  ow_details :: "(string \<times> json) list option"

record execution_warning =
  xw_code :: string
  xw_message :: string
  xw_path :: string
  xw_details :: "(string \<times> json) list option"

record benchmark_result =
  bn_run_id :: string
  bn_summary :: json
  bn_execution :: json
  bn_warnings :: "execution_warning list"

record optimize_report =
  rp_store_path :: "string option"
  rp_run_id :: "string option"
  rp_persisted :: bool
  rp_created_at :: "string option"
  rp_finished_at :: "string option"
  rp_created_by :: "string option"
  rp_status :: string
  rp_target_model :: string
  rp_objective :: string
  rp_requested_routes :: "string list option"
  rp_resolved_routes :: "string list"
  rp_disqualified :: "(string \<times> string \<times> string) list"
  rp_reference_tokens :: reference_tokens
  rp_bench :: "benchmark_result option"
  rp_ranking :: "ranking_entry list"
  rp_winner_route :: string
  rp_winner_score :: rat
  rp_score_unit :: string
  rp_tied_with :: "string list"
  rp_warnings :: "optimize_warning list"

text \<open>\<open>{ ...base, ...changes }\<close>\<close>

definition overlay :: "(string \<times> json) list \<Rightarrow> (string \<times> json) list \<Rightarrow> (string \<times> json) list" where
  "overlay base changes = foldl (\<lambda>fs (k, v). jm_set k v fs) base changes"

definition warning_of :: "execution_warning \<Rightarrow> optimize_warning" where
  "warning_of w =
     \<lparr>ow_code = xw_code w, ow_message = xw_message w,
      ow_details = Some (overlay [(''path'', JStr (xw_path w))] (case xw_details w of None \<Rightarrow> [] | Some d \<Rightarrow> d))\<rparr>"

text \<open>What both reports do with their entries.\<close>

definition report_on ::
  "(string \<Rightarrow> string \<Rightarrow> int) \<Rightarrow> string \<Rightarrow> string \<Rightarrow> string \<Rightarrow> string list option \<Rightarrow> route_read_model list \<Rightarrow> reference_tokens \<Rightarrow>
   benchmark_result option \<Rightarrow> optimize_warning list \<Rightarrow> optimize_failure \<Rightarrow> ranking_entry list \<Rightarrow> optimize_failure + optimize_report" where
  "report_on lc objective unit modelId requestedRoutes candidateRoutes t bench warnings failure entries =
     (let qualified = qualified_entries lc entries; ranking = full_ranking qualified entries
      in case qualified of
           [] \<Rightarrow> Inl failure
         | winner # others \<Rightarrow>
             Inr \<lparr>rp_store_path = None, rp_run_id = None, rp_persisted = False, rp_created_at = None, rp_finished_at = None,
                  rp_created_by = None, rp_status = ''completed'', rp_target_model = modelId, rp_objective = objective,
                  rp_requested_routes = requestedRoutes, rp_resolved_routes = map rm_name candidateRoutes,
                  rp_disqualified = disqualified_of ranking, rp_reference_tokens = t, rp_bench = bench, rp_ranking = ranking,
                  rp_winner_route = oe_route_id winner, rp_winner_score = entry_score winner, rp_score_unit = unit,
                  rp_tied_with = map oe_route_id (filter (\<lambda>e. oe_score e = oe_score winner) others), rp_warnings = warnings\<rparr>)"

definition buildCostOptimizeReport ::
  "(rat \<Rightarrow> rat) \<Rightarrow> (string \<Rightarrow> string \<Rightarrow> int) \<Rightarrow> string \<Rightarrow> string list option \<Rightarrow> route_read_model list \<Rightarrow> reference_tokens \<Rightarrow>
   optimize_failure + optimize_report" where
  "buildCostOptimizeReport fl lc modelId requestedRoutes candidateRoutes t =
     report_on lc ''cost'' ''usd'' modelId requestedRoutes candidateRoutes t None []
       (buildOptimizeFailure ''optimize_objective_no_data''
          (''No candidate routes for model '' @ quoted modelId @ '' have effective cost metadata'') None)
       (map (cost_entry fl t) candidateRoutes)"

definition buildLatencyOptimizeReport ::
  "(rat \<Rightarrow> rat) \<Rightarrow> (string \<Rightarrow> string \<Rightarrow> int) \<Rightarrow> (string \<Rightarrow> json option) \<Rightarrow> string \<Rightarrow> string list option \<Rightarrow> route_read_model list \<Rightarrow>
   benchmark_result \<Rightarrow> benchmark_sample list \<Rightarrow> optimize_failure + optimize_report" where
  "buildLatencyOptimizeReport fl lc parseJson modelId requestedRoutes candidateRoutes bench samples =
     report_on lc ''latency'' ''ms'' modelId requestedRoutes candidateRoutes DEFAULT_OPTIMIZE_REFERENCE_TOKENS (Some bench)
       (map warning_of (bn_warnings bench))
       (buildOptimizeFailure ''optimize_objective_no_data''
          (''No candidate routes for model '' @ quoted modelId @ '' have successful measured benchmark samples'')
          (Some (JObj [(''benchmark_run_id'', JStr (bn_run_id bench))])))
       (map (latency_entry fl lc parseJson (samples_by_route samples)) candidateRoutes)"

definition buildCostOptimizeExecution ::
  "(rat \<Rightarrow> rat) \<Rightarrow> (string \<Rightarrow> string \<Rightarrow> int) \<Rightarrow> cli_read_model \<Rightarrow> string \<Rightarrow> string list option \<Rightarrow> reference_tokens \<Rightarrow>
   optimize_failure + optimize_report \<times> route_read_model list" where
  "buildCostOptimizeExecution fl lc readModel modelId requestedRoutes t =
     rbind (selectOptimizeCandidateRoutes readModel modelId requestedRoutes) (\<lambda>routes.
     rbind (buildCostOptimizeReport fl lc modelId requestedRoutes routes t) (\<lambda>r.
     Inr (r, routes)))"

section \<open>What a ranking is\<close>

text \<open>\<open>localeCompare\<close> as the code needs it: its signs are those of a total preorder.\<close>

definition collation :: "(string \<Rightarrow> string \<Rightarrow> int) \<Rightarrow> bool" where
  "collation lc \<longleftrightarrow> (\<forall>s t. lc s t \<le> 0 \<or> lc t s \<le> 0) \<and> (\<forall>s t u. lc s t \<le> 0 \<longrightarrow> lc t u \<le> 0 \<longrightarrow> lc s u \<le> 0)"

lemma by_score_le: "by_score lc l r \<le> 0 \<longleftrightarrow>
    entry_score l < entry_score r \<or> entry_score l = entry_score r \<and> lc (oe_route_id l) (oe_route_id r) \<le> 0"
  by (auto simp: by_score_def Let_def)

lemma by_score_consistent: "collation lc \<Longrightarrow> consistent (by_score lc)"
  unfolding consistent_def collation_def by_score_le by (metis linorder_less_linear order_less_trans)

lemma by_rank_consistent: "consistent by_rank"
  by (auto simp: consistent_def by_rank_def)

lemma sorted_by_rank: "sorted_wrt (\<lambda>x y. by_rank x y \<le> 0) es \<longleftrightarrow> sorted (map rank_value es)"
  by (simp add: by_rank_def sorted_map)

lemma sorted_by_score:
  "collation lc \<Longrightarrow> sorted (map entry_score (qualified_entries lc entries))"
  using js_sort_sorted [OF by_score_consistent, of lc "filter (\<lambda>e. oe_score e \<noteq> None) entries"]
  by (auto simp: qualified_entries_def by_score_le sorted_map elim!: sorted_wrt_mono_rel [rotated])

lemma ranks_loop:
  "distinct (map oe_route_id es) \<Longrightarrow>
   jm_get (foldl (\<lambda>m (index, e). jm_set (oe_route_id e) (Suc index) m) m (enumerate n es)) k =
     (case find (\<lambda>(index, e). oe_route_id e = k) (enumerate n es) of None \<Rightarrow> jm_get m k | Some (index, e) \<Rightarrow> Some (Suc index))"
proof (induction es arbitrary: n m)
  case (Cons e es)
  have inside: "e' \<in> set es" if "(index, e') \<in> set (enumerate (Suc n) es)" for index e'
    using that by (metis enumerate_eq_zip set_zip_rightD)
  have "find (\<lambda>(index, e). oe_route_id e = k) (enumerate (Suc n) es) = None" if "oe_route_id e = k"
    using Cons.prems that unfolding find_None_iff by auto (metis image_eqI inside)
  then show ?case using Cons by (auto simp: jm_get_set split: option.split)
qed simp

lemma rank_of:
  assumes "distinct (map oe_route_id es)" "i < length es"
  shows "jm_get (ranks_by_route es) (oe_route_id (es ! i)) = Some (Suc i)"
proof -
  have "find (\<lambda>(index, e). oe_route_id e = oe_route_id (es ! i)) (enumerate 0 es) = Some (i, es ! i)"
    unfolding find_Some_iff using assms
    by (auto simp: nth_enumerate_eq distinct_map inj_on_def nth_eq_iff_index_eq intro!: exI [of _ i])
      (metis distinct_map inj_onD less_trans nth_eq_iff_index_eq nth_mem order_less_irrefl)
  then show ?thesis using ranks_loop [OF assms(1), of "[]" 0] by (simp add: ranks_by_route_def)
qed

lemma map_ranked:
  assumes "distinct (map oe_route_id es)"
  shows "map rank_value (map (ranked es) es) = [1..<Suc (length es)]"
  by (rule nth_equalityI) (simp_all add: ranked_def rank_value_def rank_of [OF assms] del: upt_Suc)

lemma full_ranking_eq:
  assumes "collation lc" "distinct (map oe_route_id entries)"
  defines "q \<equiv> qualified_entries lc entries"
  shows "full_ranking q entries = map (ranked q) q @ filter (\<lambda>e. oe_score e = None) entries"
proof -
  let ?s = "filter (\<lambda>e. oe_score e \<noteq> None) entries"
  have q: "mset q = mset ?s" by (simp add: q_def qualified_entries_def)
  have "distinct (map oe_route_id ?s)" using assms(2) by (simp add: distinct_map_filter)
  then have d: "distinct (map oe_route_id q)" using q by (metis mset_map mset_eq_imp_distinct_iff)
  have ranks: "map rank_value (map (ranked q) q) = [1..<Suc (length q)]" by (rule map_ranked [OF d])
  have "inj_on rank_value (set (map (ranked q) q))"
    by (rule distinct_map [THEN iffD1, THEN conjunct2]) (simp only: ranks distinct_upt)
  moreover have m: "mset (map (ranked q) ?s) = mset (map (ranked q) q)" using q by simp
  ultimately have "inj_on rank_value (set (js_sort by_rank (map (ranked q) ?s)))"
    by (simp only: set_js_sort) (metis set_mset_mset)
  moreover have "sorted (map rank_value (js_sort by_rank (map (ranked q) ?s)))"
    using js_sort_sorted [OF by_rank_consistent] by (simp only: sorted_by_rank)
  moreover have "sorted (map rank_value (map (ranked q) q))" unfolding ranks by (rule sorted_upt)
  ultimately have "js_sort by_rank (map (ranked q) ?s) = map (ranked q) q"
    by (intro sorted_by_key_unique [of _ _ rank_value]) (simp_all only: m mset_js_sort)
  then show ?thesis by (simp only: full_ranking_def)
qed

text \<open>
  A report that ranks routes by a score: the routes with a score first, in the order of the score and with ranks
  from 1, then those without, which are the disqualified ones; the winner and its ties.
\<close>

definition ranks_by :: "(string \<Rightarrow> rat option) \<Rightarrow> string list \<Rightarrow> optimize_report \<Rightarrow> bool" where
  "ranks_by score names r \<longleftrightarrow>
     (\<exists>best rest unranked.
        rp_ranking r = best # rest @ unranked \<and> mset (map oe_route_id (rp_ranking r)) = mset names \<and>
        (\<forall>e\<in>set (rp_ranking r). oe_score e = score (oe_route_id e)) \<and>
        map oe_rank (best # rest) = map Some [1..<Suc (Suc (length rest))] \<and> sorted (map entry_score (best # rest)) \<and>
        (\<forall>e\<in>set (best # rest). oe_score e \<noteq> None \<and> oe_disqualified e = None) \<and>
        (\<forall>e\<in>set unranked. oe_rank e = None \<and> oe_score e = None) \<and>
        map fst (rp_disqualified r) = map oe_route_id unranked \<and>
        rp_winner_route r = oe_route_id best \<and> score (rp_winner_route r) = Some (rp_winner_score r) \<and>
        rp_tied_with r = map oe_route_id (filter (\<lambda>e. oe_score e = Some (rp_winner_score r)) rest))"

definition proper_entry :: "ranking_entry \<Rightarrow> bool" where
  "proper_entry e \<longleftrightarrow> oe_rank e = None \<and> (oe_disqualified e = None \<longleftrightarrow> oe_score e \<noteq> None)"

lemma disqualified_routes: "map fst (disqualified_of es) = map oe_route_id (filter (\<lambda>e. oe_disqualified e \<noteq> None) es)"
  by (induction es) (auto simp: disqualified_of_def split: option.splits)

lemma ranked_fields [simp]:
  "oe_route_id (ranked q e) = oe_route_id e" "oe_score (ranked q e) = oe_score e" "oe_disqualified (ranked q e) = oe_disqualified e"
  "entry_score (ranked q e) = entry_score e" "oe_model (ranked q e) = oe_model e" "oe_service_provider (ranked q e) = oe_service_provider e"
  "oe_provider_model_id (ranked q e) = oe_provider_model_id e"
  by (simp_all add: ranked_def entry_score_def)

lemma report_on_ranks:
  assumes lc: "collation lc" and d: "distinct (map oe_route_id entries)" and proper: "\<forall>e\<in>set entries. proper_entry e"
    and score: "\<forall>e\<in>set entries. oe_score e = score (oe_route_id e)"
    and r: "report_on lc objective unit modelId requested routes t bench warnings failure entries = Inr r"
  shows "ranks_by score (map oe_route_id entries) r"
proof -
  define q where "q = qualified_entries lc entries"
  let ?u = "filter (\<lambda>e. oe_score e = None) entries"
  have q: "set q = {e \<in> set entries. oe_score e \<noteq> None}" "mset q = mset (filter (\<lambda>e. oe_score e \<noteq> None) entries)"
    by (auto simp: q_def qualified_entries_def)
  obtain winner others where w: "q = winner # others" using r by (auto simp: report_on_def q_def Let_def split: list.splits)
  note full = full_ranking_eq [OF lc d, folded q_def]
  have dq: "distinct (map oe_route_id q)"
    using d q(2) by (metis distinct_map_filter mset_map mset_eq_imp_distinct_iff)
  have rr: "rp_ranking r = map (ranked q) q @ ?u" "rp_winner_route r = oe_route_id winner" "rp_winner_score r = entry_score winner"
      "rp_tied_with r = map oe_route_id (filter (\<lambda>e. oe_score e = oe_score winner) others)" "rp_disqualified r = disqualified_of (rp_ranking r)"
    using r w full by (auto simp: report_on_def Let_def simp flip: q_def)
  have ranks: "map oe_rank (map (ranked q) q) = map Some [1..<Suc (length q)]"
    by (rule nth_equalityI) (simp_all add: ranked_def rank_of [OF dq] del: upt_Suc)
  have "winner \<in> set q" by (simp add: w)
  then obtain ws where ws: "oe_score winner = Some ws" "score (oe_route_id winner) = Some ws" "entry_score winner = ws"
    using q(1) score by (fastforce simp: entry_score_def)
  have names: "mset (map oe_route_id (rp_ranking r)) = mset (map oe_route_id entries)"
  proof -
    have "mset (map oe_route_id (rp_ranking r)) = image_mset oe_route_id (mset q + mset ?u)" by (simp add: rr(1) comp_def image_mset.compositionality)
    also have "mset q + mset ?u = mset entries" by (simp add: q(2) multiset_partition [symmetric] union_commute)
    finally show ?thesis by simp
  qed
  have sorted: "sorted (map entry_score (map (ranked q) q))"
    using sorted_by_score [OF lc, of entries, folded q_def] by (simp add: comp_def)
  have no: "filter (\<lambda>e. oe_disqualified e \<noteq> None) (rp_ranking r) = ?u"
  proof -
    have "filter (\<lambda>e. oe_disqualified e \<noteq> None) (map (ranked q) q) = []"
      using q(1) proper by (auto simp: filter_empty_conv proper_entry_def)
    moreover have "filter (\<lambda>e. oe_disqualified e \<noteq> None) ?u = ?u"
      by (rule filter_True) (use proper in \<open>auto simp: proper_entry_def\<close>)
    ultimately show ?thesis by (simp add: rr(1))
  qed
  show ?thesis
    unfolding ranks_by_def
  proof (intro exI conjI)
    show "rp_ranking r = ranked q winner # map (ranked q) others @ ?u" using rr(1) w by simp
    show "map oe_rank (ranked q winner # map (ranked q) others) = map Some [1..<Suc (Suc (length (map (ranked q) others)))]"
      using ranks w by (simp del: upt_Suc)
    show "sorted (map entry_score (ranked q winner # map (ranked q) others))" using sorted w by simp
    show "\<forall>e\<in>set (rp_ranking r). oe_score e = score (oe_route_id e)" using score q(1) by (auto simp: rr(1))
    show "\<forall>e\<in>set (ranked q winner # map (ranked q) others). oe_score e \<noteq> None \<and> oe_disqualified e = None"
      using q(1) w proper by (auto simp: proper_entry_def)
    show "\<forall>e\<in>set ?u. oe_rank e = None \<and> oe_score e = None" using proper by (auto simp: proper_entry_def)
    show "map fst (rp_disqualified r) = map oe_route_id ?u" unfolding rr(5) disqualified_routes no ..
    show "rp_tied_with r = map oe_route_id (filter (\<lambda>e. oe_score e = Some (rp_winner_score r)) (map (ranked q) others))"
      using rr(3,4) ws by (simp add: filter_map comp_def)
  qed (use rr ws names in simp_all)
qed

section \<open>Reports by cost\<close>

definition cost_score :: "(rat \<Rightarrow> rat) \<Rightarrow> reference_tokens \<Rightarrow> route_read_model list \<Rightarrow> string \<Rightarrow> rat option" where
  "cost_score fl t routes n =
     Option.bind (find (\<lambda>r. rm_name r = n) routes) (\<lambda>r. map_option (\<lambda>c. estimateCost fl c t) (rm_effective_cost r))"

lemma find_by_name: "distinct (map rm_name routes) \<Longrightarrow> r \<in> set routes \<Longrightarrow> find (\<lambda>x. rm_name x = rm_name r) routes = Some r"
  by (induction routes) auto

lemma cost_entry_fields [simp]:
  "oe_route_id (cost_entry fl t r) = rm_name r" "oe_score (cost_entry fl t r) = map_option (\<lambda>c. estimateCost fl c t) (rm_effective_cost r)"
  "proper_entry (cost_entry fl t r)"
  by (simp_all add: cost_entry_def entry_of_def proper_entry_def Let_def split: option.split)

lemma cost_ranking:
  assumes "collation lc" "distinct (map rm_name routes)" "buildCostOptimizeReport fl lc modelId requestedRoutes routes t = Inr r"
  shows "ranks_by (cost_score fl t routes) (map rm_name routes) r"
proof -
  have names: "map oe_route_id (map (cost_entry fl t) routes) = map rm_name routes" by simp
  have "\<forall>e\<in>set (map (cost_entry fl t) routes). oe_score e = cost_score fl t routes (oe_route_id e)"
    using assms(2) by (auto simp: cost_score_def find_by_name)
  from report_on_ranks [OF assms(1) _ _ this assms(3) [unfolded buildCostOptimizeReport_def], unfolded names] assms(2)
  show ?thesis by simp
qed

text \<open>
  C31 (cost_report_ranks). The report by cost ranks every candidate by its estimated cost: those with a cost come first, in order,
  the winner is one of the cheapest and its ties are exactly the others at the same cost; those without
  cost metadata are listed as disqualified.
\<close>
theorem cost_report_ranks:
  assumes "collation lc" "distinct (map rm_name routes)" "buildCostOptimizeReport fl lc modelId requestedRoutes routes t = Inr r"
  shows "ranks_by (cost_score fl t routes) (map rm_name routes) r"
  by (rule cost_ranking [OF assms])

section \<open>Reports by latency\<close>

lemma bucket_get: "jm_get (add_to_bucket k v m) k' =
    (if k' = k then Some ((case jm_get m k of None \<Rightarrow> [] | Some b \<Rightarrow> b) @ [v]) else jm_get m k')"
  by (simp add: add_to_bucket_def jm_get_set)

lemma samples_loop:
  "(case jm_get (foldl (\<lambda>m s. case sp_route_id s of None \<Rightarrow> m | Some r \<Rightarrow> add_to_bucket r s m) m samples) k of None \<Rightarrow> [] | Some b \<Rightarrow> b) =
   (case jm_get m k of None \<Rightarrow> [] | Some b \<Rightarrow> b) @ filter (\<lambda>s. sp_route_id s = Some k) samples"
  by (induction samples arbitrary: m) (auto simp: bucket_get split: option.splits)

lemma route_samples:
  "(case jm_get (samples_by_route samples) k of None \<Rightarrow> [] | Some b \<Rightarrow> b) = filter (\<lambda>s. sp_route_id s = Some k) samples"
  using samples_loop [of "[]"] by (simp add: samples_by_route_def)

definition latency_score :: "(rat \<Rightarrow> rat) \<Rightarrow> benchmark_sample list \<Rightarrow> string \<Rightarrow> rat option" where
  "latency_score fl samples n = median fl (latency_values (filter (\<lambda>s. sp_route_id s = Some n) samples))"

lemma latency_entry_fields [simp]:
  "oe_route_id (latency_entry fl lc parseJson (samples_by_route samples) r) = rm_name r"
  "oe_score (latency_entry fl lc parseJson (samples_by_route samples) r) = latency_score fl samples (rm_name r)"
  "proper_entry (latency_entry fl lc parseJson (samples_by_route samples) r)"
  by (simp_all add: latency_entry_def entry_of_def proper_entry_def route_samples latencyStats_def latency_score_def Let_def)

text \<open>
  Property (latency_report_ranks). The report by latency ranks every candidate in the same way by the median of its successful
  samples that are no warm-up; those without such a sample are disqualified.
\<close>
theorem latency_report_ranks:
  assumes "collation lc" "distinct (map rm_name routes)"
    and "buildLatencyOptimizeReport fl lc parseJson modelId requestedRoutes routes bench samples = Inr r"
  shows "ranks_by (latency_score fl samples) (map rm_name routes) r"
proof -
  let ?es = "map (latency_entry fl lc parseJson (samples_by_route samples)) routes"
  have names: "map oe_route_id ?es = map rm_name routes" by simp
  have "\<forall>e\<in>set ?es. oe_score e = latency_score fl samples (oe_route_id e)" by simp
  from report_on_ranks [OF assms(1) _ _ this assms(3) [unfolded buildLatencyOptimizeReport_def], unfolded names] assms(2)
  show ?thesis by simp
qed

text \<open>What the rounding of doubles does, short of an overflow: it is monotone, and the double of a double is one.\<close>

definition rounding :: "(rat \<Rightarrow> rat) \<Rightarrow> bool" where
  "rounding fl \<longleftrightarrow> (\<forall>x y. x \<le> y \<longrightarrow> fl x \<le> fl y) \<and> (\<forall>x. fl x = x \<longrightarrow> fl (2 * x) = 2 * x)"

lemma rounded_mean:
  assumes "rounding fl" "fl lo = lo" "fl hi = hi" "lo \<le> hi"
  shows "lo \<le> fl (fl (lo + hi) / 2)" "fl (fl (lo + hi) / 2) \<le> hi"
proof -
  have twice: "fl (2 * lo) = 2 * lo" "fl (2 * hi) = 2 * hi" and mono: "\<And>x y. x \<le> y \<Longrightarrow> fl x \<le> fl y"
    using assms(1-3) by (simp_all add: rounding_def)
  have "2 * lo \<le> fl (lo + hi)" "fl (lo + hi) \<le> 2 * hi"
    using mono [of "2 * lo" "lo + hi"] mono [of "lo + hi" "2 * hi"] twice assms(4) by simp_all
  then show "lo \<le> fl (fl (lo + hi) / 2)" "fl (fl (lo + hi) / 2) \<le> hi"
    using mono [of lo "fl (lo + hi) / 2"] mono [of "fl (lo + hi) / 2" hi] assms(2,3) by simp_all
qed

lemma count_le: "sorted s \<Longrightarrow> k < length s \<Longrightarrow> s ! k \<le> m \<Longrightarrow> Suc k \<le> length (filter (\<lambda>v. v \<le> m) s)"
proof -
  assume s: "sorted s" "k < length s" "s ! k \<le> m"
  have "v \<le> m" if v: "v \<in> set (take (Suc k) s)" for v
  proof -
    from v obtain i where "i \<le> k" "v = s ! i" unfolding in_set_conv_nth by (auto simp: less_Suc_eq_le)
    with s sorted_nth_mono [OF s(1), of i k] show ?thesis by simp
  qed
  then have "filter (\<lambda>v. v \<le> m) (take (Suc k) s) = take (Suc k) s" by (intro filter_True) blast
  moreover have "filter (\<lambda>v. v \<le> m) s = filter (\<lambda>v. v \<le> m) (take (Suc k) s) @ filter (\<lambda>v. v \<le> m) (drop (Suc k) s)"
    by (simp flip: filter_append)
  ultimately show ?thesis using s(2) by (metis Suc_leI le_add1 length_append length_take min.absorb2)
qed

lemma count_ge: "sorted s \<Longrightarrow> k < length s \<Longrightarrow> m \<le> s ! k \<Longrightarrow> length s - k \<le> length (filter (\<lambda>v. m \<le> v) s)"
proof -
  assume s: "sorted s" "k < length s" "m \<le> s ! k"
  have "m \<le> v" if v: "v \<in> set (drop k s)" for v
  proof -
    from v obtain i where "i < length (drop k s)" "v = drop k s ! i" unfolding in_set_conv_nth by blast
    with s(2,3) sorted_nth_mono [OF s(1), of k "k + i"] show ?thesis by (simp add: less_diff_conv add.commute)
  qed
  then have "filter (\<lambda>v. m \<le> v) (drop k s) = drop k s" by (intro filter_True) blast
  moreover have "filter (\<lambda>v. m \<le> v) s = filter (\<lambda>v. m \<le> v) (take k s) @ filter (\<lambda>v. m \<le> v) (drop k s)"
    by (simp flip: filter_append)
  ultimately show ?thesis by (metis le_add2 length_append length_drop)
qed


section \<open>Examples\<close>

text \<open>The order of the code units is a collation.\<close>

definition code_units :: "string \<Rightarrow> nat list" where
  "code_units s = map of_char s"

definition code_unit_order :: "string \<Rightarrow> string \<Rightarrow> int" where
  "code_unit_order s t = (if s = t then 0 else if lexordp_eq (code_units s) (code_units t) then - 1 else 1)"

lemma code_unit_order_le: "code_unit_order s t \<le> 0 \<longleftrightarrow> lexordp_eq (code_units s) (code_units t)"
  by (simp add: code_unit_order_def lexordp_eq_refl)

lemma collation_code_units: "collation code_unit_order"
  unfolding collation_def code_unit_order_le using lexordp_eq_linear lexordp_eq_trans by blast

definition example_candidate :: "string \<Rightarrow> rat option \<Rightarrow> route_read_model" where
  "example_candidate n price =
     (let cost = map_option (\<lambda>c. \<lparr>co_input = c, co_output = c, co_cacheRead = 0, co_cacheWrite = 0\<rparr>) price
      in \<lparr>rm_name = n, rm_model = ''m'', rm_service_provider = ''p'', rm_provider_model_id = ''i'', rm_display_name = [],
          rm_api_mode = openai_completions, rm_cost = cost, rm_model_cost = None, rm_effective_cost = cost, rm_timeout_ms = None,
          rm_effective_timeout_ms = 1000\<rparr>)"

definition example_candidates :: "route_read_model list" where
  "example_candidates = [example_candidate ''a'' None, example_candidate ''b'' (Some 2), example_candidate ''c'' (Some 1)]"

definition example_report :: optimize_report where
  "example_report =
     (case buildCostOptimizeReport (\<lambda>x. x) code_unit_order ''m'' None example_candidates DEFAULT_OPTIMIZE_REFERENCE_TOKENS of Inr r \<Rightarrow> r)"

lemma example_ranking: "buildCostOptimizeReport (\<lambda>x. x) code_unit_order ''m'' None example_candidates DEFAULT_OPTIMIZE_REFERENCE_TOKENS = Inr example_report"
  unfolding example_report_def
  by (simp add: buildCostOptimizeReport_def report_on_def example_candidates_def example_candidate_def qualified_entries_def
      cost_entry_def entry_of_def js_sort_def Let_def split: list.split)

theorem cost_report_ranks_witness:
  "ranks_by (cost_score (\<lambda>x. x) DEFAULT_OPTIMIZE_REFERENCE_TOKENS example_candidates) [''a'', ''b'', ''c''] example_report \<and>
   rp_winner_route example_report = ''c''"
proof -
  have "rp_winner_route example_report = ''c''" by code_simp
  moreover have "map rm_name example_candidates = [''a'', ''b'', ''c'']" by (simp add: example_candidates_def example_candidate_def Let_def)
  ultimately show ?thesis using cost_report_ranks [OF collation_code_units _ example_ranking] by simp
qed

theorem latency_report_ranks_witness:
  "\<exists>r. buildLatencyOptimizeReport (\<lambda>x. x) code_unit_order (\<lambda>_. None) ''m'' None example_candidates
       \<lparr>bn_run_id = ''b'', bn_summary = JNull, bn_execution = JNull, bn_warnings = []\<rparr>
       [\<lparr>sp_route_id = Some ''b'', sp_is_warmup = 0, sp_outcome = ''succeeded'', sp_latency_ms = Some 7, sp_score_json = None\<rparr>] = Inr r \<and>
     ranks_by (latency_score (\<lambda>x. x)
       [\<lparr>sp_route_id = Some ''b'', sp_is_warmup = 0, sp_outcome = ''succeeded'', sp_latency_ms = Some 7, sp_score_json = None\<rparr>]) [''a'', ''b'', ''c''] r"
proof -
  let ?r = "buildLatencyOptimizeReport (\<lambda>x. x) code_unit_order (\<lambda>_. None) ''m'' None example_candidates
       \<lparr>bn_run_id = ''b'', bn_summary = JNull, bn_execution = JNull, bn_warnings = []\<rparr>
       [\<lparr>sp_route_id = Some ''b'', sp_is_warmup = 0, sp_outcome = ''succeeded'', sp_latency_ms = Some 7, sp_score_json = None\<rparr>]"
  have "is_ok ?r" by code_simp
  then obtain r where r: "?r = Inr r" by (cases ?r) simp_all
  moreover have "map rm_name example_candidates = [''a'', ''b'', ''c'']" by (simp add: example_candidates_def example_candidate_def Let_def)
  ultimately show ?thesis using latency_report_ranks [OF collation_code_units _ r] by simp
qed


end
