(* ===== verification/Optimize_Runs.thy ===== *)
theory Optimize_Runs
  imports Optimize_Report Control_Actions
begin

text \<open>
  Runs of the optimiser in the store: \<^verbatim>\<open>observability/ostrich/optimization/optimizations.ts\<close>, \<^verbatim>\<open>json-parse.ts\<close> and the
  part of \<^verbatim>\<open>optimize-report-builder.ts\<close> that stores a report and reads it back. A report goes into the store as
  text and comes back as a value of JSON of unknown shape. Time stamps, random identifiers and JSON are those
  of \<open>audit_runtime\<close>.

  Main result: a report that was stored is read back unchanged, and its winner is found in its ranking.
\<close>

section \<open>Reports as JSON\<close>

definition cost_json :: "cost_config \<Rightarrow> json" where
  "cost_json c =
     JObj [(''input'', JNum (co_input c)), (''output'', JNum (co_output c)), (''cacheRead'', JNum (co_cacheRead c)),
           (''cacheWrite'', JNum (co_cacheWrite c))]"

definition tokens_json :: "reference_tokens \<Rightarrow> json" where
  "tokens_json t =
     JObj [(''input_tokens'', JNum (rt_input_tokens t)), (''output_tokens'', JNum (rt_output_tokens t)),
           (''cache_read_tokens'', JNum (rt_cache_read_tokens t)), (''cache_write_tokens'', JNum (rt_cache_write_tokens t))]"

definition text_list :: "string list \<Rightarrow> json" where
  "text_list ss = JArr (map JStr ss)"

definition latency_fields :: "latency_stats \<Rightarrow> (string \<times> json) list" where
  "latency_fields s =
     [(''median_latency_ms'', nullable JNum (lt_median s)), (''average_latency_ms'', nullable JNum (lt_average s)),
      (''min_latency_ms'', nullable JNum (lt_min s)), (''max_latency_ms'', nullable JNum (lt_max s))]"

definition path_summary_json :: "string \<times> latency_stats \<Rightarrow> json" where
  "path_summary_json x =
     (case x of (path, s) \<Rightarrow>
        JObj ([(''path'', JStr path), (''measured_sample_count'', JNum (of_nat (lt_measured s))),
               (''successful_sample_count'', JNum (of_nat (lt_successful s))), (''failed_sample_count'', JNum (of_nat (lt_failed s)))]
              @ latency_fields s))"

fun details_json :: "ranking_details \<Rightarrow> json" where
  "details_json (CostDetails t effectiveCost costSource estimatedCost) =
     JObj [(''reference_tokens'', tokens_json t), (''effective_cost'', nullable cost_json effectiveCost), (''cost_source'', JStr costSource),
           (''estimated_cost'', nullable JNum estimatedCost)]"
| "details_json (LatencyDetails s byPath) =
     JObj ([(''measured_sample_count'', JNum (of_nat (lt_measured s))),
            (''successful_measured_sample_count'', JNum (of_nat (lt_successful s))),
            (''failed_measured_sample_count'', JNum (of_nat (lt_failed s)))]
           @ latency_fields s @ [(''by_path'', JArr (map path_summary_json byPath))])"

definition entry_json :: "ranking_entry \<Rightarrow> json" where
  "entry_json e =
     JObj [(''rank'', nullable (\<lambda>n. JNum (of_nat n)) (oe_rank e)), (''objective'', JStr (oe_objective e)), (''route_id'', JStr (oe_route_id e)),
           (''display_name'', nullable_text (oe_display_name e)), (''model'', JStr (oe_model e)),
           (''service_provider'', JStr (oe_service_provider e)), (''provider_model_id'', JStr (oe_provider_model_id e)),
           (''score'', nullable JNum (oe_score e)), (''score_unit'', JStr (oe_score_unit e)), (''details'', details_json (oe_details e)),
           (''disqualified'', nullable (\<lambda>(reason, message). JObj [(''reason'', JStr reason), (''message'', JStr message)]) (oe_disqualified e))]"

definition warning_json :: "optimize_warning \<Rightarrow> json" where
  "warning_json w =
     JObj ([(''code'', JStr (ow_code w)), (''message'', JStr (ow_message w))]
           @ (case ow_details w of None \<Rightarrow> [] | Some d \<Rightarrow> [(''details'', JObj d)]))"

definition bench_json :: "benchmark_result \<Rightarrow> json" where
  "bench_json b = JObj [(''run_id'', JStr (bn_run_id b)), (''summary'', bn_summary b), (''execution'', bn_execution b)]"

definition run_json :: "optimize_report \<Rightarrow> json" where
  "run_json r =
     JObj [(''run_id'', nullable_text (rp_run_id r)), (''persisted'', JBool (rp_persisted r)), (''created_at'', nullable_text (rp_created_at r)),
           (''finished_at'', nullable_text (rp_finished_at r)), (''created_by'', nullable_text (rp_created_by r)),
           (''status'', JStr (rp_status r)), (''target_model'', JStr (rp_target_model r)), (''objective'', JStr (rp_objective r))]"

definition candidates_json :: "optimize_report \<Rightarrow> json" where
  "candidates_json r =
     JObj [(''requested_routes'', nullable text_list (rp_requested_routes r)), (''resolved_routes'', text_list (rp_resolved_routes r)),
           (''disqualified'', JArr (map (\<lambda>(route, reason, message).
              JObj [(''route_id'', JStr route), (''reason'', JStr reason), (''message'', JStr message)]) (rp_disqualified r)))]"

definition winner_json :: "optimize_report \<Rightarrow> json" where
  "winner_json r =
     JObj [(''route_id'', JStr (rp_winner_route r)), (''score'', JNum (rp_winner_score r)), (''score_unit'', JStr (rp_score_unit r)),
           (''tied_with'', text_list (rp_tied_with r))]"

definition report_json :: "optimize_report \<Rightarrow> json" where
  "report_json r =
     JObj ([(''run'', run_json r), (''candidates'', candidates_json r), (''reference_tokens'', tokens_json (rp_reference_tokens r)),
            (''bench'', nullable bench_json (rp_bench r)), (''ranking'', JArr (map entry_json (rp_ranking r))), (''winner'', winner_json r),
            (''warnings'', JArr (map warning_json (rp_warnings r)))]
           @ (case rp_store_path r of None \<Rightarrow> [] | Some p \<Rightarrow> [(''store_path'', JStr p)]))"

definition buildOptimizeCandidateSnapshot :: "route_read_model list \<Rightarrow> json" where
  "buildOptimizeCandidateSnapshot routes =
     JArr (map (\<lambda>r. JObj [(''route_id'', JStr (rm_name r)), (''display_name'', nullable_text (shown_name r)), (''model'', JStr (rm_model r)),
              (''service_provider'', JStr (rm_service_provider r)), (''provider_model_id'', JStr (rm_provider_model_id r)),
              (''api_mode'', JStr (api_mode_name (rm_api_mode r))), (''effective_timeout_ms'', JNum (rm_effective_timeout_ms r)),
              (''effective_cost'', nullable cost_json (rm_effective_cost r))]) routes)"

section \<open>Tables\<close>

text \<open>A table with the outcomes of its next statements: the message of a failure, or none.\<close>

record 'r table =
  tb_rows :: "'r list"
  tb_outcomes :: "string option list"

definition sql_write :: "('r list \<Rightarrow> string + 'r list) \<Rightarrow> 'r table \<Rightarrow> (string + unit) \<times> 'r table" where
  "sql_write f db =
     (let rest = db\<lparr>tb_outcomes := tl (tb_outcomes db)\<rparr>
      in case tb_outcomes db of
           Some message # _ \<Rightarrow> (Inl message, rest)
         | _ \<Rightarrow> (case f (tb_rows db) of Inl message \<Rightarrow> (Inl message, rest) | Inr rows \<Rightarrow> (Inr (), rest\<lparr>tb_rows := rows\<rparr>)))"

definition insert_row :: "('r \<Rightarrow> string) \<Rightarrow> string \<Rightarrow> 'r \<Rightarrow> 'r list \<Rightarrow> string + 'r list" where
  "insert_row key column r rows =
     (if key r \<in> key ` set rows then Inl (''UNIQUE constraint failed: '' @ column) else Inr (rows @ [r]))"

lemma sql_write_ok:
  "sql_write (insert_row key column r) db = (Inr (), db') \<longleftrightarrow>
     (tb_outcomes db = [] \<or> hd (tb_outcomes db) = None) \<and> key r \<notin> key ` set (tb_rows db) \<and>
     db' = db\<lparr>tb_rows := tb_rows db @ [r], tb_outcomes := tl (tb_outcomes db)\<rparr>"
  by (auto simp: sql_write_def insert_row_def Let_def split: list.splits option.splits)

section \<open>Runs\<close>

record optimization_run =
  ot_id :: string
  ot_created_at :: string
  ot_finished_at :: "string option"
  ot_created_by :: string
  ot_target_model :: string
  ot_objective :: string
  ot_status :: string
  ot_winner_route :: "string option"
  ot_benchmark_run_id :: "string option"
  ot_settings_json :: string
  ot_candidate_snapshot_json :: string
  ot_result_json :: string
  ot_warnings_json :: string

definition run_text :: "string \<Rightarrow> string \<Rightarrow> string + unit" where
  "run_text v fieldName = rensure (non_blank v) (''Optimization field '' @ quoted fieldName @ '' must be a non-empty string.'')"

definition run_text_or_null :: "string option \<Rightarrow> string \<Rightarrow> string + unit" where
  "run_text_or_null v fieldName = (case v of None \<Rightarrow> Inr () | Some s \<Rightarrow> run_text s fieldName)"

definition validateOptimizationRun :: "optimization_run \<Rightarrow> string + unit" where
  "validateOptimizationRun r =
     rbind (run_text (ot_id r) ''id'') (\<lambda>_.
     rbind (assertIsoTimestampString (ot_created_at r) ''created_at'' ''Optimization'') (\<lambda>_.
     rbind (assertNullableIsoTimestampString (ot_finished_at r) ''finished_at'' ''Optimization'') (\<lambda>_.
     rbind (run_text (ot_created_by r) ''created_by'') (\<lambda>_.
     rbind (run_text (ot_target_model r) ''target_model'') (\<lambda>_.
     rbind (run_text (ot_objective r) ''objective'') (\<lambda>_.
     rbind (run_text (ot_status r) ''status'') (\<lambda>_.
     rbind (run_text_or_null (ot_winner_route r) ''winner_route'') (\<lambda>_.
     rbind (run_text_or_null (ot_benchmark_run_id r) ''benchmark_run_id'') (\<lambda>_.
     rbind (run_text (ot_settings_json r) ''settings_json'') (\<lambda>_.
     rbind (run_text (ot_candidate_snapshot_json r) ''candidate_snapshot_json'') (\<lambda>_.
     rbind (run_text (ot_result_json r) ''result_json'') (\<lambda>_.
     run_text (ot_warnings_json r) ''warnings_json''))))))))))))"

definition createRun :: "optimization_run \<Rightarrow> optimization_run table \<Rightarrow> (string + unit) \<times> optimization_run table" where
  "createRun r db =
     (case validateOptimizationRun r of
        Inl e \<Rightarrow> (Inl e, db)
      | Inr _ \<Rightarrow> sql_write (insert_row ot_id ''optimization_runs.id'' r) db)"

definition getRun :: "string \<Rightarrow> optimization_run table \<Rightarrow> string + optimization_run option" where
  "getRun runId db = rbind (run_text runId ''runId'') (\<lambda>_. Inr (find (\<lambda>r. ot_id r = runId) (tb_rows db)))"

subsection \<open>Reading stored JSON\<close>

record stored_warning =
  sw_code :: string
  sw_field :: string
  sw_message :: string

definition parseJsonTextWithWarning :: "(string \<Rightarrow> json option) \<Rightarrow> string \<Rightarrow> string \<Rightarrow> json \<times> stored_warning list" where
  "parseJsonTextWithWarning parseJson v field =
     (if \<not> non_blank v then (JNull, [])
      else case parseJsonWithinBounds parseJson hard_json_bounds v of
             Inr j \<Rightarrow> (j, [])
           | Inl _ \<Rightarrow> (JNull, [\<lparr>sw_code = ''invalid_stored_json'', sw_field = field,
                                sw_message = ''Stored field '' @ quoted field @ '' contained invalid JSON and was ignored.''\<rparr>]))"

record run_view =
  vw_run :: optimization_run                     \<comment> \<open>the columns that are no JSON\<close>
  vw_settings :: json
  vw_candidate_snapshot :: json
  vw_result :: json
  vw_warnings :: json
  vw_parse_warnings :: "stored_warning list"

definition toOptimizationRunView :: "(string \<Rightarrow> json option) \<Rightarrow> optimization_run \<Rightarrow> run_view" where
  "toOptimizationRunView parseJson r =
     (let settings = parseJsonTextWithWarning parseJson (ot_settings_json r) ''optimization_runs.settings_json'';
          candidateSnapshot = parseJsonTextWithWarning parseJson (ot_candidate_snapshot_json r) ''optimization_runs.candidate_snapshot_json'';
          result' = parseJsonTextWithWarning parseJson (ot_result_json r) ''optimization_runs.result_json'';
          warnings = parseJsonTextWithWarning parseJson (ot_warnings_json r) ''optimization_runs.warnings_json''
      in \<lparr>vw_run = r, vw_settings = fst settings, vw_candidate_snapshot = fst candidateSnapshot, vw_result = fst result',
          vw_warnings = fst warnings, vw_parse_warnings = snd settings @ snd candidateSnapshot @ snd result' @ snd warnings\<rparr>)"

text \<open>What \<open>{ ...v }\<close> copies of a value.\<close>

fun spread :: "json option \<Rightarrow> (string \<times> json) list" where
  "spread (Some (JObj fs)) = fs"
| "spread (Some (JArr vs)) = zip (map digits_of_nat [0..<length vs]) vs"
| "spread (Some (JStr s)) = zip (map digits_of_nat [0..<length s]) (map (\<lambda>c. JStr [c]) s)"
| "spread _ = []"

definition reportFromOptimizationRunView :: "run_view \<Rightarrow> string \<Rightarrow> string + json" where
  "reportFromOptimizationRunView view storePath =
     (let r = vw_run view; v = vw_result view
      in if \<not> isRecord (Some v) then Inl (''Optimization run '' @ quoted (ot_id r) @ '' has malformed result_json.'')
         else let run = overlay (spread (jprop v ''run''))
                    [(''run_id'', JStr (ot_id r)), (''persisted'', JBool True), (''created_at'', JStr (ot_created_at r)),
                     (''finished_at'', nullable_text (ot_finished_at r)), (''created_by'', JStr (ot_created_by r)), (''status'', JStr (ot_status r)),
                     (''target_model'', JStr (ot_target_model r)), (''objective'', JStr (ot_objective r))];
                  report = overlay (record_fields v) [(''store_path'', JStr storePath), (''run'', JObj run)]
              in Inr (JObj (case vw_warnings view of JArr ws \<Rightarrow> jm_set ''warnings'' (JArr ws) report | _ \<Rightarrow> report)))"

section \<open>Storing a report\<close>

definition attachPersistedOptimizeRunMetadata :: "optimize_report \<Rightarrow> string \<Rightarrow> string \<Rightarrow> string \<Rightarrow> string \<Rightarrow> string \<Rightarrow> optimize_report" where
  "attachPersistedOptimizeRunMetadata r runId createdAt finishedAt createdBy storePath =
     r\<lparr>rp_store_path := Some storePath, rp_run_id := Some runId, rp_persisted := True, rp_created_at := Some createdAt,
       rp_finished_at := Some finishedAt, rp_created_by := Some createdBy\<rparr>"

definition buildOptimizationRunRecord ::
  "(json \<Rightarrow> string) \<Rightarrow> optimize_report \<Rightarrow> json \<Rightarrow> string option \<Rightarrow> json \<Rightarrow> string \<Rightarrow> string \<Rightarrow> string \<Rightarrow> string \<Rightarrow> optimization_run" where
  "buildOptimizationRunRecord stringify r candidateSnapshot benchmarkRunId settings runId createdAt finishedAt createdBy =
     \<lparr>ot_id = runId, ot_created_at = createdAt, ot_finished_at = Some finishedAt, ot_created_by = createdBy, ot_target_model = rp_target_model r,
      ot_objective = rp_objective r, ot_status = rp_status r, ot_winner_route = Some (rp_winner_route r), ot_benchmark_run_id = benchmarkRunId,
      ot_settings_json = stringify settings, ot_candidate_snapshot_json = stringify candidateSnapshot, ot_result_json = stringify (report_json r),
      ot_warnings_json = stringify (JArr (map warning_json (rp_warnings r)))\<rparr>"

text \<open>Both functions for storing differ in the settings and the benchmark; \<open>runId\<close> and \<open>now\<close> may be given.\<close>

definition persist_report ::
  "audit_runtime \<Rightarrow> nat \<Rightarrow> string option \<Rightarrow> string option \<Rightarrow> string \<Rightarrow> string \<Rightarrow> string option \<Rightarrow> json \<Rightarrow> route_read_model list \<Rightarrow> optimize_report \<Rightarrow>
   optimization_run table \<Rightarrow> (string + optimize_report) \<times> optimization_run table" where
  "persist_report rt n given_id given_now createdBy storePath benchmarkRunId settings candidateRoutes r db =
     (let runId = or_value given_id (ar_uuid rt n); createdAt = or_value given_now (ar_now rt n); finishedAt = createdAt;
          persistedReport = attachPersistedOptimizeRunMetadata r runId createdAt finishedAt createdBy storePath
      in case createRun (buildOptimizationRunRecord (ar_stringify rt) persistedReport (buildOptimizeCandidateSnapshot candidateRoutes)
                benchmarkRunId settings runId createdAt finishedAt createdBy) db of
           (Inl e, db) \<Rightarrow> (Inl e, db)
         | (Inr _, db) \<Rightarrow> (Inr persistedReport, db))"

definition persistCostOptimizeReport ::
  "audit_runtime \<Rightarrow> nat \<Rightarrow> string option \<Rightarrow> string option \<Rightarrow> string \<Rightarrow> string \<Rightarrow> string list option \<Rightarrow> reference_tokens \<Rightarrow> route_read_model list \<Rightarrow>
   optimize_report \<Rightarrow> optimization_run table \<Rightarrow> (string + optimize_report) \<times> optimization_run table" where
  "persistCostOptimizeReport rt n given_id given_now createdBy storePath requestedRoutes t =
     persist_report rt n given_id given_now createdBy storePath None
       (JObj [(''requested_routes'', nullable text_list requestedRoutes), (''reference_tokens'', tokens_json t)])"

definition persistLatencyOptimizeReport ::
  "audit_runtime \<Rightarrow> nat \<Rightarrow> string option \<Rightarrow> string option \<Rightarrow> string \<Rightarrow> string \<Rightarrow> string list option \<Rightarrow> string \<Rightarrow> (string \<times> json) list \<Rightarrow>
   route_read_model list \<Rightarrow> optimize_report \<Rightarrow> optimization_run table \<Rightarrow> (string + optimize_report) \<times> optimization_run table" where
  "persistLatencyOptimizeReport rt n given_id given_now createdBy storePath requestedRoutes benchmarkRunId settings =
     persist_report rt n given_id given_now createdBy storePath (Some benchmarkRunId)
       (JObj (overlay [(''requested_routes'', nullable text_list requestedRoutes)] settings))"

text \<open>A failure of the optimiser is a value of the result, an error of the store an exception.\<close>

definition runCostOptimizeAndPersist ::
  "audit_runtime \<Rightarrow> nat \<Rightarrow> (rat \<Rightarrow> rat) \<Rightarrow> (string \<Rightarrow> string \<Rightarrow> int) \<Rightarrow> cli_read_model \<Rightarrow> string \<Rightarrow> string list option \<Rightarrow> reference_tokens \<Rightarrow>
   string \<Rightarrow> string \<Rightarrow> string option \<Rightarrow> string option \<Rightarrow> optimization_run table \<Rightarrow>
   (string + optimize_failure + optimize_report) \<times> optimization_run table" where
  "runCostOptimizeAndPersist rt n fl lc readModel modelId requestedRoutes t storePath createdBy given_id given_now db =
     (case buildCostOptimizeExecution fl lc readModel modelId requestedRoutes t of
        Inl failure \<Rightarrow> (Inr (Inl failure), db)
      | Inr (r, routes) \<Rightarrow>
          (case persistCostOptimizeReport rt n given_id given_now createdBy storePath requestedRoutes t routes r db of
             (Inl e, db) \<Rightarrow> (Inl e, db)
           | (Inr persisted, db) \<Rightarrow> (Inr (Inr persisted), db)))"

section \<open>The winner of a stored report\<close>

text \<open>Reading a property of \<open>undefined\<close> or \<open>null\<close> throws; \<open>te\<close> is the text of the error.\<close>

definition member :: "(string \<Rightarrow> string) \<Rightarrow> json option \<Rightarrow> string \<Rightarrow> string + json option" where
  "member te v k = (case v of None \<Rightarrow> Inl (te k) | Some JNull \<Rightarrow> Inl (te k) | Some j \<Rightarrow> Inr (jprop j k))"

text \<open>\<open>===\<close> of values that were parsed: two objects are never the same.\<close>

fun same_value :: "json option \<Rightarrow> json option \<Rightarrow> bool" where
  "same_value (Some (JObj _)) _ = False"
| "same_value (Some (JArr _)) _ = False"
| "same_value a b = (a = b)"

fun find_qualified :: "(string \<Rightarrow> string) \<Rightarrow> json option \<Rightarrow> json list \<Rightarrow> string + json option" where
  "find_qualified te winner [] = Inr None"
| "find_qualified te winner (e # es) =
     rbind (member te (Some e) ''route_id'') (\<lambda>routeId.
     if same_value routeId winner \<and> jprop e ''disqualified'' = Some JNull then Inr (Some e) else find_qualified te winner es)"

definition findOptimizeWinnerEntry :: "(string \<Rightarrow> string) \<Rightarrow> json \<Rightarrow> string + json option" where
  "findOptimizeWinnerEntry te report =
     (case jprop report ''ranking'' of
        Some (JArr []) \<Rightarrow> Inr None
      | Some (JArr entries) \<Rightarrow>
          rbind (member te (jprop report ''winner'') ''route_id'') (\<lambda>winner. find_qualified te winner entries)
      | _ \<Rightarrow> Inl (te ''find''))"

section \<open>Reading back\<close>

lemma jm_set_same: "map_of m k = Some v \<Longrightarrow> jm_set k v m = m"
  by (induction m) auto

lemma overlay_same: "\<forall>(k, v)\<in>set changes. map_of base k = Some v \<Longrightarrow> overlay base changes = base"
  unfolding overlay_def by (induction changes) (auto simp: jm_set_same)

lemma report_read_back:
  assumes "rp_store_path r = Some p" "rp_run_id r = Some i" "rp_persisted r" "rp_created_at r = Some c" "rp_created_by r = Some b"
    and "ot_id row = i" "ot_created_at row = c" "ot_finished_at row = rp_finished_at r" "ot_created_by row = b" "ot_status row = rp_status r"
    and "ot_target_model row = rp_target_model r" "ot_objective row = rp_objective r"
    and "vw_run view = row" "vw_result view = report_json r" "vw_warnings view = JArr (map warning_json (rp_warnings r))"
  shows "reportFromOptimizationRunView view p = Inr (report_json r)"
proof -
  let ?run = "[(''run_id'', JStr i), (''persisted'', JBool True), (''created_at'', JStr c), (''finished_at'', nullable_text (rp_finished_at r)),
      (''created_by'', JStr b), (''status'', JStr (rp_status r)), (''target_model'', JStr (rp_target_model r)), (''objective'', JStr (rp_objective r))]"
  have run: "jprop (report_json r) ''run'' = Some (JObj ?run)" "overlay ?run ?run = ?run"
    using assms(1-5) by (simp add: report_json_def run_json_def nullable_text_def) (rule overlay_same, simp)
  obtain fs where fs: "report_json r = JObj fs" by (simp add: report_json_def)
  have same: "overlay fs [(''store_path'', JStr p), (''run'', JObj ?run)] = fs"
    using fs run(1) assms(1) by (intro overlay_same) (auto simp: report_json_def)
  have warnings: "jm_set ''warnings'' (JArr (map warning_json (rp_warnings r))) fs = fs"
    using fs by (intro jm_set_same) (auto simp: report_json_def)
  have fields: "record_fields (JObj fs) = fs" "isRecord (Some (JObj fs))" by simp_all
  show ?thesis
    using assms(6-15) run fs same warnings fields by (simp add: reportFromOptimizationRunView_def Let_def)
qed

lemma find_qualified_found:
  assumes "e \<in> set es" "oe_route_id e = w" "oe_disqualified e = None"
  shows "\<exists>e'\<in>set es. oe_route_id e' = w \<and> oe_disqualified e' = None \<and> find_qualified te (Some (JStr w)) (map entry_json es) = Inr (Some (entry_json e'))"
  using assms
proof (induction es)
  case (Cons x es)
  have "member te (Some (entry_json x)) ''route_id'' = Inr (Some (JStr (oe_route_id x)))" by (simp add: member_def entry_json_def)
  moreover have "jprop (entry_json x) ''disqualified'' = Some JNull \<longleftrightarrow> oe_disqualified x = None"
    by (auto simp: entry_json_def nullable_def split: option.splits)
  ultimately show ?case using Cons by (cases "oe_route_id x = w \<and> oe_disqualified x = None") auto
qed simp

lemma find_last: "key r \<notin> key ` set rows \<Longrightarrow> find (\<lambda>x. key x = key r) (rows @ [r]) = Some r"
  by (induction rows) auto

lemma persisted_row:
  assumes "persist_report rt n given_id given_now createdBy storePath benchmarkRunId settings routes r db = (Inr persisted, db')"
  obtains i c row where "persisted = attachPersistedOptimizeRunMetadata r i c c createdBy storePath"
    "row = buildOptimizationRunRecord (ar_stringify rt) persisted (buildOptimizeCandidateSnapshot routes) benchmarkRunId settings i c c createdBy"
    "getRun i db' = Inr (Some row)" "non_blank (ot_result_json row)" "non_blank (ot_warnings_json row)"
proof -
  define i where "i = or_value given_id (ar_uuid rt n)"
  define c where "c = or_value given_now (ar_now rt n)"
  define p where "p = attachPersistedOptimizeRunMetadata r i c c createdBy storePath"
  define row where "row = buildOptimizationRunRecord (ar_stringify rt) p (buildOptimizeCandidateSnapshot routes) benchmarkRunId settings i c c createdBy"
  have run: "persisted = p" "createRun row db = (Inr (), db')"
    using assms by (auto simp: persist_report_def p_def row_def i_def c_def Let_def split: prod.splits sum.splits)
  then have valid: "validateOptimizationRun row = Inr ()" and w: "sql_write (insert_row ot_id ''optimization_runs.id'' row) db = (Inr (), db')"
    by (auto simp: createRun_def split: sum.splits)
  have texts: "non_blank (ot_id row)" "non_blank (ot_result_json row)" "non_blank (ot_warnings_json row)"
    using valid by (simp_all add: validateOptimizationRun_def rbind_Inr_iff run_text_def)
  have i: "ot_id row = i" by (simp add: row_def buildOptimizationRunRecord_def)
  have "find (\<lambda>x. ot_id x = ot_id row) (tb_rows db') = Some row" using w find_last [of ot_id row] by (simp add: sql_write_ok)
  with texts(1) have got: "getRun i db' = Inr (Some row)" by (simp add: getRun_def run_text_def i)
  show thesis
  proof (rule that)
    show "persisted = attachPersistedOptimizeRunMetadata r i c c createdBy storePath" unfolding run(1) p_def ..
    show "row = buildOptimizationRunRecord (ar_stringify rt) persisted (buildOptimizeCandidateSnapshot routes) benchmarkRunId settings i c c createdBy"
      unfolding run(1) row_def ..
  qed fact+
qed

lemma winner_found:
  assumes "ranks_by score names r"
  shows "\<exists>e\<in>set (rp_ranking r). oe_route_id e = rp_winner_route r \<and> oe_score e = Some (rp_winner_score r) \<and>
    findOptimizeWinnerEntry te (report_json r) = Inr (Some (entry_json e))"
proof -
  from assms obtain best rest unranked where w: "rp_ranking r = best # rest @ unranked" "rp_winner_route r = oe_route_id best"
    and ranked: "\<forall>e\<in>set (best # rest). oe_score e \<noteq> None \<and> oe_disqualified e = None"
    and score: "\<forall>e\<in>set (rp_ranking r). oe_score e = score (oe_route_id e)" "score (rp_winner_route r) = Some (rp_winner_score r)"
    unfolding ranks_by_def by (elim exE conjE) (rule that)
  then have best: "best \<in> set (rp_ranking r)" "oe_route_id best = rp_winner_route r" "oe_disqualified best = None" by simp_all
  obtain e where e: "e \<in> set (rp_ranking r)" "oe_route_id e = rp_winner_route r"
    "find_qualified te (Some (JStr (rp_winner_route r))) (map entry_json (rp_ranking r)) = Inr (Some (entry_json e))"
    using find_qualified_found [OF best] by blast
  have "jprop (report_json r) ''ranking'' = Some (JArr (map entry_json (rp_ranking r)))" by (simp add: report_json_def)
  moreover have "member te (jprop (report_json r) ''winner'') ''route_id'' = Inr (Some (JStr (rp_winner_route r)))"
    by (simp add: report_json_def winner_json_def member_def)
  ultimately have "findOptimizeWinnerEntry te (report_json r) = Inr (Some (entry_json e))"
    using e by (cases "rp_ranking r") (simp_all add: findOptimizeWinnerEntry_def)
  with e score show ?thesis by (intro bexI [of _ e]) simp_all
qed


section \<open>Examples\<close>

definition example_stored :: optimize_report where
  "example_stored = attachPersistedOptimizeRunMetadata example_report ''r'' ''2026-01-01T00:00:00Z'' ''2026-01-01T00:00:00Z'' ''op'' ''/s''"

definition example_runtime :: audit_runtime where
  "example_runtime =
     \<lparr>ar_stringify = json_stringify (\<lambda>_. ''1''),
      ar_parseJson = (\<lambda>text. if hd text = CHR ''['' then Some (JArr []) else Some (report_json example_stored)),
      ar_now = (\<lambda>_. ''2026-01-01T00:00:00Z''), ar_uuid = (\<lambda>_. ''r'')\<rparr>"

lemma byte_length_le: "byte_length s \<le> 2 * length s"
  by (induction s) (auto simp: byte_length_def)

lemma example_stored_fits: "is_ok (safeJsonStringifyWithinBounds (\<lambda>_. ''1'') hard_json_bounds (report_json example_stored))"
proof -
  have "node_count (report_json example_stored) < 200" "json_depth (report_json example_stored) < 20" by code_simp+
  then have "assertJsonValueWithinBounds hard_json_bounds (report_json example_stored) = Inr ()"
    by (simp add: json_within_bounds_iff hard_json_bounds_def)
  moreover have "length (json_stringify (\<lambda>_. ''1'') (report_json example_stored)) < 4000" by code_simp
  then have "\<not> byte_length (json_stringify (\<lambda>_. ''1'') (report_json example_stored)) > maxSerializedBytes hard_json_bounds"
    using byte_length_le [of "json_stringify (\<lambda>_. ''1'') (report_json example_stored)"] by (simp add: hard_json_bounds_def)
  ultimately show ?thesis by (simp only: safeJsonStringifyWithinBounds_def rbind.simps Let_def if_False is_ok_simps)
qed

lemma example_empty_fits: "is_ok (safeJsonStringifyWithinBounds (\<lambda>_. ''1'') hard_json_bounds (JArr []))"
proof -
  have "assertJsonValueWithinBounds hard_json_bounds (JArr []) = Inr ()"
    by (simp add: json_within_bounds_iff hard_json_bounds_def node_count.simps json_depth.simps max_list_def)
  then show ?thesis by (simp add: safeJsonStringifyWithinBounds_def hard_json_bounds_def byte_length_def code_unit_def)
qed


end
