(* ===== verification/Spec2Isabelle.thy ===== *)
theory Spec2Isabelle
  imports Data_Plane Proxy_Core Error_Details Config_Lock Config_Errors Gateway_Process Mcp_Config_Tools Optimize_Runs
begin

text \<open>
  A verification library for switchmaxxer, a local gateway between clients that speak the OpenAI or
  Anthropic chat APIs and the providers behind them, with its configuration files, its process and its
  MCP server. Paths below are relative to \<^verbatim>\<open>src/src/\<close>; \<^verbatim>\<open>runtime/\<close>, \<^verbatim>\<open>proxy/\<close> and
  \<^verbatim>\<open>translation/\<close> stand for the directories of that name in \<^verbatim>\<open>subsystems/hot-path/manatee/\<close>, and
  \<^verbatim>\<open>config/\<close>, \<^verbatim>\<open>gateway/\<close> and \<^verbatim>\<open>mcp/\<close> for those in \<^verbatim>\<open>subsystems/\<close>.

  \<^bold>\<open>The program's parts.\<close> A client's HTTP request enters \<^verbatim>\<open>runtime/runtime-request-handler.ts\<close>. The
  handler classifies the route, decides whether the caller is trusted, counts failed and admitted
  requests and serves health probes, the runtime configuration and captures of earlier requests.
  Requests for a model go to the data plane (\<^verbatim>\<open>data-plane-handler.ts\<close>, \<^verbatim>\<open>request-dispatch.ts\<close>), which
  takes a parse slot, reads and checks the body, takes a stream slot and calls the proxy. The proxy
  (\<^verbatim>\<open>proxy/\<close>) finds the route, patches or translates the body (\<^verbatim>\<open>translation/\<close>), builds the headers with
  the key of the provider, pins the address of the endpoint, sends the request once and buffers, relays
  or translates the response. The routes come from a snapshot that \<^verbatim>\<open>config/\<close> loads from a document and
  its model catalog, that the process in \<^verbatim>\<open>gateway/\<close> replaces on reload, and that operators and the MCP
  server change under a lock file. The MCP server reads JSON-RPC messages line by line, keeps a session
  with its granted capabilities and calls one tool per request.

  \<^bold>\<open>The theories: foundations.\<close>
  \<^item> \<open>Prelude\<close>: results and their bind, JavaScript strings and characters (code units below 256),
    ordered maps with the semantics of \<open>Map\<close> (locale \<open>finite_store\<close>, eviction by the locale
    \<open>victim_selection\<close>), JSON values and their printing, the collections of simplification rules.
  \<^item> \<open>Json_Bounds\<close>: \<^verbatim>\<open>platform/json-bounds.ts\<close>, \<^verbatim>\<open>object-key-policy.ts\<close>, \<^verbatim>\<open>type-guards.ts\<close>. The
    stack-based checks agree with recursive node count and depth; printing and parsing are inverse within
    the bounds; reserved keys are found at any depth.
  \<^item> \<open>Text_Parsing\<close>: \<^verbatim>\<open>platform/number-parsing.ts\<close>, \<^verbatim>\<open>retention-duration.ts\<close>, \<^verbatim>\<open>rate-limit-window.ts\<close>, with
    the rounding of \<open>Number(...)\<close> to a double written out. \<open>Net_Policy\<close>: \<^verbatim>\<open>platform/net-utils.ts\<close> and
    \<^verbatim>\<open>gateway-bind-policy.ts\<close>.
  \<^item> \<open>Regex\<close>, \<open>Log_Text\<close>, \<open>Logger\<close>: \<^verbatim>\<open>platform/logger.ts\<close>. A matcher for the regular expressions of the
    redaction rules (each rule an instance of the locale \<open>redaction\<close>), the text of a log record, levels,
    contexts and writers. \<open>Error_Details\<close>: sanitised details and envelopes of errors
    (\<^verbatim>\<open>error-detail-sanitizer.ts\<close>, \<^verbatim>\<open>masked-secret.ts\<close>, \<^verbatim>\<open>response-envelope.ts\<close>).

  \<^bold>\<open>The theories: the gateway.\<close>
  \<^item> \<open>Rate_Limits\<close>: \<^verbatim>\<open>runtime/rate-limit.ts\<close>, \<^verbatim>\<open>auth-rate-limit.ts\<close>, \<^verbatim>\<open>window-rotation.ts\<close>. The per-caller
    limiter refines an unbounded counter; the failed-authentication limiter blocks exactly from its
    threshold on. \<open>Slots\<close>: \<^verbatim>\<open>runtime/runtime-state-managers.ts\<close>; both managers are instances of the
    locale \<open>slot_pool\<close>.
  \<^item> \<open>Endpoint_Policy\<close>: \<^verbatim>\<open>proxy/provider-endpoint-policy.ts\<close>. The textual IPv4 and IPv6 classifiers agree
    with numeric special-use blocks; the pinned address is public; the cache is bounded.
  \<^item> \<open>Gateway_Auth\<close> (\<^verbatim>\<open>runtime/local-gateway-auth.ts\<close>, \<^verbatim>\<open>runtime-helpers.ts\<close>, \<^verbatim>\<open>runtime-route-classifier.ts\<close>): who
    is authenticated, which host and client headers are accepted, which route a request takes.
  \<^item> \<open>Inspection_Store\<close> (\<^verbatim>\<open>runtime/invoke-inspection.ts\<close>, \<^verbatim>\<open>invoke-inspection-store.ts\<close>): captures as a heap of
    mutable objects with the store and the two binding tables over it; reads happen once (locale
    \<open>one_time_reads\<close>) and need the token. \<open>Request_Body\<close>: the bounded reader and the checks of fields.
  \<^item> \<open>Request_Handler\<close>: the whole handler as a function from a request and the state of limiters, slots
    and captures to a list of effects and the new state. \<open>Data_Plane\<close>: the data plane in three steps per
    request, and the step relation \<open>gw_step\<close> of all requests in flight, with invariants over every
    reachable state.
  \<^item> \<open>Translate_Request\<close>, \<open>Translate_Response\<close>: \<^verbatim>\<open>translation/\<close>. Turns keep order and side, tool calls
    translated there and back are unchanged, the chunks of a translated stream are well formed.
  \<^item> \<open>Proxy_Errors\<close>, \<open>Proxy_Headers\<close>, \<open>Transport\<close>, \<open>Proxy_Streaming\<close>, \<open>Proxy_Core\<close>: \<^verbatim>\<open>proxy/\<close>. Failures
    with their chains of causes; what is sent upstream and copied back; the retry loop with its
    deadline; bounded bodies, the relay and the translating pump over any schedule of events; and the
    whole request from parsed body to response, where the handlers of both listeners are instances of
    the locale \<open>buffering_handler\<close>.

  \<^bold>\<open>The theories: configuration, process and MCP server.\<close>
  \<^item> \<open>Config_Validation\<close>, \<open>Gateway_Settings\<close>, \<open>Config_Loading\<close>: \<^verbatim>\<open>config/config-validators-*.ts\<close>,
    \<^verbatim>\<open>config-read.ts\<close>, \<^verbatim>\<open>catalog.ts\<close>, \<^verbatim>\<open>secrets.ts\<close>, \<^verbatim>\<open>config.ts\<close>. A loaded configuration has checked settings,
    providers, keys and routes; splitting and composing with the catalog are inverse.
  \<^item> \<open>Config_Lock\<close>, \<open>Config_Write\<close>: \<^verbatim>\<open>config/config-file.ts\<close>. The lock file as a step machine of any number
    of processes; atomic replacement over a disk on which every system call may fail.
  \<^item> \<open>Config_Read_Model\<close>, \<open>Config_Path\<close>: \<^verbatim>\<open>config/read-model.ts\<close>. Documents and views shown to operators; a
    path that must stay in a directory.
  \<^item> \<open>Config_Mutation\<close>, \<open>Config_Errors\<close>, \<open>Config_Consistency\<close>: \<^verbatim>\<open>config/mutation/\<close>. All changes of models,
    providers, keys and routes; what they report; that validation before a write is idempotent and
    accepts what loads, and that a change is local.
  \<^item> \<open>Gateway_Process\<close>: \<^verbatim>\<open>runtime/runtime-snapshot.ts\<close>, \<^verbatim>\<open>gateway/runtime.ts\<close>, \<^verbatim>\<open>gateway-runner.ts\<close>. Start,
    signals, reload, fatal errors and graceful shutdown as a function of the events of the process.
  \<^item> \<open>Mcp_Tools\<close>, \<open>Mcp_Protocol\<close>, \<open>Mcp_Server\<close>: \<^verbatim>\<open>mcp/tools.ts\<close>, \<^verbatim>\<open>protocol.ts\<close>, \<^verbatim>\<open>session.ts\<close>, \<^verbatim>\<open>dispatch.ts\<close>,
    \<^verbatim>\<open>envelope.ts\<close>, \<^verbatim>\<open>mcp.ts\<close>. The tools and the validator of their arguments, framing, sessions, dispatch
    and the serving loop, with what the tools do as a parameter.
  \<^item> \<open>Input_Contracts\<close>, \<open>Config_Metadata\<close>, \<open>Mcp_Parsers\<close>: \<^verbatim>\<open>config/*-input-contract.ts\<close>, \<^verbatim>\<open>config-metadata.ts\<close>,
    \<^verbatim>\<open>mcp/parsers-*.ts\<close>. What is read from the arguments of each tool, against its schema and against what a
    change then stores. \<open>Control_Actions\<close>: \<^verbatim>\<open>subsystems/observability/ostrich/ledger/\<close>, the ledger of changes.
    \<open>Mcp_Config_Tools\<close>: \<^verbatim>\<open>mcp/config-entity-handlers.ts\<close>, \<^verbatim>\<open>tool-payload-builder.ts\<close>, \<^verbatim>\<open>read-tools.ts\<close>. The tools that
    read and change the configuration, each change with its audit; what a session without privileges and a
    session that only reads cannot change.
  \<^item> \<open>Optimize_Report\<close>, \<open>Optimize_Runs\<close>: \<^verbatim>\<open>optimize-report-builder.ts\<close>, \<^verbatim>\<open>optimizations.ts\<close> and
    \<^verbatim>\<open>json-parse.ts\<close> in \<^verbatim>\<open>subsystems/observability/\<close>. Which routes of a model compete and how they rank by cost or
    latency; a report that was stored is read back unchanged.
  \<^item> This theory: the property that spans loading, endpoint policy and proxy.

  \<^bold>\<open>Conventions.\<close> A class instance or closure state is a record that operations take and return; a
  returned closure is a handle; an exception is \<open>Inl\<close> of an error value; a JavaScript \<open>Map\<close> is a list
  of pairs in insertion order; times and limits are integers, JSON numbers rationals. What JavaScript
  or Node provide and the code only calls is a parameter: \<open>JSON.parse\<close>, printing of numbers, \<open>new URL\<close>,
  SHA-256, \<open>localeCompare\<close>, DNS lookup, UTF-8 decoding, files, environment, network, timers, the clock
  and random identifiers. Theorems quantify over these parameters and name what they need of them.
  Awaited operations are points where other requests or processes may run: the endpoint cache is passed
  through an arbitrary function there, \<open>gw_step\<close> interleaves requests, the lock machine processes, and
  relay and pump take an arbitrary schedule of timer, client and upstream events.

  \<^bold>\<open>Bounds and termination.\<close> No definition uses fuel. Loops are structural recursions or have a
  measure: eviction and pruning remove an entry per round, the JSON walk consumes its stack, the
  body reader and the pump consume the list of events they are given, the retry loop the attempts left,
  the framing loop its buffer, the validator of tool arguments the schema, and the walk along a possibly
  cyclic chain of causes a counter that the code has too.

  \<^bold>\<open>Not modelled.\<close> Of the observability store (\<^verbatim>\<open>subsystems/observability/\<close>) all but the ledger and the
  reports of the optimiser: SQLite queries, the processes that write to it and their messages, applying a
  recommendation and restoring it; the benchmarks, whose logic is in SQL and timing; the
  emission of observations, which appear here as effects; the command line, which parses arguments and
  prints; the MCP tools that rest on these, which are a parameter; the view of the runtime
  configuration and service control through systemd.
\<close>

section \<open>From the configuration to the connection\<close>

text \<open>
  What the code relies on in the URL class: neither a change of the path nor printing changes the host of
  a URL that was parsed.
\<close>

definition url_keeps_host :: "url_ops \<Rightarrow> bool" where
  "url_keeps_host ops \<longleftrightarrow>
     (\<forall>p u. u_hostname (uo_setPath ops p u) = u_hostname u) \<and>
     (\<forall>t u u' v. uo_parse ops t = Some u \<and> u_hostname u' = u_hostname u \<and> uo_parse ops (uo_print ops u') = Some v \<longrightarrow>
        u_hostname v = u_hostname u)"

lemma upstream_url_host:
  assumes "url_keeps_host ops" "createUpstreamUrl ops base apiMode = Inr url" "uo_parse ops url = Some v"
  shows "\<exists>u. uo_parse ops base = Some u \<and> u_hostname v = u_hostname u"
proof -
  have path: "u_hostname (uo_setPath ops p u) = u_hostname u" for p u using assms(1) unfolding url_keeps_host_def by blast
  from assms(2) obtain u u' where u: "uo_parse ops base = Some u" "url = uo_print ops u'" "u_hostname u' = u_hostname u"
    by (auto simp: createUpstreamUrl_def path Let_def split: option.splits if_splits)
  with assms(1,3) show ?thesis unfolding url_keeps_host_def by blast
qed

lemma loaded_endpoint_public:
  assumes "loaded_route_ok host required s n r" "\<not> vr_allowPrivateEndpoints r" "hs_parseUrl host (vr_baseUrl r) = Some u"
  shows "\<not> isPrivateOrLocalHostname (u_hostname u)"
  using assms
  by (auto simp: loaded_route_ok_def route_from_def provider_ok_def validateProviderEndpointPolicy_def endpoint_options_of_def
      is_ok_def split: option.splits if_splits)

text \<open>
  C3 (loaded_route_contacts_public). A route of a loaded configuration whose provider does not allow private
  endpoints never reaches a private, local or special-use address: when anything is sent to the
  provider, the one connection is pinned to an address that is none of these, or the host of the URL is
  itself none of these and is an address literal or a local name, for which no lookup is made.
\<close>

theorem loaded_route_contacts_public:
  assumes "loadConfig host path w = (Inr s, w')" "jm_get (cs_routes s) n = Some r" "\<not> vr_allowPrivateEndpoints r"
    and "uo_parse (px_urls env) = hs_parseUrl host" "url_keeps_host (px_urls env)"
    and "createUpstreamUrl (px_urls env) (vr_baseUrl r) (vr_api_mode r) = Inr upstreamUrl"
    and "forwardUpstreamRequestWithMode env upstreamUrl (vr_allowPrivateEndpoints r) headers body streaming timeoutMs p = (q, t)"
    and "ps_sent t \<noteq> ps_sent p"
  shows "\<exists>url pinned evs w''. uo_parse (px_urls env) upstreamUrl = Some url \<and>
    fetchWithSwitchmaxxerRetry (px_ops env) upstreamUrl \<lparr>ri_method = Some ''POST'', ri_headers = headers, ri_body = TextBody body\<rparr>
      (forward_options timeoutMs pinned) streaming (ps_world p) = (q, evs, w'') \<and> ps_sent t = ps_sent p @ evs \<and>
    \<not> isPrivateOrLocalHostname (u_hostname url) \<and>
    (case pinned of
       None \<Rightarrow> isIP (u_hostname url) \<noteq> 0 \<or> u_hostname url = ''localhost'' \<or> ends_with ''.localhost'' (u_hostname url)
     | Some a \<Rightarrow> \<not> isPrivateOrLocalHostname (pr_address a))"
proof -
  have fwd: "forwardUpstreamRequestWithMode env upstreamUrl False headers body streaming timeoutMs p = (q, t)"
    using assms(3,7) by simp
  from upstream_connection_public [OF fwd assms(8)] obtain url pinned evs w'' where url: "uo_parse (px_urls env) upstreamUrl = Some url"
    and rest: "fetchWithSwitchmaxxerRetry (px_ops env) upstreamUrl \<lparr>ri_method = Some ''POST'', ri_headers = headers, ri_body = TextBody body\<rparr>
      (forward_options timeoutMs pinned) streaming (ps_world p) = (q, evs, w'') \<and> ps_sent t = ps_sent p @ evs"
    "case pinned of
       None \<Rightarrow> isIP (u_hostname url) \<noteq> 0 \<or> u_hostname url = ''localhost'' \<or> ends_with ''.localhost'' (u_hostname url)
     | Some a \<Rightarrow> \<not> isPrivateOrLocalHostname (pr_address a)" by blast
  from upstream_url_host [OF assms(5,6) url] obtain u where u: "hs_parseUrl host (vr_baseUrl r) = Some u" "u_hostname url = u_hostname u"
    unfolding assms(4) by blast
  from loaded_endpoint_public [OF loaded_routes [OF loadConfig_snapshot [OF assms(1)] assms(2)] assms(3) u(1)] u(2)
  have "\<not> isPrivateOrLocalHostname (u_hostname url)" by simp
  with url rest show ?thesis by blast
qed

theorem loaded_route_contacts_public_witness:
  "\<exists>url. uo_parse (px_urls example_env) ''https://api.test/v1'' = Some url \<and> \<not> isPrivateOrLocalHostname (u_hostname url)"
proof -
  obtain s w r where s: "loadConfig example_config_host (Some ''/c/config.json'') no_warnings = (Inr s, w)"
    "jm_get (cs_routes s) ''r'' = Some r" "\<not> vr_allowPrivateEndpoints r"
    using example_loads by blast
  let ?p = "proxy_start (fresh_response 200 []) [] (0, [Inr example_busy])"
  obtain q t where run: "forwardUpstreamRequestWithMode example_env ''https://api.test/v1'' False [] ''{}'' False 1000 ?p = (q, t)" by fastforce
  have sent: "ps_sent t \<noteq> ps_sent ?p" using example_forward_sends [OF run] by (simp add: proxy_start_def)
  have urls: "uo_parse (px_urls example_env) = hs_parseUrl example_config_host" "url_keeps_host (px_urls example_env)"
    by (auto simp: example_env_def example_config_host_def url_keeps_host_def)
  have target: "createUpstreamUrl (px_urls example_env) (vr_baseUrl r) (vr_api_mode r) = Inr ''https://api.test/v1''"
    by (simp add: createUpstreamUrl_def example_env_def Let_def)
  have run': "forwardUpstreamRequestWithMode example_env ''https://api.test/v1'' (vr_allowPrivateEndpoints r) [] ''{}'' False 1000 ?p = (q, t)"
    using run s(3) by simp
  from loaded_route_contacts_public [OF s urls target run' sent] show ?thesis by blast
qed

end
